(* ===== verification/Prelude.thy ===== *)
theory Prelude
  imports Main "HOL-Library.Char_ord" "HOL-Library.List_Lexorder" "HOL-Library.Product_Lexorder"
begin

text \<open>
  Shared vocabulary of the development: results that are either an error or a value, character
  classes and the anchored patterns the sources test with regular expressions, the JavaScript
  string and integer operations they use, database tables as lists of rows, and the interface
  locales (a transition system with an invariant, a system that simulates a simpler one, and rows
  that are claimed under a lease).
  A JavaScript string is a \<^typ>\<open>string\<close> of ASCII characters, for which a character, a UTF-16 unit
  and a UTF-8 byte are the same thing, and a buffer is a \<^typ>\<open>string\<close> of bytes; instants are
  milliseconds since 1970 as \<^typ>\<open>int\<close>.
\<close>

named_theorems chars \<open>character classes, unfolded on concrete characters\<close>
named_theorems table_simps \<open>how table updates act on ids, lengths and lookups\<close>

type_synonym instant = int

subsection \<open>Results\<close>

text \<open>An asynchronous function either rejects (\<open>Inl\<close>) or resolves (\<open>Inr\<close>); \<open>await\<close> sequences
  two of them. A transaction that rejects is rolled back, so an \<open>Inl\<close> carries no state.\<close>

definition await :: "'e + 'a \<Rightarrow> ('a \<Rightarrow> 'e + 'b) \<Rightarrow> 'e + 'b" where
  "await r k = (case r of Inl e \<Rightarrow> Inl e | Inr a \<Rightarrow> k a)"

definition require :: "bool \<Rightarrow> 'e \<Rightarrow> 'e + unit" where
  "require b e = (if b then Inr () else Inl e)"

definition orThrow :: "'a option \<Rightarrow> 'e \<Rightarrow> 'e + 'a" where
  "orThrow v e = (case v of None \<Rightarrow> Inl e | Some a \<Rightarrow> Inr a)"

lemma await_simps [simp]:
  "await (Inl e) k = Inl e" "await (Inr a) k = k a"
  by (simp_all add: await_def)

lemma await_Inr_iff: "await r k = Inr b \<longleftrightarrow> (\<exists>a. r = Inr a \<and> k a = Inr b)"
  by (cases r) simp_all

lemma await_Inl_iff: "await r k = Inl e \<longleftrightarrow> r = Inl e \<or> (\<exists>a. r = Inr a \<and> k a = Inl e)"
  by (cases r) simp_all

lemma await_assoc [simp]: "await (await r k) h = await r (\<lambda>a. await (k a) h)"
  by (cases r) simp_all

lemma require_simps [simp]:
  "require True e = Inr ()" "require False e = Inl e"
  by (simp_all add: require_def)

lemma require_Inr_iff [simp]: "require b e = Inr u \<longleftrightarrow> b"
  by (simp add: require_def)

lemma require_Inl_iff [simp]: "require b e = Inl e' \<longleftrightarrow> \<not> b \<and> e' = e"
  by (auto simp: require_def)

lemma orThrow_simps [simp]:
  "orThrow None e = Inl e" "orThrow (Some a) e = Inr a"
  by (simp_all add: orThrow_def)

lemma orThrow_Inr_iff [simp]: "orThrow v e = Inr a \<longleftrightarrow> v = Some a"
  by (cases v) simp_all

lemma orThrow_Inl_iff [simp]: "orThrow v e = Inl e' \<longleftrightarrow> v = None \<and> e' = e"
  by (cases v) auto

lemmas result_iffs = await_Inr_iff await_Inl_iff

subsection \<open>Character classes and anchored patterns\<close>

definition is_digit :: "char \<Rightarrow> bool" where
  [chars]: "is_digit c \<longleftrightarrow> CHR ''0'' \<le> c \<and> c \<le> CHR ''9''"

definition is_lower :: "char \<Rightarrow> bool" where
  [chars]: "is_lower c \<longleftrightarrow> CHR ''a'' \<le> c \<and> c \<le> CHR ''z''"

definition is_upper :: "char \<Rightarrow> bool" where
  [chars]: "is_upper c \<longleftrightarrow> CHR ''A'' \<le> c \<and> c \<le> CHR ''Z''"

definition is_alnum :: "char \<Rightarrow> bool" where
  [chars]: "is_alnum c \<longleftrightarrow> is_digit c \<or> is_lower c \<or> is_upper c"

text \<open>\<open>[0-9a-f]\<close>, \<open>[0-9A-F]\<close>, \<open>[A-Za-z0-9_-]\<close>, \<open>[A-Za-z0-9._-]\<close> and \<open>[A-Za-z0-9._:-]\<close>.\<close>

definition is_lhex :: "char \<Rightarrow> bool" where
  [chars]: "is_lhex c \<longleftrightarrow> is_digit c \<or> (CHR ''a'' \<le> c \<and> c \<le> CHR ''f'')"

definition is_uhex :: "char \<Rightarrow> bool" where
  [chars]: "is_uhex c \<longleftrightarrow> is_digit c \<or> (CHR ''A'' \<le> c \<and> c \<le> CHR ''F'')"

definition is_base64url :: "char \<Rightarrow> bool" where
  [chars]: "is_base64url c \<longleftrightarrow> is_alnum c \<or> c = CHR ''_'' \<or> c = CHR ''-''"

definition is_word_dot_dash :: "char \<Rightarrow> bool" where
  [chars]: "is_word_dot_dash c \<longleftrightarrow> is_alnum c \<or> c = CHR ''.'' \<or> c = CHR ''_'' \<or> c = CHR ''-''"

definition is_ident :: "char \<Rightarrow> bool" where
  [chars]: "is_ident c \<longleftrightarrow> is_word_dot_dash c \<or> c = CHR '':''"

text \<open>The white space of \<open>\s\<close> and \<open>trim\<close> within ASCII, and the control characters \<open>[\u0000-\u001f\u007f]\<close>.\<close>

definition is_space :: "char \<Rightarrow> bool" where
  [chars]: "is_space c \<longleftrightarrow> c \<in> {CHR 0x09, CHR 0x0A, CHR 0x0B, CHR 0x0C, CHR 0x0D, CHR '' ''}"

definition is_control :: "char \<Rightarrow> bool" where
  [chars]: "is_control c \<longleftrightarrow> c \<le> CHR 0x1F \<or> c = CHR 0x7F"

text \<open>\<open>^[class]{lo,hi}$\<close>.\<close>

definition repeats :: "(char \<Rightarrow> bool) \<Rightarrow> nat \<Rightarrow> nat \<Rightarrow> string \<Rightarrow> bool" where
  "repeats p lo hi s \<longleftrightarrow> lo \<le> length s \<and> length s \<le> hi \<and> list_all p s"

text \<open>\<open>^c1{n1}c2{n2}...$\<close>: a sequence of classes, one per character.\<close>

definition fixed :: "(char \<Rightarrow> bool) list \<Rightarrow> string \<Rightarrow> bool" where
  "fixed ps s \<longleftrightarrow> list_all2 (\<lambda>p c. p c) ps s"

text \<open>\<open>^[A-Za-z0-9][class]{0,n}$\<close>, the identifier patterns of the repositories.\<close>

definition leading_alnum :: "(char \<Rightarrow> bool) \<Rightarrow> nat \<Rightarrow> string \<Rightarrow> bool" where
  "leading_alnum p n s \<longleftrightarrow>
     (case s of [] \<Rightarrow> False | c # cs \<Rightarrow> is_alnum c \<and> repeats p 0 n cs)"

definition starts_with :: "string \<Rightarrow> string \<Rightarrow> bool" where
  "starts_with p s \<longleftrightarrow> take (length p) s = p"

text \<open>\<open>^prefix[A-Za-z0-9_-]{43}$\<close>: the stored digests (\<open>sha256:v1:\<close>, \<open>hmac-sha256:v1:\<close>).\<close>

definition digest_with :: "string \<Rightarrow> string \<Rightarrow> bool" where
  "digest_with p s \<longleftrightarrow> starts_with p s \<and> repeats is_base64url 43 43 (drop (length p) s)"

definition is_uuid :: "string \<Rightarrow> bool" where
  "is_uuid s \<longleftrightarrow>
     fixed (replicate 8 is_lhex @ [(=) (CHR ''-'')] @ replicate 4 is_lhex @ [(=) (CHR ''-'')] @
       [\<lambda>c. CHR ''1'' \<le> c \<and> c \<le> CHR ''8''] @ replicate 3 is_lhex @ [(=) (CHR ''-'')] @
       [\<lambda>c. c \<in> set ''89ab''] @ replicate 3 is_lhex @ [(=) (CHR ''-'')] @ replicate 12 is_lhex) s"

lemma fixed_length: "fixed ps s \<Longrightarrow> length s = length ps"
  by (simp add: fixed_def list_all2_lengthD)

lemma is_uuid_length: "is_uuid s \<Longrightarrow> length s = 36"
  by (auto simp: is_uuid_def dest!: fixed_length)

lemma starts_with_append [simp]: "starts_with p (p @ s)"
  by (simp add: starts_with_def)

lemma starts_with_iff: "starts_with p s \<longleftrightarrow> (\<exists>t. s = p @ t)"
proof
  assume "starts_with p s"
  then have "s = p @ drop (length p) s"
    by (metis append_take_drop_id starts_with_def)
  then show "\<exists>t. s = p @ t" ..
qed auto

lemma digest_with_length: "digest_with p s \<Longrightarrow> length s = length p + 43"
  by (auto simp: digest_with_def repeats_def starts_with_iff)

subsection \<open>Strings and integers\<close>

fun trimStart :: "string \<Rightarrow> string" where
  "trimStart [] = []"
| "trimStart (c # cs) = (if is_space c then trimStart cs else c # cs)"

definition trim :: "string \<Rightarrow> string" where
  "trim s = rev (trimStart (rev (trimStart s)))"

text \<open>\<open>s.slice(-n)\<close>.\<close>

definition suffix_of :: "nat \<Rightarrow> string \<Rightarrow> string" where
  "suffix_of n s = drop (length s - n) s"

text \<open>The four bullets and the space that mask an account number, as UTF-8 bytes.\<close>

definition mask_prefix :: string where
  "mask_prefix = concat (replicate 4 [CHR 0xE2, CHR 0x80, CHR 0xA2]) @ '' ''"

definition max_safe_integer :: int where
  "max_safe_integer = 9007199254740991"

definition isSafeInteger :: "int \<Rightarrow> bool" where
  "isSafeInteger n \<longleftrightarrow> - max_safe_integer \<le> n \<and> n \<le> max_safe_integer"

lemma trimStart_length: "length (trimStart s) \<le> length s"
  by (induction s) auto

lemma trim_length: "length (trim s) \<le> length s"
  by (metis trim_def length_rev trimStart_length order_trans)

lemma trimStart_id: "\<not> is_space c \<Longrightarrow> trimStart (c # cs) = c # cs"
  by simp

lemma set_trimStart: "set (trimStart s) \<subseteq> set s"
  by (induction s) auto

lemma trimStart_hd: "trimStart s = c # cs \<Longrightarrow> \<not> is_space c"
  by (induction s) (auto split: if_splits)

lemma suffix_of_length [simp]: "length (suffix_of n s) = min n (length s)"
  by (simp add: suffix_of_def)

lemma set_suffix_of: "set (suffix_of n s) \<subseteq> set s"
  by (simp add: suffix_of_def set_drop_subset)

subsection \<open>Tables\<close>

text \<open>
  A table is the list of its rows. \<open>rows_update p f\<close> is \<open>update ... set f where p\<close>, \<open>filter p\<close> is
  \<open>select ... where p\<close>, and \<open>List.find p\<close> is \<open>select ... where p limit 1\<close>. A primary key is
  \<^term>\<open>distinct (map key t)\<close>.
\<close>

definition rows_update :: "('r \<Rightarrow> bool) \<Rightarrow> ('r \<Rightarrow> 'r) \<Rightarrow> 'r list \<Rightarrow> 'r list" where
  "rows_update p f t = map (\<lambda>r. if p r then f r else r) t"

text \<open>\<open>order by k desc limit 1\<close>: a row whose key is greatest.\<close>

definition latest_by :: "('r \<Rightarrow> 'k::linorder) \<Rightarrow> 'r list \<Rightarrow> 'r option" where
  "latest_by k t = (case sort_key k t of [] \<Rightarrow> None | r # rs \<Rightarrow> Some (last (r # rs)))"

lemma rows_update_Nil [table_simps]: "rows_update p f [] = []"
  by (simp add: rows_update_def)

lemma rows_update_Cons [table_simps]:
  "rows_update p f (r # t) = (if p r then f r else r) # rows_update p f t"
  by (simp add: rows_update_def)

lemma rows_update_append [table_simps]:
  "rows_update p f (t @ u) = rows_update p f t @ rows_update p f u"
  by (simp add: rows_update_def)

lemma length_rows_update [table_simps]: "length (rows_update p f t) = length t"
  by (simp add: rows_update_def)

lemma in_rows_update_iff:
  "r \<in> set (rows_update p f t) \<longleftrightarrow> (\<exists>r0 \<in> set t. r = (if p r0 then f r0 else r0))"
  by (auto simp: rows_update_def)

lemma rows_updateI: "r \<in> set t \<Longrightarrow> p r \<Longrightarrow> f r \<in> set (rows_update p f t)"
  by (force simp: in_rows_update_iff)

lemma rows_update_all:
  assumes "\<And>r. r \<in> set t \<Longrightarrow> q (if p r then f r else r)" "r' \<in> set (rows_update p f t)"
  shows "q r'"
  using assms by (auto simp: in_rows_update_iff)

lemma map_key_rows_update:
  assumes "\<And>r. p r \<Longrightarrow> key (f r) = key r"
  shows "map key (rows_update p f t) = map key t"
  using assms by (simp add: rows_update_def)

lemma rows_update_noop: "(\<And>r. r \<in> set t \<Longrightarrow> \<not> p r) \<Longrightarrow> rows_update p f t = t"
  by (simp add: rows_update_def map_idI)

lemma filter_rows_update_same:
  assumes "\<And>r. p r \<Longrightarrow> q (f r) = q r"
  shows "length (filter q (rows_update p f t)) = length (filter q t)"
  using assms by (induction t) (auto simp: rows_update_def)

lemma distinct_key_eq:
  assumes "distinct (map key t)" "r \<in> set t" "r' \<in> set t" "key r = key r'"
  shows "r = r'"
  using assms by (auto simp: distinct_map dest: inj_onD)

lemma find_key_iff:
  assumes "distinct (map key t)"
  shows "List.find (\<lambda>r. key r = k) t = Some r \<longleftrightarrow> r \<in> set t \<and> key r = k"
proof
  assume "List.find (\<lambda>r. key r = k) t = Some r"
  then show "r \<in> set t \<and> key r = k"
    by (auto simp: find_Some_iff)
next
  assume r: "r \<in> set t \<and> key r = k"
  then obtain r' where r': "List.find (\<lambda>r. key r = k) t = Some r'"
    by (cases "List.find (\<lambda>r. key r = k) t") (auto simp: find_None_iff)
  then have "r' \<in> set t" "key r' = k"
    by (auto simp: find_Some_iff)
  with r assms r' show "List.find (\<lambda>r. key r = k) t = Some r"
    by (metis distinct_key_eq)
qed

lemma find_Some_in: "List.find p t = Some r \<Longrightarrow> r \<in> set t \<and> p r"
  by (auto simp: find_Some_iff)

lemma filter_key_le_1:
  assumes "distinct (map key t)"
  shows "length (filter (\<lambda>r. key r = k \<and> q r) t) \<le> 1"
  using assms
proof (induction t)
  case (Cons r t)
  show ?case
  proof (cases "key r = k \<and> q r")
    case True
    with Cons.prems have "\<forall>x \<in> set t. key x \<noteq> k"
      by (metis distinct.simps(2) image_eqI list.simps(9) set_map)
    then have "filter (\<lambda>r. key r = k \<and> q r) t = []"
      by (auto simp: filter_empty_conv)
    with True show ?thesis by simp
  next
    case False
    with Cons show ?thesis by auto
  qed
qed simp

lemma latest_by_eq:
  "latest_by k t = Some r \<longleftrightarrow> t \<noteq> [] \<and> r = last (sort_key k t)"
proof -
  have "sort_key k t = [] \<longleftrightarrow> t = []"
    by (metis length_0_conv length_sort)
  then show ?thesis by (auto simp: latest_by_def split: list.splits)
qed

lemma latest_by_in: "latest_by k t = Some r \<Longrightarrow> r \<in> set t"
  by (metis last_in_set latest_by_eq length_0_conv length_sort set_sort)

lemma latest_by_None: "latest_by k t = None \<longleftrightarrow> t = []"
proof -
  have "latest_by k t = None \<longleftrightarrow> sort_key k t = []"
    by (simp add: latest_by_def split: list.splits)
  also have "\<dots> \<longleftrightarrow> length (sort_key k t) = 0"
    by (simp only: length_0_conv)
  finally show ?thesis by simp
qed

lemma latest_by_max:
  assumes "latest_by k t = Some r" "r' \<in> set t"
  shows "k r' \<le> k r"
proof -
  let ?s = "sort_key k t"
  from assms(1) have ne: "?s \<noteq> []" and r: "r = last ?s"
    by (auto simp: latest_by_def split: list.splits)
  then obtain us where us: "?s = us @ [r]"
    by (metis append_butlast_last_id)
  have "sorted (map k (us @ [r]))"
    using sorted_sort_key [of k t] by (simp only: us)
  then have "\<forall>x \<in> set us. k x \<le> k r"
    by (simp add: sorted_append)
  moreover have "r' \<in> set (us @ [r])"
    using assms(2) us by (metis set_sort)
  ultimately show ?thesis by auto
qed

lemma sorted_take_drop_le:
  assumes "sorted (map k xs)" "x \<in> set (take n xs)" "y \<in> set (drop n xs)"
  shows "k x \<le> k y"
proof -
  have "sorted (map k (take n xs @ drop n xs))" using assms(1) by simp
  then show ?thesis using assms(2,3) by (simp add: sorted_append del: append_take_drop_id)
qed

subsection \<open>Interface: a transition system with an invariant\<close>

locale inv_system =
  fixes start :: "'s \<Rightarrow> bool"
    and step :: "'s \<Rightarrow> 's \<Rightarrow> bool"
    and inv :: "'s \<Rightarrow> bool"
  assumes start_inv: "start s \<Longrightarrow> inv s"
    and step_inv: "step s t \<Longrightarrow> inv s \<Longrightarrow> inv t"
begin

lemma steps_inv: "rtranclp step s t \<Longrightarrow> inv s \<Longrightarrow> inv t"
  by (induction rule: rtranclp_induct) (auto intro: step_inv)

lemma reach_inv: "start s \<Longrightarrow> rtranclp step s t \<Longrightarrow> inv t"
  using start_inv steps_inv by blast

end

subsection \<open>Interface: a system that simulates a simpler one\<close>

text \<open>Every step of the detailed system is, through \<open>abs\<close>, any number of steps of the simpler one.\<close>

locale simulation = inv_system +
  fixes abs :: "'s \<Rightarrow> 'a" and astep :: "'a \<Rightarrow> 'a \<Rightarrow> bool"
  assumes simulates: "step s t \<Longrightarrow> inv s \<Longrightarrow> rtranclp astep (abs s) (abs t)"
begin

lemma runs_simulate: "rtranclp step s t \<Longrightarrow> inv s \<Longrightarrow> rtranclp astep (abs s) (abs t)"
proof (induction rule: rtranclp_induct)
  case (step t u)
  have "inv t" using step.hyps(1) step.prems by (rule steps_inv)
  with step.hyps(2) have "rtranclp astep (abs t) (abs u)" by (rule simulates)
  with step.IH [OF step.prems] show ?case by (rule rtranclp_trans)
qed simp

end

subsection \<open>Interface: rows claimed under a lease\<close>

text \<open>
  The outbox and the e-mail handoffs share one protocol: a worker claims a row by writing a lease
  into it, and a row under a live lease cannot be claimed again. \<open>claimable now r\<close> is the \<open>where\<close>
  clause of the claiming statement and \<open>claim w now ms\<close> its \<open>set\<close> clause.
\<close>

locale leased_rows =
  fixes rid :: "'r \<Rightarrow> 'k"
    and leased :: "instant \<Rightarrow> 'r \<Rightarrow> bool"
    and finished :: "'r \<Rightarrow> bool"
    and claimable :: "instant \<Rightarrow> 'r \<Rightarrow> bool"
    and claim :: "'w \<Rightarrow> instant \<Rightarrow> int \<Rightarrow> 'r \<Rightarrow> 'r"
  assumes claimable_free: "claimable now r \<Longrightarrow> \<not> leased now r \<and> \<not> finished r"
    and claim_id: "rid (claim w now ms r) = rid r"
    and claim_leased: "now' < now + ms \<Longrightarrow> leased now' (claim w now ms r)"
    and claim_unfinished: "\<not> finished r \<Longrightarrow> \<not> finished (claim w now ms r)"
begin

lemma claim_excludes: "now' < now + ms \<Longrightarrow> \<not> claimable now' (claim w now ms r)"
  using claim_leased claimable_free by blast

lemma keys_after_claim: "map rid (rows_update p (claim w now ms) t) = map rid t"
  by (simp add: map_key_rows_update claim_id)

text \<open>No row taken by one claim is taken again before the lease of the first has run out.\<close>

lemma claims_disjoint:
  assumes keys: "distinct (map rid t)"
    and second: "r' \<in> set (rows_update p (claim w now ms) t)" "claimable now' r'"
    and time: "now' < now + ms"
    and first: "r \<in> set t" "p r"
  shows "rid r' \<noteq> rid r"
proof
  assume eq: "rid r' = rid r"
  from second(1) obtain r0 where r0: "r0 \<in> set t" "r' = (if p r0 then claim w now ms r0 else r0)"
    by (auto simp: in_rows_update_iff)
  then have "rid r0 = rid r" using eq by (simp add: claim_id split: if_splits)
  with keys r0(1) first(1) have "r0 = r" by (rule distinct_key_eq)
  with r0(2) first(2) have "r' = claim w now ms r" by simp
  with second(2) time show False using claim_excludes by blast
qed

end

end
