(* ===== verification/JsDate.thy ===== *)
theory JsDate
  imports Prelude
begin

text \<open>
  Calendar arithmetic of the ECMAScript \<open>Date\<close> object on day numbers (days since 1 January 1970,
  UTC), as the sources use it: \<open>Date.UTC\<close>, \<open>getUTCFullYear\<close> and the other getters, the date part of
  \<open>toISOString\<close>, the parsing of date-only texts, and the civil date of Vietnam (UTC+7). The
  definitions follow the specification's \<open>Day\<close>, \<open>DayFromYear\<close> and \<open>YearFromTime\<close>.
  Shown: the year found brackets the day, civil dates and day numbers correspond one to one, and the
  ten-character texts of the years 0 to 9999 parse back to the day they were printed from.
\<close>

subsection \<open>Decimal texts\<close>

definition digit_char :: "nat \<Rightarrow> char" where
  "digit_char n = char_of (48 + n)"

definition digit_value :: "char \<Rightarrow> nat" where
  "digit_value c = of_char c - 48"

fun digits_value :: "string \<Rightarrow> nat" where
  "digits_value [] = 0"
| "digits_value (c # cs) = digit_value c * 10 ^ length cs + digits_value cs"

text \<open>The last \<open>k\<close> decimal digits, padded with zeros.\<close>

fun padded :: "nat \<Rightarrow> nat \<Rightarrow> string" where
  "padded 0 n = []"
| "padded (Suc k) n = digit_char (n div 10 ^ k mod 10) # padded k n"

fun decimal :: "nat \<Rightarrow> string" where
  "decimal n = (if n < 10 then [digit_char n] else decimal (n div 10) @ [digit_char (n mod 10)])"

declare decimal.simps [simp del]

lemma digit_table: "\<forall>n \<in> set [0..<10]. is_digit (digit_char n) \<and> digit_value (digit_char n) = n"
  by code_simp

lemma digit_char_class [simp]: "n < 10 \<Longrightarrow> is_digit (digit_char n)"
  and digit_value_char [simp]: "n < 10 \<Longrightarrow> digit_value (digit_char n) = n"
  using digit_table by simp_all

lemma padded_length [simp]: "length (padded k n) = k"
  by (induction k) simp_all

lemma padded_digits: "list_all is_digit (padded k n)"
  by (induction k) simp_all

lemma digits_value_padded: "digits_value (padded k n) = n mod 10 ^ k"
proof (induction k)
  case (Suc k)
  have "n div 10 ^ k mod 10 * 10 ^ k + n mod 10 ^ k = n mod 10 ^ Suc k"
    using mod_mult2_eq [of n "10 ^ k" 10] by (simp only: power_Suc mult.commute)
  with Suc show ?case by simp
qed simp

lemma digits_value_append: "digits_value (xs @ ys) = digits_value xs * 10 ^ length ys + digits_value ys"
  by (induction xs) (simp_all add: algebra_simps power_add)

lemma digits_value_less: "list_all is_digit s \<Longrightarrow> digits_value s < 10 ^ length s"
proof (induction s)
  case (Cons c cs)
  then have "is_digit c" by simp
  then have "of_char c \<le> (57 :: nat)" by (simp add: is_digit_def less_eq_char_def)
  then have "digit_value c \<le> 9" by (simp add: digit_value_def)
  then have "digit_value c * 10 ^ length cs \<le> 9 * 10 ^ length cs" by simp
  moreover have "digits_value cs < 10 ^ length cs" using Cons by simp
  ultimately show ?case by (simp only: digits_value.simps length_Cons power_Suc)
qed simp

lemma decimal_digits: "list_all is_digit (decimal n)"
  by (induction n rule: decimal.induct) (subst decimal.simps, simp)

lemma decimal_nonempty [simp]: "decimal n \<noteq> []"
  by (subst decimal.simps) simp

lemma digits_value_decimal [simp]: "digits_value (decimal n) = n"
proof (induction n rule: decimal.induct)
  case (1 n)
  then show ?case by (subst decimal.simps) (simp add: digits_value_append)
qed

lemma decimal_inj [simp]: "decimal m = decimal n \<longleftrightarrow> m = n"
  by (metis digits_value_decimal)

subsection \<open>Years and months\<close>

definition day_from_year :: "int \<Rightarrow> int" where
  "day_from_year y =
     365 * (y - 1970) + (y - 1969) div 4 - (y - 1901) div 100 + (y - 1601) div 400"

definition leap_year :: "int \<Rightarrow> bool" where
  "leap_year y \<longleftrightarrow> (y mod 4 = 0 \<and> y mod 100 \<noteq> 0) \<or> y mod 400 = 0"

text \<open>The year of a day: an estimate from the mean length of a year, corrected by one.\<close>

definition year_of_day :: "int \<Rightarrow> int" where
  "year_of_day d =
     (let y = 1970 + (400 * d) div 146097
      in if d < day_from_year y then y - 1 else if day_from_year (y + 1) \<le> d then y + 1 else y)"

definition month_lengths :: "int \<Rightarrow> int list" where
  "month_lengths y = [31, if leap_year y then 29 else 28, 31, 30, 31, 30, 31, 31, 30, 31, 30, 31]"

fun month_split :: "int list \<Rightarrow> int \<Rightarrow> int \<Rightarrow> int \<times> int" where
  "month_split [] m n = (m, n + 1)"
| "month_split (l # ls) m n = (if n < l then (m, n + 1) else month_split ls (m + 1) (n - l))"

text \<open>Year, month (1 to 12) and day of the month of a day number.\<close>

definition civil :: "int \<Rightarrow> int \<times> int \<times> int" where
  "civil d = (let y = year_of_day d in (y, month_split (month_lengths y) 1 (d - day_from_year y)))"

text \<open>\<open>Date.UTC(year, month - 1, day)\<close> as a day number: months and days out of range carry over.\<close>

definition make_day :: "int \<Rightarrow> int \<Rightarrow> int \<Rightarrow> int" where
  "make_day y m d =
     (let ym = y + (m - 1) div 12
      in day_from_year ym + sum_list (take (nat ((m - 1) mod 12)) (month_lengths ym)) + d - 1)"

definition valid_civil :: "int \<Rightarrow> int \<Rightarrow> int \<Rightarrow> bool" where
  "valid_civil y m d \<longleftrightarrow>
     1 \<le> m \<and> m \<le> 12 \<and> 1 \<le> d \<and> d \<le> month_lengths y ! nat (m - 1)"

definition day_of_week :: "int \<Rightarrow> int" where
  "day_of_week d = (d + 4) mod 7"

lemma div_bounds: "n * (x div n) \<le> x \<and> x < n * (x div n) + n" if "0 < n" for n x :: int
proof -
  have "0 \<le> x mod n" "x mod n < n" using that by simp_all
  then show ?thesis using mult_div_mod_eq [of n x] by linarith
qed

lemma div_succ: "(x + 1) div n = x div n + (if (x + 1) mod n = 0 then 1 else 0)" if "0 < n" for n x :: int
proof -
  let ?q = "x div n" and ?r = "x mod n"
  have x: "x + 1 = n * ?q + (?r + 1)" by simp
  have r: "0 \<le> ?r" "?r < n" using that by simp_all
  show ?thesis
  proof (cases "?r + 1 = n")
    case True
    then have "x + 1 = n * (?q + 1)" using x by (simp add: distrib_left)
    then show ?thesis using that by simp
  next
    case False
    then have "(x + 1) div n = ?q" "(x + 1) mod n = ?r + 1"
      using r by (intro int_div_pos_eq [OF x] int_mod_pos_eq [OF x]; simp)+
    then show ?thesis using r by simp
  qed
qed

lemma mod_shift: "n dvd c \<Longrightarrow> (x - c) mod n = x mod n" for n c x :: int
  by (simp add: mod_eq_dvd_iff)

lemma leap_sum:
  fixes z a b c :: int
  assumes "p400 \<Longrightarrow> p100" "p100 \<Longrightarrow> p4"
  shows "365 * (z + 1) + (a + (if p4 then 1 else 0)) - (b + (if p100 then 1 else 0)) + (c + (if p400 then 1 else 0)) =
    365 * z + a - b + c + (if (p4 \<and> \<not> p100) \<or> p400 then 366 else 365)"
  using assms by auto

lemma year_length: "day_from_year (y + 1) = day_from_year y + (if leap_year y then 366 else 365)"
proof -
  have m: "(y - 1968) mod 4 = y mod 4" "(y - 1900) mod 100 = y mod 100" "(y - 1600) mod 400 = y mod 400"
    by (rule mod_shift, simp)+
  have e: "y - 1969 + 1 = y - 1968" "y - 1901 + 1 = y - 1900" "y - 1601 + 1 = y - 1600" by simp_all
  have "(y - 1968) div 4 = (y - 1969) div 4 + (if y mod 4 = 0 then 1 else 0)"
    "(y - 1900) div 100 = (y - 1901) div 100 + (if y mod 100 = 0 then 1 else 0)"
    "(y - 1600) div 400 = (y - 1601) div 400 + (if y mod 400 = 0 then 1 else 0)"
    using div_succ [of 4 "y - 1969"] div_succ [of 100 "y - 1901"] div_succ [of 400 "y - 1601"]
    unfolding e m by (simp_all only: zero_less_numeral simp_thms)
  moreover have "y mod 400 = 0 \<Longrightarrow> y mod 100 = 0" "y mod 100 = 0 \<Longrightarrow> y mod 4 = 0"
    by (simp_all add: mod_eq_0_iff_dvd, (erule dvd_trans [rotated], simp)+)
  moreover have "y + 1 - 1969 = y - 1968" "y + 1 - 1901 = y - 1900" "y + 1 - 1601 = y - 1600" "y + 1 - 1970 = y - 1970 + 1"
    by simp_all
  ultimately show ?thesis unfolding day_from_year_def leap_year_def
    by (simp only:) (rule leap_sum, assumption+)
qed

lemma day_from_year_estimate:
  "146097 * (y - 1970) - 1095 \<le> 400 * day_from_year y + 400 \<and> 400 * day_from_year y \<le> 146097 * (y - 1970) + 1095"
  using div_bounds [of 4 "y - 1969"] div_bounds [of 100 "y - 1901"] div_bounds [of 400 "y - 1601"]
  unfolding day_from_year_def by simp

lemma year_of_day_bracket: "day_from_year (year_of_day d) \<le> d \<and> d < day_from_year (year_of_day d + 1)"
proof -
  define y where "y = 1970 + (400 * d) div 146097"
  have b: "146097 * (y - 1970) \<le> 400 * d" "400 * d < 146097 * (y - 1970) + 146097"
    using div_bounds [of 146097 "400 * d"] by (simp_all add: y_def)
  have low: "day_from_year (y - 1) \<le> d"
    using day_from_year_estimate [of "y - 1"] b(1) by simp
  have high: "d < day_from_year (y + 1 + 1)"
    using day_from_year_estimate [of "y + 1 + 1"] b(2) by simp
  show ?thesis using low high by (simp add: year_of_day_def Let_def y_def [symmetric])
qed

lemma day_from_year_mono: "a \<le> b \<Longrightarrow> day_from_year a \<le> day_from_year b"
proof -
  assume "a \<le> b"
  then show ?thesis
  proof (induction b rule: int_ge_induct)
    case (step i)
    then show ?case using year_length [of i] by (simp split: if_splits)
  qed simp
qed

lemma year_of_day_eqI: "day_from_year y \<le> d \<Longrightarrow> d < day_from_year (y + 1) \<Longrightarrow> year_of_day d = y"
  using year_of_day_bracket [of d] day_from_year_mono [of "y + 1" "year_of_day d"]
    day_from_year_mono [of "year_of_day d + 1" y] by linarith

subsection \<open>Civil dates and day numbers\<close>

lemma month_split_sum:
  assumes "k < length ls" "0 \<le> d" "d < ls ! k" "\<forall>l \<in> set ls. 0 \<le> l"
  shows "month_split ls m (sum_list (take k ls) + d) = (m + int k, d + 1)"
  using assms
proof (induction ls arbitrary: k m)
  case (Cons l ls)
  show ?case
  proof (cases k)
    case 0
    with Cons.prems show ?thesis by simp
  next
    case (Suc j)
    have "0 \<le> sum_list (take j ls)"
      using Cons.prems by (intro sum_list_nonneg) (auto dest: in_set_takeD)
    then show ?thesis using Cons Suc by (simp add: algebra_simps)
  qed
qed simp

lemma month_split_inv:
  assumes "0 \<le> n" "n < sum_list ls" "\<forall>l \<in> set ls. 0 \<le> l" "month_split ls m n = (m', d')"
  shows "\<exists>k < length ls. m' = m + int k \<and> 1 \<le> d' \<and> d' \<le> ls ! k \<and> n = sum_list (take k ls) + d' - 1"
  using assms
proof (induction ls arbitrary: m n)
  case (Cons l ls)
  show ?case
  proof (cases "n < l")
    case True
    with Cons.prems show ?thesis by (intro exI [of _ 0]) auto
  next
    case False
    with Cons.prems Cons.IH [of "n - l" "m + 1"] obtain k where "k < length ls" "m' = m + 1 + int k"
      "1 \<le> d'" "d' \<le> ls ! k" "n - l = sum_list (take k ls) + d' - 1" by auto
    then show ?thesis by (intro exI [of _ "Suc k"]) auto
  qed
qed simp

lemma month_lengths_simps:
  "length (month_lengths y) = 12" "\<forall>l \<in> set (month_lengths y). 0 \<le> l"
  "sum_list (month_lengths y) = day_from_year (y + 1) - day_from_year y"
  by (simp_all add: month_lengths_def year_length)

lemma make_day_valid:
  "1 \<le> m \<Longrightarrow> m \<le> 12 \<Longrightarrow>
     make_day y m d = day_from_year y + sum_list (take (nat (m - 1)) (month_lengths y)) + d - 1"
  by (simp add: make_day_def Let_def)

lemma civil_make_day:
  assumes "valid_civil y m d"
  shows "civil (make_day y m d) = (y, m, d)"
proof -
  let ?k = "nat (m - 1)"
  from assms have m: "1 \<le> m" "m \<le> 12" "1 \<le> d" "d \<le> month_lengths y ! ?k"
    by (auto simp: valid_civil_def)
  have k: "?k < length (month_lengths y)" using m by (simp add: month_lengths_simps)
  let ?s = "sum_list (take ?k (month_lengths y))"
  have "?s + month_lengths y ! ?k + sum_list (drop (Suc ?k) (month_lengths y)) = sum_list (month_lengths y)"
    using k by (metis (no_types, lifting) id_take_nth_drop sum_list.Cons sum_list.append add.assoc)
  moreover have "0 \<le> ?s" "0 \<le> sum_list (drop (Suc ?k) (month_lengths y))"
    using month_lengths_simps(2) by (auto intro!: sum_list_nonneg dest: in_set_takeD in_set_dropD)
  ultimately have range: "0 \<le> ?s + (d - 1)" "?s + (d - 1) < sum_list (month_lengths y)"
    using m by linarith+
  then have "year_of_day (make_day y m d) = y"
    using m by (intro year_of_day_eqI) (simp_all add: make_day_valid month_lengths_simps)
  moreover have "month_split (month_lengths y) 1 (?s + (d - 1)) = (m, d)"
    using month_split_sum [OF k, of "d - 1" 1] m month_lengths_simps(2) by simp
  ultimately show ?thesis using m by (simp add: civil_def Let_def make_day_valid algebra_simps)
qed

lemma make_day_civil:
  assumes "civil n = (y, m, d)"
  shows "make_day y m d = n \<and> valid_civil y m d"
proof -
  from assms have y: "y = year_of_day n" and md: "month_split (month_lengths y) 1 (n - day_from_year y) = (m, d)"
    by (auto simp: civil_def Let_def)
  from year_of_day_bracket [of n] have "0 \<le> n - day_from_year y" "n - day_from_year y < sum_list (month_lengths y)"
    by (simp_all add: y month_lengths_simps)
  from month_split_inv [OF this month_lengths_simps(2) md] obtain k where k: "k < 12" "m = 1 + int k" "1 \<le> d"
    "d \<le> month_lengths y ! k" "n - day_from_year y = sum_list (take k (month_lengths y)) + d - 1"
    by (auto simp: month_lengths_simps)
  then have "1 \<le> m" "m \<le> 12" "nat (m - 1) = k" by simp_all
  with k show ?thesis by (simp add: make_day_valid valid_civil_def)
qed

subsection \<open>Date texts\<close>

definition ms_per_day :: int where
  "ms_per_day = 86400000"

text \<open>The largest day number of a valid \<open>Date\<close>.\<close>

definition max_day :: int where
  "max_day = 100000000"

text \<open>\<open>toISOString()\<close> up to the \<open>T\<close>: four digits for the years 0 to 9999, a sign and six digits
  for the others.\<close>

definition iso_year :: "int \<Rightarrow> string" where
  "iso_year y =
     (if 0 \<le> y \<and> y \<le> 9999 then padded 4 (nat y)
      else (if y < 0 then ''-'' else ''+'') @ padded 6 (nat \<bar>y\<bar>))"

definition iso_date :: "int \<Rightarrow> string" where
  "iso_date n = (case civil n of (y, m, d) \<Rightarrow> iso_year y @ ''-'' @ padded 2 (nat m) @ ''-'' @ padded 2 (nat d))"

text \<open>\<open>^\d{4}-\d{2}-\d{2}$\<close> and its three numbers.\<close>

definition date_pattern :: "string \<Rightarrow> bool" where
  "date_pattern s \<longleftrightarrow>
     fixed (replicate 4 is_digit @ [(=) (CHR ''-'')] @ replicate 2 is_digit @ [(=) (CHR ''-'')] @ replicate 2 is_digit) s"

definition text_year :: "string \<Rightarrow> int" where
  "text_year s = int (digits_value (take 4 s))"

definition text_month :: "string \<Rightarrow> int" where
  "text_month s = int (digits_value (take 2 (drop 5 s)))"

definition text_day :: "string \<Rightarrow> int" where
  "text_day s = int (digits_value (take 2 (drop 8 s)))"

text \<open>\<open>new Date(text + "T...Z")\<close> on a text of that pattern: the month must be 1 to 12 and the day 1 to
  31, and a day past the end of the month carries over.\<close>

definition parse_iso_day :: "string \<Rightarrow> int option" where
  "parse_iso_day s =
     (if 1 \<le> text_month s \<and> text_month s \<le> 12 \<and> 1 \<le> text_day s \<and> text_day s \<le> 31
      then Some (make_day (text_year s) (text_month s) (text_day s)) else None)"

text \<open>The day number of an instant, in UTC and in Vietnam (UTC+7, as it has been since June 1975).\<close>

definition utc_day :: "instant \<Rightarrow> int" where
  "utc_day t = t div ms_per_day"

definition vietnam_day :: "instant \<Rightarrow> int" where
  "vietnam_day t = utc_day (t + 7 * 3600000)"

text \<open>The civil date of Vietnam as the formatter prints it, the year without padding.\<close>

definition vietnam_date :: "instant \<Rightarrow> string" where
  "vietnam_date t =
     (case civil (vietnam_day t) of (y, m, d) \<Rightarrow>
        decimal (nat y) @ ''-'' @ padded 2 (nat m) @ ''-'' @ padded 2 (nat d))"

text \<open>\<open>toISOString()\<close> in full.\<close>

definition toISOString :: "instant \<Rightarrow> string" where
  "toISOString t =
     (let ms = t mod ms_per_day
      in iso_date (utc_day t) @ ''T'' @ padded 2 (nat (ms div 3600000)) @ '':'' @ padded 2 (nat (ms div 60000 mod 60)) @
         '':'' @ padded 2 (nat (ms div 1000 mod 60)) @ ''.'' @ padded 3 (nat (ms mod 1000)) @ ''Z'')"

lemma fixed_Nil: "fixed [] s \<longleftrightarrow> s = []"
  by (simp add: fixed_def)

lemma fixed_Cons: "fixed (p # ps) s \<longleftrightarrow> (\<exists>c cs. s = c # cs \<and> p c \<and> fixed ps cs)"
  by (auto simp: fixed_def list_all2_Cons1)

lemma date_pattern_parts:
  assumes "length a = 4" "length b = 2" "length c = 2" "list_all is_digit a" "list_all is_digit b" "list_all is_digit c"
  shows "date_pattern (a @ ''-'' @ b @ ''-'' @ c)"
  using assms
  by (auto simp: date_pattern_def fixed_Nil fixed_Cons numeral_eq_Suc length_Suc_conv)

lemma valid_civil_bounds: "valid_civil y m d \<Longrightarrow> 1 \<le> m \<and> m \<le> 12 \<and> 1 \<le> d \<and> d \<le> 31"
proof -
  assume v: "valid_civil y m d"
  then have "nat (m - 1) < length (month_lengths y)" by (auto simp: valid_civil_def month_lengths_simps)
  then have "month_lengths y ! nat (m - 1) \<in> set (month_lengths y)" by (rule nth_mem)
  moreover have "\<forall>l \<in> set (month_lengths y). l \<le> 31" by (simp add: month_lengths_def)
  ultimately show ?thesis using v by (auto simp: valid_civil_def)
qed

text \<open>The days of the years 0 to 9999, and their texts.\<close>

definition four_digit_day :: "int \<Rightarrow> bool" where
  "four_digit_day n \<longleftrightarrow> day_from_year 0 \<le> n \<and> n < day_from_year 10000"

lemma four_digit_day_bounds: "four_digit_day n \<longleftrightarrow> - 719528 \<le> n \<and> n < 2932897"
  by (simp add: four_digit_day_def day_from_year_def)

lemma four_digit_day_year: "four_digit_day n \<longleftrightarrow> 0 \<le> year_of_day n \<and> year_of_day n \<le> 9999"
  using year_of_day_bracket [of n] day_from_year_mono [of "year_of_day n + 1" 0] day_from_year_mono [of 0 "year_of_day n"]
    day_from_year_mono [of 10000 "year_of_day n"] day_from_year_mono [of "year_of_day n + 1" 10000]
  unfolding four_digit_day_def by linarith

lemma iso_date_four:
  assumes "four_digit_day n" "civil n = (y, m, d)"
  shows "iso_date n = padded 4 (nat y) @ ''-'' @ padded 2 (nat m) @ ''-'' @ padded 2 (nat d)" "0 \<le> y" "y \<le> 9999"
proof -
  have "0 \<le> y \<and> y \<le> 9999" using assms by (simp add: four_digit_day_year civil_def Let_def)
  then show "iso_date n = padded 4 (nat y) @ ''-'' @ padded 2 (nat m) @ ''-'' @ padded 2 (nat d)" "0 \<le> y" "y \<le> 9999"
    using assms(2) by (simp_all add: iso_date_def iso_year_def)
qed

lemma text_parts:
  "length a = 4 \<Longrightarrow> length b = 2 \<Longrightarrow> length c = 2 \<Longrightarrow>
     text_year (a @ ''-'' @ b @ ''-'' @ c) = int (digits_value a) \<and>
     text_month (a @ ''-'' @ b @ ''-'' @ c) = int (digits_value b) \<and>
     text_day (a @ ''-'' @ b @ ''-'' @ c) = int (digits_value c)"
  by (simp add: text_year_def text_month_def text_day_def)

lemma iso_date_texts:
  assumes "four_digit_day n" "civil n = (y, m, d)"
  shows "date_pattern (iso_date n)" "text_year (iso_date n) = y" "text_month (iso_date n) = m" "text_day (iso_date n) = d"
proof -
  note e = iso_date_four [OF assms]
  from make_day_civil [OF assms(2)] valid_civil_bounds have md: "1 \<le> m" "m \<le> 12" "1 \<le> d" "d \<le> 31" by blast+
  show "date_pattern (iso_date n)" unfolding e(1) by (intro date_pattern_parts) (simp_all add: padded_digits)
  show "text_year (iso_date n) = y" "text_month (iso_date n) = m" "text_day (iso_date n) = d"
    unfolding e(1) using e(2,3) md by (simp_all add: text_parts [simplified] digits_value_padded)
qed

lemma parse_iso_date:
  assumes "four_digit_day n"
  shows "date_pattern (iso_date n) \<and> parse_iso_day (iso_date n) = Some n"
proof -
  obtain y m d where c: "civil n = (y, m, d)" by (metis prod_cases3)
  note t = iso_date_texts [OF assms c]
  from make_day_civil [OF c] valid_civil_bounds have "1 \<le> m" "m \<le> 12" "1 \<le> d" "d \<le> 31" "make_day y m d = n" by blast+
  then show ?thesis by (simp add: parse_iso_day_def t)
qed

lemma iso_date_wide:
  assumes "\<not> four_digit_day n"
  shows "\<not> date_pattern (take 10 (iso_date n))"
proof -
  obtain y m d where c: "civil n = (y, m, d)" by (metis prod_cases3)
  have "\<not> (0 \<le> y \<and> y \<le> 9999)" using assms c by (simp add: four_digit_day_year civil_def Let_def)
  then obtain sgn rest where "take 10 (iso_date n) = sgn # rest" "sgn = CHR ''-'' \<or> sgn = CHR ''+''"
    using c by (auto simp: iso_date_def iso_year_def)
  then show ?thesis by (auto simp: date_pattern_def fixed_Cons numeral_eq_Suc chars)
qed

lemma iso_date_length: "four_digit_day n \<Longrightarrow> length (iso_date n) = 10"
  using iso_date_four by (cases "civil n") fastforce

lemma parse_iso_day_bounds:
  assumes "date_pattern s" "parse_iso_day s = Some n"
  shows "0 \<le> text_year s" "text_year s \<le> 9999"
proof -
  have "length s = 10" using assms(1) by (auto simp: date_pattern_def dest: fixed_length)
  from assms(1) have "list_all is_digit (take 4 s)"
    by (auto simp: date_pattern_def fixed_Cons numeral_eq_Suc)
  then have "digits_value (take 4 s) < 10 ^ length (take 4 s)" by (rule digits_value_less)
  then show "0 \<le> text_year s" "text_year s \<le> 9999" using \<open>length s = 10\<close> by (simp_all add: text_year_def)
qed

subsection \<open>Evaluation on concrete dates\<close>

lemma digit_chars [simp]:
  "digit_char 0 = CHR ''0''" "digit_char (Suc 0) = CHR ''1''" "digit_char 1 = CHR ''1''" "digit_char 2 = CHR ''2''"
  "digit_char 3 = CHR ''3''" "digit_char 4 = CHR ''4''" "digit_char 5 = CHR ''5''" "digit_char 6 = CHR ''6''"
  "digit_char 7 = CHR ''7''" "digit_char 8 = CHR ''8''" "digit_char 9 = CHR ''9''"
  by code_simp+

lemma padded_two: "padded 2 n = [digit_char (n div 10 mod 10), digit_char (n mod 10)]"
  by (simp add: numeral_2_eq_2)

lemma padded_four:
  "padded 4 n = [digit_char (n div 1000 mod 10), digit_char (n div 100 mod 10), digit_char (n div 10 mod 10), digit_char (n mod 10)]"
proof -
  have four: "(4 :: nat) = Suc (Suc (Suc (Suc 0)))" by simp
  show ?thesis unfolding four padded.simps by simp
qed

lemmas date_eval = iso_date_def iso_year_def civil_def year_of_day_def day_from_year_def month_lengths_def
  leap_year_def padded_two padded_four Let_def

lemma sample_iso_dates: "iso_date 20497 = ''2026-02-13''" "iso_date 20500 = ''2026-02-16''" "iso_date 20501 = ''2026-02-17''"
proof -
  have "civil 20497 = (2026, 2, 13)" "civil 20500 = (2026, 2, 16)" "civil 20501 = (2026, 2, 17)"
    by (simp_all add: civil_def year_of_day_def day_from_year_def month_lengths_def leap_year_def Let_def)
  then show "iso_date 20497 = ''2026-02-13''" "iso_date 20500 = ''2026-02-16''" "iso_date 20501 = ''2026-02-17''"
    by (simp_all add: iso_date_def iso_year_def padded_two padded_four)
qed

end
