(* ===== verification/JsonText.thy ===== *)
theory JsonText
  imports JsDate
begin

text \<open>
  JSON documents: their values, the texts \<open>JSON.stringify\<close> writes for them and \<open>JSON.parse\<close> of a whole
  document. A number that is no integer is refused: the values the services store hold none, and
  every reader of them refuses one. Shown: what \<open>JSON.stringify\<close> wrote is read back.
\<close>

subsection \<open>Values\<close>

datatype json =
    JNull
  | JBool bool
  | JNum int
  | JStr string
  | JArr "json list"
  | JObj "(string \<times> json) list"

definition lower_char :: "char \<Rightarrow> char" where
  "lower_char c = (if is_upper c then char_of (of_char c + (32 :: nat)) else c)"

fun index_of :: "char \<Rightarrow> string \<Rightarrow> nat" where
  "index_of c [] = 0"
| "index_of c (d # ds) = (if c = d then 0 else Suc (index_of c ds))"

definition hex_char :: "nat \<Rightarrow> char" where
  "hex_char n = ''0123456789abcdef'' ! n"

definition hex_value :: "char \<Rightarrow> nat" where
  "hex_value c = index_of (lower_char c) ''0123456789abcdef''"

lemma hex_value_char [simp]: "n < 16 \<Longrightarrow> hex_value (hex_char n) = n"
proof -
  have "\<forall>n \<in> set [0..<16]. hex_value (hex_char n) = n" by code_simp
  then show "n < 16 \<Longrightarrow> hex_value (hex_char n) = n" by simp
qed

subsection \<open>The printer\<close>

definition json_escape :: "char \<Rightarrow> string" where
  "json_escape c =
     (if c = CHR 0x22 then [CHR 0x5C, CHR 0x22]
      else if c = CHR 0x5C then [CHR 0x5C, CHR 0x5C]
      else if c = CHR 0x08 then [CHR 0x5C, CHR ''b'']
      else if c = CHR 0x0C then [CHR 0x5C, CHR ''f'']
      else if c = CHR 0x0A then [CHR 0x5C, CHR ''n'']
      else if c = CHR 0x0D then [CHR 0x5C, CHR ''r'']
      else if c = CHR 0x09 then [CHR 0x5C, CHR ''t'']
      else if c < CHR 0x20 then [CHR 0x5C, CHR ''u'', CHR ''0'', CHR ''0'', hex_char (of_char c div 16), hex_char (of_char c mod 16)]
      else [c])"

definition json_string :: "string \<Rightarrow> string" where
  "json_string s = [CHR 0x22] @ concat (map json_escape s) @ [CHR 0x22]"

definition json_int :: "int \<Rightarrow> string" where
  "json_int n = (if n < 0 then ''-'' @ decimal (nat (- n)) else decimal (nat n))"

fun comma_join :: "string list \<Rightarrow> string" where
  "comma_join [] = []"
| "comma_join [s] = s"
| "comma_join (s # ss) = s @ '','' @ comma_join ss"

fun stringify :: "json \<Rightarrow> string" where
  "stringify JNull = ''null''"
| "stringify (JBool b) = (if b then ''true'' else ''false'')"
| "stringify (JNum n) = json_int n"
| "stringify (JStr s) = json_string s"
| "stringify (JArr items) = ''['' @ comma_join (map stringify items) @ '']''"
| "stringify (JObj entries) =
     CHR ''{'' # comma_join (map (\<lambda>(k, v). json_string k @ '':'' @ stringify v) entries) @ ''}''"

subsection \<open>The parser\<close>

definition json_space :: "char \<Rightarrow> bool" where
  "json_space c \<longleftrightarrow> c \<in> {CHR '' '', CHR 0x09, CHR 0x0A, CHR 0x0D}"

definition json_unescape :: "char \<Rightarrow> char option" where
  "json_unescape c =
     (if c \<in> {CHR 0x22, CHR 0x5C, CHR ''/''} then Some c
      else map_of [(CHR ''b'', CHR 0x08), (CHR ''f'', CHR 0x0C), (CHR ''n'', CHR 0x0A), (CHR ''r'', CHR 0x0D), (CHR ''t'', CHR 0x09)] c)"

definition hex_digit :: "char \<Rightarrow> bool" where
  "hex_digit c \<longleftrightarrow> is_lhex c \<or> is_uhex c"

text \<open>A string literal after its opening quote, with what may_follow it.\<close>

function read_literal :: "string \<Rightarrow> (string \<times> string) option" where
  "read_literal s =
     (case s of [] \<Rightarrow> None
      | c # cs \<Rightarrow>
          if c = CHR 0x22 then Some ([], cs)
          else if c < CHR 0x20 then None
          else if c \<noteq> CHR 0x5C then map_option (apfst ((#) c)) (read_literal cs)
          else (case cs of [] \<Rightarrow> None
            | e # rest \<Rightarrow>
                if e = CHR ''u'' then
                  (if take 2 rest = ''00'' \<and> 4 \<le> length rest \<and> hex_digit (rest ! 2) \<and> hex_digit (rest ! 3)
                   then map_option (apfst ((#) (char_of (hex_value (rest ! 2) * 16 + hex_value (rest ! 3))))) (read_literal (drop 4 rest))
                   else None)
                else (case json_unescape e of None \<Rightarrow> None | Some d \<Rightarrow> map_option (apfst ((#) d)) (read_literal rest))))"
  by pat_completeness auto
termination by (relation "measure length") auto

declare read_literal.simps [simp del]

definition read_digits :: "string \<Rightarrow> (nat \<times> string) option" where
  "read_digits s =
     (let d = takeWhile is_digit s; r = dropWhile is_digit s
      in if d = [] \<or> (hd d = CHR ''0'' \<and> 1 < length d) \<or> (r \<noteq> [] \<and> hd r \<in> {CHR ''.'', CHR ''e'', CHR ''E''}) then None
         else Some (digits_value d, r))"

text \<open>The literal names and the numbers.\<close>

definition read_word :: "string \<Rightarrow> (json \<times> string) option" where
  "read_word s =
     (if starts_with ''null'' s then Some (JNull, drop 4 s)
      else if starts_with ''true'' s then Some (JBool True, drop 4 s)
      else if starts_with ''false'' s then Some (JBool False, drop 5 s)
      else if s \<noteq> [] \<and> hd s = CHR ''-'' then map_option (apfst (\<lambda>n. JNum (- int n))) (read_digits (tl s))
      else map_option (apfst (\<lambda>n. JNum (int n))) (read_digits s))"

text \<open>The next character that is no space, with what may_follow it.\<close>

definition json_token :: "string \<Rightarrow> (char \<times> string) option" where
  "json_token s = (case dropWhile json_space s of [] \<Rightarrow> None | c # cs \<Rightarrow> Some (c, cs))"

text \<open>\<open>n\<close> bounds the nesting and the number of items; the length of the text is enough.\<close>

fun read_value :: "nat \<Rightarrow> string \<Rightarrow> (json \<times> string) option"
  and read_items :: "nat \<Rightarrow> string \<Rightarrow> (json list \<times> string) option"
  and read_entries :: "nat \<Rightarrow> string \<Rightarrow> ((string \<times> json) list \<times> string) option" where
  "read_value 0 s = None"
| "read_value (Suc n) s =
     (case json_token s of None \<Rightarrow> None
      | Some (c, cs) \<Rightarrow>
          if c = CHR 0x22 then map_option (apfst JStr) (read_literal cs)
          else if c = CHR ''['' then
            (case json_token cs of Some (d, ds) \<Rightarrow> if d = CHR '']'' then Some (JArr [], ds) else map_option (apfst JArr) (read_items n cs) | None \<Rightarrow> None)
          else if c = CHR ''{'' then
            (case json_token cs of Some (d, ds) \<Rightarrow> if d = CHR ''}'' then Some (JObj [], ds) else map_option (apfst JObj) (read_entries n cs) | None \<Rightarrow> None)
          else read_word (c # cs))"
| "read_items 0 s = None"
| "read_items (Suc n) s =
     (case read_value n s of None \<Rightarrow> None
      | Some (v, r) \<Rightarrow>
          (case json_token r of None \<Rightarrow> None
           | Some (c, cs) \<Rightarrow>
               if c = CHR '','' then map_option (apfst ((#) v)) (read_items n cs)
               else if c = CHR '']'' then Some ([v], cs) else None))"
| "read_entries 0 s = None"
| "read_entries (Suc n) s =
     (case json_token s of None \<Rightarrow> None
      | Some (q, qs) \<Rightarrow>
          if q \<noteq> CHR 0x22 then None
          else (case read_literal qs of None \<Rightarrow> None
            | Some (k, r) \<Rightarrow>
                (case json_token r of None \<Rightarrow> None
                 | Some (colon, vs) \<Rightarrow>
                     if colon \<noteq> CHR '':'' then None
                     else (case read_value n vs of None \<Rightarrow> None
                       | Some (v, r2) \<Rightarrow>
                           (case json_token r2 of None \<Rightarrow> None
                            | Some (c, cs) \<Rightarrow>
                                if c = CHR '','' then map_option (apfst ((#) (k, v))) (read_entries n cs)
                                else if c = CHR ''}'' then Some ([(k, v)], cs) else None)))))"

definition json_parse :: "string \<Rightarrow> json option" where
  "json_parse s =
     (case read_value (length s + 1) s of None \<Rightarrow> None
      | Some (v, r) \<Rightarrow> if list_all json_space r then Some v else None)"

subsection \<open>Reading back\<close>

lemma json_escape_plain:
  "c \<noteq> CHR 0x22 \<Longrightarrow> c \<noteq> CHR 0x5C \<Longrightarrow> \<not> c < CHR 0x20 \<Longrightarrow> json_escape c = [c]"
  by (auto simp: json_escape_def)

lemma low_char: "c < CHR 0x20 \<longleftrightarrow> (of_char c :: nat) < 32"
  by (simp add: less_char_def)

lemma read_escape: "read_literal (json_escape c @ cs) = map_option (apfst ((#) c)) (read_literal cs)"
proof (cases "c \<in> {CHR 0x22, CHR 0x5C, CHR 0x08, CHR 0x0C, CHR 0x0A, CHR 0x0D, CHR 0x09}")
  case True
  then show ?thesis
    by (subst read_literal.simps) (auto simp: json_escape_def json_unescape_def low_char)
next
  case False
  show ?thesis
  proof (cases "c < CHR 0x20")
    case low: True
    then have n: "(of_char c :: nat) < 32" by (simp add: low_char)
    have hex: "\<forall>n \<in> set [0..<16]. hex_digit (hex_char n)" by code_simp
    have "of_char c div 16 < (16 :: nat)" "of_char c mod 16 < (16 :: nat)" using n by simp_all
    moreover have "hex_char 0 = CHR ''0''" by (simp add: hex_char_def)
    moreover have "of_char c div 16 * 16 + of_char c mod 16 = (of_char c :: nat)" by simp
    ultimately show ?thesis
      using False low hex
      by (subst read_literal.simps) (simp add: json_escape_def low_char)
  next
    case high: False
    then show ?thesis
      using False by (subst read_literal.simps) (simp add: json_escape_plain)
  qed
qed

lemma read_literal_escaped: "read_literal (concat (map json_escape s) @ CHR 0x22 # rest) = Some (s, rest)"
proof (induction s)
  case Nil
  show ?case by (simp add: read_literal.simps)
qed (simp add: read_escape)

text \<open>What may follow a value in a document.\<close>

definition may_follow :: "string \<Rightarrow> bool" where
  "may_follow r \<longleftrightarrow> (case r of [] \<Rightarrow> True | c # _ \<Rightarrow> c \<in> {CHR '','', CHR '']'', CHR ''}''})"

lemma follows_tokens [simp]: "may_follow (CHR '','' # r)" "may_follow (CHR '']'' # r)" "may_follow (CHR ''}'' # r)" "may_follow []"
  by (simp_all add: may_follow_def)

lemma follows_digits: "may_follow r \<Longrightarrow> takeWhile is_digit r = [] \<and> dropWhile is_digit r = r \<and> (r = [] \<or> hd r \<notin> {CHR ''.'', CHR ''e'', CHR ''E''})"
  by (cases r) (auto simp: may_follow_def is_digit_def)

lemma decimal_leading: "hd (decimal n) = CHR ''0'' \<Longrightarrow> length (decimal n) = 1"
proof (induction n rule: decimal.induct)
  case (1 n)
  show ?case
  proof (cases "n < 10")
    case False
    then have "hd (decimal n) = hd (decimal (n div 10))" by (subst decimal.simps) simp
    with 1 False have "length (decimal (n div 10)) = 1" "hd (decimal (n div 10)) = CHR ''0''" by simp_all
    then have "decimal (n div 10) = [CHR ''0'']" by (cases "decimal (n div 10)") simp_all
    then have "n div 10 = 0" using digits_value_decimal [of "n div 10"] by (simp add: digit_value_def)
    with False show ?thesis by simp
  qed (subst decimal.simps, simp)
qed

lemma read_digits_decimal:
  assumes "may_follow r"
  shows "read_digits (decimal n @ r) = Some (n, r)"
proof -
  have d: "takeWhile is_digit (decimal n @ r) = decimal n" "dropWhile is_digit (decimal n @ r) = r"
    using decimal_digits [of n] follows_digits [OF assms]
    by (simp_all add: takeWhile_append dropWhile_append list_all_iff)
  show ?thesis
    using decimal_leading [of n] follows_digits [OF assms] by (auto simp: read_digits_def d Let_def)
qed

lemma decimal_head: "is_digit (hd (decimal n))"
  using decimal_digits [of n] by (cases "decimal n") simp_all

lemma token_Cons: "\<not> json_space c \<Longrightarrow> json_token (c # cs) = Some (c, cs)"
  by (simp add: json_token_def)

lemma token_marks [simp]:
  "json_token (CHR 0x22 # cs) = Some (CHR 0x22, cs)" "json_token (CHR '','' # cs) = Some (CHR '','', cs)" "json_token (CHR '':'' # cs) = Some (CHR '':'', cs)"
  "json_token (CHR ''['' # cs) = Some (CHR ''['', cs)" "json_token (CHR '']'' # cs) = Some (CHR '']'', cs)"
  "json_token (CHR ''{'' # cs) = Some (CHR ''{'', cs)" "json_token (CHR ''}'' # cs) = Some (CHR ''}'', cs)"
  by (simp_all add: json_token_def json_space_def)

text \<open>The first character of a value.\<close>

definition value_head :: "char \<Rightarrow> bool" where
  "value_head c \<longleftrightarrow> c \<in> {CHR 0x22, CHR ''['', CHR ''{'', CHR ''n'', CHR ''t'', CHR ''f'', CHR ''-''} \<or> is_digit c"

lemma value_head_token:
  assumes "value_head c"
  shows "json_token (c # cs) = Some (c, cs) \<and> c \<noteq> CHR '']'' \<and> c \<noteq> CHR ''}''"
proof -
  have "\<forall>d \<in> {CHR '' '', CHR 0x09, CHR 0x0A, CHR 0x0D, CHR '']'', CHR ''}''}. \<not> value_head d"
    by (simp add: value_head_def is_digit_def)
  then have "c \<notin> {CHR '' '', CHR 0x09, CHR 0x0A, CHR 0x0D, CHR '']'', CHR ''}''}" using assms by blast
  then show ?thesis by (simp add: json_token_def json_space_def)
qed

lemma stringify_head: "\<exists>c cs. stringify j = c # cs \<and> value_head c"
proof (cases j)
  case (JNum n)
  have "\<exists>c cs. decimal k = c # cs \<and> is_digit c" for k
    using decimal_head [of k] by (cases "decimal k") simp_all
  then obtain c cs where "decimal (nat \<bar>n\<bar>) = c # cs" "is_digit c" by blast
  then show ?thesis using JNum by (cases "n < 0") (simp_all add: json_int_def value_head_def)
qed (simp_all add: value_head_def json_string_def)

lemma token_stringify: "\<exists>c cs. stringify j @ r = c # cs \<and> json_token (stringify j @ r) = Some (c, cs) \<and> c \<noteq> CHR '']'' \<and> c \<noteq> CHR ''}''"
proof -
  obtain c cs where "stringify j = c # cs" "value_head c" using stringify_head by blast
  then show ?thesis using value_head_token [of c "cs @ r"] by simp
qed

lemma read_int:
  assumes "may_follow r"
  shows "read_value (Suc m) (json_int n @ r) = Some (JNum n, r)"
proof (cases "n < 0")
  case True
  then show ?thesis
    using read_digits_decimal [OF assms, of "nat (- n)"] by (simp add: json_int_def json_token_def json_space_def read_word_def starts_with_def)
next
  case False
  obtain c cs where d: "decimal (nat n) = c # cs" by (cases "decimal (nat n)") simp_all
  then have c: "is_digit c" using decimal_head [of "nat n"] by simp
  then have head: "json_token (c # cs @ r) = Some (c, cs @ r)"
    by (auto simp: json_token_def json_space_def is_digit_def)
  have "c \<noteq> CHR 0x22" "c \<noteq> CHR ''['' " "c \<noteq> CHR ''{''" "c \<noteq> CHR ''-''" "c \<noteq> CHR ''n''" "c \<noteq> CHR ''t''" "c \<noteq> CHR ''f''"
    using c by (auto simp: is_digit_def)
  then show ?thesis
    using False read_digits_decimal [OF assms, of "nat n"] by (simp add: json_int_def d head read_word_def starts_with_def)
qed

lemma read_items_written:
  assumes "\<And>v n r. v \<in> set vs \<Longrightarrow> length (stringify v) < n \<Longrightarrow> may_follow r \<Longrightarrow> read_value n (stringify v @ r) = Some (v, r)"
    and "vs \<noteq> []" "length (comma_join (map stringify vs)) + 1 < n"
  shows "read_items n (comma_join (map stringify vs) @ CHR '']'' # r) = Some (vs, r)"
  using assms
proof (induction vs arbitrary: n)
  case (Cons v vs)
  then obtain m where n: "n = Suc m" by (cases n) simp_all
  show ?case
  proof (cases vs)
    case Nil
    then show ?thesis using Cons.prems(1) [of v m "CHR '']'' # r"] Cons.prems(3) by (simp add: n del: stringify.simps)
  next
    case (Cons w ws)
    let ?rest = "comma_join (map stringify vs) @ CHR '']'' # r"
    have joined: "comma_join (stringify v # map stringify vs) = stringify v @ CHR '','' # comma_join (map stringify vs)"
      using Cons by simp
    have "read_value m (stringify v @ CHR '','' # ?rest) = Some (v, CHR '','' # ?rest)"
      using Cons.prems(1,3) by (simp add: n joined del: stringify.simps)
    moreover have "read_items m ?rest = Some (vs, r)"
      using Cons.prems Cons by (intro Cons.IH) (simp_all add: n joined del: stringify.simps)
    ultimately show ?thesis by (simp add: n joined del: stringify.simps)
  qed
qed simp

lemma read_entries_written:
  assumes "\<And>k v n r. (k, v) \<in> set es \<Longrightarrow> length (stringify v) < n \<Longrightarrow> may_follow r \<Longrightarrow> read_value n (stringify v @ r) = Some (v, r)"
    and "es \<noteq> []" "length (comma_join (map (\<lambda>(k, v). json_string k @ '':'' @ stringify v) es)) + 1 < n"
  shows "read_entries n (comma_join (map (\<lambda>(k, v). json_string k @ '':'' @ stringify v) es) @ CHR ''}'' # r) = Some (es, r)"
  using assms
proof (induction es arbitrary: n)
  case (Cons e es)
  obtain k v where e: "e = (k, v)" by fastforce
  obtain m where n: "n = Suc m" using Cons.prems(3) by (cases n) simp_all
  let ?f = "\<lambda>(k, v). json_string k @ '':'' @ stringify v"
  have lit: "read_literal (concat (map json_escape k) @ CHR 0x22 # t) = Some (k, t)" for t by (rule read_literal_escaped)
  show ?case
  proof (cases es)
    case Nil
    then have "read_value m (stringify v @ CHR ''}'' # r) = Some (v, CHR ''}'' # r)"
      using Cons.prems(1,3) by (simp add: n e del: stringify.simps)
    then show ?thesis using Nil by (simp add: n e json_string_def lit del: stringify.simps)
  next
    case (Cons w ws)
    let ?rest = "comma_join (map ?f es) @ CHR ''}'' # r"
    have joined: "comma_join ((json_string k @ CHR '':'' # stringify v) # map (\<lambda>(k, v). json_string k @ CHR '':'' # stringify v) es) =
        json_string k @ CHR '':'' # stringify v @ CHR '','' # comma_join (map ?f es)"
      using Cons by simp
    have "read_value m (stringify v @ CHR '','' # ?rest) = Some (v, CHR '','' # ?rest)"
      using Cons.prems(1) [of k v m "CHR '','' # ?rest"] Cons.prems(3) by (simp add: n e joined del: stringify.simps)
    moreover have "read_entries m ?rest = Some (es, r)"
      by (rule Cons.IH, erule (1) Cons.prems(1) [OF list.set_intros(2)])
        (use Cons.prems(3) \<open>es = w # ws\<close> in \<open>simp_all add: n e joined del: stringify.simps\<close>)
    ultimately show ?thesis using joined by (simp add: n e json_string_def lit del: stringify.simps)
  qed
qed simp

lemma read_stringify:
  "length (stringify j) < n \<Longrightarrow> may_follow r \<Longrightarrow> read_value n (stringify j @ r) = Some (j, r)"
proof (induction j arbitrary: n r)
  case JNull
  then show ?case by (cases n) (simp_all add: json_token_def json_space_def read_word_def starts_with_def)
next
  case (JBool b)
  then show ?case by (cases n; cases b) (simp_all add: json_token_def json_space_def read_word_def starts_with_def)
next
  case (JNum i)
  then show ?case using read_int [OF JNum(2), of _ i] by (cases n) simp_all
next
  case (JStr t)
  then show ?case using read_literal_escaped [of t r] by (cases n) (simp_all add: json_string_def)
next
  case (JArr vs)
  then obtain m where n: "n = Suc m" by (cases n) simp_all
  show ?case
  proof (cases vs)
    case Nil
    then show ?thesis by (simp add: n)
  next
    case (Cons w ws)
    let ?body = "comma_join (map stringify vs)"
    have head: "\<exists>t. ?body = stringify w @ t" using Cons by (cases ws) simp_all
    then obtain c cs where c: "json_token (?body @ CHR '']'' # r) = Some (c, cs)" "c \<noteq> CHR '']''"
      using token_stringify [of w] by (metis append.assoc)
    have "read_items m (?body @ CHR '']'' # r) = Some (vs, r)"
      using JArr Cons by (intro read_items_written) (auto simp: n)
    then show ?thesis using c by (simp add: n)
  qed
next
  case (JObj es)
  then obtain m where n: "n = Suc m" by (cases n) simp_all
  let ?f = "\<lambda>(k, v). json_string k @ '':'' @ stringify v"
  show ?case
  proof (cases es)
    case Nil
    then show ?thesis by (simp add: n)
  next
    case (Cons w ws)
    let ?body = "comma_join (map ?f es)"
    have head: "\<exists>t. ?body = CHR 0x22 # t" using Cons by (cases ws) (auto simp: json_string_def split: prod.splits)
    have "read_entries m (?body @ CHR ''}'' # r) = Some (es, r)"
      using JObj Cons by (intro read_entries_written) (auto simp: n)
    then show ?thesis using head by (auto simp: n)
  qed
qed

lemma json_parse_stringify [simp]: "json_parse (stringify j) = Some j"
  using read_stringify [of j "length (stringify j) + 1" "[]"] by (simp add: json_parse_def)

end
