(* ===== verification/StructuredData.thy ===== *)
theory StructuredData
  imports JsonText
begin

text \<open>
  The guard in front of every stored or logged structure
  (\<^verbatim>\<open>packages/security/src/structured-data.ts\<close>): which keys and which strings are sensitive, the
  recursive check \<open>assertSafeValue\<close>, the way of a JavaScript value through \<open>JSON.stringify\<close> and
  \<open>JSON.parse\<close> (the text and its parser are those of \<^verbatim>\<open>JsonText\<close>), and the log sanitiser. The URL parser
  of the platform (\<open>new URL\<close>) is the argument \<open>parse_url\<close>: it gives the user name, the password and the
  query keys of a URL, or nothing for a malformed one. Numbers with a fraction are not modelled.
  The group \<open>safe_document_iff\<close> shows that the recursive check is exactly "no object with a sensitive
  key and no credential string anywhere in the document"; \<open>no_scheme_separator_safe\<close> that plain
  identifiers always pass.
\<close>

type_synonym url_view = "string \<times> string \<times> string list"

datatype channel = Audit | Command | Job | Metric | Outbox

subsection \<open>Sensitive keys\<close>

definition sensitiveKeyParts :: "string list" where
  "sensitiveKeyParts =
    [''apikey'', ''accesskey'', ''basicauth'', ''authheader'', ''authentication'', ''authorization'',
     ''cookie'', ''credential'', ''databaseurl'', ''valkeyurl'', ''oauth'', ''password'', ''secret'',
     ''token'', ''dateofbirth'', ''birthdate'', ''bankaccount'', ''accountnumber'', ''accountholder'',
     ''challengereference'', ''recoverycode'', ''totp'', ''ciphertext'', ''authenticationtag'',
     ''governmentid'', ''nationalid'', ''passport'', ''phonenumber'', ''legalname'', ''fullname'',
     ''postaladdress'']"

definition sensitiveExactKeys :: "string list" where
  "sensitiveExactKeys =
    [''auth'', ''bootstrapowneremail'', ''canonicalemail'', ''displayemail'', ''email'', ''emailaddress'',
     ''newemail'', ''newphone'', ''oauth'', ''oldemail'', ''oldphone'', ''phone'', ''provideremail'']"

fun str_includes :: "string \<Rightarrow> string \<Rightarrow> bool" where
  "str_includes p [] = (p = [])"
| "str_includes p (c # cs) = (starts_with p (c # cs) \<or> str_includes p cs)"

definition normalizeKey :: "string \<Rightarrow> string" where
  "normalizeKey key = filter (\<lambda>c. is_lower c \<or> is_digit c) (map lower_char key)"

definition structuredKeyIsSensitive :: "string \<Rightarrow> bool" where
  "structuredKeyIsSensitive key =
     (let normalized = normalizeKey key
      in normalized \<in> set sensitiveExactKeys \<or>
         list_ex (\<lambda>part. str_includes part normalized) sensitiveKeyParts)"

subsection \<open>Strings that carry credentials\<close>

definition is_scheme_char :: "char \<Rightarrow> bool" where
  [chars]: "is_scheme_char c \<longleftrightarrow> is_alnum c \<or> c \<in> set ''+.-''"

definition is_alpha :: "char \<Rightarrow> bool" where
  [chars]: "is_alpha c \<longleftrightarrow> is_lower c \<or> is_upper c"

text \<open>A regular expression is searched for: some suffix of the text starts with a match.\<close>

fun some_suffix :: "(string \<Rightarrow> bool) \<Rightarrow> string \<Rightarrow> bool" where
  "some_suffix p [] = p []"
| "some_suffix p (c # cs) = (p (c # cs) \<or> some_suffix p cs)"

text \<open>\<open>connectionUrlPattern\<close>: a database or broker scheme, \<open>://\<close> and one more character.\<close>

definition connectionUrl_at :: "string \<Rightarrow> bool" where
  "connectionUrl_at t =
     list_ex (\<lambda>scheme. starts_with (scheme @ ''://'') (map lower_char t) \<and>
         (case drop (length scheme + 3) t of [] \<Rightarrow> False | c # _ \<Rightarrow> \<not> is_space c))
       [''postgres'', ''postgresql'', ''redis'', ''rediss'', ''mysql'', ''mongodb'', ''mongodb+srv'',
        ''amqp'', ''amqps'']"

text \<open>The rest after \<open>scheme://\<close> at the start of the text; \<open>:\<close> is no scheme character, so the
  greedy scheme is the only one that can match.\<close>

definition after_scheme :: "string \<Rightarrow> string option" where
  "after_scheme t =
     (case t of [] \<Rightarrow> None
      | c # cs \<Rightarrow>
          if is_alpha c \<and> starts_with ''://'' (dropWhile is_scheme_char cs)
          then Some (drop 3 (dropWhile is_scheme_char cs)) else None)"

text \<open>\<open>embeddedCredentialUrlPattern\<close>: \<open>scheme://user@\<close> or \<open>scheme://user:password@\<close>.\<close>

definition embeddedCredentialUrl_at :: "string \<Rightarrow> bool" where
  "embeddedCredentialUrl_at t =
     (case after_scheme t of None \<Rightarrow> False
      | Some r \<Rightarrow>
          (let user = (\<lambda>c. \<not> (c = CHR ''/'' \<or> is_space c \<or> c = CHR '':'' \<or> c = CHR ''@''));
               pass = (\<lambda>c. \<not> (c = CHR ''@'' \<or> is_space c \<or> c = CHR ''/''))
           in takeWhile user r \<noteq> [] \<and>
              (case dropWhile user r of [] \<Rightarrow> False
               | c # cs \<Rightarrow> c = CHR ''@'' \<or>
                   c = CHR '':'' \<and> (case dropWhile pass cs of [] \<Rightarrow> False | d # _ \<Rightarrow> d = CHR ''@''))))"

text \<open>\<open>embeddedUrlPattern\<close>, matched globally: the matched text and the rest of the input.\<close>

definition is_url_char :: "char \<Rightarrow> bool" where
  [chars]: "is_url_char c \<longleftrightarrow> \<not> (is_space c \<or> c = CHR ''<'' \<or> c = CHR ''>'' \<or> c = CHR 0x22 \<or> c = CHR 0x27)"

definition url_match :: "string \<Rightarrow> (string \<times> string) option" where
  "url_match t =
     (case after_scheme t of None \<Rightarrow> None
      | Some r \<Rightarrow> if takeWhile is_url_char r = [] then None
          else let n = length t - length r + length (takeWhile is_url_char r)
               in Some (take n t, drop n t))"

lemma after_scheme_length: "after_scheme t = Some r \<Longrightarrow> length r < length t"
proof -
  assume "after_scheme t = Some r"
  then obtain c cs where t: "t = c # cs" "r = drop 3 (dropWhile is_scheme_char cs)"
    by (auto simp: after_scheme_def split: list.splits if_splits)
  have "length r \<le> length cs"
    using t(2) length_dropWhile_le [of is_scheme_char cs] by simp
  with t(1) show ?thesis by simp
qed

lemma url_match_shorter: "url_match t = Some (m, r) \<Longrightarrow> length r < length t"
  by (auto simp: url_match_def Let_def split: option.splits if_splits
      dest!: after_scheme_length)

function url_candidates :: "string \<Rightarrow> string list" where
  "url_candidates [] = []"
| "url_candidates (c # cs) =
     (case url_match (c # cs) of None \<Rightarrow> url_candidates cs | Some (m, r) \<Rightarrow> m # url_candidates r)"
  by pat_completeness auto
termination
  by (relation "measure length") (auto dest: url_match_shorter)

definition stringContainsCredentials :: "(string \<Rightarrow> url_view option) \<Rightarrow> string \<Rightarrow> bool" where
  "stringContainsCredentials parse_url s =
     (some_suffix connectionUrl_at s \<or> some_suffix embeddedCredentialUrl_at s \<or>
      list_ex (\<lambda>candidate. case parse_url candidate of None \<Rightarrow> False
        | Some (username, password, keys) \<Rightarrow>
            username \<noteq> [] \<or> password \<noteq> [] \<or>
            list_ex (\<lambda>key. structuredKeyIsSensitive key \<or> key = ''code'' \<or> key = ''state'') keys)
        (url_candidates s))"

subsection \<open>The recursive check\<close>

text \<open>A parsed JSON document is a tree, so the cycle check of the source never fires on it.\<close>

fun assertSafeValue :: "(string \<Rightarrow> url_view option) \<Rightarrow> json \<Rightarrow> bool" where
  "assertSafeValue u (JStr s) = (\<not> stringContainsCredentials u s)"
| "assertSafeValue u (JArr items) = list_all (assertSafeValue u) items"
| "assertSafeValue u (JObj entries) =
     list_all (\<lambda>(key, child). \<not> structuredKeyIsSensitive key \<and> assertSafeValue u child) entries"
| "assertSafeValue u JNull = True"
| "assertSafeValue u (JBool b) = True"
| "assertSafeValue u (JNum n) = True"

subsection \<open>Serialising a JavaScript value\<close>

text \<open>What a caller may pass: \<open>JsUndefined\<close> stands for \<open>undefined\<close>, functions and symbols, \<open>JsThrows\<close> for
  what makes \<open>JSON.stringify\<close> throw (a reference back to an enclosing object, a \<open>bigint\<close>, a getter that
  throws), \<open>JsNumber None\<close> for \<open>NaN\<close> and the infinities, \<open>JsIsoDate\<close> for a \<open>Date\<close> with its ISO text, none for
  an invalid one. An object lists its own enumerable properties in order.\<close>

datatype js_value =
    JsUndefined
  | JsThrows
  | JsNull
  | JsBool bool
  | JsNumber "int option"
  | JsString string
  | JsIsoDate "string option"
  | JsArray "js_value list"
  | JsObject "(string \<times> js_value) list"

text \<open>The document \<open>JSON.stringify\<close> prints: nothing for a value it has no text for, which an array
  replaces by \<open>null\<close> and an object leaves out.\<close>

fun serialize_value :: "js_value \<Rightarrow> unit + json option"
  and serialize_items :: "js_value list \<Rightarrow> unit + json list"
  and serialize_entries :: "(string \<times> js_value) list \<Rightarrow> unit + (string \<times> json) list" where
  "serialize_value JsUndefined = Inr None"
| "serialize_value JsThrows = Inl ()"
| "serialize_value JsNull = Inr (Some JNull)"
| "serialize_value (JsBool b) = Inr (Some (JBool b))"
| "serialize_value (JsNumber n) = Inr (Some (case n of None \<Rightarrow> JNull | Some i \<Rightarrow> JNum i))"
| "serialize_value (JsString s) = Inr (Some (JStr s))"
| "serialize_value (JsIsoDate t) = Inr (Some (case t of None \<Rightarrow> JNull | Some s \<Rightarrow> JStr s))"
| "serialize_value (JsArray vs) = await (serialize_items vs) (\<lambda>items. Inr (Some (JArr items)))"
| "serialize_value (JsObject es) = await (serialize_entries es) (\<lambda>entries. Inr (Some (JObj entries)))"
| "serialize_items [] = Inr []"
| "serialize_items (v # vs) =
     await (serialize_value v) (\<lambda>item. await (serialize_items vs) (\<lambda>items.
       Inr ((case item of None \<Rightarrow> JNull | Some j \<Rightarrow> j) # items)))"
| "serialize_entries [] = Inr []"
| "serialize_entries ((k, v) # es) =
     await (serialize_value v) (\<lambda>child. await (serialize_entries es) (\<lambda>entries.
       Inr (case child of None \<Rightarrow> entries | Some j \<Rightarrow> (k, j) # entries)))"

text \<open>\<open>JSON.stringify(value)\<close>: it throws, gives \<open>undefined\<close>, or gives a text.\<close>

definition js_stringify :: "js_value \<Rightarrow> unit + string option" where
  "js_stringify v = await (serialize_value v) (\<lambda>document. Inr (map_option stringify document))"

definition canonicalizeSafeStructuredData :: "(string \<Rightarrow> url_view option) \<Rightarrow> js_value \<Rightarrow> channel \<Rightarrow> channel + json" where
  "canonicalizeSafeStructuredData u v ch =
     (case js_stringify v of
        Inl _ \<Rightarrow> Inl ch
      | Inr None \<Rightarrow> Inl ch
      | Inr (Some serialized) \<Rightarrow>
          (case json_parse serialized of
             None \<Rightarrow> Inl ch
           | Some canonical \<Rightarrow> if assertSafeValue u canonical then Inr canonical else Inl ch))"

text \<open>A value the callers build of null, booleans, integers, strings, arrays and records only.\<close>

fun js_of_json :: "json \<Rightarrow> js_value" where
  "js_of_json JNull = JsNull"
| "js_of_json (JBool b) = JsBool b"
| "js_of_json (JNum n) = JsNumber (Some n)"
| "js_of_json (JStr s) = JsString s"
| "js_of_json (JArr items) = JsArray (map js_of_json items)"
| "js_of_json (JObj entries) = JsObject (map (\<lambda>(k, v). (k, js_of_json v)) entries)"

lemma serialize_plain_items: "(\<And>j. j \<in> set js \<Longrightarrow> serialize_value (js_of_json j) = Inr (Some j)) \<Longrightarrow>
    serialize_items (map js_of_json js) = Inr js"
  by (induction js) simp_all

lemma serialize_plain_entries: "(\<And>k j. (k, j) \<in> set es \<Longrightarrow> serialize_value (js_of_json j) = Inr (Some j)) \<Longrightarrow>
    serialize_entries (map (\<lambda>(k, v). (k, js_of_json v)) es) = Inr es"
proof (induction es)
  case (Cons e es)
  obtain k j where e: "e = (k, j)" by fastforce
  have "serialize_value (js_of_json j) = Inr (Some j)" by (rule Cons.prems [of k]) (simp add: e)
  moreover have "serialize_entries (map (\<lambda>(k, v). (k, js_of_json v)) es) = Inr es"
    by (rule Cons.IH) (rule Cons.prems, rule list.set_intros(2))
  ultimately show ?case by (simp add: e)
qed simp

declare js_of_json.simps [simp del]

lemma serialize_plain [simp]: "serialize_value (js_of_json j) = Inr (Some j)"
proof (induction j)
  case (JArr items)
  then show ?case by (simp add: serialize_plain_items js_of_json.simps)
next
  case (JObj entries)
  then have "serialize_entries (map (\<lambda>(k, v). (k, js_of_json v)) entries) = Inr entries"
    by (intro serialize_plain_entries) auto
  then show ?case by (simp add: js_of_json.simps)
qed (simp_all add: js_of_json.simps)

lemma canonicalize_iff:
  "canonicalizeSafeStructuredData u v ch = Inr j \<longleftrightarrow> serialize_value v = Inr (Some j) \<and> assertSafeValue u j"
  "canonicalizeSafeStructuredData u v ch = Inl e \<longleftrightarrow> e = ch \<and> (\<forall>j. serialize_value v = Inr (Some j) \<longrightarrow> \<not> assertSafeValue u j)"
  by (auto simp: canonicalizeSafeStructuredData_def js_stringify_def await_def split: sum.splits option.splits)

lemma canonicalize_plain [simp]:
  "canonicalizeSafeStructuredData u (js_of_json j) ch = (if assertSafeValue u j then Inr j else Inl ch)"
  by (simp add: canonicalizeSafeStructuredData_def js_stringify_def)

text \<open>The abstract side: \<open>y\<close> is \<open>x\<close> itself or sits somewhere inside it, and a document is safe when no
  object in it has a sensitive key and no string in it carries credentials.\<close>

inductive part_of :: "json \<Rightarrow> json \<Rightarrow> bool" where
  itself: "part_of x x"
| item: "x \<in> set items \<Longrightarrow> part_of y x \<Longrightarrow> part_of y (JArr items)"
| child: "(k, x) \<in> set entries \<Longrightarrow> part_of y x \<Longrightarrow> part_of y (JObj entries)"

inductive_simps part_of_simps: "part_of y JNull" "part_of y (JBool b)" "part_of y (JNum n)" "part_of y (JStr s)"
  "part_of y (JArr items)" "part_of y (JObj entries)"

definition safe_document :: "(string \<Rightarrow> url_view option) \<Rightarrow> json \<Rightarrow> bool" where
  "safe_document u j \<longleftrightarrow>
     (\<nexists>entries k v. part_of (JObj entries) j \<and> (k, v) \<in> set entries \<and> structuredKeyIsSensitive k) \<and>
     (\<nexists>s. part_of (JStr s) j \<and> stringContainsCredentials u s)"

lemma safe_documentI:
  "(\<And>entries k v. part_of (JObj entries) j \<Longrightarrow> (k, v) \<in> set entries \<Longrightarrow> \<not> structuredKeyIsSensitive k) \<Longrightarrow>
   (\<And>s. part_of (JStr s) j \<Longrightarrow> \<not> stringContainsCredentials u s) \<Longrightarrow> safe_document u j"
  by (auto simp: safe_document_def)

lemma part_of_trans: "part_of y x \<Longrightarrow> part_of z y \<Longrightarrow> part_of z x"
  by (induction rule: part_of.induct) (auto intro: part_of.intros)

lemma safe_document_part: "safe_document u j \<Longrightarrow> part_of x j \<Longrightarrow> safe_document u x"
  unfolding safe_document_def by (blast intro: part_of_trans)

lemma safe_value_part: "part_of y x \<Longrightarrow> assertSafeValue u x \<Longrightarrow> assertSafeValue u y"
  by (induction rule: part_of.induct) (auto simp: list_all_iff)

lemma safe_document_iff: "safe_document u j \<longleftrightarrow> assertSafeValue u j"
proof
  assume safe: "assertSafeValue u j"
  show "safe_document u j"
  proof (rule safe_documentI)
    fix entries k v
    assume "part_of (JObj entries) j" "(k, v) \<in> set entries"
    from safe_value_part [OF this(1) safe] this(2) show "\<not> structuredKeyIsSensitive k" by (auto simp: list_all_iff)
  next
    fix s
    assume "part_of (JStr s) j"
    from safe_value_part [OF this safe] show "\<not> stringContainsCredentials u s" by simp
  qed
next
  show "safe_document u j \<Longrightarrow> assertSafeValue u j"
  proof (induction u j rule: assertSafeValue.induct)
    case (1 u s)
    then show ?case by (auto simp: safe_document_def intro: part_of.intros)
  next
    case (2 u items)
    have "assertSafeValue u x" if "x \<in> set items" for x
      using 2(1) [OF that] safe_document_part [OF 2(2) part_of.item [OF that part_of.itself]] by simp
    then show ?case by (simp add: list_all_iff)
  next
    case (3 u entries)
    have "\<not> structuredKeyIsSensitive k \<and> assertSafeValue u x" if kx: "(k, x) \<in> set entries" for k x
    proof
      show "\<not> structuredKeyIsSensitive k"
        using 3(2) kx part_of.itself [of "JObj entries"] unfolding safe_document_def by blast
      show "assertSafeValue u x"
        using 3(1) [OF kx refl] safe_document_part [OF 3(2) part_of.child [OF kx part_of.itself]] by simp
    qed
    then show ?case by (auto simp: list_all_iff)
  qed simp_all
qed

text \<open>A text with no \<open>://\<close> has no URL in it, so nothing in it counts as a credential.\<close>

lemma str_includes_iff: "str_includes p s \<longleftrightarrow> (\<exists>a b. s = a @ p @ b)"
proof (induction s)
  case (Cons c cs)
  have "(\<exists>a b. c # cs = a @ p @ b) \<longleftrightarrow> (\<exists>b. c # cs = p @ b) \<or> (\<exists>a b. cs = a @ p @ b)"
    by (metis append_Cons append_Nil list.inject neq_Nil_conv)
  then show ?case using Cons by (simp add: starts_with_iff)
qed simp

lemma after_scheme_separator: "after_scheme t \<noteq> None \<Longrightarrow> str_includes ''://'' t"
proof -
  assume "after_scheme t \<noteq> None"
  then obtain c cs where t: "t = c # cs" "starts_with ''://'' (dropWhile is_scheme_char cs)"
    by (auto simp: after_scheme_def split: list.splits if_splits)
  then obtain r where "dropWhile is_scheme_char cs = ''://'' @ r"
    by (auto simp: starts_with_iff)
  then have "t = (c # takeWhile is_scheme_char cs) @ ''://'' @ r"
    using t(1) takeWhile_dropWhile_id [of is_scheme_char cs] by simp
  then show ?thesis unfolding str_includes_iff by blast
qed

lemma str_includes_Cons: "str_includes p cs \<Longrightarrow> str_includes p (c # cs)"
  by simp

lemma some_suffix_str_includes:
  assumes "\<And>t. p t \<Longrightarrow> str_includes q t" "some_suffix p s"
  shows "str_includes q s"
  using assms(2) by (induction s) (auto dest: assms(1))

lemma url_candidates_separator:
  "\<not> str_includes ''://'' s \<Longrightarrow> url_candidates s = []"
proof (induction s rule: url_candidates.induct)
  case (2 c cs)
  have "after_scheme (c # cs) = None"
    using 2(3) after_scheme_separator by blast
  then have "url_match (c # cs) = None"
    by (simp add: url_match_def)
  with 2 show ?case by simp
qed simp

lemma lower_char_upper: "is_upper d \<Longrightarrow> of_char (lower_char d) = (of_char d + 32 :: nat)"
proof -
  assume "is_upper d"
  then have "of_char d \<le> (90 :: nat)"
    by (simp add: is_upper_def less_eq_char_def)
  with \<open>is_upper d\<close> show ?thesis by (simp add: lower_char_def)
qed

lemma lower_char_separator: "c \<in> {CHR '':'', CHR ''/''} \<Longrightarrow> lower_char d = c \<Longrightarrow> d = c"
proof (cases "is_upper d")
  case True
  assume c: "c \<in> {CHR '':'', CHR ''/''}" "lower_char d = c"
  from True have "65 \<le> (of_char d :: nat)"
    by (simp add: is_upper_def less_eq_char_def)
  moreover have "of_char c \<le> (58 :: nat)" using c(1) by auto
  moreover have "of_char c = (of_char d + 32 :: nat)"
    using lower_char_upper [OF True] c(2) by simp
  ultimately show ?thesis by simp
qed (simp add: lower_char_def)

lemma connectionUrl_at_separator: "connectionUrl_at t \<Longrightarrow> str_includes ''://'' t"
proof -
  assume "connectionUrl_at t"
  then obtain scheme where "starts_with (scheme @ ''://'') (map lower_char t)"
    unfolding connectionUrl_at_def list_ex_iff by blast
  then obtain r where "map lower_char t = scheme @ ''://'' @ r"
    by (auto simp: starts_with_iff)
  define n where "n = length scheme"
  define m where "m = take 3 (drop n t)"
  have "map lower_char (drop n t) = ''://'' @ r"
    using \<open>map lower_char t = scheme @ ''://'' @ r\<close> by (simp add: n_def flip: drop_map)
  then have m: "map lower_char m = ''://''"
    by (simp add: m_def flip: take_map)
  have t: "t = take n t @ m @ drop 3 (drop n t)"
    by (simp only: m_def append_take_drop_id)
  have "m = ''://''"
    using m by (auto simp: map_eq_Cons_conv dest!: lower_char_separator [rotated])
  with t show ?thesis unfolding str_includes_iff by blast
qed

lemma embeddedCredentialUrl_at_separator:
  "embeddedCredentialUrl_at t \<Longrightarrow> str_includes ''://'' t"
  by (rule after_scheme_separator) (auto simp: embeddedCredentialUrl_at_def split: option.splits)

lemma no_scheme_separator_safe:
  assumes "\<not> str_includes ''://'' s"
  shows "\<not> stringContainsCredentials u s"
proof -
  have "\<not> some_suffix connectionUrl_at s" "\<not> some_suffix embeddedCredentialUrl_at s"
    using assms some_suffix_str_includes connectionUrl_at_separator
      embeddedCredentialUrl_at_separator by blast+
  then show ?thesis
    using assms by (simp add: stringContainsCredentials_def url_candidates_separator)
qed

text \<open>A text over a class without \<open>/\<close> (identifiers, digests, dates, decimal numbers) is safe.\<close>

lemma no_slash_safe: "CHR ''/'' \<notin> set s \<Longrightarrow> \<not> stringContainsCredentials u s"
  by (rule no_scheme_separator_safe) (auto simp: str_includes_iff)

lemma list_all_no_slash:
  "list_all p s \<Longrightarrow> \<not> p (CHR ''/'') \<Longrightarrow> \<not> stringContainsCredentials u s"
  by (rule no_slash_safe) (auto simp: list_all_iff)

lemma json_str_no_slash_safe: "CHR ''/'' \<notin> set s \<Longrightarrow> assertSafeValue u (JStr s)"
  by (simp add: no_slash_safe)

subsection \<open>The log sanitiser\<close>

text \<open>Values a logger is given: \<open>LSeen\<close> is a reference to an object the walk has already entered,
  \<open>LDate\<close> carries its ISO text, \<open>LOther\<close> is an object that is no plain record.\<close>

datatype logval =
    LAtom json
  | LStr string
  | LArr "logval list"
  | LError string string
  | LDate string
  | LObj "(string \<times> logval) list"
  | LSeen
  | LOther

definition REDACTED_VALUE :: string where
  "REDACTED_VALUE = ''[Redacted]''"

function replaceAll :: "string \<Rightarrow> string \<Rightarrow> string \<Rightarrow> string" where
  "replaceAll p r [] = []"
| "replaceAll p r (c # cs) =
     (if p \<noteq> [] \<and> starts_with p (c # cs) then r @ replaceAll p r (drop (length p) (c # cs))
      else c # replaceAll p r cs)"
  by pat_completeness auto
termination
  by (relation "measure (\<lambda>(p, r, s). length s)") (auto simp: neq_Nil_conv)

fun sanitizeLogValue ::
  "(string \<Rightarrow> url_view option) \<Rightarrow> string list \<Rightarrow> string option \<Rightarrow> string option \<Rightarrow> logval \<Rightarrow> logval" where
  "sanitizeLogValue u secrets key parentKey value =
     (if (case key of None \<Rightarrow> False | Some k \<Rightarrow> structuredKeyIsSensitive k) \<or>
         (map_option (map lower_char) key = Some ''body'' \<and>
          (map_option (map lower_char) parentKey = Some ''request'' \<or>
           map_option (map lower_char) parentKey = Some ''req''))
      then LStr REDACTED_VALUE
      else case value of
        LStr s \<Rightarrow> if stringContainsCredentials u s then LStr REDACTED_VALUE
                  else LStr (fold (\<lambda>secret t. replaceAll secret REDACTED_VALUE t) secrets s)
      | LAtom a \<Rightarrow> LAtom a
      | LSeen \<Rightarrow> LStr ''[Circular]''
      | LArr items \<Rightarrow> LArr (map (sanitizeLogValue u secrets None key) items)
      | LError name message \<Rightarrow> LObj [(''name'', LStr name), (''message'', LStr REDACTED_VALUE)]
      | LDate isoText \<Rightarrow> LStr isoText
      | LOther \<Rightarrow> LStr ''[Unsupported object]''
      | LObj entries \<Rightarrow>
          LObj (map (\<lambda>(childKey, child). (childKey, sanitizeLogValue u secrets (Some childKey) key child))
            entries))"

declare sanitizeLogValue.simps [simp del]

definition sanitizeStructuredLogValue ::
  "(string \<Rightarrow> url_view option) \<Rightarrow> string list \<Rightarrow> logval \<Rightarrow> logval" where
  "sanitizeStructuredLogValue u knownSecrets value =
     sanitizeLogValue u (filter (\<lambda>secret. 6 \<le> length secret) (remdups knownSecrets)) None None value"

text \<open>Every key/value pair of a value, at any depth.\<close>

fun log_entries :: "logval \<Rightarrow> (string \<times> logval) list" where
  "log_entries (LArr items) = concat (map log_entries items)"
| "log_entries (LObj entries) = concat (map (\<lambda>(key, child). (key, child) # log_entries child) entries)"
| "log_entries v = []"

lemma sanitize_sensitive_key:
  "structuredKeyIsSensitive k \<Longrightarrow> sanitizeLogValue u secrets (Some k) p v = LStr REDACTED_VALUE"
  by (subst sanitizeLogValue.simps) simp

lemma sanitize_entries:
  assumes "(k, v) \<in> set (log_entries (sanitizeLogValue u secrets key parentKey x))"
    and "structuredKeyIsSensitive k"
  shows "v = LStr REDACTED_VALUE"
  using assms(1)
proof (induction u secrets key parentKey x rule: sanitizeLogValue.induct)
  case (1 u secrets key parentKey x)
  let ?redact = "(case key of None \<Rightarrow> False | Some k \<Rightarrow> structuredKeyIsSensitive k) \<or>
         (map_option (map lower_char) key = Some ''body'' \<and>
          (map_option (map lower_char) parentKey = Some ''request'' \<or>
           map_option (map lower_char) parentKey = Some ''req''))"
  show ?case
  proof (cases ?redact)
    case True
    then have "sanitizeLogValue u secrets key parentKey x = LStr REDACTED_VALUE"
      by (subst sanitizeLogValue.simps) (rule if_P)
    with "1.prems" show ?thesis by simp
  next
    case False
    show ?thesis
    proof (cases x)
      case (LArr items)
      then have eq: "sanitizeLogValue u secrets key parentKey x =
          LArr (map (sanitizeLogValue u secrets None key) items)"
        using False by (subst sanitizeLogValue.simps) simp
      with "1.prems" obtain y where "y \<in> set items"
          "(k, v) \<in> set (log_entries (sanitizeLogValue u secrets None key y))"
        by auto
      with "1.IH"(1) False LArr show ?thesis by blast
    next
      case (LObj entries)
      then have eq: "sanitizeLogValue u secrets key parentKey x =
          LObj (map (\<lambda>(ck, c). (ck, sanitizeLogValue u secrets (Some ck) key c)) entries)"
        using False by (subst sanitizeLogValue.simps) simp
      with "1.prems" obtain ck c where "(ck, c) \<in> set entries" and
          kv: "(k, v) = (ck, sanitizeLogValue u secrets (Some ck) key c) \<or>
            (k, v) \<in> set (log_entries (sanitizeLogValue u secrets (Some ck) key c))"
        by auto
      then show ?thesis
        using "1.IH"(2) [OF False LObj \<open>(ck, c) \<in> set entries\<close> refl] assms(2)
          sanitize_sensitive_key by blast
    next
      case (LError name message)
      then have "sanitizeLogValue u secrets key parentKey x =
          LObj [(''name'', LStr name), (''message'', LStr REDACTED_VALUE)]"
        using False by (subst sanitizeLogValue.simps) simp
      moreover have "\<not> structuredKeyIsSensitive ''name''" "\<not> structuredKeyIsSensitive ''message''"
        by code_simp+
      ultimately show ?thesis using "1.prems" assms(2) by auto
    qed (use "1.prems" False in \<open>subst (asm) sanitizeLogValue.simps; simp split: if_splits\<close>)+
  qed
qed

subsection \<open>Properties\<close>

text \<open>C38: A structure is accepted for storage exactly when \<open>JSON.stringify\<close> has a text for it and the
  document of that text is safe: no object in it, at any depth, has a sensitive key and no string in
  it carries credentials. What is stored is that document, which passes again unchanged under every
  channel; otherwise, whether serialising threw, gave \<open>undefined\<close> or the document is unsafe, the
  error names the channel.\<close>

theorem structured_data_accepted_iff:
  "(canonicalizeSafeStructuredData u v ch = Inr j \<longleftrightarrow> serialize_value v = Inr (Some j) \<and> safe_document u j) \<and>
   (canonicalizeSafeStructuredData u v ch = Inl e \<longleftrightarrow>
      e = ch \<and> (\<nexists>d. serialize_value v = Inr (Some d) \<and> safe_document u d)) \<and>
   (canonicalizeSafeStructuredData u v ch = Inr j \<longrightarrow> canonicalizeSafeStructuredData u (js_of_json j) ch2 = Inr j)"
  by (auto simp: canonicalize_iff safe_document_iff)

theorem structured_data_accepted_iff_witness:
  "canonicalizeSafeStructuredData (\<lambda>_. None)
     (JsObject [(''a'', JsUndefined), (''b'', JsArray [JsUndefined, JsNumber None, JsString ''x'']), (''c'', JsIsoDate None)]) Audit =
     Inr (JObj [(''b'', JArr [JNull, JNull, JStr ''x'']), (''c'', JNull)]) \<and>
   canonicalizeSafeStructuredData (\<lambda>_. None) (js_of_json (JObj [(''b'', JArr [JNull, JNull, JStr ''x'']), (''c'', JNull)])) Job =
     Inr (JObj [(''b'', JArr [JNull, JNull, JStr ''x'']), (''c'', JNull)])"
proof -
  let ?v = "JsObject [(''a'', JsUndefined), (''b'', JsArray [JsUndefined, JsNumber None, JsString ''x'']), (''c'', JsIsoDate None)]"
  let ?j = "JObj [(''b'', JArr [JNull, JNull, JStr ''x'']), (''c'', JNull)]"
  have "assertSafeValue (\<lambda>_. None) ?j" by code_simp
  then have v: "canonicalizeSafeStructuredData (\<lambda>_. None) ?v Audit = Inr ?j" by (simp add: canonicalize_iff)
  from structured_data_accepted_iff [of "\<lambda>_. None" ?v Audit ?j Audit Job] v show ?thesis by blast
qed

text \<open>In a sanitised log value, whatever was logged and however deep it sits, the value under a
  sensitive key is the redaction marker.\<close>

theorem log_sanitizer_redacts:
  assumes "(k, v) \<in> set (log_entries (sanitizeStructuredLogValue u secrets x))"
    and "structuredKeyIsSensitive k"
  shows "v = LStr REDACTED_VALUE"
  using sanitize_entries [OF assms [unfolded sanitizeStructuredLogValue_def]] .

theorem log_sanitizer_redacts_witness:
  "structuredKeyIsSensitive ''apiKey'' \<and>
   {v. (''apiKey'', v) \<in> set (log_entries (sanitizeStructuredLogValue (\<lambda>_. None) []
        (LObj [(''req'', LArr [LObj [(''apiKey'', LStr ''abcdefgh'')]])])))} = {LStr REDACTED_VALUE}"
proof -
  let ?x = "LObj [(''req'', LArr [LObj [(''apiKey'', LStr ''abcdefgh'')]])]"
  have s: "structuredKeyIsSensitive ''apiKey''" "\<not> structuredKeyIsSensitive ''req''" by code_simp+
  then have "(''apiKey'', LStr REDACTED_VALUE) \<in> set (log_entries (sanitizeStructuredLogValue (\<lambda>_. None) [] ?x))"
    by (simp add: sanitizeStructuredLogValue_def sanitizeLogValue.simps)
  then show ?thesis using s(1) log_sanitizer_redacts [OF _ s(1), of _ "\<lambda>_. None" "[]" ?x] by blast
qed

end
