(* ===== verification/Outbox.thy ===== *)
theory Outbox
  imports StructuredData
begin

text \<open>
  The transactional outbox (\<^verbatim>\<open>packages/database/src/outbox-repository.ts\<close>, table
  \<^verbatim>\<open>system_outbox\<close>): domain transactions append events, workers claim batches under a lease,
  publish, fail or acknowledge them. The state is the table; every operation is one SQL statement
  and is modelled as one step on it. The locale \<open>event_sink\<close> is what the writing components rely on.
  Shown here: the lease columns stay consistent, an event is published once and for ever, two
  claims never hand out the same event while the first lease runs, a batch is the oldest claimable
  prefix, and a worker that lost its lease cannot settle the event.
\<close>

subsection \<open>The table\<close>

record outbox_row =
  ob_id :: string
  ob_eventType :: string
  ob_eventVersion :: int
  ob_aggregateType :: string
  ob_aggregateId :: string
  ob_payload :: json
  ob_occurredAt :: instant
  ob_availableAt :: instant
  ob_attempts :: nat
  ob_lockedAt :: "instant option"
  ob_lockedBy :: "string option"
  ob_leaseExpiresAt :: "instant option"
  ob_publishedAt :: "instant option"
  ob_lastError :: "string option"

record new_outbox_event =
  ev_eventType :: string
  ev_eventVersion :: int
  ev_aggregateType :: string
  ev_aggregateId :: string
  ev_payload :: json
  ev_occurredAt :: "instant option"
  ev_availableAt :: "instant option"

datatype outbox_error = UnsafePayload | InsertFailed

type_synonym outbox = "outbox_row list"

text \<open>The check constraint \<open>system_outbox_lease_expiry_required\<close>.\<close>

definition outbox_lease_check :: "outbox_row \<Rightarrow> bool" where
  "outbox_lease_check r \<longleftrightarrow> ob_lockedAt r = None \<or> ob_leaseExpiresAt r \<noteq> None"

subsection \<open>Operations\<close>

text \<open>The id is the database's random default, and \<open>clock\<close> the value of \<open>new Date()\<close>.\<close>

definition insertOutboxEvent ::
  "(string \<Rightarrow> url_view option) \<Rightarrow> string \<Rightarrow> instant \<Rightarrow> new_outbox_event \<Rightarrow> outbox \<Rightarrow>
     outbox_error + (outbox \<times> string)" where
  "insertOutboxEvent u newId clock event t =
     (let occurredAt = (case ev_occurredAt event of None \<Rightarrow> clock | Some d \<Rightarrow> d)
      in case canonicalizeSafeStructuredData u (js_of_json (ev_payload event)) channel.Outbox of
           Inl _ \<Rightarrow> Inl UnsafePayload
         | Inr payload \<Rightarrow>
             if newId \<in> ob_id ` set t then Inl InsertFailed
             else Inr (t @ [\<lparr>ob_id = newId, ob_eventType = ev_eventType event,
                 ob_eventVersion = ev_eventVersion event, ob_aggregateType = ev_aggregateType event,
                 ob_aggregateId = ev_aggregateId event, ob_payload = payload,
                 ob_occurredAt = occurredAt,
                 ob_availableAt = (case ev_availableAt event of None \<Rightarrow> occurredAt | Some d \<Rightarrow> d),
                 ob_attempts = 0, ob_lockedAt = None, ob_lockedBy = None, ob_leaseExpiresAt = None,
                 ob_publishedAt = None, ob_lastError = None\<rparr>], newId))"

text \<open>The \<open>where\<close> and \<open>set\<close> clauses of the claiming statement. \<open>rowLocked\<close> are the rows another
  transaction holds, which \<open>for update skip locked\<close> passes over.\<close>

definition outbox_claimable :: "instant \<Rightarrow> outbox_row \<Rightarrow> bool" where
  "outbox_claimable now r \<longleftrightarrow>
     ob_publishedAt r = None \<and> ob_availableAt r \<le> now \<and>
     ((ob_lockedAt r = None \<and> ob_leaseExpiresAt r = None) \<or>
      (case ob_leaseExpiresAt r of None \<Rightarrow> False | Some e \<Rightarrow> e \<le> now))"

definition outbox_claim :: "string \<Rightarrow> instant \<Rightarrow> int \<Rightarrow> outbox_row \<Rightarrow> outbox_row" where
  "outbox_claim workerId now leaseMs r =
     r\<lparr>ob_lockedAt := Some now, ob_lockedBy := Some workerId,
       ob_leaseExpiresAt := Some (now + leaseMs), ob_attempts := ob_attempts r + 1\<rparr>"

definition outbox_candidates :: "(string \<Rightarrow> bool) \<Rightarrow> nat \<Rightarrow> instant \<Rightarrow> outbox \<Rightarrow> outbox" where
  "outbox_candidates rowLocked limit now t =
     take limit (sort_key (\<lambda>r. (ob_occurredAt r, ob_id r))
       (filter (\<lambda>r. outbox_claimable now r \<and> \<not> rowLocked (ob_id r)) t))"

definition claimOutboxBatch ::
  "(string \<Rightarrow> bool) \<Rightarrow> string \<Rightarrow> nat \<Rightarrow> int \<Rightarrow> instant \<Rightarrow> outbox \<Rightarrow> outbox \<times> outbox_row list" where
  "claimOutboxBatch rowLocked workerId limit leaseMs now t =
     (let ids = map ob_id (outbox_candidates rowLocked limit now t)
      in (rows_update (\<lambda>r. ob_id r \<in> set ids) (outbox_claim workerId now leaseMs) t,
          map (outbox_claim workerId now leaseMs) (filter (\<lambda>r. ob_id r \<in> set ids) t)))"

text \<open>\<open>lockedAt\<close>, \<open>lockedBy\<close> and \<open>leaseExpiresAt\<close> are always cleared together.\<close>

definition outbox_unlock :: "outbox_row \<Rightarrow> outbox_row" where
  "outbox_unlock r = r\<lparr>ob_lockedAt := None, ob_lockedBy := None, ob_leaseExpiresAt := None\<rparr>"

text \<open>The fence of a settling worker: the event is unpublished and still locked by it.\<close>

definition outbox_owned :: "string \<Rightarrow> string \<Rightarrow> outbox_row \<Rightarrow> bool" where
  "outbox_owned eventId workerId r \<longleftrightarrow>
     ob_id r = eventId \<and> ob_lockedBy r = Some workerId \<and> ob_publishedAt r = None"

definition markOutboxPublished :: "string \<Rightarrow> string \<Rightarrow> instant \<Rightarrow> outbox \<Rightarrow> outbox \<times> bool" where
  "markOutboxPublished eventId workerId publishedAt t =
     (rows_update (outbox_owned eventId workerId)
        (\<lambda>r. (outbox_unlock r)\<lparr>ob_publishedAt := Some publishedAt\<rparr>) t,
      length (filter (outbox_owned eventId workerId) t) = 1)"

definition acknowledgeOutboxEvent :: "string \<Rightarrow> instant \<Rightarrow> outbox \<Rightarrow> outbox \<times> bool" where
  "acknowledgeOutboxEvent eventId publishedAt t =
     (let pending = (\<lambda>r. ob_id r = eventId \<and> ob_publishedAt r = None);
          t' = rows_update pending (\<lambda>r. (outbox_unlock r)\<lparr>ob_publishedAt := Some publishedAt\<rparr>) t
      in (t', if length (filter pending t) = 1 then True
              else length (take 1 (filter (\<lambda>r. ob_id r = eventId \<and> ob_publishedAt r \<noteq> None) t')) = 1))"

definition markOutboxFailed :: "string \<Rightarrow> string \<Rightarrow> string \<Rightarrow> instant \<Rightarrow> outbox \<Rightarrow> outbox \<times> bool" where
  "markOutboxFailed eventId workerId error nextAttemptAt t =
     (rows_update (outbox_owned eventId workerId)
        (\<lambda>r. (outbox_unlock r)\<lparr>ob_availableAt := nextAttemptAt, ob_lastError := Some (take 2000 error)\<rparr>) t,
      length (filter (outbox_owned eventId workerId) t) = 1)"

definition releaseExpiredOutboxLeases :: "instant \<Rightarrow> outbox \<Rightarrow> outbox \<times> nat" where
  "releaseExpiredOutboxLeases now t =
     (let expired = (\<lambda>r. ob_publishedAt r = None \<and>
            (case ob_leaseExpiresAt r of None \<Rightarrow> False | Some e \<Rightarrow> e \<le> now))
      in (rows_update expired outbox_unlock t, length (filter expired t)))"

lemmas outbox_op_defs =
  claimOutboxBatch_def markOutboxPublished_def acknowledgeOutboxEvent_def markOutboxFailed_def
  releaseExpiredOutboxLeases_def

lemma outbox_row_id_simps [table_simps]:
  "ob_id (outbox_claim w now ms r) = ob_id r"
  "ob_id (outbox_unlock r) = ob_id r"
  "ob_publishedAt (outbox_unlock r) = ob_publishedAt r"
  "ob_publishedAt (outbox_claim w now ms r) = ob_publishedAt r"
  by (simp_all add: outbox_claim_def outbox_unlock_def)

subsection \<open>Interface: an event sink\<close>

text \<open>What a writing component relies on: a successful \<open>emit\<close> adds one pending event under an id
  that was not in use, and nothing else.\<close>

locale event_sink =
  fixes emit :: "'k \<Rightarrow> 'e \<Rightarrow> 't \<Rightarrow> 'x + 't"
    and known :: "'t \<Rightarrow> 'k set"
    and pending :: "'t \<Rightarrow> 'k set"
  assumes emit_fresh: "emit k e t = Inr t' \<Longrightarrow> k \<notin> known t"
    and emit_known: "emit k e t = Inr t' \<Longrightarrow> known t' = insert k (known t)"
    and emit_pending: "emit k e t = Inr t' \<Longrightarrow> pending t' = insert k (pending t)"
begin

lemma emit_twice:
  assumes "emit k e t = Inr t'" "emit k' e' t' = Inr t''"
  shows "k \<noteq> k'" "known t'' = {k, k'} \<union> known t" "pending t'' = {k, k'} \<union> pending t"
  using assms emit_fresh [OF assms(2)] emit_known [OF assms(1)] emit_known [OF assms(2)]
    emit_pending [OF assms(1)] emit_pending [OF assms(2)] by auto

lemma emit_not_idempotent: "emit k e t = Inr t' \<Longrightarrow> \<exists>x. emit k e' t' = Inl x"
  by (metis emit_fresh emit_known insertI1 obj_sumE)

end

definition outbox_ids :: "outbox \<Rightarrow> string set" where
  "outbox_ids t = ob_id ` set t"

definition outbox_pending :: "outbox \<Rightarrow> string set" where
  "outbox_pending t = ob_id ` set (filter (\<lambda>r. ob_publishedAt r = None) t)"

lemma insertOutboxEvent_Inr:
  "insertOutboxEvent u k clock e t = Inr (t', k') \<Longrightarrow>
     k' = k \<and> k \<notin> ob_id ` set t \<and> assertSafeValue u (ev_payload e) \<and>
     (\<exists>r. t' = t @ [r] \<and> ob_id r = k \<and> ob_publishedAt r = None \<and> ob_lockedAt r = None \<and>
        ob_lockedBy r = None \<and> ob_leaseExpiresAt r = None \<and> ob_attempts r = 0 \<and>
        ob_eventType r = ev_eventType e \<and> ob_aggregateId r = ev_aggregateId e \<and>
        ob_payload r = ev_payload e)"
  by (auto simp: insertOutboxEvent_def canonicalize_plain Let_def split: if_splits)

definition emit_event ::
  "(string \<Rightarrow> url_view option) \<Rightarrow> instant \<Rightarrow> string \<Rightarrow> new_outbox_event \<Rightarrow> outbox \<Rightarrow> outbox_error + outbox" where
  "emit_event u clock k e t = map_sum id fst (insertOutboxEvent u k clock e t)"

lemma emit_event_Inr:
  "emit_event u clock k e t = Inr t' \<longleftrightarrow> insertOutboxEvent u k clock e t = Inr (t', k)"
  by (cases "insertOutboxEvent u k clock e t")
    (auto simp: emit_event_def dest: insertOutboxEvent_Inr)

interpretation sink: event_sink "emit_event u clock" outbox_ids outbox_pending for u clock
  by unfold_locales
    (auto simp: emit_event_Inr outbox_ids_def outbox_pending_def dest!: insertOutboxEvent_Inr)

subsection \<open>Leases\<close>

definition outbox_leased :: "instant \<Rightarrow> outbox_row \<Rightarrow> bool" where
  "outbox_leased now r \<longleftrightarrow> (case ob_leaseExpiresAt r of None \<Rightarrow> False | Some e \<Rightarrow> now < e)"

interpretation ob: leased_rows ob_id outbox_leased "\<lambda>r. ob_publishedAt r \<noteq> None" outbox_claimable outbox_claim
  by unfold_locales
    (auto simp: outbox_claimable_def outbox_leased_def outbox_claim_def split: option.splits)

lemma outbox_candidates_in:
  "r \<in> set (outbox_candidates lk n now t) \<Longrightarrow>
     r \<in> set t \<and> outbox_claimable now r \<and> \<not> lk (ob_id r)"
  by (auto simp: outbox_candidates_def dest!: in_set_takeD)

text \<open>With a primary key, a row is updated by the batch iff it is one of the candidates.\<close>

lemma candidate_id_iff:
  assumes "distinct (map ob_id t)" "r \<in> set t"
  shows "ob_id r \<in> ob_id ` set (outbox_candidates lk n now t) \<longleftrightarrow>
    r \<in> set (outbox_candidates lk n now t)"
proof
  assume "ob_id r \<in> ob_id ` set (outbox_candidates lk n now t)"
  then obtain r' where r': "r' \<in> set (outbox_candidates lk n now t)" "ob_id r = ob_id r'"
    by auto
  then have "r' \<in> set t" using outbox_candidates_in by blast
  with assms r' have "r = r'" using distinct_key_eq [of ob_id t r r'] by simp
  with r'(1) show "r \<in> set (outbox_candidates lk n now t)" by simp
qed simp

lemma claimed_row:
  assumes "distinct (map ob_id t)" "r \<in> set (snd (claimOutboxBatch lk w n ms now t))"
  shows "\<exists>r0 \<in> set t. r0 \<in> set (outbox_candidates lk n now t) \<and> r = outbox_claim w now ms r0"
proof -
  from assms(2) obtain r0 where r0: "r0 \<in> set t" "r = outbox_claim w now ms r0"
      "ob_id r0 \<in> ob_id ` set (outbox_candidates lk n now t)"
    by (auto simp: claimOutboxBatch_def)
  then have "r0 \<in> set (outbox_candidates lk n now t)"
    using candidate_id_iff [OF assms(1)] by blast
  with r0 show ?thesis by blast
qed

lemma claimed_length:
  assumes "distinct (map ob_id t)"
  shows "length (snd (claimOutboxBatch lk w n ms now t)) =
    min n (length (filter (\<lambda>r. outbox_claimable now r \<and> \<not> lk (ob_id r)) t))"
proof -
  let ?c = "outbox_candidates lk n now t"
  let ?p = "\<lambda>r. ob_id r \<in> ob_id ` set ?c"
  have d: "distinct t" using assms by (simp add: distinct_map)
  then have dc: "distinct ?c"
    by (simp add: outbox_candidates_def)
  have "set (filter ?p t) = set ?c"
    using candidate_id_iff [OF assms] outbox_candidates_in by fastforce
  then have "length (filter ?p t) = length ?c"
    using d dc by (metis distinct_card distinct_filter)
  then show ?thesis
    by (simp add: claimOutboxBatch_def outbox_candidates_def min.commute)
qed

subsection \<open>Reachable tables\<close>

inductive outbox_step :: "outbox \<Rightarrow> outbox \<Rightarrow> bool" where
  step_insert: "insertOutboxEvent u k clock e t = Inr (t', k) \<Longrightarrow> outbox_step t t'"
| step_claim: "outbox_step t (fst (claimOutboxBatch lk w n ms now t))"
| step_published: "outbox_step t (fst (markOutboxPublished k w at t))"
| step_acknowledged: "outbox_step t (fst (acknowledgeOutboxEvent k at t))"
| step_failed: "outbox_step t (fst (markOutboxFailed k w err next t))"
| step_released: "outbox_step t (fst (releaseExpiredOutboxLeases now t))"

text \<open>The three lease columns are set and cleared together, and a published row carries none.\<close>

definition outbox_row_inv :: "outbox_row \<Rightarrow> bool" where
  "outbox_row_inv r \<longleftrightarrow>
     (ob_lockedAt r = None \<longleftrightarrow> ob_lockedBy r = None) \<and>
     (ob_lockedAt r = None \<longleftrightarrow> ob_leaseExpiresAt r = None) \<and>
     (ob_publishedAt r \<noteq> None \<longrightarrow> ob_lockedAt r = None)"

definition outbox_inv :: "outbox \<Rightarrow> bool" where
  "outbox_inv t \<longleftrightarrow> distinct (map ob_id t) \<and> list_all outbox_row_inv t"

text \<open>Every statement but the insert is a row update that keeps ids and publications.\<close>

lemma outbox_step_shape:
  assumes "outbox_step t t'"
  shows "(\<exists>r. t' = t @ [r] \<and> ob_id r \<notin> ob_id ` set t \<and> outbox_row_inv r \<and> ob_publishedAt r = None) \<or>
    (\<exists>p f. t' = rows_update p f t \<and>
      (\<forall>r. p r \<longrightarrow> ob_id (f r) = ob_id r \<and> (ob_publishedAt r \<noteq> None \<longrightarrow> ob_publishedAt (f r) = ob_publishedAt r)) \<and>
      (\<forall>r \<in> set t. p r \<longrightarrow> distinct (map ob_id t) \<longrightarrow> outbox_row_inv (f r)))"
    (is "?ins \<or> ?upd t t'")
  using assms
proof cases
  case (step_insert u k clock e)
  then show ?thesis
    by (auto simp: outbox_row_inv_def dest!: insertOutboxEvent_Inr)
next
  case (step_claim lk w n ms now)
  have "outbox_row_inv (outbox_claim w now ms r)"
    if "r \<in> set t" "ob_id r \<in> ob_id ` set (outbox_candidates lk n now t)" "distinct (map ob_id t)" for r
    using that candidate_id_iff [of t r] outbox_candidates_in [of r]
    by (auto simp: outbox_row_inv_def outbox_claim_def outbox_claimable_def)
  then have "?upd t t'"
    unfolding step_claim claimOutboxBatch_def Let_def fst_conv set_map
    by (intro exI conjI refl) (auto simp: table_simps)
  then show ?thesis ..
next
  case (step_published k w at)
  have "?upd t t'"
    unfolding step_published markOutboxPublished_def fst_conv
    by (intro exI conjI refl) (auto simp: outbox_owned_def outbox_row_inv_def outbox_unlock_def)
  then show ?thesis ..
next
  case (step_acknowledged k at)
  have "?upd t t'"
    unfolding step_acknowledged acknowledgeOutboxEvent_def Let_def fst_conv
    by (intro exI conjI refl) (auto simp: outbox_row_inv_def outbox_unlock_def)
  then show ?thesis ..
next
  case (step_failed k w err "next")
  have "?upd t t'"
    unfolding step_failed markOutboxFailed_def fst_conv
    by (intro exI conjI refl) (auto simp: outbox_owned_def outbox_row_inv_def outbox_unlock_def)
  then show ?thesis ..
next
  case (step_released now)
  have "?upd t t'"
    unfolding step_released releaseExpiredOutboxLeases_def Let_def fst_conv
    by (intro exI conjI refl) (auto simp: outbox_row_inv_def outbox_unlock_def)
  then show ?thesis ..
qed

lemma outbox_step_inv: "outbox_step t t' \<Longrightarrow> outbox_inv t \<Longrightarrow> outbox_inv t'"
proof (drule outbox_step_shape, elim disjE exE conjE)
  fix p f
  assume inv: "outbox_inv t" and t': "t' = rows_update p f t"
    and keep: "\<forall>r. p r \<longrightarrow> ob_id (f r) = ob_id r \<and>
      (ob_publishedAt r \<noteq> None \<longrightarrow> ob_publishedAt (f r) = ob_publishedAt r)"
    and row: "\<forall>r \<in> set t. p r \<longrightarrow> distinct (map ob_id t) \<longrightarrow> outbox_row_inv (f r)"
  have "map ob_id t' = map ob_id t"
    unfolding t' by (rule map_key_rows_update) (use keep in blast)
  moreover have "list_all outbox_row_inv t'"
    using inv row by (auto simp: t' outbox_inv_def list_all_iff in_rows_update_iff)
  ultimately show "outbox_inv t'"
    using inv by (simp add: outbox_inv_def)
qed (auto simp: outbox_inv_def)

interpretation outbox: inv_system "\<lambda>t. t = []" outbox_step outbox_inv
  by unfold_locales (simp add: outbox_inv_def, rule outbox_step_inv)

lemma outbox_step_published:
  assumes "outbox_step t t'" "r \<in> set t" "ob_publishedAt r = Some at"
  shows "\<exists>r' \<in> set t'. ob_id r' = ob_id r \<and> ob_publishedAt r' = Some at"
  using outbox_step_shape [OF assms(1)]
proof (elim disjE exE conjE)
  fix p f
  assume t': "t' = rows_update p f t"
    and keep: "\<forall>r. p r \<longrightarrow> ob_id (f r) = ob_id r \<and>
      (ob_publishedAt r \<noteq> None \<longrightarrow> ob_publishedAt (f r) = ob_publishedAt r)"
  have "(if p r then f r else r) \<in> set t'"
    using assms(2) by (auto simp: t' in_rows_update_iff)
  then show ?thesis using keep assms(3) by (intro bexI) auto
qed (use assms in auto)

subsection \<open>Properties\<close>

definition sample_event :: new_outbox_event where
  "sample_event = \<lparr>ev_eventType = ''creator.application.submitted.v1'', ev_eventVersion = 1,
     ev_aggregateType = ''creator_application'', ev_aggregateId = ''a1'',
     ev_payload = JObj [(''applicationId'', JStr ''a1'')], ev_occurredAt = Some 5, ev_availableAt = None\<rparr>"

definition sample_row :: "string \<Rightarrow> outbox_row" where
  "sample_row k = \<lparr>ob_id = k, ob_eventType = ''creator.application.submitted.v1'', ob_eventVersion = 1,
     ob_aggregateType = ''creator_application'', ob_aggregateId = ''a1'',
     ob_payload = JObj [(''applicationId'', JStr ''a1'')], ob_occurredAt = 5, ob_availableAt = 5,
     ob_attempts = 0, ob_lockedAt = None, ob_lockedBy = None, ob_leaseExpiresAt = None,
     ob_publishedAt = None, ob_lastError = None\<rparr>"

lemma sample_insert: "outbox_step [] [sample_row ''e1'']"
proof (rule step_insert)
  have "assertSafeValue (\<lambda>_. None) (JObj [(''applicationId'', JStr ''a1'')])" by code_simp
  then show "insertOutboxEvent (\<lambda>_. None) ''e1'' 0 sample_event [] = Inr ([sample_row ''e1''], ''e1'')"
    by (simp add: insertOutboxEvent_def sample_event_def sample_row_def canonicalize_plain)
qed

lemma sample_claim:
  "claimOutboxBatch (\<lambda>_. False) ''w1'' 10 30 6 [sample_row ''e1''] =
     ([outbox_claim ''w1'' 6 30 (sample_row ''e1'')], [outbox_claim ''w1'' 6 30 (sample_row ''e1'')])"
  by (simp add: claimOutboxBatch_def outbox_candidates_def outbox_claimable_def sample_row_def
      rows_update_def)

text \<open>In every table reachable from the empty one, ids are unique, the three lease columns are
  set or cleared together (so the database's lease check holds), and a published event is unlocked.\<close>

theorem outbox_reachable_consistent:
  assumes "rtranclp outbox_step [] t"
  shows "distinct (map ob_id t) \<and> list_all outbox_row_inv t \<and> list_all outbox_lease_check t"
proof -
  have "outbox_inv t" using outbox.reach_inv [of "[]" t] assms by simp
  then show ?thesis
    by (auto simp: outbox_inv_def list_all_iff outbox_row_inv_def outbox_lease_check_def)
qed

theorem outbox_reachable_consistent_witness:
  "rtranclp outbox_step [] [outbox_claim ''w1'' 6 30 (sample_row ''e1'')] \<and>
   list_all outbox_row_inv [outbox_claim ''w1'' 6 30 (sample_row ''e1'')]"
proof -
  have "outbox_step [sample_row ''e1''] [outbox_claim ''w1'' 6 30 (sample_row ''e1'')]"
    using step_claim [of "[sample_row ''e1'']" "\<lambda>_. False" "''w1''" 10 30 6] by (simp add: sample_claim)
  with sample_insert have r: "rtranclp outbox_step [] [outbox_claim ''w1'' 6 30 (sample_row ''e1'')]"
    by (meson converse_rtranclp_into_rtranclp rtranclp.rtrancl_refl)
  show ?thesis using r outbox_reachable_consistent [OF r] by simp
qed

text \<open>Publication is permanent: whatever sequence of statements runs afterwards, an event
  published at some instant is still in the table, under the same id, with that instant.\<close>

theorem outbox_published_forever:
  assumes "rtranclp outbox_step t t'" "r \<in> set t" "ob_publishedAt r = Some at"
  shows "\<exists>r' \<in> set t'. ob_id r' = ob_id r \<and> ob_publishedAt r' = Some at"
  using assms
proof (induction rule: rtranclp_induct)
  case (step u v)
  then obtain r' where "r' \<in> set u" "ob_id r' = ob_id r" "ob_publishedAt r' = Some at" by auto
  with outbox_step_published [OF step.hyps(2)] show ?case by metis
qed auto

theorem outbox_published_forever_witness:
  "\<exists>r' \<in> set (fst (claimOutboxBatch (\<lambda>_. False) ''w2'' 5 30 100
        (fst (acknowledgeOutboxEvent ''e1'' 50 [sample_row ''e1''])))).
     ob_id r' = ''e1'' \<and> ob_publishedAt r' = Some 50"
proof -
  let ?t = "fst (acknowledgeOutboxEvent ''e1'' 50 [sample_row ''e1''])"
  let ?r = "(sample_row ''e1'')\<lparr>ob_publishedAt := Some 50\<rparr>"
  have t: "?t = [?r]"
    by (simp add: acknowledgeOutboxEvent_def rows_update_def sample_row_def outbox_unlock_def)
  have "rtranclp outbox_step ?t (fst (claimOutboxBatch (\<lambda>_. False) ''w2'' 5 30 100 ?t))"
    by (rule r_into_rtranclp) (rule step_claim)
  moreover have "?r \<in> set ?t" "ob_publishedAt ?r = Some 50" "ob_id ?r = ''e1''"
    unfolding t by (simp_all add: sample_row_def)
  ultimately show ?thesis using outbox_published_forever [of ?t _ ?r 50] by simp
qed

text \<open>C25: Two batches never share an event while the first lease runs: whatever worker claims
  before \<open>now + leaseMs\<close>, its batch is disjoint from the batch claimed at \<open>now\<close>.\<close>

theorem outbox_batches_disjoint:
  assumes keys: "distinct (map ob_id t)"
    and first: "claimOutboxBatch lk w n ms now t = (t', batch)"
    and second: "claimOutboxBatch lk' w' n' ms' now' t' = (t'', batch')"
    and time: "now' < now + ms"
  shows "ob_id ` set batch \<inter> ob_id ` set batch' = {}"
proof -
  let ?p = "\<lambda>r. ob_id r \<in> ob_id ` set (outbox_candidates lk n now t)"
  have t': "t' = rows_update ?p (outbox_claim w now ms) t"
    using first by (auto simp: claimOutboxBatch_def Let_def)
  have keys': "distinct (map ob_id t')"
    using keys by (simp only: t' ob.keys_after_claim)
  have "ob_id b' \<noteq> ob_id b" if b: "b \<in> set batch" and b': "b' \<in> set batch'" for b b'
  proof -
    from b first obtain r where r: "r \<in> set t" "?p r" "b = outbox_claim w now ms r"
      by (auto simp: claimOutboxBatch_def Let_def)
    from b' second have "b' \<in> set (snd (claimOutboxBatch lk' w' n' ms' now' t'))" by simp
    then obtain r' where r': "r' \<in> set t'" "r' \<in> set (outbox_candidates lk' n' now' t')"
        "b' = outbox_claim w' now' ms' r'"
      using claimed_row [OF keys'] by blast
    then have "outbox_claimable now' r'" using outbox_candidates_in by blast
    then have "ob_id r' \<noteq> ob_id r"
      using ob.claims_disjoint [OF keys _ _ time r(1), of r' ?p w] r(2) r'(1) unfolding t' by blast
    then show ?thesis by (simp add: r(3) r'(3) table_simps)
  qed
  then show ?thesis by fastforce
qed

theorem outbox_batches_disjoint_witness:
  "snd (claimOutboxBatch (\<lambda>_. False) ''w1'' 10 30 6 [sample_row ''e1'']) \<noteq> [] \<and>
   ob_id ` set (snd (claimOutboxBatch (\<lambda>_. False) ''w1'' 10 30 6 [sample_row ''e1''])) \<inter>
   ob_id ` set (snd (claimOutboxBatch (\<lambda>_. False) ''w2'' 10 30 35
     (fst (claimOutboxBatch (\<lambda>_. False) ''w1'' 10 30 6 [sample_row ''e1''])))) = {}"
  using outbox_batches_disjoint [of "[sample_row ''e1'']" "\<lambda>_. False" "''w1''" 10 30 6 _ _
      "\<lambda>_. False" "''w2''" 10 30 35, OF _ prod.collapse [symmetric] prod.collapse [symmetric]]
  by (simp add: sample_claim)

lemma batch_row:
  assumes "distinct (map ob_id t)" "claimOutboxBatch lk w n ms now t = (t', batch)" "b \<in> set batch"
  shows "b \<in> set t' \<and> ob_lockedBy b = Some w \<and> ob_leaseExpiresAt b = Some (now + ms) \<and>
      (\<exists>r \<in> set t. b = outbox_claim w now ms r \<and> outbox_claimable now r)"
proof -
  have "b \<in> set (snd (claimOutboxBatch lk w n ms now t))" using assms(2,3) by simp
  then obtain r0 where r0: "r0 \<in> set t" "r0 \<in> set (outbox_candidates lk n now t)"
      "b = outbox_claim w now ms r0"
    using claimed_row [OF assms(1)] by blast
  then have "b \<in> set t'"
    using assms(2) by (auto simp: claimOutboxBatch_def Let_def intro!: rows_updateI)
  with r0 show ?thesis
    using outbox_candidates_in [OF r0(2)] by (auto simp: outbox_claim_def)
qed

lemma batch_order:
  assumes keys: "distinct (map ob_id t)" and claim: "claimOutboxBatch lk w n ms now t = (t', batch)"
    and b: "b \<in> set batch" and r: "r \<in> set t" "outbox_claimable now r" "\<not> lk (ob_id r)"
      "ob_id r \<notin> ob_id ` set batch"
  shows "(ob_occurredAt b, ob_id b) \<le> (ob_occurredAt r, ob_id r)"
proof -
  let ?k = "\<lambda>r. (ob_occurredAt r, ob_id r)"
  let ?s = "sort_key ?k (filter (\<lambda>r. outbox_claimable now r \<and> \<not> lk (ob_id r)) t)"
  have "b \<in> set (snd (claimOutboxBatch lk w n ms now t))" using claim b by simp
  then obtain r0 where r0: "r0 \<in> set (outbox_candidates lk n now t)" "b = outbox_claim w now ms r0"
    using claimed_row [OF keys] by blast
  have "r \<notin> set (outbox_candidates lk n now t)"
  proof
    assume "r \<in> set (outbox_candidates lk n now t)"
    then have "outbox_claim w now ms r \<in> set batch"
      using r(1) claim by (auto simp: claimOutboxBatch_def Let_def)
    then have "ob_id r \<in> ob_id ` set batch"
      by (metis imageI outbox_row_id_simps(1))
    with r(4) show False by simp
  qed
  moreover have "r \<in> set ?s" using r by simp
  moreover have "set ?s = set (take n ?s) \<union> set (drop n ?s)"
    by (metis append_take_drop_id set_append)
  ultimately have "r \<in> set (drop n ?s)"
    unfolding outbox_candidates_def by blast
  moreover have "r0 \<in> set (take n ?s)"
    using r0(1) by (simp add: outbox_candidates_def)
  ultimately have "?k r0 \<le> ?k r"
    using sorted_take_drop_le [of ?k ?s r0 n r] by simp
  then show ?thesis by (simp add: r0(2) outbox_claim_def)
qed

text \<open>A batch is the oldest part of the queue: it has as many events as the limit and the
  claimable, unlocked rows allow, each returned row is leased to the worker until
  \<open>now + leaseMs\<close>, and any claimable row left behind comes after every row of the batch in the
  order of \<open>occurred_at\<close> and id.\<close>

theorem outbox_batch_is_oldest:
  assumes keys: "distinct (map ob_id t)"
    and claim: "claimOutboxBatch lk w n ms now t = (t', batch)"
  shows "length batch = min n (length (filter (\<lambda>r. outbox_claimable now r \<and> \<not> lk (ob_id r)) t)) \<and>
    (\<forall>b \<in> set batch. b \<in> set t' \<and> ob_lockedBy b = Some w \<and> ob_leaseExpiresAt b = Some (now + ms) \<and>
      (\<exists>r \<in> set t. b = outbox_claim w now ms r \<and> outbox_claimable now r)) \<and>
    (\<forall>b \<in> set batch. \<forall>r \<in> set t. outbox_claimable now r \<and> \<not> lk (ob_id r) \<and> ob_id r \<notin> ob_id ` set batch
       \<longrightarrow> (ob_occurredAt b, ob_id b) \<le> (ob_occurredAt r, ob_id r))"
  using claimed_length [OF keys, of lk w n ms now] batch_row [OF keys claim] batch_order [OF keys claim] claim
  by simp

theorem outbox_batch_is_oldest_witness:
  "length (snd (claimOutboxBatch (\<lambda>_. False) ''w1'' 1 30 6
      [(sample_row ''e2'')\<lparr>ob_occurredAt := 6\<rparr>, sample_row ''e1''])) = 1 \<and>
   snd (claimOutboxBatch (\<lambda>_. False) ''w1'' 1 30 6
      [(sample_row ''e2'')\<lparr>ob_occurredAt := 6\<rparr>, sample_row ''e1'']) =
     [outbox_claim ''w1'' 6 30 (sample_row ''e1'')]"
proof -
  let ?t = "[(sample_row ''e2'')\<lparr>ob_occurredAt := 6\<rparr>, sample_row ''e1'']"
  have d: "distinct (map ob_id ?t)" by (simp add: sample_row_def)
  show ?thesis
    using outbox_batch_is_oldest [OF d prod.collapse [symmetric], of "\<lambda>_. False" "''w1''" 1 30 6]
    by (simp add: claimOutboxBatch_def outbox_candidates_def outbox_claimable_def sample_row_def)
qed

text \<open>A worker that lost its lease is fenced off: once another worker has claimed the event,
  neither the publication nor the failure the first one reports changes anything, and both
  answer false.\<close>

theorem outbox_stale_worker_fenced:
  assumes keys: "distinct (map ob_id t)"
    and claim: "claimOutboxBatch lk w n ms now t = (t', batch)" "k \<in> ob_id ` set batch"
    and other: "w' \<noteq> w"
  shows "markOutboxPublished k w' at t' = (t', False) \<and> markOutboxFailed k w' err nxt t' = (t', False)"
proof -
  obtain b where b: "b \<in> set t'" "ob_id b = k" "ob_lockedBy b = Some w"
    using batch_row [OF keys claim(1)] claim(2) by auto
  have "distinct (map ob_id t')"
    using keys claim(1) ob.keys_after_claim by (auto simp: claimOutboxBatch_def Let_def)
  then have "\<not> outbox_owned k w' r" if "r \<in> set t'" for r
    using that b other distinct_key_eq [of ob_id t' r b] by (auto simp: outbox_owned_def)
  then show ?thesis
    by (simp add: markOutboxPublished_def markOutboxFailed_def rows_update_noop filter_empty_conv
        length_0_conv [symmetric] del: length_0_conv)
qed

theorem outbox_stale_worker_fenced_witness:
  "markOutboxPublished ''e1'' ''w0'' 9 [outbox_claim ''w1'' 6 30 (sample_row ''e1'')] =
     ([outbox_claim ''w1'' 6 30 (sample_row ''e1'')], False)"
  using outbox_stale_worker_fenced [OF _ sample_claim, of "''e1''" "''w0''" 9]
  by (simp add: sample_row_def outbox_claim_def)

text \<open>Acknowledging is idempotent: it answers true exactly when the event exists, leaves it
  published, and repeating it at any later instant answers the same and changes nothing.\<close>

theorem outbox_acknowledge_idempotent:
  assumes "distinct (map ob_id t)" "acknowledgeOutboxEvent k at t = (t', ok)"
  shows "(ok \<longleftrightarrow> k \<in> ob_id ` set t) \<and> acknowledgeOutboxEvent k at' t' = (t', ok)"
proof -
  let ?p = "\<lambda>r. ob_id r = k \<and> ob_publishedAt r = None"
  let ?f = "\<lambda>r. (outbox_unlock r)\<lparr>ob_publishedAt := Some at\<rparr>"
  have t': "t' = rows_update ?p ?f t"
    using assms(2) by (simp add: acknowledgeOutboxEvent_def Let_def)
  have none: "\<not> ?p r" if "r \<in> set t'" for r
    using that unfolding t' by (rule rows_update_all [rotated, where q = "\<lambda>r. \<not> ?p r"]) simp
  let ?q = "\<lambda>r. ob_id r = k \<and> ob_publishedAt r \<noteq> None"
  have le: "length (filter ?p t) \<le> 1"
    by (rule filter_key_le_1 [OF assms(1)])
  have "map ob_id t' = map ob_id t"
    unfolding t' by (rule map_key_rows_update) (simp add: table_simps)
  then have ids: "ob_id ` set t' = ob_id ` set t"
    by (metis set_map)
  have q: "filter ?q t' \<noteq> [] \<longleftrightarrow> k \<in> ob_id ` set t"
    using none by (auto simp: filter_empty_conv simp flip: ids)
  then have q1: "length (take 1 (filter ?q t')) = 1 \<longleftrightarrow> k \<in> ob_id ` set t"
    by (cases "filter ?q t'") auto
  have "ok = (if length (filter ?p t) = 1 then True else length (take 1 (filter ?q t')) = 1)"
    using assms(2) unfolding acknowledgeOutboxEvent_def Let_def t' prod.inject by blast
  then have "ok \<longleftrightarrow> length (filter ?p t) = 1 \<or> k \<in> ob_id ` set t"
    using q1 by presburger
  moreover have "length (filter ?p t) = 1 \<Longrightarrow> k \<in> ob_id ` set t"
    by (metis (mono_tags, lifting) filter_empty_conv imageI length_0_conv zero_neq_one)
  ultimately have ok: "ok \<longleftrightarrow> k \<in> ob_id ` set t" by blast
  have "filter ?p t' = []" using none by (simp add: filter_empty_conv)
  then have "acknowledgeOutboxEvent k at' t' = (t', k \<in> ob_id ` set t)"
    using q1 none by (simp add: acknowledgeOutboxEvent_def rows_update_noop)
  with ok show ?thesis by simp
qed

theorem outbox_acknowledge_idempotent_witness:
  "snd (acknowledgeOutboxEvent ''e1'' 50 [sample_row ''e1'']) \<and>
   acknowledgeOutboxEvent ''e1'' 90 (fst (acknowledgeOutboxEvent ''e1'' 50 [sample_row ''e1''])) =
   acknowledgeOutboxEvent ''e1'' 50 [sample_row ''e1'']"
  using outbox_acknowledge_idempotent [OF _ prod.collapse [symmetric], of "[sample_row ''e1'']" "''e1''" 50 90]
  by (simp add: sample_row_def)

end
