(* ===== verification/Idempotency.thy ===== *)
theory Idempotency
  imports StructuredData
begin

text \<open>
  Command idempotency records (\<^verbatim>\<open>packages/database/src/idempotency-repository.ts\<close>, table
  \<^verbatim>\<open>system_command_idempotency\<close>). A command begins by inserting a record for its actor, scope and
  key; when one exists the answer is in progress, replay, conflict or expired. Completion stores
  the result reference once. The locale \<open>command_log\<close> is what the services rely on.
\<close>

subsection \<open>The table\<close>

datatype idem_status = InProgress | Completed

record idem_row =
  ir_id :: string
  ir_actorUserId :: string
  ir_commandScope :: string
  ir_keyHash :: string
  ir_requestFingerprint :: string
  ir_status :: idem_status
  ir_resultReference :: "string option"
  ir_createdAt :: instant
  ir_completedAt :: "instant option"
  ir_expiresAt :: instant

record begin_input =
  bi_actorUserId :: string
  bi_commandScope :: string
  bi_keyHash :: string
  bi_requestFingerprint :: string
  bi_expiresAt :: instant
  bi_now :: instant

datatype begin_result =
    Acquired string
  | InProgressResult string
  | Replay string string
  | Conflict string
  | Expired string

datatype idem_error =
    InvalidIdempotencyDigest
  | InvalidIdempotencyCommand
  | InvalidIdempotencyExpiry
  | IdempotencyRecordDisappeared
  | InvalidResultReference
  | UnsafeResultReference

type_synonym idem_table = "idem_row list"

definition idem_key :: "idem_row \<Rightarrow> string \<times> string \<times> string" where
  "idem_key r = (ir_actorUserId r, ir_commandScope r, ir_keyHash r)"

definition input_key :: "begin_input \<Rightarrow> string \<times> string \<times> string" where
  "input_key c = (bi_actorUserId c, bi_commandScope c, bi_keyHash c)"

text \<open>The check constraints on completion and expiry.\<close>

definition idem_row_check :: "idem_row \<Rightarrow> bool" where
  "idem_row_check r \<longleftrightarrow>
     (case ir_status r of
        InProgress \<Rightarrow> ir_completedAt r = None \<and> ir_resultReference r = None
      | Completed \<Rightarrow> ir_completedAt r \<noteq> None \<and> ir_resultReference r \<noteq> None) \<and>
     ir_createdAt r < ir_expiresAt r"

subsection \<open>Operations\<close>

text \<open>\<open>digestPattern\<close>, \<open>commandIdentifierPattern\<close> and \<open>resultReferencePattern\<close>.\<close>

definition is_digest :: "string \<Rightarrow> bool" where
  "is_digest s \<longleftrightarrow> digest_with ''sha256:v1:'' s \<or> digest_with ''hmac-sha256:v1:'' s"

definition is_identifier :: "string \<Rightarrow> bool" where
  "is_identifier s \<longleftrightarrow> leading_alnum is_ident 199 s"

text \<open>The answer when the record exists already.\<close>

definition idem_answer :: "begin_input \<Rightarrow> idem_row \<Rightarrow> begin_result" where
  "idem_answer c existing =
     (if ir_expiresAt existing \<le> bi_now c then Expired (ir_id existing)
      else if ir_requestFingerprint existing \<noteq> bi_requestFingerprint c then Conflict (ir_id existing)
      else (case (ir_status existing, ir_resultReference existing) of
          (Completed, Some ref) \<Rightarrow>
            if ref \<noteq> [] then Replay (ir_id existing) ref else InProgressResult (ir_id existing)
        | _ \<Rightarrow> InProgressResult (ir_id existing)))"

definition beginIdempotentCommand :: "string \<Rightarrow> begin_input \<Rightarrow> idem_table \<Rightarrow> idem_error + (idem_table \<times> begin_result)" where
  "beginIdempotentCommand newId c t =
     (if \<not> is_digest (bi_keyHash c) \<or> \<not> is_digest (bi_requestFingerprint c)
      then Inl InvalidIdempotencyDigest
      else if \<not> is_identifier (bi_actorUserId c) \<or> \<not> is_identifier (bi_commandScope c)
      then Inl InvalidIdempotencyCommand
      else if bi_expiresAt c \<le> bi_now c then Inl InvalidIdempotencyExpiry
      else if newId \<notin> ir_id ` set t \<and> input_key c \<notin> idem_key ` set t
      then Inr (t @ [\<lparr>ir_id = newId, ir_actorUserId = bi_actorUserId c,
             ir_commandScope = bi_commandScope c, ir_keyHash = bi_keyHash c,
             ir_requestFingerprint = bi_requestFingerprint c, ir_status = InProgress,
             ir_resultReference = None, ir_createdAt = bi_now c, ir_completedAt = None,
             ir_expiresAt = bi_expiresAt c\<rparr>], Acquired newId)
      else case List.find (\<lambda>r. idem_key r = input_key c) t of
          None \<Rightarrow> Inl IdempotencyRecordDisappeared
        | Some existing \<Rightarrow>
            Inr (t, idem_answer c existing))"

definition completeIdempotentCommand ::
  "(string \<Rightarrow> url_view option) \<Rightarrow> string \<Rightarrow> string \<Rightarrow> instant \<Rightarrow> idem_table \<Rightarrow> idem_error + (idem_table \<times> bool)" where
  "completeIdempotentCommand u recordId resultReference completedAt t =
     (if \<not> is_identifier resultReference then Inl InvalidResultReference
      else if \<not> assertSafeValue u (JObj [(''resultReference'', JStr resultReference)])
      then Inl UnsafeResultReference
      else let open_record = (\<lambda>r. ir_id r = recordId \<and> ir_status r = InProgress \<and> completedAt < ir_expiresAt r);
               t' = rows_update open_record (\<lambda>r. r\<lparr>ir_status := Completed,
                 ir_resultReference := Some resultReference, ir_completedAt := Some completedAt\<rparr>) t
           in Inr (t', if length (filter open_record t) = 1 then True
                else (case List.find (\<lambda>r. ir_id r = recordId) t' of None \<Rightarrow> False
                      | Some existing \<Rightarrow> ir_resultReference existing = Some resultReference)))"

text \<open>An identifier has no slash, so the structured-data check never refuses one.\<close>

lemma identifier_safe: "is_identifier s \<Longrightarrow> assertSafeValue u (JObj [(''resultReference'', JStr s)])"
proof -
  assume "is_identifier s"
  then have "CHR ''/'' \<notin> set s"
    by (auto simp: is_identifier_def leading_alnum_def repeats_def list_all_iff chars
        split: list.splits)
  moreover have "\<not> structuredKeyIsSensitive ''resultReference''" by code_simp
  ultimately show ?thesis by (simp add: no_slash_safe)
qed

lemma identifier_nonempty: "is_identifier s \<Longrightarrow> s \<noteq> []"
  by (auto simp: is_identifier_def leading_alnum_def)

lemma complete_identifier:
  assumes "is_identifier ref"
  shows "completeIdempotentCommand u k ref at t =
    (let p = (\<lambda>r. ir_id r = k \<and> ir_status r = InProgress \<and> at < ir_expiresAt r);
         t' = rows_update p (\<lambda>r. r\<lparr>ir_status := Completed, ir_resultReference := Some ref,
           ir_completedAt := Some at\<rparr>) t
     in Inr (t', if length (filter p t) = 1 then True
         else (case List.find (\<lambda>r. ir_id r = k) t' of None \<Rightarrow> False
               | Some e \<Rightarrow> ir_resultReference e = Some ref)))"
  using assms identifier_safe [OF assms, of u]
  unfolding completeIdempotentCommand_def by (simp only: if_False not_True_eq_False)

subsection \<open>Reachable tables\<close>

inductive idem_step :: "idem_table \<Rightarrow> idem_table \<Rightarrow> bool" where
  step_begin: "beginIdempotentCommand k c t = Inr (t', res) \<Longrightarrow> idem_step t t'"
| step_complete: "completeIdempotentCommand u k ref at t = Inr (t', ok) \<Longrightarrow> idem_step t t'"

definition idem_inv :: "idem_table \<Rightarrow> bool" where
  "idem_inv t \<longleftrightarrow> distinct (map ir_id t) \<and> distinct (map idem_key t) \<and> list_all idem_row_check t"

lemma idem_answer_not_Acquired: "idem_answer c r \<noteq> Acquired i"
  by (simp add: idem_answer_def split: option.splits idem_status.splits)

lemma begin_cases:
  assumes "beginIdempotentCommand k c t = Inr (t', res)"
  shows "(t' = t \<and> (\<forall>i. res \<noteq> Acquired i) \<and> input_key c \<in> idem_key ` set t) \<or>
    (res = Acquired k \<and> k \<notin> ir_id ` set t \<and> input_key c \<notin> idem_key ` set t \<and> bi_now c < bi_expiresAt c \<and>
     (\<exists>r. t' = t @ [r] \<and> ir_id r = k \<and> idem_key r = input_key c \<and> ir_status r = InProgress \<and>
       ir_resultReference r = None \<and> ir_completedAt r = None \<and> ir_createdAt r = bi_now c \<and>
       ir_expiresAt r = bi_expiresAt c \<and> ir_requestFingerprint r = bi_requestFingerprint c))"
proof (cases "k \<notin> ir_id ` set t \<and> input_key c \<notin> idem_key ` set t")
  case True
  then show ?thesis using assms
    by (auto simp: beginIdempotentCommand_def idem_key_def input_key_def split: if_splits)
next
  case False
  let ?f = "List.find (\<lambda>r. idem_key r = input_key c) t"
  from False assms have "?f \<noteq> None"
    by (cases ?f) (simp_all add: beginIdempotentCommand_def split: if_splits)
  then obtain existing where found: "?f = Some existing" by blast
  have eq: "t' = t" "res \<noteq> Acquired i" for i
    using assms False unfolding beginIdempotentCommand_def found
    by (simp_all split: if_splits) (metis idem_answer_not_Acquired)
  from find_Some_in [OF found] have "input_key c \<in> idem_key ` set t"
    by (auto intro: rev_image_eqI)
  with eq show ?thesis by simp
qed

lemma idem_step_inv: "idem_step t t' \<Longrightarrow> idem_inv t \<Longrightarrow> idem_inv t'"
proof (induction rule: idem_step.induct)
  case (step_begin k c t t' res)
  from begin_cases [OF step_begin.hyps] show ?case
  proof (elim disjE conjE exE)
    fix r
    assume r: "t' = t @ [r]" "ir_id r = k" "k \<notin> ir_id ` set t" "idem_key r = input_key c"
      "input_key c \<notin> idem_key ` set t" "ir_status r = InProgress" "ir_resultReference r = None"
      "ir_completedAt r = None" "ir_createdAt r = bi_now c" "ir_expiresAt r = bi_expiresAt c"
      "bi_now c < bi_expiresAt c"
    then have "idem_row_check r" by (simp add: idem_row_check_def)
    with r step_begin.prems show ?thesis by (simp add: idem_inv_def)
  qed (use step_begin.prems in simp)
next
  case (step_complete u k ref at t t' ok)
  let ?p = "\<lambda>r. ir_id r = k \<and> ir_status r = InProgress \<and> at < ir_expiresAt r"
  let ?f = "\<lambda>r. r\<lparr>ir_status := Completed, ir_resultReference := Some ref, ir_completedAt := Some at\<rparr>"
  have t': "t' = rows_update ?p ?f t"
    using step_complete.hyps by (auto simp: completeIdempotentCommand_def Let_def split: if_splits)
  have "map ir_id t' = map ir_id t" "map idem_key t' = map idem_key t"
    unfolding t' by (rule map_key_rows_update, simp add: idem_key_def)+
  moreover have "idem_row_check r" if "r \<in> set t'" for r
    using that unfolding t'
    by (rule rows_update_all [rotated, where q = idem_row_check])
      (use step_complete.prems in \<open>auto simp: idem_inv_def list_all_iff idem_row_check_def\<close>)
  ultimately show ?case using step_complete.prems by (simp add: idem_inv_def list_all_iff)
qed

interpretation idem: inv_system "\<lambda>t. t = []" idem_step idem_inv
  by unfold_locales (simp add: idem_inv_def, rule idem_step_inv)

lemma begin_inv: "beginIdempotentCommand k c t = Inr (t', res) \<Longrightarrow> idem_inv t \<Longrightarrow> idem_inv t'"
  by (rule idem_step_inv, rule step_begin)

lemma complete_inv: "completeIdempotentCommand u k ref at t = Inr (t', ok) \<Longrightarrow> idem_inv t \<Longrightarrow> idem_inv t'"
  by (rule idem_step_inv, rule step_complete)

subsection \<open>Interface: a log of commands\<close>

text \<open>
  A service begins a command, does its work when the command was acquired, and completes it with a
  reference to the result. The laws: acquiring leaves a record under the returned id, completing
  it before it expires succeeds, and beginning the same command again replays the reference.
\<close>

locale command_log =
  fixes start :: "string \<Rightarrow> 'c \<Rightarrow> 't \<Rightarrow> ('t \<times> begin_result) option"
    and finish :: "string \<Rightarrow> string \<Rightarrow> instant \<Rightarrow> 't \<Rightarrow> ('t \<times> bool) option"
    and wf :: "'t \<Rightarrow> bool"
    and same :: "'c \<Rightarrow> 'c \<Rightarrow> bool"
    and deadline :: "'c \<Rightarrow> instant"
    and valid_ref :: "string \<Rightarrow> bool"
  assumes start_wf: "start k c t = Some (t', res) \<Longrightarrow> wf t \<Longrightarrow> wf t'"
    and finish_wf: "finish k ref at t = Some (t', ok) \<Longrightarrow> wf t \<Longrightarrow> wf t'"
    and finish_acquired:
      "wf t \<Longrightarrow> start k c t = Some (t', Acquired i) \<Longrightarrow> valid_ref ref \<Longrightarrow> at < deadline c \<Longrightarrow>
         \<exists>t''. finish i ref at t' = Some (t'', True)"
    and replay_finished:
      "wf t \<Longrightarrow> start k c t = Some (t', Acquired i) \<Longrightarrow> valid_ref ref \<Longrightarrow>
         finish i ref at t' = Some (t'', True) \<Longrightarrow> same c c' \<Longrightarrow>
         start k' c' t'' = Some (t'', Replay i ref)"
begin

text \<open>A finished command is answered from the log, any number of times, with the log unchanged.\<close>

lemma run_then_replay:
  assumes "wf t" "start k c t = Some (t', Acquired i)" "valid_ref ref" "at < deadline c"
  shows "\<exists>t''. finish i ref at t' = Some (t'', True) \<and> wf t'' \<and>
    (\<forall>k' c'. same c c' \<longrightarrow> start k' c' t'' = Some (t'', Replay i ref))"
proof -
  from finish_acquired [OF assms] obtain t'' where t'': "finish i ref at t' = Some (t'', True)" ..
  then have "wf t''" using finish_wf start_wf assms(1,2) by blast
  with t'' show ?thesis using replay_finished [OF assms(1-3) t''] by blast
qed

end

text \<open>\<open>Inl\<close> forgets the error, as the callers of the log only see that the call threw.\<close>

definition result_option :: "'e + 'a \<Rightarrow> 'a option" where
  "result_option r = (case r of Inl _ \<Rightarrow> None | Inr a \<Rightarrow> Some a)"

lemma result_option_Some [simp]: "result_option r = Some a \<longleftrightarrow> r = Inr a"
  by (cases r) (simp_all add: result_option_def)

text \<open>The same command issued again before its record expires.\<close>

definition same_command :: "begin_input \<Rightarrow> begin_input \<Rightarrow> bool" where
  "same_command c c' \<longleftrightarrow>
     input_key c' = input_key c \<and> bi_requestFingerprint c' = bi_requestFingerprint c \<and>
     bi_now c' < bi_expiresAt c \<and> bi_now c' < bi_expiresAt c'"

lemma begin_Acquired:
  assumes "beginIdempotentCommand k c t = Inr (t', Acquired i)"
  obtains r where "i = k" "t' = t @ [r]" "k \<notin> ir_id ` set t" "ir_id r = k" "idem_key r = input_key c"
    "ir_status r = InProgress" "ir_expiresAt r = bi_expiresAt c"
    "ir_requestFingerprint r = bi_requestFingerprint c" "input_key c \<notin> idem_key ` set t"
  using begin_cases [OF assms] by auto

lemma begin_valid:
  assumes "beginIdempotentCommand k c t = Inr (t', res)"
  shows "is_digest (bi_keyHash c)" "is_digest (bi_requestFingerprint c)"
    "is_identifier (bi_actorUserId c)" "is_identifier (bi_commandScope c)" "bi_now c < bi_expiresAt c"
  using assms by (auto simp: beginIdempotentCommand_def split: if_splits)

lemma begin_existing:
  assumes valid: "is_digest (bi_keyHash c)" "is_digest (bi_requestFingerprint c)"
      "is_identifier (bi_actorUserId c)" "is_identifier (bi_commandScope c)" "bi_now c < bi_expiresAt c"
    and keys: "distinct (map idem_key t)"
    and r: "r \<in> set t" "idem_key r = input_key c"
  shows "beginIdempotentCommand k c t = Inr (t, idem_answer c r)"
proof -
  have "List.find (\<lambda>x. idem_key x = input_key c) t = Some r"
    using find_key_iff [OF keys] r by blast
  moreover have "input_key c \<in> idem_key ` set t"
    using r by (metis image_eqI)
  ultimately show ?thesis
    using valid by (simp add: beginIdempotentCommand_def)
qed

lemma complete_last:
  assumes "k \<notin> ir_id ` set t" "ir_id r = k" "ir_status r = InProgress" "is_identifier ref"
  shows "completeIdempotentCommand u k ref at (t @ [r]) =
    (if at < ir_expiresAt r
     then Inr (t @ [r\<lparr>ir_status := Completed, ir_resultReference := Some ref, ir_completedAt := Some at\<rparr>], True)
     else Inr (t @ [r], ir_resultReference r = Some ref))"
proof -
  have t: "\<not> (ir_id x = k \<and> ir_status x = InProgress \<and> at < ir_expiresAt x)" "ir_id x \<noteq> k" if "x \<in> set t" for x
    using assms(1) that by auto
  then have f: "List.find (\<lambda>x. ir_id x = k) (t @ [r]) = Some r"
    using assms(2) by (induction t) auto
  show ?thesis
  proof (cases "at < ir_expiresAt r")
    case True
    then show ?thesis using t assms
      by (simp add: complete_identifier Let_def table_simps rows_update_noop filter_empty_conv)
  next
    case False
    then show ?thesis using t assms f
      by (simp add: complete_identifier Let_def table_simps rows_update_noop filter_empty_conv)
  qed
qed

interpretation log: command_log "\<lambda>k c t. result_option (beginIdempotentCommand k c t)"
  "\<lambda>k ref at t. result_option (completeIdempotentCommand u k ref at t)" idem_inv same_command
  bi_expiresAt is_identifier for u
proof
  fix k c t t' i ref at
  assume "idem_inv t" and b: "result_option (beginIdempotentCommand k c t) = Some (t', Acquired i)"
    and ref: "is_identifier ref" and at: "at < bi_expiresAt c"
  from b [simplified] show "\<exists>t''. result_option (completeIdempotentCommand u i ref at t') = Some (t'', True)"
    by (rule begin_Acquired) (use at in \<open>simp add: complete_last [OF _ _ _ ref]\<close>)
next
  fix k c t t' i ref at t'' c' k'
  assume inv: "idem_inv t" and b: "result_option (beginIdempotentCommand k c t) = Some (t', Acquired i)"
    and ref: "is_identifier ref" and c: "result_option (completeIdempotentCommand u i ref at t') = Some (t'', True)"
    and same: "same_command c c'"
  from b [simplified] obtain r where r: "i = k" "t' = t @ [r]" "k \<notin> ir_id ` set t" "ir_id r = k"
    "idem_key r = input_key c" "ir_status r = InProgress" "ir_expiresAt r = bi_expiresAt c"
    "ir_requestFingerprint r = bi_requestFingerprint c" by (rule begin_Acquired) 
  have inv'': "idem_inv t''" using c b inv begin_inv complete_inv by (metis result_option_Some)
  from begin_cases [OF b [simplified]] r have "ir_resultReference r = None" by auto
  with c r ref have t'': "t'' = t @ [r\<lparr>ir_status := Completed, ir_resultReference := Some ref, ir_completedAt := Some at\<rparr>]"
    by (simp add: complete_last split: if_splits)
  have "idem_key (r\<lparr>ir_status := Completed, ir_resultReference := Some ref, ir_completedAt := Some at\<rparr>) = input_key c'"
    using same r by (simp add: same_command_def idem_key_def)
  moreover have "r\<lparr>ir_status := Completed, ir_resultReference := Some ref, ir_completedAt := Some at\<rparr> \<in> set t''"
    by (simp add: t'')
  moreover note begin_valid [OF b [simplified]]
  ultimately show "result_option (beginIdempotentCommand k' c' t'') = Some (t'', Replay i ref)"
    using same r inv'' identifier_nonempty [OF ref]
    by (subst begin_existing) (auto simp: same_command_def input_key_def idem_inv_def idem_answer_def)
qed (auto intro: begin_inv complete_inv)

lemma complete_True_row:
  assumes "idem_inv t" "completeIdempotentCommand u k ref at t = Inr (t', True)"
  obtains r where "r \<in> set t'" "ir_id r = k" "ir_resultReference r = Some ref"
proof -
  let ?p = "\<lambda>r. ir_id r = k \<and> ir_status r = InProgress \<and> at < ir_expiresAt r"
  let ?f = "\<lambda>r. r\<lparr>ir_status := Completed, ir_resultReference := Some ref, ir_completedAt := Some at\<rparr>"
  have t': "t' = rows_update ?p ?f t"
    and ok: "length (filter ?p t) = 1 \<or> (\<exists>e. List.find (\<lambda>r. ir_id r = k) t' = Some e \<and> ir_resultReference e = Some ref)"
    using assms(2) by (auto simp: completeIdempotentCommand_def Let_def split: if_splits option.splits)
  from ok show thesis
  proof
    assume "length (filter ?p t) = 1"
    then obtain r where "r \<in> set (filter ?p t)" by (cases "filter ?p t") auto
    then have r: "r \<in> set t" "?p r" by simp_all
    then have "?f r \<in> set t'" unfolding t' by (rule rows_updateI)
    then show thesis using r by (intro that [of "?f r"]) simp_all
  next
    assume "\<exists>e. List.find (\<lambda>r. ir_id r = k) t' = Some e \<and> ir_resultReference e = Some ref"
    then obtain e where e: "List.find (\<lambda>r. ir_id r = k) t' = Some e" "ir_resultReference e = Some ref" by blast
    from find_Some_in [OF e(1)] e(2) show thesis by (intro that [of e]) simp_all
  qed
qed

subsection \<open>Properties\<close>

definition sample_begin :: begin_input where
  "sample_begin = \<lparr>bi_actorUserId = ''user-1'', bi_commandScope = ''tips.create'',
     bi_keyHash = ''sha256:v1:'' @ replicate 43 (CHR ''A''),
     bi_requestFingerprint = ''hmac-sha256:v1:'' @ replicate 43 (CHR ''B''),
     bi_expiresAt = 2000, bi_now = 1000\<rparr>"

lemma sample_begin_ok:
  "\<exists>t. beginIdempotentCommand ''c1'' sample_begin [] = Inr (t, Acquired ''c1'')"
proof -
  have "is_digest (bi_keyHash sample_begin)" "is_digest (bi_requestFingerprint sample_begin)"
    "is_identifier (bi_actorUserId sample_begin)" "is_identifier (bi_commandScope sample_begin)"
    "bi_now sample_begin < bi_expiresAt sample_begin"
    by code_simp+
  then show ?thesis by (simp add: beginIdempotentCommand_def)
qed

lemma sample_ref: "is_identifier ''tip:1''" "is_identifier ''tip:2''"
  by code_simp+

text \<open>Whatever commands are begun and completed in whatever order, no two records share an
  actor, scope and key, a record carries a completion time and a result reference exactly when its
  status is completed, and it expires after it was created.\<close>

theorem idem_reachable_constraints:
  assumes "idem_step\<^sup>*\<^sup>* [] t"
  shows "distinct (map idem_key t) \<and> distinct (map ir_id t) \<and> list_all idem_row_check t"
  using idem.reach_inv [OF _ assms] by (simp add: idem_inv_def)

theorem idem_reachable_constraints_witness:
  "\<exists>t. idem_step\<^sup>*\<^sup>* [] t \<and> t \<noteq> [] \<and> distinct (map idem_key t) \<and> list_all idem_row_check t"
proof -
  obtain t where t: "beginIdempotentCommand ''c1'' sample_begin [] = Inr (t, Acquired ''c1'')"
    using sample_begin_ok by blast
  then have r: "idem_step\<^sup>*\<^sup>* [] t" by (blast intro: step_begin)
  moreover from begin_cases [OF t] have "t \<noteq> []" by auto
  ultimately show ?thesis using idem_reachable_constraints [OF r] by blast
qed

text \<open>A command that was acquired and is completed before its record expires is from then on
  answered with the stored reference: every later begin of the same command before the expiry
  returns a replay of that reference and leaves the table unchanged.\<close>

theorem idem_run_then_replay:
  assumes "idem_step\<^sup>*\<^sup>* [] t"
    and "beginIdempotentCommand k c t = Inr (t', Acquired i)"
    and "is_identifier ref" "at < bi_expiresAt c"
  shows "\<exists>t''. completeIdempotentCommand u i ref at t' = Inr (t'', True) \<and>
    (\<forall>k' c'. same_command c c' \<longrightarrow> beginIdempotentCommand k' c' t'' = Inr (t'', Replay i ref))"
proof -
  have "idem_inv t" using idem.reach_inv [OF _ assms(1)] by simp
  from log.run_then_replay [OF this _ assms(3,4), of k t' i u] assms(2) show ?thesis by auto
qed

theorem idem_run_then_replay_witness:
  "\<exists>t t''. completeIdempotentCommand (\<lambda>_. None) ''c1'' ''tip:1'' 1500 t = Inr (t'', True) \<and>
     beginIdempotentCommand ''c2'' (sample_begin\<lparr>bi_now := 1900\<rparr>) t'' = Inr (t'', Replay ''c1'' ''tip:1'')"
proof -
  obtain t where t: "beginIdempotentCommand ''c1'' sample_begin [] = Inr (t, Acquired ''c1'')"
    using sample_begin_ok by blast
  have "1500 < bi_expiresAt sample_begin" "same_command sample_begin (sample_begin\<lparr>bi_now := 1900\<rparr>)"
    by (simp_all add: sample_begin_def same_command_def input_key_def)
  with idem_run_then_replay [OF _ t sample_ref(1), of 1500 "\<lambda>_. None"] show ?thesis
    by (metis rtranclp.rtrancl_refl)
qed

text \<open>C33: The first completion of a command wins: once a completion with one reference has
  succeeded, a later completion of the same record changes nothing, and reports success exactly
  when it carries the same reference.\<close>

theorem idem_first_completion_wins:
  assumes "idem_step\<^sup>*\<^sup>* [] t"
    and "completeIdempotentCommand u k ref at t = Inr (t', True)"
    and "is_identifier ref'"
  shows "completeIdempotentCommand u' k ref' at' t' = Inr (t', ref' = ref)"
proof -
  have inv: "idem_inv t" using idem.reach_inv [OF _ assms(1)] by simp
  then have inv': "idem_inv t'" using assms(2) complete_inv by blast
  obtain r where r: "r \<in> set t'" "ir_id r = k" "ir_resultReference r = Some ref"
    using complete_True_row [OF inv assms(2)] by blast
  then have "idem_row_check r" using inv' by (simp add: idem_inv_def list_all_iff)
  with r(3) have "ir_status r = Completed"
    by (cases "ir_status r") (simp_all add: idem_row_check_def)
  moreover have id: "List.find (\<lambda>r. ir_id r = k) t' = Some r"
    using r inv' by (subst find_key_iff) (simp_all add: idem_inv_def)
  ultimately have closed: "\<not> (ir_id x = k \<and> ir_status x = InProgress \<and> at' < ir_expiresAt x)"
    if "x \<in> set t'" for x
    using that r inv' by (metis distinct_key_eq idem_inv_def idem_status.distinct(1))
  then show ?thesis
    using id r(3) by (auto simp: complete_identifier [OF assms(3)] Let_def rows_update_noop filter_empty_conv)
qed

theorem idem_first_completion_wins_witness:
  "\<exists>t. completeIdempotentCommand (\<lambda>_. None) ''c1'' ''tip:2'' 1600 t = Inr (t, False) \<and> t \<noteq> []"
proof -
  obtain t where t: "beginIdempotentCommand ''c1'' sample_begin [] = Inr (t, Acquired ''c1'')"
    using sample_begin_ok by blast
  obtain r where r: "t = [r]" "ir_id r = ''c1''" "ir_status r = InProgress" "ir_expiresAt r = 2000"
    using t by (rule begin_Acquired) (simp add: sample_begin_def)
  have s: "idem_step\<^sup>*\<^sup>* [] t" using t by (blast intro: step_begin)
  obtain t' where t': "completeIdempotentCommand (\<lambda>_. None) ''c1'' ''tip:1'' 1500 t = Inr (t', True)" "t' \<noteq> []"
    using complete_last [of "''c1''" "[]" r "''tip:1''" "\<lambda>_. None" 1500] r sample_ref(1) by auto
  show ?thesis
    using idem_first_completion_wins [OF s t'(1) sample_ref(2), of "\<lambda>_. None" 1600] t'(2) by auto
qed

end
