(* ===== verification/AdminAudit.thy ===== *)
theory AdminAudit
  imports StructuredData
begin

text \<open>
  The administrative audit trail (\<^verbatim>\<open>packages/database/src/admin-audit-repository.ts\<close>, table
  \<^verbatim>\<open>admin_audit_events\<close>): appending is the only operation. Every reachable trail has well-formed
  identifiers and no sensitive key or credential in its recorded states, and it only ever grows. The
  locale \<open>audit_trail\<close> is what the privileged services rely on.
\<close>

datatype audit_outcome = Succeeded | Denied | Failed

text \<open>The state columns hold JSON objects; an absent optional field is \<open>None\<close>. A JavaScript
  \<open>Date\<close> is an instant or, when it is the invalid date, \<open>None\<close>.\<close>

record new_audit_event =
  ne_actorUserId :: string
  ne_actorSessionId :: "string option"
  ne_subjectType :: string
  ne_subjectId :: string
  ne_action :: string
  ne_outcome :: audit_outcome
  ne_reasonCode :: "string option"
  ne_beforeState :: "json option"
  ne_afterState :: "json option"
  ne_assurance :: json
  ne_applicationRevision :: string
  ne_requestId :: string
  ne_occurredAt :: "instant option option"

record audit_row =
  au_id :: string
  au_actorUserId :: string
  au_actorSessionId :: "string option"
  au_subjectType :: string
  au_subjectId :: string
  au_action :: string
  au_outcome :: audit_outcome
  au_reasonCode :: "string option"
  au_beforeState :: "json option"
  au_afterState :: "json option"
  au_assurance :: json
  au_applicationRevision :: string
  au_requestId :: string
  au_occurredAt :: instant

datatype audit_error = InvalidAuditEvent | UnsafeAuditData | AuditAppendFailed

type_synonym audit_table = "audit_row list"

definition auditIdentifier :: "string \<Rightarrow> bool" where
  "auditIdentifier s \<longleftrightarrow> leading_alnum is_ident 199 s"

definition assertAuditIdentifier :: "string option \<Rightarrow> audit_error + unit" where
  "assertAuditIdentifier v = require (case v of None \<Rightarrow> True | Some s \<Rightarrow> auditIdentifier s) InvalidAuditEvent"

definition safeOptionalState ::
  "(string \<Rightarrow> url_view option) \<Rightarrow> json option \<Rightarrow> audit_error + json option" where
  "safeOptionalState u v =
     (case v of None \<Rightarrow> Inr None
      | Some j \<Rightarrow> (case canonicalizeSafeStructuredData u (js_of_json j) Audit of Inl _ \<Rightarrow> Inl UnsafeAuditData | Inr c \<Rightarrow> Inr (Some c)))"

fun assertAuditIdentifiers :: "string option list \<Rightarrow> audit_error + unit" where
  "assertAuditIdentifiers [] = Inr ()"
| "assertAuditIdentifiers (v # vs) = await (assertAuditIdentifier v) (\<lambda>_. assertAuditIdentifiers vs)"

definition appendAdminAuditEvent ::
  "(string \<Rightarrow> url_view option) \<Rightarrow> string \<Rightarrow> instant \<Rightarrow> new_audit_event \<Rightarrow> audit_table \<Rightarrow>
     audit_error + (audit_table \<times> string)" where
  "appendAdminAuditEvent u newId clock event t =
     await (assertAuditIdentifiers
       [Some (ne_actorUserId event), ne_actorSessionId event, Some (ne_subjectType event),
        Some (ne_subjectId event), Some (ne_action event), ne_reasonCode event,
        Some (ne_applicationRevision event), Some (ne_requestId event)]) (\<lambda>_.
     await (require (ne_occurredAt event \<noteq> Some None) InvalidAuditEvent) (\<lambda>_.
     await (safeOptionalState u (ne_beforeState event)) (\<lambda>before.
     await (safeOptionalState u (ne_afterState event)) (\<lambda>after.
     await (safeOptionalState u (Some (ne_assurance event))) (\<lambda>assurance.
     await (require (newId \<notin> au_id ` set t) AuditAppendFailed) (\<lambda>_.
     Inr (t @ [\<lparr>au_id = newId, au_actorUserId = ne_actorUserId event,
         au_actorSessionId = ne_actorSessionId event, au_subjectType = ne_subjectType event,
         au_subjectId = ne_subjectId event, au_action = ne_action event, au_outcome = ne_outcome event,
         au_reasonCode = ne_reasonCode event, au_beforeState = before, au_afterState = after,
         au_assurance = the assurance, au_applicationRevision = ne_applicationRevision event,
         au_requestId = ne_requestId event,
         au_occurredAt = (case ne_occurredAt event of Some (Some d) \<Rightarrow> d | _ \<Rightarrow> clock)\<rparr>], newId)))))))"

subsection \<open>What a trail holds\<close>

definition audit_row_ok :: "(string \<Rightarrow> url_view option) \<Rightarrow> audit_row \<Rightarrow> bool" where
  "audit_row_ok u r \<longleftrightarrow>
     list_all auditIdentifier [au_actorUserId r, au_subjectType r, au_subjectId r, au_action r,
       au_applicationRevision r, au_requestId r] \<and>
     pred_option auditIdentifier (au_actorSessionId r) \<and> pred_option auditIdentifier (au_reasonCode r) \<and>
     pred_option (assertSafeValue u) (au_beforeState r) \<and> pred_option (assertSafeValue u) (au_afterState r) \<and>
     assertSafeValue u (au_assurance r)"

definition audit_inv :: "(string \<Rightarrow> url_view option) \<Rightarrow> audit_table \<Rightarrow> bool" where
  "audit_inv u t \<longleftrightarrow> distinct (map au_id t) \<and> list_all (audit_row_ok u) t"

lemma safeOptionalState_Inr [simp]:
  "safeOptionalState u v = Inr w \<longleftrightarrow> w = v \<and> pred_option (assertSafeValue u) v"
  by (cases v) (auto simp: safeOptionalState_def canonicalize_plain)

lemma assertAuditIdentifier_Inr [simp]:
  "assertAuditIdentifier v = Inr x \<longleftrightarrow> pred_option auditIdentifier v"
  by (cases v) (simp_all add: assertAuditIdentifier_def)

lemma assertAuditIdentifiers_Inr [simp]:
  "assertAuditIdentifiers vs = Inr x \<longleftrightarrow> list_all (pred_option auditIdentifier) vs"
  by (induction vs) (auto simp: result_iffs)

lemma append_audit_cases:
  assumes "appendAdminAuditEvent u k clock e t = Inr (t', i)"
  obtains r where "t' = t @ [r]" "i = k" "au_id r = k" "k \<notin> au_id ` set t" "audit_row_ok u r"
    "au_action r = ne_action e" "au_outcome r = ne_outcome e" "au_subjectId r = ne_subjectId e"
    "au_beforeState r = ne_beforeState e" "au_afterState r = ne_afterState e"
  using assms unfolding appendAdminAuditEvent_def
  by (auto simp: result_iffs audit_row_ok_def)

subsection \<open>Interface: an audit trail\<close>

text \<open>A privileged service appends and never removes: earlier rows keep their place, the new row is
  the last one, and the trail stays well-formed.\<close>

locale audit_trail =
  fixes append_event :: "string \<Rightarrow> instant \<Rightarrow> 'e \<Rightarrow> 'r list \<Rightarrow> ('x + ('r list \<times> string))"
    and ok :: "'r list \<Rightarrow> bool"
  assumes append_last: "append_event k clock e t = Inr (t', i) \<Longrightarrow> \<exists>r. t' = t @ [r]"
    and append_ok: "append_event k clock e t = Inr (t', i) \<Longrightarrow> ok t \<Longrightarrow> ok t'"
begin

inductive appends :: "'r list \<Rightarrow> 'r list \<Rightarrow> bool" where
  append_step: "append_event k clock e t = Inr (t', i) \<Longrightarrow> appends t t'"

lemma history_kept: "appends\<^sup>*\<^sup>* t t' \<Longrightarrow> \<exists>later. t' = t @ later"
proof (induction rule: rtranclp_induct)
  case (step y z)
  then show ?case by (metis append.assoc append_last appends.cases)
qed simp

lemma history_ok: "appends\<^sup>*\<^sup>* t t' \<Longrightarrow> ok t \<Longrightarrow> ok t'"
  by (induction rule: rtranclp_induct) (auto elim!: appends.cases dest: append_ok)

end

interpretation audit: audit_trail "appendAdminAuditEvent u" "audit_inv u" for u
proof
  fix k clock e t t' i
  assume a: "appendAdminAuditEvent u k clock e t = Inr (t', i)"
  show "\<exists>r. t' = t @ [r]" using a by (rule append_audit_cases) blast
  assume inv: "audit_inv u t"
  from a obtain r where "t' = t @ [r]" "au_id r \<notin> au_id ` set t" "audit_row_ok u r"
    by (rule append_audit_cases) blast
  with inv show "audit_inv u t'" by (simp add: audit_inv_def)
qed

subsection \<open>Properties\<close>

text \<open>One run of the trail: events appended in order, each under the id the database drew for it.\<close>

fun append_all :: "(string \<Rightarrow> url_view option) \<Rightarrow> (string \<times> instant \<times> new_audit_event) list \<Rightarrow> audit_table \<Rightarrow> audit_error + audit_table" where
  "append_all u [] t = Inr t"
| "append_all u ((k, clock, e) # es) t =
     await (appendAdminAuditEvent u k clock e t) (\<lambda>(t', _). append_all u es t')"

lemma append_all_appends: "append_all u es t = Inr t' \<Longrightarrow> (audit.appends u)\<^sup>*\<^sup>* t t'"
proof (induction u es t rule: append_all.induct)
  case (2 u k clock e es t)
  then obtain t1 i where t1: "appendAdminAuditEvent u k clock e t = Inr (t1, i)" "append_all u es t1 = Inr t'"
    by (auto simp: result_iffs)
  then show ?case using 2(1) by (metis audit.append_step case_prod_conv converse_rtranclp_into_rtranclp)
qed simp

text \<open>The audit trail is append-only and clean: after any sequence of appended events the
  earlier rows are still there, unchanged and in front, ids are unique, and no row of a trail that
  started empty has an ill-formed identifier, a sensitive key or a credential in it.\<close>

theorem audit_trail_append_only:
  assumes "append_all u es t0 = Inr t" and "append_all u es' t = Inr t'" and "audit_inv u t0"
  shows "(\<exists>later. t' = t @ later) \<and> distinct (map au_id t') \<and> list_all (audit_row_ok u) t'"
proof -
  have "audit_inv u t" using audit.history_ok append_all_appends [OF assms(1)] assms(3) .
  then have "audit_inv u t'" using audit.history_ok append_all_appends [OF assms(2)] by blast
  then show ?thesis using audit.history_kept append_all_appends [OF assms(2)] by (simp add: audit_inv_def)
qed

definition sample_audit_event :: new_audit_event where
  "sample_audit_event = \<lparr>ne_actorUserId = ''owner-1'', ne_actorSessionId = None, ne_subjectType = ''creator'',
     ne_subjectId = ''c-9'', ne_action = ''creator.approve'', ne_outcome = Succeeded, ne_reasonCode = None,
     ne_beforeState = Some (JObj [(''status'', JStr ''submitted'')]),
     ne_afterState = Some (JObj [(''status'', JStr ''approved'')]), ne_assurance = JObj [],
     ne_applicationRevision = ''r1'', ne_requestId = ''req-1'', ne_occurredAt = None\<rparr>"

lemma sample_audit_ok: "\<exists>t. append_all (\<lambda>_. None) [(''a1'', 5, sample_audit_event), (''a2'', 6, sample_audit_event)] [] = Inr t"
proof -
  have "\<not> structuredKeyIsSensitive ''status''"
    "auditIdentifier ''owner-1''" "auditIdentifier ''creator''" "auditIdentifier ''c-9''"
    "auditIdentifier ''creator.approve''" "auditIdentifier ''r1''" "auditIdentifier ''req-1''"
    by code_simp+
  then have "\<exists>r. au_id r = k \<and> appendAdminAuditEvent (\<lambda>_. None) k clock sample_audit_event t = Inr (t @ [r], k)"
    if "k \<notin> au_id ` set t" for k clock t
    using that
    by (auto simp: appendAdminAuditEvent_def sample_audit_event_def assertAuditIdentifier_def
        safeOptionalState_def canonicalize_plain no_slash_safe)
  from this [of "''a1''" "[]" 5] obtain r where r: "au_id r = ''a1''"
    "appendAdminAuditEvent (\<lambda>_. None) ''a1'' 5 sample_audit_event [] = Inr ([r], ''a1'')" by auto
  with \<open>\<And>k clock t. k \<notin> au_id ` set t \<Longrightarrow> \<exists>r. au_id r = k \<and> appendAdminAuditEvent (\<lambda>_. None) k clock sample_audit_event t = Inr (t @ [r], k)\<close>
    [of "''a2''" "[r]" 6] show ?thesis by auto
qed

theorem audit_trail_append_only_witness:
  "\<exists>t. append_all (\<lambda>_. None) [(''a1'', 5, sample_audit_event), (''a2'', 6, sample_audit_event)] [] = Inr t \<and>
     distinct (map au_id t) \<and> list_all (audit_row_ok (\<lambda>_. None)) t"
proof -
  obtain t where t: "append_all (\<lambda>_. None) [(''a1'', 5, sample_audit_event), (''a2'', 6, sample_audit_event)] [] = Inr t"
    using sample_audit_ok by blast
  have "append_all (\<lambda>_. None) [] [] = Inr []" "audit_inv (\<lambda>_. None) []" by (simp_all add: audit_inv_def)
  from audit_trail_append_only [OF this(1) t this(2)] t show ?thesis by blast
qed

end
