(* ===== verification/BusinessCalendar.thy ===== *)
theory BusinessCalendar
  imports JsDate
begin

text \<open>
  Vietnamese business days (\<^verbatim>\<open>packages/database/src/business-calendar-repository.ts\<close>): date-only
  texts, the two counting loops, deadlines and refund windows computed from a stored calendar
  version, and the import of such versions. A cursor is a day number; past the last day of a
  \<open>Date\<close> the source's \<open>toISOString\<close> throws, which is why its loops end.
  Shown: the loops find exactly the n-th business day, the refund window is the pair of the fifth
  and the seventh one, and the import is idempotent and never changes a published calendar. The
  locale \<open>day_counter\<close> is what the payment services rely on.
\<close>

subsection \<open>Tables and errors\<close>

datatype calendar_error =
    CalendarInvalid
  | CalendarConflicts
  | CalendarNotFound
  | InvalidTimeValue

record calendar_version =
  cv_version :: string
  cv_sourceLabel :: string
  cv_publishedAt :: instant
  cv_importedAt :: instant

record calendar_holiday =
  ch_calendarVersion :: string
  ch_holidayDate :: string
  ch_name :: string

record calendar_db =
  cal_versions :: "calendar_version list"
  cal_holidays :: "calendar_holiday list"

record business_day_window =
  bw_calendarVersion :: string
  bw_receiptDate :: string
  bw_refundNotBefore :: string
  bw_refundDue :: string

definition calendar_version_ok :: "string \<Rightarrow> bool" where
  "calendar_version_ok s \<longleftrightarrow> leading_alnum is_word_dot_dash 127 s"

definition source_label_ok :: "string \<Rightarrow> bool" where
  "source_label_ok s \<longleftrightarrow> leading_alnum is_ident 199 s"

subsection \<open>Dates\<close>

definition formatDateOnly :: "int \<Rightarrow> string" where
  "formatDateOnly cursor = take 10 (iso_date cursor)"

definition parseDateOnly :: "string \<Rightarrow> calendar_error + int" where
  "parseDateOnly v =
     (if \<not> date_pattern v then Inl CalendarInvalid
      else case parse_iso_day v of
          None \<Rightarrow> Inl CalendarInvalid
        | Some parsed \<Rightarrow> if formatDateOnly parsed \<noteq> v then Inl CalendarInvalid else Inr parsed)"

fun parse_all :: "string list \<Rightarrow> calendar_error + string list" where
  "parse_all [] = Inr []"
| "parse_all (h # hs) =
     await (parseDateOnly h) (\<lambda>d. await (parse_all hs) (\<lambda>rest. Inr (formatDateOnly d # rest)))"

text \<open>The date of Vietnam; the source rejects the invalid date, which is no instant.\<close>

definition vietnamDateFromInstant :: "instant option \<Rightarrow> calendar_error + string" where
  "vietnamDateFromInstant v = (case v of None \<Rightarrow> Inl CalendarInvalid | Some t \<Rightarrow> Inr (vietnam_date t))"

subsection \<open>Counting business days\<close>

definition business_day :: "string list \<Rightarrow> int \<Rightarrow> bool" where
  "business_day holidays cursor \<longleftrightarrow>
     day_of_week cursor \<noteq> 0 \<and> day_of_week cursor \<noteq> 6 \<and> formatDateOnly cursor \<notin> set holidays"

function add_loop :: "string list \<Rightarrow> int \<Rightarrow> int \<Rightarrow> int \<Rightarrow> calendar_error + int" where
  "add_loop holidays businessDays count cursor =
     (if count < businessDays
      then if max_day < cursor + 1 then Inl InvalidTimeValue
           else add_loop holidays businessDays
             (if business_day holidays (cursor + 1) then count + 1 else count) (cursor + 1)
      else Inr cursor)"
  by pat_completeness auto
termination
  by (relation "measure (\<lambda>(h, n, c, d). nat (max_day - d))") auto

declare add_loop.simps [simp del]

definition addVietnamBusinessDays :: "string \<Rightarrow> int \<Rightarrow> string list \<Rightarrow> calendar_error + string" where
  "addVietnamBusinessDays fromDate businessDays holidayTexts =
     await (parseDateOnly fromDate) (\<lambda>cursor.
     await (require (isSafeInteger businessDays \<and> 0 \<le> businessDays) CalendarInvalid) (\<lambda>_.
     await (parse_all holidayTexts) (\<lambda>holidays.
     await (add_loop holidays businessDays 0 cursor) (\<lambda>d. Inr (formatDateOnly d)))))"

function window_loop ::
  "string list \<Rightarrow> int \<Rightarrow> int \<Rightarrow> string \<Rightarrow> string \<Rightarrow> calendar_error + (string \<times> string)" where
  "window_loop holidays businessDay cursor notBefore due =
     (if businessDay < 7
      then if max_day < cursor + 1 then Inl InvalidTimeValue
           else if \<not> business_day holidays (cursor + 1)
           then window_loop holidays businessDay (cursor + 1) notBefore due
           else window_loop holidays (businessDay + 1) (cursor + 1)
             (if businessDay + 1 = 5 then formatDateOnly (cursor + 1) else notBefore)
             (if businessDay + 1 = 7 then formatDateOnly (cursor + 1) else due)
      else Inr (notBefore, due))"
  by pat_completeness auto
termination
  by (relation "measure (\<lambda>(h, b, d, x, y). nat (max_day - d))") auto

declare window_loop.simps [simp del]

definition calculateBusinessDayWindow :: "string \<Rightarrow> string \<Rightarrow> string list \<Rightarrow> calendar_error + business_day_window" where
  "calculateBusinessDayWindow receiptDate calendarVersion holidayTexts =
     await (require (calendar_version_ok calendarVersion) CalendarInvalid) (\<lambda>_.
     await (parseDateOnly receiptDate) (\<lambda>receipt.
     await (parse_all holidayTexts) (\<lambda>holidays.
     await (window_loop holidays 0 receipt [] []) (\<lambda>(notBefore, due).
       Inr \<lparr>bw_calendarVersion = calendarVersion, bw_receiptDate = receiptDate,
            bw_refundNotBefore = notBefore, bw_refundDue = due\<rparr>))))"

subsection \<open>Stored calendars\<close>

definition find_version :: "calendar_db \<Rightarrow> string \<Rightarrow> calendar_version option" where
  "find_version db v = List.find (\<lambda>r. cv_version r = v) (cal_versions db)"

definition holiday_dates :: "calendar_db \<Rightarrow> string \<Rightarrow> string list" where
  "holiday_dates db v = map ch_holidayDate (filter (\<lambda>r. ch_calendarVersion r = v) (cal_holidays db))"

definition calculateStoredReceiptBusinessDayWindow ::
  "calendar_db \<Rightarrow> string \<Rightarrow> string \<Rightarrow> calendar_error + business_day_window" where
  "calculateStoredReceiptBusinessDayWindow db receiptDate calendarVersion =
     await (parseDateOnly receiptDate) (\<lambda>_.
     await (orThrow (find_version db calendarVersion) CalendarNotFound) (\<lambda>_.
       calculateBusinessDayWindow receiptDate calendarVersion (holiday_dates db calendarVersion)))"

text \<open>The last millisecond of the date in Vietnam. A date after 9999 has another format, and the
  text made of it names the first day of its month.\<close>

definition end_of_vietnam_day :: "string \<Rightarrow> instant option" where
  "end_of_vietnam_day date =
     (let time_ms = 16 * 3600000 + 59 * 60000 + 59 * 1000 + 999
      in if date_pattern date
         then map_option (\<lambda>d. d * ms_per_day + time_ms) (parse_iso_day date)
         else if starts_with ''+'' date
         then Some (make_day (int (digits_value (take 6 (drop 1 date)))) (int (digits_value (take 2 (drop 8 date)))) 1 * ms_per_day + time_ms)
         else None)"

definition calculateStoredBusinessDayDeadline ::
  "calendar_db \<Rightarrow> instant option \<Rightarrow> int \<Rightarrow> string \<Rightarrow> calendar_error + instant option" where
  "calculateStoredBusinessDayDeadline db from_opt businessDays calendarVersion =
     await (vietnamDateFromInstant from_opt) (\<lambda>fromDate.
     await (orThrow (find_version db calendarVersion) CalendarNotFound) (\<lambda>_.
     await (addVietnamBusinessDays fromDate businessDays (holiday_dates db calendarVersion)) (\<lambda>date.
       Inr (end_of_vietnam_day date))))"

fun normalize_map :: "string list \<Rightarrow> (string \<times> string) list \<Rightarrow> calendar_error + (string \<times> string) list" where
  "normalize_map seen [] = Inr []"
| "normalize_map seen ((date, name) # rest) =
     await (parseDateOnly date) (\<lambda>d.
       let date' = formatDateOnly d; name' = trim name
       in if name' = [] \<or> 100 < length name' \<or> date' \<in> set seen then Inl CalendarInvalid
          else await (normalize_map (date' # seen) rest) (\<lambda>out. Inr ((date', name') # out)))"

definition normalizeHolidays :: "(string \<times> string) list \<Rightarrow> calendar_error + (string \<times> string) list" where
  "normalizeHolidays holidays = await (normalize_map [] holidays) (\<lambda>out. Inr (sort_key fst out))"

datatype import_result = Inserted | AlreadyPresent

text \<open>The stored version and its holidays, ordered by date, are those of the input.\<close>

definition calendar_matches ::
  "calendar_db \<Rightarrow> string \<Rightarrow> string \<Rightarrow> instant \<Rightarrow> (string \<times> string) list \<Rightarrow> bool" where
  "calendar_matches db version sourceLabel publishedAt holidays =
     (case find_version db version of
        None \<Rightarrow> False
      | Some r \<Rightarrow> cv_sourceLabel r = sourceLabel \<and> cv_publishedAt r = publishedAt \<and>
          map (\<lambda>h. (ch_holidayDate h, ch_name h))
            (sort_key ch_holidayDate (filter (\<lambda>h. ch_calendarVersion h = version) (cal_holidays db))) = holidays)"

text \<open>\<open>clock\<close> is \<open>new Date()\<close>.\<close>

definition importBusinessCalendarVersion ::
  "instant \<Rightarrow> string \<Rightarrow> string \<Rightarrow> instant option \<Rightarrow> instant option option \<Rightarrow> (string \<times> string) list \<Rightarrow>
     calendar_db \<Rightarrow> calendar_error + (calendar_db \<times> import_result)" where
  "importBusinessCalendarVersion clock version sourceLabel publishedAt_opt importedAt_opt holidayInput db =
     await (require (calendar_version_ok version \<and> source_label_ok sourceLabel) CalendarInvalid) (\<lambda>_.
     await (orThrow publishedAt_opt CalendarInvalid) (\<lambda>publishedAt.
     await (require (importedAt_opt \<noteq> Some None) CalendarInvalid) (\<lambda>_.
     await (normalizeHolidays holidayInput) (\<lambda>holidays.
     let importedAt = (case importedAt_opt of Some (Some d) \<Rightarrow> d | _ \<Rightarrow> clock)
     in await (require (publishedAt \<le> importedAt) CalendarInvalid) (\<lambda>_.
        if version \<notin> cv_version ` set (cal_versions db)
        then Inr (\<lparr>cal_versions = cal_versions db @ [\<lparr>cv_version = version, cv_sourceLabel = sourceLabel,
                      cv_publishedAt = publishedAt, cv_importedAt = importedAt\<rparr>],
                   cal_holidays = cal_holidays db @
                     map (\<lambda>(d, n). \<lparr>ch_calendarVersion = version, ch_holidayDate = d, ch_name = n\<rparr>) holidays\<rparr>,
                  Inserted)
        else if calendar_matches db version sourceLabel publishedAt holidays then Inr (db, AlreadyPresent)
        else Inl CalendarConflicts)))))"

definition configuredCalendarSourceLabel :: string where
  "configuredCalendarSourceLabel = ''pawket-env:VN_BUSINESS_HOLIDAYS''"

definition configuredHolidayName :: string where
  "configuredHolidayName = ''Configured Vietnam public holiday''"

definition importConfiguredBusinessCalendarVersion ::
  "instant \<Rightarrow> string \<Rightarrow> string list \<Rightarrow> instant option \<Rightarrow> calendar_db \<Rightarrow> calendar_error + (calendar_db \<times> import_result)" where
  "importConfiguredBusinessCalendarVersion clock version dates importedAt_opt db =
     (if 64 < length dates then Inl CalendarInvalid
      else let importedAt = (case importedAt_opt of None \<Rightarrow> clock | Some d \<Rightarrow> d);
               publishedAt = (case find_version db version of None \<Rightarrow> importedAt | Some r \<Rightarrow> cv_publishedAt r)
           in importBusinessCalendarVersion clock version configuredCalendarSourceLabel (Some publishedAt)
                (Some (Some (if importedAt < publishedAt then publishedAt else importedAt)))
                (map (\<lambda>date. (date, configuredHolidayName)) dates) db)"

subsection \<open>Date texts\<close>

lemma formatDateOnly_four: "four_digit_day n \<Longrightarrow> formatDateOnly n = iso_date n"
  by (simp add: formatDateOnly_def iso_date_length)

lemma formatDateOnly_pattern: "date_pattern (formatDateOnly n) \<longleftrightarrow> four_digit_day n"
  using iso_date_wide parse_iso_date formatDateOnly_four by (metis formatDateOnly_def)

lemma parseDateOnly_Inr:
  "parseDateOnly v = Inr n \<longleftrightarrow> four_digit_day n \<and> v = iso_date n"
proof
  assume "parseDateOnly v = Inr n"
  then have v: "date_pattern v" "formatDateOnly n = v"
    by (auto simp: parseDateOnly_def split: if_splits option.splits)
  then show "four_digit_day n \<and> v = iso_date n"
    using formatDateOnly_pattern formatDateOnly_four by metis
next
  assume "four_digit_day n \<and> v = iso_date n"
  then show "parseDateOnly v = Inr n"
    by (simp add: parseDateOnly_def parse_iso_date formatDateOnly_four)
qed

lemma parseDateOnly_Inl: "parseDateOnly v = Inl e \<Longrightarrow> e = CalendarInvalid"
  by (auto simp: parseDateOnly_def split: if_splits option.splits)

lemma formatDateOnly_inj:
  "four_digit_day n \<Longrightarrow> formatDateOnly m = formatDateOnly n \<Longrightarrow> m = n"
  using formatDateOnly_pattern formatDateOnly_four parse_iso_date by (metis option.inject)

lemma parse_all_Inr:
  "parse_all hs = Inr hs' \<Longrightarrow> hs' = hs \<and> (\<forall>h \<in> set hs. \<exists>n. four_digit_day n \<and> h = formatDateOnly n)"
  by (induction hs arbitrary: hs') (auto simp: result_iffs parseDateOnly_Inr formatDateOnly_four)

subsection \<open>The counting loop\<close>

lemma upto_join: "d \<le> a \<Longrightarrow> a \<le> b \<Longrightarrow> [d + 1..b] = [d + 1..a] @ [a + 1..b]" for d a b :: int
  by (cases "d = a") (simp_all add: upto_split2)

abbreviation business_count :: "string list \<Rightarrow> int \<Rightarrow> int \<Rightarrow> int" where
  "business_count hs a b \<equiv> int (length (filter (business_day hs) [a + 1..b]))"

lemma count_first:
  "d + 1 \<le> e \<Longrightarrow> business_count hs d e = (if business_day hs (d + 1) then 1 else 0) + business_count hs (d + 1) e"
  by (simp add: upto_rec1)

lemma add_loop_spec:
  assumes "add_loop hs n c d = Inr e" "c \<le> n"
  shows "d \<le> e \<and> business_count hs d e = n - c \<and> (c < n \<longrightarrow> business_day hs e \<and> d < e)"
  using assms
proof (induction hs n c d rule: add_loop.induct)
  case (1 hs n c d)
  show ?case
  proof (cases "c < n")
    case True
    let ?c = "if business_day hs (d + 1) then c + 1 else c"
    from "1.prems" True have e: "add_loop hs n ?c (d + 1) = Inr e" "\<not> max_day < d + 1"
      by (subst (asm) add_loop.simps, simp split: if_splits)+
    from "1.IH" [OF True e(2) e(1)] True
    have r: "d + 1 \<le> e" "business_count hs (d + 1) e = n - ?c" "?c < n \<longrightarrow> business_day hs e \<and> d + 1 < e"
      by simp_all
    moreover have "business_day hs e" if "\<not> ?c < n"
    proof -
      from that True have b: "business_day hs (d + 1)" and c1: "c + 1 = n" by (simp_all split: if_splits)
      with e(1) have "add_loop hs n n (d + 1) = Inr e" by simp
      then have "e = d + 1" by (subst (asm) add_loop.simps) simp
      with b show ?thesis by simp
    qed
    ultimately show ?thesis using count_first [of d e hs] by (auto split: if_splits)
  next
    case False
    with "1.prems" show ?thesis by (subst (asm) add_loop.simps) simp
  qed
qed

lemma add_loop_total:
  assumes "n - c \<le> business_count hs d e" "e \<le> max_day" "d \<le> e"
  shows "\<exists>x. add_loop hs n c d = Inr x \<and> x \<le> e"
  using assms
proof (induction hs n c d rule: add_loop.induct)
  case (1 hs n c d)
  show ?case
  proof (cases "c < n")
    case True
    then have "d < e" using "1.prems" by (cases "d = e") auto
    then have le: "d + 1 \<le> e" "\<not> max_day < d + 1" using "1.prems" by simp_all
    have "n - (if business_day hs (d + 1) then c + 1 else c) \<le> business_count hs (d + 1) e"
      using "1.prems"(1) count_first [OF le(1), of hs] by (simp split: if_splits)
    from "1.IH" [OF True le(2) this "1.prems"(2) le(1)] True le(2) show ?thesis
      by (subst add_loop.simps) simp
  next
    case False
    with "1.prems" show ?thesis by (subst add_loop.simps) simp
  qed
qed

lemma add_loop_Inl: "add_loop hs n c d = Inl e \<Longrightarrow> e = InvalidTimeValue"
  by (induction hs n c d rule: add_loop.induct) (subst (asm) add_loop.simps, simp split: if_splits)

subsection \<open>Interface: counting open days\<close>

text \<open>\<open>advance d n\<close> is the day on which the n-th open day after \<open>d\<close> falls, if the calendar reaches it.\<close>

locale day_counter =
  fixes advance :: "int \<Rightarrow> int \<Rightarrow> int option" and open_day :: "int \<Rightarrow> bool"
  assumes advance_count:
    "0 \<le> n \<Longrightarrow> advance d n = Some e \<Longrightarrow>
       d \<le> e \<and> int (length (filter open_day [d + 1..e])) = n \<and> (0 < n \<longrightarrow> open_day e \<and> d < e)"
begin

lemma count_mono: "a \<le> b \<Longrightarrow> length (filter open_day [d + 1..a]) \<le> length (filter open_day [d + 1..b])"
proof (cases "d + 1 \<le> a + 1")
  case True
  assume "a \<le> b"
  then have "[d + 1..b] = [d + 1..a] @ [a + 1..b]" using True by (intro upto_join) simp_all
  then show ?thesis by simp
qed simp

lemma advance_strict:
  assumes "0 \<le> m" "m < n" "advance d m = Some a" "advance d n = Some b"
  shows "a < b"
  using advance_count [of m d a] advance_count [of n d b] count_mono [of b a d] assms by linarith

text \<open>The result is the only open day with that count, so it does not depend on how it is found.\<close>

lemma advance_unique:
  assumes "0 < n" "advance d n = Some e" "d < x" "open_day x" "int (length (filter open_day [d + 1..x])) = n"
  shows "x = e"
proof (rule ccontr)
  have e: "d < e" "open_day e" "int (length (filter open_day [d + 1..e])) = n"
    using advance_count [of n d e] assms(1,2) by simp_all
  have grow: "length (filter open_day [d + 1..a]) < length (filter open_day [d + 1..b])"
    if "a < b" "open_day b" "d < b" for a b
  proof -
    have "[d + 1..b] = [d + 1..b - 1] @ [b]" using that(3) by (simp add: upto_rec2)
    then show ?thesis using that count_mono [of a "b - 1" d] by simp
  qed
  assume "x \<noteq> e"
  then show False using grow [of x e] grow [of e x] e assms(3-5) by linarith
qed

end

definition advance_business :: "string list \<Rightarrow> int \<Rightarrow> int \<Rightarrow> int option" where
  "advance_business hs d n = (case add_loop hs n 0 d of Inl _ \<Rightarrow> None | Inr e \<Rightarrow> Some e)"

interpretation bd: day_counter "advance_business hs" "business_day hs" for hs
proof
  fix n d e
  assume "0 \<le> n" "advance_business hs d n = Some e"
  then show "d \<le> e \<and> business_count hs d e = n \<and> (0 < n \<longrightarrow> business_day hs e \<and> d < e)"
    using add_loop_spec [of hs n 0 d e] by (simp add: advance_business_def split: sum.splits)
qed

subsection \<open>How far a count reaches\<close>

definition weekday :: "int \<Rightarrow> bool" where
  "weekday d \<longleftrightarrow> day_of_week d \<noteq> 0 \<and> day_of_week d \<noteq> 6"

lemma upto_week: "[d + 1..d + 7] = [d + 1, d + 2, d + 3, d + 4, d + 5, d + 6, d + 7]" for d :: int
  by (simp add: upto_rec1)

lemma weekdays_in_week: "length (filter weekday [d + 1..d + 7]) = 5"
proof -
  define r where "r = (d + 4) mod 7"
  have "0 \<le> r" "r < 7" by (simp_all add: r_def)
  then have r: "r = 0 \<or> r = 1 \<or> r = 2 \<or> r = 3 \<or> r = 4 \<or> r = 5 \<or> r = 6" by linarith
  have w: "day_of_week (d + k) = (r + k) mod 7" for k
  proof -
    have "d + k + 4 = (d + 4) + k" by simp
    then show ?thesis unfolding day_of_week_def r_def by (simp only: mod_add_left_eq)
  qed
  show ?thesis using r unfolding upto_week by (elim disjE) (simp_all add: weekday_def w)
qed

lemma weekdays_count: "length (filter weekday [d + 1..d + 7 * int k]) = 5 * k"
proof (induction k)
  case (Suc k)
  have "[d + 1..d + 7 * int (Suc k)] = [d + 1..d + 7 * int k] @ [(d + 7 * int k) + 1..(d + 7 * int k) + 7]"
    using upto_join [of d "d + 7 * int k" "d + 7 * int (Suc k)"] by (simp add: algebra_simps)
  then show ?case using Suc weekdays_in_week [of "d + 7 * int k"] by simp
qed simp

lemma holidays_count:
  assumes "\<forall>h \<in> set hs. \<exists>n. four_digit_day n \<and> h = formatDateOnly n"
  shows "length (filter (\<lambda>d. formatDateOnly d \<in> set hs) [a..b]) \<le> length hs"
proof -
  let ?xs = "filter (\<lambda>d. formatDateOnly d \<in> set hs) [a..b]"
  have "inj_on formatDateOnly (set ?xs)"
  proof (rule inj_onI)
    fix x y
    assume "x \<in> set ?xs" "formatDateOnly x = formatDateOnly y"
    moreover from this(1) assms obtain n where "four_digit_day n" "formatDateOnly x = formatDateOnly n" by auto
    ultimately show "x = y" by (metis formatDateOnly_inj)
  qed
  then have "distinct (map formatDateOnly ?xs)" by (simp add: distinct_map)
  then have "length ?xs = card (set (map formatDateOnly ?xs))" by (metis distinct_card length_map)
  also have "\<dots> \<le> card (set hs)" by (intro card_mono) auto
  also have "\<dots> \<le> length hs" by (rule card_length)
  finally show ?thesis .
qed

lemma business_days_count:
  assumes "\<forall>h \<in> set hs. \<exists>n. four_digit_day n \<and> h = formatDateOnly n"
  shows "5 * int k - int (length hs) \<le> business_count hs d (d + 7 * int k)"
proof -
  let ?xs = "[d + 1..d + 7 * int k]"
  have "length (filter weekday ys) \<le> length (filter (business_day hs) ys) + length (filter (\<lambda>d. formatDateOnly d \<in> set hs) ys)" for ys
    by (induction ys) (auto simp: business_day_def weekday_def)
  from this [of ?xs] holidays_count [OF assms, of "d + 1" "d + 7 * int k"] weekdays_count [of d k]
  show ?thesis by linarith
qed

lemma add_loop_returns:
  assumes "\<forall>h \<in> set hs. \<exists>n. four_digit_day n \<and> h = formatDateOnly n"
    and "four_digit_day d" "0 \<le> n" "n + int (length hs) \<le> 1000000"
  shows "\<exists>e. add_loop hs n 0 d = Inr e \<and> d \<le> e \<and> e \<le> d + 7 * (n + int (length hs))"
proof -
  define k where "k = nat (n + int (length hs))"
  have k: "int k = n + int (length hs)" using assms(3) by (simp add: k_def)
  have "n - 0 \<le> business_count hs d (d + 7 * int k)"
    using business_days_count [OF assms(1), of k d] assms(3) k by linarith
  moreover have "d + 7 * int k \<le> max_day"
    using assms(2,4) k by (simp add: four_digit_day_bounds max_day_def)
  ultimately obtain e where e: "add_loop hs n 0 d = Inr e" "e \<le> d + 7 * int k"
    using add_loop_total [of n 0 hs d "d + 7 * int k"] by auto
  with add_loop_spec [OF e(1) assms(3)] k show ?thesis by auto
qed

subsection \<open>The window loop\<close>

lemma add_loop_step:
  "b < n \<Longrightarrow> add_loop hs n b d =
     (if max_day < d + 1 then Inl InvalidTimeValue
      else add_loop hs n (if business_day hs (d + 1) then b + 1 else b) (d + 1))"
  by (subst add_loop.simps) simp

lemma add_loop_done: "add_loop hs n n d = Inr d"
  by (subst add_loop.simps) simp

lemma window_loop_late:
  "5 \<le> b \<Longrightarrow> b < 7 \<Longrightarrow>
     window_loop hs b d x y = await (add_loop hs 7 b d) (\<lambda>e. Inr (x, formatDateOnly e))"
proof (induction hs b d x y rule: window_loop.induct)
  case (1 hs b d x y)
  show ?case
  proof (cases "max_day < d + 1")
    case True
    with "1.prems" show ?thesis by (subst window_loop.simps) (simp add: add_loop_step)
  next
    case False
    have IH: "\<not> business_day hs (d + 1) \<Longrightarrow> window_loop hs b (d + 1) x y = await (add_loop hs 7 b (d + 1)) (\<lambda>e. Inr (x, formatDateOnly e))"
      "business_day hs (d + 1) \<Longrightarrow> b + 1 < 7 \<Longrightarrow>
        window_loop hs (b + 1) (d + 1) (if b + 1 = 5 then formatDateOnly (d + 1) else x)
          (if b + 1 = 7 then formatDateOnly (d + 1) else y) =
        await (add_loop hs 7 (b + 1) (d + 1)) (\<lambda>e. Inr (if b + 1 = 5 then formatDateOnly (d + 1) else x, formatDateOnly e))"
      using "1.IH" "1.prems" False by simp_all
    have last: "window_loop hs 7 (d + 1) u v = Inr (u, v)" for u v
      by (subst window_loop.simps) simp
    consider "\<not> business_day hs (d + 1)" | "business_day hs (d + 1)" "b + 1 < 7" | "business_day hs (d + 1)" "b + 1 = 7"
      using "1.prems" by linarith
    then show ?thesis
    proof cases
      case 3
      then show ?thesis using "1.prems" False
        by (subst window_loop.simps) (simp add: add_loop_step add_loop_done last)
    qed (use IH "1.prems" False in \<open>subst window_loop.simps, simp add: add_loop_step\<close>)+
  qed
qed

lemma window_loop_eq:
  "b < 5 \<Longrightarrow>
     window_loop hs b d x y =
       await (add_loop hs 5 b d) (\<lambda>e5. await (add_loop hs 7 b d) (\<lambda>e7. Inr (formatDateOnly e5, formatDateOnly e7)))"
proof (induction hs b d x y rule: window_loop.induct)
  case (1 hs b d x y)
  show ?case
  proof (cases "max_day < d + 1")
    case True
    with "1.prems" show ?thesis by (subst window_loop.simps) (simp add: add_loop_step)
  next
    case False
    consider "\<not> business_day hs (d + 1)" | "business_day hs (d + 1)" "b + 1 < 5" | "business_day hs (d + 1)" "b + 1 = 5"
      using "1.prems" by linarith
    then show ?thesis
    proof cases
      case 3
      then show ?thesis using "1.prems" False
        by (subst window_loop.simps) (simp add: add_loop_step add_loop_done window_loop_late)
    qed (use "1.IH" "1.prems" False in \<open>subst window_loop.simps, simp add: add_loop_step\<close>)+
  qed
qed

subsection \<open>Importing calendars\<close>

lemma normalize_map_Inr:
  assumes "normalize_map seen hs = Inr out"
  shows "map fst out = map fst hs \<and> distinct (map fst out) \<and> set (map fst out) \<inter> set seen = {} \<and>
    list_all (\<lambda>(d, n). \<exists>k. four_digit_day k \<and> d = formatDateOnly k) out"
  using assms
proof (induction seen hs arbitrary: out rule: normalize_map.induct)
  case (2 seen date name rest)
  then obtain d out' where d: "parseDateOnly date = Inr d" "out = (formatDateOnly d, trim name) # out'"
    "normalize_map (formatDateOnly d # seen) rest = Inr out'" "formatDateOnly d \<notin> set seen"
    "trim name \<noteq> []" "\<not> 100 < length (trim name)"
    by (auto simp: result_iffs Let_def split: if_splits)
  then have "date = formatDateOnly d" "four_digit_day d" by (simp_all add: parseDateOnly_Inr formatDateOnly_four)
  moreover have "map fst out' = map fst rest \<and> distinct (map fst out') \<and> set (map fst out') \<inter> set (formatDateOnly d # seen) = {} \<and>
    list_all (\<lambda>(d, n). \<exists>k. four_digit_day k \<and> d = formatDateOnly k) out'"
    by (rule "2.IH" [OF refl refl _ d(3)]) (use d in simp)
  ultimately show ?case using d(4) unfolding d(2) by (auto simp del: set_map)
qed simp

text \<open>A calendar of the database: holidays belong to a stored version and no version has two
  holidays on one date; every stored date is well-formed.\<close>

definition calendar_inv :: "calendar_db \<Rightarrow> bool" where
  "calendar_inv db \<longleftrightarrow>
     distinct (map cv_version (cal_versions db)) \<and>
     distinct (map (\<lambda>r. (ch_calendarVersion r, ch_holidayDate r)) (cal_holidays db)) \<and>
     ch_calendarVersion ` set (cal_holidays db) \<subseteq> cv_version ` set (cal_versions db) \<and>
     list_all (\<lambda>r. cv_publishedAt r \<le> cv_importedAt r) (cal_versions db) \<and>
     list_all (\<lambda>r. \<exists>k. four_digit_day k \<and> ch_holidayDate r = formatDateOnly k) (cal_holidays db)"

lemma import_cases:
  assumes "importBusinessCalendarVersion clock v label pub imp hs db = Inr (db', res)"
  shows "(res = AlreadyPresent \<and> db' = db \<and> v \<in> cv_version ` set (cal_versions db)) \<or>
    (\<exists>p i out. res = Inserted \<and> v \<notin> cv_version ` set (cal_versions db) \<and> p \<le> i \<and> pub = Some p \<and> calendar_version_ok v \<and>
       normalizeHolidays hs = Inr out \<and>
       db' = \<lparr>cal_versions = cal_versions db @ [\<lparr>cv_version = v, cv_sourceLabel = label, cv_publishedAt = p, cv_importedAt = i\<rparr>],
          cal_holidays = cal_holidays db @ map (\<lambda>(d, n). \<lparr>ch_calendarVersion = v, ch_holidayDate = d, ch_name = n\<rparr>) out\<rparr>)"
proof (cases "v \<in> cv_version ` set (cal_versions db)")
  case True
  with assms show ?thesis
    unfolding importBusinessCalendarVersion_def Let_def
    by (auto simp: result_iffs split: if_splits)
next
  case False
  with assms show ?thesis
    unfolding importBusinessCalendarVersion_def Let_def by (auto simp: result_iffs)
qed

lemma normalizeHolidays_Inr:
  assumes "normalizeHolidays hs = Inr out"
  shows "set (map fst out) = set (map fst hs)" "distinct (map fst out)" "sorted (map fst out)"
    "list_all (\<lambda>(d, n). \<exists>k. four_digit_day k \<and> d = formatDateOnly k) out"
proof -
  from assms obtain o' where o': "normalize_map [] hs = Inr o'" "out = sort_key fst o'"
    by (auto simp: normalizeHolidays_def result_iffs)
  note n = normalize_map_Inr [OF o'(1)]
  show "set (map fst out) = set (map fst hs)"
    using arg_cong [OF n [THEN conjunct1], of set] by (simp add: o'(2))
  show "distinct (map fst out)" using n by (simp add: o'(2) distinct_map)
  show "sorted (map fst out)" by (simp add: o'(2))
  show "list_all (\<lambda>(d, n). \<exists>k. four_digit_day k \<and> d = formatDateOnly k) out"
    using n by (simp add: o'(2) list_all_iff)
qed

lemma import_inv:
  assumes "importBusinessCalendarVersion clock v label pub imp hs db = Inr (db', res)" "calendar_inv db"
  shows "calendar_inv db'"
  using import_cases [OF assms(1)]
proof (elim disjE exE conjE)
  fix p i out
  assume new: "v \<notin> cv_version ` set (cal_versions db)" "p \<le> i" "normalizeHolidays hs = Inr out"
    and db': "db' = \<lparr>cal_versions = cal_versions db @ [\<lparr>cv_version = v, cv_sourceLabel = label, cv_publishedAt = p, cv_importedAt = i\<rparr>],
          cal_holidays = cal_holidays db @ map (\<lambda>(d, n). \<lparr>ch_calendarVersion = v, ch_holidayDate = d, ch_name = n\<rparr>) out\<rparr>"
  have key: "map (\<lambda>r. (ch_calendarVersion r, ch_holidayDate r)) (map (\<lambda>(d, n). \<lparr>ch_calendarVersion = v, ch_holidayDate = d, ch_name = n\<rparr>) out)
      = map (\<lambda>d. (v, d)) (map fst out)" by auto
  have "distinct (map (\<lambda>d. (v, d)) (map fst out))"
    using normalizeHolidays_Inr(2) [OF new(3)] by (simp add: distinct_map inj_on_def del: map_map)
  moreover have "v \<notin> ch_calendarVersion ` set (cal_holidays db)" using new(1) assms(2) by (auto simp: calendar_inv_def)
  ultimately show ?thesis
    using assms(2) new normalizeHolidays_Inr(4) [OF new(3)]
    unfolding calendar_inv_def db' calendar_db.simps map_append key
    by (auto simp: list_all_iff image_iff) 
qed (use assms(2) in simp)

lemma stored_holidays:
  "filter (\<lambda>h. ch_calendarVersion h = v) (map (\<lambda>(d, n). \<lparr>ch_calendarVersion = v, ch_holidayDate = d, ch_name = n\<rparr>) out) =
     map (\<lambda>(d, n). \<lparr>ch_calendarVersion = v, ch_holidayDate = d, ch_name = n\<rparr>) out"
  "map (\<lambda>h. (ch_holidayDate h, ch_name h)) (map (\<lambda>(d, n). \<lparr>ch_calendarVersion = v, ch_holidayDate = d, ch_name = n\<rparr>) out) = out"
  by (induction out) auto

lemma find_append_key:
  "k \<notin> key ` set t \<Longrightarrow> key r = k \<Longrightarrow> List.find (\<lambda>x. key x = k) (t @ [r]) = Some r"
  by (induction t) auto

lemma find_append_other:
  "key r \<noteq> k \<Longrightarrow> List.find (\<lambda>x. key x = k) (t @ [r]) = List.find (\<lambda>x. key x = k) t"
  by (induction t) auto

lemma imported_matches:
  assumes inv: "calendar_inv db" and v: "v \<notin> cv_version ` set (cal_versions db)" and n: "normalizeHolidays hs = Inr out"
  shows "calendar_matches
     \<lparr>cal_versions = cal_versions db @ [\<lparr>cv_version = v, cv_sourceLabel = label, cv_publishedAt = p, cv_importedAt = i\<rparr>],
      cal_holidays = cal_holidays db @ map (\<lambda>(d, n). \<lparr>ch_calendarVersion = v, ch_holidayDate = d, ch_name = n\<rparr>) out\<rparr> v label p out"
proof -
  let ?new = "map (\<lambda>(d, n). \<lparr>ch_calendarVersion = v, ch_holidayDate = d, ch_name = n\<rparr>) out"
  have "\<forall>h \<in> set (cal_holidays db). ch_calendarVersion h \<noteq> v" using v inv by (auto simp: calendar_inv_def)
  then have f: "filter (\<lambda>h. ch_calendarVersion h = v) (cal_holidays db @ ?new) = ?new"
    by (simp add: stored_holidays(1) del: map_map)
  have "map ch_holidayDate ?new = map fst out" by auto
  then have "sort_key ch_holidayDate ?new = ?new"
    using normalizeHolidays_Inr(3) [OF n] by (simp add: sort_key_id_if_sorted del: map_map)
  then show ?thesis
    using v unfolding calendar_matches_def find_version_def calendar_db.simps f
    by (simp add: find_append_key stored_holidays(2) del: map_map)
qed

subsection \<open>Properties\<close>

text \<open>C37: Counting business days terminates with the right day: from a valid date, for a count and a
  number of holidays of at most a million together, the result is the day on which the n-th business
  day (Monday to Friday, not a holiday) after the start falls.\<close>

theorem nth_business_day:
  assumes "parseDateOnly fromDate = Inr d" "parse_all hs = Inr hs'" "0 \<le> n" "n + int (length hs) \<le> 1000000"
  shows "\<exists>e. addVietnamBusinessDays fromDate n hs = Inr (formatDateOnly e) \<and> d \<le> e \<and>
    int (length (filter (business_day hs) [d + 1..e])) = n \<and> (0 < n \<longrightarrow> business_day hs e)"
proof -
  note h = parse_all_Inr [OF assms(2)]
  have d: "four_digit_day d" using assms(1) by (simp add: parseDateOnly_Inr)
  obtain e where e: "add_loop hs n 0 d = Inr e"
    using add_loop_returns [of hs d n] h d assms(3,4) by blast
  moreover have "isSafeInteger n" using assms(3,4) by (simp add: isSafeInteger_def max_safe_integer_def)
  ultimately have "addVietnamBusinessDays fromDate n hs = Inr (formatDateOnly e)"
    using assms(1-3) h by (simp add: addVietnamBusinessDays_def)
  moreover have "advance_business hs d n = Some e" using e by (simp add: advance_business_def)
  ultimately show ?thesis using bd.advance_count [OF assms(3)] by blast
qed

lemma sample_dates:
  "parseDateOnly ''2026-02-13'' = Inr 20497" "parse_all [''2026-02-16'', ''2026-02-17''] = Inr [''2026-02-16'', ''2026-02-17'']"
proof -
  have d: "parseDateOnly ''2026-02-13'' = Inr 20497" "parseDateOnly ''2026-02-16'' = Inr 20500" "parseDateOnly ''2026-02-17'' = Inr 20501"
    by (simp_all add: parseDateOnly_Inr four_digit_day_bounds sample_iso_dates)
  then show "parseDateOnly ''2026-02-13'' = Inr 20497" "parse_all [''2026-02-16'', ''2026-02-17''] = Inr [''2026-02-16'', ''2026-02-17'']"
    by (simp_all add: formatDateOnly_def sample_iso_dates)
qed

theorem nth_business_day_witness:
  "\<exists>e. addVietnamBusinessDays ''2026-02-13'' 2 [''2026-02-16'', ''2026-02-17''] = Inr (formatDateOnly e) \<and> 20497 \<le> e \<and>
     length (filter (business_day [''2026-02-16'', ''2026-02-17'']) [20498..e]) = 2"
  using nth_business_day [OF sample_dates, of 2] by auto

text \<open>C32: The refund window is made of the fifth and the seventh business day after the receipt: for
  every valid receipt date and calendar the computation returns, opens strictly after the receipt,
  falls due strictly after it opens, and agrees with counting five and seven business days.\<close>

theorem refund_window_is_fifth_and_seventh:
  assumes "calendar_version_ok v" "parseDateOnly receipt = Inr d" "parse_all hs = Inr hs'" "length hs \<le> 900000"
  shows "\<exists>w a b. calculateBusinessDayWindow receipt v hs = Inr w \<and> bw_receiptDate w = receipt \<and>
    addVietnamBusinessDays receipt 5 hs = Inr (bw_refundNotBefore w) \<and>
    addVietnamBusinessDays receipt 7 hs = Inr (bw_refundDue w) \<and>
    bw_refundNotBefore w = formatDateOnly a \<and> bw_refundDue w = formatDateOnly b \<and>
    business_day hs a \<and> business_day hs b \<and> d < a \<and> a < b"
proof -
  note h = parse_all_Inr [OF assms(3)]
  have d: "four_digit_day d" using assms(2) by (simp add: parseDateOnly_Inr)
  obtain a b where ab: "add_loop hs 5 0 d = Inr a" "add_loop hs 7 0 d = Inr b"
    using add_loop_returns [of hs d 5] add_loop_returns [of hs d 7] h d assms(4) by auto
  then have adv: "advance_business hs d 5 = Some a" "advance_business hs d 7 = Some b"
    by (simp_all add: advance_business_def)
  have order: "d < a" "a < b" "business_day hs a" "business_day hs b"
    using bd.advance_strict [OF _ _ adv] bd.advance_count [OF _ adv(1)] bd.advance_count [OF _ adv(2)] by simp_all
  have win: "window_loop hs 0 d [] [] = Inr (formatDateOnly a, formatDateOnly b)"
    using ab by (simp add: window_loop_eq)
  have "isSafeInteger 5" "isSafeInteger 7" by (simp_all add: isSafeInteger_def max_safe_integer_def)
  then show ?thesis
    using assms(1-3) h ab win order
    by (simp add: calculateBusinessDayWindow_def addVietnamBusinessDays_def) blast
qed

theorem refund_window_is_fifth_and_seventh_witness:
  "\<exists>w. calculateBusinessDayWindow ''2026-02-13'' ''vn-2026'' [''2026-02-16'', ''2026-02-17''] = Inr w \<and>
     addVietnamBusinessDays ''2026-02-13'' 5 [''2026-02-16'', ''2026-02-17''] = Inr (bw_refundNotBefore w)"
proof -
  have "calendar_version_ok ''vn-2026''" by code_simp
  from refund_window_is_fifth_and_seventh [OF this sample_dates] show ?thesis by auto
qed

text \<open>Importing a calendar never changes a stored one and is idempotent: after a successful
  import every version that existed still has its row and its holidays, and the same import run
  again reports that it is already present and changes nothing.\<close>

theorem calendar_import_immutable:
  assumes "calendar_inv db"
    and "importBusinessCalendarVersion clock v label pub imp hs db = Inr (db', res)"
  shows "(\<forall>v' \<in> cv_version ` set (cal_versions db).
      find_version db' v' = find_version db v' \<and> holiday_dates db' v' = holiday_dates db v') \<and>
    importBusinessCalendarVersion clock v label pub imp hs db' = Inr (db', AlreadyPresent) \<and> calendar_inv db'"
  using import_cases [OF assms(2)]
proof (elim disjE exE conjE)
  assume "res = AlreadyPresent" "db' = db"
  with assms show ?thesis by simp
next
  fix p i out
  assume new: "res = Inserted" "v \<notin> cv_version ` set (cal_versions db)" "p \<le> i" "pub = Some p" "normalizeHolidays hs = Inr out"
    and db': "db' = \<lparr>cal_versions = cal_versions db @ [\<lparr>cv_version = v, cv_sourceLabel = label, cv_publishedAt = p, cv_importedAt = i\<rparr>],
          cal_holidays = cal_holidays db @ map (\<lambda>(d, n). \<lparr>ch_calendarVersion = v, ch_holidayDate = d, ch_name = n\<rparr>) out\<rparr>"
  have "calendar_matches db' v label p out"
    using imported_matches [OF assms(1) new(2,5)] by (simp add: db')
  moreover have "v \<in> cv_version ` set (cal_versions db')" by (simp add: db')
  ultimately have again: "importBusinessCalendarVersion clock v label pub imp hs db' = Inr (db', AlreadyPresent)"
    using assms(2) new(4,5) unfolding importBusinessCalendarVersion_def Let_def by (auto simp: result_iffs)
  have "find_version db' v' = find_version db v' \<and> holiday_dates db' v' = holiday_dates db v'"
    if "v' \<in> cv_version ` set (cal_versions db)" for v'
  proof -
    have ne: "v \<noteq> v'" using that new(2) by auto
    then have "filter (\<lambda>r. ch_calendarVersion r = v')
        (map (\<lambda>(d, n). \<lparr>ch_calendarVersion = v, ch_holidayDate = d, ch_name = n\<rparr>) out) = []"
      by (auto simp: filter_empty_conv)
    then show ?thesis
      using ne by (simp add: find_version_def holiday_dates_def db' find_append_other del: filter_map)
  qed
  then show ?thesis using again import_inv [OF assms(2,1)] by blast
qed

theorem calendar_import_immutable_witness:
  "\<exists>db. importBusinessCalendarVersion 9 ''vn-2026'' ''gov:tet'' (Some 5) None [(''2026-02-17'', ''Tet'')]
       \<lparr>cal_versions = [], cal_holidays = []\<rparr> = Inr (db, Inserted) \<and>
     importBusinessCalendarVersion 9 ''vn-2026'' ''gov:tet'' (Some 5) None [(''2026-02-17'', ''Tet'')] db = Inr (db, AlreadyPresent)"
proof -
  have inv: "calendar_inv \<lparr>cal_versions = [], cal_holidays = []\<rparr>" by (simp add: calendar_inv_def)
  have "\<exists>db. importBusinessCalendarVersion 9 ''vn-2026'' ''gov:tet'' (Some 5) None [(''2026-02-17'', ''Tet'')]
       \<lparr>cal_versions = [], cal_holidays = []\<rparr> = Inr (db, Inserted)"
  proof -
    have "calendar_version_ok ''vn-2026''" "source_label_ok ''gov:tet''"
      "trim ''Tet'' = ''Tet''" by code_simp+
    moreover have "parseDateOnly ''2026-02-17'' = Inr 20501"
      by (simp add: parseDateOnly_Inr four_digit_day_bounds sample_iso_dates)
    then have "normalizeHolidays [(''2026-02-17'', ''Tet'')] = Inr [(''2026-02-17'', ''Tet'')]"
      using \<open>trim ''Tet'' = ''Tet''\<close> by (simp add: normalizeHolidays_def formatDateOnly_def sample_iso_dates)
    ultimately show ?thesis by (simp add: importBusinessCalendarVersion_def)
  qed
  with calendar_import_immutable [OF inv] show ?thesis by blast
qed

end
