(* ===== verification/Crypto.thy ===== *)
theory Crypto
  imports StructuredData
begin

text \<open>
  Hashing and sealed fields (\<^verbatim>\<open>packages/security/src/hashing.ts\<close>,
  \<^verbatim>\<open>packages/security/src/encryption-envelope.ts\<close>). The cryptographic primitives of the platform
  and its URL parser are the fields of a record \<open>platform\<close>; \<open>platform_laws\<close> are the documented facts
  about them that the code relies on. The base64url codec of the platform's buffers is modelled.
  Shown: the codec round trip, the shape of the stored hashes, that a sealed field opens to its
  plaintext under every keyring that still holds the key, and that the associated data names the
  field uniquely. The locale \<open>sealed_fields\<close> is what the services that store envelopes rely on.
\<close>

subsection \<open>The platform\<close>

record platform =
  pf_parse_url :: "string \<Rightarrow> url_view option"
  pf_sha256 :: "string \<Rightarrow> string"
  pf_hmac :: "string \<Rightarrow> string \<Rightarrow> string"
  pf_gcm_seal :: "string \<Rightarrow> string \<Rightarrow> string \<Rightarrow> string \<Rightarrow> string \<times> string"
  pf_gcm_open :: "string \<Rightarrow> string \<Rightarrow> string \<Rightarrow> string \<Rightarrow> string \<Rightarrow> string option"

text \<open>Digests have 32 bytes. \<open>pf_gcm_seal key nonce aad plaintext\<close> is a ciphertext as long as the
  plaintext and a tag of 16 bytes, and opening succeeds exactly on what sealing gives.\<close>

definition platform_laws :: "platform \<Rightarrow> bool" where
  "platform_laws pf \<longleftrightarrow>
     (\<forall>s. length (pf_sha256 pf s) = 32) \<and> (\<forall>k s. length (pf_hmac pf k s) = 32) \<and>
     (\<forall>k n a p. length (fst (pf_gcm_seal pf k n a p)) = length p \<and> length (snd (pf_gcm_seal pf k n a p)) = 16) \<and>
     (\<forall>k n a c t p. pf_gcm_open pf k n a c t = Some p \<longleftrightarrow> pf_gcm_seal pf k n a p = (c, t))"

definition toy_platform :: platform where
  "toy_platform = \<lparr>pf_parse_url = (\<lambda>_. None), pf_sha256 = (\<lambda>s. take 32 (s @ replicate 32 (CHR ''x''))),
     pf_hmac = (\<lambda>k s. take 32 (k @ s @ replicate 32 (CHR ''x''))),
     pf_gcm_seal = (\<lambda>k n a p. (p, replicate 16 (CHR ''t''))),
     pf_gcm_open = (\<lambda>k n a c t. if t = replicate 16 (CHR ''t'') then Some c else None)\<rparr>"

lemma toy_platform_laws: "platform_laws toy_platform"
  by (auto simp: platform_laws_def toy_platform_def)

subsection \<open>base64url\<close>

definition b64_alphabet :: string where
  "b64_alphabet = ''ABCDEFGHIJKLMNOPQRSTUVWXYZabcdefghijklmnopqrstuvwxyz0123456789-_''"

definition b64_char :: "nat \<Rightarrow> char" where
  "b64_char n = b64_alphabet ! n"

definition b64_value :: "char \<Rightarrow> nat" where
  "b64_value c = index_of c b64_alphabet"

abbreviation byte :: "char \<Rightarrow> nat" where
  "byte \<equiv> of_char"

text \<open>\<open>buffer.toString("base64url")\<close> has no padding; \<open>Buffer.from(text, "base64url")\<close> ignores the
  bits that do not fill a byte.\<close>

fun b64_encode :: "string \<Rightarrow> string" where
  "b64_encode [] = []"
| "b64_encode [a] = [b64_char (byte a div 4), b64_char (byte a mod 4 * 16)]"
| "b64_encode [a, b] =
     [b64_char (byte a div 4), b64_char (byte a mod 4 * 16 + byte b div 16), b64_char (byte b mod 16 * 4)]"
| "b64_encode (a # b # c # rest) =
     b64_char (byte a div 4) # b64_char (byte a mod 4 * 16 + byte b div 16) #
     b64_char (byte b mod 16 * 4 + byte c div 64) # b64_char (byte c mod 64) # b64_encode rest"

fun b64_decode :: "string \<Rightarrow> string" where
  "b64_decode [] = []"
| "b64_decode [x] = []"
| "b64_decode [x, y] = [char_of (b64_value x * 4 + b64_value y div 16)]"
| "b64_decode [x, y, z] =
     [char_of (b64_value x * 4 + b64_value y div 16),
      char_of (b64_value y mod 16 * 16 + b64_value z div 4)]"
| "b64_decode (x # y # z # w # rest) =
     char_of (b64_value x * 4 + b64_value y div 16) #
     char_of (b64_value y mod 16 * 16 + b64_value z div 4) #
     char_of (b64_value z mod 4 * 64 + b64_value w) # b64_decode rest"

lemma b64_table: "\<forall>n \<in> set [0..<64]. b64_value (b64_char n) = n \<and> is_base64url (b64_char n)"
  by code_simp

lemma b64_value_char [simp]: "n < 64 \<Longrightarrow> b64_value (b64_char n) = n"
  and b64_char_class: "n < 64 \<Longrightarrow> is_base64url (b64_char n)"
  using b64_table by simp_all

lemma byte_lt [simp]: "byte c < 256"
  using of_char_mod_256 [of c, where ?'a = nat] by (metis mod_less_divisor zero_less_numeral)

lemma six_bits:
  "byte a div 4 < 64" "byte a mod 4 * 16 < 64" "byte a mod 4 * 16 + byte b div 16 < 64"
  "byte b mod 16 * 4 < 64" "byte b mod 16 * 4 + byte c div 64 < 64" "byte c mod 64 < 64"
  using byte_lt [of a] byte_lt [of b] byte_lt [of c] by linarith+

lemma high_bits [simp]: "byte b div 16 div 16 = 0" "byte c div 64 div 4 = 0"
  "byte b div 16 mod 16 = byte b div 16" "byte c div 64 mod 4 = byte c div 64"
  by (simp_all add: div_mult2_eq [symmetric] less_mult_imp_div_less)

lemma b64_roundtrip: "b64_decode (b64_encode s) = s"
  by (induction s rule: b64_encode.induct) (simp_all add: six_bits)

lemma b64_encode_class: "list_all is_base64url (b64_encode s)"
  by (induction s rule: b64_encode.induct) (simp_all add: b64_char_class six_bits)

lemma b64_encode_length: "length (b64_encode s) = (4 * length s + 2) div 3"
  by (induction s rule: b64_encode.induct) simp_all

lemma b64_encode_Nil: "b64_encode s = [] \<longleftrightarrow> s = []"
  by (cases s rule: b64_encode.cases) simp_all

lemma b64_digest: "length s = 32 \<Longrightarrow> repeats is_base64url 43 43 (b64_encode s)"
  by (simp add: repeats_def b64_encode_length b64_encode_class)

subsection \<open>Hashing\<close>

datatype hash_error = SecurityHashingError

definition hash_domain :: "string \<Rightarrow> bool" where
  "hash_domain s \<longleftrightarrow>
     (case s of [] \<Rightarrow> False
      | c # cs \<Rightarrow> is_lower c \<and>
          repeats (\<lambda>d. is_lower d \<or> is_digit d \<or> d \<in> set ''._-'') 0 63 cs)"

definition assertDomain :: "string \<Rightarrow> hash_error + unit" where
  "assertDomain domain = require (hash_domain domain) SecurityHashingError"

definition assertBoundedInput :: "string \<Rightarrow> hash_error + unit" where
  "assertBoundedInput v = require (v \<noteq> [] \<and> length v \<le> 8192) SecurityHashingError"

definition digestValue :: "platform \<Rightarrow> string \<Rightarrow> string \<Rightarrow> hash_error + string" where
  "digestValue pf domain v =
     await (assertDomain domain) (\<lambda>_. await (assertBoundedInput v) (\<lambda>_.
       Inr (pf_sha256 pf (''pawket-token:v1:'' @ domain @ [CHR 0x00] @ v))))"

definition constantTimeEqual :: "platform \<Rightarrow> string \<Rightarrow> string \<Rightarrow> bool" where
  "constantTimeEqual pf l r \<longleftrightarrow> pf_sha256 pf l = pf_sha256 pf r"

definition hashOpaqueToken :: "platform \<Rightarrow> string \<Rightarrow> string \<Rightarrow> hash_error + string" where
  "hashOpaqueToken pf token purpose =
     await (digestValue pf purpose token) (\<lambda>d. Inr (''sha256:v1:'' @ b64_encode d))"

definition verifyOpaqueTokenHash :: "platform \<Rightarrow> string \<Rightarrow> string \<Rightarrow> string \<Rightarrow> hash_error + bool" where
  "verifyOpaqueTokenHash pf storedHash candidateToken purpose =
     (if \<not> digest_with ''sha256:v1:'' storedHash then Inr False
      else await (hashOpaqueToken pf candidateToken purpose) (\<lambda>expected.
        Inr (constantTimeEqual pf storedHash expected)))"

definition createLookupHmac :: "platform \<Rightarrow> string \<Rightarrow> string \<Rightarrow> string \<Rightarrow> hash_error + string" where
  "createLookupHmac pf v context_name key =
     await (assertDomain context_name) (\<lambda>_. await (assertBoundedInput v) (\<lambda>_.
     await (require (32 \<le> length key) SecurityHashingError) (\<lambda>_.
       Inr (''hmac-sha256:v1:'' @ b64_encode (pf_hmac pf key (''pawket-lookup:v1:'' @ context_name @ [CHR 0x00] @ v))))))"

lemma hash_shape:
  assumes "platform_laws pf" "hashOpaqueToken pf token purpose = Inr h"
  shows "digest_with ''sha256:v1:'' h"
  using assms
  by (auto simp: hashOpaqueToken_def digestValue_def result_iffs digest_with_def starts_with_def
      platform_laws_def b64_digest)

lemma hmac_shape:
  assumes "platform_laws pf" "createLookupHmac pf v ctx key = Inr h"
  shows "digest_with ''hmac-sha256:v1:'' h"
  using assms
  by (auto simp: createLookupHmac_def result_iffs digest_with_def starts_with_def
      platform_laws_def b64_digest)

subsection \<open>Sealed fields\<close>

datatype crypto_error = SensitiveDataCryptographyError

record field_binding =
  fb_recordType :: string
  fb_recordId :: string
  fb_fieldName :: string

record envelope =
  en_version :: int
  en_algorithm :: string
  en_keyId :: string
  en_nonce :: string
  en_ciphertext :: string
  en_authenticationTag :: string

record keyring =
  kr_activeKeyId :: string
  kr_keys :: "(string \<times> string) list"

definition key_id_ok :: "string \<Rightarrow> bool" where
  "key_id_ok s \<longleftrightarrow> leading_alnum is_word_dot_dash 63 s"

definition binding_name_ok :: "string \<Rightarrow> bool" where
  "binding_name_ok s \<longleftrightarrow>
     (case s of [] \<Rightarrow> False
      | c # cs \<Rightarrow> is_lower c \<and> repeats (\<lambda>d. is_lower d \<or> is_digit d \<or> d = CHR ''_'') 0 63 cs)"

definition plaintextLimit :: "int option \<Rightarrow> crypto_error + int" where
  "plaintextLimit limit_opt =
     (let limit = (case limit_opt of None \<Rightarrow> 16384 | Some l \<Rightarrow> l)
      in if \<not> isSafeInteger limit \<or> limit < 1 \<or> 140000 < limit then Inl SensitiveDataCryptographyError
         else Inr limit)"

definition validateBinding :: "field_binding \<Rightarrow> crypto_error + unit" where
  "validateBinding b =
     require (binding_name_ok (fb_recordType b) \<and> leading_alnum is_ident 199 (fb_recordId b) \<and>
       binding_name_ok (fb_fieldName b)) SensitiveDataCryptographyError"

definition json_quote :: "string \<Rightarrow> string" where
  "json_quote s = [CHR 0x22] @ s @ [CHR 0x22]"

text \<open>The three parts of a valid binding need no escapes in JSON.\<close>

definition fieldAad :: "field_binding \<Rightarrow> crypto_error + string" where
  "fieldAad b = await (validateBinding b) (\<lambda>_.
     Inr (''['' @ json_quote ''pawket-field'' @ '',1,'' @ json_quote (fb_recordType b) @ '','' @
       json_quote (fb_recordId b) @ '','' @ json_quote (fb_fieldName b) @ '']''))"

definition decodeEnvelopePart :: "string \<Rightarrow> nat option \<Rightarrow> int option \<Rightarrow> crypto_error + string" where
  "decodeEnvelopePart v expectedLength maximumLength =
     (if v = [] \<or> \<not> list_all is_base64url v then Inl SensitiveDataCryptographyError
      else let decoded = b64_decode v
           in if (case expectedLength of None \<Rightarrow> False | Some n \<Rightarrow> length decoded \<noteq> n)
              then Inl SensitiveDataCryptographyError
              else if (case maximumLength of None \<Rightarrow> False | Some n \<Rightarrow> n < int (length decoded))
              then Inl SensitiveDataCryptographyError
              else Inr decoded)"

definition keyFor :: "keyring \<Rightarrow> string \<Rightarrow> crypto_error + string" where
  "keyFor kr keyId =
     (case map_of (kr_keys kr) keyId of None \<Rightarrow> Inl SensitiveDataCryptographyError
      | Some key \<Rightarrow> if length key \<noteq> 32 then Inl SensitiveDataCryptographyError else Inr key)"

text \<open>\<open>keys\<close> are the entries of an object, so their names are distinct.\<close>

definition createEncryptionKeyring :: "string \<Rightarrow> (string \<times> string) list \<Rightarrow> crypto_error + keyring" where
  "createEncryptionKeyring activeKeyId keys =
     (if \<not> key_id_ok activeKeyId then Inl SensitiveDataCryptographyError
      else if \<not> list_all (\<lambda>(keyId, key). key_id_ok keyId \<and> length key = 32) keys
      then Inl SensitiveDataCryptographyError
      else if keys = [] \<or> 8 < length keys \<or> activeKeyId \<notin> fst ` set keys
      then Inl SensitiveDataCryptographyError
      else Inr \<lparr>kr_activeKeyId = activeKeyId, kr_keys = keys\<rparr>)"

text \<open>\<open>nonce\<close> is what \<open>randomBytes(12)\<close> drew.\<close>

definition encryptSensitiveField ::
  "platform \<Rightarrow> string \<Rightarrow> keyring \<Rightarrow> field_binding \<Rightarrow> int option \<Rightarrow> string \<Rightarrow> crypto_error + envelope" where
  "encryptSensitiveField pf nonce kr binding maximumPlaintextBytes plaintext =
     await (require (plaintext \<noteq> []) SensitiveDataCryptographyError) (\<lambda>_.
     await (plaintextLimit maximumPlaintextBytes) (\<lambda>limit.
     await (require (int (length plaintext) \<le> limit) SensitiveDataCryptographyError) (\<lambda>_.
     await (keyFor kr (kr_activeKeyId kr)) (\<lambda>key.
     await (fieldAad binding) (\<lambda>aad.
       let (ciphertext, tag) = pf_gcm_seal pf key nonce aad plaintext
       in Inr \<lparr>en_version = 1, en_algorithm = ''A256GCM'', en_keyId = kr_activeKeyId kr,
            en_nonce = b64_encode nonce, en_ciphertext = b64_encode ciphertext,
            en_authenticationTag = b64_encode tag\<rparr>)))))"

definition decryptSensitiveField ::
  "platform \<Rightarrow> keyring \<Rightarrow> field_binding \<Rightarrow> int option \<Rightarrow> envelope \<Rightarrow> crypto_error + string" where
  "decryptSensitiveField pf kr binding maximumPlaintextBytes e =
     await (require (en_version e = 1 \<and> en_algorithm e = ''A256GCM'' \<and> key_id_ok (en_keyId e))
       SensitiveDataCryptographyError) (\<lambda>_.
     await (keyFor kr (en_keyId e)) (\<lambda>key.
     await (decodeEnvelopePart (en_nonce e) (Some 12) None) (\<lambda>nonce.
     await (fieldAad binding) (\<lambda>aad.
     await (decodeEnvelopePart (en_authenticationTag e) (Some 16) None) (\<lambda>tag.
     await (plaintextLimit maximumPlaintextBytes) (\<lambda>limit.
     await (decodeEnvelopePart (en_ciphertext e) None (Some limit)) (\<lambda>ciphertext.
       orThrow (pf_gcm_open pf key nonce aad ciphertext tag) SensitiveDataCryptographyError)))))))"

lemma decode_encoded:
  assumes "s \<noteq> []" "\<And>n. el = Some n \<Longrightarrow> length s = n" "\<And>n. ml = Some n \<Longrightarrow> int (length s) \<le> n"
  shows "decodeEnvelopePart (b64_encode s) el ml = Inr s"
  using assms
  by (cases el; cases ml)
    (simp_all add: decodeEnvelopePart_def b64_encode_Nil b64_encode_class b64_roundtrip not_less)

lemma encrypt_cases:
  assumes "encryptSensitiveField pf nonce kr b limit p = Inr e"
  obtains key aad l where "keyFor kr (kr_activeKeyId kr) = Inr key" "fieldAad b = Inr aad" "p \<noteq> []"
    "plaintextLimit limit = Inr l" "int (length p) \<le> l"
    "e = \<lparr>en_version = 1, en_algorithm = ''A256GCM'', en_keyId = kr_activeKeyId kr,
       en_nonce = b64_encode nonce, en_ciphertext = b64_encode (fst (pf_gcm_seal pf key nonce aad p)),
       en_authenticationTag = b64_encode (snd (pf_gcm_seal pf key nonce aad p))\<rparr>"
  using assms unfolding encryptSensitiveField_def
  by (auto simp: result_iffs split_beta)

text \<open>What an operation that opens an envelope needs of the keyring: it was built by
  \<open>createEncryptionKeyring\<close>, or at least holds a usable key under a well-formed active id.\<close>

definition keyring_ok :: "keyring \<Rightarrow> bool" where
  "keyring_ok kr \<longleftrightarrow> key_id_ok (kr_activeKeyId kr) \<and> (\<exists>key. keyFor kr (kr_activeKeyId kr) = Inr key)"

lemma map_of_list_all: "map_of xs k = Some v \<Longrightarrow> list_all p xs \<Longrightarrow> p (k, v)"
  by (drule map_of_SomeD) (auto simp: list_all_iff)

lemma createEncryptionKeyring_ok:
  assumes "createEncryptionKeyring active keys = Inr kr"
  shows "keyring_ok kr"
proof -
  from assms have kr: "kr = \<lparr>kr_activeKeyId = active, kr_keys = keys\<rparr>" "key_id_ok active"
    "list_all (\<lambda>(keyId, key). key_id_ok keyId \<and> length key = 32) keys" "active \<in> fst ` set keys"
    by (auto simp: createEncryptionKeyring_def split: if_splits)
  then obtain key where key: "map_of keys active = Some key"
    by (metis domD dom_map_of_conv_image_fst)
  from map_of_list_all [OF key kr(3)] show ?thesis
    using key kr by (simp add: keyring_ok_def keyFor_def)
qed

subsection \<open>Interface: fields stored sealed\<close>

locale sealed_fields =
  fixes seal_field :: "'env \<Rightarrow> string \<Rightarrow> 'b \<Rightarrow> string \<Rightarrow> 'e option"
    and open_field :: "'env \<Rightarrow> 'b \<Rightarrow> 'e \<Rightarrow> string option"
    and ready :: "'env \<Rightarrow> bool"
    and nonce_ok :: "string \<Rightarrow> bool"
    and can_open :: "'env \<Rightarrow> 'e \<Rightarrow> 'env \<Rightarrow> bool"
  assumes open_sealed:
      "ready env \<Longrightarrow> nonce_ok n \<Longrightarrow> seal_field env n b p = Some e \<Longrightarrow> can_open env e env' \<Longrightarrow> open_field env' b e = Some p"
    and can_open_self: "ready env \<Longrightarrow> seal_field env n b p = Some e \<Longrightarrow> can_open env e env"
begin

text \<open>Two plaintexts stored under the same field never share an envelope.\<close>

lemma seal_injective:
  assumes "ready env" "nonce_ok n" "nonce_ok n'" "seal_field env n b p = Some e" "seal_field env n' b p' = Some e"
  shows "p = p'"
  using assms open_sealed can_open_self by (metis option.inject)

end

text \<open>\<open>env\<close> is the platform with the keyring and the size limit in force; another one can open an
  envelope when it has the same primitives and limit and the same key under the envelope's key id.\<close>

type_synonym crypto_env = "platform \<times> keyring \<times> int option"

definition crypto_seal :: "crypto_env \<Rightarrow> string \<Rightarrow> field_binding \<Rightarrow> string \<Rightarrow> envelope option" where
  "crypto_seal env n b p = (case env of (pf, kr, limit) \<Rightarrow>
     (case encryptSensitiveField pf n kr b limit p of Inl _ \<Rightarrow> None | Inr e \<Rightarrow> Some e))"

definition crypto_open :: "crypto_env \<Rightarrow> field_binding \<Rightarrow> envelope \<Rightarrow> string option" where
  "crypto_open env b e = (case env of (pf, kr, limit) \<Rightarrow>
     (case decryptSensitiveField pf kr b limit e of Inl _ \<Rightarrow> None | Inr p \<Rightarrow> Some p))"

definition crypto_ready :: "crypto_env \<Rightarrow> bool" where
  "crypto_ready env \<longleftrightarrow> (case env of (pf, kr, limit) \<Rightarrow> platform_laws pf \<and> keyring_ok kr)"

definition crypto_can_open :: "crypto_env \<Rightarrow> envelope \<Rightarrow> crypto_env \<Rightarrow> bool" where
  "crypto_can_open env e env' \<longleftrightarrow> (case env of (pf, kr, limit) \<Rightarrow> case env' of (pf', kr', limit') \<Rightarrow>
     pf' = pf \<and> limit' = limit \<and> map_of (kr_keys kr') (en_keyId e) = map_of (kr_keys kr) (en_keyId e))"

lemma open_envelope:
  assumes laws: "platform_laws pf" and nonce: "length nonce = 12"
    and id: "key_id_ok (kr_activeKeyId kr)"
    and e: "encryptSensitiveField pf nonce kr b limit p = Inr e"
    and kr': "map_of (kr_keys kr') (en_keyId e) = map_of (kr_keys kr) (en_keyId e)"
  shows "decryptSensitiveField pf kr' b limit e = Inr p"
proof -
  from e obtain key aad l where k: "keyFor kr (kr_activeKeyId kr) = Inr key" "fieldAad b = Inr aad" "p \<noteq> []"
    "plaintextLimit limit = Inr l" "int (length p) \<le> l"
    and e': "e = \<lparr>en_version = 1, en_algorithm = ''A256GCM'', en_keyId = kr_activeKeyId kr,
       en_nonce = b64_encode nonce, en_ciphertext = b64_encode (fst (pf_gcm_seal pf key nonce aad p)),
       en_authenticationTag = b64_encode (snd (pf_gcm_seal pf key nonce aad p))\<rparr>"
    by (rule encrypt_cases)
  obtain c t where ct: "pf_gcm_seal pf key nonce aad p = (c, t)" by (cases "pf_gcm_seal pf key nonce aad p")
  then have len: "length c = length p" "length t = 16"
    using laws unfolding platform_laws_def by (metis fst_conv snd_conv)+
  have opened: "pf_gcm_open pf key nonce aad c t = Some p"
    using ct laws by (simp add: platform_laws_def)
  have key': "keyFor kr' (kr_activeKeyId kr) = Inr key"
    using kr' k(1) by (simp add: e' keyFor_def)
  have parts: "decodeEnvelopePart (b64_encode nonce) (Some 12) None = Inr nonce"
    "decodeEnvelopePart (b64_encode t) (Some 16) None = Inr t"
    "decodeEnvelopePart (b64_encode c) None (Some l) = Inr c"
    using nonce len k(3,5) by (auto intro!: decode_encoded)
  show ?thesis
    unfolding decryptSensitiveField_def e' ct
    using id k key' parts opened by simp
qed

interpretation field: sealed_fields crypto_seal crypto_open crypto_ready "\<lambda>n. length n = 12" crypto_can_open
proof
  fix env env' n b p e
  assume "crypto_ready env" "length n = 12" "crypto_seal env n b p = Some e" "crypto_can_open env e env'"
  then show "crypto_open env' b e = Some p"
    by (auto simp: crypto_ready_def crypto_seal_def crypto_can_open_def crypto_open_def keyring_ok_def
        open_envelope split: prod.splits sum.splits)
qed (auto simp: crypto_can_open_def)

subsection \<open>Properties\<close>

lemma binding_name_no_quote: "binding_name_ok s \<Longrightarrow> CHR 0x22 \<notin> set s"
  by (auto simp: binding_name_ok_def repeats_def list_all_iff chars split: list.splits)

lemma leading_ident_no_quote: "leading_alnum is_ident n s \<Longrightarrow> CHR 0x22 \<notin> set s"
  by (auto simp: leading_alnum_def repeats_def list_all_iff chars split: list.splits)

lemma split_at_quote:
  assumes "CHR 0x22 \<notin> set x" "CHR 0x22 \<notin> set x'" "x @ CHR 0x22 # y = x' @ CHR 0x22 # y'"
  shows "x = x' \<and> y = y'"
  using assms by (auto simp: append_eq_append_conv2 append_eq_Cons_conv Cons_eq_append_conv)

text \<open>The associated data names the sealed field uniquely: two valid bindings with the same
  associated data are the same record type, record id and field name, so an envelope cannot be moved
  to another field without changing what is authenticated.\<close>

theorem field_aad_injective:
  assumes "fieldAad b = Inr a" "fieldAad b' = Inr a"
  shows "b = b'"
proof -
  have q: "CHR 0x22 \<notin> set (fb_recordType x)" "CHR 0x22 \<notin> set (fb_recordId x)" "CHR 0x22 \<notin> set (fb_fieldName x)"
    if "fieldAad x = Inr a" for x
    using that
    by (auto simp: fieldAad_def validateBinding_def result_iffs dest: binding_name_no_quote leading_ident_no_quote)
  from assms have "fb_recordType b @ CHR 0x22 # '','' @ CHR 0x22 # fb_recordId b @ CHR 0x22 # '','' @ CHR 0x22 #
        fb_fieldName b @ CHR 0x22 # '']'' =
      fb_recordType b' @ CHR 0x22 # '','' @ CHR 0x22 # fb_recordId b' @ CHR 0x22 # '','' @ CHR 0x22 #
        fb_fieldName b' @ CHR 0x22 # '']''"
    by (auto simp: fieldAad_def validateBinding_def json_quote_def result_iffs)
  from split_at_quote [OF q(1) [OF assms(1)] q(1) [OF assms(2)] this]
  have 1: "fb_recordType b = fb_recordType b'"
    and r: "fb_recordId b @ CHR 0x22 # '','' @ CHR 0x22 # fb_fieldName b @ CHR 0x22 # '']'' =
      fb_recordId b' @ CHR 0x22 # '','' @ CHR 0x22 # fb_fieldName b' @ CHR 0x22 # '']''" by simp_all
  from split_at_quote [OF q(2) [OF assms(1)] q(2) [OF assms(2)] r] 1
  show ?thesis by simp
qed

definition sample_binding :: field_binding where
  "sample_binding = \<lparr>fb_recordType = ''receiving_account'', fb_recordId = ''r-1'', fb_fieldName = ''account_number''\<rparr>"

lemma sample_binding_valid:
  "binding_name_ok (fb_recordType sample_binding)" "leading_alnum is_ident 199 (fb_recordId sample_binding)"
  "binding_name_ok (fb_fieldName sample_binding)"
  by code_simp+

theorem field_aad_injective_witness: "{b. fieldAad b = fieldAad sample_binding} = {sample_binding}"
proof -
  obtain a where a: "fieldAad sample_binding = Inr a"
    using sample_binding_valid by (simp add: fieldAad_def validateBinding_def)
  then show ?thesis using field_aad_injective [OF _ a] by auto
qed

text \<open>C36: A field sealed under a keyring opens to its plaintext, under that keyring and under every
  later keyring (the keys rotated, another one active) that still has the same key for the
  envelope's key id.\<close>

theorem sealed_field_opens:
  assumes "platform_laws pf" "length nonce = 12"
    and "createEncryptionKeyring active keys = Inr kr"
    and "encryptSensitiveField pf nonce kr b limit p = Inr e"
    and "createEncryptionKeyring active' keys' = Inr kr'" "map_of keys' active = map_of keys active"
  shows "decryptSensitiveField pf kr b limit e = Inr p \<and> decryptSensitiveField pf kr' b limit e = Inr p"
proof -
  have ready: "crypto_ready (pf, kr, limit)"
    using assms(1,3) createEncryptionKeyring_ok by (simp add: crypto_ready_def)
  have seal: "crypto_seal (pf, kr, limit) nonce b p = Some e"
    using assms(4) by (simp add: crypto_seal_def)
  have kr: "kr = \<lparr>kr_activeKeyId = active, kr_keys = keys\<rparr>" "kr' = \<lparr>kr_activeKeyId = active', kr_keys = keys'\<rparr>"
    using assms(3,5) by (auto simp: createEncryptionKeyring_def split: if_splits)
  have "en_keyId e = active" using assms(4) by (rule encrypt_cases) (simp add: kr)
  then have "crypto_can_open (pf, kr, limit) e (pf, kr', limit)"
    using assms(6) by (simp add: crypto_can_open_def kr)
  then have "crypto_open (pf, kr', limit) b e = Some p" "crypto_open (pf, kr, limit) b e = Some p"
    using field.open_sealed [OF ready assms(2) seal] field.can_open_self [OF ready seal] by blast+
  then show ?thesis by (simp add: crypto_open_def split: sum.splits)
qed

definition sample_key :: string where
  "sample_key = replicate 32 (CHR ''k'')"

lemma sample_keyrings:
  "createEncryptionKeyring ''k1'' [(''k1'', sample_key)] = Inr \<lparr>kr_activeKeyId = ''k1'', kr_keys = [(''k1'', sample_key)]\<rparr>"
  "createEncryptionKeyring ''k2'' [(''k2'', sample_key), (''k1'', sample_key)] =
     Inr \<lparr>kr_activeKeyId = ''k2'', kr_keys = [(''k2'', sample_key), (''k1'', sample_key)]\<rparr>"
proof -
  have "key_id_ok ''k1''" "key_id_ok ''k2''" by code_simp+
  then show "createEncryptionKeyring ''k1'' [(''k1'', sample_key)] = Inr \<lparr>kr_activeKeyId = ''k1'', kr_keys = [(''k1'', sample_key)]\<rparr>"
    "createEncryptionKeyring ''k2'' [(''k2'', sample_key), (''k1'', sample_key)] =
     Inr \<lparr>kr_activeKeyId = ''k2'', kr_keys = [(''k2'', sample_key), (''k1'', sample_key)]\<rparr>"
    by (simp_all add: createEncryptionKeyring_def sample_key_def)
qed

lemma sample_sealed:
  "\<exists>e. encryptSensitiveField toy_platform (replicate 12 (CHR ''n'')) \<lparr>kr_activeKeyId = ''k1'', kr_keys = [(''k1'', sample_key)]\<rparr>
     sample_binding None ''0123456789'' = Inr e"
  using sample_binding_valid
  by (simp add: encryptSensitiveField_def plaintextLimit_def isSafeInteger_def max_safe_integer_def keyFor_def
      sample_key_def fieldAad_def validateBinding_def split_beta)

theorem sealed_field_opens_witness:
  "\<exists>e. decryptSensitiveField toy_platform \<lparr>kr_activeKeyId = ''k2'', kr_keys = [(''k2'', sample_key), (''k1'', sample_key)]\<rparr>
     sample_binding None e = Inr ''0123456789''"
proof -
  obtain e where e: "encryptSensitiveField toy_platform (replicate 12 (CHR ''n''))
      \<lparr>kr_activeKeyId = ''k1'', kr_keys = [(''k1'', sample_key)]\<rparr> sample_binding None ''0123456789'' = Inr e"
    using sample_sealed by blast
  have "length (replicate 12 (CHR ''n'')) = 12"
    "map_of [(''k2'', sample_key), (''k1'', sample_key)] ''k1'' = map_of [(''k1'', sample_key)] ''k1''" by simp_all
  from sealed_field_opens [OF toy_platform_laws this(1) sample_keyrings(1) e sample_keyrings(2) this(2)]
  show ?thesis by blast
qed

text \<open>A token hash has the stored format that the verifier and the tables demand, and the
  verifier accepts the token it was made from.\<close>

theorem token_hash_verifies:
  assumes "platform_laws pf" "hashOpaqueToken pf token purpose = Inr h"
  shows "digest_with ''sha256:v1:'' h \<and> length h = 53 \<and> verifyOpaqueTokenHash pf h token purpose = Inr True"
  using hash_shape [OF assms] assms(2)
  by (auto simp: verifyOpaqueTokenHash_def constantTimeEqual_def dest: digest_with_length)

theorem token_hash_verifies_witness:
  "\<exists>h. hashOpaqueToken toy_platform ''tok'' ''session'' = Inr h \<and> length h = 53 \<and>
     verifyOpaqueTokenHash toy_platform h ''tok'' ''session'' = Inr True"
proof -
  have "hash_domain ''session''" by code_simp
  then obtain h where h: "hashOpaqueToken toy_platform ''tok'' ''session'' = Inr h"
    by (simp add: hashOpaqueToken_def digestValue_def assertDomain_def assertBoundedInput_def)
  with token_hash_verifies [OF toy_platform_laws h] show ?thesis by blast
qed

end
