(* ===== verification/Wire.thy ===== *)
theory Wire
  imports Crypto JsDate
begin

text \<open>
  Hexadecimal digests, and the nullable fields of the values the services fingerprint: they hash the JSON text
  of a command to recognise it when it is repeated.
\<close>

text \<open>\<open>digest("hex")\<close>.\<close>

definition lower_hex :: "string \<Rightarrow> string" where
  "lower_hex bytes = concat (map (\<lambda>c. [hex_char (of_char c div 16), hex_char (of_char c mod 16)]) bytes)"

text \<open>A nullable string or integer.\<close>

definition jstr :: "string option \<Rightarrow> json" where
  "jstr v = (case v of None \<Rightarrow> JNull | Some s \<Rightarrow> JStr s)"

definition jint :: "int option \<Rightarrow> json" where
  "jint v = (case v of None \<Rightarrow> JNull | Some n \<Rightarrow> JNum n)"

end
