(* ===== verification/PaymentTables.thy ===== *)
theory PaymentTables
  imports Outbox Idempotency AdminAudit BusinessCalendar Wire
begin

text \<open>
  The tables behind creator verification deposits
  (\<^verbatim>\<open>packages/database/src/schema/payments.ts\<close>, \<^verbatim>\<open>schema/creator-applications.ts\<close>): one record per
  table with its columns, one predicate per table with its primary key, unique indexes and check
  constraints, and the references between them. \<open>pay_db\<close> is the part of the database the payment
  services work on; \<open>store\<close> accepts a changed database only if the constraints still hold, as the
  database does at every statement. References to user rows are not part of the model.
\<close>

subsection \<open>Applications\<close>

datatype application_state =
  Draft | Submitted | UnderReview | ChangesRequested | Approved | Rejected | Withdrawn

record application_row =
  ap_id :: string
  ap_userId :: string
  ap_state :: application_state
  ap_version :: int
  ap_currentRevisionId :: "string option"
  ap_rejectedAt :: "instant option"
  ap_cooldownUntil :: "instant option"
  ap_reviewerUserId :: "string option"
  ap_reviewClaimedAt :: "instant option"
  ap_reviewClaimExpiresAt :: "instant option"
  ap_createdAt :: instant
  ap_updatedAt :: instant

record revision_row =
  rv_id :: string
  rv_applicationId :: string
  rv_revisionNumber :: int
  rv_artistDisplayName :: "string option"
  rv_shortIntroduction :: "string option"
  rv_applicantEmail :: "string option"
  rv_dobEnvelope :: "envelope option"
  rv_portfolioUrls :: "string list option"
  rv_primaryArtDiscipline :: "string option"
  rv_practiceDescription :: "string option"
  rv_contentIntent :: "string option"
  rv_proposedReceivingAccountId :: "string option"
  rv_ageAtSubmission :: "int option"
  rv_ageEvaluatedOn :: "string option"
  rv_submittedAt :: "instant option"
  rv_minimizedAt :: "instant option"
  rv_createdAt :: instant
  rv_updatedAt :: instant

subsection \<open>Receiving accounts and challenges\<close>

datatype proof_state = ProofUnverified | ProofChallengeIssued | ProofSentReported | ProofVerified

record account_row =
  ac_id :: string
  ac_onboardingId :: string
  ac_applicantUserId :: string
  ac_version :: int
  ac_bankBin :: string
  ac_bankName :: string
  ac_accountNumberEnvelope :: "envelope option"
  ac_accountHolderLabelEnvelope :: "envelope option"
  ac_maskedSuffix :: string
  ac_accountFingerprint :: string
  ac_proofState :: proof_state
  ac_proofVerifiedAt :: "instant option"
  ac_retiredAt :: "instant option"
  ac_minimizedAt :: "instant option"
  ac_createdAt :: instant
  ac_updatedAt :: instant

definition bank_bin_ok :: "string \<Rightarrow> bool" where
  "bank_bin_ok s \<longleftrightarrow> repeats is_digit 6 6 s"

definition masked_ok :: "string \<Rightarrow> bool" where
  "masked_ok s \<longleftrightarrow> starts_with mask_prefix s \<and> repeats is_digit 4 4 (drop (length mask_prefix) s)"

definition account_check :: "account_row \<Rightarrow> bool" where
  "account_check r \<longleftrightarrow>
     0 < ac_version r \<and> bank_bin_ok (ac_bankBin r) \<and> masked_ok (ac_maskedSuffix r) \<and>
     digest_with ''hmac-sha256:v1:'' (ac_accountFingerprint r) \<and>
     (ac_proofState r = ProofVerified \<longleftrightarrow> ac_proofVerifiedAt r \<noteq> None) \<and>
     (case ac_retiredAt r of None \<Rightarrow> True | Some d \<Rightarrow> ac_createdAt r \<le> d) \<and>
     (if ac_minimizedAt r = None
      then ac_accountNumberEnvelope r \<noteq> None \<and> ac_accountHolderLabelEnvelope r \<noteq> None
      else ac_accountNumberEnvelope r = None \<and> ac_accountHolderLabelEnvelope r = None)"

definition accounts_ok :: "account_row list \<Rightarrow> bool" where
  "accounts_ok t \<longleftrightarrow>
     distinct (map ac_id t) \<and> distinct (map (\<lambda>r. (ac_onboardingId r, ac_version r)) t) \<and>
     distinct (map ac_applicantUserId (filter (\<lambda>r. ac_retiredAt r = None) t)) \<and> list_all account_check t"

datatype challenge_state = ChIssued | ChSentReported | ChVerified | ChExpired

record challenge_row =
  ch_id :: string
  ch_applicationId :: string
  ch_revisionId :: string
  ch_accountVersionId :: string
  ch_amountVnd :: int
  ch_referenceHash :: string
  ch_state :: challenge_state
  ch_issuedByOwnerUserId :: string
  ch_stepUpProofId :: string
  ch_issuedAt :: instant
  ch_expiresAt :: instant
  ch_verifiedAt :: "instant option"
  ch_createdAt :: instant
  ch_updatedAt :: instant

definition challenge_active :: "challenge_row \<Rightarrow> bool" where
  "challenge_active r \<longleftrightarrow> ch_state r = ChIssued \<or> ch_state r = ChSentReported"

definition challenge_lifetime_ms :: int where
  "challenge_lifetime_ms = 72 * 60 * 60000"

definition challenge_check :: "challenge_row \<Rightarrow> bool" where
  "challenge_check r \<longleftrightarrow>
     1000 \<le> ch_amountVnd r \<and> ch_amountVnd r \<le> 50000 \<and> digest_with ''sha256:v1:'' (ch_referenceHash r) \<and>
     ch_expiresAt r = ch_issuedAt r + challenge_lifetime_ms \<and>
     (ch_state r = ChVerified \<longleftrightarrow> ch_verifiedAt r \<noteq> None)"

definition challenges_ok :: "challenge_row list \<Rightarrow> bool" where
  "challenges_ok t \<longleftrightarrow>
     distinct (map ch_id t) \<and> distinct (map ch_referenceHash t) \<and>
     distinct (map (\<lambda>r. (ch_revisionId r, ch_accountVersionId r)) (filter challenge_active t)) \<and>
     list_all challenge_check t"

record report_row =
  rp_id :: string
  rp_challengeId :: string
  rp_applicantUserId :: string
  rp_reportedSentAt :: instant
  rp_reportedAt :: instant
  rp_createdAt :: instant

definition reports_ok :: "report_row list \<Rightarrow> bool" where
  "reports_ok t \<longleftrightarrow> distinct (map rp_id t) \<and> distinct (map rp_challengeId t)"

subsection \<open>Receipts, obligations and refunds\<close>

record receipt_row =
  rc_id :: string
  rc_challengeId :: string
  rc_bankTransactionFingerprint :: string
  rc_actualAmountVnd :: int
  rc_actualReferenceHash :: string
  rc_receivedAt :: instant
  rc_sourceBankBin :: string
  rc_sourceAccountFingerprint :: string
  rc_sourceMaskedSuffix :: string
  rc_privateNote :: string
  rc_reconciledByOwnerUserId :: string
  rc_ownerSessionId :: string
  rc_stepUpProofId :: string
  rc_requestId :: string
  rc_createdAt :: instant

text \<open>An \<open>integer\<close> column holds 32 bits; a larger number is an error of the statement.\<close>

definition int4 :: "int \<Rightarrow> bool" where
  "int4 n \<longleftrightarrow> - 2147483648 \<le> n \<and> n \<le> 2147483647"

definition receipts_ok :: "receipt_row list \<Rightarrow> bool" where
  "receipts_ok t \<longleftrightarrow>
     distinct (map rc_id t) \<and> distinct (map rc_challengeId t) \<and> distinct (map rc_bankTransactionFingerprint t) \<and>
     list_all (\<lambda>r. 0 < rc_actualAmountVnd r \<and> int4 (rc_actualAmountVnd r)) t"

datatype obligation_state = PendingWindow | Ready | RefundSent | AttentionRequired

record obligation_row =
  og_id :: string
  og_receiptId :: string
  og_challengeId :: string
  og_accountVersionId :: string
  og_applicantUserId :: string
  og_amountVnd :: int
  og_lockedBankBin :: string
  og_lockedBankName :: string
  og_lockedAccountNumberEnvelope :: envelope
  og_lockedAccountHolderLabelEnvelope :: envelope
  og_lockedMaskedSuffix :: string
  og_lockedAccountFingerprint :: string
  og_calendarVersion :: string
  og_receiptDate :: string
  og_refundNotBefore :: string
  og_refundDue :: string
  og_state :: obligation_state
  og_attentionReason :: "string option"
  og_dueSoonEmittedAt :: "instant option"
  og_dueTodayEmittedAt :: "instant option"
  og_overdueEmittedAt :: "instant option"
  og_createdAt :: instant
  og_updatedAt :: instant

text \<open>Date columns hold four-digit years here, whose texts are ordered as the dates are.\<close>

definition obligation_check :: "obligation_row \<Rightarrow> bool" where
  "obligation_check r \<longleftrightarrow>
     0 < og_amountVnd r \<and> int4 (og_amountVnd r) \<and>
     og_receiptDate r < og_refundNotBefore r \<and> og_refundNotBefore r \<le> og_refundDue r \<and>
     (og_state r = AttentionRequired \<longleftrightarrow> og_attentionReason r \<noteq> None)"

definition obligations_ok :: "obligation_row list \<Rightarrow> bool" where
  "obligations_ok t \<longleftrightarrow>
     distinct (map og_id t) \<and> distinct (map og_receiptId t) \<and> distinct (map og_challengeId t) \<and>
     list_all obligation_check t"

datatype refund_outcome = OutcomeSent | OutcomeAttention

record refund_row =
  rf_id :: string
  rf_obligationId :: string
  rf_outcome :: refund_outcome
  rf_actualAmountVnd :: "int option"
  rf_outboundBankReferenceFingerprint :: "string option"
  rf_outboundBankReferenceMasked :: "string option"
  rf_sentAt :: "instant option"
  rf_attentionReason :: "string option"
  rf_recordedByOwnerUserId :: string
  rf_ownerSessionId :: string
  rf_stepUpProofId :: string
  rf_requestId :: string
  rf_createdAt :: instant

definition refund_check :: "refund_row \<Rightarrow> bool" where
  "refund_check r \<longleftrightarrow>
     (case rf_outcome r of
        OutcomeSent \<Rightarrow> (case rf_actualAmountVnd r of None \<Rightarrow> False | Some n \<Rightarrow> 0 < n \<and> int4 n) \<and>
          rf_outboundBankReferenceFingerprint r \<noteq> None \<and> rf_outboundBankReferenceMasked r \<noteq> None \<and>
          rf_sentAt r \<noteq> None \<and> rf_attentionReason r = None
      | OutcomeAttention \<Rightarrow> rf_sentAt r = None \<and> rf_actualAmountVnd r = None \<and> rf_attentionReason r \<noteq> None)"

definition refunds_ok :: "refund_row list \<Rightarrow> bool" where
  "refunds_ok t \<longleftrightarrow>
     distinct (map rf_id t) \<and>
     distinct (map rf_obligationId (filter (\<lambda>r. rf_outcome r = OutcomeSent) t)) \<and>
     distinct (map rf_outboundBankReferenceFingerprint (filter (\<lambda>r. rf_outboundBankReferenceFingerprint r \<noteq> None) t)) \<and>
     list_all refund_check t"

datatype unmatched_reason =
  AmountMismatch | ReferenceMismatch | SourceMismatch | UnidentifiedSource | Late | Duplicate

datatype resolution_state = PendingReview | RefundRequired | Resolved

datatype liability_state = LiabilityUnknown | LiabilityPending | LiabilitySent | LiabilityAttention

record unmatched_row =
  um_id :: string
  um_possibleChallengeId :: "string option"
  um_bankTransactionFingerprint :: string
  um_actualAmountVnd :: int
  um_actualReferenceHash :: string
  um_receivedAt :: instant
  um_sourceBankBin :: "string option"
  um_sourceAccountFingerprint :: "string option"
  um_sourceMaskedSuffix :: "string option"
  um_reason :: unmatched_reason
  um_resolutionState :: resolution_state
  um_refundLiabilityState :: liability_state
  um_privateNote :: string
  um_reconciledByOwnerUserId :: string
  um_ownerSessionId :: string
  um_stepUpProofId :: string
  um_requestId :: string
  um_createdAt :: instant
  um_updatedAt :: instant

definition unmatched_ok :: "unmatched_row list \<Rightarrow> bool" where
  "unmatched_ok t \<longleftrightarrow>
     distinct (map um_id t) \<and> list_all (\<lambda>r. 0 < um_actualAmountVnd r \<and> int4 (um_actualAmountVnd r)) t"

subsection \<open>The database\<close>

text \<open>\<open>db_proofs\<close> is the store of step-up proofs, which only the identity component reads.\<close>

record pay_db =
  db_idem :: idem_table
  db_outbox :: outbox
  db_audit :: audit_table
  db_calendar :: calendar_db
  db_proofs :: "string list"
  db_applications :: "application_row list"
  db_revisions :: "revision_row list"
  db_accounts :: "account_row list"
  db_challenges :: "challenge_row list"
  db_reports :: "report_row list"
  db_receipts :: "receipt_row list"
  db_obligations :: "obligation_row list"
  db_refunds :: "refund_row list"
  db_unmatched :: "unmatched_row list"

text \<open>The foreign keys between these tables.\<close>

definition references_ok :: "pay_db \<Rightarrow> bool" where
  "references_ok db \<longleftrightarrow>
     ch_applicationId ` set (db_challenges db) \<subseteq> ap_id ` set (db_applications db) \<and>
     ch_revisionId ` set (db_challenges db) \<subseteq> rv_id ` set (db_revisions db) \<and>
     ch_accountVersionId ` set (db_challenges db) \<subseteq> ac_id ` set (db_accounts db) \<and>
     rp_challengeId ` set (db_reports db) \<subseteq> ch_id ` set (db_challenges db) \<and>
     rc_challengeId ` set (db_receipts db) \<subseteq> ch_id ` set (db_challenges db) \<and>
     og_receiptId ` set (db_obligations db) \<subseteq> rc_id ` set (db_receipts db) \<and>
     og_challengeId ` set (db_obligations db) \<subseteq> ch_id ` set (db_challenges db) \<and>
     og_accountVersionId ` set (db_obligations db) \<subseteq> ac_id ` set (db_accounts db) \<and>
     og_calendarVersion ` set (db_obligations db) \<subseteq> cv_version ` set (cal_versions (db_calendar db)) \<and>
     rf_obligationId ` set (db_refunds db) \<subseteq> og_id ` set (db_obligations db) \<and>
     um_possibleChallengeId ` set (db_unmatched db) \<subseteq> insert None (Some ` ch_id ` set (db_challenges db))"

definition pay_constraints :: "pay_db \<Rightarrow> bool" where
  "pay_constraints db \<longleftrightarrow>
     accounts_ok (db_accounts db) \<and> challenges_ok (db_challenges db) \<and> reports_ok (db_reports db) \<and>
     receipts_ok (db_receipts db) \<and> obligations_ok (db_obligations db) \<and> refunds_ok (db_refunds db) \<and>
     unmatched_ok (db_unmatched db) \<and> references_ok db"

datatype pay_error =
    DepositError string
  | CommandError idem_error
  | AuditError audit_error
  | EventError outbox_error
  | HashError hash_error
  | CryptoError crypto_error
  | CalendarError calendar_error
  | PaymentAccountChangedError
  | ReceivingAccountPolicyError
  | ConstraintViolation

definition lift_error :: "('e \<Rightarrow> pay_error) \<Rightarrow> 'e + 'a \<Rightarrow> pay_error + 'a" where
  "lift_error f r = (case r of Inl e \<Rightarrow> Inl (f e) | Inr a \<Rightarrow> Inr a)"

lemma lift_error_Inr [simp]: "lift_error f r = Inr a \<longleftrightarrow> r = Inr a"
  by (cases r) (simp_all add: lift_error_def)

definition store :: "pay_db \<Rightarrow> pay_error + pay_db" where
  "store db = (if pay_constraints db then Inr db else Inl ConstraintViolation)"

lemma store_Inr [simp]: "store db = Inr db' \<longleftrightarrow> db' = db \<and> pay_constraints db"
  by (auto simp: store_def)

subsection \<open>Shared statements\<close>

definition begin_command :: "string \<Rightarrow> begin_input \<Rightarrow> pay_db \<Rightarrow> pay_error + (pay_db \<times> begin_result)" where
  "begin_command newId c db =
     await (lift_error CommandError (beginIdempotentCommand newId c (db_idem db))) (\<lambda>(t, r). Inr (db\<lparr>db_idem := t\<rparr>, r))"

text \<open>How every command goes on from there: replay a stored result, run when acquired, or refuse.\<close>

definition on_started :: "begin_result \<Rightarrow> (string \<Rightarrow> 'a) \<Rightarrow> (string \<Rightarrow> 'a) \<Rightarrow> 'a \<Rightarrow> 'a" where
  "on_started started replay run refuse =
     (case started of Replay _ ref \<Rightarrow> replay ref | Acquired recordId \<Rightarrow> run recordId | _ \<Rightarrow> refuse)"

lemma on_started_Inr:
  "on_started s f g (Inl e) = Inr x \<longleftrightarrow>
     (\<exists>i ref. s = Replay i ref \<and> f ref = Inr x) \<or> (\<exists>k. s = Acquired k \<and> g k = Inr x)"
  by (cases s) (simp_all add: on_started_def)

definition append_audit ::
  "(string \<Rightarrow> url_view option) \<Rightarrow> string \<Rightarrow> instant \<Rightarrow> new_audit_event \<Rightarrow> pay_db \<Rightarrow> pay_error + pay_db" where
  "append_audit u newId clock e db =
     await (lift_error AuditError (appendAdminAuditEvent u newId clock e (db_audit db))) (\<lambda>(t, _). Inr (db\<lparr>db_audit := t\<rparr>))"

definition append_event ::
  "(string \<Rightarrow> url_view option) \<Rightarrow> string \<Rightarrow> instant \<Rightarrow> new_outbox_event \<Rightarrow> pay_db \<Rightarrow> pay_error + pay_db" where
  "append_event u newId clock e db =
     await (lift_error EventError (insertOutboxEvent u newId clock e (db_outbox db))) (\<lambda>(t, _). Inr (db\<lparr>db_outbox := t\<rparr>))"

end
