(* ===== verification/VerificationDeposit.thy ===== *)
theory VerificationDeposit
  imports PaymentTables
begin

text \<open>
  The verification-deposit service (\<^verbatim>\<open>packages/payments/src/verification-deposit-service.ts\<close>) with the
  account fence (\<^verbatim>\<open>payment-account-fence.ts\<close>) and the receiving-account policy
  (\<^verbatim>\<open>receiving-account-policy.ts\<close>). Every operation is one database transaction on \<^typ>\<open>pay_db\<close>: an
  error rolls it back and carries no database. What the source draws at random or from the clock is
  an argument (\<open>draws\<close>, \<open>at\<close>); advisory and row locks make a transaction one step, so within it the
  second read of a candidate equals the first. Consuming a step-up proof is a function of the
  configuration, as it is in the source.
\<close>

subsection \<open>Configuration and inputs\<close>

record step_up =
  su_proofId :: string
  su_sessionId :: string
  su_userId :: string
  su_actionClass :: string
  su_now :: instant

record operating_account =
  oa_bankBin :: string
  oa_bankName :: string
  oa_accountNumber :: string
  oa_accountHolderLabel :: string

record deposit_config =
  cfg_platform :: platform
  cfg_keyring :: keyring
  cfg_lookupHmacKey :: string
  cfg_supportedBanks :: "(string \<times> string) list"
  cfg_depositAmountVnd :: int
  cfg_operatingAccount :: operating_account
  cfg_calendarVersion :: string
  cfg_consumeStepUpProof :: "step_up \<Rightarrow> string list \<Rightarrow> (bool \<times> string list)"

text \<open>Identifiers, tokens and nonces drawn in one transaction, in the order the source draws them;
  the record ids of the shared tables are drawn by the database.\<close>

record draws =
  dr_command :: string
  dr_audit :: string
  dr_event :: string
  dr_event2 :: string
  dr_id :: string
  dr_id2 :: string
  dr_token :: string
  dr_nonce :: string
  dr_nonce2 :: string

definition commandKey_ok :: "string \<Rightarrow> bool" where
  "commandKey_ok s \<longleftrightarrow> repeats is_word_dot_dash 8 200 s"

definition account_number_ok :: "string \<Rightarrow> bool" where
  "account_number_ok s \<longleftrightarrow> repeats is_digit 6 20 s"

definition idempotency_lifetime_ms :: int where
  "idempotency_lifetime_ms = 24 * 60 * 60000"

definition assertConfiguredInput :: "deposit_config \<Rightarrow> pay_error + unit" where
  "assertConfiguredInput cfg =
     (let oa = cfg_operatingAccount cfg; invalid = DepositError ''Verification deposit configuration is invalid''
      in await (require (isSafeInteger (cfg_depositAmountVnd cfg) \<and> 1000 \<le> cfg_depositAmountVnd cfg \<and>
             cfg_depositAmountVnd cfg \<le> 50000) invalid) (\<lambda>_.
         require (bank_bin_ok (oa_bankBin oa) \<and>
           (case map_of (cfg_supportedBanks cfg) (oa_bankBin oa) of None \<Rightarrow> False
            | Some expected \<Rightarrow> expected \<noteq> [] \<and> expected = oa_bankName oa) \<and>
           account_number_ok (oa_accountNumber oa) \<and> 2 \<le> length (trim (oa_accountHolderLabel oa)) \<and>
           calendar_version_ok (cfg_calendarVersion cfg)) invalid))"

definition requireBoundedText :: "string \<Rightarrow> nat \<Rightarrow> nat \<Rightarrow> string \<Rightarrow> pay_error + string" where
  "requireBoundedText v minimum maximum message =
     (let normalized = trim v
      in if length normalized < minimum \<or> maximum < length normalized then Inl (DepositError message)
         else Inr normalized)"

definition challengeReplayReference :: "string \<Rightarrow> string" where
  "challengeReplayReference k = ''payments-challenge-v1:'' @ k"

text \<open>\<open>^prefix([0-9a-f-]{36})$\<close>.\<close>

definition parse_reference :: "string \<Rightarrow> string \<Rightarrow> string option" where
  "parse_reference prefix v =
     (if starts_with prefix v \<and> repeats (\<lambda>c. is_lhex c \<or> c = CHR ''-'') 36 36 (drop (length prefix) v)
      then Some (drop (length prefix) v) else None)"

definition parseChallengeReplayReference :: "string \<Rightarrow> string option" where
  "parseChallengeReplayReference v = parse_reference ''payments-challenge-v1:'' v"

datatype reconciliation_kind = ReceiptKind | UnmatchedKind

definition reconciliationReplayReference :: "reconciliation_kind \<Rightarrow> string \<Rightarrow> string" where
  "reconciliationReplayReference kind k =
     ''payments-reconciliation-v1:'' @ (case kind of ReceiptKind \<Rightarrow> ''receipt'' | UnmatchedKind \<Rightarrow> ''unmatched'') @ '':'' @ k"

definition parseReconciliationReplayReference :: "string \<Rightarrow> (reconciliation_kind \<times> string) option" where
  "parseReconciliationReplayReference v =
     (case parse_reference ''payments-reconciliation-v1:receipt:'' v of
        Some k \<Rightarrow> Some (ReceiptKind, k)
      | None \<Rightarrow> map_option (\<lambda>k. (UnmatchedKind, k)) (parse_reference ''payments-reconciliation-v1:unmatched:'' v))"

definition refundReplayReference :: "string \<Rightarrow> string" where
  "refundReplayReference k = ''payments-refund-v1:'' @ k"

definition parseRefundReplayReference :: "string \<Rightarrow> string option" where
  "parseRefundReplayReference v = parse_reference ''payments-refund-v1:'' v"

definition idempotencyValues :: "deposit_config \<Rightarrow> string \<Rightarrow> json list \<Rightarrow> pay_error + (string \<times> string)" where
  "idempotencyValues cfg key fingerprint =
     await (require (commandKey_ok key) (DepositError ''Idempotency key is invalid'')) (\<lambda>_.
     await (lift_error HashError (createLookupHmac (cfg_platform cfg) key ''payments-command-key'' (cfg_lookupHmacKey cfg))) (\<lambda>keyHash.
     await (lift_error HashError (createLookupHmac (cfg_platform cfg) (stringify (JArr fingerprint)) ''payments-command'' (cfg_lookupHmacKey cfg))) (\<lambda>fp.
       Inr (keyHash, fp))))"

definition referenceMask :: "string \<Rightarrow> string" where
  "referenceMask v = mask_prefix @ suffix_of 8 (trim v)"

definition requireOwnerStepUp :: "deposit_config \<Rightarrow> step_up \<Rightarrow> pay_db \<Rightarrow> pay_error + pay_db" where
  "requireOwnerStepUp cfg su db =
     (case cfg_consumeStepUpProof cfg su (db_proofs db) of
        (False, _) \<Rightarrow> Inl (DepositError ''Owner TOTP step-up required'')
      | (True, proofs) \<Rightarrow> Inr (db\<lparr>db_proofs := proofs\<rparr>))"

subsection \<open>The account fence\<close>

definition lockPaymentAccountFingerprints :: "string list \<Rightarrow> pay_error + unit" where
  "lockPaymentAccountFingerprints fps =
     require (list_all (digest_with ''hmac-sha256:v1:'') fps) PaymentAccountChangedError"

text \<open>\<open>run attempt\<close> is the transaction of that attempt.\<close>

function retry_from :: "nat \<Rightarrow> (nat \<Rightarrow> pay_error + 'a) \<Rightarrow> pay_error + 'a" where
  "retry_from attempt run =
     (case run attempt of
        Inr a \<Rightarrow> Inr a
      | Inl e \<Rightarrow> if e \<noteq> PaymentAccountChangedError \<or> 2 \<le> attempt then Inl e else retry_from (attempt + 1) run)"
  by pat_completeness auto
termination
  by (relation "measure (\<lambda>(n, _). 3 - n)") auto

declare retry_from.simps [simp del]

definition retryPaymentAccountChange :: "(nat \<Rightarrow> pay_error + 'a) \<Rightarrow> pay_error + 'a" where
  "retryPaymentAccountChange run = retry_from 0 run"

definition fingerprintReceivingAccount :: "deposit_config \<Rightarrow> string \<Rightarrow> string \<Rightarrow> pay_error + string" where
  "fingerprintReceivingAccount cfg bankBin accountNumber =
     await (require (bank_bin_ok (trim bankBin) \<and> account_number_ok (trim accountNumber)) ReceivingAccountPolicyError) (\<lambda>_.
       lift_error HashError (createLookupHmac (cfg_platform cfg)
         (stringify (JArr [JStr ''receiving-account-v1'', JStr (trim bankBin), JStr (trim accountNumber)]))
         ''receiving-account'' (cfg_lookupHmacKey cfg)))"

subsection \<open>Shared steps\<close>

definition completeCommand :: "deposit_config \<Rightarrow> string \<Rightarrow> string \<Rightarrow> instant \<Rightarrow> pay_db \<Rightarrow> pay_error + pay_db" where
  "completeCommand cfg recordId resultReference completedAt db =
     await (lift_error CommandError (completeIdempotentCommand (pf_parse_url (cfg_platform cfg)) recordId resultReference completedAt (db_idem db)))
       (\<lambda>(t, ok). if ok then Inr (db\<lparr>db_idem := t\<rparr>) else Inl (DepositError ''Payments command did not complete''))"

definition begin_payment ::
  "deposit_config \<Rightarrow> draws \<Rightarrow> string \<Rightarrow> string \<Rightarrow> (string \<times> string) \<Rightarrow> instant \<Rightarrow> pay_db \<Rightarrow> pay_error + (pay_db \<times> begin_result)" where
  "begin_payment cfg dr actor scope hashes at db =
     begin_command (dr_command dr) \<lparr>bi_actorUserId = actor, bi_commandScope = scope, bi_keyHash = fst hashes,
       bi_requestFingerprint = snd hashes, bi_expiresAt = at + idempotency_lifetime_ms, bi_now = at\<rparr> db"

definition mfa_assurance :: "string \<Rightarrow> json" where
  "mfa_assurance proofId = JObj [(''method'', JStr ''mfa''), (''proofId'', JStr proofId)]"

definition unmatched_reason_text :: "unmatched_reason \<Rightarrow> string" where
  "unmatched_reason_text r = (case r of AmountMismatch \<Rightarrow> ''amount_mismatch'' | ReferenceMismatch \<Rightarrow> ''reference_mismatch''
     | SourceMismatch \<Rightarrow> ''source_mismatch'' | UnidentifiedSource \<Rightarrow> ''unidentified_source'' | Late \<Rightarrow> ''late'' | Duplicate \<Rightarrow> ''duplicate'')"

definition challenge_state_text :: "challenge_state \<Rightarrow> string" where
  "challenge_state_text s = (case s of ChIssued \<Rightarrow> ''issued'' | ChSentReported \<Rightarrow> ''sent_reported'' | ChVerified \<Rightarrow> ''verified'' | ChExpired \<Rightarrow> ''expired'')"

definition obligation_state_text :: "obligation_state \<Rightarrow> string" where
  "obligation_state_text s = (case s of PendingWindow \<Rightarrow> ''pending_window'' | Ready \<Rightarrow> ''ready'' | RefundSent \<Rightarrow> ''sent'' | AttentionRequired \<Rightarrow> ''attention_required'')"

subsection \<open>Issuing a challenge\<close>

record issue_command =
  ic_ownerUserId :: string
  ic_ownerSessionId :: string
  ic_stepUpProofId :: string
  ic_applicationId :: string
  ic_revisionId :: string
  ic_accountVersionId :: string
  ic_idempotencyKey :: string
  ic_requestId :: string

record challenge_view =
  cw_id :: string
  cw_amountVnd :: int
  cw_reference :: "string option"
  cw_expiresAt :: instant
  cw_replayed :: bool
  cw_operatingAccount :: operating_account

definition owner_has_active_claim :: "string \<Rightarrow> instant \<Rightarrow> application_row \<Rightarrow> bool" where
  "owner_has_active_claim owner at app \<longleftrightarrow>
     ap_state app = UnderReview \<and> ap_reviewerUserId app = Some owner \<and>
     (case ap_reviewClaimExpiresAt app of None \<Rightarrow> False | Some e \<Rightarrow> at < e)"

definition replay_challenge :: "deposit_config \<Rightarrow> pay_db \<Rightarrow> string \<Rightarrow> pay_error + challenge_view" where
  "replay_challenge cfg db ref =
     await (orThrow (parseChallengeReplayReference ref) (DepositError ''Challenge replay is invalid'')) (\<lambda>challengeId.
     await (orThrow (List.find (\<lambda>c. ch_id c = challengeId) (db_challenges db)) (DepositError ''Challenge replay is invalid'')) (\<lambda>c.
       Inr \<lparr>cw_id = ch_id c, cw_amountVnd = ch_amountVnd c, cw_reference = None, cw_expiresAt = ch_expiresAt c,
            cw_replayed = True, cw_operatingAccount = cfg_operatingAccount cfg\<rparr>))"

text \<open>The checks on application, revision and account before anything is written.\<close>

definition issue_guards :: "issue_command \<Rightarrow> instant \<Rightarrow> pay_db \<Rightarrow> pay_error + unit" where
  "issue_guards c at db =
     await (orThrow (List.find (\<lambda>a. ac_id a = ic_accountVersionId c) (db_accounts db))
       (DepositError ''Submitted receiving account required'')) (\<lambda>candidate.
     await (lockPaymentAccountFingerprints [ac_accountFingerprint candidate]) (\<lambda>_.
     await (orThrow (List.find (\<lambda>a. ap_id a = ic_applicationId c) (db_applications db))
       (DepositError ''Submitted or actively claimed application required'')) (\<lambda>app.
     await (require ((ap_state app = Submitted \<or> owner_has_active_claim (ic_ownerUserId c) at app) \<and>
         ap_currentRevisionId app = Some (ic_revisionId c))
       (DepositError ''Submitted or actively claimed application required'')) (\<lambda>_.
     let revision = List.find (\<lambda>r. rv_id r = ic_revisionId c \<and> rv_applicationId r = ap_id app) (db_revisions db);
         account = List.find (\<lambda>a. ac_id a = ic_accountVersionId c \<and> ac_applicantUserId a = ap_userId app \<and>
           ac_retiredAt a = None \<and> ac_minimizedAt a = None \<and> ac_accountNumberEnvelope a \<noteq> None \<and>
           ac_accountHolderLabelEnvelope a \<noteq> None) (db_accounts db)
     in require ((case revision of None \<Rightarrow> False
          | Some r \<Rightarrow> rv_submittedAt r \<noteq> None \<and> rv_proposedReceivingAccountId r = Some (ic_accountVersionId c)) \<and>
          account \<noteq> None) (DepositError ''Submitted receiving account required'')))))"

definition challenge_reference_ok :: "string \<Rightarrow> bool" where
  "challenge_reference_ok s \<longleftrightarrow> starts_with ''PV-'' s \<and> repeats (\<lambda>c. is_upper c \<or> is_digit c) 26 64 (drop 3 s)"

definition new_challenge :: "deposit_config \<Rightarrow> draws \<Rightarrow> issue_command \<Rightarrow> instant \<Rightarrow> string \<Rightarrow> challenge_row" where
  "new_challenge cfg dr c at referenceHash =
     \<lparr>ch_id = dr_id dr, ch_applicationId = ic_applicationId c, ch_revisionId = ic_revisionId c,
      ch_accountVersionId = ic_accountVersionId c, ch_amountVnd = cfg_depositAmountVnd cfg,
      ch_referenceHash = referenceHash, ch_state = ChIssued, ch_issuedByOwnerUserId = ic_ownerUserId c,
      ch_stepUpProofId = ic_stepUpProofId c, ch_issuedAt = at, ch_expiresAt = at + challenge_lifetime_ms,
      ch_verifiedAt = None, ch_createdAt = at, ch_updatedAt = at\<rparr>"

definition issue_write :: "deposit_config \<Rightarrow> draws \<Rightarrow> issue_command \<Rightarrow> instant \<Rightarrow> string \<Rightarrow> pay_db \<Rightarrow> pay_error + (pay_db \<times> challenge_view)" where
  "issue_write cfg dr c at recordId db =
     (let u = pf_parse_url (cfg_platform cfg); expiresAt = at + challenge_lifetime_ms
      in
     await (require (is_uuid (dr_id dr) \<and> challenge_reference_ok (dr_token dr)) (DepositError ''Challenge identifier is invalid'')) (\<lambda>_.
     await (lift_error HashError (hashOpaqueToken (cfg_platform cfg) (dr_token dr) ''verification_deposit_reference'')) (\<lambda>referenceHash.
     await (store (db\<lparr>db_challenges := db_challenges db @ [new_challenge cfg dr c at referenceHash]\<rparr>)) (\<lambda>db1.
     await (store (db1\<lparr>db_accounts := rows_update (\<lambda>a. ac_id a = ic_accountVersionId c)
         (\<lambda>a. a\<lparr>ac_proofState := ProofChallengeIssued, ac_updatedAt := at\<rparr>) (db_accounts db1)\<rparr>)) (\<lambda>db2.
     await (append_audit u (dr_audit dr) at \<lparr>ne_actorUserId = ic_ownerUserId c, ne_actorSessionId = Some (ic_ownerSessionId c),
         ne_subjectType = ''verification_deposit_challenge'', ne_subjectId = dr_id dr,
         ne_action = ''payments.challenge.issue'', ne_outcome = Succeeded, ne_reasonCode = None, ne_beforeState = None,
         ne_afterState = Some (JObj [(''state'', JStr ''issued''), (''amountVnd'', JNum (cfg_depositAmountVnd cfg)),
           (''expiresAt'', JStr (toISOString expiresAt)), (''accountVersionId'', JStr (ic_accountVersionId c))]),
         ne_assurance = mfa_assurance (ic_stepUpProofId c), ne_applicationRevision = ic_revisionId c,
         ne_requestId = ic_requestId c, ne_occurredAt = Some (Some at)\<rparr> db2) (\<lambda>db3.
     await (append_event u (dr_event dr) at \<lparr>ev_eventType = ''payments.verification_deposit_challenge_issued.v1'',
         ev_eventVersion = 1, ev_aggregateType = ''verification_deposit_challenge'', ev_aggregateId = dr_id dr,
         ev_payload = JObj [(''challengeId'', JStr (dr_id dr)), (''applicationId'', JStr (ic_applicationId c)),
           (''state'', JStr ''issued''), (''expiresAt'', JStr (toISOString expiresAt)),
           (''correlationId'', JStr (ic_applicationId c))],
         ev_occurredAt = Some at, ev_availableAt = None\<rparr> db3) (\<lambda>db4.
     await (completeCommand cfg recordId (challengeReplayReference (dr_id dr)) at db4) (\<lambda>db5.
       Inr (db5, \<lparr>cw_id = dr_id dr, cw_amountVnd = cfg_depositAmountVnd cfg, cw_reference = Some (dr_token dr),
         cw_expiresAt = expiresAt, cw_replayed = False, cw_operatingAccount = cfg_operatingAccount cfg\<rparr>)))))))))"

definition issueChallenge :: "deposit_config \<Rightarrow> draws \<Rightarrow> instant \<Rightarrow> issue_command \<Rightarrow> pay_db \<Rightarrow> pay_error + (pay_db \<times> challenge_view)" where
  "issueChallenge cfg dr at c db =
     await (idempotencyValues cfg (ic_idempotencyKey c)
       [JStr ''challenge-issue-v1'', JStr (ic_ownerUserId c), JStr (ic_ownerSessionId c), JStr (ic_applicationId c),
        JStr (ic_revisionId c), JStr (ic_accountVersionId c)]) (\<lambda>hashes.
     await (begin_payment cfg dr (ic_ownerUserId c) ''payments.verification_deposit.challenge.issue'' hashes at db) (\<lambda>(db0, started).
     on_started started
       (\<lambda>ref. await (replay_challenge cfg db0 ref) (\<lambda>v. Inr (db0, v)))
       (\<lambda>recordId.
         await (issue_guards c at db0) (\<lambda>_.
         await (requireOwnerStepUp cfg \<lparr>su_proofId = ic_stepUpProofId c, su_sessionId = ic_ownerSessionId c,
             su_userId = ic_ownerUserId c, su_actionClass = ''owner.verification_deposit_challenge'', su_now = at\<rparr> db0) (\<lambda>db1.
         issue_write cfg dr c at recordId db1)))
       (Inl (DepositError ''Challenge issue conflicts''))))"

subsection \<open>Reporting a transfer\<close>

record report_command =
  rq_applicantUserId :: string
  rq_challengeId :: string
  rq_reportedSentAt :: instant
  rq_idempotencyKey :: string

definition challenge_of_applicant :: "pay_db \<Rightarrow> string \<Rightarrow> string \<Rightarrow> (challenge_row \<times> account_row) option" where
  "challenge_of_applicant db challengeId applicant =
     (case List.find (\<lambda>c. ch_id c = challengeId) (db_challenges db) of
        None \<Rightarrow> None
      | Some c \<Rightarrow> (case List.find (\<lambda>a. ac_id a = ch_accountVersionId c \<and> ac_applicantUserId a = applicant) (db_accounts db) of
            None \<Rightarrow> None | Some a \<Rightarrow> Some (c, a)))"

definition report_write :: "deposit_config \<Rightarrow> draws \<Rightarrow> report_command \<Rightarrow> instant \<Rightarrow> string \<Rightarrow> challenge_row \<Rightarrow> pay_db \<Rightarrow> pay_error + pay_db" where
  "report_write cfg dr c at recordId challenge db =
     (let report = \<lparr>rp_id = dr_id dr, rp_challengeId = ch_id challenge, rp_applicantUserId = rq_applicantUserId c,
        rp_reportedSentAt = rq_reportedSentAt c, rp_reportedAt = at, rp_createdAt = at\<rparr>;
        conflict = dr_id dr \<in> rp_id ` set (db_reports db) \<or> ch_id challenge \<in> rp_challengeId ` set (db_reports db)
      in
     await (store (if conflict then db else db\<lparr>db_reports := db_reports db @ [report]\<rparr>)) (\<lambda>db1.
     await (store (db1\<lparr>db_challenges := rows_update (\<lambda>r. ch_id r = ch_id challenge)
         (\<lambda>r. r\<lparr>ch_state := ChSentReported, ch_updatedAt := at\<rparr>) (db_challenges db1)\<rparr>)) (\<lambda>db2.
     await (store (db2\<lparr>db_accounts := rows_update (\<lambda>a. ac_id a = ch_accountVersionId challenge)
         (\<lambda>a. a\<lparr>ac_proofState := ProofSentReported, ac_updatedAt := at\<rparr>) (db_accounts db2)\<rparr>)) (\<lambda>db3.
     completeCommand cfg recordId (''payments-report-v1:'' @ ch_id challenge) at db3))))"

definition report_transaction ::
  "deposit_config \<Rightarrow> draws \<Rightarrow> instant \<Rightarrow> report_command \<Rightarrow> (string \<times> string) \<Rightarrow> pay_db \<Rightarrow> pay_error + (pay_db \<times> string)" where
  "report_transaction cfg dr at c hashes db =
     await (begin_payment cfg dr (rq_applicantUserId c) ''payments.verification_deposit.report_sent'' hashes at db) (\<lambda>(db0, started).
     on_started started
       (\<lambda>_. Inr (db0, ''sent_reported''))
       (\<lambda>recordId.
         await (orThrow (challenge_of_applicant db0 (rq_challengeId c) (rq_applicantUserId c)) (DepositError ''Active challenge required'')) (\<lambda>(challenge, account).
         await (lockPaymentAccountFingerprints [ac_accountFingerprint account]) (\<lambda>_.
         await (require (challenge_active challenge) (DepositError ''Active challenge required'')) (\<lambda>_.
         await (require (at \<le> ch_expiresAt challenge) (DepositError ''Challenge expired'')) (\<lambda>_.
         await (report_write cfg dr c at recordId challenge db0) (\<lambda>db1. Inr (db1, ''sent_reported'')))))))
       (Inl (DepositError ''Deposit report conflicts'')))"

definition reportSent :: "deposit_config \<Rightarrow> (nat \<Rightarrow> draws) \<Rightarrow> instant \<Rightarrow> report_command \<Rightarrow> pay_db \<Rightarrow> pay_error + (pay_db \<times> string)" where
  "reportSent cfg dr at c db =
     await (require (rq_reportedSentAt c \<le> at) (DepositError ''Deposit report time is invalid'')) (\<lambda>_.
     await (idempotencyValues cfg (rq_idempotencyKey c)
       [JStr ''deposit-report-v1'', JStr (rq_applicantUserId c), JStr (rq_challengeId c), JStr (toISOString (rq_reportedSentAt c))]) (\<lambda>hashes.
     retryPaymentAccountChange (\<lambda>attempt. report_transaction cfg (dr attempt) at c hashes db)))"

subsection \<open>Reconciling a bank transaction\<close>

record reconcile_command =
  rk_ownerUserId :: string
  rk_ownerSessionId :: string
  rk_stepUpProofId :: string
  rk_idempotencyKey :: string
  rk_requestId :: string
  rk_bankTransactionReference :: string
  rk_actualAmountVnd :: int
  rk_actualTransferReference :: string
  rk_receivedAt :: instant
  rk_sourceBankBin :: "string option"
  rk_sourceAccountNumber :: "string option"
  rk_privateNote :: string

text \<open>What the command says about the transaction, normalised and hashed before the database is read.\<close>

record receipt_facts =
  fa_bankTransactionFingerprint :: string
  fa_actualReferenceHash :: string
  fa_privateNote :: string
  fa_sourceBankBin :: "string option"
  fa_sourceValid :: bool
  fa_sourceAccountFingerprint :: "string option"
  fa_sourceMaskedSuffix :: "string option"

datatype reconciliation_view =
    MatchedView string string
  | UnmatchedView string unmatched_reason

definition source_valid :: "deposit_config \<Rightarrow> string option \<Rightarrow> string option \<Rightarrow> bool" where
  "source_valid cfg bin number =
     (case (bin, number) of
        (Some b, Some n) \<Rightarrow> b \<noteq> [] \<and> n \<noteq> [] \<and> bank_bin_ok b \<and> account_number_ok n \<and>
          (case map_of (cfg_supportedBanks cfg) b of None \<Rightarrow> False | Some name \<Rightarrow> name \<noteq> [])
      | _ \<Rightarrow> False)"

definition reconcile_facts :: "deposit_config \<Rightarrow> instant \<Rightarrow> reconcile_command \<Rightarrow> pay_error + receipt_facts" where
  "reconcile_facts cfg at c =
     await (require (isSafeInteger (rk_actualAmountVnd c) \<and> 0 < rk_actualAmountVnd c \<and> rk_receivedAt c \<le> at)
       (DepositError ''Receipt facts are invalid'')) (\<lambda>_.
     await (requireBoundedText (rk_bankTransactionReference c) 6 200 ''Receipt facts are invalid'') (\<lambda>bankTransactionReference.
     await (requireBoundedText (rk_actualTransferReference c) 1 200 ''Receipt facts are invalid'') (\<lambda>actualTransferReference.
     await (requireBoundedText (rk_privateNote c) 1 1000 ''Receipt note is invalid'') (\<lambda>privateNote.
     let sourceBankBin = map_option trim (rk_sourceBankBin c); sourceAccountNumber = map_option trim (rk_sourceAccountNumber c);
         sourceValid = source_valid cfg sourceBankBin sourceAccountNumber
     in
     await (if sourceValid then map_sum id Some (fingerprintReceivingAccount cfg (the sourceBankBin) (the sourceAccountNumber)) else Inr None) (\<lambda>fingerprint.
     await (lift_error HashError (createLookupHmac (cfg_platform cfg) bankTransactionReference ''deposit-bank-transaction'' (cfg_lookupHmacKey cfg))) (\<lambda>bankTxn.
     await (lift_error HashError (hashOpaqueToken (cfg_platform cfg) actualTransferReference ''verification_deposit_reference'')) (\<lambda>refHash.
       Inr \<lparr>fa_bankTransactionFingerprint = bankTxn, fa_actualReferenceHash = refHash, fa_privateNote = privateNote,
            fa_sourceBankBin = sourceBankBin, fa_sourceValid = sourceValid, fa_sourceAccountFingerprint = fingerprint,
            fa_sourceMaskedSuffix = (if sourceValid then Some (mask_prefix @ suffix_of 4 (the sourceAccountNumber)) else None)\<rparr>)))))))"

definition challenge_accounts :: "pay_db \<Rightarrow> (challenge_row \<times> account_row) list" where
  "challenge_accounts db =
     concat (map (\<lambda>c. map (\<lambda>a. (c, a)) (filter (\<lambda>a. ac_id a = ch_accountVersionId c) (db_accounts db))) (db_challenges db))"

definition findCandidate :: "receipt_facts \<Rightarrow> pay_db \<Rightarrow> (challenge_row \<times> account_row) option" where
  "findCandidate fa db =
     (let newest = latest_by (\<lambda>(c, a). (ch_createdAt c, ch_id c))
      in case newest (filter (\<lambda>(c, a). ch_referenceHash c = fa_actualReferenceHash fa) (challenge_accounts db)) of
           Some exact \<Rightarrow> Some exact
         | None \<Rightarrow> (case fa_sourceAccountFingerprint fa of
               None \<Rightarrow> None
             | Some fp \<Rightarrow> newest (filter (\<lambda>(c, a). ac_accountFingerprint a = fp \<and>
                   (ch_state c = ChIssued \<or> ch_state c = ChSentReported \<or> ch_state c = ChVerified)) (challenge_accounts db))))"

definition unmatchedReason ::
  "reconcile_command \<Rightarrow> receipt_facts \<Rightarrow> challenge_row option \<Rightarrow> account_row option \<Rightarrow> unmatched_reason option" where
  "unmatchedReason c fa challenge_opt account_opt =
     (case challenge_opt of
        None \<Rightarrow> Some ReferenceMismatch
      | Some challenge \<Rightarrow>
          if ch_state challenge = ChVerified then Some Duplicate
          else if rk_actualAmountVnd c \<noteq> ch_amountVnd challenge then Some AmountMismatch
          else if fa_actualReferenceHash fa \<noteq> ch_referenceHash challenge then Some ReferenceMismatch
          else if ch_expiresAt challenge < rk_receivedAt c then Some Late
          else (case (fa_sourceAccountFingerprint fa, fa_sourceBankBin fa) of
              (Some fp, Some bin) \<Rightarrow>
                if bin = [] then Some UnidentifiedSource
                else (case account_opt of
                    None \<Rightarrow> Some SourceMismatch
                  | Some account \<Rightarrow>
                      if ac_accountFingerprint account \<noteq> fp \<or> ac_bankBin account \<noteq> bin then Some SourceMismatch else None)
            | _ \<Rightarrow> Some UnidentifiedSource))"

definition new_unmatched ::
  "draws \<Rightarrow> reconcile_command \<Rightarrow> receipt_facts \<Rightarrow> string option \<Rightarrow> unmatched_reason \<Rightarrow> instant \<Rightarrow> unmatched_row" where
  "new_unmatched dr c fa possibleChallengeId reason at =
     (let identifiable = fa_sourceAccountFingerprint fa \<noteq> None
      in \<lparr>um_id = dr_id dr, um_possibleChallengeId = possibleChallengeId,
          um_bankTransactionFingerprint = fa_bankTransactionFingerprint fa, um_actualAmountVnd = rk_actualAmountVnd c,
          um_actualReferenceHash = fa_actualReferenceHash fa, um_receivedAt = rk_receivedAt c,
          um_sourceBankBin = (if fa_sourceValid fa then fa_sourceBankBin fa else None),
          um_sourceAccountFingerprint = fa_sourceAccountFingerprint fa, um_sourceMaskedSuffix = fa_sourceMaskedSuffix fa,
          um_reason = reason, um_resolutionState = (if identifiable then RefundRequired else PendingReview),
          um_refundLiabilityState = (if identifiable then LiabilityPending else LiabilityUnknown),
          um_privateNote = fa_privateNote fa, um_reconciledByOwnerUserId = rk_ownerUserId c,
          um_ownerSessionId = rk_ownerSessionId c, um_stepUpProofId = rk_stepUpProofId c, um_requestId = rk_requestId c,
          um_createdAt = at, um_updatedAt = at\<rparr>)"

definition insertUnmatched ::
  "deposit_config \<Rightarrow> draws \<Rightarrow> reconcile_command \<Rightarrow> receipt_facts \<Rightarrow> string option \<Rightarrow> unmatched_reason \<Rightarrow> instant \<Rightarrow> pay_db \<Rightarrow> pay_error + (pay_db \<times> string)" where
  "insertUnmatched cfg dr c fa possibleChallengeId reason at db =
     await (store (db\<lparr>db_unmatched := db_unmatched db @ [new_unmatched dr c fa possibleChallengeId reason at]\<rparr>)) (\<lambda>db1.
     await (append_audit (pf_parse_url (cfg_platform cfg)) (dr_audit dr) at
       \<lparr>ne_actorUserId = rk_ownerUserId c, ne_actorSessionId = Some (rk_ownerSessionId c),
        ne_subjectType = ''verification_deposit'', ne_subjectId = dr_id dr, ne_action = ''payments.deposit.reconcile'',
        ne_outcome = Succeeded, ne_reasonCode = Some (unmatched_reason_text reason), ne_beforeState = None,
        ne_afterState = Some (JObj [(''result'', JStr ''unmatched''), (''reason'', JStr (unmatched_reason_text reason))]),
        ne_assurance = mfa_assurance (rk_stepUpProofId c),
        ne_applicationRevision = (case possibleChallengeId of None \<Rightarrow> ''unmatched'' | Some k \<Rightarrow> k),
        ne_requestId = rk_requestId c, ne_occurredAt = Some (Some at)\<rparr> db1) (\<lambda>db2. Inr (db2, dr_id dr)))"

definition new_receipt ::
  "draws \<Rightarrow> reconcile_command \<Rightarrow> receipt_facts \<Rightarrow> challenge_row \<Rightarrow> instant \<Rightarrow> receipt_row" where
  "new_receipt dr c fa challenge at =
     \<lparr>rc_id = dr_id dr, rc_challengeId = ch_id challenge, rc_bankTransactionFingerprint = fa_bankTransactionFingerprint fa,
      rc_actualAmountVnd = rk_actualAmountVnd c, rc_actualReferenceHash = fa_actualReferenceHash fa,
      rc_receivedAt = rk_receivedAt c, rc_sourceBankBin = the (fa_sourceBankBin fa),
      rc_sourceAccountFingerprint = the (fa_sourceAccountFingerprint fa), rc_sourceMaskedSuffix = the (fa_sourceMaskedSuffix fa),
      rc_privateNote = fa_privateNote fa, rc_reconciledByOwnerUserId = rk_ownerUserId c,
      rc_ownerSessionId = rk_ownerSessionId c, rc_stepUpProofId = rk_stepUpProofId c, rc_requestId = rk_requestId c,
      rc_createdAt = at\<rparr>"

definition account_binding :: "string \<Rightarrow> string \<Rightarrow> field_binding" where
  "account_binding accountId field = \<lparr>fb_recordType = ''payments_receiving_account'', fb_recordId = accountId, fb_fieldName = field\<rparr>"

definition obligation_binding :: "string \<Rightarrow> string \<Rightarrow> field_binding" where
  "obligation_binding obligationId field = \<lparr>fb_recordType = ''payments_refund_obligation'', fb_recordId = obligationId, fb_fieldName = field\<rparr>"

definition open_sealed :: "deposit_config \<Rightarrow> field_binding \<Rightarrow> envelope option \<Rightarrow> pay_error + string" where
  "open_sealed cfg b e_opt =
     (case e_opt of None \<Rightarrow> Inl (CryptoError SensitiveDataCryptographyError)
      | Some e \<Rightarrow> lift_error CryptoError (decryptSensitiveField (cfg_platform cfg) (cfg_keyring cfg) b None e))"

definition seal_value :: "deposit_config \<Rightarrow> string \<Rightarrow> field_binding \<Rightarrow> string \<Rightarrow> pay_error + envelope" where
  "seal_value cfg nonce b plaintext =
     lift_error CryptoError (encryptSensitiveField (cfg_platform cfg) nonce (cfg_keyring cfg) b None plaintext)"

definition new_obligation ::
  "draws \<Rightarrow> challenge_row \<Rightarrow> account_row \<Rightarrow> business_day_window \<Rightarrow> envelope \<Rightarrow> envelope \<Rightarrow> instant \<Rightarrow> obligation_row" where
  "new_obligation dr challenge account window numberEnvelope holderEnvelope at =
     \<lparr>og_id = dr_id2 dr, og_receiptId = dr_id dr, og_challengeId = ch_id challenge, og_accountVersionId = ac_id account,
      og_applicantUserId = ac_applicantUserId account, og_amountVnd = ch_amountVnd challenge,
      og_lockedBankBin = ac_bankBin account, og_lockedBankName = ac_bankName account,
      og_lockedAccountNumberEnvelope = numberEnvelope, og_lockedAccountHolderLabelEnvelope = holderEnvelope,
      og_lockedMaskedSuffix = ac_maskedSuffix account, og_lockedAccountFingerprint = ac_accountFingerprint account,
      og_calendarVersion = bw_calendarVersion window, og_receiptDate = bw_receiptDate window,
      og_refundNotBefore = bw_refundNotBefore window, og_refundDue = bw_refundDue window, og_state = PendingWindow,
      og_attentionReason = None, og_dueSoonEmittedAt = None, og_dueTodayEmittedAt = None, og_overdueEmittedAt = None,
      og_createdAt = at, og_updatedAt = at\<rparr>"

definition received_payload :: "draws \<Rightarrow> challenge_row \<Rightarrow> account_row \<Rightarrow> business_day_window \<Rightarrow> json" where
  "received_payload dr challenge account window =
     JObj [(''obligationId'', JStr (dr_id2 dr)), (''receiptId'', JStr (dr_id dr)), (''challengeId'', JStr (ch_id challenge)),
       (''applicationId'', JStr (ch_applicationId challenge)), (''accountVersionId'', JStr (ac_id account)),
       (''state'', JStr ''pending_window''), (''amountVnd'', JNum (ch_amountVnd challenge)),
       (''refundNotBefore'', JStr (bw_refundNotBefore window)), (''refundDue'', JStr (bw_refundDue window)),
       (''correlationId'', JStr (ch_applicationId challenge))]"

definition received_event :: "string \<Rightarrow> draws \<Rightarrow> challenge_row \<Rightarrow> account_row \<Rightarrow> business_day_window \<Rightarrow> instant \<Rightarrow> new_outbox_event" where
  "received_event eventType dr challenge account window at =
     \<lparr>ev_eventType = eventType, ev_eventVersion = 1, ev_aggregateType = ''verification_deposit_refund_obligation'',
      ev_aggregateId = dr_id2 dr, ev_payload = received_payload dr challenge account window,
      ev_occurredAt = Some at, ev_availableAt = None\<rparr>"

text \<open>The rows a match writes: receipt, obligation, challenge and account.\<close>

definition matched_rows ::
  "deposit_config \<Rightarrow> draws \<Rightarrow> reconcile_command \<Rightarrow> receipt_facts \<Rightarrow> challenge_row \<Rightarrow> account_row \<Rightarrow> business_day_window \<Rightarrow>
     instant \<Rightarrow> pay_db \<Rightarrow> pay_error + pay_db" where
  "matched_rows cfg dr c fa challenge account window at db =
     await (open_sealed cfg (account_binding (ac_id account) ''account_number'') (ac_accountNumberEnvelope account)) (\<lambda>accountNumber.
     await (open_sealed cfg (account_binding (ac_id account) ''account_holder_label'') (ac_accountHolderLabelEnvelope account)) (\<lambda>holder.
     await (store (db\<lparr>db_receipts := db_receipts db @ [new_receipt dr c fa challenge at]\<rparr>)) (\<lambda>db1.
     await (seal_value cfg (dr_nonce dr) (obligation_binding (dr_id2 dr) ''account_number'') accountNumber) (\<lambda>numberEnvelope.
     await (seal_value cfg (dr_nonce2 dr) (obligation_binding (dr_id2 dr) ''account_holder_label'') holder) (\<lambda>holderEnvelope.
     await (store (db1\<lparr>db_obligations := db_obligations db1 @
         [new_obligation dr challenge account window numberEnvelope holderEnvelope at]\<rparr>)) (\<lambda>db2.
     await (store (db2\<lparr>db_challenges := rows_update (\<lambda>r. ch_id r = ch_id challenge)
         (\<lambda>r. r\<lparr>ch_state := ChVerified, ch_verifiedAt := Some (rk_receivedAt c), ch_updatedAt := at\<rparr>) (db_challenges db2)\<rparr>)) (\<lambda>db3.
     store (db3\<lparr>db_accounts := rows_update (\<lambda>a. ac_id a = ac_id account)
         (\<lambda>a. a\<lparr>ac_proofState := ProofVerified, ac_proofVerifiedAt := Some (rk_receivedAt c), ac_updatedAt := at\<rparr>) (db_accounts db3)\<rparr>))))))))"

definition matched_write ::
  "deposit_config \<Rightarrow> draws \<Rightarrow> reconcile_command \<Rightarrow> receipt_facts \<Rightarrow> challenge_row \<Rightarrow> account_row \<Rightarrow> string \<Rightarrow> instant \<Rightarrow> pay_db \<Rightarrow>
     pay_error + (pay_db \<times> reconciliation_view)" where
  "matched_write cfg dr c fa challenge account recordId at db =
     (let u = pf_parse_url (cfg_platform cfg)
      in
     await (lift_error CalendarError (vietnamDateFromInstant (Some (rk_receivedAt c)))) (\<lambda>receiptDate.
     await (lift_error CalendarError (calculateStoredReceiptBusinessDayWindow (db_calendar db) receiptDate (cfg_calendarVersion cfg))) (\<lambda>window.
     await (matched_rows cfg dr c fa challenge account window at db) (\<lambda>db4.
     await (append_audit u (dr_audit dr) at \<lparr>ne_actorUserId = rk_ownerUserId c, ne_actorSessionId = Some (rk_ownerSessionId c),
         ne_subjectType = ''verification_deposit'', ne_subjectId = dr_id dr, ne_action = ''payments.deposit.reconcile'',
         ne_outcome = Succeeded, ne_reasonCode = None,
         ne_beforeState = Some (JObj [(''state'', JStr (challenge_state_text (ch_state challenge)))]),
         ne_afterState = Some (JObj [(''state'', JStr ''verified''), (''obligationId'', JStr (dr_id2 dr)),
           (''amountVnd'', JNum (ch_amountVnd challenge)), (''accountVersionId'', JStr (ac_id account)),
           (''refundNotBefore'', JStr (bw_refundNotBefore window)), (''refundDue'', JStr (bw_refundDue window))]),
         ne_assurance = mfa_assurance (rk_stepUpProofId c), ne_applicationRevision = ch_revisionId challenge,
         ne_requestId = rk_requestId c, ne_occurredAt = Some (Some at)\<rparr> db4) (\<lambda>db5.
     await (append_event u (dr_event dr) at (received_event ''payments.verification_deposit_received.v1'' dr challenge account window at) db5) (\<lambda>db6.
     await (append_event u (dr_event2 dr) at (received_event ''payments.receiving_account_control_verified.v1'' dr challenge account window at) db6) (\<lambda>db7.
     await (completeCommand cfg recordId (reconciliationReplayReference ReceiptKind (dr_id dr)) at db7) (\<lambda>db8.
       Inr (db8, MatchedView (dr_id dr) (dr_id2 dr))))))))))"

definition replay_reconciliation :: "pay_db \<Rightarrow> string \<Rightarrow> pay_error + reconciliation_view" where
  "replay_reconciliation db ref =
     await (orThrow (parseReconciliationReplayReference ref) (DepositError ''Reconciliation replay is invalid'')) (\<lambda>(kind, k).
     case kind of
       UnmatchedKind \<Rightarrow>
         await (orThrow (List.find (\<lambda>r. um_id r = k) (db_unmatched db)) (DepositError ''Reconciliation replay is invalid'')) (\<lambda>r.
           Inr (UnmatchedView (um_id r) (um_reason r)))
     | ReceiptKind \<Rightarrow>
         await (orThrow (List.find (\<lambda>r. rc_id r = k) (db_receipts db)) (DepositError ''Reconciliation replay is invalid'')) (\<lambda>r.
         await (orThrow (List.find (\<lambda>o1. og_receiptId o1 = rc_id r) (db_obligations db)) (DepositError ''Reconciliation replay is invalid'')) (\<lambda>o1.
           Inr (MatchedView (rc_id r) (og_id o1)))))"

text \<open>Recording the transaction as unmatched, or as the match of its challenge.\<close>

definition settle_receipt ::
  "deposit_config \<Rightarrow> draws \<Rightarrow> instant \<Rightarrow> reconcile_command \<Rightarrow> receipt_facts \<Rightarrow> challenge_row option \<Rightarrow> account_row option \<Rightarrow>
     string \<Rightarrow> pay_db \<Rightarrow> pay_error + (pay_db \<times> reconciliation_view)" where
  "settle_receipt cfg dr at c fa challenge_opt account_opt recordId db =
     (case unmatchedReason c fa challenge_opt account_opt of
        Some reason \<Rightarrow>
          await (insertUnmatched cfg dr c fa (map_option ch_id challenge_opt) reason at db) (\<lambda>(db2, unmatchedId).
          await (completeCommand cfg recordId (reconciliationReplayReference UnmatchedKind unmatchedId) at db2) (\<lambda>db3.
            Inr (db3, UnmatchedView unmatchedId reason)))
      | None \<Rightarrow>
          (case (challenge_opt, account_opt) of
             (Some challenge, Some account) \<Rightarrow> matched_write cfg dr c fa challenge account recordId at db
           | _ \<Rightarrow> Inl (DepositError ''Matched deposit is invalid'')))"

definition candidate_challenge :: "receipt_facts \<Rightarrow> pay_db \<Rightarrow> challenge_row option" where
  "candidate_challenge fa db =
     (case findCandidate fa db of None \<Rightarrow> None
      | Some (candidate, _) \<Rightarrow> List.find (\<lambda>r. ch_id r = ch_id candidate) (db_challenges db))"

definition challenge_account :: "challenge_row option \<Rightarrow> pay_db \<Rightarrow> account_row option" where
  "challenge_account challenge_opt db =
     (case challenge_opt of None \<Rightarrow> None
      | Some challenge \<Rightarrow> List.find (\<lambda>a. ac_id a = ch_accountVersionId challenge) (db_accounts db))"

definition reconcile_transaction ::
  "deposit_config \<Rightarrow> draws \<Rightarrow> instant \<Rightarrow> reconcile_command \<Rightarrow> receipt_facts \<Rightarrow> (string \<times> string) \<Rightarrow> pay_db \<Rightarrow>
     pay_error + (pay_db \<times> reconciliation_view)" where
  "reconcile_transaction cfg dr at c fa hashes db =
     await (begin_payment cfg dr (rk_ownerUserId c) ''payments.verification_deposit.reconcile'' hashes at db) (\<lambda>(db0, started).
     on_started started
       (\<lambda>ref. await (replay_reconciliation db0 ref) (\<lambda>v. Inr (db0, v)))
       (\<lambda>recordId.
         await (lockPaymentAccountFingerprints
             ((case findCandidate fa db0 of None \<Rightarrow> [] | Some (_, a) \<Rightarrow> [ac_accountFingerprint a]) @
              (case fa_sourceAccountFingerprint fa of None \<Rightarrow> [] | Some fp \<Rightarrow> [fp]))) (\<lambda>_.
         await (requireOwnerStepUp cfg \<lparr>su_proofId = rk_stepUpProofId c, su_sessionId = rk_ownerSessionId c,
             su_userId = rk_ownerUserId c, su_actionClass = ''owner.verification_deposit_reconciliation'', su_now = at\<rparr> db0) (\<lambda>db1.
         settle_receipt cfg dr at c fa (candidate_challenge fa db0) (challenge_account (candidate_challenge fa db0) db1) recordId db1)))
       (Inl (DepositError ''Reconciliation conflicts'')))"

definition reconcile ::
  "deposit_config \<Rightarrow> (nat \<Rightarrow> draws) \<Rightarrow> instant \<Rightarrow> reconcile_command \<Rightarrow> pay_db \<Rightarrow> pay_error + (pay_db \<times> reconciliation_view)" where
  "reconcile cfg dr at c db =
     await (reconcile_facts cfg at c) (\<lambda>fa.
     await (idempotencyValues cfg (rk_idempotencyKey c)
       [JStr ''deposit-reconciliation-v1'', JStr (rk_ownerUserId c), JStr (rk_ownerSessionId c), JStr (fa_bankTransactionFingerprint fa),
        JNum (rk_actualAmountVnd c), JStr (fa_actualReferenceHash fa), JStr (toISOString (rk_receivedAt c)),
        jstr (fa_sourceBankBin fa), jstr (fa_sourceAccountFingerprint fa), JStr (fa_privateNote fa)]) (\<lambda>hashes.
     retryPaymentAccountChange (\<lambda>attempt. reconcile_transaction cfg (dr attempt) at c fa hashes db)))"

subsection \<open>Refunds\<close>

record reveal_command =
  rd_ownerUserId :: string
  rd_ownerSessionId :: string
  rd_stepUpProofId :: string
  rd_obligationId :: string
  rd_requestId :: string

definition revealRefundDestination ::
  "deposit_config \<Rightarrow> draws \<Rightarrow> instant \<Rightarrow> reveal_command \<Rightarrow> pay_db \<Rightarrow> pay_error + (pay_db \<times> (string \<times> string \<times> string))" where
  "revealRefundDestination cfg dr at c db =
     await (orThrow (List.find (\<lambda>o1. og_id o1 = rd_obligationId c) (db_obligations db)) (DepositError ''Refund obligation was not found'')) (\<lambda>obligation.
     await (requireOwnerStepUp cfg \<lparr>su_proofId = rd_stepUpProofId c, su_sessionId = rd_ownerSessionId c,
         su_userId = rd_ownerUserId c, su_actionClass = ''owner.refund_destination_reveal'', su_now = at\<rparr> db) (\<lambda>db1.
     await (open_sealed cfg (obligation_binding (og_id obligation) ''account_number'') (Some (og_lockedAccountNumberEnvelope obligation))) (\<lambda>accountNumber.
     await (open_sealed cfg (obligation_binding (og_id obligation) ''account_holder_label'') (Some (og_lockedAccountHolderLabelEnvelope obligation))) (\<lambda>holder.
     await (append_audit (pf_parse_url (cfg_platform cfg)) (dr_audit dr) at
       \<lparr>ne_actorUserId = rd_ownerUserId c, ne_actorSessionId = Some (rd_ownerSessionId c),
        ne_subjectType = ''verification_deposit_refund_obligation'', ne_subjectId = og_id obligation,
        ne_action = ''payments.refund_destination.reveal'', ne_outcome = Succeeded, ne_reasonCode = None, ne_beforeState = None,
        ne_afterState = Some (JObj [(''bankBin'', JStr (og_lockedBankBin obligation)), (''maskedSuffix'', JStr (og_lockedMaskedSuffix obligation))]),
        ne_assurance = mfa_assurance (rd_stepUpProofId c), ne_applicationRevision = og_challengeId obligation,
        ne_requestId = rd_requestId c, ne_occurredAt = Some (Some at)\<rparr> db1) (\<lambda>db2.
       Inr (db2, (og_lockedBankBin obligation, accountNumber, holder)))))))"

record refund_command =
  rr_ownerUserId :: string
  rr_ownerSessionId :: string
  rr_stepUpProofId :: string
  rr_obligationId :: string
  rr_idempotencyKey :: string
  rr_requestId :: string
  rr_outcome :: refund_outcome
  rr_actualAmountVnd :: "int option"
  rr_outboundBankReference :: "string option"
  rr_sentAt :: "instant option"
  rr_attentionReason :: "string option"

definition outcome_text :: "refund_outcome \<Rightarrow> string" where
  "outcome_text r = (case r of OutcomeSent \<Rightarrow> ''sent'' | OutcomeAttention \<Rightarrow> ''attention_required'')"

definition outcome_state :: "refund_outcome \<Rightarrow> obligation_state" where
  "outcome_state r = (case r of OutcomeSent \<Rightarrow> RefundSent | OutcomeAttention \<Rightarrow> AttentionRequired)"

text \<open>The evidence checks before the transaction. A present but blank reference counts as absent.\<close>

definition refund_evidence :: "instant \<Rightarrow> refund_command \<Rightarrow> pay_error + unit" where
  "refund_evidence at c =
     (let evidence = DepositError ''Outbound refund evidence is invalid''; reference = map_option trim (rr_outboundBankReference c)
      in case rr_outcome c of
           OutcomeSent \<Rightarrow>
             await (require (case rr_actualAmountVnd c of None \<Rightarrow> False | Some n \<Rightarrow> isSafeInteger n \<and> 0 < n) evidence) (\<lambda>_.
             await (require (case reference of None \<Rightarrow> False | Some s \<Rightarrow> s \<noteq> [] \<and> 6 \<le> length s \<and> length s \<le> 200) evidence) (\<lambda>_.
             require (case rr_sentAt c of None \<Rightarrow> False | Some d \<Rightarrow> d \<le> at) evidence))
         | OutcomeAttention \<Rightarrow>
             require (case map_option trim (rr_attentionReason c) of None \<Rightarrow> False | Some s \<Rightarrow> s \<noteq> [] \<and> length s \<le> 500)
               (DepositError ''Refund attention reason is invalid''))"

definition outbound_fingerprint :: "deposit_config \<Rightarrow> refund_command \<Rightarrow> pay_error + string option" where
  "outbound_fingerprint cfg c =
     (case map_option trim (rr_outboundBankReference c) of
        None \<Rightarrow> Inr None
      | Some s \<Rightarrow> if s = [] then Inr None
          else map_sum id Some (lift_error HashError (createLookupHmac (cfg_platform cfg) s ''refund-bank-reference'' (cfg_lookupHmacKey cfg))))"

definition new_refund :: "draws \<Rightarrow> refund_command \<Rightarrow> string \<Rightarrow> string option \<Rightarrow> instant \<Rightarrow> refund_row" where
  "new_refund dr c obligationId fingerprint at =
     (let sent = rr_outcome c = OutcomeSent; reference = map_option trim (rr_outboundBankReference c)
      in \<lparr>rf_id = dr_id dr, rf_obligationId = obligationId, rf_outcome = rr_outcome c,
          rf_actualAmountVnd = (if sent then rr_actualAmountVnd c else None),
          rf_outboundBankReferenceFingerprint = fingerprint,
          rf_outboundBankReferenceMasked = (case reference of None \<Rightarrow> None | Some s \<Rightarrow> if s = [] then None else Some (referenceMask s)),
          rf_sentAt = (if sent then rr_sentAt c else None),
          rf_attentionReason = (if sent then None else map_option trim (rr_attentionReason c)),
          rf_recordedByOwnerUserId = rr_ownerUserId c, rf_ownerSessionId = rr_ownerSessionId c,
          rf_stepUpProofId = rr_stepUpProofId c, rf_requestId = rr_requestId c, rf_createdAt = at\<rparr>)"

definition refund_write ::
  "deposit_config \<Rightarrow> draws \<Rightarrow> refund_command \<Rightarrow> obligation_row \<Rightarrow> string option \<Rightarrow> string \<Rightarrow> instant \<Rightarrow> pay_db \<Rightarrow> pay_error + (pay_db \<times> string)" where
  "refund_write cfg dr c obligation fingerprint recordId at db =
     (let u = pf_parse_url (cfg_platform cfg); state' = outcome_text (rr_outcome c)
      in
     await (store (db\<lparr>db_refunds := db_refunds db @ [new_refund dr c (og_id obligation) fingerprint at]\<rparr>)) (\<lambda>db1.
     await (store (db1\<lparr>db_obligations := rows_update (\<lambda>o1. og_id o1 = og_id obligation)
         (\<lambda>o1. o1\<lparr>og_state := outcome_state (rr_outcome c),
            og_attentionReason := (if rr_outcome c = OutcomeAttention then map_option trim (rr_attentionReason c) else None),
            og_updatedAt := at\<rparr>) (db_obligations db1)\<rparr>)) (\<lambda>db2.
     await (append_audit u (dr_audit dr) at \<lparr>ne_actorUserId = rr_ownerUserId c, ne_actorSessionId = Some (rr_ownerSessionId c),
         ne_subjectType = ''verification_deposit_refund_obligation'', ne_subjectId = og_id obligation,
         ne_action = ''payments.refund.record'', ne_outcome = Succeeded, ne_reasonCode = None,
         ne_beforeState = Some (JObj [(''state'', JStr (obligation_state_text (og_state obligation)))]),
         ne_afterState = Some (JObj [(''state'', JStr state'), (''amountVnd'', JNum (og_amountVnd obligation))]),
         ne_assurance = mfa_assurance (rr_stepUpProofId c), ne_applicationRevision = og_challengeId obligation,
         ne_requestId = rr_requestId c, ne_occurredAt = Some (Some at)\<rparr> db2) (\<lambda>db3.
     await (append_event u (dr_event dr) at
       \<lparr>ev_eventType = (if rr_outcome c = OutcomeSent then ''payments.verification_deposit_refund_sent.v1''
           else ''payments.verification_deposit_refund_attention_required.v1''),
        ev_eventVersion = 1, ev_aggregateType = ''verification_deposit_refund_obligation'', ev_aggregateId = og_id obligation,
        ev_payload = JObj [(''obligationId'', JStr (og_id obligation)), (''applicantUserId'', JStr (og_applicantUserId obligation)),
          (''state'', JStr state'), (''amountVnd'', JNum (og_amountVnd obligation)), (''correlationId'', JStr (og_challengeId obligation))],
        ev_occurredAt = Some at, ev_availableAt = None\<rparr> db3) (\<lambda>db4.
     await (completeCommand cfg recordId (refundReplayReference (dr_id dr)) at db4) (\<lambda>db5.
       Inr (db5, state')))))))"

definition recordRefund ::
  "deposit_config \<Rightarrow> draws \<Rightarrow> instant \<Rightarrow> refund_command \<Rightarrow> pay_db \<Rightarrow> pay_error + (pay_db \<times> string)" where
  "recordRefund cfg dr at c db =
     await (refund_evidence at c) (\<lambda>_.
     await (outbound_fingerprint cfg c) (\<lambda>fingerprint.
     await (idempotencyValues cfg (rr_idempotencyKey c)
       [JStr ''deposit-refund-v1'', JStr (rr_ownerUserId c), JStr (rr_ownerSessionId c), JStr (rr_obligationId c),
        JStr (outcome_text (rr_outcome c)), jint (rr_actualAmountVnd c), jstr fingerprint,
        jstr (map_option toISOString (rr_sentAt c)), jstr (map_option trim (rr_attentionReason c))]) (\<lambda>hashes.
     await (begin_payment cfg dr (rr_ownerUserId c) ''payments.verification_deposit.refund.record'' hashes at db) (\<lambda>(db0, started).
     on_started started
       (\<lambda>ref. await (orThrow (parseRefundReplayReference ref) (DepositError ''Refund replay is invalid'')) (\<lambda>k.
         await (orThrow (List.find (\<lambda>r. rf_id r = k) (db_refunds db0)) (DepositError ''Refund replay is invalid'')) (\<lambda>r.
           Inr (db0, outcome_text (rf_outcome r)))))
       (\<lambda>recordId.
         await (orThrow (List.find (\<lambda>o1. og_id o1 = rr_obligationId c) (db_obligations db0)) (DepositError ''Refund obligation was not found'')) (\<lambda>obligation.
         await (require (og_state obligation \<noteq> RefundSent) (DepositError ''Refund was already recorded'')) (\<lambda>_.
         await (require (rr_outcome c = OutcomeSent \<longrightarrow> rr_actualAmountVnd c = Some (og_amountVnd obligation))
           (DepositError ''Refund amount must match the obligation'')) (\<lambda>_.
         await (lift_error CalendarError (vietnamDateFromInstant (Some (case rr_sentAt c of None \<Rightarrow> at | Some d \<Rightarrow> d)))) (\<lambda>sentDate.
         await (require (\<not> sentDate < og_refundNotBefore obligation) (DepositError ''Refund window has not opened'')) (\<lambda>_.
         await (requireOwnerStepUp cfg \<lparr>su_proofId = rr_stepUpProofId c, su_sessionId = rr_ownerSessionId c,
             su_userId = rr_ownerUserId c, su_actionClass = ''owner.refund'', su_now = at\<rparr> db0) (\<lambda>db1.
           refund_write cfg dr c obligation fingerprint recordId at db1)))))))
       (Inl (DepositError ''Refund record conflicts''))))))"

subsection \<open>Reads\<close>

record applicant_status =
  as_proofState :: string
  as_refundState :: "string option"
  as_refundNotBefore :: "string option"
  as_refundDue :: "string option"
  as_challengeId :: "string option"
  as_amountVnd :: "int option"
  as_expiresAt :: "instant option"
  as_operatingAccount :: "operating_account option"

definition getApplicantStatus :: "deposit_config \<Rightarrow> string \<Rightarrow> string \<Rightarrow> pay_db \<Rightarrow> applicant_status" where
  "getApplicantStatus cfg applicant applicationId db =
     (case latest_by (\<lambda>(c, a). ch_createdAt c)
         (filter (\<lambda>(c, a). ch_applicationId c = applicationId \<and> ac_applicantUserId a = applicant) (challenge_accounts db)) of
        None \<Rightarrow> \<lparr>as_proofState = ''unverified'', as_refundState = None, as_refundNotBefore = None, as_refundDue = None,
          as_challengeId = None, as_amountVnd = None, as_expiresAt = None, as_operatingAccount = None\<rparr>
      | Some (challenge, _) \<Rightarrow>
          (let obligation = latest_by og_createdAt (filter (\<lambda>o1. og_applicantUserId o1 = applicant \<and>
               list_ex (\<lambda>c. ch_id c = og_challengeId o1 \<and> ch_applicationId c = applicationId) (db_challenges db)) (db_obligations db))
           in \<lparr>as_proofState = challenge_state_text (ch_state challenge),
               as_refundState = map_option (\<lambda>o1. obligation_state_text (og_state o1)) obligation,
               as_refundNotBefore = map_option og_refundNotBefore obligation, as_refundDue = map_option og_refundDue obligation,
               as_challengeId = Some (ch_id challenge), as_amountVnd = Some (ch_amountVnd challenge),
               as_expiresAt = Some (ch_expiresAt challenge), as_operatingAccount = Some (cfg_operatingAccount cfg)\<rparr>))"

record obligation_view =
  ow_id :: string
  ow_applicantUserId :: string
  ow_artistDisplayName :: "string option"
  ow_amountVnd :: int
  ow_bankName :: string
  ow_maskedSuffix :: string
  ow_refundNotBefore :: string
  ow_refundDue :: string
  ow_state :: obligation_state
  ow_updatedAt :: instant

definition listRefundObligations :: "instant \<Rightarrow> pay_db \<Rightarrow> obligation_view list" where
  "listRefundObligations now db =
     (let recentSentSince = now - 30 * 24 * 60 * 60000;
          joined = concat (map (\<lambda>o1. concat (map (\<lambda>c. map (\<lambda>r. (o1, r))
              (filter (\<lambda>r. rv_id r = ch_revisionId c) (db_revisions db)))
            (filter (\<lambda>c. ch_id c = og_challengeId o1) (db_challenges db)))) (db_obligations db))
      in map (\<lambda>(o1, r). \<lparr>ow_id = og_id o1, ow_applicantUserId = og_applicantUserId o1, ow_artistDisplayName = rv_artistDisplayName r,
            ow_amountVnd = og_amountVnd o1, ow_bankName = og_lockedBankName o1, ow_maskedSuffix = og_lockedMaskedSuffix o1,
            ow_refundNotBefore = og_refundNotBefore o1, ow_refundDue = og_refundDue o1, ow_state = og_state o1, ow_updatedAt = og_updatedAt o1\<rparr>)
          (take 200 (sort_key (\<lambda>(o1, r). og_refundDue o1)
            (filter (\<lambda>(o1, r). og_state o1 \<noteq> RefundSent \<or> recentSentSince \<le> og_updatedAt o1) joined))))"

end
