(* ===== verification/RefundWindow.thy ===== *)
theory RefundWindow
  imports VerificationDeposit
begin

text \<open>
  The refund window worker (\<^verbatim>\<open>packages/payments/src/refund-window-worker.ts\<close>): it walks over the
  obligations that are not sent, counts and marks those that are due soon, due today or overdue, and
  emits one event per obligation and category. \<open>skipped\<close> are the rows another transaction holds
  locked, and \<open>ids\<close> the event ids the database draws.
\<close>

datatype window_category = DueSoon | DueToday | Overdue

record scan_result =
  sr_dueSoon :: int
  sr_dueToday :: int
  sr_overdue :: int
  sr_attention :: int
  sr_outstandingAmountVnd :: int

definition refund_category :: "string \<Rightarrow> obligation_row \<Rightarrow> window_category option" where
  "refund_category today r =
     (if og_refundDue r < today then Some Overdue
      else if today = og_refundDue r then Some DueToday
      else if og_refundNotBefore r \<le> today then Some DueSoon
      else None)"

definition category_marker :: "window_category \<Rightarrow> obligation_row \<Rightarrow> instant option" where
  "category_marker category r =
     (case category of Overdue \<Rightarrow> og_overdueEmittedAt r | DueToday \<Rightarrow> og_dueTodayEmittedAt r | DueSoon \<Rightarrow> og_dueSoonEmittedAt r)"

definition next_state :: "window_category \<Rightarrow> obligation_row \<Rightarrow> obligation_state" where
  "next_state category r =
     (if category = Overdue then AttentionRequired else if og_state r = PendingWindow then Ready else og_state r)"

definition mark_obligation :: "instant \<Rightarrow> window_category \<Rightarrow> obligation_row \<Rightarrow> obligation_row" where
  "mark_obligation now category r =
     (let unmarked = category_marker category r = None
      in r\<lparr>og_state := next_state category r,
           og_attentionReason := (if category = Overdue
             then (case og_attentionReason r of None \<Rightarrow> Some ''refund_overdue'' | Some reason \<Rightarrow> Some reason)
             else og_attentionReason r),
           og_overdueEmittedAt := (if category = Overdue \<and> unmarked then Some now else og_overdueEmittedAt r),
           og_dueTodayEmittedAt := (if category = DueToday \<and> unmarked then Some now else og_dueTodayEmittedAt r),
           og_dueSoonEmittedAt := (if category = DueSoon \<and> unmarked then Some now else og_dueSoonEmittedAt r),
           og_updatedAt := now\<rparr>)"

definition category_suffix :: "window_category \<Rightarrow> string" where
  "category_suffix category = (case category of Overdue \<Rightarrow> ''overdue'' | DueToday \<Rightarrow> ''due_today'' | DueSoon \<Rightarrow> ''due_soon'')"

definition window_event :: "instant \<Rightarrow> window_category \<Rightarrow> obligation_row \<Rightarrow> new_outbox_event" where
  "window_event now category r =
     \<lparr>ev_eventType = ''payments.verification_deposit_refund_'' @ category_suffix category @ ''.v1'', ev_eventVersion = 1,
      ev_aggregateType = ''verification_deposit_refund_obligation'', ev_aggregateId = og_id r,
      ev_payload = JObj [(''obligationId'', JStr (og_id r)), (''applicantUserId'', JStr (og_applicantUserId r)),
        (''state'', JStr (obligation_state_text (next_state category r))), (''amountVnd'', JNum (og_amountVnd r)),
        (''refundNotBefore'', JStr (og_refundNotBefore r)), (''refundDue'', JStr (og_refundDue r)),
        (''window'', JStr (category_suffix category)), (''correlationId'', JStr (og_challengeId r))],
      ev_occurredAt = Some now, ev_availableAt = None\<rparr>"

definition count_category :: "window_category \<Rightarrow> scan_result \<Rightarrow> scan_result" where
  "count_category category res =
     (case category of DueSoon \<Rightarrow> res\<lparr>sr_dueSoon := sr_dueSoon res + 1\<rparr>
      | DueToday \<Rightarrow> res\<lparr>sr_dueToday := sr_dueToday res + 1\<rparr> | Overdue \<Rightarrow> res\<lparr>sr_overdue := sr_overdue res + 1\<rparr>)"

text \<open>The body of the loop for one obligation.\<close>

definition scan_one ::
  "deposit_config \<Rightarrow> (string \<Rightarrow> string) \<Rightarrow> instant \<Rightarrow> string \<Rightarrow> obligation_row \<Rightarrow> pay_db \<times> scan_result \<Rightarrow> pay_error + (pay_db \<times> scan_result)" where
  "scan_one cfg ids now today r st =
     (let db = fst st;
          res = (snd st)\<lparr>sr_outstandingAmountVnd := sr_outstandingAmountVnd (snd st) + og_amountVnd r,
             sr_attention := sr_attention (snd st) + (if og_state r = AttentionRequired then 1 else 0)\<rparr>
      in case refund_category today r of
           None \<Rightarrow> Inr (db, res)
         | Some category \<Rightarrow>
             await (store (db\<lparr>db_obligations := rows_update (\<lambda>o1. og_id o1 = og_id r) (\<lambda>_. mark_obligation now category r) (db_obligations db)\<rparr>)) (\<lambda>db1.
             await (if category_marker category r = None
                    then append_event (pf_parse_url (cfg_platform cfg)) (ids (og_id r)) now (window_event now category r) db1
                    else Inr db1) (\<lambda>db2.
               Inr (db2, count_category category res))))"

fun scan_all ::
  "deposit_config \<Rightarrow> (string \<Rightarrow> string) \<Rightarrow> instant \<Rightarrow> string \<Rightarrow> obligation_row list \<Rightarrow> pay_db \<times> scan_result \<Rightarrow> pay_error + (pay_db \<times> scan_result)" where
  "scan_all cfg ids now today [] st = Inr st"
| "scan_all cfg ids now today (r # rs) st = await (scan_one cfg ids now today r st) (\<lambda>st'. scan_all cfg ids now today rs st')"

definition empty_scan :: scan_result where
  "empty_scan = \<lparr>sr_dueSoon = 0, sr_dueToday = 0, sr_overdue = 0, sr_attention = 0, sr_outstandingAmountVnd = 0\<rparr>"

definition scanVerificationDepositRefundWindows ::
  "deposit_config \<Rightarrow> (string \<Rightarrow> string) \<Rightarrow> (string \<Rightarrow> bool) \<Rightarrow> instant \<Rightarrow> pay_db \<Rightarrow> pay_error + (pay_db \<times> scan_result)" where
  "scanVerificationDepositRefundWindows cfg ids skipped now db =
     await (lift_error CalendarError (vietnamDateFromInstant (Some now))) (\<lambda>today.
       scan_all cfg ids now today (filter (\<lambda>r. og_state r \<noteq> RefundSent \<and> \<not> skipped (og_id r)) (db_obligations db)) (db, empty_scan))"

end
