(* ===== verification/DepositEffects.thy ===== *)
theory DepositEffects
  imports RefundWindow
begin

text \<open>
  What a successful operation of the deposit service did to the database: one elimination lemma per
  operation, saying which rows were added or changed and that the constraints hold afterwards. The
  invariants and properties are proved from these lemmas and not from the definitions.
\<close>

subsection \<open>Shared statements\<close>

lemma constraints_frame [simp]:
  "pay_constraints (db\<lparr>db_idem := t\<rparr>) = pay_constraints db"
  "pay_constraints (db\<lparr>db_outbox := ob\<rparr>) = pay_constraints db"
  "pay_constraints (db\<lparr>db_audit := au\<rparr>) = pay_constraints db"
  "pay_constraints (db\<lparr>db_proofs := ps\<rparr>) = pay_constraints db"
  by (simp_all add: pay_constraints_def references_ok_def)

lemma begin_command_Inr:
  "begin_command k c db = Inr (db', r) \<longleftrightarrow>
     (\<exists>t. beginIdempotentCommand k c (db_idem db) = Inr (t, r) \<and> db' = db\<lparr>db_idem := t\<rparr>)"
  by (auto simp: begin_command_def result_iffs)

lemma append_audit_Inr:
  "append_audit u k clock e db = Inr db' \<longleftrightarrow>
     (\<exists>t i. appendAdminAuditEvent u k clock e (db_audit db) = Inr (t, i) \<and> db' = db\<lparr>db_audit := t\<rparr>)"
  by (auto simp: append_audit_def result_iffs)

lemma append_event_Inr:
  "append_event u k clock e db = Inr db' \<longleftrightarrow>
     (\<exists>t i. insertOutboxEvent u k clock e (db_outbox db) = Inr (t, i) \<and> db' = db\<lparr>db_outbox := t\<rparr>)"
  by (auto simp: append_event_def result_iffs)

lemma completeCommand_Inr:
  "completeCommand cfg k ref at db = Inr db' \<longleftrightarrow>
     (\<exists>t. completeIdempotentCommand (pf_parse_url (cfg_platform cfg)) k ref at (db_idem db) = Inr (t, True) \<and>
        db' = db\<lparr>db_idem := t\<rparr>)"
  by (auto simp: completeCommand_def result_iffs split: if_splits)

lemma requireOwnerStepUp_Inr:
  "requireOwnerStepUp cfg su db = Inr db' \<longleftrightarrow>
     (\<exists>ps. cfg_consumeStepUpProof cfg su (db_proofs db) = (True, ps) \<and> db' = db\<lparr>db_proofs := ps\<rparr>)"
  by (auto simp: requireOwnerStepUp_def split: prod.splits bool.splits)

lemmas statement_iffs = begin_command_Inr append_audit_Inr append_event_Inr completeCommand_Inr requireOwnerStepUp_Inr

lemma retry_from_Inr: "retry_from n run = Inr a \<Longrightarrow> \<exists>k. run k = Inr a"
proof (induction n run rule: retry_from.induct)
  case (1 n run)
  show ?case
  proof (cases "run n")
    case (Inl e)
    with "1.prems" have "retry_from (n + 1) run = Inr a" "\<not> (e \<noteq> PaymentAccountChangedError \<or> 2 \<le> n)"
      by (subst (asm) retry_from.simps, simp split: if_splits)+
    then show ?thesis using "1.IH" Inl by blast
  next
    case (Inr b)
    with "1.prems" show ?thesis by (subst (asm) retry_from.simps) auto
  qed
qed

lemma retry_Inr: "retryPaymentAccountChange run = Inr a \<Longrightarrow> \<exists>k. run k = Inr a"
  unfolding retryPaymentAccountChange_def by (rule retry_from_Inr)

text \<open>The tables that hold the money: everything else may differ.\<close>

definition same_money :: "pay_db \<Rightarrow> pay_db \<Rightarrow> bool" where
  "same_money db db' \<longleftrightarrow>
     db_challenges db' = db_challenges db \<and> db_receipts db' = db_receipts db \<and>
     db_obligations db' = db_obligations db \<and> db_refunds db' = db_refunds db"

lemma same_money_simps [simp]:
  "same_money db db" "same_money db (db\<lparr>db_idem := t\<rparr>)" "same_money db (db\<lparr>db_proofs := ps\<rparr>)"
  "same_money db (db\<lparr>db_audit := au\<rparr>)" "same_money db (db\<lparr>db_outbox := ob\<rparr>)"
  by (simp_all add: same_money_def)

subsection \<open>Issuing\<close>

lemma issue_write_effect:
  assumes "issue_write cfg dr c at k db = Inr (db', v)"
  obtains h where "db_challenges db' = db_challenges db @ [new_challenge cfg dr c at h]"
    "db_receipts db' = db_receipts db" "db_obligations db' = db_obligations db" "db_refunds db' = db_refunds db"
    "pay_constraints db'" "\<not> cw_replayed v"
    "pay_constraints (db\<lparr>db_challenges := db_challenges db @ [new_challenge cfg dr c at h]\<rparr>)"
  using assms unfolding issue_write_def Let_def
  by (simp only: result_iffs statement_iffs store_Inr) auto

lemma begin_payment_Inr:
  "begin_payment cfg dr actor scope hashes at db = Inr (db0, started) \<Longrightarrow> \<exists>t. db0 = db\<lparr>db_idem := t\<rparr>"
  by (auto simp: begin_payment_def begin_command_Inr)

lemma replay_challenge_replayed: "replay_challenge cfg db ref = Inr v \<Longrightarrow> cw_replayed v"
  by (auto simp: replay_challenge_def result_iffs)

lemma same_money_idem_proofs [simp]:
  "same_money db (db\<lparr>db_idem := t, db_proofs := ps\<rparr>)"
  "pay_constraints (db\<lparr>db_idem := t, db_proofs := ps\<rparr>) = pay_constraints db"
  by (simp_all add: same_money_def)

lemma issueChallenge_effect:
  assumes "issueChallenge cfg dr at c db = Inr (db', v)" "pay_constraints db"
  obtains (replayed) "same_money db db'" "pay_constraints db'" "cw_replayed v"
  | (issued) h where "db_challenges db' = db_challenges db @ [new_challenge cfg dr c at h]"
      "db_receipts db' = db_receipts db" "db_obligations db' = db_obligations db" "db_refunds db' = db_refunds db"
      "pay_constraints db'" "\<not> cw_replayed v"
      "challenges_ok (db_challenges db @ [new_challenge cfg dr c at h])"
proof -
  from assms(1) obtain hashes db0 started where b: "begin_payment cfg dr (ic_ownerUserId c)
      ''payments.verification_deposit.challenge.issue'' hashes at db = Inr (db0, started)"
    and r: "(\<exists>i ref. started = Replay i ref \<and> replay_challenge cfg db0 ref = Inr v \<and> db' = db0) \<or>
      (\<exists>k su db1. started = Acquired k \<and> requireOwnerStepUp cfg su db0 = Inr db1 \<and> issue_write cfg dr c at k db1 = Inr (db', v))"
    unfolding issueChallenge_def by (auto simp: result_iffs on_started_Inr) blast
  obtain t where t: "db0 = db\<lparr>db_idem := t\<rparr>" using begin_payment_Inr [OF b] by blast
  from r show thesis
  proof (elim disjE exE conjE)
    fix i ref
    assume "replay_challenge cfg db0 ref = Inr v" "db' = db0"
    then show thesis using t assms(2) replay_challenge_replayed by (intro replayed) auto
  next
    fix k su db1
    assume "requireOwnerStepUp cfg su db0 = Inr db1" and w: "issue_write cfg dr c at k db1 = Inr (db', v)"
    then obtain ps where db1: "db1 = db\<lparr>db_idem := t, db_proofs := ps\<rparr>" using t by (auto simp: requireOwnerStepUp_Inr)
    from w show thesis
      by (rule issue_write_effect) (rule issued, auto simp: db1 pay_constraints_def)
  qed
qed

subsection \<open>Reporting\<close>

lemma report_write_effect:
  assumes "report_write cfg dr c at k challenge db = Inr db'"
  shows "db_challenges db' = rows_update (\<lambda>r. ch_id r = ch_id challenge) (\<lambda>r. r\<lparr>ch_state := ChSentReported, ch_updatedAt := at\<rparr>) (db_challenges db) \<and>
    db_receipts db' = db_receipts db \<and> db_obligations db' = db_obligations db \<and> db_refunds db' = db_refunds db \<and> pay_constraints db'"
  using assms unfolding report_write_def Let_def
  by (auto simp: result_iffs statement_iffs split: if_splits)

lemma challenge_of_applicant_in:
  "challenge_of_applicant db k who = Some (challenge, account) \<Longrightarrow> challenge \<in> set (db_challenges db)"
  by (auto simp: challenge_of_applicant_def split: option.splits dest!: find_Some_in)

lemma reportSent_effect:
  assumes "reportSent cfg dr at c db = Inr (db', v)" "pay_constraints db"
  obtains (replayed) "same_money db db'" "pay_constraints db'"
  | (reported) challenge where "challenge \<in> set (db_challenges db)" "challenge_active challenge" "at \<le> ch_expiresAt challenge"
      "db_challenges db' = rows_update (\<lambda>r. ch_id r = ch_id challenge) (\<lambda>r. r\<lparr>ch_state := ChSentReported, ch_updatedAt := at\<rparr>) (db_challenges db)"
      "db_receipts db' = db_receipts db" "db_obligations db' = db_obligations db" "db_refunds db' = db_refunds db" "pay_constraints db'"
proof -
  from assms(1) obtain hashes n where "report_transaction cfg (dr n) at c hashes db = Inr (db', v)"
    unfolding reportSent_def by (auto simp: result_iffs dest!: retry_Inr)
  then obtain db0 started where b: "begin_payment cfg (dr n) (rq_applicantUserId c) ''payments.verification_deposit.report_sent'' hashes at db = Inr (db0, started)"
    and r: "db' = db0 \<or> (\<exists>k challenge account. challenge_of_applicant db0 (rq_challengeId c) (rq_applicantUserId c) = Some (challenge, account) \<and>
        challenge_active challenge \<and> at \<le> ch_expiresAt challenge \<and> report_write cfg (dr n) c at k challenge db0 = Inr db')"
    unfolding report_transaction_def by (auto simp: result_iffs on_started_Inr) blast
  obtain t where t: "db0 = db\<lparr>db_idem := t\<rparr>" using begin_payment_Inr [OF b] by blast
  from r show thesis
  proof (elim disjE exE conjE)
    fix k challenge account
    assume "challenge_of_applicant db0 (rq_challengeId c) (rq_applicantUserId c) = Some (challenge, account)"
      "challenge_active challenge" "at \<le> ch_expiresAt challenge" "report_write cfg (dr n) c at k challenge db0 = Inr db'"
    then show thesis using t
      by (intro reported [of challenge]) (auto dest!: challenge_of_applicant_in report_write_effect)
  qed (use t assms(2) replayed in simp)
qed

subsection \<open>Reconciling\<close>

lemma unmatchedReason_None:
  assumes "unmatchedReason c fa challenge_opt account_opt = None"
  obtains challenge account fp bin where "challenge_opt = Some challenge" "account_opt = Some account"
    "ch_state challenge \<noteq> ChVerified" "rk_actualAmountVnd c = ch_amountVnd challenge"
    "fa_actualReferenceHash fa = ch_referenceHash challenge" "rk_receivedAt c \<le> ch_expiresAt challenge"
    "fa_sourceAccountFingerprint fa = Some fp" "fa_sourceBankBin fa = Some bin"
    "ac_accountFingerprint account = fp" "ac_bankBin account = bin"
  using assms by (auto simp: unmatchedReason_def not_less split: option.splits if_splits)

lemma insertUnmatched_effect:
  assumes "insertUnmatched cfg dr c fa pc reason at db = Inr (db', k)"
  shows "same_money db db' \<and> pay_constraints db' \<and> k = dr_id dr \<and> db_idem db' = db_idem db \<and>
    db_unmatched db' = db_unmatched db @ [new_unmatched dr c fa pc reason at]"
  using assms unfolding insertUnmatched_def
  by (auto simp: result_iffs statement_iffs same_money_def)

lemma matched_rows_effect:
  assumes "matched_rows cfg dr c fa challenge account window at db = Inr db'"
  obtains number holder e1 e2 where
    "open_sealed cfg (account_binding (ac_id account) ''account_number'') (ac_accountNumberEnvelope account) = Inr number"
    "open_sealed cfg (account_binding (ac_id account) ''account_holder_label'') (ac_accountHolderLabelEnvelope account) = Inr holder"
    "seal_value cfg (dr_nonce dr) (obligation_binding (dr_id2 dr) ''account_number'') number = Inr e1"
    "seal_value cfg (dr_nonce2 dr) (obligation_binding (dr_id2 dr) ''account_holder_label'') holder = Inr e2"
    "db_receipts db' = db_receipts db @ [new_receipt dr c fa challenge at]"
    "db_obligations db' = db_obligations db @ [new_obligation dr challenge account window e1 e2 at]"
    "db_challenges db' = rows_update (\<lambda>r. ch_id r = ch_id challenge)
       (\<lambda>r. r\<lparr>ch_state := ChVerified, ch_verifiedAt := Some (rk_receivedAt c), ch_updatedAt := at\<rparr>) (db_challenges db)"
    "db_refunds db' = db_refunds db" "db_idem db' = db_idem db" "pay_constraints db'"
  using assms unfolding matched_rows_def by (auto simp: result_iffs)

lemma matched_write_effect:
  assumes "matched_write cfg dr c fa challenge account k at db = Inr (db', v)"
  obtains window db4 au ob t where "v = MatchedView (dr_id dr) (dr_id2 dr)"
    "calculateStoredReceiptBusinessDayWindow (db_calendar db) (vietnam_date (rk_receivedAt c)) (cfg_calendarVersion cfg) = Inr window"
    "matched_rows cfg dr c fa challenge account window at db = Inr db4"
    "completeIdempotentCommand (pf_parse_url (cfg_platform cfg)) k (reconciliationReplayReference ReceiptKind (dr_id dr)) at (db_idem db4) = Inr (t, True)"
    "db' = db4\<lparr>db_audit := au, db_outbox := ob, db_idem := t\<rparr>"
proof -
  from assms obtain window db4 db7 au ob where m: "v = MatchedView (dr_id dr) (dr_id2 dr)"
    "calculateStoredReceiptBusinessDayWindow (db_calendar db) (vietnam_date (rk_receivedAt c)) (cfg_calendarVersion cfg) = Inr window"
    "matched_rows cfg dr c fa challenge account window at db = Inr db4"
    "completeCommand cfg k (reconciliationReplayReference ReceiptKind (dr_id dr)) at db7 = Inr db'"
    "db7 = db4\<lparr>db_audit := au, db_outbox := ob\<rparr>"
    unfolding matched_write_def Let_def vietnamDateFromInstant_def option.case
    by (simp only: result_iffs append_audit_Inr append_event_Inr lift_error_Inr sum.inject ex_simps prod.inject) fastforce
  from m(4,5) obtain t where "completeIdempotentCommand (pf_parse_url (cfg_platform cfg)) k (reconciliationReplayReference ReceiptKind (dr_id dr)) at (db_idem db4) = Inr (t, True)"
    "db' = db4\<lparr>db_audit := au, db_outbox := ob, db_idem := t\<rparr>" by (auto simp: completeCommand_Inr)
  with m show thesis by (intro that)
qed

text \<open>A match, in terms of the rows before and after.\<close>

definition matched_step ::
  "deposit_config \<Rightarrow> draws \<Rightarrow> reconcile_command \<Rightarrow> receipt_facts \<Rightarrow> challenge_row \<Rightarrow> account_row \<Rightarrow> business_day_window \<Rightarrow> instant \<Rightarrow>
     pay_db \<Rightarrow> pay_db \<Rightarrow> bool" where
  "matched_step cfg dr c fa challenge account window at db db' \<longleftrightarrow>
     unmatchedReason c fa (Some challenge) (Some account) = None \<and> challenge \<in> set (db_challenges db) \<and>
     (\<exists>e1 e2. db_obligations db' = db_obligations db @ [new_obligation dr challenge account window e1 e2 at]) \<and>
     db_receipts db' = db_receipts db @ [new_receipt dr c fa challenge at] \<and>
     db_challenges db' = rows_update (\<lambda>r. ch_id r = ch_id challenge)
       (\<lambda>r. r\<lparr>ch_state := ChVerified, ch_verifiedAt := Some (rk_receivedAt c), ch_updatedAt := at\<rparr>) (db_challenges db) \<and>
     db_refunds db' = db_refunds db"

lemma candidate_challenge_in: "candidate_challenge fa db = Some challenge \<Longrightarrow> challenge \<in> set (db_challenges db)"
  by (auto simp: candidate_challenge_def split: option.splits dest!: find_Some_in)

lemma settle_effect:
  assumes "settle_receipt cfg dr at c fa challenge_opt account_opt k db = Inr (db', v)"
    and "\<And>challenge. challenge_opt = Some challenge \<Longrightarrow> challenge \<in> set (db_challenges db)"
  obtains (unmatched) reason where "v = UnmatchedView (dr_id dr) reason" "same_money db db'" "pay_constraints db'"
      "unmatchedReason c fa challenge_opt account_opt = Some reason"
  | (matched) challenge account window where "v = MatchedView (dr_id dr) (dr_id2 dr)"
      "matched_step cfg dr c fa challenge account window at db db'" "pay_constraints db'"
proof (cases "unmatchedReason c fa challenge_opt account_opt")
  case (Some reason)
  with assms(1) obtain db2 u where "insertUnmatched cfg dr c fa (map_option ch_id challenge_opt) reason at db = Inr (db2, u)"
    "completeCommand cfg k (reconciliationReplayReference UnmatchedKind u) at db2 = Inr db'" "v = UnmatchedView u reason"
    by (auto simp: settle_receipt_def result_iffs)
  then show thesis
    by (intro unmatched [of reason])
      (auto dest!: insertUnmatched_effect simp: completeCommand_Inr same_money_def Some)
next
  case None
  from unmatchedReason_None [OF this] obtain challenge account where o1: "challenge_opt = Some challenge" "account_opt = Some account"
    by metis
  with None assms(1) have "matched_write cfg dr c fa challenge account k at db = Inr (db', v)"
    by (simp add: settle_receipt_def)
  then show thesis
  proof (rule matched_write_effect)
    fix window db4 au ob t
    assume v: "v = MatchedView (dr_id dr) (dr_id2 dr)" and rows: "matched_rows cfg dr c fa challenge account window at db = Inr db4"
      and db': "db' = db4\<lparr>db_audit := au, db_outbox := ob, db_idem := t\<rparr>"
    from rows show thesis
      by (rule matched_rows_effect)
        (rule matched [of challenge account window], use v db' None o1 assms(2) in \<open>auto simp: matched_step_def\<close>)
  qed
qed

lemma reconcile_effect:
  assumes "reconcile cfg dr at c db = Inr (db', v)" "pay_constraints db"
  obtains (same) "same_money db db'" "pay_constraints db'"
  | (matched) n fa challenge account window where "reconcile_facts cfg at c = Inr fa" "v = MatchedView (dr_id (dr n)) (dr_id2 (dr n))"
      "matched_step cfg (dr n) c fa challenge account window at db db'" "pay_constraints db'"
proof -
  from assms(1) obtain fa hashes n where fa: "reconcile_facts cfg at c = Inr fa"
    and tr: "reconcile_transaction cfg (dr n) at c fa hashes db = Inr (db', v)"
    unfolding reconcile_def by (auto simp: result_iffs dest!: retry_Inr)
  from tr obtain db0 started where b: "begin_payment cfg (dr n) (rk_ownerUserId c) ''payments.verification_deposit.reconcile'' hashes at db = Inr (db0, started)"
    and r: "db' = db0 \<or> (\<exists>k su db1. requireOwnerStepUp cfg su db0 = Inr db1 \<and>
      settle_receipt cfg (dr n) at c fa (candidate_challenge fa db0) (challenge_account (candidate_challenge fa db0) db1) k db1 = Inr (db', v))"
    unfolding reconcile_transaction_def by (auto simp: result_iffs on_started_Inr) blast
  obtain t where t: "db0 = db\<lparr>db_idem := t\<rparr>" using begin_payment_Inr [OF b] by blast
  from r show thesis
  proof (elim disjE exE conjE)
    fix k su db1
    assume "requireOwnerStepUp cfg su db0 = Inr db1"
      and st: "settle_receipt cfg (dr n) at c fa (candidate_challenge fa db0) (challenge_account (candidate_challenge fa db0) db1) k db1 = Inr (db', v)"
    then obtain ps where db1: "db1 = db\<lparr>db_idem := t, db_proofs := ps\<rparr>" using t by (auto simp: requireOwnerStepUp_Inr)
    from st show thesis
    proof (rule settle_effect)
      fix challenge assume "candidate_challenge fa db0 = Some challenge"
      then show "challenge \<in> set (db_challenges db1)" using candidate_challenge_in t db1 by fastforce
    next
      assume "same_money db1 db'" "pay_constraints db'"
      then show thesis using db1 by (intro same) (simp_all add: same_money_def)
    next
      fix challenge account window
      assume "v = MatchedView (dr_id (dr n)) (dr_id2 (dr n))" "matched_step cfg (dr n) c fa challenge account window at db1 db'" "pay_constraints db'"
      then show thesis using fa db1 by (intro matched) (auto simp: matched_step_def)
    qed
  qed (use t assms(2) same in simp)
qed

subsection \<open>Refunds\<close>

lemma reveal_effect:
  assumes "revealRefundDestination cfg dr at c db = Inr (db', v)" "pay_constraints db"
  shows "same_money db db' \<and> pay_constraints db'"
  using assms unfolding revealRefundDestination_def
  by (auto simp: result_iffs statement_iffs same_money_def)

definition settled_obligation :: "refund_command \<Rightarrow> instant \<Rightarrow> obligation_row \<Rightarrow> obligation_row" where
  "settled_obligation c at o1 = o1\<lparr>og_state := outcome_state (rr_outcome c),
     og_attentionReason := (if rr_outcome c = OutcomeAttention then map_option trim (rr_attentionReason c) else None), og_updatedAt := at\<rparr>"

lemma refund_write_effect:
  assumes "refund_write cfg dr c obligation fp k at db = Inr (db', v)"
  shows "db_refunds db' = db_refunds db @ [new_refund dr c (og_id obligation) fp at] \<and>
    db_obligations db' = rows_update (\<lambda>o1. og_id o1 = og_id obligation) (settled_obligation c at) (db_obligations db) \<and>
    db_challenges db' = db_challenges db \<and> db_receipts db' = db_receipts db \<and> pay_constraints db' \<and>
    v = outcome_text (rr_outcome c)"
  using assms unfolding refund_write_def Let_def settled_obligation_def
  by (auto simp: result_iffs statement_iffs)

text \<open>A recorded refund, in terms of the rows before and after.\<close>

definition refund_step :: "draws \<Rightarrow> refund_command \<Rightarrow> instant \<Rightarrow> obligation_row \<Rightarrow> string option \<Rightarrow> pay_db \<Rightarrow> pay_db \<Rightarrow> bool" where
  "refund_step dr c at obligation fp db db' \<longleftrightarrow>
     obligation \<in> set (db_obligations db) \<and> og_id obligation = rr_obligationId c \<and> og_state obligation \<noteq> RefundSent \<and>
     (rr_outcome c = OutcomeSent \<longrightarrow> rr_actualAmountVnd c = Some (og_amountVnd obligation)) \<and>
     og_refundNotBefore obligation \<le> vietnam_date (case rr_sentAt c of None \<Rightarrow> at | Some d \<Rightarrow> d) \<and>
     db_refunds db' = db_refunds db @ [new_refund dr c (og_id obligation) fp at] \<and>
     db_obligations db' = rows_update (\<lambda>o1. og_id o1 = og_id obligation) (settled_obligation c at) (db_obligations db) \<and>
     db_challenges db' = db_challenges db \<and> db_receipts db' = db_receipts db"

lemma recordRefund_effect:
  assumes "recordRefund cfg dr at c db = Inr (db', v)" "pay_constraints db"
  obtains (replayed) "same_money db db'" "pay_constraints db'"
  | (recorded) obligation fp where "refund_step dr c at obligation fp db db'" "refund_evidence at c = Inr ()" "pay_constraints db'"
proof -
  from assms(1) obtain hashes db0 started fp where ev: "refund_evidence at c = Inr ()"
    and b: "begin_payment cfg dr (rr_ownerUserId c) ''payments.verification_deposit.refund.record'' hashes at db = Inr (db0, started)"
    and r: "db' = db0 \<or> (\<exists>k su db1 obligation. List.find (\<lambda>o1. og_id o1 = rr_obligationId c) (db_obligations db0) = Some obligation \<and>
      og_state obligation \<noteq> RefundSent \<and> (rr_outcome c = OutcomeSent \<longrightarrow> rr_actualAmountVnd c = Some (og_amountVnd obligation)) \<and>
      \<not> vietnam_date (case rr_sentAt c of None \<Rightarrow> at | Some d \<Rightarrow> d) < og_refundNotBefore obligation \<and>
      requireOwnerStepUp cfg su db0 = Inr db1 \<and> refund_write cfg dr c obligation fp k at db1 = Inr (db', v))"
    unfolding recordRefund_def vietnamDateFromInstant_def option.case
    by (auto simp: result_iffs on_started_Inr) blast+
  obtain t where t: "db0 = db\<lparr>db_idem := t\<rparr>" using begin_payment_Inr [OF b] by blast
  from r show thesis
  proof (elim disjE exE conjE)
    fix k su db1 obligation
    assume a: "List.find (\<lambda>o1. og_id o1 = rr_obligationId c) (db_obligations db0) = Some obligation" "og_state obligation \<noteq> RefundSent"
      "rr_outcome c = OutcomeSent \<longrightarrow> rr_actualAmountVnd c = Some (og_amountVnd obligation)"
      "\<not> vietnam_date (case rr_sentAt c of None \<Rightarrow> at | Some d \<Rightarrow> d) < og_refundNotBefore obligation"
      "requireOwnerStepUp cfg su db0 = Inr db1" "refund_write cfg dr c obligation fp k at db1 = Inr (db', v)"
    from a(5) t obtain ps where db1: "db1 = db\<lparr>db_idem := t, db_proofs := ps\<rparr>" by (auto simp: requireOwnerStepUp_Inr)
    from find_Some_in [OF a(1)] refund_write_effect [OF a(6)] show thesis
      using a(2-4) t db1 ev by (intro recorded [of obligation fp]) (auto simp: refund_step_def not_less)
  qed (use t assms(2) replayed in simp)
qed

subsection \<open>The window scan\<close>

lemma scan_one_Inr:
  assumes "scan_one cfg ids now today r (db, res) = Inr (db', res')"
  obtains (none) "refund_category today r = None" "db' = db"
  | (marked) category ob where "refund_category today r = Some category"
      "db' = db\<lparr>db_obligations := rows_update (\<lambda>o1. og_id o1 = og_id r) (\<lambda>_. mark_obligation now category r) (db_obligations db), db_outbox := ob\<rparr>"
      "pay_constraints db'" "category_marker category r \<noteq> None \<Longrightarrow> ob = db_outbox db"
proof (cases "refund_category today r")
  case None
  with assms show thesis by (intro none) (auto simp: scan_one_def Let_def)
next
  case (Some category)
  let ?db1 = "db\<lparr>db_obligations := rows_update (\<lambda>o1. og_id o1 = og_id r) (\<lambda>_. mark_obligation now category r) (db_obligations db)\<rparr>"
  from Some assms have ok: "pay_constraints ?db1"
    and e: "(if category_marker category r = None
      then append_event (pf_parse_url (cfg_platform cfg)) (ids (og_id r)) now (window_event now category r) ?db1 else Inr ?db1) = Inr db'"
    by (auto simp: scan_one_def Let_def result_iffs)
  show thesis
  proof (cases "category_marker category r = None")
    case True
    with e obtain t where "db' = ?db1\<lparr>db_outbox := t\<rparr>" by (auto simp: append_event_Inr)
    with ok Some True show thesis by (intro marked [of category t]) simp_all
  next
    case False
    then have "db' = ?db1" using e by (simp only: if_False sum.inject)
    with ok Some show thesis by (intro marked [of category "db_outbox db"]) auto
  qed
qed

end
