(* ===== verification/DepositInvariants.thy ===== *)
theory DepositInvariants
  imports DepositEffects
begin

text \<open>
  The deposit ledger as a transition system: its steps are the operations of the deposit service, the
  refund window worker and whatever other components do to the remaining tables. The invariant ties
  challenges, receipts, obligations and refunds together; it is proved by rule induction over the
  steps, and the properties at the end are read off it.
\<close>

subsection \<open>The invariant\<close>

definition sent_refunds :: "pay_db \<Rightarrow> refund_row list" where
  "sent_refunds db = filter (\<lambda>f. rf_outcome f = OutcomeSent) (db_refunds db)"

text \<open>A receipt is full evidence for its challenge, and an obligation is locked to its receipt.\<close>

definition receipt_matches :: "receipt_row \<Rightarrow> challenge_row \<Rightarrow> bool" where
  "receipt_matches r c \<longleftrightarrow>
     rc_challengeId r = ch_id c \<and> rc_actualAmountVnd r = ch_amountVnd c \<and> rc_actualReferenceHash r = ch_referenceHash c \<and>
     rc_receivedAt r \<le> ch_expiresAt c \<and> ch_verifiedAt c = Some (rc_receivedAt r)"

definition obligation_matches :: "obligation_row \<Rightarrow> receipt_row \<Rightarrow> bool" where
  "obligation_matches o1 r \<longleftrightarrow>
     og_receiptId o1 = rc_id r \<and> og_challengeId o1 = rc_challengeId r \<and> og_amountVnd o1 = rc_actualAmountVnd r \<and>
     og_lockedAccountFingerprint o1 = rc_sourceAccountFingerprint r \<and> og_lockedBankBin o1 = rc_sourceBankBin r"

definition refund_matches :: "refund_row \<Rightarrow> obligation_row \<Rightarrow> bool" where
  "refund_matches f o1 \<longleftrightarrow>
     rf_obligationId f = og_id o1 \<and> rf_actualAmountVnd f = Some (og_amountVnd o1) \<and> og_state o1 = RefundSent \<and>
     (\<exists>d. rf_sentAt f = Some d \<and> og_refundNotBefore o1 \<le> vietnam_date d)"

definition match_inv :: "challenge_row list \<Rightarrow> receipt_row list \<Rightarrow> bool" where
  "match_inv cs rs \<longleftrightarrow>
     (\<forall>c \<in> set cs. ch_state c \<noteq> ChExpired \<and> (ch_state c = ChVerified \<longrightarrow> ch_id c \<in> rc_challengeId ` set rs)) \<and>
     (\<forall>r \<in> set rs. \<exists>c \<in> set cs. ch_state c = ChVerified \<and> receipt_matches r c)"

definition obligation_inv :: "receipt_row list \<Rightarrow> obligation_row list \<Rightarrow> bool" where
  "obligation_inv rs os \<longleftrightarrow>
     (\<forall>o1 \<in> set os. \<exists>r \<in> set rs. obligation_matches o1 r) \<and> rc_id ` set rs \<subseteq> og_receiptId ` set os"

definition refund_inv :: "obligation_row list \<Rightarrow> refund_row list \<Rightarrow> bool" where
  "refund_inv os fs \<longleftrightarrow>
     (\<forall>o1 \<in> set os. og_state o1 = RefundSent \<longrightarrow> og_id o1 \<in> rf_obligationId ` set (filter (\<lambda>f. rf_outcome f = OutcomeSent) fs)) \<and>
     (\<forall>f \<in> set fs. rf_outcome f = OutcomeSent \<longrightarrow> (\<exists>o1 \<in> set os. refund_matches f o1))"

definition money_inv :: "pay_db \<Rightarrow> bool" where
  "money_inv db \<longleftrightarrow>
     pay_constraints db \<and> match_inv (db_challenges db) (db_receipts db) \<and>
     obligation_inv (db_receipts db) (db_obligations db) \<and> refund_inv (db_obligations db) (db_refunds db)"

lemma money_inv_same: "same_money db db' \<Longrightarrow> pay_constraints db' \<Longrightarrow> money_inv db \<Longrightarrow> money_inv db'"
  by (simp add: money_inv_def same_money_def)

lemma money_distinct:
  assumes "pay_constraints db"
  shows "distinct (map ch_id (db_challenges db))" "distinct (map rc_id (db_receipts db))" "distinct (map rc_challengeId (db_receipts db))"
    "distinct (map og_id (db_obligations db))" "distinct (map og_challengeId (db_obligations db))" "distinct (map og_receiptId (db_obligations db))"
    "distinct (map rf_obligationId (sent_refunds db))"
  using assms
  by (simp_all add: pay_constraints_def challenges_ok_def receipts_ok_def obligations_ok_def refunds_ok_def sent_refunds_def)

subsection \<open>Preservation\<close>

lemma match_inv_issue:
  assumes "match_inv cs rs" "ch_state c = ChIssued" shows "match_inv (cs @ [c]) rs"
  using assms by (auto simp: match_inv_def)

lemma match_inv_report:
  assumes inv: "match_inv cs rs" and keys: "distinct (map ch_id cs)" and c: "c \<in> set cs" "challenge_active c"
  shows "match_inv (rows_update (\<lambda>r. ch_id r = ch_id c) (\<lambda>r. r\<lparr>ch_state := ChSentReported, ch_updatedAt := at\<rparr>) cs) rs"
proof -
  have only: "x = c" if "x \<in> set cs" "ch_id x = ch_id c" for x using distinct_key_eq [OF keys that(1) c(1) that(2)] .
  have "\<exists>c' \<in> set (rows_update (\<lambda>r. ch_id r = ch_id c) (\<lambda>r. r\<lparr>ch_state := ChSentReported, ch_updatedAt := at\<rparr>) cs).
      ch_state c' = ChVerified \<and> receipt_matches r c'" if r: "r \<in> set rs" for r
  proof -
    obtain v where v: "v \<in> set cs" "ch_state v = ChVerified" "receipt_matches r v" using inv r by (auto simp: match_inv_def)
    then have "ch_id v \<noteq> ch_id c" using only [of v] c(2) by (auto simp: challenge_active_def)
    then have "v \<in> set (rows_update (\<lambda>r. ch_id r = ch_id c) (\<lambda>r. r\<lparr>ch_state := ChSentReported, ch_updatedAt := at\<rparr>) cs)"
      using v(1) by (force simp: in_rows_update_iff)
    with v show ?thesis by blast
  qed
  then show ?thesis using inv by (auto simp: match_inv_def in_rows_update_iff split: if_splits)
qed

lemma match_inv_matched:
  assumes inv: "match_inv cs rs" and keys: "distinct (map ch_id cs)" and c: "c \<in> set cs" "ch_state c \<noteq> ChVerified"
    and r: "rc_challengeId r = ch_id c" "rc_actualAmountVnd r = ch_amountVnd c" "rc_actualReferenceHash r = ch_referenceHash c"
      "rc_receivedAt r \<le> ch_expiresAt c"
  shows "match_inv (rows_update (\<lambda>x. ch_id x = ch_id c)
    (\<lambda>x. x\<lparr>ch_state := ChVerified, ch_verifiedAt := Some (rc_receivedAt r), ch_updatedAt := at\<rparr>) cs) (rs @ [r])" (is "match_inv ?cs _")
proof -
  let ?v = "c\<lparr>ch_state := ChVerified, ch_verifiedAt := Some (rc_receivedAt r), ch_updatedAt := at\<rparr>"
  have only: "x = c" if "x \<in> set cs" "ch_id x = ch_id c" for x using distinct_key_eq [OF keys that(1) c(1) that(2)] .
  have new: "?v \<in> set ?cs" using c(1) by (rule rows_updateI) simp
  have "\<exists>c' \<in> set ?cs. ch_state c' = ChVerified \<and> receipt_matches x c'" if x: "x \<in> set (rs @ [r])" for x
  proof (cases "x = r")
    case True
    then have "receipt_matches x ?v" using r by (simp add: receipt_matches_def)
    with new show ?thesis by (intro bexI [of _ ?v]) simp_all
  next
    case False
    then obtain v where v: "v \<in> set cs" "ch_state v = ChVerified" "receipt_matches x v"
      using inv x by (auto simp: match_inv_def)
    then have "ch_id v \<noteq> ch_id c" using only [of v] c(2) by auto
    then have "v \<in> set ?cs" using v(1) by (force simp: in_rows_update_iff)
    with v show ?thesis by blast
  qed
  moreover have "ch_state y \<noteq> ChExpired \<and> (ch_state y = ChVerified \<longrightarrow> ch_id y \<in> rc_challengeId ` set (rs @ [r]))" if "y \<in> set ?cs" for y
    using that inv r(1) by (auto simp: match_inv_def in_rows_update_iff split: if_splits)
  ultimately show ?thesis unfolding match_inv_def by blast
qed

lemma obligation_inv_matched:
  assumes "obligation_inv rs os" "obligation_matches o1 r"
  shows "obligation_inv (rs @ [r]) (os @ [o1])"
  using assms by (auto simp: obligation_inv_def obligation_matches_def)

text \<open>An update of obligations that keeps what they owe and to whom.\<close>

definition same_debt :: "obligation_row \<Rightarrow> obligation_row \<Rightarrow> bool" where
  "same_debt o1 o2 \<longleftrightarrow>
     og_id o2 = og_id o1 \<and> og_receiptId o2 = og_receiptId o1 \<and> og_challengeId o2 = og_challengeId o1 \<and>
     og_amountVnd o2 = og_amountVnd o1 \<and> og_lockedAccountFingerprint o2 = og_lockedAccountFingerprint o1 \<and>
     og_lockedBankBin o2 = og_lockedBankBin o1 \<and> og_refundNotBefore o2 = og_refundNotBefore o1"

lemma obligation_inv_update:
  assumes inv: "obligation_inv rs os" and f: "\<And>o1. o1 \<in> set os \<Longrightarrow> p o1 \<Longrightarrow> same_debt o1 (f o1)"
  shows "obligation_inv rs (rows_update p f os)"
proof -
  have "\<exists>r \<in> set rs. obligation_matches o2 r" if o2: "o2 \<in> set (rows_update p f os)" for o2
  proof -
    from o2 obtain o1 where "o1 \<in> set os" "o2 = (if p o1 then f o1 else o1)" by (auto simp: in_rows_update_iff)
    moreover obtain r where "r \<in> set rs" "obligation_matches o1 r" using inv \<open>o1 \<in> set os\<close> by (auto simp: obligation_inv_def)
    ultimately show ?thesis using f [of o1] by (auto simp: obligation_matches_def same_debt_def)
  qed
  moreover have "map og_receiptId (rows_update p f os) = map og_receiptId os"
    using f by (auto simp: rows_update_def same_debt_def)
  then have "og_receiptId ` set (rows_update p f os) = og_receiptId ` set os" by (metis set_map)
  ultimately show ?thesis using inv by (auto simp: obligation_inv_def)
qed

lemma refund_inv_append: "refund_inv os fs \<Longrightarrow> og_state o1 \<noteq> RefundSent \<Longrightarrow> refund_inv (os @ [o1]) fs"
  by (auto simp: refund_inv_def)

text \<open>An update that leaves sent obligations alone and makes none sent.\<close>

lemma refund_inv_keep:
  assumes inv: "refund_inv os fs"
    and f: "\<And>o1. o1 \<in> set os \<Longrightarrow> p o1 \<Longrightarrow> og_state o1 \<noteq> RefundSent \<and> og_state (f o1) \<noteq> RefundSent"
  shows "refund_inv (rows_update p f os) fs"
proof -
  have "\<exists>o2 \<in> set (rows_update p f os). refund_matches x o2" if "x \<in> set fs" "rf_outcome x = OutcomeSent" for x
  proof -
    obtain o1 where o1: "o1 \<in> set os" "refund_matches x o1" using inv \<open>x \<in> set fs\<close> \<open>rf_outcome x = OutcomeSent\<close> by (auto simp: refund_inv_def)
    then have "\<not> p o1" using f [of o1] by (auto simp: refund_matches_def)
    then have "o1 \<in> set (rows_update p f os)" using o1(1) by (force simp: in_rows_update_iff)
    with o1(2) show ?thesis by blast
  qed
  then show ?thesis using inv f by (auto simp: refund_inv_def in_rows_update_iff split: if_splits)
qed

lemma refund_inv_recorded:
  assumes inv: "refund_inv os fs" and keys: "distinct (map og_id os)"
    and o1: "o1 \<in> set os" "og_state o1 \<noteq> RefundSent"
    and f: "rf_obligationId f = og_id o1"
      "rf_outcome f = OutcomeSent \<longrightarrow> refund_matches f (g o1)"
      "og_id (g o1) = og_id o1" "og_state (g o1) = RefundSent \<longleftrightarrow> rf_outcome f = OutcomeSent"
  shows "refund_inv (rows_update (\<lambda>x. og_id x = og_id o1) g os) (fs @ [f])" (is "refund_inv ?os _")
proof -
  have only: "x = o1" if "x \<in> set os" "og_id x = og_id o1" for x using distinct_key_eq [OF keys that(1) o1(1) that(2)] .
  have new: "g o1 \<in> set ?os" using o1(1) by (rule rows_updateI) simp
  have "\<exists>o2 \<in> set ?os. refund_matches x o2" if x: "x \<in> set (fs @ [f])" "rf_outcome x = OutcomeSent" for x
  proof (cases "x = f")
    case True
    with f(2) x(2) new show ?thesis by blast
  next
    case False
    then obtain o2 where o2: "o2 \<in> set os" "refund_matches x o2" using inv x by (auto simp: refund_inv_def)
    then have "og_id o2 \<noteq> og_id o1" using only [of o2] o1(2) by (auto simp: refund_matches_def)
    then have "o2 \<in> set ?os" using o2(1) by (force simp: in_rows_update_iff)
    with o2(2) show ?thesis by blast
  qed
  moreover have "og_id y \<in> rf_obligationId ` set (filter (\<lambda>f. rf_outcome f = OutcomeSent) (fs @ [f]))"
    if y: "y \<in> set ?os" "og_state y = RefundSent" for y
  proof -
    from y(1) obtain y0 where y0: "y0 \<in> set os" "y = (if og_id y0 = og_id o1 then g y0 else y0)" by (auto simp: in_rows_update_iff)
    show ?thesis
    proof (cases "og_id y0 = og_id o1")
      case True
      then have "y = g o1" using y0 only by auto
      with y(2) f show ?thesis by auto
    next
      case False
      with y0 y(2) inv show ?thesis by (auto simp: refund_inv_def)
    qed
  qed
  ultimately show ?thesis unfolding refund_inv_def by blast
qed

subsection \<open>The steps\<close>

text \<open>Other components add applications, revisions and accounts, run their own commands and write
  their own events; none of them writes the four tables of the ledger.\<close>

inductive deposit_step :: "pay_db \<Rightarrow> pay_db \<Rightarrow> bool" where
  step_issue: "issueChallenge cfg dr at c db = Inr (db', v1) \<Longrightarrow> deposit_step db db'"
| step_report: "reportSent cfg drs at rc db = Inr (db', v2) \<Longrightarrow> deposit_step db db'"
| step_reconcile: "reconcile cfg drs at kc db = Inr (db', v3) \<Longrightarrow> deposit_step db db'"
| step_reveal: "revealRefundDestination cfg dr at vc db = Inr (db', v4) \<Longrightarrow> deposit_step db db'"
| step_refund: "recordRefund cfg dr at fc db = Inr (db', v5) \<Longrightarrow> deposit_step db db'"
| step_scan: "scanVerificationDepositRefundWindows cfg ids skipped now db = Inr (db', res) \<Longrightarrow> deposit_step db db'"
| step_elsewhere: "same_money db db' \<Longrightarrow> pay_constraints db' \<Longrightarrow> deposit_step db db'"

definition empty_ledger :: "pay_db \<Rightarrow> bool" where
  "empty_ledger db \<longleftrightarrow>
     pay_constraints db \<and> db_challenges db = [] \<and> db_receipts db = [] \<and> db_obligations db = [] \<and> db_refunds db = []"

lemma issue_money_inv:
  assumes "issueChallenge cfg dr at c db = Inr (db', v)" "money_inv db"
  shows "money_inv db'"
  using assms(1)
proof (rule issueChallenge_effect)
  show "pay_constraints db" using assms(2) by (simp add: money_inv_def)
next
  fix h
  assume "db_challenges db' = db_challenges db @ [new_challenge cfg dr c at h]" "db_receipts db' = db_receipts db"
    "db_obligations db' = db_obligations db" "db_refunds db' = db_refunds db" "pay_constraints db'"
  then show ?thesis using assms(2) match_inv_issue [of "db_challenges db" "db_receipts db" "new_challenge cfg dr c at h"]
    by (simp add: money_inv_def new_challenge_def)
qed (use assms(2) money_inv_same in blast)

lemma report_money_inv:
  assumes "reportSent cfg dr at c db = Inr (db', v)" "money_inv db"
  shows "money_inv db'"
  using assms(1)
proof (rule reportSent_effect)
  show "pay_constraints db" using assms(2) by (simp add: money_inv_def)
next
  fix challenge
  assume ch: "challenge \<in> set (db_challenges db)" "challenge_active challenge"
    and eq: "db_challenges db' = rows_update (\<lambda>r. ch_id r = ch_id challenge) (\<lambda>r. r\<lparr>ch_state := ChSentReported, ch_updatedAt := at\<rparr>) (db_challenges db)"
      "db_receipts db' = db_receipts db" "db_obligations db' = db_obligations db" "db_refunds db' = db_refunds db" "pay_constraints db'"
  have "distinct (map ch_id (db_challenges db))" using assms(2) money_distinct by (simp add: money_inv_def)
  from match_inv_report [OF _ this ch, of "db_receipts db" at] show ?thesis
    using assms(2) eq by (simp add: money_inv_def)
qed (use assms(2) money_inv_same in blast)

lemma matched_money_inv:
  assumes st: "matched_step cfg dr c fa challenge account window at db db'" and ok: "pay_constraints db'" and inv: "money_inv db"
  shows "money_inv db'"
proof -
  from st obtain e1 e2 where m: "unmatchedReason c fa (Some challenge) (Some account) = None" "challenge \<in> set (db_challenges db)"
      "db_obligations db' = db_obligations db @ [new_obligation dr challenge account window e1 e2 at]"
      "db_receipts db' = db_receipts db @ [new_receipt dr c fa challenge at]"
      "db_challenges db' = rows_update (\<lambda>r. ch_id r = ch_id challenge)
         (\<lambda>r. r\<lparr>ch_state := ChVerified, ch_verifiedAt := Some (rk_receivedAt c), ch_updatedAt := at\<rparr>) (db_challenges db)"
      "db_refunds db' = db_refunds db"
    by (auto simp: matched_step_def)
  let ?r = "new_receipt dr c fa challenge at" and ?o = "new_obligation dr challenge account window e1 e2 at"
  from m(1) obtain fp bin where f: "ch_state challenge \<noteq> ChVerified" "rk_actualAmountVnd c = ch_amountVnd challenge"
    "fa_actualReferenceHash fa = ch_referenceHash challenge" "rk_receivedAt c \<le> ch_expiresAt challenge"
    "fa_sourceAccountFingerprint fa = Some fp" "fa_sourceBankBin fa = Some bin"
    "ac_accountFingerprint account = fp" "ac_bankBin account = bin"
    by (rule unmatchedReason_None) simp
  have "distinct (map ch_id (db_challenges db))" using inv money_distinct by (simp add: money_inv_def)
  from match_inv_matched [OF _ this m(2) f(1), of "db_receipts db" ?r at] have "match_inv (db_challenges db') (db_receipts db')"
    using inv f(2-4) by (simp add: money_inv_def m(4,5) new_receipt_def)
  moreover have "obligation_matches ?o ?r" using f by (simp add: obligation_matches_def new_obligation_def new_receipt_def)
  then have "obligation_inv (db_receipts db') (db_obligations db')"
    using inv obligation_inv_matched by (simp add: money_inv_def m(3,4))
  moreover have "refund_inv (db_obligations db') (db_refunds db')"
    using inv by (simp add: money_inv_def m(3,6) refund_inv_append new_obligation_def)
  ultimately show ?thesis using ok by (simp add: money_inv_def)
qed

lemma reconcile_money_inv:
  assumes "reconcile cfg dr at c db = Inr (db', v)" "money_inv db"
  shows "money_inv db'"
  using assms(1)
  by (rule reconcile_effect)
    (use assms(2) money_inv_same matched_money_inv in \<open>auto simp: money_inv_def [of db]\<close>)

lemma refund_money_inv:
  assumes "recordRefund cfg dr at c db = Inr (db', v)" "money_inv db"
  shows "money_inv db'"
  using assms(1)
proof (rule recordRefund_effect)
  show "pay_constraints db" using assms(2) by (simp add: money_inv_def)
next
  fix obligation fp
  assume st: "refund_step dr c at obligation fp db db'" and ev: "refund_evidence at c = Inr ()" and ok: "pay_constraints db'"
  let ?f = "new_refund dr c (og_id obligation) fp at"
  have d: "distinct (map og_id (db_obligations db))" using assms(2) money_distinct by (simp add: money_inv_def)
  have o1: "obligation \<in> set (db_obligations db)" "og_state obligation \<noteq> RefundSent" using st by (auto simp: refund_step_def)
  have sent: "refund_matches ?f (settled_obligation c at obligation)" if out: "rf_outcome ?f = OutcomeSent"
  proof -
    have c: "rr_outcome c = OutcomeSent" using out by (simp add: new_refund_def Let_def)
    then obtain dt where "rr_sentAt c = Some dt" using ev by (auto simp: refund_evidence_def Let_def result_iffs split: option.splits)
    with c st show ?thesis
      by (auto simp: refund_matches_def refund_step_def new_refund_def settled_obligation_def outcome_state_def Let_def)
  qed
  have "refund_inv (rows_update (\<lambda>x. og_id x = og_id obligation) (settled_obligation c at) (db_obligations db)) (db_refunds db @ [?f])"
    by (rule refund_inv_recorded [OF _ d o1])
      (use assms(2) sent in \<open>auto simp: money_inv_def new_refund_def settled_obligation_def outcome_state_def Let_def split: refund_outcome.splits\<close>)
  moreover have "obligation_inv (db_receipts db) (rows_update (\<lambda>x. og_id x = og_id obligation) (settled_obligation c at) (db_obligations db))"
    using assms(2) by (intro obligation_inv_update) (auto simp: money_inv_def same_debt_def settled_obligation_def)
  ultimately show ?thesis using st ok assms(2) by (simp add: money_inv_def refund_step_def)
qed (use assms(2) money_inv_same in blast)

text \<open>The scan: it replaces rows by their marked versions, one after the other.\<close>

lemma mark_same_debt: "same_debt r (mark_obligation now category r)"
  by (simp add: same_debt_def mark_obligation_def Let_def)

lemma mark_not_sent: "og_state r \<noteq> RefundSent \<Longrightarrow> og_state (mark_obligation now category r) \<noteq> RefundSent"
  by (simp add: mark_obligation_def next_state_def Let_def)

lemma scan_one_inv:
  assumes "scan_one cfg ids now today r (db, res) = Inr (db', res')" "money_inv db"
    and r: "r \<in> set (db_obligations db)" "og_state r \<noteq> RefundSent"
  shows "money_inv db' \<and> (\<forall>x \<in> set (db_obligations db). og_id x \<noteq> og_id r \<longrightarrow> x \<in> set (db_obligations db'))"
  using assms(1)
proof (rule scan_one_Inr)
  fix category ob
  assume db': "db' = db\<lparr>db_obligations := rows_update (\<lambda>o1. og_id o1 = og_id r) (\<lambda>_. mark_obligation now category r) (db_obligations db), db_outbox := ob\<rparr>"
    and ok: "pay_constraints db'"
  have d: "distinct (map og_id (db_obligations db))" using assms(2) money_distinct by (simp add: money_inv_def)
  have only: "x = r" if "x \<in> set (db_obligations db)" "og_id x = og_id r" for x using distinct_key_eq [OF d that(1) r(1) that(2)] .
  have "obligation_inv (db_receipts db) (rows_update (\<lambda>o1. og_id o1 = og_id r) (\<lambda>_. mark_obligation now category r) (db_obligations db))"
    using assms(2) only mark_same_debt by (intro obligation_inv_update) (auto simp: money_inv_def)
  moreover have "refund_inv (rows_update (\<lambda>o1. og_id o1 = og_id r) (\<lambda>_. mark_obligation now category r) (db_obligations db)) (db_refunds db)"
    using assms(2) only mark_not_sent r(2) by (intro refund_inv_keep) (auto simp: money_inv_def)
  moreover have "x \<in> set (db_obligations db')" if "x \<in> set (db_obligations db)" "og_id x \<noteq> og_id r" for x
    using that by (force simp: db' in_rows_update_iff)
  ultimately show ?thesis using assms(2) ok by (simp add: db' money_inv_def)
qed (use assms(2) in simp)

lemma scan_all_inv:
  assumes "scan_all cfg ids now today rs (db, res) = Inr (db', res')" "money_inv db" "distinct (map og_id rs)"
    and "\<forall>r \<in> set rs. r \<in> set (db_obligations db) \<and> og_state r \<noteq> RefundSent"
  shows "money_inv db'"
  using assms
proof (induction rs arbitrary: db res)
  case (Cons r rs)
  from Cons.prems(1) obtain db1 res1 where s: "scan_one cfg ids now today r (db, res) = Inr (db1, res1)"
    "scan_all cfg ids now today rs (db1, res1) = Inr (db', res')" by (auto simp: result_iffs)
  from scan_one_inv [OF s(1) Cons.prems(2)] Cons.prems(3,4)
  have "money_inv db1" "\<forall>r' \<in> set rs. r' \<in> set (db_obligations db1) \<and> og_state r' \<noteq> RefundSent"
    by (auto simp: image_iff)
  with Cons.IH [OF s(2)] Cons.prems(3) show ?case by simp
qed simp

lemma scan_money_inv:
  assumes "scanVerificationDepositRefundWindows cfg ids skipped now db = Inr (db', res)" "money_inv db"
  shows "money_inv db'"
proof -
  let ?rs = "filter (\<lambda>r. og_state r \<noteq> RefundSent \<and> \<not> skipped (og_id r)) (db_obligations db)"
  from assms(1) have run: "scan_all cfg ids now (vietnam_date now) ?rs (db, empty_scan) = Inr (db', res)"
    by (simp add: scanVerificationDepositRefundWindows_def vietnamDateFromInstant_def result_iffs)
  have "distinct (map og_id ?rs)"
    using assms(2) money_distinct(4) [of db] by (simp add: money_inv_def distinct_map_filter)
  from scan_all_inv [OF run assms(2) this] show ?thesis by simp
qed

lemma deposit_step_inv: "deposit_step db db' \<Longrightarrow> money_inv db \<Longrightarrow> money_inv db'"
proof (induction rule: deposit_step.induct)
  case (step_reveal cfg dr at vc db db' v4)
  then show ?case using reveal_effect money_inv_same by (metis money_inv_def)
next
  case (step_elsewhere db db')
  then show ?case using money_inv_same by blast
qed (auto intro: issue_money_inv report_money_inv reconcile_money_inv refund_money_inv scan_money_inv)

interpretation ledger: inv_system empty_ledger deposit_step money_inv
  by unfold_locales
    (simp add: empty_ledger_def money_inv_def match_inv_def obligation_inv_def refund_inv_def, rule deposit_step_inv)

end
