(* ===== verification/DepositReplay.thy ===== *)
theory DepositReplay
  imports DepositInvariants
begin

text \<open>
  Repeating a reconciliation, revealing a refund destination and repeating a window scan: the lemmas
  behind the properties that a command repeated under its key is answered from the log, that the
  destination sealed into an obligation is the one of the account, and that a second scan of the same
  day emits nothing.
\<close>

subsection \<open>Replay references\<close>

lemma is_uuid_chars: "is_uuid k \<Longrightarrow> repeats (\<lambda>c. is_lhex c \<or> c = CHR ''-'') 36 36 k"
proof -
  assume u: "is_uuid k"
  have all2: "list_all2 (\<lambda>p c. p c) ps s \<Longrightarrow> (\<forall>p \<in> set ps. \<forall>c. p c \<longrightarrow> q c) \<Longrightarrow> list_all q s" for ps s and q :: "char \<Rightarrow> bool"
    by (induction rule: list_all2_induct) auto
  have "list_all (\<lambda>c. is_lhex c \<or> c = CHR ''-'') k"
    by (rule all2 [OF u [unfolded is_uuid_def fixed_def]]) (auto simp: chars less_eq_char_def)
  then show ?thesis using is_uuid_length [OF u] by (simp add: repeats_def)
qed

lemma parse_reference_made: "is_uuid k \<Longrightarrow> parse_reference p (p @ k) = Some k"
  by (simp add: parse_reference_def is_uuid_chars)

lemma parse_reference_other: "\<not> starts_with p v \<Longrightarrow> parse_reference p v = None"
  by (simp add: parse_reference_def)

lemma parse_reconciliation_reference:
  assumes "is_uuid k"
  shows "parseReconciliationReplayReference (reconciliationReplayReference kind k) = Some (kind, k)"
proof (cases kind)
  case ReceiptKind
  have "reconciliationReplayReference ReceiptKind k = ''payments-reconciliation-v1:receipt:'' @ k"
    by (simp add: reconciliationReplayReference_def)
  with ReceiptKind show ?thesis
    using parse_reference_made [OF assms, of "''payments-reconciliation-v1:receipt:''"]
    by (simp only: parseReconciliationReplayReference_def option.case)
next
  case UnmatchedKind
  have e: "reconciliationReplayReference UnmatchedKind k = ''payments-reconciliation-v1:unmatched:'' @ k"
    by (simp add: reconciliationReplayReference_def)
  have "\<not> starts_with ''payments-reconciliation-v1:receipt:'' (''payments-reconciliation-v1:unmatched:'' @ k)"
    by (simp add: starts_with_def)
  then have "parse_reference ''payments-reconciliation-v1:receipt:'' (''payments-reconciliation-v1:unmatched:'' @ k) = None"
    by (rule parse_reference_other)
  then show ?thesis
    using UnmatchedKind e parse_reference_made [OF assms, of "''payments-reconciliation-v1:unmatched:''"]
    by (simp only: parseReconciliationReplayReference_def option.case option.map)
qed

lemma lhex_ident: "is_lhex c \<Longrightarrow> is_ident c"
  by (auto simp: chars less_eq_char_def)

lemma uuid_identifier: "is_uuid k \<Longrightarrow> list_all is_ident k"
  using is_uuid_chars [of k] lhex_ident by (auto simp: repeats_def list_all_iff is_ident_def is_word_dot_dash_def)

lemma reference_identifier: "is_uuid k \<Longrightarrow> is_identifier (reconciliationReplayReference kind k)"
proof -
  assume k: "is_uuid k"
  have c: "list_all is_ident ''payments-reconciliation-v1:receipt:''" "list_all is_ident ''payments-reconciliation-v1:unmatched:''"
    "is_alnum (CHR ''p'')" by code_simp+
  show ?thesis using c uuid_identifier [OF k] is_uuid_length [OF k]
    by (cases kind) (auto simp: reconciliationReplayReference_def is_identifier_def leading_alnum_def repeats_def)
qed

subsection \<open>A reconciliation that ran\<close>

lemma facts_later:
  "reconcile_facts cfg at c = Inr fa \<Longrightarrow> at \<le> at' \<Longrightarrow> reconcile_facts cfg at' c = Inr fa"
  unfolding reconcile_facts_def Let_def by (auto simp: result_iffs)

text \<open>The result that \<open>replay_reconciliation\<close> finds again after a settled receipt.\<close>

lemma settle_replay:
  assumes "settle_receipt cfg dr at c fa challenge_opt account_opt k db = Inr (db', v)"
    and u: "is_uuid (dr_id dr)" and keep: "pay_constraints db'"
  obtains t kind where
    "completeIdempotentCommand (pf_parse_url (cfg_platform cfg)) k (reconciliationReplayReference kind (dr_id dr)) at (db_idem db) = Inr (t, True)"
    "db_idem db' = t" "replay_reconciliation db' (reconciliationReplayReference kind (dr_id dr)) = Inr v"
proof (cases "unmatchedReason c fa challenge_opt account_opt")
  case (Some reason)
  let ?um = "new_unmatched dr c fa (map_option ch_id challenge_opt) reason at"
  from assms(1) Some obtain db2 x where i: "insertUnmatched cfg dr c fa (map_option ch_id challenge_opt) reason at db = Inr (db2, x)"
    and r: "completeCommand cfg k (reconciliationReplayReference UnmatchedKind x) at db2 = Inr db'" "v = UnmatchedView x reason"
    by (auto simp: settle_receipt_def result_iffs)
  note eff = insertUnmatched_effect [OF i]
  from r(1) obtain t where t: "completeIdempotentCommand (pf_parse_url (cfg_platform cfg)) k
      (reconciliationReplayReference UnmatchedKind x) at (db_idem db2) = Inr (t, True)" "db' = db2\<lparr>db_idem := t\<rparr>"
    by (auto simp: completeCommand_Inr)
  have "distinct (map um_id (db_unmatched db'))" using keep by (simp add: pay_constraints_def unmatched_ok_def)
  moreover have "?um \<in> set (db_unmatched db')" "um_id ?um = dr_id dr" "um_reason ?um = reason"
    using eff t by (simp_all add: new_unmatched_def Let_def)
  ultimately have "List.find (\<lambda>r. um_id r = dr_id dr) (db_unmatched db') = Some ?um" by (simp add: find_key_iff)
  then have "replay_reconciliation db' (reconciliationReplayReference UnmatchedKind (dr_id dr)) = Inr v"
    using parse_reconciliation_reference [OF u] \<open>um_reason ?um = reason\<close> \<open>um_id ?um = dr_id dr\<close> r(2) eff
    by (simp add: replay_reconciliation_def)
  then show thesis using t eff by (intro that [of UnmatchedKind t]) auto
next
  case None
  from unmatchedReason_None [OF None] obtain challenge account where o1: "challenge_opt = Some challenge" "account_opt = Some account" by metis
  with None assms(1) have "matched_write cfg dr c fa challenge account k at db = Inr (db', v)" by (simp add: settle_receipt_def)
  then show thesis
  proof (rule matched_write_effect)
    fix window db4 au ob t
    assume v: "v = MatchedView (dr_id dr) (dr_id2 dr)" and rows: "matched_rows cfg dr c fa challenge account window at db = Inr db4"
      and t: "completeIdempotentCommand (pf_parse_url (cfg_platform cfg)) k (reconciliationReplayReference ReceiptKind (dr_id dr)) at (db_idem db4) = Inr (t, True)"
      and db': "db' = db4\<lparr>db_audit := au, db_outbox := ob, db_idem := t\<rparr>"
    let ?r = "new_receipt dr c fa challenge at"
    from rows obtain e1 e2 where m: "db_receipts db4 = db_receipts db @ [?r]" "db_idem db4 = db_idem db"
      "db_obligations db4 = db_obligations db @ [new_obligation dr challenge account window e1 e2 at]"
      by (rule matched_rows_effect) blast
    let ?o = "new_obligation dr challenge account window e1 e2 at"
    have "List.find (\<lambda>r. rc_id r = dr_id dr) (db_receipts db') = Some ?r"
      "List.find (\<lambda>o1. og_receiptId o1 = dr_id dr) (db_obligations db') = Some ?o"
      using keep m by (auto simp: find_key_iff pay_constraints_def receipts_ok_def obligations_ok_def db' new_receipt_def new_obligation_def)
    then have "replay_reconciliation db' (reconciliationReplayReference ReceiptKind (dr_id dr)) = Inr v"
      using parse_reconciliation_reference [OF u, of ReceiptKind] v
      by (simp add: replay_reconciliation_def new_receipt_def new_obligation_def)
    then show thesis using t m db' by (intro that [of ReceiptKind t]) auto
  qed
qed

text \<open>No record for this key of this owner yet.\<close>

definition fresh_reconcile_key :: "deposit_config \<Rightarrow> reconcile_command \<Rightarrow> pay_db \<Rightarrow> bool" where
  "fresh_reconcile_key cfg c db \<longleftrightarrow>
     (case createLookupHmac (cfg_platform cfg) (rk_idempotencyKey c) ''payments-command-key'' (cfg_lookupHmacKey cfg) of
        Inl _ \<Rightarrow> True
      | Inr h \<Rightarrow> (rk_ownerUserId c, ''payments.verification_deposit.reconcile'', h) \<notin> idem_key ` set (db_idem db))"

lemma begin_payment_fresh:
  assumes "begin_payment cfg dr actor scope hashes at db = Inr (db0, started)" "(actor, scope, fst hashes) \<notin> idem_key ` set (db_idem db)"
  obtains k t where "started = Acquired k" "db0 = db\<lparr>db_idem := t\<rparr>"
    "beginIdempotentCommand (dr_command dr) \<lparr>bi_actorUserId = actor, bi_commandScope = scope, bi_keyHash = fst hashes,
       bi_requestFingerprint = snd hashes, bi_expiresAt = at + idempotency_lifetime_ms, bi_now = at\<rparr> (db_idem db) = Inr (t, Acquired k)"
proof -
  from assms(1) obtain t where t: "beginIdempotentCommand (dr_command dr) \<lparr>bi_actorUserId = actor, bi_commandScope = scope, bi_keyHash = fst hashes,
       bi_requestFingerprint = snd hashes, bi_expiresAt = at + idempotency_lifetime_ms, bi_now = at\<rparr> (db_idem db) = Inr (t, started)" "db0 = db\<lparr>db_idem := t\<rparr>"
    by (auto simp: begin_payment_def begin_command_Inr)
  from begin_cases [OF t(1)] assms(2) obtain k where "started = Acquired k" by (auto simp: input_key_def)
  with t show thesis by (intro that) simp_all
qed

lemma reconcile_again:
  assumes inv: "idem_inv (db_idem db)" "pay_constraints db"
    and run: "reconcile cfg dr at c db = Inr (db', v)" and fresh: "fresh_reconcile_key cfg c db"
    and u: "\<And>n. is_uuid (dr_id (dr n))" and time: "at \<le> at'" "at' < at + idempotency_lifetime_ms"
  shows "reconcile cfg dr' at' c db' = Inr (db', v)"
proof -
  let ?scope = "''payments.verification_deposit.reconcile''"
  let ?c = "\<lambda>hashes at. \<lparr>bi_actorUserId = rk_ownerUserId c, bi_commandScope = ?scope, bi_keyHash = fst hashes,
       bi_requestFingerprint = snd hashes, bi_expiresAt = at + idempotency_lifetime_ms, bi_now = at\<rparr>"
  have ok: "pay_constraints db'" using run inv(2) by (auto elim!: reconcile_effect)
  from run obtain fa hashes n where fa: "reconcile_facts cfg at c = Inr fa"
    and h: "idempotencyValues cfg (rk_idempotencyKey c)
       [JStr ''deposit-reconciliation-v1'', JStr (rk_ownerUserId c), JStr (rk_ownerSessionId c), JStr (fa_bankTransactionFingerprint fa),
        JNum (rk_actualAmountVnd c), JStr (fa_actualReferenceHash fa), JStr (toISOString (rk_receivedAt c)),
        jstr (fa_sourceBankBin fa), jstr (fa_sourceAccountFingerprint fa), JStr (fa_privateNote fa)] = Inr hashes"
    and tr: "reconcile_transaction cfg (dr n) at c fa hashes db = Inr (db', v)"
    unfolding reconcile_def by (auto simp: result_iffs dest!: retry_Inr)
  have key: "(rk_ownerUserId c, ?scope, fst hashes) \<notin> idem_key ` set (db_idem db)"
    using fresh h by (auto simp: fresh_reconcile_key_def idempotencyValues_def result_iffs)
  from tr obtain db0 started where b: "begin_payment cfg (dr n) (rk_ownerUserId c) ?scope hashes at db = Inr (db0, started)"
    and r: "\<And>k. started = Acquired k \<Longrightarrow> \<exists>ps. settle_receipt cfg (dr n) at c fa (candidate_challenge fa db0)
         (challenge_account (candidate_challenge fa db0) (db0\<lparr>db_proofs := ps\<rparr>)) k (db0\<lparr>db_proofs := ps\<rparr>) = Inr (db', v)"
    unfolding reconcile_transaction_def by (auto simp: result_iffs on_started_Inr requireOwnerStepUp_Inr)
  from b key obtain k t where acq: "started = Acquired k" "db0 = db\<lparr>db_idem := t\<rparr>"
    and bt: "beginIdempotentCommand (dr_command (dr n)) (?c hashes at) (db_idem db) = Inr (t, Acquired k)"
    by (rule begin_payment_fresh)
  from r [OF acq(1)] obtain ps where "settle_receipt cfg (dr n) at c fa (candidate_challenge fa db0)
         (challenge_account (candidate_challenge fa db0) (db0\<lparr>db_proofs := ps\<rparr>)) k (db0\<lparr>db_proofs := ps\<rparr>) = Inr (db', v)" ..
  moreover have "db_idem (db0\<lparr>db_proofs := ps\<rparr>) = t" using acq(2) by simp
  ultimately obtain t' kind where
      t': "completeIdempotentCommand (pf_parse_url (cfg_platform cfg)) k (reconciliationReplayReference kind (dr_id (dr n))) at t = Inr (t', True)"
      "db_idem db' = t'" "replay_reconciliation db' (reconciliationReplayReference kind (dr_id (dr n))) = Inr v"
    using settle_replay [OF _ u ok] by metis
  have same: "same_command (?c hashes at) (?c hashes at')" using time by (simp add: same_command_def input_key_def idempotency_lifetime_ms_def)
  have "beginIdempotentCommand (dr_command (dr' 0)) (?c hashes at') t' = Inr (t', Replay k (reconciliationReplayReference kind (dr_id (dr n))))"
    using log.replay_finished [OF inv(1) _ reference_identifier [OF u] _ same, of "dr_command (dr n)" t k "pf_parse_url (cfg_platform cfg)"] bt t'(1)
    by simp
  then have "begin_payment cfg (dr' 0) (rk_ownerUserId c) ?scope hashes at' db' = Inr (db', Replay k (reconciliationReplayReference kind (dr_id (dr n))))"
    using t'(2) by (auto simp: begin_payment_def begin_command_Inr)
  then have "reconcile_transaction cfg (dr' 0) at' c fa hashes db' = Inr (db', v)"
    using t'(3) by (simp add: reconcile_transaction_def on_started_def)
  then show ?thesis
    using facts_later [OF fa time(1)] h
    by (simp add: reconcile_def retryPaymentAccountChange_def retry_from.simps)
qed

subsection \<open>The refund destination\<close>

lemma seal_open:
  assumes "platform_laws (cfg_platform cfg)" "keyring_ok (cfg_keyring cfg)" "length nonce = 12" "seal_value cfg nonce b p = Inr e"
  shows "open_sealed cfg b (Some e) = Inr p"
  using assms open_envelope [of "cfg_platform cfg" nonce "cfg_keyring cfg" b None p e "cfg_keyring cfg"]
  by (simp add: seal_value_def open_sealed_def lift_error_def keyring_ok_def split: sum.splits)

text \<open>What the obligation of a match opens to is what the account opened to.\<close>

lemma destination_of_match:
  assumes rows: "matched_rows cfg dr c fa challenge account window at db = Inr db'"
    and env: "platform_laws (cfg_platform cfg)" "keyring_ok (cfg_keyring cfg)" "length (dr_nonce dr) = 12" "length (dr_nonce2 dr) = 12"
  obtains o1 where "o1 \<in> set (db_obligations db')" "og_id o1 = dr_id2 dr" "og_lockedBankBin o1 = ac_bankBin account"
    "open_sealed cfg (obligation_binding (dr_id2 dr) ''account_number'') (Some (og_lockedAccountNumberEnvelope o1)) =
       open_sealed cfg (account_binding (ac_id account) ''account_number'') (ac_accountNumberEnvelope account)"
    "open_sealed cfg (obligation_binding (dr_id2 dr) ''account_holder_label'') (Some (og_lockedAccountHolderLabelEnvelope o1)) =
       open_sealed cfg (account_binding (ac_id account) ''account_holder_label'') (ac_accountHolderLabelEnvelope account)"
  using rows
proof (rule matched_rows_effect)
  fix number holder e1 e2
  assume a: "open_sealed cfg (account_binding (ac_id account) ''account_number'') (ac_accountNumberEnvelope account) = Inr number"
    "open_sealed cfg (account_binding (ac_id account) ''account_holder_label'') (ac_accountHolderLabelEnvelope account) = Inr holder"
    and e: "seal_value cfg (dr_nonce dr) (obligation_binding (dr_id2 dr) ''account_number'') number = Inr e1"
      "seal_value cfg (dr_nonce2 dr) (obligation_binding (dr_id2 dr) ''account_holder_label'') holder = Inr e2"
    and o1: "db_obligations db' = db_obligations db @ [new_obligation dr challenge account window e1 e2 at]"
  show thesis
    by (rule that [of "new_obligation dr challenge account window e1 e2 at"])
      (use a o1 seal_open [OF env(1,2,3) e(1)] seal_open [OF env(1,2,4) e(2)] in \<open>simp_all add: new_obligation_def\<close>)
qed

subsection \<open>Repeated scans\<close>

text \<open>The rows after a scan of \<open>rs\<close>.\<close>

definition scan_mark :: "instant \<Rightarrow> string \<Rightarrow> string set \<Rightarrow> obligation_row \<Rightarrow> obligation_row" where
  "scan_mark now today ids o1 =
     (if og_id o1 \<in> ids then (case refund_category today o1 of None \<Rightarrow> o1 | Some category \<Rightarrow> mark_obligation now category o1) else o1)"

lemma mark_id [simp]: "og_id (mark_obligation now category r) = og_id r"
  by (simp add: mark_obligation_def Let_def)

lemma scan_mark_id [simp]: "og_id (scan_mark now today ids r) = og_id r"
  by (simp add: scan_mark_def split: option.splits)

lemma scan_one_rows:
  assumes "scan_one cfg ids now today r (db, res) = Inr (db', res')" "distinct (map og_id (db_obligations db))" "r \<in> set (db_obligations db)"
  shows "db_obligations db' = map (scan_mark now today {og_id r}) (db_obligations db)"
  using assms(1)
proof (rule scan_one_Inr)
  have only: "x = r" if "x \<in> set (db_obligations db)" "og_id x = og_id r" for x
    using distinct_key_eq [OF assms(2) that(1) assms(3) that(2)] .
  { assume "refund_category today r = None" "db' = db"
    moreover have "scan_mark now today {og_id r} x = x" if "x \<in> set (db_obligations db)" for x
      using only [OF that] \<open>refund_category today r = None\<close> by (cases "og_id x = og_id r") (simp_all add: scan_mark_def)
    ultimately show ?thesis by (simp add: map_idI) }
  { fix category ob
    assume "refund_category today r = Some category"
      "db' = db\<lparr>db_obligations := rows_update (\<lambda>o1. og_id o1 = og_id r) (\<lambda>_. mark_obligation now category r) (db_obligations db), db_outbox := ob\<rparr>"
    moreover from this have "scan_mark now today {og_id r} x = (if og_id x = og_id r then mark_obligation now category r else x)"
      if "x \<in> set (db_obligations db)" for x
      using only [OF that] by (cases "og_id x = og_id r") (simp_all add: scan_mark_def)
    ultimately show ?thesis by (simp add: rows_update_def) }
qed

lemma scan_all_rows:
  assumes "scan_all cfg ids now today rs (db, res) = Inr (db', res')" "distinct (map og_id (db_obligations db))"
    and "distinct (map og_id rs)" "set rs \<subseteq> set (db_obligations db)"
  shows "db_obligations db' = map (scan_mark now today (og_id ` set rs)) (db_obligations db)"
  using assms
proof (induction rs arbitrary: db res)
  case Nil
  then show ?case by (simp add: scan_mark_def)
next
  case (Cons r rs)
  from Cons.prems(1) obtain db1 res1 where s: "scan_one cfg ids now today r (db, res) = Inr (db1, res1)"
    "scan_all cfg ids now today rs (db1, res1) = Inr (db', res')" by (auto simp: result_iffs)
  have one: "db_obligations db1 = map (scan_mark now today {og_id r}) (db_obligations db)"
    using scan_one_rows [OF s(1) Cons.prems(2)] Cons.prems(4) by simp
  have "map og_id (db_obligations db1) = map og_id (db_obligations db)" by (simp add: one comp_def)
  moreover have "set rs \<subseteq> set (db_obligations db1)"
  proof
    fix x assume x: "x \<in> set rs"
    then have "og_id x \<noteq> og_id r" using Cons.prems(3) by (metis distinct.simps(2) image_eqI list.set_map list.simps(9))
    then have "scan_mark now today {og_id r} x = x" by (simp add: scan_mark_def)
    then show "x \<in> set (db_obligations db1)" using x Cons.prems(4) by (force simp: one)
  qed
  ultimately have "db_obligations db' = map (scan_mark now today (og_id ` set rs)) (db_obligations db1)"
    using Cons.IH [OF s(2)] Cons.prems(2,3) by simp
  moreover have "scan_mark now today (og_id ` set rs) (scan_mark now today {og_id r} x) = scan_mark now today (og_id ` set (r # rs)) x" for x
  proof (cases "og_id x = og_id r")
    case True
    then have "og_id x \<notin> og_id ` set rs" using Cons.prems(3) by simp
    with True show ?thesis by (simp add: scan_mark_def split: option.splits)
  qed (simp add: scan_mark_def)
  ultimately show ?case by (simp add: one comp_def)
qed

lemma scan_all_silent:
  assumes "scan_all cfg ids now today rs (db, res) = Inr (db', res')"
    and "\<And>r category. r \<in> set rs \<Longrightarrow> refund_category today r = Some category \<Longrightarrow> category_marker category r \<noteq> None"
  shows "db_outbox db' = db_outbox db"
  using assms
proof (induction rs arbitrary: db res)
  case (Cons r rs)
  from Cons.prems(1) obtain db1 res1 where s: "scan_one cfg ids now today r (db, res) = Inr (db1, res1)"
    "scan_all cfg ids now today rs (db1, res1) = Inr (db', res')" by (auto simp: result_iffs)
  have "db_outbox db1 = db_outbox db"
    using s(1) by (rule scan_one_Inr) (use Cons.prems(2) [of r] in auto)
  moreover have "db_outbox db' = db_outbox db1" using Cons.IH [OF s(2)] Cons.prems(2) by simp
  ultimately show ?case by simp
qed simp

lemma scan_mark_marked:
  assumes "og_id o1 \<in> ids" "refund_category today (scan_mark now today ids o1) = Some category"
  shows "category_marker category (scan_mark now today ids o1) \<noteq> None"
proof (cases "refund_category today o1")
  case (Some k)
  have "refund_category today (mark_obligation now k o1) = refund_category today o1"
    by (simp add: refund_category_def mark_obligation_def Let_def)
  with assms Some have "category = k" by (simp add: scan_mark_def)
  with assms(1) Some show ?thesis
    by (cases k) (auto simp: scan_mark_def mark_obligation_def category_marker_def Let_def)
qed (use assms in \<open>simp add: scan_mark_def\<close>)

lemma scan_outstanding:
  assumes "scan_all cfg ids now today rs (db, res) = Inr (db', res')"
  shows "sr_outstandingAmountVnd res' = sr_outstandingAmountVnd res + sum_list (map og_amountVnd rs) \<and>
    sr_overdue res' = sr_overdue res + int (length (filter (\<lambda>r. refund_category today r = Some Overdue) rs)) \<and>
    sr_dueToday res' = sr_dueToday res + int (length (filter (\<lambda>r. refund_category today r = Some DueToday) rs)) \<and>
    sr_dueSoon res' = sr_dueSoon res + int (length (filter (\<lambda>r. refund_category today r = Some DueSoon) rs))"
  using assms
proof (induction rs arbitrary: db res)
  case (Cons r rs)
  from Cons.prems(1) obtain db1 res1 where s: "scan_one cfg ids now today r (db, res) = Inr (db1, res1)"
    "scan_all cfg ids now today rs (db1, res1) = Inr (db', res')" by (auto simp: result_iffs)
  have "sr_outstandingAmountVnd res1 = sr_outstandingAmountVnd res + og_amountVnd r"
    "sr_overdue res1 = sr_overdue res + (if refund_category today r = Some Overdue then 1 else 0)"
    "sr_dueToday res1 = sr_dueToday res + (if refund_category today r = Some DueToday then 1 else 0)"
    "sr_dueSoon res1 = sr_dueSoon res + (if refund_category today r = Some DueSoon then 1 else 0)"
    using s(1) by (auto simp: scan_one_def Let_def result_iffs count_category_def split: option.splits window_category.splits)
  then show ?case using Cons.IH [OF s(2)] by auto
qed simp

end
