(* ===== verification/DepositSample.thy ===== *)
theory DepositSample
  imports DepositReplay
begin

text \<open>
  A concrete run of the deposit ledger, used by the witnesses: a challenge is issued for a submitted
  application, the transfer is reconciled as a match, and the refund is recorded as sent. The
  platform is \<open>toy_platform\<close>, under whose keyed hash all texts have the same fingerprint; the run has
  one account and one bank transaction.
\<close>

subsection \<open>The setting\<close>

definition sample_day :: int where
  "sample_day = 20497"

definition sample_time :: instant where
  "sample_time = 1770940800000"

definition sample_mac :: string where
  "sample_mac = ''hmac-sha256:v1:'' @ b64_encode sample_key"

definition sample_reference_hash :: string where
  "sample_reference_hash = ''sha256:v1:'' @ b64_encode (take 32 ''pawket-token:v1:verification_deposit_reference'')"

definition sample_keyring :: keyring where
  "sample_keyring = \<lparr>kr_activeKeyId = ''k1'', kr_keys = [(''k1'', sample_key)]\<rparr>"

definition sample_config :: deposit_config where
  "sample_config = \<lparr>cfg_platform = toy_platform, cfg_keyring = sample_keyring, cfg_lookupHmacKey = sample_key,
     cfg_supportedBanks = [(''970436'', ''VCB'')], cfg_depositAmountVnd = 1000,
     cfg_operatingAccount = \<lparr>oa_bankBin = ''970436'', oa_bankName = ''VCB'', oa_accountNumber = ''1234567'', oa_accountHolderLabel = ''PAWKET''\<rparr>,
     cfg_calendarVersion = ''vn-2026'', cfg_consumeStepUpProof = (\<lambda>su ps. (True, ps))\<rparr>"

definition sample_envelope :: "string \<Rightarrow> envelope" where
  "sample_envelope p = \<lparr>en_version = 1, en_algorithm = ''A256GCM'', en_keyId = ''k1'', en_nonce = b64_encode (replicate 12 (CHR ''n'')),
     en_ciphertext = b64_encode p, en_authenticationTag = b64_encode (replicate 16 (CHR ''t''))\<rparr>"

definition sample_draws :: "string \<Rightarrow> draws" where
  "sample_draws x = \<lparr>dr_command = ''c'' @ x, dr_audit = ''a'' @ x, dr_event = ''e'' @ x, dr_event2 = ''f'' @ x,
     dr_id = ''00000000-0000-4000-8000-00000000000'' @ x, dr_id2 = ''00000000-0000-4000-8000-00000000001'' @ x,
     dr_token = ''PV-ABCDEFGHIJKLMNOPQRSTUVWXYZ'', dr_nonce = replicate 12 (CHR ''n''), dr_nonce2 = replicate 12 (CHR ''n'')\<rparr>"

definition sample_account :: account_row where
  "sample_account = \<lparr>ac_id = ''acc-1'', ac_onboardingId = ''onb-1'', ac_applicantUserId = ''user-1'', ac_version = 1,
     ac_bankBin = ''970436'', ac_bankName = ''VCB'', ac_accountNumberEnvelope = Some (sample_envelope ''0011223344''),
     ac_accountHolderLabelEnvelope = Some (sample_envelope ''NGUYEN AN''), ac_maskedSuffix = mask_prefix @ ''3344'',
     ac_accountFingerprint = sample_mac, ac_proofState = ProofUnverified, ac_proofVerifiedAt = None, ac_retiredAt = None,
     ac_minimizedAt = None, ac_createdAt = 0, ac_updatedAt = 0\<rparr>"

definition sample_application :: application_row where
  "sample_application = \<lparr>ap_id = ''app-1'', ap_userId = ''user-1'', ap_state = Submitted, ap_version = 2,
     ap_currentRevisionId = Some ''rev-1'', ap_rejectedAt = None, ap_cooldownUntil = None, ap_reviewerUserId = None,
     ap_reviewClaimedAt = None, ap_reviewClaimExpiresAt = None, ap_createdAt = 0, ap_updatedAt = 0\<rparr>"

definition sample_revision :: revision_row where
  "sample_revision = \<lparr>rv_id = ''rev-1'', rv_applicationId = ''app-1'', rv_revisionNumber = 1, rv_artistDisplayName = Some ''An'',
     rv_shortIntroduction = None, rv_applicantEmail = None, rv_dobEnvelope = None, rv_portfolioUrls = None,
     rv_primaryArtDiscipline = None, rv_practiceDescription = None, rv_contentIntent = None,
     rv_proposedReceivingAccountId = Some ''acc-1'', rv_ageAtSubmission = Some 20, rv_ageEvaluatedOn = None,
     rv_submittedAt = Some 5, rv_minimizedAt = None, rv_createdAt = 0, rv_updatedAt = 0\<rparr>"

definition sample_db :: pay_db where
  "sample_db = \<lparr>db_idem = [], db_outbox = [], db_audit = [],
     db_calendar = \<lparr>cal_versions = [\<lparr>cv_version = ''vn-2026'', cv_sourceLabel = ''gov:tet'', cv_publishedAt = 5, cv_importedAt = 9\<rparr>], cal_holidays = []\<rparr>,
     db_proofs = [], db_applications = [sample_application], db_revisions = [sample_revision], db_accounts = [sample_account],
     db_challenges = [], db_reports = [], db_receipts = [], db_obligations = [], db_refunds = [], db_unmatched = []\<rparr>"

lemma sample_db_fields [simp]:
  "db_idem sample_db = []" "db_outbox sample_db = []" "db_audit sample_db = []" "db_proofs sample_db = []"
  "db_challenges sample_db = []" "db_receipts sample_db = []" "db_obligations sample_db = []" "db_refunds sample_db = []"
  "db_accounts sample_db = [sample_account]"
  by (simp_all add: sample_db_def)

definition sample_issue :: issue_command where
  "sample_issue = \<lparr>ic_ownerUserId = ''owner-1'', ic_ownerSessionId = ''session-1'', ic_stepUpProofId = ''proof-1'',
     ic_applicationId = ''app-1'', ic_revisionId = ''rev-1'', ic_accountVersionId = ''acc-1'',
     ic_idempotencyKey = ''issue-key-1'', ic_requestId = ''req-1''\<rparr>"

definition sample_reconcile :: reconcile_command where
  "sample_reconcile = \<lparr>rk_ownerUserId = ''owner-1'', rk_ownerSessionId = ''session-1'', rk_stepUpProofId = ''proof-2'',
     rk_idempotencyKey = ''match-key-1'', rk_requestId = ''req-2'', rk_bankTransactionReference = ''FT26044'',
     rk_actualAmountVnd = 1000, rk_actualTransferReference = ''PV-ABCDEFGHIJKLMNOPQRSTUVWXYZ'', rk_receivedAt = sample_time,
     rk_sourceBankBin = Some ''970436'', rk_sourceAccountNumber = Some ''0011223344'', rk_privateNote = ''seen''\<rparr>"

definition sample_refund :: refund_command where
  "sample_refund = \<lparr>rr_ownerUserId = ''owner-1'', rr_ownerSessionId = ''session-1'', rr_stepUpProofId = ''proof-3'',
     rr_obligationId = ''00000000-0000-4000-8000-000000000012'', rr_idempotencyKey = ''refund-key-1'', rr_requestId = ''req-3'',
     rr_outcome = OutcomeSent, rr_actualAmountVnd = Some 1000, rr_outboundBankReference = Some ''OUT26050'',
     rr_sentAt = Some (sample_time + 8 * 86400000), rr_attentionReason = None\<rparr>"

subsection \<open>Hashes and texts\<close>

lemma sample_hmac:
  assumes "hash_domain d" "v \<noteq> []" "length v \<le> 8192"
  shows "createLookupHmac toy_platform v d sample_key = Inr sample_mac"
  using assms by (simp add: createLookupHmac_def assertDomain_def assertBoundedInput_def sample_mac_def toy_platform_def sample_key_def)

lemma sample_domains: "hash_domain ''payments-command-key''" "hash_domain ''payments-command''" "hash_domain ''receiving-account''"
  "hash_domain ''deposit-bank-transaction''" "hash_domain ''verification_deposit_reference''" "hash_domain ''refund-bank-reference''"
  by code_simp+

lemma sample_mac_digest: "digest_with ''hmac-sha256:v1:'' sample_mac" "is_digest sample_mac"
proof -
  show "digest_with ''hmac-sha256:v1:'' sample_mac"
    by (simp add: digest_with_def sample_mac_def starts_with_def b64_digest sample_key_def)
  then show "is_digest sample_mac" by (simp add: is_digest_def)
qed

lemma sample_reference:
  "hashOpaqueToken toy_platform ''PV-ABCDEFGHIJKLMNOPQRSTUVWXYZ'' ''verification_deposit_reference'' = Inr sample_reference_hash"
  using sample_domains(5)
  by (simp add: hashOpaqueToken_def digestValue_def assertDomain_def assertBoundedInput_def sample_reference_hash_def toy_platform_def)

lemma sample_reference_digest: "digest_with ''sha256:v1:'' sample_reference_hash"
  using hash_shape [OF toy_platform_laws sample_reference] .

text \<open>Escaping makes a text at most six times as long.\<close>

lemma json_string_length: "length (json_string s) \<le> 6 * length s + 2"
proof -
  have "length (json_escape c) \<le> 6" for c by (simp add: json_escape_def)
  then have "length (concat (map json_escape s)) \<le> 6 * length s"
    by (induction s) (auto intro: add_mono)
  then show ?thesis by (simp add: json_string_def)
qed

lemma comma_join_length: "length (comma_join ss) \<le> sum_list (map (\<lambda>s. length s + 1) ss)"
  by (induction ss rule: comma_join.induct) simp_all


lemmas text_lengths = json_string_length [THEN order.trans] comma_join_length [THEN order.trans]

lemma stringify_array_length:
  "sum_list (map (\<lambda>j. length (stringify j) + 1) js) \<le> n \<Longrightarrow> length (stringify (JArr js)) \<le> n + 2"
  using comma_join_length [of "map stringify js"] by (simp add: comp_def)

lemma padded_no_slash [simp]: "CHR ''/'' \<notin> set (padded k n)"
proof -
  have "\<not> is_digit (CHR ''/'')" by code_simp
  then show ?thesis using padded_digits [of k n] by (auto simp: list_all_iff)
qed

lemma toISOString_no_slash [simp]: "CHR ''/'' \<notin> set (toISOString t)"
  by (simp add: toISOString_def iso_date_def iso_year_def Let_def split: prod.splits)

lemma toISOString_length: "length (toISOString t) \<le> 27"
  by (simp add: toISOString_def iso_date_def iso_year_def Let_def split: prod.splits)

lemma sample_no_step_up: "requireOwnerStepUp sample_config su db = Inr db"
  by (simp add: requireOwnerStepUp_def sample_config_def)

lemma sample_values:
  assumes "commandKey_ok key" "key \<noteq> []" "length key \<le> 8192" "sum_list (map (\<lambda>j. length (stringify j) + 1) js) \<le> 8190"
  shows "idempotencyValues sample_config key js = Inr (sample_mac, sample_mac)"
proof -
  have "stringify (JArr js) \<noteq> []" "length (stringify (JArr js)) \<le> 8192"
    using stringify_array_length [OF assms(4)] by simp_all
  then show ?thesis using assms sample_domains
    by (simp add: idempotencyValues_def sample_config_def sample_hmac lift_error_def del: stringify.simps)
qed

lemma sample_issue_values:
  "idempotencyValues sample_config (ic_idempotencyKey sample_issue)
       [JStr ''challenge-issue-v1'', JStr (ic_ownerUserId sample_issue), JStr (ic_ownerSessionId sample_issue), JStr (ic_applicationId sample_issue),
        JStr (ic_revisionId sample_issue), JStr (ic_accountVersionId sample_issue)] = Inr (sample_mac, sample_mac)"
proof (rule sample_values)
  show "commandKey_ok (ic_idempotencyKey sample_issue)" by code_simp
qed (simp_all add: sample_issue_def json_string_def json_escape_def)


lemma sample_reconcile_values:
  assumes "fa_bankTransactionFingerprint fa = sample_mac" "fa_actualReferenceHash fa = sample_reference_hash" "fa_sourceBankBin fa = Some ''970436''"
    "fa_sourceAccountFingerprint fa = Some sample_mac" "fa_privateNote fa = ''seen''"
  shows "idempotencyValues sample_config (rk_idempotencyKey sample_reconcile)
       [JStr ''deposit-reconciliation-v1'', JStr (rk_ownerUserId sample_reconcile), JStr (rk_ownerSessionId sample_reconcile), JStr (fa_bankTransactionFingerprint fa),
        JNum (rk_actualAmountVnd sample_reconcile), JStr (fa_actualReferenceHash fa), JStr (toISOString (rk_receivedAt sample_reconcile)),
        jstr (fa_sourceBankBin fa), jstr (fa_sourceAccountFingerprint fa), JStr (fa_privateNote fa)] = Inr (sample_mac, sample_mac)"
proof (rule sample_values)
  show "commandKey_ok (rk_idempotencyKey sample_reconcile)" by code_simp
  have m: "length (json_string sample_mac) \<le> 350" "length (json_string sample_reference_hash) \<le> 350" "length (json_string (toISOString t)) \<le> 170" for t
    using json_string_length [of sample_mac] json_string_length [of sample_reference_hash] json_string_length [of "toISOString t"] toISOString_length [of t]
      sample_mac_digest(1) [THEN digest_with_length] sample_reference_digest [THEN digest_with_length] by simp_all
  show "(\<Sum>j\<leftarrow>[JStr ''deposit-reconciliation-v1'', JStr (rk_ownerUserId sample_reconcile), JStr (rk_ownerSessionId sample_reconcile), JStr (fa_bankTransactionFingerprint fa),
        JNum (rk_actualAmountVnd sample_reconcile), JStr (fa_actualReferenceHash fa), JStr (toISOString (rk_receivedAt sample_reconcile)),
        jstr (fa_sourceBankBin fa), jstr (fa_sourceAccountFingerprint fa), JStr (fa_privateNote fa)]. length (stringify j) + 1) \<le> 8190"
    using m(1) m(2) m(3) [of sample_time] m(3) [of "rk_receivedAt sample_reconcile"] assms
      json_string_length [of "''deposit-reconciliation-v1''"]
      json_string_length [of "rk_ownerUserId sample_reconcile"] json_string_length [of "rk_ownerSessionId sample_reconcile"]
      json_string_length [of "''970436''"] json_string_length [of "''seen''"]
    by (simp add: jstr_def sample_reconcile_def json_int_def decimal.simps)
qed (simp_all add: sample_reconcile_def)


subsection \<open>Shared statements\<close>

lemma audit_appends:
  assumes "list_all auditIdentifier [ne_actorUserId e, ne_subjectType e, ne_subjectId e, ne_action e, ne_applicationRevision e, ne_requestId e]"
    and "pred_option auditIdentifier (ne_actorSessionId e)" "pred_option auditIdentifier (ne_reasonCode e)" "ne_occurredAt e = Some (Some at)"
    and "pred_option (assertSafeValue u) (ne_beforeState e)" "pred_option (assertSafeValue u) (ne_afterState e)"
    and "assertSafeValue u (ne_assurance e)" "k \<notin> au_id ` set (db_audit db)"
  shows "\<exists>a. append_audit u k at e db = Inr (db\<lparr>db_audit := db_audit db @ [a]\<rparr>) \<and> au_id a = k"
proof -
  have i: "assertAuditIdentifiers [Some (ne_actorUserId e), ne_actorSessionId e, Some (ne_subjectType e), Some (ne_subjectId e),
      Some (ne_action e), ne_reasonCode e, Some (ne_applicationRevision e), Some (ne_requestId e)] = Inr ()"
    using assms(1-3) by (simp del: assertAuditIdentifiers.simps)
  have s: "safeOptionalState u (ne_beforeState e) = Inr (ne_beforeState e)" "safeOptionalState u (ne_afterState e) = Inr (ne_afterState e)"
    "safeOptionalState u (Some (ne_assurance e)) = Inr (Some (ne_assurance e))"
    using assms(5-7) by simp_all
  show ?thesis
    using assms(8)
    by (simp add: append_audit_def appendAdminAuditEvent_def lift_error_def i s assms(4) del: assertAuditIdentifiers.simps)
      (intro exI conjI, rule refl, simp)
qed

lemma event_appends:
  assumes "assertSafeValue u (ev_payload e)" "k \<notin> ob_id ` set (db_outbox db)"
  shows "\<exists>r. append_event u k at e db = Inr (db\<lparr>db_outbox := db_outbox db @ [r]\<rparr>) \<and> ob_id r = k"
  using assms by (auto simp: append_event_def insertOutboxEvent_def canonicalize_plain lift_error_def Let_def)

lemma command_begins:
  assumes "is_identifier actor" "is_identifier scope" "(actor, scope, sample_mac) \<notin> idem_key ` set (db_idem db)" "dr_command dr \<notin> ir_id ` set (db_idem db)"
  shows "\<exists>r. begin_payment cfg dr actor scope (sample_mac, sample_mac) at db = Inr (db\<lparr>db_idem := db_idem db @ [r]\<rparr>, Acquired (dr_command dr)) \<and>
    ir_id r = dr_command dr \<and> ir_status r = InProgress \<and> ir_expiresAt r = at + idempotency_lifetime_ms \<and> idem_key r = (actor, scope, sample_mac)"
  using assms sample_mac_digest(2)
  by (auto simp: begin_payment_def begin_command_def beginIdempotentCommand_def lift_error_def idempotency_lifetime_ms_def input_key_def idem_key_def)

lemma command_completes:
  assumes "db_idem db = t @ [r]" "k \<notin> ir_id ` set t" "ir_id r = k" "ir_status r = InProgress" "is_identifier ref" "at < ir_expiresAt r"
  shows "completeCommand cfg k ref at db =
    Inr (db\<lparr>db_idem := t @ [r\<lparr>ir_status := Completed, ir_resultReference := Some ref, ir_completedAt := Some at\<rparr>]\<rparr>)"
  using assms by (simp add: completeCommand_def complete_last lift_error_def)

text \<open>The keys of the audit and event records of the run.\<close>

lemma sample_keys_safe:
  "list_all (\<lambda>k. \<not> structuredKeyIsSensitive k) [''method'', ''proofId'', ''state'', ''amountVnd'', ''expiresAt'', ''accountVersionId'',
     ''challengeId'', ''applicationId'', ''correlationId'', ''obligationId'', ''receiptId'', ''refundNotBefore'', ''refundDue'', ''applicantUserId'']"
  by code_simp

lemmas sample_safe = sample_keys_safe [simplified]

subsection \<open>The run\<close>

lemma sample_constraints: "pay_constraints sample_db" "empty_ledger sample_db"
proof -
  have "masked_ok (mask_prefix @ ''3344'')" "bank_bin_ok ''970436''" by code_simp+
  then show "pay_constraints sample_db"
    using sample_mac_digest
    by (simp add: pay_constraints_def sample_db_def accounts_ok_def challenges_ok_def reports_ok_def receipts_ok_def obligations_ok_def
        refunds_ok_def unmatched_ok_def references_ok_def sample_account_def account_check_def)
  then show "empty_ledger sample_db" by (simp add: empty_ledger_def sample_db_def)
qed

definition sample_challenge :: challenge_row where
  "sample_challenge = new_challenge sample_config (sample_draws ''1'') sample_issue sample_time sample_reference_hash"

definition sample_issued :: "idem_row \<Rightarrow> audit_row \<Rightarrow> outbox_row \<Rightarrow> pay_db" where
  "sample_issued r a e = sample_db\<lparr>db_idem := [r], db_challenges := [sample_challenge],
     db_accounts := [sample_account\<lparr>ac_proofState := ProofChallengeIssued, ac_updatedAt := sample_time\<rparr>], db_audit := [a], db_outbox := [e]\<rparr>"

lemma sample_challenge_constraints:
  "pay_constraints (sample_db\<lparr>db_challenges := [sample_challenge]\<rparr>)"
  "pay_constraints (sample_db\<lparr>db_challenges := [sample_challenge], db_accounts := [sample_account\<lparr>ac_proofState := ProofChallengeIssued, ac_updatedAt := t\<rparr>]\<rparr>)"
  using sample_constraints(1) sample_reference_digest
  by (simp_all add: pay_constraints_def sample_db_def sample_challenge_def new_challenge_def sample_config_def sample_issue_def
      challenges_ok_def challenge_check_def references_ok_def accounts_ok_def account_check_def sample_account_def
      sample_application_def sample_revision_def)


lemma sample_frame:
  "pay_constraints (db\<lparr>db_idem := t, db_challenges := cs\<rparr>) = pay_constraints (db\<lparr>db_challenges := cs\<rparr>)"
  "pay_constraints (db\<lparr>db_idem := t, db_challenges := cs, db_accounts := as\<rparr>) = pay_constraints (db\<lparr>db_challenges := cs, db_accounts := as\<rparr>)"
  by (simp_all add: pay_constraints_def references_ok_def)

lemma sample_identifiers:
  "is_identifier ''owner-1''" "is_identifier ''payments.verification_deposit.challenge.issue''"
  "is_identifier ''payments.verification_deposit.reconcile''" "is_identifier ''payments.verification_deposit.refund.record''"
  by code_simp+

lemma sample_issue_guards: "issue_guards sample_issue sample_time (sample_db\<lparr>db_idem := t\<rparr>) = Inr ()"
  using sample_mac_digest
  by (simp add: issue_guards_def sample_issue_def sample_db_def sample_account_def sample_application_def sample_revision_def
      lockPaymentAccountFingerprints_def)

lemma sample_audit_texts:
  "list_all auditIdentifier [''owner-1'', ''session-1'', ''verification_deposit_challenge'', ''verification_deposit'',
     ''verification_deposit_refund_obligation'', ''payments.challenge.issue'', ''payments.deposit.reconcile'', ''payments.refund.record'',
     ''rev-1'', ''req-1'', ''req-2'', ''req-3'', ''00000000-0000-4000-8000-000000000001'', ''00000000-0000-4000-8000-000000000002'',
     ''00000000-0000-4000-8000-000000000012'']"
  by code_simp

lemmas sample_audit_ids = sample_audit_texts [simplified]

lemma sample_issue_audit:
  assumes "db_audit db = []"
  shows "\<exists>a. append_audit (pf_parse_url (cfg_platform sample_config)) (dr_audit (sample_draws ''1'')) sample_time
     \<lparr>ne_actorUserId = ic_ownerUserId sample_issue, ne_actorSessionId = Some (ic_ownerSessionId sample_issue),
         ne_subjectType = ''verification_deposit_challenge'', ne_subjectId = dr_id (sample_draws ''1''),
         ne_action = ''payments.challenge.issue'', ne_outcome = Succeeded, ne_reasonCode = None, ne_beforeState = None,
         ne_afterState = Some (JObj [(''state'', JStr ''issued''), (''amountVnd'', JNum (cfg_depositAmountVnd sample_config)),
           (''expiresAt'', JStr (toISOString (sample_time + challenge_lifetime_ms))), (''accountVersionId'', JStr (ic_accountVersionId sample_issue))]),
         ne_assurance = mfa_assurance (ic_stepUpProofId sample_issue), ne_applicationRevision = ic_revisionId sample_issue,
         ne_requestId = ic_requestId sample_issue, ne_occurredAt = Some (Some sample_time)\<rparr> db = Inr (db\<lparr>db_audit := db_audit db @ [a]\<rparr>) \<and>
     au_id a = dr_audit (sample_draws ''1'')"
proof (rule audit_appends, goal_cases)
  case 1
  show ?case using sample_audit_ids by (simp add: sample_issue_def sample_draws_def)
next
  case 2
  show ?case using sample_audit_ids by (simp add: sample_issue_def)
next
  case 6
  then show ?case using sample_safe by (simp add: sample_issue_def no_slash_safe)
next
  case 7
  then show ?case using sample_safe by (simp add: sample_issue_def mfa_assurance_def no_slash_safe)
qed (simp_all add: assms)

lemma sample_issue_run:
  "\<exists>r a e v. issueChallenge sample_config (sample_draws ''1'') sample_time sample_issue sample_db = Inr (sample_issued r a e, v) \<and>
     ir_id r = ''c1'' \<and> idem_key r = (''owner-1'', ''payments.verification_deposit.challenge.issue'', sample_mac) \<and> au_id a = ''a1'' \<and> ob_id e = ''e1''"
proof -
  let ?dr = "sample_draws ''1''" and ?u = "pf_parse_url (cfg_platform sample_config)"
  obtain r where r: "begin_payment sample_config ?dr (ic_ownerUserId sample_issue) ''payments.verification_deposit.challenge.issue'' (sample_mac, sample_mac) sample_time sample_db =
      Inr (sample_db\<lparr>db_idem := [r]\<rparr>, Acquired (dr_command ?dr))" "ir_id r = dr_command ?dr" "ir_status r = InProgress"
      "ir_expiresAt r = sample_time + idempotency_lifetime_ms" "idem_key r = (ic_ownerUserId sample_issue, ''payments.verification_deposit.challenge.issue'', sample_mac)"
    using command_begins [of "ic_ownerUserId sample_issue" "''payments.verification_deposit.challenge.issue''" sample_db ?dr sample_config sample_time] sample_identifiers
    by (auto simp: sample_issue_def sample_db_def)
  let ?r' = "r\<lparr>ir_status := Completed, ir_resultReference := Some (challengeReplayReference (dr_id ?dr)), ir_completedAt := Some sample_time\<rparr>"
  let ?db2 = "sample_db\<lparr>db_idem := [r], db_challenges := [sample_challenge],
     db_accounts := [sample_account\<lparr>ac_proofState := ProofChallengeIssued, ac_updatedAt := sample_time\<rparr>]\<rparr>"
  have "db_audit ?db2 = []" by (simp add: sample_db_def)
  from sample_issue_audit [OF this] obtain a where a: "append_audit ?u (dr_audit ?dr) sample_time
     \<lparr>ne_actorUserId = ic_ownerUserId sample_issue, ne_actorSessionId = Some (ic_ownerSessionId sample_issue),
         ne_subjectType = ''verification_deposit_challenge'', ne_subjectId = dr_id (sample_draws ''1''),
         ne_action = ''payments.challenge.issue'', ne_outcome = Succeeded, ne_reasonCode = None, ne_beforeState = None,
         ne_afterState = Some (JObj [(''state'', JStr ''issued''), (''amountVnd'', JNum (cfg_depositAmountVnd sample_config)),
           (''expiresAt'', JStr (toISOString (sample_time + challenge_lifetime_ms))), (''accountVersionId'', JStr (ic_accountVersionId sample_issue))]),
         ne_assurance = mfa_assurance (ic_stepUpProofId sample_issue), ne_applicationRevision = ic_revisionId sample_issue,
         ne_requestId = ic_requestId sample_issue, ne_occurredAt = Some (Some sample_time)\<rparr> ?db2 = Inr (?db2\<lparr>db_audit := [a]\<rparr>)" "au_id a = dr_audit ?dr"
    by (auto simp: sample_db_def)
  let ?ev = "\<lparr>ev_eventType = ''payments.verification_deposit_challenge_issued.v1'',
         ev_eventVersion = 1, ev_aggregateType = ''verification_deposit_challenge'', ev_aggregateId = dr_id ?dr,
         ev_payload = JObj [(''challengeId'', JStr (dr_id ?dr)), (''applicationId'', JStr (ic_applicationId sample_issue)),
           (''state'', JStr ''issued''), (''expiresAt'', JStr (toISOString (sample_time + challenge_lifetime_ms))),
           (''correlationId'', JStr (ic_applicationId sample_issue))],
         ev_occurredAt = Some sample_time, ev_availableAt = None\<rparr>"
  have "assertSafeValue ?u (ev_payload ?ev)" using sample_safe by (simp add: sample_draws_def sample_issue_def no_slash_safe)
  from event_appends [OF this, of "dr_event ?dr" "?db2\<lparr>db_audit := [a]\<rparr>" sample_time] obtain e where
    e: "append_event ?u (dr_event ?dr) sample_time ?ev (?db2\<lparr>db_audit := [a]\<rparr>) = Inr (?db2\<lparr>db_audit := [a], db_outbox := [e]\<rparr>)" "ob_id e = dr_event ?dr"
    by (auto simp: sample_db_def)
  have g: "is_uuid (dr_id ?dr)" "challenge_reference_ok (dr_token ?dr)" "is_identifier (challengeReplayReference (dr_id ?dr))" by code_simp+
  have c: "completeCommand sample_config (dr_command ?dr) (challengeReplayReference (dr_id ?dr)) sample_time (?db2\<lparr>db_audit := [a], db_outbox := [e]\<rparr>) =
     Inr (sample_issued ?r' a e)"
    using command_completes [of "?db2\<lparr>db_audit := [a], db_outbox := [e]\<rparr>" "[]" r "dr_command ?dr" "challengeReplayReference (dr_id ?dr)" sample_time sample_config] r g(3)
    by (simp add: idempotency_lifetime_ms_def sample_issued_def)
  have t: "hashOpaqueToken (cfg_platform sample_config) (dr_token ?dr) ''verification_deposit_reference'' = Inr sample_reference_hash"
    using sample_reference by (simp add: sample_config_def sample_draws_def)
  have s1: "store (sample_db\<lparr>db_idem := [r], db_challenges := [sample_challenge]\<rparr>) = Inr (sample_db\<lparr>db_idem := [r], db_challenges := [sample_challenge]\<rparr>)"
    "store ?db2 = Inr ?db2" using sample_challenge_constraints by (simp_all add: store_def sample_frame)
  have upd: "rows_update (\<lambda>a. ac_id a = ic_accountVersionId sample_issue) (\<lambda>a. a\<lparr>ac_proofState := ProofChallengeIssued, ac_updatedAt := sample_time\<rparr>) (db_accounts sample_db) =
      [sample_account\<lparr>ac_proofState := ProofChallengeIssued, ac_updatedAt := sample_time\<rparr>]"
    by (simp add: rows_update_def sample_db_def sample_account_def sample_issue_def)
  have w: "\<exists>v. issue_write sample_config ?dr sample_issue sample_time (dr_command ?dr) (sample_db\<lparr>db_idem := [r]\<rparr>) =
     Inr (sample_issued ?r' a e, v)"
    using g(1,2) unfolding issue_write_def Let_def t
    by (simp add: s1 upd [simplified] a e c lift_error_def sample_challenge_def [symmetric])
  then obtain v where "issue_write sample_config ?dr sample_issue sample_time (dr_command ?dr) (sample_db\<lparr>db_idem := [r]\<rparr>) =
     Inr (sample_issued ?r' a e, v)" by blast
  then have "issueChallenge sample_config ?dr sample_time sample_issue sample_db = Inr (sample_issued ?r' a e, v)"
    by (simp add: issueChallenge_def on_started_def sample_no_step_up r(1) sample_issue_values sample_issue_guards)
  moreover have "ir_id ?r' = ''c1''" "au_id a = ''a1''" "ob_id e = ''e1''"
    using r(2) a(2) e(2) by (simp_all add: sample_draws_def)
  moreover have "idem_key ?r' = (''owner-1'', ''payments.verification_deposit.challenge.issue'', sample_mac)"
    using r(5) by (simp add: idem_key_def sample_issue_def)
  ultimately show ?thesis by blast
qed


definition sample_facts :: receipt_facts where
  "sample_facts = \<lparr>fa_bankTransactionFingerprint = sample_mac, fa_actualReferenceHash = sample_reference_hash, fa_privateNote = ''seen'',
     fa_sourceBankBin = Some ''970436'', fa_sourceValid = True, fa_sourceAccountFingerprint = Some sample_mac,
     fa_sourceMaskedSuffix = Some (mask_prefix @ ''3344'')\<rparr>"

lemma sample_reconcile_facts: "reconcile_facts sample_config sample_time sample_reconcile = Inr sample_facts"
proof -
  have t: "trim ''FT26044'' = ''FT26044''" "trim ''PV-ABCDEFGHIJKLMNOPQRSTUVWXYZ'' = ''PV-ABCDEFGHIJKLMNOPQRSTUVWXYZ''" "trim ''seen'' = ''seen''"
    "trim ''970436'' = ''970436''" "trim ''0011223344'' = ''0011223344''" "suffix_of 4 ''0011223344'' = ''3344''"
    "bank_bin_ok ''970436''" "account_number_ok ''0011223344''" by code_simp+
  have j: "length (stringify (JArr [JStr ''receiving-account-v1'', JStr ''970436'', JStr ''0011223344''])) \<le> 8192"
    "stringify (JArr [JStr ''receiving-account-v1'', JStr ''970436'', JStr ''0011223344'']) \<noteq> []" by code_simp+
  have f: "fingerprintReceivingAccount sample_config ''970436'' ''0011223344'' = Inr sample_mac"
    unfolding fingerprintReceivingAccount_def t
    using sample_hmac [OF sample_domains(3) j(2,1)] t by (simp add: sample_config_def lift_error_def del: stringify.simps)
  have h: "createLookupHmac (cfg_platform sample_config) ''FT26044'' ''deposit-bank-transaction'' (cfg_lookupHmacKey sample_config) = Inr sample_mac"
    "hashOpaqueToken (cfg_platform sample_config) ''PV-ABCDEFGHIJKLMNOPQRSTUVWXYZ'' ''verification_deposit_reference'' = Inr sample_reference_hash"
    using sample_hmac [OF sample_domains(4), of "''FT26044''"] sample_reference by (simp_all add: sample_config_def)
  have v: "source_valid sample_config (Some ''970436'') (Some ''0011223344'')" using t by (simp add: source_valid_def sample_config_def)
  show ?thesis
    by (simp add: reconcile_facts_def sample_reconcile_def requireBoundedText_def t Let_def v f h lift_error_def sample_facts_def
        isSafeInteger_def max_safe_integer_def)
qed

lemma sample_window:
  "calculateStoredReceiptBusinessDayWindow (db_calendar sample_db) (vietnam_date sample_time) ''vn-2026'' =
     Inr \<lparr>bw_calendarVersion = ''vn-2026'', bw_receiptDate = ''2026-02-13'', bw_refundNotBefore = ''2026-02-20'', bw_refundDue = ''2026-02-24''\<rparr>"
proof -
  have "vietnam_day sample_time = 20497" by (simp add: vietnam_day_def utc_day_def ms_per_day_def sample_time_def)
  moreover have c: "civil 20497 = (2026, 2, 13)" "civil 20504 = (2026, 2, 20)" "civil 20508 = (2026, 2, 24)"
    by (simp_all add: civil_def year_of_day_def day_from_year_def month_lengths_def leap_year_def Let_def)
  ultimately have d: "vietnam_date sample_time = ''2026-02-13''"
    by (simp add: vietnam_date_def decimal.simps padded_two)
  have f: "formatDateOnly 20504 = ''2026-02-20''" "formatDateOnly 20508 = ''2026-02-24''"
    using c by (simp_all add: formatDateOnly_def iso_date_def iso_year_def padded_two padded_four)
  have v: "calendar_version_ok ''vn-2026''" by code_simp
  have "window_loop [] 0 20497 [] [] = Inr (''2026-02-20'', ''2026-02-24'')"
    by (simp add: window_loop.simps business_day_def day_of_week_def max_day_def f)
  then show ?thesis using v sample_dates(1)
    by (simp add: calculateStoredReceiptBusinessDayWindow_def d find_version_def sample_db_def calculateBusinessDayWindow_def holiday_dates_def)
qed

lemma sample_sealing:
  assumes "p \<noteq> []" "length p \<le> 100" "fieldAad b = Inr aad"
  shows "seal_value sample_config (replicate 12 (CHR ''n'')) b p = Inr (sample_envelope p)"
    "open_sealed sample_config b (Some (sample_envelope p)) = Inr p"
proof -
  have "key_id_ok ''k1''" by code_simp
  then show s: "seal_value sample_config (replicate 12 (CHR ''n'')) b p = Inr (sample_envelope p)"
    using assms
    by (simp add: seal_value_def encryptSensitiveField_def sample_config_def sample_keyring_def keyFor_def plaintextLimit_def
        toy_platform_def sample_envelope_def lift_error_def sample_key_def isSafeInteger_def max_safe_integer_def)
  show "open_sealed sample_config b (Some (sample_envelope p)) = Inr p"
    using seal_open [OF _ _ _ s] toy_platform_laws createEncryptionKeyring_ok [OF sample_keyrings(1)]
    by (simp add: sample_config_def sample_keyring_def)
qed


definition sample_issued_account :: account_row where
  "sample_issued_account = sample_account\<lparr>ac_proofState := ProofChallengeIssued, ac_updatedAt := sample_time\<rparr>"

definition sample_receipt :: receipt_row where
  "sample_receipt = new_receipt (sample_draws ''2'') sample_reconcile sample_facts sample_challenge sample_time"

definition sample_obligation :: obligation_row where
  "sample_obligation = new_obligation (sample_draws ''2'') sample_challenge sample_issued_account
     \<lparr>bw_calendarVersion = ''vn-2026'', bw_receiptDate = ''2026-02-13'', bw_refundNotBefore = ''2026-02-20'', bw_refundDue = ''2026-02-24''\<rparr>
     (sample_envelope ''0011223344'') (sample_envelope ''NGUYEN AN'') sample_time"

definition sample_verified_challenge :: challenge_row where
  "sample_verified_challenge = sample_challenge\<lparr>ch_state := ChVerified, ch_verifiedAt := Some sample_time\<rparr>"

definition sample_verified_account :: account_row where
  "sample_verified_account = sample_issued_account\<lparr>ac_proofState := ProofVerified, ac_proofVerifiedAt := Some sample_time\<rparr>"

definition sample_matched :: "pay_db \<Rightarrow> pay_db" where
  "sample_matched db = db\<lparr>db_receipts := [sample_receipt], db_obligations := [sample_obligation],
     db_challenges := [sample_verified_challenge], db_accounts := [sample_verified_account]\<rparr>"

text \<open>The tables after the challenge was issued, whatever the log, the trail and the outbox hold.\<close>

definition sample_stage :: "pay_db \<Rightarrow> bool" where
  "sample_stage db \<longleftrightarrow>
     db_calendar db = db_calendar sample_db \<and> db_proofs db = [] \<and> db_applications db = [sample_application] \<and>
     db_revisions db = [sample_revision] \<and> db_accounts db = [sample_issued_account] \<and> db_challenges db = [sample_challenge] \<and>
     db_reports db = [] \<and> db_receipts db = [] \<and> db_obligations db = [] \<and> db_refunds db = [] \<and> db_unmatched db = []"

lemma sample_issued_stage: "sample_stage (sample_issued r a e)"
  by (simp add: sample_stage_def sample_issued_def sample_issued_account_def) (simp add: sample_db_def)

lemma sample_candidate:
  assumes "sample_stage db"
  shows "findCandidate sample_facts db = Some (sample_challenge, sample_issued_account)"
    "candidate_challenge sample_facts db = Some sample_challenge" "challenge_account (Some sample_challenge) db = Some sample_issued_account"
proof -
  have acc: "ac_id sample_issued_account = ''acc-1''" "ch_accountVersionId sample_challenge = ''acc-1''" "ch_referenceHash sample_challenge = sample_reference_hash"
    by (simp_all add: sample_issued_account_def sample_account_def sample_challenge_def new_challenge_def sample_issue_def)
  then show f: "findCandidate sample_facts db = Some (sample_challenge, sample_issued_account)"
    using assms by (simp add: findCandidate_def Let_def challenge_accounts_def sample_stage_def sample_facts_def latest_by_def)
  show "candidate_challenge sample_facts db = Some sample_challenge"
    using assms by (simp add: candidate_challenge_def f sample_stage_def)
  show "challenge_account (Some sample_challenge) db = Some sample_issued_account"
    using assms acc by (simp add: challenge_account_def sample_stage_def)
qed

lemma sample_match: "unmatchedReason sample_reconcile sample_facts (Some sample_challenge) (Some sample_issued_account) = None"
  by (simp add: unmatchedReason_def sample_challenge_def new_challenge_def sample_reconcile_def sample_facts_def sample_issued_account_def
      sample_account_def sample_config_def challenge_lifetime_ms_def)

lemma sample_rows_constraints:
  assumes "sample_stage db"
  shows "pay_constraints (db\<lparr>db_receipts := [sample_receipt]\<rparr>)"
    "pay_constraints (db\<lparr>db_receipts := [sample_receipt], db_obligations := [sample_obligation]\<rparr>)"
    "pay_constraints (db\<lparr>db_receipts := [sample_receipt], db_obligations := [sample_obligation], db_challenges := [sample_verified_challenge]\<rparr>)"
    "pay_constraints (sample_matched db)"
proof -
  have c: "challenge_check sample_challenge" "challenge_check sample_verified_challenge"
    using sample_challenge_constraints(1)
    by (simp_all add: pay_constraints_def challenges_ok_def sample_verified_challenge_def challenge_check_def)
  have "account_check sample_account" using sample_constraints(1) by (simp add: pay_constraints_def accounts_ok_def)
  then have a: "account_check sample_issued_account" "account_check sample_verified_account"
    by (simp_all add: sample_issued_account_def sample_verified_account_def account_check_def sample_account_def)
  have o: "obligation_check sample_obligation" "0 < rc_actualAmountVnd sample_receipt" "int4 (rc_actualAmountVnd sample_receipt)"
    by (simp_all add: obligation_check_def sample_obligation_def new_obligation_def sample_challenge_def new_challenge_def sample_config_def
        int4_def sample_receipt_def new_receipt_def sample_reconcile_def)
  note ids = sample_challenge_def new_challenge_def sample_issue_def sample_verified_challenge_def sample_issued_account_def sample_verified_account_def
    sample_account_def sample_receipt_def new_receipt_def sample_obligation_def new_obligation_def sample_application_def sample_revision_def sample_db_def
  show "pay_constraints (db\<lparr>db_receipts := [sample_receipt]\<rparr>)"
    using assms c a o
    by (simp add: pay_constraints_def sample_stage_def accounts_ok_def challenges_ok_def reports_ok_def receipts_ok_def obligations_ok_def
        refunds_ok_def unmatched_ok_def references_ok_def) (simp add: ids)
  show "pay_constraints (db\<lparr>db_receipts := [sample_receipt], db_obligations := [sample_obligation]\<rparr>)"
    using assms c a o
    by (simp add: pay_constraints_def sample_stage_def accounts_ok_def challenges_ok_def reports_ok_def receipts_ok_def obligations_ok_def
        refunds_ok_def unmatched_ok_def references_ok_def) (simp add: ids)
  show "pay_constraints (db\<lparr>db_receipts := [sample_receipt], db_obligations := [sample_obligation], db_challenges := [sample_verified_challenge]\<rparr>)"
    using assms c a o
    by (simp add: pay_constraints_def sample_stage_def accounts_ok_def challenges_ok_def reports_ok_def receipts_ok_def obligations_ok_def
        refunds_ok_def unmatched_ok_def references_ok_def) (simp add: ids)
  show "pay_constraints (sample_matched db)"
    using assms c a o
    by (simp add: pay_constraints_def sample_stage_def sample_matched_def accounts_ok_def challenges_ok_def reports_ok_def receipts_ok_def obligations_ok_def
        refunds_ok_def unmatched_ok_def references_ok_def) (simp add: ids)
qed


lemma sample_aads:
  "\<exists>d. fieldAad (account_binding ''acc-1'' ''account_number'') = Inr d" "\<exists>d. fieldAad (account_binding ''acc-1'' ''account_holder_label'') = Inr d"
  "\<exists>d. fieldAad (obligation_binding ''00000000-0000-4000-8000-000000000012'' ''account_number'') = Inr d"
  "\<exists>d. fieldAad (obligation_binding ''00000000-0000-4000-8000-000000000012'' ''account_holder_label'') = Inr d"
proof -
  have "binding_name_ok ''payments_receiving_account''" "binding_name_ok ''payments_refund_obligation''" "binding_name_ok ''account_number''"
    "binding_name_ok ''account_holder_label''" "leading_alnum is_ident 199 ''acc-1''" "leading_alnum is_ident 199 ''00000000-0000-4000-8000-000000000012''"
    by code_simp+
  then show "\<exists>d. fieldAad (account_binding ''acc-1'' ''account_number'') = Inr d" "\<exists>d. fieldAad (account_binding ''acc-1'' ''account_holder_label'') = Inr d"
    "\<exists>d. fieldAad (obligation_binding ''00000000-0000-4000-8000-000000000012'' ''account_number'') = Inr d"
    "\<exists>d. fieldAad (obligation_binding ''00000000-0000-4000-8000-000000000012'' ''account_holder_label'') = Inr d"
    by (simp_all add: fieldAad_def validateBinding_def account_binding_def obligation_binding_def)
qed

lemma sample_seals:
  "open_sealed sample_config (account_binding (ac_id sample_issued_account) ''account_number'') (ac_accountNumberEnvelope sample_issued_account) = Inr ''0011223344''"
  "open_sealed sample_config (account_binding (ac_id sample_issued_account) ''account_holder_label'') (ac_accountHolderLabelEnvelope sample_issued_account) = Inr ''NGUYEN AN''"
  "seal_value sample_config (dr_nonce (sample_draws ''2'')) (obligation_binding (dr_id2 (sample_draws ''2'')) ''account_number'') ''0011223344'' = Inr (sample_envelope ''0011223344'')"
  "seal_value sample_config (dr_nonce2 (sample_draws ''2'')) (obligation_binding (dr_id2 (sample_draws ''2'')) ''account_holder_label'') ''NGUYEN AN'' = Inr (sample_envelope ''NGUYEN AN'')"
proof -
  have a: "ac_id sample_issued_account = ''acc-1''" "ac_accountNumberEnvelope sample_issued_account = Some (sample_envelope ''0011223344'')"
    "ac_accountHolderLabelEnvelope sample_issued_account = Some (sample_envelope ''NGUYEN AN'')"
    "dr_nonce (sample_draws ''2'') = replicate 12 (CHR ''n'')" "dr_nonce2 (sample_draws ''2'') = replicate 12 (CHR ''n'')"
    "dr_id2 (sample_draws ''2'') = ''00000000-0000-4000-8000-000000000012''"
    by (simp_all add: sample_issued_account_def sample_account_def sample_draws_def)
  note s = sample_sealing [of "''0011223344''"] sample_sealing [of "''NGUYEN AN''"]
  show "open_sealed sample_config (account_binding (ac_id sample_issued_account) ''account_number'') (ac_accountNumberEnvelope sample_issued_account) = Inr ''0011223344''"
    unfolding a using sample_aads(1) s(2) by auto
  show "open_sealed sample_config (account_binding (ac_id sample_issued_account) ''account_holder_label'') (ac_accountHolderLabelEnvelope sample_issued_account) = Inr ''NGUYEN AN''"
    unfolding a using sample_aads(2) s(4) by auto
  show "seal_value sample_config (dr_nonce (sample_draws ''2'')) (obligation_binding (dr_id2 (sample_draws ''2'')) ''account_number'') ''0011223344'' = Inr (sample_envelope ''0011223344'')"
    unfolding a using sample_aads(3) s(1) by auto
  show "seal_value sample_config (dr_nonce2 (sample_draws ''2'')) (obligation_binding (dr_id2 (sample_draws ''2'')) ''account_holder_label'') ''NGUYEN AN'' = Inr (sample_envelope ''NGUYEN AN'')"
    unfolding a using sample_aads(4) s(3) by auto
qed

definition sample_days :: business_day_window where
  "sample_days = \<lparr>bw_calendarVersion = ''vn-2026'', bw_receiptDate = ''2026-02-13'', bw_refundNotBefore = ''2026-02-20'', bw_refundDue = ''2026-02-24''\<rparr>"

lemma sample_matched_rows:
  assumes "sample_stage db"
  shows "matched_rows sample_config (sample_draws ''2'') sample_reconcile sample_facts sample_challenge sample_issued_account sample_days sample_time db =
    Inr (sample_matched db)"
proof -
  have t: "db_receipts db = []" "db_obligations db = []" "db_challenges db = [sample_challenge]" "db_accounts db = [sample_issued_account]"
    using assms by (simp_all add: sample_stage_def)
  have r: "new_receipt (sample_draws ''2'') sample_reconcile sample_facts sample_challenge sample_time = sample_receipt"
    "new_obligation (sample_draws ''2'') sample_challenge sample_issued_account sample_days (sample_envelope ''0011223344'') (sample_envelope ''NGUYEN AN'') sample_time = sample_obligation"
    "sample_challenge\<lparr>ch_state := ChVerified, ch_verifiedAt := Some (rk_receivedAt sample_reconcile), ch_updatedAt := sample_time\<rparr> = sample_verified_challenge"
    "sample_issued_account\<lparr>ac_proofState := ProofVerified, ac_proofVerifiedAt := Some (rk_receivedAt sample_reconcile), ac_updatedAt := sample_time\<rparr> = sample_verified_account"
    by (simp_all add: sample_receipt_def sample_obligation_def sample_verified_challenge_def sample_verified_account_def sample_reconcile_def
        sample_challenge_def new_challenge_def sample_issued_account_def sample_days_def)
  show ?thesis
    using sample_rows_constraints [OF assms]
    by (simp add: matched_rows_def sample_seals t r store_def rows_update_def sample_matched_def)
qed


lemma sample_reconcile_audit:
  assumes "dr_audit (sample_draws ''2'') \<notin> au_id ` set (db_audit db)"
  shows "\<exists>a. append_audit (pf_parse_url (cfg_platform sample_config)) (dr_audit (sample_draws ''2'')) sample_time
     \<lparr>ne_actorUserId = rk_ownerUserId sample_reconcile, ne_actorSessionId = Some (rk_ownerSessionId sample_reconcile),
         ne_subjectType = ''verification_deposit'', ne_subjectId = dr_id (sample_draws ''2''), ne_action = ''payments.deposit.reconcile'',
         ne_outcome = Succeeded, ne_reasonCode = None,
         ne_beforeState = Some (JObj [(''state'', JStr (challenge_state_text (ch_state sample_challenge)))]),
         ne_afterState = Some (JObj [(''state'', JStr ''verified''), (''obligationId'', JStr (dr_id2 (sample_draws ''2''))),
           (''amountVnd'', JNum (ch_amountVnd sample_challenge)), (''accountVersionId'', JStr (ac_id sample_issued_account)),
           (''refundNotBefore'', JStr (bw_refundNotBefore sample_days)), (''refundDue'', JStr (bw_refundDue sample_days))]),
         ne_assurance = mfa_assurance (rk_stepUpProofId sample_reconcile), ne_applicationRevision = ch_revisionId sample_challenge,
         ne_requestId = rk_requestId sample_reconcile, ne_occurredAt = Some (Some sample_time)\<rparr> db = Inr (db\<lparr>db_audit := db_audit db @ [a]\<rparr>) \<and>
     au_id a = dr_audit (sample_draws ''2'')"
proof -
  have c: "ch_state sample_challenge = ChIssued" "ch_revisionId sample_challenge = ''rev-1''" "ac_id sample_issued_account = ''acc-1''"
    by (simp_all add: sample_challenge_def new_challenge_def sample_issue_def sample_issued_account_def sample_account_def)
  show ?thesis
  proof (rule audit_appends, goal_cases)
    case 1
    show ?case using sample_audit_ids by (simp add: sample_reconcile_def sample_draws_def c)
  next
    case 2
    show ?case using sample_audit_ids by (simp add: sample_reconcile_def)
  next
    case 5
    show ?case using sample_safe by (simp add: c challenge_state_text_def no_slash_safe)
  next
    case 6
    show ?case using sample_safe by (simp add: c sample_draws_def sample_days_def no_slash_safe)
  next
    case 7
    show ?case using sample_safe by (simp add: sample_reconcile_def mfa_assurance_def no_slash_safe)
  qed (use assms in simp_all)
qed

lemma sample_received_safe:
  "assertSafeValue u (ev_payload (received_event k (sample_draws ''2'') sample_challenge sample_issued_account sample_days t))"
  using sample_safe
  by (simp add: received_event_def received_payload_def sample_draws_def sample_challenge_def new_challenge_def sample_issue_def
      sample_issued_account_def sample_account_def sample_days_def no_slash_safe)

lemma sample_matched_fields [simp]:
  "db_idem (sample_matched db) = db_idem db" "db_audit (sample_matched db) = db_audit db" "db_outbox (sample_matched db) = db_outbox db"
  by (simp_all add: sample_matched_def)

lemma sample_matched_write:
  assumes "sample_stage db" "db_idem db = t @ [r]" "ir_id r = dr_command (sample_draws ''2'')" "dr_command (sample_draws ''2'') \<notin> ir_id ` set t"
    "ir_status r = InProgress" "sample_time < ir_expiresAt r" "au_id ` set (db_audit db) = {''a1''}" "ob_id ` set (db_outbox db) = {''e1''}"
  shows "\<exists>a e f. matched_write sample_config (sample_draws ''2'') sample_reconcile sample_facts sample_challenge sample_issued_account
      (dr_command (sample_draws ''2'')) sample_time db =
    Inr ((sample_matched db)\<lparr>db_audit := db_audit db @ [a], db_outbox := db_outbox db @ [e, f], db_idem := t @ [r\<lparr>ir_status := Completed,
        ir_resultReference := Some (reconciliationReplayReference ReceiptKind (dr_id (sample_draws ''2''))), ir_completedAt := Some sample_time\<rparr>]\<rparr>,
      MatchedView (dr_id (sample_draws ''2'')) (dr_id2 (sample_draws ''2''))) \<and> au_id a = ''a2'' \<and> ob_id e = ''e2'' \<and> ob_id f = ''f2''"
proof -
  let ?dr = "sample_draws ''2''" and ?u = "pf_parse_url (cfg_platform sample_config)"
  have d: "dr_audit ?dr = ''a2''" "dr_event ?dr = ''e2''" "dr_event2 ?dr = ''f2''" by (simp_all add: sample_draws_def)
  have "dr_audit ?dr \<notin> au_id ` set (db_audit (sample_matched db))" using assms(7) d by simp
  from sample_reconcile_audit [OF this] obtain a where a: "append_audit ?u (dr_audit ?dr) sample_time
     \<lparr>ne_actorUserId = rk_ownerUserId sample_reconcile, ne_actorSessionId = Some (rk_ownerSessionId sample_reconcile),
         ne_subjectType = ''verification_deposit'', ne_subjectId = dr_id (sample_draws ''2''), ne_action = ''payments.deposit.reconcile'',
         ne_outcome = Succeeded, ne_reasonCode = None,
         ne_beforeState = Some (JObj [(''state'', JStr (challenge_state_text (ch_state sample_challenge)))]),
         ne_afterState = Some (JObj [(''state'', JStr ''verified''), (''obligationId'', JStr (dr_id2 (sample_draws ''2''))),
           (''amountVnd'', JNum (ch_amountVnd sample_challenge)), (''accountVersionId'', JStr (ac_id sample_issued_account)),
           (''refundNotBefore'', JStr (bw_refundNotBefore sample_days)), (''refundDue'', JStr (bw_refundDue sample_days))]),
         ne_assurance = mfa_assurance (rk_stepUpProofId sample_reconcile), ne_applicationRevision = ch_revisionId sample_challenge,
         ne_requestId = rk_requestId sample_reconcile, ne_occurredAt = Some (Some sample_time)\<rparr> (sample_matched db) =
       Inr ((sample_matched db)\<lparr>db_audit := db_audit (sample_matched db) @ [a]\<rparr>)" "au_id a = dr_audit ?dr" by blast
  let ?db5 = "(sample_matched db)\<lparr>db_audit := db_audit (sample_matched db) @ [a]\<rparr>"
  have "dr_event ?dr \<notin> ob_id ` set (db_outbox ?db5)" using assms(8) d by simp
  from event_appends [OF sample_received_safe this] obtain e where
    e: "append_event ?u (dr_event ?dr) sample_time (received_event ''payments.verification_deposit_received.v1'' ?dr sample_challenge sample_issued_account sample_days sample_time) ?db5 =
      Inr (?db5\<lparr>db_outbox := db_outbox ?db5 @ [e]\<rparr>)" "ob_id e = dr_event ?dr" by blast
  let ?db6 = "?db5\<lparr>db_outbox := db_outbox ?db5 @ [e]\<rparr>"
  have "ob_id ` set (db_outbox ?db6) = {''e1'', ''e2''}" using assms(8) d e(2) by auto
  then have "dr_event2 ?dr \<notin> ob_id ` set (db_outbox ?db6)" using d by simp
  from event_appends [OF sample_received_safe this] obtain f where
    f: "append_event ?u (dr_event2 ?dr) sample_time (received_event ''payments.receiving_account_control_verified.v1'' ?dr sample_challenge sample_issued_account sample_days sample_time) ?db6 =
      Inr (?db6\<lparr>db_outbox := db_outbox ?db6 @ [f]\<rparr>)" "ob_id f = dr_event2 ?dr" by blast
  let ?db7 = "?db6\<lparr>db_outbox := db_outbox ?db6 @ [f]\<rparr>" and ?ref = "reconciliationReplayReference ReceiptKind (dr_id ?dr)"
  have "is_uuid (dr_id ?dr)" by code_simp
  then have c: "completeCommand sample_config (dr_command ?dr) ?ref sample_time ?db7 =
      Inr (?db7\<lparr>db_idem := t @ [r\<lparr>ir_status := Completed, ir_resultReference := Some ?ref, ir_completedAt := Some sample_time\<rparr>]\<rparr>)"
    by (intro command_completes) (use assms reference_identifier in auto)
  have w: "calculateStoredReceiptBusinessDayWindow (db_calendar db) (vietnam_date (rk_receivedAt sample_reconcile)) (cfg_calendarVersion sample_config) = Inr sample_days"
    using sample_window assms(1) by (simp add: sample_stage_def sample_days_def sample_reconcile_def sample_config_def)
  have "matched_write sample_config ?dr sample_reconcile sample_facts sample_challenge sample_issued_account (dr_command ?dr) sample_time db =
    Inr (?db7\<lparr>db_idem := t @ [r\<lparr>ir_status := Completed, ir_resultReference := Some ?ref, ir_completedAt := Some sample_time\<rparr>]\<rparr>,
      MatchedView (dr_id ?dr) (dr_id2 ?dr))"
    unfolding matched_write_def Let_def vietnamDateFromInstant_def option.case lift_error_def sum.case await_simps w
      sample_matched_rows [OF assms(1)] a(1) e(1) f(1) c ..
  then show ?thesis using a(2) e(2) f(2) d by (intro exI [of _ a] exI [of _ e] exI [of _ f]) simp
qed


lemma sample_stage_frame [simp]: "sample_stage (db\<lparr>db_idem := t\<rparr>) = sample_stage db"
  by (simp add: sample_stage_def)

lemma sample_reconcile_run:
  assumes db: "db = sample_issued r0 a0 e0" and r0: "ir_id r0 = ''c1''"
    "idem_key r0 = (''owner-1'', ''payments.verification_deposit.challenge.issue'', sample_mac)" "au_id a0 = ''a1''" "ob_id e0 = ''e1''"
  shows "\<exists>r a e f. reconcile sample_config (\<lambda>_. sample_draws ''2'') sample_time sample_reconcile db =
      Inr ((sample_matched db)\<lparr>db_audit := [a0, a], db_outbox := [e0, e, f], db_idem := [r0, r]\<rparr>,
        MatchedView (dr_id (sample_draws ''2'')) (dr_id2 (sample_draws ''2''))) \<and>
    au_id a = ''a2'' \<and> ob_id e = ''e2'' \<and> ob_id f = ''f2'' \<and> ir_id r = ''c2'' \<and>
    idem_key r = (''owner-1'', ''payments.verification_deposit.reconcile'', sample_mac)"
proof -
  let ?dr = "sample_draws ''2''" and ?scope = "''payments.verification_deposit.reconcile''"
  have t: "db_idem db = [r0]" "db_audit db = [a0]" "db_outbox db = [e0]" "sample_stage db"
    using sample_issued_stage by (simp_all add: db sample_issued_def)
  have cmd: "dr_command ?dr = ''c2''" by (simp add: sample_draws_def)
  obtain r where r: "begin_payment sample_config ?dr ''owner-1'' ?scope (sample_mac, sample_mac) sample_time db =
      Inr (db\<lparr>db_idem := [r0] @ [r]\<rparr>, Acquired (dr_command ?dr))" "ir_id r = dr_command ?dr" "ir_status r = InProgress"
      "ir_expiresAt r = sample_time + idempotency_lifetime_ms" "idem_key r = (''owner-1'', ?scope, sample_mac)"
    using command_begins [of "''owner-1''" ?scope db ?dr sample_config sample_time] sample_identifiers t r0 cmd by auto
  let ?db0 = "db\<lparr>db_idem := [r0] @ [r]\<rparr>"
  obtain a e f where w: "matched_write sample_config ?dr sample_reconcile sample_facts sample_challenge sample_issued_account (dr_command ?dr) sample_time ?db0 =
    Inr ((sample_matched ?db0)\<lparr>db_audit := db_audit ?db0 @ [a], db_outbox := db_outbox ?db0 @ [e, f], db_idem := [r0] @ [r\<lparr>ir_status := Completed,
        ir_resultReference := Some (reconciliationReplayReference ReceiptKind (dr_id ?dr)), ir_completedAt := Some sample_time\<rparr>]\<rparr>,
      MatchedView (dr_id ?dr) (dr_id2 ?dr))" "au_id a = ''a2''" "ob_id e = ''e2''" "ob_id f = ''f2''"
    using sample_matched_write [of ?db0 "[r0]" r] t r r0 cmd by (auto simp: idempotency_lifetime_ms_def)
  let ?r = "r\<lparr>ir_status := Completed, ir_resultReference := Some (reconciliationReplayReference ReceiptKind (dr_id ?dr)), ir_completedAt := Some sample_time\<rparr>"
  have st: "sample_stage ?db0" using t by simp
  have fp: "ac_accountFingerprint sample_issued_account = sample_mac" "fa_sourceAccountFingerprint sample_facts = Some sample_mac"
    "rk_ownerUserId sample_reconcile = ''owner-1''"
    by (simp_all add: sample_issued_account_def sample_account_def sample_facts_def sample_reconcile_def)
  have "reconcile_transaction sample_config ?dr sample_time sample_reconcile sample_facts (sample_mac, sample_mac) db =
      Inr ((sample_matched ?db0)\<lparr>db_audit := db_audit ?db0 @ [a], db_outbox := db_outbox ?db0 @ [e, f], db_idem := [r0] @ [?r]\<rparr>, MatchedView (dr_id ?dr) (dr_id2 ?dr))"
    using w(1)
    by (simp add: reconcile_transaction_def fp r(1) [simplified] on_started_def sample_candidate [OF st, simplified] lockPaymentAccountFingerprints_def sample_mac_digest
        sample_no_step_up settle_receipt_def sample_match)
  then have "reconcile sample_config (\<lambda>_. ?dr) sample_time sample_reconcile db =
      Inr ((sample_matched db)\<lparr>db_audit := [a0, a], db_outbox := [e0, e, f], db_idem := [r0, ?r]\<rparr>, MatchedView (dr_id ?dr) (dr_id2 ?dr))"
    using sample_reconcile_values [of sample_facts]
    by (simp add: reconcile_def sample_reconcile_facts retryPaymentAccountChange_def retry_from.simps t sample_matched_def sample_facts_def)
  moreover have "idem_key ?r = (''owner-1'', ?scope, sample_mac)" "ir_id ?r = ''c2''" using r(2,5) cmd by (simp_all add: idem_key_def)
  ultimately show ?thesis using w(2-4) by blast
qed


definition sample_later :: instant where
  "sample_later = sample_time + 9 * 86400000"

lemma sample_refund_facts:
  "refund_evidence sample_later sample_refund = Inr ()" "outbound_fingerprint sample_config sample_refund = Inr (Some sample_mac)"
proof -
  have t: "trim ''OUT26050'' = ''OUT26050''" by code_simp
  show "refund_evidence sample_later sample_refund = Inr ()"
    by (simp add: refund_evidence_def sample_refund_def sample_later_def t Let_def isSafeInteger_def max_safe_integer_def)
  have "createLookupHmac (cfg_platform sample_config) ''OUT26050'' ''refund-bank-reference'' (cfg_lookupHmacKey sample_config) = Inr sample_mac"
    using sample_hmac [OF sample_domains(6), of "''OUT26050''"] by (simp add: sample_config_def)
  then show "outbound_fingerprint sample_config sample_refund = Inr (Some sample_mac)"
    by (simp add: outbound_fingerprint_def sample_refund_def t lift_error_def)
qed

lemma sample_refund_values:
  "idempotencyValues sample_config (rr_idempotencyKey sample_refund)
       [JStr ''deposit-refund-v1'', JStr (rr_ownerUserId sample_refund), JStr (rr_ownerSessionId sample_refund), JStr (rr_obligationId sample_refund),
        JStr (outcome_text (rr_outcome sample_refund)), jint (rr_actualAmountVnd sample_refund), jstr (Some sample_mac),
        jstr (map_option toISOString (rr_sentAt sample_refund)), jstr (map_option trim (rr_attentionReason sample_refund))] = Inr (sample_mac, sample_mac)"
proof (rule sample_values)
  show "commandKey_ok (rr_idempotencyKey sample_refund)" by code_simp
  have "length (json_string sample_mac) \<le> 350" "length (json_string (toISOString t)) \<le> 170" for t
    using json_string_length [of sample_mac] json_string_length [of "toISOString t"] toISOString_length [of t] sample_mac_digest(1) [THEN digest_with_length] by simp_all
  from this(1) this(2) [of "sample_time + 691200000"]
  show "(\<Sum>j\<leftarrow>[JStr ''deposit-refund-v1'', JStr (rr_ownerUserId sample_refund), JStr (rr_ownerSessionId sample_refund), JStr (rr_obligationId sample_refund),
        JStr (outcome_text (rr_outcome sample_refund)), jint (rr_actualAmountVnd sample_refund), jstr (Some sample_mac),
        jstr (map_option toISOString (rr_sentAt sample_refund)), jstr (map_option trim (rr_attentionReason sample_refund))]. length (stringify j) + 1) \<le> 8190"
    using json_string_length [of "''deposit-refund-v1''"] json_string_length [of "''owner-1''"] json_string_length [of "''session-1''"]
      json_string_length [of "''00000000-0000-4000-8000-000000000012''"] json_string_length [of "''sent''"]
    by (simp add: jstr_def jint_def sample_refund_def json_int_def decimal.simps outcome_text_def)
qed (simp_all add: sample_refund_def)

lemma sample_sent_date: "\<not> vietnam_date (sample_time + 691200000) < ''2026-02-20''"
proof -
  have "vietnam_day (sample_time + 691200000) = 20505" by (simp add: vietnam_day_def utc_day_def ms_per_day_def sample_time_def)
  moreover have "civil 20505 = (2026, 2, 21)"
    by (simp add: civil_def year_of_day_def day_from_year_def month_lengths_def leap_year_def Let_def)
  ultimately have "vietnam_date (sample_time + 691200000) = ''2026-02-21''"
    by (simp add: vietnam_date_def decimal.simps padded_two)
  then show ?thesis by (simp add: less_list_code less_char_def)
qed

definition sample_refund_row :: refund_row where
  "sample_refund_row = new_refund (sample_draws ''3'') sample_refund (og_id sample_obligation) (Some sample_mac) sample_later"

definition sample_refunded :: "pay_db \<Rightarrow> pay_db" where
  "sample_refunded db = db\<lparr>db_refunds := [sample_refund_row], db_obligations := [settled_obligation sample_refund sample_later sample_obligation]\<rparr>"

lemma sample_refund_constraints:
  assumes "pay_constraints db" "db_obligations db = [sample_obligation]" "db_refunds db = []"
  shows "pay_constraints (db\<lparr>db_refunds := [sample_refund_row]\<rparr>)" "pay_constraints (sample_refunded db)"
proof -
  have "trim ''OUT26050'' = ''OUT26050''" by code_simp
  then have f: "refund_check sample_refund_row" "rf_obligationId sample_refund_row = og_id sample_obligation"
    by (simp_all add: refund_check_def sample_refund_row_def new_refund_def sample_refund_def Let_def int4_def)
  have o: "obligation_check (settled_obligation sample_refund sample_later sample_obligation)" if "obligation_check sample_obligation"
    using that by (simp add: obligation_check_def settled_obligation_def sample_refund_def outcome_state_def)
  show "pay_constraints (db\<lparr>db_refunds := [sample_refund_row]\<rparr>)"
    using assms f by (simp add: pay_constraints_def references_ok_def refunds_ok_def)
  show "pay_constraints (sample_refunded db)"
    using assms f o by (simp add: sample_refunded_def pay_constraints_def references_ok_def refunds_ok_def obligations_ok_def) (simp add: settled_obligation_def)
qed

lemma sample_refund_audit:
  assumes "dr_audit (sample_draws ''3'') \<notin> au_id ` set (db_audit db)"
  shows "\<exists>a. append_audit (pf_parse_url (cfg_platform sample_config)) (dr_audit (sample_draws ''3'')) sample_later
     \<lparr>ne_actorUserId = rr_ownerUserId sample_refund, ne_actorSessionId = Some (rr_ownerSessionId sample_refund),
         ne_subjectType = ''verification_deposit_refund_obligation'', ne_subjectId = og_id sample_obligation,
         ne_action = ''payments.refund.record'', ne_outcome = Succeeded, ne_reasonCode = None,
         ne_beforeState = Some (JObj [(''state'', JStr (obligation_state_text (og_state sample_obligation)))]),
         ne_afterState = Some (JObj [(''state'', JStr (outcome_text (rr_outcome sample_refund))), (''amountVnd'', JNum (og_amountVnd sample_obligation))]),
         ne_assurance = mfa_assurance (rr_stepUpProofId sample_refund), ne_applicationRevision = og_challengeId sample_obligation,
         ne_requestId = rr_requestId sample_refund, ne_occurredAt = Some (Some sample_later)\<rparr> db = Inr (db\<lparr>db_audit := db_audit db @ [a]\<rparr>) \<and>
     au_id a = dr_audit (sample_draws ''3'')"
proof -
  have c: "og_state sample_obligation = PendingWindow" "og_id sample_obligation = ''00000000-0000-4000-8000-000000000012''"
    "og_challengeId sample_obligation = ''00000000-0000-4000-8000-000000000001''"
    by (simp_all add: sample_obligation_def new_obligation_def sample_draws_def sample_challenge_def new_challenge_def)
  show ?thesis
  proof (rule audit_appends, goal_cases)
    case 1
    show ?case using sample_audit_ids by (simp add: sample_refund_def c)
  next
    case 2
    show ?case using sample_audit_ids by (simp add: sample_refund_def)
  next
    case 5
    show ?case using sample_safe by (simp add: c obligation_state_text_def no_slash_safe)
  next
    case 6
    show ?case using sample_safe by (simp add: sample_refund_def outcome_text_def no_slash_safe)
  next
    case 7
    show ?case using sample_safe by (simp add: sample_refund_def mfa_assurance_def no_slash_safe)
  qed (use assms in simp_all)
qed


lemma sample_refund_write:
  assumes ok: "pay_constraints db" and rows: "db_obligations db = [sample_obligation]" "db_refunds db = []"
    and r: "db_idem db = t @ [r]" "ir_id r = dr_command (sample_draws ''3'')" "dr_command (sample_draws ''3'') \<notin> ir_id ` set t"
      "ir_status r = InProgress" "sample_later < ir_expiresAt r"
    and ids: "''a3'' \<notin> au_id ` set (db_audit db)" "''e3'' \<notin> ob_id ` set (db_outbox db)"
  shows "\<exists>au ob t'. refund_write sample_config (sample_draws ''3'') sample_refund sample_obligation (Some sample_mac)
      (dr_command (sample_draws ''3'')) sample_later db = Inr ((sample_refunded db)\<lparr>db_audit := au, db_outbox := ob, db_idem := t'\<rparr>, ''sent'')"
proof -
  let ?dr = "sample_draws ''3''" and ?u = "pf_parse_url (cfg_platform sample_config)" and ?db2 = "sample_refunded db"
  have d: "dr_audit ?dr = ''a3''" "dr_event ?dr = ''e3''" by (simp_all add: sample_draws_def)
  have k: "db_audit ?db2 = db_audit db" "db_outbox ?db2 = db_outbox db" "db_idem ?db2 = db_idem db" by (simp_all add: sample_refunded_def)
  from sample_refund_audit [of ?db2] obtain a where a: "append_audit ?u (dr_audit ?dr) sample_later
     \<lparr>ne_actorUserId = rr_ownerUserId sample_refund, ne_actorSessionId = Some (rr_ownerSessionId sample_refund),
         ne_subjectType = ''verification_deposit_refund_obligation'', ne_subjectId = og_id sample_obligation,
         ne_action = ''payments.refund.record'', ne_outcome = Succeeded, ne_reasonCode = None,
         ne_beforeState = Some (JObj [(''state'', JStr (obligation_state_text (og_state sample_obligation)))]),
         ne_afterState = Some (JObj [(''state'', JStr (outcome_text (rr_outcome sample_refund))), (''amountVnd'', JNum (og_amountVnd sample_obligation))]),
         ne_assurance = mfa_assurance (rr_stepUpProofId sample_refund), ne_applicationRevision = og_challengeId sample_obligation,
         ne_requestId = rr_requestId sample_refund, ne_occurredAt = Some (Some sample_later)\<rparr> ?db2 = Inr (?db2\<lparr>db_audit := db_audit ?db2 @ [a]\<rparr>)"
    using ids(1) d k by auto
  let ?db3 = "?db2\<lparr>db_audit := db_audit ?db2 @ [a]\<rparr>"
  let ?ev = "\<lparr>ev_eventType = ''payments.verification_deposit_refund_sent.v1'',
        ev_eventVersion = 1, ev_aggregateType = ''verification_deposit_refund_obligation'', ev_aggregateId = og_id sample_obligation,
        ev_payload = JObj [(''obligationId'', JStr (og_id sample_obligation)), (''applicantUserId'', JStr (og_applicantUserId sample_obligation)),
          (''state'', JStr (outcome_text (rr_outcome sample_refund))), (''amountVnd'', JNum (og_amountVnd sample_obligation)), (''correlationId'', JStr (og_challengeId sample_obligation))],
        ev_occurredAt = Some sample_later, ev_availableAt = None\<rparr>"
  have o: "og_id sample_obligation = ''00000000-0000-4000-8000-000000000012''" "og_challengeId sample_obligation = ''00000000-0000-4000-8000-000000000001''"
    "og_applicantUserId sample_obligation = ''user-1''"
    by (simp_all add: sample_obligation_def new_obligation_def sample_draws_def sample_challenge_def new_challenge_def sample_issued_account_def sample_account_def)
  have "assertSafeValue ?u (ev_payload ?ev)" using sample_safe by (simp add: o sample_refund_def outcome_text_def no_slash_safe)
  from event_appends [OF this, of "dr_event ?dr" ?db3] obtain e where
    e: "append_event ?u (dr_event ?dr) sample_later ?ev ?db3 = Inr (?db3\<lparr>db_outbox := db_outbox ?db3 @ [e]\<rparr>)"
    using ids(2) d k by auto
  let ?db4 = "?db3\<lparr>db_outbox := db_outbox ?db3 @ [e]\<rparr>" and ?ref = "refundReplayReference (dr_id ?dr)"
  have "is_identifier ?ref" by code_simp
  then have c: "completeCommand sample_config (dr_command ?dr) ?ref sample_later ?db4 =
      Inr (?db4\<lparr>db_idem := t @ [r\<lparr>ir_status := Completed, ir_resultReference := Some ?ref, ir_completedAt := Some sample_later\<rparr>]\<rparr>)"
    by (intro command_completes) (use r k in auto)
  have u: "rows_update (\<lambda>o1. og_id o1 = og_id sample_obligation)
         (\<lambda>o1. o1\<lparr>og_state := outcome_state (rr_outcome sample_refund),
            og_attentionReason := (if rr_outcome sample_refund = OutcomeAttention then map_option trim (rr_attentionReason sample_refund) else None),
            og_updatedAt := sample_later\<rparr>) [sample_obligation] = [settled_obligation sample_refund sample_later sample_obligation]"
    by (simp add: rows_update_def settled_obligation_def)
  have s: "store (db\<lparr>db_refunds := db_refunds db @ [new_refund ?dr sample_refund (og_id sample_obligation) (Some sample_mac) sample_later]\<rparr>) = Inr (db\<lparr>db_refunds := [sample_refund_row]\<rparr>)"
    "store (db\<lparr>db_refunds := [sample_refund_row], db_obligations := [settled_obligation sample_refund sample_later sample_obligation]\<rparr>) = Inr ?db2"
    using sample_refund_constraints [OF ok rows] rows by (simp_all add: store_def sample_refund_row_def sample_refunded_def)
  have sent: "rr_outcome sample_refund = OutcomeSent" by (simp add: sample_refund_def)
  have "refund_write sample_config ?dr sample_refund sample_obligation (Some sample_mac) (dr_command ?dr) sample_later db =
      Inr (?db4\<lparr>db_idem := t @ [r\<lparr>ir_status := Completed, ir_resultReference := Some ?ref, ir_completedAt := Some sample_later\<rparr>]\<rparr>, outcome_text (rr_outcome sample_refund))"
    unfolding refund_write_def Let_def s(1) await_simps
    by (simp add: sent rows(1) u [unfolded sent, simplified] s(2) a [unfolded sent] e [unfolded sent] c [simplified] del: store_Inr)
  then show ?thesis by (auto simp: outcome_text_def sent k)
qed

lemma sample_refund_run:
  assumes ok: "pay_constraints db" and rows: "db_obligations db = [sample_obligation]" "db_refunds db = []"
    and ids: "''a3'' \<notin> au_id ` set (db_audit db)" "''e3'' \<notin> ob_id ` set (db_outbox db)" "''c3'' \<notin> ir_id ` set (db_idem db)"
    and key: "(''owner-1'', ''payments.verification_deposit.refund.record'', sample_mac) \<notin> idem_key ` set (db_idem db)"
  shows "\<exists>au ob t. recordRefund sample_config (sample_draws ''3'') sample_later sample_refund db =
    Inr ((sample_refunded db)\<lparr>db_audit := au, db_outbox := ob, db_idem := t\<rparr>, ''sent'')"
proof -
  let ?dr = "sample_draws ''3''" and ?scope = "''payments.verification_deposit.refund.record''"
  have cmd: "dr_command ?dr = ''c3''" by (simp add: sample_draws_def)
  obtain r where r: "begin_payment sample_config ?dr ''owner-1'' ?scope (sample_mac, sample_mac) sample_later db =
      Inr (db\<lparr>db_idem := db_idem db @ [r]\<rparr>, Acquired (dr_command ?dr))" "ir_id r = dr_command ?dr" "ir_status r = InProgress"
      "ir_expiresAt r = sample_later + idempotency_lifetime_ms"
    using command_begins [of "''owner-1''" ?scope db ?dr sample_config sample_later] sample_identifiers ids(3) key cmd by auto
  let ?db0 = "db\<lparr>db_idem := db_idem db @ [r]\<rparr>"
  obtain au ob t where w: "refund_write sample_config ?dr sample_refund sample_obligation (Some sample_mac) (dr_command ?dr) sample_later ?db0 =
      Inr ((sample_refunded ?db0)\<lparr>db_audit := au, db_outbox := ob, db_idem := t\<rparr>, ''sent'')"
    using sample_refund_write [of ?db0 "db_idem db" r] assms r cmd by (auto simp: idempotency_lifetime_ms_def)
  have o: "og_id sample_obligation = ''00000000-0000-4000-8000-000000000012''" "og_state sample_obligation = PendingWindow" "og_amountVnd sample_obligation = 1000"
    "og_refundNotBefore sample_obligation = ''2026-02-20''"
    by (simp_all add: sample_obligation_def new_obligation_def sample_draws_def sample_challenge_def new_challenge_def sample_config_def)
  have c: "rr_ownerUserId sample_refund = ''owner-1''" "rr_obligationId sample_refund = ''00000000-0000-4000-8000-000000000012''"
    "rr_outcome sample_refund = OutcomeSent" "rr_actualAmountVnd sample_refund = Some 1000" "rr_sentAt sample_refund = Some (sample_time + 691200000)"
    by (simp_all add: sample_refund_def)
  have "recordRefund sample_config ?dr sample_later sample_refund db = Inr ((sample_refunded ?db0)\<lparr>db_audit := au, db_outbox := ob, db_idem := t\<rparr>, ''sent'')"
    using w rows(1) sample_sent_date sample_refund_values r(1)
    by (simp add: recordRefund_def sample_refund_facts c o vietnamDateFromInstant_def lift_error_def sample_no_step_up on_started_def)
  then show ?thesis by (auto simp: sample_refunded_def)
qed

text \<open>The whole run.\<close>

lemma sample_run:
  "\<exists>db1 db2 db3 v1. issueChallenge sample_config (sample_draws ''1'') sample_time sample_issue sample_db = Inr (db1, v1) \<and>
     reconcile sample_config (\<lambda>_. sample_draws ''2'') sample_time sample_reconcile db1 = Inr (db2, MatchedView (dr_id (sample_draws ''2'')) (dr_id2 (sample_draws ''2''))) \<and>
     recordRefund sample_config (sample_draws ''3'') sample_later sample_refund db2 = Inr (db3, ''sent'') \<and>
     db_challenges db2 = [sample_verified_challenge] \<and> db_receipts db2 = [sample_receipt] \<and> db_obligations db2 = [sample_obligation] \<and>
     db_obligations db3 = [settled_obligation sample_refund sample_later sample_obligation] \<and> db_refunds db3 = [sample_refund_row] \<and>
     db_challenges db1 = [sample_challenge] \<and> db_accounts db2 = [sample_verified_account] \<and> db_receipts db3 = [sample_receipt] \<and>
     db_challenges db3 = [sample_verified_challenge]"
proof -
  obtain r a e v1 where i: "issueChallenge sample_config (sample_draws ''1'') sample_time sample_issue sample_db = Inr (sample_issued r a e, v1)"
    "ir_id r = ''c1''" "idem_key r = (''owner-1'', ''payments.verification_deposit.challenge.issue'', sample_mac)" "au_id a = ''a1''" "ob_id e = ''e1''"
    using sample_issue_run by blast
  let ?db1 = "sample_issued r a e"
  obtain r2 a2 e2 f2 where m: "reconcile sample_config (\<lambda>_. sample_draws ''2'') sample_time sample_reconcile ?db1 =
      Inr ((sample_matched ?db1)\<lparr>db_audit := [a, a2], db_outbox := [e, e2, f2], db_idem := [r, r2]\<rparr>, MatchedView (dr_id (sample_draws ''2'')) (dr_id2 (sample_draws ''2'')))"
    "au_id a2 = ''a2''" "ob_id e2 = ''e2''" "ob_id f2 = ''f2''" "ir_id r2 = ''c2''" "idem_key r2 = (''owner-1'', ''payments.verification_deposit.reconcile'', sample_mac)"
    using sample_reconcile_run [OF refl i(2-5)] by blast
  let ?db2 = "(sample_matched ?db1)\<lparr>db_audit := [a, a2], db_outbox := [e, e2, f2], db_idem := [r, r2]\<rparr>"
  have "pay_constraints ?db2" using sample_rows_constraints(4) [OF sample_issued_stage] by simp
  moreover have "db_obligations ?db2 = [sample_obligation]" "db_refunds ?db2 = []" by (simp_all add: sample_matched_def sample_issued_def)
  ultimately obtain au ob t where f: "recordRefund sample_config (sample_draws ''3'') sample_later sample_refund ?db2 =
    Inr ((sample_refunded ?db2)\<lparr>db_audit := au, db_outbox := ob, db_idem := t\<rparr>, ''sent'')"
    using sample_refund_run [of ?db2] i m by auto
  show ?thesis
    by (rule exI [of _ ?db1], rule exI [of _ ?db2], rule exI [of _ "(sample_refunded ?db2)\<lparr>db_audit := au, db_outbox := ob, db_idem := t\<rparr>"], rule exI [of _ v1])
      (use i(1) m(1) f in \<open>simp add: sample_matched_def sample_refunded_def sample_issued_def\<close>)
qed

end
