(* ===== verification/DepositProperties.thy ===== *)
theory DepositProperties
  imports DepositSample
begin

text \<open>
  The properties of the deposit ledger, read off its invariant and the effect lemmas: verified
  challenges and their receipts, refunds and their amounts, conservation of money, repeated
  commands, the refund destination, and the window scan. Their witnesses use the run of
  \<open>DepositSample\<close>.
\<close>

subsection \<open>Reading the invariant\<close>

lemma filter_key_single:
  assumes "distinct (map k xs)" "x \<in> set xs" "k x = v"
  shows "filter (\<lambda>y. k y = v) xs = [x]"
proof -
  let ?ys = "filter (\<lambda>y. k y = v) xs"
  have only: "y = x" if "y \<in> set xs" "k y = v" for y using distinct_key_eq [OF assms(1) that(1) assms(2)] that(2) assms(3) by simp
  then have set: "set ?ys = {x}" unfolding set_filter using assms(2,3) by blast
  have "distinct ?ys" using assms(1) by (simp add: distinct_map)
  then have "card (set ?ys) = length ?ys" by (rule distinct_card)
  then have "length ?ys = 1" by (simp only: set card.insert card.empty finite.emptyI empty_iff simp_thms)
  then obtain y where "?ys = [y]" by (metis One_nat_def length_0_conv length_Suc_conv)
  with set show ?thesis by (metis list.set_intros(1) singletonD)
qed

text \<open>Two tables whose keys are the same set, with equal amounts under equal keys, have equal sums.\<close>

lemma sum_by_key:
  fixes f :: "'a \<Rightarrow> int"
  assumes keys: "distinct (map k xs)" "distinct (map h ys)" "k ` set xs = h ` set ys"
    and eq: "\<And>x y. x \<in> set xs \<Longrightarrow> y \<in> set ys \<Longrightarrow> k x = h y \<Longrightarrow> f x = g y"
  shows "sum_list (map f xs) = sum_list (map g ys)"
proof -
  have inj: "inj_on k (set xs)" "inj_on h (set ys)" and d: "distinct xs" "distinct ys" using keys by (auto simp: distinct_map)
  let ?a = "\<lambda>v. f (the_inv_into (set xs) k v)" and ?b = "\<lambda>v. g (the_inv_into (set ys) h v)"
  have "sum f (set xs) = sum ?a (k ` set xs)"
    using inj(1) by (simp add: sum.reindex the_inv_into_f_f)
  also have "\<dots> = sum ?b (h ` set ys)"
  proof (rule sum.cong [OF keys(3)])
    fix v assume "v \<in> h ` set ys"
    then obtain x y where "x \<in> set xs" "v = k x" "y \<in> set ys" "v = h y" using keys(3) by (metis imageE)
    then show "?a v = ?b v" using inj eq [of x y] by (metis the_inv_into_f_f)
  qed
  also have "\<dots> = sum g (set ys)"
    using inj(2) by (simp add: sum.reindex the_inv_into_f_f)
  finally show ?thesis using d by (simp add: sum_list_distinct_conv_sum_set)
qed

lemma sum_list_split: "sum_list (map f xs) = sum_list (map f (filter p xs)) + sum_list (map f (filter (\<lambda>x. \<not> p x) xs))" for f :: "'a \<Rightarrow> int"
  by (induction xs) simp_all

text \<open>What the invariant says about single rows: the partner of a row, found by its key.\<close>

lemma challenge_receipt:
  assumes "money_inv db" "c \<in> set (db_challenges db)" "ch_state c = ChVerified"
  obtains r where "r \<in> set (db_receipts db)" "receipt_matches r c"
proof -
  from assms have "ch_id c \<in> rc_challengeId ` set (db_receipts db)" by (simp add: money_inv_def match_inv_def)
  then obtain r where r: "r \<in> set (db_receipts db)" "rc_challengeId r = ch_id c" by (metis imageE)
  with assms(1) obtain c' where c': "c' \<in> set (db_challenges db)" "receipt_matches r c'" by (auto simp: money_inv_def match_inv_def)
  have "c' = c" using assms(1) money_distinct(1) [of db] c' assms(2) r(2)
    by (intro distinct_key_eq [of ch_id "db_challenges db"]) (simp_all add: money_inv_def receipt_matches_def)
  with r(1) c'(2) show thesis by (intro that) simp_all
qed

lemma obligation_receipt:
  assumes "money_inv db" "o1 \<in> set (db_obligations db)" "r \<in> set (db_receipts db)" "og_receiptId o1 = rc_id r"
  shows "obligation_matches o1 r"
proof -
  from assms(1,2) obtain r' where r': "r' \<in> set (db_receipts db)" "obligation_matches o1 r'" by (auto simp: money_inv_def obligation_inv_def)
  then have "r' = r" using assms money_distinct(2) [of db]
    by (intro distinct_key_eq [of rc_id "db_receipts db"]) (simp_all add: money_inv_def obligation_matches_def)
  with r' show ?thesis by simp
qed

lemma receipt_obligation_keys:
  assumes "money_inv db" shows "rc_id ` set (db_receipts db) = og_receiptId ` set (db_obligations db)"
proof
  show "rc_id ` set (db_receipts db) \<subseteq> og_receiptId ` set (db_obligations db)" using assms by (simp add: money_inv_def obligation_inv_def)
  show "og_receiptId ` set (db_obligations db) \<subseteq> rc_id ` set (db_receipts db)" using assms by (simp add: money_inv_def pay_constraints_def references_ok_def)
qed

lemma refund_obligation:
  assumes "money_inv db" "f \<in> set (sent_refunds db)" "o1 \<in> set (db_obligations db)" "rf_obligationId f = og_id o1"
  shows "refund_matches f o1"
proof -
  have "f \<in> set (db_refunds db)" "rf_outcome f = OutcomeSent" using assms(2) by (simp_all add: sent_refunds_def)
  with assms(1) obtain o2 where o2: "o2 \<in> set (db_obligations db)" "refund_matches f o2" by (auto simp: money_inv_def refund_inv_def)
  then have "o2 = o1" using assms money_distinct(4) [of db]
    by (intro distinct_key_eq [of og_id "db_obligations db"]) (simp_all add: money_inv_def refund_matches_def)
  with o2 show ?thesis by simp
qed

lemma sent_refund_keys:
  assumes "money_inv db"
  shows "rf_obligationId ` set (sent_refunds db) = og_id ` set (filter (\<lambda>o1. og_state o1 = RefundSent) (db_obligations db))"
proof
  show "rf_obligationId ` set (sent_refunds db) \<subseteq> og_id ` set (filter (\<lambda>o1. og_state o1 = RefundSent) (db_obligations db))"
  proof
    fix k assume "k \<in> rf_obligationId ` set (sent_refunds db)"
    then obtain f where f: "f \<in> set (sent_refunds db)" "k = rf_obligationId f" by (metis imageE)
    then obtain o1 where "o1 \<in> set (db_obligations db)" "refund_matches f o1"
      using assms by (auto simp: sent_refunds_def money_inv_def refund_inv_def)
    then show "k \<in> og_id ` set (filter (\<lambda>o1. og_state o1 = RefundSent) (db_obligations db))" using f by (simp add: refund_matches_def)
  qed
  show "og_id ` set (filter (\<lambda>o1. og_state o1 = RefundSent) (db_obligations db)) \<subseteq> rf_obligationId ` set (sent_refunds db)"
    using assms unfolding money_inv_def refund_inv_def sent_refunds_def [symmetric] by auto
qed

lemma verified_challenge_rows:
  assumes inv: "money_inv db" and c: "c \<in> set (db_challenges db)"
  shows "ch_state c = ChVerified \<longleftrightarrow>
    (\<exists>r o1. filter (\<lambda>r. rc_challengeId r = ch_id c) (db_receipts db) = [r] \<and>
       filter (\<lambda>o1. og_challengeId o1 = ch_id c) (db_obligations db) = [o1] \<and> receipt_matches r c \<and> obligation_matches o1 r)" (is "_ \<longleftrightarrow> ?rows")
proof
  have ok: "pay_constraints db" using inv by (simp add: money_inv_def)
  note d = money_distinct [OF ok]
  assume "ch_state c = ChVerified"
  with inv c obtain r where r: "r \<in> set (db_receipts db)" "receipt_matches r c" by (rule challenge_receipt)
  then obtain o1 where o1: "o1 \<in> set (db_obligations db)" "og_receiptId o1 = rc_id r" using receipt_obligation_keys [OF inv] by (metis imageE imageI)
  note m = obligation_receipt [OF inv o1(1) r(1) o1(2)]
  have "filter (\<lambda>r. rc_challengeId r = ch_id c) (db_receipts db) = [r]"
    using r by (intro filter_key_single [OF d(3)]) (simp_all add: receipt_matches_def)
  moreover have "filter (\<lambda>o1. og_challengeId o1 = ch_id c) (db_obligations db) = [o1]"
    using o1(1) r(2) m by (intro filter_key_single [OF d(5)]) (simp_all add: receipt_matches_def obligation_matches_def)
  ultimately show ?rows using r(2) m by blast
next
  assume ?rows
  then have "ch_verifiedAt c \<noteq> None" by (auto simp: receipt_matches_def)
  moreover have "challenge_check c" using inv c by (simp add: money_inv_def pay_constraints_def challenges_ok_def list_all_iff)
  ultimately show "ch_state c = ChVerified" by (simp add: challenge_check_def)
qed

lemma sent_obligation_rows:
  assumes inv: "money_inv db" and o1: "o1 \<in> set (db_obligations db)"
  shows "og_state o1 = RefundSent \<longleftrightarrow> (\<exists>f. filter (\<lambda>f. rf_obligationId f = og_id o1) (sent_refunds db) = [f] \<and> refund_matches f o1)"
proof
  have ok: "pay_constraints db" using inv by (simp add: money_inv_def)
  assume "og_state o1 = RefundSent"
  then have "og_id o1 \<in> og_id ` set (filter (\<lambda>o1. og_state o1 = RefundSent) (db_obligations db))" using o1 by simp
  then obtain f where f: "f \<in> set (sent_refunds db)" "rf_obligationId f = og_id o1"
    unfolding sent_refund_keys [OF inv, symmetric] by (metis imageE)
  then show "\<exists>f. filter (\<lambda>f. rf_obligationId f = og_id o1) (sent_refunds db) = [f] \<and> refund_matches f o1"
    using filter_key_single [OF money_distinct(7) [OF ok] f] refund_obligation [OF inv f(1) o1 f(2)] by blast
qed (auto simp: refund_matches_def)

lemma receipts_sum:
  assumes inv: "money_inv db"
  shows "sum_list (map rc_actualAmountVnd (db_receipts db)) = sum_list (map og_amountVnd (db_obligations db))"
proof (rule sum_by_key)
  have "pay_constraints db" using inv by (simp add: money_inv_def)
  then show "distinct (map rc_id (db_receipts db))" "distinct (map og_receiptId (db_obligations db))" by (rule money_distinct)+
  show "rc_id ` set (db_receipts db) = og_receiptId ` set (db_obligations db)" using inv by (rule receipt_obligation_keys)
  show "rc_actualAmountVnd r = og_amountVnd o1" if "r \<in> set (db_receipts db)" "o1 \<in> set (db_obligations db)" "rc_id r = og_receiptId o1" for r o1
    using obligation_receipt [OF inv that(2,1)] that(3) by (simp add: obligation_matches_def)
qed

lemma refunds_sum:
  assumes inv: "money_inv db"
  shows "sum_list (map (\<lambda>f. the (rf_actualAmountVnd f)) (sent_refunds db)) =
    sum_list (map og_amountVnd (filter (\<lambda>o1. og_state o1 = RefundSent) (db_obligations db)))"
proof (rule sum_by_key)
  have ok: "pay_constraints db" using inv by (simp add: money_inv_def)
  show "distinct (map rf_obligationId (sent_refunds db))" using ok by (rule money_distinct)
  show "distinct (map og_id (filter (\<lambda>o1. og_state o1 = RefundSent) (db_obligations db)))"
    using money_distinct(4) [OF ok] by (rule distinct_map_filter)
  show "rf_obligationId ` set (sent_refunds db) = og_id ` set (filter (\<lambda>o1. og_state o1 = RefundSent) (db_obligations db))"
    using inv by (rule sent_refund_keys)
  show "the (rf_actualAmountVnd f) = og_amountVnd o1"
    if "f \<in> set (sent_refunds db)" "o1 \<in> set (filter (\<lambda>o1. og_state o1 = RefundSent) (db_obligations db))" "rf_obligationId f = og_id o1" for f o1
    using refund_obligation [OF inv that(1) _ that(3)] that(2) by (simp add: refund_matches_def)
qed


subsection \<open>Properties\<close>

text \<open>C14: In every ledger reached from an empty one by the operations of the service, the window worker and
  the steps of other components, a challenge is verified exactly when there is one receipt for it and
  one refund obligation; the receipt has the amount and reference of the challenge and came before its
  expiry, and the obligation owes that amount to the account the money came from.\<close>

theorem deposit_verified_iff_received:
  assumes "empty_ledger db0" "rtranclp deposit_step db0 db" "c \<in> set (db_challenges db)"
  shows "ch_state c = ChVerified \<longleftrightarrow>
    (\<exists>r o1. filter (\<lambda>r. rc_challengeId r = ch_id c) (db_receipts db) = [r] \<and>
       filter (\<lambda>o1. og_challengeId o1 = ch_id c) (db_obligations db) = [o1] \<and> receipt_matches r c \<and> obligation_matches o1 r)"
  by (rule verified_challenge_rows [OF ledger.reach_inv [OF assms(1,2)] assms(3)])

text \<open>The ledger of the sample run, with its refund.\<close>

lemma sample_reachable:
  "\<exists>db. rtranclp deposit_step sample_db db \<and> db_challenges db = [sample_verified_challenge] \<and> db_receipts db = [sample_receipt] \<and>
     db_obligations db = [settled_obligation sample_refund sample_later sample_obligation] \<and> db_refunds db = [sample_refund_row]"
proof -
  obtain db1 db2 db3 v1 where run: "issueChallenge sample_config (sample_draws ''1'') sample_time sample_issue sample_db = Inr (db1, v1)"
    "reconcile sample_config (\<lambda>_. sample_draws ''2'') sample_time sample_reconcile db1 = Inr (db2, MatchedView (dr_id (sample_draws ''2'')) (dr_id2 (sample_draws ''2'')))"
    "recordRefund sample_config (sample_draws ''3'') sample_later sample_refund db2 = Inr (db3, ''sent'')"
    "db_challenges db3 = [sample_verified_challenge]" "db_receipts db3 = [sample_receipt]"
    "db_obligations db3 = [settled_obligation sample_refund sample_later sample_obligation]" "db_refunds db3 = [sample_refund_row]"
    using sample_run by blast
  have "deposit_step sample_db db1" "deposit_step db1 db2" "deposit_step db2 db3"
    using run(1-3) by (blast intro: deposit_step.intros)+
  then have "rtranclp deposit_step sample_db db3" by (meson converse_rtranclp_into_rtranclp rtranclp.rtrancl_refl)
  with run(4-7) show ?thesis by blast
qed

theorem deposit_verified_iff_received_witness:
  "\<exists>db. rtranclp deposit_step sample_db db \<and> db_challenges db = [sample_verified_challenge] \<and>
     (\<exists>r o1. filter (\<lambda>r. rc_challengeId r = ch_id sample_verified_challenge) (db_receipts db) = [r] \<and>
       filter (\<lambda>o1. og_challengeId o1 = ch_id sample_verified_challenge) (db_obligations db) = [o1] \<and>
       receipt_matches r sample_verified_challenge \<and> obligation_matches o1 r)"
proof -
  obtain db where db: "rtranclp deposit_step sample_db db" "db_challenges db = [sample_verified_challenge]"
    using sample_reachable by blast
  have "sample_verified_challenge \<in> set (db_challenges db)" "ch_state sample_verified_challenge = ChVerified"
    using db(2) by (simp_all add: sample_verified_challenge_def)
  from this(2) [unfolded deposit_verified_iff_received [OF sample_constraints(2) db(1) this(1)]] db show ?thesis by blast
qed

text \<open>C9: In every reachable ledger an obligation is sent exactly when one sent refund is recorded for it;
  that refund paid the amount owed, on a Vietnamese date not before its window opened. A refund sent
  after the due date still settles the obligation.\<close>

theorem refund_sent_exactly_once:
  assumes "empty_ledger db0" "rtranclp deposit_step db0 db" "o1 \<in> set (db_obligations db)"
  shows "og_state o1 = RefundSent \<longleftrightarrow>
    (\<exists>f d. filter (\<lambda>f. rf_obligationId f = og_id o1 \<and> rf_outcome f = OutcomeSent) (db_refunds db) = [f] \<and>
       rf_actualAmountVnd f = Some (og_amountVnd o1) \<and> rf_sentAt f = Some d \<and> og_refundNotBefore o1 \<le> vietnam_date d)"
proof -
  have inv: "money_inv db" by (rule ledger.reach_inv [OF assms(1,2)])
  have e: "filter (\<lambda>f. rf_obligationId f = og_id o1 \<and> rf_outcome f = OutcomeSent) (db_refunds db) = filter (\<lambda>f. rf_obligationId f = og_id o1) (sent_refunds db)"
    by (auto simp: sent_refunds_def intro: filter_cong)
  show ?thesis unfolding e
  proof
    assume "og_state o1 = RefundSent"
    then obtain f where "filter (\<lambda>f. rf_obligationId f = og_id o1) (sent_refunds db) = [f]" "refund_matches f o1"
      using sent_obligation_rows [OF inv assms(3)] by blast
    then show "\<exists>f d. filter (\<lambda>f. rf_obligationId f = og_id o1) (sent_refunds db) = [f] \<and> rf_actualAmountVnd f = Some (og_amountVnd o1) \<and>
        rf_sentAt f = Some d \<and> og_refundNotBefore o1 \<le> vietnam_date d"
      unfolding refund_matches_def by blast
  next
    assume "\<exists>f d. filter (\<lambda>f. rf_obligationId f = og_id o1) (sent_refunds db) = [f] \<and> rf_actualAmountVnd f = Some (og_amountVnd o1) \<and>
        rf_sentAt f = Some d \<and> og_refundNotBefore o1 \<le> vietnam_date d"
    then obtain f where "filter (\<lambda>f. rf_obligationId f = og_id o1) (sent_refunds db) = [f]" by blast
    then have "f \<in> set (filter (\<lambda>f. rf_obligationId f = og_id o1) (sent_refunds db))" by simp
    then show "og_state o1 = RefundSent" using refund_obligation [OF inv _ assms(3), of f] by (simp add: refund_matches_def)
  qed
qed

theorem refund_sent_exactly_once_witness:
  "\<exists>db o1 f. rtranclp deposit_step sample_db db \<and> db_obligations db = [o1] \<and> og_state o1 = RefundSent \<and>
     filter (\<lambda>f. rf_obligationId f = og_id o1 \<and> rf_outcome f = OutcomeSent) (db_refunds db) = [f] \<and> rf_actualAmountVnd f = Some (og_amountVnd o1)"
proof -
  let ?o = "settled_obligation sample_refund sample_later sample_obligation"
  obtain db where db: "rtranclp deposit_step sample_db db" "db_obligations db = [?o]"
    using sample_reachable by blast
  have "og_state ?o = RefundSent" by (simp add: settled_obligation_def outcome_state_def sample_refund_def)
  moreover have "?o \<in> set (db_obligations db)" using db(2) by simp
  ultimately show ?thesis using refund_sent_exactly_once [OF sample_constraints(2) db(1), of ?o] db by blast
qed

text \<open>C3: Money is conserved: in every reachable ledger the sum of all receipts is the sum of all sent
  refunds plus what is still owed.\<close>

theorem deposit_money_conserved:
  assumes "empty_ledger db0" "rtranclp deposit_step db0 db"
  shows "sum_list (map rc_actualAmountVnd (db_receipts db)) =
    sum_list (map (\<lambda>f. the (rf_actualAmountVnd f)) (filter (\<lambda>f. rf_outcome f = OutcomeSent) (db_refunds db))) +
    sum_list (map og_amountVnd (filter (\<lambda>o1. og_state o1 \<noteq> RefundSent) (db_obligations db)))"
proof -
  have inv: "money_inv db" by (rule ledger.reach_inv [OF assms])
  show ?thesis
    using receipts_sum [OF inv] refunds_sum [OF inv] sum_list_split [of og_amountVnd "db_obligations db" "\<lambda>o1. og_state o1 = RefundSent"]
    by (simp add: sent_refunds_def)
qed

theorem deposit_money_conserved_witness:
  "\<exists>db. rtranclp deposit_step sample_db db \<and> sum_list (map rc_actualAmountVnd (db_receipts db)) = 1000 \<and>
     sum_list (map (\<lambda>f. the (rf_actualAmountVnd f)) (filter (\<lambda>f. rf_outcome f = OutcomeSent) (db_refunds db))) = 1000"
proof -
  obtain db where db: "rtranclp deposit_step sample_db db" "db_receipts db = [sample_receipt]"
    "db_obligations db = [settled_obligation sample_refund sample_later sample_obligation]"
    using sample_reachable by blast
  with deposit_money_conserved [OF sample_constraints(2) db(1)] show ?thesis
    by (intro exI [of _ db]) (simp add: sample_receipt_def new_receipt_def sample_reconcile_def settled_obligation_def outcome_state_def sample_refund_def)
qed


text \<open>C40: A challenge that was never paid blocks its revision and account for good. No operation ever
  marks a challenge expired, and while an issued or reported challenge exists for a revision and an
  account, a successful \<open>issueChallenge\<close> for the same pair, at any later time, is only the replay of an
  earlier command: no new challenge is written, even after the 72 hours of the old one are over.\<close>

theorem unpaid_challenge_blocks_reissue:
  assumes "empty_ledger db0" "rtranclp deposit_step db0 db" "c \<in> set (db_challenges db)" "challenge_active c"
    and "ic_revisionId i = ch_revisionId c" "ic_accountVersionId i = ch_accountVersionId c"
    and run: "issueChallenge cfg dr at i db = Inr (db', v)"
  shows "ChExpired \<notin> ch_state ` set (db_challenges db) \<and> cw_replayed v \<and> db_challenges db' = db_challenges db"
proof -
  have inv: "money_inv db" by (rule ledger.reach_inv [OF assms(1,2)])
  have "ChExpired \<notin> ch_state ` set (db_challenges db)" using inv by (auto simp: money_inv_def match_inv_def)
  moreover have "cw_replayed v \<and> db_challenges db' = db_challenges db"
    using run
  proof (rule issueChallenge_effect)
    show "pay_constraints db" using inv by (simp add: money_inv_def)
  next
    fix h
    let ?n = "new_challenge cfg dr i at h"
    assume "challenges_ok (db_challenges db @ [?n])"
    then have "distinct (map (\<lambda>r. (ch_revisionId r, ch_accountVersionId r)) (filter challenge_active (db_challenges db @ [?n])))"
      by (simp add: challenges_ok_def)
    moreover have "challenge_active ?n" "ch_revisionId ?n = ch_revisionId c" "ch_accountVersionId ?n = ch_accountVersionId c"
      using assms(5,6) by (simp_all add: new_challenge_def challenge_active_def)
    ultimately have "(ch_revisionId c, ch_accountVersionId c) \<notin> (\<lambda>r. (ch_revisionId r, ch_accountVersionId r)) ` set (filter challenge_active (db_challenges db))"
      by simp
    then show ?thesis using assms(3,4) by force
  qed (simp add: same_money_def)
  ultimately show ?thesis by blast
qed

text \<open>The sample challenge, a hundred days later: a new command for the same pair cannot succeed.\<close>

lemma sample_issued_reachable:
  "\<exists>db v. issueChallenge sample_config (sample_draws ''1'') sample_time sample_issue sample_db = Inr (db, v) \<and>
     rtranclp deposit_step sample_db db \<and> db_challenges db = [sample_challenge] \<and> \<not> cw_replayed v"
proof -
  obtain db v where run: "issueChallenge sample_config (sample_draws ''1'') sample_time sample_issue sample_db = Inr (db, v)" "db_challenges db = [sample_challenge]"
    using sample_run by blast
  then have "\<not> cw_replayed v"
    using sample_constraints(1) by (auto elim!: issueChallenge_effect simp: same_money_def)
  then show ?thesis using run deposit_step.step_issue [OF run(1)] by blast
qed

theorem unpaid_challenge_blocks_reissue_witness:
  "\<exists>db v. issueChallenge sample_config (sample_draws ''1'') sample_time sample_issue sample_db = Inr (db, v) \<and> \<not> cw_replayed v \<and>
     {(db', w). issueChallenge sample_config (sample_draws ''9'') (sample_time + 8640000000)
        (sample_issue\<lparr>ic_idempotencyKey := ''issue-key-2''\<rparr>) db = Inr (db', w) \<and> \<not> cw_replayed w} = {}"
proof -
  obtain db v where run: "issueChallenge sample_config (sample_draws ''1'') sample_time sample_issue sample_db = Inr (db, v)"
      "rtranclp deposit_step sample_db db" "db_challenges db = [sample_challenge]" "\<not> cw_replayed v"
    using sample_issued_reachable by blast
  have "challenge_active sample_challenge" "ic_revisionId sample_issue = ch_revisionId sample_challenge" "ic_accountVersionId sample_issue = ch_accountVersionId sample_challenge"
    by (simp_all add: sample_challenge_def new_challenge_def challenge_active_def)
  with unpaid_challenge_blocks_reissue [OF sample_constraints(2) run(2), of sample_challenge "sample_issue\<lparr>ic_idempotencyKey := ''issue-key-2''\<rparr>"] run
  show ?thesis by fastforce
qed

lemma issue_write_accounts:
  "issue_write cfg dr c at k db = Inr (db', v) \<Longrightarrow> accounts_ok (rows_update (\<lambda>a. ac_id a = ic_accountVersionId c)
     (\<lambda>a. a\<lparr>ac_proofState := ProofChallengeIssued, ac_updatedAt := at\<rparr>) (db_accounts db))"
  unfolding issue_write_def Let_def by (auto simp: result_iffs pay_constraints_def)

lemma issue_cases:
  assumes "issueChallenge cfg dr at c db = Inr (db', v)"
  obtains "cw_replayed v" | k db1 where "issue_write cfg dr c at k db1 = Inr (db', v)" "db_accounts db1 = db_accounts db"
proof -
  from assms obtain hashes db0 started where b: "begin_payment cfg dr (ic_ownerUserId c)
      ''payments.verification_deposit.challenge.issue'' hashes at db = Inr (db0, started)"
    and r: "(\<exists>ref. replay_challenge cfg db0 ref = Inr v) \<or>
      (\<exists>k su db1. requireOwnerStepUp cfg su db0 = Inr db1 \<and> issue_write cfg dr c at k db1 = Inr (db', v))"
    unfolding issueChallenge_def by (auto simp: result_iffs on_started_Inr) blast+
  obtain t where t: "db0 = db\<lparr>db_idem := t\<rparr>" using begin_payment_Inr [OF b] by blast
  from r show thesis
  proof (elim disjE exE conjE)
    fix k su db1
    assume "requireOwnerStepUp cfg su db0 = Inr db1" "issue_write cfg dr c at k db1 = Inr (db', v)"
    then show thesis using t by (intro that(2) [of k db1]) (auto simp: requireOwnerStepUp_Inr)
  qed (use that(1) replay_challenge_replayed in blast)
qed

text \<open>C39: An account whose control was proved once can never be challenged again: issuing keeps its proof
  time while it resets the proof state, which the table's check on proof times rejects, so a successful
  \<open>issueChallenge\<close> for it is only ever a replay.\<close>

theorem verified_account_never_rechallenged:
  assumes "pay_constraints db" "a \<in> set (db_accounts db)" "ac_proofState a = ProofVerified" "ic_accountVersionId c = ac_id a"
    and "issueChallenge cfg dr at c db = Inr (db', v)"
  shows "cw_replayed v"
  using assms(5)
proof (rule issue_cases)
  fix k db1
  assume w: "issue_write cfg dr c at k db1 = Inr (db', v)" and acc: "db_accounts db1 = db_accounts db"
  let ?a = "a\<lparr>ac_proofState := ProofChallengeIssued, ac_updatedAt := at\<rparr>"
  have "account_check a" using assms(1,2) by (simp add: pay_constraints_def accounts_ok_def list_all_iff)
  with assms(3) have "ac_proofVerifiedAt a \<noteq> None" by (simp add: account_check_def)
  moreover have "?a \<in> set (rows_update (\<lambda>a. ac_id a = ic_accountVersionId c) (\<lambda>a. a\<lparr>ac_proofState := ProofChallengeIssued, ac_updatedAt := at\<rparr>) (db_accounts db1))"
    using assms(2,4) acc by (intro rows_updateI) simp_all
  with issue_write_accounts [OF w] have "account_check ?a" by (simp add: accounts_ok_def list_all_iff)
  ultimately have False by (simp add: account_check_def)
  then show ?thesis ..
qed

theorem verified_account_never_rechallenged_witness:
  "\<exists>db. pay_constraints db \<and> db_accounts db = [sample_verified_account] \<and>
     {v. \<exists>db'. issueChallenge sample_config (sample_draws ''9'') (sample_time + 8640000000) (sample_issue\<lparr>ic_idempotencyKey := ''issue-key-3''\<rparr>) db = Inr (db', v)
        \<and> \<not> cw_replayed v} = {}"
proof -
  obtain r a e where ok: "pay_constraints (sample_matched (sample_issued r a e))" using sample_rows_constraints(4) [OF sample_issued_stage] by blast
  let ?db = "sample_matched (sample_issued r a e)"
  have acc: "db_accounts ?db = [sample_verified_account]" by (simp add: sample_matched_def)
  have s: "ac_proofState sample_verified_account = ProofVerified" "ic_accountVersionId (sample_issue\<lparr>ic_idempotencyKey := ''issue-key-3''\<rparr>) = ac_id sample_verified_account"
    by (simp_all add: sample_verified_account_def sample_issued_account_def sample_account_def sample_issue_def)
  have "sample_verified_account \<in> set (db_accounts ?db)" using acc by simp
  from verified_account_never_rechallenged [OF ok this s] ok acc show ?thesis by blast
qed

lemma issue_idem_inv:
  assumes "issueChallenge cfg dr at c db = Inr (db', v)" "idem_inv (db_idem db)"
  shows "idem_inv (db_idem db')"
proof -
  from assms(1) obtain hashes db0 started where b: "begin_payment cfg dr (ic_ownerUserId c)
      ''payments.verification_deposit.challenge.issue'' hashes at db = Inr (db0, started)"
    and r: "db' = db0 \<or> (\<exists>k su db1. requireOwnerStepUp cfg su db0 = Inr db1 \<and> issue_write cfg dr c at k db1 = Inr (db', v))"
    unfolding issueChallenge_def by (auto simp: result_iffs on_started_Inr) blast
  have i0: "idem_inv (db_idem db0)" using b assms(2) by (auto simp: begin_payment_def begin_command_Inr intro: begin_inv)
  from r show ?thesis
  proof (elim disjE exE conjE)
    fix k su db1
    assume su: "requireOwnerStepUp cfg su db0 = Inr db1" and w: "issue_write cfg dr c at k db1 = Inr (db', v)"
    from w have "\<exists>u ref. completeIdempotentCommand u k ref at (db_idem db1) = Inr (db_idem db', True)"
      unfolding issue_write_def Let_def by (auto simp: result_iffs statement_iffs) blast
    moreover have "db_idem db1 = db_idem db0" using su by (auto simp: requireOwnerStepUp_Inr)
    ultimately show ?thesis using i0 by (auto intro: complete_inv)
  qed (use i0 in simp)
qed

text \<open>A reconciliation repeated under its key within 24 hours is answered from the log: it returns the
  same result and leaves the whole database as it is, whatever it would draw.\<close>

theorem reconcile_repeat_is_replay:
  assumes "idem_inv (db_idem db)" "pay_constraints db" "fresh_reconcile_key cfg c db" "\<And>n. is_uuid (dr_id (dr n))"
    and "reconcile cfg dr at c db = Inr (db', v)" "at \<le> at'" "at' < at + idempotency_lifetime_ms"
  shows "reconcile cfg dr' at' c db' = Inr (db', v)"
  by (rule reconcile_again [OF assms(1,2,5,3,4,6,7)])

theorem reconcile_repeat_is_replay_witness:
  "\<exists>db db' rid oid. reconcile sample_config (\<lambda>_. sample_draws ''2'') sample_time sample_reconcile db = Inr (db', MatchedView rid oid) \<and>
     reconcile sample_config (\<lambda>_. sample_draws ''7'') (sample_time + 1000) sample_reconcile db' = Inr (db', MatchedView rid oid)"
proof -
  obtain r a e v1 where i: "issueChallenge sample_config (sample_draws ''1'') sample_time sample_issue sample_db = Inr (sample_issued r a e, v1)"
    "ir_id r = ''c1''" "idem_key r = (''owner-1'', ''payments.verification_deposit.challenge.issue'', sample_mac)" "au_id a = ''a1''" "ob_id e = ''e1''"
    using sample_issue_run by blast
  let ?db = "sample_issued r a e"
  obtain db' where m: "reconcile sample_config (\<lambda>_. sample_draws ''2'') sample_time sample_reconcile ?db =
      Inr (db', MatchedView (dr_id (sample_draws ''2'')) (dr_id2 (sample_draws ''2'')))"
    using sample_reconcile_run [OF refl i(2-5)] by blast
  have ok: "pay_constraints ?db" using i(1) sample_constraints(1) by (auto elim!: issueChallenge_effect)
  have idem: "idem_inv (db_idem ?db)" using issue_idem_inv [OF i(1)] by (simp add: idem_inv_def)
  have k: "idem_key ` set (db_idem ?db) = {(''owner-1'', ''payments.verification_deposit.challenge.issue'', sample_mac)}"
    using i(3) by (simp add: sample_issued_def)
  have fresh: "fresh_reconcile_key sample_config sample_reconcile ?db"
    unfolding fresh_reconcile_key_def k using sample_hmac [OF sample_domains(1), of "rk_idempotencyKey sample_reconcile"]
    by (simp add: sample_config_def sample_reconcile_def)
  have u: "is_uuid (dr_id (sample_draws ''2''))" by code_simp
  from reconcile_repeat_is_replay [OF idem ok fresh u m, of "sample_time + 1000" "\<lambda>_. sample_draws ''7''"] m show ?thesis
    by (auto simp: idempotency_lifetime_ms_def)
qed


lemma replayed_obligation:
  "replay_reconciliation db ref = Inr (MatchedView rid oid) \<Longrightarrow> oid \<in> og_id ` set (db_obligations db)"
  unfolding replay_reconciliation_def
  by (auto simp: result_iffs split: reconciliation_kind.splits dest!: find_Some_in) (metis reconciliation_kind.exhaust)

lemma reconcile_new_match:
  assumes run: "reconcile cfg dr at c db = Inr (db', MatchedView rid oid)" and new: "oid \<notin> og_id ` set (db_obligations db)"
  obtains n fa challenge account window db1 db4 where "reconcile_facts cfg at c = Inr fa" "oid = dr_id2 (dr n)"
    "unmatchedReason c fa (Some challenge) (Some account) = None" "account \<in> set (db_accounts db)"
    "matched_rows cfg (dr n) c fa challenge account window at db1 = Inr db4" "db_obligations db' = db_obligations db4" "pay_constraints db'"
proof -
  from run obtain fa hashes n where fa: "reconcile_facts cfg at c = Inr fa"
    and tr: "reconcile_transaction cfg (dr n) at c fa hashes db = Inr (db', MatchedView rid oid)"
    unfolding reconcile_def by (auto simp: result_iffs dest!: retry_Inr)
  from tr obtain db0 started where b: "begin_payment cfg (dr n) (rk_ownerUserId c) ''payments.verification_deposit.reconcile'' hashes at db = Inr (db0, started)"
    and r: "(\<exists>ref. replay_reconciliation db0 ref = Inr (MatchedView rid oid)) \<or> (\<exists>k su db1. requireOwnerStepUp cfg su db0 = Inr db1 \<and>
      settle_receipt cfg (dr n) at c fa (candidate_challenge fa db0) (challenge_account (candidate_challenge fa db0) db1) k db1 = Inr (db', MatchedView rid oid))"
    unfolding reconcile_transaction_def by (auto simp: result_iffs on_started_Inr) blast
  obtain t where t: "db0 = db\<lparr>db_idem := t\<rparr>" using begin_payment_Inr [OF b] by blast
  have "\<not> (\<exists>ref. replay_reconciliation db0 ref = Inr (MatchedView rid oid))" using replayed_obligation new t by fastforce
  with r obtain k su db1 where su: "requireOwnerStepUp cfg su db0 = Inr db1" and
    st: "settle_receipt cfg (dr n) at c fa (candidate_challenge fa db0) (challenge_account (candidate_challenge fa db0) db1) k db1 = Inr (db', MatchedView rid oid)"
    by blast
  have none: "unmatchedReason c fa (candidate_challenge fa db0) (challenge_account (candidate_challenge fa db0) db1) = None"
    using st by (auto simp: settle_receipt_def result_iffs split: option.splits)
  from unmatchedReason_None [OF none] obtain challenge account where
    o: "candidate_challenge fa db0 = Some challenge" "challenge_account (candidate_challenge fa db0) db1 = Some account" by metis
  have acc: "account \<in> set (db_accounts db)"
    using o su t by (auto simp: challenge_account_def requireOwnerStepUp_Inr dest!: find_Some_in)
  from st none o have "matched_write cfg (dr n) c fa challenge account k at db1 = Inr (db', MatchedView rid oid)" by (simp add: settle_receipt_def)
  then show thesis
  proof (rule matched_write_effect)
    fix window db4 au ob t
    assume "MatchedView rid oid = MatchedView (dr_id (dr n)) (dr_id2 (dr n))" "matched_rows cfg (dr n) c fa challenge account window at db1 = Inr db4"
      "db' = db4\<lparr>db_audit := au, db_outbox := ob, db_idem := t\<rparr>"
    then show thesis using fa acc none o by (intro that) (auto elim: matched_rows_effect)
  qed
qed

text \<open>A refund goes where the money came from: after a reconciliation that created the obligation, the
  destination revealed for it is the bank and the decrypted account number and holder of the account
  whose fingerprint and bank the bank transaction had.\<close>

theorem refund_destination_is_source_account:
  assumes env: "platform_laws (cfg_platform cfg)" "keyring_ok (cfg_keyring cfg)"
      "\<And>n. length (dr_nonce (dr n)) = 12" "\<And>n. length (dr_nonce2 (dr n)) = 12"
    and run: "reconcile cfg dr at c db = Inr (db', MatchedView rid oid)" and new: "oid \<notin> og_id ` set (db_obligations db)"
    and reveal: "revealRefundDestination cfg dr' at' vc db' = Inr (db'', (bin, number, holder))" "rd_obligationId vc = oid"
  shows "\<exists>account fa. account \<in> set (db_accounts db) \<and> reconcile_facts cfg at c = Inr fa \<and>
    fa_sourceAccountFingerprint fa = Some (ac_accountFingerprint account) \<and> fa_sourceBankBin fa = Some bin \<and> ac_bankBin account = bin \<and>
    open_sealed cfg (account_binding (ac_id account) ''account_number'') (ac_accountNumberEnvelope account) = Inr number \<and>
    open_sealed cfg (account_binding (ac_id account) ''account_holder_label'') (ac_accountHolderLabelEnvelope account) = Inr holder"
proof -
  from run new obtain n fa challenge account window db1 db4 where m: "reconcile_facts cfg at c = Inr fa" "oid = dr_id2 (dr n)"
    "unmatchedReason c fa (Some challenge) (Some account) = None" "account \<in> set (db_accounts db)"
    "matched_rows cfg (dr n) c fa challenge account window at db1 = Inr db4" "db_obligations db' = db_obligations db4" "pay_constraints db'"
    by (rule reconcile_new_match)
  obtain o1 where o1: "o1 \<in> set (db_obligations db4)" "og_id o1 = dr_id2 (dr n)" "og_lockedBankBin o1 = ac_bankBin account"
    "open_sealed cfg (obligation_binding (dr_id2 (dr n)) ''account_number'') (Some (og_lockedAccountNumberEnvelope o1)) =
       open_sealed cfg (account_binding (ac_id account) ''account_number'') (ac_accountNumberEnvelope account)"
    "open_sealed cfg (obligation_binding (dr_id2 (dr n)) ''account_holder_label'') (Some (og_lockedAccountHolderLabelEnvelope o1)) =
       open_sealed cfg (account_binding (ac_id account) ''account_holder_label'') (ac_accountHolderLabelEnvelope account)"
    using destination_of_match [OF m(5) env(1,2) env(3,4)] by blast
  have "List.find (\<lambda>o1. og_id o1 = oid) (db_obligations db') = Some o1"
    using find_key_iff [OF money_distinct(4) [OF m(7)]] o1(1,2) m(2,6) by simp
  with reveal o1 m(2) have "bin = ac_bankBin account"
    "open_sealed cfg (account_binding (ac_id account) ''account_number'') (ac_accountNumberEnvelope account) = Inr number"
    "open_sealed cfg (account_binding (ac_id account) ''account_holder_label'') (ac_accountHolderLabelEnvelope account) = Inr holder"
    by (auto simp: revealRefundDestination_def result_iffs)
  with m(1,3,4) show ?thesis by (auto elim!: unmatchedReason_None)
qed


definition sample_reveal :: reveal_command where
  "sample_reveal = \<lparr>rd_ownerUserId = ''owner-1'', rd_ownerSessionId = ''session-1'', rd_stepUpProofId = ''proof-4'',
     rd_obligationId = ''00000000-0000-4000-8000-000000000012'', rd_requestId = ''req-3''\<rparr>"

lemma sample_reveal_run:
  assumes "db_obligations db = [sample_obligation]" "dr_audit (sample_draws ''4'') \<notin> au_id ` set (db_audit db)"
  shows "\<exists>db'. revealRefundDestination sample_config (sample_draws ''4'') sample_time sample_reveal db = Inr (db', (''970436'', ''0011223344'', ''NGUYEN AN''))"
proof -
  have o: "og_id sample_obligation = ''00000000-0000-4000-8000-000000000012''" "og_challengeId sample_obligation = ''00000000-0000-4000-8000-000000000001''"
    "og_lockedBankBin sample_obligation = ''970436''" "og_lockedMaskedSuffix sample_obligation = mask_prefix @ ''3344''"
    "og_lockedAccountNumberEnvelope sample_obligation = sample_envelope ''0011223344''"
    "og_lockedAccountHolderLabelEnvelope sample_obligation = sample_envelope ''NGUYEN AN''"
    by (simp_all add: sample_obligation_def new_obligation_def sample_draws_def sample_challenge_def new_challenge_def sample_issued_account_def sample_account_def)
  have sealed: "open_sealed sample_config (obligation_binding ''00000000-0000-4000-8000-000000000012'' ''account_number'') (Some (sample_envelope ''0011223344'')) = Inr ''0011223344''"
    "open_sealed sample_config (obligation_binding ''00000000-0000-4000-8000-000000000012'' ''account_holder_label'') (Some (sample_envelope ''NGUYEN AN'')) = Inr ''NGUYEN AN''"
    using sample_aads(3,4) sample_sealing(2) [of "''0011223344''"] sample_sealing(2) [of "''NGUYEN AN''"] by auto
  have "CHR ''/'' \<notin> set (mask_prefix @ ''3344'')" "auditIdentifier ''payments.refund_destination.reveal''" by code_simp+
  moreover have "\<not> structuredKeyIsSensitive ''bankBin''" "\<not> structuredKeyIsSensitive ''maskedSuffix''" by code_simp+
  ultimately have "\<exists>a. append_audit (pf_parse_url (cfg_platform sample_config)) (dr_audit (sample_draws ''4'')) sample_time
       \<lparr>ne_actorUserId = rd_ownerUserId sample_reveal, ne_actorSessionId = Some (rd_ownerSessionId sample_reveal),
        ne_subjectType = ''verification_deposit_refund_obligation'', ne_subjectId = og_id sample_obligation,
        ne_action = ''payments.refund_destination.reveal'', ne_outcome = Succeeded, ne_reasonCode = None, ne_beforeState = None,
        ne_afterState = Some (JObj [(''bankBin'', JStr (og_lockedBankBin sample_obligation)), (''maskedSuffix'', JStr (og_lockedMaskedSuffix sample_obligation))]),
        ne_assurance = mfa_assurance (rd_stepUpProofId sample_reveal), ne_applicationRevision = og_challengeId sample_obligation,
        ne_requestId = rd_requestId sample_reveal, ne_occurredAt = Some (Some sample_time)\<rparr> db = Inr (db\<lparr>db_audit := db_audit db @ [a]\<rparr>) \<and>
      au_id a = dr_audit (sample_draws ''4'')"
    using sample_audit_ids sample_safe assms(2)
    by (intro audit_appends) (simp_all add: sample_reveal_def o mfa_assurance_def no_slash_safe del: set_append)
  then show ?thesis
    using assms(1) o sealed
    by (auto simp: revealRefundDestination_def sample_no_step_up sample_reveal_def)
qed

theorem refund_destination_is_source_account_witness:
  "\<exists>db db' db'' rid account. reconcile sample_config (\<lambda>_. sample_draws ''2'') sample_time sample_reconcile db =
       Inr (db', MatchedView rid (rd_obligationId sample_reveal)) \<and>
     revealRefundDestination sample_config (sample_draws ''4'') sample_time sample_reveal db' = Inr (db'', (''970436'', ''0011223344'', ''NGUYEN AN'')) \<and>
     account \<in> set (db_accounts db) \<and> ac_bankBin account = ''970436'' \<and>
     open_sealed sample_config (account_binding (ac_id account) ''account_number'') (ac_accountNumberEnvelope account) = Inr ''0011223344''"
proof -
  obtain r a e v1 where i: "issueChallenge sample_config (sample_draws ''1'') sample_time sample_issue sample_db = Inr (sample_issued r a e, v1)"
    "ir_id r = ''c1''" "idem_key r = (''owner-1'', ''payments.verification_deposit.challenge.issue'', sample_mac)" "au_id a = ''a1''" "ob_id e = ''e1''"
    using sample_issue_run by blast
  let ?db = "sample_issued r a e"
  obtain r2 a2 e2 f2 where m: "reconcile sample_config (\<lambda>_. sample_draws ''2'') sample_time sample_reconcile ?db =
      Inr ((sample_matched ?db)\<lparr>db_audit := [a, a2], db_outbox := [e, e2, f2], db_idem := [r, r2]\<rparr>, MatchedView (dr_id (sample_draws ''2'')) (dr_id2 (sample_draws ''2'')))"
    "au_id a2 = ''a2''"
    using sample_reconcile_run [OF refl i(2-5)] by blast
  let ?db' = "(sample_matched ?db)\<lparr>db_audit := [a, a2], db_outbox := [e, e2, f2], db_idem := [r, r2]\<rparr>"
  have "db_obligations ?db' = [sample_obligation]" "dr_audit (sample_draws ''4'') \<notin> au_id ` set (db_audit ?db')"
    using i(4) m(2) by (simp_all add: sample_matched_def sample_draws_def)
  from sample_reveal_run [OF this] obtain db'' where v: "revealRefundDestination sample_config (sample_draws ''4'') sample_time sample_reveal ?db' =
      Inr (db'', (''970436'', ''0011223344'', ''NGUYEN AN''))" ..
  have e: "platform_laws (cfg_platform sample_config)" "keyring_ok (cfg_keyring sample_config)"
    "length (dr_nonce (sample_draws ''2'')) = 12" "length (dr_nonce2 (sample_draws ''2'')) = 12"
    using toy_platform_laws createEncryptionKeyring_ok [OF sample_keyrings(1)] by (simp_all add: sample_config_def sample_keyring_def sample_draws_def)
  have oid: "dr_id2 (sample_draws ''2'') = rd_obligationId sample_reveal" by (simp add: sample_draws_def sample_reveal_def)
  have new: "dr_id2 (sample_draws ''2'') \<notin> og_id ` set (db_obligations ?db)" by (simp add: sample_issued_def)
  from refund_destination_is_source_account [OF e m(1) new v oid [symmetric]] m(1) v oid show ?thesis by metis
qed


subsection \<open>The window scan\<close>

lemma scan_run:
  "scanVerificationDepositRefundWindows cfg ids skipped now db =
     scan_all cfg ids now (vietnam_date now) (filter (\<lambda>r. og_state r \<noteq> RefundSent \<and> \<not> skipped (og_id r)) (db_obligations db)) (db, empty_scan)"
  by (simp add: scanVerificationDepositRefundWindows_def vietnamDateFromInstant_def lift_error_def)

text \<open>What a scan reports is what is owed: the outstanding amount is the sum over all obligations that
  are not sent and not locked by another transaction, and the three counters are the numbers of those
  past their due date, due today, and with an open window.\<close>

theorem scan_reports_what_is_owed:
  assumes "scanVerificationDepositRefundWindows cfg ids skipped now db = Inr (db', res)"
    and "rs = filter (\<lambda>r. og_state r \<noteq> RefundSent \<and> \<not> skipped (og_id r)) (db_obligations db)" "today = vietnam_date now"
  shows "sr_outstandingAmountVnd res = sum_list (map og_amountVnd rs) \<and>
    sr_overdue res = int (length (filter (\<lambda>r. og_refundDue r < today) rs)) \<and>
    sr_dueToday res = int (length (filter (\<lambda>r. og_refundDue r = today) rs)) \<and>
    sr_dueSoon res = int (length (filter (\<lambda>r. og_refundNotBefore r \<le> today \<and> today < og_refundDue r) rs))"
proof -
  have cats: "(refund_category today r = Some Overdue) = (og_refundDue r < today)" "(refund_category today r = Some DueToday) = (og_refundDue r = today)"
    "(refund_category today r = Some DueSoon) = (og_refundNotBefore r \<le> today \<and> today < og_refundDue r)" for r
    by (auto simp: refund_category_def)
  from assms have "scan_all cfg ids now today rs (db, empty_scan) = Inr (db', res)" by (simp add: scan_run)
  from scan_outstanding [OF this] show ?thesis by (simp add: cats empty_scan_def)
qed

lemma sample_scan:
  assumes "pay_constraints db" "db_obligations db = [sample_obligation]" "''s1'' \<notin> ob_id ` set (db_outbox db)"
  shows "\<exists>db' res. scanVerificationDepositRefundWindows sample_config (\<lambda>_. ''s1'') (\<lambda>_. False) sample_later db = Inr (db', res)"
proof -
  have "vietnam_day sample_later = 20506" by (simp add: vietnam_day_def utc_day_def ms_per_day_def sample_time_def sample_later_def)
  moreover have "civil 20506 = (2026, 2, 22)"
    by (simp add: civil_def year_of_day_def day_from_year_def month_lengths_def leap_year_def Let_def)
  ultimately have d: "vietnam_date sample_later = ''2026-02-22''" by (simp add: vietnam_date_def decimal.simps padded_two)
  have o: "og_refundNotBefore sample_obligation = ''2026-02-20''" "og_refundDue sample_obligation = ''2026-02-24''" "og_state sample_obligation = PendingWindow"
    "og_dueSoonEmittedAt sample_obligation = None" "og_id sample_obligation = ''00000000-0000-4000-8000-000000000012''"
    "og_challengeId sample_obligation = ''00000000-0000-4000-8000-000000000001''" "og_applicantUserId sample_obligation = ''user-1''"
    by (simp_all add: sample_obligation_def new_obligation_def sample_draws_def sample_challenge_def new_challenge_def sample_issued_account_def sample_account_def)
  have c: "refund_category ''2026-02-22'' sample_obligation = Some DueSoon" by (simp add: refund_category_def o less_list_code less_eq_list_code less_char_def)
  let ?m = "mark_obligation sample_later DueSoon sample_obligation" and ?ev = "window_event sample_later DueSoon sample_obligation"
  have "obligation_check sample_obligation" using assms(1,2) by (simp add: pay_constraints_def obligations_ok_def)
  then have "obligation_check ?m" by (simp add: obligation_check_def mark_obligation_def Let_def next_state_def o)
  moreover have "og_id ?m = og_id sample_obligation" "og_receiptId ?m = og_receiptId sample_obligation" "og_challengeId ?m = og_challengeId sample_obligation"
    "og_accountVersionId ?m = og_accountVersionId sample_obligation" "og_calendarVersion ?m = og_calendarVersion sample_obligation"
    by (simp_all add: mark_obligation_def Let_def)
  ultimately have ok: "pay_constraints (db\<lparr>db_obligations := [?m]\<rparr>)"
    using assms(1,2) by (simp add: pay_constraints_def obligations_ok_def references_ok_def)
  have "\<not> structuredKeyIsSensitive ''window''" by code_simp
  then have "assertSafeValue (pf_parse_url (cfg_platform sample_config)) (ev_payload ?ev)"
    using sample_safe by (simp add: window_event_def o next_state_def obligation_state_text_def category_suffix_def no_slash_safe)
  from event_appends [OF this, of "''s1''" "db\<lparr>db_obligations := [?m]\<rparr>" sample_later] assms(3)
  obtain e where e: "append_event (pf_parse_url (cfg_platform sample_config)) ''s1'' sample_later ?ev (db\<lparr>db_obligations := [?m]\<rparr>) =
      Inr (db\<lparr>db_obligations := [?m], db_outbox := db_outbox db @ [e]\<rparr>)" by auto
  have "rows_update (\<lambda>o1. og_id o1 = og_id sample_obligation) (\<lambda>_. ?m) [sample_obligation] = [?m]" by (simp add: rows_update_def)
  then have "\<exists>res. scan_one sample_config (\<lambda>_. ''s1'') sample_later ''2026-02-22'' sample_obligation (db, empty_scan) =
      Inr (db\<lparr>db_obligations := [?m], db_outbox := db_outbox db @ [e]\<rparr>, res)"
    using ok e by (simp add: scan_one_def c Let_def assms(2) store_def category_marker_def o)
  then show ?thesis by (auto simp: scan_run d assms(2) o)
qed

text \<open>The ledger of the sample run before its refund.\<close>

lemma sample_owed: "\<exists>db. pay_constraints db \<and> db_obligations db = [sample_obligation] \<and> ''s1'' \<notin> ob_id ` set (db_outbox db)"
proof -
  obtain r a e v1 where i: "issueChallenge sample_config (sample_draws ''1'') sample_time sample_issue sample_db = Inr (sample_issued r a e, v1)" "ob_id e = ''e1''"
    using sample_issue_run by blast
  then show ?thesis using sample_rows_constraints(4) [OF sample_issued_stage, of r a e]
    by (intro exI [of _ "sample_matched (sample_issued r a e)"]) (simp add: sample_matched_def sample_issued_def)
qed

theorem scan_reports_what_is_owed_witness:
  "\<exists>db db' res. scanVerificationDepositRefundWindows sample_config (\<lambda>_. ''s1'') (\<lambda>_. False) sample_later db = Inr (db', res) \<and>
     sr_outstandingAmountVnd res = 1000"
proof -
  obtain db where db: "pay_constraints db" "db_obligations db = [sample_obligation]" "''s1'' \<notin> ob_id ` set (db_outbox db)" using sample_owed by blast
  from sample_scan [OF this] obtain db' res where
    r: "scanVerificationDepositRefundWindows sample_config (\<lambda>_. ''s1'') (\<lambda>_. False) sample_later db = Inr (db', res)" by blast
  from scan_reports_what_is_owed [OF r refl refl] db(2) have "sr_outstandingAmountVnd res = 1000"
    by (simp add: sample_obligation_def new_obligation_def sample_challenge_def new_challenge_def sample_config_def)
  with r show ?thesis by blast
qed

text \<open>Repeating a scan on the same Vietnamese date emits nothing: when no row was locked the first time,
  every obligation in a window carries its marker, and the second scan leaves the outbox as it was.\<close>

theorem scan_repeat_is_silent:
  assumes "pay_constraints db"
    and first: "scanVerificationDepositRefundWindows cfg ids (\<lambda>_. False) now db = Inr (db', res)"
    and second: "scanVerificationDepositRefundWindows cfg ids' skipped now' db' = Inr (db'', res')" and "vietnam_date now' = vietnam_date now"
  shows "db_outbox db'' = db_outbox db'"
proof -
  let ?today = "vietnam_date now" and ?rs = "filter (\<lambda>r. og_state r \<noteq> RefundSent) (db_obligations db)"
  have d: "distinct (map og_id (db_obligations db))" using money_distinct(4) [OF assms(1)] .
  have run: "scan_all cfg ids now ?today ?rs (db, empty_scan) = Inr (db', res)" using first by (simp add: scan_run)
  have rows: "db_obligations db' = map (scan_mark now ?today (og_id ` set ?rs)) (db_obligations db)"
    by (rule scan_all_rows [OF run d]) (use d in \<open>auto intro: distinct_map_filter\<close>)
  show ?thesis
  proof (rule scan_all_silent)
    show "scan_all cfg ids' now' ?today (filter (\<lambda>r. og_state r \<noteq> RefundSent \<and> \<not> skipped (og_id r)) (db_obligations db')) (db', empty_scan) = Inr (db'', res')"
      using second assms(4) by (simp add: scan_run)
    fix r category
    assume r: "r \<in> set (filter (\<lambda>r. og_state r \<noteq> RefundSent \<and> \<not> skipped (og_id r)) (db_obligations db'))" "refund_category ?today r = Some category"
    then obtain o1 where o1: "o1 \<in> set (db_obligations db)" "r = scan_mark now ?today (og_id ` set ?rs) o1" "og_state r \<noteq> RefundSent"
      by (auto simp: rows)
    have "og_id o1 \<in> og_id ` set ?rs"
    proof (rule ccontr)
      assume "og_id o1 \<notin> og_id ` set ?rs"
      then have "r = o1" "og_state o1 = RefundSent" using o1 by (auto simp: scan_mark_def)
      with o1(3) show False by simp
    qed
    with scan_mark_marked r(2) o1(2) show "category_marker category r \<noteq> None" by blast
  qed
qed

theorem scan_repeat_is_silent_witness:
  "\<exists>db db' res. scanVerificationDepositRefundWindows sample_config (\<lambda>_. ''s1'') (\<lambda>_. False) sample_later db = Inr (db', res) \<and>
     {db_outbox db'' | db'' res'. scanVerificationDepositRefundWindows sample_config (\<lambda>_. ''s2'') (\<lambda>_. False) sample_later db' = Inr (db'', res')} \<subseteq> {db_outbox db'}"
proof -
  obtain db where db: "pay_constraints db" "db_obligations db = [sample_obligation]" "''s1'' \<notin> ob_id ` set (db_outbox db)" using sample_owed by blast
  from sample_scan [OF this] obtain db' res where
    r: "scanVerificationDepositRefundWindows sample_config (\<lambda>_. ''s1'') (\<lambda>_. False) sample_later db = Inr (db', res)" by blast
  with scan_repeat_is_silent [OF db(1) r] show ?thesis by blast
qed

subsection \<open>The account fence\<close>

text \<open>The fence retries a transaction at most twice: its result is that of the first of three attempts
  that does not fail because an account changed, and that error only when all three fail with it.\<close>

theorem fence_retries_three_times:
  "retryPaymentAccountChange run =
     (if run 0 \<noteq> Inl PaymentAccountChangedError then run 0
      else if run 1 \<noteq> Inl PaymentAccountChangedError then run 1 else run 2)"
proof -
  have last: "retry_from 2 run = run 2" by (simp add: retry_from.simps split: sum.splits)
  have step: "n < 2 \<Longrightarrow> retry_from n run = (if run n \<noteq> Inl PaymentAccountChangedError then run n else retry_from (n + 1) run)" for n
    by (subst retry_from.simps) (auto split: sum.splits)
  show ?thesis using step [of 0] step [of 1] last by (simp add: retryPaymentAccountChange_def numeral_2_eq_2)
qed

end
