(* ===== verification/EmailHandoff.thy ===== *)
theory EmailHandoff
  imports Outbox Crypto
begin

text \<open>
  E-mail handoffs (\<^verbatim>\<open>packages/identity/src/security-email-handoff.ts\<close>, table
  \<^verbatim>\<open>identity_email_handoffs\<close>): a domain transaction queues a message whose destination and secret are
  sealed, and workers deliver it through a provider whose outcome may stay unknown. Unlike the
  other services, the delivery is not one transaction: it is a sequence of statements, between
  which other workers run, so an error does not undo the statements before it. Every statement is
  a definition of its own and a step of \<open>mail_step\<close>; the operation composes them, with what happens
  while the provider is called as the argument \<open>meanwhile\<close>. The provider is the argument \<open>sender\<close>.
  Shown: the table's checks hold in every reachable state, the provider is called at most three
  times per handoff, a settled handoff is final, and four spaced deliveries settle any handoff.
\<close>

subsection \<open>The table\<close>

datatype email_purpose =
  EmailVerification | PasswordReset | EmailChange | SecurityNotice | EnforcementNotice |
  ApplicationOutcome | CreatorStatus | RefundStatus | TipStatus | NotificationMail

fun purpose_text :: "email_purpose \<Rightarrow> string" where
  "purpose_text EmailVerification = ''email_verification''"
| "purpose_text PasswordReset = ''password_reset''"
| "purpose_text EmailChange = ''email_change''"
| "purpose_text SecurityNotice = ''security_notice''"
| "purpose_text EnforcementNotice = ''enforcement_notice''"
| "purpose_text ApplicationOutcome = ''application_outcome''"
| "purpose_text CreatorStatus = ''creator_status''"
| "purpose_text RefundStatus = ''refund_status''"
| "purpose_text TipStatus = ''tip_status''"
| "purpose_text NotificationMail = ''notification''"

datatype handoff_status = HPending | HProcessing | HSent | HFailed | HAttention

record handoff_row =
  eh_id :: string
  eh_purpose :: email_purpose
  eh_sourceOutboxEventId :: "string option"
  eh_userId :: string
  eh_destinationEnvelope :: "envelope option"
  eh_secretEnvelope :: "envelope option"
  eh_templateData :: json
  eh_status :: handoff_status
  eh_attempts :: nat
  eh_availableAt :: instant
  eh_lockedAt :: "instant option"
  eh_lockedBy :: "string option"
  eh_leaseExpiresAt :: "instant option"
  eh_sentAt :: "instant option"
  eh_failureCode :: "string option"
  eh_createdAt :: instant
  eh_updatedAt :: instant

text \<open>The checks \<open>identity_email_handoffs_destination_check\<close> and \<open>..._lease_check\<close>, and the keys: the id,
  and the source event where there is one. \<open>userId\<close> references a user.\<close>

definition handoff_check :: "handoff_row \<Rightarrow> bool" where
  "handoff_check r \<longleftrightarrow>
     (if eh_status r = HAttention then eh_destinationEnvelope r = None \<and> eh_failureCode r \<noteq> None
      else eh_destinationEnvelope r \<noteq> None) \<and>
     ((eh_lockedAt r = None \<and> eh_lockedBy r = None \<and> eh_leaseExpiresAt r = None) \<or>
      (eh_lockedAt r \<noteq> None \<and> eh_lockedBy r \<noteq> None \<and> eh_leaseExpiresAt r \<noteq> None))"

definition handoff_sources :: "handoff_row list \<Rightarrow> string list" where
  "handoff_sources t = List.map_filter eh_sourceOutboxEventId t"

record mail_db =
  mail_handoffs :: "handoff_row list"
  mail_outbox :: outbox
  mail_users :: "(string \<times> string) list"

datatype mail_error = MailCrypto | MailTemplate | MailReference | MailOutbox outbox_error | MailError string

subsection \<open>Queueing\<close>

definition handoff_binding :: "string \<Rightarrow> string \<Rightarrow> field_binding" where
  "handoff_binding recordId fieldName =
     \<lparr>fb_recordType = ''identity_email_handoff'', fb_recordId = recordId, fb_fieldName = fieldName\<rparr>"

definition mail_crypto :: "crypto_error + 'a \<Rightarrow> mail_error + 'a" where
  "mail_crypto r = (case r of Inl _ \<Rightarrow> Inl MailCrypto | Inr v \<Rightarrow> Inr v)"

definition safeTemplateData :: "platform \<Rightarrow> (string \<times> string) list \<Rightarrow> mail_error + json" where
  "safeTemplateData pf data =
     (case canonicalizeSafeStructuredData (pf_parse_url pf) (js_of_json (JObj (map (\<lambda>(k, v). (k, JStr v)) data))) channel.Outbox of
        Inl _ \<Rightarrow> Inl MailTemplate | Inr v \<Rightarrow> Inr v)"

text \<open>\<open>insert ... on conflict do nothing returning\<close>: no row comes back when the id or the source
  event is taken; a row for an unknown user is refused by the database.\<close>

definition insert_handoff :: "handoff_row \<Rightarrow> mail_db \<Rightarrow> mail_error + (mail_db \<times> bool)" where
  "insert_handoff r db =
     (if eh_id r \<in> eh_id ` set (mail_handoffs db) \<or>
        (case eh_sourceOutboxEventId r of None \<Rightarrow> False | Some s \<Rightarrow> s \<in> set (handoff_sources (mail_handoffs db)))
      then Inr (db, False)
      else if eh_userId r \<notin> fst ` set (mail_users db) then Inl MailReference
      else Inr (db\<lparr>mail_handoffs := mail_handoffs db @ [r]\<rparr>, True))"

text \<open>The lookup after a conflict.\<close>

definition existing_handoff :: "string \<Rightarrow> string \<Rightarrow> string option \<Rightarrow> mail_db \<Rightarrow> mail_error + string" where
  "existing_handoff missing conflict source db =
     (case source of
        None \<Rightarrow> Inl (MailError missing)
      | Some s \<Rightarrow>
          (case List.find (\<lambda>r. eh_sourceOutboxEventId r = Some s) (mail_handoffs db) of
             None \<Rightarrow> Inl (MailError conflict) | Some r \<Rightarrow> Inr (eh_id r)))"

definition mail_event ::
  "platform \<Rightarrow> string \<Rightarrow> new_outbox_event \<Rightarrow> instant \<Rightarrow> mail_db \<Rightarrow> mail_error + mail_db" where
  "mail_event pf newId event now db =
     (case insertOutboxEvent (pf_parse_url pf) newId now event (mail_outbox db) of
        Inl e \<Rightarrow> Inl (MailOutbox e) | Inr (ob, _) \<Rightarrow> Inr (db\<lparr>mail_outbox := ob\<rparr>))"

record handoff_input =
  hi_id :: string
  hi_userId :: string
  hi_purpose :: email_purpose
  hi_destination :: string
  hi_secret :: "string option"
  hi_templateData :: "(string \<times> string) list"
  hi_sourceOutboxEventId :: "string option"
  hi_now :: instant

definition requested_event :: "handoff_input \<Rightarrow> new_outbox_event" where
  "requested_event i = \<lparr>ev_eventType = ''identity.security_email.requested.v1'', ev_eventVersion = 1,
     ev_aggregateType = ''security_email_handoff'', ev_aggregateId = hi_id i,
     ev_payload = JObj [(''handoffId'', JStr (hi_id i)), (''purpose'', JStr (purpose_text (hi_purpose i)))],
     ev_occurredAt = Some (hi_now i), ev_availableAt = Some (hi_now i)\<rparr>"

definition pending_row :: "handoff_input \<Rightarrow> envelope \<Rightarrow> envelope option \<Rightarrow> json \<Rightarrow> handoff_row" where
  "pending_row i destinationEnvelope secretEnvelope templateData =
     \<lparr>eh_id = hi_id i, eh_purpose = hi_purpose i, eh_sourceOutboxEventId = hi_sourceOutboxEventId i,
       eh_userId = hi_userId i, eh_destinationEnvelope = Some destinationEnvelope, eh_secretEnvelope = secretEnvelope,
       eh_templateData = templateData, eh_status = HPending, eh_attempts = 0, eh_availableAt = hi_now i,
       eh_lockedAt = None, eh_lockedBy = None, eh_leaseExpiresAt = None, eh_sentAt = None, eh_failureCode = None,
       eh_createdAt = hi_now i, eh_updatedAt = hi_now i\<rparr>"

text \<open>\<open>nonce1\<close> and \<open>nonce2\<close> are the random bytes of the two envelopes and \<open>eventId\<close> the id of the
  outbox row. An empty secret counts as none.\<close>

definition queueSecurityEmailHandoff ::
  "platform \<Rightarrow> keyring \<Rightarrow> string \<Rightarrow> string \<Rightarrow> string \<Rightarrow> handoff_input \<Rightarrow> mail_db \<Rightarrow> mail_error + (mail_db \<times> string)" where
  "queueSecurityEmailHandoff pf kr nonce1 nonce2 eventId i db =
     await (mail_crypto (encryptSensitiveField pf nonce1 kr (handoff_binding (hi_id i) ''destination'') None (hi_destination i))) (\<lambda>destinationEnvelope.
     await (case hi_secret i of None \<Rightarrow> Inr None
        | Some s \<Rightarrow> if s = [] then Inr None
            else map_sum id Some (mail_crypto (encryptSensitiveField pf nonce2 kr (handoff_binding (hi_id i) ''secret'') None s))) (\<lambda>secretEnvelope.
     await (safeTemplateData pf (hi_templateData i)) (\<lambda>templateData.
     await (insert_handoff (pending_row i destinationEnvelope secretEnvelope templateData) db) (\<lambda>(db1, inserted).
       if \<not> inserted
       then map_sum id (Pair db1) (existing_handoff ''Security email handoff already exists''
              ''Security email handoff conflict'' (hi_sourceOutboxEventId i) db1)
       else await (mail_event pf eventId (requested_event i) (hi_now i) db1) (\<lambda>db2. Inr (db2, hi_id i))))))"

definition queueUserSecurityNotice ::
  "platform \<Rightarrow> keyring \<Rightarrow> string \<Rightarrow> string \<Rightarrow> string \<Rightarrow> string \<Rightarrow> string \<Rightarrow> string \<Rightarrow> instant \<Rightarrow> mail_db \<Rightarrow>
     mail_error + (mail_db \<times> string)" where
  "queueUserSecurityNotice pf kr nonce1 nonce2 eventId handoffId userId event now db =
     (case List.find (\<lambda>u. fst u = userId) (mail_users db) of
        None \<Rightarrow> Inl (MailError ''Security notice destination is unavailable'')
      | Some (_, email) \<Rightarrow> queueSecurityEmailHandoff pf kr nonce1 nonce2 eventId
          \<lparr>hi_id = handoffId, hi_userId = userId, hi_purpose = SecurityNotice, hi_destination = email, hi_secret = None,
           hi_templateData = [(''event'', event), (''returnPath'', ''/settings/security'')],
           hi_sourceOutboxEventId = None, hi_now = now\<rparr> db)"

text \<open>The only failure code of this call is \<open>no_verified_destination\<close>.\<close>

definition attention_row :: "handoff_input \<Rightarrow> json \<Rightarrow> handoff_row" where
  "attention_row i templateData =
     \<lparr>eh_id = hi_id i, eh_purpose = hi_purpose i, eh_sourceOutboxEventId = hi_sourceOutboxEventId i,
       eh_userId = hi_userId i, eh_destinationEnvelope = None, eh_secretEnvelope = None,
       eh_templateData = templateData, eh_status = HAttention, eh_attempts = 0, eh_availableAt = hi_now i,
       eh_lockedAt = None, eh_lockedBy = None, eh_leaseExpiresAt = None, eh_sentAt = None,
       eh_failureCode = Some ''no_verified_destination'',
       eh_createdAt = hi_now i, eh_updatedAt = hi_now i\<rparr>"

definition recordSecurityEmailAttentionRequired ::
  "platform \<Rightarrow> handoff_input \<Rightarrow> mail_db \<Rightarrow> mail_error + (mail_db \<times> string)" where
  "recordSecurityEmailAttentionRequired pf i db =
     await (safeTemplateData pf (hi_templateData i)) (\<lambda>templateData.
     await (insert_handoff (attention_row i templateData) db) (\<lambda>(db1, inserted).
       if inserted then Inr (db1, hi_id i)
       else map_sum id (Pair db1) (existing_handoff ''Security email attention record conflict''
              ''Security email attention record conflict'' (hi_sourceOutboxEventId i) db1)))"

subsection \<open>Delivery\<close>

definition provider_send_attempt_limit :: nat where
  "provider_send_attempt_limit = 3"

definition unknown_outcome_retry_delay_ms :: int where
  "unknown_outcome_retry_delay_ms = 60000"

definition default_lease_ms :: int where
  "default_lease_ms = 30000"

datatype delivery = Delivered | AlreadyDelivered | AttentionRequired | AlreadyAttentionRequired

record mail_message =
  mm_handoffId :: string
  mm_purpose :: email_purpose
  mm_destination :: string
  mm_secret :: "string option"
  mm_templateData :: json

definition handoff_unlock :: "handoff_row \<Rightarrow> handoff_row" where
  "handoff_unlock r = r\<lparr>eh_lockedAt := None, eh_lockedBy := None, eh_leaseExpiresAt := None\<rparr>"

text \<open>\<open>set status = 'attention_required', failure_code = code\<close>: both envelopes are erased.\<close>

definition give_up :: "string \<Rightarrow> instant \<Rightarrow> handoff_row \<Rightarrow> handoff_row" where
  "give_up code now r = (handoff_unlock r)\<lparr>eh_status := HAttention, eh_failureCode := Some code,
     eh_destinationEnvelope := None, eh_secretEnvelope := None, eh_updatedAt := now\<rparr>"

definition lease_free :: "instant \<Rightarrow> handoff_row \<Rightarrow> bool" where
  "lease_free now r \<longleftrightarrow> (case eh_leaseExpiresAt r of None \<Rightarrow> True | Some e \<Rightarrow> e \<le> now)"

text \<open>Links of the retired credential mails are withdrawn, in one transaction with their event.\<close>

definition retirable :: "instant \<Rightarrow> handoff_row \<Rightarrow> bool" where
  "retirable now r \<longleftrightarrow>
     eh_purpose r \<in> {EmailVerification, PasswordReset, EmailChange} \<and>
     eh_sentAt r = None \<and> eh_status r \<noteq> HAttention \<and> lease_free now r"

definition retired_event :: "handoff_row \<Rightarrow> instant \<Rightarrow> new_outbox_event" where
  "retired_event r now = \<lparr>ev_eventType = ''identity.credential_email_retired.v1'', ev_eventVersion = 1,
     ev_aggregateType = ''security_email_handoff'', ev_aggregateId = eh_id r,
     ev_payload = JObj [(''handoffId'', JStr (eh_id r)), (''purpose'', JStr (purpose_text (eh_purpose r))),
       (''reason'', JStr ''auth_moved'')],
     ev_occurredAt = Some now, ev_availableAt = None\<rparr>"

definition retire_handoff ::
  "platform \<Rightarrow> string \<Rightarrow> string \<Rightarrow> instant \<Rightarrow> mail_db \<Rightarrow> mail_error + (mail_db \<times> bool)" where
  "retire_handoff pf eventId handoffId now db =
     (let p = (\<lambda>r. eh_id r = handoffId \<and> retirable now r);
          db1 = db\<lparr>mail_handoffs := rows_update p (give_up ''auth_moved'' now) (mail_handoffs db)\<rparr>
      in case filter p (mail_handoffs db) of
           [] \<Rightarrow> Inr (db1, False)
         | r # _ \<Rightarrow> await (mail_event pf eventId (retired_event r now) now db1) (\<lambda>db2. Inr (db2, True)))"

text \<open>A handoff whose last attempt never reported back is given up once its lease is over.\<close>

definition recoverable :: "instant \<Rightarrow> handoff_row \<Rightarrow> bool" where
  "recoverable now r \<longleftrightarrow>
     eh_sentAt r = None \<and> eh_status r \<noteq> HSent \<and> eh_status r \<noteq> HAttention \<and>
     provider_send_attempt_limit \<le> eh_attempts r \<and> eh_destinationEnvelope r \<noteq> None \<and> lease_free now r"

definition recover_handoff :: "string \<Rightarrow> instant \<Rightarrow> mail_db \<Rightarrow> mail_db \<times> nat" where
  "recover_handoff handoffId now db =
     (let p = (\<lambda>r. eh_id r = handoffId \<and> recoverable now r)
      in (db\<lparr>mail_handoffs := rows_update p (give_up ''delivery_outcome_unknown_retry_limit'' now) (mail_handoffs db)\<rparr>,
          length (filter p (mail_handoffs db))))"

definition handoff_claimable :: "instant \<Rightarrow> handoff_row \<Rightarrow> bool" where
  "handoff_claimable now r \<longleftrightarrow>
     eh_sentAt r = None \<and> eh_status r \<noteq> HAttention \<and> eh_attempts r < provider_send_attempt_limit \<and>
     eh_destinationEnvelope r \<noteq> None \<and> eh_availableAt r \<le> now \<and> lease_free now r"

definition handoff_claim :: "string \<Rightarrow> instant \<Rightarrow> int \<Rightarrow> handoff_row \<Rightarrow> handoff_row" where
  "handoff_claim workerId now leaseMs r =
     r\<lparr>eh_status := HProcessing, eh_attempts := eh_attempts r + 1, eh_lockedAt := Some now,
       eh_lockedBy := Some workerId, eh_leaseExpiresAt := Some (now + leaseMs), eh_updatedAt := now\<rparr>"

definition claim_handoff ::
  "string \<Rightarrow> string \<Rightarrow> int \<Rightarrow> instant \<Rightarrow> mail_db \<Rightarrow> mail_db \<times> handoff_row option" where
  "claim_handoff handoffId workerId leaseMs now db =
     (let p = (\<lambda>r. eh_id r = handoffId \<and> handoff_claimable now r)
      in (db\<lparr>mail_handoffs := rows_update p (handoff_claim workerId now leaseMs) (mail_handoffs db)\<rparr>,
          map_option (handoff_claim workerId now leaseMs) (List.find p (mail_handoffs db))))"

definition unclaimed_outcome :: "string \<Rightarrow> mail_db \<Rightarrow> mail_error + delivery" where
  "unclaimed_outcome handoffId db =
     (case List.find (\<lambda>r. eh_id r = handoffId) (mail_handoffs db) of
        None \<Rightarrow> Inl (MailError ''Security email handoff is unavailable'')
      | Some existing \<Rightarrow>
          if eh_sentAt existing \<noteq> None then Inr AlreadyDelivered
          else if eh_status existing = HAttention then Inr AlreadyAttentionRequired
          else Inl (MailError ''Security email handoff is unavailable''))"

definition open_handoff :: "platform \<Rightarrow> keyring \<Rightarrow> handoff_row \<Rightarrow> mail_error + mail_message" where
  "open_handoff pf kr claimed =
     (case eh_destinationEnvelope claimed of
        None \<Rightarrow> Inl (MailError ''Security email destination is unavailable'')
      | Some e \<Rightarrow>
          await (mail_crypto (decryptSensitiveField pf kr (handoff_binding (eh_id claimed) ''destination'') None e)) (\<lambda>destination.
          await (case eh_secretEnvelope claimed of None \<Rightarrow> Inr None
             | Some e' \<Rightarrow> map_sum id Some (mail_crypto (decryptSensitiveField pf kr (handoff_binding (eh_id claimed) ''secret'') None e'))) (\<lambda>secret.
            Inr \<lparr>mm_handoffId = eh_id claimed, mm_purpose = eh_purpose claimed, mm_destination = destination,
                 mm_secret = secret, mm_templateData = eh_templateData claimed\<rparr>)))"

text \<open>The fence of a settling worker: the row is as its own claim left it.\<close>

definition handoff_owned :: "string \<Rightarrow> string \<Rightarrow> instant \<Rightarrow> nat \<Rightarrow> handoff_row \<Rightarrow> bool" where
  "handoff_owned handoffId workerId now attempts r \<longleftrightarrow>
     eh_id r = handoffId \<and> eh_sentAt r = None \<and> eh_status r = HProcessing \<and> eh_attempts r = attempts \<and>
     eh_lockedAt r = Some now \<and> eh_lockedBy r = Some workerId"

definition settle_where ::
  "(handoff_row \<Rightarrow> bool) \<Rightarrow> (handoff_row \<Rightarrow> handoff_row) \<Rightarrow> (mail_error + delivery) \<Rightarrow> mail_db \<Rightarrow> mail_db \<times> (mail_error + delivery)" where
  "settle_where p f result db =
     (db\<lparr>mail_handoffs := rows_update p f (mail_handoffs db)\<rparr>,
      if length (filter p (mail_handoffs db)) = 1 then result else Inl (MailError ''Security email delivery failed''))"

definition settle_failed ::
  "string \<Rightarrow> string \<Rightarrow> instant \<Rightarrow> nat \<Rightarrow> mail_db \<Rightarrow> mail_db \<times> (mail_error + delivery)" where
  "settle_failed handoffId workerId now attempts db =
     (if provider_send_attempt_limit \<le> attempts
      then settle_where (handoff_owned handoffId workerId now attempts)
        (give_up ''delivery_outcome_unknown_retry_limit'' now) (Inr AttentionRequired) db
      else settle_where (handoff_owned handoffId workerId now attempts)
        (\<lambda>r. (handoff_unlock r)\<lparr>eh_status := HFailed, eh_failureCode := Some ''delivery_outcome_unknown'',
           eh_availableAt := now + unknown_outcome_retry_delay_ms, eh_updatedAt := now\<rparr>)
        (Inl (MailError ''Security email delivery failed'')) db)"

definition settle_sent ::
  "string \<Rightarrow> string \<Rightarrow> instant \<Rightarrow> nat \<Rightarrow> mail_db \<Rightarrow> mail_db \<times> (mail_error + delivery)" where
  "settle_sent handoffId workerId now attempts db =
     settle_where (handoff_owned handoffId workerId now attempts)
       (\<lambda>r. (handoff_unlock r)\<lparr>eh_status := HSent, eh_sentAt := Some now, eh_failureCode := None, eh_updatedAt := now\<rparr>)
       (Inr Delivered) db"

definition settle_handoff ::
  "bool \<Rightarrow> string \<Rightarrow> string \<Rightarrow> instant \<Rightarrow> nat \<Rightarrow> mail_db \<Rightarrow> mail_db \<times> (mail_error + delivery)" where
  "settle_handoff accepted handoffId workerId now attempts db =
     (if accepted then settle_sent handoffId workerId now attempts db
      else settle_failed handoffId workerId now attempts db)"

text \<open>\<open>sender\<close> is whether the provider call resolves. An error after the first statement leaves the
  statements before it in force, so the state is returned beside the result.\<close>

definition deliverSecurityEmailHandoff ::
  "platform \<Rightarrow> keyring \<Rightarrow> (mail_message \<Rightarrow> bool) \<Rightarrow> (mail_db \<Rightarrow> mail_db) \<Rightarrow> string \<Rightarrow> string \<Rightarrow> string \<Rightarrow> int option \<Rightarrow> instant \<Rightarrow>
     mail_db \<Rightarrow> mail_db \<times> (mail_error + delivery)" where
  "deliverSecurityEmailHandoff pf kr sender meanwhile eventId handoffId workerId leaseMs now db =
     (case retire_handoff pf eventId handoffId now db of
        Inl e \<Rightarrow> (db, Inl e)
      | Inr (db1, retired) \<Rightarrow>
          if retired then (db1, Inr AttentionRequired)
          else let (db2, recovered) = recover_handoff handoffId now db1
          in if 1 < recovered then (db2, Inl (MailError ''Security email delivery failed''))
          else if recovered = 1 then (db2, Inr AttentionRequired)
          else let (db3, claimed_opt) =
              claim_handoff handoffId workerId (case leaseMs of None \<Rightarrow> default_lease_ms | Some ms \<Rightarrow> ms) now db2
          in case claimed_opt of
               None \<Rightarrow> (db3, unclaimed_outcome handoffId db3)
             | Some claimed \<Rightarrow>
                 (case open_handoff pf kr claimed of
                    Inl e \<Rightarrow> (db3, Inl e)
                  | Inr message \<Rightarrow>
                      settle_handoff (sender message) handoffId workerId now (eh_attempts claimed) (meanwhile db3)))"

subsection \<open>Leases\<close>

definition settled :: "handoff_row \<Rightarrow> bool" where
  "settled r \<longleftrightarrow> eh_sentAt r \<noteq> None \<or> eh_status r = HAttention"

interpretation mail: leased_rows eh_id "\<lambda>now r. \<not> lease_free now r" settled handoff_claimable handoff_claim
  by unfold_locales (auto simp: handoff_claimable_def settled_def handoff_claim_def lease_free_def)

lemmas handoff_row_defs =
  handoff_unlock_def give_up_def handoff_claim_def

lemmas handoff_guard_defs =
  retirable_def recoverable_def handoff_claimable_def handoff_owned_def

text \<open>Every update of the delivery touches unsettled rows only and keeps the key.\<close>

definition handoff_row_inv :: "handoff_row \<Rightarrow> bool" where
  "handoff_row_inv r \<longleftrightarrow>
     handoff_check r \<and> eh_attempts r \<le> provider_send_attempt_limit \<and>
     (eh_status r = HSent \<longleftrightarrow> eh_sentAt r \<noteq> None) \<and>
     (eh_status r = HProcessing \<longleftrightarrow> eh_lockedAt r \<noteq> None) \<and>
     (eh_status r = HAttention \<longrightarrow> eh_secretEnvelope r = None)"

definition row_step :: "handoff_row \<Rightarrow> handoff_row \<Rightarrow> bool" where
  "row_step r r' \<longleftrightarrow>
     r' = r \<or>
     (\<not> settled r \<and> eh_id r' = eh_id r \<and> eh_sourceOutboxEventId r' = eh_sourceOutboxEventId r \<and>
      eh_attempts r \<le> eh_attempts r' \<and> (handoff_row_inv r \<longrightarrow> handoff_row_inv r'))"

definition rows_step :: "handoff_row list \<Rightarrow> handoff_row list \<Rightarrow> bool" where
  "rows_step t t' \<longleftrightarrow> list_all2 row_step t t'"

lemma row_step_keys:
  assumes "row_step r r'"
  shows "eh_id r' = eh_id r" "eh_sourceOutboxEventId r' = eh_sourceOutboxEventId r"
  using assms by (auto simp: row_step_def)

lemma rows_stepI:
  assumes "\<And>r. p r \<Longrightarrow> row_step r (f r)"
  shows "rows_step t (rows_update p f t)"
  using assms by (auto simp: rows_step_def rows_update_def list.rel_map row_step_def intro!: list.rel_refl_strong)

lemma give_up_step:
  assumes "\<not> settled r"
  shows "row_step r (give_up code now r)"
  using assms by (auto simp: row_step_def give_up_def handoff_unlock_def handoff_row_inv_def
      handoff_check_def settled_def)

lemma claim_step:
  assumes "handoff_claimable now r"
  shows "row_step r (handoff_claim w now ms r)"
  using assms by (auto simp: row_step_def handoff_claimable_def handoff_claim_def handoff_row_inv_def
      handoff_check_def settled_def provider_send_attempt_limit_def)

lemma retire_step:
  assumes "retire_handoff pf k h now db = Inr (db', b)"
  shows "rows_step (mail_handoffs db) (mail_handoffs db')"
proof -
  have "mail_handoffs db' = rows_update (\<lambda>r. eh_id r = h \<and> retirable now r) (give_up ''auth_moved'' now) (mail_handoffs db)"
    using assms by (auto simp: retire_handoff_def Let_def result_iffs mail_event_def split: list.splits sum.splits prod.splits)
  then show ?thesis
    by (auto intro!: rows_stepI give_up_step simp: retirable_def settled_def)
qed

lemma recover_step:
  "recover_handoff h now db = (db', n) \<Longrightarrow> rows_step (mail_handoffs db) (mail_handoffs db')"
  by (auto intro!: rows_stepI give_up_step simp: recover_handoff_def Let_def recoverable_def settled_def)

lemma claim_handoff_step:
  "claim_handoff h w ms now db = (db', c) \<Longrightarrow> rows_step (mail_handoffs db) (mail_handoffs db')"
  by (auto intro!: rows_stepI claim_step simp: claim_handoff_def Let_def)

lemma settle_step:
  assumes "settle_handoff ok h w now n db = (db', d)"
  shows "rows_step (mail_handoffs db) (mail_handoffs db')"
proof -
  have own: "row_step r (give_up c now r)" if "handoff_owned h w now n r" for r c
    using that by (simp add: give_up_step handoff_owned_def settled_def)
  have fail: "row_step r ((handoff_unlock r)\<lparr>eh_status := HFailed, eh_failureCode := Some c,
      eh_availableAt := a, eh_updatedAt := b\<rparr>)" if "handoff_owned h w now n r" for r c a b
    using that by (auto simp: row_step_def handoff_owned_def handoff_unlock_def handoff_row_inv_def
        handoff_check_def settled_def)
  have sent: "row_step r ((handoff_unlock r)\<lparr>eh_status := HSent, eh_sentAt := Some a, eh_failureCode := None,
      eh_updatedAt := b\<rparr>)" if "handoff_owned h w now n r" for r a b
    using that by (auto simp: row_step_def handoff_owned_def handoff_unlock_def handoff_row_inv_def
        handoff_check_def settled_def)
  show ?thesis
    using assms
    by (auto intro!: rows_stepI own fail sent simp: settle_handoff_def settle_sent_def settle_failed_def settle_where_def
        split: if_splits)
qed

text \<open>What queueing adds: nothing, or one row under a new id and source.\<close>

lemma insert_handoff_Inr:
  assumes "insert_handoff r db = Inr (db', b)"
  shows "db' = db \<and> \<not> b \<or>
    b \<and> mail_handoffs db' = mail_handoffs db @ [r] \<and> eh_id r \<notin> eh_id ` set (mail_handoffs db) \<and>
    (\<forall>s. eh_sourceOutboxEventId r = Some s \<longrightarrow> s \<notin> set (handoff_sources (mail_handoffs db)))"
  using assms by (auto simp: insert_handoff_def split: if_splits option.splits)

definition adds_row :: "handoff_row list \<Rightarrow> handoff_row list \<Rightarrow> bool" where
  "adds_row t t' \<longleftrightarrow>
     t' = t \<or> (\<exists>r. t' = t @ [r] \<and> handoff_row_inv r \<and> eh_id r \<notin> eh_id ` set t \<and>
       (\<forall>s. eh_sourceOutboxEventId r = Some s \<longrightarrow> s \<notin> set (handoff_sources t)))"

lemma insert_adds:
  "insert_handoff r db = Inr (db', b) \<Longrightarrow> handoff_row_inv r \<Longrightarrow> adds_row (mail_handoffs db) (mail_handoffs db')"
  by (drule insert_handoff_Inr) (auto simp: adds_row_def)

lemma mail_event_rows: "mail_event pf k e now db = Inr db' \<Longrightarrow> mail_handoffs db' = mail_handoffs db"
  by (auto simp: mail_event_def split: sum.splits)

lemma new_rows_inv: "handoff_row_inv (pending_row i de se td)" "handoff_row_inv (attention_row i td)"
  by (simp_all add: handoff_row_inv_def handoff_check_def pending_row_def attention_row_def)

lemma queue_cases:
  assumes "queueSecurityEmailHandoff pf kr n1 n2 k i db = Inr (db', h)"
  obtains de se td db1 b where "insert_handoff (pending_row i de se td) db = Inr (db1, b)"
    "db' = db1 \<or> mail_event pf k (requested_event i) (hi_now i) db1 = Inr db'"
proof -
  from assms have "\<exists>de se td db1 b. insert_handoff (pending_row i de se td) db = Inr (db1, b) \<and>
      (db' = db1 \<or> mail_event pf k (requested_event i) (hi_now i) db1 = Inr db')"
    unfolding queueSecurityEmailHandoff_def
    by (auto simp: result_iffs map_sum_def split: if_splits sum.splits prod.splits) blast+
  then show thesis using that by blast
qed

lemma queue_adds:
  assumes "queueSecurityEmailHandoff pf kr n1 n2 k i db = Inr (db', h)"
  shows "adds_row (mail_handoffs db) (mail_handoffs db')"
  using assms
proof (rule queue_cases)
  fix de se td db1 b
  assume ins: "insert_handoff (pending_row i de se td) db = Inr (db1, b)"
    and "db' = db1 \<or> mail_event pf k (requested_event i) (hi_now i) db1 = Inr db'"
  then have "mail_handoffs db' = mail_handoffs db1" by (auto dest: mail_event_rows)
  with insert_adds [OF ins new_rows_inv(1)] show ?thesis by simp
qed

lemma queue_outbox:
  assumes "queueSecurityEmailHandoff pf kr n1 n2 k i db = Inr (db', h)"
  shows "outbox_ids (mail_outbox db') \<subseteq> insert k (outbox_ids (mail_outbox db))"
  using assms
proof (rule queue_cases)
  fix de se td db1 b
  assume ins: "insert_handoff (pending_row i de se td) db = Inr (db1, b)"
    and ev: "db' = db1 \<or> mail_event pf k (requested_event i) (hi_now i) db1 = Inr db'"
  from ins have "mail_outbox db1 = mail_outbox db"
    by (auto simp: insert_handoff_def split: if_splits)
  then show ?thesis
    using ev by (auto simp: mail_event_def outbox_ids_def split: sum.splits dest!: insertOutboxEvent_Inr)
qed

lemma notice_adds:
  assumes "queueUserSecurityNotice pf kr n1 n2 k h u ev now db = Inr (db', h')"
  shows "adds_row (mail_handoffs db) (mail_handoffs db')"
  using assms by (auto simp: queueUserSecurityNotice_def dest: queue_adds split: option.splits)

lemma attention_adds:
  assumes "recordSecurityEmailAttentionRequired pf i db = Inr (db', h)"
  shows "adds_row (mail_handoffs db) (mail_handoffs db')"
proof -
  from assms obtain td db1 b where ins: "insert_handoff (attention_row i td) db = Inr (db1, b)" and "db' = db1"
    unfolding recordSecurityEmailAttentionRequired_def
    by (auto simp: result_iffs map_sum_def split: if_splits sum.splits)
  with insert_adds [OF ins new_rows_inv(2)] show ?thesis by simp
qed

subsection \<open>Reachable states\<close>

text \<open>The state is the database and the list of provider calls made so far, each as the handoff and
  the number of its attempt. Any interleaving of the statements of any number of workers is a
  sequence of steps; a settling worker may report whatever it likes.\<close>

type_synonym mail_sys = "mail_db \<times> (string \<times> nat) list"

inductive mail_step :: "mail_sys \<Rightarrow> mail_sys \<Rightarrow> bool" where
  mail_queue: "queueSecurityEmailHandoff pf kr n1 n2 k i db = Inr (db', h) \<Longrightarrow> mail_step (db, l) (db', l)"
| mail_notice: "queueUserSecurityNotice pf kr n1 n2 k h u ev now db = Inr (db', h') \<Longrightarrow> mail_step (db, l) (db', l)"
| mail_attention: "recordSecurityEmailAttentionRequired pf i db = Inr (db', h) \<Longrightarrow> mail_step (db, l) (db', l)"
| mail_retire: "retire_handoff pf k h now db = Inr (db', b) \<Longrightarrow> mail_step (db, l) (db', l)"
| mail_recover: "recover_handoff h now db = (db', n) \<Longrightarrow> mail_step (db, l) (db', l)"
| mail_claim_send: "claim_handoff h w ms now db = (db', Some r) \<Longrightarrow> open_handoff pf kr r = Inr m \<Longrightarrow>
    mail_step (db, l) (db', l @ [(eh_id r, eh_attempts r)])"
| mail_claim: "claim_handoff h w ms now db = (db', c) \<Longrightarrow> mail_step (db, l) (db', l)"
| mail_settle: "settle_handoff ok h w now n db = (db', r) \<Longrightarrow> mail_step (db, l) (db', l)"

definition mail_rows_inv :: "handoff_row list \<Rightarrow> bool" where
  "mail_rows_inv t \<longleftrightarrow> distinct (map eh_id t) \<and> distinct (handoff_sources t) \<and> list_all handoff_row_inv t"

definition call_counted :: "handoff_row list \<Rightarrow> string \<times> nat \<Rightarrow> bool" where
  "call_counted t c \<longleftrightarrow> (\<exists>r \<in> set t. eh_id r = fst c \<and> 1 \<le> snd c \<and> snd c \<le> eh_attempts r)"

fun mail_inv :: "mail_sys \<Rightarrow> bool" where
  "mail_inv (db, l) \<longleftrightarrow>
     mail_rows_inv (mail_handoffs db) \<and> distinct l \<and> list_all (call_counted (mail_handoffs db)) l"

lemma rows_step_keys:
  assumes "rows_step t t'"
  shows "map eh_id t' = map eh_id t" "handoff_sources t' = handoff_sources t"
  using assms unfolding rows_step_def
  by (induction rule: list_all2_induct) (auto simp: row_step_keys handoff_sources_def List.map_filter_simps split: option.split)

lemma rows_step_row:
  assumes "rows_step t t'"
  shows "r \<in> set t \<Longrightarrow> \<exists>r' \<in> set t'. row_step r r'" and "r' \<in> set t' \<Longrightarrow> \<exists>r \<in> set t. row_step r r'"
  using assms unfolding rows_step_def
  by (metis list_all2_conv_all_nth in_set_conv_nth)+

lemma rows_step_inv:
  assumes "rows_step t t'" "mail_rows_inv t"
  shows "mail_rows_inv t'"
proof -
  have "handoff_row_inv r'" if "r' \<in> set t'" for r'
  proof -
    from rows_step_row(2) [OF assms(1) that] obtain r where r: "r \<in> set t" "row_step r r'" by blast
    then have "handoff_row_inv r" using assms(2) by (simp add: mail_rows_inv_def list_all_iff)
    with r(2) show ?thesis by (auto simp: row_step_def)
  qed
  then show ?thesis
    using assms by (simp add: mail_rows_inv_def rows_step_keys [OF assms(1)] list_all_iff)
qed

lemma adds_row_inv:
  assumes "adds_row t t'" "mail_rows_inv t"
  shows "mail_rows_inv t'"
  using assms by (auto simp: adds_row_def mail_rows_inv_def handoff_sources_def List.map_filter_def
      split: option.splits)

lemma call_counted_step:
  assumes "rows_step t t' \<or> adds_row t t'" "call_counted t c"
  shows "call_counted t' c"
  using assms(1)
proof
  assume step: "rows_step t t'"
  obtain r where r: "r \<in> set t" "eh_id r = fst c" "1 \<le> snd c" "snd c \<le> eh_attempts r"
    using assms(2) by (auto simp: call_counted_def)
  then obtain r' where "r' \<in> set t'" "row_step r r'" using rows_step_row(1) [OF step] by blast
  with r show ?thesis by (force simp: call_counted_def row_step_def)
next
  assume "adds_row t t'"
  with assms(2) show ?thesis by (auto simp: call_counted_def adds_row_def)
qed

text \<open>Every step moves the rows or adds one, and calls the provider only with a new attempt.\<close>

lemma mail_step_rows:
  assumes "mail_step (db, l) (db', l')"
  shows "rows_step (mail_handoffs db) (mail_handoffs db') \<or> adds_row (mail_handoffs db) (mail_handoffs db')"
  using assms
  by cases (auto dest: queue_adds notice_adds attention_adds retire_step recover_step claim_handoff_step settle_step)

lemma mail_step_log:
  assumes "mail_step (db, l) (db', l')" "distinct (map eh_id (mail_handoffs db))"
  shows "l' = l \<or> (\<exists>r \<in> set (mail_handoffs db). \<exists>r' \<in> set (mail_handoffs db'). \<not> settled r \<and> eh_id r' = eh_id r \<and>
    eh_attempts r' = eh_attempts r + 1 \<and> l' = l @ [(eh_id r, eh_attempts r + 1)])"
  using assms(1)
proof cases
  case (mail_claim_send h w ms now r pf kr m)
  then obtain r0 where r0: "r0 \<in> set (mail_handoffs db)" "eh_id r0 = h" "handoff_claimable now r0"
      "r = handoff_claim w now ms r0"
    by (auto simp: claim_handoff_def Let_def dest: find_Some_in)
  moreover have "r \<in> set (mail_handoffs db')"
    using mail_claim_send r0 by (auto simp: claim_handoff_def Let_def intro: rows_updateI)
  moreover have "\<not> settled r0" using r0(3) by (simp add: handoff_claimable_def settled_def)
  ultimately show ?thesis using mail_claim_send(1) by (force simp: handoff_claim_def)
qed auto

lemma mail_step_inv:
  assumes "mail_step s t" "mail_inv s"
  shows "mail_inv t"
proof -
  obtain db l db' l' where st: "s = (db, l)" "t = (db', l')" by (metis surj_pair)
  let ?h = "mail_handoffs db" and ?h' = "mail_handoffs db'"
  from assms(2) have inv: "mail_rows_inv ?h" "distinct l" "list_all (call_counted ?h) l" by (simp_all add: st)
  have step: "rows_step ?h ?h' \<or> adds_row ?h ?h'" using mail_step_rows assms(1) st by blast
  have rows: "mail_rows_inv ?h'" using step inv(1) rows_step_inv adds_row_inv by blast
  have old: "list_all (call_counted ?h') l"
    using inv(3) call_counted_step [OF step] by (auto simp: list_all_iff)
  have keys: "distinct (map eh_id ?h)" using inv(1) by (simp add: mail_rows_inv_def)
  from mail_step_log [OF assms(1) [unfolded st] keys] show ?thesis
  proof
    assume "l' = l" then show ?thesis using rows old inv(2) by (simp add: st)
  next
    assume "\<exists>r \<in> set ?h. \<exists>r' \<in> set ?h'. \<not> settled r \<and> eh_id r' = eh_id r \<and>
      eh_attempts r' = eh_attempts r + 1 \<and> l' = l @ [(eh_id r, eh_attempts r + 1)]"
    then obtain r r' where r: "r \<in> set ?h" "r' \<in> set ?h'" "eh_id r' = eh_id r" "eh_attempts r' = eh_attempts r + 1"
        "l' = l @ [(eh_id r, eh_attempts r + 1)]" by blast
    have "(eh_id r, eh_attempts r + 1) \<notin> set l"
    proof
      assume "(eh_id r, eh_attempts r + 1) \<in> set l"
      then obtain q where "q \<in> set ?h" "eh_id q = eh_id r" "eh_attempts r + 1 \<le> eh_attempts q"
        using inv(3) by (auto simp: list_all_iff call_counted_def)
      with r(1) keys show False using distinct_key_eq [of eh_id ?h q r] by simp
    qed
    moreover have "call_counted ?h' (eh_id r, eh_attempts r + 1)"
      using r by (force simp: call_counted_def)
    ultimately show ?thesis using rows old inv(2) r(5) by (simp add: st)
  qed
qed

definition mail_start :: "mail_sys \<Rightarrow> bool" where
  "mail_start s \<longleftrightarrow> mail_handoffs (fst s) = [] \<and> snd s = []"

interpretation mails: inv_system mail_start mail_step mail_inv
  by unfold_locales (auto simp: mail_start_def mail_rows_inv_def handoff_sources_def List.map_filter_simps
      intro: mail_step_inv)

subsection \<open>One delivery\<close>

lemma row_step_trans: "row_step a b \<Longrightarrow> row_step b c \<Longrightarrow> row_step a c"
  by (auto simp: row_step_def)

lemma rows_step_trans: "rows_step a b \<Longrightarrow> rows_step b c \<Longrightarrow> rows_step a c"
  unfolding rows_step_def by (rule list_all2_trans [of row_step row_step row_step]) (rule row_step_trans)

lemma rows_step_refl [simp]: "rows_step t t"
  by (simp add: rows_step_def row_step_def list_all2_refl)

lemma rows_step_settled: "rows_step t t' \<Longrightarrow> r \<in> set t \<Longrightarrow> settled r \<Longrightarrow> r \<in> set t'"
  using rows_step_row(1) [of t t' r] by (auto simp: row_step_def)

lemma deliver_rows_step:
  "rows_step (mail_handoffs db)
     (mail_handoffs (fst (deliverSecurityEmailHandoff pf kr sender id k h w ms now db)))"
proof (cases "retire_handoff pf k h now db")
  case (Inr rt)
  obtain db1 b where rt: "rt = (db1, b)" by (metis surj_pair)
  obtain db2 n where rc: "recover_handoff h now db1 = (db2, n)" by (metis surj_pair)
  obtain db3 c where cl: "claim_handoff h w (case ms of None \<Rightarrow> default_lease_ms | Some m \<Rightarrow> m) now db2 = (db3, c)"
    by (metis surj_pair)
  have steps: "rows_step (mail_handoffs db) (mail_handoffs db1)" "rows_step (mail_handoffs db) (mail_handoffs db2)"
      "rows_step (mail_handoffs db) (mail_handoffs db3)"
    using retire_step [OF Inr [unfolded rt]] recover_step [OF rc] claim_handoff_step [OF cl] rows_step_trans by blast+
  have "rows_step (mail_handoffs db) (mail_handoffs (fst (settle_handoff ok h w now m db3)))" for ok m
    using steps(3) settle_step [of ok h w now m db3, OF prod.collapse [symmetric]] rows_step_trans by blast
  then show ?thesis
    using steps by (simp add: deliverSecurityEmailHandoff_def Inr rt rc cl Let_def split: option.split sum.split)
qed (simp add: deliverSecurityEmailHandoff_def)

text \<open>With the primary key, a statement on one handoff sees its row and no other.\<close>

lemma filter_key_row:
  assumes "distinct (map key t)" "r \<in> set t"
  shows "filter (\<lambda>x. key x = key r \<and> q x) t = (if q r then [r] else [])"
  using assms by (induction t) (auto simp: filter_empty_conv image_iff)

lemma find_key_row:
  assumes "distinct (map key t)" "r \<in> set t"
  shows "List.find (\<lambda>x. key x = key r \<and> q x) t = (if q r then Some r else None)"
  using assms by (induction t) (auto simp: find_None_iff image_iff)

lemma update_key_row:
  assumes "r \<in> set t" "key r = k"
  shows "(if q r then f r else r) \<in> set (rows_update (\<lambda>x. key x = k \<and> q x) f t)"
  using assms by (auto simp: in_rows_update_iff intro!: bexI [of _ r])

lemma update_key_noop:
  assumes "distinct (map key t)" "r \<in> set t" "key r = k" "\<not> q r"
  shows "rows_update (\<lambda>x. key x = k \<and> q x) f t = t"
proof (rule rows_update_noop)
  fix x
  assume "x \<in> set t"
  then show "\<not> (key x = k \<and> q x)"
    using assms distinct_key_eq [OF assms(1) _ assms(2), of x] by auto
qed

definition mail_row :: "mail_db \<Rightarrow> string \<Rightarrow> handoff_row \<Rightarrow> bool" where
  "mail_row db h r \<longleftrightarrow> mail_rows_inv (mail_handoffs db) \<and> r \<in> set (mail_handoffs db) \<and> eh_id r = h"

lemma mail_rowD:
  assumes "mail_row db h r"
  shows "distinct (map eh_id (mail_handoffs db))" "r \<in> set (mail_handoffs db)" "eh_id r = h" "handoff_row_inv r"
  using assms by (auto simp: mail_row_def mail_rows_inv_def list_all_iff)

lemma mail_row_filter:
  assumes "mail_row db h r"
  shows "filter (\<lambda>x. eh_id x = h \<and> q x) (mail_handoffs db) = (if q r then [r] else [])"
    "List.find (\<lambda>x. eh_id x = h \<and> q x) (mail_handoffs db) = (if q r then Some r else None)"
    "\<not> q r \<Longrightarrow> rows_update (\<lambda>x. eh_id x = h \<and> q x) f (mail_handoffs db) = mail_handoffs db"
    "List.find (\<lambda>x. eh_id x = h) (mail_handoffs db) = Some r"
  using mail_rowD [OF assms] filter_key_row [of eh_id "mail_handoffs db" r q] find_key_row [of eh_id "mail_handoffs db" r]
    update_key_noop [of eh_id "mail_handoffs db" r h q f] find_key_iff [of eh_id "mail_handoffs db" h r] by simp_all

lemma mail_row_step:
  assumes "mail_row db h r" "rows_step (mail_handoffs db) (mail_handoffs db')" "r' \<in> set (mail_handoffs db')" "eh_id r' = h"
  shows "mail_row db' h r'"
  using assms rows_step_inv by (simp add: mail_row_def)

text \<open>Each statement, on the row it is about.\<close>

lemma retire_idle: "mail_row db h r \<Longrightarrow> \<not> retirable now r \<Longrightarrow> retire_handoff pf k h now db = Inr (db, False)"
  by (simp add: retire_handoff_def Let_def mail_row_filter)

lemma recover_idle: "mail_row db h r \<Longrightarrow> \<not> recoverable now r \<Longrightarrow> recover_handoff h now db = (db, 0)"
  by (simp add: recover_handoff_def Let_def mail_row_filter)

lemma claim_idle: "mail_row db h r \<Longrightarrow> \<not> handoff_claimable now r \<Longrightarrow> claim_handoff h w ms now db = (db, None)"
  by (simp add: claim_handoff_def Let_def mail_row_filter)

lemma claim_takes:
  assumes "mail_row db h r" "handoff_claimable now r"
  obtains db' where "claim_handoff h w ms now db = (db', Some (handoff_claim w now ms r))"
    "mail_row db' h (handoff_claim w now ms r)" "mail_outbox db' = mail_outbox db"
proof -
  let ?r' = "handoff_claim w now ms r"
  obtain db' where db': "claim_handoff h w ms now db = (db', Some ?r')"
    using assms by (simp add: claim_handoff_def Let_def mail_row_filter)
  then have "?r' \<in> set (mail_handoffs db')" "mail_outbox db' = mail_outbox db"
    using assms mail_rowD [OF assms(1)] update_key_row [of r "mail_handoffs db" eh_id h "handoff_claimable now"]
    by (auto simp: claim_handoff_def Let_def)
  moreover have "eh_id ?r' = h" using mail_rowD(3) [OF assms(1)] by (simp add: handoff_claim_def)
  ultimately have "mail_row db' h ?r'" "mail_outbox db' = mail_outbox db"
    using mail_row_step [OF assms(1) claim_handoff_step [OF db']] by blast+
  with db' show thesis by (rule that)
qed

lemma settle_takes:
  assumes "mail_row db h r" "handoff_owned h w now n r"
  obtains r' where "mail_row (fst (settle_handoff ok h w now n db)) h r'"
    "ok \<or> provider_send_attempt_limit \<le> n \<Longrightarrow> settled r'"
    "\<not> (ok \<or> provider_send_attempt_limit \<le> n) \<Longrightarrow> eh_attempts r' = eh_attempts r \<and>
       eh_leaseExpiresAt r' = None \<and> eh_availableAt r' = now + unknown_outcome_retry_delay_ms"
proof -
  let ?db' = "fst (settle_handoff ok h w now n db)"
  obtain f where f: "mail_handoffs ?db' = rows_update (handoff_owned h w now n) f (mail_handoffs db)"
      "eh_id (f r) = eh_id r" "ok \<or> provider_send_attempt_limit \<le> n \<Longrightarrow> settled (f r)"
      "\<not> (ok \<or> provider_send_attempt_limit \<le> n) \<Longrightarrow> eh_attempts (f r) = eh_attempts r \<and>
         eh_leaseExpiresAt (f r) = None \<and> eh_availableAt (f r) = now + unknown_outcome_retry_delay_ms"
    by (cases ok; cases "provider_send_attempt_limit \<le> n";
        simp add: settle_handoff_def settle_sent_def settle_failed_def settle_where_def;
        fastforce simp: settled_def give_up_def handoff_unlock_def)
  have "f r \<in> set (mail_handoffs ?db')"
    using f(1) mail_rowD(2) [OF assms(1)] assms(2) by (simp add: rows_updateI)
  moreover have "rows_step (mail_handoffs db) (mail_handoffs ?db')"
    by (rule settle_step [OF prod.collapse [symmetric]])
  ultimately have "mail_row ?db' h (f r)"
    using mail_row_step [OF assms(1)] f(2) mail_rowD(3) [OF assms(1)] by simp
  with f(3,4) show thesis by (intro that) auto
qed

lemma fixed_excludes:
  assumes "fixed ps s" "list_all (\<lambda>p. \<not> p c) ps"
  shows "c \<notin> set s"
  using assms unfolding fixed_def by (induction rule: list_all2_induct) auto

lemma uuid_no_slash: "is_uuid s \<Longrightarrow> CHR ''/'' \<notin> set s"
  unfolding is_uuid_def by (erule fixed_excludes) (simp add: chars list_all_iff)

lemma retired_event_safe:
  assumes "is_uuid (eh_id r)"
  shows "assertSafeValue u (ev_payload (retired_event r now))"
proof -
  have "CHR ''/'' \<notin> set (eh_id r)" using assms by (rule uuid_no_slash)
  moreover have "\<not> structuredKeyIsSensitive ''handoffId''" "\<not> structuredKeyIsSensitive ''purpose''"
    "\<not> structuredKeyIsSensitive ''reason''" by code_simp+
  moreover have "CHR ''/'' \<notin> set (purpose_text (eh_purpose r))" by (cases "eh_purpose r") simp_all
  ultimately show ?thesis by (simp add: retired_event_def no_slash_safe)
qed

lemma retire_takes:
  assumes "mail_row db h r" "retirable now r" "is_uuid h" "k \<notin> outbox_ids (mail_outbox db)"
  obtains db' r' where "retire_handoff pf k h now db = Inr (db', True)" "mail_row db' h r'" "settled r'"
proof -
  let ?db1 = "db\<lparr>mail_handoffs := rows_update (\<lambda>r. eh_id r = h \<and> retirable now r) (give_up ''auth_moved'' now) (mail_handoffs db)\<rparr>"
  obtain db' where ev: "mail_event pf k (retired_event r now) now ?db1 = Inr db'"
    using retired_event_safe [of r] mail_rowD(3) [OF assms(1)] assms(3,4)
    by (auto simp: mail_event_def insertOutboxEvent_def canonicalize_plain outbox_ids_def Let_def)
  then have rt: "retire_handoff pf k h now db = Inr (db', True)"
    using assms(1,2) by (simp add: retire_handoff_def Let_def mail_row_filter)
  let ?r' = "give_up ''auth_moved'' now r"
  have "mail_handoffs db' = mail_handoffs ?db1"
    using ev by (auto simp: mail_event_def split: sum.splits)
  then have "?r' \<in> set (mail_handoffs db')"
    using assms(2) mail_rowD [OF assms(1)] update_key_row [of r "mail_handoffs db" eh_id h "retirable now"] by simp
  moreover have "eh_id ?r' = h" using mail_rowD(3) [OF assms(1)] by (simp add: give_up_def handoff_unlock_def)
  ultimately have "mail_row db' h ?r'"
    using mail_row_step [OF assms(1) retire_step [OF rt]] by blast
  moreover have "settled ?r'" by (simp add: settled_def give_up_def)
  ultimately show thesis by (rule that [OF rt])
qed

lemma recover_takes:
  assumes "mail_row db h r" "recoverable now r"
  obtains db' r' where "recover_handoff h now db = (db', 1)" "mail_row db' h r'" "settled r'"
proof -
  let ?r' = "give_up ''delivery_outcome_unknown_retry_limit'' now r"
  obtain db' where rc: "recover_handoff h now db = (db', 1)"
    using assms by (simp add: recover_handoff_def Let_def mail_row_filter)
  then have "?r' \<in> set (mail_handoffs db')"
    using assms mail_rowD [OF assms(1)] update_key_row [of r "mail_handoffs db" eh_id h "recoverable now"]
    by (auto simp: recover_handoff_def Let_def)
  moreover have "eh_id ?r' = h" using mail_rowD(3) [OF assms(1)] by (simp add: give_up_def handoff_unlock_def)
  ultimately have "mail_row db' h ?r'"
    using mail_row_step [OF assms(1) recover_step [OF rc]] by blast
  moreover have "settled ?r'" by (simp add: settled_def give_up_def)
  ultimately show thesis by (rule that [OF rc])
qed

text \<open>A delivery that finds the handoff free settles it or uses up one attempt, and then frees it
  again within the retry delay, whatever the provider and the keyring do.\<close>

definition due_at :: "instant \<Rightarrow> handoff_row \<Rightarrow> bool" where
  "due_at now r \<longleftrightarrow> lease_free now r \<and> eh_availableAt r \<le> now"

lemma deliver_claimed:
  assumes row: "mail_row db h r" and r: "\<not> retirable now r" "\<not> recoverable now r" "handoff_claimable now r"
  shows "\<exists>r'. mail_row (fst (deliverSecurityEmailHandoff pf kr sender id k h w None now db)) h r' \<and>
     (settled r' \<or> eh_attempts r' = eh_attempts r + 1 \<and> due_at (now + unknown_outcome_retry_delay_ms) r') \<and>
     mail_outbox (fst (deliverSecurityEmailHandoff pf kr sender id k h w None now db)) = mail_outbox db"
proof -
  let ?c = "handoff_claim w now default_lease_ms r"
  obtain db3 where c: "claim_handoff h w default_lease_ms now db = (db3, Some ?c)" "mail_row db3 h ?c"
      "mail_outbox db3 = mail_outbox db"
    using claim_takes [OF row r(3)] .
  have eq: "deliverSecurityEmailHandoff pf kr sender id k h w None now db =
      (case open_handoff pf kr ?c of Inl e \<Rightarrow> (db3, Inl e)
       | Inr m \<Rightarrow> settle_handoff (sender m) h w now (eh_attempts ?c) db3)"
    using row r by (simp add: deliverSecurityEmailHandoff_def retire_idle recover_idle c(1) split: sum.split)
  have due: "due_at (now + unknown_outcome_retry_delay_ms) ?c"
    using r(3) by (simp add: due_at_def lease_free_def handoff_claimable_def handoff_claim_def
        default_lease_ms_def unknown_outcome_retry_delay_ms_def)
  show ?thesis
  proof (cases "open_handoff pf kr ?c")
    case (Inl e)
    then show ?thesis unfolding eq using c due by (auto simp: handoff_claim_def)
  next
    case (Inr m)
    have own: "handoff_owned h w now (eh_attempts ?c) ?c"
      using mail_rowD(3) [OF row] r(3) by (simp add: handoff_owned_def handoff_claim_def handoff_claimable_def)
    obtain r' where r': "mail_row (fst (settle_handoff (sender m) h w now (eh_attempts ?c) db3)) h r'"
        "sender m \<or> provider_send_attempt_limit \<le> eh_attempts ?c \<Longrightarrow> settled r'"
        "\<not> (sender m \<or> provider_send_attempt_limit \<le> eh_attempts ?c) \<Longrightarrow> eh_attempts r' = eh_attempts ?c \<and>
           eh_leaseExpiresAt r' = None \<and> eh_availableAt r' = now + unknown_outcome_retry_delay_ms"
      using settle_takes [OF c(2) own, of "sender m"] by blast
    moreover have "mail_outbox (fst (settle_handoff ok h w now n db3)) = mail_outbox db" for ok n
      using c(3) by (simp add: settle_handoff_def settle_sent_def settle_failed_def settle_where_def)
    moreover have "settled r' \<or> eh_attempts r' = eh_attempts r + 1 \<and> due_at (now + unknown_outcome_retry_delay_ms) r'"
      using r'(2,3) by (cases "sender m \<or> provider_send_attempt_limit \<le> eh_attempts ?c")
        (simp_all add: due_at_def lease_free_def handoff_claim_def)
    ultimately show ?thesis unfolding eq Inr by auto
  qed
qed

lemma deliver_progress:
  assumes row: "mail_row db h r" and r: "\<not> settled r" "due_at now r"
    and h: "is_uuid h" "k \<notin> outbox_ids (mail_outbox db)"
  shows "\<exists>r'. mail_row (fst (deliverSecurityEmailHandoff pf kr sender id k h w None now db)) h r' \<and>
     (settled r' \<or> eh_attempts r < provider_send_attempt_limit \<and> eh_attempts r' = eh_attempts r + 1 \<and>
        due_at (now + unknown_outcome_retry_delay_ms) r' \<and>
        mail_outbox (fst (deliverSecurityEmailHandoff pf kr sender id k h w None now db)) = mail_outbox db)"
proof (cases "retirable now r")
  case True
  obtain db' r' where "retire_handoff pf k h now db = Inr (db', True)" "mail_row db' h r'" "settled r'"
    using retire_takes [OF row True h] .
  then show ?thesis by (auto simp: deliverSecurityEmailHandoff_def)
next
  case no_retire: False
  have inv: "handoff_row_inv r" using mail_rowD(4) [OF row] .
  show ?thesis
  proof (cases "eh_attempts r < provider_send_attempt_limit")
    case True
    then have "handoff_claimable now r" "\<not> recoverable now r"
      using r inv by (auto simp: handoff_claimable_def recoverable_def due_at_def settled_def handoff_row_inv_def handoff_check_def)
    then show ?thesis using deliver_claimed [OF row no_retire] True by blast
  next
    case False
    then have "recoverable now r"
      using r inv by (auto simp: recoverable_def due_at_def settled_def handoff_row_inv_def handoff_check_def)
    then obtain db' r' where "recover_handoff h now db = (db', 1)" "mail_row db' h r'" "settled r'"
      using recover_takes [OF row] by blast
    then show ?thesis by (auto simp: deliverSecurityEmailHandoff_def retire_idle [OF row no_retire])
  qed
qed

subsection \<open>Successive deliveries\<close>

record delivery_call =
  dc_sender :: "mail_message \<Rightarrow> bool"
  dc_eventId :: string
  dc_workerId :: string
  dc_now :: instant

definition run_delivery :: "platform \<Rightarrow> keyring \<Rightarrow> string \<Rightarrow> mail_db \<Rightarrow> delivery_call \<Rightarrow> mail_db" where
  "run_delivery pf kr h db c =
     fst (deliverSecurityEmailHandoff pf kr (dc_sender c) id (dc_eventId c) h (dc_workerId c) None (dc_now c) db)"

fun spaced_from :: "instant \<Rightarrow> delivery_call list \<Rightarrow> bool" where
  "spaced_from t [] \<longleftrightarrow> True"
| "spaced_from t (c # cs) \<longleftrightarrow> t \<le> dc_now c \<and> spaced_from (dc_now c + unknown_outcome_retry_delay_ms) cs"

lemma due_at_mono: "due_at t r \<Longrightarrow> t \<le> t' \<Longrightarrow> due_at t' r"
  by (auto simp: due_at_def lease_free_def split: option.splits)

lemma settled_stays:
  assumes "mail_row db h r" "settled r"
  shows "mail_row (foldl (run_delivery pf kr h) db cs) h r"
  using assms
proof (induction cs arbitrary: db)
  case (Cons c cs)
  have "rows_step (mail_handoffs db) (mail_handoffs (run_delivery pf kr h db c))"
    unfolding run_delivery_def by (rule deliver_rows_step)
  then have "mail_row (run_delivery pf kr h db c) h r"
    using Cons.prems mail_row_step rows_step_settled mail_rowD(2,3) by blast
  with Cons show ?case by simp
qed simp

lemma deliveries_settle:
  assumes "mail_row db h r" "due_at t r" "is_uuid h" "spaced_from t cs"
    "dc_eventId ` set cs \<inter> outbox_ids (mail_outbox db) = {}"
    "provider_send_attempt_limit < eh_attempts r + length cs"
  shows "\<exists>r'. mail_row (foldl (run_delivery pf kr h) db cs) h r' \<and> settled r'"
  using assms
proof (induction cs arbitrary: db r t)
  case Nil
  then show ?case using mail_rowD(4) [OF Nil.prems(1)] by (simp add: handoff_row_inv_def)
next
  case (Cons c cs)
  show ?case
  proof (cases "settled r")
    case True then show ?thesis using settled_stays [OF Cons.prems(1)] by blast
  next
    case False
    let ?db' = "run_delivery pf kr h db c"
    have due: "due_at (dc_now c) r" using Cons.prems(2,4) due_at_mono by simp
    have fresh: "dc_eventId c \<notin> outbox_ids (mail_outbox db)" using Cons.prems(5) by auto
    obtain r' where r': "mail_row ?db' h r'"
        "settled r' \<or> eh_attempts r < provider_send_attempt_limit \<and> eh_attempts r' = eh_attempts r + 1 \<and>
          due_at (dc_now c + unknown_outcome_retry_delay_ms) r' \<and> mail_outbox ?db' = mail_outbox db"
      using deliver_progress [OF Cons.prems(1) False due Cons.prems(3) fresh] unfolding run_delivery_def by blast
    show ?thesis
    proof (cases "settled r'")
      case True
      then show ?thesis using settled_stays [OF r'(1)] by auto
    next
      case False
      then show ?thesis using Cons.IH [OF r'(1) _ Cons.prems(3)] r'(2) Cons.prems(4,5,6) by auto
    qed
  qed
qed

subsection \<open>From the queue to the provider\<close>

definition queued_message :: "handoff_input \<Rightarrow> mail_message" where
  "queued_message i = \<lparr>mm_handoffId = hi_id i, mm_purpose = hi_purpose i, mm_destination = hi_destination i,
     mm_secret = (case hi_secret i of None \<Rightarrow> None | Some s \<Rightarrow> if s = [] then None else Some s),
     mm_templateData = JObj (map (\<lambda>(k, v). (k, JStr v)) (hi_templateData i))\<rparr>"

lemma queued_row:
  assumes laws: "platform_laws pf" "keyring_ok kr" "length n1 = 12" "length n2 = 12"
    and queue: "queueSecurityEmailHandoff pf kr n1 n2 k i db = Inr (db', hi_id i)"
    and fresh: "hi_id i \<notin> eh_id ` set (mail_handoffs db)"
  obtains r where "r \<in> set (mail_handoffs db')" "eh_id r = hi_id i" "eh_purpose r = hi_purpose i" "eh_status r = HPending"
    "eh_attempts r = 0" "eh_availableAt r = hi_now i" "eh_sentAt r = None" "eh_leaseExpiresAt r = None"
    "open_handoff pf kr r = Inr (queued_message i)"
proof -
  have open_again: "mail_crypto (decryptSensitiveField pf kr b None e) = Inr p"
    if "length n = 12" "mail_crypto (encryptSensitiveField pf n kr b None p) = Inr e" for n b p e
    using open_envelope [OF laws(1) that(1), of kr b None p e kr] laws(2) that(2)
    by (auto simp: mail_crypto_def keyring_ok_def split: sum.splits)
  have no_row: "existing_handoff m c src db \<noteq> Inr (hi_id i)" for m c src
    using fresh by (force simp: existing_handoff_def dest!: find_Some_in split: option.splits)
  from queue obtain de se td db1 b where q:
    "mail_crypto (encryptSensitiveField pf n1 kr (handoff_binding (hi_id i) ''destination'') None (hi_destination i)) = Inr de"
    "(case hi_secret i of None \<Rightarrow> Inr None
        | Some s \<Rightarrow> if s = [] then Inr None
            else map_sum id Some (mail_crypto (encryptSensitiveField pf n2 kr (handoff_binding (hi_id i) ''secret'') None s))) = Inr se"
    "safeTemplateData pf (hi_templateData i) = Inr td"
    "insert_handoff (pending_row i de se td) db = Inr (db1, b)"
    "(if \<not> b then map_sum id (Pair db1) (existing_handoff ''Security email handoff already exists''
              ''Security email handoff conflict'' (hi_sourceOutboxEventId i) db1)
       else await (mail_event pf k (requested_event i) (hi_now i) db1) (\<lambda>db2. Inr (db2, hi_id i))) = Inr (db', hi_id i)"
    unfolding queueSecurityEmailHandoff_def by (auto simp: result_iffs)
  let ?r = "pending_row i de se td"
  have b: "b" using insert_handoff_Inr [OF q(4)] q(5) no_row
    by (cases b) (auto simp: map_sum_def split: sum.splits)
  then have "?r \<in> set (mail_handoffs db')"
    using insert_handoff_Inr [OF q(4)] q(5)
    by (auto simp: result_iffs mail_event_def split: sum.splits)
  moreover have "open_handoff pf kr ?r = Inr (queued_message i)"
  proof -
    have sec: "(case se of None \<Rightarrow> Inr None | Some e \<Rightarrow> map_sum id Some
        (mail_crypto (decryptSensitiveField pf kr (handoff_binding (hi_id i) ''secret'') None e))) =
      Inr (case hi_secret i of None \<Rightarrow> None | Some s \<Rightarrow> if s = [] then None else Some s)"
      using q(2) open_again [OF laws(4)]
      by (fastforce simp: map_sum_def split: option.splits if_splits sum.splits)
    have td: "td = JObj (map (\<lambda>(k, v). (k, JStr v)) (hi_templateData i))"
      using q(3) by (auto simp: safeTemplateData_def canonicalize_plain split: if_splits)
    show ?thesis
      using open_again [OF laws(3) q(1)] sec by (simp add: open_handoff_def pending_row_def queued_message_def td cong: option.case_cong)
  qed
  ultimately show thesis by (intro that [of ?r]) (simp_all add: pending_row_def)
qed

lemma deliver_fresh:
  assumes row: "mail_row db h r" and r: "eh_status r = HPending" "eh_attempts r = 0" "eh_availableAt r \<le> now"
      "eh_leaseExpiresAt r = None" "eh_sentAt r = None"
    and purpose: "eh_purpose r \<notin> {EmailVerification, PasswordReset, EmailChange}"
    and opens: "open_handoff pf kr r = Inr m"
  shows "snd (deliverSecurityEmailHandoff pf kr sender id k h w ms now db) =
    (if sender m then Inr Delivered else Inl (MailError ''Security email delivery failed''))"
proof -
  let ?ms = "case ms of None \<Rightarrow> default_lease_ms | Some x \<Rightarrow> x"
  let ?c = "handoff_claim w now ?ms r"
  have idle: "\<not> retirable now r" "\<not> recoverable now r"
    using purpose r by (auto simp: retirable_def recoverable_def provider_send_attempt_limit_def)
  have "handoff_claimable now r"
    using r mail_rowD(4) [OF row]
    by (auto simp: handoff_claimable_def lease_free_def provider_send_attempt_limit_def handoff_row_inv_def handoff_check_def)
  then obtain db3 where c: "claim_handoff h w ?ms now db = (db3, Some ?c)" "mail_row db3 h ?c"
    using claim_takes [OF row] by blast
  have "open_handoff pf kr ?c = open_handoff pf kr r"
    by (simp add: open_handoff_def handoff_claim_def cong: option.case_cong)
  then have open_c: "open_handoff pf kr ?c = Inr m" using opens by simp
  have own: "filter (handoff_owned h w now 1) (mail_handoffs db3) = [?c]"
    using mail_row_filter(1) [OF c(2), of "\<lambda>x. eh_sentAt x = None \<and> eh_status x = HProcessing \<and> eh_attempts x = 1 \<and>
        eh_lockedAt x = Some now \<and> eh_lockedBy x = Some w"] r
    by (simp add: handoff_owned_def [abs_def] handoff_claim_def)
  have once: "eh_attempts ?c = 1" using r(2) by (simp add: handoff_claim_def)
  show ?thesis
    using own idle
    by (simp add: deliverSecurityEmailHandoff_def retire_idle [OF row] recover_idle [OF row] c(1) open_c once
        settle_handoff_def settle_sent_def settle_failed_def settle_where_def provider_send_attempt_limit_def)
qed

subsection \<open>Properties\<close>

lemma queue_reaches:
  "mail_step (db, []) (db', l) \<Longrightarrow> mail_start (db, []) \<Longrightarrow> mail_inv (db', l)"
  using mails.start_inv mails.step_inv by blast

definition sample_handoff_id :: string where
  "sample_handoff_id = ''11111111-1111-4111-8111-111111111111''"

definition sample_mail_input :: handoff_input where
  "sample_mail_input = \<lparr>hi_id = sample_handoff_id, hi_userId = ''u1'', hi_purpose = RefundStatus,
     hi_destination = ''a@example.test'', hi_secret = None, hi_templateData = [(''event'', ''sent'')],
     hi_sourceOutboxEventId = None, hi_now = 5\<rparr>"

definition sample_mail_db :: mail_db where
  "sample_mail_db = \<lparr>mail_handoffs = [], mail_outbox = [], mail_users = [(''u1'', ''a@example.test'')]\<rparr>"

definition sample_mail_keyring :: keyring where
  "sample_mail_keyring = \<lparr>kr_activeKeyId = ''k1'', kr_keys = [(''k1'', sample_key)]\<rparr>"

definition sample_nonce :: string where
  "sample_nonce = replicate 12 (CHR ''n'')"

lemma sample_mail_keyring_ok: "keyring_ok sample_mail_keyring"
  using createEncryptionKeyring_ok [OF sample_keyrings(1)] by (simp add: sample_mail_keyring_def)

lemma sample_uuid: "is_uuid sample_handoff_id"
  by code_simp

lemma sample_mail_start: "mail_start (sample_mail_db, [])"
  by (simp add: mail_start_def sample_mail_db_def)

lemma sample_queued:
  obtains db where "queueSecurityEmailHandoff toy_platform sample_mail_keyring sample_nonce sample_nonce ''e1''
    sample_mail_input sample_mail_db = Inr (db, sample_handoff_id)"
proof -
  have "binding_name_ok ''identity_email_handoff''" "binding_name_ok ''destination''"
    "leading_alnum is_ident 199 sample_handoff_id" by code_simp+
  then have "\<exists>e. encryptSensitiveField toy_platform sample_nonce sample_mail_keyring
      (handoff_binding sample_handoff_id ''destination'') None ''a@example.test'' = Inr e"
    by (simp add: encryptSensitiveField_def plaintextLimit_def isSafeInteger_def max_safe_integer_def keyFor_def
        sample_key_def fieldAad_def validateBinding_def split_beta sample_mail_keyring_def handoff_binding_def)
  moreover have "assertSafeValue (pf_parse_url toy_platform) (JObj [(''event'', JStr ''sent'')])"
    by code_simp
  moreover have "assertSafeValue (pf_parse_url toy_platform) (ev_payload (requested_event sample_mail_input))"
    by code_simp
  ultimately show thesis
    using that
    by (auto simp: queueSecurityEmailHandoff_def sample_mail_input_def sample_mail_db_def mail_crypto_def
        safeTemplateData_def canonicalize_plain insert_handoff_def pending_row_def mail_event_def
        insertOutboxEvent_def Let_def
        split: if_splits)
qed

lemma sample_row:
  obtains db r where "mail_step (sample_mail_db, []) (db, [])" "mail_row db sample_handoff_id r"
    "eh_purpose r = RefundStatus" "eh_status r = HPending" "eh_attempts r = 0" "eh_availableAt r = 5" "eh_sentAt r = None"
    "eh_leaseExpiresAt r = None"
    "open_handoff toy_platform sample_mail_keyring r = Inr (queued_message sample_mail_input)"
    "queueSecurityEmailHandoff toy_platform sample_mail_keyring sample_nonce sample_nonce ''e1''
       sample_mail_input sample_mail_db = Inr (db, sample_handoff_id)"
proof -
  obtain db where q: "queueSecurityEmailHandoff toy_platform sample_mail_keyring sample_nonce sample_nonce ''e1''
      sample_mail_input sample_mail_db = Inr (db, sample_handoff_id)"
    by (rule sample_queued)
  have fields: "hi_id sample_mail_input = sample_handoff_id" "hi_purpose sample_mail_input = RefundStatus"
      "hi_now sample_mail_input = 5" by (simp_all add: sample_mail_input_def)
  obtain r where r: "r \<in> set (mail_handoffs db)" "eh_id r = sample_handoff_id" "eh_purpose r = RefundStatus" "eh_status r = HPending"
    "eh_attempts r = 0" "eh_availableAt r = 5" "eh_sentAt r = None" "eh_leaseExpiresAt r = None"
    "open_handoff toy_platform sample_mail_keyring r = Inr (queued_message sample_mail_input)"
    using queued_row [OF toy_platform_laws sample_mail_keyring_ok _ _ q [folded fields(1)]]
    by (auto simp: fields sample_nonce_def sample_mail_db_def)
  have st: "mail_step (sample_mail_db, []) (db, [])" using q by (rule mail_queue)
  then have "mail_row db sample_handoff_id r"
    using queue_reaches [OF st sample_mail_start] r by (simp add: mail_row_def)
  with st r q show thesis by (intro that [of db r])
qed

text \<open>C22: Whatever the interleaving of queueing, claiming and settling workers, the provider is
  called at most three times for a handoff, never twice with the same attempt, and every row
  satisfies the table's checks: a handoff that needs attention has lost its sealed destination.\<close>

theorem mail_sent_at_most_thrice:
  assumes "mail_start s" "rtranclp mail_step s (db, l)"
  shows "distinct l \<and> length (filter (\<lambda>c. fst c = h) l) \<le> 3 \<and> list_all handoff_check (mail_handoffs db)"
proof -
  have inv: "mail_inv (db, l)" using mails.reach_inv assms by blast
  then have rows: "handoff_row_inv r" if "r \<in> set (mail_handoffs db)" for r
    using that by (simp add: mail_rows_inv_def list_all_iff)
  let ?f = "filter (\<lambda>c. fst c = h) l"
  have "snd c \<in> {1..3}" if c: "c \<in> set l" for c
  proof -
    from c inv obtain r where "r \<in> set (mail_handoffs db)" "1 \<le> snd c" "snd c \<le> eh_attempts r"
      by (auto simp: list_all_iff call_counted_def)
    with rows show ?thesis by (fastforce simp: handoff_row_inv_def provider_send_attempt_limit_def)
  qed
  then have "set ?f \<subseteq> {h} \<times> {1..3}" by auto
  then have "card (set ?f) \<le> card ({h} \<times> {1..3 :: nat})" by (intro card_mono) auto
  moreover have "distinct ?f" using inv by simp
  ultimately have "length ?f \<le> 3" using distinct_card [of ?f] by (simp del: set_filter)
  then show ?thesis using inv rows by (auto simp: list_all_iff handoff_row_inv_def)
qed

theorem mail_sent_at_most_thrice_witness:
  "\<exists>db l. rtranclp mail_step (sample_mail_db, []) (db, l) \<and> l = [(sample_handoff_id, 1)] \<and>
     length (filter (\<lambda>c. fst c = sample_handoff_id) l) \<le> 3"
proof -
  obtain db r where r: "mail_step (sample_mail_db, []) (db, [])" "mail_row db sample_handoff_id r"
    "eh_status r = HPending" "eh_attempts r = 0" "eh_availableAt r = 5" "eh_sentAt r = None" "eh_leaseExpiresAt r = None"
    "open_handoff toy_platform sample_mail_keyring r = Inr (queued_message sample_mail_input)"
    by (rule sample_row)
  have "handoff_claimable 9 r"
    using r mail_rowD(4) [OF r(2)]
    by (auto simp: handoff_claimable_def lease_free_def provider_send_attempt_limit_def handoff_row_inv_def handoff_check_def)
  then obtain db' where c: "claim_handoff sample_handoff_id ''w1'' 30 9 db = (db', Some (handoff_claim ''w1'' 9 30 r))"
    using claim_takes [OF r(2)] by blast
  have "open_handoff toy_platform sample_mail_keyring (handoff_claim ''w1'' 9 30 r) = Inr (queued_message sample_mail_input)"
    using r(8) by (simp add: open_handoff_def handoff_claim_def cong: option.case_cong)
  from mail_claim_send [OF c this, of "[]"]
  have "mail_step (db, []) (db', [(sample_handoff_id, 1)])"
    using r(4) mail_rowD(3) [OF r(2)] by (simp add: handoff_claim_def)
  with r(1) have reach: "rtranclp mail_step (sample_mail_db, []) (db', [(sample_handoff_id, 1)])"
    by (meson converse_rtranclp_into_rtranclp r_into_rtranclp)
  show ?thesis
    using mail_sent_at_most_thrice [OF sample_mail_start reach, of sample_handoff_id] reach by blast
qed

lemma steps_settled:
  assumes "rtranclp mail_step (db, l) (db', l')" "mail_inv (db, l)" "r \<in> set (mail_handoffs db)" "settled r"
  shows "r \<in> set (mail_handoffs db') \<and> filter (\<lambda>c. fst c = eh_id r) l' = filter (\<lambda>c. fst c = eh_id r) l"
  using assms(1)
proof (induction "(db', l')" arbitrary: db' l' rule: rtranclp_induct)
  case (step y)
  obtain d m where y: "y = (d, m)" by (metis surj_pair)
  then have r: "r \<in> set (mail_handoffs d)" and m: "filter (\<lambda>c. fst c = eh_id r) m = filter (\<lambda>c. fst c = eh_id r) l"
    using step.hyps(3) by auto
  have keys: "distinct (map eh_id (mail_handoffs d))"
    using mails.steps_inv [OF step.hyps(1) assms(2)] by (simp add: y mail_rows_inv_def)
  have "r \<in> set (mail_handoffs db')"
    using mail_step_rows [OF step.hyps(2) [unfolded y]] r rows_step_settled [OF _ r assms(4)] by (auto simp: adds_row_def)
  moreover have "filter (\<lambda>c. fst c = eh_id r) l' = filter (\<lambda>c. fst c = eh_id r) m"
    using mail_step_log [OF step.hyps(2) [unfolded y] keys] distinct_key_eq [OF keys _ r] assms(4) by fastforce
  ultimately show ?case using m by simp
qed (use assms in simp)

text \<open>A settled handoff is final: once a mail is sent or needs attention, whatever the workers do
  afterwards, its row never changes again and the provider is not called for it again.\<close>

theorem settled_mail_is_final:
  assumes "mail_start s" "rtranclp mail_step s (db, l)" "rtranclp mail_step (db, l) (db', l')"
    and "r \<in> set (mail_handoffs db)" "settled r"
  shows "r \<in> set (mail_handoffs db') \<and> filter (\<lambda>c. fst c = eh_id r) l' = filter (\<lambda>c. fst c = eh_id r) l"
  using steps_settled [OF assms(3) mails.reach_inv [OF assms(1,2)] assms(4,5)] .

theorem settled_mail_is_final_witness:
  "\<exists>db r. recordSecurityEmailAttentionRequired toy_platform sample_mail_input sample_mail_db = Inr (db, sample_handoff_id) \<and>
     r \<in> set (mail_handoffs (fst (claim_handoff sample_handoff_id ''w'' 30 9 db))) \<and> eh_status r = HAttention"
proof -
  have "assertSafeValue (pf_parse_url toy_platform) (JObj [(''event'', JStr ''sent'')])"
    by code_simp
  then obtain db r where a: "recordSecurityEmailAttentionRequired toy_platform sample_mail_input sample_mail_db = Inr (db, sample_handoff_id)"
      "r \<in> set (mail_handoffs db)" "eh_status r = HAttention"
    by (auto simp: recordSecurityEmailAttentionRequired_def sample_mail_input_def sample_mail_db_def safeTemplateData_def
        canonicalize_plain insert_handoff_def attention_row_def)
  have reach: "rtranclp mail_step (sample_mail_db, []) (db, [])"
    using mail_attention [OF a(1)] by (rule r_into_rtranclp)
  have "rtranclp mail_step (db, []) (fst (claim_handoff sample_handoff_id ''w'' 30 9 db), [])"
    by (rule r_into_rtranclp, rule mail_claim [OF prod.collapse [symmetric]])
  from settled_mail_is_final [OF sample_mail_start reach this a(2)] a show ?thesis
    by (auto simp: settled_def)
qed

text \<open>While a lease runs, delivery is exclusive: after one worker has claimed a handoff, a
  delivery by anyone before the lease ends changes nothing, calls no provider and fails as
  unavailable.\<close>

theorem leased_mail_is_exclusive:
  assumes "mail_rows_inv (mail_handoffs db)" "claim_handoff h w ms now db = (db', Some r)" "now' < now + ms"
  shows "deliverSecurityEmailHandoff pf kr sender meanwhile k h w' ms' now' db' =
    (db', Inl (MailError ''Security email handoff is unavailable''))"
proof -
  obtain r0 where r0: "r0 \<in> set (mail_handoffs db)" "eh_id r0 = h" "handoff_claimable now r0" "r = handoff_claim w now ms r0"
    using assms(2) by (auto simp: claim_handoff_def Let_def dest: find_Some_in)
  have "mail_row db h r0" using assms(1) r0 by (simp add: mail_row_def)
  from claim_takes [OF this r0(3), of w ms] have row: "mail_row db' h r"
    using assms(2) r0(4) by auto
  have busy: "\<not> lease_free now' r" using mail.claim_leased [OF assms(3)] by (simp add: r0(4))
  then have "\<not> retirable now' r" "\<not> recoverable now' r" "\<not> handoff_claimable now' r"
    by (simp_all add: handoff_guard_defs)
  moreover have "unclaimed_outcome h db' = Inl (MailError ''Security email handoff is unavailable'')"
    using r0(3) by (simp add: unclaimed_outcome_def mail_row_filter(4) [OF row] r0(4) handoff_claim_def handoff_claimable_def)
  ultimately show ?thesis
    by (simp add: deliverSecurityEmailHandoff_def retire_idle [OF row] recover_idle [OF row] claim_idle [OF row])
qed

theorem leased_mail_is_exclusive_witness:
  "\<exists>db db' r. claim_handoff sample_handoff_id ''w1'' 30 9 db = (db', Some r) \<and>
     deliverSecurityEmailHandoff toy_platform sample_mail_keyring (\<lambda>_. True) id ''e2'' sample_handoff_id ''w2'' None 20 db' =
       (db', Inl (MailError ''Security email handoff is unavailable''))"
proof -
  obtain db r where r: "mail_row db sample_handoff_id r"
    "eh_status r = HPending" "eh_attempts r = 0" "eh_availableAt r = 5" "eh_sentAt r = None" "eh_leaseExpiresAt r = None"
    by (rule sample_row)
  have "handoff_claimable 9 r"
    using r mail_rowD(4) [OF r(1)]
    by (auto simp: handoff_claimable_def lease_free_def provider_send_attempt_limit_def handoff_row_inv_def handoff_check_def)
  then obtain db' where c: "claim_handoff sample_handoff_id ''w1'' 30 9 db = (db', Some (handoff_claim ''w1'' 9 30 r))"
    using claim_takes [OF r(1)] by blast
  show ?thesis
    using leased_mail_is_exclusive [OF _ c, of 20] r(1) c unfolding mail_row_def by fastforce
qed

text \<open>C35: A handoff comes to an end: from any state of its row, four deliveries at least a minute
  apart, the first not before the row is due, leave it sent or in need of attention, whatever the
  provider answers and even if the stored fields cannot be opened.\<close>

theorem four_deliveries_settle:
  assumes "mail_rows_inv (mail_handoffs db)" "r \<in> set (mail_handoffs db)" "is_uuid (eh_id r)" "due_at t r"
    and "length cs = 4" "spaced_from t cs" "dc_eventId ` set cs \<inter> outbox_ids (mail_outbox db) = {}"
  shows "\<exists>r' \<in> set (mail_handoffs (foldl (run_delivery pf kr (eh_id r)) db cs)). eh_id r' = eh_id r \<and> settled r'"
proof -
  have "mail_row db (eh_id r) r" using assms(1,2) by (simp add: mail_row_def)
  from deliveries_settle [OF this assms(4,3,6,7), of pf kr] assms(5) show ?thesis
    by (auto simp: provider_send_attempt_limit_def mail_row_def)
qed

definition sample_calls :: "delivery_call list" where
  "sample_calls = map (\<lambda>n. \<lparr>dc_sender = (\<lambda>_. False), dc_eventId = ''e9'', dc_workerId = ''w'', dc_now = n\<rparr>)
     [5, 60005, 120005, 180005]"

theorem four_deliveries_settle_witness:
  "\<exists>db. queueSecurityEmailHandoff toy_platform sample_mail_keyring sample_nonce sample_nonce ''e1''
       sample_mail_input sample_mail_db = Inr (db, sample_handoff_id) \<and>
     (\<exists>r' \<in> set (mail_handoffs (foldl (run_delivery toy_platform sample_mail_keyring sample_handoff_id) db sample_calls)).
        settled r')"
proof -
  obtain db r where r: "mail_row db sample_handoff_id r" "eh_availableAt r = 5" "eh_leaseExpiresAt r = None"
    and q: "queueSecurityEmailHandoff toy_platform sample_mail_keyring sample_nonce sample_nonce ''e1''
       sample_mail_input sample_mail_db = Inr (db, sample_handoff_id)"
    by (rule sample_row)
  have id: "eh_id r = sample_handoff_id" using mail_rowD(3) [OF r(1)] .
  have "outbox_ids (mail_outbox db) \<subseteq> {''e1''}"
    using queue_outbox [OF q] by (simp add: outbox_ids_def sample_mail_db_def)
  then have fresh: "dc_eventId ` set sample_calls \<inter> outbox_ids (mail_outbox db) = {}"
    by (auto simp: sample_calls_def)
  have due: "due_at 5 r" using r by (simp add: due_at_def lease_free_def)
  have "length sample_calls = 4" "spaced_from 5 sample_calls"
    by (simp_all add: sample_calls_def unknown_outcome_retry_delay_ms_def)
  from four_deliveries_settle [OF _ _ _ due this fresh] r(1) q sample_uuid id show ?thesis
    by (metis mail_row_def)
qed

text \<open>The provider gets exactly what was queued: a message queued under a new id and then
  delivered, in time and with the same keyring, reaches the sender with its destination, its secret
  and its template data, and the delivery succeeds exactly when the sender does.\<close>

theorem queued_mail_reaches_provider:
  assumes "platform_laws pf" "createEncryptionKeyring active keys = Inr kr" "length n1 = 12" "length n2 = 12"
    and "mail_rows_inv (mail_handoffs db)" "hi_id i \<notin> eh_id ` set (mail_handoffs db)"
    and queue: "queueSecurityEmailHandoff pf kr n1 n2 k i db = Inr (db', hi_id i)"
    and "hi_purpose i \<notin> {EmailVerification, PasswordReset, EmailChange}" "hi_now i \<le> now"
  shows "snd (deliverSecurityEmailHandoff pf kr sender id k' (hi_id i) w ms now db') =
    (if sender (queued_message i) then Inr Delivered else Inl (MailError ''Security email delivery failed''))"
proof -
  obtain r where r: "r \<in> set (mail_handoffs db')" "eh_id r = hi_id i" "eh_purpose r = hi_purpose i" "eh_status r = HPending"
    "eh_attempts r = 0" "eh_availableAt r = hi_now i" "eh_sentAt r = None" "eh_leaseExpiresAt r = None"
    "open_handoff pf kr r = Inr (queued_message i)"
    using queued_row [OF assms(1) createEncryptionKeyring_ok [OF assms(2)] assms(3,4) queue assms(6)] .
  have "mail_rows_inv (mail_handoffs db')" using queue_adds [OF queue] assms(5) by (rule adds_row_inv)
  then have row: "mail_row db' (hi_id i) r" using r by (simp add: mail_row_def)
  show ?thesis
    by (rule deliver_fresh [OF row]) (use r assms in simp_all)
qed

theorem queued_mail_reaches_provider_witness:
  "\<exists>db. queueSecurityEmailHandoff toy_platform sample_mail_keyring sample_nonce sample_nonce ''e1''
       sample_mail_input sample_mail_db = Inr (db, sample_handoff_id) \<and>
     snd (deliverSecurityEmailHandoff toy_platform sample_mail_keyring (\<lambda>m. mm_destination m = ''a@example.test'') id ''e2''
       sample_handoff_id ''w'' None 7 db) = Inr Delivered"
proof -
  obtain db where q: "queueSecurityEmailHandoff toy_platform sample_mail_keyring sample_nonce sample_nonce ''e1''
      sample_mail_input sample_mail_db = Inr (db, hi_id sample_mail_input)"
    by (rule sample_queued) (simp add: sample_mail_input_def)
  have "mail_rows_inv (mail_handoffs sample_mail_db)"
    by (simp add: mail_rows_inv_def sample_mail_db_def handoff_sources_def List.map_filter_simps)
  from queued_mail_reaches_provider [OF toy_platform_laws sample_keyrings(1) _ _ this _
      q [unfolded sample_mail_keyring_def], of 7 "\<lambda>m. mm_destination m = ''a@example.test''"] q
  show ?thesis
    by (auto simp: sample_nonce_def sample_mail_db_def sample_mail_input_def queued_message_def sample_mail_keyring_def)
qed

end
