(* ===== verification/VietQr.thy ===== *)
theory VietQr
  imports JsDate "HOL-Library.Word"
begin

text \<open>
  VietQR transfer instructions (\<^verbatim>\<open>packages/payments/src/vietqr.ts\<close> and the amount check of
  \<^verbatim>\<open>packages/payments/src/tip-contracts.ts\<close>): the payload of a bank transfer QR code as nested
  tag-length-value fields with a CRC-16 at the end. The register of the CRC is a 32-bit word, as
  JavaScript's bitwise operators have it, and the masking is written out.
  Shown: the register computes the serial CRC-16 with polynomial 0x1021 over the bits of the text,
  one changed character always changes the checksum, and a reader of the format gets back exactly
  the destination, amount and reference the instruction was made from.
\<close>

unbundle bit_operations_syntax

subsection \<open>Banks, amounts and destinations\<close>

type_synonym banks = "(string \<times> string) list"

definition VIETQR_RECEIVING_BANKS :: banks where
  "VIETQR_RECEIVING_BANKS = [(''970415'', ''VietinBank''), (''970436'', ''Vietcombank'')]"

definition VIETQR_REFUND_BANKS :: banks where
  "VIETQR_REFUND_BANKS =
     [(''970415'', ''VietinBank''), (''970436'', ''Vietcombank''), (''970418'', ''BIDV''), (''970405'', ''Agribank''),
      (''970422'', ''MBBank''), (''970407'', ''Techcombank''), (''970416'', ''ACB''), (''970432'', ''VPBank''),
      (''970423'', ''TPBank''), (''970403'', ''Sacombank''), (''970437'', ''HDBank''), (''970441'', ''VIB''),
      (''970443'', ''SHB''), (''970431'', ''Eximbank''), (''970426'', ''MSB''), (''970448'', ''OCB''),
      (''970440'', ''SeABank''), (''970449'', ''LPBank''), (''970428'', ''NamABank''), (''970454'', ''VietCapitalBank'')]"

definition VIETQR_MAX_AMOUNT_VND :: int where
  "VIETQR_MAX_AMOUNT_VND = 9999999999999"

definition VIETQR_MAX_REFERENCE_LENGTH :: nat where
  "VIETQR_MAX_REFERENCE_LENGTH = 25"

datatype vietqr_error = UnsupportedBank | InvalidAccount | InvalidAmount | InvalidReference

text \<open>A JavaScript number that is no integer never passes \<open>isSafeInteger\<close>, so amounts are integers.
  \<open>policy\<close> is the optional pair of the least and the greatest amount.\<close>

definition requireIntegerVnd :: "int \<Rightarrow> (int \<times> int) option \<Rightarrow> vietqr_error + int" where
  "requireIntegerVnd v policy =
     (if \<not> isSafeInteger v \<or> v \<le> 0 \<or>
        (case policy of None \<Rightarrow> False
         | Some (minimumVnd, maximumVnd) \<Rightarrow>
             \<not> isSafeInteger minimumVnd \<or> \<not> isSafeInteger maximumVnd \<or> minimumVnd \<le> 0 \<or> maximumVnd < minimumVnd \<or>
             v < minimumVnd \<or> maximumVnd < v)
      then Inl InvalidAmount else Inr v)"

definition isVietQrDestinationSupported :: "string \<Rightarrow> string \<Rightarrow> banks \<Rightarrow> bool" where
  "isVietQrDestinationSupported bankBin accountNumber banks \<longleftrightarrow>
     bankBin \<in> fst ` set banks \<and> trim accountNumber = accountNumber \<and> repeats is_digit 6 19 accountNumber"

text \<open>\<open>^[A-Za-z0-9]+(?: [A-Za-z0-9]+)*$\<close>: words with one space between; \<open>inside\<close> tells whether the
  character before belongs to a word.\<close>

fun alnum_words :: "bool \<Rightarrow> string \<Rightarrow> bool" where
  "alnum_words inside [] = inside"
| "alnum_words inside (c # cs) =
     (if is_alnum c then alnum_words True cs else c = CHR '' '' \<and> inside \<and> alnum_words False cs)"

subsection \<open>The encoder\<close>

definition padStart :: "nat \<Rightarrow> char \<Rightarrow> string \<Rightarrow> string" where
  "padStart n c s = replicate (n - length s) c @ s"

definition tlv :: "string \<Rightarrow> string \<Rightarrow> string" where
  "tlv fieldId v = fieldId @ padStart 2 (CHR ''0'') (decimal (length v)) @ v"

text \<open>\<open>n.toString(16).toUpperCase()\<close>.\<close>

definition upper_hex_char :: "nat \<Rightarrow> char" where
  "upper_hex_char n = ''0123456789ABCDEF'' ! n"

fun upper_hex :: "nat \<Rightarrow> string" where
  "upper_hex n = (if n < 16 then [upper_hex_char n] else upper_hex (n div 16) @ [upper_hex_char (n mod 16)])"

declare upper_hex.simps [simp del]

definition crc_bit :: "32 word \<Rightarrow> 32 word" where
  "crc_bit crc = ((push_bit 1 crc) XOR (if crc AND 0x8000 \<noteq> 0 then 0x1021 else 0)) AND 0xffff"

definition crc_byte :: "32 word \<Rightarrow> char \<Rightarrow> 32 word" where
  "crc_byte crc b = (crc_bit ^^ 8) (crc XOR push_bit 8 (of_char b))"

definition vietQrCrc16 :: "string \<Rightarrow> string" where
  "vietQrCrc16 bytes = padStart 4 (CHR ''0'') (upper_hex (unat (foldl crc_byte 0xffff bytes)))"

record transfer_input =
  ti_bankBin :: string
  ti_accountNumber :: string
  ti_amountVnd :: int
  ti_transferReference :: string

record transfer_instruction = transfer_input +
  ti_bankName :: string
  ti_currency :: string
  ti_payload :: string

definition vietqr_data :: "string \<Rightarrow> string \<Rightarrow> int \<Rightarrow> string \<Rightarrow> string" where
  "vietqr_data bankBin accountNumber amountVnd reference =
     (let beneficiary = tlv ''00'' bankBin @ tlv ''01'' accountNumber;
          account = tlv ''00'' ''A000000727'' @ tlv ''01'' beneficiary @ tlv ''02'' ''QRIBFTTA''
      in tlv ''00'' ''01'' @ tlv ''01'' ''12'' @ tlv ''38'' account @
         tlv ''53'' ''704'' @ tlv ''54'' (decimal (nat amountVnd)) @ tlv ''58'' ''VN'' @
         tlv ''62'' (tlv ''08'' reference) @ ''6304'')"

definition createVietQrTransferInstruction :: "transfer_input \<Rightarrow> banks \<Rightarrow> vietqr_error + transfer_instruction" where
  "createVietQrTransferInstruction input banks =
     await (require (ti_bankBin input \<in> fst ` set banks) UnsupportedBank) (\<lambda>_.
     await (require (isVietQrDestinationSupported (ti_bankBin input) (ti_accountNumber input) banks) InvalidAccount) (\<lambda>_.
     await (requireIntegerVnd (ti_amountVnd input) (Some (1, VIETQR_MAX_AMOUNT_VND))) (\<lambda>amountVnd.
     let reference = ti_transferReference input in
     await (require (trim reference = reference \<and> length reference \<le> VIETQR_MAX_REFERENCE_LENGTH \<and> alnum_words False reference)
       InvalidReference) (\<lambda>_.
     let data = vietqr_data (ti_bankBin input) (ti_accountNumber input) amountVnd reference in
       Inr \<lparr>ti_bankBin = ti_bankBin input, ti_accountNumber = ti_accountNumber input, ti_amountVnd = amountVnd,
            ti_transferReference = reference, ti_bankName = the (map_of banks (ti_bankBin input)), ti_currency = ''VND'',
            ti_payload = data @ vietQrCrc16 data\<rparr>))))"

subsection \<open>The checksum\<close>

text \<open>The reference: the serial register of CRC-16 with polynomial 0x1021, which takes one bit of the
  message at a time, the most significant of each byte first.\<close>

definition crc_serial :: "16 word \<Rightarrow> bool \<Rightarrow> 16 word" where
  "crc_serial crc b = push_bit 1 crc XOR (if bit crc 15 \<noteq> b then 0x1021 else 0)"

definition byte_bits :: "char \<Rightarrow> bool list" where
  "byte_bits c = map (bit (of_char c :: nat)) (rev [0..<8])"

definition crc16 :: "string \<Rightarrow> 16 word" where
  "crc16 s = foldl crc_serial 0xffff (concat (map byte_bits s))"

text \<open>One step of the register without a message bit; it is linear and one to one.\<close>

definition crc_step :: "16 word \<Rightarrow> 16 word" where
  "crc_step w = push_bit 1 w XOR (if bit w 15 then 0x1021 else 0)"

lemma bit_poly: "bit (0x1021 :: int) n \<longleftrightarrow> n = 0 \<or> n = 5 \<or> n = 12"
proof (cases "n < 16")
  case True
  have "\<forall>n \<in> set [0..<16]. bit (0x1021 :: int) n \<longleftrightarrow> n = 0 \<or> n = 5 \<or> n = 12" by code_simp
  with True show ?thesis by simp
next
  case False
  then have "(2 :: int) ^ 16 \<le> 2 ^ n" by (intro power_increasing) simp_all
  with False show ?thesis by (auto simp: bit_iff_odd)
qed

lemma bit_8000: "bit (0x8000 :: int) n \<longleftrightarrow> n = 15"
proof -
  have "(0x8000 :: int) = push_bit 15 1" by (simp add: push_bit_eq_mult)
  then show ?thesis by (auto simp only: bit_push_bit_iff bit_1_iff) auto
qed

lemma and_8000: "(x :: 32 word) AND 0x8000 \<noteq> 0 \<longleftrightarrow> bit x 15"
proof -
  have "(0x8000 :: 32 word) = push_bit 15 1" by simp
  then show ?thesis by (metis bit_iff_and_push_bit_not_eq_0)
qed

lemma and_ffff: "(x :: 32 word) AND 0xffff = take_bit 16 x"
proof -
  have "(0xffff :: 32 word) = mask 16" by (simp add: mask_eq_exp_minus_1)
  then show ?thesis by (metis take_bit_eq_mask)
qed

lemma bit_crc_step: "bit (crc_step w) n \<longleftrightarrow> n < 16 \<and> ((0 < n \<and> bit w (n - 1)) \<noteq> (bit w 15 \<and> (n = 0 \<or> n = 5 \<or> n = 12)))"
  unfolding crc_step_def bit_xor_iff bit_push_bit_iff by (auto simp: bit_poly)

lemma bit_crc_bit: "bit (crc_bit x) n \<longleftrightarrow> n < 16 \<and> ((0 < n \<and> bit x (n - 1)) \<noteq> (bit x 15 \<and> (n = 0 \<or> n = 5 \<or> n = 12)))"
  unfolding crc_bit_def and_8000 and_ffff bit_take_bit_iff bit_xor_iff bit_push_bit_iff by (auto simp: bit_poly)

lemma crc_bit_ucast: "crc_bit (ucast w) = ucast (crc_step w)"
  by (rule bit_word_eqI) (auto simp: bit_crc_bit bit_crc_step bit_ucast_iff)

lemma crc_step_xor: "crc_step (x XOR y) = crc_step x XOR crc_step y"
  by (rule bit_word_eqI) (auto simp: bit_crc_step bit_xor_iff)

lemma crc_step_inj: "inj crc_step"
proof (rule injI)
  fix x y
  assume "crc_step x = crc_step y"
  then have eq: "bit (crc_step x) n = bit (crc_step y) n" for n by simp
  have top: "bit x 15 = bit y 15" using eq [of 0] by (simp add: bit_crc_step)
  have low: "bit x n = bit y n" if "n < 15" for n
    using eq [of "n + 1"] that top by (auto simp: bit_crc_step)
  show "x = y"
  proof (rule bit_word_eqI)
    fix n
    assume "n < LENGTH(16)"
    then consider "n < 15" | "n = 15" by fastforce
    then show "bit x n = bit y n" using low top by cases auto
  qed
qed

text \<open>Feeding \<open>k\<close> bits one by one is the same as adding them to the top of the register and then
  stepping \<open>k\<close> times.\<close>

fun topbits :: "bool list \<Rightarrow> 16 word" where
  "topbits [] = 0"
| "topbits (b # bs) = (if b then 0x8000 else 0) XOR drop_bit 1 (topbits bs)"

lemma bit_topbits: "length bs \<le> 16 \<Longrightarrow> bit (topbits bs) n \<longleftrightarrow> n < 16 \<and> 15 - n < length bs \<and> bs ! (15 - n)"
proof (induction bs arbitrary: n)
  case (Cons b bs)
  have "bit (topbits (b # bs)) n \<longleftrightarrow> (b \<and> n = 15) \<noteq> bit (topbits bs) (n + 1)"
    unfolding topbits.simps bit_xor_iff bit_drop_bit_eq by (auto simp: bit_8000 simp del: drop_bit_numeral_bit1)
  moreover have "n < 15 \<Longrightarrow> 15 - n = Suc (15 - (n + 1))" by simp
  ultimately show ?case using Cons by (cases "n < 15"; cases "n = 15") auto
qed simp

lemma crc_serial_step: "crc_serial w b = crc_step (w XOR (if b then 0x8000 else 0))"
proof (rule bit_word_eqI)
  fix n
  have "bit (crc_serial w b) n \<longleftrightarrow> n < 16 \<and> ((0 < n \<and> bit w (n - 1)) \<noteq> ((bit w 15 \<noteq> b) \<and> (n = 0 \<or> n = 5 \<or> n = 12)))"
    unfolding crc_serial_def bit_xor_iff bit_push_bit_iff by (auto simp: bit_poly)
  then show "bit (crc_serial w b) n = bit (crc_step (w XOR (if b then 0x8000 else 0))) n"
    by (auto simp: bit_crc_step bit_xor_iff bit_8000)
qed

lemma crc_step_drop:
  assumes "\<not> bit t 0"
  shows "crc_step (drop_bit (Suc 0) t) = t"
proof (rule bit_word_eqI)
  fix n
  assume n: "n < LENGTH(16)"
  have "bit (drop_bit (Suc 0) t) m = bit t (m + 1)" for m by (simp only: bit_drop_bit_eq) (simp add: add.commute)
  moreover have "\<not> bit t 16" using bit_imp_le_length [of t 16] by auto
  ultimately show "bit (crc_step (drop_bit (Suc 0) t)) n = bit t n"
    using n assms by (cases n) (auto simp: bit_crc_step)
qed

lemma crc_serial_bits:
  assumes "length bs \<le> 16"
  shows "foldl crc_serial w bs = (crc_step ^^ length bs) (w XOR topbits bs)"
  using assms
proof (induction bs arbitrary: w)
  case (Cons b bs)
  have "\<not> bit (topbits bs) 0" using Cons.prems by (simp add: bit_topbits)
  then have "crc_step (w XOR topbits (b # bs)) = crc_serial w b XOR topbits bs"
    by (simp add: crc_serial_step crc_step_xor crc_step_drop xor.assoc)
  then show ?case using Cons by (simp add: funpow_swap1)
qed simp

lemma topbits_byte: "ucast (topbits (byte_bits c)) = push_bit 8 (of_char c :: 32 word)"
proof (rule bit_word_eqI)
  fix n
  have len: "length (byte_bits c) = 8" by (simp add: byte_bits_def)
  have b: "bit (of_char c :: 32 word) m \<longleftrightarrow> m < 8 \<and> bit (of_char c :: nat) m" for m
  proof -
    have "bit (of_char c :: 32 word) m \<longleftrightarrow> m < 32 \<and> bit (of_char c :: nat) m"
      by (simp only: of_nat_of_char [symmetric, where ?'a = "32 word"] bit_of_nat_iff) auto
    moreover have "take_bit 8 (of_char c :: nat) = of_char c" by (simp add: take_bit_eq_mod)
    then have "bit (of_char c :: nat) m \<Longrightarrow> m < 8" by (metis bit_take_bit_iff)
    ultimately show ?thesis by auto
  qed
  show "n < LENGTH(32) \<Longrightarrow> bit (ucast (topbits (byte_bits c)) :: 32 word) n = bit (push_bit 8 (of_char c :: 32 word)) n"
    unfolding bit_push_bit_iff b
    using len by (auto simp: bit_ucast_iff bit_topbits byte_bits_def rev_nth)
qed

lemma crc_byte_bits: "crc_byte (ucast w) c = ucast (foldl crc_serial w (byte_bits c))"
proof -
  have len: "length (byte_bits c) = 8" by (simp add: byte_bits_def)
  have "(crc_bit ^^ n) (ucast v) = ucast ((crc_step ^^ n) v)" for n v
    by (induction n) (simp_all add: crc_bit_ucast)
  moreover have "(ucast w :: 32 word) XOR push_bit 8 (of_char c) = ucast (w XOR topbits (byte_bits c))"
    by (simp only: topbits_byte [symmetric] unsigned_xor_eq)
  ultimately show ?thesis
    using crc_serial_bits [of "byte_bits c" w] len by (simp add: crc_byte_def)
qed

lemma crc_register: "foldl crc_byte (ucast w) s = ucast (foldl crc_serial w (concat (map byte_bits s)))"
  by (induction s arbitrary: w) (simp_all add: crc_byte_bits)

lemma crc_is_serial: "foldl crc_byte 0xffff s = ucast (crc16 s)"
proof -
  have "(0xffff :: 32 word) = ucast (0xffff :: 16 word)" by simp
  then show ?thesis by (simp only: crc_register crc16_def)
qed

lemma crc_register_unat: "unat (foldl crc_byte 0xffff s) = unat (crc16 s)"
proof -
  have "unat (crc16 s) < 2 ^ LENGTH(16)" by (rule unsigned_less)
  then show ?thesis by (simp add: crc_is_serial unsigned_ucast_eq take_bit_nat_eq_self)
qed

lemma crc_lt: "unat (foldl crc_byte 0xffff s) < 65536"
proof -
  have "unat (crc16 s) < 2 ^ LENGTH(16)" by (rule unsigned_less)
  then show ?thesis by (simp add: crc_register_unat)
qed

text \<open>Four upper-case digits, from which the value can be read back.\<close>

lemma upper_hex_char_inj: "m < 16 \<Longrightarrow> n < 16 \<Longrightarrow> upper_hex_char m = upper_hex_char n \<longleftrightarrow> m = n"
proof -
  have "\<forall>m \<in> set [0..<16]. \<forall>n \<in> set [0..<16]. upper_hex_char m = upper_hex_char n \<longleftrightarrow> m = n" by code_simp
  then show "m < 16 \<Longrightarrow> n < 16 \<Longrightarrow> upper_hex_char m = upper_hex_char n \<longleftrightarrow> m = n" by simp
qed

lemma upper_hex_zero: "CHR ''0'' = upper_hex_char 0"
  by code_simp

lemma hex4:
  assumes "n < 65536"
  shows "padStart 4 (CHR ''0'') (upper_hex n) =
    [upper_hex_char (n div 4096), upper_hex_char (n div 256 mod 16), upper_hex_char (n div 16 mod 16), upper_hex_char (n mod 16)]"
proof -
  have split: "n div 16 div 16 = n div 256" "n div 256 div 16 = n div 4096"
    by (simp_all add: div_mult2_eq [symmetric])
  have rep: "replicate 3 c = [c, c, c]" "replicate 2 c = [c, c]" for c :: char
    by (simp_all add: numeral_eq_Suc)
  have h1: "n < 16 \<Longrightarrow> upper_hex n = [upper_hex_char n]" for n by (subst upper_hex.simps) simp
  have hs: "\<not> n < 16 \<Longrightarrow> upper_hex n = upper_hex (n div 16) @ [upper_hex_char (n mod 16)]" for n
    by (subst upper_hex.simps) simp
  consider "n < 16" | "16 \<le> n" "n < 256" | "256 \<le> n" "n < 4096" | "4096 \<le> n" by linarith
  then show ?thesis
  proof cases
    case 1
    then show ?thesis by (simp add: h1 padStart_def rep upper_hex_zero)
  next
    case 2
    then have "n div 16 < 16" by linarith
    with 2 show ?thesis by (simp add: h1 hs [of n] padStart_def rep upper_hex_zero)
  next
    case 3
    then have "n div 256 < 16" "16 \<le> n div 16" by linarith+
    with 3 show ?thesis by (simp add: h1 hs [of n] hs [of "n div 16"] split padStart_def rep upper_hex_zero)
  next
    case 4
    then have "n div 4096 < 16" "16 \<le> n div 16" "16 \<le> n div 256" using assms by linarith+
    with 4 show ?thesis
      by (simp add: h1 hs [of n] hs [of "n div 16"] hs [of "n div 256"] split padStart_def)
  qed
qed

lemma crc_length: "length (vietQrCrc16 s) = 4"
  using hex4 [OF crc_lt] by (simp add: vietQrCrc16_def)

lemma hex4_inj:
  assumes "m < 65536" "n < 65536" "padStart 4 (CHR ''0'') (upper_hex m) = padStart 4 (CHR ''0'') (upper_hex n)"
  shows "m = n"
proof -
  have "m div 4096 = n div 4096 \<and> m div 256 mod 16 = n div 256 mod 16 \<and> m div 16 mod 16 = n div 16 mod 16 \<and> m mod 16 = n mod 16"
    using assms by (simp add: hex4 upper_hex_char_inj less_mult_imp_div_less)
  moreover have "k = k div 4096 * 4096 + (k div 256 mod 16) * 256 + (k div 16 mod 16) * 16 + k mod 16" for k :: nat
  proof -
    have "k div 256 = k div 4096 * 16 + k div 256 mod 16" "k div 16 = k div 256 * 16 + k div 16 mod 16"
      using div_mult_mod_eq [of "k div 256" 16] div_mult_mod_eq [of "k div 16" 16] by (simp_all add: div_mult2_eq [symmetric])
    then show ?thesis using div_mult_mod_eq [of k 16] by linarith
  qed
  ultimately show ?thesis by metis
qed

lemma xor_cancel: "(x :: 16 word) XOR d = y XOR d \<longleftrightarrow> x = y"
proof
  assume "x XOR d = y XOR d"
  then have "(x XOR d) XOR d = (y XOR d) XOR d" by simp
  then show "x = y" by (simp add: xor.assoc)
qed simp

lemma xor_cancel_left: "(d :: 16 word) XOR x = d XOR y \<longleftrightarrow> x = y"
  using xor_cancel [of x d y] by (simp only: xor.commute [of d])

lemma crc_serial_inj: "inj (\<lambda>w. crc_serial w b)"
  by (rule injI) (simp add: crc_serial_step inj_eq [OF crc_step_inj] xor_cancel)

lemma foldl_crc_inj: "inj (\<lambda>w. foldl crc_serial w bs)"
proof (induction bs)
  case (Cons b bs)
  show ?case using inj_compose [OF Cons crc_serial_inj [of b]] by (simp add: comp_def)
qed (simp add: inj_def)

lemma crc_bits_inj:
  assumes "length bs = length cs" "length bs \<le> 16" "foldl crc_serial w bs = foldl crc_serial w cs"
  shows "bs = cs"
proof -
  have inj: "inj (crc_step ^^ n)" for n by (rule inj_fn [OF crc_step_inj])
  have "w XOR topbits bs = w XOR topbits cs"
    using assms by (simp add: crc_serial_bits inj_eq [OF inj])
  then have same: "topbits bs = topbits cs"
    by (simp only: xor_cancel_left)
  have eq: "bs ! (15 - n) = cs ! (15 - n)" if "n < 16" "15 - n < length bs" for n
  proof -
    have "bit (topbits bs) n = bit (topbits cs) n" by (simp only: same)
    then show ?thesis using that assms(1,2) by (simp add: bit_topbits)
  qed
  have "bs ! i = cs ! i" if "i < length bs" for i
    using eq [of "15 - i"] that assms(2) by auto
  with assms(1) show ?thesis by (simp add: nth_equalityI)
qed

lemma byte_bit_lt: "bit (of_char c :: nat) m \<Longrightarrow> m < 8"
proof -
  have "take_bit 8 (of_char c :: nat) = of_char c" by (simp add: take_bit_eq_mod)
  then show "bit (of_char c :: nat) m \<Longrightarrow> m < 8" by (metis bit_take_bit_iff)
qed

lemma byte_bits_inj:
  assumes "byte_bits a = byte_bits b"
  shows "a = b"
proof -
  have "bit (of_char a :: nat) n = bit (of_char b :: nat) n" for n
  proof (cases "n < 8")
    case True
    then have "n \<in> set (rev [0..<8])" by simp
    then show ?thesis using assms unfolding byte_bits_def map_eq_conv by blast
  next
    case False
    then show ?thesis using byte_bit_lt by blast
  qed
  then have "(of_char a :: nat) = of_char b" by (rule bit_eqI)
  then show ?thesis by simp
qed

subsection \<open>Reading a payload\<close>

text \<open>A reader of the format, which the encoder is held against: the fields of a text, and the
  destination, the amount and the reference of a payload whose checksum is right.\<close>

function read_tlv :: "string \<Rightarrow> (string \<times> string) list option" where
  "read_tlv s =
     (if s = [] then Some []
      else if length s < 4 \<or> \<not> is_digit (s ! 2) \<or> \<not> is_digit (s ! 3) then None
      else let n = digits_value [s ! 2, s ! 3]; rest = drop 4 s
        in if length rest < n then None
           else map_option (Cons (take 2 s, take n rest)) (read_tlv (drop n rest)))"
  by pat_completeness auto
termination by (relation "measure length") auto

declare read_tlv.simps [simp del]

definition field_of :: "string \<Rightarrow> string \<Rightarrow> string option" where
  "field_of fieldId s = Option.bind (read_tlv s) (\<lambda>fs. map_of fs fieldId)"

definition read_vietqr :: "string \<Rightarrow> (string \<times> string \<times> string \<times> string) option" where
  "read_vietqr s =
     (let body = take (length s - 4) s
      in if drop (length s - 4) s \<noteq> vietQrCrc16 body then None
         else Option.bind (field_of ''38'' s) (\<lambda>account.
           Option.bind (field_of ''01'' account) (\<lambda>beneficiary.
           Option.bind (field_of ''00'' beneficiary) (\<lambda>bin.
           Option.bind (field_of ''01'' beneficiary) (\<lambda>number.
           Option.bind (field_of ''54'' s) (\<lambda>amount.
           Option.bind (field_of ''62'' s) (\<lambda>extra.
           Option.bind (field_of ''08'' extra) (\<lambda>reference. Some (bin, number, amount, reference)))))))))"

lemma two_digits:
  assumes "n < 100"
  shows "padStart 2 (CHR ''0'') (decimal n) = [digit_char (n div 10), digit_char (n mod 10)]"
proof (cases "n < 10")
  case True
  then have "decimal n = [digit_char n]" by (subst decimal.simps) simp
  moreover have "CHR ''0'' = digit_char 0" by code_simp
  ultimately show ?thesis using True by (simp add: padStart_def)
next
  case False
  have "decimal (n div 10) = [digit_char (n div 10)]" using assms by (subst decimal.simps) simp
  moreover have "decimal n = decimal (n div 10) @ [digit_char (n mod 10)]" using False by (subst decimal.simps) simp
  ultimately show ?thesis by (simp add: padStart_def)
qed

lemma tlv_two: "length v < 100 \<Longrightarrow> tlv [a, b] v = a # b # digit_char (length v div 10) # digit_char (length v mod 10) # v"
  by (simp add: tlv_def two_digits)

lemma tlv_length: "length v < 100 \<Longrightarrow> length (tlv [a, b] v) = length v + 4"
  by (simp add: tlv_two)

lemma read_tlv_Nil: "read_tlv [] = Some []"
  by (subst read_tlv.simps) simp

lemma read_tlv_field:
  assumes "length v < 100"
  shows "read_tlv (tlv [a, b] v @ rest) = map_option (Cons ([a, b], v)) (read_tlv rest)"
proof -
  have d: "is_digit (digit_char (length v div 10))" "is_digit (digit_char (length v mod 10))"
    "digits_value [digit_char (length v div 10), digit_char (length v mod 10)] = length v"
    using assms by (simp_all add: less_mult_imp_div_less)
  have "read_tlv (tlv [a, b] v @ rest) = read_tlv (a # b # digit_char (length v div 10) # digit_char (length v mod 10) # v @ rest)"
    using assms by (simp add: tlv_two)
  also have "\<dots> = map_option (Cons ([a, b], v)) (read_tlv rest)"
    using d by (subst read_tlv.simps) (simp add: Let_def)
  finally show ?thesis .
qed

lemma read_tlv_last: "length v < 100 \<Longrightarrow> read_tlv (tlv [a, b] v) = Some [([a, b], v)]"
  using read_tlv_field [of v a b "[]"] by (simp add: read_tlv_Nil)

lemma crc_field: "length crc = 4 \<Longrightarrow> ''6304'' @ crc = tlv ''63'' crc"
  by (simp add: tlv_two)

lemma decimal_length: "0 < k \<Longrightarrow> n < 10 ^ k \<Longrightarrow> length (decimal n) \<le> k"
proof (induction k arbitrary: n)
  case (Suc k)
  show ?case
  proof (cases "n < 10")
    case True
    then show ?thesis by (subst decimal.simps) simp
  next
    case False
    then have "0 < k" using Suc.prems by (cases k) auto
    moreover have "n div 10 < 10 ^ k" using Suc.prems by (simp add: less_mult_imp_div_less mult.commute)
    ultimately have "length (decimal (n div 10)) \<le> k" by (rule Suc.IH)
    with False show ?thesis by (subst decimal.simps) simp
  qed
qed simp

lemma vietqr_fields:
  assumes "length bin = 6" "length number \<le> 19" "length (decimal (nat amount)) \<le> 13" "length reference \<le> 25"
  shows "read_vietqr (vietqr_data bin number amount reference @ vietQrCrc16 (vietqr_data bin number amount reference)) =
    Some (bin, number, decimal (nat amount), reference)"
proof -
  let ?d = "vietqr_data bin number amount reference" and ?b = "tlv ''00'' bin @ tlv ''01'' number"
  let ?a = "tlv ''00'' ''A000000727'' @ tlv ''01'' ?b @ tlv ''02'' ''QRIBFTTA''"
  let ?c = "vietQrCrc16 ?d"
  have len: "length ?b < 100" "length ?a < 100" "length (tlv ''08'' reference) < 100"
    using assms by (simp_all add: tlv_length)
  have beneficiary: "read_tlv ?b = Some [(''00'', bin), (''01'', number)]"
    using assms by (simp add: read_tlv_field read_tlv_last)
  have account: "read_tlv ?a = Some [(''00'', ''A000000727''), (''01'', ?b), (''02'', ''QRIBFTTA'')]"
    using len(1) by (simp add: read_tlv_field read_tlv_last)
  have extra: "read_tlv (tlv ''08'' reference) = Some [(''08'', reference)]"
    using assms by (simp add: read_tlv_last)
  have "?d @ ?c = tlv ''00'' ''01'' @ tlv ''01'' ''12'' @ tlv ''38'' ?a @ tlv ''53'' ''704'' @
      tlv ''54'' (decimal (nat amount)) @ tlv ''58'' ''VN'' @ tlv ''62'' (tlv ''08'' reference) @ tlv ''63'' ?c"
    unfolding vietqr_data_def Let_def by (simp only: append_assoc crc_field [OF crc_length])
  moreover have "read_tlv \<dots> = Some [(''00'', ''01''), (''01'', ''12''), (''38'', ?a), (''53'', ''704''),
      (''54'', decimal (nat amount)), (''58'', ''VN''), (''62'', tlv ''08'' reference), (''63'', ?c)]"
    using len assms(3) by (simp add: read_tlv_field read_tlv_last crc_length del: append_assoc)
  ultimately have payload: "read_tlv (?d @ ?c) = \<dots>" by simp
  show ?thesis
    unfolding read_vietqr_def Let_def field_of_def payload
    using crc_length [of ?d] by (simp add: account beneficiary extra)
qed

subsection \<open>Properties\<close>

text \<open>C26: The checksum of a text is the serial CRC-16 with polynomial 0x1021 and start value 0xffff
  over its bits, most significant first, in four upper-case hexadecimal digits: working on whole
  bytes in a 32-bit register gives the same as feeding a 16-bit register bit by bit.\<close>

theorem crc_equals_serial_register:
  "vietQrCrc16 s = padStart 4 (CHR ''0'') (upper_hex (unat (crc16 s))) \<and> length (vietQrCrc16 s) = 4"
  using crc_length [of s] by (simp add: vietQrCrc16_def crc_register_unat)

text \<open>No single wrong character goes unnoticed: two texts that differ in exactly one character
  have different checksums.\<close>

theorem crc_detects_changed_character:
  assumes "a \<noteq> b"
  shows "vietQrCrc16 (u @ a # v) \<noteq> vietQrCrc16 (u @ b # v)"
proof
  assume "vietQrCrc16 (u @ a # v) = vietQrCrc16 (u @ b # v)"
  then have "unat (foldl crc_byte 0xffff (u @ a # v)) = unat (foldl crc_byte 0xffff (u @ b # v))"
    unfolding vietQrCrc16_def by (rule hex4_inj [OF crc_lt crc_lt])
  then have "crc16 (u @ a # v) = crc16 (u @ b # v)"
    by (simp only: crc_register_unat word_unat_eq_iff)
  then have "foldl crc_serial (crc16 u) (byte_bits a) = foldl crc_serial (crc16 u) (byte_bits b)"
    using injD [OF foldl_crc_inj [of "concat (map byte_bits v)"]] by (simp add: crc16_def)
  then have "byte_bits a = byte_bits b"
    by (intro crc_bits_inj) (simp_all add: byte_bits_def)
  with assms show False by (auto dest: byte_bits_inj)
qed

theorem crc_detects_changed_character_witness:
  "vietQrCrc16 ''5406500000'' \<noteq> vietQrCrc16 ''5406900000''"
  using crc_detects_changed_character [of "CHR ''5''" "CHR ''9''" "''5406''" "''00000''"] by simp

text \<open>C31: A payload says what it was made from: a reader of the nested fields that also checks the
  checksum gets back exactly the bank, the account number, the amount and the reference.\<close>

theorem vietqr_roundtrip:
  assumes "createVietQrTransferInstruction i banks = Inr r" "list_all (\<lambda>b. length (fst b) = 6) banks"
  shows "read_vietqr (ti_payload r) =
      Some (ti_bankBin i, ti_accountNumber i, decimal (nat (ti_amountVnd i)), ti_transferReference i)"
proof -
  have i: "ti_bankBin i \<in> fst ` set banks" "repeats is_digit 6 19 (ti_accountNumber i)" "1 \<le> ti_amountVnd i"
    "ti_amountVnd i \<le> VIETQR_MAX_AMOUNT_VND" "length (ti_transferReference i) \<le> VIETQR_MAX_REFERENCE_LENGTH"
    and r: "ti_payload r = (let d = vietqr_data (ti_bankBin i) (ti_accountNumber i) (ti_amountVnd i) (ti_transferReference i)
      in d @ vietQrCrc16 d)"
    using assms(1)
    by (auto simp: createVietQrTransferInstruction_def result_iffs isVietQrDestinationSupported_def requireIntegerVnd_def Let_def
        split: if_splits)
  have "length (ti_bankBin i) = 6" using i(1) assms(2) by (auto simp: list_all_iff)
  moreover have "nat (ti_amountVnd i) < 10 ^ 13" using i(3,4) by (simp add: VIETQR_MAX_AMOUNT_VND_def)
  then have "length (decimal (nat (ti_amountVnd i))) \<le> 13" by (intro decimal_length) simp_all
  ultimately show ?thesis
    using i(2,5) unfolding r Let_def by (intro vietqr_fields) (simp_all add: repeats_def VIETQR_MAX_REFERENCE_LENGTH_def)
qed

definition sample_transfer :: transfer_input where
  "sample_transfer = \<lparr>ti_bankBin = ''970436'', ti_accountNumber = ''0123456789'', ti_amountVnd = 50000,
     ti_transferReference = ''PW0123456789ABCDEF0123''\<rparr>"

theorem vietqr_roundtrip_witness:
  "\<exists>r. createVietQrTransferInstruction sample_transfer VIETQR_RECEIVING_BANKS = Inr r \<and> ti_bankName r = ''Vietcombank'' \<and>
     read_vietqr (ti_payload r) = Some (''970436'', ''0123456789'', decimal 50000, ''PW0123456789ABCDEF0123'')"
proof -
  have "isVietQrDestinationSupported ''970436'' ''0123456789'' VIETQR_RECEIVING_BANKS"
    "trim ''PW0123456789ABCDEF0123'' = ''PW0123456789ABCDEF0123''" "alnum_words False ''PW0123456789ABCDEF0123''"
    by code_simp+
  then obtain r where r: "createVietQrTransferInstruction sample_transfer VIETQR_RECEIVING_BANKS = Inr r" "ti_bankName r = ''Vietcombank''"
    by (simp add: createVietQrTransferInstruction_def sample_transfer_def VIETQR_RECEIVING_BANKS_def requireIntegerVnd_def
        isSafeInteger_def max_safe_integer_def VIETQR_MAX_AMOUNT_VND_def VIETQR_MAX_REFERENCE_LENGTH_def Let_def
        del: alnum_words.simps)
  with vietqr_roundtrip [OF r(1)] show ?thesis
    by (simp add: VIETQR_RECEIVING_BANKS_def sample_transfer_def)
qed

end
