(* ===== verification/SePay.thy ===== *)
theory SePay
  imports Wire VietQr
begin

text \<open>
  Bank evidence from the provider SePay: the normalisation of its values
  (\<^verbatim>\<open>packages/payments/src/sepay-normalization.ts\<close>), the authentication and reading of a webhook
  (\<^verbatim>\<open>packages/payments/src/sepay-webhook.ts\<close>) and the pure matching of a transfer against a tip intent
  (\<^verbatim>\<open>packages/payments/src/sepay-match.ts\<close>). The JSON parser of the platform, with the duplicate-key
  check in front of it, is the argument \<open>parse_json\<close>; its numbers keep their spelling (\<open>SvExact\<close>).
  Dates are instants, that is, valid \<open>Date\<close> objects.
  Shown: the references found in a text are exactly its full tokens, an amount is read exactly and
  never rounded, and a transfer is matched exactly when every piece of evidence agrees.
\<close>

subsection \<open>Values\<close>

datatype sepay_value =
    SvNull | SvUndefined | SvBool bool | SvExact string | SvNumber int | SvString string
  | SvArray "sepay_value list" | SvObject "(string \<times> sepay_value) list"

datatype sepay_error = SePayFormatError

definition sepayRecord :: "sepay_value \<Rightarrow> sepay_error + (string \<times> sepay_value) list" where
  "sepayRecord v = (case v of SvObject es \<Rightarrow> Inr es | _ \<Rightarrow> Inl SePayFormatError)"

text \<open>\<open>raw.key\<close>.\<close>

definition sv_field :: "(string \<times> sepay_value) list \<Rightarrow> string \<Rightarrow> sepay_value" where
  "sv_field raw k = (case map_of raw k of None \<Rightarrow> SvUndefined | Some v \<Rightarrow> v)"

definition sepayText :: "sepay_value \<Rightarrow> nat \<Rightarrow> bool \<Rightarrow> sepay_error + string" where
  "sepayText v maximum allowEmpty =
     (case v of
        SvString s \<Rightarrow>
          if maximum < length s \<or> (\<not> allowEmpty \<and> s = []) \<or> list_ex is_control s then Inl SePayFormatError else Inr s
      | _ \<Rightarrow> Inl SePayFormatError)"

definition sepayNullableText :: "sepay_value \<Rightarrow> nat \<Rightarrow> sepay_error + string option" where
  "sepayNullableText v maximum =
     (if v = SvNull \<or> v = SvString [] then Inr None else map_sum id Some (sepayText v maximum False))"

text \<open>The text of a number: its spelling in the JSON, or of a safe integer its decimal text.\<close>

definition sepay_source :: "sepay_value \<Rightarrow> string option" where
  "sepay_source v =
     (case v of SvExact s \<Rightarrow> Some s
      | SvNumber n \<Rightarrow> if isSafeInteger n then Some (json_int n) else None
      | SvString s \<Rightarrow> Some s
      | _ \<Rightarrow> None)"

text \<open>\<open>[1-9][0-9]{0,n}\<close> and \<open>0|[1-9][0-9]{0,n}\<close>, anchored.\<close>

definition positive_digits :: "nat \<Rightarrow> string \<Rightarrow> bool" where
  "positive_digits n s \<longleftrightarrow> (case s of [] \<Rightarrow> False | c # cs \<Rightarrow> is_digit c \<and> c \<noteq> CHR ''0'' \<and> repeats is_digit 0 n cs)"

definition plain_digits :: "nat \<Rightarrow> string \<Rightarrow> bool" where
  "plain_digits n s \<longleftrightarrow> s = ''0'' \<or> positive_digits n s"

definition normalizeSePayId :: "sepay_value \<Rightarrow> bool \<Rightarrow> sepay_error + string" where
  "normalizeSePayId v allowZero =
     (case sepay_source v of None \<Rightarrow> Inl SePayFormatError
      | Some s \<Rightarrow> if \<not> plain_digits 31 s \<or> (\<not> allowZero \<and> s = ''0'') then Inl SePayFormatError else Inr s)"

text \<open>\<open>^(0|[1-9][0-9]{0,15})(?:\.0{1,18})?$\<close>: the part before the point, and nothing or zeros after it.\<close>

definition vnd_pattern :: "string \<Rightarrow> bool" where
  "vnd_pattern s \<longleftrightarrow>
     plain_digits 15 (takeWhile (\<lambda>c. c \<noteq> CHR ''.'') s) \<and>
     (case dropWhile (\<lambda>c. c \<noteq> CHR ''.'') s of [] \<Rightarrow> True | _ # zeros \<Rightarrow> repeats ((=) (CHR ''0'')) 1 18 zeros)"

definition normalizeSePayVnd :: "sepay_value \<Rightarrow> bool \<Rightarrow> sepay_error + int" where
  "normalizeSePayVnd v allowZero =
     (case sepay_source v of None \<Rightarrow> Inl SePayFormatError
      | Some s \<Rightarrow>
          if \<not> vnd_pattern s then Inl SePayFormatError
          else let n = int (digits_value (takeWhile (\<lambda>c. c \<noteq> CHR ''.'') s))
            in if max_safe_integer < n \<or> (\<not> allowZero \<and> n = 0) then Inl SePayFormatError else Inr n)"

subsection \<open>Bank time\<close>

definition vietnam_time_pattern :: "string \<Rightarrow> bool" where
  "vietnam_time_pattern s \<longleftrightarrow>
     fixed ([(=) (CHR ''2''), (=) (CHR ''0'')] @ replicate 2 is_digit @ [(=) (CHR ''-'')] @ replicate 2 is_digit @
       [(=) (CHR ''-'')] @ replicate 2 is_digit @ [(=) (CHR '' '')] @ replicate 2 is_digit @ [(=) (CHR '':'')] @
       replicate 2 is_digit @ [(=) (CHR '':'')] @ replicate 2 is_digit) s"

text \<open>\<open>new Date(text + "+07:00")\<close> on a text of that pattern: no date when a field is out of its range;
  24:00:00 is the end of the day.\<close>

definition vietnam_instant :: "string \<Rightarrow> instant option" where
  "vietnam_instant s =
     (let h = int (digits_value (take 2 (drop 11 s))); m = int (digits_value (take 2 (drop 14 s)));
          sec = int (digits_value (take 2 (drop 17 s)))
      in case parse_iso_day (take 10 s) of None \<Rightarrow> None
         | Some n \<Rightarrow>
             if (h < 24 \<and> m < 60 \<and> sec < 60) \<or> (h = 24 \<and> m = 0 \<and> sec = 0)
             then Some (n * ms_per_day + h * 3600000 + m * 60000 + sec * 1000 - 7 * 3600000) else None)"

fun replace_first :: "char \<Rightarrow> char \<Rightarrow> string \<Rightarrow> string" where
  "replace_first a b [] = []"
| "replace_first a b (c # cs) = (if c = a then b # cs else c # replace_first a b cs)"

definition parseSePayVietnamTime :: "sepay_value \<Rightarrow> sepay_error + instant" where
  "parseSePayVietnamTime v =
     await (sepayText v 19 False) (\<lambda>text.
     await (require (vietnam_time_pattern text) SePayFormatError) (\<lambda>_.
     await (orThrow (vietnam_instant text) SePayFormatError) (\<lambda>timestamp.
     await (require (replace_first (CHR ''T'') (CHR '' '') (take 19 (toISOString (timestamp + 7 * 3600000))) = text) SePayFormatError) (\<lambda>_.
       Inr timestamp))))"

subsection \<open>References\<close>

datatype reference_status = RefExact | RefMissing | RefAmbiguous | RefConflicting

record sepay_reference =
  sr_reference :: "string option"
  sr_status :: reference_status
  sr_isPawket :: bool

text \<open>\<open>PW[0-9A-F]{20}\<close>, and the matches of \<open>(?<![A-Za-z0-9])PW[0-9A-F]{20}(?![A-Za-z0-9])\<close> from left to
  right; \<open>prev\<close> tells whether the character before is a letter or digit.\<close>

definition is_reference :: "string \<Rightarrow> bool" where
  "is_reference s \<longleftrightarrow> starts_with ''PW'' s \<and> repeats is_uhex 20 20 (drop 2 s)"

definition word_follows :: "string \<Rightarrow> bool" where
  "word_follows s \<longleftrightarrow> (case s of [] \<Rightarrow> False | c # _ \<Rightarrow> is_alnum c)"

function reference_tokens :: "bool \<Rightarrow> string \<Rightarrow> string list" where
  "reference_tokens prev [] = []"
| "reference_tokens prev (c # cs) =
     (if \<not> prev \<and> is_reference (take 22 (c # cs)) \<and> \<not> word_follows (drop 22 (c # cs))
      then take 22 (c # cs) # reference_tokens True (drop 22 (c # cs))
      else reference_tokens (is_alnum c) cs)"
  by pat_completeness auto
termination by (relation "measure (\<lambda>(p, s). length s)") auto

definition reference_of :: "string option \<Rightarrow> string list \<Rightarrow> sepay_reference" where
  "reference_of codeText references =
     (let codeIsPawket = (case codeText of None \<Rightarrow> False | Some s \<Rightarrow> is_reference s);
          isPawket = (codeIsPawket \<or> references \<noteq> [] \<or> (case codeText of None \<Rightarrow> False | Some s \<Rightarrow> starts_with ''PW'' s))
      in if 1 < length references then \<lparr>sr_reference = None, sr_status = RefAmbiguous, sr_isPawket = isPawket\<rparr>
         else case references of
           [] \<Rightarrow> \<lparr>sr_reference = (if codeIsPawket then codeText else None), sr_status = RefMissing, sr_isPawket = isPawket\<rparr>
         | reference # _ \<Rightarrow>
             if codeText \<noteq> None \<and> codeText \<noteq> Some [] \<and> codeText \<noteq> Some reference
             then \<lparr>sr_reference = Some reference, sr_status = RefConflicting, sr_isPawket = isPawket\<rparr>
             else \<lparr>sr_reference = Some reference, sr_status = RefExact, sr_isPawket = isPawket\<rparr>)"

definition normalizeSePayReference :: "sepay_value \<Rightarrow> sepay_value \<Rightarrow> sepay_error + sepay_reference" where
  "normalizeSePayReference code content =
     await (if code = SvNull then Inr None else map_sum id Some (sepayText code 128 True)) (\<lambda>codeText.
     await (sepayText content 4096 True) (\<lambda>contentText.
       Inr (reference_of codeText (reference_tokens False contentText))))"

subsection \<open>The webhook\<close>

datatype webhook_error = BodyTooLarge | UnsupportedMedia | InvalidAuthentication | InvalidPayload

record sepay_event =
  se_id :: string
  se_bankGateway :: string
  se_accountNumber :: string
  se_subAccount :: "string option"
  se_amountVnd :: int
  se_occurredAt :: instant
  se_reference :: "string option"
  se_referenceStatus :: reference_status
  se_bankReference :: "string option"

datatype ignore_reason = IgnoredOutgoing | IgnoredNonPawket | IgnoredMock

datatype disposition = Accepted sepay_event string | Ignored ignore_reason string string

definition webhook_max_bytes :: nat where
  "webhook_max_bytes = 16 * 1024"

definition format_error :: "sepay_error + 'a \<Rightarrow> webhook_error + 'a" where
  "format_error r = (case r of Inl _ \<Rightarrow> Inl InvalidPayload | Inr v \<Rightarrow> Inr v)"

definition webhook_disposition :: "platform \<Rightarrow> string \<Rightarrow> (string \<times> sepay_value) list \<Rightarrow> webhook_error + disposition" where
  "webhook_disposition pf rawBody raw =
     await (format_error (normalizeSePayId (sv_field raw ''id'') True)) (\<lambda>k.
     await (format_error (sepayText (sv_field raw ''gateway'') 80 False)) (\<lambda>bankGateway.
     await (format_error (sepayText (sv_field raw ''accountNumber'') 64 False)) (\<lambda>accountNumber.
     await (format_error (sepayNullableText (sv_field raw ''subAccount'') 64)) (\<lambda>subAccount.
     await (format_error (normalizeSePayVnd (sv_field raw ''transferAmount'') False)) (\<lambda>amountVnd.
     await (format_error (parseSePayVietnamTime (sv_field raw ''transactionDate''))) (\<lambda>occurredAt.
     await (format_error (normalizeSePayReference (sv_field raw ''code'') (sv_field raw ''content''))) (\<lambda>references.
     await (format_error (sepayNullableText (sv_field raw ''referenceCode'') 128)) (\<lambda>bankReference.
     let transferType = sv_field raw ''transferType'' in
     await (require (transferType = SvString ''in'' \<or> transferType = SvString ''out'') InvalidPayload) (\<lambda>_.
     let digest = lower_hex (pf_sha256 pf rawBody) in
       Inr (if k = ''0'' then Ignored IgnoredMock k digest
            else if transferType = SvString ''out'' then Ignored IgnoredOutgoing k digest
            else if \<not> sr_isPawket references then Ignored IgnoredNonPawket k digest
            else Accepted \<lparr>se_id = k, se_bankGateway = bankGateway, se_accountNumber = accountNumber, se_subAccount = subAccount,
              se_amountVnd = amountVnd, se_occurredAt = occurredAt, se_reference = sr_reference references,
              se_referenceStatus = sr_status references, se_bankReference = bankReference\<rparr> digest))))))))))"

definition parseAuthenticatedSePayWebhook ::
  "platform \<Rightarrow> (string \<Rightarrow> sepay_value option) \<Rightarrow> string \<Rightarrow> webhook_error + disposition" where
  "parseAuthenticatedSePayWebhook pf parse_json rawBody =
     (if webhook_max_bytes < length rawBody then Inl BodyTooLarge
      else await (orThrow (parse_json rawBody) InvalidPayload) (\<lambda>v.
        await (format_error (sepayRecord v)) (webhook_disposition pf rawBody)))"

text \<open>\<open>^application\/json(?:\s*;\s*charset\s*=\s*(?:utf-8|"utf-8"))?\s*$\<close>, ignoring case.\<close>

definition after_word :: "string \<Rightarrow> string \<Rightarrow> string option" where
  "after_word w s = (let t = trimStart s in if starts_with w t then Some (drop (length w) t) else None)"

definition json_content_type :: "string \<Rightarrow> bool" where
  "json_content_type s =
     (let t = map lower_char s
      in starts_with ''application/json'' t \<and>
         (let rest = drop (length ''application/json'') t
          in list_all is_space rest \<or>
             (case Option.bind (after_word '';'' rest) (\<lambda>r. Option.bind (after_word ''charset'' r) (after_word ''='')) of
                None \<Rightarrow> False
              | Some v \<Rightarrow>
                  (case after_word ''utf-8'' v of Some e \<Rightarrow> list_all is_space e | None \<Rightarrow> False) \<or>
                  (case after_word (CHR 0x22 # ''utf-8'' @ [CHR 0x22]) v of Some e \<Rightarrow> list_all is_space e | None \<Rightarrow> False))))"

definition is_hex :: "char \<Rightarrow> bool" where
  [chars]: "is_hex c \<longleftrightarrow> is_lhex c \<or> is_uhex c"

text \<open>\<open>Buffer.from(text, "hex")\<close>.\<close>

fun from_hex :: "string \<Rightarrow> string" where
  "from_hex (a # b # rest) = char_of (hex_value a * 16 + hex_value b) # from_hex rest"
| "from_hex _ = []"

record webhook_input =
  wi_rawBody :: string
  wi_contentType :: "string option"
  wi_contentEncoding :: "string option"
  wi_timestamp :: "string option"
  wi_signature :: "string option"
  wi_secret :: string
  wi_now :: instant

definition webhook_headers_ok :: "webhook_input \<Rightarrow> string \<Rightarrow> string \<Rightarrow> bool" where
  "webhook_headers_ok i timestamp signature \<longleftrightarrow>
     positive_digits 10 timestamp \<and> 10 \<le> length timestamp \<and>
     starts_with ''sha256='' signature \<and> repeats is_hex 64 64 (drop 7 signature) \<and>
     32 \<le> length (wi_secret i) \<and> length (wi_secret i) \<le> 512 \<and>
     \<bar>wi_now i - int (digits_value timestamp) * 1000\<bar> \<le> 300 * 1000"

definition authenticateAndParseSePayWebhook ::
  "platform \<Rightarrow> (string \<Rightarrow> sepay_value option) \<Rightarrow> webhook_input \<Rightarrow> webhook_error + disposition" where
  "authenticateAndParseSePayWebhook pf parse_json i =
     (if webhook_max_bytes < length (wi_rawBody i) then Inl BodyTooLarge
      else if \<not> (case wi_contentType i of None \<Rightarrow> False | Some t \<Rightarrow> json_content_type t) \<or>
        wi_contentEncoding i \<noteq> None \<and> wi_contentEncoding i \<noteq> Some ''identity''
      then Inl UnsupportedMedia
      else case (wi_timestamp i, wi_signature i) of
        (Some timestamp, Some signature) \<Rightarrow>
          if \<not> webhook_headers_ok i timestamp signature then Inl InvalidAuthentication
          else if pf_hmac pf (wi_secret i) (timestamp @ ''.'' @ wi_rawBody i) \<noteq> from_hex (drop 7 signature)
          then Inl InvalidAuthentication
          else parseAuthenticatedSePayWebhook pf parse_json (wi_rawBody i)
      | _ \<Rightarrow> Inl InvalidAuthentication)"

subsection \<open>Matching\<close>

datatype settlement_lane = ManualAttested | ProviderBound
datatype intent_state = AwaitingTransfer | IntentConfirmed | IntentExpired | IntentRejected

record sepay_tip_intent =
  si_settlementLane :: settlement_lane
  si_state :: intent_state
  si_amountVnd :: int
  si_transferReference :: string
  si_bankBin :: string
  si_accountNumber :: string
  si_createdAt :: instant
  si_expiresAt :: instant
  si_cutoverAt :: "instant option"

datatype sepay_environment = SePayTest | SePayLive

record sepay_binding =
  sb_environment :: sepay_environment
  sb_tenantId :: string
  sb_accountId :: string
  sb_bankBin :: string
  sb_bankGateway :: string
  sb_accountNumber :: string
  sb_subAccount :: "string option"

datatype transfer_direction = DirectionIn | DirectionOut

record sepay_transaction =
  st_id :: string
  st_binding :: sepay_binding
  st_amountVnd :: int
  st_direction :: transfer_direction
  st_occurredAt :: instant
  st_reference :: "string option"
  st_referenceStatus :: reference_status
  st_bankReference :: "string option"

datatype inconclusive_reason = ReadContractUnverified | LimitExceeded | PaginationChanged | InvalidSchema

datatype readback = Complete "sepay_transaction list" | Inconclusive inconclusive_reason

record sepay_capabilities =
  sc_oauthApplication :: bool
  sc_pkceS256 :: bool
  sc_stableAccountIdentity :: bool
  sc_canonicalTransactionIdentity :: bool
  sc_bankTimeReference :: bool
  sc_remoteRevocation :: bool

datatype match_reason =
  ContractUnverified | ManualLane | IntentNotPending | MatchExpired | ReadbackInconclusive | NotFound | AmbiguousMatch |
  IdentityMismatch | DestinationMismatch | MatchReference | MatchAmount | DirectionMismatch | TimeMismatch |
  BeforeCutover | InvalidEvidence

datatype sepay_match = Matched sepay_transaction | Review match_reason

text \<open>All seven fields of a binding are compared.\<close>

definition sameBinding :: "sepay_binding \<Rightarrow> sepay_binding \<Rightarrow> bool" where
  "sameBinding l r \<longleftrightarrow>
     sb_environment l = sb_environment r \<and> sb_tenantId l = sb_tenantId r \<and> sb_accountId l = sb_accountId r \<and>
     sb_bankBin l = sb_bankBin r \<and> sb_bankGateway l = sb_bankGateway r \<and> sb_accountNumber l = sb_accountNumber r \<and>
     sb_subAccount l = sb_subAccount r"

definition positiveInteger :: "int \<Rightarrow> bool" where
  "positiveInteger n \<longleftrightarrow> isSafeInteger n \<and> 0 < n"

definition bindingValid :: "sepay_binding \<Rightarrow> bool" where
  "bindingValid b \<longleftrightarrow>
     repeats is_ident 1 200 (sb_tenantId b) \<and> positive_digits 31 (sb_accountId b) \<and> repeats is_digit 6 6 (sb_bankBin b) \<and>
     0 < length (sb_bankGateway b) \<and> length (sb_bankGateway b) \<le> 80 \<and> repeats is_alnum 1 64 (sb_accountNumber b) \<and>
     (case sb_subAccount b of None \<Rightarrow> True | Some s \<Rightarrow> repeats is_alnum 1 64 s)"

definition matchSePayTip ::
  "sepay_tip_intent \<Rightarrow> sepay_binding \<Rightarrow> sepay_event \<Rightarrow> readback \<Rightarrow> sepay_capabilities \<Rightarrow> instant \<Rightarrow> sepay_match" where
  "matchSePayTip intent binding event readback cap now =
     (if \<not> sc_oauthApplication cap \<or> \<not> sc_pkceS256 cap \<or> \<not> sc_stableAccountIdentity cap \<or>
        \<not> sc_canonicalTransactionIdentity cap \<or> \<not> sc_bankTimeReference cap then Review ContractUnverified
      else if si_settlementLane intent \<noteq> ProviderBound then Review ManualLane
      else if si_state intent \<noteq> AwaitingTransfer then Review IntentNotPending
      else case si_cutoverAt intent of None \<Rightarrow> Review InvalidEvidence
      | Some cutoverAt \<Rightarrow>
      if \<not> positiveInteger (si_amountVnd intent) \<or> \<not> positiveInteger (se_amountVnd event) \<or> \<not> bindingValid binding \<or>
        \<not> is_reference (si_transferReference intent) \<or> \<not> positive_digits 31 (se_id event) \<or>
        si_expiresAt intent \<le> si_createdAt intent \<or> si_createdAt intent < cutoverAt then Review InvalidEvidence
      else if si_expiresAt intent \<le> now then Review MatchExpired
      else case readback of Inconclusive _ \<Rightarrow> Review ReadbackInconclusive
      | Complete rows \<Rightarrow>
      if se_referenceStatus event \<noteq> RefExact \<or> se_reference event \<noteq> Some (si_transferReference intent) then Review MatchReference
      else if se_amountVnd event \<noteq> si_amountVnd intent then Review MatchAmount
      else if si_bankBin intent \<noteq> sb_bankBin binding \<or>
        si_accountNumber intent \<noteq> (case sb_subAccount binding of None \<Rightarrow> sb_accountNumber binding | Some s \<Rightarrow> s) \<or>
        se_bankGateway event \<noteq> sb_bankGateway binding \<or> se_accountNumber event \<noteq> sb_accountNumber binding \<or>
        se_subAccount event \<noteq> sb_subAccount binding then Review DestinationMismatch
      else case filter (\<lambda>r. st_id r = se_id event \<or> st_reference r = Some (si_transferReference intent)) rows of
        [] \<Rightarrow> Review NotFound
      | tx # others \<Rightarrow>
        if others \<noteq> [] then Review AmbiguousMatch
        else if st_id tx \<noteq> se_id event \<or> \<not> sameBinding (st_binding tx) binding then Review IdentityMismatch
        else if \<not> positiveInteger (st_amountVnd tx) then Review InvalidEvidence
        else if st_direction tx \<noteq> DirectionIn then Review DirectionMismatch
        else if st_referenceStatus tx \<noteq> RefExact \<or> st_reference tx \<noteq> Some (si_transferReference intent) then Review MatchReference
        else if st_amountVnd tx \<noteq> si_amountVnd intent then Review MatchAmount
        else if st_occurredAt tx \<noteq> se_occurredAt event \<or> st_bankReference tx \<noteq> se_bankReference event \<or>
          now < st_occurredAt tx \<or> si_expiresAt intent \<le> st_occurredAt tx then Review TimeMismatch
        else if st_occurredAt tx < cutoverAt \<or> st_occurredAt tx < si_createdAt intent then Review BeforeCutover
        else Matched tx)"

subsection \<open>Reference tokens\<close>

text \<open>A full token stands at position \<open>i\<close>: no letter or digit before it or after it.\<close>

definition token_at :: "bool \<Rightarrow> string \<Rightarrow> nat \<Rightarrow> bool" where
  "token_at prev s i \<longleftrightarrow>
     (if i = 0 then \<not> prev else \<not> is_alnum (s ! (i - 1))) \<and> is_reference (take 22 (drop i s)) \<and> \<not> word_follows (drop (i + 22) s)"

lemma uhex_alnum: "is_uhex c \<Longrightarrow> is_alnum c"
proof -
  have "CHR ''F'' \<le> CHR ''Z''" by code_simp
  then show "is_uhex c \<Longrightarrow> is_alnum c"
    using order_trans [of c "CHR ''F''" "CHR ''Z''"] by (auto simp: chars)
qed

lemma is_reference_length: "is_reference s \<Longrightarrow> length s = 22"
  by (auto simp: is_reference_def repeats_def starts_with_iff)

lemma is_reference_alnum: "is_reference s \<Longrightarrow> list_all is_alnum s"
proof -
  assume "is_reference s"
  then obtain t where t: "s = ''PW'' @ t" "list_all is_uhex t"
    by (auto simp: is_reference_def repeats_def starts_with_iff)
  moreover have "is_alnum (CHR ''P'')" "is_alnum (CHR ''W'')" by code_simp+
  ultimately show ?thesis by (auto simp: list_all_iff uhex_alnum)
qed

lemma token_inside_none:
  assumes "is_reference (take 22 s)" "0 < i" "i \<le> 22"
  shows "\<not> token_at p s i"
proof -
  have len: "22 \<le> length s" using is_reference_length [OF assms(1)] by simp
  have "is_alnum (take 22 s ! (i - 1))"
    using is_reference_alnum [OF assms(1)] assms(2,3) len by (simp add: list_all_length)
  then show ?thesis using assms(2,3) by (simp add: token_at_def)
qed

lemma token_at_Suc: "token_at prev (c # cs) (Suc i) \<longleftrightarrow> token_at (is_alnum c) cs i"
proof -
  have "drop (Suc i + 22) (c # cs) = drop (i + 22) cs" by (simp only: add_Suc drop_Suc_Cons)
  then show ?thesis by (cases i) (simp_all add: token_at_def)
qed

lemma token_at_skip:
  assumes "is_reference (take 22 s)"
  shows "token_at p s (22 + i) \<longleftrightarrow> token_at True (drop 22 s) i"
proof (cases i)
  case 0
  then show ?thesis using token_inside_none [OF assms, of 22 p] by (simp add: token_at_def)
next
  case (Suc j)
  have "22 \<le> length s" using is_reference_length [OF assms] by simp
  with Suc show ?thesis by (simp add: token_at_def add.commute)
qed

lemma tokens_at_positions:
  "reference_tokens prev s = map (\<lambda>i. take 22 (drop i s)) (filter (token_at prev s) [0..<length s])"
proof (induction prev s rule: reference_tokens.induct)
  case (2 prev c cs)
  let ?s = "c # cs"
  show ?case
  proof (cases "\<not> prev \<and> is_reference (take 22 ?s) \<and> \<not> word_follows (drop 22 ?s)")
    case True
    then have ref: "is_reference (take 22 ?s)" by blast
    then have len: "22 \<le> length ?s" using is_reference_length by fastforce
    have "[0..<length ?s] = 0 # [1..<22] @ map ((+) 22) [0..<length ?s - 22]"
    proof -
      have "[0..<length ?s] = [0..<22] @ [22..<length ?s]" using len upt_add_eq_append [of 0 22 "length ?s - 22"] by simp
      moreover have "[0..<22] = 0 # [1..<22]" by (simp add: upt_conv_Cons)
      moreover have "[22..<length ?s] = map ((+) 22) [0..<length ?s - 22]"
        by (rule nth_equalityI) (simp_all del: upt_Suc)
      ultimately show ?thesis by simp
    qed
    moreover have "filter (token_at prev ?s) [1..<22] = []"
      using token_inside_none [OF ref] by (auto simp: filter_empty_conv)
    moreover have "token_at prev ?s 0" using True by (simp add: token_at_def)
    moreover have "filter (token_at prev ?s) (map ((+) 22) [0..<length ?s - 22]) =
        map ((+) 22) (filter (token_at True (drop 22 ?s)) [0..<length ?s - 22])"
      using token_at_skip [OF ref, of prev] by (simp add: filter_map comp_def)
    moreover have "drop (x + 22) ?s = drop (x + 21) cs" for x
      using drop_Suc_Cons [of "x + 21" c cs] by (simp add: add.commute)
    ultimately show ?thesis
      using 2(1) [OF True] True by (simp add: comp_def add.commute)
  next
    case False
    then have "\<not> token_at prev ?s 0" by (auto simp: token_at_def)
    moreover have "[0..<length ?s] = 0 # map Suc [0..<length cs]"
      by (simp add: upt_conv_Cons map_Suc_upt del: upt_Suc)
    ultimately have "filter (token_at prev ?s) [0..<length ?s] = map Suc (filter (token_at (is_alnum c) cs) [0..<length cs])"
      by (simp add: filter_map comp_def token_at_Suc del: upt_Suc)
    then show ?thesis using 2(2) [OF False] False by (auto simp: comp_def simp del: upt_Suc)
  qed
qed simp

lemma token_at_bound: "token_at p s i \<Longrightarrow> i < length s"
  by (auto simp: token_at_def dest!: is_reference_length)

lemma one_token_iff:
  "reference_tokens False s = [r] \<longleftrightarrow> (\<exists>i. {j. token_at False s j} = {i} \<and> take 22 (drop i s) = r)"
proof -
  let ?f = "filter (token_at False s) [0..<length s]"
  have set: "set ?f = {j. token_at False s j}" using token_at_bound by auto
  have d: "distinct ?f" by simp
  have one: "?f = [i] \<longleftrightarrow> {j. token_at False s j} = {i}" for i
  proof
    assume "{j. token_at False s j} = {i}"
    then have s: "set ?f = {i}" by (simp only: set)
    then have "length ?f = 1" using distinct_card [OF d] by simp
    then obtain x where "?f = [x]" by (auto simp only: One_nat_def length_Suc_conv length_0_conv)
    with s show "?f = [i]" by simp
  next
    assume "?f = [i]"
    then have "set ?f = {i}" by (simp only: list.set)
    then show "{j. token_at False s j} = {i}" by (simp only: set)
  qed
  have "reference_tokens False s = [r] \<longleftrightarrow> (\<exists>i. ?f = [i] \<and> take 22 (drop i s) = r)"
    unfolding tokens_at_positions [of False s] by (cases ?f) auto
  then show ?thesis by (simp only: one)
qed

text \<open>The spellings of an amount.\<close>

lemma positive_digits_decimal:
  assumes "positive_digits n s"
  shows "decimal (digits_value s) = s" "0 < digits_value s" "list_all is_digit s" "length s \<le> Suc n"
proof -
  have d: "is_digit c \<Longrightarrow> digit_char (digit_value c) = c \<and> digit_value c < 10" for c
  proof -
    assume "is_digit c"
    then have "of_char c \<ge> (48 :: nat)" "of_char c \<le> (57 :: nat)" by (simp_all add: chars less_eq_char_def)
    then show ?thesis by (simp add: digit_char_def digit_value_def)
  qed
  have dec: "list_all is_digit (c # cs) \<Longrightarrow> c \<noteq> CHR ''0'' \<Longrightarrow> decimal (digits_value (c # cs)) = c # cs \<and> 0 < digits_value (c # cs)" for c cs
  proof (induction cs rule: rev_induct)
    case Nil
    then have "is_digit c" by simp
    then have "digit_value c \<noteq> 0" using d [of c] Nil(2) digit_chars(1) by metis
    with Nil d [of c] show ?case by (subst decimal.simps) simp
  next
    case (snoc x xs)
    have IH: "decimal (digits_value (c # xs)) = c # xs" "0 < digits_value (c # xs)" using snoc by auto
    have v: "digits_value (c # xs @ [x]) = digits_value (c # xs) * 10 + digit_value x"
      using digits_value_append [of "c # xs" "[x]"] by simp
    have x: "digit_char (digit_value x) = x" "digit_value x < 10" using d [of x] snoc.prems by auto
    have "\<not> digits_value (c # xs) * 10 + digit_value x < 10" using IH(2) by linarith
    then have "decimal (digits_value (c # xs @ [x])) = c # xs @ [x]"
      unfolding v by (subst decimal.simps) (simp add: x IH(1) del: digits_value.simps)
    moreover have "0 < digits_value (c # xs @ [x])" unfolding v using IH(2) by linarith
    ultimately show ?case by blast
  qed
  obtain c cs where c: "s = c # cs" "is_digit c" "c \<noteq> CHR ''0''" "list_all is_digit cs" "length cs \<le> n"
    using assms by (auto simp: positive_digits_def repeats_def split: list.splits)
  then show "decimal (digits_value s) = s" "0 < digits_value s" "list_all is_digit s" "length s \<le> Suc n"
    using dec [of c cs] by auto
qed

lemma decimal_positive_digits:
  assumes "0 < n" "n \<le> 9007199254740991"
  shows "positive_digits 15 (decimal n)"
proof -
  have "length (decimal n) \<le> 16" using assms(2) by (intro decimal_length) simp_all
  moreover obtain c cs where c: "decimal n = c # cs" by (cases "decimal n") simp_all
  moreover have "c \<noteq> CHR ''0''"
    using c assms(1)
  proof (induction n arbitrary: cs rule: decimal.induct)
    case (1 n)
    show ?case
    proof (cases "n < 10")
      case True
      then have "c = digit_char n" using "1.prems"(1) by (subst (asm) decimal.simps) simp
      then show ?thesis using True "1.prems"(2) by (metis digit_chars(1) digit_value_char not_less0 gr_implies_not0 zero_less_numeral)
    next
      case False
      then have "decimal (n div 10) @ [digit_char (n mod 10)] = c # cs" using "1.prems"(1) by (subst (asm) decimal.simps) simp
      then obtain ds where "decimal (n div 10) = c # ds" by (cases "decimal (n div 10)") auto
      moreover have "0 < n div 10" using False by linarith
      ultimately show ?thesis using "1.IH" False by blast
    qed
  qed
  ultimately show ?thesis using decimal_digits [of n] by (simp add: positive_digits_def repeats_def)
qed

lemma digits_no_point: "list_all is_digit s \<Longrightarrow> CHR ''.'' \<notin> set s"
  by (auto simp: list_all_iff chars)

lemma vnd_split:
  assumes "list_all is_digit s"
  shows "takeWhile (\<lambda>c. c \<noteq> CHR ''.'') (s @ CHR ''.'' # z) = s" "dropWhile (\<lambda>c. c \<noteq> CHR ''.'') (s @ CHR ''.'' # z) = CHR ''.'' # z"
    "takeWhile (\<lambda>c. c \<noteq> CHR ''.'') s = s" "dropWhile (\<lambda>c. c \<noteq> CHR ''.'') s = []"
proof -
  have "c \<in> set s \<Longrightarrow> c \<noteq> CHR ''.''" for c using digits_no_point [OF assms] by auto
  then show "takeWhile (\<lambda>c. c \<noteq> CHR ''.'') (s @ CHR ''.'' # z) = s" "dropWhile (\<lambda>c. c \<noteq> CHR ''.'') (s @ CHR ''.'' # z) = CHR ''.'' # z"
    "takeWhile (\<lambda>c. c \<noteq> CHR ''.'') s = s" "dropWhile (\<lambda>c. c \<noteq> CHR ''.'') s = []"
    by (simp_all add: takeWhile_append2 dropWhile_append2)
qed

subsection \<open>Properties\<close>

text \<open>An amount is read exactly and never rounded: a JSON number is accepted with the value
  \<open>n\<close> exactly when it is the decimal text of \<open>n\<close>, alone or followed by a point and one to eighteen
  zeros, and \<open>n\<close> is positive and exactly representable.\<close>

theorem vnd_read_exactly:
  "normalizeSePayVnd (SvExact s) False = Inr n \<longleftrightarrow>
     0 < n \<and> n \<le> max_safe_integer \<and>
     (s = decimal (nat n) \<or> (\<exists>k. 1 \<le> k \<and> k \<le> 18 \<and> s = decimal (nat n) @ ''.'' @ replicate k (CHR ''0'')))"
proof
  assume a: "normalizeSePayVnd (SvExact s) False = Inr n"
  let ?w = "takeWhile (\<lambda>c. c \<noteq> CHR ''.'') s" and ?r = "dropWhile (\<lambda>c. c \<noteq> CHR ''.'') s"
  from a have v: "vnd_pattern s" "n = int (digits_value ?w)" "n \<le> max_safe_integer" "n \<noteq> 0"
    by (auto simp: normalizeSePayVnd_def sepay_source_def Let_def split: if_split_asm)
  have "positive_digits 15 ?w"
    using v by (auto simp: vnd_pattern_def plain_digits_def digit_value_def)
  then have w: "decimal (nat n) = ?w" "0 < n" using positive_digits_decimal [of 15 ?w] v(2) by auto
  have "?r = [] \<or> (\<exists>k. 1 \<le> k \<and> k \<le> 18 \<and> ?r = ''.'' @ replicate k (CHR ''0''))"
  proof (cases ?r)
    case (Cons p zeros)
    then have "p = CHR ''.''" using hd_dropWhile [of "\<lambda>c. c \<noteq> CHR ''.''" s] by simp
    moreover have "repeats ((=) (CHR ''0'')) 1 18 zeros" using v(1) Cons by (simp add: vnd_pattern_def)
    then have "1 \<le> length zeros" "length zeros \<le> 18" and z: "\<forall>c \<in> set zeros. c = CHR ''0''"
      by (auto simp: repeats_def list_all_iff)
    moreover have "zeros = replicate (length zeros) (CHR ''0'')" using z by (intro replicate_eqI) auto
    ultimately show ?thesis using Cons by auto
  qed simp
  moreover have "s = ?w @ ?r" by simp
  ultimately show "0 < n \<and> n \<le> max_safe_integer \<and>
      (s = decimal (nat n) \<or> (\<exists>k. 1 \<le> k \<and> k \<le> 18 \<and> s = decimal (nat n) @ ''.'' @ replicate k (CHR ''0'')))"
    using w v(3) by (metis append_Nil2)
next
  assume n: "0 < n \<and> n \<le> max_safe_integer \<and>
     (s = decimal (nat n) \<or> (\<exists>k. 1 \<le> k \<and> k \<le> 18 \<and> s = decimal (nat n) @ ''.'' @ replicate k (CHR ''0'')))"
  then have d: "plain_digits 15 (decimal (nat n))"
    using decimal_positive_digits [of "nat n"] unfolding plain_digits_def max_safe_integer_def by fastforce
  from n show "normalizeSePayVnd (SvExact s) False = Inr n"
    using d decimal_digits [of "nat n"]
    by (auto simp: normalizeSePayVnd_def sepay_source_def vnd_pattern_def vnd_split repeats_def list_all_iff)
qed

text \<open>A reference counts as exact exactly when the content has one full token at one single place
  (no letter or digit touches it), and the separate code is null, empty or that same reference:
  embedded, cut, lower-case or repeated codes never match.\<close>

theorem reference_exact_iff:
  assumes "normalizeSePayReference code (SvString content) = Inr r"
  shows "(sr_status r = RefExact \<and> sr_reference r = Some ref) \<longleftrightarrow>
    ((\<exists>i. {j. token_at False content j} = {i} \<and> take 22 (drop i content) = ref) \<and> code \<in> {SvNull, SvString [], SvString ref})"
proof -
  let ?ts = "reference_tokens False content"
  obtain ct where ct: "(if code = SvNull then Inr None else map_sum id Some (sepayText code 128 True)) = Inr ct"
    using assms by (auto simp: normalizeSePayReference_def result_iffs)
  then have code: "ct = None \<and> code = SvNull \<or> (\<exists>s. ct = Some s \<and> code = SvString s)"
    by (cases code) (auto simp: sepayText_def split: if_splits)
  have r: "r = reference_of ct ?ts"
    using assms by (auto simp: normalizeSePayReference_def ct result_iffs sepayText_def split: if_split_asm)
  have "(sr_status r = RefExact \<and> sr_reference r = Some ref) \<longleftrightarrow> (?ts = [ref] \<and> (ct = None \<or> ct = Some [] \<or> ct = Some ref))"
    unfolding r reference_of_def Let_def
    by (cases ?ts) auto
  also have "\<dots> \<longleftrightarrow> ?ts = [ref] \<and> code \<in> {SvNull, SvString [], SvString ref}"
    using code by auto
  finally show ?thesis by (simp only: one_token_iff)
qed

definition sample_reference :: string where
  "sample_reference = ''PW0123456789ABCDEF0123''"

theorem reference_exact_iff_witness:
  "\<exists>r. normalizeSePayReference SvNull (SvString (''tip '' @ sample_reference @ '' thanks'')) = Inr r \<and>
     sr_status r = RefExact \<and> sr_reference r = Some sample_reference"
proof -
  let ?c = "''tip '' @ sample_reference @ '' thanks''"
  have ts: "reference_tokens False ?c = [sample_reference]" "\<not> list_ex is_control ?c" "length ?c \<le> 4096" by code_simp+
  then obtain r where r: "normalizeSePayReference SvNull (SvString ?c) = Inr r"
    by (simp add: normalizeSePayReference_def sepayText_def)
  have "SvNull \<in> {SvNull, SvString [], SvString sample_reference}" by simp
  then have "sr_status r = RefExact \<and> sr_reference r = Some sample_reference"
    using reference_exact_iff [OF r, of sample_reference] ts(1) [unfolded one_token_iff] by blast
  with r show ?thesis by blast
qed

text \<open>C23: A transfer is matched exactly when all evidence agrees: the provider's contract is proved,
  the intent is provider-bound and waits for a transfer to a valid binding that is the creator's
  account, one single row of the readback bears the event's id or the reference, that row and the
  event both give the intent's amount, reference and account, and the times are in order: cutover,
  creation, the transfer, now, the expiry.\<close>

theorem transfer_matched_iff:
  "matchSePayTip intent binding event readback cap now = Matched t \<longleftrightarrow>
     sc_oauthApplication cap \<and> sc_pkceS256 cap \<and> sc_stableAccountIdentity cap \<and>
     sc_canonicalTransactionIdentity cap \<and> sc_bankTimeReference cap \<and>
     si_settlementLane intent = ProviderBound \<and> si_state intent = AwaitingTransfer \<and>
     bindingValid binding \<and> is_reference (si_transferReference intent) \<and> positive_digits 31 (se_id event) \<and>
     positiveInteger (si_amountVnd intent) \<and>
     (\<exists>rows. readback = Complete rows \<and>
        [r \<leftarrow> rows. st_id r = se_id event \<or> st_reference r = Some (si_transferReference intent)] = [t]) \<and>
     t = \<lparr>st_id = se_id event, st_binding = binding, st_amountVnd = si_amountVnd intent, st_direction = DirectionIn,
       st_occurredAt = se_occurredAt event, st_reference = Some (si_transferReference intent),
       st_referenceStatus = RefExact, st_bankReference = se_bankReference event\<rparr> \<and>
     event = \<lparr>se_id = se_id event, se_bankGateway = sb_bankGateway binding, se_accountNumber = sb_accountNumber binding,
       se_subAccount = sb_subAccount binding, se_amountVnd = si_amountVnd intent, se_occurredAt = se_occurredAt event,
       se_reference = Some (si_transferReference intent), se_referenceStatus = RefExact, se_bankReference = se_bankReference event\<rparr> \<and>
     si_bankBin intent = sb_bankBin binding \<and>
     si_accountNumber intent = (case sb_subAccount binding of None \<Rightarrow> sb_accountNumber binding | Some s \<Rightarrow> s) \<and>
     (\<exists>cutover. si_cutoverAt intent = Some cutover \<and> cutover \<le> si_createdAt intent) \<and>
     si_createdAt intent \<le> se_occurredAt event \<and> se_occurredAt event \<le> now \<and> now < si_expiresAt intent"
  (is "?m = Matched t \<longleftrightarrow> ?e")
proof
  assume m: "?m = Matched t"
  obtain cutover where cut: "si_cutoverAt intent = Some cutover"
    using m by (cases "si_cutoverAt intent") (simp_all add: matchSePayTip_def split: if_split_asm)
  obtain rows where rows: "readback = Complete rows"
    using m by (cases readback) (simp_all add: matchSePayTip_def cut split: if_split_asm)
  have one: "[r \<leftarrow> rows. st_id r = se_id event \<or> st_reference r = Some (si_transferReference intent)] = [t]"
    using m by (cases "[r \<leftarrow> rows. st_id r = se_id event \<or> st_reference r = Some (si_transferReference intent)]")
      (simp_all add: matchSePayTip_def cut rows split: if_split_asm)
  show ?e
    using m one unfolding matchSePayTip_def cut rows
    by (cases cap; cases event; cases t; cases "st_binding t"; cases binding)
      (simp add: sameBinding_def split: if_split_asm)
next
  assume e: ?e
  then obtain cutover rows where c: "si_cutoverAt intent = Some cutover" "cutover \<le> si_createdAt intent"
      "readback = Complete rows" "[r \<leftarrow> rows. st_id r = se_id event \<or> st_reference r = Some (si_transferReference intent)] = [t]"
    by blast
  from e have t: "t = \<lparr>st_id = se_id event, st_binding = binding, st_amountVnd = si_amountVnd intent, st_direction = DirectionIn,
       st_occurredAt = se_occurredAt event, st_reference = Some (si_transferReference intent),
       st_referenceStatus = RefExact, st_bankReference = se_bankReference event\<rparr>" by blast
  from e have "event = \<lparr>se_id = se_id event, se_bankGateway = sb_bankGateway binding, se_accountNumber = sb_accountNumber binding,
       se_subAccount = sb_subAccount binding, se_amountVnd = si_amountVnd intent, se_occurredAt = se_occurredAt event,
       se_reference = Some (si_transferReference intent), se_referenceStatus = RefExact, se_bankReference = se_bankReference event\<rparr>"
    by blast
  then obtain k oc br where ev: "event = \<lparr>se_id = k, se_bankGateway = sb_bankGateway binding, se_accountNumber = sb_accountNumber binding,
       se_subAccount = sb_subAccount binding, se_amountVnd = si_amountVnd intent, se_occurredAt = oc,
       se_reference = Some (si_transferReference intent), se_referenceStatus = RefExact, se_bankReference = br\<rparr>"
    by blast
  from e have g: "sc_oauthApplication cap" "sc_pkceS256 cap" "sc_stableAccountIdentity cap" "sc_canonicalTransactionIdentity cap"
      "sc_bankTimeReference cap" "si_settlementLane intent = ProviderBound" "si_state intent = AwaitingTransfer" "bindingValid binding"
      "is_reference (si_transferReference intent)" "positive_digits 31 (se_id event)" "positiveInteger (si_amountVnd intent)"
      "si_bankBin intent = sb_bankBin binding"
      "si_accountNumber intent = (case sb_subAccount binding of None \<Rightarrow> sb_accountNumber binding | Some s \<Rightarrow> s)"
      "si_createdAt intent \<le> se_occurredAt event" "se_occurredAt event \<le> now" "now < si_expiresAt intent"
    by simp_all
  show "?m = Matched t"
    using g c(1,2) c(4) [unfolded t ev] unfolding matchSePayTip_def c(3) t ev
    by (simp add: sameBinding_def)
qed

lemma format_error_Inr: "format_error r = Inr x \<longleftrightarrow> r = Inr x"
  by (cases r) (simp_all add: format_error_def)

lemma disposition_accepted:
  assumes "webhook_disposition pf body raw = Inr (Accepted ev dg)"
  shows "positive_digits 31 (se_id ev)" "0 < se_amountVnd ev" "se_amountVnd ev \<le> max_safe_integer"
    "sv_field raw ''transferType'' = SvString ''in''" "dg = lower_hex (pf_sha256 pf body)"
proof -
  have id: "k \<noteq> ''0'' \<Longrightarrow> normalizeSePayId v True = Inr k \<Longrightarrow> positive_digits 31 k" for v k
    by (auto simp: normalizeSePayId_def plain_digits_def split: option.splits if_split_asm)
  have amount: "normalizeSePayVnd v False = Inr n \<Longrightarrow> 0 < n \<and> n \<le> max_safe_integer" for v n
    by (auto simp: normalizeSePayVnd_def Let_def split: option.splits if_split_asm)
  from assms obtain k am where k: "normalizeSePayId (sv_field raw ''id'') True = Inr k"
      "normalizeSePayVnd (sv_field raw ''transferAmount'') False = Inr am" "k \<noteq> ''0''" "se_id ev = k" "se_amountVnd ev = am"
    and rest: "sv_field raw ''transferType'' = SvString ''in''" "dg = lower_hex (pf_sha256 pf body)"
    unfolding webhook_disposition_def by (auto simp: result_iffs format_error_Inr Let_def split: if_split_asm)
  show "positive_digits 31 (se_id ev)" "0 < se_amountVnd ev" "se_amountVnd ev \<le> max_safe_integer"
    "sv_field raw ''transferType'' = SvString ''in''" "dg = lower_hex (pf_sha256 pf body)"
    using id [OF k(3,1)] amount [OF k(2)] k rest by simp_all
qed

lemma record_Inr: "sepayRecord v = Inr es \<longleftrightarrow> v = SvObject es"
  by (cases v) (auto simp: sepayRecord_def)

text \<open>An accepted event carries the fields of the body it was read from.\<close>

lemma disposition_fields:
  assumes "webhook_disposition pf body raw = Inr (Accepted ev dg)"
  shows "normalizeSePayId (sv_field raw ''id'') True = Inr (se_id ev)"
    "sepayText (sv_field raw ''gateway'') 80 False = Inr (se_bankGateway ev)"
    "sepayText (sv_field raw ''accountNumber'') 64 False = Inr (se_accountNumber ev)"
    "sepayNullableText (sv_field raw ''subAccount'') 64 = Inr (se_subAccount ev)"
    "normalizeSePayVnd (sv_field raw ''transferAmount'') False = Inr (se_amountVnd ev)"
    "parseSePayVietnamTime (sv_field raw ''transactionDate'') = Inr (se_occurredAt ev)"
    "normalizeSePayReference (sv_field raw ''code'') (sv_field raw ''content'') =
       Inr \<lparr>sr_reference = se_reference ev, sr_status = se_referenceStatus ev, sr_isPawket = True\<rparr>"
    "sepayNullableText (sv_field raw ''referenceCode'') 128 = Inr (se_bankReference ev)"
  using assms unfolding webhook_disposition_def
  by (auto simp: result_iffs format_error_Inr Let_def split: if_split_asm)

text \<open>C30: Only authentic, fresh evidence is accepted: a webhook body becomes an event only when the
  signature is the HMAC of the timestamp, a point and the very bytes of the body under the secret,
  the timestamp is within five minutes of now, the body is at most 16 KiB, and the body is an object
  whose transfer type is incoming, whose id is not the mock id 0, and whose fields the event
  carries: the id, the account, a positive exact amount, the Vietnamese time, a Pawket reference
  with its status and the bank's reference.\<close>

theorem accepted_webhook_is_authentic:
  assumes "authenticateAndParseSePayWebhook pf parse_json i = Inr (Accepted ev dg)"
  shows "\<exists>ts sig raw. wi_timestamp i = Some ts \<and> wi_signature i = Some (''sha256='' @ sig) \<and>
     pf_hmac pf (wi_secret i) (ts @ ''.'' @ wi_rawBody i) = from_hex sig \<and> length sig = 64 \<and> list_all is_hex sig \<and>
     \<bar>wi_now i - int (digits_value ts) * 1000\<bar> \<le> 300000 \<and> length (wi_rawBody i) \<le> 16384 \<and>
     dg = lower_hex (pf_sha256 pf (wi_rawBody i)) \<and> positive_digits 31 (se_id ev) \<and>
     0 < se_amountVnd ev \<and> se_amountVnd ev \<le> max_safe_integer \<and>
     parse_json (wi_rawBody i) = Some (SvObject raw) \<and> sv_field raw ''transferType'' = SvString ''in'' \<and>
     normalizeSePayId (sv_field raw ''id'') True = Inr (se_id ev) \<and>
     sepayText (sv_field raw ''gateway'') 80 False = Inr (se_bankGateway ev) \<and>
     sepayText (sv_field raw ''accountNumber'') 64 False = Inr (se_accountNumber ev) \<and>
     sepayNullableText (sv_field raw ''subAccount'') 64 = Inr (se_subAccount ev) \<and>
     normalizeSePayVnd (sv_field raw ''transferAmount'') False = Inr (se_amountVnd ev) \<and>
     parseSePayVietnamTime (sv_field raw ''transactionDate'') = Inr (se_occurredAt ev) \<and>
     normalizeSePayReference (sv_field raw ''code'') (sv_field raw ''content'') =
       Inr \<lparr>sr_reference = se_reference ev, sr_status = se_referenceStatus ev, sr_isPawket = True\<rparr> \<and>
     sepayNullableText (sv_field raw ''referenceCode'') 128 = Inr (se_bankReference ev)"
proof -
  obtain ts sg where h: "wi_timestamp i = Some ts" "wi_signature i = Some sg"
    using assms by (cases "wi_timestamp i"; cases "wi_signature i")
      (simp_all add: authenticateAndParseSePayWebhook_def split: if_split_asm)
  then have a: "webhook_headers_ok i ts sg" "pf_hmac pf (wi_secret i) (ts @ ''.'' @ wi_rawBody i) = from_hex (drop 7 sg)"
      "parseAuthenticatedSePayWebhook pf parse_json (wi_rawBody i) = Inr (Accepted ev dg)" "length (wi_rawBody i) \<le> webhook_max_bytes"
    using assms by (simp_all add: authenticateAndParseSePayWebhook_def split: if_split_asm)
  then obtain raw where raw: "parse_json (wi_rawBody i) = Some (SvObject raw)"
      "webhook_disposition pf (wi_rawBody i) raw = Inr (Accepted ev dg)"
    by (auto simp: parseAuthenticatedSePayWebhook_def result_iffs format_error_Inr record_Inr split: if_split_asm)
  note ev = disposition_accepted [OF raw(2)] disposition_fields [OF raw(2)]
  obtain sig where sig: "sg = ''sha256='' @ sig" using a(1) by (auto simp: webhook_headers_ok_def starts_with_iff)
  have hex: "list_all is_hex sig \<and> length sig = 64 \<and> \<bar>wi_now i - int (digits_value ts) * 1000\<bar> \<le> 300000"
    using a(1) by (auto simp: sig webhook_headers_ok_def repeats_def)
  from hex a h ev raw(1) show ?thesis
    by (intro exI [where x = ts] exI [where x = sig] exI [where x = raw]) (simp add: sig webhook_max_bytes_def)
qed

definition sample_webhook_fields :: "(string \<times> sepay_value) list" where
  "sample_webhook_fields = [(''id'', SvExact ''42''), (''gateway'', SvString ''Vietcombank''), (''accountNumber'', SvString ''0123456789''),
     (''subAccount'', SvNull), (''transferAmount'', SvExact ''50000''), (''transactionDate'', SvString ''2026-02-13 10:00:00''),
     (''code'', SvNull), (''content'', SvString sample_reference), (''referenceCode'', SvNull), (''transferType'', SvString ''in'')]"

definition sample_webhook :: webhook_input where
  "sample_webhook = \<lparr>wi_rawBody = ''body'', wi_contentType = Some ''application/json'', wi_contentEncoding = None,
     wi_timestamp = Some ''1770951700'', wi_signature = Some (''sha256='' @ concat (replicate 32 ''6b'')),
     wi_secret = replicate 32 (CHR ''k''), wi_now = 1770951600000\<rparr>"

theorem accepted_webhook_is_authentic_witness:
  "\<exists>ev dg. authenticateAndParseSePayWebhook toy_platform (\<lambda>_. Some (SvObject sample_webhook_fields)) sample_webhook =
       Inr (Accepted ev dg) \<and> se_amountVnd ev = 50000 \<and> dg = lower_hex (pf_sha256 toy_platform ''body'')"
proof -
  have hmac: "pf_hmac toy_platform (wi_secret sample_webhook) (''1770951700'' @ ''.'' @ wi_rawBody sample_webhook) =
      from_hex (drop 7 (''sha256='' @ concat (replicate 32 ''6b'')))"
    by code_simp
  have "positive_digits 10 ''1770951700''" "repeats is_hex 64 64 (concat (replicate 32 ''6b''))" "json_content_type ''application/json''"
    by code_simp+
  moreover have "digits_value ''1770951700'' = 1770951700"
    by (simp add: digit_value_def)
  ultimately have headers: "webhook_headers_ok sample_webhook ''1770951700'' (''sha256='' @ concat (replicate 32 ''6b''))"
    "json_content_type ''application/json''" "length (wi_rawBody sample_webhook) \<le> webhook_max_bytes"
    by (simp_all add: webhook_headers_ok_def sample_webhook_def webhook_max_bytes_def starts_with_def)
  have "\<exists>t. parseSePayVietnamTime (SvString ''2026-02-13 10:00:00'') = Inr t"
  proof -
    have day: "parse_iso_day ''2026-02-13'' = Some 20497"
      by (simp add: parse_iso_day_def text_year_def text_month_def text_day_def digit_value_def make_day_def day_from_year_def
          leap_year_def month_lengths_def)
    have iso: "toISOString (20497 * 86400000 + 36000000) = ''2026-02-13T10:00:00.000Z''"
    proof -
      have "padded 3 0 = ''000''" by code_simp
      then show ?thesis by (simp add: toISOString_def utc_day_def ms_per_day_def Let_def sample_iso_dates padded_two)
    qed
    have "vietnam_time_pattern ''2026-02-13 10:00:00''" "\<not> list_ex is_control ''2026-02-13 10:00:00''" by code_simp+
    then show ?thesis
      using iso by (simp add: parseSePayVietnamTime_def sepayText_def vietnam_instant_def digit_value_def day ms_per_day_def require_def)
  qed
  then obtain t where t: "parseSePayVietnamTime (SvString ''2026-02-13 10:00:00'') = Inr t" by blast
  have amount: "normalizeSePayVnd (SvExact ''50000'') False = Inr 50000"
  proof -
    have "vnd_pattern ''50000''" by code_simp
    then show ?thesis
      by (simp add: normalizeSePayVnd_def sepay_source_def digit_value_def max_safe_integer_def Let_def)
  qed
  have code: "reference_tokens False sample_reference = [sample_reference]" "\<not> list_ex is_control sample_reference"
    "length sample_reference \<le> 4096" "normalizeSePayId (SvExact ''42'') True = Inr ''42''"
    "sepayText (SvString ''Vietcombank'') 80 False = Inr ''Vietcombank''" "sepayText (SvString ''0123456789'') 64 False = Inr ''0123456789''"
    by code_simp+
  have "\<exists>r. normalizeSePayReference SvNull (SvString sample_reference) = Inr r \<and> sr_isPawket r"
    using code(1-3) by (simp add: normalizeSePayReference_def sepayText_def reference_of_def)
  then obtain r where r: "normalizeSePayReference SvNull (SvString sample_reference) = Inr r" "sr_isPawket r" by blast
  have "\<exists>ev dg. webhook_disposition toy_platform ''body'' sample_webhook_fields = Inr (Accepted ev dg) \<and> se_amountVnd ev = 50000"
    using t amount code(4-6) r
    by (simp add: webhook_disposition_def sample_webhook_fields_def sv_field_def format_error_def sepayNullableText_def)
  then obtain ev dg where "authenticateAndParseSePayWebhook toy_platform (\<lambda>_. Some (SvObject sample_webhook_fields)) sample_webhook =
       Inr (Accepted ev dg)" "se_amountVnd ev = 50000"
    using headers hmac
    by (auto simp: authenticateAndParseSePayWebhook_def parseAuthenticatedSePayWebhook_def sepayRecord_def format_error_def
        sample_webhook_def)
  with accepted_webhook_is_authentic [OF this(1)] show ?thesis
    by (auto simp: sample_webhook_def)
qed

end
