(* ===== verification/Commission.thy ===== *)
theory Commission
  imports Wire Idempotency
begin

text \<open>
  The rules of a commission (\<^verbatim>\<open>packages/orders/src/contracts.ts\<close>, \<^verbatim>\<open>lifecycle.ts\<close>, \<^verbatim>\<open>policy.ts\<close>,
  \<^verbatim>\<open>fulfillment-timing.ts\<close>, \<^verbatim>\<open>private-content.ts\<close>, \<^verbatim>\<open>command-fingerprint.ts\<close>): its states and
  errors, the table of allowed transitions, the limits on amounts, texts and times, the deadline
  arithmetic with fulfilment pauses, and the sealing of the private terms. Texts are ASCII, so that
  the NFC normalisation is the identity and a code point is a character.
\<close>

subsection \<open>States, reasons and errors\<close>

datatype commission_route = FixedImmediate | FixedApproval | CustomQuote

datatype commission_state =
  CoRequested | CoQuoted | CoAwaitingPayment | CoInProgress | CoDelivered | CoCompleted | CoClosed

datatype completion_kind = BuyerAccepted | ReviewWindowElapsed | CompletedByAgreement | CompletedByRuling

datatype close_reason =
    BuyerWithdrawn | CreatorDeclined | QuoteWithdrawn | QuoteDeclined | RequestExpired | QuoteExpired
  | BuyerCancelled | CreatorCancelled | PaymentExpired | SecurityInvalidated | EligibilityInvalidated
  | CancelledByAgreement | CancelledByRuling | BuyerCancelledAfterSuspension | FulfillmentFrozen

definition post_payment_reasons :: "close_reason list" where
  "post_payment_reasons = [CancelledByAgreement, CancelledByRuling, BuyerCancelledAfterSuspension, FulfillmentFrozen]"

datatype commission_error =
    NotAuthorized | NotAvailable | IntakeDisabled | PaymentsDisabled | InvalidRequest
  | InvalidTerms | InvalidBrief | VersionConflict | PolicyChanged | CapacityFull
  | RequestLimit | DeadlineExpired | InvalidTransition | IdempotencyConflict | EvidenceMismatch
  | RecentAuthRequired | TotpRequired | RateLimited | DependencyUnavailable
  | FilesDisabled | InvalidReferenceFiles
  | FulfillmentDisabled | RevisionsExhausted | CompletionHeld | InvalidAttachmentFiles
  | IntakePaused | DisputeOpen

text \<open>What a transaction can fail with: an error of this domain, the restriction error of Trust, a
  payment error with its code, or any other error, by its name.\<close>

datatype failure = CommissionError commission_error | TrustRestricted | TipPaymentError string | OtherError string

text \<open>\<open>boundary\<close>: only the codes of this domain leave the order service.\<close>

definition domain_error :: "failure \<Rightarrow> commission_error" where
  "domain_error e =
     (case e of
        CommissionError c \<Rightarrow> c
      | TrustRestricted \<Rightarrow> NotAvailable
      | TipPaymentError code \<Rightarrow>
          if code = ''not_available'' then NotAvailable
          else if code = ''payments_disabled'' then PaymentsDisabled
          else if code = ''idempotency_conflict'' then IdempotencyConflict
          else if code = ''intent_not_pending'' then InvalidTransition
          else DependencyUnavailable
      | OtherError _ \<Rightarrow> DependencyUnavailable)"

definition boundary :: "failure + 'a \<Rightarrow> commission_error + 'a" where
  "boundary r = (case r of Inl e \<Rightarrow> Inl (domain_error e) | Inr a \<Rightarrow> Inr a)"

lemma boundary_Inr [simp]: "boundary r = Inr a \<longleftrightarrow> r = Inr a"
  by (cases r) (simp_all add: boundary_def)

definition check :: "bool \<Rightarrow> commission_error \<Rightarrow> failure + unit" where
  "check b e = require b (CommissionError e)"

lemma check_Inr [simp]: "check b e = Inr u \<longleftrightarrow> b"
  by (simp add: check_def)

definition demand :: "'a option \<Rightarrow> commission_error \<Rightarrow> failure + 'a" where
  "demand v e = orThrow v (CommissionError e)"

lemma demand_Inr [simp]: "demand v e = Inr a \<longleftrightarrow> v = Some a"
  by (simp add: demand_def)

definition other :: "string \<Rightarrow> 'e + 'a \<Rightarrow> failure + 'a" where
  "other name r = (case r of Inl _ \<Rightarrow> Inl (OtherError name) | Inr a \<Rightarrow> Inr a)"

lemma other_Inr [simp]: "other name r = Inr a \<longleftrightarrow> r = Inr a"
  by (cases r) (simp_all add: other_def)

subsection \<open>Texts of the enumerations\<close>

definition state_text :: "commission_state \<Rightarrow> string" where
  "state_text s = (case s of CoRequested \<Rightarrow> ''requested'' | CoQuoted \<Rightarrow> ''quoted'' | CoAwaitingPayment \<Rightarrow> ''awaiting_payment''
     | CoInProgress \<Rightarrow> ''in_progress'' | CoDelivered \<Rightarrow> ''delivered'' | CoCompleted \<Rightarrow> ''completed'' | CoClosed \<Rightarrow> ''closed'')"

definition close_reason_text :: "close_reason \<Rightarrow> string" where
  "close_reason_text r = (case r of BuyerWithdrawn \<Rightarrow> ''buyer_withdrawn'' | CreatorDeclined \<Rightarrow> ''creator_declined''
     | QuoteWithdrawn \<Rightarrow> ''quote_withdrawn'' | QuoteDeclined \<Rightarrow> ''quote_declined'' | RequestExpired \<Rightarrow> ''request_expired''
     | QuoteExpired \<Rightarrow> ''quote_expired'' | BuyerCancelled \<Rightarrow> ''buyer_cancelled'' | CreatorCancelled \<Rightarrow> ''creator_cancelled''
     | PaymentExpired \<Rightarrow> ''payment_expired'' | SecurityInvalidated \<Rightarrow> ''security_invalidated''
     | EligibilityInvalidated \<Rightarrow> ''eligibility_invalidated'' | CancelledByAgreement \<Rightarrow> ''cancelled_by_agreement''
     | CancelledByRuling \<Rightarrow> ''cancelled_by_ruling'' | BuyerCancelledAfterSuspension \<Rightarrow> ''buyer_cancelled_after_suspension''
     | FulfillmentFrozen \<Rightarrow> ''fulfillment_frozen'')"

definition completion_kind_text :: "completion_kind \<Rightarrow> string" where
  "completion_kind_text k = (case k of BuyerAccepted \<Rightarrow> ''buyer_accepted'' | ReviewWindowElapsed \<Rightarrow> ''review_window_elapsed''
     | CompletedByAgreement \<Rightarrow> ''agreement'' | CompletedByRuling \<Rightarrow> ''ruling'')"

subsection \<open>The lifecycle\<close>

definition closeReasons :: "commission_state \<Rightarrow> close_reason list" where
  "closeReasons s =
     (case s of
        CoRequested \<Rightarrow> [BuyerWithdrawn, CreatorDeclined, RequestExpired, SecurityInvalidated, EligibilityInvalidated]
      | CoQuoted \<Rightarrow> [BuyerWithdrawn, QuoteWithdrawn, QuoteDeclined, QuoteExpired, SecurityInvalidated, EligibilityInvalidated]
      | CoAwaitingPayment \<Rightarrow> [BuyerCancelled, CreatorCancelled, PaymentExpired, SecurityInvalidated, EligibilityInvalidated]
      | CoInProgress \<Rightarrow> post_payment_reasons
      | CoDelivered \<Rightarrow> post_payment_reasons
      | CoCompleted \<Rightarrow> []
      | CoClosed \<Rightarrow> [])"

definition open_transition :: "commission_state \<Rightarrow> commission_state \<Rightarrow> bool" where
  "open_transition a b \<longleftrightarrow>
     (a = CoRequested \<and> (b = CoQuoted \<or> b = CoAwaitingPayment)) \<or>
     (a = CoQuoted \<and> (b = CoQuoted \<or> b = CoAwaitingPayment)) \<or>
     (a = CoAwaitingPayment \<and> b = CoInProgress) \<or>
     (a = CoInProgress \<and> (b = CoDelivered \<or> b = CoInProgress)) \<or>
     (a = CoDelivered \<and> (b = CoInProgress \<or> b = CoCompleted))"

definition requireCommissionTransition ::
  "commission_state \<Rightarrow> commission_state \<Rightarrow> close_reason option \<Rightarrow> failure + unit" where
  "requireCommissionTransition a b reason =
     (if b = CoClosed then check (case reason of None \<Rightarrow> False | Some r \<Rightarrow> r \<in> set (closeReasons a)) InvalidTransition
      else check (reason = None \<and> open_transition a b) InvalidTransition)"

definition commissionExpiredReason :: "commission_state \<Rightarrow> failure + close_reason" where
  "commissionExpiredReason s =
     (case s of CoRequested \<Rightarrow> Inr RequestExpired | CoQuoted \<Rightarrow> Inr QuoteExpired | CoAwaitingPayment \<Rightarrow> Inr PaymentExpired
      | _ \<Rightarrow> Inl (CommissionError InvalidTransition))"

subsection \<open>Limits\<close>

definition day_ms :: int where "day_ms = 86400000"
definition minimumVnd :: int where "minimumVnd = 50000"
definition maximumVnd :: int where "maximumVnd = 50000000"
definition maximumOpenPairOrders :: nat where "maximumOpenPairOrders = 3"
definition requestTtlMs :: int where "requestTtlMs = 7 * day_ms"
definition minimumQuoteTtlMs :: int where "minimumQuoteTtlMs = 3600000"
definition maximumQuoteTtlMs :: int where "maximumQuoteTtlMs = 14 * day_ms"
definition requestMaximumAgeMs :: int where "requestMaximumAgeMs = 30 * day_ms"
definition paymentTtlMs :: int where "paymentTtlMs = day_ms"
definition maximumPlaintextBytes :: nat where "maximumPlaintextBytes = 16384"
definition pauseGraceMs :: int where "pauseGraceMs = 172800000"
definition maximumNoteCodePoints :: nat where "maximumNoteCodePoints = 2000"
definition maximumSubmissionFiles :: nat where "maximumSubmissionFiles = 20"

lemmas commission_limits = day_ms_def minimumVnd_def maximumVnd_def maximumOpenPairOrders_def requestTtlMs_def minimumQuoteTtlMs_def
  maximumQuoteTtlMs_def requestMaximumAgeMs_def paymentTtlMs_def maximumPlaintextBytes_def pauseGraceMs_def maximumNoteCodePoints_def
  maximumSubmissionFiles_def

definition commissionIdentifier :: "string \<Rightarrow> bool" where
  "commissionIdentifier s \<longleftrightarrow> leading_alnum is_ident 199 s"

definition commissionIdempotencyKey :: "string \<Rightarrow> bool" where
  "commissionIdempotencyKey s \<longleftrightarrow> repeats is_word_dot_dash 8 200 s"

definition commissionInteger :: "int \<Rightarrow> int \<Rightarrow> int \<Rightarrow> failure + int" where
  "commissionInteger v minimum maximum =
     (if \<not> isSafeInteger v \<or> v < minimum \<or> maximum < v then Inl (CommissionError InvalidRequest) else Inr v)"

lemma commissionInteger_Inr [simp]:
  "commissionInteger v a b = Inr n \<longleftrightarrow> n = v \<and> isSafeInteger v \<and> a \<le> v \<and> v \<le> b"
  by (auto simp: commissionInteger_def)

text \<open>\<open>replace(/\r\n?/gu, "\n")\<close>, and the characters a text may not hold.\<close>

fun unify_newlines :: "string \<Rightarrow> string" where
  "unify_newlines [] = []"
| "unify_newlines [c] = [if c = CHR 0x0D then CHR 0x0A else c]"
| "unify_newlines (c # d # cs) =
     (if c = CHR 0x0D then CHR 0x0A # (if d = CHR 0x0A then unify_newlines cs else unify_newlines (d # cs))
      else c # unify_newlines (d # cs))"

definition forbidden_char :: "char \<Rightarrow> bool" where
  "forbidden_char c \<longleftrightarrow> (c \<le> CHR 0x1F \<and> c \<notin> {CHR 0x09, CHR 0x0A, CHR 0x0D}) \<or> c = CHR 0x7F"

definition normalizeCommissionText :: "string \<Rightarrow> nat \<Rightarrow> nat \<Rightarrow> bool \<Rightarrow> failure + string" where
  "normalizeCommissionText v minimum maximum allowAngleBrackets =
     (let text = trim (unify_newlines v)
      in if length text < minimum \<or> maximum < length text \<or> list_ex forbidden_char text \<or>
            (\<not> allowAngleBrackets \<and> list_ex (\<lambda>c. c \<in> {CHR ''<'', CHR ''>''}) text) \<or>
            maximumPlaintextBytes < length (json_string text)
         then Inl (CommissionError InvalidRequest) else Inr text)"

definition commissionText :: "string \<Rightarrow> nat \<Rightarrow> nat \<Rightarrow> failure + string" where
  "commissionText v minimum maximum = normalizeCommissionText v minimum maximum False"

definition commissionPlainText :: "string \<Rightarrow> nat \<Rightarrow> nat \<Rightarrow> failure + string" where
  "commissionPlainText v minimum maximum = normalizeCommissionText v minimum maximum True"

record commission_terms =
  tm_amountVnd :: int
  tm_turnaroundDays :: int
  tm_revisionAllowance :: int
  tm_reviewWindowDays :: int
  tm_scope :: string
  tm_deliverables :: string
  tm_usageRights :: string
  tm_artistTerms :: string
  tm_policyRevisionId :: string

definition as_terms_error :: "failure + 'a \<Rightarrow> failure + 'a" where
  "as_terms_error r = (case r of Inl _ \<Rightarrow> Inl (CommissionError InvalidTerms) | Inr a \<Rightarrow> Inr a)"

lemma as_terms_error_Inr [simp]: "as_terms_error r = Inr a \<longleftrightarrow> r = Inr a"
  by (cases r) (simp_all add: as_terms_error_def)

definition normalizeCommissionTerms :: "commission_terms \<Rightarrow> failure + commission_terms" where
  "normalizeCommissionTerms t =
     await (check (is_uuid (tm_policyRevisionId t)) InvalidTerms) (\<lambda>_.
     as_terms_error (
       await (commissionInteger (tm_amountVnd t) minimumVnd maximumVnd) (\<lambda>amountVnd.
       await (commissionInteger (tm_turnaroundDays t) 1 90) (\<lambda>turnaroundDays.
       await (commissionInteger (tm_revisionAllowance t) 0 10) (\<lambda>revisionAllowance.
       await (commissionInteger (tm_reviewWindowDays t) 3 14) (\<lambda>reviewWindowDays.
       await (commissionText (tm_scope t) 1 2000) (\<lambda>scope.
       await (commissionText (tm_deliverables t) 1 2000) (\<lambda>deliverables.
       await (commissionText (tm_usageRights t) 1 2000) (\<lambda>usageRights.
       await (commissionText (tm_artistTerms t) 1 2000) (\<lambda>artistTerms.
         Inr \<lparr>tm_amountVnd = amountVnd, tm_turnaroundDays = turnaroundDays, tm_revisionAllowance = revisionAllowance,
              tm_reviewWindowDays = reviewWindowDays, tm_scope = scope, tm_deliverables = deliverables,
              tm_usageRights = usageRights, tm_artistTerms = artistTerms, tm_policyRevisionId = tm_policyRevisionId t\<rparr>))))))))))"

text \<open>The parsed URL of a reference link: protocol, host name, user name, password and \<open>href\<close>.\<close>

record link_url =
  lu_protocol :: string
  lu_hostname :: string
  lu_username :: string
  lu_password :: string
  lu_href :: string

record commission_brief =
  br_text :: string
  br_referenceLinks :: "string list"

definition link_pattern :: "string \<Rightarrow> bool" where
  "link_pattern raw \<longleftrightarrow>
     starts_with ''https://'' (map lower_char (take 8 raw)) \<and>
     (case drop 8 raw of [] \<Rightarrow> False | c # _ \<Rightarrow> c \<notin> {CHR ''/'', CHR ''?'', CHR ''#''})"

definition normalize_link :: "(string \<Rightarrow> link_url option) \<Rightarrow> string \<Rightarrow> failure + string" where
  "normalize_link parse raw =
     await (check (raw = trim raw \<and> link_pattern raw \<and> \<not> list_ex (\<lambda>c. is_control c \<or> is_space c) raw \<and> length raw \<le> 512) InvalidBrief) (\<lambda>_.
     await (demand (parse raw) InvalidBrief) (\<lambda>url.
     await (check (lu_protocol url = ''https:'' \<and> lu_hostname url \<noteq> [] \<and> lu_username url = [] \<and> lu_password url = [] \<and>
        length (lu_href url) \<le> 512) InvalidBrief) (\<lambda>_.
       Inr (lu_href url))))"

fun normalize_links :: "(string \<Rightarrow> link_url option) \<Rightarrow> string list \<Rightarrow> failure + string list" where
  "normalize_links parse [] = Inr []"
| "normalize_links parse (raw # raws) =
     await (normalize_link parse raw) (\<lambda>href. await (normalize_links parse raws) (\<lambda>hrefs. Inr (href # hrefs)))"

definition normalizeCommissionBrief :: "(string \<Rightarrow> link_url option) \<Rightarrow> commission_brief \<Rightarrow> failure + commission_brief" where
  "normalizeCommissionBrief parse b =
     (case await (commissionText (br_text b) 1 3000) (\<lambda>text.
           await (check (length (br_referenceLinks b) \<le> 5) InvalidBrief) (\<lambda>_.
           await (normalize_links parse (br_referenceLinks b)) (\<lambda>links.
           await (check (distinct links \<and> length (stringify (JArr (map JStr links))) \<le> maximumPlaintextBytes) InvalidBrief) (\<lambda>_.
             Inr \<lparr>br_text = text, br_referenceLinks = links\<rparr>)))) of
        Inl _ \<Rightarrow> Inl (CommissionError InvalidBrief)
      | Inr v \<Rightarrow> Inr v)"

subsection \<open>Deadlines\<close>

text \<open>A \<open>Date\<close> is valid within 8.64e15 milliseconds of 1970.\<close>

definition date_ok :: "instant \<Rightarrow> bool" where
  "date_ok t \<longleftrightarrow> \<bar>t\<bar> \<le> 8640000000000000"

definition plus_ms :: "instant \<Rightarrow> int \<Rightarrow> failure + instant" where
  "plus_ms v delta = await (check (date_ok v \<and> date_ok (v + delta)) InvalidRequest) (\<lambda>_. Inr (v + delta))"

lemma plus_ms_Inr [simp]: "plus_ms v d = Inr t \<longleftrightarrow> t = v + d \<and> date_ok v \<and> date_ok (v + d)"
  by (auto simp: plus_ms_def result_iffs)

definition commissionQuoteExpiry :: "instant \<Rightarrow> instant \<Rightarrow> int \<Rightarrow> failure + instant" where
  "commissionQuoteExpiry requestCreatedAt issuedAt ttlMs =
     await (commissionInteger ttlMs minimumQuoteTtlMs maximumQuoteTtlMs) (\<lambda>_.
     await (check (requestCreatedAt \<le> issuedAt) InvalidRequest) (\<lambda>_.
     await (plus_ms issuedAt ttlMs) (\<lambda>a.
     await (plus_ms requestCreatedAt requestMaximumAgeMs) (\<lambda>b.
     await (check (minimumQuoteTtlMs \<le> min a b - issuedAt) DeadlineExpired) (\<lambda>_.
       Inr (min a b))))))"

definition commissionPaymentExpiry :: "instant \<Rightarrow> failure + instant" where
  "commissionPaymentExpiry acceptedAt = plus_ms acceptedAt paymentTtlMs"

definition commissionRequestExpiry :: "instant \<Rightarrow> failure + instant" where
  "commissionRequestExpiry createdAt = plus_ms createdAt requestTtlMs"

definition commissionDueAt :: "instant \<Rightarrow> int \<Rightarrow> failure + instant" where
  "commissionDueAt confirmedAt turnaroundDays =
     await (commissionInteger turnaroundDays 1 90) (\<lambda>d. plus_ms confirmedAt (d * day_ms))"

definition commissionReviewEndsAt :: "instant \<Rightarrow> int \<Rightarrow> failure + instant" where
  "commissionReviewEndsAt deliveredAt reviewWindowDays =
     await (commissionInteger reviewWindowDays 3 14) (\<lambda>d. plus_ms deliveredAt (d * day_ms))"

definition requireCommissionBeforeDeadline :: "instant \<Rightarrow> instant \<Rightarrow> failure + unit" where
  "requireCommissionBeforeDeadline at expiresAt = check (at < expiresAt) DeadlineExpired"

text \<open>A pause has an instant of its start and, once it is over, one of its end.\<close>

type_synonym pause = "instant \<times> instant option"

fun due_loop :: "int \<Rightarrow> pause list \<Rightarrow> instant \<Rightarrow> failure + instant option" where
  "due_loop grace [] due = Inr (Some due)"
| "due_loop grace ((startedAt, endedAt) # pauses) due =
     (if due < startedAt then Inr (Some due)
      else case endedAt of
        None \<Rightarrow> Inr None
      | Some e \<Rightarrow> if e \<le> due then due_loop grace pauses due
          else await (plus_ms e grace) (\<lambda>due'. due_loop grace pauses due'))"

definition commissionCompletionDueAt :: "instant \<Rightarrow> pause list \<Rightarrow> int \<Rightarrow> failure + instant option" where
  "commissionCompletionDueAt reviewEndsAt pauses grace =
     await (commissionInteger grace 0 max_safe_integer) (\<lambda>_. due_loop grace (sort_key fst pauses) reviewEndsAt)"

subsection \<open>Private content\<close>

text \<open>\<open>JSON.parse\<close> of a string literal; a value that is no string is refused by its reader.\<close>

function parse_literal :: "string \<Rightarrow> string option" where
  "parse_literal s =
     (case s of [] \<Rightarrow> None
      | c # cs \<Rightarrow>
          if c = CHR 0x22 then (if list_all json_space cs then Some [] else None)
          else if c < CHR 0x20 then None
          else if c \<noteq> CHR 0x5C then map_option ((#) c) (parse_literal cs)
          else (case cs of [] \<Rightarrow> None
            | e # rest \<Rightarrow>
                if e = CHR ''u'' then
                  (if take 2 rest = ''00'' \<and> 4 \<le> length rest \<and> hex_digit (rest ! 2) \<and> hex_digit (rest ! 3)
                   then map_option ((#) (char_of (hex_value (rest ! 2) * 16 + hex_value (rest ! 3)))) (parse_literal (drop 4 rest))
                   else None)
                else (case json_unescape e of None \<Rightarrow> None | Some d \<Rightarrow> map_option ((#) d) (parse_literal rest))))"
  by pat_completeness auto
termination by (relation "measure length") auto

declare parse_literal.simps [simp del]

definition json_parse_string :: "string \<Rightarrow> string option" where
  "json_parse_string s = (case dropWhile json_space s of [] \<Rightarrow> None | q # cs \<Rightarrow> if q = CHR 0x22 then parse_literal cs else None)"

text \<open>The private columns of a quote and of a terms snapshot.\<close>

record private_terms =
  pt_policyRevisionId :: string
  pt_amountVnd :: int
  pt_turnaroundDays :: int
  pt_revisionAllowance :: int
  pt_reviewWindowDays :: int
  pt_scopeEnvelope :: envelope
  pt_deliverablesEnvelope :: envelope
  pt_usageRightsEnvelope :: envelope
  pt_artistTermsEnvelope :: envelope

definition seal_text :: "platform \<Rightarrow> keyring \<Rightarrow> string \<Rightarrow> string \<Rightarrow> string \<Rightarrow> string \<Rightarrow> string \<Rightarrow> failure + envelope" where
  "seal_text pf kr nonce recordType recordId fieldName plaintext =
     other ''SensitiveDataCryptographyError'' (encryptSensitiveField pf nonce kr
       \<lparr>fb_recordType = recordType, fb_recordId = recordId, fb_fieldName = fieldName\<rparr> None plaintext)"

text \<open>\<open>nonces\<close> are the four nonces drawn, in order.\<close>

definition encryptCommissionTerms ::
  "platform \<Rightarrow> keyring \<Rightarrow> (nat \<Rightarrow> string) \<Rightarrow> string \<Rightarrow> string \<Rightarrow> commission_terms \<Rightarrow> failure + private_terms" where
  "encryptCommissionTerms pf kr nonces recordType recordId terms =
     await (seal_text pf kr (nonces 0) recordType recordId ''scope'' (json_string (tm_scope terms))) (\<lambda>scopeEnvelope.
     await (seal_text pf kr (nonces 1) recordType recordId ''deliverables'' (json_string (tm_deliverables terms))) (\<lambda>deliverablesEnvelope.
     await (seal_text pf kr (nonces 2) recordType recordId ''usage_rights'' (json_string (tm_usageRights terms))) (\<lambda>usageRightsEnvelope.
     await (seal_text pf kr (nonces 3) recordType recordId ''artist_terms'' (json_string (tm_artistTerms terms))) (\<lambda>artistTermsEnvelope.
       Inr \<lparr>pt_policyRevisionId = tm_policyRevisionId terms, pt_amountVnd = tm_amountVnd terms,
         pt_turnaroundDays = tm_turnaroundDays terms, pt_revisionAllowance = tm_revisionAllowance terms,
         pt_reviewWindowDays = tm_reviewWindowDays terms, pt_scopeEnvelope = scopeEnvelope,
         pt_deliverablesEnvelope = deliverablesEnvelope, pt_usageRightsEnvelope = usageRightsEnvelope,
         pt_artistTermsEnvelope = artistTermsEnvelope\<rparr>))))"

definition open_text :: "platform \<Rightarrow> keyring \<Rightarrow> string \<Rightarrow> string \<Rightarrow> string \<Rightarrow> envelope \<Rightarrow> failure + string" where
  "open_text pf kr recordType recordId fieldName e =
     await (other ''SensitiveDataCryptographyError'' (decryptSensitiveField pf kr
       \<lparr>fb_recordType = recordType, fb_recordId = recordId, fb_fieldName = fieldName\<rparr> None e)) (\<lambda>text.
     orThrow (json_parse_string text) (OtherError ''SyntaxError''))"

definition decryptCommissionTerms :: "platform \<Rightarrow> keyring \<Rightarrow> string \<Rightarrow> string \<Rightarrow> private_terms \<Rightarrow> failure + commission_terms" where
  "decryptCommissionTerms pf kr recordType recordId row =
     (case await (open_text pf kr recordType recordId ''scope'' (pt_scopeEnvelope row)) (\<lambda>scope.
           await (open_text pf kr recordType recordId ''deliverables'' (pt_deliverablesEnvelope row)) (\<lambda>deliverables.
           await (open_text pf kr recordType recordId ''usage_rights'' (pt_usageRightsEnvelope row)) (\<lambda>usageRights.
           await (open_text pf kr recordType recordId ''artist_terms'' (pt_artistTermsEnvelope row)) (\<lambda>artistTerms.
             normalizeCommissionTerms \<lparr>tm_amountVnd = pt_amountVnd row, tm_turnaroundDays = pt_turnaroundDays row,
               tm_revisionAllowance = pt_revisionAllowance row, tm_reviewWindowDays = pt_reviewWindowDays row,
               tm_scope = scope, tm_deliverables = deliverables, tm_usageRights = usageRights,
               tm_artistTerms = artistTerms, tm_policyRevisionId = pt_policyRevisionId row\<rparr>)))) of
        Inl _ \<Rightarrow> Inl (CommissionError DependencyUnavailable)
      | Inr terms \<Rightarrow> Inr terms)"

record sealed_brief =
  sb_textEnvelope :: envelope
  sb_linksEnvelope :: envelope

definition encryptCommissionBrief :: "platform \<Rightarrow> keyring \<Rightarrow> (nat \<Rightarrow> string) \<Rightarrow> string \<Rightarrow> commission_brief \<Rightarrow> failure + sealed_brief" where
  "encryptCommissionBrief pf kr nonces orderId brief =
     await (seal_text pf kr (nonces 0) ''commission_briefs'' orderId ''text'' (json_string (br_text brief))) (\<lambda>textEnvelope.
     await (seal_text pf kr (nonces 1) ''commission_briefs'' orderId ''links''
       (stringify (JArr (map JStr (br_referenceLinks brief))))) (\<lambda>linksEnvelope.
       Inr \<lparr>sb_textEnvelope = textEnvelope, sb_linksEnvelope = linksEnvelope\<rparr>))"

definition commissionCommandFingerprint :: "platform \<Rightarrow> string \<Rightarrow> string \<Rightarrow> json \<Rightarrow> failure + string" where
  "commissionCommandFingerprint pf key context payload =
     (let serialized = stringify payload
      in await (check (serialized \<noteq> [] \<and> length serialized \<le> 131072) InvalidRequest) (\<lambda>_.
         other ''SecurityHashingError''
           (createLookupHmac pf (''commission-command-sha256:v1:'' @ lower_hex (pf_sha256 pf serialized)) context key)))"

subsection \<open>Literals are read back\<close>

lemma parse_escape: "parse_literal (json_escape c @ rest) = map_option ((#) c) (parse_literal rest)"
proof (cases "c \<in> {CHR 0x22, CHR 0x5C, CHR 0x08, CHR 0x0C, CHR 0x0A, CHR 0x0D, CHR 0x09}")
  case True
  then show ?thesis
    by (subst parse_literal.simps) (auto simp: json_escape_def json_unescape_def low_char)
next
  case False
  show ?thesis
  proof (cases "c < CHR 0x20")
    case low: True
    then have n: "(of_char c :: nat) < 32" by (simp add: low_char)
    have hex: "\<forall>n \<in> set [0..<16]. hex_digit (hex_char n)" by code_simp
    have "of_char c div 16 < (16 :: nat)" "of_char c mod 16 < (16 :: nat)" using n by simp_all
    moreover have "hex_char 0 = CHR ''0''" by (simp add: hex_char_def)
    moreover have "of_char c div 16 * 16 + of_char c mod 16 = (of_char c :: nat)" by simp
    ultimately show ?thesis
      using False low hex
      by (subst parse_literal.simps) (simp add: json_escape_def low_char)
  next
    case high: False
    then show ?thesis
      using False by (subst parse_literal.simps) (simp add: json_escape_plain)
  qed
qed

lemma parse_literal_escaped: "parse_literal (concat (map json_escape s) @ [CHR 0x22]) = Some s"
proof (induction s)
  case Nil
  show ?case by (simp add: parse_literal.simps)
qed (simp add: parse_escape)

lemma json_parse_string_roundtrip [simp]: "json_parse_string (json_string s) = Some s"
proof -
  have "\<not> json_space (CHR 0x22)" by code_simp
  then show ?thesis by (simp add: json_parse_string_def json_string_def parse_literal_escaped)
qed

subsection \<open>Normalised texts\<close>

lemma unify_no_return: "CHR 0x0D \<notin> set (unify_newlines s)"
  by (induction s rule: unify_newlines.induct) auto

lemma unify_id: "CHR 0x0D \<notin> set s \<Longrightarrow> unify_newlines s = s"
  by (induction s rule: unify_newlines.induct) auto

lemma set_trim: "set (trim s) \<subseteq> set s"
  using set_trimStart [of s] set_trimStart [of "rev (trimStart s)"] by (auto simp: trim_def)

lemma trimStart_trimmed: "trimStart (trimStart s) = trimStart s"
  by (induction s) auto

lemma trimStart_suffix: "\<exists>w. s = w @ trimStart s"
proof (induction s)
  case (Cons c cs)
  then obtain w where "cs = w @ trimStart cs" ..
  then have "c # cs = (if is_space c then c # w else []) @ trimStart (c # cs)" by simp
  then show ?case ..
qed simp

lemma trim_idem: "trim (trim s) = trim s"
proof -
  define u where "u = trimStart s"
  define v where "v = rev (trimStart (rev u))"
  obtain w where "rev u = w @ trimStart (rev u)" using trimStart_suffix by blast
  then have w: "u = v @ rev w" by (metis rev_append rev_rev_ident v_def)
  have "trimStart v = v"
  proof (cases v)
    case (Cons c cs)
    then have "trimStart s = c # (cs @ rev w)" using w u_def by simp
    then show ?thesis using trimStart_hd Cons by auto
  qed simp
  moreover have "trim s = v" by (simp add: trim_def u_def v_def)
  ultimately show ?thesis
    by (simp add: trim_def v_def trimStart_trimmed)
qed

lemma normalize_text_fixed:
  assumes "normalizeCommissionText v lo hi b = Inr t" shows "normalizeCommissionText t lo hi b = Inr t"
proof -
  have t: "t = trim (unify_newlines v)" using assms by (auto simp: normalizeCommissionText_def Let_def split: if_splits)
  then have "CHR 0x0D \<notin> set t" using set_trim unify_no_return by fast
  then have "trim (unify_newlines t) = t" by (simp add: unify_id t trim_idem)
  then show ?thesis using assms by (simp add: normalizeCommissionText_def Let_def t split: if_splits)
qed

lemma normalize_terms_fixed:
  assumes "normalizeCommissionTerms t = Inr t'" shows "normalizeCommissionTerms t' = Inr t'"
proof -
  from assms obtain a b c d where
    n: "commissionText (tm_scope t) 1 2000 = Inr a" "commissionText (tm_deliverables t) 1 2000 = Inr b"
       "commissionText (tm_usageRights t) 1 2000 = Inr c" "commissionText (tm_artistTerms t) 1 2000 = Inr d"
    and t': "t' = \<lparr>tm_amountVnd = tm_amountVnd t, tm_turnaroundDays = tm_turnaroundDays t,
       tm_revisionAllowance = tm_revisionAllowance t, tm_reviewWindowDays = tm_reviewWindowDays t, tm_scope = a,
       tm_deliverables = b, tm_usageRights = c, tm_artistTerms = d, tm_policyRevisionId = tm_policyRevisionId t\<rparr>"
    unfolding normalizeCommissionTerms_def by (simp only: result_iffs as_terms_error_Inr commissionInteger_Inr check_Inr) blast
  note fixed = n [unfolded commissionText_def, THEN normalize_text_fixed, folded commissionText_def]
  show ?thesis
    using assms unfolding normalizeCommissionTerms_def t' by (simp add: fixed result_iffs del: One_nat_def)
qed

subsection \<open>Sealed terms\<close>

lemma seal_text_opens:
  assumes "platform_laws pf" "keyring_ok kr" "length nonce = 12" "seal_text pf kr nonce rt k f (json_string s) = Inr e"
  shows "open_text pf kr rt k f e = Inr s"
proof -
  have "decryptSensitiveField pf kr \<lparr>fb_recordType = rt, fb_recordId = k, fb_fieldName = f\<rparr> None e = Inr (json_string s)"
    using assms by (intro open_envelope) (simp_all add: seal_text_def keyring_ok_def)
  then show ?thesis by (simp add: open_text_def other_def)
qed

lemma terms_open:
  assumes "platform_laws pf" "keyring_ok kr" "\<And>n. length (nonces n) = 12"
    and "encryptCommissionTerms pf kr nonces rt k terms = Inr row"
  shows "decryptCommissionTerms pf kr rt k row = (case normalizeCommissionTerms terms of
     Inl _ \<Rightarrow> Inl (CommissionError DependencyUnavailable) | Inr t \<Rightarrow> Inr t)"
proof -
  obtain e0 e1 e2 e3 where e: "seal_text pf kr (nonces 0) rt k ''scope'' (json_string (tm_scope terms)) = Inr e0"
      "seal_text pf kr (nonces 1) rt k ''deliverables'' (json_string (tm_deliverables terms)) = Inr e1"
      "seal_text pf kr (nonces 2) rt k ''usage_rights'' (json_string (tm_usageRights terms)) = Inr e2"
      "seal_text pf kr (nonces 3) rt k ''artist_terms'' (json_string (tm_artistTerms terms)) = Inr e3"
    and row: "row = \<lparr>pt_policyRevisionId = tm_policyRevisionId terms, pt_amountVnd = tm_amountVnd terms,
         pt_turnaroundDays = tm_turnaroundDays terms, pt_revisionAllowance = tm_revisionAllowance terms,
         pt_reviewWindowDays = tm_reviewWindowDays terms, pt_scopeEnvelope = e0, pt_deliverablesEnvelope = e1,
         pt_usageRightsEnvelope = e2, pt_artistTermsEnvelope = e3\<rparr>"
    using assms(4) unfolding encryptCommissionTerms_def by (auto simp: result_iffs)
  note opened = e [THEN seal_text_opens [OF assms(1-3)]]
  show ?thesis by (cases terms) (use opened in \<open>simp add: decryptCommissionTerms_def row\<close>)
qed

text \<open>The terms of a commission survive their sealed storage: normalised terms, sealed field by
  field, are read back exactly, and normalising them again changes nothing.\<close>

theorem sealed_terms_roundtrip:
  assumes "platform_laws pf" "createEncryptionKeyring active keys = Inr kr" "\<And>n. length (nonces n) = 12"
    and "normalizeCommissionTerms raw = Inr terms"
    and "encryptCommissionTerms pf kr nonces recordType recordId terms = Inr row"
  shows "decryptCommissionTerms pf kr recordType recordId row = Inr terms \<and> normalizeCommissionTerms terms = Inr terms"
  using terms_open [OF assms(1) createEncryptionKeyring_ok [OF assms(2)] assms(3,5)] normalize_terms_fixed [OF assms(4)]
  by simp

definition sample_keyring :: keyring where
  "sample_keyring = \<lparr>kr_activeKeyId = ''k1'', kr_keys = [(''k1'', sample_key)]\<rparr>"

definition sample_terms :: commission_terms where
  "sample_terms = \<lparr>tm_amountVnd = 100000, tm_turnaroundDays = 14, tm_revisionAllowance = 2, tm_reviewWindowDays = 7,
     tm_scope = ''a portrait'', tm_deliverables = ''one file'', tm_usageRights = ''personal'', tm_artistTerms = ''none'',
     tm_policyRevisionId = ''00000000-0000-4000-8000-000000000006''\<rparr>"

lemma plain_text:
  assumes "trim (unify_newlines s) = s" "\<not> list_ex forbidden_char s" "\<not> list_ex (\<lambda>c. c \<in> {CHR ''<'', CHR ''>''}) s"
    "lo \<le> length s" "length s \<le> hi" "length (json_string s) \<le> 100"
  shows "commissionText s lo hi = Inr s"
  using assms by (simp add: commissionText_def normalizeCommissionText_def maximumPlaintextBytes_def)

lemma sample_terms_normal: "normalizeCommissionTerms sample_terms = Inr sample_terms"
proof -
  have "is_uuid (tm_policyRevisionId sample_terms)" by code_simp
  moreover have "commissionText t 1 2000 = Inr t" if "t \<in> set [''a portrait'', ''one file'', ''personal'', ''none'']" for t
  proof -
    have "\<forall>t \<in> set [''a portrait'', ''one file'', ''personal'', ''none'']. trim (unify_newlines t) = t \<and> \<not> list_ex forbidden_char t \<and>
        \<not> list_ex (\<lambda>c. c \<in> {CHR ''<'', CHR ''>''}) t \<and> 1 \<le> length t \<and> length t \<le> 50 \<and> length (json_string t) \<le> 100" by code_simp
    then have "trim (unify_newlines t) = t \<and> \<not> list_ex forbidden_char t \<and> \<not> list_ex (\<lambda>c. c \<in> {CHR ''<'', CHR ''>''}) t \<and>
        1 \<le> length t \<and> length t \<le> 50 \<and> length (json_string t) \<le> 100" using that by (rule bspec)
    then show ?thesis by (intro plain_text) auto
  qed
  then have "commissionText (tm_scope sample_terms) 1 2000 = Inr (tm_scope sample_terms)"
    "commissionText (tm_deliverables sample_terms) 1 2000 = Inr (tm_deliverables sample_terms)"
    "commissionText (tm_usageRights sample_terms) 1 2000 = Inr (tm_usageRights sample_terms)"
    "commissionText (tm_artistTerms sample_terms) 1 2000 = Inr (tm_artistTerms sample_terms)"
    by (simp_all add: sample_terms_def del: One_nat_def)
  moreover have "commissionInteger (tm_amountVnd sample_terms) minimumVnd maximumVnd = Inr (tm_amountVnd sample_terms)"
    "commissionInteger (tm_turnaroundDays sample_terms) 1 90 = Inr (tm_turnaroundDays sample_terms)"
    "commissionInteger (tm_revisionAllowance sample_terms) 0 10 = Inr (tm_revisionAllowance sample_terms)"
    "commissionInteger (tm_reviewWindowDays sample_terms) 3 14 = Inr (tm_reviewWindowDays sample_terms)"
    by (simp_all add: sample_terms_def commissionInteger_def isSafeInteger_def max_safe_integer_def minimumVnd_def maximumVnd_def)
  ultimately show ?thesis
    unfolding normalizeCommissionTerms_def
    by (simp only: await_simps check_def require_simps as_terms_error_def sum.case)
      (simp add: sample_terms_def)
qed

lemma sample_terms_sealed:
  "\<exists>row. encryptCommissionTerms toy_platform sample_keyring (\<lambda>_. replicate 12 (CHR ''n'')) ''commission_quote_revisions'' ''q1'' sample_terms = Inr row"
proof -
  have seal: "\<exists>e. seal_text toy_platform sample_keyring (replicate 12 (CHR ''n'')) ''commission_quote_revisions'' ''q1'' f p = Inr e"
    if "binding_name_ok f" "p \<noteq> []" "length p \<le> 100" for f p
  proof -
    have "binding_name_ok ''commission_quote_revisions''" "leading_alnum is_ident 199 ''q1''" by code_simp+
    then show ?thesis using that
      by (simp add: seal_text_def encryptSensitiveField_def plaintextLimit_def isSafeInteger_def max_safe_integer_def keyFor_def
          sample_keyring_def sample_key_def fieldAad_def validateBinding_def split_beta other_def)
  qed
  have names: "binding_name_ok ''scope''" "binding_name_ok ''deliverables''" "binding_name_ok ''usage_rights''" "binding_name_ok ''artist_terms''"
    by code_simp+
  have short: "length (json_string (tm_scope sample_terms)) \<le> 100" "length (json_string (tm_deliverables sample_terms)) \<le> 100"
    "length (json_string (tm_usageRights sample_terms)) \<le> 100" "length (json_string (tm_artistTerms sample_terms)) \<le> 100"
    by code_simp+
  have full: "json_string p \<noteq> []" for p by (simp add: json_string_def)
  obtain e0 e1 e2 e3 where
    "seal_text toy_platform sample_keyring (replicate 12 (CHR ''n'')) ''commission_quote_revisions'' ''q1'' ''scope'' (json_string (tm_scope sample_terms)) = Inr e0"
    "seal_text toy_platform sample_keyring (replicate 12 (CHR ''n'')) ''commission_quote_revisions'' ''q1'' ''deliverables'' (json_string (tm_deliverables sample_terms)) = Inr e1"
    "seal_text toy_platform sample_keyring (replicate 12 (CHR ''n'')) ''commission_quote_revisions'' ''q1'' ''usage_rights'' (json_string (tm_usageRights sample_terms)) = Inr e2"
    "seal_text toy_platform sample_keyring (replicate 12 (CHR ''n'')) ''commission_quote_revisions'' ''q1'' ''artist_terms'' (json_string (tm_artistTerms sample_terms)) = Inr e3"
    using seal [OF names(1) full short(1)] seal [OF names(2) full short(2)] seal [OF names(3) full short(3)]
      seal [OF names(4) full short(4)] by (elim exE) (rule that)
  then show ?thesis by (simp only: encryptCommissionTerms_def await_simps sum.inject ex_simps) blast
qed

theorem sealed_terms_roundtrip_witness:
  "\<exists>row. decryptCommissionTerms toy_platform sample_keyring ''commission_quote_revisions'' ''q1'' row = Inr sample_terms"
proof -
  obtain row where "encryptCommissionTerms toy_platform sample_keyring (\<lambda>_. replicate 12 (CHR ''n''))
      ''commission_quote_revisions'' ''q1'' sample_terms = Inr row" using sample_terms_sealed by blast
  from sealed_terms_roundtrip [OF toy_platform_laws sample_keyrings(1) [folded sample_keyring_def] _ sample_terms_normal this]
  show ?thesis by auto
qed

subsection \<open>Fulfilment pauses\<close>

lemma due_loop_Some:
  assumes "due_loop g ps due = Inr (Some d)" "sorted (map fst ps)" "0 \<le> g"
  shows "due \<le> d \<and> (\<forall>s e. (s, e) \<in> set ps \<longrightarrow> s \<le> d \<longrightarrow> (\<exists>e'. e = Some e' \<and> e' \<le> d)) \<and>
    (d = due \<or> (\<exists>s e. (s, Some e) \<in> set ps \<and> s \<le> d \<and> due < e \<and> d = e + g))"
  using assms
proof (induction g ps due rule: due_loop.induct)
  case (2 grace startedAt endedAt pauses due)
  show ?case
  proof (cases "due < startedAt")
    case True
    with "2.prems" show ?thesis by fastforce
  next
    case False
    then obtain e where e: "endedAt = Some e" using "2.prems"(1) by (cases endedAt) auto
    have sorted: "sorted (map fst pauses)" using "2.prems"(2) by simp
    show ?thesis
    proof (cases "e \<le> due")
      case True
      with False e "2.prems"(1) have "due_loop grace pauses due = Inr (Some d)" by simp
      from "2.IH"(1) [OF False e True this sorted "2.prems"(3)] show ?thesis using True e by fastforce
    next
      case late: False
      with False e "2.prems"(1) have run: "due_loop grace pauses (e + grace) = Inr (Some d)" by (auto simp: result_iffs)
      from "2.IH"(2) [OF False e late run sorted "2.prems"(3)]
      show ?thesis using late e False "2.prems"(3) by fastforce
    qed
  qed
qed simp

lemma due_loop_None:
  assumes "due_loop g ps due = Inr None" "sorted (map fst ps)" "0 \<le> g"
  shows "\<exists>s d. (s, None) \<in> set ps \<and> s \<le> d \<and> due \<le> d \<and>
    (d = due \<or> (\<exists>s' e. (s', Some e) \<in> set ps \<and> s' \<le> d \<and> due < e \<and> d = e + g))"
  using assms
proof (induction g ps due rule: due_loop.induct)
  case (2 grace startedAt endedAt pauses due)
  have sorted: "sorted (map fst pauses)" using "2.prems"(2) by simp
  have begun: "\<not> due < startedAt" using "2.prems"(1) by auto
  show ?case
  proof (cases endedAt)
    case None
    show ?thesis by (rule exI [where x = startedAt], rule exI [where x = due]) (use None begun in simp)
  next
    case (Some e)
    show ?thesis
    proof (cases "e \<le> due")
      case True
      with begun Some "2.prems"(1) have "due_loop grace pauses due = Inr None" by simp
      from "2.IH"(1) [OF begun Some True this sorted "2.prems"(3)] show ?thesis by fastforce
    next
      case late: False
      with begun Some "2.prems"(1) have run: "due_loop grace pauses (e + grace) = Inr None" by (auto simp: result_iffs)
      from "2.IH"(2) [OF begun Some late run sorted "2.prems"(3)]
      obtain s d where d: "(s, None) \<in> set pauses" "s \<le> d" "e + grace \<le> d"
        "d = e + grace \<or> (\<exists>s' e'. (s', Some e') \<in> set pauses \<and> s' \<le> d \<and> e + grace < e' \<and> d = e' + grace)" by blast
      moreover have "due \<le> d" "startedAt \<le> d" using begun late d(3) "2.prems"(3) by simp_all
      ultimately show ?thesis using late Some "2.prems"(3) by fastforce
    qed
  qed
qed simp

text \<open>C34: A review window never ends inside a fulfilment pause: when a completion date exists, it is
  no earlier than the end of the review window, every pause that has begun by then is over by then,
  and it is either that end or the end of a pause that outlasted it plus the grace period. When
  there is none, a pause still open had begun by the date otherwise reached, which is again the end
  of the review window or the end of a pause that outlasted it plus the grace period.\<close>

theorem completion_never_in_pause:
  assumes "commissionCompletionDueAt reviewEndsAt pauses grace = Inr r"
  shows "(case r of
     None \<Rightarrow> \<exists>s d. (s, None) \<in> set pauses \<and> s \<le> d \<and> reviewEndsAt \<le> d \<and>
       (d = reviewEndsAt \<or> (\<exists>s' e. (s', Some e) \<in> set pauses \<and> s' \<le> d \<and> reviewEndsAt < e \<and> d = e + grace))
   | Some due \<Rightarrow> reviewEndsAt \<le> due \<and> (\<forall>(s, e) \<in> set pauses. s \<le> due \<longrightarrow> (\<exists>e'. e = Some e' \<and> e' \<le> due)) \<and>
       (due = reviewEndsAt \<or> (\<exists>s e. (s, Some e) \<in> set pauses \<and> s \<le> due \<and> reviewEndsAt < e \<and> due = e + grace)))"
proof -
  have run: "due_loop grace (sort_key fst pauses) reviewEndsAt = Inr r" and g: "0 \<le> grace"
    using assms by (auto simp: commissionCompletionDueAt_def result_iffs)
  have sorted: "sorted (map fst (sort_key fst pauses))" by simp
  show ?thesis
  proof (cases r)
    case None
    from due_loop_None [OF run [unfolded None] sorted g] show ?thesis using None by simp
  next
    case (Some due)
    from due_loop_Some [OF run [unfolded Some] sorted g] show ?thesis using Some by fastforce
  qed
qed

theorem completion_never_in_pause_witness:
  "\<exists>due. commissionCompletionDueAt 1000 [(5000, Some 6000), (500, Some 2000)] 100 = Inr (Some due) \<and> 1000 \<le> due \<and> due = 2100"
proof -
  have c: "commissionCompletionDueAt 1000 [(5000, Some 6000), (500, Some 2000)] 100 = Inr (Some 2100)"
    by (simp add: commissionCompletionDueAt_def commissionInteger_def isSafeInteger_def max_safe_integer_def plus_ms_def date_ok_def check_def)
  from completion_never_in_pause [OF c] c show ?thesis by simp
qed

end
