(* ===== verification/OrderTables.thy ===== *)
theory OrderTables
  imports Commission AdminAudit Outbox
begin

text \<open>
  The tables of the order service (\<^verbatim>\<open>packages/database/src/schema/commissions.ts\<close>) with their check
  constraints and unique keys. SQL's null logic is written out: a check that is unknown passes,
  unless it is wrapped in \<open>coalesce(..., false)\<close>. References to users and packages, which other
  services own, and the checks on the JSON shape of an envelope, which every sealed value satisfies,
  are left out. A write that breaks a constraint makes its transaction fail.
\<close>

subsection \<open>Orders\<close>

record order_row =
  co_id :: string
  co_creatorUserId :: string
  co_buyerUserId :: string
  co_packageId :: string
  co_packageRevisionId :: string
  co_route :: commission_route
  co_state :: commission_state
  co_version :: int
  co_amountVnd :: "int option"
  co_currentQuoteId :: "string option"
  co_expiresAt :: "instant option"
  co_acceptedAt :: "instant option"
  co_confirmedAt :: "instant option"
  co_dueAt :: "instant option"
  co_deliveredAt :: "instant option"
  co_reviewEndsAt :: "instant option"
  co_completionFloorAt :: "instant option"
  co_completedAt :: "instant option"
  co_completionKind :: "completion_kind option"
  co_revisionsUsed :: int
  co_closedAt :: "instant option"
  co_closeReason :: "close_reason option"
  co_createdAt :: instant
  co_updatedAt :: instant

definition pending_state :: "commission_state \<Rightarrow> bool" where
  "pending_state s \<longleftrightarrow> s \<in> {CoRequested, CoQuoted, CoAwaitingPayment}"

definition closed_after_payment :: "order_row \<Rightarrow> bool" where
  "closed_after_payment r \<longleftrightarrow>
     co_state r = CoClosed \<and> (case co_closeReason r of None \<Rightarrow> False | Some c \<Rightarrow> c \<in> set post_payment_reasons)"

definition closed_before_payment :: "order_row \<Rightarrow> bool" where
  "closed_before_payment r \<longleftrightarrow>
     co_state r = CoClosed \<and> (case co_closeReason r of None \<Rightarrow> False | Some c \<Rightarrow> c \<notin> set post_payment_reasons)"

text \<open>\<open>a > b\<close> and \<open>a >= b\<close> on nullable columns, within \<open>coalesce(..., false)\<close>.\<close>

definition later :: "instant option \<Rightarrow> instant option \<Rightarrow> bool" where
  "later a b \<longleftrightarrow> (case (a, b) of (Some x, Some y) \<Rightarrow> y < x | _ \<Rightarrow> False)"

definition not_before :: "instant option \<Rightarrow> instant option \<Rightarrow> bool" where
  "not_before a b \<longleftrightarrow> (case (a, b) of (Some x, Some y) \<Rightarrow> y \<le> x | _ \<Rightarrow> False)"

definition payment_state_check :: "order_row \<Rightarrow> bool" where
  "payment_state_check r \<longleftrightarrow>
     (co_state r \<in> {CoAwaitingPayment, CoInProgress, CoDelivered, CoCompleted} \<longrightarrow> co_acceptedAt r \<noteq> None \<and> co_amountVnd r \<noteq> None) \<and>
     (co_state r \<in> {CoRequested, CoQuoted} \<longrightarrow> co_acceptedAt r = None \<and> co_amountVnd r = None) \<and>
     (co_state r = CoQuoted \<longrightarrow> co_route r = CustomQuote \<and> co_currentQuoteId r \<noteq> None)"

definition deadline_check :: "order_row \<Rightarrow> bool" where
  "deadline_check r \<longleftrightarrow>
     (pending_state (co_state r) \<longrightarrow> (case co_expiresAt r of None \<Rightarrow> False | Some e \<Rightarrow> co_createdAt r < e)) \<and>
     (co_state r \<in> {CoInProgress, CoDelivered, CoCompleted} \<longrightarrow>
        (case co_expiresAt r of None \<Rightarrow> False
         | Some e \<Rightarrow> (case co_confirmedAt r of None \<Rightarrow> True | Some c \<Rightarrow> c < e)))"

definition completion_check :: "order_row \<Rightarrow> bool" where
  "completion_check r \<longleftrightarrow>
     ((co_state r \<in> {CoInProgress, CoDelivered, CoCompleted} \<or> closed_after_payment r) \<and>
        co_confirmedAt r \<noteq> None \<and> later (co_dueAt r) (co_confirmedAt r)) \<or>
     ((pending_state (co_state r) \<or> closed_before_payment r) \<and> co_confirmedAt r = None \<and> co_dueAt r = None)"

definition review_window :: "order_row \<Rightarrow> bool" where
  "review_window r \<longleftrightarrow> co_deliveredAt r \<noteq> None \<and> later (co_reviewEndsAt r) (co_deliveredAt r)"

definition not_completed :: "order_row \<Rightarrow> bool" where
  "not_completed r \<longleftrightarrow> co_completedAt r = None \<and> co_completionKind r = None"

definition fulfillment_check :: "order_row \<Rightarrow> bool" where
  "fulfillment_check r \<longleftrightarrow> 0 \<le> co_revisionsUsed r \<and> co_revisionsUsed r \<le> 10 \<and>
     (((pending_state (co_state r) \<or> closed_before_payment r) \<and> co_revisionsUsed r = 0 \<and>
         co_deliveredAt r = None \<and> co_reviewEndsAt r = None \<and> not_completed r) \<or>
      (closed_after_payment r \<and> not_completed r \<and>
         ((co_deliveredAt r = None \<and> co_reviewEndsAt r = None) \<or> review_window r)) \<or>
      (co_state r = CoInProgress \<and> co_deliveredAt r = None \<and> co_reviewEndsAt r = None \<and> not_completed r) \<or>
      (co_state r = CoDelivered \<and> review_window r \<and> not_completed r) \<or>
      (co_state r = CoCompleted \<and> review_window r \<and> not_before (co_completedAt r) (co_deliveredAt r) \<and>
         co_completedAt r = Some (co_updatedAt r) \<and> co_completionKind r \<noteq> None \<and>
         (co_completionKind r = Some ReviewWindowElapsed \<longrightarrow> not_before (co_completedAt r)
            (if co_completionFloorAt r = None then co_reviewEndsAt r else co_completionFloorAt r))))"

definition floor_check :: "order_row \<Rightarrow> bool" where
  "floor_check r \<longleftrightarrow>
     co_completionFloorAt r = None \<or>
     (co_deliveredAt r \<noteq> None \<and> co_state r \<in> {CoDelivered, CoCompleted, CoClosed} \<and> later (co_completionFloorAt r) (co_reviewEndsAt r))"

definition closed_check :: "order_row \<Rightarrow> bool" where
  "closed_check r \<longleftrightarrow>
     (if co_state r = CoClosed then co_closedAt r \<noteq> None \<and> co_closeReason r \<noteq> None
      else co_closedAt r = None \<and> co_closeReason r = None)"

definition time_check :: "order_row \<Rightarrow> bool" where
  "time_check r \<longleftrightarrow>
     co_createdAt r \<le> co_updatedAt r \<and>
     (case co_acceptedAt r of None \<Rightarrow> True | Some a \<Rightarrow> co_createdAt r \<le> a \<and> a \<le> co_updatedAt r) \<and>
     (case co_confirmedAt r of None \<Rightarrow> True
      | Some c \<Rightarrow> (case co_acceptedAt r of None \<Rightarrow> True | Some a \<Rightarrow> a \<le> c) \<and> c \<le> co_updatedAt r) \<and>
     (case co_closedAt r of None \<Rightarrow> True | Some c \<Rightarrow> c = co_updatedAt r)"

definition order_check :: "order_row \<Rightarrow> bool" where
  "order_check r \<longleftrightarrow>
     co_creatorUserId r \<noteq> co_buyerUserId r \<and> 0 < co_version r \<and>
     (case co_amountVnd r of None \<Rightarrow> True | Some n \<Rightarrow> minimumVnd \<le> n \<and> n \<le> maximumVnd) \<and>
     payment_state_check r \<and> deadline_check r \<and> completion_check r \<and> fulfillment_check r \<and> floor_check r \<and>
     closed_check r \<and> time_check r"

definition orders_ok :: "order_row list \<Rightarrow> bool" where
  "orders_ok t \<longleftrightarrow> distinct (map co_id t) \<and> list_all order_check t"

subsection \<open>Reservations and events\<close>

datatype reservation_state = Reserved | Occupied | Released | ReservationCompleted | ReservationCancelled

record reservation_row =
  cr_orderId :: string
  cr_creatorUserId :: string
  cr_state :: reservation_state
  cr_reservedAt :: instant
  cr_occupiedAt :: "instant option"
  cr_releasedAt :: "instant option"

definition reservation_check :: "reservation_row \<Rightarrow> bool" where
  "reservation_check r \<longleftrightarrow>
     (case cr_state r of
        Reserved \<Rightarrow> cr_occupiedAt r = None \<and> cr_releasedAt r = None
      | Occupied \<Rightarrow> not_before (cr_occupiedAt r) (Some (cr_reservedAt r)) \<and> cr_releasedAt r = None
      | Released \<Rightarrow> cr_occupiedAt r = None \<and> not_before (cr_releasedAt r) (Some (cr_reservedAt r))
      | ReservationCompleted \<Rightarrow> not_before (cr_releasedAt r) (cr_occupiedAt r)
      | ReservationCancelled \<Rightarrow> not_before (cr_releasedAt r) (cr_occupiedAt r))"

definition reservations_ok :: "reservation_row list \<Rightarrow> bool" where
  "reservations_ok t \<longleftrightarrow> distinct (map cr_orderId t) \<and> list_all reservation_check t"

record event_row =
  ce_id :: string
  ce_orderId :: string
  ce_orderVersion :: int
  ce_type :: commission_state
  ce_actorUserId :: "string option"
  ce_actorSessionId :: "string option"
  ce_reason :: "string option"
  ce_requestId :: string
  ce_occurredAt :: instant

definition events_ok :: "event_row list \<Rightarrow> bool" where
  "events_ok t \<longleftrightarrow>
     distinct (map ce_id t) \<and> distinct (map (\<lambda>e. (ce_orderId e, ce_orderVersion e)) t) \<and> list_all (\<lambda>e. 0 < ce_orderVersion e) t"

subsection \<open>Submissions\<close>

datatype submission_kind = DraftSubmission | FinalSubmission

datatype submission_response = Approved | ChangesRequested | Superseded

record submission_row =
  cs_id :: string
  cs_orderId :: string
  cs_kind :: submission_kind
  cs_noteEnvelope :: "envelope option"
  cs_actorSessionId :: string
  cs_requestId :: string
  cs_submittedAt :: instant
  cs_response :: "submission_response option"
  cs_responseNoteEnvelope :: "envelope option"
  cs_responseSessionId :: "string option"
  cs_responseRequestId :: "string option"
  cs_respondedAt :: "instant option"

definition submission_check :: "submission_row \<Rightarrow> bool" where
  "submission_check r \<longleftrightarrow>
     (case cs_response r of
        None \<Rightarrow> cs_respondedAt r = None \<and> cs_responseSessionId r = None \<and> cs_responseRequestId r = None
      | Some Superseded \<Rightarrow> cs_respondedAt r \<noteq> None \<and> cs_responseSessionId r = None \<and> cs_responseRequestId r = None
      | Some _ \<Rightarrow> cs_respondedAt r \<noteq> None \<and> cs_responseSessionId r \<noteq> None \<and> cs_responseRequestId r \<noteq> None) \<and>
     (cs_response r = Some ChangesRequested \<longleftrightarrow> cs_responseNoteEnvelope r \<noteq> None) \<and>
     (case cs_respondedAt r of None \<Rightarrow> True | Some t \<Rightarrow> cs_submittedAt r \<le> t)"

definition open_submission :: "submission_kind \<Rightarrow> submission_row \<Rightarrow> bool" where
  "open_submission k r \<longleftrightarrow> cs_kind r = k \<and> cs_response r = None"

definition submissions_ok :: "submission_row list \<Rightarrow> bool" where
  "submissions_ok t \<longleftrightarrow>
     distinct (map cs_id t) \<and> list_all submission_check t \<and>
     distinct (map cs_orderId (filter (open_submission DraftSubmission) t)) \<and>
     distinct (map cs_orderId (filter (open_submission FinalSubmission) t))"

subsection \<open>Terms, quotes and the other tables\<close>

definition private_terms_check :: "'a private_terms_scheme \<Rightarrow> bool" where
  "private_terms_check r \<longleftrightarrow>
     minimumVnd \<le> pt_amountVnd r \<and> pt_amountVnd r \<le> maximumVnd \<and> 1 \<le> pt_turnaroundDays r \<and> pt_turnaroundDays r \<le> 90 \<and>
     0 \<le> pt_revisionAllowance r \<and> pt_revisionAllowance r \<le> 10 \<and> 3 \<le> pt_reviewWindowDays r \<and> pt_reviewWindowDays r \<le> 14"

record quote_row = private_terms +
  cq_id :: string
  cq_orderId :: string
  cq_revisionNumber :: int
  cq_actorSessionId :: string
  cq_requestId :: string
  cq_issuedAt :: instant
  cq_expiresAt :: instant

definition quote_check :: "quote_row \<Rightarrow> bool" where
  "quote_check r \<longleftrightarrow>
     0 < cq_revisionNumber r \<and> cq_issuedAt r + 3600000 \<le> cq_expiresAt r \<and> cq_expiresAt r \<le> cq_issuedAt r + 14 * day_ms \<and>
     private_terms_check r"

definition quotes_ok :: "quote_row list \<Rightarrow> bool" where
  "quotes_ok t \<longleftrightarrow>
     distinct (map cq_id t) \<and> distinct (map (\<lambda>r. (cq_orderId r, cq_revisionNumber r)) t) \<and> list_all quote_check t"

record terms_row = private_terms +
  ct_orderId :: string
  ct_packageRevisionId :: string
  ct_quoteRevisionId :: "string option"
  ct_buyerAcceptedAt :: instant
  ct_creatorAcceptedAt :: instant
  ct_createdAt :: instant

definition terms_check :: "terms_row \<Rightarrow> bool" where
  "terms_check r \<longleftrightarrow> ct_buyerAcceptedAt r \<le> ct_createdAt r \<and> ct_creatorAcceptedAt r \<le> ct_createdAt r \<and> private_terms_check r"

definition snapshots_ok :: "terms_row list \<Rightarrow> bool" where
  "snapshots_ok t \<longleftrightarrow> distinct (map ct_orderId t) \<and> list_all terms_check t"

datatype party = Buyer | Creator

record acceptance_row =
  ca_id :: string
  ca_orderId :: string
  ca_actorUserId :: string
  ca_actorSessionId :: string
  ca_role :: party
  ca_packageRevisionId :: string
  ca_quoteRevisionId :: "string option"
  ca_policyRevisionId :: string
  ca_requestId :: string
  ca_acceptedAt :: instant

definition acceptances_ok :: "acceptance_row list \<Rightarrow> bool" where
  "acceptances_ok t \<longleftrightarrow> distinct (map ca_id t) \<and> distinct (map (\<lambda>r. (ca_orderId r, ca_role r)) t)"

record brief_row = sealed_brief +
  cb_orderId :: string
  cb_buyerSessionId :: string
  cb_requestId :: string
  cb_createdAt :: instant

record pause_row =
  cp_id :: string
  cp_startedAt :: instant
  cp_endedAt :: "instant option"

definition pauses_ok :: "pause_row list \<Rightarrow> bool" where
  "pauses_ok t \<longleftrightarrow> distinct (map cp_id t) \<and> length (filter (\<lambda>p. cp_endedAt p = None) t) \<le> 1"

datatype approval_kind = TechnicalOnly | Synthetic | OwnerReviewed

record policy_row =
  cn_id :: string
  cn_revisionNumber :: int
  cn_technicalVersion :: string
  cn_minimumVnd :: int
  cn_maximumVnd :: int
  cn_document :: "string option"
  cn_approvalKind :: approval_kind
  cn_actorUserId :: "string option"
  cn_actorSessionId :: "string option"
  cn_source :: string
  cn_checksum :: string
  cn_effectiveAt :: instant
  cn_createdAt :: instant

subsection \<open>The database\<close>

record ord_db =
  od_orders :: "order_row list"
  od_reservations :: "reservation_row list"
  od_events :: "event_row list"
  od_submissions :: "submission_row list"
  od_quotes :: "quote_row list"
  od_terms :: "terms_row list"
  od_acceptances :: "acceptance_row list"
  od_briefs :: "brief_row list"
  od_pauses :: "pause_row list"
  od_policyHead :: "string option"
  od_policies :: "policy_row list"
  od_idem :: idem_table
  od_audit :: audit_table
  od_outbox :: outbox

text \<open>Foreign keys within these tables.\<close>

definition order_references_ok :: "ord_db \<Rightarrow> bool" where
  "order_references_ok db \<longleftrightarrow>
     (let ids = co_id ` set (od_orders db)
      in cr_orderId ` set (od_reservations db) \<subseteq> ids \<and> ce_orderId ` set (od_events db) \<subseteq> ids \<and>
         cs_orderId ` set (od_submissions db) \<subseteq> ids \<and> cq_orderId ` set (od_quotes db) \<subseteq> ids \<and>
         ct_orderId ` set (od_terms db) \<subseteq> ids \<and> ca_orderId ` set (od_acceptances db) \<subseteq> ids \<and>
         cb_orderId ` set (od_briefs db) \<subseteq> ids \<and>
         (\<forall>o1 \<in> set (od_orders db). co_currentQuoteId o1 \<in> insert None (Some ` cq_id ` set (od_quotes db))))"

definition order_constraints :: "ord_db \<Rightarrow> bool" where
  "order_constraints db \<longleftrightarrow>
     orders_ok (od_orders db) \<and> reservations_ok (od_reservations db) \<and> events_ok (od_events db) \<and>
     submissions_ok (od_submissions db) \<and> quotes_ok (od_quotes db) \<and> snapshots_ok (od_terms db) \<and>
     acceptances_ok (od_acceptances db) \<and> distinct (map cb_orderId (od_briefs db)) \<and> pauses_ok (od_pauses db) \<and>
     order_references_ok db"

definition save :: "ord_db \<Rightarrow> failure + ord_db" where
  "save db = (if order_constraints db then Inr db else Inl (OtherError ''PostgresError''))"

lemma save_Inr [simp]: "save db = Inr db' \<longleftrightarrow> db' = db \<and> order_constraints db"
  by (auto simp: save_def)

subsection \<open>Configuration, ports and draws\<close>

datatype payments_mode = PaymentsDisabledMode | ManualOnly | SepayOptional

datatype environment = EnvLocal | EnvTest | EnvStaging | EnvProduction

record order_cfg =
  oc_platform :: platform
  oc_keyring :: keyring
  oc_lookupHmacKey :: string
  oc_applicationRevision :: string
  oc_intakeEnabled :: bool
  oc_paymentsMode :: payments_mode
  oc_fulfillmentEnabled :: bool
  oc_environment :: environment
  oc_parseUrl :: "string \<Rightarrow> link_url option"

record actor =
  ak_userId :: string
  ak_sessionId :: string

record policy_snapshot =
  pn_revisionId :: string
  pn_revisionNumber :: int
  pn_document :: "string option"
  pn_checksum :: string
  pn_acceptsOrders :: bool

record package_revision =
  pr_route :: commission_route
  pr_terms :: commission_terms
  pr_actorSessionId :: string
  pr_requestId :: string
  pr_publishedAt :: instant

text \<open>What the catalogue tells of a package; a custom quote has no published terms, which nothing reads.\<close>

record intake_package =
  ip_revision :: package_revision
  ip_accountVersionId :: "string option"
  ip_capacityLimit :: int
  ip_policy :: "policy_snapshot option"

datatype attach_result = Attached | AttachInvalid | AttachDisabled

text \<open>
  The answers of the other services within the transaction: identity and trust (session expiry,
  settlement participants), restrictions, the catalogue, payments, commission files and
  resolutions. They keep their own tables; each answer may be an error.
\<close>

record order_ports =
  op_sessionExpiresAt :: "actor \<Rightarrow> failure + instant option"
  op_participants :: "string \<Rightarrow> string \<Rightarrow> failure + bool"
  op_buyingAllowed :: "string \<Rightarrow> failure + unit"
  op_authorizeCommand :: "actor \<Rightarrow> failure + unit"
  op_packageIdentity :: "string \<Rightarrow> failure + (string \<times> commission_route) option"
  op_intakePackage :: "string \<Rightarrow> string \<Rightarrow> bool \<Rightarrow> bool \<Rightarrow> failure + intake_package"
  op_createIntent :: "string \<Rightarrow> int \<Rightarrow> failure + unit"
  op_closeIntent :: "string \<Rightarrow> close_reason \<Rightarrow> failure + bool"
  op_hasDestination :: "string \<Rightarrow> failure + bool"
  op_claimTransfer :: "string \<Rightarrow> failure + (string \<times> instant \<times> bool)"
  op_attachBriefFiles :: "(string \<Rightarrow> string list \<Rightarrow> failure + attach_result) option"
  op_attachOrderFiles :: "(string \<Rightarrow> string list \<Rightarrow> failure + attach_result) option"
  op_appendEntry :: "string \<Rightarrow> string \<Rightarrow> failure + int"
  op_openDispute :: "string \<Rightarrow> failure + bool"
  op_completionHold :: "string \<Rightarrow> failure + bool"

text \<open>\<open>dw_clock n\<close>, \<open>dw_id n\<close> and \<open>dw_nonce n\<close> are the reading of the clock, the identifier and the
  nonce drawn at the place numbered \<open>n\<close>; nothing is assumed about their order.\<close>

record draw =
  dw_clock :: "nat \<Rightarrow> instant"
  dw_id :: "nat \<Rightarrow> string"
  dw_nonce :: "nat \<Rightarrow> string"

definition new_id :: "draw \<Rightarrow> nat \<Rightarrow> failure + string" where
  "new_id dw n = await (check (is_uuid (dw_id dw n)) DependencyUnavailable) (\<lambda>_. Inr (dw_id dw n))"

lemma new_id_Inr [simp]: "new_id dw n = Inr k \<longleftrightarrow> k = dw_id dw n \<and> is_uuid (dw_id dw n)"
  by (auto simp: new_id_def result_iffs)

subsection \<open>Shared statements\<close>

definition order_audit :: "order_cfg \<Rightarrow> string \<Rightarrow> instant \<Rightarrow> new_audit_event \<Rightarrow> ord_db \<Rightarrow> failure + ord_db" where
  "order_audit cfg k clock e db =
     await (other ''AdminAuditError'' (appendAdminAuditEvent (pf_parse_url (oc_platform cfg)) k clock e (od_audit db))) (\<lambda>(t, _).
       Inr (db\<lparr>od_audit := t\<rparr>))"

definition order_event :: "order_cfg \<Rightarrow> string \<Rightarrow> instant \<Rightarrow> new_outbox_event \<Rightarrow> ord_db \<Rightarrow> failure + ord_db" where
  "order_event cfg k clock e db =
     await (other ''OutboxError'' (insertOutboxEvent (pf_parse_url (oc_platform cfg)) k clock e (od_outbox db))) (\<lambda>(t, _).
       Inr (db\<lparr>od_outbox := t\<rparr>))"

lemma order_audit_Inr:
  "order_audit cfg k clock e db = Inr db' \<Longrightarrow> \<exists>t. db' = db\<lparr>od_audit := t\<rparr>"
  by (auto simp: order_audit_def result_iffs)

lemma order_event_Inr:
  "order_event cfg k clock e db = Inr db' \<Longrightarrow> \<exists>t. db' = db\<lparr>od_outbox := t\<rparr>"
  by (auto simp: order_event_def result_iffs)

definition find_order :: "string \<Rightarrow> ord_db \<Rightarrow> order_row option" where
  "find_order k db = List.find (\<lambda>o1. co_id o1 = k) (od_orders db)"

definition find_terms :: "string \<Rightarrow> ord_db \<Rightarrow> terms_row option" where
  "find_terms k db = List.find (\<lambda>t. ct_orderId t = k) (od_terms db)"

text \<open>\<open>update commission_orders set f where id = k and p returning\<close>: the row that was updated, if any.\<close>

definition update_order :: "string \<Rightarrow> (order_row \<Rightarrow> bool) \<Rightarrow> (order_row \<Rightarrow> order_row) \<Rightarrow> ord_db \<Rightarrow> failure + (ord_db \<times> order_row option)" where
  "update_order k p f db =
     await (save (db\<lparr>od_orders := rows_update (\<lambda>o1. co_id o1 = k \<and> p o1) f (od_orders db)\<rparr>)) (\<lambda>db'.
       Inr (db', map_option f (List.find (\<lambda>o1. co_id o1 = k \<and> p o1) (od_orders db))))"

text \<open>\<open>update commission_reservations set f where order_id = k and p returning\<close>.\<close>

definition update_reservation ::
  "string \<Rightarrow> (reservation_row \<Rightarrow> bool) \<Rightarrow> (reservation_row \<Rightarrow> reservation_row) \<Rightarrow> ord_db \<Rightarrow> failure + (ord_db \<times> reservation_row option)" where
  "update_reservation k p f db =
     await (save (db\<lparr>od_reservations := rows_update (\<lambda>r. cr_orderId r = k \<and> p r) f (od_reservations db)\<rparr>)) (\<lambda>db'.
       Inr (db', map_option f (List.find (\<lambda>r. cr_orderId r = k \<and> p r) (od_reservations db))))"

end
