(* ===== verification/OrderPersistence.thy ===== *)
theory OrderPersistence
  imports OrderTables
begin

text \<open>
  The statements every order operation ends in (\<^verbatim>\<open>packages/orders/src/order-persistence.ts\<close>), the
  settlement port the payment services call (\<^verbatim>\<open>payment-lifecycle.ts\<close>), the port of the resolution
  service (\<^verbatim>\<open>resolution-port.ts\<close>), the policy in force (\<^verbatim>\<open>policy-repository.ts\<close>), and the completion
  date with its pauses. The advisory lock on a creator makes every operation on their orders one step.
\<close>

subsection \<open>Recording\<close>

text \<open>\<open>record\<close>: the timeline event, the audit event and the outbox event of an order as it now is.\<close>

definition timeline_event :: "string \<Rightarrow> order_row \<Rightarrow> actor option \<Rightarrow> string \<Rightarrow> string option \<Rightarrow> event_row" where
  "timeline_event k order actor requestId reason =
     \<lparr>ce_id = k, ce_orderId = co_id order, ce_orderVersion = co_version order, ce_type = co_state order,
      ce_actorUserId = map_option ak_userId actor, ce_actorSessionId = map_option ak_sessionId actor,
      ce_reason = reason, ce_requestId = requestId, ce_occurredAt = co_updatedAt order\<rparr>"

definition record_change ::
  "order_cfg \<Rightarrow> draw \<Rightarrow> order_row \<Rightarrow> actor option \<Rightarrow> string \<Rightarrow> string option \<Rightarrow> ord_db \<Rightarrow> failure + ord_db" where
  "record_change cfg dw order actor requestId reason db =
     await (new_id dw 100) (\<lambda>eventId.
     await (save (db\<lparr>od_events := od_events db @ [timeline_event eventId order actor requestId reason]\<rparr>)) (\<lambda>db1.
     await (order_audit cfg (dw_id dw 101) (co_updatedAt order)
       \<lparr>ne_actorUserId = (case actor of None \<Rightarrow> ''system:commission-worker'' | Some a \<Rightarrow> ak_userId a),
        ne_actorSessionId = map_option ak_sessionId actor, ne_subjectType = ''commission_order'', ne_subjectId = co_id order,
        ne_action = ''commission.'' @ state_text (co_state order), ne_outcome = Succeeded, ne_reasonCode = None, ne_beforeState = None,
        ne_afterState = Some (JObj [(''state'', JStr (state_text (co_state order))), (''version'', JNum (co_version order)), (''reason'', jstr reason)]),
        ne_assurance = JObj [(''method'', JStr (if actor = None then ''worker'' else ''current_session''))],
        ne_applicationRevision = oc_applicationRevision cfg, ne_requestId = requestId, ne_occurredAt = Some (Some (co_updatedAt order))\<rparr> db1) (\<lambda>db2.
     order_event cfg (dw_id dw 102) (co_updatedAt order)
       \<lparr>ev_eventType = ''commission.'' @ state_text (co_state order) @ ''.v1'', ev_eventVersion = 1, ev_aggregateType = ''commission_order'',
        ev_aggregateId = co_id order,
        ev_payload = JObj [(''orderId'', JStr (co_id order)), (''version'', JNum (co_version order)), (''state'', JStr (state_text (co_state order))),
          (''reason'', jstr reason), (''correlationId'', JStr requestId)],
        ev_occurredAt = Some (co_updatedAt order), ev_availableAt = None\<rparr> db2)))"

subsection \<open>Completing and closing\<close>

definition same_version :: "order_row \<Rightarrow> order_row \<Rightarrow> bool" where
  "same_version order o1 \<longleftrightarrow> co_version o1 = co_version order"

definition completeCommissionOrder ::
  "order_cfg \<Rightarrow> draw \<Rightarrow> order_row \<Rightarrow> completion_kind \<Rightarrow> actor option \<Rightarrow> string \<Rightarrow> instant \<Rightarrow> ord_db \<Rightarrow> failure + (ord_db \<times> order_row)" where
  "completeCommissionOrder cfg dw order kind actor requestId at db =
     await (requireCommissionTransition (co_state order) CoCompleted None) (\<lambda>_.
     await (update_reservation (co_id order) (\<lambda>r. cr_state r = Occupied)
       (\<lambda>r. r\<lparr>cr_state := ReservationCompleted, cr_releasedAt := Some at\<rparr>) db) (\<lambda>(db1, reservation).
     await (check (reservation \<noteq> None) InvalidTransition) (\<lambda>_.
     await (update_order (co_id order) (same_version order)
       (\<lambda>o1. o1\<lparr>co_state := CoCompleted, co_completedAt := Some at, co_completionKind := Some kind,
          co_version := co_version order + 1, co_updatedAt := at\<rparr>) db1) (\<lambda>(db2, completed).
     await (demand completed VersionConflict) (\<lambda>c.
     await (record_change cfg dw c actor requestId (Some (completion_kind_text kind)) db2) (\<lambda>db3. Inr (db3, c)))))))"

definition closed_row :: "order_row \<Rightarrow> close_reason \<Rightarrow> instant \<Rightarrow> order_row \<Rightarrow> order_row" where
  "closed_row order reason at o1 =
     o1\<lparr>co_state := CoClosed, co_version := co_version order + 1, co_closeReason := Some reason, co_closedAt := Some at, co_updatedAt := at\<rparr>"

text \<open>The release of an accepted order: the payment intent is closed and the capacity given back.\<close>

definition release_accepted :: "order_ports \<Rightarrow> order_row \<Rightarrow> close_reason \<Rightarrow> instant \<Rightarrow> ord_db \<Rightarrow> failure + ord_db" where
  "release_accepted ports order reason at db =
     await (check (reason \<in> {BuyerCancelled, CreatorCancelled, PaymentExpired, SecurityInvalidated, EligibilityInvalidated}) InvalidTransition) (\<lambda>_.
     await (op_closeIntent ports (co_id order) reason) (\<lambda>ok.
     await (check ok InvalidTransition) (\<lambda>_.
     await (update_reservation (co_id order) (\<lambda>r. cr_state r = Reserved)
       (\<lambda>r. r\<lparr>cr_state := Released, cr_releasedAt := Some at\<rparr>) db) (\<lambda>(db1, released).
     await (check (released \<noteq> None) InvalidTransition) (\<lambda>_. Inr db1)))))"

definition closeOrder ::
  "order_cfg \<Rightarrow> order_ports \<Rightarrow> draw \<Rightarrow> order_row \<Rightarrow> close_reason \<Rightarrow> actor option \<Rightarrow> string \<Rightarrow> instant \<Rightarrow> ord_db \<Rightarrow> failure + (ord_db \<times> order_row)" where
  "closeOrder cfg ports dw order reason actor requestId at db =
     await (check (reason \<notin> set post_payment_reasons) InvalidTransition) (\<lambda>_.
     await (requireCommissionTransition (co_state order) CoClosed (Some reason)) (\<lambda>_.
     await (if co_acceptedAt order = None then Inr db else release_accepted ports order reason at db) (\<lambda>db1.
     await (update_order (co_id order) (same_version order) (closed_row order reason at) db1) (\<lambda>(db2, closed).
     await (demand closed VersionConflict) (\<lambda>c.
     await (record_change cfg dw c actor requestId (map_option close_reason_text (co_closeReason c)) db2) (\<lambda>db3. Inr (db3, c)))))))"

definition closePaidOrder ::
  "order_cfg \<Rightarrow> draw \<Rightarrow> order_row \<Rightarrow> close_reason \<Rightarrow> actor option \<Rightarrow> string \<Rightarrow> instant \<Rightarrow> ord_db \<Rightarrow> failure + (ord_db \<times> order_row)" where
  "closePaidOrder cfg dw order reason actor requestId at db =
     await (check (reason \<in> set post_payment_reasons \<and> co_confirmedAt order \<noteq> None) InvalidTransition) (\<lambda>_.
     await (requireCommissionTransition (co_state order) CoClosed (Some reason)) (\<lambda>_.
     await (update_reservation (co_id order) (\<lambda>r. cr_state r = Occupied)
       (\<lambda>r. r\<lparr>cr_state := ReservationCancelled, cr_releasedAt := Some at\<rparr>) db) (\<lambda>(db1, reservation).
     await (check (reservation \<noteq> None) InvalidTransition) (\<lambda>_.
     await (update_order (co_id order) (same_version order) (closed_row order reason at) db1) (\<lambda>(db2, closed).
     await (demand closed VersionConflict) (\<lambda>c.
     await (record_change cfg dw c actor requestId (map_option close_reason_text (co_closeReason c)) db2) (\<lambda>db3. Inr (db3, c))))))))"

subsection \<open>Settlement\<close>

text \<open>The bindings that \<open>lockSettlement\<close> leaves for \<open>confirmPayment\<close> in the same transaction.\<close>

type_synonym bindings = "string \<rightharpoonup> string \<times> instant"

definition settleable :: "order_row \<Rightarrow> instant \<Rightarrow> bool" where
  "settleable order at \<longleftrightarrow>
     (co_state order \<in> {CoAwaitingPayment, CoInProgress, CoDelivered, CoCompleted} \<or>
        (co_state order = CoClosed \<and> co_confirmedAt order \<noteq> None)) \<and>
     \<not> (co_state order = CoAwaitingPayment \<and> (case co_expiresAt order of None \<Rightarrow> True | Some e \<Rightarrow> e \<le> at))"

definition find_owned :: "string \<Rightarrow> string \<Rightarrow> ord_db \<Rightarrow> order_row option" where
  "find_owned orderId creatorUserId db =
     List.find (\<lambda>o1. co_id o1 = orderId \<and> co_creatorUserId o1 = creatorUserId) (od_orders db)"

definition lockSettlement ::
  "order_ports \<Rightarrow> string \<Rightarrow> string \<Rightarrow> instant \<Rightarrow> bindings \<Rightarrow> ord_db \<Rightarrow> failure + (bindings \<times> bool)" where
  "lockSettlement ports orderId creatorUserId at locked db =
     (if \<not> is_uuid orderId \<or> \<not> commissionIdentifier creatorUserId then Inr (locked, False)
      else await (check (date_ok at) InvalidRequest) (\<lambda>_.
        case find_owned orderId creatorUserId db of
          None \<Rightarrow> Inr (locked, False)
        | Some order \<Rightarrow>
            if \<not> settleable order at then Inr (locked, False)
            else await (op_participants ports (co_creatorUserId order) (co_buyerUserId order)) (\<lambda>ok.
              if ok then Inr (locked(orderId \<mapsto> (creatorUserId, at)), True) else Inr (locked, False))))"

record confirmation =
  cf_orderId :: string
  cf_creatorUserId :: string
  cf_at :: instant
  cf_paymentIntentId :: string
  cf_amountVnd :: int
  cf_actor :: "actor option"
  cf_requestId :: string

definition confirmation_bound :: "bindings \<Rightarrow> confirmation \<Rightarrow> bool" where
  "confirmation_bound locked c \<longleftrightarrow>
     (case locked (cf_orderId c) of None \<Rightarrow> False
      | Some (creatorUserId, at) \<Rightarrow> creatorUserId = cf_creatorUserId c \<and> at \<le> cf_at c) \<and>
     is_uuid (cf_paymentIntentId c) \<and> commissionIdentifier (cf_requestId c) \<and>
     (case cf_actor c of None \<Rightarrow> True | Some a \<Rightarrow> ak_userId a = cf_creatorUserId c \<and> commissionIdentifier (ak_sessionId a))"

definition confirmable :: "order_row \<Rightarrow> confirmation \<Rightarrow> bool" where
  "confirmable order c \<longleftrightarrow>
     co_state order = CoAwaitingPayment \<and> co_amountVnd order = Some (cf_amountVnd c) \<and>
     (case co_acceptedAt order of None \<Rightarrow> False | Some a \<Rightarrow> a \<le> cf_at c) \<and>
     (case co_expiresAt order of None \<Rightarrow> False | Some e \<Rightarrow> cf_at c < e)"

text \<open>The writes of a confirmation; \<open>False\<close> leaves whatever was written to the caller's transaction.\<close>

definition confirm_write :: "draw \<Rightarrow> confirmation \<Rightarrow> order_row \<Rightarrow> terms_row \<Rightarrow> ord_db \<Rightarrow> failure + (ord_db \<times> bool)" where
  "confirm_write dw c order terms db =
     await (update_reservation (co_id order) (\<lambda>r. cr_creatorUserId r = cf_creatorUserId c \<and> cr_state r = Reserved)
       (\<lambda>r. r\<lparr>cr_state := Occupied, cr_occupiedAt := Some (cf_at c)\<rparr>) db) (\<lambda>(db1, reservation).
     if reservation = None then Inr (db1, False)
     else await (commissionDueAt (cf_at c) (pt_turnaroundDays terms)) (\<lambda>dueAt.
       await (update_order (co_id order)
         (\<lambda>o1. same_version order o1 \<and> co_state o1 = CoAwaitingPayment \<and> (case co_expiresAt o1 of None \<Rightarrow> False | Some e \<Rightarrow> cf_at c < e))
         (\<lambda>o1. o1\<lparr>co_state := CoInProgress, co_version := co_version order + 1, co_confirmedAt := Some (cf_at c),
            co_dueAt := Some dueAt, co_updatedAt := cf_at c\<rparr>) db1) (\<lambda>(db2, updated).
       case updated of None \<Rightarrow> Inr (db2, False)
       | Some u \<Rightarrow>
           await (if is_uuid (dw_id dw 0) then Inr () else Inl (OtherError ''Error'')) (\<lambda>_.
           await (save (db2\<lparr>od_events := od_events db2 @
             [\<lparr>ce_id = dw_id dw 0, ce_orderId = co_id order, ce_orderVersion = co_version u, ce_type = CoInProgress,
               ce_actorUserId = map_option ak_userId (cf_actor c), ce_actorSessionId = map_option ak_sessionId (cf_actor c),
               ce_reason = None, ce_requestId = cf_requestId c, ce_occurredAt = cf_at c\<rparr>]\<rparr>)) (\<lambda>db3. Inr (db3, True))))))"

text \<open>\<open>commissionTime(command.at)\<close>, reached once the binding is found: it throws on an invalid date.\<close>

definition confirmation_time_invalid :: "bindings \<Rightarrow> confirmation \<Rightarrow> bool" where
  "confirmation_time_invalid locked c \<longleftrightarrow>
     (case locked (cf_orderId c) of None \<Rightarrow> False | Some (creatorUserId, at) \<Rightarrow> creatorUserId = cf_creatorUserId c) \<and>
     \<not> date_ok (cf_at c)"

definition confirmPayment :: "draw \<Rightarrow> bindings \<Rightarrow> confirmation \<Rightarrow> ord_db \<Rightarrow> failure + (ord_db \<times> bool)" where
  "confirmPayment dw locked c db =
     (if confirmation_time_invalid locked c then Inl (CommissionError InvalidRequest)
      else if \<not> confirmation_bound locked c then Inr (db, False)
      else case find_owned (cf_orderId c) (cf_creatorUserId c) db of
        None \<Rightarrow> Inr (db, False)
      | Some order \<Rightarrow>
          if \<not> confirmable order c then Inr (db, False)
          else case find_terms (co_id order) db of
            None \<Rightarrow> Inr (db, False)
          | Some terms \<Rightarrow>
              if pt_amountVnd terms \<noteq> cf_amountVnd c then Inr (db, False) else confirm_write dw c order terms db)"

subsection \<open>The completion date\<close>

definition readCommissionCompletionDueAt :: "ord_db \<Rightarrow> instant \<Rightarrow> instant option \<Rightarrow> failure + instant option" where
  "readCommissionCompletionDueAt db reviewEndsAt completionFloorAt =
     (let base = (case completionFloorAt of None \<Rightarrow> reviewEndsAt | Some f \<Rightarrow> if reviewEndsAt < f then f else reviewEndsAt);
          pauses = filter (\<lambda>p. case cp_endedAt p of None \<Rightarrow> True | Some e \<Rightarrow> base < e) (od_pauses db)
      in commissionCompletionDueAt base (map (\<lambda>p. (cp_startedAt p, cp_endedAt p)) pauses) pauseGraceMs)"

subsection \<open>The resolution port\<close>

record resolution_command =
  rs_orderId :: string
  rs_expectedVersion :: int
  rs_actor :: "actor option"
  rs_requestId :: string
  rs_at :: instant

definition expectedOrder :: "resolution_command \<Rightarrow> ord_db \<Rightarrow> failure + order_row" where
  "expectedOrder c db =
     await (commissionInteger (rs_expectedVersion c) 1 2147483646) (\<lambda>_.
     await (check (date_ok (rs_at c)) InvalidRequest) (\<lambda>_.
     await (check (commissionIdentifier (rs_requestId c) \<and>
       (case rs_actor c of None \<Rightarrow> True | Some a \<Rightarrow> commissionIdentifier (ak_userId a) \<and> commissionIdentifier (ak_sessionId a))) InvalidRequest) (\<lambda>_.
     await (check (is_uuid (rs_orderId c)) InvalidRequest) (\<lambda>_.
     await (demand (find_order (rs_orderId c) db) NotAvailable) (\<lambda>order.
     await (check (co_version order = rs_expectedVersion c) VersionConflict) (\<lambda>_. Inr order))))))"

definition resolution_closePaidOrder ::
  "order_cfg \<Rightarrow> draw \<Rightarrow> resolution_command \<Rightarrow> close_reason \<Rightarrow> ord_db \<Rightarrow> failure + (ord_db \<times> int)" where
  "resolution_closePaidOrder cfg dw c reason db =
     await (expectedOrder c db) (\<lambda>order.
     await (closePaidOrder cfg dw order reason (rs_actor c) (rs_requestId c) (rs_at c) db) (\<lambda>(db', closed). Inr (db', co_version closed)))"

definition completeByResolution ::
  "order_cfg \<Rightarrow> draw \<Rightarrow> resolution_command \<Rightarrow> completion_kind \<Rightarrow> ord_db \<Rightarrow> failure + (ord_db \<times> int)" where
  "completeByResolution cfg dw c kind db =
     await (check (kind = CompletedByAgreement \<or> kind = CompletedByRuling) InvalidRequest) (\<lambda>_.
     await (expectedOrder c db) (\<lambda>order.
     await (completeCommissionOrder cfg dw order kind (rs_actor c) (rs_requestId c) (rs_at c) db) (\<lambda>(db', completed).
       Inr (db', co_version completed))))"

definition restoreReviewTime ::
  "order_cfg \<Rightarrow> draw \<Rightarrow> resolution_command \<Rightarrow> instant \<Rightarrow> ord_db \<Rightarrow> failure + (ord_db \<times> int)" where
  "restoreReviewTime cfg dw c floorAt db =
     await (check (date_ok floorAt) InvalidRequest) (\<lambda>_.
     await (expectedOrder c db) (\<lambda>order.
     await (check (co_state order = CoDelivered) InvalidTransition) (\<lambda>_.
     await (demand (co_reviewEndsAt order) InvalidTransition) (\<lambda>reviewEndsAt.
     if floorAt \<le> max reviewEndsAt (case co_completionFloorAt order of None \<Rightarrow> reviewEndsAt | Some f \<Rightarrow> f)
     then Inr (db, co_version order)
     else await (update_order (co_id order) (same_version order)
         (\<lambda>o1. o1\<lparr>co_completionFloorAt := Some floorAt, co_version := co_version order + 1, co_updatedAt := rs_at c\<rparr>) db) (\<lambda>(db1, restored).
       await (demand restored VersionConflict) (\<lambda>r.
       await (record_change cfg dw r (rs_actor c) (rs_requestId c) (Some ''review_time_restored'') db1) (\<lambda>db2.
         Inr (db2, co_version r))))))))"

subsection \<open>The policy in force\<close>

definition approval_text :: "approval_kind \<Rightarrow> string" where
  "approval_text a = (case a of TechnicalOnly \<Rightarrow> ''technical_only'' | Synthetic \<Rightarrow> ''synthetic'' | OwnerReviewed \<Rightarrow> ''owner_reviewed'')"

definition commissionPolicyChecksum :: "platform \<Rightarrow> policy_row \<Rightarrow> string" where
  "commissionPolicyChecksum pf p =
     ''sha256:'' @ lower_hex (pf_sha256 pf (stringify (JObj [(''technicalVersion'', JStr (cn_technicalVersion p)),
       (''minimumVnd'', JNum (cn_minimumVnd p)), (''maximumVnd'', JNum (cn_maximumVnd p)),
       (''approvalKind'', JStr (approval_text (cn_approvalKind p))), (''document'', jstr (cn_document p))])))"

definition readCurrentPolicy :: "order_cfg \<Rightarrow> instant \<Rightarrow> ord_db \<Rightarrow> policy_snapshot option" where
  "readCurrentPolicy cfg at db =
     (case od_policyHead db of None \<Rightarrow> None
      | Some revisionId \<Rightarrow>
          (case List.find (\<lambda>p. cn_id p = revisionId) (od_policies db) of None \<Rightarrow> None
           | Some p \<Rightarrow>
               if cn_technicalVersion p \<noteq> ''commission-v1'' \<or> cn_minimumVnd p \<noteq> minimumVnd \<or> cn_maximumVnd p \<noteq> maximumVnd \<or>
                  at < cn_effectiveAt p \<or> at < cn_createdAt p \<or> cn_checksum p \<noteq> commissionPolicyChecksum (oc_platform cfg) p then None
               else let reviewed = (cn_approvalKind p = OwnerReviewed \<and> cn_actorUserId p \<notin> {None, Some []} \<and> cn_actorSessionId p \<notin> {None, Some []});
                        synthetic = (oc_environment cfg \<in> {EnvLocal, EnvTest} \<and> cn_approvalKind p = Synthetic)
                 in Some \<lparr>pn_revisionId = cn_id p, pn_revisionNumber = cn_revisionNumber p, pn_document = cn_document p,
                      pn_checksum = cn_checksum p,
                      pn_acceptsOrders = (cn_document p \<notin> {None, Some []} \<and> (reviewed \<or> synthetic))\<rparr>))"

definition requireCommissionPolicy :: "policy_snapshot option \<Rightarrow> string \<Rightarrow> failure + policy_snapshot" where
  "requireCommissionPolicy policy expectedRevisionId =
     await (demand policy PolicyChanged) (\<lambda>p.
     await (check (pn_acceptsOrders p \<and> pn_revisionId p = expectedRevisionId) PolicyChanged) (\<lambda>_. Inr p))"

end
