(* ===== verification/OrderService.thy ===== *)
theory OrderService
  imports OrderPersistence
begin

text \<open>
  The commands of buyers and creators: requesting, quoting, accepting and closing an order and
  claiming its transfer (\<^verbatim>\<open>packages/orders/src/order-service.ts\<close>), submitting work and answering a
  submission (\<^verbatim>\<open>fulfillment-service.ts\<close>), all run through \<open>mutate\<close>, which adds the idempotency record,
  the session check and the authorisation. A command is one transaction on \<^typ>\<open>ord_db\<close>.
\<close>

subsection \<open>Running a command\<close>

record order_command =
  cmd_actor :: actor
  cmd_idempotencyKey :: string
  cmd_requestId :: string

record change =
  cg_orderId :: string
  cg_at :: instant
  cg_guardUntil :: "instant option"

definition actorValid :: "actor \<Rightarrow> failure + unit" where
  "actorValid a = check (commissionIdentifier (ak_userId a) \<and> commissionIdentifier (ak_sessionId a)) NotAuthorized"

definition session :: "order_ports \<Rightarrow> actor \<Rightarrow> instant \<Rightarrow> failure + instant" where
  "session ports a at =
     await (op_sessionExpiresAt ports a) (\<lambda>proof.
     await (demand proof NotAuthorized) (\<lambda>e.
     await (check (at < e) NotAuthorized) (\<lambda>_. Inr e)))"

definition owned :: "string \<Rightarrow> actor \<Rightarrow> ord_db \<Rightarrow> failure + order_row" where
  "owned orderId a db =
     demand (List.find (\<lambda>o1. co_id o1 = orderId \<and> (co_buyerUserId o1 = ak_userId a \<or> co_creatorUserId o1 = ak_userId a)) (od_orders db))
       NotAuthorized"

definition participants :: "order_ports \<Rightarrow> string \<Rightarrow> string \<Rightarrow> failure + unit" where
  "participants ports creatorUserId buyerUserId =
     (if creatorUserId = buyerUserId then Inl (CommissionError NotAvailable)
      else await (op_participants ports creatorUserId buyerUserId) (\<lambda>ok. check ok NotAvailable))"

definition begin_order_command ::
  "order_cfg \<Rightarrow> draw \<Rightarrow> order_command \<Rightarrow> string \<Rightarrow> json \<Rightarrow> ord_db \<Rightarrow> failure + (ord_db \<times> begin_result)" where
  "begin_order_command cfg dw c scope payload db =
     (let startedAt = dw_clock dw 0; pf = oc_platform cfg; key = oc_lookupHmacKey cfg
      in
     await (other ''SecurityHashingError'' (createLookupHmac pf (cmd_idempotencyKey c) ''commission-command-key'' key)) (\<lambda>keyHash.
     await (commissionCommandFingerprint pf key ''commission-command'' (JArr [JStr scope, JStr (ak_userId (cmd_actor c)), payload])) (\<lambda>fp.
     await (other ''IdempotencyError'' (beginIdempotentCommand (dw_id dw 90) \<lparr>bi_actorUserId = ak_userId (cmd_actor c),
         bi_commandScope = ''orders.commission.'' @ scope, bi_keyHash = keyHash, bi_requestFingerprint = fp,
         bi_expiresAt = startedAt + 86400000, bi_now = startedAt\<rparr> (od_idem db))) (\<lambda>(t, started).
       Inr (db\<lparr>od_idem := t\<rparr>, started)))))"

definition finish_order_command ::
  "order_cfg \<Rightarrow> order_ports \<Rightarrow> draw \<Rightarrow> order_command \<Rightarrow> string \<Rightarrow> string \<Rightarrow> instant \<Rightarrow> change \<Rightarrow> ord_db \<Rightarrow> failure + (ord_db \<times> string)" where
  "finish_order_command cfg ports dw c scope recordId sessionExpiresAt changed db =
     (let startedAt = dw_clock dw 0; completedAt = dw_clock dw 91
      in
     await (check (startedAt \<le> completedAt \<and> cg_at changed \<le> completedAt \<and> completedAt < sessionExpiresAt) NotAuthorized) (\<lambda>_.
     await (case cg_guardUntil changed of None \<Rightarrow> Inr () | Some g \<Rightarrow> requireCommissionBeforeDeadline completedAt g) (\<lambda>_.
     await (other ''IdempotencyError'' (completeIdempotentCommand (pf_parse_url (oc_platform cfg)) recordId (cg_orderId changed) completedAt (od_idem db))) (\<lambda>(t, ok).
     await (check ok IdempotencyConflict) (\<lambda>_.
     await (op_authorizeCommand ports (cmd_actor c)) (\<lambda>_.
     let db' = db\<lparr>od_idem := t\<rparr> in
     await (if scope = ''request'' \<or> scope = ''accept''
       then case find_order (cg_orderId changed) db' of
           None \<Rightarrow> Inr ()
         | Some order \<Rightarrow> if co_buyerUserId order = ak_userId (cmd_actor c) then op_buyingAllowed ports (ak_userId (cmd_actor c)) else Inr ()
       else Inr ()) (\<lambda>_. Inr (db', cg_orderId changed))))))))"

definition mutate_transaction ::
  "order_cfg \<Rightarrow> order_ports \<Rightarrow> draw \<Rightarrow> order_command \<Rightarrow> string \<Rightarrow> json \<Rightarrow> (ord_db \<Rightarrow> failure + string) \<Rightarrow>
     (ord_db \<Rightarrow> failure + (ord_db \<times> change)) \<Rightarrow> ord_db \<Rightarrow> failure + (ord_db \<times> string)" where
  "mutate_transaction cfg ports dw c scope payload creator apply_change db =
     await (begin_order_command cfg dw c scope payload db) (\<lambda>(db0, started).
     await (check (case started of Acquired _ \<Rightarrow> True | Replay _ _ \<Rightarrow> True | _ \<Rightarrow> False) IdempotencyConflict) (\<lambda>_.
     await (creator db0) (\<lambda>_.
     await (session ports (cmd_actor c) (dw_clock dw 1)) (\<lambda>sessionExpiresAt.
     case started of
       Replay _ ref \<Rightarrow>
         await (owned ref (cmd_actor c) db0) (\<lambda>_.
         await (check (dw_clock dw 2 < sessionExpiresAt) NotAuthorized) (\<lambda>_.
         await (op_authorizeCommand ports (cmd_actor c)) (\<lambda>_. Inr (db0, ref))))
     | Acquired recordId \<Rightarrow>
         await (apply_change db0) (\<lambda>(db1, changed).
         finish_order_command cfg ports dw c scope recordId sessionExpiresAt changed db1)
     | _ \<Rightarrow> Inl (CommissionError IdempotencyConflict)))))"

definition mutate ::
  "order_cfg \<Rightarrow> order_ports \<Rightarrow> draw \<Rightarrow> order_command \<Rightarrow> string \<Rightarrow> json \<Rightarrow> (ord_db \<Rightarrow> failure + string) \<Rightarrow>
     (ord_db \<Rightarrow> failure + (ord_db \<times> change)) \<Rightarrow> ord_db \<Rightarrow> commission_error + (ord_db \<times> string)" where
  "mutate cfg ports dw c scope payload creator apply_change db =
     boundary (
       await (actorValid (cmd_actor c)) (\<lambda>_.
       await (check (commissionIdentifier (cmd_requestId c) \<and> commissionIdempotencyKey (cmd_idempotencyKey c)) InvalidRequest) (\<lambda>_.
       mutate_transaction cfg ports dw c scope payload creator apply_change db)))"

definition orderCreator :: "order_command \<Rightarrow> string \<Rightarrow> ord_db \<Rightarrow> failure + string" where
  "orderCreator c orderId db = await (owned orderId (cmd_actor c) db) (\<lambda>order. Inr (co_creatorUserId order))"

definition existingValid :: "string \<Rightarrow> int \<Rightarrow> failure + unit" where
  "existingValid orderId expectedVersion =
     await (check (is_uuid orderId) InvalidRequest) (\<lambda>_. await (commissionInteger expectedVersion 1 2147483646) (\<lambda>_. Inr ()))"

definition require_pending :: "order_row \<Rightarrow> int \<Rightarrow> instant \<Rightarrow> failure + unit" where
  "require_pending order expectedVersion at =
     await (check (co_version order = expectedVersion) VersionConflict) (\<lambda>_.
     await (check (co_expiresAt order \<noteq> None \<and> pending_state (co_state order)) InvalidTransition) (\<lambda>_.
     requireCommissionBeforeDeadline at (the (co_expiresAt order))))"

definition intake :: "order_cfg \<Rightarrow> order_ports \<Rightarrow> order_row \<Rightarrow> bool \<Rightarrow> bool \<Rightarrow> failure + intake_package" where
  "intake cfg ports order requirePayment buyerAccept =
     await (check (oc_intakeEnabled cfg) IntakeDisabled) (\<lambda>_.
     await (check (\<not> (requirePayment \<and> oc_paymentsMode cfg = PaymentsDisabledMode)) PaymentsDisabled) (\<lambda>_.
     await (participants ports (co_creatorUserId order) (co_buyerUserId order)) (\<lambda>_.
     await (if buyerAccept then op_buyingAllowed ports (co_buyerUserId order) else Inr ()) (\<lambda>_.
     op_intakePackage ports (co_packageId order) (co_packageRevisionId order) True requirePayment))))"

subsection \<open>Acceptance and reservation\<close>

definition capacity_used :: "string \<Rightarrow> ord_db \<Rightarrow> nat" where
  "capacity_used creatorUserId db =
     length (filter (\<lambda>r. cr_creatorUserId r = creatorUserId \<and> cr_state r \<in> {Reserved, Occupied}) (od_reservations db))"

definition reserve :: "order_row \<Rightarrow> intake_package \<Rightarrow> instant \<Rightarrow> ord_db \<Rightarrow> failure + ord_db" where
  "reserve order data at db =
     await (check (int (capacity_used (co_creatorUserId order) db) < ip_capacityLimit data) CapacityFull) (\<lambda>_.
     save (db\<lparr>od_reservations := od_reservations db @
       [\<lparr>cr_orderId = co_id order, cr_creatorUserId = co_creatorUserId order, cr_state = Reserved, cr_reservedAt = at,
         cr_occupiedAt = None, cr_releasedAt = None\<rparr>]\<rparr>))"

definition acceptance ::
  "draw \<Rightarrow> nat \<Rightarrow> order_row \<Rightarrow> party \<Rightarrow> actor \<Rightarrow> instant \<Rightarrow> string \<Rightarrow> string option \<Rightarrow> string \<Rightarrow> ord_db \<Rightarrow> failure + ord_db" where
  "acceptance dw n order role a at policyRevisionId quoteRevisionId requestId db =
     await (new_id dw n) (\<lambda>k.
     save (db\<lparr>od_acceptances := od_acceptances db @
       [\<lparr>ca_id = k, ca_orderId = co_id order, ca_actorUserId = ak_userId a, ca_actorSessionId = ak_sessionId a, ca_role = role,
         ca_packageRevisionId = co_packageRevisionId order, ca_quoteRevisionId = quoteRevisionId,
         ca_policyRevisionId = policyRevisionId, ca_requestId = requestId, ca_acceptedAt = at\<rparr>]\<rparr>))"

definition terms_snapshot :: "order_row \<Rightarrow> private_terms \<Rightarrow> string option \<Rightarrow> instant \<Rightarrow> instant \<Rightarrow> instant \<Rightarrow> terms_row" where
  "terms_snapshot order sealed quoteId buyerAt creatorAt at =
     private_terms.extend sealed \<lparr>ct_orderId = co_id order, ct_packageRevisionId = co_packageRevisionId order, ct_quoteRevisionId = quoteId,
       ct_buyerAcceptedAt = buyerAt, ct_creatorAcceptedAt = creatorAt, ct_createdAt = at\<rparr>"

definition commitTerms ::
  "order_cfg \<Rightarrow> order_ports \<Rightarrow> draw \<Rightarrow> order_row \<Rightarrow> intake_package \<Rightarrow> commission_terms \<Rightarrow> instant \<Rightarrow> instant \<Rightarrow> string option \<Rightarrow> instant \<Rightarrow>
     ord_db \<Rightarrow> failure + ord_db" where
  "commitTerms cfg ports dw order data terms buyerAt creatorAt quoteId at db =
     await (check (case ip_accountVersionId data of None \<Rightarrow> False | Some v \<Rightarrow> is_uuid v) NotAvailable) (\<lambda>_.
     await (reserve order data at db) (\<lambda>db1.
     await (encryptCommissionTerms (oc_platform cfg) (oc_keyring cfg) (\<lambda>n. dw_nonce dw (10 + n)) ''commission_terms_snapshots'' (co_id order) terms) (\<lambda>sealed.
     await (save (db1\<lparr>od_terms := od_terms db1 @ [terms_snapshot order sealed quoteId buyerAt creatorAt at]\<rparr>)) (\<lambda>db2.
     await (op_createIntent ports (co_id order) (tm_amountVnd terms)) (\<lambda>_. Inr db2)))))"

subsection \<open>Requesting\<close>

record request_command = order_command +
  rq_packageId :: string
  rq_revisionId :: string
  rq_policyRevisionId :: string
  rq_acceptTerms :: bool
  rq_brief :: commission_brief
  rq_abuseKeyHash :: string
  rq_referenceFileIds :: "string list option"

definition referenceIds :: "string list option \<Rightarrow> failure + string list" where
  "referenceIds v =
     (case v of None \<Rightarrow> Inr []
      | Some ids \<Rightarrow> await (check (length ids \<le> 10 \<and> list_all is_uuid ids \<and> distinct ids) InvalidRequest) (\<lambda>_. Inr ids))"

definition find_identity :: "order_ports \<Rightarrow> string \<Rightarrow> failure + (string \<times> commission_route)" where
  "find_identity ports packageId = await (op_packageIdentity ports packageId) (\<lambda>row. demand row NotAvailable)"

definition open_pair_orders :: "string \<Rightarrow> string \<Rightarrow> ord_db \<Rightarrow> nat" where
  "open_pair_orders creatorUserId buyerUserId db =
     length (filter (\<lambda>o1. co_creatorUserId o1 = creatorUserId \<and> co_buyerUserId o1 = buyerUserId \<and>
       co_state o1 \<notin> {CoClosed, CoCompleted}) (od_orders db))"

definition new_order ::
  "request_command \<Rightarrow> string \<Rightarrow> string \<Rightarrow> commission_route \<Rightarrow> int option \<Rightarrow> instant \<Rightarrow> instant \<Rightarrow> order_row" where
  "new_order c orderId creatorUserId route amount expiresAt at =
     \<lparr>co_id = orderId, co_creatorUserId = creatorUserId, co_buyerUserId = ak_userId (cmd_actor c), co_packageId = rq_packageId c,
      co_packageRevisionId = rq_revisionId c, co_route = route,
      co_state = (if amount = None then CoRequested else CoAwaitingPayment), co_version = 1, co_amountVnd = amount,
      co_currentQuoteId = None, co_expiresAt = Some expiresAt, co_acceptedAt = (if amount = None then None else Some at),
      co_confirmedAt = None, co_dueAt = None, co_deliveredAt = None, co_reviewEndsAt = None, co_completionFloorAt = None,
      co_completedAt = None, co_completionKind = None, co_revisionsUsed = 0, co_closedAt = None, co_closeReason = None,
      co_createdAt = at, co_updatedAt = at\<rparr>"

definition attach_brief_files :: "order_ports \<Rightarrow> string \<Rightarrow> string list \<Rightarrow> failure + unit" where
  "attach_brief_files ports orderId fileIds =
     (if fileIds = [] then Inr ()
      else await (demand (op_attachBriefFiles ports) FilesDisabled) (\<lambda>attach.
        await (attach orderId fileIds) (\<lambda>attached.
        await (check (attached \<noteq> AttachDisabled) FilesDisabled) (\<lambda>_. check (attached = Attached) InvalidReferenceFiles))))"

text \<open>The writes of a request, after the order itself: brief, files, acceptances, terms and record.\<close>

definition request_rest ::
  "order_cfg \<Rightarrow> order_ports \<Rightarrow> draw \<Rightarrow> request_command \<Rightarrow> commission_brief \<Rightarrow> string list \<Rightarrow> intake_package \<Rightarrow> commission_terms option \<Rightarrow>
     bool \<Rightarrow> order_row \<Rightarrow> instant \<Rightarrow> ord_db \<Rightarrow> failure + (ord_db \<times> change)" where
  "request_rest cfg ports dw c brief fileIds data terms immediate order at db =
     await (encryptCommissionBrief (oc_platform cfg) (oc_keyring cfg) (dw_nonce dw) (co_id order) brief) (\<lambda>sealed.
     await (save (db\<lparr>od_briefs := od_briefs db @ [sealed_brief.extend sealed \<lparr>cb_orderId = co_id order,
       cb_buyerSessionId = ak_sessionId (cmd_actor c), cb_requestId = cmd_requestId c, cb_createdAt = at\<rparr>]\<rparr>)) (\<lambda>db1.
     await (attach_brief_files ports (co_id order) fileIds) (\<lambda>_.
     await (case terms of None \<Rightarrow> Inr db1
       | Some tm \<Rightarrow> acceptance dw 2 order Buyer (cmd_actor c) at (tm_policyRevisionId tm) None (cmd_requestId c) db1) (\<lambda>db2.
     await (if \<not> immediate then Inr db2
       else await (orThrow terms (OtherError ''TypeError'')) (\<lambda>tm.
         let revision = ip_revision data in
         await (acceptance dw 3 order Creator \<lparr>ak_userId = co_creatorUserId order, ak_sessionId = pr_actorSessionId revision\<rparr>
           (pr_publishedAt revision) (tm_policyRevisionId tm) None (pr_requestId revision) db2) (\<lambda>db3.
         commitTerms cfg ports dw order data tm at (pr_publishedAt revision) None at db3))) (\<lambda>db4.
     await (record_change cfg dw order (Some (cmd_actor c)) (cmd_requestId c) None db4) (\<lambda>db5.
       Inr (db5, \<lparr>cg_orderId = co_id order, cg_at = at, cg_guardUntil = co_expiresAt order\<rparr>)))))))"

definition request_apply ::
  "order_cfg \<Rightarrow> order_ports \<Rightarrow> draw \<Rightarrow> request_command \<Rightarrow> commission_brief \<Rightarrow> string list \<Rightarrow> ord_db \<Rightarrow> failure + (ord_db \<times> change)" where
  "request_apply cfg ports dw c brief fileIds db =
     await (check (oc_intakeEnabled cfg) IntakeDisabled) (\<lambda>_.
     await (find_identity ports (rq_packageId c)) (\<lambda>(creatorUserId, candidateRoute).
     await (participants ports creatorUserId (ak_userId (cmd_actor c))) (\<lambda>_.
     await (op_buyingAllowed ports (ak_userId (cmd_actor c))) (\<lambda>_.
     let immediate = (candidateRoute = FixedImmediate) in
     await (check (\<not> (immediate \<and> oc_paymentsMode cfg = PaymentsDisabledMode)) PaymentsDisabled) (\<lambda>_.
     await (op_intakePackage ports (rq_packageId c) (rq_revisionId c) False immediate) (\<lambda>data.
     await (requireCommissionPolicy (ip_policy data) (rq_policyRevisionId c)) (\<lambda>_.
     let route = pr_route (ip_revision data) in
     await (check (route = CustomQuote \<or> rq_acceptTerms c) InvalidTerms) (\<lambda>_.
     await (check (open_pair_orders creatorUserId (ak_userId (cmd_actor c)) db < maximumOpenPairOrders) RequestLimit) (\<lambda>_.
     await (if route = CustomQuote then Inr None else map_sum id Some (normalizeCommissionTerms (pr_terms (ip_revision data)))) (\<lambda>terms.
     let at = dw_clock dw 5 in
     await (new_id dw 1) (\<lambda>orderId.
     await (if immediate then await (orThrow terms (OtherError ''TypeError'')) (\<lambda>tm. Inr (Some (tm_amountVnd tm))) else Inr None) (\<lambda>amount.
     await (if immediate then commissionPaymentExpiry at else commissionRequestExpiry at) (\<lambda>expiresAt.
     let order = new_order c orderId creatorUserId route amount expiresAt at in
     await (save (db\<lparr>od_orders := od_orders db @ [order]\<rparr>)) (\<lambda>db1.
     request_rest cfg ports dw c brief fileIds data terms immediate order at db1))))))))))))))"

definition request :: "order_cfg \<Rightarrow> order_ports \<Rightarrow> draw \<Rightarrow> request_command \<Rightarrow> ord_db \<Rightarrow> commission_error + (ord_db \<times> string)" where
  "request cfg ports dw c db =
     await (boundary (check (is_uuid (rq_packageId c) \<and> is_uuid (rq_revisionId c) \<and> is_uuid (rq_policyRevisionId c) \<and>
       digest_with ''hmac-sha256:v1:'' (rq_abuseKeyHash c)) InvalidRequest)) (\<lambda>_.
     await (boundary (normalizeCommissionBrief (oc_parseUrl cfg) (rq_brief c))) (\<lambda>brief.
     await (boundary (referenceIds (rq_referenceFileIds c))) (\<lambda>fileIds.
     mutate cfg ports dw (order_command.truncate c) ''request''
       (JArr ([JStr (rq_packageId c), JStr (rq_revisionId c), JStr (rq_policyRevisionId c), JBool (rq_acceptTerms c),
         JObj [(''text'', JStr (br_text brief)), (''referenceLinks'', JArr (map JStr (br_referenceLinks brief)))],
         JStr (rq_abuseKeyHash c)] @ (if fileIds = [] then [] else [JArr (map JStr fileIds)])))
       (\<lambda>_. map_sum id fst (find_identity ports (rq_packageId c)))
       (request_apply cfg ports dw c brief fileIds) db)))"

subsection \<open>Quoting\<close>

record existing_command = order_command +
  xc_orderId :: string
  xc_expectedVersion :: int

definition terms_json :: "commission_terms \<Rightarrow> json" where
  "terms_json t = JObj [(''amountVnd'', JNum (tm_amountVnd t)), (''turnaroundDays'', JNum (tm_turnaroundDays t)),
     (''revisionAllowance'', JNum (tm_revisionAllowance t)), (''reviewWindowDays'', JNum (tm_reviewWindowDays t)),
     (''scope'', JStr (tm_scope t)), (''deliverables'', JStr (tm_deliverables t)), (''usageRights'', JStr (tm_usageRights t)),
     (''artistTerms'', JStr (tm_artistTerms t)), (''policyRevisionId'', JStr (tm_policyRevisionId t))]"

text \<open>The number of the latest quote of the order, 0 when there is none.\<close>

definition latest_quote_number :: "string \<Rightarrow> ord_db \<Rightarrow> int" where
  "latest_quote_number orderId db =
     (case latest_by cq_revisionNumber (filter (\<lambda>q. cq_orderId q = orderId) (od_quotes db)) of None \<Rightarrow> 0 | Some q \<Rightarrow> cq_revisionNumber q)"

definition new_quote ::
  "draw \<Rightarrow> order_command \<Rightarrow> order_row \<Rightarrow> private_terms \<Rightarrow> int \<Rightarrow> instant \<Rightarrow> instant \<Rightarrow> quote_row" where
  "new_quote dw c order sealed number expiresAt at =
     private_terms.extend sealed \<lparr>cq_id = dw_id dw 1, cq_orderId = co_id order, cq_revisionNumber = number,
       cq_actorSessionId = ak_sessionId (cmd_actor c), cq_requestId = cmd_requestId c, cq_issuedAt = at, cq_expiresAt = expiresAt\<rparr>"

definition quote_write ::
  "order_cfg \<Rightarrow> draw \<Rightarrow> order_command \<Rightarrow> order_row \<Rightarrow> commission_terms \<Rightarrow> int \<Rightarrow> instant \<Rightarrow> ord_db \<Rightarrow> failure + (ord_db \<times> change)" where
  "quote_write cfg dw c order terms ttlMs at db =
     await (new_id dw 1) (\<lambda>quoteId.
     await (commissionQuoteExpiry (co_createdAt order) at ttlMs) (\<lambda>expiresAt.
     await (encryptCommissionTerms (oc_platform cfg) (oc_keyring cfg) (dw_nonce dw) ''commission_quote_revisions'' quoteId terms) (\<lambda>sealed.
     await (save (db\<lparr>od_quotes := od_quotes db @ [new_quote dw c order sealed (latest_quote_number (co_id order) db + 1) expiresAt at]\<rparr>)) (\<lambda>db1.
     await (update_order (co_id order) (\<lambda>_. True)
       (\<lambda>o1. o1\<lparr>co_state := CoQuoted, co_version := co_version order + 1, co_currentQuoteId := Some quoteId,
          co_expiresAt := Some expiresAt, co_updatedAt := at\<rparr>) db1) (\<lambda>(db2, quoted).
     await (demand quoted VersionConflict) (\<lambda>q.
     await (record_change cfg dw q (Some (cmd_actor c)) (cmd_requestId c) None db2) (\<lambda>db3.
       Inr (db3, \<lparr>cg_orderId = co_id order, cg_at = at, cg_guardUntil = co_expiresAt order\<rparr>))))))))"

definition quote_apply ::
  "order_cfg \<Rightarrow> order_ports \<Rightarrow> draw \<Rightarrow> existing_command \<Rightarrow> commission_terms \<Rightarrow> int \<Rightarrow> ord_db \<Rightarrow> failure + (ord_db \<times> change)" where
  "quote_apply cfg ports dw c terms ttlMs db =
     await (owned (xc_orderId c) (cmd_actor c) db) (\<lambda>order.
     await (require_pending order (xc_expectedVersion c) (dw_clock dw 3)) (\<lambda>_.
     await (check (co_creatorUserId order = ak_userId (cmd_actor c)) NotAuthorized) (\<lambda>_.
     await (check (co_route order = CustomQuote \<and> co_state order \<in> {CoRequested, CoQuoted}) InvalidTransition) (\<lambda>_.
     await (intake cfg ports order False False) (\<lambda>_.
     await (requireCommissionPolicy (readCurrentPolicy cfg (dw_clock dw 4) db) (tm_policyRevisionId terms)) (\<lambda>_.
     let at = dw_clock dw 5 in
     await (requireCommissionBeforeDeadline at (the (co_expiresAt order))) (\<lambda>_.
     quote_write cfg dw (order_command.truncate c) order terms ttlMs at db)))))))"

definition quote ::
  "order_cfg \<Rightarrow> order_ports \<Rightarrow> draw \<Rightarrow> existing_command \<Rightarrow> commission_terms \<Rightarrow> int \<Rightarrow> ord_db \<Rightarrow> commission_error + (ord_db \<times> string)" where
  "quote cfg ports dw c rawTerms ttlMs db =
     await (boundary (existingValid (xc_orderId c) (xc_expectedVersion c))) (\<lambda>_.
     await (boundary (normalizeCommissionTerms rawTerms)) (\<lambda>terms.
     await (boundary (commissionInteger ttlMs minimumQuoteTtlMs maximumQuoteTtlMs)) (\<lambda>_.
     mutate cfg ports dw (order_command.truncate c) ''quote''
       (JArr [JStr (xc_orderId c), JNum (xc_expectedVersion c), terms_json terms, JNum ttlMs])
       (orderCreator (order_command.truncate c) (xc_orderId c)) (quote_apply cfg ports dw c terms ttlMs) db)))"

subsection \<open>Accepting\<close>

record accept_command = existing_command +
  qa_quoteRevisionId :: "string option"
  qa_policyRevisionId :: string
  qa_acceptTerms :: bool
  qa_abuseKeyHash :: string

text \<open>The quote to accept; a fixed price has none.\<close>

definition accepted_quote :: "bool \<Rightarrow> order_row \<Rightarrow> accept_command \<Rightarrow> ord_db \<Rightarrow> failure + quote_row option" where
  "accepted_quote fixed_price order c db =
     (if fixed_price then await (check (qa_quoteRevisionId c = None) InvalidRequest) (\<lambda>_. Inr None)
      else await (check (co_currentQuoteId order = qa_quoteRevisionId c) VersionConflict) (\<lambda>_.
        map_sum id Some (demand (List.find (\<lambda>q. Some (cq_id q) = qa_quoteRevisionId c \<and> cq_orderId q = co_id order) (od_quotes db)) NotAvailable)))"

definition accept_write ::
  "order_cfg \<Rightarrow> order_ports \<Rightarrow> draw \<Rightarrow> accept_command \<Rightarrow> order_row \<Rightarrow> intake_package \<Rightarrow> quote_row option \<Rightarrow> commission_terms \<Rightarrow> instant \<Rightarrow>
     ord_db \<Rightarrow> failure + (ord_db \<times> change)" where
  "accept_write cfg ports dw c order data quote_opt terms at db =
     await (commissionPaymentExpiry at) (\<lambda>expiresAt.
     await (update_order (co_id order) (\<lambda>_. True)
       (\<lambda>o1. o1\<lparr>co_state := CoAwaitingPayment, co_version := co_version order + 1, co_acceptedAt := Some at,
          co_amountVnd := Some (tm_amountVnd terms), co_expiresAt := Some expiresAt, co_updatedAt := at\<rparr>) db) (\<lambda>(db1, accepted).
     await (demand accepted VersionConflict) (\<lambda>a.
     await (case quote_opt of
         None \<Rightarrow> acceptance dw 2 a Creator (cmd_actor c) at (tm_policyRevisionId terms) None (cmd_requestId c) db1
       | Some q \<Rightarrow>
           await (acceptance dw 2 a Buyer (cmd_actor c) at (tm_policyRevisionId terms) (Some (cq_id q)) (cmd_requestId c) db1) (\<lambda>db2.
           acceptance dw 3 a Creator \<lparr>ak_userId = co_creatorUserId order, ak_sessionId = cq_actorSessionId q\<rparr> (cq_issuedAt q)
             (tm_policyRevisionId terms) (Some (cq_id q)) (cq_requestId q) db2)) (\<lambda>db3.
     await (commitTerms cfg ports dw a data terms (if quote_opt = None then co_createdAt order else at)
       (case quote_opt of None \<Rightarrow> at | Some q \<Rightarrow> cq_issuedAt q) (map_option cq_id quote_opt) at db3) (\<lambda>db4.
     await (record_change cfg dw a (Some (cmd_actor c)) (cmd_requestId c) None db4) (\<lambda>db5.
       Inr (db5, \<lparr>cg_orderId = co_id order, cg_at = at, cg_guardUntil = co_expiresAt order\<rparr>)))))))"

definition accept_apply ::
  "order_cfg \<Rightarrow> order_ports \<Rightarrow> draw \<Rightarrow> accept_command \<Rightarrow> ord_db \<Rightarrow> failure + (ord_db \<times> change)" where
  "accept_apply cfg ports dw c db =
     await (owned (xc_orderId c) (cmd_actor c) db) (\<lambda>order.
     await (require_pending order (xc_expectedVersion c) (dw_clock dw 3)) (\<lambda>_.
     let fixed_price = (co_route order = FixedApproval \<and> co_state order = CoRequested) in
     await (check ((if fixed_price then co_creatorUserId order else co_buyerUserId order) = ak_userId (cmd_actor c)) NotAuthorized) (\<lambda>_.
     await (check (fixed_price \<or> (co_route order = CustomQuote \<and> co_state order = CoQuoted)) InvalidTransition) (\<lambda>_.
     await (intake cfg ports order True (\<not> fixed_price)) (\<lambda>data.
     await (accepted_quote fixed_price order c db) (\<lambda>quote_opt.
     await (case quote_opt of
         Some q \<Rightarrow> decryptCommissionTerms (oc_platform cfg) (oc_keyring cfg) ''commission_quote_revisions'' (cq_id q) (private_terms.truncate q)
       | None \<Rightarrow> normalizeCommissionTerms (pr_terms (ip_revision data))) (\<lambda>terms.
     await (check (tm_policyRevisionId terms = qa_policyRevisionId c) PolicyChanged) (\<lambda>_.
     await (requireCommissionPolicy (readCurrentPolicy cfg (dw_clock dw 4) db) (tm_policyRevisionId terms)) (\<lambda>_.
     let at = dw_clock dw 5 in
     await (requireCommissionBeforeDeadline at (the (co_expiresAt order))) (\<lambda>_.
     accept_write cfg ports dw c order data quote_opt terms at db))))))))))"

definition accept :: "order_cfg \<Rightarrow> order_ports \<Rightarrow> draw \<Rightarrow> accept_command \<Rightarrow> ord_db \<Rightarrow> commission_error + (ord_db \<times> string)" where
  "accept cfg ports dw c db =
     await (boundary (existingValid (xc_orderId c) (xc_expectedVersion c))) (\<lambda>_.
     await (boundary (check (is_uuid (qa_policyRevisionId c) \<and> pred_option is_uuid (qa_quoteRevisionId c) \<and> qa_acceptTerms c \<and>
       digest_with ''hmac-sha256:v1:'' (qa_abuseKeyHash c)) InvalidRequest)) (\<lambda>_.
     mutate cfg ports dw (order_command.truncate c) ''accept''
       (JArr [JStr (xc_orderId c), JNum (xc_expectedVersion c), jstr (qa_quoteRevisionId c), JStr (qa_policyRevisionId c), JBool True,
         JStr (qa_abuseKeyHash c)])
       (orderCreator (order_command.truncate c) (xc_orderId c)) (accept_apply cfg ports dw c) db))"

subsection \<open>Closing and claiming\<close>

definition close_reason_of :: "order_row \<Rightarrow> bool \<Rightarrow> instant \<Rightarrow> failure + close_reason" where
  "close_reason_of order buyer at =
     (if the (co_expiresAt order) \<le> at then commissionExpiredReason (co_state order)
      else Inr (case co_state order of
          CoRequested \<Rightarrow> if buyer then BuyerWithdrawn else CreatorDeclined
        | CoQuoted \<Rightarrow> if buyer then QuoteDeclined else QuoteWithdrawn
        | _ \<Rightarrow> if buyer then BuyerCancelled else CreatorCancelled))"

definition close_apply ::
  "order_cfg \<Rightarrow> order_ports \<Rightarrow> draw \<Rightarrow> existing_command \<Rightarrow> ord_db \<Rightarrow> failure + (ord_db \<times> change)" where
  "close_apply cfg ports dw c db =
     await (owned (xc_orderId c) (cmd_actor c) db) (\<lambda>order.
     await (check (co_version order = xc_expectedVersion c) VersionConflict) (\<lambda>_.
     await (check (co_expiresAt order \<noteq> None \<and> pending_state (co_state order)) InvalidTransition) (\<lambda>_.
     let at = dw_clock dw 5 in
     await (close_reason_of order (co_buyerUserId order = ak_userId (cmd_actor c)) at) (\<lambda>reason.
     await (closeOrder cfg ports dw order reason (Some (cmd_actor c)) (cmd_requestId c) at db) (\<lambda>(db', _).
       Inr (db', \<lparr>cg_orderId = co_id order, cg_at = at, cg_guardUntil = None\<rparr>))))))"

definition close :: "order_cfg \<Rightarrow> order_ports \<Rightarrow> draw \<Rightarrow> existing_command \<Rightarrow> ord_db \<Rightarrow> commission_error + (ord_db \<times> string)" where
  "close cfg ports dw c db =
     await (boundary (existingValid (xc_orderId c) (xc_expectedVersion c))) (\<lambda>_.
     mutate cfg ports dw (order_command.truncate c) ''close'' (JArr [JStr (xc_orderId c), JNum (xc_expectedVersion c)])
       (orderCreator (order_command.truncate c) (xc_orderId c)) (close_apply cfg ports dw c) db)"

definition claim_records :: "order_cfg \<Rightarrow> draw \<Rightarrow> order_command \<Rightarrow> string \<Rightarrow> string \<Rightarrow> instant \<Rightarrow> instant \<Rightarrow> ord_db \<Rightarrow> failure + ord_db" where
  "claim_records cfg dw c orderId claimId claimedAt at db =
     await (order_audit cfg (dw_id dw 101) at
       \<lparr>ne_actorUserId = ak_userId (cmd_actor c), ne_actorSessionId = Some (ak_sessionId (cmd_actor c)), ne_subjectType = ''commission_order'',
        ne_subjectId = orderId, ne_action = ''commission.transfer_claimed'', ne_outcome = Succeeded, ne_reasonCode = None, ne_beforeState = None,
        ne_afterState = Some (JObj [(''claimId'', JStr claimId)]), ne_assurance = JObj [(''method'', JStr ''current_session'')],
        ne_applicationRevision = oc_applicationRevision cfg, ne_requestId = cmd_requestId c, ne_occurredAt = Some (Some at)\<rparr> db) (\<lambda>db1.
     order_event cfg (dw_id dw 102) at
       \<lparr>ev_eventType = ''commission.transfer_claimed.v1'', ev_eventVersion = 1, ev_aggregateType = ''commission_order'', ev_aggregateId = orderId,
        ev_payload = JObj [(''orderId'', JStr orderId), (''claimId'', JStr claimId), (''buyerUserId'', JStr (ak_userId (cmd_actor c))),
          (''correlationId'', JStr (cmd_requestId c))],
        ev_occurredAt = Some claimedAt, ev_availableAt = None\<rparr> db1)"

definition claim_apply ::
  "order_cfg \<Rightarrow> order_ports \<Rightarrow> draw \<Rightarrow> existing_command \<Rightarrow> ord_db \<Rightarrow> failure + (ord_db \<times> change)" where
  "claim_apply cfg ports dw c db =
     await (owned (xc_orderId c) (cmd_actor c) db) (\<lambda>order.
     await (require_pending order (xc_expectedVersion c) (dw_clock dw 3)) (\<lambda>_.
     await (check (co_buyerUserId order = ak_userId (cmd_actor c)) NotAuthorized) (\<lambda>_.
     await (check (co_state order = CoAwaitingPayment) InvalidTransition) (\<lambda>_.
     await (check (oc_paymentsMode cfg \<noteq> PaymentsDisabledMode) PaymentsDisabled) (\<lambda>_.
     await (lockSettlement ports (co_id order) (co_creatorUserId order) (dw_clock dw 4) Map.empty db) (\<lambda>(_, locked).
     await (check locked NotAvailable) (\<lambda>_.
     await (op_hasDestination ports (co_id order)) (\<lambda>current.
     await (check current NotAvailable) (\<lambda>_.
     let at = dw_clock dw 5 in
     await (op_claimTransfer ports (co_id order)) (\<lambda>(claimId, claimedAt, created).
     await (if created then claim_records cfg dw (order_command.truncate c) (co_id order) claimId claimedAt at db else Inr db) (\<lambda>db'.
       Inr (db', \<lparr>cg_orderId = co_id order, cg_at = at, cg_guardUntil = co_expiresAt order\<rparr>))))))))))))"

definition claimTransfer :: "order_cfg \<Rightarrow> order_ports \<Rightarrow> draw \<Rightarrow> existing_command \<Rightarrow> ord_db \<Rightarrow> commission_error + (ord_db \<times> string)" where
  "claimTransfer cfg ports dw c db =
     await (boundary (existingValid (xc_orderId c) (xc_expectedVersion c))) (\<lambda>_.
     mutate cfg ports dw (order_command.truncate c) ''claim'' (JArr [JStr (xc_orderId c), JNum (xc_expectedVersion c)])
       (orderCreator (order_command.truncate c) (xc_orderId c)) (claim_apply cfg ports dw c) db)"

subsection \<open>Submitting work\<close>

record submit_command = existing_command +
  sm_kind :: submission_kind
  sm_note :: "string option"
  sm_fileIds :: "string list"

definition submission_kind_text :: "submission_kind \<Rightarrow> string" where
  "submission_kind_text k = (case k of DraftSubmission \<Rightarrow> ''draft'' | FinalSubmission \<Rightarrow> ''final'')"

definition normalizeNote :: "string option \<Rightarrow> nat \<Rightarrow> failure + string option" where
  "normalizeNote v minimum =
     await (commissionPlainText (case v of None \<Rightarrow> [] | Some s \<Rightarrow> s) minimum maximumNoteCodePoints) (\<lambda>t.
       Inr (if t = [] then None else Some t))"

definition submissionFileIds :: "string list \<Rightarrow> failure + string list" where
  "submissionFileIds ids =
     await (check (1 \<le> length ids \<and> length ids \<le> maximumSubmissionFiles \<and> list_all is_uuid ids \<and> distinct ids) InvalidRequest) (\<lambda>_. Inr ids)"

definition seal_note :: "order_cfg \<Rightarrow> string \<Rightarrow> string \<Rightarrow> string \<Rightarrow> string option \<Rightarrow> failure + envelope option" where
  "seal_note cfg nonce k fieldName note =
     (case note of None \<Rightarrow> Inr None
      | Some n \<Rightarrow> map_sum id Some (seal_text (oc_platform cfg) (oc_keyring cfg) nonce ''commission_submissions'' k fieldName n))"

definition supersede :: "string \<Rightarrow> instant \<Rightarrow> submission_row list \<Rightarrow> submission_row list" where
  "supersede orderId at t =
     rows_update (\<lambda>r. cs_orderId r = orderId \<and> open_submission DraftSubmission r)
       (\<lambda>r. r\<lparr>cs_response := Some Superseded, cs_respondedAt := Some at\<rparr>) t"

definition new_submission :: "submit_command \<Rightarrow> string \<Rightarrow> order_row \<Rightarrow> envelope option \<Rightarrow> instant \<Rightarrow> submission_row" where
  "new_submission c submissionId order note at =
     \<lparr>cs_id = submissionId, cs_orderId = co_id order, cs_kind = sm_kind c, cs_noteEnvelope = note,
      cs_actorSessionId = ak_sessionId (cmd_actor c), cs_requestId = cmd_requestId c, cs_submittedAt = at, cs_response = None,
      cs_responseNoteEnvelope = None, cs_responseSessionId = None, cs_responseRequestId = None, cs_respondedAt = None\<rparr>"

definition deliver ::
  "order_cfg \<Rightarrow> draw \<Rightarrow> submit_command \<Rightarrow> order_row \<Rightarrow> terms_row \<Rightarrow> instant \<Rightarrow> ord_db \<Rightarrow> failure + ord_db" where
  "deliver cfg dw c order snapshot at db =
     await (requireCommissionTransition (co_state order) CoDelivered None) (\<lambda>_.
     await (commissionReviewEndsAt at (pt_reviewWindowDays snapshot)) (\<lambda>reviewEndsAt.
     await (update_order (co_id order) (same_version order)
       (\<lambda>o1. o1\<lparr>co_state := CoDelivered, co_deliveredAt := Some at, co_reviewEndsAt := Some reviewEndsAt,
          co_version := co_version order + 1, co_updatedAt := at\<rparr>) db) (\<lambda>(db1, delivered).
     await (demand delivered VersionConflict) (\<lambda>d.
     record_change cfg dw d (Some (cmd_actor c)) (cmd_requestId c) None db1))))"

definition submit_write ::
  "order_cfg \<Rightarrow> order_ports \<Rightarrow> draw \<Rightarrow> submit_command \<Rightarrow> string option \<Rightarrow> string list \<Rightarrow> order_row \<Rightarrow> terms_row \<Rightarrow> instant \<Rightarrow> ord_db \<Rightarrow>
     failure + (ord_db \<times> change)" where
  "submit_write cfg ports dw c note fileIds order snapshot at db =
     await (new_id dw 1) (\<lambda>submissionId.
     await (save (db\<lparr>od_submissions := supersede (co_id order) at (od_submissions db)\<rparr>)) (\<lambda>db1.
     await (seal_note cfg (dw_nonce dw 0) submissionId ''note'' note) (\<lambda>noteEnvelope.
     await (save (db1\<lparr>od_submissions := od_submissions db1 @ [new_submission c submissionId order noteEnvelope at]\<rparr>)) (\<lambda>db2.
     await (demand (op_attachOrderFiles ports) FulfillmentDisabled) (\<lambda>attach.
     await (attach submissionId fileIds) (\<lambda>attached.
     await (check (attached \<noteq> AttachDisabled) FulfillmentDisabled) (\<lambda>_.
     await (check (attached = Attached) InvalidAttachmentFiles) (\<lambda>_.
     await (op_appendEntry ports (co_id order) submissionId) (\<lambda>sequence.
     await (order_event cfg (dw_id dw 103) at
       \<lparr>ev_eventType = ''commission.submission_sent.v1'', ev_eventVersion = 1, ev_aggregateType = ''commission_order'', ev_aggregateId = co_id order,
        ev_payload = JObj [(''orderId'', JStr (co_id order)), (''submissionId'', JStr submissionId),
          (''kind'', JStr (submission_kind_text (sm_kind c))), (''sequence'', JNum sequence), (''correlationId'', JStr (cmd_requestId c))],
        ev_occurredAt = Some at, ev_availableAt = None\<rparr> db2) (\<lambda>db3.
     await (if sm_kind c = FinalSubmission then deliver cfg dw c order snapshot at db3 else Inr db3) (\<lambda>db4.
       Inr (db4, \<lparr>cg_orderId = co_id order, cg_at = at, cg_guardUntil = None\<rparr>))))))))))))"

definition submit_apply ::
  "order_cfg \<Rightarrow> order_ports \<Rightarrow> draw \<Rightarrow> submit_command \<Rightarrow> string option \<Rightarrow> string list \<Rightarrow> ord_db \<Rightarrow> failure + (ord_db \<times> change)" where
  "submit_apply cfg ports dw c note fileIds db =
     await (owned (xc_orderId c) (cmd_actor c) db) (\<lambda>order.
     await (check (co_creatorUserId order = ak_userId (cmd_actor c)) NotAuthorized) (\<lambda>_.
     await (check (co_version order = xc_expectedVersion c) VersionConflict) (\<lambda>_.
     await (op_openDispute ports (co_id order)) (\<lambda>dispute.
     await (check (\<not> dispute) DisputeOpen) (\<lambda>_.
     await (check (co_state order = CoInProgress) InvalidTransition) (\<lambda>_.
     await (demand (find_terms (co_id order) db) DependencyUnavailable) (\<lambda>snapshot.
     submit_write cfg ports dw c note fileIds order snapshot (dw_clock dw 5) db)))))))"

text \<open>\<open>enabled\<close>: the mode is on and a thread port is configured.\<close>

definition fulfillment_on :: "order_cfg \<Rightarrow> order_ports \<Rightarrow> failure + unit" where
  "fulfillment_on cfg ports = check (oc_fulfillmentEnabled cfg \<and> op_attachOrderFiles ports \<noteq> None) FulfillmentDisabled"

definition submit :: "order_cfg \<Rightarrow> order_ports \<Rightarrow> draw \<Rightarrow> submit_command \<Rightarrow> ord_db \<Rightarrow> commission_error + (ord_db \<times> string)" where
  "submit cfg ports dw c db =
     await (boundary (fulfillment_on cfg ports)) (\<lambda>_.
     await (boundary (existingValid (xc_orderId c) (xc_expectedVersion c))) (\<lambda>_.
     await (boundary (normalizeNote (sm_note c) 0)) (\<lambda>note.
     await (boundary (submissionFileIds (sm_fileIds c))) (\<lambda>fileIds.
     mutate cfg ports dw (order_command.truncate c) ''submit''
       (JArr [JStr (xc_orderId c), JNum (xc_expectedVersion c), JStr (submission_kind_text (sm_kind c)), jstr note, JArr (map JStr fileIds)])
       (orderCreator (order_command.truncate c) (xc_orderId c)) (submit_apply cfg ports dw c note fileIds) db))))"

subsection \<open>Answering a submission\<close>

datatype answer = ApproveDraft | RequestChanges | AcceptFinal

record respond_command = existing_command +
  rc_submissionId :: string
  rc_answer :: answer
  rc_note :: "string option"

definition answer_text :: "answer \<Rightarrow> string" where
  "answer_text a = (case a of ApproveDraft \<Rightarrow> ''approve'' | RequestChanges \<Rightarrow> ''request_changes'' | AcceptFinal \<Rightarrow> ''accept'')"

definition answerable :: "order_row \<Rightarrow> submission_row \<Rightarrow> answer \<Rightarrow> bool" where
  "answerable order s a \<longleftrightarrow>
     cs_response s = None \<and>
     (if cs_kind s = DraftSubmission then co_state order = CoInProgress \<and> a \<noteq> AcceptFinal
      else co_state order = CoDelivered \<and> a \<noteq> ApproveDraft)"

text \<open>The deadline of an answer to a final submission.\<close>

definition answer_deadline :: "order_row \<Rightarrow> submission_row \<Rightarrow> instant \<Rightarrow> ord_db \<Rightarrow> failure + instant option" where
  "answer_deadline order s at db =
     (if cs_kind s \<noteq> FinalSubmission then Inr None
      else await (demand (co_reviewEndsAt order) InvalidTransition) (\<lambda>reviewEndsAt.
        await (readCommissionCompletionDueAt db reviewEndsAt (co_completionFloorAt order)) (\<lambda>due_opt.
        await (demand due_opt FulfillmentDisabled) (\<lambda>due.
        await (requireCommissionBeforeDeadline at due) (\<lambda>_. Inr (Some due))))))"

definition respond_row ::
  "respond_command \<Rightarrow> submission_response \<Rightarrow> envelope option \<Rightarrow> instant \<Rightarrow> submission_row \<Rightarrow> submission_row" where
  "respond_row c response noteEnvelope at r =
     r\<lparr>cs_response := Some response, cs_respondedAt := Some at, cs_responseSessionId := Some (ak_sessionId (cmd_actor c)),
       cs_responseRequestId := Some (cmd_requestId c), cs_responseNoteEnvelope := noteEnvelope\<rparr>"

definition reopen ::
  "order_cfg \<Rightarrow> draw \<Rightarrow> respond_command \<Rightarrow> order_row \<Rightarrow> submission_row \<Rightarrow> instant \<Rightarrow> ord_db \<Rightarrow> failure + ord_db" where
  "reopen cfg dw c order s at db =
     await (requireCommissionTransition (co_state order) CoInProgress None) (\<lambda>_.
     await (update_order (co_id order) (same_version order)
       (\<lambda>o1. o1\<lparr>co_state := CoInProgress, co_revisionsUsed := co_revisionsUsed order + 1, co_deliveredAt := None,
          co_reviewEndsAt := None, co_completionFloorAt := None, co_version := co_version order + 1, co_updatedAt := at\<rparr>) db) (\<lambda>(db1, reopened).
     await (demand reopened VersionConflict) (\<lambda>r.
     record_change cfg dw r (Some (cmd_actor c)) (cmd_requestId c)
       (Some (if cs_kind s = DraftSubmission then ''draft_changes_requested'' else ''final_changes_requested'')) db1)))"

definition respond_write ::
  "order_cfg \<Rightarrow> draw \<Rightarrow> respond_command \<Rightarrow> string option \<Rightarrow> order_row \<Rightarrow> submission_row \<Rightarrow> instant option \<Rightarrow> instant \<Rightarrow> ord_db \<Rightarrow>
     failure + (ord_db \<times> change)" where
  "respond_write cfg dw c note order s guardUntil at db =
     await (demand (find_terms (co_id order) db) DependencyUnavailable) (\<lambda>snapshot.
     await (check (\<not> (rc_answer c = RequestChanges \<and> pt_revisionAllowance snapshot \<le> co_revisionsUsed order)) RevisionsExhausted) (\<lambda>_.
     let response = (if rc_answer c = ApproveDraft then Approved else ChangesRequested) in
     await (if response = ChangesRequested then seal_note cfg (dw_nonce dw 0) (cs_id s) ''response_note'' note else Inr None) (\<lambda>noteEnvelope.
     await (save (db\<lparr>od_submissions := rows_update (\<lambda>r. cs_id r = cs_id s \<and> cs_response r = None)
       (respond_row c response noteEnvelope at) (od_submissions db)\<rparr>)) (\<lambda>db1.
     await (if response = ChangesRequested then reopen cfg dw c order s at db1 else Inr db1) (\<lambda>db2.
     await (order_event cfg (dw_id dw 103) at
       \<lparr>ev_eventType = ''commission.submission_responded.v1'', ev_eventVersion = 1, ev_aggregateType = ''commission_order'', ev_aggregateId = co_id order,
        ev_payload = JObj [(''orderId'', JStr (co_id order)), (''submissionId'', JStr (cs_id s)),
          (''response'', JStr (if response = Approved then ''approved'' else ''changes_requested'')), (''correlationId'', JStr (cmd_requestId c))],
        ev_occurredAt = Some at, ev_availableAt = None\<rparr> db2) (\<lambda>db3.
       Inr (db3, \<lparr>cg_orderId = co_id order, cg_at = at, cg_guardUntil = guardUntil\<rparr>)))))))"

definition respond_apply ::
  "order_cfg \<Rightarrow> order_ports \<Rightarrow> draw \<Rightarrow> respond_command \<Rightarrow> string option \<Rightarrow> ord_db \<Rightarrow> failure + (ord_db \<times> change)" where
  "respond_apply cfg ports dw c note db =
     await (owned (xc_orderId c) (cmd_actor c) db) (\<lambda>order.
     await (check (co_buyerUserId order = ak_userId (cmd_actor c)) NotAuthorized) (\<lambda>_.
     await (check (co_version order = xc_expectedVersion c) VersionConflict) (\<lambda>_.
     await (demand (List.find (\<lambda>s. cs_orderId s = co_id order \<and> cs_id s = rc_submissionId c) (od_submissions db)) InvalidTransition) (\<lambda>s.
     await (check (answerable order s (rc_answer c)) InvalidTransition) (\<lambda>_.
     await (if rc_answer c = AcceptFinal then Inr False else op_openDispute ports (co_id order)) (\<lambda>dispute.
     await (check (\<not> dispute) DisputeOpen) (\<lambda>_.
     let at = dw_clock dw 5 in
     await (answer_deadline order s at db) (\<lambda>guardUntil.
     if rc_answer c = AcceptFinal
     then await (op_completionHold ports (co_id order)) (\<lambda>held.
       await (check (\<not> held) CompletionHeld) (\<lambda>_.
       await (completeCommissionOrder cfg dw order BuyerAccepted (Some (cmd_actor c)) (cmd_requestId c) at db) (\<lambda>(db', _).
         Inr (db', \<lparr>cg_orderId = co_id order, cg_at = at, cg_guardUntil = guardUntil\<rparr>))))
     else respond_write cfg dw c note order s guardUntil at db))))))))"

definition respondToSubmission :: "order_cfg \<Rightarrow> order_ports \<Rightarrow> draw \<Rightarrow> respond_command \<Rightarrow> ord_db \<Rightarrow> commission_error + (ord_db \<times> string)" where
  "respondToSubmission cfg ports dw c db =
     await (boundary (fulfillment_on cfg ports)) (\<lambda>_.
     await (boundary (existingValid (xc_orderId c) (xc_expectedVersion c))) (\<lambda>_.
     await (boundary (check (is_uuid (rc_submissionId c)) InvalidRequest)) (\<lambda>_.
     await (boundary (normalizeNote (rc_note c) (if rc_answer c = RequestChanges then 1 else 0))) (\<lambda>note.
     mutate cfg ports dw (order_command.truncate c) ''respond-to-submission''
       (JArr [JStr (xc_orderId c), JNum (xc_expectedVersion c), JStr (rc_submissionId c), JStr (answer_text (rc_answer c)), jstr note])
       (orderCreator (order_command.truncate c) (xc_orderId c)) (respond_apply cfg ports dw c note) db))))"

end
