(* ===== verification/OrderMaintenance.thy ===== *)
theory OrderMaintenance
  imports OrderService
begin

text \<open>
  The order jobs of the worker (\<^verbatim>\<open>packages/orders/src/order-maintenance.ts\<close>,
  \<^verbatim>\<open>fulfillment-maintenance.ts\<close>): expiring pending orders, closing orders whose parties or
  destination became ineligible, observing the fulfilment mode, and completing orders whose review
  time is over. A job runs one transaction per candidate; when one fails with an error the job
  stops, and what the transactions before it wrote stays.
\<close>

subsection \<open>Expiry\<close>

definition pending_expired :: "instant \<Rightarrow> order_row \<Rightarrow> bool" where
  "pending_expired at o1 \<longleftrightarrow> pending_state (co_state o1) \<and> (case co_expiresAt o1 of None \<Rightarrow> False | Some e \<Rightarrow> e \<le> at)"

definition expire_one :: "order_cfg \<Rightarrow> order_ports \<Rightarrow> draw \<Rightarrow> string \<Rightarrow> ord_db \<Rightarrow> failure + (ord_db \<times> nat)" where
  "expire_one cfg ports dw orderId db =
     (let at = dw_clock dw 0
      in case find_order orderId db of
        None \<Rightarrow> Inr (db, 0)
      | Some order \<Rightarrow>
          if \<not> pending_expired at order then Inr (db, 0)
          else await (commissionExpiredReason (co_state order)) (\<lambda>reason.
            await (new_id dw 1) (\<lambda>k.
            await (closeOrder cfg ports dw order reason None (''commission-expiry:'' @ k) at db) (\<lambda>(db', _). Inr (db', 1)))))"

fun expire_each ::
  "order_cfg \<Rightarrow> order_ports \<Rightarrow> (string \<Rightarrow> draw) \<Rightarrow> string list \<Rightarrow> ord_db \<times> nat \<Rightarrow> ord_db \<times> (failure + nat)" where
  "expire_each cfg ports dws [] (db, expired) = (db, Inr expired)"
| "expire_each cfg ports dws (k # ks) (db, expired) =
     (case expire_one cfg ports (dws k) k db of
        Inl e \<Rightarrow> (db, Inl e)
      | Inr (db', n) \<Rightarrow> expire_each cfg ports dws ks (db', expired + n))"

definition expiry_candidates :: "instant \<Rightarrow> nat \<Rightarrow> ord_db \<Rightarrow> string list" where
  "expiry_candidates now limit db =
     map co_id (take limit (sort_key (\<lambda>o1. (the (co_expiresAt o1), co_id o1)) (filter (pending_expired now) (od_orders db))))"

record expiry_result =
  xr_scanned :: nat
  xr_expired :: nat

definition expireDue ::
  "order_cfg \<Rightarrow> order_ports \<Rightarrow> (string \<Rightarrow> draw) \<Rightarrow> instant \<Rightarrow> int \<Rightarrow> ord_db \<Rightarrow> ord_db \<times> (commission_error + expiry_result)" where
  "expireDue cfg ports dws now limit db =
     (case commissionInteger limit 1 500 of
        Inl e \<Rightarrow> (db, Inl (domain_error e))
      | Inr n \<Rightarrow>
          (let candidates = expiry_candidates now (nat n) db;
               (db', r) = expire_each cfg ports dws candidates (db, 0)
           in (db', boundary (map_sum id (\<lambda>expired. \<lparr>xr_scanned = length candidates, xr_expired = expired\<rparr>) r))))"

subsection \<open>Invalidation\<close>

definition invalidation_reason :: "order_ports \<Rightarrow> order_row \<Rightarrow> instant \<Rightarrow> failure + close_reason option" where
  "invalidation_reason ports order at =
     (if (case co_expiresAt order of None \<Rightarrow> False | Some e \<Rightarrow> e \<le> at) then map_sum id Some (commissionExpiredReason (co_state order))
      else await (op_participants ports (co_creatorUserId order) (co_buyerUserId order)) (\<lambda>ok.
        if \<not> ok then Inr (Some SecurityInvalidated)
        else if co_acceptedAt order = None then Inr None
        else await (op_hasDestination ports (co_id order)) (\<lambda>current.
          Inr (if current then None else Some EligibilityInvalidated))))"

definition invalidate_one :: "order_cfg \<Rightarrow> order_ports \<Rightarrow> draw \<Rightarrow> string \<Rightarrow> ord_db \<Rightarrow> failure + (ord_db \<times> nat)" where
  "invalidate_one cfg ports dw orderId db =
     (case find_order orderId db of
        None \<Rightarrow> Inr (db, 0)
      | Some order \<Rightarrow>
          if \<not> pending_state (co_state order) then Inr (db, 0)
          else await (invalidation_reason ports order (dw_clock dw 0)) (\<lambda>reason_opt.
            case reason_opt of None \<Rightarrow> Inr (db, 0)
            | Some found \<Rightarrow>
                let closedAt = dw_clock dw 1 in
                await (if (case co_expiresAt order of None \<Rightarrow> False | Some e \<Rightarrow> e \<le> closedAt)
                  then commissionExpiredReason (co_state order) else Inr found) (\<lambda>reason.
                await (new_id dw 2) (\<lambda>k.
                await (closeOrder cfg ports dw order reason None (''commission-invalidation:'' @ k) closedAt db) (\<lambda>(db', _). Inr (db', 1))))))"

definition busy :: "failure \<Rightarrow> bool" where
  "busy e \<longleftrightarrow> e = OtherError ''CommissionEligibilityBusyError'' \<or> e = OtherError ''PaymentAccountChangedError''"

fun invalidate_each ::
  "order_cfg \<Rightarrow> order_ports \<Rightarrow> (string \<Rightarrow> draw) \<Rightarrow> string list \<Rightarrow> ord_db \<times> nat \<times> nat \<Rightarrow> ord_db \<times> (failure + nat \<times> nat)" where
  "invalidate_each cfg ports dws [] (db, invalidated, deferred) = (db, Inr (invalidated, deferred))"
| "invalidate_each cfg ports dws (k # ks) (db, invalidated, deferred) =
     (case invalidate_one cfg ports (dws k) k db of
        Inl e \<Rightarrow> if busy e then invalidate_each cfg ports dws ks (db, invalidated, deferred + 1) else (db, Inl e)
      | Inr (db', n) \<Rightarrow> invalidate_each cfg ports dws ks (db', invalidated + n, deferred))"

definition invalidation_candidates :: "string option \<Rightarrow> nat \<Rightarrow> ord_db \<Rightarrow> string list" where
  "invalidation_candidates afterId limit db =
     take limit (sort (map co_id (filter (\<lambda>o1. pending_state (co_state o1) \<and>
       (case afterId of None \<Rightarrow> True | Some a \<Rightarrow> a < co_id o1)) (od_orders db))))"

record invalidation_result =
  vr_scanned :: nat
  vr_invalidated :: nat
  vr_deferred :: nat
  vr_nextAfterId :: "string option"

definition recoverInvalidations ::
  "order_cfg \<Rightarrow> order_ports \<Rightarrow> (string \<Rightarrow> draw) \<Rightarrow> int \<Rightarrow> string option \<Rightarrow> ord_db \<Rightarrow> ord_db \<times> (commission_error + invalidation_result)" where
  "recoverInvalidations cfg ports dws limit afterId db =
     (case await (commissionInteger limit 1 500) (\<lambda>n. await (check (pred_option is_uuid afterId) InvalidRequest) (\<lambda>_. Inr n)) of
        Inl e \<Rightarrow> (db, Inl (domain_error e))
      | Inr n \<Rightarrow>
          (let candidates = invalidation_candidates afterId (nat n) db;
               (db', r) = invalidate_each cfg ports dws candidates (db, 0, 0)
           in (db', boundary (map_sum id (\<lambda>(invalidated, deferred). \<lparr>vr_scanned = length candidates, vr_invalidated = invalidated,
                vr_deferred = deferred, vr_nextAfterId = (if length candidates = nat n then Some (last candidates) else None)\<rparr>) r))))"

subsection \<open>The fulfilment mode\<close>

datatype mode_change = ModeOpened | ModeClosed | ModeUnchanged

definition observeFulfillmentMode :: "draw \<Rightarrow> bool \<Rightarrow> ord_db \<Rightarrow> commission_error + (ord_db \<times> mode_change \<times> bool)" where
  "observeFulfillmentMode dw enabled db =
     boundary (
       case List.find (\<lambda>p. cp_endedAt p = None) (od_pauses db) of
         None \<Rightarrow>
           if \<not> enabled
           then await (new_id dw 0) (\<lambda>k.
             await (save (db\<lparr>od_pauses := od_pauses db @ [\<lparr>cp_id = k, cp_startedAt = dw_clock dw 0, cp_endedAt = None\<rparr>]\<rparr>)) (\<lambda>db'.
               Inr (db', ModeOpened, True)))
           else Inr (db, ModeUnchanged, False)
       | Some pause \<Rightarrow>
           if enabled
           then await (save (db\<lparr>od_pauses := rows_update (\<lambda>p. cp_id p = cp_id pause)
               (\<lambda>p. p\<lparr>cp_endedAt := Some (dw_clock dw 0)\<rparr>) (od_pauses db)\<rparr>)) (\<lambda>db'. Inr (db', ModeClosed, False))
           else Inr (db, ModeUnchanged, True))"

subsection \<open>Completion\<close>

datatype completion_outcome = OutcomeCompleted | OutcomeHeld | OutcomeWaiting | OutcomeChanged

definition complete_one :: "order_cfg \<Rightarrow> order_ports \<Rightarrow> draw \<Rightarrow> string \<Rightarrow> ord_db \<Rightarrow> failure + (ord_db \<times> completion_outcome)" where
  "complete_one cfg ports dw orderId db =
     (case find_order orderId db of
        None \<Rightarrow> Inr (db, OutcomeChanged)
      | Some order \<Rightarrow>
          (case co_reviewEndsAt order of
             None \<Rightarrow> Inr (db, OutcomeChanged)
           | Some reviewEndsAt \<Rightarrow>
               if co_state order \<noteq> CoDelivered then Inr (db, OutcomeChanged)
               else await (readCommissionCompletionDueAt db reviewEndsAt (co_completionFloorAt order)) (\<lambda>due.
                 let at = dw_clock dw 0 in
                 if (case due of None \<Rightarrow> True | Some d \<Rightarrow> at < d) then Inr (db, OutcomeWaiting)
                 else await (op_completionHold ports orderId) (\<lambda>held.
                   if held then Inr (db, OutcomeHeld)
                   else await (new_id dw 1) (\<lambda>k.
                     await (completeCommissionOrder cfg dw order ReviewWindowElapsed None (''commission-completion:'' @ k) at db) (\<lambda>(db', _).
                       Inr (db', OutcomeCompleted)))))))"

record completion_counts =
  cc_completed :: nat
  cc_held :: nat
  cc_waiting :: nat

definition count_outcome :: "completion_outcome \<Rightarrow> completion_counts \<Rightarrow> completion_counts" where
  "count_outcome r n =
     (case r of OutcomeCompleted \<Rightarrow> n\<lparr>cc_completed := cc_completed n + 1\<rparr> | OutcomeHeld \<Rightarrow> n\<lparr>cc_held := cc_held n + 1\<rparr>
      | OutcomeWaiting \<Rightarrow> n\<lparr>cc_waiting := cc_waiting n + 1\<rparr> | OutcomeChanged \<Rightarrow> n)"

fun complete_each ::
  "order_cfg \<Rightarrow> order_ports \<Rightarrow> (string \<Rightarrow> draw) \<Rightarrow> string list \<Rightarrow> ord_db \<times> completion_counts \<Rightarrow> ord_db \<times> (failure + completion_counts)" where
  "complete_each cfg ports dws [] (db, n) = (db, Inr n)"
| "complete_each cfg ports dws (k # ks) (db, n) =
     (case complete_one cfg ports (dws k) k db of
        Inl e \<Rightarrow> (db, Inl e)
      | Inr (db', r) \<Rightarrow> complete_each cfg ports dws ks (db', count_outcome r n))"

definition completion_key :: "order_row \<Rightarrow> instant \<times> string" where
  "completion_key o1 = (the (co_reviewEndsAt o1), co_id o1)"

definition completion_candidates :: "instant \<Rightarrow> (instant \<times> string) option \<Rightarrow> nat \<Rightarrow> ord_db \<Rightarrow> (instant \<times> string) list" where
  "completion_candidates now after limit db =
     map completion_key (take limit (sort_key completion_key (filter (\<lambda>o1. co_state o1 = CoDelivered \<and>
       (case co_reviewEndsAt o1 of None \<Rightarrow> False | Some e \<Rightarrow> e \<le> now) \<and>
       (case after of None \<Rightarrow> True | Some a \<Rightarrow> a < completion_key o1)) (od_orders db))))"

record completion_result =
  dr_scanned :: nat
  dr_counts :: completion_counts
  dr_nextAfter :: "(instant \<times> string) option"

definition completeDue ::
  "order_cfg \<Rightarrow> order_ports \<Rightarrow> (string \<Rightarrow> draw) \<Rightarrow> instant \<Rightarrow> int \<Rightarrow> (instant \<times> string) option \<Rightarrow> ord_db \<Rightarrow>
     ord_db \<times> (commission_error + completion_result)" where
  "completeDue cfg ports dws now limit after db =
     (case await (commissionInteger limit 1 500) (\<lambda>n.
           await (check (pred_option (\<lambda>(e, k). date_ok e \<and> is_uuid k) after) InvalidRequest) (\<lambda>_. Inr n)) of
        Inl e \<Rightarrow> (db, Inl (domain_error e))
      | Inr n \<Rightarrow>
          (let candidates = completion_candidates now after (nat n) db;
               (db', r) = complete_each cfg ports dws (map snd candidates) (db, \<lparr>cc_completed = 0, cc_held = 0, cc_waiting = 0\<rparr>)
           in (db', boundary (map_sum id (\<lambda>counts. \<lparr>dr_scanned = length candidates, dr_counts = counts,
                dr_nextAfter = (if length candidates = nat n then Some (last candidates) else None)\<rparr>) r))))"

end
