(* ===== verification/OrderEffects.thy ===== *)
theory OrderEffects
  imports OrderMaintenance
begin

text \<open>
  What the operations do to one order: the view of an order is its row with its reservation, its
  timeline, its terms and its submissions, and every successful operation is a move of one view
  (\<open>order_move\<close>) that leaves all other views alone. Later proofs use only these moves.
\<close>

subsection \<open>Views\<close>

record order_view =
  ow_order :: "order_row option"
  ow_reservation :: "reservation_row option"
  ow_events :: "event_row list"
  ow_terms :: "terms_row option"
  ow_submissions :: "submission_row list"

definition view :: "ord_db \<Rightarrow> string \<Rightarrow> order_view" where
  "view db k =
     \<lparr>ow_order = List.find (\<lambda>r. co_id r = k) (od_orders db), ow_reservation = List.find (\<lambda>r. cr_orderId r = k) (od_reservations db),
      ow_events = filter (\<lambda>r. ce_orderId r = k) (od_events db), ow_terms = List.find (\<lambda>r. ct_orderId r = k) (od_terms db),
      ow_submissions = filter (\<lambda>r. cs_orderId r = k) (od_submissions db)\<rparr>"

lemma find_rows_update:
  assumes "\<And>r. p r \<Longrightarrow> key (f r) = key r"
  shows "List.find (\<lambda>r. key r = k) (rows_update p f t) = map_option (\<lambda>r. if p r then f r else r) (List.find (\<lambda>r. key r = k) t)"
  using assms by (induction t) (auto simp: table_simps)

lemma find_append: "List.find p (t @ [r]) = (case List.find p t of None \<Rightarrow> if p r then Some r else None | Some x \<Rightarrow> Some x)"
  by (induction t) auto

lemma filter_rows_update:
  assumes "\<And>r. p r \<Longrightarrow> key (f r) = key r"
  shows "filter (\<lambda>r. key r = k) (rows_update p f t) = rows_update p f (filter (\<lambda>r. key r = k) t)"
  using assms by (induction t) (auto simp: table_simps)

lemma find_narrow:
  assumes "distinct (map key t)" "List.find (\<lambda>r. key r = k \<and> p r) t = Some r"
  shows "List.find (\<lambda>r. key r = k) t = Some r" "p r" "key r = k"
  using assms(2) find_Some_in [OF assms(2)] by (simp_all add: find_key_iff [OF assms(1)])

text \<open>The tables no view depends on.\<close>

definition same_orders :: "ord_db \<Rightarrow> ord_db \<Rightarrow> bool" where
  "same_orders db db' \<longleftrightarrow>
     od_orders db' = od_orders db \<and> od_reservations db' = od_reservations db \<and> od_events db' = od_events db \<and>
     od_terms db' = od_terms db \<and> od_submissions db' = od_submissions db"

lemma same_orders_refl [simp]: "same_orders db db"
  by (simp add: same_orders_def)

lemma same_orders_view: "same_orders db db' \<Longrightarrow> view db' k = view db k"
  by (simp add: view_def same_orders_def)

lemma same_orders_reservations: "same_orders db db' \<Longrightarrow> od_reservations db' = od_reservations db"
  by (simp add: same_orders_def)

lemma order_constraints_frame [simp]:
  "order_constraints (db\<lparr>od_idem := t\<rparr>) = order_constraints db"
  "order_constraints (db\<lparr>od_outbox := ob\<rparr>) = order_constraints db"
  "order_constraints (db\<lparr>od_audit := au\<rparr>) = order_constraints db"
  by (simp_all add: order_constraints_def order_references_ok_def)

lemma order_keys:
  assumes "order_constraints db"
  shows "distinct (map co_id (od_orders db))" "distinct (map cr_orderId (od_reservations db))"
    "distinct (map ct_orderId (od_terms db))" "list_all order_check (od_orders db)"
  using assms by (simp_all add: order_constraints_def orders_ok_def reservations_ok_def snapshots_ok_def)

lemma view_checked:
  assumes "order_constraints db" "ow_order (view db k) = Some o1"
  shows "order_check o1" "co_id o1 = k"
  using assms order_keys(4) [OF assms(1)] by (auto simp: view_def list_all_iff dest!: find_Some_in)

subsection \<open>Moves\<close>

text \<open>The row goes from \<open>o1\<close> to \<open>o2\<close> in one version, with one event on the timeline.\<close>

definition advance :: "order_view \<Rightarrow> order_view \<Rightarrow> order_row \<Rightarrow> order_row \<Rightarrow> bool" where
  "advance v v' o1 o2 \<longleftrightarrow>
     ow_order v = Some o1 \<and> ow_order v' = Some o2 \<and> co_version o2 = co_version o1 + 1 \<and>
     co_id o2 = co_id o1 \<and> co_creatorUserId o2 = co_creatorUserId o1 \<and> co_buyerUserId o2 = co_buyerUserId o1 \<and>
     co_createdAt o2 = co_createdAt o1 \<and>
     (\<exists>e. ow_events v' = ow_events v @ [e] \<and> ce_orderVersion e = co_version o2 \<and> ce_type e = co_state o2)"

definition same_terms :: "order_row \<Rightarrow> order_row \<Rightarrow> bool" where
  "same_terms o1 o2 \<longleftrightarrow> co_acceptedAt o2 = co_acceptedAt o1 \<and> co_amountVnd o2 = co_amountVnd o1"

definition fresh_reservation :: "order_row \<Rightarrow> reservation_row \<Rightarrow> bool" where
  "fresh_reservation o1 r \<longleftrightarrow> cr_state r = Reserved \<and> cr_creatorUserId r = co_creatorUserId o1"

definition committed_terms :: "order_row \<Rightarrow> terms_row \<Rightarrow> bool" where
  "committed_terms o1 t \<longleftrightarrow> co_amountVnd o1 = Some (pt_amountVnd t)"

definition reservation_to :: "order_view \<Rightarrow> order_view \<Rightarrow> reservation_state \<Rightarrow> reservation_state \<Rightarrow> bool" where
  "reservation_to v v' a b \<longleftrightarrow>
     (\<exists>r r'. ow_reservation v = Some r \<and> ow_reservation v' = Some r' \<and> cr_state r = a \<and> cr_state r' = b \<and>
        cr_creatorUserId r' = cr_creatorUserId r)"

definition kept_rest :: "order_view \<Rightarrow> order_view \<Rightarrow> bool" where
  "kept_rest v v' \<longleftrightarrow> ow_terms v' = ow_terms v \<and> ow_submissions v' = ow_submissions v"

definition submission_final_open :: "submission_row list \<Rightarrow> bool" where
  "submission_final_open t \<longleftrightarrow> filter (open_submission FinalSubmission) t \<noteq> []"

inductive order_move :: "order_view \<Rightarrow> order_view \<Rightarrow> bool" where
  move_none: "order_move v v"
| move_requested:
    "ow_order v = None \<Longrightarrow> ow_order v' = Some o2 \<Longrightarrow> co_version o2 = 1 \<Longrightarrow> co_state o2 = CoRequested \<Longrightarrow>
     co_acceptedAt o2 = None \<Longrightarrow> ow_reservation v' = ow_reservation v \<Longrightarrow> kept_rest v v' \<Longrightarrow>
     ow_events v' = ow_events v @ [e] \<Longrightarrow> ce_orderVersion e = 1 \<Longrightarrow> ce_type e = CoRequested \<Longrightarrow> order_move v v'"
| move_committed:
    "ow_order v = None \<Longrightarrow> ow_order v' = Some o2 \<Longrightarrow> co_version o2 = 1 \<Longrightarrow> co_state o2 = CoAwaitingPayment \<Longrightarrow>
     co_acceptedAt o2 \<noteq> None \<Longrightarrow> ow_reservation v' = Some r \<Longrightarrow> fresh_reservation o2 r \<Longrightarrow> co_revisionsUsed o2 = 0 \<Longrightarrow>
     ow_terms v' = Some t \<Longrightarrow> committed_terms o2 t \<Longrightarrow> ow_submissions v' = ow_submissions v \<Longrightarrow>
     ow_events v' = ow_events v @ [e] \<Longrightarrow> ce_orderVersion e = 1 \<Longrightarrow> ce_type e = CoAwaitingPayment \<Longrightarrow> order_move v v'"
| move_quoted:
    "advance v v' o1 o2 \<Longrightarrow> co_state o1 \<in> {CoRequested, CoQuoted} \<Longrightarrow> co_state o2 = CoQuoted \<Longrightarrow> same_terms o1 o2 \<Longrightarrow>
     ow_reservation v' = ow_reservation v \<Longrightarrow> kept_rest v v' \<Longrightarrow> order_move v v'"
| move_accepted:
    "advance v v' o1 o2 \<Longrightarrow> co_state o1 \<in> {CoRequested, CoQuoted} \<Longrightarrow> co_state o2 = CoAwaitingPayment \<Longrightarrow> co_acceptedAt o2 \<noteq> None \<Longrightarrow>
     ow_reservation v' = Some r \<Longrightarrow> fresh_reservation o2 r \<Longrightarrow> co_revisionsUsed o2 = co_revisionsUsed o1 \<Longrightarrow>
     ow_terms v' = Some t \<Longrightarrow> committed_terms o2 t \<Longrightarrow> ow_submissions v' = ow_submissions v \<Longrightarrow> order_move v v'"
| move_withdrawn:
    "advance v v' o1 o2 \<Longrightarrow> reason \<in> set (closeReasons (co_state o1)) \<Longrightarrow> reason \<notin> set post_payment_reasons \<Longrightarrow>
     co_state o2 = CoClosed \<Longrightarrow> co_closeReason o2 = Some reason \<Longrightarrow> same_terms o1 o2 \<Longrightarrow> co_confirmedAt o2 = co_confirmedAt o1 \<Longrightarrow>
     co_revisionsUsed o2 = co_revisionsUsed o1 \<Longrightarrow>
     (if co_acceptedAt o1 = None then ow_reservation v' = ow_reservation v else reservation_to v v' Reserved Released) \<Longrightarrow>
     kept_rest v v' \<Longrightarrow> order_move v v'"
| move_confirmed:
    "advance v v' o1 o2 \<Longrightarrow> co_state o1 = CoAwaitingPayment \<Longrightarrow> co_state o2 = CoInProgress \<Longrightarrow> same_terms o1 o2 \<Longrightarrow>
     co_revisionsUsed o2 = co_revisionsUsed o1 \<Longrightarrow> co_confirmedAt o2 \<noteq> None \<Longrightarrow>
     reservation_to v v' Reserved Occupied \<Longrightarrow> kept_rest v v' \<Longrightarrow> order_move v v'"
| move_drafted:
    "ow_order v = Some o1 \<Longrightarrow> co_state o1 = CoInProgress \<Longrightarrow> v' = v\<lparr>ow_submissions := ss\<rparr> \<Longrightarrow>
     submission_final_open ss = submission_final_open (ow_submissions v) \<Longrightarrow> order_move v v'"
| move_delivered:
    "advance v v' o1 o2 \<Longrightarrow> co_state o1 = CoInProgress \<Longrightarrow> co_state o2 = CoDelivered \<Longrightarrow> same_terms o1 o2 \<Longrightarrow>
     co_confirmedAt o2 = co_confirmedAt o1 \<Longrightarrow> co_revisionsUsed o2 = co_revisionsUsed o1 \<Longrightarrow>
     ow_reservation v' = ow_reservation v \<Longrightarrow> ow_terms v' = ow_terms v \<Longrightarrow> submission_final_open (ow_submissions v') \<Longrightarrow> order_move v v'"
| move_reopened:
    "advance v v' o1 o2 \<Longrightarrow> co_state o1 \<in> {CoInProgress, CoDelivered} \<Longrightarrow> co_state o2 = CoInProgress \<Longrightarrow> same_terms o1 o2 \<Longrightarrow>
     co_confirmedAt o2 = co_confirmedAt o1 \<Longrightarrow> ow_terms v = Some t \<Longrightarrow> co_revisionsUsed o1 < pt_revisionAllowance t \<Longrightarrow>
     co_revisionsUsed o2 = co_revisionsUsed o1 + 1 \<Longrightarrow> ow_reservation v' = ow_reservation v \<Longrightarrow> ow_terms v' = ow_terms v \<Longrightarrow>
     (co_state o1 = CoInProgress \<longrightarrow> submission_final_open (ow_submissions v') = submission_final_open (ow_submissions v)) \<Longrightarrow>
     (co_state o1 = CoDelivered \<longrightarrow> \<not> submission_final_open (ow_submissions v')) \<Longrightarrow> order_move v v'"
| move_completed:
    "advance v v' o1 o2 \<Longrightarrow> co_state o1 = CoDelivered \<Longrightarrow> co_state o2 = CoCompleted \<Longrightarrow> same_terms o1 o2 \<Longrightarrow>
     co_confirmedAt o2 = co_confirmedAt o1 \<Longrightarrow> co_revisionsUsed o2 = co_revisionsUsed o1 \<Longrightarrow>
     reservation_to v v' Occupied ReservationCompleted \<Longrightarrow> kept_rest v v' \<Longrightarrow> order_move v v'"
| move_cancelled:
    "advance v v' o1 o2 \<Longrightarrow> co_state o1 \<in> {CoInProgress, CoDelivered} \<Longrightarrow> reason \<in> set post_payment_reasons \<Longrightarrow>
     co_state o2 = CoClosed \<Longrightarrow> co_closeReason o2 = Some reason \<Longrightarrow> same_terms o1 o2 \<Longrightarrow>
     co_confirmedAt o2 = co_confirmedAt o1 \<Longrightarrow> co_confirmedAt o1 \<noteq> None \<Longrightarrow> co_revisionsUsed o2 = co_revisionsUsed o1 \<Longrightarrow>
     reservation_to v v' Occupied ReservationCancelled \<Longrightarrow> kept_rest v v' \<Longrightarrow> order_move v v'"
| move_restored:
    "advance v v' o1 o2 \<Longrightarrow> co_state o1 = CoDelivered \<Longrightarrow> co_state o2 = CoDelivered \<Longrightarrow> same_terms o1 o2 \<Longrightarrow>
     co_confirmedAt o2 = co_confirmedAt o1 \<Longrightarrow> co_revisionsUsed o2 = co_revisionsUsed o1 \<Longrightarrow>
     ow_reservation v' = ow_reservation v \<Longrightarrow> kept_rest v v' \<Longrightarrow> order_move v v'"

text \<open>
  One operation on the order \<open>k\<close>: a move of its view, no other view changed, and no creator's load
  raised above a capacity limit the catalogue serves.
\<close>

definition limits :: "order_ports \<Rightarrow> nat set" where
  "limits ports = {n. \<forall>a b c d p. op_intakePackage ports a b c d = Inr p \<longrightarrow> ip_capacityLimit p \<le> int n}"

definition within :: "nat set \<Rightarrow> ord_db \<Rightarrow> ord_db \<Rightarrow> bool" where
  "within ns db db' \<longleftrightarrow> (\<forall>n \<in> ns. \<forall>u. capacity_used u db' \<le> max (capacity_used u db) n)"

definition step_at :: "nat set \<Rightarrow> string \<Rightarrow> ord_db \<Rightarrow> ord_db \<Rightarrow> bool" where
  "step_at ns k db db' \<longleftrightarrow>
     order_constraints db' \<and> order_move (view db k) (view db' k) \<and> (\<forall>j. j \<noteq> k \<longrightarrow> view db' j = view db j) \<and> within ns db db'"

lemma within_same: "od_reservations db' = od_reservations db \<Longrightarrow> within ns db db'"
  by (simp add: within_def capacity_used_def)

lemma step_at_same: "same_orders db db' \<Longrightarrow> order_constraints db' \<Longrightarrow> step_at ns k db db'"
  unfolding step_at_def by (auto simp: same_orders_view [of db db'] move_none intro: within_same dest: same_orders_reservations)

lemma step_at_frame:
  assumes "step_at ns k db0 db1" "same_orders db db0" "same_orders db1 db'" "order_constraints db'"
  shows "step_at ns k db db'"
proof -
  have "\<And>j. view db0 j = view db j" "\<And>j. view db' j = view db1 j"
    using same_orders_view [OF assms(2)] same_orders_view [OF assms(3)] by simp_all
  moreover have "\<And>u. capacity_used u db0 = capacity_used u db" "\<And>u. capacity_used u db' = capacity_used u db1"
    using same_orders_reservations [OF assms(2)] same_orders_reservations [OF assms(3)] by (simp_all add: capacity_used_def)
  ultimately show ?thesis
    using assms(1,4) by (simp add: step_at_def within_def)
qed

subsection \<open>The shared statements\<close>

lemma update_order_Inr:
  "update_order k p f db = Inr (db', r) \<longleftrightarrow>
     db' = db\<lparr>od_orders := rows_update (\<lambda>o1. co_id o1 = k \<and> p o1) f (od_orders db)\<rparr> \<and> order_constraints db' \<and>
     r = map_option f (List.find (\<lambda>o1. co_id o1 = k \<and> p o1) (od_orders db))"
  by (auto simp: update_order_def result_iffs)

lemma update_reservation_Inr:
  "update_reservation k p f db = Inr (db', r) \<longleftrightarrow>
     db' = db\<lparr>od_reservations := rows_update (\<lambda>o1. cr_orderId o1 = k \<and> p o1) f (od_reservations db)\<rparr> \<and> order_constraints db' \<and>
     r = map_option f (List.find (\<lambda>o1. cr_orderId o1 = k \<and> p o1) (od_reservations db))"
  by (auto simp: update_reservation_def result_iffs)

definition event_of :: "order_row \<Rightarrow> event_row \<Rightarrow> bool" where
  "event_of o1 e \<longleftrightarrow> ce_orderId e = co_id o1 \<and> ce_orderVersion e = co_version o1 \<and> ce_type e = co_state o1"

lemma record_change_effect:
  assumes "record_change cfg dw order a requestId reason db = Inr db'"
  obtains e au ob where "event_of order e" "db' = db\<lparr>od_events := od_events db @ [e], od_audit := au, od_outbox := ob\<rparr>"
    "order_constraints db'"
proof -
  let ?e = "timeline_event (dw_id dw 100) order a requestId reason"
  from assms obtain db1 db2 where s: "db1 = db\<lparr>od_events := od_events db @ [?e]\<rparr>" "order_constraints db1"
    and a: "\<exists>k c x. order_audit cfg k c x db1 = Inr db2" and ob: "\<exists>k c x. order_event cfg k c x db2 = Inr db'"
    unfolding record_change_def by (simp only: result_iffs new_id_Inr save_Inr) blast
  from a obtain au where au: "db2 = db1\<lparr>od_audit := au\<rparr>" using order_audit_Inr by blast
  from ob obtain obx where ob: "db' = db2\<lparr>od_outbox := obx\<rparr>" using order_event_Inr by blast
  show thesis
    by (rule that [where e = ?e and au = au and ob = obx]) (use s au ob in \<open>simp_all add: event_of_def timeline_event_def\<close>)
qed

text \<open>What a view sees of an update.\<close>

lemma view_orders_update:
  assumes "od_orders db' = rows_update (\<lambda>o1. co_id o1 = k \<and> p o1) f (od_orders db)" "\<And>o1. co_id (f o1) = co_id o1"
  shows "ow_order (view db' j) = map_option (\<lambda>o1. if co_id o1 = k \<and> p o1 then f o1 else o1) (ow_order (view db j))"
  using assms by (simp add: view_def find_rows_update)

lemma view_reservations_update:
  assumes "od_reservations db' = rows_update (\<lambda>o1. cr_orderId o1 = k \<and> p o1) f (od_reservations db)" "\<And>o1. cr_orderId (f o1) = cr_orderId o1"
  shows "ow_reservation (view db' j) = map_option (\<lambda>o1. if cr_orderId o1 = k \<and> p o1 then f o1 else o1) (ow_reservation (view db j))"
  using assms by (simp add: view_def find_rows_update)

lemma view_order_id: "ow_order (view db j) = Some o1 \<Longrightarrow> co_id o1 = j"
  by (auto simp: view_def dest: find_Some_in)

lemma view_reservation_id: "ow_reservation (view db j) = Some r \<Longrightarrow> cr_orderId r = j"
  by (auto simp: view_def dest: find_Some_in)

lemma find_order_view: "find_order k db = ow_order (view db k)"
  by (simp add: find_order_def view_def)

lemma find_terms_view: "find_terms k db = ow_terms (view db k)"
  by (simp add: find_terms_def view_def)

lemma view_eqI:
  assumes "ow_order v' = ow_order v" "ow_reservation v' = ow_reservation v" "ow_events v' = ow_events v" "ow_terms v' = ow_terms v"
    "ow_submissions v' = ow_submissions v"
  shows "v' = (v :: order_view)"
  using assms by (cases v, cases v') simp

text \<open>An update of the order \<open>k\<close> with its event, and an update of its reservation.\<close>

lemma order_written:
  assumes row: "ow_order (view db k) = Some order" and p: "p order"
    and orders: "od_orders db' = rows_update (\<lambda>o1. co_id o1 = k \<and> p o1) f (od_orders db)"
    and events: "od_events db' = od_events db @ [e]" "event_of (f order) e"
    and keeps: "\<And>o1. co_id (f o1) = co_id o1"
  shows "ow_order (view db' k) = Some (f order)" "ow_events (view db' k) = ow_events (view db k) @ [e]"
    "j \<noteq> k \<Longrightarrow> ow_order (view db' j) = ow_order (view db j) \<and> ow_events (view db' j) = ow_events (view db j)"
proof -
  have k: "co_id order = k" using row by (rule view_order_id)
  have ek: "ce_orderId e = k" using events(2) keeps k by (simp add: event_of_def)
  show "ow_order (view db' k) = Some (f order)"
    using row p k by (simp add: view_orders_update [OF orders keeps])
  show "ow_events (view db' k) = ow_events (view db k) @ [e]"
    using ek by (simp add: view_def events(1))
  assume j: "j \<noteq> k"
  have "ow_order (view db' j) = ow_order (view db j)"
    using j by (cases "ow_order (view db j)") (auto simp: view_orders_update [OF orders keeps] dest: view_order_id)
  moreover have "ow_events (view db' j) = ow_events (view db j)"
    using j ek by (simp add: view_def events(1))
  ultimately show "ow_order (view db' j) = ow_order (view db j) \<and> ow_events (view db' j) = ow_events (view db j)" ..
qed

lemma advance_written:
  assumes row: "ow_order (view db k) = Some order" and p: "p order"
    and orders: "od_orders db' = rows_update (\<lambda>o1. co_id o1 = k \<and> p o1) f (od_orders db)"
    and events: "od_events db' = od_events db @ [e]" "event_of (f order) e"
    and keeps: "\<And>o1. co_id (f o1) = co_id o1 \<and> co_creatorUserId (f o1) = co_creatorUserId o1 \<and>
      co_buyerUserId (f o1) = co_buyerUserId o1 \<and> co_createdAt (f o1) = co_createdAt o1"
    and version: "co_version (f order) = co_version order + 1"
  shows "advance (view db k) (view db' k) order (f order)"
proof -
  have keeps': "\<And>o1. co_id (f o1) = co_id o1" using keeps by blast
  note w = order_written [OF row p orders events keeps']
  show ?thesis
    using w(1,2) row keeps [of order] version events(2) by (auto simp: advance_def event_of_def)
qed

lemma reservation_written:
  assumes constraints: "order_constraints db"
    and found: "List.find (\<lambda>r. cr_orderId r = k \<and> p r) (od_reservations db) = Some r"
    and rows: "od_reservations db' = rows_update (\<lambda>r. cr_orderId r = k \<and> p r) g (od_reservations db)"
    and keeps: "\<And>r. cr_orderId (g r) = cr_orderId r \<and> cr_creatorUserId (g r) = cr_creatorUserId r"
    and active: "\<forall>r. p r \<longrightarrow> cr_state r \<in> {Reserved, Occupied}"
  shows "ow_reservation (view db k) = Some r" "p r" "ow_reservation (view db' k) = Some (g r)"
    "j \<noteq> k \<Longrightarrow> ow_reservation (view db' j) = ow_reservation (view db j)" "within ns db db'"
proof -
  have keeps': "\<And>r. cr_orderId (g r) = cr_orderId r" using keeps by blast
  note n = find_narrow [OF order_keys(2) [OF constraints] found]
  show r: "ow_reservation (view db k) = Some r" "p r"
    using n by (simp_all add: view_def)
  show "ow_reservation (view db' k) = Some (g r)"
    using r n(3) by (simp add: view_reservations_update [OF rows keeps'])
  show "ow_reservation (view db' j) = ow_reservation (view db j)" if "j \<noteq> k"
    using that by (cases "ow_reservation (view db j)") (auto simp: view_reservations_update [OF rows keeps'] dest: view_reservation_id)
  have "length (filter q (rows_update (\<lambda>r. cr_orderId r = k \<and> p r) g t)) \<le> length (filter q t)"
    if "\<And>r. q r \<longleftrightarrow> cr_creatorUserId r = u \<and> cr_state r \<in> {Reserved, Occupied}" for q u t
    using that keeps active by (induction t) (auto simp: table_simps)
  then have "\<And>u. capacity_used u db' \<le> capacity_used u db"
    by (simp add: capacity_used_def rows)
  then show "within ns db db'"
    by (simp add: within_def max.coboundedI1)
qed

subsection \<open>Completing and closing\<close>

text \<open>An operation that wrote the order, its event and its reservation, and nothing else a view shows.\<close>

lemma settled_step:
  assumes constraints: "order_constraints db" "order_constraints db'"
    and row: "ow_order (view db k) = Some order" and p: "p order"
    and orders: "od_orders db' = rows_update (\<lambda>o1. co_id o1 = k \<and> p o1) f (od_orders db)"
    and events: "od_events db' = od_events db @ [e]" "event_of (f order) e"
    and keeps: "\<And>o1. co_id (f o1) = co_id o1 \<and> co_creatorUserId (f o1) = co_creatorUserId o1 \<and>
      co_buyerUserId (f o1) = co_buyerUserId o1 \<and> co_createdAt (f o1) = co_createdAt o1"
    and version: "co_version (f order) = co_version order + 1"
    and found: "List.find (\<lambda>r. cr_orderId r = k \<and> q r) (od_reservations db) = Some r"
    and rows: "od_reservations db' = rows_update (\<lambda>r. cr_orderId r = k \<and> q r) g (od_reservations db)"
    and keeps_r: "\<And>r. cr_orderId (g r) = cr_orderId r \<and> cr_creatorUserId (g r) = cr_creatorUserId r \<and> cr_state (g r) = b"
    and active: "\<forall>r. q r \<longrightarrow> cr_state r = a" "a \<in> {Reserved, Occupied}"
    and rest: "od_terms db' = od_terms db" "od_submissions db' = od_submissions db"
    and move: "advance (view db k) (view db' k) order (f order) \<Longrightarrow> reservation_to (view db k) (view db' k) a b \<Longrightarrow>
      kept_rest (view db k) (view db' k) \<Longrightarrow> order_move (view db k) (view db' k)"
  shows "step_at ns k db db'"
proof -
  have keeps': "\<And>o1. co_id (f o1) = co_id o1" using keeps by blast
  have keeps_r': "\<And>r. cr_orderId (g r) = cr_orderId r \<and> cr_creatorUserId (g r) = cr_creatorUserId r" using keeps_r by blast
  have active': "\<forall>r. q r \<longrightarrow> cr_state r \<in> {Reserved, Occupied}" using active by blast
  note w = order_written [OF row p orders events keeps']
    and r = reservation_written [OF constraints(1) found rows keeps_r' active']
  have adv: "advance (view db k) (view db' k) order (f order)"
    by (rule advance_written [OF row p orders events keeps version])
  have "reservation_to (view db k) (view db' k) a b"
    using r(1,2,3) active(1) keeps_r [of r] by (simp add: reservation_to_def)
  moreover have same: "ow_terms (view db' j) = ow_terms (view db j)" "ow_submissions (view db' j) = ow_submissions (view db j)" for j
    using rest by (simp_all add: view_def)
  ultimately have "order_move (view db k) (view db' k)"
    using adv move by (simp add: kept_rest_def)
  moreover have "view db' j = view db j" if "j \<noteq> k" for j
    using w(3) [OF that] r(4) [OF that] same by (intro view_eqI) simp_all
  ultimately show ?thesis
    using constraints(2) r(5) by (simp add: step_at_def)
qed

lemma complete_effect:
  assumes "completeCommissionOrder cfg dw order kind a requestId at db = Inr (db', c)"
    and constraints: "order_constraints db" and row: "ow_order (view db (co_id order)) = Some order"
  shows "step_at ns (co_id order) db db' \<and> co_version c = co_version order + 1 \<and> ow_order (view db' (co_id order)) = Some c \<and>
    co_state c = CoCompleted"
proof -
  let ?f = "\<lambda>o1. o1\<lparr>co_state := CoCompleted, co_completedAt := Some at, co_completionKind := Some kind,
          co_version := co_version order + 1, co_updatedAt := at\<rparr>"
  from assms(1) obtain db1 db2 r where t: "co_state order = CoDelivered"
    and u: "db1 = db\<lparr>od_reservations := rows_update (\<lambda>r. cr_orderId r = co_id order \<and> cr_state r = Occupied)
        (\<lambda>r. r\<lparr>cr_state := ReservationCompleted, cr_releasedAt := Some at\<rparr>) (od_reservations db)\<rparr>"
      "List.find (\<lambda>r. cr_orderId r = co_id order \<and> cr_state r = Occupied) (od_reservations db) = Some r"
    and w: "db2 = db1\<lparr>od_orders := rows_update (\<lambda>o1. co_id o1 = co_id order \<and> same_version order o1) ?f (od_orders db1)\<rparr>"
      "map_option ?f (List.find (\<lambda>o1. co_id o1 = co_id order \<and> same_version order o1) (od_orders db1)) = Some c"
    and rec: "record_change cfg dw c a requestId (Some (completion_kind_text kind)) db2 = Inr db'"
    unfolding completeCommissionOrder_def
    by (auto simp: result_iffs update_order_Inr update_reservation_Inr requireCommissionTransition_def open_transition_def split: if_splits)
  obtain e au ob where e: "event_of c e" "db' = db2\<lparr>od_events := od_events db2 @ [e], od_audit := au, od_outbox := ob\<rparr>"
    and ok: "order_constraints db'"
    using record_change_effect [OF rec] .
  have p: "same_version order order" by (simp add: same_version_def)
  have c: "c = ?f order"
    using w(2) find_narrow(1) [of co_id "od_orders db"] order_keys(1) [OF constraints] row by (auto simp: u(1) view_def)
  have orders: "od_orders db' = rows_update (\<lambda>o1. co_id o1 = co_id order \<and> same_version order o1) ?f (od_orders db)"
    and events: "od_events db' = od_events db @ [e]"
    and rows: "od_reservations db' = rows_update (\<lambda>r. cr_orderId r = co_id order \<and> cr_state r = Occupied)
        (\<lambda>r. r\<lparr>cr_state := ReservationCompleted, cr_releasedAt := Some at\<rparr>) (od_reservations db)"
    by (simp_all add: e(2) w(1) u(1))
  have "step_at ns (co_id order) db db'"
  proof (rule settled_step [where f = ?f, OF constraints ok row p orders events _ _ _ u(2) rows])
    show "order_move (view db (co_id order)) (view db' (co_id order))"
      if "advance (view db (co_id order)) (view db' (co_id order)) order (?f order)"
        "reservation_to (view db (co_id order)) (view db' (co_id order)) Occupied ReservationCompleted"
        "kept_rest (view db (co_id order)) (view db' (co_id order))"
      by (rule move_completed [OF that(1) t _ _ _ _ that(2,3)]) (simp_all add: same_terms_def)
  qed (use e(1) in \<open>simp_all add: c e(2) w(1) u(1)\<close>)
  moreover have "ow_order (view db' (co_id order)) = Some c"
    using order_written(1) [OF row p orders events] e(1) c by simp
  ultimately show ?thesis by (simp add: c)
qed

text \<open>An operation that wrote the order and its event, and left every reservation and all terms alone.\<close>

lemma plain_step:
  assumes constraints: "order_constraints db'"
    and row: "ow_order (view db k) = Some order" and p: "p order"
    and orders: "od_orders db' = rows_update (\<lambda>o1. co_id o1 = k \<and> p o1) f (od_orders db)"
    and events: "od_events db' = od_events db @ [e]" "event_of (f order) e"
    and keeps: "\<And>o1. co_id (f o1) = co_id o1 \<and> co_creatorUserId (f o1) = co_creatorUserId o1 \<and>
      co_buyerUserId (f o1) = co_buyerUserId o1 \<and> co_createdAt (f o1) = co_createdAt o1"
    and version: "co_version (f order) = co_version order + 1"
    and rest: "od_reservations db' = od_reservations db" "od_terms db' = od_terms db"
    and others: "\<forall>j. j \<noteq> k \<longrightarrow> ow_submissions (view db' j) = ow_submissions (view db j)"
    and move: "advance (view db k) (view db' k) order (f order) \<Longrightarrow> ow_reservation (view db' k) = ow_reservation (view db k) \<Longrightarrow>
      ow_terms (view db' k) = ow_terms (view db k) \<Longrightarrow> order_move (view db k) (view db' k)"
  shows "step_at ns k db db'"
proof -
  have keeps': "\<And>o1. co_id (f o1) = co_id o1" using keeps by blast
  note w = order_written [OF row p orders events keeps']
  have adv: "advance (view db k) (view db' k) order (f order)"
    by (rule advance_written [OF row p orders events keeps version])
  have same: "ow_reservation (view db' j) = ow_reservation (view db j)" "ow_terms (view db' j) = ow_terms (view db j)" for j
    using rest by (simp_all add: view_def)
  have "order_move (view db k) (view db' k)"
    using adv same by (rule move)
  moreover have "view db' j = view db j" if "j \<noteq> k" for j
    using w(3) [OF that] others that same by (intro view_eqI) simp_all
  ultimately show ?thesis
    using constraints rest(1) by (simp add: step_at_def within_same)
qed

lemma found_order:
  assumes "order_constraints db" "ow_order (view db k) = Some order" "p order"
  shows "List.find (\<lambda>o1. co_id o1 = k \<and> p o1) (od_orders db) = Some order"
proof -
  have "order \<in> set (od_orders db)" "co_id order = k"
    using assms(2) by (auto simp: view_def dest: find_Some_in)
  then obtain r where r: "List.find (\<lambda>o1. co_id o1 = k \<and> p o1) (od_orders db) = Some r"
    using assms(3) by (cases "List.find (\<lambda>o1. co_id o1 = k \<and> p o1) (od_orders db)") (auto simp: find_None_iff)
  then show ?thesis
    using find_narrow(1) [OF order_keys(1) [OF assms(1)] r] assms(2) by (simp add: view_def)
qed

text \<open>The closing statement and its record.\<close>

lemma close_row_effect:
  assumes "await (update_order (co_id order) (same_version order) (closed_row order reason at) db1) (\<lambda>(db2, closed).
       await (demand closed VersionConflict) (\<lambda>c.
       await (record_change cfg dw c a requestId (map_option close_reason_text (co_closeReason c)) db2) (\<lambda>db3. Inr (db3, c)))) = Inr (db', c)"
    and constraints: "order_constraints db1" and row: "ow_order (view db1 (co_id order)) = Some order"
  obtains e au ob where "c = closed_row order reason at order" "event_of c e" "order_constraints db'"
    "db' = db1\<lparr>od_orders := rows_update (\<lambda>o1. co_id o1 = co_id order \<and> same_version order o1) (closed_row order reason at) (od_orders db1),
       od_events := od_events db1 @ [e], od_audit := au, od_outbox := ob\<rparr>"
proof -
  have p: "same_version order order" by (simp add: same_version_def)
  from assms(1) obtain db2 where w: "db2 = db1\<lparr>od_orders := rows_update (\<lambda>o1. co_id o1 = co_id order \<and> same_version order o1) (closed_row order reason at) (od_orders db1)\<rparr>"
      "c = closed_row order reason at order"
    and rec: "record_change cfg dw c a requestId (map_option close_reason_text (co_closeReason c)) db2 = Inr db'"
    using found_order [where p = "same_version order", OF constraints row p] by (auto simp: result_iffs update_order_Inr)
  obtain e au ob where e: "event_of c e" "db' = db2\<lparr>od_events := od_events db2 @ [e], od_audit := au, od_outbox := ob\<rparr>" "order_constraints db'"
    using record_change_effect [OF rec] .
  show thesis
    by (rule that [where e = e and au = au and ob = ob]) (use w e in simp_all)
qed

lemma closeReasons_pending:
  "reason \<in> set (closeReasons s) \<Longrightarrow> reason \<notin> set post_payment_reasons \<Longrightarrow> pending_state s"
  by (cases s) (auto simp: closeReasons_def pending_state_def)

lemma closePaid_effect:
  assumes "closePaidOrder cfg dw order reason a requestId at db = Inr (db', c)"
    and constraints: "order_constraints db" and row: "ow_order (view db (co_id order)) = Some order"
  shows "step_at ns (co_id order) db db' \<and> co_version c = co_version order + 1 \<and> ow_order (view db' (co_id order)) = Some c \<and>
    co_state c = CoClosed \<and> co_closeReason c = Some reason"
proof -
  from assms(1) obtain db1 r where t: "reason \<in> set post_payment_reasons" "co_confirmedAt order \<noteq> None" "reason \<in> set (closeReasons (co_state order))"
    and u: "db1 = db\<lparr>od_reservations := rows_update (\<lambda>r. cr_orderId r = co_id order \<and> cr_state r = Occupied)
        (\<lambda>r. r\<lparr>cr_state := ReservationCancelled, cr_releasedAt := Some at\<rparr>) (od_reservations db)\<rparr>"
      "List.find (\<lambda>r. cr_orderId r = co_id order \<and> cr_state r = Occupied) (od_reservations db) = Some r" "order_constraints db1"
    and rest: "await (update_order (co_id order) (same_version order) (closed_row order reason at) db1) (\<lambda>(db2, closed).
       await (demand closed VersionConflict) (\<lambda>c.
       await (record_change cfg dw c a requestId (map_option close_reason_text (co_closeReason c)) db2) (\<lambda>db3. Inr (db3, c)))) = Inr (db', c)"
    unfolding closePaidOrder_def
    by (auto simp: await_Inr_iff [of "check _ _"] await_Inr_iff [of "update_reservation _ _ _ _"] await_Inr_iff [of "requireCommissionTransition _ _ _"]
      update_reservation_Inr requireCommissionTransition_def split: if_splits)
  have row1: "ow_order (view db1 (co_id order)) = Some order" using row by (simp add: u(1) view_def)
  obtain e au ob where c: "c = closed_row order reason at order" "event_of c e" "order_constraints db'"
    and db': "db' = db1\<lparr>od_orders := rows_update (\<lambda>o1. co_id o1 = co_id order \<and> same_version order o1) (closed_row order reason at) (od_orders db1),
       od_events := od_events db1 @ [e], od_audit := au, od_outbox := ob\<rparr>"
    using close_row_effect [OF rest u(3) row1] .
  have p: "same_version order order" by (simp add: same_version_def)
  have orders: "od_orders db' = rows_update (\<lambda>o1. co_id o1 = co_id order \<and> same_version order o1) (closed_row order reason at) (od_orders db)"
    and events: "od_events db' = od_events db @ [e]" "event_of (closed_row order reason at order) e"
    and rows: "od_reservations db' = rows_update (\<lambda>r. cr_orderId r = co_id order \<and> cr_state r = Occupied)
        (\<lambda>r. r\<lparr>cr_state := ReservationCancelled, cr_releasedAt := Some at\<rparr>) (od_reservations db)"
    using c by (simp_all add: db' u(1))
  have live: "co_state order \<in> {CoInProgress, CoDelivered}"
    using t(1,3) by (cases "co_state order") (auto simp: closeReasons_def post_payment_reasons_def)
  have "step_at ns (co_id order) db db'"
  proof (rule settled_step [where p = "same_version order" and f = "closed_row order reason at", OF constraints c(3) row p orders events _ _ u(2) rows])
    show "order_move (view db (co_id order)) (view db' (co_id order))"
      if "advance (view db (co_id order)) (view db' (co_id order)) order (closed_row order reason at order)"
        "reservation_to (view db (co_id order)) (view db' (co_id order)) Occupied ReservationCancelled"
        "kept_rest (view db (co_id order)) (view db' (co_id order))"
      by (rule move_cancelled [OF that(1) live t(1) _ _ _ _ t(2) _ that(2,3)]) (simp_all add: same_terms_def closed_row_def)
  qed (simp_all add: closed_row_def db' u(1))
  moreover have "ow_order (view db' (co_id order)) = Some c"
    using order_written(1) [where p = "same_version order", OF row p orders events] c by (simp add: closed_row_def)
  ultimately show ?thesis by (simp add: c(1) closed_row_def)
qed

lemma close_effect:
  assumes "closeOrder cfg ports dw order reason a requestId at db = Inr (db', c)"
    and constraints: "order_constraints db" and row: "ow_order (view db (co_id order)) = Some order"
  shows "step_at ns (co_id order) db db' \<and> ow_order (view db' (co_id order)) = Some (closed_row order reason at order) \<and>
    c = closed_row order reason at order \<and> pending_state (co_state order)"
proof -
  have p: "same_version order order" by (simp add: same_version_def)
  from assms(1) obtain db1 where t: "reason \<notin> set post_payment_reasons" "reason \<in> set (closeReasons (co_state order))"
    and u: "(if co_acceptedAt order = None then Inr db else release_accepted ports order reason at db) = Inr db1"
    and rest: "await (update_order (co_id order) (same_version order) (closed_row order reason at) db1) (\<lambda>(db2, closed).
       await (demand closed VersionConflict) (\<lambda>c.
       await (record_change cfg dw c a requestId (map_option close_reason_text (co_closeReason c)) db2) (\<lambda>db3. Inr (db3, c)))) = Inr (db', c)"
    unfolding closeOrder_def
    by (auto simp: await_Inr_iff [of "check _ _"] await_Inr_iff [of "if _ then _ else _"] await_Inr_iff [of "requireCommissionTransition _ _ _"]
      requireCommissionTransition_def split: if_splits)
  let ?f = "closed_row order reason at"
  let ?g = "\<lambda>r. r\<lparr>cr_state := Released, cr_releasedAt := Some at\<rparr>"
  let ?k = "co_id order"
  have same: "od_orders db1 = od_orders db" "od_events db1 = od_events db" "od_terms db1 = od_terms db"
      "od_submissions db1 = od_submissions db" "order_constraints db1"
    and unreleased: "co_acceptedAt order = None \<Longrightarrow> od_reservations db1 = od_reservations db"
    and released: "co_acceptedAt order \<noteq> None \<Longrightarrow> od_reservations db1 = rows_update (\<lambda>r. cr_orderId r = ?k \<and> cr_state r = Reserved) ?g (od_reservations db)"
      "co_acceptedAt order \<noteq> None \<Longrightarrow> \<exists>r. List.find (\<lambda>r. cr_orderId r = ?k \<and> cr_state r = Reserved) (od_reservations db) = Some r"
    using u constraints by (auto simp: release_accepted_def result_iffs update_reservation_Inr split: if_splits)
  have row1: "ow_order (view db1 ?k) = Some order" using row same(1) by (simp add: view_def)
  obtain e au ob where c: "c = ?f order" "event_of c e" "order_constraints db'"
    and db': "db' = db1\<lparr>od_orders := rows_update (\<lambda>o1. co_id o1 = ?k \<and> same_version order o1) ?f (od_orders db1),
       od_events := od_events db1 @ [e], od_audit := au, od_outbox := ob\<rparr>"
    using close_row_effect [OF rest same(5) row1] .
  have orders: "od_orders db' = rows_update (\<lambda>o1. co_id o1 = ?k \<and> same_version order o1) ?f (od_orders db)"
    and events: "od_events db' = od_events db @ [e]" "event_of (?f order) e"
    and tables: "od_terms db' = od_terms db" "od_submissions db' = od_submissions db" "od_reservations db' = od_reservations db1"
    using c by (simp_all add: db' same)
  have "step_at ns ?k db db'"
  proof (cases "co_acceptedAt order = None")
    case True
    show ?thesis
    proof (rule plain_step [where p = "same_version order" and f = ?f, OF c(3) row p orders events])
      show "order_move (view db ?k) (view db' ?k)"
        if "advance (view db ?k) (view db' ?k) order (?f order)" "ow_reservation (view db' ?k) = ow_reservation (view db ?k)"
          "ow_terms (view db' ?k) = ow_terms (view db ?k)"
        by (rule move_withdrawn [OF that(1) t(2,1)])
          (use True that(2,3) tables in \<open>simp_all add: same_terms_def closed_row_def kept_rest_def view_def\<close>)
    qed (use tables unreleased [OF True] in \<open>simp_all add: closed_row_def view_def\<close>)
  next
    case False
    then obtain r where r: "List.find (\<lambda>r. cr_orderId r = ?k \<and> cr_state r = Reserved) (od_reservations db) = Some r"
      using released(2) by blast
    have rows: "od_reservations db' = rows_update (\<lambda>r. cr_orderId r = ?k \<and> cr_state r = Reserved) ?g (od_reservations db)"
      using released(1) [OF False] tables(3) by simp
    show ?thesis
    proof (rule settled_step [where p = "same_version order" and f = ?f, OF constraints c(3) row p orders events _ _ r rows])
      show "order_move (view db ?k) (view db' ?k)"
        if "advance (view db ?k) (view db' ?k) order (?f order)" "reservation_to (view db ?k) (view db' ?k) Reserved Released"
          "kept_rest (view db ?k) (view db' ?k)"
        by (rule move_withdrawn [OF that(1) t(2,1) _ _ _ _ _ _ that(3)]) (use False that(2) in \<open>auto simp: same_terms_def closed_row_def\<close>)
    qed (use tables in \<open>simp_all add: closed_row_def\<close>)
  qed
  moreover have "ow_order (view db' ?k) = Some c"
    using order_written(1) [where p = "same_version order", OF row p orders events] c by (simp add: closed_row_def)
  ultimately show ?thesis
    using c(1) closeReasons_pending [OF t(2,1)] by simp
qed

subsection \<open>Settling and restoring review time\<close>

lemma find_owned_view:
  assumes "find_owned k u db = Some order" "order_constraints db"
  shows "ow_order (view db k) = Some order" "co_creatorUserId order = u" "co_id order = k"
proof -
  note n = find_narrow [where p = "\<lambda>o1. co_creatorUserId o1 = u", OF order_keys(1) [OF assms(2)] assms(1) [unfolded find_owned_def]]
  show "ow_order (view db k) = Some order" using n(1) by (simp add: view_def)
  show "co_creatorUserId order = u" "co_id order = k" using n(2,3) .
qed

lemma confirm_effect:
  assumes "confirmPayment dw locked c db = Inr (db', ok)" and constraints: "order_constraints db"
  shows "step_at ns (cf_orderId c) db db' \<and> (ok \<or> db' = db)"
proof (cases "db' = db \<and> \<not> ok")
  case True
  then show ?thesis using constraints by (simp add: step_at_same)
next
  case False
  then obtain order terms where o1: "find_owned (cf_orderId c) (cf_creatorUserId c) db = Some order" and able: "confirmable order c"
    and tm: "find_terms (co_id order) db = Some terms" and w: "confirm_write dw c order terms db = Inr (db', ok)"
    using assms(1) by (auto simp: confirmPayment_def split: option.splits if_splits)
  note row = find_owned_view [OF o1 constraints]
  let ?k = "co_id order"
  let ?q = "\<lambda>r. cr_creatorUserId r = cf_creatorUserId c \<and> cr_state r = Reserved"
  let ?g = "\<lambda>r. r\<lparr>cr_state := Occupied, cr_occupiedAt := Some (cf_at c)\<rparr>"
  let ?p = "\<lambda>o1. same_version order o1 \<and> co_state o1 = CoAwaitingPayment \<and> (case co_expiresAt o1 of None \<Rightarrow> False | Some e \<Rightarrow> cf_at c < e)"
  have row': "ow_order (view db ?k) = Some order" using row(1,3) by simp
  have p: "?p order" using able by (simp add: confirmable_def same_version_def)
  show ?thesis
  proof (cases "List.find (\<lambda>r. cr_orderId r = ?k \<and> ?q r) (od_reservations db)")
    case None
    then have "rows_update (\<lambda>r. cr_orderId r = ?k \<and> ?q r) ?g (od_reservations db) = od_reservations db"
      by (intro rows_update_noop) (auto simp: find_None_iff)
    then have "db' = db" using w None by (auto simp: confirm_write_def result_iffs update_reservation_Inr)
    then show ?thesis using constraints by (simp add: step_at_same)
  next
    case (Some r)
    let ?db1 = "db\<lparr>od_reservations := rows_update (\<lambda>r. cr_orderId r = ?k \<and> ?q r) ?g (od_reservations db)\<rparr>"
    obtain dueAt e where db': "db' = ?db1\<lparr>od_orders := rows_update (\<lambda>o1. co_id o1 = ?k \<and> ?p o1)
         (\<lambda>o1. o1\<lparr>co_state := CoInProgress, co_version := co_version order + 1, co_confirmedAt := Some (cf_at c),
            co_dueAt := Some dueAt, co_updatedAt := cf_at c\<rparr>) (od_orders db), od_events := od_events db @ [e]\<rparr>"
      and e: "ce_orderId e = ?k" "ce_orderVersion e = co_version order + 1" "ce_type e = CoInProgress"
      and ok: "ok" "order_constraints db'"
      using w Some found_order [where p = ?p, OF constraints row' p]
      by (auto simp: confirm_write_def result_iffs update_reservation_Inr update_order_Inr split: if_splits)
    let ?f = "\<lambda>o1. o1\<lparr>co_state := CoInProgress, co_version := co_version order + 1, co_confirmedAt := Some (cf_at c),
            co_dueAt := Some dueAt, co_updatedAt := cf_at c\<rparr>"
    have "step_at ns ?k db db'"
    proof (rule settled_step [where f = ?f and p = ?p and q = ?q and g = ?g, OF constraints ok(2) row' p _ _ _ _ _ Some])
      show "order_move (view db ?k) (view db' ?k)"
        if "advance (view db ?k) (view db' ?k) order (?f order)" "reservation_to (view db ?k) (view db' ?k) Reserved Occupied"
          "kept_rest (view db ?k) (view db' ?k)"
        by (rule move_confirmed [OF that(1) _ _ _ _ _ that(2,3)]) (use able in \<open>simp_all add: same_terms_def confirmable_def\<close>)
    qed (use e in \<open>simp_all add: db' event_of_def\<close>)
    then show ?thesis using ok(1) row(3) by simp
  qed
qed

lemma expectedOrder_Inr:
  assumes "expectedOrder c db = Inr order"
  shows "ow_order (view db (rs_orderId c)) = Some order" "co_id order = rs_orderId c" "co_version order = rs_expectedVersion c"
proof -
  have "find_order (rs_orderId c) db = Some order" "co_version order = rs_expectedVersion c"
    using assms by (auto simp: expectedOrder_def result_iffs)
  then show "ow_order (view db (rs_orderId c)) = Some order" "co_id order = rs_orderId c" "co_version order = rs_expectedVersion c"
    by (auto simp: find_order_view dest: view_order_id)
qed

lemma resolution_close_effect:
  assumes "resolution_closePaidOrder cfg dw c reason db = Inr (db', v)" "order_constraints db"
  shows "step_at ns (rs_orderId c) db db'"
proof -
  obtain order closed where o1: "expectedOrder c db = Inr order"
    and w: "closePaidOrder cfg dw order reason (rs_actor c) (rs_requestId c) (rs_at c) db = Inr (db', closed)"
    using assms(1) by (auto simp: resolution_closePaidOrder_def result_iffs)
  show ?thesis using closePaid_effect [OF w assms(2)] expectedOrder_Inr [OF o1] by simp
qed

lemma resolution_complete_effect:
  assumes "completeByResolution cfg dw c kind db = Inr (db', v)" "order_constraints db"
  shows "step_at ns (rs_orderId c) db db'"
proof -
  obtain order completed where o1: "expectedOrder c db = Inr order"
    and w: "completeCommissionOrder cfg dw order kind (rs_actor c) (rs_requestId c) (rs_at c) db = Inr (db', completed)"
    using assms(1) by (auto simp: completeByResolution_def result_iffs)
  show ?thesis using complete_effect [OF w assms(2)] expectedOrder_Inr [OF o1] by simp
qed

lemma restore_effect:
  assumes "restoreReviewTime cfg dw c floorAt db = Inr (db', v)" and constraints: "order_constraints db"
  shows "step_at ns (rs_orderId c) db db'"
proof (cases "db' = db")
  case True
  then show ?thesis using constraints by (simp add: step_at_same)
next
  case False
  obtain order where o1: "expectedOrder c db = Inr order" and s: "co_state order = CoDelivered"
    using assms(1) by (auto simp: restoreReviewTime_def result_iffs)
  note row = expectedOrder_Inr [OF o1]
  let ?f = "\<lambda>o1. o1\<lparr>co_completionFloorAt := Some floorAt, co_version := co_version order + 1, co_updatedAt := rs_at c\<rparr>"
  let ?db1 = "db\<lparr>od_orders := rows_update (\<lambda>o1. co_id o1 = co_id order \<and> same_version order o1) ?f (od_orders db)\<rparr>"
  have p: "same_version order order" by (simp add: same_version_def)
  have row': "ow_order (view db (co_id order)) = Some order" using row by simp
  have rec: "record_change cfg dw (?f order) (rs_actor c) (rs_requestId c) (Some ''review_time_restored'') ?db1 = Inr db'"
    using assms(1) False found_order [where p = "same_version order", OF constraints row' p]
    unfolding restoreReviewTime_def o1 by (auto simp: result_iffs update_order_Inr split: if_splits)
  obtain e au ob where e: "event_of (?f order) e" "db' = ?db1\<lparr>od_events := od_events ?db1 @ [e], od_audit := au, od_outbox := ob\<rparr>" "order_constraints db'"
    using record_change_effect [OF rec] .
  let ?k = "co_id order"
  have "step_at ns ?k db db'"
  proof (rule plain_step [where p = "same_version order" and f = ?f, OF e(3) row' p])
    show "order_move (view db ?k) (view db' ?k)"
      if "advance (view db ?k) (view db' ?k) order (?f order)" "ow_reservation (view db' ?k) = ow_reservation (view db ?k)"
        "ow_terms (view db' ?k) = ow_terms (view db ?k)"
      by (rule move_restored [OF that(1) s _ _ _ _ that(2)]) (use s that(3) in \<open>simp_all add: same_terms_def kept_rest_def view_def e(2)\<close>)
  qed (use e in \<open>simp_all add: e(2) view_def\<close>)
  then show ?thesis using row(2) by simp
qed

subsection \<open>Quoting\<close>

lemma owned_view:
  assumes "owned k a db = Inr order" "order_constraints db"
  shows "ow_order (view db k) = Some order" "co_id order = k"
proof -
  have f: "List.find (\<lambda>o1. co_id o1 = k \<and> (co_buyerUserId o1 = ak_userId a \<or> co_creatorUserId o1 = ak_userId a)) (od_orders db) = Some order"
    using assms(1) by (simp add: owned_def)
  note n = find_narrow [where p = "\<lambda>o1. co_buyerUserId o1 = ak_userId a \<or> co_creatorUserId o1 = ak_userId a", OF order_keys(1) [OF assms(2)] f]
  show "ow_order (view db k) = Some order" using n(1) by (simp add: view_def)
  show "co_id order = k" using n(3) .
qed

lemma quote_write_effect:
  assumes w: "quote_write cfg dw c order terms ttlMs at db = Inr (db', cg)" and constraints: "order_constraints db"
    and row: "ow_order (view db (co_id order)) = Some order" and s: "co_state order \<in> {CoRequested, CoQuoted}"
  shows "step_at ns (co_id order) db db'"
proof -
  let ?k = "co_id order"
  obtain expiresAt sealed where parts: "commissionQuoteExpiry (co_createdAt order) at ttlMs = Inr expiresAt"
      "encryptCommissionTerms (oc_platform cfg) (oc_keyring cfg) (dw_nonce dw) ''commission_quote_revisions'' (dw_id dw 1) terms = Inr sealed"
    using w unfolding quote_write_def by (auto simp: result_iffs simp del: One_nat_def)
  let ?f = "\<lambda>o1. o1\<lparr>co_state := CoQuoted, co_version := co_version order + 1, co_currentQuoteId := Some (dw_id dw 1),
          co_expiresAt := Some expiresAt, co_updatedAt := at\<rparr>"
  let ?db1 = "db\<lparr>od_quotes := od_quotes db @ [new_quote dw c order sealed (latest_quote_number (co_id order) db + 1) expiresAt at]\<rparr>"
  let ?db2 = "?db1\<lparr>od_orders := rows_update (\<lambda>o1. co_id o1 = ?k \<and> True) ?f (od_orders ?db1)\<rparr>"
  have found: "List.find (\<lambda>o1. co_id o1 = ?k \<and> True) (od_orders ?db1) = Some order"
    using row by (simp add: view_def)
  have "record_change cfg dw (?f order) (Some (cmd_actor c)) (cmd_requestId c) None ?db2 = Inr db'"
    using w found parts unfolding quote_write_def by (auto simp: result_iffs update_order_Inr simp del: One_nat_def)
  then obtain e au ob where e: "event_of (?f order) e" "db' = ?db2\<lparr>od_events := od_events ?db2 @ [e], od_audit := au, od_outbox := ob\<rparr>" "order_constraints db'"
    by (rule record_change_effect)
  show ?thesis
  proof (rule plain_step [where p = "\<lambda>_. True" and f = ?f, OF e(3) row])
    show "order_move (view db ?k) (view db' ?k)"
      if "advance (view db ?k) (view db' ?k) order (?f order)" "ow_reservation (view db' ?k) = ow_reservation (view db ?k)"
        "ow_terms (view db' ?k) = ow_terms (view db ?k)"
      by (rule move_quoted [OF that(1) s _ _ that(2)]) (use that(3) in \<open>simp_all add: same_terms_def kept_rest_def view_def e(2)\<close>)
  qed (use e in \<open>simp_all add: e(2) view_def\<close>)
qed

lemma quote_effect:
  assumes "quote_apply cfg ports dw c terms ttlMs db = Inr (db', cg)" and constraints: "order_constraints db"
  shows "step_at ns (xc_orderId c) db db'"
proof -
  obtain order at where o1: "owned (xc_orderId c) (cmd_actor c) db = Inr order" and s: "co_state order \<in> {CoRequested, CoQuoted}"
    and w: "quote_write cfg dw (order_command.truncate c) order terms ttlMs at db = Inr (db', cg)"
    using assms(1) unfolding quote_apply_def Let_def by (auto simp: result_iffs)
  show ?thesis
    using quote_write_effect [OF w constraints _ s] owned_view [OF o1 constraints] by simp
qed

subsection \<open>Submitting\<close>

lemma final_open_iff: "submission_final_open t \<longleftrightarrow> (\<exists>r \<in> set t. cs_kind r = FinalSubmission \<and> cs_response r = None)"
  by (auto simp: submission_final_open_def filter_empty_conv open_submission_def)

lemma supersede_view:
  "filter (\<lambda>r. cs_orderId r = j) (supersede k at t) =
     (if j = k then supersede k at (filter (\<lambda>r. cs_orderId r = j) t) else filter (\<lambda>r. cs_orderId r = j) t)"
proof -
  have "filter (\<lambda>r. cs_orderId r = j) (supersede k at t) = supersede k at (filter (\<lambda>r. cs_orderId r = j) t)"
    unfolding supersede_def by (rule filter_rows_update) simp
  moreover have "supersede k at (filter (\<lambda>r. cs_orderId r = j) t) = filter (\<lambda>r. cs_orderId r = j) t" if "j \<noteq> k"
    unfolding supersede_def by (rule rows_update_noop) (use that in auto)
  ultimately show ?thesis by simp
qed

lemma supersede_final: "submission_final_open (supersede k at t) = submission_final_open t"
  by (force simp: final_open_iff supersede_def in_rows_update_iff open_submission_def)

lemma submit_write_effect:
  assumes w: "submit_write cfg ports dw c note fileIds order snapshot at db = Inr (db', cg)" and constraints: "order_constraints db"
    and row: "ow_order (view db (co_id order)) = Some order" and s: "co_state order = CoInProgress"
  shows "step_at ns (co_id order) db db'"
proof -
  let ?k = "co_id order"
  obtain ne db2 db3 where new: "db2 = db\<lparr>od_submissions := supersede ?k at (od_submissions db) @ [new_submission c (dw_id dw 1) order ne at]\<rparr>"
      "order_constraints db2"
    and ev: "\<exists>k c x. order_event cfg k c x db2 = Inr db3"
    and last: "(if sm_kind c = FinalSubmission then deliver cfg dw c order snapshot at db3 else Inr db3) = Inr db'"
    using w unfolding submit_write_def
    by (simp only: result_iffs new_id_Inr save_Inr) (clarsimp simp del: One_nat_def, blast)
  from ev obtain ob where db3: "db3 = db2\<lparr>od_outbox := ob\<rparr>" using order_event_Inr by blast
  have subs: "ow_submissions (view db3 j) = (if j = ?k then supersede ?k at (ow_submissions (view db j)) @ [new_submission c (dw_id dw 1) order ne at]
      else ow_submissions (view db j))" for j
    by (simp add: view_def db3 new(1) supersede_view new_submission_def)
  have same: "od_orders db3 = od_orders db" "od_reservations db3 = od_reservations db" "od_events db3 = od_events db" "od_terms db3 = od_terms db"
    by (simp_all add: db3 new(1))
  show ?thesis
  proof (cases "sm_kind c = FinalSubmission")
    case False
    then have db': "db' = db3" and draft: "cs_kind (new_submission c (dw_id dw 1) order ne at) \<noteq> FinalSubmission"
      using last by (simp_all add: new_submission_def)
    have others: "view db' j = view db j" if "j \<noteq> ?k" for j
      using that subs [of j] same by (intro view_eqI) (simp_all add: db' view_def)
    have mine: "view db' ?k = (view db ?k)\<lparr>ow_submissions := ow_submissions (view db' ?k)\<rparr>"
      using same by (intro view_eqI) (simp_all add: db' view_def)
    have "submission_final_open (ow_submissions (view db' ?k)) = submission_final_open (ow_submissions (view db ?k))"
      using draft supersede_final [of ?k at "ow_submissions (view db ?k)"]
      by (simp add: db' subs) (auto simp: final_open_iff)
    then have "order_move (view db ?k) (view db' ?k)"
      by (rule move_drafted [OF row s mine])
    then show ?thesis
      using others new(2) same(2) by (simp add: step_at_def within_same db' db3)
  next
    case True
    then obtain reviewEndsAt where "commissionReviewEndsAt at (pt_reviewWindowDays snapshot) = Inr reviewEndsAt"
      using last by (auto simp: deliver_def result_iffs)
    note r = this
    let ?f = "\<lambda>o1. o1\<lparr>co_state := CoDelivered, co_deliveredAt := Some at, co_reviewEndsAt := Some reviewEndsAt,
          co_version := co_version order + 1, co_updatedAt := at\<rparr>"
    let ?db4 = "db3\<lparr>od_orders := rows_update (\<lambda>o1. co_id o1 = ?k \<and> same_version order o1) ?f (od_orders db3)\<rparr>"
    have p: "same_version order order" by (simp add: same_version_def)
    have found: "List.find (\<lambda>o1. co_id o1 = ?k \<and> same_version order o1) (od_orders db3) = Some order"
      using found_order [where p = "same_version order", OF constraints row p] by (simp add: same)
    have "record_change cfg dw (?f order) (Some (cmd_actor c)) (cmd_requestId c) None ?db4 = Inr db'"
      using last True found r by (auto simp: deliver_def result_iffs update_order_Inr)
    then obtain e au obx where e: "event_of (?f order) e" "db' = ?db4\<lparr>od_events := od_events ?db4 @ [e], od_audit := au, od_outbox := obx\<rparr>" "order_constraints db'"
      by (rule record_change_effect)
    have subs': "ow_submissions (view db' j) = ow_submissions (view db3 j)" for j
      by (simp add: view_def e(2))
    have open_final: "submission_final_open (ow_submissions (view db' ?k))"
      by (simp add: subs' subs) (simp add: final_open_iff new_submission_def True)
    show ?thesis
    proof (rule plain_step [where p = "same_version order" and f = ?f, OF e(3) row p])
      show "order_move (view db ?k) (view db' ?k)"
        if "advance (view db ?k) (view db' ?k) order (?f order)" "ow_reservation (view db' ?k) = ow_reservation (view db ?k)"
          "ow_terms (view db' ?k) = ow_terms (view db ?k)"
        by (rule move_delivered [OF that(1) s _ _ _ _ that(2,3) open_final]) (simp_all add: same_terms_def)
    qed (use e subs subs' in \<open>simp_all add: e(2) same\<close>)
  qed
qed

lemma submit_effect:
  assumes "submit_apply cfg ports dw c note fileIds db = Inr (db', cg)" and constraints: "order_constraints db"
  shows "step_at ns (xc_orderId c) db db'"
proof -
  obtain order snapshot at where o1: "owned (xc_orderId c) (cmd_actor c) db = Inr order" and s: "co_state order = CoInProgress"
    and w: "submit_write cfg ports dw c note fileIds order snapshot at db = Inr (db', cg)"
    using assms(1) unfolding submit_apply_def by (auto simp: result_iffs)
  show ?thesis
    using submit_write_effect [OF w constraints _ s] owned_view [OF o1 constraints] by simp
qed

subsection \<open>Answering\<close>

lemma open_final_unique:
  assumes "submissions_ok t" "r \<in> set t" "r' \<in> set t" "open_submission FinalSubmission r" "open_submission FinalSubmission r'"
    "cs_orderId r = cs_orderId r'"
  shows "r = r'"
  using assms distinct_key_eq [of cs_orderId "filter (open_submission FinalSubmission) t" r r'] by (simp add: submissions_ok_def)

text \<open>Answering the submission \<open>s\<close>: only its row changes, and a final one is no longer open.\<close>

lemma answered_submissions:
  assumes constraints: "order_constraints db" and s: "s \<in> set (od_submissions db)" "cs_orderId s = k" "cs_response s = None"
    and rows: "od_submissions db' = rows_update (\<lambda>r. cs_id r = cs_id s \<and> cs_response r = None) (respond_row c response ne at) (od_submissions db)"
  shows "j \<noteq> k \<Longrightarrow> ow_submissions (view db' j) = ow_submissions (view db j)"
    "cs_kind s = DraftSubmission \<Longrightarrow> submission_final_open (ow_submissions (view db' k)) = submission_final_open (ow_submissions (view db k))"
    "cs_kind s = FinalSubmission \<Longrightarrow> \<not> submission_final_open (ow_submissions (view db' k))"
proof -
  have ok: "submissions_ok (od_submissions db)" using constraints by (simp add: order_constraints_def)
  then have only: "r = s" if "r \<in> set (od_submissions db)" "cs_id r = cs_id s" for r
    using that s(1) by (auto simp: submissions_ok_def intro: distinct_key_eq)
  have view': "ow_submissions (view db' i) = rows_update (\<lambda>r. cs_id r = cs_id s \<and> cs_response r = None) (respond_row c response ne at) (ow_submissions (view db i))" for i
    unfolding view_def rows order_view.simps by (rule filter_rows_update) (simp add: respond_row_def)
  show "ow_submissions (view db' j) = ow_submissions (view db j)" if "j \<noteq> k"
    unfolding view' by (rule rows_update_noop) (use that s(2) only in \<open>auto simp: view_def\<close>)
  show "submission_final_open (ow_submissions (view db' k)) = submission_final_open (ow_submissions (view db k))" if "cs_kind s = DraftSubmission"
  proof -
    have "cs_kind r = DraftSubmission" if "r \<in> set (ow_submissions (view db k))" "cs_id r = cs_id s" for r
      using only [of r] that \<open>cs_kind s = DraftSubmission\<close> by (auto simp: view_def)
    then show ?thesis
      unfolding view' by (fastforce simp: final_open_iff in_rows_update_iff respond_row_def)
  qed
  show "\<not> submission_final_open (ow_submissions (view db' k))" if "cs_kind s = FinalSubmission"
  proof -
    have "r = s" if "r \<in> set (ow_submissions (view db k))" "cs_kind r = FinalSubmission" "cs_response r = None" for r
      using open_final_unique [OF ok _ s(1), of r] that s(2,3) \<open>cs_kind s = FinalSubmission\<close> by (auto simp: view_def open_submission_def)
    note mine = this
    have False if r: "r \<in> set (ow_submissions (view db' k))" "cs_kind r = FinalSubmission" "cs_response r = None" for r
    proof -
      let ?p = "\<lambda>r. cs_id r = cs_id s \<and> cs_response r = None"
      obtain r0 where r0: "r0 \<in> set (ow_submissions (view db k))" "r = (if ?p r0 then respond_row c response ne at r0 else r0)"
        using r(1) unfolding view' by (auto simp: in_rows_update_iff)
      have "\<not> ?p r0"
      proof
        assume "?p r0"
        then have "r = respond_row c response ne at r0" using r0(2) by simp
        then show False using r(3) by (simp add: respond_row_def)
      qed
      then have "r = r0" unfolding r0(2) by (rule if_not_P)
      then have "r0 = s" using r0(1) r(2,3) mine by simp
      then show False using \<open>\<not> ?p r0\<close> s(3) by simp
    qed
    then show ?thesis by (auto simp: final_open_iff)
  qed
qed

lemma respond_write_effect:
  assumes w: "respond_write cfg dw c note order s guardUntil at db = Inr (db', cg)" and constraints: "order_constraints db"
    and row: "ow_order (view db (co_id order)) = Some order" and s: "s \<in> set (od_submissions db)" "cs_orderId s = co_id order"
    and able: "answerable order s (rc_answer c)" and answer: "rc_answer c \<noteq> AcceptFinal"
  shows "step_at ns (co_id order) db db'"
proof -
  let ?k = "co_id order"
  let ?response = "if rc_answer c = ApproveDraft then Approved else ChangesRequested"
  have none: "cs_response s = None" using able by (simp add: answerable_def)
  obtain snapshot ne db1 db2 where tm: "ow_terms (view db ?k) = Some snapshot"
    and room: "\<not> (rc_answer c = RequestChanges \<and> pt_revisionAllowance snapshot \<le> co_revisionsUsed order)"
    and db1: "db1 = db\<lparr>od_submissions := rows_update (\<lambda>r. cs_id r = cs_id s \<and> cs_response r = None) (respond_row c ?response ne at) (od_submissions db)\<rparr>"
      "order_constraints db1"
    and again: "(if ?response = ChangesRequested then reopen cfg dw c order s at db1 else Inr db1) = Inr db2"
    and ev: "\<exists>k c x. order_event cfg k c x db2 = Inr db'"
    using w unfolding respond_write_def Let_def
    by (simp only: result_iffs demand_Inr check_Inr save_Inr find_terms_view) blast
  from ev obtain obx where db': "db' = db2\<lparr>od_outbox := obx\<rparr>" using order_event_Inr by blast
  note subs = answered_submissions [OF constraints s none, of db1 c ?response ne at]
  have rows: "od_submissions db1 = rows_update (\<lambda>r. cs_id r = cs_id s \<and> cs_response r = None) (respond_row c ?response ne at) (od_submissions db)"
    by (simp add: db1(1))
  have same: "od_orders db1 = od_orders db" "od_reservations db1 = od_reservations db" "od_events db1 = od_events db" "od_terms db1 = od_terms db"
    by (simp_all add: db1(1))
  show ?thesis
  proof (cases "rc_answer c")
    case ApproveDraft
    then have db2: "db2 = db1" and draft: "cs_kind s = DraftSubmission" "co_state order = CoInProgress"
      using again able by (auto simp: answerable_def split: if_splits)
    have others: "view db1 j = view db j" if "j \<noteq> ?k" for j
      using subs(1) [OF rows that] same by (intro view_eqI) (simp_all add: view_def)
    have mine: "view db1 ?k = (view db ?k)\<lparr>ow_submissions := ow_submissions (view db1 ?k)\<rparr>"
      using same by (intro view_eqI) (simp_all add: view_def)
    have "order_move (view db ?k) (view db1 ?k)"
      by (rule move_drafted [OF row draft(2) mine subs(2) [OF rows draft(1)]])
    then have "step_at ns ?k db db1"
      using others db1(2) same(2) by (simp add: step_at_def within_same)
    then show ?thesis
      by (rule step_at_frame) (use db1(2) in \<open>simp_all add: db' db2 same_orders_def\<close>)
  next
    case RequestChanges
    let ?f = "\<lambda>o1. o1\<lparr>co_state := CoInProgress, co_revisionsUsed := co_revisionsUsed order + 1, co_deliveredAt := None,
          co_reviewEndsAt := None, co_completionFloorAt := None, co_version := co_version order + 1, co_updatedAt := at\<rparr>"
    let ?db3 = "db1\<lparr>od_orders := rows_update (\<lambda>o1. co_id o1 = ?k \<and> same_version order o1) ?f (od_orders db1)\<rparr>"
    have p: "same_version order order" by (simp add: same_version_def)
    have found: "List.find (\<lambda>o1. co_id o1 = ?k \<and> same_version order o1) (od_orders db1) = Some order"
      using found_order [where p = "same_version order", OF constraints row p] by (simp add: same)
    have "\<exists>reason. record_change cfg dw (?f order) (Some (cmd_actor c)) (cmd_requestId c) reason ?db3 = Inr db2"
      using again RequestChanges found by (auto simp: reopen_def result_iffs update_order_Inr)
    then obtain e au ob where e: "event_of (?f order) e" "db2 = ?db3\<lparr>od_events := od_events ?db3 @ [e], od_audit := au, od_outbox := ob\<rparr>" "order_constraints db2"
      using record_change_effect by blast
    have subs2: "ow_submissions (view db2 j) = ow_submissions (view db1 j)" for j
      by (simp add: view_def e(2))
    have state: "co_state order = (if cs_kind s = DraftSubmission then CoInProgress else CoDelivered)"
      using able by (simp add: answerable_def split: if_splits)
    have others: "\<forall>j. j \<noteq> ?k \<longrightarrow> ow_submissions (view db2 j) = ow_submissions (view db j)"
      using subs(1) [OF rows] by (simp add: subs2)
    have "step_at ns ?k db db2"
    proof (rule plain_step [where p = "same_version order" and f = ?f, OF e(3) row p _ _ _ _ _ _ _ others])
      show "order_move (view db ?k) (view db2 ?k)"
        if "advance (view db ?k) (view db2 ?k) order (?f order)" "ow_reservation (view db2 ?k) = ow_reservation (view db ?k)"
          "ow_terms (view db2 ?k) = ow_terms (view db ?k)"
      proof (rule move_reopened [OF that(1) _ _ _ _ tm _ _ that(2,3)])
        show "co_state order = CoInProgress \<longrightarrow> submission_final_open (ow_submissions (view db2 ?k)) = submission_final_open (ow_submissions (view db ?k))"
          using subs(2) [OF rows] state by (simp add: subs2 split: if_splits)
        show "co_state order = CoDelivered \<longrightarrow> \<not> submission_final_open (ow_submissions (view db2 ?k))"
          using subs(3) [OF rows] state by (cases "cs_kind s") (simp_all add: subs2)
      qed (use room RequestChanges in \<open>simp_all add: same_terms_def state\<close>)
    qed (use e in \<open>simp_all add: e(2) same\<close>)
    then show ?thesis
      by (rule step_at_frame) (use e(3) in \<open>simp_all add: db' same_orders_def\<close>)
  qed (use answer in simp)
qed

lemma respond_effect:
  assumes "respond_apply cfg ports dw c note db = Inr (db', cg)" and constraints: "order_constraints db"
  shows "step_at ns (xc_orderId c) db db'"
proof -
  obtain order s where o1: "owned (xc_orderId c) (cmd_actor c) db = Inr order"
    and found: "List.find (\<lambda>s. cs_orderId s = co_id order \<and> cs_id s = rc_submissionId c) (od_submissions db) = Some s"
    and able: "answerable order s (rc_answer c)"
    and w: "(\<exists>at g x. rc_answer c = AcceptFinal \<and> completeCommissionOrder cfg dw order BuyerAccepted (Some (cmd_actor c)) (cmd_requestId c) at db = Inr (db', x)) \<or>
      (\<exists>at g. rc_answer c \<noteq> AcceptFinal \<and> respond_write cfg dw c note order s g at db = Inr (db', cg))"
    using assms(1) unfolding respond_apply_def Let_def by (auto simp: result_iffs split: if_splits) blast+
  have s: "s \<in> set (od_submissions db)" "cs_orderId s = co_id order"
    using find_Some_in [OF found] by simp_all
  have row: "ow_order (view db (co_id order)) = Some order" "co_id order = xc_orderId c"
    using owned_view [OF o1 constraints] by simp_all
  from w have "step_at ns (co_id order) db db'"
    using complete_effect [OF _ constraints row(1)] respond_write_effect [OF _ constraints row(1) s able] by blast
  then show ?thesis by (simp add: row(2))
qed

subsection \<open>Accepting and requesting\<close>

lemma acceptance_Inr:
  "acceptance dw n order role a at policyRevisionId quoteRevisionId requestId db = Inr db' \<Longrightarrow>
     \<exists>t. db' = db\<lparr>od_acceptances := t\<rparr> \<and> order_constraints db'"
  by (auto simp: acceptance_def result_iffs)

lemma encrypted_amount: "encryptCommissionTerms pf kr nonce rt k terms = Inr sealed \<Longrightarrow> pt_amountVnd sealed = tm_amountVnd terms"
  by (auto simp: encryptCommissionTerms_def result_iffs)

definition new_reservation :: "order_row \<Rightarrow> instant \<Rightarrow> reservation_row" where
  "new_reservation order at =
     \<lparr>cr_orderId = co_id order, cr_creatorUserId = co_creatorUserId order, cr_state = Reserved, cr_reservedAt = at,
      cr_occupiedAt = None, cr_releasedAt = None\<rparr>"

lemma commitTerms_Inr:
  assumes "commitTerms cfg ports dw order data terms buyerAt creatorAt quoteId at db = Inr db'"
  obtains t where "db' = db\<lparr>od_reservations := od_reservations db @ [new_reservation order at], od_terms := od_terms db @ [t]\<rparr>"
    "order_constraints db'" "ct_orderId t = co_id order" "pt_amountVnd t = tm_amountVnd terms"
    "int (capacity_used (co_creatorUserId order) db) < ip_capacityLimit data"
proof -
  from assms obtain sealed where s: "encryptCommissionTerms (oc_platform cfg) (oc_keyring cfg) (\<lambda>n. dw_nonce dw (10 + n))
      ''commission_terms_snapshots'' (co_id order) terms = Inr sealed"
    and r: "int (capacity_used (co_creatorUserId order) db) < ip_capacityLimit data"
    and db': "db' = db\<lparr>od_reservations := od_reservations db @ [new_reservation order at],
       od_terms := od_terms db @ [terms_snapshot order sealed quoteId buyerAt creatorAt at]\<rparr>" "order_constraints db'"
    unfolding commitTerms_def reserve_def new_reservation_def by (simp only: result_iffs check_Inr save_Inr) auto
  show thesis
    by (rule that [OF db'])
      (use r encrypted_amount [OF s] in \<open>simp_all add: terms_snapshot_def private_terms.defs\<close>)
qed

lemma find_appended:
  assumes "distinct (map key (t @ [r]))"
  shows "List.find (\<lambda>x. key x = k) (t @ [r]) = (if key r = k then Some r else List.find (\<lambda>x. key x = k) t)"
proof (cases "key r = k")
  case True
  then have "r \<in> set (t @ [r]) \<and> key r = k" by simp
  then show ?thesis using find_key_iff [OF assms] True by metis
next
  case False
  then show ?thesis by (auto simp: find_append split: option.splits)
qed

text \<open>The reservation and the terms of the order \<open>k\<close>, within the capacity served.\<close>

lemma committed_views:
  assumes db': "od_reservations db' = od_reservations db @ [new_reservation order at]" "od_terms db' = od_terms db @ [t]"
    and constraints: "order_constraints db'" and t: "ct_orderId t = co_id order"
    and room: "int (capacity_used (co_creatorUserId order) db) < ip_capacityLimit data"
    and limit: "\<forall>n \<in> ns. ip_capacityLimit data \<le> int n"
  shows "ow_reservation (view db' j) = (if j = co_id order then Some (new_reservation order at) else ow_reservation (view db j))"
    "ow_terms (view db' j) = (if j = co_id order then Some t else ow_terms (view db j))" "within ns db db'"
proof -
  have keys: "distinct (map cr_orderId (od_reservations db @ [new_reservation order at]))" "distinct (map ct_orderId (od_terms db @ [t]))"
    using order_keys(2,3) [OF constraints] by (simp_all add: db')
  show "ow_reservation (view db' j) = (if j = co_id order then Some (new_reservation order at) else ow_reservation (view db j))"
    by (simp add: view_def db' find_appended [OF keys(1)] del: append_Cons append_Nil) (simp add: new_reservation_def)
  show "ow_terms (view db' j) = (if j = co_id order then Some t else ow_terms (view db j))"
    by (simp add: view_def db' find_appended [OF keys(2)] t)
  have "capacity_used u db' \<le> max (capacity_used u db) n" if "n \<in> ns" for n u
  proof -
    have "capacity_used u db' = capacity_used u db + (if u = co_creatorUserId order then 1 else 0)"
      by (simp add: capacity_used_def db' new_reservation_def)
    moreover have "capacity_used (co_creatorUserId order) db < n"
      using room limit that by fastforce
    ultimately show ?thesis by auto
  qed
  then show "within ns db db'" by (simp add: within_def)
qed

lemma accept_write_effect:
  assumes w: "accept_write cfg ports dw c order data quote_opt terms at db = Inr (db', cg)" and constraints: "order_constraints db"
    and row: "ow_order (view db (co_id order)) = Some order" and s: "co_state order \<in> {CoRequested, CoQuoted}"
    and limit: "\<forall>n \<in> ns. ip_capacityLimit data \<le> int n"
  shows "step_at ns (co_id order) db db'"
proof -
  let ?k = "co_id order"
  obtain expiresAt where expiry: "commissionPaymentExpiry at = Inr expiresAt"
    using w unfolding accept_write_def by (auto simp: result_iffs)
  let ?f = "\<lambda>o1. o1\<lparr>co_state := CoAwaitingPayment, co_version := co_version order + 1, co_acceptedAt := Some at,
          co_amountVnd := Some (tm_amountVnd terms), co_expiresAt := Some expiresAt, co_updatedAt := at\<rparr>"
  let ?a = "?f order"
  let ?db1 = "db\<lparr>od_orders := rows_update (\<lambda>o1. co_id o1 = ?k \<and> True) ?f (od_orders db)\<rparr>"
  have found: "List.find (\<lambda>o1. co_id o1 = ?k \<and> True) (od_orders db) = Some order"
    using row by (simp add: view_def)
  obtain db3 db4 where acc: "\<exists>t. db3 = ?db1\<lparr>od_acceptances := t\<rparr>"
    and com: "\<exists>b1 b2 q. commitTerms cfg ports dw ?a data terms b1 b2 q at db3 = Inr db4"
    and rec: "record_change cfg dw ?a (Some (cmd_actor c)) (cmd_requestId c) None db4 = Inr db'"
    using w found expiry unfolding accept_write_def
    by (auto simp: result_iffs update_order_Inr split: option.splits dest!: acceptance_Inr) blast+
  from acc obtain ac where db3: "db3 = ?db1\<lparr>od_acceptances := ac\<rparr>" ..
  from com obtain t where db4: "db4 = db3\<lparr>od_reservations := od_reservations db3 @ [new_reservation ?a at], od_terms := od_terms db3 @ [t]\<rparr>"
      "order_constraints db4" "ct_orderId t = co_id ?a" "pt_amountVnd t = tm_amountVnd terms"
      "int (capacity_used (co_creatorUserId ?a) db3) < ip_capacityLimit data"
    by (elim exE) (rule commitTerms_Inr)
  obtain e au ob where e: "event_of ?a e" "db' = db4\<lparr>od_events := od_events db4 @ [e], od_audit := au, od_outbox := ob\<rparr>" "order_constraints db'"
    using record_change_effect [OF rec] .
  have tables: "od_reservations db' = od_reservations db @ [new_reservation ?a at]" "od_terms db' = od_terms db @ [t]"
    and orders: "od_orders db' = rows_update (\<lambda>o1. co_id o1 = ?k \<and> True) ?f (od_orders db)"
    and events: "od_events db' = od_events db @ [e]" and subs: "ow_submissions (view db' j) = ow_submissions (view db j)" for j
    by (simp_all add: e(2) db4(1) db3 view_def)
  have room: "int (capacity_used (co_creatorUserId ?a) db) < ip_capacityLimit data"
    using db4(5) by (simp add: db3 capacity_used_def)
  note v = committed_views [OF tables e(3) db4(3) room limit]
  note o1 = order_written [where p = "\<lambda>_. True" and f = ?f, OF row TrueI orders events e(1)]
  have adv: "advance (view db ?k) (view db' ?k) order ?a"
    by (rule advance_written [where p = "\<lambda>_. True", OF row TrueI orders events e(1)]) simp_all
  have "order_move (view db ?k) (view db' ?k)"
    by (rule move_accepted [where r = "new_reservation ?a at" and t = t, OF adv s])
      (use v(1,2) [of ?k] subs db4(4) in \<open>simp_all add: fresh_reservation_def new_reservation_def committed_terms_def\<close>)
  moreover have "view db' j = view db j" if "j \<noteq> ?k" for j
    using that v(1,2) [of j] o1(3) [of j] subs by (intro view_eqI) simp_all
  ultimately show ?thesis
    using e(3) v(3) by (simp add: step_at_def)
qed

lemma accept_effect:
  assumes "accept_apply cfg ports dw c db = Inr (db', cg)" and constraints: "order_constraints db"
  shows "step_at (limits ports) (xc_orderId c) db db'"
proof -
  obtain order data quote_opt terms at where o1: "owned (xc_orderId c) (cmd_actor c) db = Inr order"
    and s: "co_state order \<in> {CoRequested, CoQuoted}" and data: "\<exists>b1 b2. intake cfg ports order b1 b2 = Inr data"
    and w: "accept_write cfg ports dw c order data quote_opt terms at db = Inr (db', cg)"
    using assms(1) unfolding accept_apply_def Let_def
    by (simp only: result_iffs check_Inr) (elim exE conjE, blast)
  have "\<forall>n \<in> limits ports. ip_capacityLimit data \<le> int n"
    using data by (auto simp: limits_def intake_def result_iffs)
  then show ?thesis
    using accept_write_effect [OF w constraints _ s] owned_view [OF o1 constraints] by simp
qed

lemma no_view:
  assumes "order_constraints db" "ow_order (view db k) = None"
  shows "ow_reservation (view db k) = None" "ow_events (view db k) = []" "ow_terms (view db k) = None" "ow_submissions (view db k) = []"
proof -
  have none: "k \<notin> co_id ` set (od_orders db)"
    using assms(2) by (auto simp: view_def find_None_iff)
  have refs: "cr_orderId ` set (od_reservations db) \<subseteq> co_id ` set (od_orders db)" "ce_orderId ` set (od_events db) \<subseteq> co_id ` set (od_orders db)"
    "ct_orderId ` set (od_terms db) \<subseteq> co_id ` set (od_orders db)" "cs_orderId ` set (od_submissions db) \<subseteq> co_id ` set (od_orders db)"
    using assms(1) by (simp_all add: order_constraints_def order_references_ok_def Let_def)
  show "ow_reservation (view db k) = None" "ow_events (view db k) = []" "ow_terms (view db k) = None" "ow_submissions (view db k) = []"
    using none refs by (auto simp: view_def find_None_iff filter_empty_conv)
qed

lemma request_rest_effect:
  assumes w: "request_rest cfg ports dw c brief fileIds data terms immediate order at db1 = Inr (db', cg)"
    and db1: "db1 = db\<lparr>od_orders := od_orders db @ [order]\<rparr>" and constraints: "order_constraints db" "order_constraints db1"
    and order: "co_version order = 1" "co_revisionsUsed order = 0"
      "if immediate then co_state order = CoAwaitingPayment \<and> co_acceptedAt order \<noteq> None \<and> co_amountVnd order = map_option tm_amountVnd terms
       else co_state order = CoRequested \<and> co_acceptedAt order = None"
    and limit: "\<forall>n \<in> ns. ip_capacityLimit data \<le> int n"
  shows "step_at ns (co_id order) db db' \<and> cg_orderId cg = co_id order"
proof -
  let ?k = "co_id order"
  have ids: "distinct (map co_id (od_orders db @ [order]))"
    using order_keys(1) [OF constraints(2)] by (simp add: db1)
  then have none: "ow_order (view db ?k) = None"
    by (auto simp: view_def find_None_iff) (metis image_eqI)
  note empty = no_view [OF constraints(1) none]
  from w obtain b db0 db2 db4 where b: "\<exists>b. db0 = db1\<lparr>od_briefs := b\<rparr>"
    and buyer: "(case terms of None \<Rightarrow> Inr db0
       | Some tm \<Rightarrow> acceptance dw 2 order Buyer (cmd_actor c) at (tm_policyRevisionId tm) None (cmd_requestId c) db0) = Inr db2"
    and creator: "(if \<not> immediate then Inr db2
       else await (orThrow terms (OtherError ''TypeError'')) (\<lambda>tm.
         let revision = ip_revision data in
         await (acceptance dw 3 order Creator \<lparr>ak_userId = co_creatorUserId order, ak_sessionId = pr_actorSessionId revision\<rparr>
           (pr_publishedAt revision) (tm_policyRevisionId tm) None (pr_requestId revision) db2) (\<lambda>db3.
         commitTerms cfg ports dw order data tm at (pr_publishedAt revision) None at db3))) = Inr db4"
    and rec: "record_change cfg dw order (Some (cmd_actor c)) (cmd_requestId c) None db4 = Inr db'" and cg: "cg_orderId cg = ?k"
    unfolding request_rest_def by (simp only: result_iffs save_Inr sum.inject) (elim exE conjE, force)
  from buyer have db2: "db2 = db0 \<or> (\<exists>ac. db2 = db0\<lparr>od_acceptances := ac\<rparr>)"
    by (auto split: option.splits dest!: acceptance_Inr)
  obtain e au ob where e: "event_of order e" "db' = db4\<lparr>od_events := od_events db4 @ [e], od_audit := au, od_outbox := ob\<rparr>" "order_constraints db'"
    using record_change_effect [OF rec] .
  have same2: "od_orders db2 = od_orders db @ [order]" "od_reservations db2 = od_reservations db" "od_events db2 = od_events db"
      "od_terms db2 = od_terms db" "od_submissions db2 = od_submissions db"
    using b db2 by (auto simp: db1)
  have ek: "ce_orderId e = ?k" "ce_orderVersion e = co_version order" "ce_type e = co_state order"
    using e(1) by (simp_all add: event_of_def)
  have common: "ow_order (view db' j) = (if j = ?k then Some order else ow_order (view db j))"
      "ow_events (view db' j) = (if j = ?k then ow_events (view db j) @ [e] else ow_events (view db j))"
      "ow_submissions (view db' j) = ow_submissions (view db j)"
    if "od_orders db4 = od_orders db @ [order]" "od_events db4 = od_events db" "od_submissions db4 = od_submissions db" for j
    using find_appended [OF ids, of j] ek that by (simp_all add: view_def e(2))
  have step: "step_at ns ?k db db'"
  proof (cases immediate)
    case False
    then have db4: "db4 = db2" using creator by simp
    note o1 = common [unfolded db4, OF same2(1,3,5)]
    have same: "ow_reservation (view db' j) = ow_reservation (view db j)" "ow_terms (view db' j) = ow_terms (view db j)" for j
      by (simp_all add: view_def e(2) db4 same2)
    have "order_move (view db ?k) (view db' ?k)"
      by (rule move_requested [where ?o2.0 = order and e = e, OF none])
        (use o1 same order False ek in \<open>simp_all add: kept_rest_def\<close>)
    moreover have "view db' j = view db j" if "j \<noteq> ?k" for j
      using that o1 same by (intro view_eqI) simp_all
    ultimately show ?thesis
      using e(3) by (simp add: step_at_def within_same e(2) db4 same2)
  next
    case True
    then obtain tm db3 where tm: "terms = Some tm" and acc: "\<exists>ac. db3 = db2\<lparr>od_acceptances := ac\<rparr>"
      and com: "\<exists>b1 b2 q. commitTerms cfg ports dw order data tm b1 b2 q at db3 = Inr db4"
      using creator by (auto simp: result_iffs Let_def dest!: acceptance_Inr) blast
    have same3: "od_orders db3 = od_orders db @ [order]" "od_reservations db3 = od_reservations db" "od_events db3 = od_events db"
        "od_terms db3 = od_terms db" "od_submissions db3 = od_submissions db"
      using acc same2 by auto
    from com obtain t where db4: "db4 = db3\<lparr>od_reservations := od_reservations db3 @ [new_reservation order at], od_terms := od_terms db3 @ [t]\<rparr>"
        "order_constraints db4" "ct_orderId t = ?k" "pt_amountVnd t = tm_amountVnd tm"
        "int (capacity_used (co_creatorUserId order) db3) < ip_capacityLimit data"
      by (elim exE) (rule commitTerms_Inr)
    have tables: "od_reservations db' = od_reservations db @ [new_reservation order at]" "od_terms db' = od_terms db @ [t]"
      by (simp_all add: e(2) db4(1) same3)
    have room: "int (capacity_used (co_creatorUserId order) db) < ip_capacityLimit data"
      using db4(5) by (simp add: same3 capacity_used_def)
    note v = committed_views [OF tables e(3) db4(3) room limit]
    have o1: "ow_order (view db' j) = (if j = ?k then Some order else ow_order (view db j))"
      "ow_events (view db' j) = (if j = ?k then ow_events (view db j) @ [e] else ow_events (view db j))"
      "ow_submissions (view db' j) = ow_submissions (view db j)" for j
      using common [of j] by (simp_all add: db4(1) same3)
    have "order_move (view db ?k) (view db' ?k)"
      by (rule move_committed [where ?o2.0 = order and e = e and r = "new_reservation order at" and t = t, OF none])
        (use o1 v(1,2) [of ?k] order True tm db4(4) ek in \<open>simp_all add: fresh_reservation_def new_reservation_def committed_terms_def\<close>)
    moreover have "view db' j = view db j" if "j \<noteq> ?k" for j
      using that o1 v(1,2) [of j] by (intro view_eqI) simp_all
    ultimately show ?thesis
      using e(3) v(3) by (simp add: step_at_def)
  qed
  with cg show ?thesis by simp
qed

lemma request_effect:
  assumes "request_apply cfg ports dw c brief fileIds db = Inr (db', cg)" and constraints: "order_constraints db"
  shows "step_at (limits ports) (cg_orderId cg) db db'"
proof -
  obtain creatorUserId orderId route amount expiresAt at data terms immediate
    where data: "\<exists>a b i. op_intakePackage ports a b False i = Inr data"
    and amount: "(if immediate then await (orThrow terms (OtherError ''TypeError'')) (\<lambda>tm. Inr (Some (tm_amountVnd tm))) else Inr None) = Inr amount"
    and ok: "order_constraints (db\<lparr>od_orders := od_orders db @ [new_order c orderId creatorUserId route amount expiresAt at]\<rparr>)"
    and w: "request_rest cfg ports dw c brief fileIds data terms immediate (new_order c orderId creatorUserId route amount expiresAt at) at
        (db\<lparr>od_orders := od_orders db @ [new_order c orderId creatorUserId route amount expiresAt at]\<rparr>) = Inr (db', cg)"
    using assms(1) unfolding request_apply_def Let_def
    by (simp only: result_iffs check_Inr save_Inr split_beta) (elim exE conjE, blast)
  have "\<forall>n \<in> limits ports. ip_capacityLimit data \<le> int n"
    using data by (auto simp: limits_def)
  from request_rest_effect [OF w refl constraints ok _ _ _ this] show ?thesis
    using amount by (auto simp: new_order_def result_iffs split: if_splits)
qed

lemma claim_effect:
  assumes "claim_apply cfg ports dw c db = Inr (db', cg)" and constraints: "order_constraints db"
  shows "step_at ns k db db'"
proof -
  have "db' = db \<or> (\<exists>claimId claimedAt at k. claim_records cfg dw (order_command.truncate c) k claimId claimedAt at db = Inr db')"
    using assms(1) unfolding claim_apply_def Let_def by (auto simp: result_iffs split: if_splits prod.splits)
  then have "same_orders db db' \<and> order_constraints db'"
    using constraints by (auto simp: claim_records_def result_iffs same_orders_def dest!: order_audit_Inr order_event_Inr)
  then show ?thesis by (simp add: step_at_same)
qed

lemma close_apply_effect:
  assumes "close_apply cfg ports dw c db = Inr (db', cg)" and constraints: "order_constraints db"
  shows "step_at ns (xc_orderId c) db db'"
proof -
  obtain order reason a at r x where o1: "owned (xc_orderId c) (cmd_actor c) db = Inr order"
    and w: "closeOrder cfg ports dw order reason a r at db = Inr (db', x)"
    using assms(1) unfolding close_apply_def Let_def by (auto simp: result_iffs)
  show ?thesis
    using close_effect [OF w constraints] owned_view [OF o1 constraints] by simp
qed

subsection \<open>Commands\<close>

lemma begin_order_Inr: "begin_order_command cfg dw c scope payload db = Inr (db0, started) \<Longrightarrow> \<exists>t. db0 = db\<lparr>od_idem := t\<rparr>"
  by (auto simp: begin_order_command_def Let_def result_iffs)

lemma finish_order_Inr:
  "finish_order_command cfg ports dw c scope recordId e changed db = Inr (db', k) \<Longrightarrow> k = cg_orderId changed \<and> (\<exists>t. db' = db\<lparr>od_idem := t\<rparr>)"
  by (auto simp: finish_order_command_def Let_def result_iffs)

text \<open>A command is a replay, which changes no order, or one application of its change.\<close>

lemma mutate_effect:
  assumes "mutate cfg ports dw c scope payload creator apply_change db = Inr (db', k)" and constraints: "order_constraints db"
  obtains (replayed) t where "db' = db\<lparr>od_idem := t\<rparr>"
  | (applied) t db1 changed t' where "apply_change (db\<lparr>od_idem := t\<rparr>) = Inr (db1, changed)" "db' = db1\<lparr>od_idem := t'\<rparr>" "k = cg_orderId changed"
proof -
  have "mutate_transaction cfg ports dw c scope payload creator apply_change db = Inr (db', k)"
    using assms(1) by (simp add: mutate_def boundary_Inr result_iffs)
  then obtain db0 started where b: "begin_order_command cfg dw c scope payload db = Inr (db0, started)"
    and run: "await (check (case started of Acquired _ \<Rightarrow> True | Replay _ _ \<Rightarrow> True | _ \<Rightarrow> False) IdempotencyConflict) (\<lambda>_.
     await (creator db0) (\<lambda>_.
     await (session ports (cmd_actor c) (dw_clock dw 1)) (\<lambda>sessionExpiresAt.
     case started of
       Replay _ ref \<Rightarrow>
         await (owned ref (cmd_actor c) db0) (\<lambda>_.
         await (check (dw_clock dw 2 < sessionExpiresAt) NotAuthorized) (\<lambda>_.
         await (op_authorizeCommand ports (cmd_actor c)) (\<lambda>_. Inr (db0, ref))))
     | Acquired recordId \<Rightarrow>
         await (apply_change db0) (\<lambda>(db1, changed).
         finish_order_command cfg ports dw c scope recordId sessionExpiresAt changed db1)
     | _ \<Rightarrow> Inl (CommissionError IdempotencyConflict)))) = Inr (db', k)"
    unfolding mutate_transaction_def by (simp only: await_Inr_iff [of "begin_order_command _ _ _ _ _ _"] split_paired_Ex prod.case) blast
  have r: "db0 = db' \<or> (\<exists>recordId e db1 changed. apply_change db0 = Inr (db1, changed) \<and>
        finish_order_command cfg ports dw c scope recordId e changed db1 = Inr (db', k))"
    using run by (cases started) (auto simp: result_iffs)
  obtain t where t: "db0 = db\<lparr>od_idem := t\<rparr>" using begin_order_Inr [OF b] ..
  from r show thesis
  proof
    assume "db0 = db'"
    then show thesis using t replayed by blast
  next
    assume "\<exists>recordId e db1 changed. apply_change db0 = Inr (db1, changed) \<and>
        finish_order_command cfg ports dw c scope recordId e changed db1 = Inr (db', k)"
    then show thesis using t applied finish_order_Inr by blast
  qed
qed

lemma mutate_step:
  assumes m: "mutate cfg ports dw c scope payload creator apply_change db = Inr (db', k)" and constraints: "order_constraints db"
    and apply_step: "\<And>db0 db1 changed. apply_change db0 = Inr (db1, changed) \<Longrightarrow> order_constraints db0 \<Longrightarrow> \<exists>j. step_at ns j db0 db1"
  shows "\<exists>j. step_at ns j db db'"
  using m constraints
proof (cases rule: mutate_effect)
  case (replayed t)
  then show ?thesis using constraints by (intro exI, intro step_at_same) (simp_all add: same_orders_def)
next
  case (applied t db1 changed t')
  then obtain j where j: "step_at ns j (db\<lparr>od_idem := t\<rparr>) db1"
    using apply_step [OF applied(1)] constraints by auto
  then have "step_at ns j db db'"
    by (rule step_at_frame) (use j in \<open>simp_all add: applied(2) same_orders_def step_at_def\<close>)
  then show ?thesis ..
qed

end
