(* ===== verification/OrderInvariants.thy ===== *)
theory OrderInvariants
  imports OrderEffects
begin

text \<open>
  The orders as a transition system: a step is any command, settlement, resolution or maintenance job,
  in any order and interleaving. One invariant per view ties an order to its reservation, its
  timeline, its terms and its submissions; it is proved once per kind of move.
\<close>

subsection \<open>The steps\<close>

text \<open>\<open>P\<close> restricts the answers of the other services; most properties take all of them.\<close>

inductive order_step :: "(order_ports \<Rightarrow> bool) \<Rightarrow> ord_db \<Rightarrow> ord_db \<Rightarrow> bool" for P where
  step_request: "P ports \<Longrightarrow> request cfg ports dw rc db = Inr (db', k) \<Longrightarrow> order_step P db db'"
| step_quote: "P ports \<Longrightarrow> quote cfg ports dw xc terms ttlMs db = Inr (db', k) \<Longrightarrow> order_step P db db'"
| step_accept: "P ports \<Longrightarrow> accept cfg ports dw ac db = Inr (db', k) \<Longrightarrow> order_step P db db'"
| step_close: "P ports \<Longrightarrow> close cfg ports dw xc db = Inr (db', k) \<Longrightarrow> order_step P db db'"
| step_claim: "P ports \<Longrightarrow> claimTransfer cfg ports dw xc db = Inr (db', k) \<Longrightarrow> order_step P db db'"
| step_submit: "P ports \<Longrightarrow> submit cfg ports dw sc db = Inr (db', k) \<Longrightarrow> order_step P db db'"
| step_respond: "P ports \<Longrightarrow> respondToSubmission cfg ports dw pc db = Inr (db', k) \<Longrightarrow> order_step P db db'"
| step_confirm: "confirmPayment dw locked c db = Inr (db', ok) \<Longrightarrow> order_step P db db'"
| step_resolve_close: "resolution_closePaidOrder cfg dw c1 reason db = Inr (db', v) \<Longrightarrow> order_step P db db'"
| step_resolve_complete: "completeByResolution cfg dw c1 kind db = Inr (db', v) \<Longrightarrow> order_step P db db'"
| step_restore: "restoreReviewTime cfg dw c1 floorAt db = Inr (db', v) \<Longrightarrow> order_step P db db'"
| step_expire: "P ports \<Longrightarrow> expireDue cfg ports dws now limit db = (db', r1) \<Longrightarrow> order_step P db db'"
| step_invalidate: "P ports \<Longrightarrow> recoverInvalidations cfg ports dws limit afterId db = (db', r2) \<Longrightarrow> order_step P db db'"
| step_mode: "observeFulfillmentMode dw enabled db = Inr (db', m) \<Longrightarrow> order_step P db db'"
| step_complete: "P ports \<Longrightarrow> completeDue cfg ports dws now limit afterKey db = (db', r3) \<Longrightarrow> order_step P db db'"

text \<open>A database before the first order; the policies may be any.\<close>

definition no_orders :: "ord_db \<Rightarrow> bool" where
  "no_orders db \<longleftrightarrow>
     od_orders db = [] \<and> od_reservations db = [] \<and> od_events db = [] \<and> od_submissions db = [] \<and> od_quotes db = [] \<and>
     od_terms db = [] \<and> od_acceptances db = [] \<and> od_briefs db = [] \<and> od_pauses db = []"

lemma no_orders_constraints: "no_orders db \<Longrightarrow> order_constraints db"
  by (simp add: no_orders_def order_constraints_def order_references_ok_def orders_ok_def reservations_ok_def events_ok_def
    submissions_ok_def quotes_ok_def snapshots_ok_def acceptances_ok_def pauses_ok_def)

subsection \<open>A step is a sequence of moves\<close>

definition moved :: "nat set \<Rightarrow> ord_db \<Rightarrow> ord_db \<Rightarrow> bool" where
  "moved ns db db' \<longleftrightarrow> (\<exists>k. step_at ns k db db')"

lemma step_at_limit: "step_at ns k db db' \<Longrightarrow> ms \<subseteq> ns \<Longrightarrow> step_at ms k db db'"
  by (auto simp: step_at_def within_def)

lemma moved_constraints: "moved ns db db' \<Longrightarrow> order_constraints db'"
  by (auto simp: moved_def step_at_def)

lemma moves_constraints: "rtranclp (moved ns) db db' \<Longrightarrow> order_constraints db \<Longrightarrow> order_constraints db'"
  by (induction rule: rtranclp_induct) (auto dest: moved_constraints)

lemma expire_one_step:
  assumes "expire_one cfg ports dw k db = Inr (db', n)" "order_constraints db"
  shows "step_at ns k db db'"
proof -
  have "db' = db \<or> (\<exists>order reason r at x. ow_order (view db k) = Some order \<and> closeOrder cfg ports dw order reason None r at db = Inr (db', x))"
    using assms(1) by (auto simp: expire_one_def Let_def result_iffs find_order_view split: option.splits if_splits)
  then show ?thesis
    using assms(2) close_effect [OF _ assms(2)] step_at_same [OF same_orders_refl] by (metis view_order_id)
qed

lemma invalidate_one_step:
  assumes "invalidate_one cfg ports dw k db = Inr (db', n)" "order_constraints db"
  shows "step_at ns k db db'"
proof -
  have "db' = db \<or> (\<exists>order reason r at x. ow_order (view db k) = Some order \<and> closeOrder cfg ports dw order reason None r at db = Inr (db', x))"
    using assms(1) unfolding invalidate_one_def Let_def find_order_view
    by (cases "ow_order (view db k)") (auto simp: result_iffs split: if_splits option.splits)
  then show ?thesis
    using assms(2) close_effect [OF _ assms(2)] step_at_same [OF same_orders_refl] by (metis view_order_id)
qed

lemma complete_one_step:
  assumes "complete_one cfg ports dw k db = Inr (db', r)" "order_constraints db"
  shows "step_at ns k db db'"
proof -
  have "db' = db \<or> (\<exists>order kind r at x. ow_order (view db k) = Some order \<and> completeCommissionOrder cfg dw order kind None r at db = Inr (db', x))"
    using assms(1) unfolding complete_one_def Let_def find_order_view
    by (cases "ow_order (view db k)") (auto simp: result_iffs split: if_splits option.splits)
  then show ?thesis
    using assms(2) complete_effect [OF _ assms(2)] step_at_same [OF same_orders_refl] by (metis view_order_id)
qed

lemma moves_Cons: "step_at ns k db db1 \<Longrightarrow> rtranclp (moved ns) db1 db' \<Longrightarrow> rtranclp (moved ns) db db'"
  by (metis converse_rtranclp_into_rtranclp moved_def)

lemma expire_each_moves:
  "expire_each cfg ports dws ks (db, n) = (db', r) \<Longrightarrow> order_constraints db \<Longrightarrow> rtranclp (moved ns) db db'"
proof (induction ks arbitrary: db n)
  case (Cons k ks)
  show ?case
  proof (cases "expire_one cfg ports (dws k) k db")
    case (Inr a)
    obtain db1 m where a: "a = (db1, m)" by fastforce
    have st: "step_at ns k db db1" using Inr Cons.prems(2) unfolding a by (rule expire_one_step)
    then have "order_constraints db1" by (simp add: step_at_def)
    then show ?thesis
      using Cons.prems(1) Inr a by (intro moves_Cons [OF st] Cons.IH) auto
  qed (use Cons.prems in simp)
qed simp

lemma invalidate_each_moves:
  "invalidate_each cfg ports dws ks (db, n, m) = (db', r) \<Longrightarrow> order_constraints db \<Longrightarrow> rtranclp (moved ns) db db'"
proof (induction ks arbitrary: db n m)
  case (Cons k ks)
  show ?case
  proof (cases "invalidate_one cfg ports (dws k) k db")
    case (Inl e)
    then show ?thesis using Cons.prems Cons.IH [of db n "m + 1"] by (auto split: if_splits)
  next
    case (Inr a)
    obtain db1 i where a: "a = (db1, i)" by fastforce
    have st: "step_at ns k db db1" using Inr Cons.prems(2) unfolding a by (rule invalidate_one_step)
    then have "order_constraints db1" by (simp add: step_at_def)
    then show ?thesis
      using Cons.prems(1) Inr a by (intro moves_Cons [OF st] Cons.IH) auto
  qed
qed simp

lemma complete_each_moves:
  "complete_each cfg ports dws ks (db, n) = (db', r) \<Longrightarrow> order_constraints db \<Longrightarrow> rtranclp (moved ns) db db'"
proof (induction ks arbitrary: db n)
  case (Cons k ks)
  show ?case
  proof (cases "complete_one cfg ports (dws k) k db")
    case (Inr a)
    obtain db1 m where a: "a = (db1, m)" by fastforce
    have st: "step_at ns k db db1" using Inr Cons.prems(2) unfolding a by (rule complete_one_step)
    then have "order_constraints db1" by (simp add: step_at_def)
    then show ?thesis
      using Cons.prems(1) Inr a by (intro moves_Cons [OF st] Cons.IH) auto
  qed (use Cons.prems in simp)
qed simp

lemma single_move: "\<exists>k. step_at ns k db db' \<Longrightarrow> rtranclp (moved ns) db db'"
  by (simp add: moved_def r_into_rtranclp)

lemma order_step_moves:
  assumes "order_step P db db'" "order_constraints db" "\<And>ports. P ports \<Longrightarrow> ns \<subseteq> limits ports"
  shows "rtranclp (moved ns) db db'"
  using assms(1)
proof cases
  case (step_request ports cfg dw rc k)
  then obtain payload creator brief fileIds where m: "mutate cfg ports dw (order_command.truncate rc) ''request'' payload creator (request_apply cfg ports dw rc brief fileIds) db = Inr (db', k)"
    unfolding request_def by (simp only: await_Inr_iff) blast
  show ?thesis
    by (rule single_move, rule mutate_step [OF m assms(2)]) (rule exI, rule step_at_limit [OF request_effect assms(3) [OF step_request(1)]])
next
  case (step_quote ports cfg dw xc terms ttlMs k)
  then obtain payload creator tm where m: "mutate cfg ports dw (order_command.truncate xc) ''quote'' payload creator (quote_apply cfg ports dw xc tm ttlMs) db = Inr (db', k)"
    unfolding quote_def by (simp only: await_Inr_iff) blast
  show ?thesis
    by (rule single_move, rule mutate_step [OF m assms(2)]) (rule exI, rule quote_effect)
next
  case (step_accept ports cfg dw ac k)
  then obtain payload creator where m: "mutate cfg ports dw (order_command.truncate ac) ''accept'' payload creator (accept_apply cfg ports dw ac) db = Inr (db', k)"
    unfolding accept_def by (simp only: await_Inr_iff) blast
  show ?thesis
    by (rule single_move, rule mutate_step [OF m assms(2)]) (rule exI, rule step_at_limit [OF accept_effect assms(3) [OF step_accept(1)]])
next
  case (step_close ports cfg dw xc k)
  then obtain payload creator where m: "mutate cfg ports dw (order_command.truncate xc) ''close'' payload creator (close_apply cfg ports dw xc) db = Inr (db', k)"
    unfolding close_def by (simp only: await_Inr_iff) blast
  show ?thesis
    by (rule single_move, rule mutate_step [OF m assms(2)]) (rule exI, rule close_apply_effect)
next
  case (step_claim ports cfg dw xc k)
  then obtain payload creator where m: "mutate cfg ports dw (order_command.truncate xc) ''claim'' payload creator (claim_apply cfg ports dw xc) db = Inr (db', k)"
    unfolding claimTransfer_def by (simp only: await_Inr_iff) blast
  show ?thesis
    by (rule single_move, rule mutate_step [OF m assms(2)]) (rule exI, rule claim_effect)
next
  case (step_submit ports cfg dw sc k)
  then obtain payload creator remark fileIds where m: "mutate cfg ports dw (order_command.truncate sc) ''submit'' payload creator (submit_apply cfg ports dw sc remark fileIds) db = Inr (db', k)"
    unfolding submit_def by (simp only: await_Inr_iff) blast
  show ?thesis
    by (rule single_move, rule mutate_step [OF m assms(2)]) (rule exI, rule submit_effect)
next
  case (step_respond ports cfg dw pc k)
  then obtain payload creator remark where m: "mutate cfg ports dw (order_command.truncate pc) ''respond-to-submission'' payload creator (respond_apply cfg ports dw pc remark) db = Inr (db', k)"
    unfolding respondToSubmission_def by (simp only: await_Inr_iff) blast
  show ?thesis
    by (rule single_move, rule mutate_step [OF m assms(2)]) (rule exI, rule respond_effect)
next
  case (step_confirm dw locked c ok)
  then show ?thesis using confirm_effect [OF _ assms(2)] by (intro single_move) blast
next
  case (step_resolve_close cfg dw c1 reason v)
  then show ?thesis using resolution_close_effect [OF _ assms(2)] by (intro single_move) blast
next
  case (step_resolve_complete cfg dw c1 kind v)
  then show ?thesis using resolution_complete_effect [OF _ assms(2)] by (intro single_move) blast
next
  case (step_restore cfg dw c1 floorAt v)
  then show ?thesis using restore_effect [OF _ assms(2)] by (intro single_move) blast
next
  case (step_expire ports cfg dws now limit r1)
  then have "db' = db \<or> (\<exists>ks r. expire_each cfg ports dws ks (db, 0) = (db', r))"
    by (auto simp: expireDue_def Let_def split: sum.splits prod.splits)
  then show ?thesis using expire_each_moves [OF _ assms(2)] by auto
next
  case (step_invalidate ports cfg dws limit afterId r2)
  then have "db' = db \<or> (\<exists>ks r. invalidate_each cfg ports dws ks (db, 0, 0) = (db', r))"
    by (auto simp: recoverInvalidations_def Let_def split: sum.splits prod.splits)
  then show ?thesis using invalidate_each_moves [OF _ assms(2)] by auto
next
  case (step_mode dw enabled m)
  then have "same_orders db db' \<and> order_constraints db'"
    using assms(2) by (auto simp: observeFulfillmentMode_def boundary_Inr result_iffs same_orders_def split: option.splits if_splits)
  then show ?thesis by (intro single_move exI step_at_same) simp_all
next
  case (step_complete ports cfg dws now limit afterKey r3)
  then have "db' = db \<or> (\<exists>ks n r. complete_each cfg ports dws ks (db, n) = (db', r))"
    by (auto simp: completeDue_def Let_def split: sum.splits prod.splits)
  then show ?thesis using complete_each_moves [OF _ assms(2)] by auto
qed

subsection \<open>What the checks of a row say\<close>

lemma check_accepted:
  assumes "order_check o1"
  shows "co_state o1 \<in> {CoRequested, CoQuoted} \<Longrightarrow> co_acceptedAt o1 = None"
    "co_state o1 \<in> {CoAwaitingPayment, CoInProgress, CoDelivered, CoCompleted} \<Longrightarrow> co_acceptedAt o1 \<noteq> None"
  using assms by (auto simp: order_check_def payment_state_check_def)

lemma check_confirmed:
  assumes "order_check o1"
  shows "pending_state (co_state o1) \<Longrightarrow> co_confirmedAt o1 = None"
    "co_state o1 \<in> {CoInProgress, CoDelivered, CoCompleted} \<Longrightarrow> co_confirmedAt o1 \<noteq> None"
    "co_confirmedAt o1 = None \<Longrightarrow> co_revisionsUsed o1 = 0"
proof -
  have c: "completion_check o1" "fulfillment_check o1" using assms by (simp_all add: order_check_def)
  show "pending_state (co_state o1) \<Longrightarrow> co_confirmedAt o1 = None"
    "co_state o1 \<in> {CoInProgress, CoDelivered, CoCompleted} \<Longrightarrow> co_confirmedAt o1 \<noteq> None"
    using c(1) by (auto simp: completion_check_def pending_state_def closed_before_payment_def closed_after_payment_def split: option.splits)
  show "co_confirmedAt o1 = None \<Longrightarrow> co_revisionsUsed o1 = 0"
    using c by (auto simp: completion_check_def fulfillment_check_def pending_state_def closed_before_payment_def closed_after_payment_def split: option.splits)
qed

definition checked :: "order_view \<Rightarrow> bool" where
  "checked v \<longleftrightarrow>
     (case ow_order v of
        None \<Rightarrow> ow_reservation v = None \<and> ow_events v = [] \<and> ow_terms v = None \<and> ow_submissions v = []
      | Some o1 \<Rightarrow> order_check o1) \<and>
     (case ow_terms v of None \<Rightarrow> True | Some t \<Rightarrow> terms_check t)"

lemma view_is_checked:
  assumes "order_constraints db"
  shows "checked (view db k)"
proof -
  have "terms_check t" if "ow_terms (view db k) = Some t" for t
    using assms that by (auto simp: order_constraints_def snapshots_ok_def list_all_iff view_def dest!: find_Some_in)
  then show ?thesis
    using no_view [OF assms] view_checked [OF assms] by (auto simp: checked_def split: option.splits)
qed

lemma checked_row: "checked v \<Longrightarrow> ow_order v = Some o1 \<Longrightarrow> order_check o1"
  by (simp add: checked_def)

lemma checked_terms: "checked v \<Longrightarrow> ow_terms v = Some t \<Longrightarrow> 0 \<le> pt_revisionAllowance t"
  by (simp add: checked_def terms_check_def private_terms_check_def split: option.splits)

lemma checked_none:
  "checked v \<Longrightarrow> ow_order v = None \<Longrightarrow> ow_reservation v = None \<and> ow_events v = [] \<and> ow_terms v = None \<and> ow_submissions v = []"
  by (simp add: checked_def)

subsection \<open>Order and reservation\<close>

text \<open>The state of the reservation an order must have.\<close>

definition expected_reservation :: "order_row \<Rightarrow> reservation_state option" where
  "expected_reservation o1 =
     (if co_acceptedAt o1 = None then None
      else Some (case co_state o1 of
          CoInProgress \<Rightarrow> Occupied | CoDelivered \<Rightarrow> Occupied | CoCompleted \<Rightarrow> ReservationCompleted
        | CoClosed \<Rightarrow> if co_confirmedAt o1 = None then Released else ReservationCancelled
        | _ \<Rightarrow> Reserved))"

definition reservation_agrees :: "order_view \<Rightarrow> bool" where
  "reservation_agrees v \<longleftrightarrow>
     (case ow_order v of None \<Rightarrow> ow_reservation v = None
      | Some o1 \<Rightarrow> map_option cr_state (ow_reservation v) = expected_reservation o1 \<and>
          (\<forall>r. ow_reservation v = Some r \<longrightarrow> cr_creatorUserId r = co_creatorUserId o1))"

lemma reservation_agrees_row:
  "ow_order v = Some o1 \<Longrightarrow> reservation_agrees v \<longleftrightarrow> map_option cr_state (ow_reservation v) = expected_reservation o1 \<and>
     (\<forall>r. ow_reservation v = Some r \<longrightarrow> cr_creatorUserId r = co_creatorUserId o1)"
  by (simp add: reservation_agrees_def)

lemma advance_rows:
  "advance v v' o1 o2 \<Longrightarrow> ow_order v = Some o1 \<and> ow_order v' = Some o2 \<and> co_creatorUserId o2 = co_creatorUserId o1"
  by (simp add: advance_def)

lemma move_reservation:
  assumes m: "order_move v v'" and c: "checked v" "checked v'" and agrees: "reservation_agrees v"
  shows "reservation_agrees v'"
  using m
proof cases
  case move_none
  then show ?thesis using agrees by simp
next
  case (move_requested o2 e)
  then show ?thesis using checked_none [OF c(1)] by (simp add: reservation_agrees_def expected_reservation_def)
next
  case (move_committed o2 r t e)
  then show ?thesis by (simp add: reservation_agrees_def expected_reservation_def fresh_reservation_def)
next
  case (move_quoted o1 o2)
  note rows = advance_rows [OF move_quoted(1)]
  have "co_acceptedAt o2 = None"
    using check_accepted(1) [OF checked_row [OF c(2)]] rows move_quoted(3) by simp
  then show ?thesis
    using rows agrees move_quoted by (auto simp: reservation_agrees_row same_terms_def expected_reservation_def)
next
  case (move_accepted o1 o2 r t)
  then show ?thesis
    using advance_rows [OF move_accepted(1)] by (simp add: reservation_agrees_row expected_reservation_def fresh_reservation_def)
next
  case (move_withdrawn o1 o2 reason)
  note rows = advance_rows [OF move_withdrawn(1)]
  have "pending_state (co_state o1)" using closeReasons_pending move_withdrawn(2,3) .
  then have "co_confirmedAt o1 = None" using check_confirmed(1) [OF checked_row [OF c(1)]] rows by blast
  then show ?thesis
    using rows agrees move_withdrawn
    by (auto simp: reservation_agrees_row same_terms_def expected_reservation_def reservation_to_def split: if_splits)
next
  case (move_confirmed o1 o2)
  note rows = advance_rows [OF move_confirmed(1)]
  have "co_acceptedAt o1 \<noteq> None" using check_accepted(2) [OF checked_row [OF c(1)]] rows move_confirmed(2) by simp
  then show ?thesis
    using rows agrees move_confirmed by (auto simp: reservation_agrees_row same_terms_def expected_reservation_def reservation_to_def)
next
  case (move_drafted o1 ss)
  then show ?thesis using agrees by (simp add: reservation_agrees_def)
next
  case (move_delivered o1 o2)
  then show ?thesis
    using advance_rows [OF move_delivered(1)] agrees by (auto simp: reservation_agrees_row same_terms_def expected_reservation_def)
next
  case (move_reopened o1 o2 t)
  then show ?thesis
    using advance_rows [OF move_reopened(1)] agrees by (auto simp: reservation_agrees_row same_terms_def expected_reservation_def)
next
  case (move_completed o1 o2)
  note rows = advance_rows [OF move_completed(1)]
  have "co_acceptedAt o1 \<noteq> None" using check_accepted(2) [OF checked_row [OF c(1)]] rows move_completed(2) by simp
  then show ?thesis
    using rows agrees move_completed by (auto simp: reservation_agrees_row same_terms_def expected_reservation_def reservation_to_def)
next
  case (move_cancelled o1 o2 reason)
  note rows = advance_rows [OF move_cancelled(1)]
  have "co_acceptedAt o1 \<noteq> None" using check_accepted(2) [OF checked_row [OF c(1)]] rows move_cancelled(2) by auto
  then show ?thesis
    using rows agrees move_cancelled by (auto simp: reservation_agrees_row same_terms_def expected_reservation_def reservation_to_def)
next
  case (move_restored o1 o2)
  then show ?thesis
    using advance_rows [OF move_restored(1)] agrees by (auto simp: reservation_agrees_row same_terms_def expected_reservation_def)
qed

subsection \<open>The timeline\<close>

text \<open>The states that may follow each other on a timeline: the transitions of the code, closing, and the
  restored review time of a delivered order.\<close>

definition may_follow :: "commission_state \<Rightarrow> commission_state \<Rightarrow> bool" where
  "may_follow a b \<longleftrightarrow> open_transition a b \<or> (b = CoClosed \<and> closeReasons a \<noteq> []) \<or> (a = CoDelivered \<and> b = CoDelivered)"

definition timeline :: "commission_state \<Rightarrow> int \<Rightarrow> event_row list \<Rightarrow> bool" where
  "timeline s n es \<longleftrightarrow>
     map ce_orderVersion es = [1..n] \<and> es \<noteq> [] \<and> ce_type (hd es) \<in> {CoRequested, CoAwaitingPayment} \<and>
     successively may_follow (map ce_type es) \<and> ce_type (last es) = s"

lemma timeline_start: "ce_orderVersion e = 1 \<Longrightarrow> ce_type e = s \<Longrightarrow> s \<in> {CoRequested, CoAwaitingPayment} \<Longrightarrow> timeline s 1 [e]"
  by (simp add: timeline_def)

lemma timeline_extend:
  assumes "timeline s n es" "may_follow s s'" "ce_orderVersion e = n + 1" "ce_type e = s'"
  shows "timeline s' (n + 1) (es @ [e])"
proof -
  have "1 \<le> n"
  proof (rule ccontr)
    assume "\<not> 1 \<le> n"
    then show False using assms(1) by (auto simp: timeline_def)
  qed
  then have "[1..n + 1] = [1..n] @ [n + 1]"
    using upto_rec2 [of 1 "n + 1"] by simp
  then show ?thesis
    using assms by (simp add: timeline_def successively_append_iff last_map)
qed

definition history :: "order_view \<Rightarrow> bool" where
  "history v \<longleftrightarrow>
     (case ow_order v of None \<Rightarrow> ow_events v = [] | Some o1 \<Rightarrow> timeline (co_state o1) (co_version o1) (ow_events v))"

lemma history_advance:
  assumes "advance v v' o1 o2" "history v" "may_follow (co_state o1) (co_state o2)"
  shows "history v'"
  using assms timeline_extend [of "co_state o1" "co_version o1" "ow_events v" "co_state o2"]
  by (auto simp: advance_def history_def)

lemma move_history:
  assumes m: "order_move v v'" and c: "checked v" and h: "history v"
  shows "history v'"
  using m
proof cases
  case (move_requested o2 e)
  then show ?thesis using checked_none [OF c] timeline_start [of e] by (simp add: history_def)
next
  case (move_committed o2 r t e)
  then show ?thesis using checked_none [OF c] timeline_start [of e] by (simp add: history_def)
next
  case (move_withdrawn o1 o2 reason)
  then show ?thesis using h by (intro history_advance [OF move_withdrawn(1)]) (auto simp: may_follow_def)
next
  case (move_cancelled o1 o2 reason)
  then show ?thesis
    using h by (intro history_advance [OF move_cancelled(1)]) (auto simp: may_follow_def closeReasons_def post_payment_reasons_def)
next
  case (move_drafted o1 ss)
  then show ?thesis using h by (simp add: history_def)
qed (use h in \<open>auto intro: history_advance simp: may_follow_def open_transition_def\<close>)

subsection \<open>Terms and revisions\<close>

definition terms_agree :: "order_view \<Rightarrow> bool" where
  "terms_agree v \<longleftrightarrow>
     (case ow_order v of None \<Rightarrow> ow_terms v = None
      | Some o1 \<Rightarrow>
          (case ow_terms v of None \<Rightarrow> co_acceptedAt o1 = None
           | Some t \<Rightarrow> co_acceptedAt o1 \<noteq> None \<and> co_amountVnd o1 = Some (pt_amountVnd t) \<and> co_revisionsUsed o1 \<le> pt_revisionAllowance t))"

lemma terms_agree_row:
  "ow_order v = Some o1 \<Longrightarrow> terms_agree v \<longleftrightarrow>
     (case ow_terms v of None \<Rightarrow> co_acceptedAt o1 = None
      | Some t \<Rightarrow> co_acceptedAt o1 \<noteq> None \<and> co_amountVnd o1 = Some (pt_amountVnd t) \<and> co_revisionsUsed o1 \<le> pt_revisionAllowance t)"
  by (simp add: terms_agree_def)

lemma terms_kept:
  assumes "advance v v' o1 o2" "terms_agree v" "same_terms o1 o2" "ow_terms v' = ow_terms v" "co_revisionsUsed o2 \<le> co_revisionsUsed o1"
  shows "terms_agree v'"
  using assms advance_rows [OF assms(1)] by (auto simp: terms_agree_row same_terms_def split: option.splits)

lemma move_terms:
  assumes m: "order_move v v'" and c: "checked v" "checked v'" and agree: "terms_agree v"
  shows "terms_agree v'"
  using m
proof cases
  case (move_requested o2 e)
  then show ?thesis using checked_none [OF c(1)] by (simp add: terms_agree_def kept_rest_def)
next
  case (move_committed o2 r t e)
  then show ?thesis using checked_terms [OF c(2)] by (simp add: terms_agree_def committed_terms_def)
next
  case (move_quoted o1 o2)
  note rows = advance_rows [OF move_quoted(1)]
  have "co_acceptedAt o1 = None" using check_accepted(1) [OF checked_row [OF c(1)]] rows move_quoted(2) by simp
  then show ?thesis
    using rows agree move_quoted by (auto simp: terms_agree_row same_terms_def kept_rest_def split: option.splits)
next
  case (move_accepted o1 o2 r t)
  note rows = advance_rows [OF move_accepted(1)]
  have "co_revisionsUsed o2 = 0"
    using check_confirmed(1,3) [OF checked_row [OF c(2)]] rows move_accepted(3) by (simp add: pending_state_def)
  then show ?thesis
    using rows move_accepted checked_terms [OF c(2)] by (simp add: terms_agree_row committed_terms_def)
next
  case (move_reopened o1 o2 t)
  then show ?thesis
    using advance_rows [OF move_reopened(1)] agree by (auto simp: terms_agree_row same_terms_def split: option.splits)
next
  case (move_drafted o1 ss)
  then show ?thesis using agree by (simp add: terms_agree_def)
qed (use agree in \<open>auto simp: kept_rest_def intro: terms_kept\<close>)

subsection \<open>Submissions\<close>

text \<open>A delivered order has a final submission to answer; an order in progress or before has none.\<close>

definition finals_agree :: "order_view \<Rightarrow> bool" where
  "finals_agree v \<longleftrightarrow>
     (case ow_order v of None \<Rightarrow> True
      | Some o1 \<Rightarrow>
          (co_state o1 = CoDelivered \<longrightarrow> submission_final_open (ow_submissions v)) \<and>
          (pending_state (co_state o1) \<or> co_state o1 = CoInProgress \<longrightarrow> \<not> submission_final_open (ow_submissions v)))"

lemma finals_row:
  "ow_order v = Some o1 \<Longrightarrow> finals_agree v \<longleftrightarrow>
     (co_state o1 = CoDelivered \<longrightarrow> submission_final_open (ow_submissions v)) \<and>
     (pending_state (co_state o1) \<or> co_state o1 = CoInProgress \<longrightarrow> \<not> submission_final_open (ow_submissions v))"
  by (simp add: finals_agree_def)

lemma no_final_open: "\<not> submission_final_open []"
  by (simp add: submission_final_open_def)

lemma move_finals:
  assumes m: "order_move v v'" and c: "checked v" and agree: "finals_agree v"
  shows "finals_agree v'"
  using m
proof cases
  case (move_requested o2 e)
  then show ?thesis using checked_none [OF c] no_final_open by (simp add: finals_agree_def kept_rest_def)
next
  case (move_committed o2 r t e)
  then show ?thesis using checked_none [OF c] no_final_open by (simp add: finals_agree_def)
next
  case (move_drafted o1 ss)
  then show ?thesis using agree by (simp add: finals_agree_def)
qed (use agree in \<open>auto simp: finals_row kept_rest_def pending_state_def dest!: advance_rows\<close>)

subsection \<open>The invariant of the orders\<close>

definition orders_inv :: "ord_db \<Rightarrow> bool" where
  "orders_inv db \<longleftrightarrow>
     order_constraints db \<and>
     (\<forall>k. reservation_agrees (view db k) \<and> history (view db k) \<and> terms_agree (view db k) \<and> finals_agree (view db k))"

lemma orders_inv_start: "no_orders db \<Longrightarrow> orders_inv db"
  by (simp add: orders_inv_def no_orders_constraints)
    (simp add: no_orders_def view_def reservation_agrees_def history_def terms_agree_def finals_agree_def)

lemma step_at_inv:
  assumes "step_at ns k db db'" "orders_inv db"
  shows "orders_inv db'"
proof -
  have c: "order_constraints db" "order_constraints db'" and m: "order_move (view db k) (view db' k)"
    and same: "\<And>j. j \<noteq> k \<Longrightarrow> view db' j = view db j"
    using assms by (simp_all add: step_at_def orders_inv_def)
  have "reservation_agrees (view db' j) \<and> history (view db' j) \<and> terms_agree (view db' j) \<and> finals_agree (view db' j)" for j
  proof (cases "j = k")
    case True
    note ch = view_is_checked [OF c(1), of k] view_is_checked [OF c(2), of k]
    show ?thesis
      using move_reservation [OF m ch] move_history [OF m ch(1)] move_terms [OF m ch] move_finals [OF m ch(1)] assms(2) True
      by (simp add: orders_inv_def)
  qed (use assms(2) same in \<open>simp add: orders_inv_def\<close>)
  with c(2) show ?thesis by (simp add: orders_inv_def)
qed

lemma moves_inv: "rtranclp (moved ns) db db' \<Longrightarrow> orders_inv db \<Longrightarrow> orders_inv db'"
  by (induction rule: rtranclp_induct) (auto simp: moved_def intro: step_at_inv)

interpretation orders: inv_system no_orders "order_step P" orders_inv for P
proof
  show "orders_inv db'" if "order_step P db db'" "orders_inv db" for db db'
    using order_step_moves [OF that(1), of "{}"] that(2) by (auto simp: orders_inv_def [of db] intro: moves_inv)
qed (rule orders_inv_start)

subsection \<open>Settled orders\<close>

lemma move_settled:
  assumes "order_move v v'" "ow_order v = Some o1" "co_state o1 \<in> {CoCompleted, CoClosed}"
  shows "v' = v"
  using assms(1)
proof cases
  case (move_withdrawn o3 o4 reason)
  then show ?thesis using assms(2,3) by (auto simp: advance_def closeReasons_def)
qed (use assms(2,3) in \<open>auto simp: advance_def\<close>)

lemma moves_settled:
  "rtranclp (moved ns) db db' \<Longrightarrow> ow_order (view db k) = Some o1 \<Longrightarrow> co_state o1 \<in> {CoCompleted, CoClosed} \<Longrightarrow> view db' k = view db k"
proof (induction rule: rtranclp_induct)
  case (step db1 db2)
  then obtain j where "step_at ns j db1 db2" by (auto simp: moved_def)
  then show ?case
    using step.IH [OF step.prems] step.prems move_settled [of "view db1 k" "view db2 k" o1] by (cases "j = k") (simp_all add: step_at_def)
qed simp

lemma steps_moves:
  assumes "rtranclp (order_step P) db db'" "order_constraints db" "\<And>ports. P ports \<Longrightarrow> ns \<subseteq> limits ports"
  shows "rtranclp (moved ns) db db'"
  using assms(1)
proof (induction rule: rtranclp_induct)
  case (step db1 db2)
  have "order_constraints db1" using moves_constraints [OF step.IH assms(2)] .
  then show ?case using step.IH order_step_moves [OF step.hyps(2) _ assms(3)] by (meson rtranclp_trans)
qed simp

subsection \<open>Capacity\<close>

lemma moves_capacity:
  "rtranclp (moved ns) db db' \<Longrightarrow> n \<in> ns \<Longrightarrow> capacity_used u db' \<le> max (capacity_used u db) n"
proof (induction rule: rtranclp_induct)
  case (step db1 db2)
  then have "capacity_used u db2 \<le> max (capacity_used u db1) n"
    by (auto simp: moved_def step_at_def within_def)
  then show ?case using step.IH [OF step.prems] by simp
qed simp

text \<open>The load of a creator counted from the orders: those paid for, delivered or awaiting their payment.\<close>

definition live_orders :: "string \<Rightarrow> ord_db \<Rightarrow> nat" where
  "live_orders u db =
     length (filter (\<lambda>o1. co_creatorUserId o1 = u \<and> co_state o1 \<in> {CoAwaitingPayment, CoInProgress, CoDelivered}) (od_orders db))"

lemma key_cards:
  assumes "distinct (map f xs)" "distinct (map g ys)" "f ` set (filter p xs) = g ` set (filter q ys)"
  shows "length (filter p xs) = length (filter q ys)"
proof -
  have "length (filter p xs) = card (f ` set (filter p xs))"
    using distinct_map_filter [OF assms(1), of p] by (metis distinct_card length_map set_map)
  also have "\<dots> = card (g ` set (filter q ys))" by (simp only: assms(3))
  also have "\<dots> = length (filter q ys)"
    using distinct_map_filter [OF assms(2), of q] by (metis distinct_card length_map set_map)
  finally show ?thesis .
qed

lemma load_counts_live_orders:
  assumes "orders_inv db"
  shows "capacity_used u db = live_orders u db"
  unfolding capacity_used_def live_orders_def
proof (rule key_cards)
  have c: "order_constraints db" and agree: "\<And>k. reservation_agrees (view db k)"
    using assms by (simp_all add: orders_inv_def)
  show keys: "distinct (map cr_orderId (od_reservations db))" "distinct (map co_id (od_orders db))"
    using order_keys [OF c] by simp_all
  have row: "ow_order (view db k) = Some o1 \<longleftrightarrow> o1 \<in> set (od_orders db) \<and> co_id o1 = k" for k o1
    using find_key_iff [OF keys(2)] by (simp add: view_def)
  have res: "ow_reservation (view db k) = Some r \<longleftrightarrow> r \<in> set (od_reservations db) \<and> cr_orderId r = k" for k r
    using find_key_iff [OF keys(1)] by (simp add: view_def)
  have live: "expected_reservation o1 \<in> {Some Reserved, Some Occupied} \<longleftrightarrow> co_state o1 \<in> {CoAwaitingPayment, CoInProgress, CoDelivered}"
    if "o1 \<in> set (od_orders db)" for o1
    using check_accepted [of o1] that order_keys(4) [OF c]
    by (auto simp: expected_reservation_def list_all_iff split: commission_state.splits)
  show "cr_orderId ` set (filter (\<lambda>r. cr_creatorUserId r = u \<and> cr_state r \<in> {Reserved, Occupied}) (od_reservations db)) =
    co_id ` set (filter (\<lambda>o1. co_creatorUserId o1 = u \<and> co_state o1 \<in> {CoAwaitingPayment, CoInProgress, CoDelivered}) (od_orders db))"
    (is "?L = ?R")
  proof (rule set_eqI)
    fix k
    have "k \<in> ?L \<longleftrightarrow> (\<exists>r. ow_reservation (view db k) = Some r \<and> cr_creatorUserId r = u \<and> cr_state r \<in> {Reserved, Occupied})"
      using res by auto
    also have "\<dots> \<longleftrightarrow> (\<exists>o1. ow_order (view db k) = Some o1 \<and> co_creatorUserId o1 = u \<and> co_state o1 \<in> {CoAwaitingPayment, CoInProgress, CoDelivered})"
    proof (cases "ow_order (view db k)")
      case None
      then show ?thesis using agree [of k] by (simp add: reservation_agrees_def)
    next
      case (Some o1)
      then have "map_option cr_state (ow_reservation (view db k)) = expected_reservation o1"
        "\<forall>r. ow_reservation (view db k) = Some r \<longrightarrow> cr_creatorUserId r = co_creatorUserId o1"
        using agree [of k] by (simp_all add: reservation_agrees_def)
      moreover have "expected_reservation o1 \<in> {Some Reserved, Some Occupied} \<longleftrightarrow> co_state o1 \<in> {CoAwaitingPayment, CoInProgress, CoDelivered}"
        using live row Some by blast
      ultimately show ?thesis using Some by (cases "ow_reservation (view db k)") auto
    qed
    also have "\<dots> \<longleftrightarrow> k \<in> ?R"
      using row by auto
    finally show "k \<in> ?L \<longleftrightarrow> k \<in> ?R" .
  qed
qed

subsection \<open>The lifecycle\<close>

text \<open>
  The abstract machine: each order is a state with the reason it closed for, born requested or awaiting
  payment, and moved only by a transition that \<open>requireCommissionTransition\<close> lets through.
\<close>

type_synonym lifecycle = "string \<Rightarrow> (commission_state \<times> close_reason option) option"

definition lifecycle_of :: "ord_db \<Rightarrow> lifecycle" where
  "lifecycle_of db = (\<lambda>k. map_option (\<lambda>o1. (co_state o1, co_closeReason o1)) (ow_order (view db k)))"

definition lifecycle_step :: "lifecycle \<Rightarrow> lifecycle \<Rightarrow> bool" where
  "lifecycle_step a b \<longleftrightarrow>
     (\<exists>k s reason. b = a(k \<mapsto> (s, reason)) \<and>
        (case a k of
           None \<Rightarrow> s \<in> {CoRequested, CoAwaitingPayment} \<and> reason = None
         | Some (s0, _) \<Rightarrow> requireCommissionTransition s0 s reason = Inr ()))"

lemma transition_Inr:
  "requireCommissionTransition s0 s reason = Inr () \<longleftrightarrow>
     (if s = CoClosed then \<exists>r. reason = Some r \<and> r \<in> set (closeReasons s0) else reason = None \<and> open_transition s0 s)"
  by (auto simp: requireCommissionTransition_def split: option.splits)

lemma check_reason: "order_check o1 \<Longrightarrow> co_state o1 \<noteq> CoClosed \<Longrightarrow> co_closeReason o1 = None"
  by (simp add: order_check_def closed_check_def)

text \<open>What a move does to the abstract state of its order.\<close>

definition lifecycle_move :: "order_row option \<Rightarrow> order_row option \<Rightarrow> bool" where
  "lifecycle_move a b \<longleftrightarrow>
     map_option (\<lambda>o1. (co_state o1, co_closeReason o1)) b = map_option (\<lambda>o1. (co_state o1, co_closeReason o1)) a \<or>
     (\<exists>o2. b = Some o2 \<and>
        (case a of
           None \<Rightarrow> co_state o2 \<in> {CoRequested, CoAwaitingPayment} \<and> co_closeReason o2 = None
         | Some o1 \<Rightarrow> requireCommissionTransition (co_state o1) (co_state o2) (co_closeReason o2) = Inr ()))"

lemma lifecycle_move_same: "lifecycle_move a a"
  by (simp add: lifecycle_move_def)

lemma lifecycle_open:
  assumes "advance v v' o1 o2" "checked v'" "open_transition (co_state o1) (co_state o2)" "co_state o2 \<noteq> CoClosed"
  shows "lifecycle_move (ow_order v) (ow_order v')"
  using assms advance_rows [OF assms(1)] check_reason [OF checked_row [OF assms(2)]]
  by (auto simp: lifecycle_move_def transition_Inr)

lemma lifecycle_close:
  assumes "advance v v' o1 o2" "reason \<in> set (closeReasons (co_state o1))" "co_state o2 = CoClosed" "co_closeReason o2 = Some reason"
  shows "lifecycle_move (ow_order v) (ow_order v')"
  using assms advance_rows [OF assms(1)] by (auto simp: lifecycle_move_def transition_Inr)

lemma move_lifecycle:
  assumes m: "order_move v v'" and c: "checked v" "checked v'"
  shows "lifecycle_move (ow_order v) (ow_order v')"
  using m
proof cases
  case (move_requested o2 e)
  then show ?thesis using check_reason [OF checked_row [OF c(2)]] by (simp add: lifecycle_move_def)
next
  case (move_committed o2 r t e)
  then show ?thesis using check_reason [OF checked_row [OF c(2)]] by (simp add: lifecycle_move_def)
next
  case (move_restored o1 o2)
  note rows = advance_rows [OF move_restored(1)]
  then show ?thesis
    using move_restored(2,3) check_reason [OF checked_row [OF c(1)], of o1] check_reason [OF checked_row [OF c(2)], of o2]
    by (simp add: lifecycle_move_def)
next
  case (move_withdrawn o1 o2 reason)
  then show ?thesis by (intro lifecycle_close)
next
  case (move_cancelled o1 o2 reason)
  then show ?thesis
    by (intro lifecycle_close [OF move_cancelled(1) _ move_cancelled(4,5)]) (auto simp: closeReasons_def)
qed (auto simp: lifecycle_move_same open_transition_def intro: lifecycle_open [OF _ c(2)])

lemma step_at_lifecycle:
  assumes "step_at ns k db db'" "order_constraints db"
  shows "rtranclp lifecycle_step (lifecycle_of db) (lifecycle_of db')"
proof -
  have c: "checked (view db k)" "checked (view db' k)" and m: "order_move (view db k) (view db' k)"
    and same: "\<And>j. j \<noteq> k \<Longrightarrow> view db' j = view db j"
    using assms view_is_checked by (auto simp: step_at_def)
  have upd: "lifecycle_of db' = (lifecycle_of db)(k := lifecycle_of db' k)"
    using same by (auto simp: lifecycle_of_def)
  have "lifecycle_of db' = lifecycle_of db \<or> lifecycle_step (lifecycle_of db) (lifecycle_of db')"
  proof (cases "lifecycle_of db' k = lifecycle_of db k")
    case True
    then have "lifecycle_of db' = lifecycle_of db" using upd by simp
    then show ?thesis ..
  next
    case False
    with move_lifecycle [OF m c] obtain o2 where o2: "ow_order (view db' k) = Some o2"
      and t: "case ow_order (view db k) of None \<Rightarrow> co_state o2 \<in> {CoRequested, CoAwaitingPayment} \<and> co_closeReason o2 = None
         | Some o1 \<Rightarrow> requireCommissionTransition (co_state o1) (co_state o2) (co_closeReason o2) = Inr ()"
      by (auto simp: lifecycle_move_def lifecycle_of_def)
    have "lifecycle_of db' = (lifecycle_of db)(k \<mapsto> (co_state o2, co_closeReason o2))"
      using upd o2 by (simp add: lifecycle_of_def)
    then have "lifecycle_step (lifecycle_of db) (lifecycle_of db')"
      unfolding lifecycle_step_def using t
      by (intro exI [of _ k] exI [of _ "co_state o2"] exI [of _ "co_closeReason o2"]) (auto simp: lifecycle_of_def split: option.splits)
    then show ?thesis ..
  qed
  then show ?thesis by auto
qed

interpretation lifecycle: simulation no_orders "order_step P" orders_inv lifecycle_of lifecycle_step for P
proof
  fix db db' assume s: "order_step P db db'" "orders_inv db"
  then have c: "order_constraints db" by (simp add: orders_inv_def)
  have "rtranclp (moved {}) db db'" by (rule order_step_moves [OF s(1) c]) simp
  then show "rtranclp lifecycle_step (lifecycle_of db) (lifecycle_of db')"
  proof (induction rule: rtranclp_induct)
    case (step db1 db2)
    then have "order_constraints db1" using moves_constraints c by blast
    then have "rtranclp lifecycle_step (lifecycle_of db1) (lifecycle_of db2)"
      using step.hyps(2) step_at_lifecycle by (auto simp: moved_def)
    with step.IH show ?case by (rule rtranclp_trans)
  qed simp
qed

end
