(* ===== verification/OrderSample.thy ===== *)
theory OrderSample
  imports DepositSample OrderInvariants
begin

text \<open>
  A concrete run of the order service, used by the witnesses: a buyer requests a package with a fixed
  price, the payment is confirmed, and a ruling closes the paid order. The platform is
  \<open>toy_platform\<close>, under whose keyed hash all texts have the same fingerprint.
\<close>

subsection \<open>The setting\<close>

definition order_uuid :: "char \<Rightarrow> string" where
  "order_uuid c = ''00000000-0000-4000-8000-00000000000'' @ [c]"

definition sample_order_cfg :: order_cfg where
  "sample_order_cfg = \<lparr>oc_platform = toy_platform, oc_keyring = Commission.sample_keyring, oc_lookupHmacKey = sample_key,
     oc_applicationRevision = ''rev-1'', oc_intakeEnabled = True, oc_paymentsMode = ManualOnly, oc_fulfillmentEnabled = True,
     oc_environment = EnvTest, oc_parseUrl = (\<lambda>_. None)\<rparr>"

definition sample_policy :: policy_snapshot where
  "sample_policy = \<lparr>pn_revisionId = ''00000000-0000-4000-8000-000000000006'', pn_revisionNumber = 1, pn_document = Some ''rules'',
     pn_checksum = ''c'', pn_acceptsOrders = True\<rparr>"

definition sample_package :: intake_package where
  "sample_package = \<lparr>ip_revision = \<lparr>pr_route = FixedImmediate, pr_terms = sample_terms, pr_actorSessionId = ''session-2'', pr_requestId = ''req-0'',
       pr_publishedAt = 500\<rparr>, ip_accountVersionId = Some (order_uuid (CHR ''a'')), ip_capacityLimit = 3, ip_policy = Some sample_policy\<rparr>"

definition sample_ports :: order_ports where
  "sample_ports = \<lparr>op_sessionExpiresAt = (\<lambda>_. Inr (Some 2000)), op_participants = (\<lambda>_ _. Inr True), op_buyingAllowed = (\<lambda>_. Inr ()),
     op_authorizeCommand = (\<lambda>_. Inr ()), op_packageIdentity = (\<lambda>_. Inr (Some (''creator-1'', FixedImmediate))),
     op_intakePackage = (\<lambda>_ _ _ _. Inr sample_package), op_createIntent = (\<lambda>_ _. Inr ()), op_closeIntent = (\<lambda>_ _. Inr True),
     op_hasDestination = (\<lambda>_. Inr True), op_claimTransfer = (\<lambda>_. Inr (''claim-1'', 1000, True)), op_attachBriefFiles = None,
     op_attachOrderFiles = None, op_appendEntry = (\<lambda>_ _. Inr 1), op_openDispute = (\<lambda>_. Inr False), op_completionHold = (\<lambda>_. Inr False)\<rparr>"

definition sample_draw :: "char \<Rightarrow> draw" where
  "sample_draw c = \<lparr>dw_clock = (\<lambda>_. 1000), dw_id = (\<lambda>n. order_uuid (if n = 2 then CHR ''2'' else if n = 3 then CHR ''3'' else c)),
     dw_nonce = (\<lambda>_. replicate 12 (CHR ''n''))\<rparr>"

definition sample_request :: request_command where
  "sample_request = \<lparr>cmd_actor = \<lparr>ak_userId = ''buyer-1'', ak_sessionId = ''session-1''\<rparr>, cmd_idempotencyKey = ''request-1'', cmd_requestId = ''req-1'',
     rq_packageId = order_uuid (CHR ''b''), rq_revisionId = order_uuid (CHR ''c''), rq_policyRevisionId = ''00000000-0000-4000-8000-000000000006'',
     rq_acceptTerms = True, rq_brief = \<lparr>br_text = ''a cat'', br_referenceLinks = []\<rparr>, rq_abuseKeyHash = sample_mac, rq_referenceFileIds = None\<rparr>"

definition empty_orders :: ord_db where
  "empty_orders = \<lparr>od_orders = [], od_reservations = [], od_events = [], od_submissions = [], od_quotes = [], od_terms = [],
     od_acceptances = [], od_briefs = [], od_pauses = [], od_policyHead = None, od_policies = [], od_idem = [], od_audit = [], od_outbox = []\<rparr>"

lemma empty_orders_start: "no_orders empty_orders"
  by (simp add: no_orders_def empty_orders_def)

definition sample_order :: order_row where
  "sample_order = new_order sample_request (order_uuid (CHR ''1'')) ''creator-1'' FixedImmediate (Some 100000) (1000 + day_ms) 1000"

subsection \<open>Statements that succeed\<close>

lemma order_audit_appends:
  assumes "list_all auditIdentifier [ne_actorUserId e, ne_subjectType e, ne_subjectId e, ne_action e, ne_applicationRevision e, ne_requestId e]"
    and "pred_option auditIdentifier (ne_actorSessionId e)" "pred_option auditIdentifier (ne_reasonCode e)" "ne_occurredAt e = Some (Some at)"
    and "pred_option (assertSafeValue u) (ne_beforeState e)" "pred_option (assertSafeValue u) (ne_afterState e)"
    and "assertSafeValue u (ne_assurance e)" "k \<notin> au_id ` set (od_audit db)" "u = pf_parse_url (oc_platform cfg)"
  shows "\<exists>a. order_audit cfg k at e db = Inr (db\<lparr>od_audit := od_audit db @ [a]\<rparr>) \<and> au_id a = k"
proof -
  have i: "assertAuditIdentifiers [Some (ne_actorUserId e), ne_actorSessionId e, Some (ne_subjectType e), Some (ne_subjectId e),
      Some (ne_action e), ne_reasonCode e, Some (ne_applicationRevision e), Some (ne_requestId e)] = Inr ()"
    using assms(1-3) by (simp del: assertAuditIdentifiers.simps)
  have s: "safeOptionalState u (ne_beforeState e) = Inr (ne_beforeState e)" "safeOptionalState u (ne_afterState e) = Inr (ne_afterState e)"
    "safeOptionalState u (Some (ne_assurance e)) = Inr (Some (ne_assurance e))"
    using assms(5-7) by simp_all
  show ?thesis
    using assms(8)
    by (simp add: order_audit_def appendAdminAuditEvent_def other_def i s assms(4) assms(9) [symmetric] del: assertAuditIdentifiers.simps)
      (intro exI conjI, rule refl, simp)
qed

lemma order_event_appends:
  assumes "assertSafeValue u (ev_payload e)" "k \<notin> ob_id ` set (od_outbox db)" "u = pf_parse_url (oc_platform cfg)"
  shows "\<exists>r. order_event cfg k at e db = Inr (db\<lparr>od_outbox := od_outbox db @ [r]\<rparr>) \<and> ob_id r = k"
  using assms by (auto simp: order_event_def insertOutboxEvent_def canonicalize_plain other_def Let_def)

lemma save_ok: "order_constraints db \<Longrightarrow> save db = Inr db"
  by simp

lemma order_uuids: "is_uuid (order_uuid (CHR ''1''))" "is_uuid (order_uuid (CHR ''2''))" "is_uuid (order_uuid (CHR ''3''))"
  "is_uuid (order_uuid (CHR ''4''))" "is_uuid (order_uuid (CHR ''a''))" "is_uuid (order_uuid (CHR ''b''))" "is_uuid (order_uuid (CHR ''c''))"
  "is_uuid ''00000000-0000-4000-8000-000000000006''"
  by code_simp+

lemma order_texts:
  "list_all auditIdentifier [''buyer-1'', ''creator-1'', ''session-1'', ''session-2'', ''commission_order'', ''commission.awaiting_payment'', ''commission.closed'',
     ''rev-1'', ''req-1'', ''req-2'', ''system:commission-worker'', order_uuid (CHR ''1''), ''commission-expiry:'' @ order_uuid (CHR ''a'')]"
  "list_all (\<lambda>k. \<not> structuredKeyIsSensitive k) [''method'', ''state'', ''version'', ''reason'', ''orderId'', ''correlationId'']"
  by code_simp+

lemmas order_text_facts = order_texts [simplified]

lemma sample_record:
  assumes order: "co_id order = order_uuid (CHR ''1'')" "co_state order \<in> {CoAwaitingPayment, CoClosed}"
    and texts: "requestId \<in> {''req-1'', ''req-2'', ''commission-expiry:'' @ order_uuid (CHR ''a'')}" "pred_option (\<lambda>t. CHR ''/'' \<notin> set t) reason"
    and actor: "case a of None \<Rightarrow> True | Some b \<Rightarrow> ak_userId b = ''buyer-1'' \<and> ak_sessionId b = ''session-1''"
    and fresh: "dw_id dw 101 \<notin> au_id ` set (od_audit db)" "dw_id dw 102 \<notin> ob_id ` set (od_outbox db)" "is_uuid (dw_id dw 100)"
    and ok: "order_constraints (db\<lparr>od_events := od_events db @ [timeline_event (dw_id dw 100) order a requestId reason]\<rparr>)"
  shows "\<exists>au ob. record_change sample_order_cfg dw order a requestId reason db = Inr (db\<lparr>od_events := od_events db @ [timeline_event (dw_id dw 100) order a requestId reason],
      od_audit := od_audit db @ [au], od_outbox := od_outbox db @ [ob]\<rparr>) \<and> au_id au = dw_id dw 101 \<and> ob_id ob = dw_id dw 102"
proof -
  let ?e = "timeline_event (dw_id dw 100) order a requestId reason"
  let ?db = "db\<lparr>od_events := od_events db @ [?e]\<rparr>"
  let ?u = "pf_parse_url (oc_platform sample_order_cfg)"
  let ?after = "JObj [(''state'', JStr (state_text (co_state order))), (''version'', JNum (co_version order)), (''reason'', jstr reason)]"
  let ?assurance = "JObj [(''method'', JStr (if a = None then ''worker'' else ''current_session''))]"
  let ?payload = "JObj [(''orderId'', JStr (co_id order)), (''version'', JNum (co_version order)), (''state'', JStr (state_text (co_state order))),
          (''reason'', jstr reason), (''correlationId'', JStr requestId)]"
  have no_slash: "CHR ''/'' \<notin> set (state_text (co_state order))" "CHR ''/'' \<notin> set requestId" "CHR ''/'' \<notin> set (co_id order)"
    using order texts by (auto simp: state_text_def order_uuid_def)
  have reason: "assertSafeValue ?u (jstr reason)"
    using texts(2) by (cases reason) (simp_all add: jstr_def no_slash_safe)
  have safe: "assertSafeValue ?u ?after" "assertSafeValue ?u ?assurance" "assertSafeValue ?u ?payload"
    using order_text_facts(2) no_slash reason by (auto simp: no_slash_safe)
  let ?ne = "\<lparr>ne_actorUserId = (case a of None \<Rightarrow> ''system:commission-worker'' | Some b \<Rightarrow> ak_userId b),
        ne_actorSessionId = map_option ak_sessionId a, ne_subjectType = ''commission_order'', ne_subjectId = co_id order,
        ne_action = ''commission.'' @ state_text (co_state order), ne_outcome = Succeeded, ne_reasonCode = None, ne_beforeState = None,
        ne_afterState = Some ?after, ne_assurance = ?assurance,
        ne_applicationRevision = oc_applicationRevision sample_order_cfg, ne_requestId = requestId, ne_occurredAt = Some (Some (co_updatedAt order))\<rparr>"
  have ids: "list_all auditIdentifier [ne_actorUserId ?ne, ne_subjectType ?ne, ne_subjectId ?ne, ne_action ?ne, ne_applicationRevision ?ne, ne_requestId ?ne]"
    "pred_option auditIdentifier (ne_actorSessionId ?ne)"
    using order texts(1) actor order_text_facts(1) by (cases a; auto simp: state_text_def sample_order_cfg_def)+
  have "\<exists>x. order_audit sample_order_cfg (dw_id dw 101) (co_updatedAt order) ?ne ?db = Inr (?db\<lparr>od_audit := od_audit ?db @ [x]\<rparr>) \<and> au_id x = dw_id dw 101"
    by (rule order_audit_appends [where u = ?u, OF ids]) (use safe fresh in simp_all)
  then obtain x where x: "order_audit sample_order_cfg (dw_id dw 101) (co_updatedAt order) ?ne ?db = Inr (?db\<lparr>od_audit := od_audit db @ [x]\<rparr>)" "au_id x = dw_id dw 101"
    by auto
  let ?db2 = "?db\<lparr>od_audit := od_audit db @ [x]\<rparr>"
  let ?ev = "\<lparr>ev_eventType = ''commission.'' @ state_text (co_state order) @ ''.v1'', ev_eventVersion = 1, ev_aggregateType = ''commission_order'',
        ev_aggregateId = co_id order, ev_payload = ?payload, ev_occurredAt = Some (co_updatedAt order), ev_availableAt = None\<rparr>"
  have "\<exists>y. order_event sample_order_cfg (dw_id dw 102) (co_updatedAt order) ?ev ?db2 = Inr (?db2\<lparr>od_outbox := od_outbox ?db2 @ [y]\<rparr>) \<and> ob_id y = dw_id dw 102"
    by (rule order_event_appends [where u = ?u]) (use safe(3) fresh in simp_all)
  then obtain y where y: "order_event sample_order_cfg (dw_id dw 102) (co_updatedAt order) ?ev ?db2 = Inr (?db2\<lparr>od_outbox := od_outbox db @ [y]\<rparr>)" "ob_id y = dw_id dw 102"
    by auto
  have id: "new_id dw 100 = Inr (dw_id dw 100)" and sv: "save ?db = Inr ?db"
    using fresh(3) ok by simp_all
  have "record_change sample_order_cfg dw order a requestId reason db = Inr (?db2\<lparr>od_outbox := od_outbox db @ [y]\<rparr>)"
    unfolding record_change_def id await_simps sv x(1) by (rule y(1))
  then show ?thesis using x(2) y(2) by (intro exI [of _ x] exI [of _ y]) simp
qed

subsection \<open>Requesting\<close>

lemma sample_brief: "normalizeCommissionBrief (oc_parseUrl sample_order_cfg) (rq_brief sample_request) = Inr (rq_brief sample_request)"
proof -
  have "trim (unify_newlines ''a cat'') = ''a cat'' \<and> \<not> list_ex forbidden_char ''a cat'' \<and> \<not> list_ex (\<lambda>c. c \<in> {CHR ''<'', CHR ''>''}) ''a cat'' \<and>
      length (json_string ''a cat'') \<le> 100" by code_simp
  then have "commissionText ''a cat'' 1 3000 = Inr ''a cat''" by (intro plain_text) simp_all
  then show ?thesis
    by (simp add: normalizeCommissionBrief_def sample_request_def maximumPlaintextBytes_def check_def del: One_nat_def)
qed

lemma lower_hex_length: "length (lower_hex b) = 2 * length b"
  by (induction b) (simp_all add: lower_hex_def)

lemma sample_begin:
  assumes "ak_userId (cmd_actor c) = ''buyer-1''" "cmd_idempotencyKey c = ''request-1''" "scope = ''request''"
    and "sum_list (map (\<lambda>j. length (stringify j) + 1) [JStr scope, JStr (ak_userId (cmd_actor c)), payload]) \<le> 10000"
  shows "\<exists>r. begin_order_command sample_order_cfg (sample_draw x) c scope payload empty_orders =
      Inr (empty_orders\<lparr>od_idem := [r]\<rparr>, Acquired (order_uuid x)) \<and> ir_id r = order_uuid x \<and> ir_status r = InProgress \<and> ir_expiresAt r = 86401000"
proof -
  have d: "hash_domain ''commission-command-key''" "hash_domain ''commission-command''"
    "is_identifier ''buyer-1''" "is_identifier ''orders.commission.request''" by code_simp+
  have h: "createLookupHmac toy_platform ''request-1'' ''commission-command-key'' sample_key = Inr sample_mac"
    by (rule sample_hmac [OF d(1)]) simp_all
  let ?s = "stringify (JArr [JStr scope, JStr (ak_userId (cmd_actor c)), payload])"
  have len: "length ?s \<le> 10002" using stringify_array_length [OF assms(4)] by (simp del: stringify.simps)
  have ne: "?s \<noteq> []" by simp
  have sha: "length (pf_sha256 toy_platform ?s) = 32" by (simp add: toy_platform_def)
  have "length (lower_hex (pf_sha256 toy_platform ?s)) = 64" using sha by (simp add: lower_hex_length)
  then have "createLookupHmac toy_platform (''commission-command-sha256:v1:'' @ lower_hex (pf_sha256 toy_platform ?s)) ''commission-command'' sample_key = Inr sample_mac"
    by (intro sample_hmac [OF d(2)]) simp_all
  then have fp: "commissionCommandFingerprint toy_platform sample_key ''commission-command'' (JArr [JStr scope, JStr (ak_userId (cmd_actor c)), payload]) = Inr sample_mac"
    using len ne by (simp add: commissionCommandFingerprint_def check_def other_def del: stringify.simps)
  show ?thesis
    using d(3,4) sample_mac_digest(2) fp h assms(1-3)
    by (simp add: begin_order_command_def sample_order_cfg_def other_def beginIdempotentCommand_def empty_orders_def sample_draw_def del: stringify.simps)
qed

lemma sample_seals_text:
  assumes "binding_name_ok f" "binding_name_ok rt" "p \<noteq> []" "length p \<le> 100" "leading_alnum is_ident 199 k"
  shows "\<exists>e. seal_text toy_platform Commission.sample_keyring (replicate 12 (CHR ''n'')) rt k f p = Inr e"
  using assms
  by (simp add: seal_text_def encryptSensitiveField_def plaintextLimit_def isSafeInteger_def max_safe_integer_def keyFor_def
      Commission.sample_keyring_def sample_key_def fieldAad_def validateBinding_def split_beta other_def)

lemma sample_names: "binding_name_ok ''scope''" "binding_name_ok ''deliverables''" "binding_name_ok ''usage_rights''" "binding_name_ok ''artist_terms''"
  "binding_name_ok ''text''" "binding_name_ok ''links''" "binding_name_ok ''commission_briefs''" "binding_name_ok ''commission_terms_snapshots''"
  "leading_alnum is_ident 199 (order_uuid (CHR ''1''))"
  by code_simp+

lemma sample_brief_sealed:
  "\<exists>b. encryptCommissionBrief (oc_platform sample_order_cfg) (oc_keyring sample_order_cfg) (dw_nonce (sample_draw x)) (order_uuid (CHR ''1'')) (rq_brief sample_request) = Inr b"
proof -
  have short: "length (json_string ''a cat'') \<le> 100" "json_string ''a cat'' \<noteq> []"
    "length (stringify (JArr [])) \<le> 100" "stringify (JArr []) \<noteq> []" by code_simp+
  from sample_seals_text [OF sample_names(5,7) short(2,1) sample_names(9)] sample_seals_text [OF sample_names(6,7) short(4,3) sample_names(9)]
  show ?thesis
    by (auto simp: encryptCommissionBrief_def sample_order_cfg_def sample_draw_def sample_request_def simp del: stringify.simps)
qed

lemma sample_terms_seal:
  "\<exists>row. encryptCommissionTerms (oc_platform sample_order_cfg) (oc_keyring sample_order_cfg) (\<lambda>n. dw_nonce (sample_draw x) (10 + n))
     ''commission_terms_snapshots'' (order_uuid (CHR ''1'')) sample_terms = Inr row \<and> pt_amountVnd row = 100000 \<and> pt_turnaroundDays row = 14 \<and>
     pt_revisionAllowance row = 2 \<and> pt_reviewWindowDays row = 7"
proof -
  have short: "length (json_string (tm_scope sample_terms)) \<le> 100" "length (json_string (tm_deliverables sample_terms)) \<le> 100"
    "length (json_string (tm_usageRights sample_terms)) \<le> 100" "length (json_string (tm_artistTerms sample_terms)) \<le> 100"
    by code_simp+
  have full: "json_string p \<noteq> []" for p by (simp add: json_string_def)
  note seals = sample_seals_text [OF sample_names(1,8) full short(1) sample_names(9)] sample_seals_text [OF sample_names(2,8) full short(2) sample_names(9)]
    sample_seals_text [OF sample_names(3,8) full short(3) sample_names(9)] sample_seals_text [OF sample_names(4,8) full short(4) sample_names(9)]
  show ?thesis
    using seals by (auto simp: encryptCommissionTerms_def sample_order_cfg_def sample_draw_def) (simp_all add: sample_terms_def)
qed

lemma sample_order_check: "order_check sample_order"
  by (simp add: sample_order_def new_order_def sample_request_def order_check_def minimumVnd_def maximumVnd_def payment_state_check_def
      deadline_check_def completion_check_def fulfillment_check_def floor_check_def closed_check_def time_check_def pending_state_def
      not_completed_def day_ms_def)

text \<open>The tables while the request is being written: the checks of all rows written so far hold.\<close>

definition sample_terms_row :: "private_terms \<Rightarrow> terms_row" where
  "sample_terms_row sealed = terms_snapshot sample_order sealed None 1000 500 1000"

lemma sample_terms_row_check:
  assumes "pt_amountVnd sealed = 100000" "pt_turnaroundDays sealed = 14" "pt_revisionAllowance sealed = 2" "pt_reviewWindowDays sealed = 7"
  shows "terms_check (sample_terms_row sealed)" "ct_orderId (sample_terms_row sealed) = order_uuid (CHR ''1'')" "pt_amountVnd (sample_terms_row sealed) = 100000"
    "pt_turnaroundDays (sample_terms_row sealed) = 14" "pt_revisionAllowance (sample_terms_row sealed) = 2" "pt_reviewWindowDays (sample_terms_row sealed) = 7"
  using assms by (simp_all add: sample_terms_row_def terms_snapshot_def private_terms.defs terms_check_def private_terms_check_def
    minimumVnd_def maximumVnd_def sample_order_def new_order_def)

lemma sample_order_id: "co_id sample_order = order_uuid (CHR ''1'')" "co_version sample_order = 1" "co_state sample_order = CoAwaitingPayment"
  "co_creatorUserId sample_order = ''creator-1''" "co_currentQuoteId sample_order = None" "co_packageRevisionId sample_order = order_uuid (CHR ''c'')"
  by (simp_all add: sample_order_def new_order_def sample_request_def)

lemma sample_stage_constraints:
  assumes "od_orders db = [sample_order]" "od_reservations db \<in> {[], [new_reservation sample_order 1000]}"
    "od_submissions db = []" "od_quotes db = []" "od_pauses db = []"
    "od_events db = [] \<or> (\<exists>k e. od_events db = [timeline_event k sample_order a q e])"
    "od_terms db = [] \<or> (\<exists>t. od_terms db = [t] \<and> terms_check t \<and> ct_orderId t = order_uuid (CHR ''1''))"
    "acceptances_ok (od_acceptances db)" "list_all (\<lambda>x. ca_orderId x = order_uuid (CHR ''1'')) (od_acceptances db)"
    "od_briefs db = [] \<or> (\<exists>b. od_briefs db = [b] \<and> cb_orderId b = order_uuid (CHR ''1''))"
  shows "order_constraints db"
  using assms sample_order_check
  by (auto simp: order_constraints_def order_references_ok_def orders_ok_def reservations_ok_def events_ok_def submissions_ok_def quotes_ok_def
      snapshots_ok_def pauses_ok_def new_reservation_def reservation_check_def timeline_event_def sample_order_id list_all_iff)

definition sample_requested :: "ord_db \<Rightarrow> bool" where
  "sample_requested db \<longleftrightarrow>
     od_orders db = [sample_order] \<and> od_reservations db = [new_reservation sample_order 1000] \<and>
     (\<exists>sealed. od_terms db = [sample_terms_row sealed] \<and> terms_check (sample_terms_row sealed) \<and> pt_amountVnd (sample_terms_row sealed) = 100000 \<and>
        pt_turnaroundDays (sample_terms_row sealed) = 14 \<and> pt_revisionAllowance (sample_terms_row sealed) = 2 \<and>
        pt_reviewWindowDays (sample_terms_row sealed) = 7) \<and>
     (\<exists>a q r. od_events db = [timeline_event (order_uuid (CHR ''1'')) sample_order a q r]) \<and> od_submissions db = [] \<and> od_quotes db = [] \<and> od_pauses db = [] \<and>
     acceptances_ok (od_acceptances db) \<and> list_all (\<lambda>x. ca_orderId x = order_uuid (CHR ''1'')) (od_acceptances db) \<and>
     (\<exists>b. od_briefs db = [b] \<and> cb_orderId b = order_uuid (CHR ''1'')) \<and>
     (\<exists>x. od_audit db = [x] \<and> au_id x = order_uuid (CHR ''1'')) \<and> (\<exists>y. od_outbox db = [y] \<and> ob_id y = order_uuid (CHR ''1''))"

lemma sample_request_rest:
  assumes db0: "db = empty_orders\<lparr>od_idem := t, od_orders := [sample_order]\<rparr>"
  shows "\<exists>db' cg. request_rest sample_order_cfg sample_ports (sample_draw (CHR ''1'')) sample_request (rq_brief sample_request) [] sample_package (Some sample_terms) True
      sample_order 1000 db = Inr (db', cg) \<and> sample_requested db' \<and> od_idem db' = t \<and> cg = \<lparr>cg_orderId = order_uuid (CHR ''1''), cg_at = 1000, cg_guardUntil = Some (1000 + day_ms)\<rparr>"
proof -
  obtain b where b: "encryptCommissionBrief (oc_platform sample_order_cfg) (oc_keyring sample_order_cfg) (dw_nonce (sample_draw (CHR ''1''))) (co_id sample_order) (rq_brief sample_request) = Inr b"
    using sample_brief_sealed by (auto simp: sample_order_id)
  obtain sealed where sealed: "encryptCommissionTerms (oc_platform sample_order_cfg) (oc_keyring sample_order_cfg) (\<lambda>n. dw_nonce (sample_draw (CHR ''1'')) (10 + n))
     ''commission_terms_snapshots'' (co_id sample_order) sample_terms = Inr sealed"
    and parts: "pt_amountVnd sealed = 100000" "pt_turnaroundDays sealed = 14" "pt_revisionAllowance sealed = 2" "pt_reviewWindowDays sealed = 7"
    using sample_terms_seal [of "CHR ''1''"] by (auto simp: sample_order_id)
  note tr = sample_terms_row_check [OF parts]
  let ?brief = "sealed_brief.extend b \<lparr>cb_orderId = co_id sample_order, cb_buyerSessionId = ak_sessionId (cmd_actor sample_request),
     cb_requestId = cmd_requestId sample_request, cb_createdAt = 1000\<rparr>"
  have brief: "cb_orderId ?brief = order_uuid (CHR ''1'')" by (simp add: sealed_brief.defs sample_order_id)
  define acc where "acc n role (a :: actor) at q = \<lparr>ca_id = dw_id (sample_draw (CHR ''1'')) n, ca_orderId = co_id sample_order, ca_actorUserId = ak_userId a, ca_actorSessionId = ak_sessionId a, ca_role = role,
         ca_packageRevisionId = co_packageRevisionId sample_order, ca_quoteRevisionId = None,
         ca_policyRevisionId = tm_policyRevisionId sample_terms, ca_requestId = q, ca_acceptedAt = at\<rparr>" for n role at q and a :: actor
  let ?a1 = "acc 2 Buyer (cmd_actor sample_request) 1000 (cmd_requestId sample_request)"
  let ?a2 = "acc 3 Creator \<lparr>ak_userId = co_creatorUserId sample_order, ak_sessionId = pr_actorSessionId (ip_revision sample_package)\<rparr>
     (pr_publishedAt (ip_revision sample_package)) (pr_requestId (ip_revision sample_package))"
  let ?db1 = "db\<lparr>od_briefs := [?brief]\<rparr>"
  let ?db2 = "?db1\<lparr>od_acceptances := [?a1]\<rparr>"
  let ?db3 = "?db1\<lparr>od_acceptances := [?a1, ?a2]\<rparr>"
  let ?db4 = "?db3\<lparr>od_reservations := [new_reservation sample_order 1000]\<rparr>"
  let ?db5 = "?db4\<lparr>od_terms := [sample_terms_row sealed]\<rparr>"
  have accs: "acceptances_ok []" "acceptances_ok [?a1]" "acceptances_ok [?a1, ?a2]" "ca_orderId ?a1 = order_uuid (CHR ''1'')" "ca_orderId ?a2 = order_uuid (CHR ''1'')"
    by (simp_all add: acceptances_ok_def acc_def sample_draw_def order_uuid_def sample_order_id)
  have c: "order_constraints ?db1" "order_constraints ?db2" "order_constraints ?db3" "order_constraints ?db4" "order_constraints ?db5"
    using brief accs tr by (auto intro!: sample_stage_constraints simp: db0 empty_orders_def)
  have c6: "order_constraints (?db5\<lparr>od_events := [timeline_event (order_uuid (CHR ''1'')) sample_order a q r]\<rparr>)" for a q r
    by (rule sample_stage_constraints [where a = a and q = q]) (use brief accs tr in \<open>auto simp: db0 empty_orders_def\<close>)
  have ids: "new_id (sample_draw (CHR ''1'')) 2 = Inr (dw_id (sample_draw (CHR ''1'')) 2)" "new_id (sample_draw (CHR ''1'')) 3 = Inr (dw_id (sample_draw (CHR ''1'')) 3)"
    using order_uuids by (simp_all add: sample_draw_def)
  have s1: "save (db\<lparr>od_briefs := od_briefs db @ [?brief]\<rparr>) = Inr ?db1" using c(1) by (simp add: db0 empty_orders_def)
  have s2: "acceptance (sample_draw (CHR ''1'')) 2 sample_order Buyer (cmd_actor sample_request) 1000 (tm_policyRevisionId sample_terms) None (cmd_requestId sample_request) ?db1 = Inr ?db2"
    unfolding acceptance_def ids(1) await_simps using c(2) by (simp add: acc_def db0 empty_orders_def)
  have s3: "acceptance (sample_draw (CHR ''1'')) 3 sample_order Creator \<lparr>ak_userId = co_creatorUserId sample_order, ak_sessionId = pr_actorSessionId (ip_revision sample_package)\<rparr>
     (pr_publishedAt (ip_revision sample_package)) (tm_policyRevisionId sample_terms) None (pr_requestId (ip_revision sample_package)) ?db2 = Inr ?db3"
    unfolding acceptance_def ids(2) await_simps using c(3) by (simp add: acc_def)
  have "capacity_used (co_creatorUserId sample_order) ?db3 = 0" by (simp add: capacity_used_def db0 empty_orders_def)
  then have s4: "reserve sample_order sample_package 1000 ?db3 = Inr ?db4"
    using c(4) by (simp add: reserve_def new_reservation_def db0 empty_orders_def sample_package_def check_def save_ok)
  have s5: "commitTerms sample_order_cfg sample_ports (sample_draw (CHR ''1'')) sample_order sample_package sample_terms 1000 (pr_publishedAt (ip_revision sample_package)) None 1000 ?db3 = Inr ?db5"
  proof -
    have v: "(case ip_accountVersionId sample_package of None \<Rightarrow> False | Some v \<Rightarrow> is_uuid v)" "pr_publishedAt (ip_revision sample_package) = 500"
      using order_uuids by (simp_all add: sample_package_def)
    have sv: "save (?db4\<lparr>od_terms := od_terms ?db4 @ [terms_snapshot sample_order sealed None 1000 (pr_publishedAt (ip_revision sample_package)) 1000]\<rparr>) = Inr ?db5"
      using c(5) by (simp add: db0 empty_orders_def sample_terms_row_def v(2))
    have ck: "check (case ip_accountVersionId sample_package of None \<Rightarrow> False | Some v \<Rightarrow> is_uuid v) NotAvailable = Inr ()"
      using v(1) by (simp only: check_Inr)
    have intent: "op_createIntent sample_ports k n = Inr ()" for k n by (simp add: sample_ports_def)
    show ?thesis
      unfolding commitTerms_def ck await_simps s4 sealed sv intent by (rule refl)
  qed
  have rec: "\<exists>au ob. record_change sample_order_cfg (sample_draw (CHR ''1'')) sample_order (Some (cmd_actor sample_request)) (cmd_requestId sample_request) None ?db5 =
      Inr (?db5\<lparr>od_events := od_events ?db5 @ [timeline_event (dw_id (sample_draw (CHR ''1'')) 100) sample_order (Some (cmd_actor sample_request)) (cmd_requestId sample_request) None],
      od_audit := od_audit ?db5 @ [au], od_outbox := od_outbox ?db5 @ [ob]\<rparr>) \<and> au_id au = dw_id (sample_draw (CHR ''1'')) 101 \<and> ob_id ob = dw_id (sample_draw (CHR ''1'')) 102"
    by (rule sample_record) (use c6 order_uuids in \<open>simp_all add: sample_order_id sample_request_def db0 empty_orders_def sample_draw_def\<close>)
  then obtain au ob where rec: "record_change sample_order_cfg (sample_draw (CHR ''1'')) sample_order (Some (cmd_actor sample_request)) (cmd_requestId sample_request) None ?db5 =
      Inr (?db5\<lparr>od_events := [timeline_event (order_uuid (CHR ''1'')) sample_order (Some (cmd_actor sample_request)) (cmd_requestId sample_request) None],
      od_audit := [au], od_outbox := [ob]\<rparr>)" "au_id au = order_uuid (CHR ''1'')" "ob_id ob = order_uuid (CHR ''1'')"
    by (auto simp: db0 empty_orders_def sample_draw_def)
  let ?db6 = "?db5\<lparr>od_events := [timeline_event (order_uuid (CHR ''1'')) sample_order (Some (cmd_actor sample_request)) (cmd_requestId sample_request) None],
      od_audit := [au], od_outbox := [ob]\<rparr>"
  have "request_rest sample_order_cfg sample_ports (sample_draw (CHR ''1'')) sample_request (rq_brief sample_request) [] sample_package (Some sample_terms) True
      sample_order 1000 db = Inr (?db6, \<lparr>cg_orderId = co_id sample_order, cg_at = 1000, cg_guardUntil = co_expiresAt sample_order\<rparr>)"
    unfolding request_rest_def b await_simps s1 Let_def
    by (simp add: attach_brief_files_def s2 s3 s5 rec(1) del: One_nat_def)
  moreover have "sample_requested ?db6"
    using tr brief accs rec(2,3) by (auto simp: sample_requested_def db0 empty_orders_def)
  moreover have "co_expiresAt sample_order = Some (1000 + day_ms)" by (simp add: sample_order_def new_order_def)
  ultimately show ?thesis by (auto simp: db0 sample_order_id empty_orders_def)
qed

lemma sample_request_run:
  "\<exists>db. request sample_order_cfg sample_ports (sample_draw (CHR ''1'')) sample_request empty_orders = Inr (db, order_uuid (CHR ''1'')) \<and> sample_requested db"
proof -
  let ?dw = "sample_draw (CHR ''1'')" and ?c = "order_command.truncate sample_request"
  let ?payload = "JArr ([JStr (rq_packageId sample_request), JStr (rq_revisionId sample_request), JStr (rq_policyRevisionId sample_request), JBool (rq_acceptTerms sample_request),
         JObj [(''text'', JStr (br_text (rq_brief sample_request))), (''referenceLinks'', JArr (map JStr (br_referenceLinks (rq_brief sample_request))))],
         JStr (rq_abuseKeyHash sample_request)] @ [])"
  have c: "cmd_actor ?c = cmd_actor sample_request" "cmd_idempotencyKey ?c = ''request-1''" "cmd_requestId ?c = ''req-1''"
    by (simp_all add: sample_request_def order_command.defs)
  have user: "ak_userId (cmd_actor ?c) = ''buyer-1''" by (simp only: c) (simp add: sample_request_def)
  have size: "sum_list (map (\<lambda>j. length (stringify j) + 1) [JStr ''request'', JStr (ak_userId (cmd_actor ?c)), ?payload]) \<le> 10000"
  proof -
    have "sum_list (map (\<lambda>j. length (stringify j) + 1) [JStr (rq_packageId sample_request), JStr (rq_revisionId sample_request), JStr (rq_policyRevisionId sample_request), JBool (rq_acceptTerms sample_request),
         JObj [(''text'', JStr (br_text (rq_brief sample_request))), (''referenceLinks'', JArr (map JStr (br_referenceLinks (rq_brief sample_request))))],
         JStr (rq_abuseKeyHash sample_request)]) \<le> 2000"
    proof -
      have "length (stringify (JObj [(''text'', JStr ''a cat''), (''referenceLinks'', JArr (map JStr []))])) \<le> 100" by code_simp
      moreover have "length (json_string sample_mac) \<le> 400" using json_string_length [of sample_mac] sample_mac_digest(1) [THEN digest_with_length] by simp
      moreover have "length (json_string (order_uuid (CHR ''b''))) \<le> 300" "length (json_string (order_uuid (CHR ''c''))) \<le> 300"
        "length (json_string ''00000000-0000-4000-8000-000000000006'') \<le> 300" "length (stringify (JBool True)) \<le> 10" by code_simp+
      ultimately show ?thesis by (simp add: sample_request_def)
    qed
    from stringify_array_length [OF this] have "length (stringify ?payload) \<le> 2002" by simp
    moreover have "length (json_string ''request'') \<le> 100" "length (json_string ''buyer-1'') \<le> 100" by code_simp+
    ultimately show ?thesis using user by (simp del: stringify.simps(5,6))
  qed
  obtain r where r: "begin_order_command sample_order_cfg ?dw ?c ''request'' ?payload empty_orders = Inr (empty_orders\<lparr>od_idem := [r]\<rparr>, Acquired (order_uuid (CHR ''1'')))"
      "ir_id r = order_uuid (CHR ''1'')" "ir_status r = InProgress" "ir_expiresAt r = 86401000"
    using sample_begin [OF user c(2) refl size] by blast
  let ?db0 = "empty_orders\<lparr>od_idem := [r]\<rparr>"
  obtain db1 cg where rest: "request_rest sample_order_cfg sample_ports ?dw sample_request (rq_brief sample_request) [] sample_package (Some sample_terms) True
      sample_order 1000 (?db0\<lparr>od_orders := [sample_order]\<rparr>) = Inr (db1, cg)" "sample_requested db1" "od_idem db1 = [r]"
      "cg = \<lparr>cg_orderId = order_uuid (CHR ''1''), cg_at = 1000, cg_guardUntil = Some (1000 + day_ms)\<rparr>"
    using sample_request_rest [of "?db0\<lparr>od_orders := [sample_order]\<rparr>" "[r]"] by auto
  have ok: "order_constraints (?db0\<lparr>od_orders := [sample_order]\<rparr>)"
    by (rule sample_stage_constraints) (simp_all add: empty_orders_def acceptances_ok_def)
  have apply_ok: "request_apply sample_order_cfg sample_ports ?dw sample_request (rq_brief sample_request) [] ?db0 = Inr (db1, cg)"
  proof -
    have fixed_price: "pr_route (ip_revision sample_package) = FixedImmediate" "pr_terms (ip_revision sample_package) = sample_terms"
      by (simp_all add: sample_package_def)
    have policy: "requireCommissionPolicy (ip_policy sample_package) (rq_policyRevisionId sample_request) = Inr sample_policy"
      by (simp add: requireCommissionPolicy_def sample_package_def sample_policy_def sample_request_def check_def demand_def)
    have expiry: "commissionPaymentExpiry 1000 = Inr (1000 + day_ms)"
      by (simp add: commissionPaymentExpiry_def paymentTtlMs_def date_ok_def day_ms_def)
    have id: "new_id ?dw 1 = Inr (order_uuid (CHR ''1''))" using order_uuids by (simp add: sample_draw_def)
    have amount: "tm_amountVnd sample_terms = 100000" by (simp add: sample_terms_def)
    have sv: "od_orders empty_orders = []" by (simp add: empty_orders_def)
    have order: "new_order sample_request (order_uuid (CHR ''1'')) ''creator-1'' FixedImmediate (Some 100000) (1000 + day_ms) 1000 = sample_order"
      by (simp add: sample_order_def)
    have pre: "oc_intakeEnabled sample_order_cfg" "oc_paymentsMode sample_order_cfg = ManualOnly" "ak_userId (cmd_actor sample_request) = ''buyer-1''"
      "rq_acceptTerms sample_request" "dw_clock ?dw 5 = 1000" "open_pair_orders ''creator-1'' ''buyer-1'' ?db0 = 0"
      by (simp_all add: sample_order_cfg_def sample_request_def sample_draw_def open_pair_orders_def empty_orders_def)
    have ports: "find_identity sample_ports x = Inr (''creator-1'', FixedImmediate)" "participants sample_ports ''creator-1'' ''buyer-1'' = Inr ()"
      "op_buyingAllowed sample_ports x = Inr ()" "op_intakePackage sample_ports a1 b1 c1 d1 = Inr sample_package" for x a1 b1 c1 d1
      by (simp_all add: find_identity_def participants_def sample_ports_def check_def demand_def)
    show ?thesis
      unfolding request_apply_def Let_def ports await_simps prod.case pre fixed_price
      by (simp add: check_def ports pre policy sample_terms_normal id expiry amount order sv save_ok [OF ok] rest(1) maximumOpenPairOrders_def fixed_price del: One_nat_def)
  qed
  have fin: "finish_order_command sample_order_cfg sample_ports ?dw ?c ''request'' (order_uuid (CHR ''1'')) 2000 cg db1 =
      Inr (db1\<lparr>od_idem := [r\<lparr>ir_status := Completed, ir_resultReference := Some (order_uuid (CHR ''1'')), ir_completedAt := Some 1000\<rparr>]\<rparr>, order_uuid (CHR ''1''))"
  proof -
    have ref: "is_identifier (order_uuid (CHR ''1''))" by code_simp
    have comp: "completeIdempotentCommand (pf_parse_url (oc_platform sample_order_cfg)) (order_uuid (CHR ''1'')) (order_uuid (CHR ''1'')) 1000 [r] =
        Inr ([r\<lparr>ir_status := Completed, ir_resultReference := Some (order_uuid (CHR ''1'')), ir_completedAt := Some 1000\<rparr>], True)"
      using complete_last [of "order_uuid (CHR ''1'')" "[]" r "order_uuid (CHR ''1'')" "pf_parse_url (oc_platform sample_order_cfg)" 1000] r(2-4) ref by simp
    show ?thesis
      by (simp add: finish_order_command_def Let_def rest(3,4) comp sample_draw_def check_def other_def requireCommissionBeforeDeadline_def date_ok_def day_ms_def sample_ports_def
          split: option.splits)
  qed
  have sess: "session sample_ports (cmd_actor ?c) (dw_clock ?dw 1) = Inr 2000"
    by (simp add: session_def sample_ports_def sample_draw_def check_def demand_def)
  have creator: "map_sum id fst (find_identity sample_ports (rq_packageId sample_request)) = Inr ''creator-1''"
    by (simp add: find_identity_def sample_ports_def demand_def)
  let ?db' = "db1\<lparr>od_idem := [r\<lparr>ir_status := Completed, ir_resultReference := Some (order_uuid (CHR ''1'')), ir_completedAt := Some 1000\<rparr>]\<rparr>"
  have run: "mutate_transaction sample_order_cfg sample_ports ?dw ?c ''request'' ?payload (\<lambda>_. map_sum id fst (find_identity sample_ports (rq_packageId sample_request)))
       (request_apply sample_order_cfg sample_ports ?dw sample_request (rq_brief sample_request) []) empty_orders = Inr (?db', order_uuid (CHR ''1''))"
    unfolding mutate_transaction_def r(1) await_simps prod.case creator sess begin_result.case apply_ok fin check_def require_simps if_True ..
  have valid: "actorValid (cmd_actor ?c) = Inr ()" "commissionIdentifier (cmd_requestId ?c)" "commissionIdempotencyKey (cmd_idempotencyKey ?c)"
    "is_uuid (rq_packageId sample_request)" "is_uuid (rq_revisionId sample_request)" "is_uuid (rq_policyRevisionId sample_request)"
    "digest_with ''hmac-sha256:v1:'' (rq_abuseKeyHash sample_request)" "referenceIds (rq_referenceFileIds sample_request) = Inr []"
  proof -
    have t: "commissionIdentifier ''buyer-1''" "commissionIdentifier ''session-1''" "commissionIdentifier ''req-1''" "commissionIdempotencyKey ''request-1''" by code_simp+
    show "actorValid (cmd_actor ?c) = Inr ()" "commissionIdentifier (cmd_requestId ?c)" "commissionIdempotencyKey (cmd_idempotencyKey ?c)"
      using t by (simp_all add: actorValid_def c check_def) (simp_all add: sample_request_def)
    show "is_uuid (rq_packageId sample_request)" "is_uuid (rq_revisionId sample_request)" "is_uuid (rq_policyRevisionId sample_request)"
      "digest_with ''hmac-sha256:v1:'' (rq_abuseKeyHash sample_request)" "referenceIds (rq_referenceFileIds sample_request) = Inr []"
      using order_uuids sample_mac_digest(1) by (simp_all add: sample_request_def referenceIds_def)
  qed
  have m: "mutate sample_order_cfg sample_ports ?dw ?c ''request'' ?payload (\<lambda>_. map_sum id fst (find_identity sample_ports (rq_packageId sample_request)))
       (request_apply sample_order_cfg sample_ports ?dw sample_request (rq_brief sample_request) []) empty_orders = Inr (?db', order_uuid (CHR ''1''))"
    unfolding mutate_def valid(1) await_simps run using valid(2,3) by (simp add: check_def boundary_def run)
  have "request sample_order_cfg sample_ports ?dw sample_request empty_orders = Inr (?db', order_uuid (CHR ''1''))"
    unfolding request_def sample_brief valid(8) using valid(4-7) m by (simp add: boundary_def check_def del: append_Nil2)
  moreover have "sample_requested ?db'" using rest(2) by (simp add: sample_requested_def)
  ultimately show ?thesis by blast
qed

subsection \<open>Confirming the payment and closing by a ruling\<close>

definition sample_confirmation :: confirmation where
  "sample_confirmation = \<lparr>cf_orderId = order_uuid (CHR ''1''), cf_creatorUserId = ''creator-1'', cf_at = 1500, cf_paymentIntentId = order_uuid (CHR ''b''),
     cf_amountVnd = 100000, cf_actor = None, cf_requestId = ''req-2''\<rparr>"

definition sample_bindings :: bindings where
  "sample_bindings = [order_uuid (CHR ''1'') \<mapsto> (''creator-1'', 1400)]"

definition paid_order :: order_row where
  "paid_order = sample_order\<lparr>co_state := CoInProgress, co_version := 2, co_confirmedAt := Some 1500, co_dueAt := Some (1500 + 14 * day_ms), co_updatedAt := 1500\<rparr>"

definition paid_reservation :: reservation_row where
  "paid_reservation = (new_reservation sample_order 1000)\<lparr>cr_state := Occupied, cr_occupiedAt := Some 1500\<rparr>"

definition sample_paid :: "ord_db \<Rightarrow> bool" where
  "sample_paid db \<longleftrightarrow>
     od_orders db = [paid_order] \<and> od_reservations db = [paid_reservation] \<and> order_constraints db \<and>
     (\<exists>e1 e2. od_events db = [e1, e2] \<and> ce_id e1 = order_uuid (CHR ''1'') \<and> ce_id e2 = order_uuid (CHR ''4'') \<and>
        ce_orderVersion e1 = 1 \<and> ce_orderVersion e2 = 2 \<and> ce_orderId e1 = order_uuid (CHR ''1'') \<and> ce_orderId e2 = order_uuid (CHR ''1'')) \<and>
     (\<exists>x. od_audit db = [x] \<and> au_id x = order_uuid (CHR ''1'')) \<and> (\<exists>y. od_outbox db = [y] \<and> ob_id y = order_uuid (CHR ''1''))"

lemma paid_checks: "order_check paid_order" "reservation_check paid_reservation" "co_id paid_order = order_uuid (CHR ''1'')"
  "cr_orderId paid_reservation = order_uuid (CHR ''1'')" "co_currentQuoteId paid_order = None"
  by (simp_all add: paid_order_def paid_reservation_def new_reservation_def reservation_check_def not_before_def
      sample_order_def new_order_def sample_request_def order_check_def minimumVnd_def maximumVnd_def payment_state_check_def
      deadline_check_def completion_check_def fulfillment_check_def floor_check_def closed_check_def time_check_def pending_state_def
      not_completed_def day_ms_def later_def)

lemma sample_requested_constraints:
  assumes "sample_requested db"
  shows "order_constraints db"
proof -
  from assms obtain a q e where "od_events db = [timeline_event (order_uuid (CHR ''1'')) sample_order a q e]" by (auto simp: sample_requested_def)
  moreover from assms obtain sealed where "od_terms db = [sample_terms_row sealed]" "terms_check (sample_terms_row sealed)" by (auto simp: sample_requested_def)
  moreover have "ct_orderId (sample_terms_row sealed) = order_uuid (CHR ''1'')"
    by (simp add: sample_terms_row_def terms_snapshot_def private_terms.defs sample_order_id)
  ultimately show ?thesis
    by (intro sample_stage_constraints [where a = a and q = q]) (use assms in \<open>auto simp: sample_requested_def\<close>)
qed

lemma sample_party_identifiers: "commissionIdentifier ''req-2''" "commissionIdentifier ''buyer-1''" "commissionIdentifier ''creator-1''" "commissionIdentifier ''session-1''"
  by code_simp+

lemma sample_confirm_run:
  assumes r: "sample_requested db"
  shows "\<exists>db'. confirmPayment (sample_draw (CHR ''4'')) sample_bindings sample_confirmation db = Inr (db', True) \<and> sample_paid db'"
proof -
  from r obtain sealed a q e where t: "od_terms db = [sample_terms_row sealed]" "terms_check (sample_terms_row sealed)" "pt_amountVnd (sample_terms_row sealed) = 100000"
      "pt_turnaroundDays (sample_terms_row sealed) = 14"
    and ev: "od_events db = [timeline_event (order_uuid (CHR ''1'')) sample_order a q e]"
    by (auto simp: sample_requested_def)
  have tid: "ct_orderId (sample_terms_row sealed) = order_uuid (CHR ''1'')"
    by (simp add: sample_terms_row_def terms_snapshot_def private_terms.defs sample_order_id)
  have rows: "od_orders db = [sample_order]" "od_reservations db = [new_reservation sample_order 1000]" "od_submissions db = []" "od_quotes db = []" "od_pauses db = []"
    "acceptances_ok (od_acceptances db)" "list_all (\<lambda>x. ca_orderId x = order_uuid (CHR ''1'')) (od_acceptances db)"
    "\<exists>b. od_briefs db = [b] \<and> cb_orderId b = order_uuid (CHR ''1'')"
    using r by (auto simp: sample_requested_def)
  have c0: "order_constraints db" by (rule sample_requested_constraints [OF r])
  let ?e = "\<lparr>ce_id = order_uuid (CHR ''4''), ce_orderId = order_uuid (CHR ''1''), ce_orderVersion = 2, ce_type = CoInProgress,
     ce_actorUserId = None, ce_actorSessionId = None, ce_reason = None, ce_requestId = ''req-2'', ce_occurredAt = 1500\<rparr>"
  let ?db1 = "db\<lparr>od_reservations := [paid_reservation]\<rparr>"
  let ?db2 = "?db1\<lparr>od_orders := [paid_order]\<rparr>"
  let ?db3 = "?db2\<lparr>od_events := od_events db @ [?e]\<rparr>"
  have c: "order_constraints ?db1" "order_constraints ?db2" "order_constraints ?db3"
    using rows t(1,2) tid ev sample_order_check paid_checks
    by (auto simp: order_constraints_def order_references_ok_def orders_ok_def reservations_ok_def events_ok_def submissions_ok_def quotes_ok_def
      snapshots_ok_def pauses_ok_def timeline_event_def sample_order_id list_all_iff order_uuid_def)
  have found: "find_owned (cf_orderId sample_confirmation) (cf_creatorUserId sample_confirmation) db = Some sample_order"
    "find_terms (co_id sample_order) db = Some (sample_terms_row sealed)"
    using rows(1) t(1) tid by (simp_all add: find_owned_def find_terms_def sample_order_id sample_confirmation_def)
  have bound: "confirmation_bound sample_bindings sample_confirmation" "confirmable sample_order sample_confirmation"
    "pt_amountVnd (sample_terms_row sealed) = cf_amountVnd sample_confirmation"
    using order_uuids sample_party_identifiers t(3)
    by (simp_all add: confirmation_bound_def sample_bindings_def sample_confirmation_def confirmable_def sample_order_def new_order_def day_ms_def)
  have due: "commissionDueAt 1500 14 = Inr (1500 + 14 * day_ms)"
    by (simp add: commissionDueAt_def date_ok_def day_ms_def commissionInteger_def isSafeInteger_def max_safe_integer_def)
  have w1: "update_reservation (co_id sample_order) (\<lambda>r. cr_creatorUserId r = cf_creatorUserId sample_confirmation \<and> cr_state r = Reserved)
       (\<lambda>r. r\<lparr>cr_state := Occupied, cr_occupiedAt := Some (cf_at sample_confirmation)\<rparr>) db = Inr (?db1, Some paid_reservation)"
    unfolding update_reservation_def rows(2)
    using c(1) by (simp add: new_reservation_def paid_reservation_def sample_confirmation_def sample_order_id rows_update_def save_ok)
  have w2: "update_order (co_id sample_order)
         (\<lambda>o1. same_version sample_order o1 \<and> co_state o1 = CoAwaitingPayment \<and> (case co_expiresAt o1 of None \<Rightarrow> False | Some e \<Rightarrow> cf_at sample_confirmation < e))
         (\<lambda>o1. o1\<lparr>co_state := CoInProgress, co_version := co_version sample_order + 1, co_confirmedAt := Some (cf_at sample_confirmation),
            co_dueAt := Some (1500 + 14 * day_ms), co_updatedAt := cf_at sample_confirmation\<rparr>) ?db1 = Inr (?db2, Some paid_order)"
  proof -
    have "co_expiresAt sample_order = Some (1000 + day_ms)" by (simp add: sample_order_def new_order_def)
    then show ?thesis
      using c(2) rows(1) by (simp add: update_order_def paid_order_def sample_confirmation_def sample_order_id rows_update_def save_ok same_version_def day_ms_def)
  qed
  have w3: "save (?db2\<lparr>od_events := od_events ?db2 @
             [\<lparr>ce_id = dw_id (sample_draw (CHR ''4'')) 0, ce_orderId = co_id sample_order, ce_orderVersion = co_version paid_order, ce_type = CoInProgress,
               ce_actorUserId = map_option ak_userId (cf_actor sample_confirmation), ce_actorSessionId = map_option ak_sessionId (cf_actor sample_confirmation),
               ce_reason = None, ce_requestId = cf_requestId sample_confirmation, ce_occurredAt = cf_at sample_confirmation\<rparr>]\<rparr>) = Inr ?db3"
    using c(3) by (simp add: sample_draw_def sample_confirmation_def sample_order_id paid_order_def)
  have args: "cf_at sample_confirmation = 1500" "is_uuid (dw_id (sample_draw (CHR ''4'')) 0)"
    using order_uuids by (simp_all add: sample_confirmation_def sample_draw_def)
  have "confirm_write (sample_draw (CHR ''4'')) sample_confirmation sample_order (sample_terms_row sealed) db = Inr (?db3, True)"
    unfolding confirm_write_def w1 await_simps prod.case t(4)
    by (simp only: due w2 [unfolded args(1)] w3 [unfolded args(1)] args await_simps prod.case option.case if_True if_False option.distinct refl)
  then have "confirmPayment (sample_draw (CHR ''4'')) sample_bindings sample_confirmation db = Inr (?db3, True)"
    by (simp add: confirmPayment_def confirmation_time_invalid_def args(1) date_ok_def found bound)
  moreover have "sample_paid ?db3"
    using r c(3) ev by (auto simp: sample_paid_def sample_requested_def timeline_event_def sample_order_id)
  ultimately show ?thesis by blast
qed

definition sample_ruling :: resolution_command where
  "sample_ruling = \<lparr>rs_orderId = order_uuid (CHR ''1''), rs_expectedVersion = 2, rs_actor = None, rs_requestId = ''req-2'', rs_at = 1600\<rparr>"

definition cancelled_order :: order_row where
  "cancelled_order = closed_row paid_order CancelledByRuling 1600 paid_order"

definition cancelled_reservation :: reservation_row where
  "cancelled_reservation = paid_reservation\<lparr>cr_state := ReservationCancelled, cr_releasedAt := Some 1600\<rparr>"

lemma cancelled_checks: "order_check cancelled_order" "reservation_check cancelled_reservation" "co_id cancelled_order = order_uuid (CHR ''1'')"
  "cr_orderId cancelled_reservation = order_uuid (CHR ''1'')" "co_currentQuoteId cancelled_order = None" "co_state cancelled_order = CoClosed"
  "co_version cancelled_order = 3"
  by (simp_all add: cancelled_order_def closed_row_def cancelled_reservation_def paid_order_def paid_reservation_def new_reservation_def reservation_check_def not_before_def
      sample_order_def new_order_def sample_request_def order_check_def minimumVnd_def maximumVnd_def payment_state_check_def
      deadline_check_def completion_check_def fulfillment_check_def floor_check_def closed_check_def time_check_def pending_state_def
      closed_before_payment_def closed_after_payment_def post_payment_reasons_def
      not_completed_def day_ms_def later_def)

lemma sample_ruling_run:
  assumes r: "sample_paid db"
  shows "\<exists>db'. resolution_closePaidOrder sample_order_cfg (sample_draw (CHR ''a'')) sample_ruling CancelledByRuling db = Inr (db', 3) \<and>
    od_orders db' = [cancelled_order] \<and> od_reservations db' = [cancelled_reservation]"
proof -
  have rows: "od_orders db = [paid_order]" "od_reservations db = [paid_reservation]" "order_constraints db"
    using r by (simp_all add: sample_paid_def)
  from r obtain e1 e2 where ev: "od_events db = [e1, e2]" "ce_id e1 = order_uuid (CHR ''1'')" "ce_id e2 = order_uuid (CHR ''4'')"
    "ce_orderVersion e1 = 1" "ce_orderVersion e2 = 2" "ce_orderId e1 = order_uuid (CHR ''1'')" "ce_orderId e2 = order_uuid (CHR ''1'')"
    by (auto simp: sample_paid_def)
  let ?db1 = "db\<lparr>od_reservations := [cancelled_reservation]\<rparr>"
  let ?db2 = "?db1\<lparr>od_orders := [cancelled_order]\<rparr>"
  have same: "co_id cancelled_order = co_id paid_order" "cr_orderId cancelled_reservation = cr_orderId paid_reservation"
    "co_currentQuoteId cancelled_order = co_currentQuoteId paid_order" "cr_creatorUserId cancelled_reservation = cr_creatorUserId paid_reservation"
    by (simp_all add: cancelled_checks paid_checks) (simp add: cancelled_reservation_def)
  have c: "order_constraints ?db1" "order_constraints ?db2"
    "order_constraints (?db2\<lparr>od_events := od_events ?db2 @ [timeline_event (order_uuid (CHR ''a'')) cancelled_order None ''req-2'' (Some ''cancelled_by_ruling'')]\<rparr>)"
    using rows ev same cancelled_checks paid_checks
    by (auto simp: order_constraints_def order_references_ok_def orders_ok_def reservations_ok_def events_ok_def submissions_ok_def quotes_ok_def
      snapshots_ok_def pauses_ok_def timeline_event_def list_all_iff order_uuid_def)
  have found: "expectedOrder sample_ruling db = Inr paid_order"
    using order_uuids(1) sample_party_identifiers(1)
    by (simp add: expectedOrder_def sample_ruling_def find_order_def rows(1) paid_checks(3) check_def demand_def date_ok_def isSafeInteger_def
        max_safe_integer_def commissionInteger_def paid_order_def sample_order_id)
  have allowed: "CancelledByRuling \<in> set post_payment_reasons" "co_confirmedAt paid_order \<noteq> None"
    "requireCommissionTransition (co_state paid_order) CoClosed (Some CancelledByRuling) = Inr ()"
    by (simp_all add: post_payment_reasons_def paid_order_def requireCommissionTransition_def closeReasons_def check_def)
  have w1: "update_reservation (co_id paid_order) (\<lambda>r. cr_state r = Occupied)
       (\<lambda>r. r\<lparr>cr_state := ReservationCancelled, cr_releasedAt := Some 1600\<rparr>) db = Inr (?db1, Some cancelled_reservation)"
    using c(1) paid_checks by (simp add: update_reservation_def rows(2) rows_update_def save_ok cancelled_reservation_def) (simp add: paid_reservation_def)
  have w2: "update_order (co_id paid_order) (same_version paid_order) (closed_row paid_order CancelledByRuling 1600) ?db1 = Inr (?db2, Some cancelled_order)"
    using c(2) by (simp add: update_order_def rows(1) rows_update_def save_ok same_version_def cancelled_order_def)
  have reason: "map_option close_reason_text (co_closeReason cancelled_order) = Some ''cancelled_by_ruling''"
    by (simp add: cancelled_order_def closed_row_def close_reason_text_def)
  have ids: "dw_id (sample_draw (CHR ''a'')) 100 = order_uuid (CHR ''a'')" "dw_id (sample_draw (CHR ''a'')) 101 = order_uuid (CHR ''a'')"
    "dw_id (sample_draw (CHR ''a'')) 102 = order_uuid (CHR ''a'')" by (simp_all add: sample_draw_def)
  obtain x y where w3: "record_change sample_order_cfg (sample_draw (CHR ''a'')) cancelled_order None ''req-2'' (Some ''cancelled_by_ruling'') ?db2 =
      Inr (?db2\<lparr>od_events := od_events ?db2 @ [timeline_event (order_uuid (CHR ''a'')) cancelled_order None ''req-2'' (Some ''cancelled_by_ruling'')],
        od_audit := od_audit ?db2 @ [x], od_outbox := od_outbox ?db2 @ [y]\<rparr>)"
  proof -
    have "order_uuid (CHR ''a'') \<notin> au_id ` set (od_audit ?db2)" "order_uuid (CHR ''a'') \<notin> ob_id ` set (od_outbox ?db2)"
      using r by (auto simp: sample_paid_def order_uuid_def)
    then show thesis
      using sample_record [of cancelled_order "''req-2''" "Some ''cancelled_by_ruling''" None "sample_draw (CHR ''a'')" ?db2] c(3) order_uuids(5) that
      by (auto simp: ids cancelled_checks)
  qed
  have "closePaidOrder sample_order_cfg (sample_draw (CHR ''a'')) paid_order CancelledByRuling None ''req-2'' 1600 db =
      Inr (?db2\<lparr>od_events := od_events ?db2 @ [timeline_event (order_uuid (CHR ''a'')) cancelled_order None ''req-2'' (Some ''cancelled_by_ruling'')],
        od_audit := od_audit ?db2 @ [x], od_outbox := od_outbox ?db2 @ [y]\<rparr>, cancelled_order)"
    unfolding closePaidOrder_def w1 await_simps prod.case allowed
    using allowed(1,2) by (simp only: w2 w3 reason check_def await_simps prod.case simp_thms option.distinct if_True demand_def orThrow_simps require_simps option.case not_False_eq_True)
  moreover have "rs_actor sample_ruling = None" "rs_requestId sample_ruling = ''req-2''" "rs_at sample_ruling = 1600"
    by (simp_all add: sample_ruling_def)
  ultimately have "resolution_closePaidOrder sample_order_cfg (sample_draw (CHR ''a'')) sample_ruling CancelledByRuling db =
      Inr (?db2\<lparr>od_events := od_events ?db2 @ [timeline_event (order_uuid (CHR ''a'')) cancelled_order None ''req-2'' (Some ''cancelled_by_ruling'')],
        od_audit := od_audit ?db2 @ [x], od_outbox := od_outbox ?db2 @ [y]\<rparr>, 3)"
    by (simp add: resolution_closePaidOrder_def found cancelled_checks)
  then show ?thesis by simp
qed

subsection \<open>Expiring the unpaid order\<close>

text \<open>The deadline passes: the order closes, and its reservation is released.\<close>

definition expiry_draw :: draw where
  "expiry_draw = (sample_draw (CHR ''a''))\<lparr>dw_clock := \<lambda>_. 1000 + day_ms\<rparr>"

definition expired_order :: order_row where
  "expired_order = closed_row sample_order PaymentExpired (1000 + day_ms) sample_order"

definition released_reservation :: reservation_row where
  "released_reservation = (new_reservation sample_order 1000)\<lparr>cr_state := Released, cr_releasedAt := Some (1000 + day_ms)\<rparr>"

lemma sample_order_expires: "pending_expired (1000 + day_ms) sample_order" "co_acceptedAt sample_order = Some 1000"
  by (simp_all add: pending_expired_def pending_state_def sample_order_def new_order_def)

lemma expired_checks: "order_check expired_order" "reservation_check released_reservation" "co_id expired_order = order_uuid (CHR ''1'')"
  "cr_orderId released_reservation = order_uuid (CHR ''1'')" "co_currentQuoteId expired_order = None" "co_state expired_order = CoClosed"
  "co_version expired_order = 2"
  by (simp_all add: expired_order_def closed_row_def released_reservation_def new_reservation_def reservation_check_def not_before_def
      sample_order_def new_order_def sample_request_def order_check_def minimumVnd_def maximumVnd_def payment_state_check_def
      deadline_check_def completion_check_def fulfillment_check_def floor_check_def closed_check_def time_check_def pending_state_def
      closed_before_payment_def closed_after_payment_def post_payment_reasons_def
      not_completed_def day_ms_def later_def)

lemma sample_expire_one:
  assumes r: "sample_requested db"
  shows "\<exists>db'. expire_one sample_order_cfg sample_ports expiry_draw (order_uuid (CHR ''1'')) db = Inr (db', 1)"
proof -
  from r obtain a q e where ev: "od_events db = [timeline_event (order_uuid (CHR ''1'')) sample_order a q e]" by (auto simp: sample_requested_def)
  from r obtain sealed where t: "od_terms db = [sample_terms_row sealed]" "terms_check (sample_terms_row sealed)" by (auto simp: sample_requested_def)
  have tid: "ct_orderId (sample_terms_row sealed) = order_uuid (CHR ''1'')"
    by (simp add: sample_terms_row_def terms_snapshot_def private_terms.defs sample_order_id)
  have rows: "od_orders db = [sample_order]" "od_reservations db = [new_reservation sample_order 1000]" "od_submissions db = []" "od_quotes db = []" "od_pauses db = []"
    "acceptances_ok (od_acceptances db)" "list_all (\<lambda>x. ca_orderId x = order_uuid (CHR ''1'')) (od_acceptances db)"
    "\<exists>b. od_briefs db = [b] \<and> cb_orderId b = order_uuid (CHR ''1'')"
    using r by (auto simp: sample_requested_def)
  let ?q = "''commission-expiry:'' @ order_uuid (CHR ''a'')"
  let ?db1 = "db\<lparr>od_reservations := [released_reservation]\<rparr>"
  let ?db2 = "?db1\<lparr>od_orders := [expired_order]\<rparr>"
  have c: "order_constraints ?db1" "order_constraints ?db2"
    "order_constraints (?db2\<lparr>od_events := od_events ?db2 @ [timeline_event (order_uuid (CHR ''a'')) expired_order None ?q (Some ''payment_expired'')]\<rparr>)"
    using rows t tid ev sample_order_check expired_checks
    by (auto simp: order_constraints_def order_references_ok_def orders_ok_def reservations_ok_def events_ok_def submissions_ok_def quotes_ok_def
      snapshots_ok_def pauses_ok_def timeline_event_def sample_order_id list_all_iff order_uuid_def)
  have draws: "dw_clock expiry_draw 0 = 1000 + day_ms" "new_id expiry_draw 1 = Inr (order_uuid (CHR ''a''))" "dw_id expiry_draw 100 = order_uuid (CHR ''a'')"
    "dw_id expiry_draw 101 = order_uuid (CHR ''a'')" "dw_id expiry_draw 102 = order_uuid (CHR ''a'')"
    using order_uuids by (simp_all add: expiry_draw_def sample_draw_def)
  have allowed: "PaymentExpired \<notin> set post_payment_reasons" "requireCommissionTransition (co_state sample_order) CoClosed (Some PaymentExpired) = Inr ()"
    "commissionExpiredReason (co_state sample_order) = Inr PaymentExpired"
    by (simp_all add: post_payment_reasons_def sample_order_id requireCommissionTransition_def closeReasons_def check_def commissionExpiredReason_def)
  have w1: "release_accepted sample_ports sample_order PaymentExpired (1000 + day_ms) db = Inr ?db1"
    using c(1) by (simp add: release_accepted_def update_reservation_def rows(2) rows_update_def save_ok released_reservation_def new_reservation_def sample_ports_def check_def)
  have w2: "update_order (co_id sample_order) (same_version sample_order) (closed_row sample_order PaymentExpired (1000 + day_ms)) ?db1 = Inr (?db2, Some expired_order)"
    using c(2) by (simp add: update_order_def rows(1) rows_update_def save_ok same_version_def expired_order_def)
  have reason: "map_option close_reason_text (co_closeReason expired_order) = Some ''payment_expired''"
    by (simp add: expired_order_def closed_row_def close_reason_text_def)
  have "order_uuid (CHR ''a'') \<notin> au_id ` set (od_audit ?db2)" "order_uuid (CHR ''a'') \<notin> ob_id ` set (od_outbox ?db2)"
    using r by (auto simp: sample_requested_def order_uuid_def)
  then obtain db' where w3: "record_change sample_order_cfg expiry_draw expired_order None ?q (Some ''payment_expired'') ?db2 = Inr db'"
    using sample_record [of expired_order ?q "Some ''payment_expired''" None expiry_draw ?db2] c(3) order_uuids(5)
    by (auto simp: draws expired_checks)
  have accepted: "(co_acceptedAt sample_order = None) = False" using sample_order_expires(2) by simp
  have "closeOrder sample_order_cfg sample_ports expiry_draw sample_order PaymentExpired None ?q (1000 + day_ms) db = Inr (db', expired_order)"
    unfolding closeOrder_def allowed(2) await_simps accepted if_False w1
    using allowed(1) by (simp only: w2 w3 reason check_def await_simps prod.case if_True demand_def orThrow_simps require_simps not_False_eq_True)
  moreover have "find_order (order_uuid (CHR ''1'')) db = Some sample_order" by (simp add: find_order_def rows(1) sample_order_id)
  ultimately show ?thesis
    by (simp add: expire_one_def draws sample_order_expires(1) allowed(3) del: One_nat_def)
qed

lemma sample_expiry_run:
  assumes r: "sample_requested db"
  shows "\<exists>db'. expireDue sample_order_cfg sample_ports (\<lambda>_. expiry_draw) (1000 + day_ms) 10 db = (db', Inr \<lparr>xr_scanned = 1, xr_expired = 1\<rparr>)"
proof -
  have "od_orders db = [sample_order]" using r by (simp add: sample_requested_def)
  then have "expiry_candidates (1000 + day_ms) 10 db = [order_uuid (CHR ''1'')]"
    by (simp add: expiry_candidates_def sample_order_expires sample_order_id)
  moreover have n: "commissionInteger 10 1 500 = Inr 10" by (simp add: isSafeInteger_def max_safe_integer_def)
  moreover obtain db' where "expire_one sample_order_cfg sample_ports expiry_draw (order_uuid (CHR ''1'')) db = Inr (db', 1)"
    using sample_expire_one [OF r] by blast
  ultimately show ?thesis
    unfolding expireDue_def n by (simp add: boundary_def)
qed

text \<open>The other services always answer as in \<open>sample_ports\<close>.\<close>

definition sample_world :: "order_ports \<Rightarrow> bool" where
  "sample_world ports \<longleftrightarrow> ports = sample_ports"

text \<open>The whole run: the order is requested, paid for and closed by the ruling.\<close>

lemma sample_order_run:
  "\<exists>db1 db2 db3. order_step sample_world empty_orders db1 \<and> od_orders db1 = [sample_order] \<and>
     order_step sample_world db1 db2 \<and> od_orders db2 = [paid_order] \<and>
     order_step sample_world db2 db3 \<and> od_orders db3 = [cancelled_order] \<and> od_reservations db3 = [cancelled_reservation]"
proof -
  obtain db1 where r1: "request sample_order_cfg sample_ports (sample_draw (CHR ''1'')) sample_request empty_orders = Inr (db1, order_uuid (CHR ''1''))" "sample_requested db1"
    using sample_request_run by blast
  obtain db2 where r2: "confirmPayment (sample_draw (CHR ''4'')) sample_bindings sample_confirmation db1 = Inr (db2, True)" "sample_paid db2"
    using sample_confirm_run [OF r1(2)] by blast
  obtain db3 where r3: "resolution_closePaidOrder sample_order_cfg (sample_draw (CHR ''a'')) sample_ruling CancelledByRuling db2 = Inr (db3, 3)"
    "od_orders db3 = [cancelled_order]" "od_reservations db3 = [cancelled_reservation]"
    using sample_ruling_run [OF r2(2)] by blast
  have "od_orders db1 = [sample_order]" "od_orders db2 = [paid_order]"
    using r1(2) r2(2) by (simp_all add: sample_requested_def sample_paid_def)
  moreover have "order_step sample_world empty_orders db1"
    using step_request [of sample_world sample_ports] r1(1) by (simp add: sample_world_def)
  moreover have "order_step sample_world db1 db2" "order_step sample_world db2 db3"
    using step_confirm [OF r2(1)] step_resolve_close [OF r3(1)] by simp_all
  ultimately show ?thesis using r3(2,3) by blast
qed

end
