(* ===== verification/OrderProperties.thy ===== *)
theory OrderProperties
  imports OrderSample
begin

text \<open>
  The properties of the orders, each over every run of commands, settlements, rulings and jobs from
  tables without orders. They follow from the invariant and the simulation of
  \<^verbatim>\<open>OrderInvariants\<close>; the witnesses apply them to the run of \<^verbatim>\<open>OrderSample\<close>.
\<close>

abbreviation "order_run P \<equiv> rtranclp (order_step P)"

lemmas reached_inv = orders.reach_inv

lemma reached_constraints: "no_orders s \<Longrightarrow> order_run P s db \<Longrightarrow> order_constraints db"
  using reached_inv [of s P db] by (simp add: orders_inv_def)

text \<open>The three databases of the sample run, with what the witnesses need of them.\<close>

lemma sample_reached:
  "\<exists>db1 db2 db3. no_orders empty_orders \<and> order_run sample_world empty_orders db1 \<and> order_run sample_world db1 db2 \<and> order_run sample_world db2 db3 \<and>
     order_run sample_world empty_orders db2 \<and> order_run sample_world empty_orders db3 \<and>
     ow_order (view db1 (order_uuid (CHR ''1''))) = Some sample_order \<and> ow_order (view db2 (order_uuid (CHR ''1''))) = Some paid_order \<and>
     ow_order (view db3 (order_uuid (CHR ''1''))) = Some cancelled_order \<and> ow_reservation (view db3 (order_uuid (CHR ''1''))) = Some cancelled_reservation"
proof -
  have id: "co_id sample_order = order_uuid (CHR ''1'')" by (rule sample_order_id)
  obtain db1 db2 db3 where s: "order_step sample_world empty_orders db1" "order_step sample_world db1 db2" "order_step sample_world db2 db3"
    and rows: "od_orders db1 = [sample_order]" "od_orders db2 = [paid_order]" "od_orders db3 = [cancelled_order]" "od_reservations db3 = [cancelled_reservation]"
    using sample_order_run by blast
  have "order_run sample_world empty_orders db1" "order_run sample_world db1 db2" "order_run sample_world db2 db3"
    "order_run sample_world empty_orders db2" "order_run sample_world empty_orders db3"
    using s by (blast intro: rtranclp.rtrancl_into_rtrancl rtranclp.rtrancl_refl)+
  with rows show ?thesis
    using empty_orders_start by (intro exI [of _ db1] exI [of _ db2] exI [of _ db3]) (simp add: view_def id paid_checks cancelled_checks)
qed

subsection \<open>Order, reservation, terms and timeline\<close>

text \<open>C1: Whatever commands, payments, rulings and jobs have run, an order and its reservation agree: there is none before
  both parties have accepted; it is reserved while the payment is awaited, occupied while the work is under way, completed with
  the order, released when the order was closed before payment and cancelled when after. Its capacity counts for the order's creator.\<close>

theorem order_and_reservation_agree:
  assumes "no_orders s" "order_run P s db" "ow_order (view db k) = Some o1"
  shows "map_option cr_state (ow_reservation (view db k)) = expected_reservation o1 \<and>
    pred_option (\<lambda>r. cr_creatorUserId r = co_creatorUserId o1) (ow_reservation (view db k))"
  using reached_inv [OF assms(1,2)] assms(3) by (auto simp: orders_inv_def reservation_agrees_row pred_option_def elim!: allE [of _ k])

theorem order_and_reservation_agree_witness:
  "\<exists>db. ow_order (view db (order_uuid (CHR ''1''))) = Some cancelled_order \<and>
     map_option cr_state (ow_reservation (view db (order_uuid (CHR ''1'')))) = expected_reservation cancelled_order"
  using sample_reached order_and_reservation_agree [of empty_orders sample_world _ "order_uuid (CHR ''1'')" cancelled_order] by blast

text \<open>C17: The timeline of an order is complete: its events carry the versions 1, 2, 3, ... without a gap up to the version of the
  order, the first is the request or an immediate acceptance, each follows the one before it by an allowed transition, and the
  last is the state the order is in.\<close>

theorem order_history_complete:
  assumes "no_orders s" "order_run P s db" "ow_order (view db k) = Some o1"
  shows "timeline (co_state o1) (co_version o1) (ow_events (view db k))"
  using reached_inv [OF assms(1,2)] assms(3) by (auto simp: orders_inv_def history_def elim!: allE [of _ k])

theorem order_history_complete_witness:
  "\<exists>db. ow_order (view db (order_uuid (CHR ''1''))) = Some cancelled_order \<and> timeline CoClosed 3 (ow_events (view db (order_uuid (CHR ''1''))))"
proof -
  obtain db where db: "order_run sample_world empty_orders db" "ow_order (view db (order_uuid (CHR ''1''))) = Some cancelled_order"
    using sample_reached by blast
  then show ?thesis
    using order_history_complete [OF empty_orders_start db] by (auto simp: cancelled_checks)
qed

text \<open>C18: The price of an accepted order is the price of the terms both parties accepted, an order without accepted terms has no
  snapshot, and never more revisions were used than those terms allow.\<close>

theorem accepted_terms_bind:
  assumes "no_orders s" "order_run P s db" "ow_order (view db k) = Some o1"
  shows "case ow_terms (view db k) of
      None \<Rightarrow> co_acceptedAt o1 = None
    | Some t \<Rightarrow> co_acceptedAt o1 \<noteq> None \<and> co_amountVnd o1 = Some (pt_amountVnd t) \<and> co_revisionsUsed o1 \<le> pt_revisionAllowance t"
  using reached_inv [OF assms(1,2)] assms(3) by (auto simp: orders_inv_def terms_agree_row elim!: allE [of _ k])

theorem accepted_terms_bind_witness:
  "\<exists>db t. ow_terms (view db (order_uuid (CHR ''1''))) = Some t \<and> pt_amountVnd t = 100000"
proof -
  obtain db where db: "order_run sample_world empty_orders db" "ow_order (view db (order_uuid (CHR ''1''))) = Some paid_order"
    using sample_reached by blast
  have "co_acceptedAt paid_order = Some 1000" "co_amountVnd paid_order = Some 100000"
    by (simp_all add: paid_order_def sample_order_def new_order_def)
  then show ?thesis
    using accepted_terms_bind [OF empty_orders_start db] by (auto split: option.splits)
qed

subsection \<open>Capacity\<close>

text \<open>C13: When no package the catalogue serves has a capacity limit above n, no creator ever has more than n orders that await
  payment, are in progress or are delivered, however requests, acceptances, payments and jobs interleave.\<close>

theorem capacity_never_exceeded:
  assumes "no_orders s" "order_run (\<lambda>ports. n \<in> limits ports) s db"
  shows "live_orders u db \<le> n"
proof -
  have "rtranclp (moved {n}) s db"
    by (rule steps_moves [OF assms(2) no_orders_constraints [OF assms(1)]]) simp
  then have "capacity_used u db \<le> max (capacity_used u s) n"
    by (rule moves_capacity) simp
  moreover have "capacity_used u s = 0" using assms(1) by (simp add: no_orders_def capacity_used_def)
  moreover have "capacity_used u db = live_orders u db"
    by (rule load_counts_live_orders [OF reached_inv [OF assms]])
  ultimately show ?thesis by simp
qed

lemma order_step_mono:
  assumes "order_step P db db'" "\<And>ports. P ports \<Longrightarrow> Q ports"
  shows "order_step Q db db'"
  using assms(1) by cases (use assms(2) in \<open>blast intro: order_step.intros\<close>)+

lemma order_run_mono: "order_run P s db \<Longrightarrow> (\<And>ports. P ports \<Longrightarrow> Q ports) \<Longrightarrow> order_run Q s db"
  by (induction rule: rtranclp_induct) (auto dest: order_step_mono intro: rtranclp.rtrancl_into_rtrancl)

lemma sample_limits: "sample_world ports \<Longrightarrow> 3 \<in> limits ports"
  by (auto simp: sample_world_def limits_def sample_ports_def sample_package_def)

theorem capacity_never_exceeded_witness:
  "\<exists>db. ow_order (view db (order_uuid (CHR ''1''))) = Some paid_order \<and> live_orders ''creator-1'' db \<le> 3"
proof -
  obtain db where db: "order_run sample_world empty_orders db" "ow_order (view db (order_uuid (CHR ''1''))) = Some paid_order"
    using sample_reached by blast
  from capacity_never_exceeded [OF empty_orders_start order_run_mono [OF db(1) sample_limits]] db(2) show ?thesis by blast
qed

subsection \<open>Settled orders and the lifecycle\<close>

text \<open>C29: A completed or closed order is final: nothing that runs later changes the order, its reservation, its timeline, its terms or
  its submissions.\<close>

theorem settled_orders_are_final:
  assumes "no_orders s" "order_run P s db" "ow_order (view db k) = Some o1" "co_state o1 \<in> {CoCompleted, CoClosed}" "order_run Q db db'"
  shows "view db' k = view db k"
  by (rule moves_settled [OF steps_moves [OF assms(5) reached_constraints [OF assms(1,2)], of "{}"] assms(3,4)]) simp

theorem settled_orders_are_final_witness:
  "\<exists>db db'. ow_order (view db (order_uuid (CHR ''1''))) = Some cancelled_order \<and> order_step sample_world db db' \<and>
     view db' (order_uuid (CHR ''1'')) = view db (order_uuid (CHR ''1''))"
proof -
  obtain db where db: "order_run sample_world empty_orders db" "ow_order (view db (order_uuid (CHR ''1''))) = Some cancelled_order"
    using sample_reached by blast
  have "order_step sample_world db db"
    by (rule step_confirm [where ok = False and c = "sample_confirmation" and dw = "sample_draw (CHR ''1'')" and locked = Map.empty])
      (simp add: confirmPayment_def confirmation_time_invalid_def confirmation_bound_def)
  then show ?thesis
    using db settled_orders_are_final [OF empty_orders_start db(1,2), of sample_world db] by (auto simp: cancelled_checks)
qed

text \<open>C5: The commands, settlements, rulings and jobs implement the lifecycle of orders: seen through the states and close reasons
  alone, every run is a run of the machine that creates an order requested or awaiting payment and moves it only where
  \<open>requireCommissionTransition\<close> allows.\<close>

theorem orders_refine_lifecycle:
  assumes "no_orders s" "order_run P s db"
  shows "rtranclp lifecycle_step (\<lambda>_. None) (lifecycle_of db)"
proof -
  have "lifecycle_of s = (\<lambda>_. None)" using assms(1) by (auto simp: lifecycle_of_def view_def no_orders_def)
  then show ?thesis using lifecycle.runs_simulate [OF assms(2) orders_inv_start [OF assms(1)]] by simp
qed

theorem orders_refine_lifecycle_witness:
  "\<exists>db. lifecycle_of db (order_uuid (CHR ''1'')) = Some (CoClosed, Some CancelledByRuling) \<and> rtranclp lifecycle_step (\<lambda>_. None) (lifecycle_of db)"
proof -
  obtain db where db: "order_run sample_world empty_orders db" "ow_order (view db (order_uuid (CHR ''1''))) = Some cancelled_order"
    using sample_reached by blast
  have "lifecycle_of db (order_uuid (CHR ''1'')) = Some (CoClosed, Some CancelledByRuling)"
    using db(2) by (simp add: lifecycle_of_def cancelled_order_def closed_row_def)
  with orders_refine_lifecycle [OF empty_orders_start db(1)] show ?thesis by blast
qed

subsection \<open>Settlement\<close>

lemma confirm_written:
  assumes "confirmPayment dw locked c db = Inr (db', True)" and constraints: "order_constraints db"
  shows "\<exists>order terms. ow_order (view db (cf_orderId c)) = Some order \<and> confirmable order c \<and>
      ow_terms (view db (cf_orderId c)) = Some terms \<and> pt_amountVnd terms = cf_amountVnd c \<and>
      ow_order (view db' (cf_orderId c)) = Some (order\<lparr>co_state := CoInProgress, co_version := co_version order + 1,
        co_confirmedAt := Some (cf_at c), co_dueAt := Some (cf_at c + pt_turnaroundDays terms * day_ms), co_updatedAt := cf_at c\<rparr>)"
proof -
  obtain order terms where o1: "find_owned (cf_orderId c) (cf_creatorUserId c) db = Some order" and able: "confirmable order c"
    and tm: "find_terms (co_id order) db = Some terms" "pt_amountVnd terms = cf_amountVnd c"
    and w: "confirm_write dw c order terms db = Inr (db', True)"
    using assms(1) by (auto simp: confirmPayment_def split: option.splits if_splits)
  note row = find_owned_view [OF o1 constraints]
  let ?p = "\<lambda>o1. same_version order o1 \<and> co_state o1 = CoAwaitingPayment \<and> (case co_expiresAt o1 of None \<Rightarrow> False | Some e \<Rightarrow> cf_at c < e)"
  let ?f = "\<lambda>o1. o1\<lparr>co_state := CoInProgress, co_version := co_version order + 1, co_confirmedAt := Some (cf_at c),
     co_dueAt := Some (cf_at c + pt_turnaroundDays terms * day_ms), co_updatedAt := cf_at c\<rparr>"
  have row': "ow_order (view db (co_id order)) = Some order" using row(1,3) by simp
  have p: "?p order" using able by (simp add: confirmable_def same_version_def)
  from w have "od_orders db' = rows_update (\<lambda>o1. co_id o1 = co_id order \<and> ?p o1) ?f (od_orders db)"
    using found_order [where p = ?p, OF constraints row' p]
    by (auto simp: confirm_write_def result_iffs update_reservation_Inr update_order_Inr commissionDueAt_def split: if_splits)
  then have "ow_order (view db' (cf_orderId c)) = map_option (\<lambda>o1. if co_id o1 = co_id order \<and> ?p o1 then ?f o1 else o1) (ow_order (view db (cf_orderId c)))"
    by (rule view_orders_update) simp
  also have "\<dots> = Some (?f order)" using able row(1) by (simp add: confirmable_def same_version_def)
  finally show ?thesis using row(1,3) able tm by (auto simp: find_terms_view)
qed

text \<open>C10: A confirmation is all or nothing. Refused, it leaves every table as it was. Accepted, the order awaited exactly this amount,
  which is the amount of its terms, before its deadline; it is then in progress, due the agreed number of days after the
  payment, its reservation is occupied, and no other order has changed.\<close>

theorem confirmation_all_or_nothing:
  assumes "no_orders s" "order_run P s db" "confirmPayment dw locked c db = Inr (db', ok)"
  shows "(\<not> ok \<and> db' = db) \<or>
    (ok \<and> (\<exists>order terms.
       ow_order (view db (cf_orderId c)) = Some order \<and> confirmable order c \<and>
       ow_terms (view db (cf_orderId c)) = Some terms \<and> pt_amountVnd terms = cf_amountVnd c \<and>
       ow_order (view db' (cf_orderId c)) = Some (order\<lparr>co_state := CoInProgress, co_version := co_version order + 1,
         co_confirmedAt := Some (cf_at c), co_dueAt := Some (cf_at c + pt_turnaroundDays terms * day_ms), co_updatedAt := cf_at c\<rparr>)) \<and>
       map_option cr_state (ow_reservation (view db' (cf_orderId c))) = Some Occupied \<and>
       (\<forall>j. j = cf_orderId c \<or> view db' j = view db j))"
proof (cases ok)
  case False
  then show ?thesis using confirm_effect [OF assms(3) reached_constraints [OF assms(1,2)]] by simp
next
  case True
  note w = confirm_written [OF assms(3) [unfolded True [THEN eqTrueI]] reached_constraints [OF assms(1,2)]]
  then obtain order and terms :: terms_row where o1: "ow_order (view db' (cf_orderId c)) = Some (order\<lparr>co_state := CoInProgress, co_version := co_version order + 1,
         co_confirmedAt := Some (cf_at c), co_dueAt := Some (cf_at c + pt_turnaroundDays terms * day_ms), co_updatedAt := cf_at c\<rparr>)"
    and able: "confirmable order c" by (elim exE conjE) (rule that)
  have same: "view db' j = view db j" if "j \<noteq> cf_orderId c" for j
    using confirm_effect [OF assms(3) reached_constraints [OF assms(1,2)], of "{}"] that by (simp add: step_at_def)
  have "order_step P db db'" by (rule step_confirm [OF assms(3)])
  with assms(2) have "order_run P s db'" by (rule rtranclp.rtrancl_into_rtrancl)
  then have "reservation_agrees (view db' (cf_orderId c))" using reached_inv [OF assms(1)] by (simp add: orders_inv_def)
  then have "map_option cr_state (ow_reservation (view db' (cf_orderId c))) = Some Occupied"
    using o1 able by (auto simp: reservation_agrees_row expected_reservation_def confirmable_def split: option.splits)
  then show ?thesis using w True same by blast
qed

theorem confirmation_all_or_nothing_witness:
  "\<exists>db db'. confirmPayment (sample_draw (CHR ''4'')) sample_bindings sample_confirmation db = Inr (db', True) \<and>
     map_option cr_state (ow_reservation (view db' (order_uuid (CHR ''1'')))) = Some Occupied"
proof -
  obtain db1 where r1: "request sample_order_cfg sample_ports (sample_draw (CHR ''1'')) sample_request empty_orders = Inr (db1, order_uuid (CHR ''1''))" "sample_requested db1"
    using sample_request_run by blast
  obtain db2 where r2: "confirmPayment (sample_draw (CHR ''4'')) sample_bindings sample_confirmation db1 = Inr (db2, True)"
    using sample_confirm_run [OF r1(2)] by blast
  have "order_step sample_world empty_orders db1"
    using step_request [of sample_world sample_ports] r1(1) by (simp add: sample_world_def)
  then have "order_run sample_world empty_orders db1" by simp
  moreover have "cf_orderId sample_confirmation = order_uuid (CHR ''1'')" by (simp add: sample_confirmation_def)
  ultimately show ?thesis
    using confirmation_all_or_nothing [OF empty_orders_start _ r2, of sample_world] r2 by (intro exI [of _ db1] exI [of _ db2]) auto
qed

subsection \<open>Expiry\<close>

lemma view_row_iff: "order_constraints db \<Longrightarrow> ow_order (view db k) = Some o1 \<longleftrightarrow> o1 \<in> set (od_orders db) \<and> co_id o1 = k"
  using find_key_iff [OF order_keys(1)] by (simp add: view_def)

lemma map_sum_Inr_iff: "map_sum id f x = Inr r \<longleftrightarrow> (\<exists>m. x = Inr m \<and> r = f m)"
  by (cases x) auto

lemma expire_one_closes:
  assumes run: "expire_one cfg ports dw k db = Inr (db', n)" and constraints: "order_constraints db"
    and row: "ow_order (view db k) = Some o1" "pending_expired (dw_clock dw 0) o1"
  shows "\<exists>o2. ow_order (view db' k) = Some o2 \<and> co_state o2 = CoClosed"
proof -
  have k: "co_id o1 = k" using row(1) by (rule view_order_id)
  from run row obtain reason x y where "closeOrder cfg ports dw o1 reason None y (dw_clock dw 0) db = Inr (db', x)"
    by (auto simp: expire_one_def Let_def result_iffs find_order_view)
  from close_effect [OF this constraints] k row(1) show ?thesis by (auto simp: closed_row_def)
qed

lemma expire_each_closes:
  assumes "expire_each cfg ports dws ks (db, n) = (db', Inr m)" "order_constraints db" "\<And>k. now \<le> dw_clock (dws k) 0"
  shows "(\<forall>j. j \<notin> set ks \<longrightarrow> view db' j = view db j) \<and>
    (\<forall>j o1. j \<in> set ks \<longrightarrow> ow_order (view db j) = Some o1 \<longrightarrow> pending_expired now o1 \<longrightarrow>
       (\<exists>o2. ow_order (view db' j) = Some o2 \<and> co_state o2 = CoClosed))"
  using assms(1,2)
proof (induction ks arbitrary: db n)
  case (Cons k ks)
  from Cons.prems(1) obtain db1 i where one: "expire_one cfg ports (dws k) k db = Inr (db1, i)"
    and rest: "expire_each cfg ports dws ks (db1, n + i) = (db', Inr m)"
    by (auto split: sum.splits)
  have st: "step_at {} k db db1" using one Cons.prems(2) by (rule expire_one_step)
  then have c: "order_constraints db1" and same: "\<And>j. j \<noteq> k \<Longrightarrow> view db1 j = view db j" by (simp_all add: step_at_def)
  note IH = Cons.IH [OF rest c]
  have closed: "\<exists>o2. ow_order (view db' k) = Some o2 \<and> co_state o2 = CoClosed"
    if row: "ow_order (view db k) = Some o1" "pending_expired now o1" for o1
  proof -
    have "pending_expired (dw_clock (dws k) 0) o1"
      using row(2) assms(3) [of k] by (auto simp: pending_expired_def split: option.splits)
    from expire_one_closes [OF one Cons.prems(2) row(1) this]
    obtain o2 where o2: "ow_order (view db1 k) = Some o2" "co_state o2 = CoClosed" by blast
    then have "view db' k = view db1 k"
      using moves_settled [OF expire_each_moves [OF rest c]] by blast
    with o2 show ?thesis by simp
  qed
  show ?case using IH same closed by (metis (no_types, lifting) list.set_intros set_ConsD)
qed simp

text \<open>C28: A scan that was not cut off by its limit leaves nothing behind: after \<open>expireDue\<close> returned with fewer candidates than its limit,
  no pending order whose deadline had passed at the time of the scan is left, provided the clock does not run backwards.\<close>

theorem expiry_scan_complete:
  assumes "no_orders s" "order_run P s db" "expireDue cfg ports dws now limit db = (db', Inr r)"
    and "int (xr_scanned r) < limit" "\<And>k. now \<le> dw_clock (dws k) 0"
  shows "filter (pending_expired now) (od_orders db') = []"
proof -
  note c = reached_constraints [OF assms(1,2)]
  let ?rows = "filter (pending_expired now) (od_orders db)"
  from assms(3) obtain m where m: "expire_each cfg ports dws (expiry_candidates now (nat limit) db) (db, 0) = (db', Inr m)"
    and r: "xr_scanned r = length (expiry_candidates now (nat limit) db)"
    by (auto simp: expireDue_def Let_def boundary_Inr map_sum_Inr_iff split: sum.splits prod.splits)
  have "length ?rows \<le> nat limit" using r assms(4) by (auto simp: expiry_candidates_def)
  then have all: "set (expiry_candidates now (nat limit) db) = co_id ` set ?rows" by (simp add: expiry_candidates_def)
  have c': "order_constraints db'" using moves_constraints [OF expire_each_moves [OF m c, of "{}"] c] .
  have left: "\<not> pending_expired now o2" if o2: "o2 \<in> set (od_orders db')" for o2
  proof
    assume late: "pending_expired now o2"
    have row: "ow_order (view db' (co_id o2)) = Some o2" using o2 view_row_iff [OF c'] by simp
    show False
    proof (cases "\<exists>o1. ow_order (view db (co_id o2)) = Some o1 \<and> pending_expired now o1")
      case True
      then obtain o1 where o1: "ow_order (view db (co_id o2)) = Some o1" "pending_expired now o1" by blast
      then have "co_id o2 \<in> set (expiry_candidates now (nat limit) db)"
        unfolding all view_row_iff [OF c] by (intro image_eqI [of _ _ o1]) simp_all
      then have "co_state o2 = CoClosed" using expire_each_closes [OF m c assms(5)] o1 row by auto
      then show False using late by (simp add: pending_expired_def pending_state_def)
    next
      case False
      have "co_id o2 \<notin> set (expiry_candidates now (nat limit) db)"
      proof
        assume "co_id o2 \<in> set (expiry_candidates now (nat limit) db)"
        then obtain o1 where "o1 \<in> set (od_orders db)" "pending_expired now o1" "co_id o1 = co_id o2" using all by auto
        then have "ow_order (view db (co_id o2)) = Some o1" using view_row_iff [OF c] by simp
        with \<open>pending_expired now o1\<close> False show False by blast
      qed
      then have "view db' (co_id o2) = view db (co_id o2)" using expire_each_closes [OF m c assms(5)] by blast
      with row late False show False by simp
    qed
  qed
  then show ?thesis by (simp add: filter_empty_conv)
qed

theorem expiry_scan_complete_witness:
  "\<exists>db db' r. filter (pending_expired (1000 + day_ms)) (od_orders db) = [sample_order] \<and>
     expireDue sample_order_cfg sample_ports (\<lambda>_. expiry_draw) (1000 + day_ms) 10 db = (db', Inr r) \<and>
     filter (pending_expired (1000 + day_ms)) (od_orders db') = []"
proof -
  obtain db1 where r1: "request sample_order_cfg sample_ports (sample_draw (CHR ''1'')) sample_request empty_orders = Inr (db1, order_uuid (CHR ''1''))" "sample_requested db1"
    using sample_request_run by blast
  obtain db2 where r2: "expireDue sample_order_cfg sample_ports (\<lambda>_. expiry_draw) (1000 + day_ms) 10 db1 = (db2, Inr \<lparr>xr_scanned = 1, xr_expired = 1\<rparr>)"
    using sample_expiry_run [OF r1(2)] by blast
  have "order_step sample_world empty_orders db1"
    using step_request [of sample_world sample_ports] r1(1) by (simp add: sample_world_def)
  then have "order_run sample_world empty_orders db1" by simp
  note complete = expiry_scan_complete [OF empty_orders_start this r2]
  have "filter (pending_expired (1000 + day_ms)) (od_orders db1) = [sample_order]"
    using r1(2) by (simp add: sample_requested_def sample_order_expires)
  with complete r2 show ?thesis by (simp add: expiry_draw_def) blast
qed

end
