(* ===== verification/FundTables.thy ===== *)
theory FundTables
  imports SePay PaymentTables OrderPersistence
begin

text \<open>
  The tables of tips and transfer payments (\<^verbatim>\<open>packages/database/src/schema/tips.ts\<close>), the columns of
  the bank connections and cutovers they read (\<^verbatim>\<open>schema/sepay.ts\<close>), and \<open>fund_db\<close>, the database the
  payment services work on: these tables, the receiving accounts, and the orders with the command,
  audit and event tables both share. \<open>keep\<close> accepts a changed database only if the constraints still
  hold. References to users and to tip settings, which other services own, are left out.
\<close>

subsection \<open>Tips\<close>

datatype tip_state = TipAwaiting | TipCompleted | TipExpired | TipRejected

record tip_row =
  tp_id :: string
  tp_platformPolicyRevisionId :: "string option"
  tp_creatorUserId :: string
  tp_buyerUserId :: "string option"
  tp_settingRevisionId :: string
  tp_amountVnd :: int
  tp_guestContentEnvelope :: envelope
  tp_state :: tip_state
  tp_closedAt :: "instant option"
  tp_createdAt :: instant
  tp_updatedAt :: instant

text \<open>The time check shared by tips and intents: an open row has no closing time, a closed one was
  last changed when it closed.\<close>

definition closing_check :: "bool \<Rightarrow> instant option \<Rightarrow> instant \<Rightarrow> instant \<Rightarrow> bool" where
  "closing_check open_row closedAt createdAt updatedAt \<longleftrightarrow> createdAt \<le> updatedAt \<and>
     (case closedAt of None \<Rightarrow> open_row | Some c \<Rightarrow> \<not> open_row \<and> createdAt \<le> c \<and> updatedAt = c)"

definition tip_check :: "tip_row \<Rightarrow> bool" where
  "tip_check r \<longleftrightarrow> 1 \<le> tp_amountVnd r \<and> tp_amountVnd r \<le> max_safe_integer \<and>
     closing_check (tp_state r = TipAwaiting) (tp_closedAt r) (tp_createdAt r) (tp_updatedAt r)"

definition tips_ok :: "tip_row list \<Rightarrow> bool" where
  "tips_ok t \<longleftrightarrow> distinct (map tp_id t) \<and> list_all tip_check t"

subsection \<open>Payment intents\<close>

datatype purpose = TipPurpose | CommissionPurpose

record intent_row =
  pi_id :: string
  pi_purpose :: purpose
  pi_tipId :: "string option"
  pi_commissionOrderId :: "string option"
  pi_creatorUserId :: string
  pi_amountVnd :: int
  pi_referenceHash :: string
  pi_referenceEnvelope :: envelope
  pi_destinationEnvelope :: envelope
  pi_accountVersionId :: string
  pi_settlementLane :: settlement_lane
  pi_cutoverId :: "string option"
  pi_abuseKeyHash :: string
  pi_state :: intent_state
  pi_expiresAt :: instant
  pi_closedAt :: "instant option"
  pi_rejectionReason :: "string option"
  pi_requestId :: string
  pi_createdAt :: instant
  pi_updatedAt :: instant

definition purpose_check :: "intent_row \<Rightarrow> bool" where
  "purpose_check r \<longleftrightarrow>
     (case pi_purpose r of
        TipPurpose \<Rightarrow> pi_tipId r \<noteq> None \<and> pi_commissionOrderId r = None
      | CommissionPurpose \<Rightarrow> pi_commissionOrderId r \<noteq> None \<and> pi_tipId r = None)"

definition lane_check :: "intent_row \<Rightarrow> bool" where
  "lane_check r \<longleftrightarrow> (pi_settlementLane r = ManualAttested \<longleftrightarrow> pi_cutoverId r = None)"

definition intent_time_check :: "intent_row \<Rightarrow> bool" where
  "intent_time_check r \<longleftrightarrow> pi_createdAt r < pi_expiresAt r \<and>
     closing_check (pi_state r = AwaitingTransfer) (pi_closedAt r) (pi_createdAt r) (pi_updatedAt r) \<and>
     (case pi_closedAt r of None \<Rightarrow> True
      | Some c \<Rightarrow> (pi_state r = IntentConfirmed \<longrightarrow> c < pi_expiresAt r) \<and> (pi_state r = IntentExpired \<longrightarrow> pi_expiresAt r \<le> c))"

definition rejection_check :: "intent_row \<Rightarrow> bool" where
  "rejection_check r \<longleftrightarrow>
     (case pi_rejectionReason r of
        None \<Rightarrow> pi_state r \<noteq> IntentRejected
      | Some reason \<Rightarrow> pi_state r = IntentRejected \<and>
          (reason \<in> {''policy_invalidated'', ''security_invalidated''} \<or>
           (pi_purpose r = CommissionPurpose \<and> reason \<in> {''buyer_cancelled'', ''creator_cancelled'', ''eligibility_invalidated''})))"

definition hmac_text :: "string \<Rightarrow> bool" where
  "hmac_text s \<longleftrightarrow> digest_with ''hmac-sha256:v1:'' s"

definition intent_check :: "intent_row \<Rightarrow> bool" where
  "intent_check r \<longleftrightarrow> purpose_check r \<and> lane_check r \<and> 1 \<le> pi_amountVnd r \<and> pi_amountVnd r \<le> 9999999999999 \<and>
     hmac_text (pi_referenceHash r) \<and> hmac_text (pi_abuseKeyHash r) \<and> intent_time_check r \<and> rejection_check r"

text \<open>A unique index on a nullable column ignores the rows without a value.\<close>

definition unique_where :: "('r \<Rightarrow> 'v option) \<Rightarrow> 'r list \<Rightarrow> bool" where
  "unique_where f t \<longleftrightarrow> distinct (map f (filter (\<lambda>r. f r \<noteq> None) t))"

definition intents_ok :: "intent_row list \<Rightarrow> bool" where
  "intents_ok t \<longleftrightarrow>
     distinct (map pi_id t) \<and> unique_where pi_tipId t \<and> unique_where pi_commissionOrderId t \<and>
     distinct (map pi_referenceHash t) \<and> list_all intent_check t"

subsection \<open>Capabilities, claims and confirmations\<close>

record capability_row =
  pg_id :: string
  pg_paymentIntentId :: string
  pg_capabilityHash :: string
  pg_createdAt :: instant
  pg_expiresAt :: instant

definition capabilities_ok :: "capability_row list \<Rightarrow> bool" where
  "capabilities_ok t \<longleftrightarrow>
     distinct (map pg_id t) \<and> distinct (map pg_paymentIntentId t) \<and> distinct (map pg_capabilityHash t) \<and>
     list_all (\<lambda>r. hmac_text (pg_capabilityHash r) \<and> pg_createdAt r < pg_expiresAt r) t"

datatype access_kind = GuestAccess | BuyerAccess

record claim_row =
  pc_id :: string
  pc_paymentIntentId :: string
  pc_accessKind :: access_kind
  pc_buyerUserId :: "string option"
  pc_guestCapabilityId :: "string option"
  pc_authoritative :: bool
  pc_requestId :: string
  pc_claimedAt :: instant

definition claim_check :: "claim_row \<Rightarrow> bool" where
  "claim_check r \<longleftrightarrow> \<not> pc_authoritative r \<and>
     (case pc_accessKind r of
        GuestAccess \<Rightarrow> pc_guestCapabilityId r \<noteq> None \<and> pc_buyerUserId r = None
      | BuyerAccess \<Rightarrow> pc_guestCapabilityId r = None \<and> pc_buyerUserId r \<noteq> None)"

definition claims_ok :: "claim_row list \<Rightarrow> bool" where
  "claims_ok t \<longleftrightarrow> distinct (map pc_id t) \<and> distinct (map pc_paymentIntentId t) \<and> list_all claim_check t"

datatype confirmation_source = CreatorManual | SepayAutomatic | CreatorReviewedSepay

record confirmation_row =
  pm_id :: string
  pm_paymentIntentId :: string
  pm_creatorUserId :: string
  pm_accountVersionId :: string
  pm_observedAmountVnd :: int
  pm_referenceHash :: string
  pm_bankTransactionFingerprint :: "string option"
  pm_providerTransactionId :: "string option"
  pm_workerIdentity :: "string option"
  pm_source :: confirmation_source
  pm_attestedReceived :: "bool option"
  pm_actorSessionId :: "string option"
  pm_primaryAuthenticatedAt :: "instant option"
  pm_mfaVerifiedAt :: "instant option"
  pm_idempotencyKeyHash :: "string option"
  pm_requestId :: string
  pm_confirmedAt :: instant

definition attested :: "confirmation_row \<Rightarrow> bool" where
  "attested r \<longleftrightarrow> pm_attestedReceived r = Some True \<and> pm_actorSessionId r \<noteq> None \<and>
     pm_primaryAuthenticatedAt r \<noteq> None \<and> pm_idempotencyKeyHash r \<noteq> None"

definition source_check :: "confirmation_row \<Rightarrow> bool" where
  "source_check r \<longleftrightarrow>
     (case pm_source r of
        CreatorManual \<Rightarrow> pm_bankTransactionFingerprint r \<noteq> None \<and> pm_providerTransactionId r = None \<and>
          pm_workerIdentity r = None \<and> attested r
      | SepayAutomatic \<Rightarrow> pm_bankTransactionFingerprint r = None \<and> pm_providerTransactionId r \<noteq> None \<and>
          (case pm_workerIdentity r of None \<Rightarrow> False | Some w \<Rightarrow> leading_alnum is_ident 199 w) \<and>
          pm_attestedReceived r = None \<and> pm_actorSessionId r = None \<and> pm_primaryAuthenticatedAt r = None \<and>
          pm_mfaVerifiedAt r = None \<and> pm_idempotencyKeyHash r = None
      | CreatorReviewedSepay \<Rightarrow> pm_bankTransactionFingerprint r = None \<and> pm_providerTransactionId r \<noteq> None \<and>
          pm_workerIdentity r = None \<and> attested r)"

definition within_hour :: "instant option \<Rightarrow> instant \<Rightarrow> bool" where
  "within_hour t at \<longleftrightarrow> (case t of None \<Rightarrow> True | Some x \<Rightarrow> x \<le> at \<and> at - 3600000 \<le> x)"

definition confirmation_check :: "confirmation_row \<Rightarrow> bool" where
  "confirmation_check r \<longleftrightarrow> source_check r \<and> pred_option hmac_text (pm_bankTransactionFingerprint r) \<and>
     pred_option hmac_text (pm_idempotencyKeyHash r) \<and>
     within_hour (pm_primaryAuthenticatedAt r) (pm_confirmedAt r) \<and> within_hour (pm_mfaVerifiedAt r) (pm_confirmedAt r)"

definition confirmations_ok :: "confirmation_row list \<Rightarrow> bool" where
  "confirmations_ok t \<longleftrightarrow>
     distinct (map pm_id t) \<and> distinct (map pm_paymentIntentId t) \<and> unique_where pm_bankTransactionFingerprint t \<and>
     unique_where pm_providerTransactionId t \<and> list_all confirmation_check t"

subsection \<open>Cutovers and connections\<close>

text \<open>The columns the payment services read; the connection service writes these tables.\<close>

record cutover_row =
  cu_id :: string
  cu_accountFingerprint :: string
  cu_creatorUserId :: string
  cu_connectionId :: string
  cu_providerEnvironment :: sepay_environment
  cu_providerTenantId :: string
  cu_providerAccountId :: string
  cu_cutoverAt :: instant

datatype connection_status = SetupPending | ConnectionReady | ConnectionPaused | ReconnectRequired | Disconnected

record connection_row =
  cx_id :: string
  cx_creatorUserId :: string
  cx_accountVersionId :: string
  cx_accountFingerprint :: string
  cx_providerEnvironment :: sepay_environment
  cx_providerTenantId :: "string option"
  cx_providerAccountId :: "string option"
  cx_status :: connection_status
  cx_version :: int
  cx_currentRevisionId :: "string option"
  cx_automationEnabled :: bool

subsection \<open>The database\<close>

record fund_db =
  fd_orders :: ord_db
  fd_tips :: "tip_row list"
  fd_intents :: "intent_row list"
  fd_capabilities :: "capability_row list"
  fd_claims :: "claim_row list"
  fd_confirmations :: "confirmation_row list"
  fd_accounts :: "account_row list"
  fd_cutovers :: "cutover_row list"
  fd_connections :: "connection_row list"

text \<open>The composite foreign keys: an intent repeats the creator and the amount of its tip or order,
  a confirmation repeats what it confirms.\<close>

definition intent_binding :: "intent_row \<Rightarrow> string \<times> string \<times> int \<times> string \<times> string" where
  "intent_binding r = (pi_id r, pi_creatorUserId r, pi_amountVnd r, pi_referenceHash r, pi_accountVersionId r)"

definition confirmation_binding :: "confirmation_row \<Rightarrow> string \<times> string \<times> int \<times> string \<times> string" where
  "confirmation_binding r =
     (pm_paymentIntentId r, pm_creatorUserId r, pm_observedAmountVnd r, pm_referenceHash r, pm_accountVersionId r)"

definition intent_owner_ok :: "fund_db \<Rightarrow> intent_row \<Rightarrow> bool" where
  "intent_owner_ok db r \<longleftrightarrow>
     (case pi_tipId r of None \<Rightarrow> True
      | Some k \<Rightarrow> (k, pi_creatorUserId r, pi_amountVnd r) \<in> (\<lambda>t. (tp_id t, tp_creatorUserId t, tp_amountVnd t)) ` set (fd_tips db)) \<and>
     (case pi_commissionOrderId r of None \<Rightarrow> True
      | Some k \<Rightarrow> (k, pi_creatorUserId r, Some (pi_amountVnd r)) \<in>
          (\<lambda>o1. (co_id o1, co_creatorUserId o1, co_amountVnd o1)) ` set (od_orders (fd_orders db)))"

definition fund_references_ok :: "fund_db \<Rightarrow> bool" where
  "fund_references_ok db \<longleftrightarrow>
     list_all (intent_owner_ok db) (fd_intents db) \<and>
     pi_accountVersionId ` set (fd_intents db) \<subseteq> ac_id ` set (fd_accounts db) \<and>
     pi_cutoverId ` set (fd_intents db) \<subseteq> insert None (Some ` cu_id ` set (fd_cutovers db)) \<and>
     pg_paymentIntentId ` set (fd_capabilities db) \<subseteq> pi_id ` set (fd_intents db) \<and>
     pc_paymentIntentId ` set (fd_claims db) \<subseteq> pi_id ` set (fd_intents db) \<and>
     list_all (\<lambda>c. case pc_guestCapabilityId c of None \<Rightarrow> True
       | Some k \<Rightarrow> (k, pc_paymentIntentId c) \<in> (\<lambda>g. (pg_id g, pg_paymentIntentId g)) ` set (fd_capabilities db)) (fd_claims db) \<and>
     confirmation_binding ` set (fd_confirmations db) \<subseteq> intent_binding ` set (fd_intents db) \<and>
     cu_connectionId ` set (fd_cutovers db) \<subseteq> cx_id ` set (fd_connections db)"

definition fund_constraints :: "fund_db \<Rightarrow> bool" where
  "fund_constraints db \<longleftrightarrow>
     order_constraints (fd_orders db) \<and> tips_ok (fd_tips db) \<and> intents_ok (fd_intents db) \<and>
     capabilities_ok (fd_capabilities db) \<and> claims_ok (fd_claims db) \<and> confirmations_ok (fd_confirmations db) \<and>
     accounts_ok (fd_accounts db) \<and> distinct (map cu_id (fd_cutovers db)) \<and>
     distinct (map cu_accountFingerprint (fd_cutovers db)) \<and> distinct (map cx_id (fd_connections db)) \<and> fund_references_ok db"

definition keep :: "fund_db \<Rightarrow> failure + fund_db" where
  "keep db = (if fund_constraints db then Inr db else Inl (OtherError ''PostgresError''))"

lemma keep_Inr [simp]: "keep db = Inr db' \<longleftrightarrow> db' = db \<and> fund_constraints db"
  by (auto simp: keep_def)

end
