(* ===== verification/FundIntents.thy ===== *)
theory FundIntents
  imports FundTables
begin

text \<open>
  Payment intents: the account a creator receives on (\<^verbatim>\<open>packages/payments/src/tip-receiving-account.ts\<close>,
  \<^verbatim>\<open>payment-account-fence.ts\<close>), the one writer of intents (\<^verbatim>\<open>payment-intent-write.ts\<close>), the sealed
  destination they carry (\<^verbatim>\<open>tip-snapshot.ts\<close>) and the ports of the order and the tip service
  (\<^verbatim>\<open>commission-intent-port.ts\<close>, \<^verbatim>\<open>tip-intent-port.ts\<close>). An advisory lock makes the payments of one
  creator run one after the other, so a port is one step.
\<close>

subsection \<open>Configuration, draws and shared statements\<close>

record fund_cfg =
  fc_platform :: platform
  fc_keyring :: keyring
  fc_lookupHmacKey :: string
  fc_applicationRevision :: string
  fc_paymentsMode :: payments_mode
  fc_intentTtlMs :: int
  fc_guestReceiptTtlMs :: int
  fc_openIpLimit :: int
  fc_openCreatorLimit :: int
  fc_recentAuthMs :: int
  fc_mfaAuthMs :: int
  fc_idempotencyTtlMs :: int
  fc_publishing :: bool

text \<open>\<open>dw_seen\<close> is the current account of a creator as the transaction read it before it waited for the
  locks, and \<open>dw_reference n\<close> the random reference of attempt \<open>n\<close>.\<close>

record fund_draw = draw +
  dw_seen :: "string \<Rightarrow> account_row option"
  dw_reference :: "nat \<Rightarrow> string"

definition need :: "bool \<Rightarrow> string \<Rightarrow> failure + unit" where
  "need b code = require b (TipPaymentError code)"

lemma need_Inr [simp]: "need b code = Inr u \<longleftrightarrow> b"
  by (simp add: need_def)

definition want :: "'a option \<Rightarrow> string \<Rightarrow> failure + 'a" where
  "want v code = orThrow v (TipPaymentError code)"

lemma want_Inr [simp]: "want v code = Inr a \<longleftrightarrow> v = Some a"
  by (simp add: want_def)

text \<open>\<open>now()\<close>: a reading of the clock, which must be a valid date.\<close>

definition fund_now :: "'a draw_scheme \<Rightarrow> nat \<Rightarrow> failure + instant" where
  "fund_now dw n = await (need (date_ok (dw_clock dw n)) ''dependency_unavailable'') (\<lambda>_. Inr (dw_clock dw n))"

lemma fund_now_Inr [simp]: "fund_now dw n = Inr t \<longleftrightarrow> t = dw_clock dw n \<and> date_ok (dw_clock dw n)"
  by (auto simp: fund_now_def result_iffs)

definition fund_digest :: "fund_cfg \<Rightarrow> string \<Rightarrow> string \<Rightarrow> failure + string" where
  "fund_digest cfg context v = other ''SecurityHashingError'' (createLookupHmac (fc_platform cfg) v context (fc_lookupHmacKey cfg))"

definition fund_seal :: "fund_cfg \<Rightarrow> string \<Rightarrow> string \<Rightarrow> string \<Rightarrow> string \<Rightarrow> string \<Rightarrow> failure + envelope" where
  "fund_seal cfg nonce recordType recordId fieldName plaintext =
     seal_text (fc_platform cfg) (fc_keyring cfg) nonce recordType recordId fieldName plaintext"

definition fund_open :: "fund_cfg \<Rightarrow> string \<Rightarrow> string \<Rightarrow> string \<Rightarrow> envelope \<Rightarrow> failure + string" where
  "fund_open cfg recordType recordId fieldName e =
     other ''SensitiveDataCryptographyError'' (decryptSensitiveField (fc_platform cfg) (fc_keyring cfg)
       \<lparr>fb_recordType = recordType, fb_recordId = recordId, fb_fieldName = fieldName\<rparr> None e)"

text \<open>\<open>requireIntegerVnd\<close> and the encoder, with the errors they throw here.\<close>

definition amount_of :: "int \<Rightarrow> (int \<times> int) option \<Rightarrow> failure + int" where
  "amount_of v policy = (case requireIntegerVnd v policy of Inl _ \<Rightarrow> Inl (TipPaymentError ''invalid_amount'') | Inr n \<Rightarrow> Inr n)"

lemma amount_of_Inr [simp]: "amount_of v policy = Inr n \<longleftrightarrow> requireIntegerVnd v policy = Inr n"
  by (simp add: amount_of_def split: sum.splits)

definition qr_instruction :: "string \<Rightarrow> string \<Rightarrow> int \<Rightarrow> string \<Rightarrow> failure + transfer_instruction" where
  "qr_instruction bankBin accountNumber amountVnd reference =
     (case createVietQrTransferInstruction \<lparr>ti_bankBin = bankBin, ti_accountNumber = accountNumber, ti_amountVnd = amountVnd,
         ti_transferReference = reference\<rparr> VIETQR_RECEIVING_BANKS of
        Inl InvalidAmount \<Rightarrow> Inl (TipPaymentError ''invalid_amount'')
      | Inl _ \<Rightarrow> Inl (OtherError ''VietQrError'')
      | Inr i \<Rightarrow> Inr i)"

definition isTipPaymentsEnabled :: "payments_mode \<Rightarrow> bool" where
  "isTipPaymentsEnabled mode \<longleftrightarrow> mode = ManualOnly \<or> mode = SepayOptional"

definition isSePayAutomationEnabled :: "payments_mode \<Rightarrow> bool" where
  "isSePayAutomationEnabled mode \<longleftrightarrow> mode = SepayOptional"

subsection \<open>Purposes\<close>

datatype payment_purpose = TipPayment string | CommissionPayment string

definition isTipPayment :: "intent_row \<Rightarrow> bool" where
  "isTipPayment r \<longleftrightarrow> pi_purpose r = TipPurpose \<and> (case pi_tipId r of None \<Rightarrow> False | Some k \<Rightarrow> is_uuid k) \<and> pi_commissionOrderId r = None"

definition readPaymentPurpose :: "intent_row \<Rightarrow> payment_purpose option" where
  "readPaymentPurpose r =
     (if isTipPayment r then Some (TipPayment (the (pi_tipId r)))
      else if pi_purpose r = CommissionPurpose \<and> pi_tipId r = None \<and> (case pi_commissionOrderId r of None \<Rightarrow> False | Some k \<Rightarrow> is_uuid k)
      then Some (CommissionPayment (the (pi_commissionOrderId r))) else None)"

definition purpose_kind :: "payment_purpose \<Rightarrow> purpose" where
  "purpose_kind p = (case p of TipPayment _ \<Rightarrow> TipPurpose | CommissionPayment _ \<Rightarrow> CommissionPurpose)"

definition owner_id :: "payment_purpose \<Rightarrow> string" where
  "owner_id p = (case p of TipPayment k \<Rightarrow> k | CommissionPayment k \<Rightarrow> k)"

subsection \<open>The receiving account\<close>

definition current_account :: "string \<Rightarrow> fund_db \<Rightarrow> account_row option" where
  "current_account creatorUserId db =
     List.find (\<lambda>a. ac_applicantUserId a = creatorUserId \<and> ac_retiredAt a = None) (fd_accounts db)"

definition account_key :: "account_row \<Rightarrow> string \<times> int \<times> string" where
  "account_key a = (ac_id a, ac_version a, ac_accountFingerprint a)"

text \<open>The account before and after the locks must be the same version.\<close>

definition lockPaymentAccountLineage ::
  "(string \<Rightarrow> account_row option) \<Rightarrow> string \<Rightarrow> string list \<Rightarrow> fund_db \<Rightarrow> failure + account_row option" where
  "lockPaymentAccountLineage seen creatorUserId proposedFingerprints db =
     (let candidate = seen creatorUserId; locked = current_account creatorUserId db;
          fingerprints = proposedFingerprints @ (case candidate of None \<Rightarrow> [] | Some a \<Rightarrow> [ac_accountFingerprint a])
      in if \<not> list_all hmac_text fingerprints \<or> map_option account_key candidate \<noteq> map_option account_key locked
         then Inl (OtherError ''PaymentAccountChangedError'') else Inr locked)"

definition account_changed :: "failure \<Rightarrow> bool" where
  "account_changed e \<longleftrightarrow> e = OtherError ''PaymentAccountChangedError''"

text \<open>Three attempts; \<open>run n\<close> is the transaction of attempt \<open>n\<close>.\<close>

definition retryAccountChange :: "(nat \<Rightarrow> failure + 'a) \<Rightarrow> failure + 'a" where
  "retryAccountChange run =
     (case run 0 of
        Inl e \<Rightarrow> if account_changed e then (case run 1 of
            Inl e1 \<Rightarrow> if account_changed e1 then run 2 else Inl e1
          | Inr a \<Rightarrow> Inr a) else Inl e
      | Inr a \<Rightarrow> Inr a)"

lemma retry_account_Inr: "retryAccountChange run = Inr a \<Longrightarrow> \<exists>n. run n = Inr a"
  by (auto simp: retryAccountChange_def split: sum.splits if_splits)

record destination =
  ds_accountVersionId :: string
  ds_bankBin :: string
  ds_bankName :: string
  ds_accountNumber :: string
  ds_accountName :: string
  ds_accountFingerprint :: string

text \<open>\<open>replace(/\s+/gu, " ")\<close>; \<open>inside\<close> tells whether the character before is a space.\<close>

fun collapse_spaces :: "bool \<Rightarrow> string \<Rightarrow> string" where
  "collapse_spaces inside [] = []"
| "collapse_spaces inside (c # cs) =
     (if is_space c then (if inside then collapse_spaces True cs else CHR '' '' # collapse_spaces True cs)
      else c # collapse_spaces False cs)"

definition holder_label_ok :: "string \<Rightarrow> bool" where
  "holder_label_ok s \<longleftrightarrow> collapse_spaces False (trim s) = s \<and> \<not> list_ex is_control s \<and> 2 \<le> length s \<and> length s \<le> 100"

text \<open>\<open>None\<close> where \<open>fingerprintReceivingAccount\<close> throws.\<close>

definition account_fingerprint :: "fund_cfg \<Rightarrow> string \<Rightarrow> string \<Rightarrow> string option" where
  "account_fingerprint cfg bankBin accountNumber =
     (if bank_bin_ok (trim bankBin) \<and> repeats is_digit 6 20 (trim accountNumber)
      then (case fund_digest cfg ''receiving-account'' (stringify (JArr [JStr ''receiving-account-v1'', JStr (trim bankBin), JStr (trim accountNumber)])) of
          Inl _ \<Rightarrow> None | Inr d \<Rightarrow> Some d)
      else None)"

definition account_usable :: "account_row \<Rightarrow> instant \<Rightarrow> bool" where
  "account_usable a at \<longleftrightarrow> ac_proofState a = ProofVerified \<and>
     (case ac_proofVerifiedAt a of None \<Rightarrow> False | Some t \<Rightarrow> t \<le> at) \<and> ac_minimizedAt a = None"

definition open_destination :: "fund_cfg \<Rightarrow> account_row \<Rightarrow> envelope \<Rightarrow> envelope \<Rightarrow> destination option" where
  "open_destination cfg a numberEnvelope nameEnvelope =
     (case (fund_open cfg ''payments_receiving_account'' (ac_id a) ''account_number'' numberEnvelope,
            fund_open cfg ''payments_receiving_account'' (ac_id a) ''account_holder_label'' nameEnvelope) of
        (Inr accountNumber, Inr accountName) \<Rightarrow>
          if isVietQrDestinationSupported (ac_bankBin a) accountNumber VIETQR_RECEIVING_BANKS \<and>
             map_of VIETQR_RECEIVING_BANKS (ac_bankBin a) = Some (ac_bankName a) \<and> holder_label_ok accountName \<and>
             account_fingerprint cfg (ac_bankBin a) accountNumber = Some (ac_accountFingerprint a)
          then Some \<lparr>ds_accountVersionId = ac_id a, ds_bankBin = ac_bankBin a, ds_bankName = ac_bankName a,
            ds_accountNumber = accountNumber, ds_accountName = accountName, ds_accountFingerprint = ac_accountFingerprint a\<rparr>
          else None
      | _ \<Rightarrow> None)"

definition receiving_destination :: "fund_cfg \<Rightarrow> account_row \<Rightarrow> instant \<Rightarrow> destination option" where
  "receiving_destination cfg a at =
     (case (ac_accountNumberEnvelope a, ac_accountHolderLabelEnvelope a) of
        (Some e1, Some e2) \<Rightarrow> if account_usable a at then open_destination cfg a e1 e2 else None
      | _ \<Rightarrow> None)"

definition lockTipReceivingDestination ::
  "fund_cfg \<Rightarrow> fund_draw \<Rightarrow> string \<Rightarrow> instant \<Rightarrow> fund_db \<Rightarrow> failure + destination option" where
  "lockTipReceivingDestination cfg dw creatorUserId at db =
     await (lockPaymentAccountLineage (dw_seen dw) creatorUserId [] db) (\<lambda>account.
       Inr (case account of None \<Rightarrow> None | Some a \<Rightarrow> receiving_destination cfg a at))"

type_synonym settlement = "settlement_lane \<times> string option"

definition connection_serves :: "connection_row \<Rightarrow> cutover_row \<Rightarrow> destination \<Rightarrow> string \<Rightarrow> bool" where
  "connection_serves x u d creatorUserId \<longleftrightarrow>
     cx_creatorUserId x = creatorUserId \<and> cx_accountVersionId x = ds_accountVersionId d \<and>
     cx_accountFingerprint x = ds_accountFingerprint d \<and> cx_status x = ConnectionReady \<and> cx_automationEnabled x \<and>
     cx_currentRevisionId x \<noteq> None \<and> cx_providerEnvironment x = cu_providerEnvironment u \<and>
     cx_providerTenantId x = Some (cu_providerTenantId u) \<and> cx_providerAccountId x = Some (cu_providerAccountId u)"

definition lockTipSettlementBinding :: "payments_mode \<Rightarrow> destination \<Rightarrow> string \<Rightarrow> fund_db \<Rightarrow> settlement option" where
  "lockTipSettlementBinding mode d creatorUserId db =
     (if \<not> isTipPaymentsEnabled mode then None
      else case List.find (\<lambda>u. cu_accountFingerprint u = ds_accountFingerprint d) (fd_cutovers db) of
        None \<Rightarrow> Some (ManualAttested, None)
      | Some u \<Rightarrow>
          if cu_creatorUserId u \<noteq> creatorUserId \<or> \<not> isSePayAutomationEnabled mode then None
          else case List.find (\<lambda>x. cx_id x = cu_connectionId u) (fd_connections db) of
            None \<Rightarrow> None
          | Some x \<Rightarrow> if connection_serves x u d creatorUserId then Some (ProviderBound, Some (cu_id u)) else None)"

definition getCurrentTipReceivingAccount ::
  "fund_cfg \<Rightarrow> fund_draw \<Rightarrow> string \<Rightarrow> instant \<Rightarrow> fund_db \<Rightarrow> failure + string option" where
  "getCurrentTipReceivingAccount cfg dw creatorUserId at db =
     await (lockTipReceivingDestination cfg dw creatorUserId at db) (\<lambda>destination.
       Inr (case destination of None \<Rightarrow> None
         | Some d \<Rightarrow> if lockTipSettlementBinding (fc_paymentsMode cfg) d creatorUserId db \<noteq> None then Some (ds_accountVersionId d) else None))"

subsection \<open>The sealed destination\<close>

record snapshot =
  sn_bankBin :: string
  sn_bankName :: string
  sn_accountNumber :: string
  sn_accountName :: string
  sn_displayName :: string
  sn_handle :: string

definition snapshot_json :: "snapshot \<Rightarrow> json" where
  "snapshot_json s = JObj [(''version'', JNum 1), (''bankBin'', JStr (sn_bankBin s)), (''bankName'', JStr (sn_bankName s)),
     (''accountNumber'', JStr (sn_accountNumber s)), (''accountName'', JStr (sn_accountName s)),
     (''creator'', JObj [(''displayName'', JStr (sn_displayName s)), (''handle'', JStr (sn_handle s))])]"

text \<open>\<open>Object.keys(v).sort().join()\<close> of a parsed object; of two equal keys the last is kept.\<close>

definition sorted_keys :: "(string \<times> json) list \<Rightarrow> string" where
  "sorted_keys entries = comma_join (sort (remdups (map fst entries)))"

definition text_field :: "(string \<times> json) list \<Rightarrow> string \<Rightarrow> string option" where
  "text_field entries k = (case map_of (rev entries) k of Some (JStr s) \<Rightarrow> Some s | _ \<Rightarrow> None)"

text \<open>\<open>^[a-z0-9]+(?:-[a-z0-9]+)*$\<close> of 3 to 30 characters.\<close>

fun slug_words :: "bool \<Rightarrow> string \<Rightarrow> bool" where
  "slug_words inside [] = inside"
| "slug_words inside (c # cs) =
     (if is_digit c \<or> is_lower c then slug_words True cs else c = CHR ''-'' \<and> inside \<and> slug_words False cs)"

definition handle_ok :: "string \<Rightarrow> bool" where
  "handle_ok s \<longleftrightarrow> 3 \<le> length s \<and> length s \<le> 30 \<and> slug_words False s"

definition creator_of :: "(string \<times> json) list \<Rightarrow> (string \<times> string) option" where
  "creator_of entries =
     (case map_of (rev entries) ''creator'' of
        Some (JObj es) \<Rightarrow>
          if sorted_keys es \<noteq> ''displayName,handle'' then None
          else (case (text_field es ''displayName'', text_field es ''handle'') of
              (Some n, Some h) \<Rightarrow> if 1 \<le> length n \<and> length n \<le> 80 \<and> handle_ok h then Some (n, h) else None
            | _ \<Rightarrow> None)
      | _ \<Rightarrow> None)"

definition destination_ok :: "string \<Rightarrow> string \<Rightarrow> string \<Rightarrow> string \<Rightarrow> bool" where
  "destination_ok bankBin bankName accountNumber accountName \<longleftrightarrow>
     isVietQrDestinationSupported bankBin accountNumber VIETQR_RECEIVING_BANKS \<and>
     map_of VIETQR_RECEIVING_BANKS bankBin = Some bankName \<and>
     trim accountName = accountName \<and> 2 \<le> length accountName \<and> length accountName \<le> 100"

definition snapshot_of :: "json \<Rightarrow> snapshot option" where
  "snapshot_of v =
     (case v of
        JObj es \<Rightarrow>
          if map_of (rev es) ''version'' \<noteq> Some (JNum 1) \<or> sorted_keys es \<noteq> ''accountName,accountNumber,bankBin,bankName,creator,version'' then None
          else (case (text_field es ''bankBin'', text_field es ''bankName'', text_field es ''accountNumber'', text_field es ''accountName'', creator_of es) of
              (Some b, Some bn, Some n, Some an, Some (dn, h)) \<Rightarrow>
                if destination_ok b bn n an
                then Some \<lparr>sn_bankBin = b, sn_bankName = bn, sn_accountNumber = n, sn_accountName = an, sn_displayName = dn, sn_handle = h\<rparr>
                else None
            | _ \<Rightarrow> None)
      | _ \<Rightarrow> None)"

text \<open>Whatever goes wrong inside, the answer is \<open>not_available\<close>.\<close>

definition readTipIntentSnapshot :: "fund_cfg \<Rightarrow> intent_row \<Rightarrow> failure + (snapshot \<times> string)" where
  "readTipIntentSnapshot cfg row =
     (case await (fund_open cfg ''payment_intents'' (pi_id row) ''destination'' (pi_destinationEnvelope row)) (\<lambda>document.
           await (orThrow (Option.bind (json_parse document) snapshot_of) (OtherError ''Error'')) (\<lambda>snapshot.
           await (fund_open cfg ''payment_intents'' (pi_id row) ''transfer_reference'' (pi_referenceEnvelope row)) (\<lambda>reference.
           await (fund_digest cfg ''tip-transfer-reference'' reference) (\<lambda>digest.
           if is_reference reference \<and> digest = pi_referenceHash row then Inr (snapshot, reference) else Inl (OtherError ''Error''))))) of
        Inl _ \<Rightarrow> Inl (TipPaymentError ''not_available'')
      | Inr r \<Rightarrow> Inr r)"

record instruction =
  it_reference :: string
  it_displayName :: string
  it_handle :: string
  it_amountVnd :: int
  it_expiresAt :: string
  it_transferClaimedAt :: "string option"
  it_settlementLane :: settlement_lane
  it_bankBin :: string
  it_bankName :: string
  it_accountNumber :: string
  it_accountName :: string
  it_qrPayload :: string

definition tipInstructionProjection ::
  "intent_row \<Rightarrow> snapshot \<Rightarrow> string \<Rightarrow> string option \<Rightarrow> failure + instruction" where
  "tipInstructionProjection row s reference transferClaimedAt =
     await (amount_of (pi_amountVnd row) None) (\<lambda>amountVnd.
     await (qr_instruction (sn_bankBin s) (sn_accountNumber s) amountVnd reference) (\<lambda>qr.
       Inr \<lparr>it_reference = reference, it_displayName = sn_displayName s, it_handle = sn_handle s, it_amountVnd = amountVnd,
         it_expiresAt = toISOString (pi_expiresAt row), it_transferClaimedAt = transferClaimedAt,
         it_settlementLane = pi_settlementLane row, it_bankBin = sn_bankBin s, it_bankName = sn_bankName s,
         it_accountNumber = sn_accountNumber s, it_accountName = sn_accountName s, it_qrPayload = ti_payload qr\<rparr>))"

end
