(* ===== verification/IntentPorts.thy ===== *)
theory IntentPorts
  imports FundIntents
begin

text \<open>
  The writer of payment intents (\<^verbatim>\<open>packages/payments/src/payment-intent-write.ts\<close>) and the two ports
  over it: the orders' (\<^verbatim>\<open>commission-intent-port.ts\<close>, \<^verbatim>\<open>commission-payment-facts.ts\<close>) and the tips'
  (\<^verbatim>\<open>tip-intent-port.ts\<close>).
\<close>

subsection \<open>Writing an intent\<close>

record intent_command =
  in_intentId :: string
  in_purpose :: payment_purpose
  in_creatorUserId :: string
  in_accountVersionId :: string
  in_amountVnd :: int
  in_displayName :: string
  in_handle :: string
  in_abuseKeyHash :: string
  in_requestId :: string
  in_at :: instant
  in_expiresAt :: instant

definition destination_snapshot :: "destination \<Rightarrow> intent_command \<Rightarrow> snapshot" where
  "destination_snapshot d c =
     \<lparr>sn_bankBin = ds_bankBin d, sn_bankName = ds_bankName d, sn_accountNumber = ds_accountNumber d,
      sn_accountName = ds_accountName d, sn_displayName = in_displayName c, sn_handle = in_handle c\<rparr>"

definition new_intent ::
  "intent_command \<Rightarrow> destination \<Rightarrow> settlement \<Rightarrow> envelope \<Rightarrow> int \<Rightarrow> string \<Rightarrow> envelope \<Rightarrow> intent_row" where
  "new_intent c d settlement destinationEnvelope amountVnd referenceHash referenceEnvelope =
     \<lparr>pi_id = in_intentId c, pi_purpose = purpose_kind (in_purpose c),
      pi_tipId = (case in_purpose c of TipPayment k \<Rightarrow> Some k | _ \<Rightarrow> None),
      pi_commissionOrderId = (case in_purpose c of CommissionPayment k \<Rightarrow> Some k | _ \<Rightarrow> None),
      pi_creatorUserId = in_creatorUserId c, pi_amountVnd = amountVnd, pi_referenceHash = referenceHash,
      pi_referenceEnvelope = referenceEnvelope, pi_destinationEnvelope = destinationEnvelope,
      pi_accountVersionId = ds_accountVersionId d, pi_settlementLane = fst settlement, pi_cutoverId = snd settlement,
      pi_abuseKeyHash = in_abuseKeyHash c, pi_state = AwaitingTransfer, pi_expiresAt = in_expiresAt c, pi_closedAt = None,
      pi_rejectionReason = None, pi_requestId = in_requestId c, pi_createdAt = in_at c, pi_updatedAt = in_at c\<rparr>"

text \<open>\<open>insert ... on conflict (reference_hash) do nothing returning\<close>.\<close>

definition insert_intent :: "intent_row \<Rightarrow> fund_db \<Rightarrow> failure + (fund_db \<times> bool)" where
  "insert_intent r db =
     (if pi_referenceHash r \<in> pi_referenceHash ` set (fd_intents db) then Inr (db, False)
      else await (keep (db\<lparr>fd_intents := fd_intents db @ [r]\<rparr>)) (\<lambda>db'. Inr (db', True)))"

text \<open>Five attempts, each with a new reference; \<open>n\<close> counts the attempts left.\<close>

fun reference_attempts ::
  "fund_cfg \<Rightarrow> fund_draw \<Rightarrow> intent_command \<Rightarrow> destination \<Rightarrow> settlement \<Rightarrow> envelope \<Rightarrow> int \<Rightarrow> nat \<Rightarrow> fund_db \<Rightarrow>
     failure + (fund_db \<times> intent_row \<times> string)" where
  "reference_attempts cfg dw c d settlement destinationEnvelope amountVnd 0 db = Inl (TipPaymentError ''dependency_unavailable'')"
| "reference_attempts cfg dw c d settlement destinationEnvelope amountVnd (Suc n) db =
     (let attempt = 4 - n; reference = dw_reference dw attempt
      in await (need (is_reference reference) ''dependency_unavailable'') (\<lambda>_.
         await (qr_instruction (ds_bankBin d) (ds_accountNumber d) amountVnd reference) (\<lambda>_.
         await (fund_digest cfg ''tip-transfer-reference'' reference) (\<lambda>referenceHash.
         await (fund_seal cfg (dw_nonce dw (attempt + 1)) ''payment_intents'' (in_intentId c) ''transfer_reference'' reference) (\<lambda>referenceEnvelope.
         let r = new_intent c d settlement destinationEnvelope amountVnd referenceHash referenceEnvelope in
         await (insert_intent r db) (\<lambda>(db', inserted).
           if inserted then Inr (db', r, reference)
           else reference_attempts cfg dw c d settlement destinationEnvelope amountVnd n db'))))))"

definition intent_command_ok :: "intent_command \<Rightarrow> bool" where
  "intent_command_ok c \<longleftrightarrow> is_uuid (in_intentId c) \<and> is_uuid (owner_id (in_purpose c)) \<and> is_uuid (in_accountVersionId c) \<and>
     date_ok (in_at c) \<and> date_ok (in_expiresAt c) \<and> in_at c < in_expiresAt c"

definition commission_bounds :: "intent_command \<Rightarrow> int \<Rightarrow> bool" where
  "commission_bounds c amountVnd \<longleftrightarrow>
     purpose_kind (in_purpose c) = CommissionPurpose \<longrightarrow>
       50000 \<le> amountVnd \<and> amountVnd \<le> 50000000 \<and> in_expiresAt c - in_at c = 86400000"

definition insertTransferPaymentIntent ::
  "fund_cfg \<Rightarrow> fund_draw \<Rightarrow> intent_command \<Rightarrow> fund_db \<Rightarrow> failure + (fund_db \<times> intent_row \<times> snapshot \<times> string)" where
  "insertTransferPaymentIntent cfg dw c db =
     await (need (fc_paymentsMode cfg \<noteq> PaymentsDisabledMode) ''payments_disabled'') (\<lambda>_.
     await (need (intent_command_ok c) ''invalid_request'') (\<lambda>_.
     await (amount_of (in_amountVnd c) None) (\<lambda>amountVnd.
     await (need (commission_bounds c amountVnd) ''invalid_request'') (\<lambda>_.
     await (lockTipReceivingDestination cfg dw (in_creatorUserId c) (in_at c) db) (\<lambda>found.
     await (want found ''not_available'') (\<lambda>d.
     await (need (ds_accountVersionId d = in_accountVersionId c) ''not_available'') (\<lambda>_.
     await (want (lockTipSettlementBinding (fc_paymentsMode cfg) d (in_creatorUserId c) db) ''not_available'') (\<lambda>settlement.
     let s = destination_snapshot d c in
     await (fund_seal cfg (dw_nonce dw 0) ''payment_intents'' (in_intentId c) ''destination'' (stringify (snapshot_json s))) (\<lambda>destinationEnvelope.
     await (reference_attempts cfg dw c d settlement destinationEnvelope amountVnd 5 db) (\<lambda>(db', r, reference).
       Inr (db', r, s, reference)))))))))))"

subsection \<open>The orders' port\<close>

definition commission_intent :: "string \<Rightarrow> string \<Rightarrow> fund_db \<Rightarrow> intent_row option" where
  "commission_intent orderId creatorUserId db =
     List.find (\<lambda>r. pi_commissionOrderId r = Some orderId \<and> pi_creatorUserId r = creatorUserId \<and> pi_purpose r = CommissionPurpose)
       (fd_intents db)"

definition hasCurrentDestination :: "fund_draw \<Rightarrow> string \<Rightarrow> string \<Rightarrow> instant \<Rightarrow> fund_db \<Rightarrow> failure + bool" where
  "hasCurrentDestination dw orderId creatorUserId at db =
     (case commission_intent orderId creatorUserId db of
        None \<Rightarrow> Inr False
      | Some r \<Rightarrow>
          await (lockPaymentAccountLineage (dw_seen dw) creatorUserId [] db) (\<lambda>account.
            Inr (case account of None \<Rightarrow> False
              | Some a \<Rightarrow>
                  ac_id a = pi_accountVersionId r \<and> account_usable a at \<and> ac_retiredAt a = None \<and>
                  (case List.find (\<lambda>u. cu_accountFingerprint u = ac_accountFingerprint a) (fd_cutovers db) of
                     Some u \<Rightarrow> pi_settlementLane r = ProviderBound \<and> pi_cutoverId r = Some (cu_id u) \<and> cu_creatorUserId u = creatorUserId
                   | None \<Rightarrow> pi_settlementLane r = ManualAttested \<and> pi_cutoverId r = None))))"

record commission_intent_command =
  ci_orderId :: string
  ci_creatorUserId :: string
  ci_at :: instant
  ci_accountVersionId :: string
  ci_amountVnd :: int
  ci_displayName :: string
  ci_handle :: string
  ci_abuseKeyHash :: string
  ci_requestId :: string

definition commission_createIntent :: "fund_cfg \<Rightarrow> fund_draw \<Rightarrow> commission_intent_command \<Rightarrow> fund_db \<Rightarrow> failure + (fund_db \<times> string)" where
  "commission_createIntent cfg dw c db =
     await (insertTransferPaymentIntent cfg dw \<lparr>in_intentId = dw_id dw 0, in_purpose = CommissionPayment (ci_orderId c),
       in_creatorUserId = ci_creatorUserId c, in_accountVersionId = ci_accountVersionId c, in_amountVnd = ci_amountVnd c,
       in_displayName = ci_displayName c, in_handle = ci_handle c, in_abuseKeyHash = ci_abuseKeyHash c, in_requestId = ci_requestId c,
       in_at = ci_at c, in_expiresAt = ci_at c + 86400000\<rparr> db) (\<lambda>(db', r, _, _). Inr (db', pi_id r))"

definition claim_of :: "string \<Rightarrow> fund_db \<Rightarrow> claim_row option" where
  "claim_of intentId db = List.find (\<lambda>c. pc_paymentIntentId c = intentId) (fd_claims db)"

definition confirmation_of :: "string \<Rightarrow> fund_db \<Rightarrow> confirmation_row option" where
  "confirmation_of intentId db = List.find (\<lambda>c. pm_paymentIntentId c = intentId) (fd_confirmations db)"

text \<open>An open intent past its expiry is shown as expired before the scan closes it.\<close>

definition shown_state :: "intent_row \<Rightarrow> instant \<Rightarrow> intent_state" where
  "shown_state r at = (if pi_state r = AwaitingTransfer \<and> pi_expiresAt r \<le> at then IntentExpired else pi_state r)"

record payment_projection =
  pj_id :: string
  pj_orderId :: string
  pj_amountVnd :: int
  pj_state :: intent_state
  pj_reference :: string
  pj_expiresAt :: string
  pj_confirmedAt :: "string option"
  pj_transferClaimedAt :: "string option"
  pj_settlementLane :: settlement_lane
  pj_confirmationSource :: "confirmation_source option"
  pj_destination :: snapshot
  pj_instruction :: "instruction option"

text \<open>The instruction is shown only while the account and the lane are still those of the intent.\<close>

definition current_instruction ::
  "fund_cfg \<Rightarrow> fund_draw \<Rightarrow> intent_row \<Rightarrow> snapshot \<Rightarrow> string \<Rightarrow> string option \<Rightarrow> string \<Rightarrow> instant \<Rightarrow> fund_db \<Rightarrow> failure + instruction option" where
  "current_instruction cfg dw r s reference claimedAt creatorUserId at db =
     await (lockTipReceivingDestination cfg dw creatorUserId at db) (\<lambda>destination.
       case destination of None \<Rightarrow> Inr None
       | Some d \<Rightarrow>
           if ds_accountVersionId d = pi_accountVersionId r \<and>
              lockTipSettlementBinding (fc_paymentsMode cfg) d creatorUserId db = Some (pi_settlementLane r, pi_cutoverId r)
           then map_sum id Some (tipInstructionProjection r s reference claimedAt) else Inr None)"

definition projectPayment ::
  "fund_cfg \<Rightarrow> fund_draw \<Rightarrow> string \<Rightarrow> string \<Rightarrow> instant \<Rightarrow> bool \<Rightarrow> fund_db \<Rightarrow> failure + payment_projection option" where
  "projectPayment cfg dw orderId creatorUserId at includeInstructions db =
     (case commission_intent orderId creatorUserId db of
        None \<Rightarrow> Inr None
      | Some r \<Rightarrow>
          await (need (map_option purpose_kind (readPaymentPurpose r) = Some CommissionPurpose) ''not_available'') (\<lambda>_.
          await (readTipIntentSnapshot cfg r) (\<lambda>(s, reference).
          let state = shown_state r at;
              claimedAt = map_option (\<lambda>c. toISOString (pc_claimedAt c)) (claim_of (pi_id r) db) in
          await (if includeInstructions \<and> state = AwaitingTransfer \<and> fc_paymentsMode cfg \<noteq> PaymentsDisabledMode
            then current_instruction cfg dw r s reference claimedAt creatorUserId at db else Inr None) (\<lambda>instruction.
          await (amount_of (pi_amountVnd r) None) (\<lambda>amountVnd.
            Inr (Some \<lparr>pj_id = pi_id r, pj_orderId = orderId, pj_amountVnd = amountVnd, pj_state = state, pj_reference = reference,
              pj_expiresAt = toISOString (pi_expiresAt r),
              pj_confirmedAt = (if state = IntentConfirmed then map_option toISOString (pi_closedAt r) else None),
              pj_transferClaimedAt = claimedAt, pj_settlementLane = pi_settlementLane r,
              pj_confirmationSource = map_option pm_source (confirmation_of (pi_id r) db), pj_destination = s,
              pj_instruction = instruction\<rparr>))))))"

definition buyer_claim :: "string \<Rightarrow> intent_row \<Rightarrow> string \<Rightarrow> string \<Rightarrow> instant \<Rightarrow> claim_row" where
  "buyer_claim claimId r buyerUserId requestId at =
     \<lparr>pc_id = claimId, pc_paymentIntentId = pi_id r, pc_accessKind = BuyerAccess, pc_buyerUserId = Some buyerUserId,
      pc_guestCapabilityId = None, pc_authoritative = False, pc_requestId = requestId, pc_claimedAt = at\<rparr>"

definition commission_claimTransfer ::
  "fund_cfg \<Rightarrow> fund_draw \<Rightarrow> string \<Rightarrow> string \<Rightarrow> instant \<Rightarrow> string \<Rightarrow> string \<Rightarrow> fund_db \<Rightarrow> failure + (fund_db \<times> string \<times> instant \<times> bool)" where
  "commission_claimTransfer cfg dw orderId creatorUserId at buyerUserId requestId db =
     await (need (fc_paymentsMode cfg \<noteq> PaymentsDisabledMode) ''payments_disabled'') (\<lambda>_.
     await (want (commission_intent orderId creatorUserId db) ''intent_not_pending'') (\<lambda>r.
     await (need (pi_state r = AwaitingTransfer \<and> at < pi_expiresAt r) ''intent_not_pending'') (\<lambda>_.
     case claim_of (pi_id r) db of
       Some c \<Rightarrow>
         await (need (pc_accessKind c = BuyerAccess \<and> pc_buyerUserId c = Some buyerUserId) ''not_authorized'') (\<lambda>_.
           Inr (db, pc_id c, pc_claimedAt c, False))
     | None \<Rightarrow>
         await (keep (db\<lparr>fd_claims := fd_claims db @ [buyer_claim (dw_id dw 0) r buyerUserId requestId at]\<rparr>)) (\<lambda>db'.
           Inr (db', dw_id dw 0, at, True)))))"

text \<open>The reason of the caller: \<open>None\<close> for \<open>payment_expired\<close>, the text of the others.\<close>

definition closed_intent :: "string option \<Rightarrow> instant \<Rightarrow> intent_row \<Rightarrow> intent_row" where
  "closed_intent reason at r =
     r\<lparr>pi_state := (if reason = None then IntentExpired else IntentRejected), pi_rejectionReason := reason,
       pi_closedAt := Some at, pi_updatedAt := at\<rparr>"

definition closeIntent :: "string \<Rightarrow> string \<Rightarrow> instant \<Rightarrow> string option \<Rightarrow> fund_db \<Rightarrow> failure + (fund_db \<times> bool)" where
  "closeIntent orderId creatorUserId at reason db =
     (case commission_intent orderId creatorUserId db of
        None \<Rightarrow> Inr (db, False)
      | Some r \<Rightarrow>
          if pi_state r \<noteq> AwaitingTransfer \<or> at < pi_createdAt r \<or>
             (if reason = None then at < pi_expiresAt r else pi_expiresAt r \<le> at) then Inr (db, False)
          else await (keep (db\<lparr>fd_intents := rows_update (\<lambda>x. pi_id x = pi_id r) (closed_intent reason at) (fd_intents db)\<rparr>))
            (\<lambda>db'. Inr (db', True)))"

text \<open>What the resolution service reads of a payment.\<close>

definition payment_facts :: "intent_state list \<Rightarrow> string \<Rightarrow> fund_db \<Rightarrow> (string \<times> int) option" where
  "payment_facts states orderId db =
     map_option (\<lambda>r. (pi_id r, pi_amountVnd r))
       (List.find (\<lambda>r. pi_purpose r = CommissionPurpose \<and> pi_commissionOrderId r = Some orderId \<and> pi_state r \<in> set states) (fd_intents db))"

definition paidIntent :: "string \<Rightarrow> fund_db \<Rightarrow> (string \<times> int) option" where
  "paidIntent = payment_facts [IntentConfirmed]"

definition closedIntent :: "string \<Rightarrow> fund_db \<Rightarrow> (string \<times> int) option" where
  "closedIntent = payment_facts [IntentExpired, IntentRejected]"

subsection \<open>The tips' port\<close>

text \<open>The bounds its constructor puts on the settings.\<close>

definition tip_settings_ok :: "fund_cfg \<Rightarrow> bool" where
  "tip_settings_ok cfg \<longleftrightarrow>
     300000 \<le> fc_intentTtlMs cfg \<and> fc_intentTtlMs cfg \<le> 604800000 \<and>
     max 3600000 (fc_intentTtlMs cfg) \<le> fc_guestReceiptTtlMs cfg \<and> fc_guestReceiptTtlMs cfg \<le> 2592000000 \<and>
     1 \<le> fc_openIpLimit cfg \<and> fc_openIpLimit cfg \<le> 20 \<and> 1 \<le> fc_openCreatorLimit cfg \<and> fc_openCreatorLimit cfg \<le> 10000"

definition secret_text :: "string \<Rightarrow> bool" where
  "secret_text s \<longleftrightarrow> repeats is_base64url 43 43 s"

definition receiptSecret :: "fund_cfg \<Rightarrow> string \<Rightarrow> string \<Rightarrow> failure + string" where
  "receiptSecret cfg intentId context =
     await (need (secret_text context) ''not_authorized'') (\<lambda>_.
     await (fund_digest cfg ''tip-guest-receipt-secret'' (stringify (JArr [JStr intentId, JStr context]))) (\<lambda>d.
       Inr (drop (length ''hmac-sha256:v1:'') d)))"

definition pending_intent :: "instant \<Rightarrow> intent_row \<Rightarrow> bool" where
  "pending_intent at r \<longleftrightarrow> pi_state r = AwaitingTransfer \<and> at < pi_expiresAt r"

definition open_by_key :: "instant \<Rightarrow> string \<Rightarrow> fund_db \<Rightarrow> nat" where
  "open_by_key at abuseKeyHash db = length (filter (\<lambda>r. pending_intent at r \<and> pi_abuseKeyHash r = abuseKeyHash) (fd_intents db))"

definition open_by_creator :: "instant \<Rightarrow> string \<Rightarrow> fund_db \<Rightarrow> nat" where
  "open_by_creator at creatorUserId db = length (filter (\<lambda>r. pending_intent at r \<and> pi_creatorUserId r = creatorUserId) (fd_intents db))"

definition assertOpenCapacity :: "fund_cfg \<Rightarrow> string \<Rightarrow> string \<Rightarrow> instant \<Rightarrow> fund_db \<Rightarrow> failure + unit" where
  "assertOpenCapacity cfg creatorUserId abuseKeyHash at db =
     need (int (open_by_key at abuseKeyHash db) < fc_openIpLimit cfg \<and> int (open_by_creator at creatorUserId db) < fc_openCreatorLimit cfg)
       ''rate_limited''"

record tip_intent_command =
  tn_tipId :: string
  tn_creatorUserId :: string
  tn_accountVersionId :: string
  tn_amountVnd :: int
  tn_displayName :: string
  tn_handle :: string
  tn_guestContext :: "string option"
  tn_abuseKeyHash :: string
  tn_requestId :: string
  tn_at :: instant

text \<open>An instruction, with the secret of the guest's receipt and when it expires.\<close>

type_synonym tip_payment = "instruction \<times> (string \<times> instant) option"

definition guest_capability ::
  "fund_cfg \<Rightarrow> fund_draw \<Rightarrow> intent_row \<Rightarrow> string option \<Rightarrow> instant \<Rightarrow> fund_db \<Rightarrow> failure + (fund_db \<times> (string \<times> instant) option)" where
  "guest_capability cfg dw r context at db =
     (case context of
        None \<Rightarrow> Inr (db, None)
      | Some ctx \<Rightarrow>
          await (receiptSecret cfg (pi_id r) ctx) (\<lambda>secret.
          let expiresAt = at + fc_guestReceiptTtlMs cfg in
          await (need (is_uuid (dw_id dw 1)) ''invalid_request'') (\<lambda>_.
          await (fund_digest cfg ''tip-guest-capability'' secret) (\<lambda>h.
          await (keep (db\<lparr>fd_capabilities := fd_capabilities db @ [\<lparr>pg_id = dw_id dw 1, pg_paymentIntentId = pi_id r,
            pg_capabilityHash = h, pg_createdAt = at, pg_expiresAt = expiresAt\<rparr>]\<rparr>)) (\<lambda>db'. Inr (db', Some (secret, expiresAt)))))))"

definition tip_createIntent :: "fund_cfg \<Rightarrow> fund_draw \<Rightarrow> tip_intent_command \<Rightarrow> fund_db \<Rightarrow> failure + (fund_db \<times> tip_payment)" where
  "tip_createIntent cfg dw c db =
     await (need (isTipPaymentsEnabled (fc_paymentsMode cfg)) ''payments_disabled'') (\<lambda>_.
     await (need (is_uuid (dw_id dw 0)) ''invalid_request'') (\<lambda>_.
     await (insertTransferPaymentIntent cfg dw \<lparr>in_intentId = dw_id dw 0, in_purpose = TipPayment (tn_tipId c),
       in_creatorUserId = tn_creatorUserId c, in_accountVersionId = tn_accountVersionId c, in_amountVnd = tn_amountVnd c,
       in_displayName = tn_displayName c, in_handle = tn_handle c, in_abuseKeyHash = tn_abuseKeyHash c, in_requestId = tn_requestId c,
       in_at = tn_at c, in_expiresAt = tn_at c + fc_intentTtlMs cfg\<rparr> db) (\<lambda>(db1, r, s, reference).
     await (guest_capability cfg dw r (tn_guestContext c) (tn_at c) db1) (\<lambda>(db2, capability).
     await (tipInstructionProjection r s reference None) (\<lambda>instruction. Inr (db2, instruction, capability))))))"

definition stored_capability :: "string \<Rightarrow> fund_db \<Rightarrow> capability_row option" where
  "stored_capability intentId db = List.find (\<lambda>g. pg_paymentIntentId g = intentId) (fd_capabilities db)"

definition replay_capability ::
  "fund_cfg \<Rightarrow> intent_row \<Rightarrow> string option \<Rightarrow> instant \<Rightarrow> fund_db \<Rightarrow> failure + (string \<times> instant) option" where
  "replay_capability cfg r context at db =
     (case context of
        None \<Rightarrow> await (need (stored_capability (pi_id r) db = None) ''not_authorized'') (\<lambda>_. Inr None)
      | Some ctx \<Rightarrow>
          await (receiptSecret cfg (pi_id r) ctx) (\<lambda>secret.
          await (want (stored_capability (pi_id r) db) ''not_authorized'') (\<lambda>stored.
          await (need (at < pg_expiresAt stored) ''not_authorized'') (\<lambda>_.
          await (fund_digest cfg ''tip-guest-capability'' secret) (\<lambda>h.
          await (need (h = pg_capabilityHash stored) ''not_authorized'') (\<lambda>_. Inr (Some (secret, pg_expiresAt stored))))))))"

definition replayIntent ::
  "fund_cfg \<Rightarrow> fund_draw \<Rightarrow> string \<Rightarrow> string \<Rightarrow> string \<Rightarrow> string option \<Rightarrow> instant \<Rightarrow> fund_db \<Rightarrow> failure + tip_payment" where
  "replayIntent cfg dw tipId creatorUserId accountVersionId guestContext at db =
     await (need (isTipPaymentsEnabled (fc_paymentsMode cfg)) ''payments_disabled'') (\<lambda>_.
     await (lockTipReceivingDestination cfg dw creatorUserId at db) (\<lambda>found.
     await (want found ''not_available'') (\<lambda>d.
     await (need (ds_accountVersionId d = accountVersionId) ''not_available'') (\<lambda>_.
     await (want (lockTipSettlementBinding (fc_paymentsMode cfg) d creatorUserId db) ''not_available'') (\<lambda>settlement.
     await (want (List.find (\<lambda>r. pi_tipId r = Some tipId \<and> pi_creatorUserId r = creatorUserId) (fd_intents db)) ''not_available'') (\<lambda>r.
     await (need (pending_intent at r) ''intent_not_pending'') (\<lambda>_.
     await (need (pi_accountVersionId r = accountVersionId) ''not_available'') (\<lambda>_.
     await (need ((pi_settlementLane r, pi_cutoverId r) = settlement) ''not_available'') (\<lambda>_.
     await (replay_capability cfg r guestContext at db) (\<lambda>capability.
     await (readTipIntentSnapshot cfg r) (\<lambda>(s, reference).
     await (tipInstructionProjection r s reference (map_option (\<lambda>c. toISOString (pc_claimedAt c)) (claim_of (pi_id r) db))) (\<lambda>instruction.
       Inr (instruction, capability)))))))))))))"

end
