(* ===== verification/TipLifecycle.thy ===== *)
theory TipLifecycle
  imports IntentPorts
begin

text \<open>
  What a tip itself does: the text a guest adds (\<^verbatim>\<open>packages/tips/src/guest-content.ts\<close>), the port by
  which payments complete and expire it (\<^verbatim>\<open>tip-lifecycle-port.ts\<close>, \<^verbatim>\<open>tip-access-port.ts\<close>) and the expiry
  scan (\<^verbatim>\<open>packages/payments/src/tip-expiry.ts\<close>), with the statements on the shared tables every
  payment command ends in.
\<close>

subsection \<open>Shared statements\<close>

text \<open>An order operation inside a payment transaction.\<close>

definition on_orders :: "(ord_db \<Rightarrow> failure + (ord_db \<times> 'a)) \<Rightarrow> fund_db \<Rightarrow> failure + (fund_db \<times> 'a)" where
  "on_orders run db = await (run (fd_orders db)) (\<lambda>(o', a).
     await (keep (db\<lparr>fd_orders := o'\<rparr>)) (\<lambda>db'. Inr (db', a)))"

definition fund_audit :: "fund_cfg \<Rightarrow> string \<Rightarrow> instant \<Rightarrow> new_audit_event \<Rightarrow> fund_db \<Rightarrow> failure + fund_db" where
  "fund_audit cfg k clock e db =
     await (other ''AdminAuditError'' (appendAdminAuditEvent (pf_parse_url (fc_platform cfg)) k clock e (od_audit (fd_orders db)))) (\<lambda>(t, _).
       Inr (db\<lparr>fd_orders := (fd_orders db)\<lparr>od_audit := t\<rparr>\<rparr>))"

definition fund_event :: "fund_cfg \<Rightarrow> string \<Rightarrow> instant \<Rightarrow> new_outbox_event \<Rightarrow> fund_db \<Rightarrow> failure + fund_db" where
  "fund_event cfg k clock e db =
     await (other ''OutboxError'' (insertOutboxEvent (pf_parse_url (fc_platform cfg)) k clock e (od_outbox (fd_orders db)))) (\<lambda>(t, _).
       Inr (db\<lparr>fd_orders := (fd_orders db)\<lparr>od_outbox := t\<rparr>\<rparr>))"

definition fund_begin :: "fund_draw \<Rightarrow> begin_input \<Rightarrow> fund_db \<Rightarrow> failure + (fund_db \<times> begin_result)" where
  "fund_begin dw b db =
     await (other ''IdempotencyError'' (beginIdempotentCommand (dw_id dw 90) b (od_idem (fd_orders db)))) (\<lambda>(t, started).
       Inr (db\<lparr>fd_orders := (fd_orders db)\<lparr>od_idem := t\<rparr>\<rparr>, started))"

definition fund_complete :: "fund_cfg \<Rightarrow> string \<Rightarrow> string \<Rightarrow> instant \<Rightarrow> fund_db \<Rightarrow> failure + fund_db" where
  "fund_complete cfg recordId ref at db =
     await (other ''IdempotencyError'' (completeIdempotentCommand (pf_parse_url (fc_platform cfg)) recordId ref at (od_idem (fd_orders db)))) (\<lambda>(t, ok).
     await (need ok ''idempotency_conflict'') (\<lambda>_. Inr (db\<lparr>fd_orders := (fd_orders db)\<lparr>od_idem := t\<rparr>\<rparr>)))"

text \<open>Only the codes of a tip error leave the payment services.\<close>

definition tip_boundary :: "failure + 'a \<Rightarrow> string + 'a" where
  "tip_boundary r =
     (case r of Inr a \<Rightarrow> Inr a | Inl (TipPaymentError code) \<Rightarrow> Inl code | Inl _ \<Rightarrow> Inl ''dependency_unavailable'')"

lemma tip_boundary_Inr [simp]: "tip_boundary r = Inr a \<longleftrightarrow> r = Inr a"
  by (cases r) (auto simp: tip_boundary_def split: failure.splits)

subsection \<open>Guest content\<close>

record guest_content =
  gc_name :: "string option"
  gc_message :: "string option"

definition normalize_guest_text :: "string option \<Rightarrow> nat \<Rightarrow> bool \<Rightarrow> failure + string option" where
  "normalize_guest_text v limit multiline =
     (case v of None \<Rightarrow> Inr None
      | Some s \<Rightarrow>
          if limit * 4 < length s \<or> list_ex forbidden_char s then Inl (TipPaymentError ''invalid_guest_content'')
          else let lines = trim (unify_newlines s); result = (if multiline then lines else collapse_spaces False lines)
               in if limit < length result then Inl (TipPaymentError ''invalid_guest_content'')
                  else Inr (if result = [] then None else Some result))"

definition normalizeTipGuestContent :: "guest_content \<Rightarrow> failure + guest_content" where
  "normalizeTipGuestContent c =
     await (normalize_guest_text (gc_name c) 80 False) (\<lambda>n.
     await (normalize_guest_text (gc_message c) 280 True) (\<lambda>m. Inr \<lparr>gc_name = n, gc_message = m\<rparr>))"

definition content_json :: "guest_content \<Rightarrow> json" where
  "content_json c = JObj [(''name'', jstr (gc_name c)), (''message'', jstr (gc_message c))]"

definition nullable_text :: "json \<Rightarrow> string option option" where
  "nullable_text v = (case v of JNull \<Rightarrow> Some None | JStr s \<Rightarrow> Some (Some s) | _ \<Rightarrow> None)"

definition content_of :: "json \<Rightarrow> guest_content option" where
  "content_of v =
     (case v of
        JObj es \<Rightarrow>
          if sorted_keys es \<noteq> ''message,name'' then None
          else (case (Option.bind (map_of (rev es) ''name'') nullable_text, Option.bind (map_of (rev es) ''message'') nullable_text) of
              (Some n, Some m) \<Rightarrow>
                (let c = \<lparr>gc_name = n, gc_message = m\<rparr> in if normalizeTipGuestContent c = Inr c then Some c else None)
            | _ \<Rightarrow> None)
      | _ \<Rightarrow> None)"

subsection \<open>Completing and expiring\<close>

definition tip_open :: "string \<Rightarrow> string \<Rightarrow> int \<Rightarrow> tip_row \<Rightarrow> bool" where
  "tip_open tipId creatorUserId amountVnd t \<longleftrightarrow>
     tp_id t = tipId \<and> tp_creatorUserId t = creatorUserId \<and> tp_amountVnd t = amountVnd \<and> tp_state t = TipAwaiting"

definition closed_tip :: "tip_state \<Rightarrow> instant \<Rightarrow> tip_row \<Rightarrow> tip_row" where
  "closed_tip s at t = t\<lparr>tp_state := s, tp_closedAt := Some at, tp_updatedAt := at\<rparr>"

definition close_tip :: "tip_state \<Rightarrow> string \<Rightarrow> string \<Rightarrow> int \<Rightarrow> instant \<Rightarrow> fund_db \<Rightarrow> failure + (fund_db \<times> bool)" where
  "close_tip s tipId creatorUserId amountVnd at db =
     await (keep (db\<lparr>fd_tips := rows_update (tip_open tipId creatorUserId amountVnd) (closed_tip s at) (fd_tips db)\<rparr>)) (\<lambda>db'.
       Inr (db', length (filter (tip_open tipId creatorUserId amountVnd) (fd_tips db)) = 1))"

definition completeTip :: "string \<Rightarrow> string \<Rightarrow> int \<Rightarrow> instant \<Rightarrow> fund_db \<Rightarrow> failure + (fund_db \<times> bool)" where
  "completeTip = close_tip TipCompleted"

definition expireTip :: "string \<Rightarrow> string \<Rightarrow> int \<Rightarrow> instant \<Rightarrow> fund_db \<Rightarrow> failure + (fund_db \<times> bool)" where
  "expireTip = close_tip TipExpired"

definition getConfirmedGuestContent :: "fund_cfg \<Rightarrow> string \<Rightarrow> string \<Rightarrow> fund_db \<Rightarrow> guest_content option" where
  "getConfirmedGuestContent cfg tipId creatorUserId db =
     (case List.find (\<lambda>t. tp_id t = tipId \<and> tp_creatorUserId t = creatorUserId \<and> tp_state t = TipCompleted) (fd_tips db) of
        None \<Rightarrow> None
      | Some t \<Rightarrow>
          (case fund_open cfg ''tips'' (tp_id t) ''guest_content'' (tp_guestContentEnvelope t) of
             Inl _ \<Rightarrow> None
           | Inr document \<Rightarrow> Option.bind (json_parse document) content_of))"

definition getTipOwnership :: "string \<Rightarrow> fund_db \<Rightarrow> string option option" where
  "getTipOwnership tipId db = map_option tp_buyerUserId (List.find (\<lambda>t. tp_id t = tipId) (fd_tips db))"

subsection \<open>The expiry scan\<close>

definition expired_intent :: "instant \<Rightarrow> intent_row \<Rightarrow> bool" where
  "expired_intent at r \<longleftrightarrow> pi_state r = AwaitingTransfer \<and> pi_expiresAt r \<le> at"

definition expired_audit :: "fund_cfg \<Rightarrow> intent_row \<Rightarrow> string \<Rightarrow> instant \<Rightarrow> new_audit_event" where
  "expired_audit cfg r requestId at =
     \<lparr>ne_actorUserId = ''system:tip-expiry'', ne_actorSessionId = None, ne_subjectType = ''payment_intent'', ne_subjectId = pi_id r,
      ne_action = ''tip.expired'', ne_outcome = Succeeded, ne_reasonCode = None,
      ne_beforeState = Some (JObj [(''state'', JStr ''awaiting_transfer'')]), ne_afterState = Some (JObj [(''state'', JStr ''expired'')]),
      ne_assurance = JObj [(''method'', JStr ''bounded_expiry_scan'')], ne_applicationRevision = fc_applicationRevision cfg,
      ne_requestId = requestId, ne_occurredAt = Some (Some at)\<rparr>"

definition expired_event :: "intent_row \<Rightarrow> string \<Rightarrow> string \<Rightarrow> instant \<Rightarrow> new_outbox_event" where
  "expired_event r tipId requestId at =
     \<lparr>ev_eventType = ''tip.expired.v1'', ev_eventVersion = 1, ev_aggregateType = ''payment_intent'', ev_aggregateId = pi_id r,
      ev_payload = JObj [(''paymentIntentId'', JStr (pi_id r)), (''tipId'', JStr tipId), (''creatorUserId'', JStr (pi_creatorUserId r)),
        (''correlationId'', JStr requestId)], ev_occurredAt = Some at, ev_availableAt = None\<rparr>"

text \<open>One row of the scan; \<open>n\<close> numbers the identifiers it draws.\<close>

definition expire_intent :: "fund_cfg \<Rightarrow> fund_draw \<Rightarrow> nat \<Rightarrow> string \<Rightarrow> instant \<Rightarrow> intent_row \<Rightarrow> fund_db \<Rightarrow> failure + fund_db" where
  "expire_intent cfg dw n requestId at r db =
     await (want (pi_tipId r) ''dependency_unavailable'') (\<lambda>tipId.
     let hit = (\<lambda>x. pi_id x = pi_id r \<and> expired_intent at x) in
     await (keep (db\<lparr>fd_intents := rows_update hit (closed_intent None at) (fd_intents db)\<rparr>)) (\<lambda>db1.
     await (need (list_ex hit (fd_intents db)) ''dependency_unavailable'') (\<lambda>_.
     await (expireTip tipId (pi_creatorUserId r) (pi_amountVnd r) at db1) (\<lambda>(db2, ok).
     await (need ok ''dependency_unavailable'') (\<lambda>_.
     await (fund_audit cfg (dw_id dw (1 + 2 * n)) at (expired_audit cfg r requestId at) db2) (\<lambda>db3.
     fund_event cfg (dw_id dw (2 + 2 * n)) at (expired_event r tipId requestId at) db3))))))"

fun expire_intents :: "fund_cfg \<Rightarrow> fund_draw \<Rightarrow> nat \<Rightarrow> string \<Rightarrow> instant \<Rightarrow> intent_row list \<Rightarrow> fund_db \<Rightarrow> failure + fund_db" where
  "expire_intents cfg dw n requestId at [] db = Inr db"
| "expire_intents cfg dw n requestId at (r # rs) db =
     await (expire_intent cfg dw n requestId at r db) (\<lambda>db'. expire_intents cfg dw (Suc n) requestId at rs db')"

text \<open>\<open>skip\<close> are the intents other transactions hold locked.\<close>

definition expiry_batch :: "(string \<Rightarrow> bool) \<Rightarrow> instant \<Rightarrow> nat \<Rightarrow> fund_db \<Rightarrow> intent_row list" where
  "expiry_batch skip at batchSize db =
     take batchSize (sort_key (\<lambda>r. (pi_expiresAt r, pi_id r))
       (filter (\<lambda>r. pi_purpose r = TipPurpose \<and> expired_intent at r \<and> \<not> skip (pi_id r)) (fd_intents db)))"

definition expireTipPaymentIntents ::
  "fund_cfg \<Rightarrow> fund_draw \<Rightarrow> (string \<Rightarrow> bool) \<Rightarrow> int \<Rightarrow> instant \<Rightarrow> fund_db \<Rightarrow> string + (fund_db \<times> nat)" where
  "expireTipPaymentIntents cfg dw skip batchSize now db =
     (if \<not> (1 \<le> batchSize \<and> batchSize \<le> 500 \<and> date_ok now \<and> is_identifier (fc_applicationRevision cfg)) then Inl ''invalid_request''
      else if \<not> isTipPaymentsEnabled (fc_paymentsMode cfg) then Inr (db, 0)
      else let rows = expiry_batch skip now (nat batchSize) db
           in case expire_intents cfg dw 0 (dw_id dw 0) now rows db of
                Inl _ \<Rightarrow> Inl ''dependency_unavailable''
              | Inr db' \<Rightarrow> Inr (db', length rows))"

end
