(* ===== verification/ManualPayments.thy ===== *)
theory ManualPayments
  imports TipLifecycle
begin

text \<open>
  A creator confirms by hand that a transfer arrived
  (\<^verbatim>\<open>packages/payments/src/manual-payment-service.ts\<close>): one transaction for tips
  (\<^verbatim>\<open>creator-tip-service.ts\<close>) and orders (\<^verbatim>\<open>creator-commission-service.ts\<close>), which differ in the record
  \<open>aggregate\<close> of three functions.
\<close>

subsection \<open>Assurance and ports\<close>

record assurance =
  as_primaryAuthenticatedAt :: instant
  as_mfaEnrolled :: bool
  as_mfaVerifiedAt :: "instant option"
  as_sessionExpiresAt :: instant

text \<open>The answers of identity, trust and the rate limiter, and the ports the orders have.\<close>

record fund_ports =
  fp_assurance :: "actor \<Rightarrow> instant \<Rightarrow> failure + assurance option"
  fp_authorizeCommand :: "actor \<Rightarrow> failure + unit"
  fp_buyerActive :: "string \<Rightarrow> failure + bool"
  fp_claimRateLimit :: "string \<Rightarrow> failure + bool"
  fp_orders :: order_ports

definition manual_settings_ok :: "fund_cfg \<Rightarrow> bool" where
  "manual_settings_ok cfg \<longleftrightarrow> is_identifier (fc_applicationRevision cfg) \<and>
     60000 \<le> fc_recentAuthMs cfg \<and> fc_recentAuthMs cfg \<le> 3600000 \<and> 30000 \<le> fc_mfaAuthMs cfg \<and> fc_mfaAuthMs cfg \<le> 3600000"

definition mfa_fresh :: "fund_cfg \<Rightarrow> assurance \<Rightarrow> instant \<Rightarrow> bool" where
  "mfa_fresh cfg p at \<longleftrightarrow>
     (case as_mfaVerifiedAt p of None \<Rightarrow> False
      | Some t \<Rightarrow> t \<le> at \<and> as_primaryAuthenticatedAt p \<le> t \<and> at - t \<le> fc_mfaAuthMs cfg)"

definition validateAssurance :: "fund_cfg \<Rightarrow> assurance option \<Rightarrow> instant \<Rightarrow> bool \<Rightarrow> failure + assurance" where
  "validateAssurance cfg proof at fresh =
     await (want proof ''not_authorized'') (\<lambda>p.
     await (need (date_ok (as_primaryAuthenticatedAt p) \<and> date_ok (as_sessionExpiresAt p) \<and> pred_option date_ok (as_mfaVerifiedAt p)) ''not_authorized'') (\<lambda>_.
     await (need (at < as_sessionExpiresAt p) ''not_authorized'') (\<lambda>_.
     let age = at - as_primaryAuthenticatedAt p in
     await (need (0 \<le> age \<and> (fresh \<longrightarrow> age \<le> fc_recentAuthMs cfg)) ''recent_auth_required'') (\<lambda>_.
     await (need (fresh \<and> as_mfaEnrolled p \<longrightarrow> mfa_fresh cfg p at) ''totp_required'') (\<lambda>_. Inr p)))))"

definition actor_ok :: "actor \<Rightarrow> failure + unit" where
  "actor_ok a = need (is_identifier (ak_userId a) \<and> is_identifier (ak_sessionId a)) ''not_authorized''"

definition upper_char :: "char \<Rightarrow> char" where
  "upper_char c = (if is_lower c then char_of (of_char c - 32 :: nat) else c)"

definition normalizeTipBankTransactionId :: "string \<Rightarrow> failure + string" where
  "normalizeTipBankTransactionId v =
     await (need (length v \<le> 120) ''invalid_request'') (\<lambda>_.
     await (need (leading_alnum (\<lambda>c. is_ident c \<or> c = CHR ''/'') 99 (trim v)) ''invalid_request'') (\<lambda>_.
       Inr (map upper_char (trim v))))"

subsection \<open>The command\<close>

text \<open>What differs between a tip and an order: the lock on the aggregate, which may leave something for
  the completion, the completion, and the projection returned. \<open>'l\<close> is what the lock leaves.\<close>

record ('l, 'v) aggregate =
  ag_purpose :: purpose
  ag_lock :: "intent_row \<Rightarrow> instant \<Rightarrow> fund_db \<Rightarrow> failure + ('l \<times> bool)"
  ag_complete :: "'l \<Rightarrow> intent_row \<Rightarrow> actor \<Rightarrow> instant \<Rightarrow> string \<Rightarrow> fund_db \<Rightarrow> failure + (fund_db \<times> bool)"
  ag_project :: "intent_row \<Rightarrow> instant \<Rightarrow> fund_db \<Rightarrow> failure + 'v"

record manual_command =
  mc_actor :: actor
  mc_paymentIntentId :: string
  mc_observedAmountVnd :: int
  mc_observedTransferReference :: string
  mc_observedBankTransactionId :: string
  mc_attestedReceived :: bool
  mc_idempotencyKey :: string
  mc_requestId :: string

definition purpose_text :: "purpose \<Rightarrow> string" where
  "purpose_text p = (case p of TipPurpose \<Rightarrow> ''tip'' | CommissionPurpose \<Rightarrow> ''commission'')"

definition manual_command_ok :: "manual_command \<Rightarrow> bool" where
  "manual_command_ok c \<longleftrightarrow> is_uuid (mc_paymentIntentId c) \<and> is_identifier (mc_requestId c) \<and>
     repeats is_word_dot_dash 8 200 (mc_idempotencyKey c) \<and> mc_attestedReceived c"

text \<open>What the command says after its checks: the amount, the bank's identifier, and the two hashes.\<close>

record evidence =
  me_amountVnd :: int
  me_bankTransactionId :: string
  me_keyHash :: string
  me_fingerprint :: string

definition manual_evidence :: "fund_cfg \<Rightarrow> purpose \<Rightarrow> manual_command \<Rightarrow> failure + evidence" where
  "manual_evidence cfg p c =
     await (actor_ok (mc_actor c)) (\<lambda>_.
     await (need (manual_command_ok c) ''invalid_request'') (\<lambda>_.
     await (amount_of (mc_observedAmountVnd c) None) (\<lambda>amountVnd.
     await (need (is_reference (mc_observedTransferReference c)) ''evidence_mismatch'') (\<lambda>_.
     await (normalizeTipBankTransactionId (mc_observedBankTransactionId c)) (\<lambda>bankId.
     await (fund_digest cfg (purpose_text p @ ''-confirm-command-key'') (mc_idempotencyKey c)) (\<lambda>keyHash.
     await (fund_digest cfg (purpose_text p @ ''-confirm-command'') (stringify (JArr [JStr (ak_userId (mc_actor c)), JStr (mc_paymentIntentId c),
       JNum amountVnd, JStr (mc_observedTransferReference c), JStr bankId, JBool True]))) (\<lambda>fingerprint.
       Inr \<lparr>me_amountVnd = amountVnd, me_bankTransactionId = bankId, me_keyHash = keyHash, me_fingerprint = fingerprint\<rparr>)))))))"

definition bank_fingerprint :: "fund_cfg \<Rightarrow> destination \<Rightarrow> string \<Rightarrow> failure + string" where
  "bank_fingerprint cfg d bankId =
     fund_digest cfg ''tip-bank-transaction'' (stringify (JArr [JStr (ds_bankBin d), JStr (ds_accountFingerprint d), JStr bankId]))"

text \<open>The command in force of the candidate: its aggregate locked, the assurance fresh, the account the
  intent's, the row still the creator's and its sealed destination that account.\<close>

record 'l locked_intent =
  li_lock :: 'l
  li_proof :: assurance
  li_intent :: intent_row
  li_bankFingerprint :: string
  li_at :: instant

definition lock_evidence ::
  "fund_cfg \<Rightarrow> fund_ports \<Rightarrow> ('l, 'v) aggregate \<Rightarrow> fund_draw \<Rightarrow> manual_command \<Rightarrow> evidence \<Rightarrow> intent_row \<Rightarrow> fund_db \<Rightarrow> failure + 'l locked_intent" where
  "lock_evidence cfg ports ag dw c e candidate db =
     await (fund_now dw 1) (\<lambda>t1.
     await (ag_lock ag candidate t1 db) (\<lambda>(lock, ok).
     await (need ok ''not_available'') (\<lambda>_.
     await (fund_now dw 2) (\<lambda>t2.
     await (fp_assurance ports (mc_actor c) t2) (\<lambda>answer.
     await (fund_now dw 3) (\<lambda>t3.
     await (validateAssurance cfg answer t3 True) (\<lambda>proof.
     await (fund_now dw 4) (\<lambda>t4.
     await (lockTipReceivingDestination cfg dw (ak_userId (mc_actor c)) t4 db) (\<lambda>found.
     await (want found ''evidence_mismatch'') (\<lambda>d.
     await (need (ds_accountVersionId d = pi_accountVersionId candidate) ''evidence_mismatch'') (\<lambda>_.
     await (bank_fingerprint cfg d (me_bankTransactionId e)) (\<lambda>bankFingerprint.
     await (want (List.find (\<lambda>r. pi_id r = mc_paymentIntentId c) (fd_intents db)) ''not_authorized'') (\<lambda>r.
     await (need (map_option purpose_kind (readPaymentPurpose r) = Some (ag_purpose ag) \<and> pi_creatorUserId r = ak_userId (mc_actor c)) ''not_authorized'') (\<lambda>_.
     await (need (pi_settlementLane r = ManualAttested \<and> pi_cutoverId r = None) ''evidence_mismatch'') (\<lambda>_.
     await (fund_now dw 5) (\<lambda>at.
     await (validateAssurance cfg (Some proof) at True) (\<lambda>_.
     await (fp_authorizeCommand ports (mc_actor c)) (\<lambda>_.
     await (need (dw_clock dw 0 \<le> at) ''dependency_unavailable'') (\<lambda>_.
     await (readTipIntentSnapshot cfg r) (\<lambda>(s, reference).
     await (need (pi_amountVnd r = me_amountVnd e \<and> reference = mc_observedTransferReference c \<and>
         pi_accountVersionId r = ds_accountVersionId d \<and> sn_bankBin s = ds_bankBin d \<and> sn_accountNumber s = ds_accountNumber d)
       ''evidence_mismatch'') (\<lambda>_.
       Inr \<lparr>li_lock = lock, li_proof = proof, li_intent = r, li_bankFingerprint = bankFingerprint, li_at = at\<rparr>)))))))))))))))))))))"

definition confirmed_reference :: "purpose \<Rightarrow> string \<Rightarrow> string" where
  "confirmed_reference p confirmationId = purpose_text p @ ''-confirmed-v1:'' @ confirmationId"

text \<open>A replay is answered only for the confirmation the first run stored.\<close>

definition replay_confirmation ::
  "('l, 'v) aggregate \<Rightarrow> evidence \<Rightarrow> 'l locked_intent \<Rightarrow> string \<Rightarrow> fund_db \<Rightarrow> failure + 'v" where
  "replay_confirmation ag e k ref db =
     await (want (confirmation_of (pi_id (li_intent k)) db) ''idempotency_conflict'') (\<lambda>m.
     await (need (pi_state (li_intent k) = IntentConfirmed \<and> ref = confirmed_reference (ag_purpose ag) (pm_id m) \<and>
         pm_idempotencyKeyHash m = Some (me_keyHash e) \<and> pm_bankTransactionFingerprint m = Some (li_bankFingerprint k)) ''idempotency_conflict'') (\<lambda>_.
       ag_project ag (li_intent k) (li_at k) db))"

definition manual_confirmation :: "fund_draw \<Rightarrow> manual_command \<Rightarrow> evidence \<Rightarrow> 'l locked_intent \<Rightarrow> confirmation_row" where
  "manual_confirmation dw c e k =
     \<lparr>pm_id = dw_id dw 1, pm_paymentIntentId = pi_id (li_intent k), pm_creatorUserId = ak_userId (mc_actor c),
      pm_accountVersionId = pi_accountVersionId (li_intent k), pm_observedAmountVnd = me_amountVnd e,
      pm_referenceHash = pi_referenceHash (li_intent k), pm_bankTransactionFingerprint = Some (li_bankFingerprint k),
      pm_providerTransactionId = None, pm_workerIdentity = None, pm_source = CreatorManual, pm_attestedReceived = Some True,
      pm_actorSessionId = Some (ak_sessionId (mc_actor c)), pm_primaryAuthenticatedAt = Some (as_primaryAuthenticatedAt (li_proof k)),
      pm_mfaVerifiedAt = (if as_mfaEnrolled (li_proof k) then as_mfaVerifiedAt (li_proof k) else None),
      pm_idempotencyKeyHash = Some (me_keyHash e), pm_requestId = mc_requestId c, pm_confirmedAt = li_at k\<rparr>"

definition confirmed_intent :: "instant \<Rightarrow> intent_row \<Rightarrow> intent_row" where
  "confirmed_intent at r = r\<lparr>pi_state := IntentConfirmed, pi_closedAt := Some at, pi_updatedAt := at\<rparr>"

text \<open>The rows of money and product: the confirmation, the intent, and the aggregate with them.\<close>

definition settle_rows ::
  "('l, 'v) aggregate \<Rightarrow> manual_command \<Rightarrow> confirmation_row \<Rightarrow> 'l locked_intent \<Rightarrow> fund_db \<Rightarrow> failure + fund_db" where
  "settle_rows ag c m k db =
     (let r = li_intent k; at = li_at k in
     await (need (pm_bankTransactionFingerprint m \<notin> pm_bankTransactionFingerprint ` set (fd_confirmations db)) ''bank_transaction_conflict'') (\<lambda>_.
     await (keep (db\<lparr>fd_confirmations := fd_confirmations db @ [m]\<rparr>)) (\<lambda>db1.
     await (keep (db1\<lparr>fd_intents := rows_update (\<lambda>x. pi_id x = pi_id r \<and> pending_intent at x) (confirmed_intent at) (fd_intents db1)\<rparr>)) (\<lambda>db2.
     await (need (list_ex (\<lambda>x. pi_id x = pi_id r \<and> pending_intent at x) (fd_intents db1)) ''intent_not_pending'') (\<lambda>_.
     await (ag_complete ag (li_lock k) r (mc_actor c) at (mc_requestId c) db2) (\<lambda>(db3, ok).
     await (need ok ''intent_not_pending'') (\<lambda>_. Inr db3)))))))"

definition confirmed_audit :: "fund_cfg \<Rightarrow> purpose \<Rightarrow> manual_command \<Rightarrow> confirmation_row \<Rightarrow> assurance \<Rightarrow> new_audit_event" where
  "confirmed_audit cfg p c m proof =
     \<lparr>ne_actorUserId = ak_userId (mc_actor c), ne_actorSessionId = Some (ak_sessionId (mc_actor c)), ne_subjectType = ''payment_intent'',
      ne_subjectId = pm_paymentIntentId m, ne_action = purpose_text p @ ''.confirmed'', ne_outcome = Succeeded, ne_reasonCode = None,
      ne_beforeState = Some (JObj [(''state'', JStr ''awaiting_transfer'')]),
      ne_afterState = Some (JObj [(''state'', JStr ''confirmed''), (''confirmationId'', JStr (pm_id m))]),
      ne_assurance = JObj [(''method'', JStr (if as_mfaEnrolled proof then ''recent_primary_and_mfa'' else ''recent_primary_auth''))],
      ne_applicationRevision = fc_applicationRevision cfg, ne_requestId = mc_requestId c, ne_occurredAt = Some (Some (pm_confirmedAt m))\<rparr>"

definition confirmed_event :: "purpose \<Rightarrow> manual_command \<Rightarrow> confirmation_row \<Rightarrow> intent_row \<Rightarrow> new_outbox_event" where
  "confirmed_event p c m r =
     \<lparr>ev_eventType = purpose_text p @ ''.confirmed.v1'', ev_eventVersion = 1, ev_aggregateType = ''payment_intent'', ev_aggregateId = pi_id r,
      ev_payload = JObj [(''paymentIntentId'', JStr (pi_id r)),
        (case p of TipPurpose \<Rightarrow> (''tipId'', jstr (pi_tipId r)) | CommissionPurpose \<Rightarrow> (''orderId'', jstr (pi_commissionOrderId r))),
        (''creatorUserId'', JStr (ak_userId (mc_actor c))), (''confirmationId'', JStr (pm_id m)), (''correlationId'', JStr (mc_requestId c))],
      ev_occurredAt = Some (pm_confirmedAt m), ev_availableAt = None\<rparr>"

definition confirm_rows ::
  "fund_cfg \<Rightarrow> ('l, 'v) aggregate \<Rightarrow> fund_draw \<Rightarrow> manual_command \<Rightarrow> evidence \<Rightarrow> 'l locked_intent \<Rightarrow> string \<Rightarrow> fund_db \<Rightarrow> failure + (fund_db \<times> 'v)" where
  "confirm_rows cfg ag dw c e k recordId db =
     (let r = li_intent k; at = li_at k; m = manual_confirmation dw c e k; p = ag_purpose ag in
     await (need (pending_intent at r) ''intent_not_pending'') (\<lambda>_.
     await (need (is_uuid (pm_id m)) ''dependency_unavailable'') (\<lambda>_.
     await (settle_rows ag c m k db) (\<lambda>db1.
     await (fund_audit cfg (dw_id dw 2) at (confirmed_audit cfg p c m (li_proof k)) db1) (\<lambda>db2.
     await (fund_event cfg (dw_id dw 3) at (confirmed_event p c m r) db2) (\<lambda>db3.
     await (fund_complete cfg recordId (confirmed_reference p (pm_id m)) at db3) (\<lambda>db4.
     await (ag_project ag (confirmed_intent at r) at db4) (\<lambda>v. Inr (db4, v)))))))))"

definition confirm_transaction ::
  "fund_cfg \<Rightarrow> fund_ports \<Rightarrow> ('l, 'v) aggregate \<Rightarrow> fund_draw \<Rightarrow> manual_command \<Rightarrow> evidence \<Rightarrow> fund_db \<Rightarrow> failure + (fund_db \<times> 'v)" where
  "confirm_transaction cfg ports ag dw c e db =
     (let p = ag_purpose ag; a = mc_actor c in
     await (want (List.find (\<lambda>r. pi_id r = mc_paymentIntentId c \<and> pi_creatorUserId r = ak_userId a \<and> pi_purpose r = p) (fd_intents db)) ''not_authorized'') (\<lambda>candidate.
     await (need (pi_settlementLane candidate = ManualAttested) ''evidence_mismatch'') (\<lambda>_.
     await (fund_now dw 0) (\<lambda>startedAt.
     await (fund_begin dw \<lparr>bi_actorUserId = ak_userId a, bi_commandScope = ''payments.'' @ purpose_text p @ ''_confirm'', bi_keyHash = me_keyHash e,
       bi_requestFingerprint = me_fingerprint e, bi_expiresAt = startedAt + 86400000, bi_now = startedAt\<rparr> db) (\<lambda>(db0, started).
     case started of
       Replay _ ref \<Rightarrow>
         await (lock_evidence cfg ports ag dw c e candidate db0) (\<lambda>k.
         await (replay_confirmation ag e k ref db0) (\<lambda>v. Inr (db0, v)))
     | Acquired recordId \<Rightarrow>
         await (lock_evidence cfg ports ag dw c e candidate db0) (\<lambda>k.
         confirm_rows cfg ag dw c e k recordId db0)
     | _ \<Rightarrow> Inl (TipPaymentError ''idempotency_conflict''))))))"

text \<open>\<open>dws n\<close> is what attempt \<open>n\<close> draws, \<open>ag n\<close> the aggregate that draws it.\<close>

definition confirm_manual ::
  "fund_cfg \<Rightarrow> fund_ports \<Rightarrow> (nat \<Rightarrow> ('l, 'v) aggregate) \<Rightarrow> (nat \<Rightarrow> fund_draw) \<Rightarrow> manual_command \<Rightarrow> fund_db \<Rightarrow> string + (fund_db \<times> 'v)" where
  "confirm_manual cfg ports ag dws c db =
     tip_boundary (
       await (need (isTipPaymentsEnabled (fc_paymentsMode cfg)) ''payments_disabled'') (\<lambda>_.
       await (manual_evidence cfg (ag_purpose (ag 0)) c) (\<lambda>e.
       retryAccountChange (\<lambda>n. confirm_transaction cfg ports (ag n) (dws n) c e db))))"

subsection \<open>Orders\<close>

definition commission_aggregate :: "fund_cfg \<Rightarrow> fund_ports \<Rightarrow> fund_draw \<Rightarrow> (bindings, payment_projection) aggregate" where
  "commission_aggregate cfg ports dw =
     \<lparr>ag_purpose = CommissionPurpose,
      ag_lock = (\<lambda>r at db. case readPaymentPurpose r of
          Some (CommissionPayment k) \<Rightarrow> lockSettlement (fp_orders ports) k (pi_creatorUserId r) at Map.empty (fd_orders db)
        | _ \<Rightarrow> Inr (Map.empty, False)),
      ag_complete = (\<lambda>locked r a at requestId db. case readPaymentPurpose r of
          Some (CommissionPayment k) \<Rightarrow> on_orders (confirmPayment (draw.truncate dw) locked \<lparr>cf_orderId = k, cf_creatorUserId = pi_creatorUserId r,
            cf_at = at, cf_paymentIntentId = pi_id r, cf_amountVnd = pi_amountVnd r, cf_actor = Some a, cf_requestId = requestId\<rparr>) db
        | _ \<Rightarrow> Inr (db, False)),
      ag_project = (\<lambda>r at db. case readPaymentPurpose r of
          Some (CommissionPayment k) \<Rightarrow> await (projectPayment cfg dw k (pi_creatorUserId r) at False db) (\<lambda>found. want found ''not_available'')
        | _ \<Rightarrow> Inl (TipPaymentError ''not_authorized''))\<rparr>"

definition confirmCommission ::
  "fund_cfg \<Rightarrow> fund_ports \<Rightarrow> (nat \<Rightarrow> fund_draw) \<Rightarrow> manual_command \<Rightarrow> fund_db \<Rightarrow> string + (fund_db \<times> payment_projection)" where
  "confirmCommission cfg ports dws c db = confirm_manual cfg ports (\<lambda>n. commission_aggregate cfg ports (dws n)) dws c db"

subsection \<open>Tips\<close>

record creator_tip =
  kt_id :: string
  kt_reference :: string
  kt_amountVnd :: int
  kt_state :: intent_state
  kt_expiresAt :: string
  kt_transferClaimedAt :: "string option"
  kt_settlementLane :: settlement_lane
  kt_confirmationSource :: "confirmation_source option"
  kt_confirmedAt :: "string option"
  kt_guestContent :: "guest_content option"

definition bounded_text :: "nat \<Rightarrow> string option \<Rightarrow> bool" where
  "bounded_text maximum v \<longleftrightarrow>
     (case v of None \<Rightarrow> True | Some s \<Rightarrow> trim s = s \<and> 1 \<le> length s \<and> length s \<le> maximum \<and> \<not> list_ex forbidden_char s)"

text \<open>What the creator sees of a confirmed tip; the guest's text is shown only then.\<close>

definition confirmed_facts :: "fund_cfg \<Rightarrow> intent_row \<Rightarrow> fund_db \<Rightarrow> failure + (confirmation_source \<times> string \<times> guest_content)" where
  "confirmed_facts cfg r db =
     await (want (confirmation_of (pi_id r) db) ''dependency_unavailable'') (\<lambda>m.
     await (want (getConfirmedGuestContent cfg (the (pi_tipId r)) (pi_creatorUserId r) db) ''dependency_unavailable'') (\<lambda>g.
     await (need (bounded_text 80 (gc_name g) \<and> bounded_text 280 (gc_message g)) ''dependency_unavailable'') (\<lambda>_.
     await (want (pi_closedAt r) ''dependency_unavailable'') (\<lambda>closedAt. Inr (pm_source m, toISOString closedAt, g)))))"

definition project_tip :: "fund_cfg \<Rightarrow> intent_row \<Rightarrow> instant \<Rightarrow> fund_db \<Rightarrow> failure + creator_tip" where
  "project_tip cfg r at db =
     await (need (isTipPayment r) ''not_authorized'') (\<lambda>_.
     await (readTipIntentSnapshot cfg r) (\<lambda>(s, reference).
     await (amount_of (pi_amountVnd r) None) (\<lambda>amountVnd.
     let state = shown_state r at in
     await (if state = IntentConfirmed then map_sum id Some (confirmed_facts cfg r db) else Inr None) (\<lambda>facts.
       Inr \<lparr>kt_id = pi_id r, kt_reference = reference, kt_amountVnd = amountVnd, kt_state = state,
         kt_expiresAt = toISOString (pi_expiresAt r),
         kt_transferClaimedAt = map_option (\<lambda>c. toISOString (pc_claimedAt c)) (claim_of (pi_id r) db),
         kt_settlementLane = pi_settlementLane r, kt_confirmationSource = map_option fst facts,
         kt_confirmedAt = map_option (\<lambda>f. fst (snd f)) facts, kt_guestContent = map_option (\<lambda>f. snd (snd f)) facts\<rparr>))))"

definition tip_aggregate :: "fund_cfg \<Rightarrow> (unit, creator_tip) aggregate" where
  "tip_aggregate cfg =
     \<lparr>ag_purpose = TipPurpose, ag_lock = (\<lambda>r at db. Inr ((), True)),
      ag_complete = (\<lambda>_ r a at requestId db.
        if isTipPayment r then completeTip (the (pi_tipId r)) (pi_creatorUserId r) (pi_amountVnd r) at db else Inr (db, False)),
      ag_project = project_tip cfg\<rparr>"

definition confirmTip :: "fund_cfg \<Rightarrow> fund_ports \<Rightarrow> (nat \<Rightarrow> fund_draw) \<Rightarrow> manual_command \<Rightarrow> fund_db \<Rightarrow> string + (fund_db \<times> creator_tip)" where
  "confirmTip cfg ports dws c db = confirm_manual cfg ports (\<lambda>_. tip_aggregate cfg) dws c db"

end
