(* ===== verification/TipService.thy ===== *)
theory TipService
  imports ManualPayments
begin

text \<open>
  Creating a tip (\<^verbatim>\<open>packages/tips/src/create-tip.ts\<close>) and what its payer may do afterwards: read the
  receipt and report the transfer (\<^verbatim>\<open>packages/payments/src/tip-receipt-service.ts\<close>). The catalogue's
  answers on a creator are parameters, checked here as the source checks them.
\<close>

subsection \<open>Eligibility\<close>

record existing_eligibility =
  el_creatorUserId :: string
  el_pageId :: string
  el_publicationRevisionId :: string
  el_canonicalHandle :: string
  el_displayName :: string
  el_settingRevisionId :: string
  el_receivingAccountVersionId :: string

record eligibility = existing_eligibility +
  el_minimumVnd :: int
  el_maximumVnd :: int
  el_presetsVnd :: "int list"
  el_platformPolicyRevisionId :: string

definition existing_ok :: "'a existing_eligibility_scheme \<Rightarrow> bool" where
  "existing_ok e \<longleftrightarrow> is_identifier (el_creatorUserId e) \<and> is_uuid (el_pageId e) \<and> is_uuid (el_publicationRevisionId e) \<and>
     is_uuid (el_settingRevisionId e) \<and> is_uuid (el_receivingAccountVersionId e) \<and> handle_ok (el_canonicalHandle e) \<and>
     1 \<le> length (el_displayName e) \<and> length (el_displayName e) \<le> 80"

definition eligibility_ok :: "eligibility \<Rightarrow> bool" where
  "eligibility_ok e \<longleftrightarrow> existing_ok e \<and> is_uuid (el_platformPolicyRevisionId e) \<and>
     10000 \<le> el_minimumVnd e \<and> el_maximumVnd e \<le> 5000000 \<and> el_minimumVnd e \<le> el_maximumVnd e \<and>
     length (el_presetsVnd e) = 3 \<and> distinct (el_presetsVnd e) \<and>
     list_all (\<lambda>n. el_minimumVnd e \<le> n \<and> n \<le> el_maximumVnd e) (el_presetsVnd e)"

record tip_ports = fund_ports +
  fp_tipEligibility :: "string \<Rightarrow> failure + eligibility option"
  fp_existingEligibility :: "string \<Rightarrow> failure + existing_eligibility option"

text \<open>A creator as the port answers, who must be the one of the handle; an answer that is not well formed
  counts as none.\<close>

definition eligible_creator :: "tip_ports \<Rightarrow> string \<Rightarrow> failure + eligibility" where
  "eligible_creator ports handle =
     await (fp_tipEligibility ports handle) (\<lambda>answer.
     await (want answer ''not_available'') (\<lambda>e.
     await (need (eligibility_ok e \<and> el_canonicalHandle e = handle) ''not_available'') (\<lambda>_. Inr e)))"

definition existing_creator :: "tip_ports \<Rightarrow> string \<Rightarrow> failure + existing_eligibility" where
  "existing_creator ports handle =
     await (fp_existingEligibility ports handle) (\<lambda>answer.
     await (want answer ''not_available'') (\<lambda>e.
     await (need (existing_ok e \<and> el_canonicalHandle e = handle) ''not_available'') (\<lambda>_. Inr e)))"

subsection \<open>Creating a tip\<close>

datatype principal = Guest string | Member string

record tip_command =
  tc_principal :: principal
  tc_canonicalHandle :: string
  tc_amountVnd :: int
  tc_content :: guest_content
  tc_abuseKeyHash :: string
  tc_idempotencyKey :: string
  tc_requestId :: string

definition principal_ok :: "principal \<Rightarrow> bool" where
  "principal_ok p = (case p of Guest context \<Rightarrow> secret_text context | Member userId \<Rightarrow> is_identifier userId)"

definition buyer_of :: "principal \<Rightarrow> string option" where
  "buyer_of p = (case p of Guest _ \<Rightarrow> None | Member userId \<Rightarrow> Some userId)"

definition guest_of :: "principal \<Rightarrow> string option" where
  "guest_of p = (case p of Guest context \<Rightarrow> Some context | Member _ \<Rightarrow> None)"

definition tip_command_ok :: "tip_command \<Rightarrow> bool" where
  "tip_command_ok c \<longleftrightarrow> handle_ok (tc_canonicalHandle c) \<and> is_identifier (tc_requestId c) \<and>
     repeats is_word_dot_dash 8 200 (tc_idempotencyKey c) \<and> hmac_text (tc_abuseKeyHash c)"

text \<open>The command after its checks: the actor's pseudonym, the amount, the text and the two hashes.\<close>

record tip_request =
  tq_actor :: string
  tq_amountVnd :: int
  tq_content :: guest_content
  tq_keyHash :: string
  tq_fingerprint :: string

definition tip_request_of :: "fund_cfg \<Rightarrow> tip_command \<Rightarrow> failure + tip_request" where
  "tip_request_of cfg c =
     await (need (isTipPaymentsEnabled (fc_paymentsMode cfg) \<and> fc_publishing cfg) ''payments_disabled'') (\<lambda>_.
     await (need (tip_command_ok c) ''invalid_request'') (\<lambda>_.
     await (need (principal_ok (tc_principal c)) ''not_authorized'') (\<lambda>_.
     await (fund_digest cfg ''tip-create-actor'' (case tc_principal c of Guest context \<Rightarrow> context | Member userId \<Rightarrow> userId)) (\<lambda>d.
     let actor = (case tc_principal c of Guest _ \<Rightarrow> ''guest'' | Member _ \<Rightarrow> ''buyer'') @ '':'' @ d in
     await (amount_of (tc_amountVnd c) (Some (10000, 5000000))) (\<lambda>amountVnd.
     await (normalizeTipGuestContent (tc_content c)) (\<lambda>content.
     await (fund_digest cfg ''tip-create-command-key'' (tc_idempotencyKey c)) (\<lambda>keyHash.
     await (fund_digest cfg ''tip-create-command'' (stringify (JArr [JStr actor, JStr (tc_canonicalHandle c), JNum amountVnd,
       jstr (gc_name content), jstr (gc_message content)]))) (\<lambda>fingerprint.
       Inr \<lparr>tq_actor = actor, tq_amountVnd = amountVnd, tq_content = content, tq_keyHash = keyHash, tq_fingerprint = fingerprint\<rparr>))))))))"

definition active_buyer :: "tip_ports \<Rightarrow> string option \<Rightarrow> failure + unit" where
  "active_buyer ports buyerUserId =
     (case buyerUserId of None \<Rightarrow> Inr ()
      | Some u \<Rightarrow> await (fp_buyerActive ports u) (\<lambda>ok. need ok ''not_authorized''))"

text \<open>\<open>/^tip-created-v1:([0-9a-f-]{36})$/\<close>.\<close>

definition created_reference :: "string \<Rightarrow> string" where
  "created_reference tipId = ''tip-created-v1:'' @ tipId"

definition parse_created_reference :: "string \<Rightarrow> string option" where
  "parse_created_reference s =
     (if starts_with ''tip-created-v1:'' s \<and> repeats (\<lambda>c. is_lhex c \<or> c = CHR ''-'') 36 36 (drop 15 s) then Some (drop 15 s) else None)"

definition replay_tip ::
  "fund_cfg \<Rightarrow> tip_ports \<Rightarrow> fund_draw \<Rightarrow> tip_command \<Rightarrow> tip_request \<Rightarrow> string \<Rightarrow> fund_db \<Rightarrow> failure + tip_payment" where
  "replay_tip cfg ports dw c q ref db =
     await (existing_creator ports (tc_canonicalHandle c)) (\<lambda>creator.
     await (active_buyer ports (buyer_of (tc_principal c))) (\<lambda>_.
     await (fund_now dw 1) (\<lambda>at.
     await (need (dw_clock dw 0 \<le> at) ''dependency_unavailable'') (\<lambda>_.
     await (want (parse_created_reference ref) ''idempotency_conflict'') (\<lambda>tipId.
     await (need (is_uuid tipId) ''idempotency_conflict'') (\<lambda>_.
     await (want (List.find (\<lambda>t. tp_id t = tipId \<and> tp_creatorUserId t = el_creatorUserId creator) (fd_tips db)) ''idempotency_conflict'') (\<lambda>t.
     await (need (tp_buyerUserId t = buyer_of (tc_principal c) \<and> tp_amountVnd t = tq_amountVnd q) ''idempotency_conflict'') (\<lambda>_.
       replayIntent cfg dw tipId (el_creatorUserId creator) (el_receivingAccountVersionId creator) (guest_of (tc_principal c)) at db))))))))"

definition new_tip :: "eligibility \<Rightarrow> tip_command \<Rightarrow> tip_request \<Rightarrow> string \<Rightarrow> envelope \<Rightarrow> instant \<Rightarrow> tip_row" where
  "new_tip creator c q tipId contentEnvelope at =
     \<lparr>tp_id = tipId, tp_platformPolicyRevisionId = Some (el_platformPolicyRevisionId creator), tp_creatorUserId = el_creatorUserId creator,
      tp_buyerUserId = buyer_of (tc_principal c), tp_settingRevisionId = el_settingRevisionId creator, tp_amountVnd = tq_amountVnd q,
      tp_guestContentEnvelope = contentEnvelope, tp_state = TipAwaiting, tp_closedAt = None, tp_createdAt = at, tp_updatedAt = at\<rparr>"

definition created_audit :: "fund_cfg \<Rightarrow> tip_command \<Rightarrow> string \<Rightarrow> string \<Rightarrow> instant \<Rightarrow> new_audit_event" where
  "created_audit cfg c tipId creatorUserId at =
     (let buyer = buyer_of (tc_principal c) in
      \<lparr>ne_actorUserId = (case buyer of None \<Rightarrow> ''guest'' | Some u \<Rightarrow> u), ne_actorSessionId = None, ne_subjectType = ''tip'', ne_subjectId = tipId,
       ne_action = ''tip.created'', ne_outcome = Succeeded, ne_reasonCode = None, ne_beforeState = None,
       ne_afterState = Some (JObj [(''state'', JStr ''awaiting_payment''), (''creatorUserId'', JStr creatorUserId)]),
       ne_assurance = JObj [(''method'', JStr (if buyer = None then ''guest_context'' else ''buyer_session''))],
       ne_applicationRevision = fc_applicationRevision cfg, ne_requestId = tc_requestId c, ne_occurredAt = Some (Some at)\<rparr>)"

definition created_event :: "tip_command \<Rightarrow> string \<Rightarrow> string \<Rightarrow> instant \<Rightarrow> new_outbox_event" where
  "created_event c tipId creatorUserId at =
     \<lparr>ev_eventType = ''tip.created.v1'', ev_eventVersion = 1, ev_aggregateType = ''tip'', ev_aggregateId = tipId,
      ev_payload = JObj [(''tipId'', JStr tipId), (''creatorUserId'', JStr creatorUserId), (''correlationId'', JStr (tc_requestId c))],
      ev_occurredAt = Some at, ev_availableAt = None\<rparr>"

text \<open>Identifiers 0 and 1 are those of the intent and the capability, 2 that of the tip.\<close>

definition create_rows ::
  "fund_cfg \<Rightarrow> fund_draw \<Rightarrow> eligibility \<Rightarrow> tip_command \<Rightarrow> tip_request \<Rightarrow> instant \<Rightarrow> fund_db \<Rightarrow> failure + (fund_db \<times> tip_payment)" where
  "create_rows cfg dw creator c q at db =
     (let tipId = dw_id dw 2; creatorUserId = el_creatorUserId creator in
     await (need (is_uuid tipId) ''dependency_unavailable'') (\<lambda>_.
     await (fund_seal cfg (dw_nonce dw 9) ''tips'' tipId ''guest_content'' (stringify (content_json (tq_content q)))) (\<lambda>contentEnvelope.
     await (keep (db\<lparr>fd_tips := fd_tips db @ [new_tip creator c q tipId contentEnvelope at]\<rparr>)) (\<lambda>db1.
     await (tip_createIntent cfg dw \<lparr>tn_tipId = tipId, tn_creatorUserId = creatorUserId,
       tn_accountVersionId = el_receivingAccountVersionId creator, tn_amountVnd = tq_amountVnd q, tn_displayName = el_displayName creator,
       tn_handle = el_canonicalHandle creator, tn_guestContext = guest_of (tc_principal c), tn_abuseKeyHash = tc_abuseKeyHash c,
       tn_requestId = tc_requestId c, tn_at = at\<rparr> db1) (\<lambda>(db2, payment).
     await (fund_audit cfg (dw_id dw 3) at (created_audit cfg c tipId creatorUserId at) db2) (\<lambda>db3.
     await (fund_event cfg (dw_id dw 4) at (created_event c tipId creatorUserId at) db3) (\<lambda>db4. Inr (db4, payment))))))))"

definition create_transaction ::
  "fund_cfg \<Rightarrow> tip_ports \<Rightarrow> fund_draw \<Rightarrow> tip_command \<Rightarrow> tip_request \<Rightarrow> fund_db \<Rightarrow> failure + (fund_db \<times> tip_payment)" where
  "create_transaction cfg ports dw c q db =
     await (fund_now dw 0) (\<lambda>startedAt.
     await (fund_begin dw \<lparr>bi_actorUserId = tq_actor q, bi_commandScope = ''tips.create'', bi_keyHash = tq_keyHash q,
       bi_requestFingerprint = tq_fingerprint q, bi_expiresAt = startedAt + fc_idempotencyTtlMs cfg, bi_now = startedAt\<rparr> db) (\<lambda>(db0, started).
     case started of
       Replay _ ref \<Rightarrow> await (replay_tip cfg ports dw c q ref db0) (\<lambda>payment. Inr (db0, payment))
     | Acquired recordId \<Rightarrow>
         await (eligible_creator ports (tc_canonicalHandle c)) (\<lambda>creator.
         await (active_buyer ports (buyer_of (tc_principal c))) (\<lambda>_.
         await (fund_now dw 1) (\<lambda>at.
         await (need (startedAt \<le> at) ''dependency_unavailable'') (\<lambda>_.
         await (need (el_minimumVnd creator \<le> tq_amountVnd q \<and> tq_amountVnd q \<le> el_maximumVnd creator) ''policy_changed'') (\<lambda>_.
         await (assertOpenCapacity cfg (el_creatorUserId creator) (tc_abuseKeyHash c) at db0) (\<lambda>_.
         await (create_rows cfg dw creator c q at db0) (\<lambda>(db1, payment).
         await (fund_complete cfg recordId (created_reference (dw_id dw 2)) at db1) (\<lambda>db2. Inr (db2, payment)))))))))
     | _ \<Rightarrow> Inl (TipPaymentError ''idempotency_conflict'')))"

definition createTip :: "fund_cfg \<Rightarrow> tip_ports \<Rightarrow> (nat \<Rightarrow> fund_draw) \<Rightarrow> tip_command \<Rightarrow> fund_db \<Rightarrow> string + (fund_db \<times> tip_payment)" where
  "createTip cfg ports dws c db =
     tip_boundary (await (tip_request_of cfg c) (\<lambda>q. retryAccountChange (\<lambda>n. create_transaction cfg ports (dws n) c q db)))"

text \<open>What the public page shows of a creator who takes tips; any error but the answer is an outage.\<close>

definition getPublicOffering :: "fund_cfg \<Rightarrow> (nat \<Rightarrow> tip_ports) \<Rightarrow> string \<Rightarrow> string + eligibility option" where
  "getPublicOffering cfg ports handle =
     (if \<not> isTipPaymentsEnabled (fc_paymentsMode cfg) \<or> \<not> fc_publishing cfg \<or> \<not> handle_ok handle then Inr None
      else case retryAccountChange (\<lambda>n. fp_tipEligibility (ports n) handle) of
          Inl _ \<Rightarrow> Inl ''dependency_unavailable''
        | Inr answer \<Rightarrow> Inr (case answer of None \<Rightarrow> None
            | Some e \<Rightarrow> if eligibility_ok e \<and> el_canonicalHandle e = handle then Some e else None))"

subsection \<open>The receipt\<close>

datatype tip_access = MemberAccess string | CapabilityAccess string

definition find_tip_intent :: "fund_cfg \<Rightarrow> string \<Rightarrow> fund_db \<Rightarrow> failure + intent_row" where
  "find_tip_intent cfg reference db =
     await (need (is_reference reference) ''not_authorized'') (\<lambda>_.
     await (fund_digest cfg ''tip-transfer-reference'' reference) (\<lambda>h.
     await (want (List.find (\<lambda>r. pi_referenceHash r = h) (fd_intents db)) ''not_authorized'') (\<lambda>r.
     await (need (isTipPayment r) ''not_authorized'') (\<lambda>_. Inr r))))"

text \<open>Who may see the tip: its member, or a guest with the secret of the receipt. The result is the
  member, and the capability used.\<close>

definition authorize_tip ::
  "fund_cfg \<Rightarrow> fund_ports \<Rightarrow> intent_row \<Rightarrow> tip_access \<Rightarrow> instant \<Rightarrow> bool \<Rightarrow> fund_db \<Rightarrow> failure + (string option \<times> string option)" where
  "authorize_tip cfg ports r access at verifyActiveBuyer db =
     await (need (isTipPayment r) ''not_authorized'') (\<lambda>_.
     await (want (getTipOwnership (the (pi_tipId r)) db) ''not_authorized'') (\<lambda>owner.
     case access of
       MemberAccess userId \<Rightarrow>
         await (need (is_identifier userId \<and> owner = Some userId) ''not_authorized'') (\<lambda>_.
         await (if verifyActiveBuyer then fp_buyerActive ports userId else Inr True) (\<lambda>active.
         await (need active ''not_authorized'') (\<lambda>_. Inr (Some userId, None))))
     | CapabilityAccess secret \<Rightarrow>
         await (need (owner = None \<and> secret_text secret) ''not_authorized'') (\<lambda>_.
         await (want (stored_capability (pi_id r) db) ''not_authorized'') (\<lambda>g.
         await (need (at < pg_expiresAt g) ''not_authorized'') (\<lambda>_.
         await (fund_digest cfg ''tip-guest-capability'' secret) (\<lambda>h.
         await (need (pg_capabilityHash g = h) ''not_authorized'') (\<lambda>_. Inr (None, Some (pg_id g)))))))))"

record receipt_view =
  rr_reference :: string
  rr_displayName :: string
  rr_handle :: string
  rr_amountVnd :: int
  rr_state :: intent_state
  rr_expiresAt :: string
  rr_confirmedAt :: "string option"
  rr_transferClaimedAt :: "string option"
  rr_settlementLane :: settlement_lane
  rr_confirmationSource :: "confirmation_source option"

definition receipt_of ::
  "intent_row \<Rightarrow> snapshot \<Rightarrow> string \<Rightarrow> instant \<Rightarrow> string option \<Rightarrow> fund_db \<Rightarrow> failure + receipt_view" where
  "receipt_of r s reference at claimedAt db =
     (let state = shown_state r at in
     await (if state = IntentConfirmed then map_sum id (\<lambda>m. Some (pm_source m)) (want (confirmation_of (pi_id r) db) ''not_available'') else Inr None) (\<lambda>src.
     await (amount_of (pi_amountVnd r) None) (\<lambda>amountVnd.
     await (if state = IntentConfirmed then map_sum id (\<lambda>t. Some (toISOString t)) (orThrow (pi_closedAt r) (OtherError ''TypeError'')) else Inr None) (\<lambda>confirmedAt.
       Inr \<lparr>rr_reference = reference, rr_displayName = sn_displayName s, rr_handle = sn_handle s, rr_amountVnd = amountVnd, rr_state = state,
         rr_expiresAt = toISOString (pi_expiresAt r), rr_confirmedAt = confirmedAt, rr_transferClaimedAt = claimedAt,
         rr_settlementLane = pi_settlementLane r, rr_confirmationSource = src\<rparr>))))"

text \<open>The creator as the catalogue answers for the handle sealed in the intent.\<close>

definition receipt_creator :: "fund_cfg \<Rightarrow> tip_ports \<Rightarrow> snapshot \<Rightarrow> failure + existing_eligibility option" where
  "receipt_creator cfg ports s =
     await (fp_existingEligibility ports (sn_handle s)) (\<lambda>answer.
       Inr (case answer of None \<Rightarrow> None
         | Some e \<Rightarrow> if is_identifier (el_creatorUserId e) \<and> is_uuid (el_pageId e) \<and> is_uuid (el_publicationRevisionId e) \<and>
               is_uuid (el_settingRevisionId e) \<and> is_uuid (el_receivingAccountVersionId e) \<and> el_canonicalHandle e = sn_handle s \<and>
               1 \<le> length (el_displayName e) \<and> length (el_displayName e) \<le> 80
             then Some e else None))"

definition receipt_usable ::
  "fund_cfg \<Rightarrow> intent_row \<Rightarrow> existing_eligibility option \<Rightarrow> destination option \<Rightarrow> fund_db \<Rightarrow> bool" where
  "receipt_usable cfg r creator found db \<longleftrightarrow>
     (case (creator, found) of
        (Some e, Some d) \<Rightarrow>
          el_creatorUserId e = pi_creatorUserId r \<and> el_receivingAccountVersionId e = pi_accountVersionId r \<and>
          ds_accountVersionId d = pi_accountVersionId r \<and>
          lockTipSettlementBinding (fc_paymentsMode cfg) d (pi_creatorUserId r) db = Some (pi_settlementLane r, pi_cutoverId r)
      | _ \<Rightarrow> False)"

definition read_transaction ::
  "fund_cfg \<Rightarrow> tip_ports \<Rightarrow> fund_draw \<Rightarrow> string \<Rightarrow> tip_access \<Rightarrow> fund_db \<Rightarrow> failure + (receipt_view \<times> instruction option)" where
  "read_transaction cfg ports dw reference access db =
     await (find_tip_intent cfg reference db) (\<lambda>r.
     await (fund_now dw 0) (\<lambda>t0.
     await (authorize_tip cfg (fund_ports.truncate ports) r access t0 False db) (\<lambda>_.
     await (readTipIntentSnapshot cfg r) (\<lambda>(s, transferReference).
     await (if isTipPaymentsEnabled (fc_paymentsMode cfg) \<and> pi_state r = AwaitingTransfer
       then await (fund_now dw 1) (\<lambda>t1. if t1 < pi_expiresAt r then receipt_creator cfg ports s else Inr None) else Inr None) (\<lambda>creator.
     await (case creator of None \<Rightarrow> Inr None
       | Some e \<Rightarrow> await (fund_now dw 2) (\<lambda>t2. lockTipReceivingDestination cfg dw (el_creatorUserId e) t2 db)) (\<lambda>found.
     await (fund_now dw 3) (\<lambda>t3.
     await (authorize_tip cfg (fund_ports.truncate ports) r access t3 True db) (\<lambda>_.
     await (fund_now dw 4) (\<lambda>at.
     await (authorize_tip cfg (fund_ports.truncate ports) r access at False db) (\<lambda>_.
     let claimedAt = map_option (\<lambda>c. toISOString (pc_claimedAt c)) (claim_of (pi_id r) db) in
     await (receipt_of r s transferReference at claimedAt db) (\<lambda>view.
     await (if rr_state view = AwaitingTransfer \<and> receipt_usable cfg r creator found db
       then map_sum id Some (tipInstructionProjection r s transferReference claimedAt) else Inr None) (\<lambda>instruction.
       Inr (view, instruction)))))))))))))"

definition readReceipt ::
  "fund_cfg \<Rightarrow> tip_ports \<Rightarrow> (nat \<Rightarrow> fund_draw) \<Rightarrow> string \<Rightarrow> tip_access \<Rightarrow> fund_db \<Rightarrow> string + (receipt_view \<times> instruction option)" where
  "readReceipt cfg ports dws reference access db =
     tip_boundary (retryAccountChange (\<lambda>n. read_transaction cfg ports (dws n) reference access db))"

subsection \<open>Reporting a transfer\<close>

definition report_claim :: "string \<Rightarrow> intent_row \<Rightarrow> string option \<times> string option \<Rightarrow> string \<Rightarrow> instant \<Rightarrow> claim_row" where
  "report_claim k r access requestId at =
     \<lparr>pc_id = k, pc_paymentIntentId = pi_id r, pc_accessKind = (if fst access = None then GuestAccess else BuyerAccess),
      pc_buyerUserId = fst access, pc_guestCapabilityId = snd access, pc_authoritative = False, pc_requestId = requestId, pc_claimedAt = at\<rparr>"

definition claimed_audit :: "fund_cfg \<Rightarrow> intent_row \<Rightarrow> string option \<Rightarrow> string \<Rightarrow> instant \<Rightarrow> new_audit_event" where
  "claimed_audit cfg r buyerUserId requestId at =
     \<lparr>ne_actorUserId = (case buyerUserId of None \<Rightarrow> ''guest'' | Some u \<Rightarrow> u), ne_actorSessionId = None, ne_subjectType = ''payment_intent'',
      ne_subjectId = pi_id r, ne_action = ''tip.transfer_claimed'', ne_outcome = Succeeded, ne_reasonCode = None, ne_beforeState = None,
      ne_afterState = Some (JObj [(''authoritative'', JBool False)]),
      ne_assurance = JObj [(''method'', JStr (if buyerUserId = None then ''guest_receipt'' else ''buyer_session''))],
      ne_applicationRevision = fc_applicationRevision cfg, ne_requestId = requestId, ne_occurredAt = Some (Some at)\<rparr>"

definition claimed_event :: "intent_row \<Rightarrow> string \<Rightarrow> instant \<Rightarrow> new_outbox_event" where
  "claimed_event r requestId at =
     \<lparr>ev_eventType = ''tip.transfer_claimed.v1'', ev_eventVersion = 1, ev_aggregateType = ''payment_intent'', ev_aggregateId = pi_id r,
      ev_payload = JObj [(''paymentIntentId'', JStr (pi_id r)), (''tipId'', jstr (pi_tipId r)), (''creatorUserId'', JStr (pi_creatorUserId r)),
        (''authoritative'', JBool False), (''correlationId'', JStr requestId)],
      ev_occurredAt = Some at, ev_availableAt = None\<rparr>"

text \<open>The first transaction only checks, so that the rate is counted before the second one locks.\<close>

definition report_check :: "fund_cfg \<Rightarrow> fund_ports \<Rightarrow> fund_draw \<Rightarrow> string \<Rightarrow> tip_access \<Rightarrow> fund_db \<Rightarrow> failure + string" where
  "report_check cfg ports dw reference access db =
     await (find_tip_intent cfg reference db) (\<lambda>r.
     await (fund_now dw 0) (\<lambda>at.
     await (authorize_tip cfg ports r access at True db) (\<lambda>_.
     await (need (pending_intent at r) ''intent_not_pending'') (\<lambda>_. Inr (pi_creatorUserId r)))))"

definition report_transfer ::
  "fund_cfg \<Rightarrow> fund_ports \<Rightarrow> fund_draw \<Rightarrow> string \<Rightarrow> tip_access \<Rightarrow> string \<Rightarrow> fund_db \<Rightarrow> failure + (fund_db \<times> instant)" where
  "report_transfer cfg ports dw reference access requestId db =
     await (need (is_identifier requestId) ''invalid_request'') (\<lambda>_.
     await (find_tip_intent cfg reference db) (\<lambda>r.
     await (fund_now dw 1) (\<lambda>t1.
     await (authorize_tip cfg ports r access t1 True db) (\<lambda>_.
     await (fund_now dw 2) (\<lambda>at.
     await (authorize_tip cfg ports r access at True db) (\<lambda>who.
     await (need (pending_intent at r) ''intent_not_pending'') (\<lambda>_.
     case claim_of (pi_id r) db of
       Some existing \<Rightarrow> Inr (db, pc_claimedAt existing)
     | None \<Rightarrow>
         await (keep (db\<lparr>fd_claims := fd_claims db @ [report_claim (dw_id dw 0) r who requestId at]\<rparr>)) (\<lambda>db1.
         await (fund_audit cfg (dw_id dw 1) at (claimed_audit cfg r (fst who) requestId at) db1) (\<lambda>db2.
         await (fund_event cfg (dw_id dw 2) at (claimed_event r requestId at) db2) (\<lambda>db3. Inr (db3, at)))))))))))"

text \<open>\<open>earlier\<close> is the database of the first transaction, \<open>db\<close> the one when the second transaction begins.\<close>

definition reportTransfer ::
  "fund_cfg \<Rightarrow> fund_ports \<Rightarrow> fund_draw \<Rightarrow> string \<Rightarrow> tip_access \<Rightarrow> string \<Rightarrow> fund_db \<Rightarrow> fund_db \<Rightarrow> string + (fund_db \<times> instant)" where
  "reportTransfer cfg ports dw reference access requestId earlier db =
     tip_boundary (
       await (need (isTipPaymentsEnabled (fc_paymentsMode cfg)) ''payments_disabled'') (\<lambda>_.
       await (report_check cfg ports dw reference access earlier) (\<lambda>creatorUserId.
       await (fp_claimRateLimit ports creatorUserId) (\<lambda>ok.
       await (need ok ''rate_limited'') (\<lambda>_.
       report_transfer cfg ports dw reference access requestId db)))))"

end
