(* ===== verification/OrderQuiet.thy ===== *)
theory OrderQuiet
  imports OrderInvariants
begin

text \<open>
  Only the settlement port confirms an order: every other operation on orders leaves the confirmation
  time of every order as it was (\<open>quiet\<close>), and the settlement port sets that of its order alone. The
  payment services rest on these two facts.
\<close>

definition confirmed_at :: "ord_db \<Rightarrow> string \<Rightarrow> instant option" where
  "confirmed_at db k = Option.bind (ow_order (view db k)) co_confirmedAt"

definition quiet :: "ord_db \<Rightarrow> ord_db \<Rightarrow> bool" where
  "quiet db db' \<longleftrightarrow> confirmed_at db' = confirmed_at db"

lemma quiet_refl [simp]: "quiet db db"
  by (simp add: quiet_def)

lemma quiet_trans [trans]: "quiet a b \<Longrightarrow> quiet b c \<Longrightarrow> quiet a c"
  by (simp add: quiet_def)

lemma quiet_frame: "od_orders db' = od_orders db \<Longrightarrow> quiet db db'"
  by (simp add: quiet_def confirmed_at_def view_def fun_eq_iff)

subsection \<open>Statements\<close>

lemma update_order_quiet:
  assumes "update_order k p f db = Inr (db', r)" "\<And>o1. co_id (f o1) = co_id o1 \<and> co_confirmedAt (f o1) = co_confirmedAt o1"
  shows "quiet db db'"
proof -
  have "ow_order (view db' j) = map_option (\<lambda>o1. if co_id o1 = k \<and> p o1 then f o1 else o1) (ow_order (view db j))" for j
    using assms by (intro view_orders_update) (auto simp: update_order_Inr)
  then show ?thesis
    using assms(2) by (auto simp: quiet_def confirmed_at_def fun_eq_iff split: option.split) (auto split: Option.bind_splits)
qed

lemma append_order_quiet:
  assumes "co_confirmedAt o1 = None" "od_orders db' = od_orders db @ [o1]"
  shows "quiet db db'"
  using assms by (auto simp: quiet_def confirmed_at_def view_def fun_eq_iff find_append split: option.split)

lemma record_change_quiet: "record_change cfg dw order a requestId reason db = Inr db' \<Longrightarrow> quiet db db'"
  by (erule record_change_effect) (simp add: quiet_frame)

lemma update_reservation_quiet: "update_reservation k p f db = Inr (db', r) \<Longrightarrow> quiet db db'"
  by (auto simp: update_reservation_Inr intro: quiet_frame)

lemma order_event_quiet: "order_event cfg k clock e db = Inr db' \<Longrightarrow> quiet db db'"
  by (drule order_event_Inr) (auto intro: quiet_frame)

lemma order_audit_quiet: "order_audit cfg k clock e db = Inr db' \<Longrightarrow> quiet db db'"
  by (drule order_audit_Inr) (auto intro: quiet_frame)

lemma acceptance_quiet: "acceptance dw n order role a at p q requestId db = Inr db' \<Longrightarrow> quiet db db'"
  by (auto simp: acceptance_def result_iffs intro: quiet_frame)

lemma commitTerms_quiet: "commitTerms cfg ports dw order data terms b c q at db = Inr db' \<Longrightarrow> quiet db db'"
  by (auto simp: commitTerms_def reserve_def result_iffs intro: quiet_frame)

lemma closed_row_keeps: "co_id (closed_row order reason at o1) = co_id o1 \<and> co_confirmedAt (closed_row order reason at o1) = co_confirmedAt o1"
  by (simp add: closed_row_def)

subsection \<open>Operations\<close>

lemma complete_quiet:
  assumes "completeCommissionOrder cfg dw order kind a requestId at db = Inr (db', c)"
  shows "quiet db db'"
proof -
  obtain db1 r db2 r2 c where "\<exists>k p f. update_reservation k p f db = Inr (db1, r)"
    and u: "update_order (co_id order) (same_version order) (\<lambda>o1. o1\<lparr>co_state := CoCompleted, co_completedAt := Some at, co_completionKind := Some kind,
          co_version := co_version order + 1, co_updatedAt := at\<rparr>) db1 = Inr (db2, r2)"
    and "\<exists>reason. record_change cfg dw c a requestId reason db2 = Inr db'"
    using assms unfolding completeCommissionOrder_def by (simp only: result_iffs split_paired_Ex prod.case) blast
  moreover have "quiet db1 db2" by (rule update_order_quiet [OF u]) simp
  ultimately show ?thesis by (meson quiet_trans record_change_quiet update_reservation_quiet)
qed

lemma close_quiet:
  assumes "closeOrder cfg ports dw order reason a requestId at db = Inr (db', c)"
  shows "quiet db db'"
proof -
  obtain db1 db2 r2 c where rel: "(if co_acceptedAt order = None then Inr db else release_accepted ports order reason at db) = Inr db1"
    and u: "update_order (co_id order) (same_version order) (closed_row order reason at) db1 = Inr (db2, r2)"
    and rec: "\<exists>x. record_change cfg dw c a requestId x db2 = Inr db'"
    using assms unfolding closeOrder_def by (simp only: result_iffs split_paired_Ex prod.case) blast
  have "quiet db db1"
    using rel by (auto simp: release_accepted_def result_iffs split: if_splits dest: update_reservation_quiet)
  moreover have "quiet db1 db2" by (rule update_order_quiet [OF u closed_row_keeps])
  ultimately show ?thesis using rec by (meson quiet_trans record_change_quiet)
qed

lemma closePaid_quiet:
  assumes "closePaidOrder cfg dw order reason a requestId at db = Inr (db', c)"
  shows "quiet db db'"
proof -
  obtain db1 r db2 r2 c where "\<exists>k p f. update_reservation k p f db = Inr (db1, r)"
    and u: "update_order (co_id order) (same_version order) (closed_row order reason at) db1 = Inr (db2, r2)"
    and "\<exists>x. record_change cfg dw c a requestId x db2 = Inr db'"
    using assms unfolding closePaidOrder_def by (simp only: result_iffs split_paired_Ex prod.case) blast
  moreover have "quiet db1 db2" by (rule update_order_quiet [OF u closed_row_keeps])
  ultimately show ?thesis by (meson quiet_trans record_change_quiet update_reservation_quiet)
qed

lemma restore_quiet:
  assumes "restoreReviewTime cfg dw c floorAt db = Inr (db', v)"
  shows "quiet db db'"
proof -
  have "db' = db \<or> (\<exists>order db1 r r2 x. update_order (co_id order) (same_version order)
       (\<lambda>o1. o1\<lparr>co_completionFloorAt := Some floorAt, co_version := co_version order + 1, co_updatedAt := rs_at c\<rparr>) db = Inr (db1, r) \<and>
       record_change cfg dw r2 (rs_actor c) (rs_requestId c) x db1 = Inr db')"
    using assms unfolding restoreReviewTime_def by (simp only: result_iffs split_paired_Ex prod.case) (auto simp: result_iffs split: if_splits)
  then show ?thesis
    using update_order_quiet [where f = "\<lambda>o1. o1\<lparr>co_completionFloorAt := Some floorAt, co_version := _, co_updatedAt := rs_at c\<rparr>"]
      record_change_quiet quiet_trans by fastforce
qed

lemma quote_quiet:
  assumes "quote_apply cfg ports dw c terms ttlMs db = Inr (db', cg)"
  shows "quiet db db'"
proof -
  obtain order at where w: "quote_write cfg dw (order_command.truncate c) order terms ttlMs at db = Inr (db', cg)"
    using assms unfolding quote_apply_def Let_def by (auto simp: result_iffs)
  obtain quoteId expiresAt sealed q db1 db2 r r2 x y where s: "db1 = db\<lparr>od_quotes := od_quotes db @ [q]\<rparr>"
    and u: "update_order (co_id order) (\<lambda>_. True) (\<lambda>o1. o1\<lparr>co_state := CoQuoted, co_version := co_version order + 1, co_currentQuoteId := Some quoteId,
          co_expiresAt := Some expiresAt, co_updatedAt := at\<rparr>) db1 = Inr (db2, r)"
    and rec: "record_change cfg dw r2 x y None db2 = Inr db'"
    using w unfolding quote_write_def by (simp only: result_iffs save_Inr split_paired_Ex prod.case) blast
  have "quiet db1 db2" by (rule update_order_quiet [OF u]) simp
  then show ?thesis using record_change_quiet [OF rec] quiet_frame [of db1 db] by (simp add: s quiet_def)
qed

lemma submit_quiet:
  assumes "submit_apply cfg ports dw c note fileIds db = Inr (db', cg)"
  shows "quiet db db'"
proof -
  obtain order snapshot at where w: "submit_write cfg ports dw c note fileIds order snapshot at db = Inr (db', cg)"
    using assms unfolding submit_apply_def by (auto simp: result_iffs)
  obtain db1 db2 db3 x y where s: "db1 = db\<lparr>od_submissions := x\<rparr>" "db2 = db1\<lparr>od_submissions := y\<rparr>"
    and e: "\<exists>k t ev. order_event cfg k t ev db2 = Inr db3"
    and last: "(if sm_kind c = FinalSubmission then deliver cfg dw c order snapshot at db3 else Inr db3) = Inr db'"
    using w unfolding submit_write_def by (simp only: result_iffs save_Inr) blast
  have q: "quiet db db2" by (rule quiet_frame) (simp add: s)
  have "quiet db3 db'"
  proof (cases "sm_kind c = FinalSubmission")
    case True
    then have d: "deliver cfg dw c order snapshot at db3 = Inr db'" using last by simp
    obtain reviewEndsAt db4 r r2 a b where
      u: "update_order (co_id order) (same_version order) (\<lambda>o1. o1\<lparr>co_state := CoDelivered, co_deliveredAt := Some at, co_reviewEndsAt := Some reviewEndsAt,
          co_version := co_version order + 1, co_updatedAt := at\<rparr>) db3 = Inr (db4, r)"
      and rec: "record_change cfg dw r2 a b None db4 = Inr db'"
      using d unfolding deliver_def by (simp only: result_iffs split_paired_Ex prod.case) blast
    have "quiet db3 db4" by (rule update_order_quiet [OF u]) simp
    then show ?thesis using record_change_quiet [OF rec] quiet_trans by blast
  qed (use last in simp)
  then show ?thesis using e q by (meson order_event_quiet quiet_trans)
qed

lemma reopen_quiet:
  assumes "reopen cfg dw c order s at db = Inr db'"
  shows "quiet db db'"
proof -
  obtain p f db1 r r2 a b x where u: "update_order (co_id order) p f db = Inr (db1, r)" and f: "\<forall>o1. co_id (f o1) = co_id o1 \<and> co_confirmedAt (f o1) = co_confirmedAt o1"
    and rec: "record_change cfg dw r2 a b x db1 = Inr db'"
    using assms unfolding reopen_def by (simp only: result_iffs split_paired_Ex prod.case) fastforce
  show ?thesis using update_order_quiet [OF u] f record_change_quiet [OF rec] quiet_trans by blast
qed

lemma respond_quiet:
  assumes "respond_apply cfg ports dw c note db = Inr (db', cg)"
  shows "quiet db db'"
proof -
  have "(\<exists>order s guardUntil at. respond_write cfg dw c note order s guardUntil at db = Inr (db', cg)) \<or>
    (\<exists>order k a r at x. completeCommissionOrder cfg dw order k a r at db = Inr (db', x))"
    using assms unfolding respond_apply_def Let_def by (auto simp: result_iffs split: if_splits)
  then show ?thesis
  proof (elim disjE exE)
    fix order s guardUntil at
    assume w: "respond_write cfg dw c note order s guardUntil at db = Inr (db', cg)"
    obtain db1 db2 x b where s: "db1 = db\<lparr>od_submissions := x\<rparr>" and r: "(if b then reopen cfg dw c order s at db1 else Inr db1) = Inr db2"
      and e: "\<exists>k t ev. order_event cfg k t ev db2 = Inr db'"
      using w unfolding respond_write_def Let_def
      by (simp only: result_iffs save_Inr) blast
    have "quiet db db1" by (rule quiet_frame) (simp add: s)
    moreover have "quiet db1 db2" using r reopen_quiet by (auto split: if_splits)
    ultimately show ?thesis using e by (meson order_event_quiet quiet_trans)
  qed (rule complete_quiet)
qed

lemma accept_quiet:
  assumes "accept_apply cfg ports dw c db = Inr (db', cg)"
  shows "quiet db db'"
proof -
  obtain order data quote_opt terms at where w: "accept_write cfg ports dw c order data quote_opt terms at db = Inr (db', cg)"
    using assms unfolding accept_apply_def Let_def by (auto simp: result_iffs)
  obtain expiresAt db1 r a db3 db4 where
    u: "update_order (co_id order) (\<lambda>_. True) (\<lambda>o1. o1\<lparr>co_state := CoAwaitingPayment, co_version := co_version order + 1, co_acceptedAt := Some at,
          co_amountVnd := Some (tm_amountVnd terms), co_expiresAt := Some expiresAt, co_updatedAt := at\<rparr>) db = Inr (db1, r)"
    and acc: "(case quote_opt of
         None \<Rightarrow> acceptance dw 2 a Creator (cmd_actor c) at (tm_policyRevisionId terms) None (cmd_requestId c) db1
       | Some q \<Rightarrow>
           await (acceptance dw 2 a Buyer (cmd_actor c) at (tm_policyRevisionId terms) (Some (cq_id q)) (cmd_requestId c) db1) (\<lambda>db2.
           acceptance dw 3 a Creator \<lparr>ak_userId = co_creatorUserId order, ak_sessionId = cq_actorSessionId q\<rparr> (cq_issuedAt q)
             (tm_policyRevisionId terms) (Some (cq_id q)) (cq_requestId q) db2)) = Inr db3"
    and ct: "\<exists>b c q. commitTerms cfg ports dw a data terms b c q at db3 = Inr db4"
    and rec: "\<exists>x y. record_change cfg dw a x y None db4 = Inr db'"
    using w unfolding accept_write_def by (simp only: result_iffs split_paired_Ex prod.case) blast
  have "quiet db db1" by (rule update_order_quiet [OF u]) simp
  moreover have "quiet db1 db3"
    using acc by (cases quote_opt) (auto simp: result_iffs dest!: acceptance_quiet intro: quiet_trans)
  ultimately show ?thesis using ct rec by (meson commitTerms_quiet quiet_trans record_change_quiet)
qed

lemma request_quiet:
  assumes "request_apply cfg ports dw c brief fileIds db = Inr (db', cg)"
  shows "quiet db db'"
proof -
  obtain creatorUserId orderId route amount expiresAt at data terms immediate where
    w: "request_rest cfg ports dw c brief fileIds data terms immediate (new_order c orderId creatorUserId route amount expiresAt at) at
        (db\<lparr>od_orders := od_orders db @ [new_order c orderId creatorUserId route amount expiresAt at]\<rparr>) = Inr (db', cg)"
    using assms unfolding request_apply_def Let_def
    by (simp only: result_iffs check_Inr save_Inr split_beta) (elim exE conjE, blast)
  let ?o = "new_order c orderId creatorUserId route amount expiresAt at" and ?db0 = "db\<lparr>od_orders := od_orders db @ [new_order c orderId creatorUserId route amount expiresAt at]\<rparr>"
  obtain db1 db2 db4 x where s: "db1 = ?db0\<lparr>od_briefs := x\<rparr>"
    and a: "(case terms of None \<Rightarrow> Inr db1
       | Some tm \<Rightarrow> acceptance dw 2 ?o Buyer (cmd_actor c) at (tm_policyRevisionId tm) None (cmd_requestId c) db1) = Inr db2"
    and i: "(if \<not> immediate then Inr db2
       else await (orThrow terms (OtherError ''TypeError'')) (\<lambda>tm.
         let revision = ip_revision data in
         await (acceptance dw 3 ?o Creator \<lparr>ak_userId = co_creatorUserId ?o, ak_sessionId = pr_actorSessionId revision\<rparr>
           (pr_publishedAt revision) (tm_policyRevisionId tm) None (pr_requestId revision) db2) (\<lambda>db3.
         commitTerms cfg ports dw ?o data tm at (pr_publishedAt revision) None at db3))) = Inr db4"
    and rec: "record_change cfg dw ?o (Some (cmd_actor c)) (cmd_requestId c) None db4 = Inr db'"
    using w unfolding request_rest_def by (simp only: result_iffs save_Inr) blast
  have "quiet db ?db0" by (rule append_order_quiet [of ?o]) (simp_all add: new_order_def)
  moreover have "quiet ?db0 db1" by (rule quiet_frame) (simp add: s)
  moreover have "quiet db1 db2" using a by (auto split: option.splits dest: acceptance_quiet)
  moreover have "quiet db2 db4"
    using i by (auto simp: result_iffs Let_def split: if_splits dest!: acceptance_quiet commitTerms_quiet intro: quiet_trans)
  ultimately show ?thesis using record_change_quiet [OF rec] by (meson quiet_trans)
qed

lemma claim_quiet: "claim_apply cfg ports dw c db = Inr (db', cg) \<Longrightarrow> quiet db db'"
  unfolding claim_apply_def claim_records_def Let_def
  by (auto simp: result_iffs split: if_splits prod.splits dest!: order_audit_Inr order_event_Inr intro: quiet_frame)

lemma close_apply_quiet: "close_apply cfg ports dw c db = Inr (db', cg) \<Longrightarrow> quiet db db'"
  unfolding close_apply_def Let_def by (auto simp: result_iffs dest: close_quiet)

subsection \<open>Steps\<close>

lemma mutate_quiet:
  assumes m: "mutate cfg ports dw c scope payload creator apply_change db = Inr (db', k)" and constraints: "order_constraints db"
    and q: "\<And>db0 db1 changed. apply_change db0 = Inr (db1, changed) \<Longrightarrow> quiet db0 db1"
  shows "quiet db db'"
  using m constraints
proof (cases rule: mutate_effect)
  case (replayed t)
  then show ?thesis by (simp add: quiet_frame)
next
  case (applied t db1 changed t')
  have "quiet db (db\<lparr>od_idem := t\<rparr>)" by (rule quiet_frame) simp
  also have "quiet (db\<lparr>od_idem := t\<rparr>) db1" by (rule q [OF applied(1)])
  also have "quiet db1 db'" by (rule quiet_frame) (simp add: applied(2))
  finally show ?thesis .
qed

lemma expire_one_quiet: "expire_one cfg ports dw k db = Inr (db', n) \<Longrightarrow> quiet db db'"
  by (auto simp: expire_one_def Let_def result_iffs split: option.splits if_splits dest: close_quiet)

lemma invalidate_one_quiet: "invalidate_one cfg ports dw k db = Inr (db', n) \<Longrightarrow> quiet db db'"
  by (auto simp: invalidate_one_def Let_def result_iffs split: option.splits if_splits dest: close_quiet)

lemma complete_one_quiet: "complete_one cfg ports dw k db = Inr (db', n) \<Longrightarrow> quiet db db'"
  by (auto simp: complete_one_def Let_def result_iffs split: option.splits if_splits dest: complete_quiet)

lemma expire_each_quiet: "expire_each cfg ports dws ks (db, n) = (db', r) \<Longrightarrow> quiet db db'"
proof (induction ks arbitrary: db n)
  case (Cons k ks)
  then show ?case
    by (cases "expire_one cfg ports (dws k) k db") (auto dest: expire_one_quiet intro: quiet_trans)
qed simp

lemma invalidate_each_quiet: "invalidate_each cfg ports dws ks (db, n, m) = (db', r) \<Longrightarrow> quiet db db'"
proof (induction ks arbitrary: db n m)
  case (Cons k ks)
  then show ?case
    by (cases "invalidate_one cfg ports (dws k) k db") (auto dest: invalidate_one_quiet intro: quiet_trans split: if_splits)
qed simp

lemma complete_each_quiet: "complete_each cfg ports dws ks (db, n) = (db', r) \<Longrightarrow> quiet db db'"
proof (induction ks arbitrary: db n)
  case (Cons k ks)
  then show ?case
    by (cases "complete_one cfg ports (dws k) k db") (auto dest: complete_one_quiet intro: quiet_trans)
qed simp

text \<open>The steps of the orders but for the settlement port.\<close>

inductive order_command_step :: "ord_db \<Rightarrow> ord_db \<Rightarrow> bool" where
  cmd_request: "request cfg ports dw rc db = Inr (db', k) \<Longrightarrow> order_command_step db db'"
| cmd_quote: "quote cfg ports dw xc terms ttlMs db = Inr (db', k) \<Longrightarrow> order_command_step db db'"
| cmd_accept: "accept cfg ports dw ac db = Inr (db', k) \<Longrightarrow> order_command_step db db'"
| cmd_close: "close cfg ports dw xc db = Inr (db', k) \<Longrightarrow> order_command_step db db'"
| cmd_claim: "claimTransfer cfg ports dw xc db = Inr (db', k) \<Longrightarrow> order_command_step db db'"
| cmd_submit: "submit cfg ports dw sc db = Inr (db', k) \<Longrightarrow> order_command_step db db'"
| cmd_respond: "respondToSubmission cfg ports dw pc db = Inr (db', k) \<Longrightarrow> order_command_step db db'"
| cmd_resolve_close: "resolution_closePaidOrder cfg dw c1 reason db = Inr (db', v) \<Longrightarrow> order_command_step db db'"
| cmd_resolve_complete: "completeByResolution cfg dw c1 kind db = Inr (db', v) \<Longrightarrow> order_command_step db db'"
| cmd_restore: "restoreReviewTime cfg dw c1 floorAt db = Inr (db', v) \<Longrightarrow> order_command_step db db'"
| cmd_expire: "expireDue cfg ports dws now limit db = (db', r1) \<Longrightarrow> order_command_step db db'"
| cmd_invalidate: "recoverInvalidations cfg ports dws limit afterId db = (db', r2) \<Longrightarrow> order_command_step db db'"
| cmd_mode: "observeFulfillmentMode dw enabled db = Inr (db', m) \<Longrightarrow> order_command_step db db'"
| cmd_complete: "completeDue cfg ports dws now limit afterKey db = (db', r3) \<Longrightarrow> order_command_step db db'"

lemma command_step_quiet:
  assumes "order_command_step db db'" and constraints: "order_constraints db"
  shows "quiet db db'"
  using assms(1)
proof cases
  case (cmd_request cfg ports dw rc k)
  then obtain payload creator brief fileIds where "mutate cfg ports dw (order_command.truncate rc) ''request'' payload creator (request_apply cfg ports dw rc brief fileIds) db = Inr (db', k)"
    unfolding request_def by (simp only: await_Inr_iff) blast
  then show ?thesis by (rule mutate_quiet [OF _ constraints request_quiet])
next
  case (cmd_quote cfg ports dw xc terms ttlMs k)
  then obtain payload creator tm where "mutate cfg ports dw (order_command.truncate xc) ''quote'' payload creator (quote_apply cfg ports dw xc tm ttlMs) db = Inr (db', k)"
    unfolding quote_def by (simp only: await_Inr_iff) blast
  then show ?thesis by (rule mutate_quiet [OF _ constraints quote_quiet])
next
  case (cmd_accept cfg ports dw ac k)
  then obtain payload creator where "mutate cfg ports dw (order_command.truncate ac) ''accept'' payload creator (accept_apply cfg ports dw ac) db = Inr (db', k)"
    unfolding accept_def by (simp only: await_Inr_iff) blast
  then show ?thesis by (rule mutate_quiet [OF _ constraints accept_quiet])
next
  case (cmd_close cfg ports dw xc k)
  then obtain payload creator where "mutate cfg ports dw (order_command.truncate xc) ''close'' payload creator (close_apply cfg ports dw xc) db = Inr (db', k)"
    unfolding close_def by (simp only: await_Inr_iff) blast
  then show ?thesis by (rule mutate_quiet [OF _ constraints close_apply_quiet])
next
  case (cmd_claim cfg ports dw xc k)
  then obtain payload creator where "mutate cfg ports dw (order_command.truncate xc) ''claim'' payload creator (claim_apply cfg ports dw xc) db = Inr (db', k)"
    unfolding claimTransfer_def by (simp only: await_Inr_iff) blast
  then show ?thesis by (rule mutate_quiet [OF _ constraints claim_quiet])
next
  case (cmd_submit cfg ports dw sc k)
  then obtain payload creator remark fileIds where "mutate cfg ports dw (order_command.truncate sc) ''submit'' payload creator (submit_apply cfg ports dw sc remark fileIds) db = Inr (db', k)"
    unfolding submit_def by (simp only: await_Inr_iff) blast
  then show ?thesis by (rule mutate_quiet [OF _ constraints submit_quiet])
next
  case (cmd_respond cfg ports dw pc k)
  then obtain payload creator remark where "mutate cfg ports dw (order_command.truncate pc) ''respond-to-submission'' payload creator (respond_apply cfg ports dw pc remark) db = Inr (db', k)"
    unfolding respondToSubmission_def by (simp only: await_Inr_iff) blast
  then show ?thesis by (rule mutate_quiet [OF _ constraints respond_quiet])
next
  case (cmd_resolve_close cfg dw c1 reason v)
  then show ?thesis by (auto simp: resolution_closePaidOrder_def result_iffs dest: closePaid_quiet)
next
  case (cmd_resolve_complete cfg dw c1 kind v)
  then show ?thesis by (auto simp: completeByResolution_def result_iffs dest: complete_quiet)
next
  case (cmd_restore cfg dw c1 floorAt v)
  then show ?thesis by (rule restore_quiet)
next
  case (cmd_expire cfg ports dws now limit r1)
  then show ?thesis by (auto simp: expireDue_def Let_def split: sum.splits prod.splits dest: expire_each_quiet)
next
  case (cmd_invalidate cfg ports dws limit afterId r2)
  then show ?thesis by (auto simp: recoverInvalidations_def Let_def split: sum.splits prod.splits dest: invalidate_each_quiet)
next
  case (cmd_mode dw enabled m)
  then show ?thesis
    by (auto simp: observeFulfillmentMode_def boundary_Inr result_iffs split: option.splits if_splits intro: quiet_frame)
next
  case (cmd_complete cfg ports dws now limit afterKey r3)
  then show ?thesis by (auto simp: completeDue_def Let_def split: sum.splits prod.splits dest: complete_each_quiet)
qed

text \<open>And what the settlement port does.\<close>

lemma confirm_write_orders:
  assumes "confirm_write dw c order terms db = Inr (db', True)"
  shows "\<exists>d. od_orders db' = rows_update (\<lambda>o1. co_id o1 = co_id order \<and> same_version order o1 \<and> co_state o1 = CoAwaitingPayment \<and>
        (case co_expiresAt o1 of None \<Rightarrow> False | Some e \<Rightarrow> cf_at c < e))
      (\<lambda>o1. o1\<lparr>co_state := CoInProgress, co_version := co_version order + 1, co_confirmedAt := Some (cf_at c),
        co_dueAt := Some d, co_updatedAt := cf_at c\<rparr>) (od_orders db)"
proof -
  let ?p = "\<lambda>o1. same_version order o1 \<and> co_state o1 = CoAwaitingPayment \<and> (case co_expiresAt o1 of None \<Rightarrow> False | Some e \<Rightarrow> cf_at c < e)"
  let ?f = "\<lambda>d o1. o1\<lparr>co_state := CoInProgress, co_version := co_version order + 1, co_confirmedAt := Some (cf_at c),
            co_dueAt := Some d, co_updatedAt := cf_at c\<rparr>"
  let ?tail = "\<lambda>db2 v. case v of None \<Rightarrow> Inr (db2, False)
       | Some u \<Rightarrow>
           await (if is_uuid (dw_id dw 0) then Inr () else Inl (OtherError ''Error'')) (\<lambda>_.
           await (save (db2\<lparr>od_events := od_events db2 @
             [\<lparr>ce_id = dw_id dw 0, ce_orderId = co_id order, ce_orderVersion = co_version u, ce_type = CoInProgress,
               ce_actorUserId = map_option ak_userId (cf_actor c), ce_actorSessionId = map_option ak_sessionId (cf_actor c),
               ce_reason = None, ce_requestId = cf_requestId c, ce_occurredAt = cf_at c\<rparr>]\<rparr>)) (\<lambda>db3. Inr (db3, True)))"
  obtain db1 res where r1: "update_reservation (co_id order) (\<lambda>r. cr_creatorUserId r = cf_creatorUserId c \<and> cr_state r = Reserved)
       (\<lambda>r. r\<lparr>cr_state := Occupied, cr_occupiedAt := Some (cf_at c)\<rparr>) db = Inr (db1, res)"
    and r2: "(if res = None then Inr (db1, False)
      else await (commissionDueAt (cf_at c) (pt_turnaroundDays terms)) (\<lambda>d.
        await (update_order (co_id order) ?p (?f d) db1) (\<lambda>(db2, v). ?tail db2 v))) = Inr (db', True)"
    using assms unfolding confirm_write_def by (simp only: await_Inr_iff split_paired_Ex prod.case) blast
  have u1: "od_orders db1 = od_orders db" using r1 by (auto simp: update_reservation_Inr)
  have "res \<noteq> None" using r2 by (rule contrapos_pn) simp
  then obtain d db2 v where u2: "update_order (co_id order) ?p (?f d) db1 = Inr (db2, v)" and rest: "?tail db2 v = Inr (db', True)"
    using r2 by (simp only: if_False await_Inr_iff split_paired_Ex prod.case) blast
  from rest have "od_orders db' = od_orders db2" by (cases v) (auto simp: result_iffs split: if_splits)
  then show ?thesis using u1 u2 by (auto simp: update_order_Inr)
qed

lemma confirm_sets:
  assumes "confirmPayment dw locked c db = Inr (db', True)" "order_constraints db"
  shows "confirmed_at db' = (confirmed_at db)(cf_orderId c \<mapsto> cf_at c)" "confirmed_at db (cf_orderId c) = None"
proof -
  obtain order terms where o1: "find_owned (cf_orderId c) (cf_creatorUserId c) db = Some order" and able: "confirmable order c"
    and w: "confirm_write dw c order terms db = Inr (db', True)"
    using assms(1) by (auto simp: confirmPayment_def split: option.splits if_splits)
  note row = find_owned_view [OF o1 assms(2)]
  let ?p = "\<lambda>o1. same_version order o1 \<and> co_state o1 = CoAwaitingPayment \<and> (case co_expiresAt o1 of None \<Rightarrow> False | Some e \<Rightarrow> cf_at c < e)"
  let ?f = "\<lambda>d o1. o1\<lparr>co_state := CoInProgress, co_version := co_version order + 1, co_confirmedAt := Some (cf_at c),
            co_dueAt := Some d, co_updatedAt := cf_at c\<rparr>"
  obtain d where u: "od_orders db' = rows_update (\<lambda>o1. co_id o1 = co_id order \<and> ?p o1) (?f d) (od_orders db)"
    using confirm_write_orders [OF w] by blast
  have p: "?p order" using able by (simp add: confirmable_def same_version_def)
  have v: "ow_order (view db' j) = map_option (\<lambda>o1. if co_id o1 = co_id order \<and> ?p o1 then ?f d o1 else o1) (ow_order (view db j))" for j
    by (rule view_orders_update [OF u]) simp
  have "confirmed_at db' j = ((confirmed_at db)(cf_orderId c \<mapsto> cf_at c)) j" for j
  proof (cases "j = cf_orderId c")
    case True
    then show ?thesis using p by (simp add: confirmed_at_def v row(1))
  next
    case False
    then have "\<And>o1. ow_order (view db j) = Some o1 \<Longrightarrow> co_id o1 \<noteq> co_id order" using view_order_id row(3) by metis
    then show ?thesis using False by (cases "ow_order (view db j)") (simp_all add: confirmed_at_def v)
  qed
  then show "confirmed_at db' = (confirmed_at db)(cf_orderId c \<mapsto> cf_at c)" by blast
  have "order_check order" using checked_row [OF view_is_checked [OF assms(2)] row(1)] .
  then show "confirmed_at db (cf_orderId c) = None"
    using check_confirmed(1) able by (auto simp: confirmed_at_def row(1) confirmable_def pending_state_def)
qed

end
