(* ===== verification/FundLedger.thy ===== *)
theory FundLedger
  imports TipService OrderQuiet
begin

text \<open>
  What the payment services promise, without their checks, ciphertexts and bookkeeping: a ledger of
  intents, tips, confirmations and confirmed orders (\<open>money\<close>) that changes in three ways. An intent is
  opened with its tip, or paid together with its tip or order and with one confirmation, or closed
  with its tip. The invariant of the ledger is that money and product agree.
\<close>

subsection \<open>The ledger\<close>

record money =
  mn_intents :: "intent_row list"
  mn_tips :: "tip_row list"
  mn_confirmations :: "confirmation_row list"
  mn_confirmed :: "string \<Rightarrow> instant option"

definition money_of :: "fund_db \<Rightarrow> money" where
  "money_of db = \<lparr>mn_intents = fd_intents db, mn_tips = fd_tips db, mn_confirmations = fd_confirmations db,
     mn_confirmed = confirmed_at (fd_orders db)\<rparr>"

definition tip_owner :: "intent_row \<Rightarrow> tip_row \<Rightarrow> bool" where
  "tip_owner r t \<longleftrightarrow> pi_tipId r = Some (tp_id t) \<and> tp_creatorUserId t = pi_creatorUserId r \<and> tp_amountVnd t = pi_amountVnd r"

definition money_ok :: "money \<Rightarrow> bool" where
  "money_ok M \<longleftrightarrow> intents_ok (mn_intents M) \<and> tips_ok (mn_tips M) \<and> confirmations_ok (mn_confirmations M) \<and>
     confirmation_binding ` set (mn_confirmations M) \<subseteq> intent_binding ` set (mn_intents M) \<and>
     list_all (\<lambda>r. pi_tipId r = None \<or> list_ex (tip_owner r) (mn_tips M)) (mn_intents M)"

definition replace_intent :: "intent_row \<Rightarrow> intent_row list \<Rightarrow> intent_row list" where
  "replace_intent r = rows_update (\<lambda>x. pi_id x = pi_id r) (\<lambda>_. r)"

definition tips_after :: "tip_state \<Rightarrow> instant \<Rightarrow> intent_row \<Rightarrow> tip_row list \<Rightarrow> tip_row list" where
  "tips_after s at r tips = rows_update (\<lambda>t. pi_tipId r = Some (tp_id t)) (closed_tip s at) tips"

definition confirmed_after :: "instant \<Rightarrow> intent_row \<Rightarrow> (string \<Rightarrow> instant option) \<Rightarrow> string \<Rightarrow> instant option" where
  "confirmed_after at r f = (case pi_commissionOrderId r of None \<Rightarrow> f | Some k \<Rightarrow> f(k \<mapsto> at))"

inductive money_move :: "money \<Rightarrow> money \<Rightarrow> bool" where
  move_opened: "pi_state r = AwaitingTransfer \<Longrightarrow> list_all (\<lambda>t. tp_state t = TipAwaiting \<and> tip_owner r t) ts \<Longrightarrow>
    M' = M\<lparr>mn_intents := mn_intents M @ [r], mn_tips := mn_tips M @ ts\<rparr> \<Longrightarrow> money_ok M' \<Longrightarrow>
    (ts = [] \<longleftrightarrow> pi_tipId r = None) \<Longrightarrow> money_move M M'"
| move_paid: "r \<in> set (mn_intents M) \<Longrightarrow> pi_state r = AwaitingTransfer \<Longrightarrow> confirmation_binding m = intent_binding r \<Longrightarrow>
    M' = M\<lparr>mn_intents := replace_intent (confirmed_intent (pm_confirmedAt m) r) (mn_intents M),
      mn_tips := tips_after TipCompleted (pm_confirmedAt m) r (mn_tips M),
      mn_confirmations := mn_confirmations M @ [m],
      mn_confirmed := confirmed_after (pm_confirmedAt m) r (mn_confirmed M)\<rparr> \<Longrightarrow> money_ok M' \<Longrightarrow> money_move M M'"
| move_closed: "r \<in> set (mn_intents M) \<Longrightarrow> pi_state r = AwaitingTransfer \<Longrightarrow>
    M' = M\<lparr>mn_intents := replace_intent (closed_intent reason at r) (mn_intents M),
      mn_tips := tips_after (if reason = None then TipExpired else TipRejected) at r (mn_tips M)\<rparr> \<Longrightarrow> money_ok M' \<Longrightarrow> money_move M M'"

subsection \<open>Money and product agree\<close>

definition tip_state_of :: "intent_state \<Rightarrow> tip_state" where
  "tip_state_of s = (case s of AwaitingTransfer \<Rightarrow> TipAwaiting | IntentConfirmed \<Rightarrow> TipCompleted | IntentExpired \<Rightarrow> TipExpired
     | IntentRejected \<Rightarrow> TipRejected)"

definition paid_at :: "intent_row \<Rightarrow> instant option" where
  "paid_at r = (if pi_state r = IntentConfirmed then pi_closedAt r else None)"

text \<open>The confirmations of an intent, the tips it pays and the order it pays, as its own row says.\<close>

definition row_agrees :: "money \<Rightarrow> intent_row \<Rightarrow> bool" where
  "row_agrees M r \<longleftrightarrow>
     map (\<lambda>m. (confirmation_binding m, Some (pm_confirmedAt m))) (filter (\<lambda>m. pm_paymentIntentId m = pi_id r) (mn_confirmations M)) =
       (if pi_state r = IntentConfirmed then [(intent_binding r, pi_closedAt r)] else []) \<and>
     list_all (\<lambda>t. pi_tipId r = Some (tp_id t) \<longrightarrow> tip_owner r t \<and> tp_state t = tip_state_of (pi_state r) \<and> tp_closedAt t = pi_closedAt r)
       (mn_tips M) \<and>
     (case pi_commissionOrderId r of None \<Rightarrow> True | Some k \<Rightarrow> mn_confirmed M k = paid_at r)"

definition agrees :: "money \<Rightarrow> bool" where
  "agrees M \<longleftrightarrow> money_ok M \<and> list_all (row_agrees M) (mn_intents M) \<and>
     Some ` dom (mn_confirmed M) \<subseteq> pi_commissionOrderId ` set (mn_intents M) \<and>
     Some ` tp_id ` set (mn_tips M) \<subseteq> pi_tipId ` set (mn_intents M)"

subsection \<open>Keys\<close>

lemma unique_where_eq: "unique_where f t \<Longrightarrow> x \<in> set t \<Longrightarrow> y \<in> set t \<Longrightarrow> f x = Some v \<Longrightarrow> f y = Some v \<Longrightarrow> x = y"
  by (auto simp: unique_where_def distinct_map dest!: inj_onD [where x = x and y = y])

lemma replace_rows:
  assumes "distinct (map pi_id t)" "r \<in> set t" "hit r" "\<And>x. hit x \<Longrightarrow> pi_id x = pi_id r" "pi_id (f r) = pi_id r"
  shows "rows_update hit f t = replace_intent (f r) t"
proof -
  have "pi_id x = pi_id r \<longleftrightarrow> x = r" "hit x \<longleftrightarrow> x = r" if "x \<in> set t" for x
    using distinct_key_eq [OF assms(1) that assms(2)] assms(3,4) by blast+
  then show ?thesis using assms(5) by (simp add: rows_update_def replace_intent_def)
qed

lemma replace_in:
  assumes "distinct (map pi_id t)" "r \<in> set t" "pi_id r' = pi_id r"
  shows "x \<in> set (replace_intent r' t) \<longleftrightarrow> x = r' \<or> x \<in> set t \<and> pi_id x \<noteq> pi_id r"
  using assms by (auto simp: replace_intent_def in_rows_update_iff)

lemma replace_map:
  assumes "distinct (map pi_id t)" "r \<in> set t" "pi_id r' = pi_id r" "g r' = g r"
  shows "map g (replace_intent r' t) = map g t"
proof -
  have "pi_id x = pi_id r \<longleftrightarrow> x = r" if "x \<in> set t" for x
    using distinct_key_eq [OF assms(1) that assms(2)] by blast
  then show ?thesis using assms(3,4) by (simp add: rows_update_def replace_intent_def)
qed

lemma money_keys:
  assumes "money_ok M"
  shows "distinct (map pi_id (mn_intents M))" "unique_where pi_tipId (mn_intents M)" "unique_where pi_commissionOrderId (mn_intents M)"
    "distinct (map tp_id (mn_tips M))" "distinct (map pm_paymentIntentId (mn_confirmations M))"
    "r \<in> set (mn_intents M) \<Longrightarrow> intent_check r" "t \<in> set (mn_tips M) \<Longrightarrow> tip_check t"
  using assms by (auto simp: money_ok_def intents_ok_def tips_ok_def confirmations_ok_def list_all_iff)

lemma open_intent: "intent_check r \<Longrightarrow> pi_closedAt r = None \<longleftrightarrow> pi_state r = AwaitingTransfer"
  by (auto simp: intent_check_def intent_time_check_def closing_check_def split: option.splits)

lemma open_tip: "tip_check t \<Longrightarrow> tp_closedAt t = None \<longleftrightarrow> tp_state t = TipAwaiting"
  by (auto simp: tip_check_def closing_check_def split: option.splits)

text \<open>Closing keeps what identifies an intent.\<close>

definition same_intent :: "intent_row \<Rightarrow> intent_row \<Rightarrow> bool" where
  "same_intent r r' \<longleftrightarrow> pi_id r' = pi_id r \<and> pi_tipId r' = pi_tipId r \<and> pi_commissionOrderId r' = pi_commissionOrderId r \<and>
     pi_creatorUserId r' = pi_creatorUserId r \<and> pi_amountVnd r' = pi_amountVnd r \<and> intent_binding r' = intent_binding r"

lemma same_closed [simp]: "same_intent r (confirmed_intent at r)" "same_intent r (closed_intent reason at r)"
  by (simp_all add: same_intent_def confirmed_intent_def closed_intent_def intent_binding_def)

lemma same_intentD:
  assumes "same_intent r r'"
  shows "pi_id r' = pi_id r" "pi_tipId r' = pi_tipId r" "pi_commissionOrderId r' = pi_commissionOrderId r"
    "intent_binding r' = intent_binding r" "tip_owner r' = tip_owner r"
  using assms by (auto simp: same_intent_def tip_owner_def fun_eq_iff)

lemma closed_tip_simps [simp]:
  "tp_id (closed_tip s at t) = tp_id t" "tp_state (closed_tip s at t) = s" "tp_closedAt (closed_tip s at t) = Some at"
  "tip_owner r (closed_tip s at t) = tip_owner r t"
  by (simp_all add: closed_tip_def tip_owner_def)

subsection \<open>The invariant is kept\<close>

lemma opened_agrees:
  assumes "agrees M" and r: "pi_state r = AwaitingTransfer" and ts: "list_all (\<lambda>t. tp_state t = TipAwaiting \<and> tip_owner r t) ts"
    and M': "M' = M\<lparr>mn_intents := mn_intents M @ [r], mn_tips := mn_tips M @ ts\<rparr>" and ok: "money_ok M'"
  shows "agrees M'"
proof -
  have old: "money_ok M" "\<And>x. x \<in> set (mn_intents M) \<Longrightarrow> row_agrees M x"
    and cover: "Some ` dom (mn_confirmed M) \<subseteq> pi_commissionOrderId ` set (mn_intents M)" "Some ` tp_id ` set (mn_tips M) \<subseteq> pi_tipId ` set (mn_intents M)"
    using assms(1) by (auto simp: agrees_def list_all_iff)
  note keys = money_keys [OF ok, unfolded M', simplified]
  have other: "x \<noteq> r" "pi_id x \<noteq> pi_id r" if "x \<in> set (mn_intents M)" for x
    using keys(1) imageI [OF that, of pi_id] by auto
  have tip: "pi_tipId x \<noteq> pi_tipId r" if "x \<in> set (mn_intents M)" "pi_tipId r = Some k" for x k
    using unique_where_eq [OF keys(2), of x r k] that other(1) by auto
  have order: "pi_commissionOrderId x \<noteq> Some k" if "x \<in> set (mn_intents M)" "pi_commissionOrderId r = Some k" for x k
    using unique_where_eq [OF keys(3), of x r k] that other(1) by auto
  have tipsr: "pi_tipId r = Some (tp_id t)" "tp_state t = TipAwaiting" "tip_owner r t" "tp_closedAt t = None" if "t \<in> set ts" for t
    using ts that keys(7) [of t] by (auto simp: list_all_iff tip_owner_def open_tip)
  have "row_agrees M' x" if x: "x \<in> set (mn_intents M)" for x
    using old(2) [OF x] tip [OF x] tipsr(1) by (auto simp: row_agrees_def M' list_all_iff split: option.splits)
  moreover have "row_agrees M' r"
  proof -
    have confs: "filter (\<lambda>m. pm_paymentIntentId m = pi_id r) (mn_confirmations M) = []"
      using old(1) other(2) by (force simp: filter_empty_conv money_ok_def confirmation_binding_def intent_binding_def)
    have tips: "pi_tipId r \<noteq> Some (tp_id t)" if "t \<in> set (mn_tips M)" for t
      using cover(2) tip that by force
    have unpaid: "mn_confirmed M k = None" if "pi_commissionOrderId r = Some k" for k
      using cover(1) order [OF _ that] by force
    have "pi_closedAt r = None" using keys(6) [of r] r by (simp add: open_intent)
    then have "list_all (\<lambda>t. pi_tipId r = Some (tp_id t) \<longrightarrow> tip_owner r t \<and> tp_state t = tip_state_of (pi_state r) \<and> tp_closedAt t = pi_closedAt r) (mn_tips M')"
      using r tips tipsr(2-4) by (auto simp: M' list_all_iff tip_state_of_def)
    then show ?thesis using r confs unpaid by (simp add: row_agrees_def paid_at_def split: option.split) (simp add: M')
  qed
  moreover have "Some ` dom (mn_confirmed M') \<subseteq> pi_commissionOrderId ` set (mn_intents M')"
    using cover(1) by (simp add: M' subset_insertI2)
  moreover have "Some ` tp_id ` set ts \<subseteq> {pi_tipId r}" using tipsr(1) by force
  then have "Some ` tp_id ` set (mn_tips M') \<subseteq> pi_tipId ` set (mn_intents M')"
    using cover(2) by (simp add: M' image_Un) blast
  ultimately show ?thesis using ok by (simp add: agrees_def list_all_iff) (simp add: M')
qed

text \<open>An open intent is closed: \<open>r'\<close> is its new row, \<open>ms\<close> its confirmation if it was paid.\<close>

lemma settled_agrees:
  assumes "agrees M" and r: "r \<in> set (mn_intents M)" "pi_state r = AwaitingTransfer"
    and r': "same_intent r r'" "pi_closedAt r' = Some at"
    and ms: "map (\<lambda>m. (confirmation_binding m, pm_confirmedAt m)) ms = (if pi_state r' = IntentConfirmed then [(intent_binding r, at)] else [])"
    and M': "M' = M\<lparr>mn_intents := replace_intent r' (mn_intents M), mn_tips := tips_after (tip_state_of (pi_state r')) at r (mn_tips M),
      mn_confirmations := mn_confirmations M @ ms,
      mn_confirmed := (if pi_state r' = IntentConfirmed then confirmed_after at r (mn_confirmed M) else mn_confirmed M)\<rparr>"
    and ok: "money_ok M'"
  shows "agrees M'"
proof -
  have old: "money_ok M" "\<And>x. x \<in> set (mn_intents M) \<Longrightarrow> row_agrees M x"
    and cover: "Some ` dom (mn_confirmed M) \<subseteq> pi_commissionOrderId ` set (mn_intents M)" "Some ` tp_id ` set (mn_tips M) \<subseteq> pi_tipId ` set (mn_intents M)"
    using assms(1) by (auto simp: agrees_def list_all_iff)
  note keys = money_keys [OF old(1)]
  note rows = replace_in [OF keys(1) r(1) same_intentD(1) [OF r'(1)]]
  have confs: "pm_paymentIntentId m = pi_id r" if "m \<in> set ms" for m
    using ms that by (auto simp: confirmation_binding_def intent_binding_def split: if_splits)
  have others: "row_agrees M' x" if x: "x \<in> set (mn_intents M)" "pi_id x \<noteq> pi_id r" for x
  proof -
    have tip: "pi_tipId x \<noteq> Some k" if "pi_tipId r = Some k" for k
      using unique_where_eq [OF keys(2) x(1) r(1)] that x(2) by auto
    have order: "pi_commissionOrderId r \<noteq> Some k" if "pi_commissionOrderId x = Some k" for k
      using unique_where_eq [OF keys(3) x(1) r(1)] that x(2) by auto
    have "filter (\<lambda>m. pm_paymentIntentId m = pi_id x) ms = []" using confs x(2) by (auto simp: filter_empty_conv)
    then show ?thesis using old(2) [OF x(1)] tip order
      by (auto simp: row_agrees_def M' list_all_iff tips_after_def in_rows_update_iff confirmed_after_def split: option.splits)
  qed
  have closed_row: "row_agrees M' r'"
  proof -
    have "filter (\<lambda>m. pm_paymentIntentId m = pi_id r) (mn_confirmations M) = []"
      using old(2) [OF r(1)] r(2) by (simp add: row_agrees_def)
    moreover have "filter (\<lambda>m. pm_paymentIntentId m = pi_id r) ms = ms" using confs by (simp add: filter_id_conv)
    moreover have "tip_owner r t \<and> tp_state t = tip_state_of (pi_state r') \<and> tp_closedAt t = Some at"
      if t: "t \<in> set (mn_tips M')" "pi_tipId r = Some (tp_id t)" for t
    proof -
      obtain t0 where t0: "t0 \<in> set (mn_tips M)" "t = (if pi_tipId r = Some (tp_id t0) then closed_tip (tip_state_of (pi_state r')) at t0 else t0)"
        using t(1) by (auto simp: M' tips_after_def in_rows_update_iff)
      with t(2) have "pi_tipId r = Some (tp_id t0)" by (auto split: if_splits)
      then show ?thesis using old(2) [OF r(1)] t0 by (simp add: row_agrees_def list_all_iff)
    qed
    moreover have "mn_confirmed M' k = paid_at r'" if "pi_commissionOrderId r = Some k" for k
      using old(2) [OF r(1)] r(2) r'(2) that by (simp add: row_agrees_def M' confirmed_after_def paid_at_def)
    moreover have "map (\<lambda>m. (confirmation_binding m, Some (pm_confirmedAt m))) ms =
        (if pi_state r' = IntentConfirmed then [(intent_binding r, Some at)] else [])"
      using ms by (cases ms) (auto split: if_splits)
    moreover have "pi_state r' \<noteq> IntentConfirmed \<Longrightarrow> ms = []" using ms by simp
    ultimately show ?thesis using r'(2) same_intentD [OF r'(1)]
      by (simp add: row_agrees_def list_all_iff split: option.split) (simp add: M')
  qed
  have intents: "mn_intents M' = replace_intent r' (mn_intents M)" by (simp add: M')
  have m1: "map pi_tipId (mn_intents M') = map pi_tipId (mn_intents M)"
    unfolding intents by (rule replace_map [OF keys(1) r(1) same_intentD(1,2) [OF r'(1)]])
  have m2: "map pi_commissionOrderId (mn_intents M') = map pi_commissionOrderId (mn_intents M)"
    unfolding intents by (rule replace_map [OF keys(1) r(1) same_intentD(1,3) [OF r'(1)]])
  have covered: "pi_tipId ` set (mn_intents M') = pi_tipId ` set (mn_intents M)"
      "pi_commissionOrderId ` set (mn_intents M') = pi_commissionOrderId ` set (mn_intents M)"
    using m1 [THEN arg_cong, of set] m2 [THEN arg_cong, of set] by simp_all
  have m3: "map tp_id (mn_tips M') = map tp_id (mn_tips M)" by (simp add: M' tips_after_def map_key_rows_update)
  have "tp_id ` set (mn_tips M') = tp_id ` set (mn_tips M)" using m3 [THEN arg_cong, of set] by simp
  then have tips: "Some ` tp_id ` set (mn_tips M') \<subseteq> pi_tipId ` set (mn_intents M)" using cover(2) by simp
  have "Some ` dom (mn_confirmed M') \<subseteq> insert (pi_commissionOrderId r) (Some ` dom (mn_confirmed M))"
    by (auto simp: M' confirmed_after_def split: option.splits if_splits)
  then have orders: "Some ` dom (mn_confirmed M') \<subseteq> pi_commissionOrderId ` set (mn_intents M)"
    by (rule subset_trans) (use cover(1) r(1) in simp)
  have "row_agrees M' x" if "x \<in> set (mn_intents M')" for x
    using that others closed_row by (auto simp: intents rows)
  then show ?thesis unfolding agrees_def list_all_iff covered using ok tips orders by blast
qed

text \<open>Nothing that is settled changes, and no confirmation is lost.\<close>

definition kept :: "money \<Rightarrow> money \<Rightarrow> bool" where
  "kept M M' \<longleftrightarrow> set (filter (\<lambda>r. pi_state r \<noteq> AwaitingTransfer) (mn_intents M)) \<subseteq> set (mn_intents M') \<and>
     set (filter (\<lambda>t. tp_state t \<noteq> TipAwaiting) (mn_tips M)) \<subseteq> set (mn_tips M') \<and>
     set (mn_confirmations M) \<subseteq> set (mn_confirmations M')"

lemma kept_trans: "kept M M1 \<Longrightarrow> kept M1 M2 \<Longrightarrow> kept M M2"
  unfolding kept_def by (auto simp: subset_iff)

lemma settled_kept:
  assumes "agrees M" and r: "r \<in> set (mn_intents M)" "pi_state r = AwaitingTransfer" "pi_id r' = pi_id r"
    and M': "mn_intents M' = replace_intent r' (mn_intents M)" "mn_tips M' = tips_after s at r (mn_tips M)"
      "set (mn_confirmations M) \<subseteq> set (mn_confirmations M')"
  shows "kept M M'"
proof -
  have "money_ok M" and row: "row_agrees M r" using assms(1) r(1) by (auto simp: agrees_def list_all_iff)
  note keys = money_keys [OF \<open>money_ok M\<close>]
  have "x \<in> set (mn_intents M')" if "x \<in> set (mn_intents M)" "pi_state x \<noteq> AwaitingTransfer" for x
  proof -
    have "pi_id x \<noteq> pi_id r" using distinct_key_eq [OF keys(1) that(1) r(1)] that(2) r(2) by auto
    then show ?thesis using that(1) by (simp add: M'(1) replace_in [OF keys(1) r(1,3)])
  qed
  moreover have "t \<in> set (mn_tips M')" if "t \<in> set (mn_tips M)" "tp_state t \<noteq> TipAwaiting" for t
  proof -
    have "pi_tipId r \<noteq> Some (tp_id t)" using row that r(2) by (auto simp: row_agrees_def list_all_iff tip_state_of_def)
    then show ?thesis using that(1) by (force simp: M'(2) tips_after_def in_rows_update_iff)
  qed
  ultimately show ?thesis using M'(3) by (auto simp: kept_def)
qed

lemma move_agrees: "money_move M M' \<Longrightarrow> agrees M \<Longrightarrow> agrees M' \<and> kept M M'"
proof (induction rule: money_move.induct)
  case (move_opened r ts M' M)
  then show ?case using opened_agrees [OF move_opened.prems move_opened.hyps(1-4)] by (auto simp: kept_def)
next
  case (move_paid r M m M')
  have "agrees M'"
    by (rule settled_agrees [where ms = "[m]" and at = "pm_confirmedAt m", OF move_paid.prems move_paid.hyps(1,2) same_closed(1) _ _ _ move_paid.hyps(5)])
      (simp_all add: move_paid.hyps(3,4) confirmed_intent_def tip_state_of_def)
  moreover have "kept M M'"
    by (rule settled_kept [OF move_paid.prems move_paid.hyps(1,2)]) (auto simp: move_paid.hyps(4) confirmed_intent_def)
  ultimately show ?case by blast
next
  case (move_closed r M M' reason at)
  have "agrees M'"
    by (rule settled_agrees [where ms = "[]" and at = at and r' = "closed_intent reason at r", OF move_closed.prems move_closed.hyps(1,2) same_closed(2) _ _ _ move_closed.hyps(4)])
      (simp_all add: move_closed.hyps(3) closed_intent_def tip_state_of_def)
  moreover have "kept M M'"
    by (rule settled_kept [OF move_closed.prems move_closed.hyps(1,2)]) (auto simp: move_closed.hyps(3) closed_intent_def)
  ultimately show ?case by blast
qed

lemma moves_agree: "rtranclp money_move M M' \<Longrightarrow> agrees M \<Longrightarrow> agrees M' \<and> kept M M'"
  by (induction rule: rtranclp_induct) (auto simp: kept_def [of M M] dest: move_agrees intro: kept_trans)

subsection \<open>The ledger of a database\<close>

lemma constraints_money:
  assumes "fund_constraints db"
  shows "money_ok (money_of db)"
proof -
  have "pi_tipId r = None \<or> list_ex (tip_owner r) (fd_tips db)" if "r \<in> set (fd_intents db)" for r
  proof (cases "pi_tipId r")
    case (Some k)
    have "intent_owner_ok db r" using assms that by (simp add: fund_constraints_def fund_references_ok_def list_all_iff)
    then have "(k, pi_creatorUserId r, pi_amountVnd r) \<in> (\<lambda>t. (tp_id t, tp_creatorUserId t, tp_amountVnd t)) ` set (fd_tips db)"
      using Some by (simp add: intent_owner_ok_def)
    then show ?thesis using Some by (auto simp: list_ex_iff tip_owner_def)
  qed simp
  then show ?thesis using assms by (simp add: money_ok_def money_of_def fund_constraints_def fund_references_ok_def list_all_iff)
qed

lemma money_frame: "fd_intents db' = fd_intents db \<Longrightarrow> fd_tips db' = fd_tips db \<Longrightarrow> fd_confirmations db' = fd_confirmations db \<Longrightarrow>
    quiet (fd_orders db) (fd_orders db') \<Longrightarrow> money_of db' = money_of db"
  by (simp add: money_of_def quiet_def)

text \<open>Statements on the tables of commands, audit events and outbox events.\<close>

definition bookkeeping :: "fund_db \<Rightarrow> fund_db \<Rightarrow> bool" where
  "bookkeeping db db' \<longleftrightarrow> (\<exists>t au ob. db' = db\<lparr>fd_orders := (fd_orders db)\<lparr>od_idem := t, od_audit := au, od_outbox := ob\<rparr>\<rparr>)"

lemma bookkeeping_trans: "bookkeeping a b \<Longrightarrow> bookkeeping b c \<Longrightarrow> bookkeeping a c"
  unfolding bookkeeping_def by (elim exE) (simp, intro exI, rule refl)

lemma bookkeeping_tables:
  assumes "bookkeeping db db'"
  shows "fd_intents db' = fd_intents db" "fd_tips db' = fd_tips db" "fd_confirmations db' = fd_confirmations db" "fd_claims db' = fd_claims db"
    "fd_capabilities db' = fd_capabilities db" "fd_accounts db' = fd_accounts db" "fd_cutovers db' = fd_cutovers db" "fd_connections db' = fd_connections db"
    "od_orders (fd_orders db') = od_orders (fd_orders db)" "fund_constraints db' = fund_constraints db" "money_of db' = money_of db"
proof -
  obtain t au ob where db': "db' = db\<lparr>fd_orders := (fd_orders db)\<lparr>od_idem := t, od_audit := au, od_outbox := ob\<rparr>\<rparr>"
    using assms by (auto simp: bookkeeping_def)
  have tables: "fd_intents db' = fd_intents db" "fd_tips db' = fd_tips db" "fd_confirmations db' = fd_confirmations db" "fd_claims db' = fd_claims db"
    "fd_capabilities db' = fd_capabilities db" "fd_accounts db' = fd_accounts db" "fd_cutovers db' = fd_cutovers db" "fd_connections db' = fd_connections db"
    "od_orders (fd_orders db') = od_orders (fd_orders db)"
    by (simp_all add: db')
  then show "fd_intents db' = fd_intents db" "fd_tips db' = fd_tips db" "fd_confirmations db' = fd_confirmations db" "fd_claims db' = fd_claims db"
    "fd_capabilities db' = fd_capabilities db" "fd_accounts db' = fd_accounts db" "fd_cutovers db' = fd_cutovers db" "fd_connections db' = fd_connections db"
    "od_orders (fd_orders db') = od_orders (fd_orders db)"
    by this+
  have "intent_owner_ok db' = intent_owner_ok db"
    unfolding fun_eq_iff intent_owner_ok_def tables by simp
  then show "fund_constraints db' = fund_constraints db"
    unfolding fund_constraints_def fund_references_ok_def tables by (simp add: db')
  show "money_of db' = money_of db" by (rule money_frame) (simp_all add: db' quiet_frame)
qed

lemma bookkeeping_update:
  "bookkeeping db (db\<lparr>fd_orders := (fd_orders db)\<lparr>od_idem := t\<rparr>\<rparr>)"
  "bookkeeping db (db\<lparr>fd_orders := (fd_orders db)\<lparr>od_audit := au\<rparr>\<rparr>)"
  "bookkeeping db (db\<lparr>fd_orders := (fd_orders db)\<lparr>od_outbox := ob\<rparr>\<rparr>)"
proof -
  let ?o = "fd_orders db"
  have "?o\<lparr>od_idem := t\<rparr> = ?o\<lparr>od_idem := t, od_audit := od_audit ?o, od_outbox := od_outbox ?o\<rparr>"
    "?o\<lparr>od_audit := au\<rparr> = ?o\<lparr>od_idem := od_idem ?o, od_audit := au, od_outbox := od_outbox ?o\<rparr>"
    "?o\<lparr>od_outbox := ob\<rparr> = ?o\<lparr>od_idem := od_idem ?o, od_audit := od_audit ?o, od_outbox := ob\<rparr>"
    by simp_all
  then show "bookkeeping db (db\<lparr>fd_orders := ?o\<lparr>od_idem := t\<rparr>\<rparr>)" "bookkeeping db (db\<lparr>fd_orders := ?o\<lparr>od_audit := au\<rparr>\<rparr>)"
    "bookkeeping db (db\<lparr>fd_orders := ?o\<lparr>od_outbox := ob\<rparr>\<rparr>)"
    unfolding bookkeeping_def by metis+
qed

lemma fund_statements:
  "fund_audit cfg k clock e db = Inr db' \<Longrightarrow> bookkeeping db db'"
  "fund_event cfg k clock ev db = Inr db' \<Longrightarrow> bookkeeping db db'"
  "fund_begin dw b db = Inr (db', started) \<Longrightarrow> bookkeeping db db'"
  "fund_complete cfg k ref at db = Inr db' \<Longrightarrow> bookkeeping db db'"
  by (auto simp: fund_audit_def fund_event_def fund_begin_def fund_complete_def result_iffs bookkeeping_update)

end
