(* ===== verification/FundSteps.thy ===== *)
theory FundSteps
  imports FundLedger
begin

text \<open>
  What each operation of the payment services does to the tables, and the step relation of the whole:
  the tip commands, the confirmations by hand, the expiry scan and the order commands with the calls
  they make on the payment port, in any order. Every step is a sequence of moves of the ledger.
\<close>

subsection \<open>Opening an intent\<close>

lemma insert_intent_Inr:
  "insert_intent r db = Inr (db', b) \<longleftrightarrow>
     (if pi_referenceHash r \<in> pi_referenceHash ` set (fd_intents db) then db' = db \<and> \<not> b
      else db' = db\<lparr>fd_intents := fd_intents db @ [r]\<rparr> \<and> fund_constraints db' \<and> b)"
  by (auto simp: insert_intent_def result_iffs)

definition written :: "fund_cfg \<Rightarrow> fund_draw \<Rightarrow> intent_command \<Rightarrow> destination \<Rightarrow> settlement \<Rightarrow> envelope \<Rightarrow> int \<Rightarrow> intent_row \<Rightarrow> string \<Rightarrow> bool" where
  "written cfg dw c d settlement destinationEnvelope amountVnd r reference \<longleftrightarrow>
     (\<exists>h e n. r = new_intent c d settlement destinationEnvelope amountVnd h e \<and> is_reference reference \<and>
       fund_digest cfg ''tip-transfer-reference'' reference = Inr h \<and>
       fund_seal cfg (dw_nonce dw n) ''payment_intents'' (in_intentId c) ''transfer_reference'' reference = Inr e)"

lemma attempts_Inr:
  "reference_attempts cfg dw c d settlement destinationEnvelope amountVnd n db = Inr (db', r, reference) \<Longrightarrow>
     written cfg dw c d settlement destinationEnvelope amountVnd r reference \<and> db' = db\<lparr>fd_intents := fd_intents db @ [r]\<rparr> \<and> fund_constraints db'"
proof (induction n)
  case (Suc n)
  let ?ref = "dw_reference dw (4 - n)"
  obtain h e db1 b where w: "is_reference ?ref" "fund_digest cfg ''tip-transfer-reference'' ?ref = Inr h"
      "fund_seal cfg (dw_nonce dw (4 - n + 1)) ''payment_intents'' (in_intentId c) ''transfer_reference'' ?ref = Inr e"
    and ins: "insert_intent (new_intent c d settlement destinationEnvelope amountVnd h e) db = Inr (db1, b)"
    and rest: "(if b then Inr (db1, new_intent c d settlement destinationEnvelope amountVnd h e, ?ref)
       else reference_attempts cfg dw c d settlement destinationEnvelope amountVnd n db1) = Inr (db', r, reference)"
    using Suc.prems by (auto simp: Let_def result_iffs)
  show ?case
  proof (cases b)
    case True
    then have "written cfg dw c d settlement destinationEnvelope amountVnd (new_intent c d settlement destinationEnvelope amountVnd h e) ?ref"
      using w unfolding written_def by blast
    then show ?thesis using True rest ins by (auto simp: insert_intent_Inr split: if_splits)
  next
    case False
    then have "db1 = db" using ins by (auto simp: insert_intent_Inr split: if_splits)
    then have "reference_attempts cfg dw c d settlement destinationEnvelope amountVnd n db = Inr (db', r, reference)"
      using rest False by simp
    then show ?thesis by (rule Suc.IH)
  qed
qed simp

lemma insert_transfer_Inr:
  assumes "insertTransferPaymentIntent cfg dw c db = Inr (db', r, s, reference)"
  obtains d settlement e amountVnd where "written cfg dw c d settlement e amountVnd r reference" "db' = db\<lparr>fd_intents := fd_intents db @ [r]\<rparr>"
    "fund_constraints db'" "ds_accountVersionId d = in_accountVersionId c" "requireIntegerVnd (in_amountVnd c) None = Inr amountVnd"
    "s = destination_snapshot d c" "fund_seal cfg (dw_nonce dw 0) ''payment_intents'' (in_intentId c) ''destination'' (stringify (snapshot_json s)) = Inr e"
    "lockTipReceivingDestination cfg dw (in_creatorUserId c) (in_at c) db = Inr (Some d)"
  using assms unfolding insertTransferPaymentIntent_def Let_def
  by (auto simp: result_iffs dest: attempts_Inr)

lemma integer_amount: "requireIntegerVnd v policy = Inr n \<Longrightarrow> n = v"
  by (auto simp: requireIntegerVnd_def split: if_splits)

lemma written_row:
  assumes "written cfg dw c d settlement e amountVnd r reference"
  shows "pi_id r = in_intentId c" "pi_state r = AwaitingTransfer" "pi_creatorUserId r = in_creatorUserId c" "pi_amountVnd r = amountVnd"
    "pi_tipId r = (case in_purpose c of TipPayment k \<Rightarrow> Some k | _ \<Rightarrow> None)"
    "pi_commissionOrderId r = (case in_purpose c of CommissionPayment k \<Rightarrow> Some k | _ \<Rightarrow> None)"
    "pi_accountVersionId r = ds_accountVersionId d" "pi_abuseKeyHash r = in_abuseKeyHash c" "pi_expiresAt r = in_expiresAt c"
    "pi_destinationEnvelope r = e" "pi_createdAt r = in_at c" "pi_closedAt r = None"
  using assms by (auto simp: written_def new_intent_def)

lemma commission_open_effect:
  assumes "commission_createIntent cfg dw c db = Inr (db', k)"
  shows "fund_constraints db' \<and> money_move (money_of db) (money_of db')"
proof -
  obtain r s reference ic where i: "insertTransferPaymentIntent cfg dw ic db = Inr (db', r, s, reference)" and p: "in_purpose ic = CommissionPayment (ci_orderId c)"
    using assms by (auto simp: commission_createIntent_def result_iffs)
  obtain d st e amountVnd where w: "written cfg dw ic d st e amountVnd r reference" and db': "db' = db\<lparr>fd_intents := fd_intents db @ [r]\<rparr>" "fund_constraints db'"
    using insert_transfer_Inr [OF i] by metis
  have "money_move (money_of db) (money_of db')"
    by (rule move_opened [where r = r and ts = "[]"]) (use written_row [OF w] p constraints_money [OF db'(2)] in \<open>simp_all add: db'(1) money_of_def\<close>)
  then show ?thesis using db'(2) by blast
qed

lemma guest_capability_Inr:
  assumes "guest_capability cfg dw r context at db = Inr (db', x)" "fund_constraints db"
  shows "\<exists>cs. db' = db\<lparr>fd_capabilities := fd_capabilities db @ cs\<rparr> \<and> fund_constraints db' \<and> (cs = [] \<longleftrightarrow> context = None)"
  using assms by (auto simp: guest_capability_def Let_def result_iffs split: option.splits)

lemma tip_open_effect:
  assumes "tip_createIntent cfg dw c db = Inr (db', payment)"
  obtains r cs where "fund_constraints db'" "db' = db\<lparr>fd_intents := fd_intents db @ [r], fd_capabilities := fd_capabilities db @ cs\<rparr>"
    "pi_state r = AwaitingTransfer" "pi_tipId r = Some (tn_tipId c)" "pi_creatorUserId r = tn_creatorUserId c" "pi_amountVnd r = tn_amountVnd c"
    "pi_abuseKeyHash r = tn_abuseKeyHash c" "pi_expiresAt r = tn_at c + fc_intentTtlMs cfg" "pi_createdAt r = tn_at c"
    "cs = [] \<longleftrightarrow> tn_guestContext c = None"
proof -
  obtain ic db1 r s reference cap where i: "insertTransferPaymentIntent cfg dw ic db = Inr (db1, r, s, reference)" and
      p: "in_purpose ic = TipPayment (tn_tipId c)" "in_creatorUserId ic = tn_creatorUserId c" "in_amountVnd ic = tn_amountVnd c" "in_abuseKeyHash ic = tn_abuseKeyHash c"
        "in_expiresAt ic = tn_at c + fc_intentTtlMs cfg" "in_at ic = tn_at c"
    and g: "guest_capability cfg dw r (tn_guestContext c) (tn_at c) db1 = Inr (db', cap)"
    using assms by (auto simp: tip_createIntent_def result_iffs)
  obtain d st e amountVnd where w: "written cfg dw ic d st e amountVnd r reference" and db1: "db1 = db\<lparr>fd_intents := fd_intents db @ [r]\<rparr>" "fund_constraints db1"
      and am: "requireIntegerVnd (in_amountVnd ic) None = Inr amountVnd"
    using insert_transfer_Inr [OF i] by metis
  obtain cs where cs: "db' = db1\<lparr>fd_capabilities := fd_capabilities db1 @ cs\<rparr>" "fund_constraints db'" "cs = [] \<longleftrightarrow> tn_guestContext c = None"
    using guest_capability_Inr [OF g db1(2)] by (elim exE conjE) (rule that)
  note row = written_row [OF w, unfolded p payment_purpose.case]
  have tables: "db' = db\<lparr>fd_intents := fd_intents db @ [r], fd_capabilities := fd_capabilities db @ cs\<rparr>" unfolding cs(1) db1(1) by simp
  have paid: "pi_amountVnd r = tn_amountVnd c" using row(4) integer_amount [OF am] p(3) by simp
  show thesis by (rule that [OF cs(2) tables row(2) row(5) row(3) paid row(8) row(9) row(11) cs(3)])
qed

subsection \<open>Interface: what an aggregate owes the confirmation\<close>

text \<open>The tip or order of a confirmed intent is completed at the same time, and nothing else of the
  money changes.\<close>

definition product_done :: "intent_row \<Rightarrow> instant \<Rightarrow> fund_db \<Rightarrow> fund_db \<Rightarrow> bool" where
  "product_done r at db db' \<longleftrightarrow> fund_constraints db' \<and> fd_intents db' = fd_intents db \<and> fd_confirmations db' = fd_confirmations db \<and>
     fd_tips db' = tips_after TipCompleted at r (fd_tips db) \<and>
     confirmed_at (fd_orders db') = confirmed_after at r (confirmed_at (fd_orders db))"

lemma confirmed_rows:
  assumes "distinct (map pi_id t)" "r \<in> set t" "pending_intent at r"
  shows "rows_update (\<lambda>x. pi_id x = pi_id r \<and> pending_intent at x) (confirmed_intent at) t = replace_intent (confirmed_intent at r) t"
  by (rule replace_rows [OF assms(1,2)]) (use assms(3) in \<open>simp_all add: confirmed_intent_def\<close>)

lemma validated_proof: "validateAssurance cfg (Some p) at b = Inr q \<Longrightarrow> q = p"
  by (auto simp: validateAssurance_def result_iffs Let_def)

lemma evidence_found:
  assumes "lock_evidence cfg ports ag dw c e candidate db = Inr k"
  obtains d t s reference q where "List.find (\<lambda>r. pi_id r = mc_paymentIntentId c) (fd_intents db) = Some (li_intent k)"
    "pi_creatorUserId (li_intent k) = ak_userId (mc_actor c)" "pi_amountVnd (li_intent k) = me_amountVnd e"
    "map_option purpose_kind (readPaymentPurpose (li_intent k)) = Some (ag_purpose ag)"
    "pi_settlementLane (li_intent k) = ManualAttested"
    "lockTipReceivingDestination cfg dw (ak_userId (mc_actor c)) t db = Inr (Some d)"
    "bank_fingerprint cfg d (me_bankTransactionId e) = Inr (li_bankFingerprint k)"
    "readTipIntentSnapshot cfg (li_intent k) = Inr (s, reference)" "reference = mc_observedTransferReference c"
    "ds_accountVersionId d = pi_accountVersionId (li_intent k)" "sn_accountNumber s = ds_accountNumber d"
    "validateAssurance cfg (Some (li_proof k)) (li_at k) True = Inr q"
  using assms unfolding lock_evidence_def Let_def
  by (auto simp: result_iffs)

text \<open>Evidence and confirmation name the same intent.\<close>

lemma manual_binding:
  assumes "lock_evidence cfg ports ag dw c e candidate db = Inr k"
  shows "confirmation_binding (manual_confirmation dw2 c e k) = intent_binding (li_intent k)" "li_intent k \<in> set (fd_intents db)"
    "pi_id (li_intent k) = mc_paymentIntentId c"
  using assms by (auto simp: manual_confirmation_def confirmation_binding_def intent_binding_def elim!: evidence_found dest!: find_Some_in)

lemma paid_rows_move:
  assumes ok: "fund_constraints db" and r: "r \<in> set (fd_intents db)" "pending_intent at r"
    and m: "confirmation_binding m = intent_binding r" "pm_confirmedAt m = at"
    and db1: "db1 = db\<lparr>fd_confirmations := fd_confirmations db @ [m]\<rparr>"
    and db2: "db2 = db1\<lparr>fd_intents := rows_update (\<lambda>x. pi_id x = pi_id r \<and> pending_intent at x) (confirmed_intent at) (fd_intents db1)\<rparr>"
    and p: "product_done r at db2 db'"
  shows "money_move (money_of db) (money_of db')" "fund_constraints db'" "fd_confirmations db' = fd_confirmations db @ [m]"
    "fd_intents db' = replace_intent (confirmed_intent at r) (fd_intents db)"
proof -
  have keys: "distinct (map pi_id (fd_intents db))" using ok by (simp add: fund_constraints_def intents_ok_def)
  have intents: "fd_intents db2 = replace_intent (confirmed_intent at r) (fd_intents db)"
    using confirmed_rows [OF keys r] by (simp add: db2 db1)
  have tables: "fd_intents db' = replace_intent (confirmed_intent at r) (fd_intents db)" "fd_tips db' = tips_after TipCompleted at r (fd_tips db)"
      "fd_confirmations db' = fd_confirmations db @ [m]" "confirmed_at (fd_orders db') = confirmed_after at r (confirmed_at (fd_orders db))"
    using p intents by (simp_all add: product_done_def db2 db1)
  show ok': "fund_constraints db'" using p by (simp add: product_done_def)
  show "money_move (money_of db) (money_of db')"
    by (rule move_paid [where r = r and m = m, OF _ _ m(1) _ constraints_money [OF ok']])
      (use r m(2) in \<open>simp_all add: money_of_def tables pending_intent_def\<close>)
  show "fd_confirmations db' = fd_confirmations db @ [m]" "fd_intents db' = replace_intent (confirmed_intent at r) (fd_intents db)"
    using tables(1,3) by blast+
qed

locale settling =
  fixes ag :: "('l, 'v) aggregate"
  assumes completes: "ag_complete ag l r a at q db = Inr (db', True) \<Longrightarrow> fund_constraints db \<Longrightarrow> product_done r at db db'"
begin

lemma settles:
  assumes run: "settle_rows ag c m k db = Inr db'" and ok: "fund_constraints db" and r: "li_intent k \<in> set (fd_intents db)" "pending_intent (li_at k) (li_intent k)"
    and m: "confirmation_binding m = intent_binding (li_intent k)" "pm_confirmedAt m = li_at k"
  shows "money_move (money_of db) (money_of db')" "fund_constraints db'" "fd_confirmations db' = fd_confirmations db @ [m]"
    "pm_bankTransactionFingerprint m \<notin> pm_bankTransactionFingerprint ` set (fd_confirmations db)"
proof -
  let ?r = "li_intent k" let ?at = "li_at k"
  obtain db1 db2 where free: "pm_bankTransactionFingerprint m \<notin> pm_bankTransactionFingerprint ` set (fd_confirmations db)"
    and db1: "db1 = db\<lparr>fd_confirmations := fd_confirmations db @ [m]\<rparr>"
    and db2: "db2 = db1\<lparr>fd_intents := rows_update (\<lambda>x. pi_id x = pi_id ?r \<and> pending_intent ?at x) (confirmed_intent ?at) (fd_intents db1)\<rparr>" "fund_constraints db2"
    and done_: "ag_complete ag (li_lock k) ?r (mc_actor c) ?at (mc_requestId c) db2 = Inr (db', True)"
    using run unfolding settle_rows_def Let_def by (auto simp: result_iffs)
  have p: "product_done ?r ?at db2 db'" by (rule completes [OF done_ db2(2)])
  show "money_move (money_of db) (money_of db')" "fund_constraints db'" "fd_confirmations db' = fd_confirmations db @ [m]"
    by (rule paid_rows_move [OF ok r m db1 db2(1) p])+
  show "pm_bankTransactionFingerprint m \<notin> pm_bankTransactionFingerprint ` set (fd_confirmations db)" by (rule free)
qed

lemma confirm_rows_settle:
  assumes "lock_evidence cfg ports ag dw2 c e candidate db = Inr k" "confirm_rows cfg ag dw c e k recordId db = Inr (db', v)" "fund_constraints db"
  shows "money_move (money_of db) (money_of db')" "fund_constraints db'"
    "fd_confirmations db' = fd_confirmations db @ [manual_confirmation dw c e k]"
    "Some (li_bankFingerprint k) \<notin> pm_bankTransactionFingerprint ` set (fd_confirmations db)"
proof -
  let ?m = "manual_confirmation dw c e k"
  obtain db1 db2 db3 where pending: "pending_intent (li_at k) (li_intent k)" and rows: "settle_rows ag c ?m k db = Inr db1"
    and books: "bookkeeping db1 db2" "bookkeeping db2 db3" "bookkeeping db3 db'"
    using assms(2) unfolding confirm_rows_def Let_def by (auto simp: result_iffs dest: fund_statements)
  note b = bookkeeping_tables [OF bookkeeping_trans [OF bookkeeping_trans [OF books(1,2)] books(3)]]
  have at: "pm_confirmedAt ?m = li_at k" "pm_bankTransactionFingerprint ?m = Some (li_bankFingerprint k)" by (simp_all add: manual_confirmation_def)
  note s = settles [OF rows assms(3) manual_binding(2) [OF assms(1)] pending manual_binding(1) [OF assms(1)] at(1)]
  show "money_move (money_of db) (money_of db')" "fund_constraints db'" "fd_confirmations db' = fd_confirmations db @ [?m]"
    "Some (li_bankFingerprint k) \<notin> pm_bankTransactionFingerprint ` set (fd_confirmations db)"
    using s at(2) by (simp_all add: b)
qed

end

subsection \<open>Tips and orders keep the contract\<close>

lemma close_tip_done:
  assumes "close_tip s k u n at db = Inr (db', True)" "fund_constraints db" "pi_tipId r = Some k"
  shows "db' = db\<lparr>fd_tips := tips_after s at r (fd_tips db)\<rparr>" "fund_constraints db'"
proof -
  have keys: "distinct (map tp_id (fd_tips db))" using assms(2) by (simp add: fund_constraints_def tips_ok_def)
  have db': "db' = db\<lparr>fd_tips := rows_update (tip_open k u n) (closed_tip s at) (fd_tips db)\<rparr>" "fund_constraints db'"
    and one: "length (filter (tip_open k u n) (fd_tips db)) = 1"
    using assms(1) by (auto simp: close_tip_def result_iffs)
  have "filter (tip_open k u n) (fd_tips db) \<noteq> []" using one by auto
  then obtain t0 where t0: "t0 \<in> set (fd_tips db)" "tip_open k u n t0" by (auto simp: filter_empty_conv)
  have "tip_open k u n t \<longleftrightarrow> pi_tipId r = Some (tp_id t)" if "t \<in> set (fd_tips db)" for t
  proof (cases "tp_id t = tp_id t0")
    case True
    then have "t = t0" by (rule distinct_key_eq [OF keys that t0(1)])
    then show ?thesis using t0(2) assms(3) by (simp add: tip_open_def)
  next
    case False
    then show ?thesis using t0(2) assms(3) by (simp add: tip_open_def)
  qed
  then have "rows_update (tip_open k u n) (closed_tip s at) (fd_tips db) = tips_after s at r (fd_tips db)"
    by (simp add: rows_update_def tips_after_def)
  then show "db' = db\<lparr>fd_tips := tips_after s at r (fd_tips db)\<rparr>" by (simp only: db'(1))
  show "fund_constraints db'" by (rule db'(2))
qed

lemma tips_after_none [simp]: "pi_tipId r = None \<Longrightarrow> tips_after s at r t = t"
  by (simp add: tips_after_def rows_update_noop)

lemma tip_payment_ids: "isTipPayment r \<Longrightarrow> pi_tipId r = Some (the (pi_tipId r)) \<and> pi_commissionOrderId r = None"
  by (auto simp: isTipPayment_def split: option.splits)

lemma commission_payment_ids: "readPaymentPurpose r = Some (CommissionPayment k) \<Longrightarrow> pi_tipId r = None \<and> pi_commissionOrderId r = Some k"
  by (auto simp: readPaymentPurpose_def split: if_splits option.splits)

interpretation tips: settling "tip_aggregate cfg" for cfg
proof
  fix l :: unit and r a at q db db'
  assume run: "ag_complete (tip_aggregate cfg) l r a at q db = Inr (db', True)" and ok: "fund_constraints db"
  then have tip: "isTipPayment r" and done_: "close_tip TipCompleted (the (pi_tipId r)) (pi_creatorUserId r) (pi_amountVnd r) at db = Inr (db', True)"
    by (auto simp: tip_aggregate_def completeTip_def split: if_splits)
  show "product_done r at db db'"
    using close_tip_done [OF done_ ok conjunct1 [OF tip_payment_ids [OF tip]]] conjunct2 [OF tip_payment_ids [OF tip]]
    by (simp add: product_done_def confirmed_after_def)
qed

interpretation orders: settling "commission_aggregate cfg ports dw" for cfg ports dw
proof
  fix l r a at q db db'
  assume run: "ag_complete (commission_aggregate cfg ports dw) l r a at q db = Inr (db', True)" and ok: "fund_constraints db"
  have constraints: "order_constraints (fd_orders db)" using ok by (simp add: fund_constraints_def)
  obtain k o' where k: "readPaymentPurpose r = Some (CommissionPayment k)"
    and o': "confirmPayment (draw.truncate dw) l \<lparr>cf_orderId = k, cf_creatorUserId = pi_creatorUserId r, cf_at = at, cf_paymentIntentId = pi_id r,
        cf_amountVnd = pi_amountVnd r, cf_actor = Some a, cf_requestId = q\<rparr> (fd_orders db) = Inr (o', True)"
    and db': "db' = db\<lparr>fd_orders := o'\<rparr>" "fund_constraints db'"
    using run by (auto simp: commission_aggregate_def on_orders_def result_iffs split: option.splits payment_purpose.splits)
  show "product_done r at db db'"
    using confirm_sets(1) [OF o' constraints] commission_payment_ids [OF k] db' by (simp add: product_done_def confirmed_after_def)
qed

subsection \<open>Expiry\<close>

lemma expire_intent_effect:
  assumes run: "expire_intent cfg dw n q at r db = Inr db'" and ok: "fund_constraints db" and r: "r \<in> set (fd_intents db)"
  shows "money_move (money_of db) (money_of db')" "fund_constraints db'" "fd_intents db' = replace_intent (closed_intent None at r) (fd_intents db)"
proof -
  let ?hit = "\<lambda>x. pi_id x = pi_id r \<and> expired_intent at x"
  have keys: "distinct (map pi_id (fd_intents db))" using ok by (simp add: fund_constraints_def intents_ok_def)
  obtain k db1 db2 db3 k1 e1 k2 e2 where k: "pi_tipId r = Some k" and db1: "db1 = db\<lparr>fd_intents := rows_update ?hit (closed_intent None at) (fd_intents db)\<rparr>" "fund_constraints db1"
    and hit: "list_ex ?hit (fd_intents db)" and tip: "close_tip TipExpired k (pi_creatorUserId r) (pi_amountVnd r) at db1 = Inr (db2, True)"
    and writes: "fund_audit cfg k1 at e1 db2 = Inr db3" "fund_event cfg k2 at e2 db3 = Inr db'"
    using run unfolding expire_intent_def Let_def expireTip_def by (auto simp: result_iffs)
  note books = fund_statements(1) [OF writes(1)] fund_statements(2) [OF writes(2)]
  note b = bookkeeping_tables [OF bookkeeping_trans [OF books]]
  have exp: "expired_intent at r" using hit distinct_key_eq [OF keys _ r] by (auto simp: list_ex_iff)
  have "rows_update ?hit (closed_intent None at) (fd_intents db) = replace_intent (closed_intent None at r) (fd_intents db)"
    by (rule replace_rows [OF keys r]) (use exp in \<open>simp_all add: closed_intent_def\<close>)
  then have db2: "db2 = db\<lparr>fd_intents := replace_intent (closed_intent None at r) (fd_intents db), fd_tips := tips_after TipExpired at r (fd_tips db)\<rparr>"
      "fund_constraints db2"
    using close_tip_done [OF tip db1(2) k] by (simp_all add: db1(1))
  show "fund_constraints db'" "fd_intents db' = replace_intent (closed_intent None at r) (fd_intents db)" using db2 by (simp_all add: b)
  have "money_move (money_of db) (money_of db2)"
    by (rule move_closed [where r = r and reason = None and at = at, OF _ _ _ constraints_money [OF db2(2)]])
      (use r exp in \<open>simp_all add: money_of_def db2(1) expired_intent_def\<close>)
  then show "money_move (money_of db) (money_of db')" by (simp add: b)
qed

lemma expire_intents_effect:
  "expire_intents cfg dw n q at rs db = Inr db' \<Longrightarrow> fund_constraints db \<Longrightarrow> set rs \<subseteq> set (fd_intents db) \<Longrightarrow> distinct (map pi_id rs) \<Longrightarrow>
     rtranclp money_move (money_of db) (money_of db') \<and> fund_constraints db'"
proof (induction rs arbitrary: n db)
  case (Cons r rs)
  obtain db1 where one: "expire_intent cfg dw n q at r db = Inr db1" and rest: "expire_intents cfg dw (Suc n) q at rs db1 = Inr db'"
    using Cons.prems(1) by (auto simp: result_iffs)
  have r: "r \<in> set (fd_intents db)" using Cons.prems(3) by simp
  note e = expire_intent_effect [OF one Cons.prems(2) r]
  have keys: "distinct (map pi_id (fd_intents db))" using Cons.prems(2) by (simp add: fund_constraints_def intents_ok_def)
  have "x \<in> set (fd_intents db1)" if "x \<in> set rs" for x
  proof -
    have "pi_id x \<noteq> pi_id r" using Cons.prems(4) that by (simp add: image_iff) metis
    then show ?thesis using that Cons.prems(3) by (auto simp: e(3) replace_in [OF keys r] closed_intent_def)
  qed
  then have "rtranclp money_move (money_of db1) (money_of db') \<and> fund_constraints db'"
    using Cons.IH [OF rest e(2)] Cons.prems(4) by auto
  then show ?case using e(1) by (meson converse_rtranclp_into_rtranclp)
qed simp

lemma expiry_batch_rows:
  assumes "fund_constraints db"
  shows "set (expiry_batch skip at n db) \<subseteq> set (fd_intents db)" "distinct (map pi_id (expiry_batch skip at n db))"
proof -
  let ?p = "\<lambda>r. pi_purpose r = TipPurpose \<and> expired_intent at r \<and> \<not> skip (pi_id r)"
  let ?s = "sort_key (\<lambda>r. (pi_expiresAt r, pi_id r)) (filter ?p (fd_intents db))"
  have "distinct (map pi_id (fd_intents db))" using assms by (simp add: fund_constraints_def intents_ok_def)
  then have "distinct (map pi_id ?s)" by (auto simp: distinct_map intro: inj_on_subset)
  then show "distinct (map pi_id (expiry_batch skip at n db))" by (simp add: expiry_batch_def distinct_take flip: take_map)
  show "set (expiry_batch skip at n db) \<subseteq> set (fd_intents db)" by (auto simp: expiry_batch_def dest: in_set_takeD)
qed

subsection \<open>The calls of the orders\<close>

inductive payment_call :: "fund_db \<Rightarrow> fund_db \<Rightarrow> bool" where
  call_create: "commission_createIntent cfg dw ci db = Inr (db', k) \<Longrightarrow> payment_call db db'"
| call_claim: "commission_claimTransfer cfg dw k u at buyer q db = Inr (db', v) \<Longrightarrow> payment_call db db'"
| call_close: "closeIntent k u at reason db = Inr (db', b) \<Longrightarrow> payment_call db db'"

lemma close_intent_effect:
  assumes "closeIntent k u at reason db = Inr (db', b)" "fund_constraints db"
  shows "fund_constraints db' \<and> rtranclp money_move (money_of db) (money_of db')"
proof (cases "db' = db")
  case True
  then show ?thesis using assms(2) by simp
next
  case False
  have keys: "distinct (map pi_id (fd_intents db))" "list_all intent_check (fd_intents db)" using assms(2) by (simp_all add: fund_constraints_def intents_ok_def)
  obtain r where f: "commission_intent k u db = Some r" and open_: "pi_state r = AwaitingTransfer"
    and db': "db' = db\<lparr>fd_intents := rows_update (\<lambda>x. pi_id x = pi_id r) (closed_intent reason at) (fd_intents db)\<rparr>" "fund_constraints db'"
    using assms(1) False by (auto simp: closeIntent_def result_iffs split: option.splits if_splits)
  have r: "r \<in> set (fd_intents db)" "pi_purpose r = CommissionPurpose" using f by (auto simp: commission_intent_def dest: find_Some_in)
  then have "pi_tipId r = None" using keys(2) by (auto simp: list_all_iff intent_check_def purpose_check_def)
  moreover have "rows_update (\<lambda>x. pi_id x = pi_id r) (closed_intent reason at) (fd_intents db) = replace_intent (closed_intent reason at r) (fd_intents db)"
    by (rule replace_rows [OF keys(1) r(1)]) (simp_all add: closed_intent_def)
  ultimately have "money_move (money_of db) (money_of db')"
    by (intro move_closed [where r = r and reason = reason and at = at, OF _ _ _ constraints_money [OF db'(2)]])
      (use r open_ in \<open>simp_all add: money_of_def db'(1)\<close>)
  then show ?thesis using db'(2) by blast
qed

lemma claim_call_effect:
  assumes "commission_claimTransfer cfg dw k u at buyer q db = Inr (db', v)" "fund_constraints db"
  shows "fund_constraints db' \<and> money_of db' = money_of db"
proof (cases "db' = db")
  case False
  then obtain cs where db': "db' = db\<lparr>fd_claims := cs\<rparr>" "fund_constraints db'"
    using assms(1) by (auto simp: commission_claimTransfer_def result_iffs split: option.splits)
  have "money_of db' = money_of db" by (rule money_frame) (simp_all add: db'(1))
  then show ?thesis using db'(2) by blast
qed (use assms(2) in simp)

lemma payment_call_effect:
  assumes "payment_call db db'" "fund_constraints db"
  shows "fund_constraints db' \<and> rtranclp money_move (money_of db) (money_of db')"
  using assms(1)
proof cases
  case (call_create cfg dw ci k)
  then show ?thesis using commission_open_effect by blast
next
  case (call_claim cfg dw k u at buyer q v)
  then show ?thesis using claim_call_effect [OF _ assms(2)] by (metis rtranclp.rtrancl_refl)
next
  case (call_close k u at reason b)
  then show ?thesis by (rule close_intent_effect [OF _ assms(2)])
qed

lemma payment_calls_effect:
  "rtranclp payment_call db db' \<Longrightarrow> fund_constraints db \<Longrightarrow> fund_constraints db' \<and> rtranclp money_move (money_of db) (money_of db')"
  by (induction rule: rtranclp_induct) (auto dest: payment_call_effect intro: rtranclp_trans)

subsection \<open>The commands\<close>

lemma confirm_transaction_cases:
  assumes "confirm_transaction cfg ports ag dw c e db = Inr (db', v)"
  obtains (replay) candidate k ref where "bookkeeping db db'" "lock_evidence cfg ports ag dw c e candidate db' = Inr k"
      "replay_confirmation ag e k ref db' = Inr v"
  | (fresh) db0 candidate k recordId where "bookkeeping db db0" "lock_evidence cfg ports ag dw c e candidate db0 = Inr k"
      "confirm_rows cfg ag dw c e k recordId db0 = Inr (db', v)"
proof -
  obtain candidate bi db0 started where b: "fund_begin dw bi db = Inr (db0, started)"
    and rest: "(case started of
        Replay _ ref \<Rightarrow> await (lock_evidence cfg ports ag dw c e candidate db0) (\<lambda>k.
          await (replay_confirmation ag e k ref db0) (\<lambda>v. Inr (db0, v)))
      | Acquired recordId \<Rightarrow> await (lock_evidence cfg ports ag dw c e candidate db0) (\<lambda>k. confirm_rows cfg ag dw c e k recordId db0)
      | _ \<Rightarrow> Inl (TipPaymentError ''idempotency_conflict'')) = Inr (db', v)"
    using assms unfolding confirm_transaction_def Let_def by (simp only: result_iffs split_paired_Ex prod.case) blast
  note books = fund_statements(3) [OF b]
  show thesis
  proof (cases started)
    case (Acquired recordId)
    then show thesis using rest by (auto simp: result_iffs intro: fresh [OF books])
  next
    case (Replay i ref)
    then obtain k where "lock_evidence cfg ports ag dw c e candidate db0 = Inr k" "replay_confirmation ag e k ref db0 = Inr v" "db' = db0"
      using rest by (auto simp: result_iffs)
    then show thesis using replay books by blast
  qed (use rest in simp_all)
qed

lemma confirm_manual_Inr:
  assumes "confirm_manual cfg ports ag dws c db = Inr (db', v)"
  obtains n e where "manual_evidence cfg (ag_purpose (ag 0)) c = Inr e" "confirm_transaction cfg ports (ag n) (dws n) c e db = Inr (db', v)"
  using assms by (auto simp: confirm_manual_def result_iffs dest: retry_account_Inr)

context settling
begin

lemma transaction_effect:
  assumes "confirm_transaction cfg ports ag dw c e db = Inr (db', v)" "fund_constraints db"
  shows "fund_constraints db' \<and> rtranclp money_move (money_of db) (money_of db')"
  using assms(1)
proof (cases rule: confirm_transaction_cases)
  case (replay candidate k ref)
  then show ?thesis using assms(2) bookkeeping_tables(10,11) [OF replay(1)] by simp
next
  case (fresh db0 candidate k recordId)
  note b = bookkeeping_tables(10,11) [OF fresh(1)]
  have "fund_constraints db0" using assms(2) b(1) by simp
  note s = confirm_rows_settle(1,2) [OF fresh(2,3) this]
  show ?thesis using s b(2) by auto
qed

end

lemma report_effect:
  assumes "reportTransfer cfg ports dw reference access q earlier db = Inr (db', at)" "fund_constraints db"
  shows "fund_constraints db' \<and> money_of db' = money_of db"
proof (cases "db' = db")
  case False
  obtain cs db1 db2 k1 e1 k2 e2 t where db1: "db1 = db\<lparr>fd_claims := cs\<rparr>" "fund_constraints db1"
    and writes: "fund_audit cfg k1 t e1 db1 = Inr db2" "fund_event cfg k2 t e2 db2 = Inr db'"
    using assms(1) False by (auto simp: reportTransfer_def report_transfer_def result_iffs split: option.splits)
  note b = bookkeeping_tables(10,11) [OF bookkeeping_trans [OF fund_statements(1) [OF writes(1)] fund_statements(2) [OF writes(2)]]]
  have "money_of db1 = money_of db" by (rule money_frame) (simp_all add: db1(1))
  then show ?thesis using db1(2) b by simp
qed (use assms(2) in simp)

lemma expire_scan_effect:
  assumes "expireTipPaymentIntents cfg dw skip n now db = Inr (db', m)" "fund_constraints db"
  shows "fund_constraints db' \<and> rtranclp money_move (money_of db) (money_of db')"
proof (cases "db' = db")
  case False
  then have "expire_intents cfg dw 0 (dw_id dw 0) now (expiry_batch skip now (nat n) db) db = Inr db'"
    using assms(1) by (auto simp: expireTipPaymentIntents_def Let_def split: if_splits sum.splits)
  then show ?thesis using expire_intents_effect [OF _ assms(2) expiry_batch_rows [OF assms(2)]] by blast
qed (use assms(2) in simp)

text \<open>What a created tip adds: the tip \<open>t\<close>, its open intent \<open>r\<close>, and bookkeeping.\<close>

definition tip_added :: "fund_cfg \<Rightarrow> string \<Rightarrow> string \<Rightarrow> instant \<Rightarrow> fund_db \<Rightarrow> fund_db \<Rightarrow> tip_row \<Rightarrow> intent_row \<Rightarrow> bool" where
  "tip_added cfg creatorUserId abuseKeyHash at db db' t r \<longleftrightarrow> fund_constraints db' \<and> fd_tips db' = fd_tips db @ [t] \<and>
     fd_intents db' = fd_intents db @ [r] \<and> fd_confirmations db' = fd_confirmations db \<and> quiet (fd_orders db) (fd_orders db') \<and>
     tp_state t = TipAwaiting \<and> tip_owner r t \<and> pi_state r = AwaitingTransfer \<and> pi_creatorUserId r = creatorUserId \<and>
     pi_abuseKeyHash r = abuseKeyHash \<and> pi_expiresAt r = at + fc_intentTtlMs cfg \<and> pi_createdAt r = at"

lemma create_rows_effect:
  assumes "create_rows cfg dw creator c q at db = Inr (db', payment)"
  obtains t r where "tip_added cfg (el_creatorUserId creator) (tc_abuseKeyHash c) at db db' t r"
proof -
  let ?tc = "\<lparr>tn_tipId = dw_id dw 2, tn_creatorUserId = el_creatorUserId creator, tn_accountVersionId = el_receivingAccountVersionId creator,
      tn_amountVnd = tq_amountVnd q, tn_displayName = el_displayName creator, tn_handle = el_canonicalHandle creator,
      tn_guestContext = guest_of (tc_principal c), tn_abuseKeyHash = tc_abuseKeyHash c, tn_requestId = tc_requestId c, tn_at = at\<rparr>"
  obtain env db1 db2 db3 k1 e1 k2 e2 where
      db1: "db1 = db\<lparr>fd_tips := fd_tips db @ [new_tip creator c q (dw_id dw 2) env at]\<rparr>"
    and intent: "tip_createIntent cfg dw ?tc db1 = Inr (db2, payment)"
    and writes: "fund_audit cfg k1 at e1 db2 = Inr db3" "fund_event cfg k2 at e2 db3 = Inr db'"
    using assms unfolding create_rows_def Let_def by (auto simp: result_iffs)
  obtain r cs where r: "fund_constraints db2" "db2 = db1\<lparr>fd_intents := fd_intents db1 @ [r], fd_capabilities := fd_capabilities db1 @ cs\<rparr>"
      "pi_state r = AwaitingTransfer" "pi_tipId r = Some (dw_id dw 2)" "pi_creatorUserId r = el_creatorUserId creator" "pi_amountVnd r = tq_amountVnd q"
      "pi_abuseKeyHash r = tc_abuseKeyHash c" "pi_expiresAt r = at + fc_intentTtlMs cfg" "pi_createdAt r = at"
    by (rule tip_open_effect [OF intent]) simp
  note b = bookkeeping_tables [OF bookkeeping_trans [OF fund_statements(1) [OF writes(1)] fund_statements(2) [OF writes(2)]]]
  show thesis
  proof (rule that)
    have "quiet (fd_orders db) (fd_orders db')" by (rule quiet_frame) (simp add: b(9) r(2) db1)
    then show "tip_added cfg (el_creatorUserId creator) (tc_abuseKeyHash c) at db db' (new_tip creator c q (dw_id dw 2) env at) r"
      using r(1,3-9) by (simp add: tip_added_def b tip_owner_def new_tip_def) (simp add: r(2) db1 new_tip_def)
  qed
qed

lemma create_transaction_cases:
  assumes "create_transaction cfg ports dw c q db = Inr (db', payment)"
  obtains (replay) "bookkeeping db db'"
  | (fresh) db0 db1 creator t r where "bookkeeping db db0" "bookkeeping db1 db'"
      "eligible_creator ports (tc_canonicalHandle c) = Inr creator"
      "assertOpenCapacity cfg (el_creatorUserId creator) (tc_abuseKeyHash c) (dw_clock dw 1) db0 = Inr ()"
      "tip_added cfg (el_creatorUserId creator) (tc_abuseKeyHash c) (dw_clock dw 1) db0 db1 t r"
proof -
  obtain bi db0 started where b: "fund_begin dw bi db = Inr (db0, started)"
    and rest: "(case started of
       Replay _ ref \<Rightarrow> await (replay_tip cfg ports dw c q ref db0) (\<lambda>payment. Inr (db0, payment))
     | Acquired recordId \<Rightarrow>
         await (eligible_creator ports (tc_canonicalHandle c)) (\<lambda>creator.
         await (active_buyer ports (buyer_of (tc_principal c))) (\<lambda>_.
         await (fund_now dw 1) (\<lambda>at.
         await (need (dw_clock dw 0 \<le> at) ''dependency_unavailable'') (\<lambda>_.
         await (need (el_minimumVnd creator \<le> tq_amountVnd q \<and> tq_amountVnd q \<le> el_maximumVnd creator) ''policy_changed'') (\<lambda>_.
         await (assertOpenCapacity cfg (el_creatorUserId creator) (tc_abuseKeyHash c) at db0) (\<lambda>_.
         await (create_rows cfg dw creator c q at db0) (\<lambda>(db1, payment).
         await (fund_complete cfg recordId (created_reference (dw_id dw 2)) at db1) (\<lambda>db2. Inr (db2, payment)))))))))
     | _ \<Rightarrow> Inl (TipPaymentError ''idempotency_conflict'')) = Inr (db', payment)"
    using assms unfolding create_transaction_def Let_def by (simp only: result_iffs split_paired_Ex prod.case fund_now_Inr) blast
  note books = fund_statements(3) [OF b]
  show thesis
  proof (cases started)
    case (Acquired recordId)
    then obtain creator db1 where e: "eligible_creator ports (tc_canonicalHandle c) = Inr creator"
        "assertOpenCapacity cfg (el_creatorUserId creator) (tc_abuseKeyHash c) (dw_clock dw 1) db0 = Inr ()"
        "create_rows cfg dw creator c q (dw_clock dw 1) db0 = Inr (db1, payment)"
        "fund_complete cfg recordId (created_reference (dw_id dw 2)) (dw_clock dw 1) db1 = Inr db'"
      using rest by (auto simp: result_iffs)
    obtain t r where "tip_added cfg (el_creatorUserId creator) (tc_abuseKeyHash c) (dw_clock dw 1) db0 db1 t r"
      using create_rows_effect [OF e(3)] .
    then show thesis by (rule fresh [OF books fund_statements(4) [OF e(4)] e(1,2)])
  next
    case (Replay i ref)
    then have "db' = db0" using rest by (auto simp: result_iffs)
    then show thesis using replay books by blast
  qed (use rest in simp_all)
qed

lemma tip_added_move:
  assumes "tip_added cfg u h at db db' t r"
  shows "money_move (money_of db) (money_of db')"
  by (rule move_opened [where r = r and ts = "[t]", OF _ _ _ constraints_money])
    (use assms in \<open>simp_all add: tip_added_def money_of_def quiet_def tip_owner_def\<close>)

lemma create_transaction_effect:
  assumes "create_transaction cfg ports dw c q db = Inr (db', payment)" "fund_constraints db"
  shows "fund_constraints db' \<and> rtranclp money_move (money_of db) (money_of db')"
  using assms(1)
proof (cases rule: create_transaction_cases)
  case replay
  then show ?thesis using assms(2) bookkeeping_tables(10,11) [OF replay] by simp
next
  case (fresh db0 db1 creator t r)
  have "fund_constraints db1" using fresh(5) by (simp add: tip_added_def)
  then show ?thesis
    using tip_added_move [OF fresh(5)] bookkeeping_tables(10,11) [OF fresh(1)] bookkeeping_tables(10,11) [OF fresh(2)] by auto
qed

lemma createTip_Inr:
  assumes "createTip cfg ports dws c db = Inr (db', payment)"
  obtains n q where "tip_request_of cfg c = Inr q" "create_transaction cfg ports (dws n) c q db = Inr (db', payment)"
  using assms by (auto simp: createTip_def result_iffs dest: retry_account_Inr)

subsection \<open>The whole\<close>

text \<open>An order command brings its calls on the payment port; \<open>step_others\<close> stands for the services that keep
  receiving accounts and bank connections.\<close>

inductive fund_step :: "fund_db \<Rightarrow> fund_db \<Rightarrow> bool" where
  step_create: "createTip cfg ports dws tc db = Inr (db', payment) \<Longrightarrow> fund_step db db'"
| step_confirm_tip: "confirmTip cfg mports dws mc db = Inr (db', kt) \<Longrightarrow> fund_step db db'"
| step_confirm_order: "confirmCommission cfg mports dws mc db = Inr (db', pj) \<Longrightarrow> fund_step db db'"
| step_report: "reportTransfer cfg mports dw reference access q earlier db = Inr (db', at) \<Longrightarrow> fund_step db db'"
| step_expire: "expireTipPaymentIntents cfg dw skip n now db = Inr (db', m) \<Longrightarrow> fund_step db db'"
| step_order: "order_command_step (fd_orders db) o' \<Longrightarrow> keep (db\<lparr>fd_orders := o'\<rparr>) = Inr db1 \<Longrightarrow> rtranclp payment_call db1 db' \<Longrightarrow> fund_step db db'"
| step_others: "keep (db\<lparr>fd_accounts := accounts, fd_cutovers := cutovers, fd_connections := connections\<rparr>) = Inr db' \<Longrightarrow> fund_step db db'"

lemma fund_step_effect:
  assumes "fund_step db db'" "fund_constraints db"
  shows "fund_constraints db' \<and> rtranclp money_move (money_of db) (money_of db')"
  using assms(1)
proof cases
  case (step_create cfg ports dws tc payment)
  then show ?thesis by (rule createTip_Inr) (rule create_transaction_effect [OF _ assms(2)])
next
  case (step_confirm_tip cfg mports dws mc kt)
  then show ?thesis unfolding confirmTip_def by (rule confirm_manual_Inr) (rule tips.transaction_effect [OF _ assms(2)])
next
  case (step_confirm_order cfg mports dws mc pj)
  then show ?thesis unfolding confirmCommission_def by (rule confirm_manual_Inr) (rule orders.transaction_effect [OF _ assms(2)])
next
  case (step_report cfg mports dw reference access q earlier at)
  then show ?thesis using report_effect [OF _ assms(2)] by fastforce
next
  case (step_expire cfg dw skip n now m)
  then show ?thesis by (rule expire_scan_effect [OF _ assms(2)])
next
  case (step_order o' db1)
  have "order_constraints (fd_orders db)" using assms(2) by (simp add: fund_constraints_def)
  then have q: "quiet (fd_orders db) o'" by (rule command_step_quiet [OF step_order(1)])
  have db1: "db1 = db\<lparr>fd_orders := o'\<rparr>" "fund_constraints db1" using step_order(2) by auto
  have "money_of db1 = money_of db" by (rule money_frame) (simp_all add: db1(1) q)
  then show ?thesis using payment_calls_effect [OF step_order(3) db1(2)] by simp
next
  case (step_others connections cutovers accounts)
  then have db': "db' = db\<lparr>fd_accounts := accounts, fd_cutovers := cutovers, fd_connections := connections\<rparr>" "fund_constraints db'" by auto
  have "money_of db' = money_of db" by (rule money_frame) (simp_all add: db'(1))
  then show ?thesis using db'(2) by simp
qed

text \<open>A database before the first payment.\<close>

definition no_payments :: "fund_db \<Rightarrow> bool" where
  "no_payments db \<longleftrightarrow> fund_constraints db \<and> no_orders (fd_orders db) \<and> fd_tips db = [] \<and> fd_intents db = [] \<and> fd_confirmations db = []"

definition fund_inv :: "fund_db \<Rightarrow> bool" where
  "fund_inv db \<longleftrightarrow> fund_constraints db \<and> agrees (money_of db)"

lemma start_agrees: "no_payments db \<Longrightarrow> fund_inv db"
  using constraints_money [of db]
  by (auto simp: no_payments_def fund_inv_def agrees_def money_of_def confirmed_at_def view_def no_orders_def dom_def)

interpretation fund: simulation no_payments fund_step fund_inv money_of money_move
proof
  show "no_payments db \<Longrightarrow> fund_inv db" for db by (rule start_agrees)
  show "fund_inv db'" if "fund_step db db'" "fund_inv db" for db db'
    using fund_step_effect [OF that(1)] that(2) moves_agree by (auto simp: fund_inv_def)
  show "rtranclp money_move (money_of db) (money_of db')" if "fund_step db db'" "fund_inv db" for db db'
    using fund_step_effect [OF that(1)] that(2) by (auto simp: fund_inv_def)
qed

end
