(* ===== verification/FundSnapshot.thy ===== *)
theory FundSnapshot
  imports FundSteps
begin

text \<open>
  What is sealed is read back: the destination of an intent, opened from its row, is the one its writer
  put there, so what the payer is told after the account changed is what he was told before.
\<close>

subsection \<open>Sealed texts\<close>

lemma fund_seal_opens:
  assumes "platform_laws (fc_platform cfg)" "keyring_ok (fc_keyring cfg)" "length nonce = 12" "fund_seal cfg nonce rt k f p = Inr e"
  shows "fund_open cfg rt k f e = Inr p"
proof -
  have "decryptSensitiveField (fc_platform cfg) (fc_keyring cfg) \<lparr>fb_recordType = rt, fb_recordId = k, fb_fieldName = f\<rparr> None e = Inr p"
    using assms by (intro open_envelope) (simp_all add: fund_seal_def seal_text_def keyring_ok_def)
  then show ?thesis by (simp add: fund_open_def)
qed

lemma collapse_length: "length (collapse_spaces b s) \<le> length s"
  by (induction b s rule: collapse_spaces.induct) (auto intro: le_SucI)

lemma trimStart_shrinks: "length (trimStart s) = length s \<Longrightarrow> trimStart s = s"
  using trimStart_suffix [of s] by (metis append_self_conv2 length_append add_cancel_left_left length_0_conv)

lemma trim_shrinks:
  assumes "length (trim s) = length s"
  shows "trim s = s"
proof -
  have "length (trim s) \<le> length (trimStart s)" using trimStart_length [of "rev (trimStart s)"] by (simp add: trim_def)
  then have "length (trimStart s) = length s" using assms trimStart_length [of s] by simp
  then have s: "trimStart s = s" by (rule trimStart_shrinks)
  then have "length (trimStart (rev s)) = length (rev s)" using assms by (simp add: trim_def)
  then have "trimStart (rev s) = rev s" by (rule trimStart_shrinks)
  then show ?thesis using s by (simp add: trim_def)
qed

lemma label_trimmed:
  assumes "holder_label_ok s"
  shows "trim s = s" "2 \<le> length s" "length s \<le> 100"
proof -
  have "collapse_spaces False (trim s) = s" "2 \<le> length s" "length s \<le> 100" using assms by (simp_all add: holder_label_ok_def)
  then have "length s \<le> length (trim s)" using collapse_length [of False "trim s"] by simp
  then show "trim s = s" using trim_length [of s] by (intro trim_shrinks) simp
qed (use assms in \<open>simp_all add: holder_label_ok_def\<close>)

subsection \<open>The destination\<close>

lemma snapshot_keys:
  "sort (remdups [''version'', ''bankBin'', ''bankName'', ''accountNumber'', ''accountName'', ''creator'']) =
     [''accountName'', ''accountNumber'', ''bankBin'', ''bankName'', ''creator'', ''version'']"
  "sort (remdups [''displayName'', ''handle'']) = [''displayName'', ''handle'']"
  by code_simp+

lemma snapshot_reads:
  assumes "destination_ok (sn_bankBin s) (sn_bankName s) (sn_accountNumber s) (sn_accountName s)"
    and "1 \<le> length (sn_displayName s)" "length (sn_displayName s) \<le> 80" "handle_ok (sn_handle s)"
  shows "snapshot_of (snapshot_json s) = Some s"
proof -
  have "creator_of [(''version'', JNum 1), (''bankBin'', JStr (sn_bankBin s)), (''bankName'', JStr (sn_bankName s)),
     (''accountNumber'', JStr (sn_accountNumber s)), (''accountName'', JStr (sn_accountName s)),
     (''creator'', JObj [(''displayName'', JStr (sn_displayName s)), (''handle'', JStr (sn_handle s))])] = Some (sn_displayName s, sn_handle s)"
    using assms(2-4) snapshot_keys(2) by (simp add: creator_of_def sorted_keys_def text_field_def del: remdups.simps One_nat_def)
  then show ?thesis using assms(1) snapshot_keys(1)
    by (simp add: snapshot_of_def snapshot_json_def sorted_keys_def text_field_def del: remdups.simps)
qed

lemma found_destination:
  assumes "lockTipReceivingDestination cfg dw u at db = Inr (Some d)"
  shows "destination_ok (ds_bankBin d) (ds_bankName d) (ds_accountNumber d) (ds_accountName d)"
proof -
  obtain a where a: "receiving_destination cfg a at = Some d"
    using assms by (auto simp: lockTipReceivingDestination_def result_iffs split: option.splits)
  then obtain e1 e2 where "open_destination cfg a e1 e2 = Some d"
    by (auto simp: receiving_destination_def split: option.splits if_splits)
  then show ?thesis
    by (auto simp: open_destination_def destination_ok_def dest: label_trimmed split: sum.splits if_splits)
qed

lemma written_envelopes:
  assumes "written cfg dw c d settlement e amountVnd r reference"
  shows "is_reference reference" "fund_digest cfg ''tip-transfer-reference'' reference = Inr (pi_referenceHash r)"
    "\<exists>n. fund_seal cfg (dw_nonce dw n) ''payment_intents'' (pi_id r) ''transfer_reference'' reference = Inr (pi_referenceEnvelope r)"
  using assms by (auto simp: written_def new_intent_def)

end
