(* ===== verification/FundSample.thy ===== *)
theory FundSample
  imports FundSnapshot OrderSample
begin

text \<open>
  A concrete run of the payment services, used by the witnesses: a member tips a creator, the creator
  confirms the transfer. The platform is \<open>toy_platform\<close>, under whose keyed hash all texts have the
  same fingerprint; the run has one account, one tip and one bank transaction.
\<close>

subsection \<open>The setting\<close>

definition fund_sample_cfg :: fund_cfg where
  "fund_sample_cfg = \<lparr>fc_platform = toy_platform, fc_keyring = DepositSample.sample_keyring, fc_lookupHmacKey = sample_key,
     fc_applicationRevision = ''rev-1'', fc_paymentsMode = ManualOnly, fc_intentTtlMs = 3600000, fc_guestReceiptTtlMs = 3600000,
     fc_openIpLimit = 2, fc_openCreatorLimit = 5, fc_recentAuthMs = 600000, fc_mfaAuthMs = 600000, fc_idempotencyTtlMs = 86400000,
     fc_publishing = True\<rparr>"

definition tip_account :: account_row where
  "tip_account = \<lparr>ac_id = order_uuid (CHR ''a''), ac_onboardingId = ''onb-1'', ac_applicantUserId = ''creator-1'', ac_version = 1,
     ac_bankBin = ''970436'', ac_bankName = ''Vietcombank'', ac_accountNumberEnvelope = Some (sample_envelope ''0123456789''),
     ac_accountHolderLabelEnvelope = Some (sample_envelope ''NGUYEN AN''), ac_maskedSuffix = mask_prefix @ ''6789'',
     ac_accountFingerprint = sample_mac, ac_proofState = ProofVerified, ac_proofVerifiedAt = Some 0, ac_retiredAt = None,
     ac_minimizedAt = None, ac_createdAt = 0, ac_updatedAt = 0\<rparr>"

definition tip_destination :: destination where
  "tip_destination = \<lparr>ds_accountVersionId = order_uuid (CHR ''a''), ds_bankBin = ''970436'', ds_bankName = ''Vietcombank'',
     ds_accountNumber = ''0123456789'', ds_accountName = ''NGUYEN AN'', ds_accountFingerprint = sample_mac\<rparr>"

definition fund_sample_draw :: "char \<Rightarrow> fund_draw" where
  "fund_sample_draw x = \<lparr>dw_clock = (\<lambda>_. 1000), dw_id = (\<lambda>_. order_uuid x), dw_nonce = (\<lambda>_. replicate 12 (CHR ''n'')),
     dw_seen = (\<lambda>u. if u = ''creator-1'' then Some tip_account else None), dw_reference = (\<lambda>_. ''PW0123456789ABCDEF0123'')\<rparr>"

text \<open>The database of the run, by what changes.\<close>

definition fund_stage ::
  "idem_table \<Rightarrow> audit_row list \<Rightarrow> outbox_row list \<Rightarrow> tip_row list \<Rightarrow> intent_row list \<Rightarrow> confirmation_row list \<Rightarrow> fund_db" where
  "fund_stage t au ob tips intents confirmations =
     \<lparr>fd_orders = empty_orders\<lparr>od_idem := t, od_audit := au, od_outbox := ob\<rparr>, fd_tips = tips, fd_intents = intents,
      fd_capabilities = [], fd_claims = [], fd_confirmations = confirmations, fd_accounts = [tip_account], fd_cutovers = [], fd_connections = []\<rparr>"

lemma fund_stage_simps [simp]:
  "fd_tips (fund_stage t au ob ts is ms) = ts" "fd_intents (fund_stage t au ob ts is ms) = is" "fd_confirmations (fund_stage t au ob ts is ms) = ms"
  "fd_capabilities (fund_stage t au ob ts is ms) = []" "fd_claims (fund_stage t au ob ts is ms) = []"
  "fd_accounts (fund_stage t au ob ts is ms) = [tip_account]" "fd_cutovers (fund_stage t au ob ts is ms) = []"
  "od_idem (fd_orders (fund_stage t au ob ts is ms)) = t" "od_audit (fd_orders (fund_stage t au ob ts is ms)) = au"
  "od_outbox (fd_orders (fund_stage t au ob ts is ms)) = ob"
  "(fund_stage t au ob ts is ms)\<lparr>fd_tips := ts'\<rparr> = fund_stage t au ob ts' is ms"
  "(fund_stage t au ob ts is ms)\<lparr>fd_intents := is'\<rparr> = fund_stage t au ob ts is' ms"
  "(fund_stage t au ob ts is ms)\<lparr>fd_confirmations := ms'\<rparr> = fund_stage t au ob ts is ms'"
  "(fund_stage t au ob ts is ms)\<lparr>fd_orders := (fd_orders (fund_stage t au ob ts is ms))\<lparr>od_idem := t'\<rparr>\<rparr> = fund_stage t' au ob ts is ms"
  "(fund_stage t au ob ts is ms)\<lparr>fd_orders := (fd_orders (fund_stage t au ob ts is ms))\<lparr>od_audit := au'\<rparr>\<rparr> = fund_stage t au' ob ts is ms"
  "(fund_stage t au ob ts is ms)\<lparr>fd_orders := (fd_orders (fund_stage t au ob ts is ms))\<lparr>od_outbox := ob'\<rparr>\<rparr> = fund_stage t au ob' ts is ms"
  by (simp_all add: fund_stage_def)

lemma fund_stage_constraints:
  "fund_constraints (fund_stage t au ob ts is ms) \<longleftrightarrow>
     tips_ok ts \<and> intents_ok is \<and> confirmations_ok ms \<and> fund_references_ok (fund_stage t au ob ts is ms)"
proof -
  have "masked_ok (mask_prefix @ ''6789'')" "bank_bin_ok ''970436''" by code_simp+
  then have "accounts_ok [tip_account]" using sample_mac_digest by (simp add: accounts_ok_def account_check_def tip_account_def)
  moreover have "order_constraints (empty_orders\<lparr>od_idem := t, od_audit := au, od_outbox := ob\<rparr>)"
    by (simp add: order_constraints_def order_references_ok_def orders_ok_def reservations_ok_def events_ok_def submissions_ok_def quotes_ok_def
        snapshots_ok_def pauses_ok_def acceptances_ok_def empty_orders_def)
  ultimately show ?thesis by (auto simp: fund_constraints_def fund_stage_def capabilities_ok_def claims_ok_def)
qed

lemma fund_start: "no_payments (fund_stage [] [] [] [] [] [])"
proof -
  have "fund_constraints (fund_stage [] [] [] [] [] [])"
    by (simp add: fund_stage_constraints tips_ok_def intents_ok_def confirmations_ok_def unique_where_def fund_references_ok_def)
  then show ?thesis using empty_orders_start by (simp add: no_payments_def) (simp add: fund_stage_def no_orders_def)
qed

subsection \<open>Hashes and texts\<close>

lemma fund_sample_digest:
  assumes "hash_domain context" "v \<noteq> []" "length v \<le> 8192"
  shows "fund_digest fund_sample_cfg context v = Inr sample_mac"
  using sample_hmac [OF assms] by (simp add: fund_digest_def fund_sample_cfg_def)

lemma fund_domains: "hash_domain ''tip-create-actor''" "hash_domain ''tip-create-command-key''" "hash_domain ''tip-create-command''"
  "hash_domain ''tip-transfer-reference''" "hash_domain ''tip-bank-transaction''" "hash_domain ''tip-confirm-command-key''"
  "hash_domain ''tip-confirm-command''" "hash_domain ''receiving-account''"
  by code_simp+

lemma fund_sample_seals:
  assumes "binding_name_ok rt" "binding_name_ok f" "leading_alnum is_ident 199 k" "p \<noteq> []" "length p \<le> 16384" "nonce = replicate 12 (CHR ''n'')"
  shows "fund_seal fund_sample_cfg nonce rt k f p = Inr (sample_envelope p)" "fund_open fund_sample_cfg rt k f (sample_envelope p) = Inr p"
proof -
  have "key_id_ok ''k1''" by code_simp
  then show s: "fund_seal fund_sample_cfg nonce rt k f p = Inr (sample_envelope p)"
    using assms
    by (simp add: fund_seal_def seal_text_def encryptSensitiveField_def fund_sample_cfg_def DepositSample.sample_keyring_def keyFor_def plaintextLimit_def
        toy_platform_def sample_envelope_def sample_key_def isSafeInteger_def max_safe_integer_def fieldAad_def validateBinding_def split_beta)
  show "fund_open fund_sample_cfg rt k f (sample_envelope p) = Inr p"
    by (rule fund_seal_opens [OF _ _ _ s])
      (use toy_platform_laws createEncryptionKeyring_ok [OF sample_keyrings(1)] assms(6) in \<open>simp_all add: fund_sample_cfg_def DepositSample.sample_keyring_def\<close>)
qed

lemma fund_names: "binding_name_ok ''payments_receiving_account''" "binding_name_ok ''account_number''" "binding_name_ok ''account_holder_label''"
  "binding_name_ok ''payment_intents''" "binding_name_ok ''destination''" "binding_name_ok ''transfer_reference''" "binding_name_ok ''tips''"
  "binding_name_ok ''guest_content''" "leading_alnum is_ident 199 (order_uuid (CHR ''1''))" "leading_alnum is_ident 199 (order_uuid (CHR ''a''))"
  by code_simp+

subsection \<open>Statements that succeed\<close>

lemma fund_sample_audit:
  assumes "list_all auditIdentifier [ne_actorUserId e, ne_subjectType e, ne_subjectId e, ne_action e, ne_applicationRevision e, ne_requestId e]"
    and "pred_option auditIdentifier (ne_actorSessionId e)" "ne_reasonCode e = None" "ne_occurredAt e = Some (Some at)"
    and "pred_option (assertSafeValue (pf_parse_url toy_platform)) (ne_beforeState e)" "pred_option (assertSafeValue (pf_parse_url toy_platform)) (ne_afterState e)"
    and "assertSafeValue (pf_parse_url toy_platform) (ne_assurance e)" "k \<notin> au_id ` set au"
  shows "\<exists>a. fund_audit fund_sample_cfg k at e (fund_stage t au ob ts is ms) = Inr (fund_stage t (au @ [a]) ob ts is ms) \<and> au_id a = k"
proof -
  let ?db = "fund_stage t au ob ts is ms"
  have "\<exists>a. order_audit sample_order_cfg k at e (fd_orders ?db) = Inr ((fd_orders ?db)\<lparr>od_audit := od_audit (fd_orders ?db) @ [a]\<rparr>) \<and> au_id a = k"
    by (rule order_audit_appends) (use assms in \<open>simp_all add: sample_order_cfg_def\<close>)
  then obtain a where a: "order_audit sample_order_cfg k at e (fd_orders ?db) = Inr ((fd_orders ?db)\<lparr>od_audit := au @ [a]\<rparr>)" "au_id a = k" by auto
  then obtain y where y: "appendAdminAuditEvent (pf_parse_url toy_platform) k at e au = Inr y" "fst y = au @ [a]"
    by (auto simp: order_audit_def result_iffs sample_order_cfg_def dest: arg_cong [where f = od_audit])
  have "fund_audit fund_sample_cfg k at e ?db = Inr (fund_stage t (au @ [a]) ob ts is ms)"
    using y by (simp add: fund_audit_def fund_sample_cfg_def other_def split_beta)
  then show ?thesis using a(2) by blast
qed

lemma fund_sample_event:
  assumes "assertSafeValue (pf_parse_url toy_platform) (ev_payload e)" "k \<notin> ob_id ` set ob"
  shows "\<exists>x. fund_event fund_sample_cfg k at e (fund_stage t au ob ts is ms) = Inr (fund_stage t au (ob @ [x]) ts is ms) \<and> ob_id x = k"
  using assms by (auto simp: fund_event_def insertOutboxEvent_def canonicalize_plain other_def Let_def fund_sample_cfg_def)

lemma fund_sample_begin:
  assumes "is_identifier actor" "is_identifier scope" "(actor, scope, sample_mac) \<notin> idem_key ` set t" "order_uuid x \<notin> ir_id ` set t" "1000 < expires"
  shows "\<exists>r. fund_begin (fund_sample_draw x) \<lparr>bi_actorUserId = actor, bi_commandScope = scope, bi_keyHash = sample_mac,
       bi_requestFingerprint = sample_mac, bi_expiresAt = expires, bi_now = 1000\<rparr> (fund_stage t au ob ts is ms) =
      Inr (fund_stage (t @ [r]) au ob ts is ms, Acquired (order_uuid x)) \<and>
    ir_id r = order_uuid x \<and> ir_status r = InProgress \<and> ir_expiresAt r = expires \<and> idem_key r = (actor, scope, sample_mac)"
  using assms sample_mac_digest(2)
  by (auto simp: fund_begin_def beginIdempotentCommand_def other_def input_key_def idem_key_def fund_sample_draw_def)

lemma fund_sample_complete:
  assumes "k \<notin> ir_id ` set t" "ir_id r = k" "ir_status r = InProgress" "is_identifier ref" "at < ir_expiresAt r"
  shows "fund_complete fund_sample_cfg k ref at (fund_stage (t @ [r]) au ob ts is ms) =
    Inr (fund_stage (t @ [r\<lparr>ir_status := Completed, ir_resultReference := Some ref, ir_completedAt := Some at\<rparr>]) au ob ts is ms)"
  using assms by (simp add: fund_complete_def complete_last other_def need_def require_def)

subsection \<open>The destination and the instruction\<close>

lemma tip_destination_facts:
  "isVietQrDestinationSupported ''970436'' ''0123456789'' VIETQR_RECEIVING_BANKS"
  "map_of VIETQR_RECEIVING_BANKS ''970436'' = Some ''Vietcombank''" "holder_label_ok ''NGUYEN AN''" "is_reference ''PW0123456789ABCDEF0123''"
  "handle_ok ''an-art''" "trim ''970436'' = ''970436''" "trim ''0123456789'' = ''0123456789''" "bank_bin_ok ''970436''"
  "repeats is_digit 6 20 ''0123456789''" "length (stringify (JArr [JStr ''receiving-account-v1'', JStr ''970436'', JStr ''0123456789''])) \<le> 8192"
  by code_simp+

lemma fund_sample_destination:
  "lockTipReceivingDestination fund_sample_cfg (fund_sample_draw x) ''creator-1'' 1000 (fund_stage t au ob ts is ms) = Inr (Some tip_destination)"
proof -
  note opens = fund_sample_seals(2) [OF fund_names(1) _ fund_names(10) _ _ refl]
  have "fund_open fund_sample_cfg ''payments_receiving_account'' (order_uuid (CHR ''a'')) ''account_number'' (sample_envelope ''0123456789'') = Inr ''0123456789''"
    "fund_open fund_sample_cfg ''payments_receiving_account'' (order_uuid (CHR ''a'')) ''account_holder_label'' (sample_envelope ''NGUYEN AN'') = Inr ''NGUYEN AN''"
    using fund_names(2,3) by (simp_all add: opens)
  moreover have "account_fingerprint fund_sample_cfg ''970436'' ''0123456789'' = Some sample_mac"
    using fund_sample_digest [OF fund_domains(8) _ tip_destination_facts(10)] tip_destination_facts(6-9) by (simp add: account_fingerprint_def del: stringify.simps)
      simp
  ultimately have "receiving_destination fund_sample_cfg tip_account 1000 = Some tip_destination"
    using tip_destination_facts(1-3)
    by (simp add: receiving_destination_def open_destination_def tip_account_def account_usable_def tip_destination_def)
  then show ?thesis using sample_mac_digest(1)
    by (simp add: lockTipReceivingDestination_def lockPaymentAccountLineage_def current_account_def fund_sample_draw_def hmac_text_def Let_def) (simp add: tip_account_def hmac_text_def)
qed

lemma fund_sample_settlement:
  "lockTipSettlementBinding (fc_paymentsMode fund_sample_cfg) tip_destination u (fund_stage t au ob ts is ms) = Some (ManualAttested, None)"
  by (simp add: lockTipSettlementBinding_def fund_sample_cfg_def isTipPaymentsEnabled_def)

lemma fund_sample_qr: "\<exists>i. qr_instruction ''970436'' ''0123456789'' 20000 ''PW0123456789ABCDEF0123'' = Inr i"
proof -
  have "trim ''PW0123456789ABCDEF0123'' = ''PW0123456789ABCDEF0123''" "alnum_words False ''PW0123456789ABCDEF0123''" by code_simp+
  then show ?thesis using tip_destination_facts(1)
    by (simp add: qr_instruction_def createVietQrTransferInstruction_def VIETQR_RECEIVING_BANKS_def requireIntegerVnd_def
        isSafeInteger_def max_safe_integer_def VIETQR_MAX_AMOUNT_VND_def VIETQR_MAX_REFERENCE_LENGTH_def Let_def
        del: alnum_words.simps)
qed

subsection \<open>A member tips\<close>

definition tip_creator :: eligibility where
  "tip_creator = \<lparr>el_creatorUserId = ''creator-1'', el_pageId = order_uuid (CHR ''b''), el_publicationRevisionId = order_uuid (CHR ''c''),
     el_canonicalHandle = ''an-art'', el_displayName = ''An'', el_settingRevisionId = order_uuid (CHR ''2''),
     el_receivingAccountVersionId = order_uuid (CHR ''a''), el_minimumVnd = 10000, el_maximumVnd = 500000, el_presetsVnd = [20000, 50000, 100000],
     el_platformPolicyRevisionId = order_uuid (CHR ''3'')\<rparr>"

definition fund_sample_ports :: tip_ports where
  "fund_sample_ports = \<lparr>fp_assurance = (\<lambda>_ _. Inr (Some \<lparr>as_primaryAuthenticatedAt = 500, as_mfaEnrolled = False, as_mfaVerifiedAt = None,
       as_sessionExpiresAt = 5000\<rparr>)), fp_authorizeCommand = (\<lambda>_. Inr ()), fp_buyerActive = (\<lambda>_. Inr True), fp_claimRateLimit = (\<lambda>_. Inr True),
     fp_orders = sample_ports, fp_tipEligibility = (\<lambda>_. Inr (Some tip_creator)), fp_existingEligibility = (\<lambda>_. Inr None)\<rparr>"

definition sample_tip :: tip_command where
  "sample_tip = \<lparr>tc_principal = Member ''buyer-1'', tc_canonicalHandle = ''an-art'', tc_amountVnd = 20000,
     tc_content = \<lparr>gc_name = None, gc_message = None\<rparr>, tc_abuseKeyHash = sample_mac, tc_idempotencyKey = ''tip-key-1'', tc_requestId = ''req-1''\<rparr>"

definition sample_tip_request :: tip_request where
  "sample_tip_request = \<lparr>tq_actor = ''buyer:'' @ sample_mac, tq_amountVnd = 20000, tq_content = \<lparr>gc_name = None, gc_message = None\<rparr>,
     tq_keyHash = sample_mac, tq_fingerprint = sample_mac\<rparr>"

definition sample_content :: envelope where
  "sample_content = sample_envelope (stringify (content_json \<lparr>gc_name = None, gc_message = None\<rparr>))"

definition sample_tip_row :: tip_row where
  "sample_tip_row = new_tip tip_creator sample_tip sample_tip_request (order_uuid (CHR ''1'')) sample_content 1000"

definition sample_intent_command :: intent_command where
  "sample_intent_command = \<lparr>in_intentId = order_uuid (CHR ''1''), in_purpose = TipPayment (order_uuid (CHR ''1'')), in_creatorUserId = ''creator-1'',
     in_accountVersionId = order_uuid (CHR ''a''), in_amountVnd = 20000, in_displayName = ''An'', in_handle = ''an-art'',
     in_abuseKeyHash = sample_mac, in_requestId = ''req-1'', in_at = 1000, in_expiresAt = 3601000\<rparr>"

definition sample_snapshot :: snapshot where
  "sample_snapshot = destination_snapshot tip_destination sample_intent_command"

definition sample_intent :: intent_row where
  "sample_intent = new_intent sample_intent_command tip_destination (ManualAttested, None) (sample_envelope (stringify (snapshot_json sample_snapshot)))
     20000 sample_mac (sample_envelope ''PW0123456789ABCDEF0123'')"

lemma sample_tip_checked: "tip_request_of fund_sample_cfg sample_tip = Inr sample_tip_request"
proof -
  have ids: "is_identifier ''req-1''" "is_identifier ''buyer-1''" "repeats is_word_dot_dash 8 200 ''tip-key-1''" by code_simp+
  let ?j = "JArr [JStr (''buyer:'' @ sample_mac), JStr ''an-art'', JNum 20000, JNull, JNull]"
  have "length (stringify ?j) \<le> 8190 + 2"
    by (rule stringify_array_length)
      (use json_string_length [of "''buyer:'' @ sample_mac"] json_string_length [of "''an-art''"] sample_mac_digest(1) [THEN digest_with_length] in
        \<open>simp add: json_int_def decimal.simps\<close>)
  then have "fund_digest fund_sample_cfg ''tip-create-command'' (stringify ?j) = Inr sample_mac"
    by (intro fund_sample_digest fund_domains(3)) (simp_all del: stringify.simps, simp)
  then show ?thesis
    using ids tip_destination_facts(5) sample_mac_digest(1) fund_sample_digest [OF fund_domains(1), of "''buyer-1''"] fund_sample_digest [OF fund_domains(2), of "''tip-key-1''"]
    by (simp add: tip_request_of_def tip_command_ok_def principal_ok_def sample_tip_def hmac_text_def Let_def requireIntegerVnd_def isSafeInteger_def
        max_safe_integer_def normalizeTipGuestContent_def normalize_guest_text_def jstr_def amount_of_def need_def require_def
        isTipPaymentsEnabled_def sample_tip_request_def del: stringify.simps) (simp add: fund_sample_cfg_def isTipPaymentsEnabled_def)
qed

lemma fund_dates: "date_ok 1000" "date_ok 3601000" "date_ok 500" "date_ok 5000"
  by (simp_all add: date_ok_def)

lemma sample_intent_simps [simp]:
  "pi_id sample_intent = order_uuid (CHR ''1'')" "pi_purpose sample_intent = TipPurpose" "pi_tipId sample_intent = Some (order_uuid (CHR ''1''))"
  "pi_commissionOrderId sample_intent = None" "pi_creatorUserId sample_intent = ''creator-1''" "pi_amountVnd sample_intent = 20000"
  "pi_referenceHash sample_intent = sample_mac" "pi_accountVersionId sample_intent = order_uuid (CHR ''a'')"
  "pi_settlementLane sample_intent = ManualAttested" "pi_cutoverId sample_intent = None" "pi_abuseKeyHash sample_intent = sample_mac"
  "pi_state sample_intent = AwaitingTransfer" "pi_expiresAt sample_intent = 3601000" "pi_closedAt sample_intent = None"
  "pi_rejectionReason sample_intent = None" "pi_createdAt sample_intent = 1000" "pi_updatedAt sample_intent = 1000"
  by (simp_all add: sample_intent_def new_intent_def sample_intent_command_def tip_destination_def purpose_kind_def)

lemma sample_tip_row_simps [simp]:
  "tp_id sample_tip_row = order_uuid (CHR ''1'')" "tp_creatorUserId sample_tip_row = ''creator-1''" "tp_amountVnd sample_tip_row = 20000"
  "tp_state sample_tip_row = TipAwaiting" "tp_closedAt sample_tip_row = None" "tp_createdAt sample_tip_row = 1000" "tp_updatedAt sample_tip_row = 1000"
  "tp_guestContentEnvelope sample_tip_row = sample_content"
  by (simp_all add: sample_tip_row_def new_tip_def tip_creator_def sample_tip_request_def)

lemma sample_rows_ok:
  "tips_ok []" "tips_ok [sample_tip_row]" "intents_ok []" "intents_ok [sample_intent]" "confirmations_ok []"
  using sample_mac_digest(1)
  by (simp_all add: tips_ok_def intents_ok_def confirmations_ok_def unique_where_def tip_check_def closing_check_def intent_check_def purpose_check_def
      lane_check_def intent_time_check_def rejection_check_def hmac_text_def max_safe_integer_def)

lemma sample_open_constraints:
  "fund_constraints (fund_stage t au ob [sample_tip_row] [] [])" "fund_constraints (fund_stage t au ob [sample_tip_row] [sample_intent] [])"
  using sample_rows_ok by (simp_all add: fund_stage_constraints fund_references_ok_def intent_owner_ok_def) (simp add: tip_account_def)

lemma sample_snapshot_text: "length (stringify (snapshot_json sample_snapshot)) \<le> 16384" "stringify (snapshot_json sample_snapshot) \<noteq> []"
  by (simp_all add: snapshot_json_def sample_snapshot_def destination_snapshot_def tip_destination_def sample_intent_command_def json_string_def
      json_escape_def json_int_def decimal.simps)

lemma sample_intent_written:
  "insertTransferPaymentIntent fund_sample_cfg (fund_sample_draw (CHR ''1'')) sample_intent_command (fund_stage t au ob [sample_tip_row] [] []) =
     Inr (fund_stage t au ob [sample_tip_row] [sample_intent] [], sample_intent, sample_snapshot, ''PW0123456789ABCDEF0123'')"
proof -
  let ?dw = "fund_sample_draw (CHR ''1'')" and ?e = "sample_envelope (stringify (snapshot_json sample_snapshot))"
  let ?db = "fund_stage t au ob [sample_tip_row] [] []"
  have seals: "fund_seal fund_sample_cfg (dw_nonce ?dw n) ''payment_intents'' (order_uuid (CHR ''1'')) ''destination'' (stringify (snapshot_json sample_snapshot)) = Inr ?e"
    "fund_seal fund_sample_cfg (dw_nonce ?dw n) ''payment_intents'' (order_uuid (CHR ''1'')) ''transfer_reference'' ''PW0123456789ABCDEF0123'' =
       Inr (sample_envelope ''PW0123456789ABCDEF0123'')" for n
    using fund_names sample_snapshot_text by (intro fund_sample_seals(1); simp add: fund_sample_draw_def)+
  have ids: "in_intentId sample_intent_command = order_uuid (CHR ''1'')" "dw_reference ?dw n = ''PW0123456789ABCDEF0123''" for n
    by (simp_all add: sample_intent_command_def fund_sample_draw_def)
  obtain i where i: "qr_instruction ''970436'' ''0123456789'' 20000 ''PW0123456789ABCDEF0123'' = Inr i" using fund_sample_qr by blast
  have digest: "fund_digest fund_sample_cfg ''tip-transfer-reference'' ''PW0123456789ABCDEF0123'' = Inr sample_mac"
    by (rule fund_sample_digest [OF fund_domains(4)]) simp_all
  have "reference_attempts fund_sample_cfg ?dw sample_intent_command tip_destination (ManualAttested, None) ?e 20000 (Suc 4) ?db =
      Inr (fund_stage t au ob [sample_tip_row] [sample_intent] [], sample_intent, ''PW0123456789ABCDEF0123'')"
    using i digest seals(2) tip_destination_facts(4) sample_open_constraints(2) unfolding reference_attempts.simps Let_def ids
    by (simp add: insert_intent_def keep_def sample_intent_def [symmetric] need_def require_def) (simp add: tip_destination_def)
  then have attempts: "reference_attempts fund_sample_cfg ?dw sample_intent_command tip_destination (ManualAttested, None) ?e 20000 5 ?db =
      Inr (fund_stage t au ob [sample_tip_row] [sample_intent] [], sample_intent, ''PW0123456789ABCDEF0123'')" by (simp add: numeral_eq_Suc)
  have c: "in_creatorUserId sample_intent_command = ''creator-1''" "in_at sample_intent_command = 1000" "in_amountVnd sample_intent_command = 20000"
    "in_accountVersionId sample_intent_command = order_uuid (CHR ''a'')" "purpose_kind (in_purpose sample_intent_command) = TipPurpose"
    "intent_command_ok sample_intent_command" "ds_accountVersionId tip_destination = order_uuid (CHR ''a'')"
    "destination_snapshot tip_destination sample_intent_command = sample_snapshot" "fc_paymentsMode fund_sample_cfg \<noteq> PaymentsDisabledMode"
    using order_uuids fund_dates
    by (simp_all add: sample_intent_command_def purpose_kind_def intent_command_ok_def owner_id_def tip_destination_def sample_snapshot_def fund_sample_cfg_def)
  show ?thesis
    using attempts seals(1) fund_sample_destination fund_sample_settlement
    by (simp add: insertTransferPaymentIntent_def c ids(1) Let_def need_def want_def require_def orThrow_def amount_of_def requireIntegerVnd_def
        isSafeInteger_def max_safe_integer_def commission_bounds_def)
qed

definition sample_tip_intent :: tip_intent_command where
  "sample_tip_intent = \<lparr>tn_tipId = order_uuid (CHR ''1''), tn_creatorUserId = ''creator-1'', tn_accountVersionId = order_uuid (CHR ''a''),
     tn_amountVnd = 20000, tn_displayName = ''An'', tn_handle = ''an-art'', tn_guestContext = None, tn_abuseKeyHash = sample_mac,
     tn_requestId = ''req-1'', tn_at = 1000\<rparr>"

lemma sample_tip_opens:
  "\<exists>v. tip_createIntent fund_sample_cfg (fund_sample_draw (CHR ''1'')) sample_tip_intent (fund_stage t au ob [sample_tip_row] [] []) =
     Inr (fund_stage t au ob [sample_tip_row] [sample_intent] [], v)"
proof -
  obtain i where i: "qr_instruction ''970436'' ''0123456789'' 20000 ''PW0123456789ABCDEF0123'' = Inr i" using fund_sample_qr by blast
  have "sn_bankBin sample_snapshot = ''970436''" "sn_accountNumber sample_snapshot = ''0123456789''"
    by (simp_all add: sample_snapshot_def destination_snapshot_def tip_destination_def)
  then obtain v where v: "tipInstructionProjection sample_intent sample_snapshot ''PW0123456789ABCDEF0123'' None = Inr v"
    using i by (simp add: tipInstructionProjection_def amount_of_def requireIntegerVnd_def isSafeInteger_def max_safe_integer_def)
  have c: "\<lparr>in_intentId = order_uuid (CHR ''1''), in_purpose = TipPayment (tn_tipId sample_tip_intent),
       in_creatorUserId = tn_creatorUserId sample_tip_intent, in_accountVersionId = tn_accountVersionId sample_tip_intent,
       in_amountVnd = tn_amountVnd sample_tip_intent, in_displayName = tn_displayName sample_tip_intent, in_handle = tn_handle sample_tip_intent,
       in_abuseKeyHash = tn_abuseKeyHash sample_tip_intent, in_requestId = tn_requestId sample_tip_intent,
       in_at = tn_at sample_tip_intent, in_expiresAt = tn_at sample_tip_intent + fc_intentTtlMs fund_sample_cfg\<rparr> = sample_intent_command"
    by (simp add: sample_tip_intent_def sample_intent_command_def fund_sample_cfg_def)
  have ids: "dw_id (fund_sample_draw (CHR ''1'')) 0 = order_uuid (CHR ''1'')" by (simp add: fund_sample_draw_def)
  have "isTipPaymentsEnabled (fc_paymentsMode fund_sample_cfg)" "tn_guestContext sample_tip_intent = None"
    by (simp_all add: fund_sample_cfg_def isTipPaymentsEnabled_def sample_tip_intent_def)
  then show ?thesis using v sample_intent_written order_uuids(1)
    by (simp add: tip_createIntent_def ids c need_def require_def guest_capability_def)
qed

lemma fund_audit_texts:
  "list_all auditIdentifier [''buyer-1'', ''creator-1'', ''session-1'', ''tip'', ''payment_intent'', ''tip.created'', ''tip.confirmed'', ''rev-1'', ''req-1'', ''req-2'',
     order_uuid (CHR ''1'')]"
  "list_all (\<lambda>k. \<not> structuredKeyIsSensitive k) [''method'', ''state'', ''creatorUserId'', ''tipId'', ''correlationId'', ''confirmationId'', ''paymentIntentId'']"
  by code_simp+

lemmas fund_audit_facts = fund_audit_texts [simplified]

lemma order_uuid_no_slash: "x \<noteq> CHR ''/'' \<Longrightarrow> CHR ''/'' \<notin> set (order_uuid x)"
  by (simp add: order_uuid_def)

lemma sample_create_rows:
  "\<exists>a e v. create_rows fund_sample_cfg (fund_sample_draw (CHR ''1'')) tip_creator sample_tip sample_tip_request 1000 (fund_stage t [] [] [] [] []) =
     Inr (fund_stage t [a] [e] [sample_tip_row] [sample_intent] [], v) \<and> au_id a = order_uuid (CHR ''1'') \<and> ob_id e = order_uuid (CHR ''1'')"
proof -
  let ?dw = "fund_sample_draw (CHR ''1'')" and ?k = "order_uuid (CHR ''1'')"
  have ids: "dw_id ?dw n = ?k" "dw_nonce ?dw n = replicate 12 (CHR ''n'')" for n by (simp_all add: fund_sample_draw_def)
  have content: "stringify (content_json (tq_content sample_tip_request)) \<noteq> []" "length (stringify (content_json (tq_content sample_tip_request))) \<le> 16384"
    by (simp_all add: content_json_def sample_tip_request_def json_string_def json_escape_def jstr_def)
  have seal: "fund_seal fund_sample_cfg (dw_nonce ?dw 9) ''tips'' ?k ''guest_content'' (stringify (content_json (tq_content sample_tip_request))) = Inr sample_content"
    using fund_sample_seals(1) [OF fund_names(7,8,9) content ids(2)] by (simp add: sample_content_def) (simp add: sample_tip_request_def)
  have command: "\<lparr>tn_tipId = ?k, tn_creatorUserId = ''creator-1'',
       tn_accountVersionId = el_receivingAccountVersionId tip_creator, tn_amountVnd = tq_amountVnd sample_tip_request, tn_displayName = el_displayName tip_creator,
       tn_handle = el_canonicalHandle tip_creator, tn_guestContext = guest_of (tc_principal sample_tip), tn_abuseKeyHash = tc_abuseKeyHash sample_tip,
       tn_requestId = tc_requestId sample_tip, tn_at = 1000\<rparr> = sample_tip_intent"
    by (simp add: sample_tip_intent_def tip_creator_def sample_tip_request_def sample_tip_def guest_of_def)
  obtain v where v: "tip_createIntent fund_sample_cfg ?dw sample_tip_intent (fund_stage t [] [] [sample_tip_row] [] []) =
      Inr (fund_stage t [] [] [sample_tip_row] [sample_intent] [], v)" using sample_tip_opens by blast
  obtain a where a: "fund_audit fund_sample_cfg ?k 1000 (created_audit fund_sample_cfg sample_tip ?k ''creator-1'' 1000) (fund_stage t [] [] [sample_tip_row] [sample_intent] []) =
      Inr (fund_stage t [a] [] [sample_tip_row] [sample_intent] [])" "au_id a = ?k"
    using fund_sample_audit [of "created_audit fund_sample_cfg sample_tip ?k ''creator-1'' 1000" 1000 ?k "[]" t "[]" "[sample_tip_row]" "[sample_intent]" "[]"]
      fund_audit_facts
    by (auto simp: created_audit_def buyer_of_def sample_tip_def fund_sample_cfg_def no_slash_safe)
  obtain e where e: "fund_event fund_sample_cfg ?k 1000 (created_event sample_tip ?k ''creator-1'' 1000) (fund_stage t [a] [] [sample_tip_row] [sample_intent] []) =
      Inr (fund_stage t [a] [e] [sample_tip_row] [sample_intent] [])" "ob_id e = ?k"
    using fund_sample_event [of "created_event sample_tip ?k ''creator-1'' 1000" ?k "[]" 1000 t "[a]" "[sample_tip_row]" "[sample_intent]" "[]"] fund_audit_facts order_uuid_no_slash [of "CHR ''1''"]
    by (auto simp: created_event_def sample_tip_def no_slash_safe)
  have u: "el_creatorUserId tip_creator = ''creator-1''" by (simp add: tip_creator_def)
  have "create_rows fund_sample_cfg ?dw tip_creator sample_tip sample_tip_request 1000 (fund_stage t [] [] [] [] []) =
     Inr (fund_stage t [a] [e] [sample_tip_row] [sample_intent] [], v)"
    using v a(1) e(1) seal order_uuids(1) sample_open_constraints(1) [of t "[]" "[]"]
    by (simp add: create_rows_def Let_def ids(1) u command need_def require_def keep_def sample_tip_row_def [symmetric])
  then show ?thesis using a(2) e(2) by (intro exI conjI)
qed

definition tip_created_row :: "idem_row \<Rightarrow> idem_row" where
  "tip_created_row r = r\<lparr>ir_status := Completed, ir_resultReference := Some (created_reference (order_uuid (CHR ''1''))), ir_completedAt := Some 1000\<rparr>"

lemma sample_creation:
  "\<exists>r a e v. createTip fund_sample_cfg fund_sample_ports (\<lambda>_. fund_sample_draw (CHR ''1'')) sample_tip (fund_stage [] [] [] [] [] []) =
     Inr (fund_stage [r] [a] [e] [sample_tip_row] [sample_intent] [], v) \<and>
     ir_id r = order_uuid (CHR ''1'') \<and> idem_key r = (''buyer:'' @ sample_mac, ''tips.create'', sample_mac) \<and>
     au_id a = order_uuid (CHR ''1'') \<and> ob_id e = order_uuid (CHR ''1'')"
proof -
  let ?dw = "fund_sample_draw (CHR ''1'')" and ?k = "order_uuid (CHR ''1'')"
  have texts: "is_identifier (''buyer:'' @ sample_mac)" "is_identifier ''tips.create''" "is_identifier (created_reference ?k)" "is_identifier ''creator-1''"
    by code_simp+
  obtain r where r: "fund_begin ?dw \<lparr>bi_actorUserId = ''buyer:'' @ sample_mac, bi_commandScope = ''tips.create'', bi_keyHash = sample_mac,
       bi_requestFingerprint = sample_mac, bi_expiresAt = 86401000, bi_now = 1000\<rparr> (fund_stage [] [] [] [] [] []) =
      Inr (fund_stage [r] [] [] [] [] [], Acquired ?k)" "ir_id r = ?k" "ir_status r = InProgress" "ir_expiresAt r = 86401000"
      "idem_key r = (''buyer:'' @ sample_mac, ''tips.create'', sample_mac)"
    using fund_sample_begin [OF texts(1,2), of "[]" "CHR ''1''" 86401000 "[]" "[]" "[]" "[]" "[]"] by auto
  obtain a e v where rows: "create_rows fund_sample_cfg ?dw tip_creator sample_tip sample_tip_request 1000 (fund_stage [r] [] [] [] [] []) =
     Inr (fund_stage [r] [a] [e] [sample_tip_row] [sample_intent] [], v)" "au_id a = ?k" "ob_id e = ?k" using sample_create_rows by blast
  have complete: "fund_complete fund_sample_cfg ?k (created_reference ?k) 1000 (fund_stage [r] [a] [e] [sample_tip_row] [sample_intent] []) =
      Inr (fund_stage [tip_created_row r] [a] [e] [sample_tip_row] [sample_intent] [])"
    using fund_sample_complete [of ?k "[]" r "created_reference ?k" 1000] r texts(3) by (simp add: tip_created_row_def)
  have clock: "dw_clock ?dw n = 1000" "dw_id ?dw n = ?k" for n by (simp_all add: fund_sample_draw_def)
  have cfg: "fc_idempotencyTtlMs fund_sample_cfg = 86400000" "fc_openIpLimit fund_sample_cfg = 2" "fc_openCreatorLimit fund_sample_cfg = 5"
    by (simp_all add: fund_sample_cfg_def)
  have q: "tq_actor sample_tip_request = ''buyer:'' @ sample_mac" "tq_keyHash sample_tip_request = sample_mac" "tq_fingerprint sample_tip_request = sample_mac"
    "tq_amountVnd sample_tip_request = 20000" by (simp_all add: sample_tip_request_def)
  have c: "tc_canonicalHandle sample_tip = ''an-art''" "buyer_of (tc_principal sample_tip) = Some ''buyer-1''" "tc_abuseKeyHash sample_tip = sample_mac"
    by (simp_all add: sample_tip_def buyer_of_def)
  have creator: "eligible_creator fund_sample_ports ''an-art'' = Inr tip_creator" "active_buyer fund_sample_ports (Some ''buyer-1'') = Inr ()"
    "el_minimumVnd tip_creator = 10000" "el_maximumVnd tip_creator = 500000"
    using order_uuids texts(4) tip_destination_facts(5)
    by (simp_all add: eligible_creator_def fund_sample_ports_def want_def orThrow_def need_def require_def eligibility_ok_def existing_ok_def
        tip_creator_def active_buyer_def)
  have "create_transaction fund_sample_cfg fund_sample_ports ?dw sample_tip sample_tip_request (fund_stage [] [] [] [] [] []) =
      Inr (fund_stage [tip_created_row r] [a] [e] [sample_tip_row] [sample_intent] [], v)"
    using r(1) rows(1) complete fund_dates(1)
    by (simp add: create_transaction_def fund_now_def clock need_def require_def q c cfg creator assertOpenCapacity_def open_by_key_def open_by_creator_def
        del: One_nat_def)
  then have "createTip fund_sample_cfg fund_sample_ports (\<lambda>_. ?dw) sample_tip (fund_stage [] [] [] [] [] []) =
      Inr (fund_stage [tip_created_row r] [a] [e] [sample_tip_row] [sample_intent] [], v)"
    using sample_tip_checked by (simp add: createTip_def retryAccountChange_def tip_boundary_def)
  moreover have "ir_id (tip_created_row r) = ?k" "idem_key (tip_created_row r) = (''buyer:'' @ sample_mac, ''tips.create'', sample_mac)"
    using r(2,5) by (simp_all add: tip_created_row_def idem_key_def)
  ultimately show ?thesis using rows(2,3) by (intro exI conjI)
qed

subsection \<open>The creator confirms\<close>

definition tip_confirmation :: manual_command where
  "tip_confirmation = \<lparr>mc_actor = \<lparr>ak_userId = ''creator-1'', ak_sessionId = ''session-1''\<rparr>, mc_paymentIntentId = order_uuid (CHR ''1''),
     mc_observedAmountVnd = 20000, mc_observedTransferReference = ''PW0123456789ABCDEF0123'', mc_observedBankTransactionId = ''ft26044'',
     mc_attestedReceived = True, mc_idempotencyKey = ''confirm-1'', mc_requestId = ''req-2''\<rparr>"

definition sample_evidence :: evidence where
  "sample_evidence = \<lparr>me_amountVnd = 20000, me_bankTransactionId = ''FT26044'', me_keyHash = sample_mac, me_fingerprint = sample_mac\<rparr>"

definition sample_proof :: assurance where
  "sample_proof = \<lparr>as_primaryAuthenticatedAt = 500, as_mfaEnrolled = False, as_mfaVerifiedAt = None, as_sessionExpiresAt = 5000\<rparr>"

definition sample_locked :: "unit locked_intent" where
  "sample_locked = \<lparr>li_lock = (), li_proof = sample_proof, li_intent = sample_intent, li_bankFingerprint = sample_mac, li_at = 1000\<rparr>"

definition tip_paid :: confirmation_row where
  "tip_paid = manual_confirmation (fund_sample_draw (CHR ''2'')) tip_confirmation sample_evidence sample_locked"

lemma sample_evidence_read: "manual_evidence fund_sample_cfg TipPurpose tip_confirmation = Inr sample_evidence"
proof -
  have ids: "is_identifier ''creator-1''" "is_identifier ''session-1''" "is_identifier ''req-2''" "repeats is_word_dot_dash 8 200 ''confirm-1''" by code_simp+
  have bank: "normalizeTipBankTransactionId ''ft26044'' = Inr ''FT26044''" by code_simp
  let ?j = "JArr [JStr ''creator-1'', JStr (order_uuid (CHR ''1'')), JNum 20000, JStr ''PW0123456789ABCDEF0123'', JStr ''FT26044'', JBool True]"
  have "length (stringify ?j) \<le> 8190 + 2"
    by (rule stringify_array_length)
      (use json_string_length [of "''creator-1''"] json_string_length [of "order_uuid (CHR ''1'')"] json_string_length [of "''PW0123456789ABCDEF0123''"]
        json_string_length [of "''FT26044''"] in \<open>simp add: json_int_def decimal.simps order_uuid_def\<close>)
  then have "fund_digest fund_sample_cfg ''tip-confirm-command'' (stringify ?j) = Inr sample_mac"
    by (intro fund_sample_digest fund_domains(7)) (simp_all del: stringify.simps, simp)
  then show ?thesis
    using ids bank tip_destination_facts(4) order_uuids(1) fund_sample_digest [OF fund_domains(6), of "''confirm-1''"]
    by (simp add: manual_evidence_def actor_ok_def manual_command_ok_def tip_confirmation_def need_def require_def amount_of_def requireIntegerVnd_def
        isSafeInteger_def max_safe_integer_def purpose_text_def sample_evidence_def del: stringify.simps)
qed

lemma sample_opened:
  assumes "pi_id r = order_uuid (CHR ''1'')" "pi_destinationEnvelope r = pi_destinationEnvelope sample_intent"
    "pi_referenceEnvelope r = pi_referenceEnvelope sample_intent" "pi_referenceHash r = sample_mac"
  shows "readTipIntentSnapshot fund_sample_cfg r = Inr (sample_snapshot, ''PW0123456789ABCDEF0123'')"
proof -
  note opens = fund_sample_seals(2) [OF fund_names(4) _ fund_names(9) _ _ refl]
  have "fund_open fund_sample_cfg ''payment_intents'' (order_uuid (CHR ''1'')) ''destination'' (sample_envelope (stringify (snapshot_json sample_snapshot))) =
      Inr (stringify (snapshot_json sample_snapshot))"
    by (rule opens [OF fund_names(5) sample_snapshot_text(2,1)])
  moreover have "fund_open fund_sample_cfg ''payment_intents'' (order_uuid (CHR ''1'')) ''transfer_reference'' (sample_envelope ''PW0123456789ABCDEF0123'') =
      Inr ''PW0123456789ABCDEF0123''"
    by (rule opens [OF fund_names(6)]) simp_all
  moreover have "snapshot_of (snapshot_json sample_snapshot) = Some sample_snapshot"
    by (rule snapshot_reads) (use found_destination [OF fund_sample_destination] tip_destination_facts(5) in
      \<open>simp_all add: sample_snapshot_def destination_snapshot_def sample_intent_command_def\<close>)
  moreover have "fund_digest fund_sample_cfg ''tip-transfer-reference'' ''PW0123456789ABCDEF0123'' = Inr sample_mac"
    by (rule fund_sample_digest [OF fund_domains(4)]) simp_all
  moreover have "pi_destinationEnvelope sample_intent = sample_envelope (stringify (snapshot_json sample_snapshot))"
    "pi_referenceEnvelope sample_intent = sample_envelope ''PW0123456789ABCDEF0123''"
    by (simp_all add: sample_intent_def new_intent_def)
  ultimately show ?thesis using assms tip_destination_facts(4) by (simp add: readTipIntentSnapshot_def orThrow_def)
qed

lemma sample_evidence_locked:
  "lock_evidence fund_sample_cfg (fund_ports.truncate fund_sample_ports) (tip_aggregate fund_sample_cfg) (fund_sample_draw (CHR ''2'')) tip_confirmation sample_evidence sample_intent
     (fund_stage t au ob [sample_tip_row] [sample_intent] []) = Inr sample_locked"
proof -
  let ?dw = "fund_sample_draw (CHR ''2'')"
  have "bank_fingerprint fund_sample_cfg tip_destination ''FT26044'' = Inr sample_mac"
    using json_string_length [of "''970436''"] json_string_length [of sample_mac] json_string_length [of "''FT26044''"] sample_mac_digest(1) [THEN digest_with_length]
    unfolding bank_fingerprint_def by (intro fund_sample_digest fund_domains(5)) (simp_all add: tip_destination_def)
  moreover have "dw_clock ?dw n = 1000" for n by (simp add: fund_sample_draw_def)
  moreover have "validateAssurance fund_sample_cfg (Some sample_proof) 1000 True = Inr sample_proof"
    using fund_dates by (simp add: validateAssurance_def sample_proof_def want_def orThrow_def need_def require_def fund_sample_cfg_def)
  moreover have "fp_assurance fund_sample_ports a n = Inr (Some sample_proof)" "fp_authorizeCommand fund_sample_ports a = Inr ()" for a n
    by (simp_all add: fund_sample_ports_def sample_proof_def)
  moreover have "readPaymentPurpose sample_intent = Some (TipPayment (order_uuid (CHR ''1'')))"
    using order_uuids(1) by (simp add: readPaymentPurpose_def isTipPayment_def)
  moreover have "ds_accountVersionId tip_destination = order_uuid (CHR ''a'')" "sn_bankBin sample_snapshot = ds_bankBin tip_destination"
    "sn_accountNumber sample_snapshot = ds_accountNumber tip_destination"
    by (simp_all add: tip_destination_def sample_snapshot_def destination_snapshot_def)
  moreover have "ak_userId (mc_actor tip_confirmation) = ''creator-1''" "mc_paymentIntentId tip_confirmation = order_uuid (CHR ''1'')"
    "mc_observedTransferReference tip_confirmation = ''PW0123456789ABCDEF0123''" by (simp_all add: tip_confirmation_def)
  moreover have "me_bankTransactionId sample_evidence = ''FT26044''" "me_amountVnd sample_evidence = 20000" by (simp_all add: sample_evidence_def)
  moreover have "ag_lock (tip_aggregate fund_sample_cfg) r a db = Inr ((), True)" "ag_purpose (tip_aggregate fund_sample_cfg) = TipPurpose" for r a db
    by (simp_all add: tip_aggregate_def)
  ultimately show ?thesis
    using fund_dates(1) fund_sample_destination sample_opened [of sample_intent]
    by (simp add: lock_evidence_def fund_now_def need_def require_def want_def orThrow_def purpose_kind_def sample_locked_def fund_ports.defs)
qed

lemma tip_paid_simps [simp]:
  "pm_id tip_paid = order_uuid (CHR ''2'')" "pm_paymentIntentId tip_paid = order_uuid (CHR ''1'')" "pm_creatorUserId tip_paid = ''creator-1''"
  "pm_accountVersionId tip_paid = order_uuid (CHR ''a'')" "pm_observedAmountVnd tip_paid = 20000" "pm_referenceHash tip_paid = sample_mac"
  "pm_bankTransactionFingerprint tip_paid = Some sample_mac" "pm_providerTransactionId tip_paid = None" "pm_source tip_paid = CreatorManual"
  "pm_confirmedAt tip_paid = 1000"
  by (simp_all add: tip_paid_def manual_confirmation_def sample_locked_def tip_confirmation_def sample_evidence_def fund_sample_draw_def)

definition sample_paid_intent :: intent_row where
  "sample_paid_intent = confirmed_intent 1000 sample_intent"

definition sample_paid_tip :: tip_row where
  "sample_paid_tip = closed_tip TipCompleted 1000 sample_tip_row"

lemma sample_settled_rows:
  "confirmations_ok [tip_paid]" "intents_ok [sample_paid_intent]" "tips_ok [sample_paid_tip]"
proof -
  show "confirmations_ok [tip_paid]" using sample_mac_digest(1)
    by (simp add: confirmations_ok_def unique_where_def confirmation_check_def source_check_def attested_def hmac_text_def)
      (simp add: tip_paid_def manual_confirmation_def sample_locked_def sample_proof_def sample_evidence_def within_hour_def hmac_text_def)
  show "intents_ok [sample_paid_intent]" "tips_ok [sample_paid_tip]" using sample_mac_digest(1)
    by (simp_all add: sample_paid_intent_def confirmed_intent_def sample_paid_tip_def closed_tip_def tips_ok_def intents_ok_def unique_where_def tip_check_def
        closing_check_def intent_check_def purpose_check_def lane_check_def intent_time_check_def rejection_check_def hmac_text_def max_safe_integer_def)
qed

lemma sample_settled_constraints:
  "fund_constraints (fund_stage t au ob [sample_tip_row] [sample_intent] [tip_paid])"
  "fund_constraints (fund_stage t au ob [sample_tip_row] [sample_paid_intent] [tip_paid])"
  "fund_constraints (fund_stage t au ob [sample_paid_tip] [sample_paid_intent] [tip_paid])"
  using sample_rows_ok sample_settled_rows
  by (simp_all add: fund_stage_constraints fund_references_ok_def intent_owner_ok_def confirmation_binding_def intent_binding_def sample_paid_intent_def
      confirmed_intent_def sample_paid_tip_def closed_tip_def) (simp_all add: tip_account_def)

lemma sample_settles:
  "settle_rows (tip_aggregate fund_sample_cfg) tip_confirmation tip_paid sample_locked (fund_stage t au ob [sample_tip_row] [sample_intent] []) =
     Inr (fund_stage t au ob [sample_paid_tip] [sample_paid_intent] [tip_paid])"
proof -
  have k: "li_intent sample_locked = sample_intent" "li_at sample_locked = 1000" "li_lock sample_locked = ()" by (simp_all add: sample_locked_def)
  have "isTipPayment sample_intent" using order_uuids(1) by (simp add: isTipPayment_def)
  then have "ag_complete (tip_aggregate fund_sample_cfg) () sample_intent a 1000 q (fund_stage t au ob [sample_tip_row] [sample_paid_intent] [tip_paid]) =
      Inr (fund_stage t au ob [sample_paid_tip] [sample_paid_intent] [tip_paid], True)" for a q
    using sample_settled_constraints(3) by (simp add: tip_aggregate_def completeTip_def close_tip_def keep_def rows_update_def tip_open_def sample_paid_tip_def)
  then show ?thesis using sample_settled_constraints(1,2)
    by (simp add: settle_rows_def Let_def k keep_def need_def require_def rows_update_def pending_intent_def sample_paid_intent_def)
qed

lemma sample_tip_shown:
  "\<exists>v. project_tip fund_sample_cfg sample_paid_intent 1000 (fund_stage t au ob [sample_paid_tip] [sample_paid_intent] [tip_paid]) = Inr v"
proof -
  let ?db = "fund_stage t au ob [sample_paid_tip] [sample_paid_intent] [tip_paid]" and ?c = "\<lparr>gc_name = None, gc_message = None\<rparr>"
  have r: "isTipPayment sample_paid_intent" "pi_id sample_paid_intent = order_uuid (CHR ''1'')" "pi_tipId sample_paid_intent = Some (order_uuid (CHR ''1''))"
    "pi_creatorUserId sample_paid_intent = ''creator-1''" "pi_amountVnd sample_paid_intent = 20000" "pi_state sample_paid_intent = IntentConfirmed"
    "pi_closedAt sample_paid_intent = Some 1000"
    using order_uuids(1) by (simp_all add: sample_paid_intent_def confirmed_intent_def isTipPayment_def)
  have opened: "readTipIntentSnapshot fund_sample_cfg sample_paid_intent = Inr (sample_snapshot, ''PW0123456789ABCDEF0123'')"
    by (rule sample_opened) (simp_all add: sample_paid_intent_def confirmed_intent_def)
  have "stringify (content_json ?c) \<noteq> []" "length (stringify (content_json ?c)) \<le> 16384"
    by (simp_all add: content_json_def json_string_def json_escape_def jstr_def)
  then have "fund_open fund_sample_cfg ''tips'' (order_uuid (CHR ''1'')) ''guest_content'' sample_content = Inr (stringify (content_json ?c))"
    unfolding sample_content_def by (rule fund_sample_seals(2) [OF fund_names(7,8,9) _ _ refl])
  moreover have "content_of (content_json ?c) = Some ?c" by code_simp
  moreover have "tp_id sample_paid_tip = order_uuid (CHR ''1'')" "tp_creatorUserId sample_paid_tip = ''creator-1''" "tp_state sample_paid_tip = TipCompleted"
    "tp_guestContentEnvelope sample_paid_tip = sample_content"
    by (simp_all add: sample_paid_tip_def closed_tip_def)
  ultimately have content: "getConfirmedGuestContent fund_sample_cfg (order_uuid (CHR ''1'')) ''creator-1'' ?db = Some ?c"
    by (simp add: getConfirmedGuestContent_def)
  have facts: "\<exists>x. confirmed_facts fund_sample_cfg sample_paid_intent ?db = Inr x"
    using content r by (simp add: confirmed_facts_def confirmation_of_def bounded_text_def want_def orThrow_def need_def require_def)
  have "shown_state sample_paid_intent 1000 = IntentConfirmed" "amount_of 20000 None = Inr 20000"
    using r by (simp_all add: shown_state_def requireIntegerVnd_def isSafeInteger_def max_safe_integer_def)
  then show ?thesis using opened r facts by (auto simp: project_tip_def need_def require_def Let_def amount_of_def)
qed

lemma sample_confirm_rows:
  assumes "ir_id r = order_uuid (CHR ''2'')" "ir_status r = InProgress" "1000 < ir_expiresAt r" "order_uuid (CHR ''2'') \<notin> ir_id ` set t"
    "order_uuid (CHR ''2'') \<notin> au_id ` set au" "order_uuid (CHR ''2'') \<notin> ob_id ` set ob"
  shows "\<exists>r' a e v. confirm_rows fund_sample_cfg (tip_aggregate fund_sample_cfg) (fund_sample_draw (CHR ''2'')) tip_confirmation sample_evidence sample_locked
     (order_uuid (CHR ''2'')) (fund_stage (t @ [r]) au ob [sample_tip_row] [sample_intent] []) =
       Inr (fund_stage (t @ [r']) (au @ [a]) (ob @ [e]) [sample_paid_tip] [sample_paid_intent] [tip_paid], v)"
proof -
  let ?dw = "fund_sample_draw (CHR ''2'')" and ?k = "order_uuid (CHR ''2'')" and ?rows = "\<lambda>t au ob. fund_stage t au ob [sample_paid_tip] [sample_paid_intent] [tip_paid]"
  let ?na = "confirmed_audit fund_sample_cfg TipPurpose tip_confirmation tip_paid sample_proof" and ?ne = "confirmed_event TipPurpose tip_confirmation tip_paid sample_intent"
  have ids: "dw_id ?dw n = ?k" for n by (simp add: fund_sample_draw_def)
  obtain a where a: "fund_audit fund_sample_cfg ?k 1000 ?na (?rows (t @ [r]) au ob) = Inr (?rows (t @ [r]) (au @ [a]) ob)"
    using fund_sample_audit [of ?na 1000 ?k au "t @ [r]" ob "[sample_paid_tip]" "[sample_paid_intent]" "[tip_paid]"] fund_audit_facts assms(5)
      order_uuid_no_slash [of "CHR ''2''"]
    by (auto simp: confirmed_audit_def tip_confirmation_def sample_proof_def purpose_text_def fund_sample_cfg_def no_slash_safe)
  obtain e where e: "fund_event fund_sample_cfg ?k 1000 ?ne (?rows (t @ [r]) (au @ [a]) ob) = Inr (?rows (t @ [r]) (au @ [a]) (ob @ [e]))"
    using fund_sample_event [of ?ne ?k ob 1000 "t @ [r]" "au @ [a]" "[sample_paid_tip]" "[sample_paid_intent]" "[tip_paid]"] fund_audit_facts assms(6)
      order_uuid_no_slash [of "CHR ''2''"] order_uuid_no_slash [of "CHR ''1''"]
    by (auto simp: confirmed_event_def tip_confirmation_def purpose_text_def no_slash_safe jstr_def)
  have ref: "is_identifier (confirmed_reference TipPurpose ?k)" by code_simp
  let ?r = "r\<lparr>ir_status := Completed, ir_resultReference := Some (confirmed_reference TipPurpose ?k), ir_completedAt := Some 1000\<rparr>"
  have complete: "fund_complete fund_sample_cfg ?k (confirmed_reference TipPurpose ?k) 1000 (?rows (t @ [r]) (au @ [a]) (ob @ [e])) =
      Inr (?rows (t @ [?r]) (au @ [a]) (ob @ [e]))"
    using fund_sample_complete [OF assms(4,1,2) ref assms(3)] .
  obtain v where v: "project_tip fund_sample_cfg sample_paid_intent 1000 (?rows (t @ [?r]) (au @ [a]) (ob @ [e])) = Inr v" using sample_tip_shown by blast
  have k: "li_intent sample_locked = sample_intent" "li_at sample_locked = 1000" "li_proof sample_locked = sample_proof" by (simp_all add: sample_locked_def)
  have ag: "ag_purpose (tip_aggregate fund_sample_cfg) = TipPurpose" "ag_project (tip_aggregate fund_sample_cfg) = project_tip fund_sample_cfg"
    by (simp_all add: tip_aggregate_def)
  have "confirm_rows fund_sample_cfg (tip_aggregate fund_sample_cfg) ?dw tip_confirmation sample_evidence sample_locked ?k
      (fund_stage (t @ [r]) au ob [sample_tip_row] [sample_intent] []) = Inr (?rows (t @ [?r]) (au @ [a]) (ob @ [e]), v)"
    using a e complete v sample_settles order_uuids(2)
    by (simp add: confirm_rows_def Let_def k ag ids tip_paid_def [symmetric] sample_paid_intent_def [symmetric] need_def require_def pending_intent_def)
  then show ?thesis by blast
qed

lemma tip_is_confirmed:
  assumes "ir_id r = order_uuid (CHR ''1'')" "idem_key r = (''buyer:'' @ sample_mac, ''tips.create'', sample_mac)" "au_id a = order_uuid (CHR ''1'')"
    "ob_id e = order_uuid (CHR ''1'')"
  shows "\<exists>t au ob v. confirmTip fund_sample_cfg (fund_ports.truncate fund_sample_ports) (\<lambda>_. fund_sample_draw (CHR ''2'')) tip_confirmation
     (fund_stage [r] [a] [e] [sample_tip_row] [sample_intent] []) = Inr (fund_stage t au ob [sample_paid_tip] [sample_paid_intent] [tip_paid], v)"
proof -
  let ?dw = "fund_sample_draw (CHR ''2'')" and ?k = "order_uuid (CHR ''2'')" and ?ports = "fund_ports.truncate fund_sample_ports"
  let ?ag = "tip_aggregate fund_sample_cfg" and ?db = "fund_stage [r] [a] [e] [sample_tip_row] [sample_intent] []"
  have texts: "is_identifier ''creator-1''" "is_identifier ''payments.tip_confirm''" by code_simp+
  have new: "?k \<noteq> order_uuid (CHR ''1'')" by (simp add: order_uuid_def)
  obtain r2 where r2: "fund_begin ?dw \<lparr>bi_actorUserId = ''creator-1'', bi_commandScope = ''payments.tip_confirm'', bi_keyHash = sample_mac,
       bi_requestFingerprint = sample_mac, bi_expiresAt = 86401000, bi_now = 1000\<rparr> ?db =
      Inr (fund_stage ([r] @ [r2]) [a] [e] [sample_tip_row] [sample_intent] [], Acquired ?k)" "ir_id r2 = ?k" "ir_status r2 = InProgress" "ir_expiresAt r2 = 86401000"
    using fund_sample_begin [OF texts, of "[r]" "CHR ''2''" 86401000 "[a]" "[e]" "[sample_tip_row]" "[sample_intent]" "[]"] assms new by auto
  obtain r' a' e' v where rows: "confirm_rows fund_sample_cfg ?ag ?dw tip_confirmation sample_evidence sample_locked ?k
      (fund_stage ([r] @ [r2]) [a] [e] [sample_tip_row] [sample_intent] []) =
       Inr (fund_stage ([r] @ [r']) ([a] @ [a']) ([e] @ [e']) [sample_paid_tip] [sample_paid_intent] [tip_paid], v)"
    using sample_confirm_rows [of r2 "[r]" "[a]" "[e]"] r2(2-4) assms new by auto
  have c: "dw_clock ?dw n = 1000" "mc_paymentIntentId tip_confirmation = order_uuid (CHR ''1'')" "ak_userId (mc_actor tip_confirmation) = ''creator-1''"
    "me_keyHash sample_evidence = sample_mac" "me_fingerprint sample_evidence = sample_mac" "ag_purpose ?ag = TipPurpose" for n
    by (simp_all add: fund_sample_draw_def tip_confirmation_def sample_evidence_def tip_aggregate_def)
  have "confirm_transaction fund_sample_cfg ?ports ?ag ?dw tip_confirmation sample_evidence ?db =
      Inr (fund_stage ([r] @ [r']) ([a] @ [a']) ([e] @ [e']) [sample_paid_tip] [sample_paid_intent] [tip_paid], v)"
    using r2(1) rows sample_evidence_locked fund_dates(1)
    by (simp add: confirm_transaction_def Let_def c purpose_text_def want_def orThrow_def need_def require_def fund_now_def)
  then have "confirmTip fund_sample_cfg ?ports (\<lambda>_. ?dw) tip_confirmation ?db =
      Inr (fund_stage ([r] @ [r']) ([a] @ [a']) ([e] @ [e']) [sample_paid_tip] [sample_paid_intent] [tip_paid], v)"
    using sample_evidence_read
    by (simp add: confirmTip_def confirm_manual_def c need_def require_def retryAccountChange_def isTipPaymentsEnabled_def tip_boundary_def)
      (simp add: fund_sample_cfg_def isTipPaymentsEnabled_def)
  then show ?thesis by blast
qed

text \<open>The whole run: an open tip, and the confirmed one.\<close>

lemma fund_sample_run:
  "\<exists>db1 db2 v1 v2. createTip fund_sample_cfg fund_sample_ports (\<lambda>_. fund_sample_draw (CHR ''1'')) sample_tip (fund_stage [] [] [] [] [] []) = Inr (db1, v1) \<and>
     confirmTip fund_sample_cfg (fund_ports.truncate fund_sample_ports) (\<lambda>_. fund_sample_draw (CHR ''2'')) tip_confirmation db1 = Inr (db2, v2) \<and>
     fd_tips db1 = [sample_tip_row] \<and> fd_intents db1 = [sample_intent] \<and> fd_confirmations db1 = [] \<and>
     fd_tips db2 = [sample_paid_tip] \<and> fd_intents db2 = [sample_paid_intent] \<and> fd_confirmations db2 = [tip_paid]"
proof -
  obtain r a e v where c: "createTip fund_sample_cfg fund_sample_ports (\<lambda>_. fund_sample_draw (CHR ''1'')) sample_tip (fund_stage [] [] [] [] [] []) =
     Inr (fund_stage [r] [a] [e] [sample_tip_row] [sample_intent] [], v)" "ir_id r = order_uuid (CHR ''1'')"
     "idem_key r = (''buyer:'' @ sample_mac, ''tips.create'', sample_mac)" "au_id a = order_uuid (CHR ''1'')" "ob_id e = order_uuid (CHR ''1'')"
    using sample_creation by blast
  obtain t au ob v2 where m: "confirmTip fund_sample_cfg (fund_ports.truncate fund_sample_ports) (\<lambda>_. fund_sample_draw (CHR ''2'')) tip_confirmation
     (fund_stage [r] [a] [e] [sample_tip_row] [sample_intent] []) = Inr (fund_stage t au ob [sample_paid_tip] [sample_paid_intent] [tip_paid], v2)"
    using tip_is_confirmed [OF c(2-5)] by blast
  show ?thesis
    by (rule exI [of _ "fund_stage [r] [a] [e] [sample_tip_row] [sample_intent] []"], rule exI [of _ "fund_stage t au ob [sample_paid_tip] [sample_paid_intent] [tip_paid]"],
        rule exI [of _ v], rule exI [of _ v2]) (use c(1) m in simp)
qed

text \<open>The scan when the tip was not paid in time.\<close>

lemma sample_expiry:
  "\<exists>db. expireTipPaymentIntents fund_sample_cfg (fund_sample_draw (CHR ''2'')) (\<lambda>_. False) 100 3601000 (fund_stage [] [] [] [sample_tip_row] [sample_intent] []) =
     Inr (db, 1) \<and> fd_tips db = [closed_tip TipExpired 3601000 sample_tip_row]"
proof -
  let ?dw = "fund_sample_draw (CHR ''2'')" and ?k = "order_uuid (CHR ''2'')" and ?t = "closed_tip TipExpired 3601000 sample_tip_row"
  let ?r = "closed_intent None 3601000 sample_intent"
  have ids: "dw_id ?dw n = ?k" for n by (simp add: fund_sample_draw_def)
  have rows: "tips_ok [?t]" "intents_ok [?r]" using sample_mac_digest(1)
    by (simp_all add: closed_intent_def closed_tip_def tips_ok_def intents_ok_def unique_where_def tip_check_def closing_check_def intent_check_def
        purpose_check_def lane_check_def intent_time_check_def rejection_check_def hmac_text_def max_safe_integer_def)
  have ok: "fund_constraints (fund_stage [] [] [] [sample_tip_row] [?r] [])" "fund_constraints (fund_stage [] [] [] [?t] [?r] [])"
    using rows sample_rows_ok
    by (simp_all add: fund_stage_constraints fund_references_ok_def intent_owner_ok_def closed_intent_def closed_tip_def) (simp_all add: tip_account_def)
  have texts: "list_all auditIdentifier [''system:tip-expiry'', ''tip.expired'', ?k]" by code_simp
  obtain a where a: "fund_audit fund_sample_cfg ?k 3601000 (expired_audit fund_sample_cfg sample_intent ?k 3601000) (fund_stage [] [] [] [?t] [?r] []) =
      Inr (fund_stage [] [a] [] [?t] [?r] [])"
    using fund_sample_audit [of "expired_audit fund_sample_cfg sample_intent ?k 3601000" 3601000 ?k "[]" "[]" "[]" "[?t]" "[?r]" "[]"] fund_audit_facts texts
    by (auto simp: expired_audit_def fund_sample_cfg_def no_slash_safe)
  obtain e where e: "fund_event fund_sample_cfg ?k 3601000 (expired_event sample_intent (order_uuid (CHR ''1'')) ?k 3601000) (fund_stage [] [a] [] [?t] [?r] []) =
      Inr (fund_stage [] [a] [e] [?t] [?r] [])"
    using fund_sample_event [of "expired_event sample_intent (order_uuid (CHR ''1'')) ?k 3601000" ?k "[]" 3601000 "[]" "[a]" "[?t]" "[?r]" "[]"] fund_audit_facts
      order_uuid_no_slash [of "CHR ''2''"] order_uuid_no_slash [of "CHR ''1''"]
    by (auto simp: expired_event_def no_slash_safe)
  have "expireTip (order_uuid (CHR ''1'')) ''creator-1'' 20000 3601000 (fund_stage [] [] [] [sample_tip_row] [?r] []) = Inr (fund_stage [] [] [] [?t] [?r] [], True)"
    using ok(2) by (simp add: expireTip_def close_tip_def keep_def rows_update_def tip_open_def)
  then have "expire_intent fund_sample_cfg ?dw 0 ?k 3601000 sample_intent (fund_stage [] [] [] [sample_tip_row] [sample_intent] []) =
      Inr (fund_stage [] [a] [e] [?t] [?r] [])"
    using ok(1) a e
    by (simp add: expire_intent_def ids want_def orThrow_def need_def require_def Let_def keep_def rows_update_def expired_intent_def)
  moreover have "is_identifier ''rev-1''" by code_simp
  then have "is_identifier (fc_applicationRevision fund_sample_cfg)" "isTipPaymentsEnabled (fc_paymentsMode fund_sample_cfg)"
    by (simp_all add: fund_sample_cfg_def isTipPaymentsEnabled_def)
  ultimately show ?thesis using fund_dates(2)
    by (simp add: expireTipPaymentIntents_def Let_def expiry_batch_def expired_intent_def ids)
qed

end
