(* ===== verification/FundProperties.thy ===== *)
theory FundProperties
  imports FundSample
begin

text \<open>
  The properties of the payments: what the invariant of the ledger says of a database, a confirmation by hand rests
  on fresh evidence and counts a bank transaction once, open intents are bounded, the sealed destination is read back,
  and the expiry scan is complete.
\<close>

subsection \<open>Money and product\<close>

lemma reachable_fund:
  assumes "no_payments db0" "rtranclp fund_step db0 db"
  shows "fund_constraints db" "agrees (money_of db)"
  using fund.reach_inv [OF assms] by (simp_all add: fund_inv_def)

lemma agreeing_row:
  assumes "fund_constraints db" "agrees (money_of db)" "r \<in> set (fd_intents db)"
  shows "row_agrees (money_of db) r" "intent_check r" "intent_owner_ok db r"
  using assms by (auto simp: agrees_def list_all_iff money_of_def fund_constraints_def fund_references_ok_def intents_ok_def)

lemma sample_reaches:
  "\<exists>db1. rtranclp fund_step (fund_stage [] [] [] [] [] []) db1 \<and> fd_tips db1 = [sample_tip_row] \<and> fd_intents db1 = [sample_intent] \<and> fd_confirmations db1 = []"
  "\<exists>db2. rtranclp fund_step (fund_stage [] [] [] [] [] []) db2 \<and> fd_tips db2 = [sample_paid_tip] \<and> fd_intents db2 = [sample_paid_intent] \<and>
     fd_confirmations db2 = [tip_paid] \<and> fund_constraints db2"
proof -
  obtain db1 db2 v1 v2 where c: "createTip fund_sample_cfg fund_sample_ports (\<lambda>_. fund_sample_draw (CHR ''1'')) sample_tip (fund_stage [] [] [] [] [] []) = Inr (db1, v1)"
      "confirmTip fund_sample_cfg (fund_ports.truncate fund_sample_ports) (\<lambda>_. fund_sample_draw (CHR ''2'')) tip_confirmation db1 = Inr (db2, v2)"
    and rows: "fd_tips db1 = [sample_tip_row]" "fd_intents db1 = [sample_intent]" "fd_confirmations db1 = []"
      "fd_tips db2 = [sample_paid_tip]" "fd_intents db2 = [sample_paid_intent]" "fd_confirmations db2 = [tip_paid]"
    using fund_sample_run by blast
  have one: "rtranclp fund_step (fund_stage [] [] [] [] [] []) db1" by (rule r_into_rtranclp) (rule step_create [OF c(1)])
  then have two: "rtranclp fund_step (fund_stage [] [] [] [] [] []) db2" by (rule rtranclp.rtrancl_into_rtrancl) (rule step_confirm_tip [OF c(2)])
  show "\<exists>db1. rtranclp fund_step (fund_stage [] [] [] [] [] []) db1 \<and> fd_tips db1 = [sample_tip_row] \<and> fd_intents db1 = [sample_intent] \<and> fd_confirmations db1 = []"
    using one rows(1-3) by (intro exI [of _ db1] conjI)
  show "\<exists>db2. rtranclp fund_step (fund_stage [] [] [] [] [] []) db2 \<and> fd_tips db2 = [sample_paid_tip] \<and> fd_intents db2 = [sample_paid_intent] \<and>
     fd_confirmations db2 = [tip_paid] \<and> fund_constraints db2"
    using two rows(4-6) reachable_fund(1) [OF fund_start two] by (intro exI [of _ db2] conjI)
qed

definition tip_facts :: "string \<Rightarrow> fund_db \<Rightarrow> (string \<times> int \<times> tip_state \<times> instant option) list" where
  "tip_facts k db = map (\<lambda>t. (tp_creatorUserId t, tp_amountVnd t, tp_state t, tp_closedAt t)) (filter (\<lambda>t. tp_id t = k) (fd_tips db))"

definition confirmation_facts :: "string \<Rightarrow> fund_db \<Rightarrow> (string \<times> int \<times> string \<times> instant option) list" where
  "confirmation_facts k db = map (\<lambda>m. (pm_creatorUserId m, pm_observedAmountVnd m, pm_accountVersionId m, Some (pm_confirmedAt m)))
     (filter (\<lambda>m. pm_paymentIntentId m = k) (fd_confirmations db))"

lemma single_key:
  assumes "distinct (map key t)" "x \<in> set t"
  shows "filter (\<lambda>y. key y = key x) t = [x]"
  using assms
proof (induction t)
  case (Cons y t)
  show ?case
  proof (cases "key y = key x")
    case True
    then have none: "\<forall>z \<in> set t. key z \<noteq> key x" using Cons.prems(1) by (metis distinct.simps(2) image_eqI list.simps(9) set_map)
    then have "filter (\<lambda>y. key y = key x) t = []" "x = y" using Cons.prems(2) by (auto simp: filter_empty_conv)
    then show ?thesis by simp
  next
    case False
    then show ?thesis using Cons by auto
  qed
qed simp

lemma money_and_product:
  assumes "fund_constraints db" "agrees (money_of db)" "r \<in> set (fd_intents db)"
  shows "confirmation_facts (pi_id r) db =
      (if pi_state r = IntentConfirmed then [(pi_creatorUserId r, pi_amountVnd r, pi_accountVersionId r, pi_closedAt r)] else []) \<and>
    (case pi_tipId r of
       Some k \<Rightarrow> tip_facts k db = [(pi_creatorUserId r, pi_amountVnd r, tip_state_of (pi_state r), pi_closedAt r)]
     | None \<Rightarrow> (case pi_commissionOrderId r of None \<Rightarrow> False | Some k \<Rightarrow> confirmed_at (fd_orders db) k = paid_at r))"
proof (intro conjI)
  note row = agreeing_row [OF assms]
  let ?ms = "filter (\<lambda>m. pm_paymentIntentId m = pi_id r) (fd_confirmations db)"
  have ms: "map (\<lambda>m. (confirmation_binding m, Some (pm_confirmedAt m))) ?ms =
      (if pi_state r = IntentConfirmed then [(intent_binding r, pi_closedAt r)] else [])"
    using row(1) by (simp add: row_agrees_def money_of_def)
  show "confirmation_facts (pi_id r) db =
      (if pi_state r = IntentConfirmed then [(pi_creatorUserId r, pi_amountVnd r, pi_accountVersionId r, pi_closedAt r)] else [])"
    using ms by (cases ?ms) (auto simp: confirmation_facts_def confirmation_binding_def intent_binding_def split: if_splits)
  show "case pi_tipId r of
       Some k \<Rightarrow> tip_facts k db = [(pi_creatorUserId r, pi_amountVnd r, tip_state_of (pi_state r), pi_closedAt r)]
     | None \<Rightarrow> (case pi_commissionOrderId r of None \<Rightarrow> False | Some k \<Rightarrow> confirmed_at (fd_orders db) k = paid_at r)"
  proof (cases "pi_tipId r")
    case None
    then show ?thesis using row(1,2)
      by (auto simp: row_agrees_def money_of_def intent_check_def purpose_check_def split: purpose.splits option.splits)
  next
    case (Some k)
    then obtain t where t: "t \<in> set (fd_tips db)" "tp_id t = k" using row(3) by (auto simp: intent_owner_ok_def)
    have "distinct (map tp_id (fd_tips db))" using assms(1) by (simp add: fund_constraints_def tips_ok_def)
    then have "filter (\<lambda>t. tp_id t = k) (fd_tips db) = [t]" using single_key [of tp_id, OF _ t(1)] t(2) by simp
    moreover have "tip_owner r t" "tp_state t = tip_state_of (pi_state r)" "tp_closedAt t = pi_closedAt r"
      using row(1) t Some by (auto simp: row_agrees_def money_of_def list_all_iff)
    ultimately show ?thesis using Some by (simp add: tip_facts_def tip_owner_def)
  qed
qed

text \<open>What was delivered for money: completed tips and confirmed orders, with price and time.\<close>

definition paid_products :: "fund_db \<Rightarrow> (string \<times> int option \<times> instant option) list" where
  "paid_products db =
     map (\<lambda>t. (tp_id t, Some (tp_amountVnd t), tp_closedAt t)) (filter (\<lambda>t. tp_state t = TipCompleted) (fd_tips db)) @
     map (\<lambda>o1. (co_id o1, co_amountVnd o1, co_confirmedAt o1)) (filter (\<lambda>o1. co_confirmedAt o1 \<noteq> None) (od_orders (fd_orders db)))"

lemma paid_for:
  assumes "fund_constraints db" "agrees (money_of db)" "(k, amount, at) \<in> set (paid_products db)"
  shows "\<exists>r m. r \<in> set (fd_intents db) \<and> m \<in> set (fd_confirmations db) \<and> (pi_tipId r = Some k \<or> pi_commissionOrderId r = Some k) \<and>
    pm_paymentIntentId m = pi_id r \<and> amount = Some (pm_observedAmountVnd m) \<and> at = Some (pm_confirmedAt m)"
proof -
  note inv = assms(1,2)
  have paid: "\<exists>m. m \<in> set (fd_confirmations db) \<and> pm_paymentIntentId m = pi_id r \<and> pm_observedAmountVnd m = pi_amountVnd r \<and>
      pi_closedAt r = Some (pm_confirmedAt m)" if "r \<in> set (fd_intents db)" "pi_state r = IntentConfirmed" for r
  proof -
    let ?ms = "filter (\<lambda>m. pm_paymentIntentId m = pi_id r) (fd_confirmations db)"
    have "map (\<lambda>m. (confirmation_binding m, Some (pm_confirmedAt m))) ?ms = [(intent_binding r, pi_closedAt r)]"
      using agreeing_row(1) [OF assms(1,2) that(1)] that(2) by (simp add: row_agrees_def money_of_def)
    then obtain m where m: "?ms = [m]" "confirmation_binding m = intent_binding r" "pi_closedAt r = Some (pm_confirmedAt m)" by auto
    then have "m \<in> set ?ms" by simp
    then have "m \<in> set (fd_confirmations db)" by simp
    then show ?thesis using m(2,3) by (intro exI [of _ m]) (simp add: confirmation_binding_def intent_binding_def)
  qed
  consider (tip) t where "t \<in> set (fd_tips db)" "tp_state t = TipCompleted" "k = tp_id t" "amount = Some (tp_amountVnd t)" "at = tp_closedAt t"
    | (order) o1 t where "o1 \<in> set (od_orders (fd_orders db))" "co_confirmedAt o1 = Some t" "k = co_id o1" "amount = co_amountVnd o1" "at = Some t"
    using assms(3) by (auto simp: paid_products_def)
  then show ?thesis
  proof cases
    case tip
    have "Some (tp_id t) \<in> pi_tipId ` set (fd_intents db)" using inv(2) tip(1) by (auto simp: agrees_def money_of_def)
    then obtain r where r: "r \<in> set (fd_intents db)" "pi_tipId r = Some (tp_id t)" by auto
    have a: "tip_owner r t" "tip_state_of (pi_state r) = TipCompleted" "tp_closedAt t = pi_closedAt r"
      using agreeing_row(1) [OF assms(1,2) r(1)] r(2) tip(1,2) by (auto simp: row_agrees_def money_of_def list_all_iff)
    then have "pi_state r = IntentConfirmed" by (cases "pi_state r") (simp_all add: tip_state_of_def)
    then obtain m where "m \<in> set (fd_confirmations db)" "pm_paymentIntentId m = pi_id r" "pm_observedAmountVnd m = pi_amountVnd r"
        "pi_closedAt r = Some (pm_confirmedAt m)" using paid [OF r(1)] by blast
    then show ?thesis using r a tip by (intro exI [of _ r] exI [of _ m]) (simp add: tip_owner_def)
  next
    case order
    have keys: "distinct (map co_id (od_orders (fd_orders db)))" using inv(1) order_keys(1) by (simp add: fund_constraints_def)
    have "List.find (\<lambda>x. co_id x = co_id o1) (od_orders (fd_orders db)) = Some o1" using order(1) by (simp add: find_key_iff [OF keys])
    then have conf: "confirmed_at (fd_orders db) k = Some t" using order(2,3) by (simp add: confirmed_at_def view_def)
    then have "Some k \<in> pi_commissionOrderId ` set (fd_intents db)" using inv(2) by (auto simp: agrees_def money_of_def)
    then obtain r where r: "r \<in> set (fd_intents db)" "pi_commissionOrderId r = Some k" by auto
    have "paid_at r = Some t" using agreeing_row(1) [OF assms(1,2) r(1)] r(2) conf by (simp add: row_agrees_def money_of_def)
    then have closed: "pi_state r = IntentConfirmed" "pi_closedAt r = Some t" by (auto simp: paid_at_def split: if_splits)
    then obtain m where m: "m \<in> set (fd_confirmations db)" "pm_paymentIntentId m = pi_id r" "pm_observedAmountVnd m = pi_amountVnd r"
        "pi_closedAt r = Some (pm_confirmedAt m)" using paid [OF r(1)] by blast
    obtain o2 where o2: "o2 \<in> set (od_orders (fd_orders db))" "co_id o2 = k" "co_amountVnd o2 = Some (pi_amountVnd r)"
      using agreeing_row(3) [OF assms(1,2) r(1)] r(2) by (auto simp: intent_owner_ok_def)
    then have "o2 = o1" using distinct_key_eq [OF keys o2(1) order(1)] order(3) by simp
    then show ?thesis using r m closed o2 order by (intro exI [of _ r] exI [of _ m]) simp
  qed
qed

subsection \<open>The sealed destination\<close>

text \<open>C27: The instruction a payer got can be shown again: the intent that was written opens to the bank
  account, the creator and the reference of the answer, whatever became of the account since.\<close>

theorem intent_snapshot_opens:
  assumes "insertTransferPaymentIntent cfg dw c db = Inr (db', r, s, reference)"
    and "platform_laws (fc_platform cfg)" "keyring_ok (fc_keyring cfg)" "\<And>n. length (dw_nonce dw n) = 12"
    and "in_displayName c \<noteq> []" "length (in_displayName c) \<le> 80" "handle_ok (in_handle c)"
  shows "readTipIntentSnapshot cfg r = Inr (s, reference)"
proof -
  obtain d settlement e amountVnd where w: "written cfg dw c d settlement e amountVnd r reference" and s: "s = destination_snapshot d c"
      and e: "fund_seal cfg (dw_nonce dw 0) ''payment_intents'' (in_intentId c) ''destination'' (stringify (snapshot_json s)) = Inr e"
      and d: "lockTipReceivingDestination cfg dw (in_creatorUserId c) (in_at c) db = Inr (Some d)"
    by (rule insert_transfer_Inr [OF assms(1)]) (rule that)
  note opens = fund_seal_opens [OF assms(2,3) assms(4)]
  have "1 \<le> length (in_displayName c)" using assms(5) by (cases "in_displayName c") simp_all
  then have "snapshot_of (snapshot_json s) = Some s"
    using found_destination [OF d] assms(6,7) by (intro snapshot_reads) (simp_all add: s destination_snapshot_def)
  moreover obtain n where "fund_seal cfg (dw_nonce dw n) ''payment_intents'' (pi_id r) ''transfer_reference'' reference = Inr (pi_referenceEnvelope r)"
    using written_envelopes(3) [OF w] by blast
  ultimately show ?thesis
    using opens [OF e] opens written_row(1,10) [OF w] written_envelopes(1,2) [OF w]
    by (simp add: readTipIntentSnapshot_def)
qed

theorem intent_snapshot_opens_witness:
  "\<exists>db1 r s. insertTransferPaymentIntent fund_sample_cfg (fund_sample_draw (CHR ''1'')) sample_intent_command (fund_stage [] [] [] [sample_tip_row] [] []) =
       Inr (db1, r, s, ''PW0123456789ABCDEF0123'') \<and> sn_accountNumber s = ''0123456789'' \<and>
     readTipIntentSnapshot fund_sample_cfg r = Inr (s, ''PW0123456789ABCDEF0123'')"
proof -
  have "platform_laws (fc_platform fund_sample_cfg)" "keyring_ok (fc_keyring fund_sample_cfg)"
    using toy_platform_laws createEncryptionKeyring_ok [OF sample_keyrings(1)] by (simp_all add: fund_sample_cfg_def DepositSample.sample_keyring_def)
  moreover have "length (dw_nonce (fund_sample_draw (CHR ''1'')) n) = 12" for n by (simp add: fund_sample_draw_def)
  ultimately have "readTipIntentSnapshot fund_sample_cfg sample_intent = Inr (sample_snapshot, ''PW0123456789ABCDEF0123'')"
    using tip_destination_facts(5) by (intro intent_snapshot_opens [OF sample_intent_written [of "[]" "[]" "[]"]]) (simp_all add: sample_intent_command_def)
  then show ?thesis using sample_intent_written [of "[]" "[]" "[]"]
    by (intro exI conjI) (assumption | simp add: sample_snapshot_def destination_snapshot_def tip_destination_def)+
qed

subsection \<open>Confirmations by hand\<close>

text \<open>A confirmation a command added was written by one of its attempts, on evidence locked there.\<close>

lemma confirm_manual_fresh:
  assumes "confirm_manual cfg ports ag dws c db = Inr (db', v)" "m \<in> set (fd_confirmations db')" "m \<notin> set (fd_confirmations db)"
  obtains n e db0 candidate k recordId where "manual_evidence cfg (ag_purpose (ag 0)) c = Inr e" "bookkeeping db db0"
    "lock_evidence cfg ports (ag n) (dws n) c e candidate db0 = Inr k"
    "confirm_rows cfg (ag n) (dws n) c e k recordId db0 = Inr (db', v)"
proof -
  obtain n e where e: "manual_evidence cfg (ag_purpose (ag 0)) c = Inr e" "confirm_transaction cfg ports (ag n) (dws n) c e db = Inr (db', v)"
    using assms(1) by (rule confirm_manual_Inr)
  show thesis
    using e(2)
  proof (cases rule: confirm_transaction_cases)
    case (replay candidate k ref)
    then show thesis using bookkeeping_tables(3) [OF replay(1)] assms(2,3) by simp
  next
    case (fresh db0 candidate k recordId)
    then show thesis using that [OF e(1)] by blast
  qed
qed

lemma confirm_tip_fresh:
  assumes "confirmTip cfg ports dws c db = Inr (db', v)" "m \<in> set (fd_confirmations db')" "m \<notin> set (fd_confirmations db)"
  obtains n e db0 candidate k recordId where "manual_evidence cfg TipPurpose c = Inr e" "bookkeeping db db0"
    "lock_evidence cfg ports (tip_aggregate cfg) (dws n) c e candidate db0 = Inr k"
    "confirm_rows cfg (tip_aggregate cfg) (dws n) c e k recordId db0 = Inr (db', v)"
proof -
  have purpose: "ag_purpose (tip_aggregate cfg) = TipPurpose" by (simp add: tip_aggregate_def)
  show thesis
    by (rule confirm_manual_fresh [OF assms(1) [unfolded confirmTip_def] assms(2,3), unfolded purpose]) (rule that)
qed

text \<open>What the sign-in must be when the confirmation is recorded, and whose it is.\<close>

lemma validated_assurance:
  assumes "validateAssurance cfg answer at True = Inr p"
  shows "answer = Some p" "as_primaryAuthenticatedAt p \<le> at" "at - as_primaryAuthenticatedAt p \<le> fc_recentAuthMs cfg" "at < as_sessionExpiresAt p"
    "as_mfaEnrolled p \<Longrightarrow> mfa_fresh cfg p at"
  using assms by (auto simp: validateAssurance_def result_iffs Let_def)

lemma evidence_session:
  assumes "lock_evidence cfg ports ag dw c e candidate db = Inr k"
  shows "fp_assurance ports (mc_actor c) (dw_clock dw 2) = Inr (Some (li_proof k))" "li_at k = dw_clock dw 5"
    "fp_authorizeCommand ports (mc_actor c) = Inr ()"
  using assms unfolding lock_evidence_def Let_def
  by (auto simp: result_iffs fund_now_def dest!: validated_assurance(1))

text \<open>For whatever aggregate completes its payments; the claim below puts tips and orders in.\<close>

lemma manual_confirmation_evidence:
  assumes "confirm_manual cfg ports ag dws c db = Inr (db', v)" "\<And>n. settling (ag n)"
    and "fund_constraints db" "m \<in> set (fd_confirmations db')" "m \<notin> set (fd_confirmations db)"
  shows "\<exists>r p s n. r \<in> set (fd_intents db) \<and> confirmation_binding m = intent_binding r \<and> pi_id r = mc_paymentIntentId c \<and>
    pi_creatorUserId r = ak_userId (mc_actor c) \<and> pending_intent (pm_confirmedAt m) r \<and> pi_settlementLane r = ManualAttested \<and>
    pi_amountVnd r = mc_observedAmountVnd c \<and> readTipIntentSnapshot cfg r = Inr (s, mc_observedTransferReference c) \<and> mc_attestedReceived c \<and>
    validateAssurance cfg (Some p) (pm_confirmedAt m) True = Inr p \<and>
    fp_assurance ports (mc_actor c) (dw_clock (dws n) 2) = Inr (Some p) \<and> pm_confirmedAt m = dw_clock (dws n) 5 \<and>
    fp_authorizeCommand ports (mc_actor c) = Inr () \<and> pm_actorSessionId m = Some (ak_sessionId (mc_actor c)) \<and>
    pm_primaryAuthenticatedAt m = Some (as_primaryAuthenticatedAt p) \<and> as_primaryAuthenticatedAt p \<le> pm_confirmedAt m \<and>
    pm_confirmedAt m - as_primaryAuthenticatedAt p \<le> fc_recentAuthMs cfg \<and> pm_confirmedAt m < as_sessionExpiresAt p \<and>
    (if as_mfaEnrolled p
     then \<exists>f. as_mfaVerifiedAt p = Some f \<and> pm_mfaVerifiedAt m = Some f \<and> as_primaryAuthenticatedAt p \<le> f \<and> f \<le> pm_confirmedAt m \<and>
       pm_confirmedAt m - f \<le> fc_mfaAuthMs cfg
     else pm_mfaVerifiedAt m = None)"
proof -
  obtain n e db0 candidate k recordId where e: "manual_evidence cfg (ag_purpose (ag 0)) c = Inr e" and b: "bookkeeping db db0"
    and ev: "lock_evidence cfg ports (ag n) (dws n) c e candidate db0 = Inr k"
    and rows: "confirm_rows cfg (ag n) (dws n) c e k recordId db0 = Inr (db', v)"
    by (rule confirm_manual_fresh [OF assms(1,4,5)])
  note t = bookkeeping_tables [OF b]
  have ok: "fund_constraints db0" using assms(3) t(10) by simp
  have m: "m = manual_confirmation (dws n) c e k"
    using settling.confirm_rows_settle(3) [OF assms(2) ev rows ok] assms(4,5) t(3) by simp
  have open_: "pending_intent (li_at k) (li_intent k)" using rows by (auto simp: confirm_rows_def Let_def result_iffs)
  have command: "mc_attestedReceived c" "me_amountVnd e = mc_observedAmountVnd c"
    using e by (auto simp: manual_evidence_def result_iffs manual_command_ok_def dest: integer_amount)
  obtain s q where f: "pi_creatorUserId (li_intent k) = ak_userId (mc_actor c)" "pi_amountVnd (li_intent k) = me_amountVnd e"
      "pi_settlementLane (li_intent k) = ManualAttested" "readTipIntentSnapshot cfg (li_intent k) = Inr (s, mc_observedTransferReference c)"
      "validateAssurance cfg (Some (li_proof k)) (li_at k) True = Inr q"
    by (rule evidence_found [OF ev]) simp
  have v: "validateAssurance cfg (Some (li_proof k)) (li_at k) True = Inr (li_proof k)"
    using f(5) validated_proof [OF f(5)] by simp
  show ?thesis
    by (rule exI [where x = "li_intent k"], rule exI [where x = "li_proof k"], rule exI [where x = s], rule exI [where x = n])
      (use manual_binding(1) [OF ev, of "dws n"] manual_binding(2,3) [OF ev] f(1-4) open_ command v validated_assurance(2-5) [OF v] evidence_session [OF ev] in
        \<open>auto simp: m manual_confirmation_def t(1) mfa_fresh_def split: option.splits\<close>)
qed

text \<open>C12: A confirmation by hand, of a tip or of an order, rests on evidence that holds at the moment it is
  recorded: the creator owns the intent, which is open and settled by hand, names exactly its amount and its
  sealed reference and attests the receipt; and the sign-in that identity reports for the very session of the
  command, in the attempt that wrote the row, is not expired and recent, its second factor too where one is
  enrolled, and is the sign-in the row records.\<close>

theorem confirmation_rests_on_evidence:
  assumes "(\<exists>v. confirmTip cfg ports dws c db = Inr (db', v)) \<or> (\<exists>v. confirmCommission cfg ports dws c db = Inr (db', v))"
    and "fund_constraints db" "m \<in> set (fd_confirmations db')" "m \<notin> set (fd_confirmations db)"
  shows "\<exists>r p s n. r \<in> set (fd_intents db) \<and> confirmation_binding m = intent_binding r \<and> pi_id r = mc_paymentIntentId c \<and>
    pi_creatorUserId r = ak_userId (mc_actor c) \<and> pending_intent (pm_confirmedAt m) r \<and> pi_settlementLane r = ManualAttested \<and>
    pi_amountVnd r = mc_observedAmountVnd c \<and> readTipIntentSnapshot cfg r = Inr (s, mc_observedTransferReference c) \<and> mc_attestedReceived c \<and>
    validateAssurance cfg (Some p) (pm_confirmedAt m) True = Inr p \<and>
    fp_assurance ports (mc_actor c) (dw_clock (dws n) 2) = Inr (Some p) \<and> pm_confirmedAt m = dw_clock (dws n) 5 \<and>
    fp_authorizeCommand ports (mc_actor c) = Inr () \<and> pm_actorSessionId m = Some (ak_sessionId (mc_actor c)) \<and>
    pm_primaryAuthenticatedAt m = Some (as_primaryAuthenticatedAt p) \<and> as_primaryAuthenticatedAt p \<le> pm_confirmedAt m \<and>
    pm_confirmedAt m - as_primaryAuthenticatedAt p \<le> fc_recentAuthMs cfg \<and> pm_confirmedAt m < as_sessionExpiresAt p \<and>
    (if as_mfaEnrolled p
     then \<exists>f. as_mfaVerifiedAt p = Some f \<and> pm_mfaVerifiedAt m = Some f \<and> as_primaryAuthenticatedAt p \<le> f \<and> f \<le> pm_confirmedAt m \<and>
       pm_confirmedAt m - f \<le> fc_mfaAuthMs cfg
     else pm_mfaVerifiedAt m = None)"
  using assms(1)
proof (elim disjE exE)
  fix v
  assume "confirmTip cfg ports dws c db = Inr (db', v)"
  from this [unfolded confirmTip_def] show ?thesis by (rule manual_confirmation_evidence [OF _ tips.settling_axioms assms(2-4)])
next
  fix v
  assume "confirmCommission cfg ports dws c db = Inr (db', v)"
  from this [unfolded confirmCommission_def] show ?thesis by (rule manual_confirmation_evidence [OF _ orders.settling_axioms assms(2-4)])
qed

theorem confirmation_rests_on_evidence_witness:
  "\<exists>db r s p. rtranclp fund_step (fund_stage [] [] [] [] [] []) db \<and> r \<in> set (fd_intents db) \<and> confirmation_binding tip_paid = intent_binding r \<and>
     readTipIntentSnapshot fund_sample_cfg r = Inr (s, ''PW0123456789ABCDEF0123'') \<and>
     fp_assurance (fund_ports.truncate fund_sample_ports) (mc_actor tip_confirmation) (dw_clock (fund_sample_draw (CHR ''2'')) 2) = Inr (Some p) \<and>
     pm_primaryAuthenticatedAt tip_paid = Some (as_primaryAuthenticatedAt p) \<and> pm_confirmedAt tip_paid < as_sessionExpiresAt p"
proof -
  obtain db1 db2 v1 v2 where c: "createTip fund_sample_cfg fund_sample_ports (\<lambda>_. fund_sample_draw (CHR ''1'')) sample_tip (fund_stage [] [] [] [] [] []) = Inr (db1, v1)"
      "confirmTip fund_sample_cfg (fund_ports.truncate fund_sample_ports) (\<lambda>_. fund_sample_draw (CHR ''2'')) tip_confirmation db1 = Inr (db2, v2)"
    and rows: "fd_confirmations db1 = []" "fd_confirmations db2 = [tip_paid]"
    using fund_sample_run by blast
  have one: "rtranclp fund_step (fund_stage [] [] [] [] [] []) db1" by (rule r_into_rtranclp) (rule step_create [OF c(1)])
  have "tip_paid \<in> set (fd_confirmations db2)" "tip_paid \<notin> set (fd_confirmations db1)" using rows by simp_all
  moreover have "\<exists>v. confirmTip fund_sample_cfg (fund_ports.truncate fund_sample_ports) (\<lambda>_. fund_sample_draw (CHR ''2'')) tip_confirmation db1 = Inr (db2, v)"
    using c(2) by blast
  ultimately
  have "\<exists>r p s. r \<in> set (fd_intents db1) \<and> confirmation_binding tip_paid = intent_binding r \<and>
     readTipIntentSnapshot fund_sample_cfg r = Inr (s, mc_observedTransferReference tip_confirmation) \<and>
     fp_assurance (fund_ports.truncate fund_sample_ports) (mc_actor tip_confirmation) (dw_clock (fund_sample_draw (CHR ''2'')) 2) = Inr (Some p) \<and>
     pm_primaryAuthenticatedAt tip_paid = Some (as_primaryAuthenticatedAt p) \<and> pm_confirmedAt tip_paid < as_sessionExpiresAt p"
    using confirmation_rests_on_evidence [OF disjI1 reachable_fund(1) [OF fund_start one], of fund_sample_cfg "fund_ports.truncate fund_sample_ports"
      "\<lambda>_. fund_sample_draw (CHR ''2'')" tip_confirmation db2 tip_paid] by blast
  moreover have "mc_observedTransferReference tip_confirmation = ''PW0123456789ABCDEF0123''" by (simp add: tip_confirmation_def)
  ultimately show ?thesis using one by (simp only:) blast
qed

text \<open>C11: A bank transaction pays once: the confirmation a command adds carries the fingerprint of the
  transaction the creator named, on the account of the intent, and no confirmation before had that fingerprint.\<close>

theorem bank_transaction_counted_once:
  assumes "confirmTip cfg ports dws c db = Inr (db', v)" "fund_constraints db"
    and "m \<in> set (fd_confirmations db')" "m \<notin> set (fd_confirmations db)"
  shows "\<exists>k d f. normalizeTipBankTransactionId (mc_observedBankTransactionId c) = Inr k \<and> ds_accountVersionId d = pm_accountVersionId m \<and>
    bank_fingerprint cfg d k = Inr f \<and> pm_bankTransactionFingerprint m = Some f \<and>
    Some f \<notin> pm_bankTransactionFingerprint ` set (fd_confirmations db) \<and> fd_confirmations db' = fd_confirmations db @ [m]"
proof -
  obtain n e db0 candidate k recordId where e: "manual_evidence cfg TipPurpose c = Inr e" and b: "bookkeeping db db0"
    and ev: "lock_evidence cfg ports (tip_aggregate cfg) (dws n) c e candidate db0 = Inr k"
    and rows: "confirm_rows cfg (tip_aggregate cfg) (dws n) c e k recordId db0 = Inr (db', v)"
    by (rule confirm_tip_fresh [OF assms(1,3,4)])
  note t = bookkeeping_tables [OF b]
  have ok: "fund_constraints db0" using assms(2) t(10) by simp
  note settled = tips.confirm_rows_settle(3,4) [OF ev rows ok, unfolded t]
  have m: "m = manual_confirmation (dws n) c e k" using settled(1) assms(3,4) by simp
  have "normalizeTipBankTransactionId (mc_observedBankTransactionId c) = Inr (me_bankTransactionId e)"
    using e by (auto simp: manual_evidence_def result_iffs)
  moreover obtain d where "bank_fingerprint cfg d (me_bankTransactionId e) = Inr (li_bankFingerprint k)"
      "ds_accountVersionId d = pi_accountVersionId (li_intent k)"
    by (rule evidence_found [OF ev])
  ultimately show ?thesis
    using settled by (intro exI [of _ "me_bankTransactionId e"] exI [of _ d] exI [of _ "li_bankFingerprint k"]) (simp add: m manual_confirmation_def)
qed

theorem bank_transaction_counted_once_witness:
  "\<exists>db db' v f. confirmTip fund_sample_cfg (fund_ports.truncate fund_sample_ports) (\<lambda>_. fund_sample_draw (CHR ''2'')) tip_confirmation db = Inr (db', v) \<and>
     normalizeTipBankTransactionId ''ft26044'' = Inr ''FT26044'' \<and> pm_bankTransactionFingerprint tip_paid = Some f \<and> fd_confirmations db = [] \<and>
     fd_confirmations db' = [tip_paid]"
proof -
  obtain db1 db2 v1 v2 where c: "createTip fund_sample_cfg fund_sample_ports (\<lambda>_. fund_sample_draw (CHR ''1'')) sample_tip (fund_stage [] [] [] [] [] []) = Inr (db1, v1)"
      "confirmTip fund_sample_cfg (fund_ports.truncate fund_sample_ports) (\<lambda>_. fund_sample_draw (CHR ''2'')) tip_confirmation db1 = Inr (db2, v2)"
    and rows: "fd_confirmations db1 = []" "fd_confirmations db2 = [tip_paid]"
    using fund_sample_run by blast
  have one: "rtranclp fund_step (fund_stage [] [] [] [] [] []) db1" by (rule r_into_rtranclp) (rule step_create [OF c(1)])
  have "tip_paid \<in> set (fd_confirmations db2)" "tip_paid \<notin> set (fd_confirmations db1)" using rows by simp_all
  from bank_transaction_counted_once [OF c(2) reachable_fund(1) [OF fund_start one] this] obtain f where
      "pm_bankTransactionFingerprint tip_paid = Some f" "fd_confirmations db2 = fd_confirmations db1 @ [tip_paid]" by blast
  moreover have "normalizeTipBankTransactionId ''ft26044'' = Inr ''FT26044''" by code_simp
  ultimately show ?thesis using c(2) rows by (intro exI conjI) (assumption | simp)+
qed

subsection \<open>Bounds and expiry\<close>

text \<open>C16: Creating a tip never opens more than the limits allow: at the moment the intent is opened, it
  included, the open intents of the payer's network key and those of the creator are within the two limits.\<close>

theorem open_intents_bounded:
  assumes "createTip cfg ports dws c db = Inr (db', payment)" "fd_intents db' = fd_intents db @ [r]"
  shows "int (open_by_key (pi_createdAt r) (tc_abuseKeyHash c) db') \<le> fc_openIpLimit cfg \<and>
    int (open_by_creator (pi_createdAt r) (pi_creatorUserId r) db') \<le> fc_openCreatorLimit cfg"
proof -
  obtain n q where "create_transaction cfg ports (dws n) c q db = Inr (db', payment)" by (rule createTip_Inr [OF assms(1)])
  then show ?thesis
  proof (cases rule: create_transaction_cases)
    case replay
    then show ?thesis using bookkeeping_tables(1) [OF replay] assms(2) by simp
  next
    case (fresh db0 db1 creator t r1)
    note t = bookkeeping_tables(1) [OF fresh(1)] bookkeeping_tables(1) [OF fresh(2)]
    have added: "fd_intents db1 = fd_intents db @ [r1]" "pi_createdAt r1 = dw_clock (dws n) 1" "pi_creatorUserId r1 = el_creatorUserId creator"
      using fresh(5) t by (simp_all add: tip_added_def)
    then have r: "r1 = r" using assms(2) t(2) by simp
    have "int (open_by_key (dw_clock (dws n) 1) (tc_abuseKeyHash c) db0) < fc_openIpLimit cfg"
      "int (open_by_creator (dw_clock (dws n) 1) (el_creatorUserId creator) db0) < fc_openCreatorLimit cfg"
      using fresh(4) by (simp_all add: assertOpenCapacity_def)
    then show ?thesis using added(2,3) t(1) assms(2) by (simp add: open_by_key_def open_by_creator_def r)
  qed
qed

theorem open_intents_bounded_witness:
  "\<exists>db v. createTip fund_sample_cfg fund_sample_ports (\<lambda>_. fund_sample_draw (CHR ''1'')) sample_tip (fund_stage [] [] [] [] [] []) = Inr (db, v) \<and>
     fd_intents db = [sample_intent] \<and> int (open_by_key 1000 sample_mac db) \<le> 2 \<and> int (open_by_creator 1000 ''creator-1'' db) \<le> 5"
proof -
  obtain db v where c: "createTip fund_sample_cfg fund_sample_ports (\<lambda>_. fund_sample_draw (CHR ''1'')) sample_tip (fund_stage [] [] [] [] [] []) = Inr (db, v)"
      "fd_intents db = [sample_intent]"
    using fund_sample_run by blast
  have "fd_intents db = fd_intents (fund_stage [] [] [] [] [] []) @ [sample_intent]" using c(2) by simp
  from open_intents_bounded [OF c(1) this] show ?thesis
    using c by (intro exI [of _ db] exI [of _ v]) (simp add: sample_tip_def fund_sample_cfg_def)
qed

lemma rows_update_both:
  assumes "\<And>x. p (f x) = p x" "\<And>x. f (f x) = f x"
  shows "rows_update p f (rows_update q f t) = rows_update (\<lambda>x. q x \<or> p x) f t"
  by (simp add: rows_update_def assms)

lemma audit_write:
  "fund_audit cfg k at e db = Inr db1 \<Longrightarrow> \<exists>a. db1 = db\<lparr>fd_orders := (fd_orders db)\<lparr>od_audit := od_audit (fd_orders db) @ [a]\<rparr>\<rparr>"
  by (auto simp: fund_audit_def appendAdminAuditEvent_def result_iffs simp del: fund_db.update_convs)

lemma event_write:
  "fund_event cfg k at e db = Inr db1 \<Longrightarrow> \<exists>o1. db1 = db\<lparr>fd_orders := (fd_orders db)\<lparr>od_outbox := od_outbox (fd_orders db) @ [o1]\<rparr>\<rparr>"
  by (auto simp: fund_event_def insertOutboxEvent_def result_iffs Let_def split: if_splits)

lemma expiry_writes:
  assumes "fund_audit cfg k1 at e1 db = Inr db1" "fund_event cfg k2 at e2 db1 = Inr db2"
  shows "\<exists>a o1. db2 = db\<lparr>fd_orders := (fd_orders db)\<lparr>od_audit := od_audit (fd_orders db) @ [a], od_outbox := od_outbox (fd_orders db) @ [o1]\<rparr>\<rparr>"
proof -
  obtain a where a: "db1 = db\<lparr>fd_orders := (fd_orders db)\<lparr>od_audit := od_audit (fd_orders db) @ [a]\<rparr>\<rparr>"
    using audit_write [OF assms(1)] by blast
  obtain o1 where "db2 = db1\<lparr>fd_orders := (fd_orders db1)\<lparr>od_outbox := od_outbox (fd_orders db1) @ [o1]\<rparr>\<rparr>"
    using event_write [OF assms(2)] by blast
  then show ?thesis by (intro exI [where x = a] exI [where x = o1]) (simp add: a)
qed

text \<open>One expired intent: its row, its tip, one audit event and one outbox event, and nothing else.\<close>

lemma expire_intent_state:
  assumes run: "expire_intent cfg dw n q at r db = Inr db'" and ok: "fund_constraints db" and r: "r \<in> set (fd_intents db)"
  shows "\<exists>a o1. db' = db\<lparr>fd_intents := rows_update (\<lambda>x. pi_id x = pi_id r) (closed_intent None at) (fd_intents db),
    fd_tips := rows_update (\<lambda>t. Some (tp_id t) = pi_tipId r) (closed_tip TipExpired at) (fd_tips db),
    fd_orders := (fd_orders db)\<lparr>od_audit := od_audit (fd_orders db) @ [a], od_outbox := od_outbox (fd_orders db) @ [o1]\<rparr>\<rparr>"
proof -
  let ?hit = "\<lambda>x. pi_id x = pi_id r \<and> expired_intent at x"
  have keys: "distinct (map pi_id (fd_intents db))" using ok by (simp add: fund_constraints_def intents_ok_def)
  obtain k db1 db2 db3 k1 e1 k2 e2 where k: "pi_tipId r = Some k" and db1: "db1 = db\<lparr>fd_intents := rows_update ?hit (closed_intent None at) (fd_intents db)\<rparr>" "fund_constraints db1"
    and hit: "list_ex ?hit (fd_intents db)" and tip: "close_tip TipExpired k (pi_creatorUserId r) (pi_amountVnd r) at db1 = Inr (db2, True)"
    and writes: "fund_audit cfg k1 at e1 db2 = Inr db3" "fund_event cfg k2 at e2 db3 = Inr db'"
    using run unfolding expire_intent_def Let_def expireTip_def by (auto simp: result_iffs)
  have exp: "expired_intent at r" using hit distinct_key_eq [OF keys _ r] by (auto simp: list_ex_iff)
  have "?hit x \<longleftrightarrow> pi_id x = pi_id r" if "x \<in> set (fd_intents db)" for x
    using distinct_key_eq [OF keys that r] exp by blast
  then have rows: "rows_update ?hit (closed_intent None at) (fd_intents db) = rows_update (\<lambda>x. pi_id x = pi_id r) (closed_intent None at) (fd_intents db)"
    by (simp add: rows_update_def)
  have tips: "tips_after TipExpired at r (fd_tips db) = rows_update (\<lambda>t. Some (tp_id t) = pi_tipId r) (closed_tip TipExpired at) (fd_tips db)"
    by (simp add: tips_after_def rows_update_def k eq_commute)
  have db2: "db2 = db\<lparr>fd_intents := rows_update (\<lambda>x. pi_id x = pi_id r) (closed_intent None at) (fd_intents db),
      fd_tips := rows_update (\<lambda>t. Some (tp_id t) = pi_tipId r) (closed_tip TipExpired at) (fd_tips db)\<rparr>"
    using close_tip_done(1) [OF tip db1(2) k] by (simp add: db1(1) rows tips)
  show ?thesis using expiry_writes [OF writes] by (simp add: db2)
qed

definition expired_rows :: "instant \<Rightarrow> intent_row list \<Rightarrow> audit_table \<Rightarrow> outbox \<Rightarrow> fund_db \<Rightarrow> fund_db" where
  "expired_rows at rs au ob db = db\<lparr>fd_intents := rows_update (\<lambda>x. pi_id x \<in> pi_id ` set rs) (closed_intent None at) (fd_intents db),
     fd_tips := rows_update (\<lambda>t. Some (tp_id t) \<in> pi_tipId ` set rs) (closed_tip TipExpired at) (fd_tips db),
     fd_orders := (fd_orders db)\<lparr>od_audit := od_audit (fd_orders db) @ au, od_outbox := od_outbox (fd_orders db) @ ob\<rparr>\<rparr>"

lemma expired_rows_none: "expired_rows at [] [] [] db = db"
  by (cases db, cases "fd_orders db") (simp add: expired_rows_def rows_update_noop)

lemma expired_rows_more:
  "expired_rows at rs au ob (expired_rows at [r] [a] [e] db) = expired_rows at (r # rs) (a # au) (e # ob) db"
proof -
  have "rows_update (\<lambda>x. pi_id x \<in> pi_id ` set rs) (closed_intent None at) (rows_update (\<lambda>x. pi_id x \<in> pi_id ` set [r]) (closed_intent None at) t) =
      rows_update (\<lambda>x. pi_id x \<in> pi_id ` set (r # rs)) (closed_intent None at) t" for t
    by (subst rows_update_both) (simp_all add: closed_intent_def)
  moreover have "rows_update (\<lambda>t. Some (tp_id t) \<in> pi_tipId ` set rs) (closed_tip TipExpired at)
        (rows_update (\<lambda>t. Some (tp_id t) \<in> pi_tipId ` set [r]) (closed_tip TipExpired at) t) =
      rows_update (\<lambda>t. Some (tp_id t) \<in> pi_tipId ` set (r # rs)) (closed_tip TipExpired at) t" for t
    by (subst rows_update_both) (simp_all add: closed_tip_def)
  ultimately show ?thesis by (simp add: expired_rows_def)
qed

lemma expire_intents_state:
  "expire_intents cfg dw n q at rs db = Inr db' \<Longrightarrow> fund_constraints db \<Longrightarrow> set rs \<subseteq> set (fd_intents db) \<Longrightarrow> distinct (map pi_id rs) \<Longrightarrow>
     \<exists>au ob. length au = length rs \<and> length ob = length rs \<and> db' = expired_rows at rs au ob db"
proof (induction rs arbitrary: n db)
  case (Cons r rs)
  obtain db1 where one: "expire_intent cfg dw n q at r db = Inr db1" and rest: "expire_intents cfg dw (Suc n) q at rs db1 = Inr db'"
    using Cons.prems(1) by (auto simp: result_iffs)
  have r: "r \<in> set (fd_intents db)" using Cons.prems(3) by simp
  note e = expire_intent_effect [OF one Cons.prems(2) r]
  have keys: "distinct (map pi_id (fd_intents db))" using Cons.prems(2) by (simp add: fund_constraints_def intents_ok_def)
  have "x \<in> set (fd_intents db1)" if "x \<in> set rs" for x
  proof -
    have "pi_id x \<noteq> pi_id r" using Cons.prems(4) that by (simp add: image_iff) metis
    then show ?thesis using that Cons.prems(3) by (auto simp: e(3) replace_in [OF keys r] closed_intent_def)
  qed
  then obtain au ob where later: "length au = length rs" "length ob = length rs" "db' = expired_rows at rs au ob db1"
    using Cons.IH [OF rest e(2)] Cons.prems(4) by auto
  obtain a o1 where "db1 = expired_rows at [r] [a] [o1] db"
    using expire_intent_state [OF one Cons.prems(2) r] by (auto simp: expired_rows_def)
  then have "db' = expired_rows at (r # rs) (a # au) (o1 # ob) db" by (simp only: later(3) expired_rows_more)
  then show ?case using later(1,2) by (intro exI [of _ "a # au"] exI [of _ "o1 # ob"]) simp
qed (use expired_rows_none in auto)

text \<open>The intents of tips that are overdue at \<open>now\<close>.\<close>

definition overdue :: "instant \<Rightarrow> fund_db \<Rightarrow> intent_row list" where
  "overdue now db = filter (\<lambda>r. pi_purpose r = TipPurpose \<and> expired_intent now r) (fd_intents db)"

lemma expiry_batch_length: "length (expiry_batch (\<lambda>_. False) now n db) = min n (length (overdue now db))"
  by (simp add: expiry_batch_def overdue_def)

lemma closed_rows_overdue:
  assumes "distinct (map pi_id t)" "set rs \<subseteq> set (filter p t)" "distinct (map pi_id rs)"
    and "\<And>r. \<not> p (f r)"
  shows "length (filter p (rows_update (\<lambda>x. pi_id x \<in> pi_id ` set rs) f t)) + length rs = length (filter p t)"
proof -
  let ?hit = "\<lambda>x. pi_id x \<in> pi_id ` set rs"
  have hit: "?hit x \<longleftrightarrow> x \<in> set rs" if "x \<in> set t" for x
  proof
    assume "?hit x"
    then obtain y where y: "y \<in> set rs" "pi_id x = pi_id y" by auto
    then have "y \<in> set t" using assms(2) by auto
    then show "x \<in> set rs" using distinct_key_eq [OF assms(1) that _ y(2)] y(1) by simp
  qed simp
  have "filter p (rows_update ?hit f t) = filter (\<lambda>x. \<not> ?hit x) (filter p t)"
    using assms(4) by (induction t) (auto simp: rows_update_def)
  moreover have "set (filter ?hit (filter p t)) = set rs" using assms(2) hit by auto
  moreover have "distinct (filter ?hit (filter p t))" "distinct rs" using assms(1,3) by (auto simp: distinct_map)
  ultimately have "length (filter ?hit (filter p t)) = length rs" using distinct_card by metis
  then show ?thesis using sum_length_filter_compl [of ?hit "filter p t"] \<open>filter p (rows_update ?hit f t) = _\<close> by simp
qed

text \<open>C24: The expiry scan makes progress until nothing is overdue: a scan of \<open>n\<close> that no other
  transaction keeps from its rows closes exactly \<open>n\<close> of the overdue tip intents, or all of them if there are
  fewer, those longest overdue first. Each is closed as expired now with its tip, one audit event and one outbox
  event are written for each, and every other row of every table stays as it was.\<close>

theorem tip_expiry_scan_progress:
  assumes "expireTipPaymentIntents cfg dw (\<lambda>_. False) n now db = Inr (db', m)" "fund_constraints db" "isTipPaymentsEnabled (fc_paymentsMode cfg)"
  shows "\<exists>rs au ob. rs = take (nat n) (sort_key (\<lambda>r. (pi_expiresAt r, pi_id r)) (overdue now db)) \<and>
    m = min (nat n) (length (overdue now db)) \<and> length rs = m \<and> length au = m \<and> length ob = m \<and>
    length (overdue now db') + m = length (overdue now db) \<and>
    db' = db\<lparr>
      fd_intents := map (\<lambda>r. if r \<in> set rs
        then r\<lparr>pi_state := IntentExpired, pi_rejectionReason := None, pi_closedAt := Some now, pi_updatedAt := now\<rparr> else r) (fd_intents db),
      fd_tips := map (\<lambda>t. if Some (tp_id t) \<in> pi_tipId ` set rs
        then t\<lparr>tp_state := TipExpired, tp_closedAt := Some now, tp_updatedAt := now\<rparr> else t) (fd_tips db),
      fd_orders := (fd_orders db)\<lparr>od_audit := od_audit (fd_orders db) @ au, od_outbox := od_outbox (fd_orders db) @ ob\<rparr>\<rparr>"
proof -
  let ?rs = "expiry_batch (\<lambda>_. False) now (nat n) db"
  have run: "expire_intents cfg dw 0 (dw_id dw 0) now ?rs db = Inr db'" and m: "m = length ?rs"
    using assms(1,3) by (auto simp: expireTipPaymentIntents_def Let_def split: if_splits sum.splits)
  note batch = expiry_batch_rows [OF assms(2), of "\<lambda>_. False" now "nat n"]
  have keys: "distinct (map pi_id (fd_intents db))" using assms(2) by (simp add: fund_constraints_def intents_ok_def)
  have sub: "set ?rs \<subseteq> set (overdue now db)" by (auto simp: expiry_batch_def overdue_def dest: in_set_takeD)
  obtain au ob where db': "length au = length ?rs" "length ob = length ?rs" "db' = expired_rows now ?rs au ob db"
    using expire_intents_state [OF run assms(2) batch] by blast
  have rows: "fd_intents db' = rows_update (\<lambda>x. pi_id x \<in> pi_id ` set ?rs) (closed_intent None now) (fd_intents db)"
    by (simp add: db'(3) expired_rows_def)
  have progress: "length (overdue now db') + length ?rs = length (overdue now db)"
    unfolding overdue_def rows
    by (rule closed_rows_overdue [OF keys _ batch(2)]) (use sub in \<open>simp_all add: overdue_def closed_intent_def expired_intent_def\<close>)
  have "pi_id x \<in> pi_id ` set ?rs \<longleftrightarrow> x \<in> set ?rs" if "x \<in> set (fd_intents db)" for x
    using that batch(1) distinct_key_eq [OF keys that] by blast
  then have intents: "rows_update (\<lambda>x. pi_id x \<in> pi_id ` set ?rs) (closed_intent None now) (fd_intents db) =
      map (\<lambda>r. if r \<in> set ?rs then r\<lparr>pi_state := IntentExpired, pi_rejectionReason := None, pi_closedAt := Some now, pi_updatedAt := now\<rparr> else r) (fd_intents db)"
    by (simp add: rows_update_def closed_intent_def)
  have batch_is: "?rs = take (nat n) (sort_key (\<lambda>r. (pi_expiresAt r, pi_id r)) (overdue now db))" by (simp add: expiry_batch_def overdue_def)
  have count: "m = min (nat n) (length (overdue now db))" "length ?rs = m" "length au = m" "length ob = m"
    "length (overdue now db') + m = length (overdue now db)"
    using m db'(1,2) progress expiry_batch_length [of now "nat n" db] by simp_all
  show ?thesis
    by (rule exI [where x = ?rs], rule exI [where x = au], rule exI [where x = ob], intro conjI)
      (rule batch_is count, (rule count)+, simp only: db'(3) expired_rows_def intents
        rows_update_def [of _ "closed_tip TipExpired now"] closed_tip_def)
qed

theorem tip_expiry_scan_progress_witness:
  "\<exists>db. expireTipPaymentIntents fund_sample_cfg (fund_sample_draw (CHR ''2'')) (\<lambda>_. False) 100 3601000 (fund_stage [] [] [] [sample_tip_row] [sample_intent] []) =
     Inr (db, 1) \<and> overdue 3601000 (fund_stage [] [] [] [sample_tip_row] [sample_intent] []) = [sample_intent] \<and> overdue 3601000 db = [] \<and>
   fd_intents db = [sample_intent\<lparr>pi_state := IntentExpired, pi_rejectionReason := None, pi_closedAt := Some 3601000, pi_updatedAt := 3601000\<rparr>]"
proof -
  obtain db where db: "expireTipPaymentIntents fund_sample_cfg (fund_sample_draw (CHR ''2'')) (\<lambda>_. False) 100 3601000
      (fund_stage [] [] [] [sample_tip_row] [sample_intent] []) = Inr (db, 1)"
    using sample_expiry by blast
  have enabled: "isTipPaymentsEnabled (fc_paymentsMode fund_sample_cfg)" by (simp add: fund_sample_cfg_def isTipPaymentsEnabled_def)
  have late: "overdue 3601000 (fund_stage [] [] [] [sample_tip_row] [sample_intent] []) = [sample_intent]"
    using db by (simp add: overdue_def expired_intent_def)
  from tip_expiry_scan_progress [OF db sample_open_constraints(2) enabled] obtain rs where
      "rs = take (nat 100) (sort_key (\<lambda>r. (pi_expiresAt r, pi_id r)) (overdue 3601000 (fund_stage [] [] [] [sample_tip_row] [sample_intent] [])))"
      "length (overdue 3601000 db) + 1 = length (overdue 3601000 (fund_stage [] [] [] [sample_tip_row] [sample_intent] []))"
      "fd_intents db = map (\<lambda>r. if r \<in> set rs
        then r\<lparr>pi_state := IntentExpired, pi_rejectionReason := None, pi_closedAt := Some 3601000, pi_updatedAt := 3601000\<rparr> else r)
        (fd_intents (fund_stage [] [] [] [sample_tip_row] [sample_intent] []))"
    by force
  then show ?thesis using db late by simp
qed

end
