(* ===== verification/SettlementTables.thy ===== *)
theory SettlementTables
  imports ManualPayments
begin

text \<open>
  The tables of bank events (\<^verbatim>\<open>packages/database/src/schema/sepay.ts\<close>): the inbox of signed webhooks, the
  state of their processing, the decisions taken on them and the bank transactions they settled.
  \<open>sepay_db\<close> is the database of the payments with these tables; \<open>keep_sepay\<close> accepts a changed one only if
  the constraints still hold. The checks on the shape and size of sealed envelopes and the triggers of the
  migrations are left out: a sealed body is the record the encryption gives.
\<close>

subsection \<open>Failures\<close>

text \<open>The two errors the settlement tells apart, with the pause they may ask for, and all others.\<close>

datatype sepay_failure = ServiceError string "int option" | ProviderError string "int option" | UnknownFailure

definition sepay_need :: "bool \<Rightarrow> string \<Rightarrow> sepay_failure + unit" where
  "sepay_need b code = require b (ServiceError code None)"

lemma sepay_need_Inr [simp]: "sepay_need b code = Inr u \<longleftrightarrow> b"
  by (simp add: sepay_need_def)

definition sepay_want :: "'a option \<Rightarrow> string \<Rightarrow> sepay_failure + 'a" where
  "sepay_want v code = orThrow v (ServiceError code None)"

lemma sepay_want_Inr [simp]: "sepay_want v code = Inr a \<longleftrightarrow> v = Some a"
  by (simp add: sepay_want_def)

text \<open>What the other payment services and the database throw is neither of the two.\<close>

definition within :: "'e + 'a \<Rightarrow> sepay_failure + 'a" where
  "within r = (case r of Inl _ \<Rightarrow> Inl UnknownFailure | Inr a \<Rightarrow> Inr a)"

lemma within_Inr [simp]: "within r = Inr a \<longleftrightarrow> r = Inr a"
  by (simp add: within_def split: sum.splits)

subsection \<open>Rows\<close>

text \<open>The columns of a connection revision the webhook needs.\<close>

record sepay_revision_row =
  sr_id :: string
  sr_connectionId :: string
  sr_webhookSecretEnvelope :: envelope

record inbox_row =
  ib_id :: string
  ib_connectionId :: string
  ib_connectionRevisionId :: string
  ib_providerEventId :: string
  ib_payloadDigest :: string
  ib_rawEnvelope :: "envelope option"
  ib_accepted :: bool
  ib_normalizedFacts :: json
  ib_receivedAt :: instant

definition bounded_identity :: "string \<Rightarrow> bool" where
  "bounded_identity s \<longleftrightarrow> 1 \<le> length s \<and> length s \<le> 200 \<and> \<not> list_ex is_control s"

text \<open>\<open>^sha256:[a-f0-9]{64}$\<close>.\<close>

definition sha_text :: "string \<Rightarrow> bool" where
  "sha_text s \<longleftrightarrow> starts_with ''sha256:'' s \<and> repeats is_lhex 64 64 (drop 7 s)"

text \<open>The facts are an object; of an ignored event they are the reason alone.\<close>

definition facts_check :: "bool \<Rightarrow> json \<Rightarrow> bool" where
  "facts_check accepted j \<longleftrightarrow>
     (case j of JObj es \<Rightarrow> accepted \<or> es \<in> {[(''reason'', JStr ''outgoing'')], [(''reason'', JStr ''non_pawket'')], [(''reason'', JStr ''mock'')]}
      | _ \<Rightarrow> False)"

definition inbox_check :: "inbox_row \<Rightarrow> bool" where
  "inbox_check r \<longleftrightarrow> plain_digits 39 (ib_providerEventId r) \<and> sha_text (ib_payloadDigest r) \<and>
     (ib_accepted r \<longleftrightarrow> ib_rawEnvelope r \<noteq> None) \<and> facts_check (ib_accepted r) (ib_normalizedFacts r)"

record inbox_conflict_row =
  ic_inboxId :: string
  ic_payloadDigest :: string
  ic_receivedAt :: instant

datatype processing_status = Pending | Processing | ReviewRequired | EventConfirmed | EventIgnored | Dismissed

record processing_row =
  ps_inboxId :: string
  ps_status :: processing_status
  ps_version :: int
  ps_attempts :: int
  ps_availableAt :: instant
  ps_leaseOwner :: "string option"
  ps_leaseExpiresAt :: "instant option"
  ps_lastErrorCode :: "string option"
  ps_updatedAt :: instant

definition error_code_ok :: "string \<Rightarrow> bool" where
  "error_code_ok s \<longleftrightarrow> (case s of [] \<Rightarrow> False | c # cs \<Rightarrow> is_lower c \<and> repeats (\<lambda>d. is_lower d \<or> is_digit d \<or> d = CHR ''_'') 0 63 cs)"

definition processing_check :: "processing_row \<Rightarrow> bool" where
  "processing_check r \<longleftrightarrow> 0 < ps_version r \<and> 0 \<le> ps_attempts r \<and> ps_attempts r \<le> 100 \<and>
     (if ps_status r = Processing then (case ps_leaseOwner r of None \<Rightarrow> False | Some w \<Rightarrow> bounded_identity w) \<and> ps_leaseExpiresAt r \<noteq> None
      else ps_leaseOwner r = None \<and> ps_leaseExpiresAt r = None) \<and> pred_option error_code_ok (ps_lastErrorCode r)"

record decision_row =
  dn_id :: string
  dn_inboxId :: string
  dn_action :: string
  dn_reason :: string
  dn_actorUserId :: "string option"
  dn_actorSessionId :: "string option"
  dn_idempotencyKeyHash :: "string option"
  dn_expectedVersion :: int
  dn_createdAt :: instant

definition reason_text_ok :: "string \<Rightarrow> bool" where
  "reason_text_ok s \<longleftrightarrow> 1 \<le> length s \<and> length s \<le> 500 \<and> \<not> list_ex is_control s"

definition decision_check :: "decision_row \<Rightarrow> bool" where
  "decision_check r \<longleftrightarrow>
     dn_action r \<in> {''confirmed'', ''review_required'', ''ignored'', ''retry'', ''dismiss'', ''reopen'', ''conflict''} \<and>
     reason_text_ok (dn_reason r) \<and> 0 < dn_expectedVersion r \<and>
     (if dn_actorUserId r = None then dn_actorSessionId r = None \<and> dn_idempotencyKeyHash r = None
      else (case dn_actorSessionId r of None \<Rightarrow> False | Some k \<Rightarrow> bounded_identity k) \<and> (case dn_idempotencyKeyHash r of None \<Rightarrow> False | Some h \<Rightarrow> hmac_text h))"

record bank_transaction_row =
  bt_id :: string
  bt_providerEnvironment :: sepay_environment
  bt_providerTenantId :: string
  bt_providerAccountId :: string
  bt_providerTransactionId :: string
  bt_connectionId :: string
  bt_connectionRevisionId :: string
  bt_connectionVersion :: int
  bt_inboxId :: string
  bt_paymentIntentId :: string
  bt_amountVnd :: int
  bt_referenceHash :: string
  bt_accountFingerprint :: string
  bt_transferAt :: instant
  bt_verifiedAt :: instant
  bt_readbackDigest :: string

text \<open>The provider's identity of a transaction.\<close>

definition bank_identity :: "bank_transaction_row \<Rightarrow> sepay_environment \<times> string \<times> string \<times> string" where
  "bank_identity r = (bt_providerEnvironment r, bt_providerTenantId r, bt_providerAccountId r, bt_providerTransactionId r)"

definition bank_transaction_check :: "bank_transaction_row \<Rightarrow> bool" where
  "bank_transaction_check r \<longleftrightarrow> bounded_identity (bt_providerTenantId r) \<and> positive_digits 39 (bt_providerAccountId r) \<and> positive_digits 39 (bt_providerTransactionId r) \<and>
     1 \<le> bt_amountVnd r \<and> bt_amountVnd r \<le> 9999999999999 \<and> 0 < bt_connectionVersion r \<and> hmac_text (bt_referenceHash r) \<and>
     hmac_text (bt_accountFingerprint r) \<and> sha_text (bt_readbackDigest r) \<and> bt_transferAt r \<le> bt_verifiedAt r"

subsection \<open>The database\<close>

record sepay_db =
  sd_funds :: fund_db
  sd_revisions :: "sepay_revision_row list"
  sd_inbox :: "inbox_row list"
  sd_conflicts :: "inbox_conflict_row list"
  sd_processing :: "processing_row list"
  sd_decisions :: "decision_row list"
  sd_transactions :: "bank_transaction_row list"

definition inbox_ok :: "inbox_row list \<Rightarrow> bool" where
  "inbox_ok t \<longleftrightarrow> distinct (map ib_id t) \<and> distinct (map (\<lambda>r. (ib_connectionId r, ib_providerEventId r)) t) \<and> list_all inbox_check t"

definition decisions_ok :: "decision_row list \<Rightarrow> bool" where
  "decisions_ok t \<longleftrightarrow> distinct (map dn_id t) \<and>
     distinct (map (\<lambda>r. (dn_actorUserId r, dn_idempotencyKeyHash r)) (filter (\<lambda>r. dn_actorUserId r \<noteq> None) t)) \<and> list_all decision_check t"

definition bank_transactions_ok :: "bank_transaction_row list \<Rightarrow> bool" where
  "bank_transactions_ok t \<longleftrightarrow> distinct (map bt_id t) \<and> distinct (map bank_identity t) \<and> distinct (map bt_paymentIntentId t) \<and>
     list_all bank_transaction_check t"

definition sepay_references_ok :: "sepay_db \<Rightarrow> bool" where
  "sepay_references_ok db \<longleftrightarrow>
     ib_connectionId ` set (sd_inbox db) \<subseteq> cx_id ` set (fd_connections (sd_funds db)) \<and>
     (\<lambda>r. (ib_connectionRevisionId r, ib_connectionId r)) ` set (sd_inbox db) \<subseteq> (\<lambda>r. (sr_id r, sr_connectionId r)) ` set (sd_revisions db) \<and>
     ic_inboxId ` set (sd_conflicts db) \<subseteq> ib_id ` set (sd_inbox db) \<and>
     ps_inboxId ` set (sd_processing db) \<subseteq> ib_id ` set (sd_inbox db) \<and>
     dn_inboxId ` set (sd_decisions db) \<subseteq> ib_id ` set (sd_inbox db) \<and>
     bt_inboxId ` set (sd_transactions db) \<subseteq> ib_id ` set (sd_inbox db) \<and>
     bt_paymentIntentId ` set (sd_transactions db) \<subseteq> pi_id ` set (fd_intents (sd_funds db)) \<and>
     (\<lambda>r. (bt_connectionRevisionId r, bt_connectionId r)) ` set (sd_transactions db) \<subseteq> (\<lambda>r. (sr_id r, sr_connectionId r)) ` set (sd_revisions db) \<and>
     pm_providerTransactionId ` set (fd_confirmations (sd_funds db)) \<subseteq> insert None (Some ` bt_id ` set (sd_transactions db))"

definition sepay_constraints :: "sepay_db \<Rightarrow> bool" where
  "sepay_constraints db \<longleftrightarrow>
     fund_constraints (sd_funds db) \<and> distinct (map sr_id (sd_revisions db)) \<and> inbox_ok (sd_inbox db) \<and>
     distinct (map ic_inboxId (sd_conflicts db)) \<and> list_all (\<lambda>r. sha_text (ic_payloadDigest r)) (sd_conflicts db) \<and>
     distinct (map ps_inboxId (sd_processing db)) \<and> list_all processing_check (sd_processing db) \<and> decisions_ok (sd_decisions db) \<and>
     bank_transactions_ok (sd_transactions db) \<and> sepay_references_ok db"

definition keep_sepay :: "sepay_db \<Rightarrow> sepay_failure + sepay_db" where
  "keep_sepay db = (if sepay_constraints db then Inr db else Inl UnknownFailure)"

lemma keep_sepay_Inr [simp]: "keep_sepay db = Inr db' \<longleftrightarrow> db' = db \<and> sepay_constraints db"
  by (auto simp: keep_sepay_def)

text \<open>A statement of the payments inside a transaction of the settlement.\<close>

definition on_funds :: "(fund_db \<Rightarrow> 'e + fund_db) \<Rightarrow> sepay_db \<Rightarrow> sepay_failure + sepay_db" where
  "on_funds run db = await (within (run (sd_funds db))) (\<lambda>f. keep_sepay (db\<lparr>sd_funds := f\<rparr>))"

lemma on_funds_Inr: "on_funds run db = Inr db' \<longleftrightarrow> (\<exists>f. run (sd_funds db) = Inr f \<and> db' = db\<lparr>sd_funds := f\<rparr> \<and> sepay_constraints db')"
  by (auto simp: on_funds_def result_iffs)

end
