(* ===== verification/SepaySettlement.thy ===== *)
theory SepaySettlement
  imports SettlementTables
begin

text \<open>
  The settlement of payments by bank events: receiving a signed webhook
  (\<^verbatim>\<open>packages/payments/src/sepay-inbox-service.ts\<close>), processing it under a lease, automatically or reviewed by
  the creator (\<^verbatim>\<open>sepay-reconciliation-service.ts\<close>), and the creator's decisions on it
  (\<^verbatim>\<open>sepay-review-service.ts\<close>), with what they share (\<^verbatim>\<open>sepay-service-support.ts\<close>). The provider's readback
  and the grant of the connection are parameters.
\<close>

subsection \<open>Configuration and ports\<close>

text \<open>\<open>sf_parseJson\<close> reads a webhook, \<open>sf_serialize\<close> is \<open>JSON.stringify\<close> of a transaction as the provider's
  adapter built it.\<close>

record settle_cfg =
  sf_fund :: fund_cfg
  sf_commissionMode :: payments_mode
  sf_commissions :: bool
  sf_environment :: sepay_environment
  sf_workerIdentity :: string
  sf_capabilities :: sepay_capabilities
  sf_maxAttempts :: int
  sf_inboxEnabled :: bool
  sf_parseJson :: "string \<Rightarrow> sepay_value option"
  sf_serialize :: "sepay_transaction \<Rightarrow> string"

text \<open>What \<open>getReadbackAccess\<close> answers: the connection and revision it read, and the grant.\<close>

record readback_access =
  ax_connection :: connection_row
  ax_revisionId :: string
  ax_accessToken :: string
  ax_expiresAt :: instant
  ax_binding :: "sepay_binding option"

record settle_ports = fund_ports +
  sp_access :: "string \<Rightarrow> sepay_failure + readback_access"
  sp_readback :: "string \<Rightarrow> sepay_binding \<Rightarrow> sepay_event \<Rightarrow> instant \<Rightarrow> instant \<Rightarrow> sepay_failure + readback"

definition sepay_hash :: "settle_cfg \<Rightarrow> string \<Rightarrow> string \<Rightarrow> sepay_failure + string" where
  "sepay_hash cfg context v = within (fund_digest (sf_fund cfg) (''sepay-'' @ context) v)"

definition sha256_text :: "settle_cfg \<Rightarrow> string \<Rightarrow> string" where
  "sha256_text cfg s = ''sha256:'' @ lower_hex (pf_sha256 (fc_platform (sf_fund cfg)) s)"

subsection \<open>Commands and assurance\<close>

text \<open>\<open>sepayBoundary\<close>: what is not an error of the service becomes one.\<close>

definition sepayBoundary :: "sepay_failure + 'a \<Rightarrow> sepay_failure + 'a" where
  "sepayBoundary r =
     (case r of Inl (ServiceError code pause) \<Rightarrow> Inl (ServiceError code pause)
      | Inl _ \<Rightarrow> Inl (ServiceError ''dependency_unavailable'' None) | Inr a \<Rightarrow> Inr a)"

lemma sepayBoundary_Inr [simp]: "sepayBoundary r = Inr a \<longleftrightarrow> r = Inr a"
  by (simp add: sepayBoundary_def split: sum.splits sepay_failure.splits)

definition sepay_actor_ok :: "actor \<Rightarrow> sepay_failure + unit" where
  "sepay_actor_ok a = sepay_need (is_identifier (ak_userId a) \<and> is_identifier (ak_sessionId a)) ''not_authorized''"

definition sepay_command_ok :: "actor \<Rightarrow> string \<Rightarrow> string \<Rightarrow> sepay_failure + unit" where
  "sepay_command_ok a idempotencyKey requestId =
     await (sepay_actor_ok a) (\<lambda>_. sepay_need (is_identifier requestId \<and> repeats is_word_dot_dash 8 200 idempotencyKey) ''invalid_request'')"

definition requireSePayAssurance :: "assurance option \<Rightarrow> instant \<Rightarrow> bool \<Rightarrow> sepay_failure + assurance" where
  "requireSePayAssurance proof at fresh =
     await (sepay_want proof ''not_authorized'') (\<lambda>p.
     await (sepay_need (date_ok at \<and> date_ok (as_primaryAuthenticatedAt p) \<and> date_ok (as_sessionExpiresAt p) \<and>
       pred_option date_ok (as_mfaVerifiedAt p) \<and> at < as_sessionExpiresAt p) ''not_authorized'') (\<lambda>_.
     let age = at - as_primaryAuthenticatedAt p in
     await (sepay_need (0 \<le> age \<and> (fresh \<longrightarrow> age \<le> 3600000)) ''recent_auth_required'') (\<lambda>_.
     await (sepay_need (fresh \<and> as_mfaEnrolled p \<longrightarrow> (case as_mfaVerifiedAt p of None \<Rightarrow> False
       | Some t \<Rightarrow> t \<le> at \<and> as_primaryAuthenticatedAt p \<le> t \<and> at - t \<le> 3600000)) ''totp_required'') (\<lambda>_. Inr p))))"

text \<open>The port is asked at one reading of the clock and its answer checked at the next.\<close>

definition sepay_assured :: "'p fund_ports_scheme \<Rightarrow> 'd draw_scheme \<Rightarrow> nat \<Rightarrow> bool \<Rightarrow> actor \<Rightarrow> sepay_failure + assurance" where
  "sepay_assured ports dw n fresh a =
     await (within (fp_assurance ports a (dw_clock dw n))) (\<lambda>answer. requireSePayAssurance answer (dw_clock dw (Suc n)) fresh)"

record review_command =
  rw_actor :: actor
  rw_inboxId :: string
  rw_expectedVersion :: int
  rw_idempotencyKey :: string
  rw_requestId :: string
  rw_attestedReceived :: bool
  rw_reason :: string

definition review_ok :: "review_command \<Rightarrow> sepay_failure + unit" where
  "review_ok c =
     await (sepay_command_ok (rw_actor c) (rw_idempotencyKey c) (rw_requestId c)) (\<lambda>_.
     sepay_need (rw_attestedReceived c \<and> isSafeInteger (rw_expectedVersion c) \<and> 1 \<le> rw_expectedVersion c \<and>
       trim (rw_reason c) = rw_reason c \<and> reason_text_ok (rw_reason c)) ''invalid_request'')"

definition review_fingerprint :: "settle_cfg \<Rightarrow> string \<Rightarrow> review_command \<Rightarrow> sepay_failure + string" where
  "review_fingerprint cfg inboxId c =
     sepay_hash cfg ''review-confirm'' (stringify (JArr [JStr inboxId, JNum (rw_expectedVersion c), JBool True, JStr (rw_reason c)]))"

subsection \<open>Receiving a webhook\<close>

record ingress_request =
  ig_connectionId :: string
  ig_rawBody :: string
  ig_contentType :: "string option"
  ig_contentEncoding :: "string option"
  ig_timestamp :: "string option"
  ig_signature :: "string option"

datatype ingress_outcome = IngressAccepted | IngressIgnored | IngressDuplicate | IngressConflict

definition connection_of :: "settle_cfg \<Rightarrow> string \<Rightarrow> sepay_db \<Rightarrow> connection_row option" where
  "connection_of cfg k db =
     List.find (\<lambda>x. cx_id x = k \<and> cx_providerEnvironment x = sf_environment cfg) (fd_connections (sd_funds db))"

definition ingress_source :: "settle_cfg \<Rightarrow> string \<Rightarrow> sepay_db \<Rightarrow> (connection_row \<times> sepay_revision_row) option" where
  "ingress_source cfg k db =
     Option.bind (connection_of cfg k db) (\<lambda>x. map_option (Pair x)
       (List.find (\<lambda>r. cx_currentRevisionId x = Some (sr_id r) \<and> sr_connectionId r = cx_id x) (sd_revisions db)))"

definition event_id_of :: "disposition \<Rightarrow> string" where
  "event_id_of d = (case d of Accepted event _ \<Rightarrow> se_id event | Ignored _ k _ \<Rightarrow> k)"

definition event_digest :: "disposition \<Rightarrow> string" where
  "event_digest d = ''sha256:'' @ (case d of Accepted _ digest \<Rightarrow> digest | Ignored _ _ digest \<Rightarrow> digest)"

definition ignore_text :: "ignore_reason \<Rightarrow> string" where
  "ignore_text r = (case r of IgnoredOutgoing \<Rightarrow> ''outgoing'' | IgnoredNonPawket \<Rightarrow> ''non_pawket'' | IgnoredMock \<Rightarrow> ''mock'')"

definition status_text :: "reference_status \<Rightarrow> string" where
  "status_text s = (case s of RefExact \<Rightarrow> ''exact'' | RefMissing \<Rightarrow> ''missing'' | RefAmbiguous \<Rightarrow> ''ambiguous'' | RefConflicting \<Rightarrow> ''conflicting'')"

definition inbox_facts :: "settle_cfg \<Rightarrow> disposition \<Rightarrow> sepay_failure + json" where
  "inbox_facts cfg d =
     (case d of
        Accepted event _ \<Rightarrow>
          await (case se_reference event of None \<Rightarrow> Inr JNull | Some reference \<Rightarrow> map_sum id JStr (sepay_hash cfg ''reference'' reference)) (\<lambda>h.
            Inr (JObj [(''amountVnd'', JNum (se_amountVnd event)), (''occurredAt'', JStr (toISOString (se_occurredAt event))),
              (''referenceHash'', h), (''referenceStatus'', JStr (status_text (se_referenceStatus event)))]))
      | Ignored reason _ _ \<Rightarrow> Inr (JObj [(''reason'', JStr (ignore_text reason))]))"

definition is_accepted :: "disposition \<Rightarrow> bool" where
  "is_accepted d = (case d of Accepted _ _ \<Rightarrow> True | _ \<Rightarrow> False)"

text \<open>A second body under a known event id is kept as a conflict and stops the processing of the first.\<close>

definition record_conflict :: "inbox_row \<Rightarrow> string \<Rightarrow> instant \<Rightarrow> sepay_db \<Rightarrow> sepay_failure + sepay_db" where
  "record_conflict prior digest at db =
     await (if ib_id prior \<in> ic_inboxId ` set (sd_conflicts db) then Inr db
       else keep_sepay (db\<lparr>sd_conflicts := sd_conflicts db @ [\<lparr>ic_inboxId = ib_id prior, ic_payloadDigest = digest, ic_receivedAt = at\<rparr>]\<rparr>)) (\<lambda>db1.
     keep_sepay (db1\<lparr>sd_processing := rows_update (\<lambda>s. ps_inboxId s = ib_id prior \<and> ps_status s \<notin> {EventConfirmed, Dismissed})
       (\<lambda>s. s\<lparr>ps_status := ReviewRequired, ps_lastErrorCode := Some ''contradictory_replay'', ps_version := ps_version s + 1,
         ps_leaseOwner := None, ps_leaseExpiresAt := None, ps_updatedAt := at\<rparr>) (sd_processing db1)\<rparr>))"

definition received_event :: "string \<Rightarrow> instant \<Rightarrow> new_outbox_event" where
  "received_event inboxId at =
     \<lparr>ev_eventType = ''payments.sepay_event_received.v1'', ev_eventVersion = 1, ev_aggregateType = ''sepay_inbox'', ev_aggregateId = inboxId,
      ev_payload = JObj [(''inboxId'', JStr inboxId)], ev_occurredAt = Some at, ev_availableAt = None\<rparr>"

definition new_processing :: "string \<Rightarrow> bool \<Rightarrow> instant \<Rightarrow> processing_row" where
  "new_processing inboxId accepted at =
     \<lparr>ps_inboxId = inboxId, ps_status = (if accepted then Pending else EventIgnored), ps_version = 1, ps_attempts = 0, ps_availableAt = at,
      ps_leaseOwner = None, ps_leaseExpiresAt = None, ps_lastErrorCode = None, ps_updatedAt = at\<rparr>"

definition store_event ::
  "settle_cfg \<Rightarrow> fund_draw \<Rightarrow> ingress_request \<Rightarrow> connection_row \<Rightarrow> sepay_revision_row \<Rightarrow> disposition \<Rightarrow> instant \<Rightarrow> sepay_db \<Rightarrow> sepay_failure + sepay_db" where
  "store_event cfg dw c connection revision d at db =
     (let inboxId = dw_id dw 0 in
     await (inbox_facts cfg d) (\<lambda>facts.
     await (if is_accepted d then map_sum id Some (within (fund_seal (sf_fund cfg) (dw_nonce dw 0) ''sepay_inbox'' inboxId ''raw_body'' (ig_rawBody c)))
       else Inr None) (\<lambda>raw.
     await (keep_sepay (db\<lparr>sd_inbox := sd_inbox db @ [\<lparr>ib_id = inboxId, ib_connectionId = cx_id connection, ib_connectionRevisionId = sr_id revision,
       ib_providerEventId = event_id_of d, ib_payloadDigest = event_digest d, ib_rawEnvelope = raw, ib_accepted = is_accepted d,
       ib_normalizedFacts = facts, ib_receivedAt = at\<rparr>]\<rparr>)) (\<lambda>db1.
     await (keep_sepay (db1\<lparr>sd_processing := sd_processing db1 @ [new_processing inboxId (is_accepted d) at]\<rparr>)) (\<lambda>db2.
     if is_accepted d then on_funds (fund_event (sf_fund cfg) (dw_id dw 1) at (received_event inboxId at)) db2 else Inr db2)))))"

definition recent_events :: "string \<Rightarrow> instant \<Rightarrow> sepay_db \<Rightarrow> nat" where
  "recent_events connectionId from db = length (filter (\<lambda>i. ib_connectionId i = connectionId \<and> from \<le> ib_receivedAt i) (sd_inbox db))"

definition all_events :: "string \<Rightarrow> sepay_db \<Rightarrow> nat" where
  "all_events connectionId db = length (filter (\<lambda>i. ib_connectionId i = connectionId) (sd_inbox db))"

definition receive_transaction ::
  "settle_cfg \<Rightarrow> fund_draw \<Rightarrow> ingress_request \<Rightarrow> connection_row \<Rightarrow> sepay_revision_row \<Rightarrow> disposition \<Rightarrow> instant \<Rightarrow> sepay_db \<Rightarrow>
     sepay_failure + (sepay_db \<times> ingress_outcome)" where
  "receive_transaction cfg dw c connection revision d at db =
     await (sepay_want (List.find (\<lambda>x. cx_id x = cx_id connection) (fd_connections (sd_funds db))) ''version_conflict'') (\<lambda>current.
     await (sepay_need (cx_currentRevisionId current = Some (sr_id revision) \<and> cx_version current = cx_version connection \<and>
       cx_status current \<noteq> Disconnected) ''version_conflict'') (\<lambda>_.
     case List.find (\<lambda>i. ib_connectionId i = cx_id current \<and> ib_providerEventId i = event_id_of d) (sd_inbox db) of
       Some prior \<Rightarrow>
         if ib_payloadDigest prior = event_digest d then Inr (db, IngressDuplicate)
         else await (record_conflict prior (event_digest d) at db) (\<lambda>db1. Inr (db1, IngressConflict))
     | None \<Rightarrow>
         await (sepay_need (recent_events (cx_id current) (at - 60000) db < 120 \<and> all_events (cx_id current) db < 100000) ''rate_limited'') (\<lambda>_.
         await (store_event cfg dw c current revision d at db) (\<lambda>db1. Inr (db1, if is_accepted d then IngressAccepted else IngressIgnored)))))"

text \<open>\<open>seen\<close> is the database when the signature is checked, \<open>db\<close> the one of the transaction.\<close>

definition receive ::
  "settle_cfg \<Rightarrow> fund_draw \<Rightarrow> ingress_request \<Rightarrow> sepay_db \<Rightarrow> sepay_db \<Rightarrow> sepay_failure + (sepay_db \<times> ingress_outcome)" where
  "receive cfg dw c seen db =
     await (sepay_need (sf_inboxEnabled cfg \<and> is_uuid (ig_connectionId c)) ''not_available'') (\<lambda>_.
     let at = dw_clock dw 0 in
     await (sepay_need (date_ok at) ''dependency_unavailable'') (\<lambda>_.
     await (sepay_want (ingress_source cfg (ig_connectionId c) seen) ''not_available'') (\<lambda>(connection, revision).
     await (sepay_need (cx_status connection \<noteq> Disconnected) ''not_available'') (\<lambda>_.
     await (within (fund_open (sf_fund cfg) ''sepay_connection_revision'' (sr_id revision) ''webhook_secret'' (sr_webhookSecretEnvelope revision))) (\<lambda>secret.
     await (within (authenticateAndParseSePayWebhook (fc_platform (sf_fund cfg)) (sf_parseJson cfg)
       \<lparr>wi_rawBody = ig_rawBody c, wi_contentType = ig_contentType c, wi_contentEncoding = ig_contentEncoding c, wi_timestamp = ig_timestamp c,
        wi_signature = ig_signature c, wi_secret = secret, wi_now = at\<rparr>)) (\<lambda>d.
       receive_transaction cfg dw c connection revision d at db))))))"

end
