(* ===== verification/SepayReconciliation.thy ===== *)
theory SepayReconciliation
  imports SepaySettlement
begin

text \<open>
  Processing a bank event (\<^verbatim>\<open>packages/payments/src/sepay-reconciliation-service.ts\<close>): taking it under a lease,
  examining the evidence outside any transaction, and settling it in one, or writing down why not;
  and the creator's decisions (\<^verbatim>\<open>sepay-review-service.ts\<close>).
\<close>

subsection \<open>Taking an event\<close>

record event_claim =
  ec_inbox :: inbox_row
  ec_connection :: connection_row
  ec_state :: processing_row

datatype claim_answer = NothingToDo | AlreadyConfirmed | Taken event_claim

definition event_source :: "settle_cfg \<Rightarrow> string \<Rightarrow> sepay_db \<Rightarrow> (inbox_row \<times> connection_row) option" where
  "event_source cfg inboxId db =
     Option.bind (List.find (\<lambda>i. ib_id i = inboxId) (sd_inbox db)) (\<lambda>i. map_option (Pair i) (connection_of cfg (ib_connectionId i) db))"

definition processing_of :: "string \<Rightarrow> sepay_db \<Rightarrow> processing_row option" where
  "processing_of inboxId db = List.find (\<lambda>s. ps_inboxId s = inboxId) (sd_processing db)"

text \<open>A repeated review of a confirmed event is accepted only for the command that confirmed it.\<close>

definition review_replayed ::
  "settle_cfg \<Rightarrow> settle_ports \<Rightarrow> string \<Rightarrow> review_command \<Rightarrow> instant \<Rightarrow> sepay_db \<Rightarrow> sepay_failure + unit" where
  "review_replayed cfg ports inboxId c at db =
     await (sepay_hash cfg ''review-key'' (rw_idempotencyKey c)) (\<lambda>keyHash.
     await (sepay_want (List.find (\<lambda>r. idem_key r = (ak_userId (rw_actor c), ''payments.sepay_confirm'', keyHash)) (od_idem (fd_orders (sd_funds db))))
       ''intent_not_pending'') (\<lambda>r.
     await (sepay_need (ir_status r = Completed \<and> at < ir_expiresAt r \<and>
       (case ir_resultReference r of None \<Rightarrow> False | Some ref \<Rightarrow> starts_with ''sepay-confirmed:'' ref)) ''idempotency_conflict'') (\<lambda>_.
     await (review_fingerprint cfg inboxId c) (\<lambda>fp.
     await (sepay_need (ir_requestFingerprint r = fp) ''idempotency_conflict'') (\<lambda>_.
       within (fp_authorizeCommand ports (rw_actor c)))))))"

text \<open>Whether the event is held or not due: a final state, a running lease, or, for the worker, a review or a
  pause.\<close>

definition not_available_now :: "bool \<Rightarrow> processing_row \<Rightarrow> instant \<Rightarrow> instant \<Rightarrow> bool" where
  "not_available_now reviewed s t1 t2 \<longleftrightarrow>
     ps_status s = Dismissed \<or> ps_status s = EventIgnored \<or>
     ps_status s = Processing \<and> (case ps_leaseExpiresAt s of None \<Rightarrow> False | Some t \<Rightarrow> t1 < t) \<or>
     \<not> reviewed \<and> (ps_status s = ReviewRequired \<or> t2 < ps_availableAt s)"

definition taken_state :: "string \<Rightarrow> instant \<Rightarrow> instant \<Rightarrow> processing_row \<Rightarrow> processing_row" where
  "taken_state owner leaseFrom at s =
     s\<lparr>ps_status := Processing, ps_leaseOwner := Some owner, ps_leaseExpiresAt := Some (leaseFrom + 60000),
       ps_attempts := ps_attempts s + 1, ps_version := ps_version s + 1, ps_updatedAt := at\<rparr>"

definition claim_event ::
  "settle_cfg \<Rightarrow> settle_ports \<Rightarrow> fund_draw \<Rightarrow> string \<Rightarrow> string \<Rightarrow> review_command option \<Rightarrow> sepay_db \<Rightarrow> sepay_failure + (sepay_db \<times> claim_answer)" where
  "claim_event cfg ports dw owner inboxId review db =
     await (case review of None \<Rightarrow> Inr None | Some c \<Rightarrow> map_sum id Some (sepay_assured ports dw 0 True (rw_actor c))) (\<lambda>_.
     await (sepay_want (event_source cfg inboxId db) ''not_available'') (\<lambda>(inbox, connection).
     await (sepay_need (case review of None \<Rightarrow> True | Some c \<Rightarrow> cx_creatorUserId connection = ak_userId (rw_actor c)) ''not_available'') (\<lambda>_.
     case processing_of inboxId db of
       None \<Rightarrow> Inr (db, NothingToDo)
     | Some s \<Rightarrow>
         if \<not> ib_accepted inbox then Inr (db, NothingToDo)
         else if ps_status s = EventConfirmed then
           await (case review of None \<Rightarrow> Inr () | Some c \<Rightarrow> review_replayed cfg ports inboxId c (dw_clock dw 2) db) (\<lambda>_. Inr (db, AlreadyConfirmed))
         else
           await (sepay_need (case review of None \<Rightarrow> True | Some c \<Rightarrow> ps_version s = rw_expectedVersion c) ''version_conflict'') (\<lambda>_.
           if not_available_now (review \<noteq> None) s (dw_clock dw 3) (dw_clock dw 4) then Inr (db, NothingToDo)
           else
             await (sepay_need (ps_attempts s < 100) ''rate_limited'') (\<lambda>_.
             let taken = taken_state owner (dw_clock dw 5) (dw_clock dw 6) in
             await (keep_sepay (db\<lparr>sd_processing := rows_update (\<lambda>x. ps_inboxId x = inboxId) taken (sd_processing db)\<rparr>)) (\<lambda>db1.
               Inr (db1, Taken \<lparr>ec_inbox = inbox, ec_connection = connection, ec_state = taken s\<rparr>)))))))"

subsection \<open>Writing down why not\<close>

datatype process_outcome = OutcomeConfirmed | OutcomeReview | OutcomeDeferred | OutcomeUnchanged

definition lease_held :: "string \<Rightarrow> string \<Rightarrow> processing_row \<Rightarrow> bool" where
  "lease_held inboxId owner s \<longleftrightarrow> ps_inboxId s = inboxId \<and> ps_leaseOwner s = Some owner \<and> ps_status s = Processing"

definition put_aside :: "bool \<Rightarrow> string \<Rightarrow> instant \<Rightarrow> instant \<Rightarrow> processing_row \<Rightarrow> processing_row" where
  "put_aside retry reason availableAt at s =
     s\<lparr>ps_status := (if retry then Pending else ReviewRequired), ps_version := ps_version s + 1, ps_leaseOwner := None,
       ps_leaseExpiresAt := None, ps_lastErrorCode := Some reason, ps_availableAt := availableAt, ps_updatedAt := at\<rparr>"

text \<open>A reason with a pause is retried by the worker until its attempts are used; everything else waits for
  the creator. A lease that was lost leaves the row as it is.\<close>

definition dispose ::
  "settle_cfg \<Rightarrow> fund_draw \<Rightarrow> string \<Rightarrow> string \<Rightarrow> bool \<Rightarrow> int \<Rightarrow> string \<Rightarrow> int option \<Rightarrow> sepay_db \<Rightarrow> sepay_failure + (sepay_db \<times> process_outcome)" where
  "dispose cfg dw owner inboxId reviewed attempts reason pause db =
     (let retry = (pause \<noteq> None \<and> attempts < sf_maxAttempts cfg \<and> \<not> reviewed);
          availableAt = dw_clock dw 20 + (case pause of None \<Rightarrow> 0 | Some n \<Rightarrow> n) * 1000;
          outcome = (if retry then OutcomeDeferred else OutcomeReview)
      in await (keep_sepay (db\<lparr>sd_processing := rows_update (lease_held inboxId owner) (put_aside retry reason availableAt (dw_clock dw 21)) (sd_processing db)\<rparr>)) (\<lambda>db1.
         case List.find (lease_held inboxId owner) (sd_processing db) of
           None \<Rightarrow> Inr (db1, outcome)
         | Some s \<Rightarrow>
             if retry then Inr (db1, outcome)
             else await (keep_sepay (db1\<lparr>sd_decisions := sd_decisions db1 @ [\<lparr>dn_id = dw_id dw 20, dn_inboxId = inboxId, dn_action = ''review_required'',
                 dn_reason = reason, dn_actorUserId = None, dn_actorSessionId = None, dn_idempotencyKeyHash = None, dn_expectedVersion = ps_version s,
                 dn_createdAt = dw_clock dw 22\<rparr>]\<rparr>)) (\<lambda>db2. Inr (db2, outcome))))"

text \<open>The reason and the pause of an error.\<close>

definition failure_reason :: "int \<Rightarrow> sepay_failure \<Rightarrow> string \<times> int option" where
  "failure_reason attempts e =
     (case e of
        ProviderError code pause \<Rightarrow>
          if code \<in> {''rate_limited'', ''unavailable''}
          then (code, Some (case pause of None \<Rightarrow> min 900 (2 ^ nat attempts * 10) | Some n \<Rightarrow> n)) else (code, None)
      | ServiceError code pause \<Rightarrow> (code, pause)
      | UnknownFailure \<Rightarrow> (''dependency_unavailable'', Some 60))"

subsection \<open>The evidence\<close>

definition match_text :: "match_reason \<Rightarrow> string" where
  "match_text r =
     (case r of ContractUnverified \<Rightarrow> ''contract_unverified'' | ManualLane \<Rightarrow> ''manual_lane'' | IntentNotPending \<Rightarrow> ''intent_not_pending''
      | MatchExpired \<Rightarrow> ''expired'' | ReadbackInconclusive \<Rightarrow> ''readback_inconclusive'' | NotFound \<Rightarrow> ''not_found'' | AmbiguousMatch \<Rightarrow> ''ambiguous''
      | IdentityMismatch \<Rightarrow> ''identity_mismatch'' | DestinationMismatch \<Rightarrow> ''destination_mismatch'' | MatchReference \<Rightarrow> ''reference_mismatch''
      | MatchAmount \<Rightarrow> ''amount_mismatch'' | DirectionMismatch \<Rightarrow> ''direction_mismatch'' | TimeMismatch \<Rightarrow> ''time_mismatch''
      | BeforeCutover \<Rightarrow> ''before_cutover'' | InvalidEvidence \<Rightarrow> ''invalid_evidence'')"

record examined =
  ex_candidate :: intent_row
  ex_purpose :: payment_purpose
  ex_access :: readback_access
  ex_binding :: sepay_binding
  ex_matchIntent :: sepay_tip_intent
  ex_event :: sepay_event
  ex_readback :: readback
  ex_transaction :: sepay_transaction

definition match_at :: "settle_cfg \<Rightarrow> examined \<Rightarrow> instant \<Rightarrow> sepay_match" where
  "match_at cfg x at = matchSePayTip (ex_matchIntent x) (ex_binding x) (ex_event x) (ex_readback x) (sf_capabilities cfg) at"

definition match_intent :: "intent_row \<Rightarrow> snapshot \<Rightarrow> string \<Rightarrow> cutover_row \<Rightarrow> sepay_tip_intent" where
  "match_intent r s reference u =
     \<lparr>si_settlementLane = ProviderBound, si_state = pi_state r, si_amountVnd = pi_amountVnd r, si_transferReference = reference,
      si_bankBin = sn_bankBin s, si_accountNumber = sn_accountNumber s, si_createdAt = pi_createdAt r, si_expiresAt = pi_expiresAt r,
      si_cutoverAt = Some (cu_cutoverAt u)\<rparr>"

text \<open>The event again, from the sealed body; \<open>Inl\<close> of the inner sum is a reason to put it aside.\<close>

definition stored_event :: "settle_cfg \<Rightarrow> inbox_row \<Rightarrow> sepay_failure + (string + sepay_event)" where
  "stored_event cfg inbox =
     (case ib_rawEnvelope inbox of
        None \<Rightarrow> Inr (Inl ''invalid_evidence'')
      | Some e \<Rightarrow>
          await (within (fund_open (sf_fund cfg) ''sepay_inbox'' (ib_id inbox) ''raw_body'' e)) (\<lambda>raw.
          if sha256_text cfg raw \<noteq> ib_payloadDigest inbox then Inr (Inl ''invalid_evidence'')
          else await (within (parseAuthenticatedSePayWebhook (fc_platform (sf_fund cfg)) (sf_parseJson cfg) raw)) (\<lambda>d.
            Inr (case d of
                Accepted event _ \<Rightarrow> if se_id event = ib_providerEventId inbox \<and> se_reference event \<noteq> None then Inr event else Inl ''reference_mismatch''
              | Ignored _ _ _ \<Rightarrow> Inl ''reference_mismatch''))))"

definition lane_open :: "settle_cfg \<Rightarrow> bool \<Rightarrow> payment_purpose \<Rightarrow> bool" where
  "lane_open cfg reviewed p \<longleftrightarrow>
     (let mode = (if purpose_kind p = TipPurpose then fc_paymentsMode (sf_fund cfg) else sf_commissionMode cfg)
      in mode \<noteq> PaymentsDisabledMode \<and> (reviewed \<and> purpose_kind p = TipPurpose \<or> mode = SepayOptional) \<and>
         (purpose_kind p = CommissionPurpose \<longrightarrow> sf_commissions cfg))"

definition find_candidate :: "settle_cfg \<Rightarrow> event_claim \<Rightarrow> string \<Rightarrow> sepay_db \<Rightarrow> sepay_failure + intent_row option" where
  "find_candidate cfg claim reference db =
     await (within (fund_digest (sf_fund cfg) ''tip-transfer-reference'' reference)) (\<lambda>h.
       Inr (List.find (\<lambda>r. pi_referenceHash r = h \<and> pi_creatorUserId r = cx_creatorUserId (ec_connection claim)) (fd_intents (sd_funds db))))"

text \<open>The readback of the provider and the match; \<open>db\<close> is the database when the cutover is read.\<close>

definition examine_readback ::
  "settle_cfg \<Rightarrow> settle_ports \<Rightarrow> fund_draw \<Rightarrow> event_claim \<Rightarrow> sepay_event \<Rightarrow> intent_row \<Rightarrow> payment_purpose \<Rightarrow> string \<Rightarrow> sepay_db \<Rightarrow>
     sepay_failure + (string + examined)" where
  "examine_readback cfg ports dw claim event r p cutoverId db =
     await (sp_access ports (cx_id (ec_connection claim))) (\<lambda>access.
     case ax_binding access of
       None \<Rightarrow> Inr (Inl ''connection_not_ready'')
     | Some binding \<Rightarrow>
         if cx_status (ax_connection access) \<noteq> ConnectionReady then Inr (Inl ''connection_not_ready'')
         else case List.find (\<lambda>u. cu_id u = cutoverId \<and> cu_connectionId u = cx_id (ax_connection access)) (fd_cutovers (sd_funds db)) of
             None \<Rightarrow> Inr (Inl ''identity_mismatch'')
           | Some u \<Rightarrow>
               await (within (readTipIntentSnapshot (sf_fund cfg) r)) (\<lambda>(s, reference).
               await (sp_readback ports (ax_accessToken access) binding event (pi_createdAt r) (min (pi_expiresAt r) (dw_clock dw 8))) (\<lambda>readback.
               let m = match_intent r s reference u
               in Inr (case matchSePayTip m binding event readback (sf_capabilities cfg) (dw_clock dw 9) of
                   Review reason \<Rightarrow> Inl (match_text reason)
                 | Matched t \<Rightarrow> Inr \<lparr>ex_candidate = r, ex_purpose = p, ex_access = access, ex_binding = binding, ex_matchIntent = m,
                     ex_event = event, ex_readback = readback, ex_transaction = t\<rparr>))))"

text \<open>\<open>seen\<close> is the database when the intent is read.\<close>

definition examine ::
  "settle_cfg \<Rightarrow> settle_ports \<Rightarrow> fund_draw \<Rightarrow> event_claim \<Rightarrow> bool \<Rightarrow> sepay_db \<Rightarrow> sepay_db \<Rightarrow> sepay_failure + (string + examined)" where
  "examine cfg ports dw claim reviewed seen seen2 =
     (if \<not> reviewed \<and> \<not> cx_automationEnabled (ec_connection claim) then Inr (Inl ''automation_paused'')
      else if cx_status (ec_connection claim) \<noteq> ConnectionReady then Inr (Inl ''connection_not_ready'')
      else await (stored_event cfg (ec_inbox claim)) (\<lambda>stored.
        case stored of Inl reason \<Rightarrow> Inr (Inl reason)
        | Inr event \<Rightarrow>
            await (find_candidate cfg claim (the (se_reference event)) seen) (\<lambda>found.
            case found of None \<Rightarrow> Inr (Inl ''not_found'')
            | Some r \<Rightarrow>
                (case readPaymentPurpose r of None \<Rightarrow> Inr (Inl ''invalid_evidence'')
                 | Some p \<Rightarrow>
                     if \<not> lane_open cfg reviewed p then Inr (Inl ''automation_paused'')
                     else if pi_settlementLane r \<noteq> ProviderBound \<or> pi_cutoverId r = None then Inr (Inl ''manual_lane'')
                     else if pi_state r \<noteq> AwaitingTransfer \<or> pi_expiresAt r \<le> dw_clock dw 7 then Inr (Inl ''intent_not_pending'')
                     else examine_readback cfg ports dw claim event r p (the (pi_cutoverId r)) seen2))))"

subsection \<open>Settling\<close>

text \<open>The connection is still the one whose account was read, and, for the worker, automatic.\<close>

definition connection_current :: "examined \<Rightarrow> bool \<Rightarrow> connection_row \<Rightarrow> bool" where
  "connection_current x reviewed c \<longleftrightarrow>
     (let access = ex_access x in
      cx_version c = cx_version (ax_connection access) \<and> cx_currentRevisionId c = Some (ax_revisionId access) \<and> cx_status c = ConnectionReady \<and>
      cx_accountVersionId c = pi_accountVersionId (ex_candidate x) \<and> cx_providerTenantId c = Some (sb_tenantId (ex_binding x)) \<and>
      cx_providerAccountId c = Some (sb_accountId (ex_binding x)) \<and> (reviewed \<or> cx_automationEnabled c))"

definition intent_current :: "examined \<Rightarrow> instant \<Rightarrow> intent_row \<Rightarrow> bool" where
  "intent_current x at r \<longleftrightarrow> pending_intent at r \<and> pi_cutoverId r = pi_cutoverId (ex_candidate x) \<and> pi_settlementLane r = ProviderBound"

definition lease_current :: "string \<Rightarrow> string \<Rightarrow> instant \<Rightarrow> sepay_db \<Rightarrow> processing_row \<Rightarrow> bool" where
  "lease_current inboxId owner at db s \<longleftrightarrow> lease_held inboxId owner s \<and> (case ps_leaseExpiresAt s of None \<Rightarrow> False | Some t \<Rightarrow> at < t) \<and>
     inboxId \<notin> ic_inboxId ` set (sd_conflicts db)"

text \<open>What the transaction holds when it writes: the lock on the order, the assurance of a reviewer, the rows,
  and the time.\<close>

record settlement_lock =
  sl_bindings :: bindings
  sl_proof :: "assurance option"
  sl_destination :: destination
  sl_connection :: connection_row
  sl_intent :: intent_row
  sl_state :: processing_row
  sl_at :: instant

definition lock_purpose :: "settle_ports \<Rightarrow> payment_purpose \<Rightarrow> string \<Rightarrow> instant \<Rightarrow> sepay_db \<Rightarrow> sepay_failure + bindings" where
  "lock_purpose ports p creatorUserId at db =
     (case p of
        TipPayment _ \<Rightarrow> Inr Map.empty
      | CommissionPayment k \<Rightarrow>
          await (within (lockSettlement (fp_orders ports) k creatorUserId at Map.empty (fd_orders (sd_funds db)))) (\<lambda>(locked, ok).
          await (sepay_need ok ''not_available'') (\<lambda>_. Inr locked)))"

definition review_proof :: "settle_ports \<Rightarrow> fund_draw \<Rightarrow> review_command option \<Rightarrow> sepay_failure + assurance option" where
  "review_proof ports dw review =
     (case review of
        None \<Rightarrow> Inr None
      | Some c \<Rightarrow>
          await (sepay_assured ports dw 13 True (rw_actor c)) (\<lambda>proof.
          await (within (fp_authorizeCommand ports (rw_actor c))) (\<lambda>_. Inr (Some proof))))"

definition proof_still :: "assurance option \<Rightarrow> instant \<Rightarrow> sepay_failure + unit" where
  "proof_still proof at = (case proof of None \<Rightarrow> Inr () | Some p \<Rightarrow> await (requireSePayAssurance (Some p) at True) (\<lambda>_. Inr ()))"

definition lock_settlement_rows ::
  "settle_cfg \<Rightarrow> settle_ports \<Rightarrow> fund_draw \<Rightarrow> examined \<Rightarrow> string \<Rightarrow> string \<Rightarrow> review_command option \<Rightarrow> sepay_db \<Rightarrow> sepay_failure + settlement_lock" where
  "lock_settlement_rows cfg ports dw x owner inboxId review db =
     (let r0 = ex_candidate x; access = ex_access x in
     await (lock_purpose ports (ex_purpose x) (pi_creatorUserId r0) (dw_clock dw 12) db) (\<lambda>locked.
     await (review_proof ports dw review) (\<lambda>proof.
     await (within (lockTipReceivingDestination (sf_fund cfg) dw (pi_creatorUserId r0) (dw_clock dw 15) (sd_funds db))) (\<lambda>found.
     await (sepay_want found ''evidence_mismatch'') (\<lambda>d.
     await (sepay_need (ds_accountVersionId d = pi_accountVersionId r0 \<and> ds_accountFingerprint d = cx_accountFingerprint (ax_connection access)) ''evidence_mismatch'') (\<lambda>_.
     await (sepay_want (List.find (\<lambda>c. cx_id c = cx_id (ax_connection access)) (fd_connections (sd_funds db))) ''version_conflict'') (\<lambda>c.
     await (sepay_need (connection_current x (review \<noteq> None) c) ''version_conflict'') (\<lambda>_.
     let at = dw_clock dw 16 in
     await (sepay_want (List.find (\<lambda>r. pi_id r = pi_id r0) (fd_intents (sd_funds db))) ''intent_not_pending'') (\<lambda>r.
     await (sepay_need (intent_current x at r) ''intent_not_pending'') (\<lambda>_.
     await (sepay_want (processing_of inboxId db) ''evidence_mismatch'') (\<lambda>s.
     await (sepay_need (lease_current inboxId owner at db s) ''evidence_mismatch'') (\<lambda>_.
     await (sepay_need ((case match_at cfg x at of Matched _ \<Rightarrow> True | _ \<Rightarrow> False) \<and> at < ax_expiresAt access) ''evidence_mismatch'') (\<lambda>_.
     await (proof_still proof at) (\<lambda>_.
       Inr \<lparr>sl_bindings = locked, sl_proof = proof, sl_destination = d, sl_connection = c, sl_intent = r, sl_state = s, sl_at = at\<rparr>))))))))))))))"

definition bank_transaction :: "settle_cfg \<Rightarrow> fund_draw \<Rightarrow> examined \<Rightarrow> string \<Rightarrow> settlement_lock \<Rightarrow> bank_transaction_row" where
  "bank_transaction cfg dw x inboxId l =
     (let b = ex_binding x; t = ex_transaction x; r = sl_intent l in
      \<lparr>bt_id = dw_id dw 1, bt_providerEnvironment = sb_environment b, bt_providerTenantId = sb_tenantId b, bt_providerAccountId = sb_accountId b,
       bt_providerTransactionId = st_id t, bt_connectionId = cx_id (sl_connection l), bt_connectionRevisionId = ax_revisionId (ex_access x),
       bt_connectionVersion = cx_version (sl_connection l), bt_inboxId = inboxId, bt_paymentIntentId = pi_id r, bt_amountVnd = pi_amountVnd r,
       bt_referenceHash = pi_referenceHash r, bt_accountFingerprint = ds_accountFingerprint (sl_destination l), bt_transferAt = st_occurredAt t,
       bt_verifiedAt = sl_at l, bt_readbackDigest = sha256_text cfg (sf_serialize cfg t)\<rparr>)"

text \<open>\<open>insert ... on conflict do nothing returning\<close>: any unique index.\<close>

definition reserve_bank_transaction :: "bank_transaction_row \<Rightarrow> sepay_db \<Rightarrow> sepay_failure + sepay_db" where
  "reserve_bank_transaction t db =
     await (sepay_need (bt_id t \<notin> bt_id ` set (sd_transactions db) \<and> bank_identity t \<notin> bank_identity ` set (sd_transactions db) \<and>
       bt_paymentIntentId t \<notin> bt_paymentIntentId ` set (sd_transactions db)) ''evidence_mismatch'') (\<lambda>_.
     keep_sepay (db\<lparr>sd_transactions := sd_transactions db @ [t]\<rparr>))"

definition settlement_request :: "fund_draw \<Rightarrow> review_command option \<Rightarrow> string" where
  "settlement_request dw review = (case review of None \<Rightarrow> dw_id dw 3 | Some c \<Rightarrow> rw_requestId c)"

definition provider_confirmation ::
  "settle_cfg \<Rightarrow> fund_draw \<Rightarrow> string \<Rightarrow> review_command option \<Rightarrow> settlement_lock \<Rightarrow> confirmation_row" where
  "provider_confirmation cfg dw keyHash review l =
     (let r = sl_intent l; proof = sl_proof l in
      \<lparr>pm_id = dw_id dw 2, pm_paymentIntentId = pi_id r, pm_creatorUserId = pi_creatorUserId r, pm_accountVersionId = pi_accountVersionId r,
       pm_observedAmountVnd = pi_amountVnd r, pm_referenceHash = pi_referenceHash r, pm_bankTransactionFingerprint = None,
       pm_providerTransactionId = Some (dw_id dw 1), pm_workerIdentity = (if review = None then Some (sf_workerIdentity cfg) else None),
       pm_source = (if review = None then SepayAutomatic else CreatorReviewedSepay),
       pm_attestedReceived = (if review = None then None else Some True),
       pm_actorSessionId = map_option (\<lambda>c. ak_sessionId (rw_actor c)) review,
       pm_primaryAuthenticatedAt = map_option as_primaryAuthenticatedAt proof,
       pm_mfaVerifiedAt = (case proof of None \<Rightarrow> None | Some p \<Rightarrow> if as_mfaEnrolled p then as_mfaVerifiedAt p else None),
       pm_idempotencyKeyHash = (if review = None then None else Some keyHash),
       pm_requestId = settlement_request dw review, pm_confirmedAt = sl_at l\<rparr>)"

definition complete_purpose ::
  "fund_draw \<Rightarrow> payment_purpose \<Rightarrow> bindings \<Rightarrow> intent_row \<Rightarrow> actor option \<Rightarrow> instant \<Rightarrow> string \<Rightarrow> fund_db \<Rightarrow> failure + (fund_db \<times> bool)" where
  "complete_purpose dw p locked r actor at requestId db =
     (case p of
        TipPayment k \<Rightarrow> completeTip k (pi_creatorUserId r) (pi_amountVnd r) at db
      | CommissionPayment k \<Rightarrow> on_orders (confirmPayment (draw.truncate dw) locked \<lparr>cf_orderId = k, cf_creatorUserId = pi_creatorUserId r, cf_at = at,
          cf_paymentIntentId = pi_id r, cf_amountVnd = pi_amountVnd r, cf_actor = actor, cf_requestId = requestId\<rparr>) db)"

text \<open>The rows of money and product.\<close>

definition provider_rows ::
  "(fund_db \<Rightarrow> failure + (fund_db \<times> bool)) \<Rightarrow> confirmation_row \<Rightarrow> intent_row \<Rightarrow> instant \<Rightarrow> fund_db \<Rightarrow> sepay_failure + fund_db" where
  "provider_rows complete m r at db =
     await (within (keep (db\<lparr>fd_confirmations := fd_confirmations db @ [m]\<rparr>))) (\<lambda>db1.
     await (within (keep (db1\<lparr>fd_intents := rows_update (\<lambda>x. pi_id x = pi_id r \<and> pending_intent at x) (confirmed_intent at) (fd_intents db1)\<rparr>))) (\<lambda>db2.
     await (sepay_need (list_ex (\<lambda>x. pi_id x = pi_id r \<and> pending_intent at x) (fd_intents db1)) ''intent_not_pending'') (\<lambda>_.
     await (within (complete db2)) (\<lambda>(db3, ok).
     await (sepay_need ok ''intent_not_pending'') (\<lambda>_. Inr db3)))))"

definition settled_state :: "instant \<Rightarrow> processing_row \<Rightarrow> processing_row" where
  "settled_state at s = s\<lparr>ps_status := EventConfirmed, ps_version := ps_version s + 1, ps_leaseOwner := None, ps_leaseExpiresAt := None,
     ps_lastErrorCode := None, ps_updatedAt := at\<rparr>"

definition settled_decision :: "fund_draw \<Rightarrow> string \<Rightarrow> string \<Rightarrow> review_command option \<Rightarrow> settlement_lock \<Rightarrow> decision_row" where
  "settled_decision dw inboxId keyHash review l =
     \<lparr>dn_id = dw_id dw 4, dn_inboxId = inboxId, dn_action = ''confirmed'',
      dn_reason = (case review of None \<Rightarrow> ''exact_provider_readback'' | Some c \<Rightarrow> rw_reason c),
      dn_actorUserId = map_option (\<lambda>c. ak_userId (rw_actor c)) review, dn_actorSessionId = map_option (\<lambda>c. ak_sessionId (rw_actor c)) review,
      dn_idempotencyKeyHash = (if review = None then None else Some keyHash), dn_expectedVersion = ps_version (sl_state l), dn_createdAt = sl_at l\<rparr>"

definition settled_audit :: "settle_cfg \<Rightarrow> purpose \<Rightarrow> fund_draw \<Rightarrow> review_command option \<Rightarrow> confirmation_row \<Rightarrow> new_audit_event" where
  "settled_audit cfg p dw review m =
     \<lparr>ne_actorUserId = (case review of None \<Rightarrow> ''system:'' @ sf_workerIdentity cfg | Some c \<Rightarrow> ak_userId (rw_actor c)),
      ne_actorSessionId = map_option (\<lambda>c. ak_sessionId (rw_actor c)) review, ne_subjectType = ''payment_intent'',
      ne_subjectId = pm_paymentIntentId m, ne_action = purpose_text p @ ''.confirmed'', ne_outcome = Succeeded, ne_reasonCode = None,
      ne_beforeState = Some (JObj [(''state'', JStr ''awaiting_transfer'')]),
      ne_afterState = Some (JObj [(''state'', JStr ''confirmed''), (''confirmationId'', JStr (pm_id m))]),
      ne_assurance = JObj [(''method'', JStr (if review = None then ''worker_provider_readback'' else ''creator_attestation_provider_readback''))],
      ne_applicationRevision = fc_applicationRevision (sf_fund cfg), ne_requestId = settlement_request dw review,
      ne_occurredAt = Some (Some (pm_confirmedAt m))\<rparr>"

definition settled_event :: "payment_purpose \<Rightarrow> fund_draw \<Rightarrow> review_command option \<Rightarrow> confirmation_row \<Rightarrow> new_outbox_event" where
  "settled_event p dw review m =
     \<lparr>ev_eventType = purpose_text (purpose_kind p) @ ''.confirmed.v1'', ev_eventVersion = 1, ev_aggregateType = ''payment_intent'',
      ev_aggregateId = pm_paymentIntentId m,
      ev_payload = JObj [(''paymentIntentId'', JStr (pm_paymentIntentId m)),
        (case p of TipPayment k \<Rightarrow> (''tipId'', JStr k) | CommissionPayment k \<Rightarrow> (''orderId'', JStr k)),
        (''creatorUserId'', JStr (pm_creatorUserId m)), (''confirmationId'', JStr (pm_id m)), (''correlationId'', JStr (settlement_request dw review))],
      ev_occurredAt = Some (pm_confirmedAt m), ev_availableAt = None\<rparr>"

definition settle_write ::
  "settle_cfg \<Rightarrow> fund_draw \<Rightarrow> examined \<Rightarrow> string \<Rightarrow> string \<Rightarrow> review_command option \<Rightarrow> settlement_lock \<Rightarrow> sepay_db \<Rightarrow> sepay_failure + sepay_db" where
  "settle_write cfg dw x inboxId keyHash review l db =
     (let r = sl_intent l; at = sl_at l; m = provider_confirmation cfg dw keyHash review l; p = ex_purpose x in
     await (reserve_bank_transaction (bank_transaction cfg dw x inboxId l) db) (\<lambda>db1.
     await (provider_rows (complete_purpose dw p (sl_bindings l) r (map_option rw_actor review) at (settlement_request dw review)) m r at (sd_funds db1)) (\<lambda>f.
     await (keep_sepay (db1\<lparr>sd_funds := f\<rparr>)) (\<lambda>db2.
     await (keep_sepay (db2\<lparr>sd_processing := rows_update (\<lambda>s. ps_inboxId s = inboxId) (settled_state at) (sd_processing db2)\<rparr>)) (\<lambda>db3.
     await (keep_sepay (db3\<lparr>sd_decisions := sd_decisions db3 @ [settled_decision dw inboxId keyHash review l]\<rparr>)) (\<lambda>db4.
     await (on_funds (fund_audit (sf_fund cfg) (dw_id dw 5) at (settled_audit cfg (purpose_kind p) dw review m)) db4) (\<lambda>db5.
     on_funds (fund_event (sf_fund cfg) (dw_id dw 6) at (settled_event p dw review m)) db5)))))))"

text \<open>A review is a command of the creator, recorded like every other.\<close>

definition review_begin ::
  "settle_cfg \<Rightarrow> fund_draw \<Rightarrow> string \<Rightarrow> string \<Rightarrow> review_command option \<Rightarrow> sepay_db \<Rightarrow> sepay_failure + (sepay_db \<times> string option)" where
  "review_begin cfg dw inboxId keyHash review db =
     (case review of
        None \<Rightarrow> Inr (db, None)
      | Some c \<Rightarrow>
          await (review_fingerprint cfg inboxId c) (\<lambda>fp.
          await (within (fund_begin dw \<lparr>bi_actorUserId = ak_userId (rw_actor c), bi_commandScope = ''payments.sepay_confirm'', bi_keyHash = keyHash,
            bi_requestFingerprint = fp, bi_expiresAt = dw_clock dw 11 + 86400000, bi_now = dw_clock dw 10\<rparr> (sd_funds db))) (\<lambda>(f, started).
          case started of
            Acquired recordId \<Rightarrow> await (keep_sepay (db\<lparr>sd_funds := f\<rparr>)) (\<lambda>db1. Inr (db1, Some recordId))
          | _ \<Rightarrow> Inl (ServiceError ''idempotency_conflict'' None))))"

definition review_done :: "settle_cfg \<Rightarrow> string \<Rightarrow> string \<Rightarrow> instant \<Rightarrow> sepay_db \<Rightarrow> sepay_failure + sepay_db" where
  "review_done cfg recordId ref at db =
     await (case fund_complete (sf_fund cfg) recordId ref at (sd_funds db) of
         Inl (TipPaymentError code) \<Rightarrow> Inl (ServiceError code None) | Inl _ \<Rightarrow> Inl UnknownFailure | Inr f \<Rightarrow> Inr f) (\<lambda>f.
     keep_sepay (db\<lparr>sd_funds := f\<rparr>))"

definition review_complete :: "settle_cfg \<Rightarrow> fund_draw \<Rightarrow> string option \<Rightarrow> instant \<Rightarrow> sepay_db \<Rightarrow> sepay_failure + sepay_db" where
  "review_complete cfg dw recordId at db =
     (case recordId of None \<Rightarrow> Inr db
      | Some k \<Rightarrow>
          review_done cfg k (''sepay-confirmed:'' @ dw_id dw 2) at db)"

definition settle_event ::
  "settle_cfg \<Rightarrow> settle_ports \<Rightarrow> fund_draw \<Rightarrow> examined \<Rightarrow> string \<Rightarrow> string \<Rightarrow> review_command option \<Rightarrow> sepay_db \<Rightarrow> sepay_failure + sepay_db" where
  "settle_event cfg ports dw x owner inboxId review db =
     await (case review of None \<Rightarrow> sepay_hash cfg ''automatic-confirm'' inboxId | Some c \<Rightarrow> sepay_hash cfg ''review-key'' (rw_idempotencyKey c)) (\<lambda>keyHash.
     await (review_begin cfg dw inboxId keyHash review db) (\<lambda>(db1, recordId).
     await (lock_settlement_rows cfg ports dw x owner inboxId review db1) (\<lambda>l.
     await (settle_write cfg dw x inboxId keyHash review l db1) (\<lambda>db2.
     review_complete cfg dw recordId (sl_at l) db2))))"

subsection \<open>The whole\<close>

text \<open>After the event was taken: examined, then settled or put aside. A transaction that fails leaves the
  database as it was, and the reason is written in one of its own: \<open>db\<close> is the database the settlement runs on,
  \<open>late\<close> the one the event is put aside in.\<close>

definition finish_event ::
  "settle_cfg \<Rightarrow> settle_ports \<Rightarrow> fund_draw \<Rightarrow> event_claim \<Rightarrow> string \<Rightarrow> review_command option \<Rightarrow> sepay_db \<Rightarrow> sepay_db \<Rightarrow> sepay_db \<Rightarrow> sepay_db \<Rightarrow>
     sepay_failure + (sepay_db \<times> process_outcome)" where
  "finish_event cfg ports dw claim owner review seen seen2 db late =
     (let inboxId = ib_id (ec_inbox claim); attempts = ps_attempts (ec_state claim); reviewed = (review \<noteq> None);
          aside = (\<lambda>(reason, pause). dispose cfg dw owner inboxId reviewed attempts reason pause late)
      in case examine cfg ports dw claim reviewed seen seen2 of
           Inl e \<Rightarrow> aside (failure_reason attempts e)
         | Inr (Inl reason) \<Rightarrow> aside (reason, None)
         | Inr (Inr x) \<Rightarrow>
             (case settle_event cfg ports dw x owner inboxId review db of
                Inl e \<Rightarrow> aside (failure_reason attempts e)
              | Inr db' \<Rightarrow> Inr (db', OutcomeConfirmed)))"

definition process_checks :: "settle_cfg \<Rightarrow> string \<Rightarrow> review_command option \<Rightarrow> sepay_failure + unit" where
  "process_checks cfg inboxId review =
     await (sepay_need (is_uuid inboxId) ''invalid_request'') (\<lambda>_.
     await (sepay_need (fc_paymentsMode (sf_fund cfg) \<noteq> PaymentsDisabledMode \<or> sf_commissionMode cfg \<noteq> PaymentsDisabledMode) ''payments_disabled'') (\<lambda>_.
     case review of None \<Rightarrow> Inr () | Some c \<Rightarrow> review_ok c))"

text \<open>\<open>processInbox\<close> and \<open>confirmReviewed\<close>; \<open>meanwhile n\<close> is what other transactions do to the database before the
  \<open>n\<close>-th access after the event was taken.\<close>

definition process_event ::
  "settle_cfg \<Rightarrow> settle_ports \<Rightarrow> fund_draw \<Rightarrow> string \<Rightarrow> string \<Rightarrow> review_command option \<Rightarrow> (nat \<Rightarrow> sepay_db \<Rightarrow> sepay_db) \<Rightarrow> sepay_db \<Rightarrow>
     sepay_failure + (sepay_db \<times> process_outcome)" where
  "process_event cfg ports dw owner inboxId review meanwhile db =
     await (process_checks cfg inboxId review) (\<lambda>_.
     await (claim_event cfg ports dw owner inboxId review db) (\<lambda>(db1, answer).
     case answer of
       NothingToDo \<Rightarrow> Inr (db1, OutcomeUnchanged)
     | AlreadyConfirmed \<Rightarrow> Inr (db1, OutcomeConfirmed)
     | Taken claim \<Rightarrow>
         let seen = meanwhile 0 db1; seen2 = meanwhile 1 seen; db2 = meanwhile 2 seen2
         in finish_event cfg ports dw claim owner review seen seen2 db2 (meanwhile 3 db2)))"

definition due_event :: "settle_cfg \<Rightarrow> instant \<Rightarrow> instant \<Rightarrow> sepay_db \<Rightarrow> processing_row \<Rightarrow> bool" where
  "due_event cfg t1 t2 db s \<longleftrightarrow> event_source cfg (ps_inboxId s) db \<noteq> None \<and> ps_status s \<in> {Pending, Processing} \<and> ps_availableAt s \<le> t1 \<and>
     (ps_status s = Pending \<or> (case ps_leaseExpiresAt s of None \<Rightarrow> False | Some t \<Rightarrow> t \<le> t2))"

text \<open>The events \<open>recoverDue\<close> processes one after the other, until fifteen seconds have passed.\<close>

definition due_events :: "settle_cfg \<Rightarrow> instant \<Rightarrow> instant \<Rightarrow> nat \<Rightarrow> sepay_db \<Rightarrow> string list" where
  "due_events cfg t1 t2 n db =
     map ps_inboxId (take n (sort_key (\<lambda>s. (ps_availableAt s, ps_inboxId s)) (filter (due_event cfg t1 t2 db) (sd_processing db))))"

subsection \<open>The creator's decisions\<close>

datatype review_action = ActionRetry | ActionDismiss | ActionReopen

definition action_text :: "review_action \<Rightarrow> string" where
  "action_text a = (case a of ActionRetry \<Rightarrow> ''retry'' | ActionDismiss \<Rightarrow> ''dismiss'' | ActionReopen \<Rightarrow> ''reopen'')"

definition processing_text :: "processing_status \<Rightarrow> string" where
  "processing_text s = (case s of Pending \<Rightarrow> ''pending'' | Processing \<Rightarrow> ''processing'' | ReviewRequired \<Rightarrow> ''review_required''
     | EventConfirmed \<Rightarrow> ''confirmed'' | EventIgnored \<Rightarrow> ''ignored'' | Dismissed \<Rightarrow> ''dismissed'')"

record decide_command =
  dk_actor :: actor
  dk_inboxId :: string
  dk_expectedVersion :: int
  dk_action :: review_action
  dk_reason :: string
  dk_idempotencyKey :: string
  dk_requestId :: string

text \<open>Texts are ASCII, so the source's \<open>reason.normalize("NFC") === reason\<close> always holds.\<close>

definition decide_ok :: "settle_cfg \<Rightarrow> decide_command \<Rightarrow> sepay_failure + unit" where
  "decide_ok cfg c =
     await (sepay_need (fc_paymentsMode (sf_fund cfg) \<noteq> PaymentsDisabledMode) ''payments_disabled'') (\<lambda>_.
     await (sepay_command_ok (dk_actor c) (dk_idempotencyKey c) (dk_requestId c)) (\<lambda>_.
     sepay_need (is_uuid (dk_inboxId c) \<and> isSafeInteger (dk_expectedVersion c) \<and> 1 \<le> dk_expectedVersion c \<and>
       trim (dk_reason c) = dk_reason c \<and> reason_text_ok (dk_reason c)) ''invalid_request''))"

definition decided_status :: "review_action \<Rightarrow> processing_status" where
  "decided_status a = (case a of ActionDismiss \<Rightarrow> Dismissed | ActionReopen \<Rightarrow> ReviewRequired | ActionRetry \<Rightarrow> Pending)"

definition decided_state :: "review_action \<Rightarrow> instant \<Rightarrow> processing_row \<Rightarrow> processing_row" where
  "decided_state a at s =
     s\<lparr>ps_status := decided_status a, ps_version := ps_version s + 1, ps_leaseOwner := None, ps_leaseExpiresAt := None, ps_availableAt := at,
       ps_lastErrorCode := (if a = ActionRetry then Some ''creator_requested_retry'' else ps_lastErrorCode s), ps_updatedAt := at\<rparr>"

definition decided_audit :: "settle_cfg \<Rightarrow> decide_command \<Rightarrow> processing_status \<Rightarrow> instant \<Rightarrow> new_audit_event" where
  "decided_audit cfg c before at =
     \<lparr>ne_actorUserId = ak_userId (dk_actor c), ne_actorSessionId = Some (ak_sessionId (dk_actor c)), ne_subjectType = ''sepay_inbox'',
      ne_subjectId = dk_inboxId c, ne_action = ''sepay.review_'' @ action_text (dk_action c), ne_outcome = Succeeded, ne_reasonCode = None,
      ne_beforeState = Some (JObj [(''state'', JStr (processing_text before))]),
      ne_afterState = Some (JObj [(''state'', JStr (processing_text (decided_status (dk_action c))))]),
      ne_assurance = JObj [(''method'', JStr ''current_creator_session'')], ne_applicationRevision = fc_applicationRevision (sf_fund cfg),
      ne_requestId = dk_requestId c, ne_occurredAt = Some (Some at)\<rparr>"

definition decide_write ::
  "settle_cfg \<Rightarrow> fund_draw \<Rightarrow> decide_command \<Rightarrow> string \<Rightarrow> string \<Rightarrow> instant \<Rightarrow> sepay_db \<Rightarrow> sepay_failure + sepay_db" where
  "decide_write cfg dw c keyHash recordId at db =
     await (sepay_want (processing_of (dk_inboxId c) db) ''version_conflict'') (\<lambda>s.
     await (sepay_need (ps_version s = dk_expectedVersion c) ''version_conflict'') (\<lambda>_.
     await (sepay_need (ps_status s = (if dk_action c = ActionReopen then Dismissed else ReviewRequired)) ''not_available'') (\<lambda>_.
     await (keep_sepay (db\<lparr>sd_processing := rows_update (\<lambda>x. ps_inboxId x = dk_inboxId c) (decided_state (dk_action c) at) (sd_processing db)\<rparr>)) (\<lambda>db1.
     await (keep_sepay (db1\<lparr>sd_decisions := sd_decisions db1 @ [\<lparr>dn_id = dw_id dw 1, dn_inboxId = dk_inboxId c, dn_action = action_text (dk_action c),
       dn_reason = dk_reason c, dn_actorUserId = Some (ak_userId (dk_actor c)), dn_actorSessionId = Some (ak_sessionId (dk_actor c)),
       dn_idempotencyKeyHash = Some keyHash, dn_expectedVersion = ps_version s, dn_createdAt = at\<rparr>]\<rparr>)) (\<lambda>db2.
     await (on_funds (fund_audit (sf_fund cfg) (dw_id dw 2) at (decided_audit cfg c (ps_status s) at)) db2) (\<lambda>db3.
     review_done cfg recordId (''sepay-review:'' @ dw_id dw 1) at db3))))))"

text \<open>A repeated decision answers as the first did, for whoever may still see the event.\<close>

definition decide_transaction ::
  "settle_cfg \<Rightarrow> settle_ports \<Rightarrow> fund_draw \<Rightarrow> decide_command \<Rightarrow> sepay_db \<Rightarrow> sepay_failure + sepay_db" where
  "decide_transaction cfg ports dw c db =
     (let at = dw_clock dw 0 in
     await (sepay_hash cfg ''review-decision-key'' (dk_idempotencyKey c)) (\<lambda>keyHash.
     await (sepay_hash cfg ''review-decision'' (stringify (JArr [JStr (dk_inboxId c), JNum (dk_expectedVersion c), JStr (action_text (dk_action c)), JStr (dk_reason c)]))) (\<lambda>fp.
     await (within (fund_begin dw \<lparr>bi_actorUserId = ak_userId (dk_actor c), bi_commandScope = ''payments.sepay_review'', bi_keyHash = keyHash,
       bi_requestFingerprint = fp, bi_expiresAt = at + 86400000, bi_now = at\<rparr> (sd_funds db))) (\<lambda>(f, started).
     await (keep_sepay (db\<lparr>sd_funds := f\<rparr>)) (\<lambda>db0.
     await (sepay_need (case started of Acquired _ \<Rightarrow> True | Replay _ _ \<Rightarrow> True | _ \<Rightarrow> False) ''idempotency_conflict'') (\<lambda>_.
     await (sepay_assured ports dw 1 False (dk_actor c)) (\<lambda>_.
     await (sepay_want (event_source cfg (dk_inboxId c) db0) ''not_available'') (\<lambda>(inbox, connection).
     await (sepay_need (cx_creatorUserId connection = ak_userId (dk_actor c) \<and> ib_accepted inbox) ''not_available'') (\<lambda>_.
     await (within (fp_authorizeCommand ports (dk_actor c))) (\<lambda>_.
     case started of
       Acquired recordId \<Rightarrow> decide_write cfg dw c keyHash recordId at db0
     | _ \<Rightarrow> Inr db0))))))))))"

definition decide ::
  "settle_cfg \<Rightarrow> settle_ports \<Rightarrow> fund_draw \<Rightarrow> decide_command \<Rightarrow> sepay_db \<Rightarrow> sepay_failure + sepay_db" where
  "decide cfg ports dw c db = await (decide_ok cfg c) (\<lambda>_. sepayBoundary (decide_transaction cfg ports dw c db))"

end
