(* ===== verification/SettlementSteps.thy ===== *)
theory SettlementSteps
  imports FundSteps SepayReconciliation
begin

text \<open>
  What each operation on bank events does to the tables, and the step relation of the payments with
  both lanes. A state is a history, newest database first: processing an event reads outside any
  transaction, so what it acts on may come from any database of the past.
\<close>

subsection \<open>Money and product\<close>

lemma purpose_ids:
  "readPaymentPurpose r = Some (TipPayment k) \<Longrightarrow> pi_tipId r = Some k \<and> pi_commissionOrderId r = None"
  "readPaymentPurpose r = Some (CommissionPayment k) \<Longrightarrow> pi_tipId r = None \<and> pi_commissionOrderId r = Some k"
  by (auto simp: readPaymentPurpose_def isTipPayment_def split: if_splits option.splits)

lemma complete_purpose_done:
  assumes run: "complete_purpose dw p locked r actor at q db = Inr (db', True)" and ok: "fund_constraints db"
    and p: "readPaymentPurpose c = Some p" "same_intent c r"
  shows "product_done r at db db'"
proof (cases p)
  case (TipPayment k)
  then have ids: "pi_tipId r = Some k" "pi_commissionOrderId r = None"
    using purpose_ids(1) [of c k] p same_intentD [OF p(2)] by auto
  have "close_tip TipCompleted k (pi_creatorUserId r) (pi_amountVnd r) at db = Inr (db', True)"
    using run TipPayment by (simp add: complete_purpose_def completeTip_def)
  from close_tip_done [OF this ok ids(1)] show ?thesis using ids(2) by (simp add: product_done_def confirmed_after_def)
next
  case (CommissionPayment k)
  then have ids: "pi_tipId r = None" "pi_commissionOrderId r = Some k"
    using purpose_ids(2) [of c k] p same_intentD [OF p(2)] by auto
  have constraints: "order_constraints (fd_orders db)" using ok by (simp add: fund_constraints_def)
  obtain o' where o': "confirmPayment (draw.truncate dw) locked \<lparr>cf_orderId = k, cf_creatorUserId = pi_creatorUserId r, cf_at = at,
        cf_paymentIntentId = pi_id r, cf_amountVnd = pi_amountVnd r, cf_actor = actor, cf_requestId = q\<rparr> (fd_orders db) = Inr (o', True)"
    and db': "db' = db\<lparr>fd_orders := o'\<rparr>" "fund_constraints db'"
    using run CommissionPayment by (auto simp: complete_purpose_def on_orders_def result_iffs)
  show ?thesis using confirm_sets(1) [OF o' constraints] ids db' by (simp add: product_done_def confirmed_after_def)
qed

lemma provider_rows_effect:
  assumes run: "provider_rows complete m r at db = Inr db'" and ok: "fund_constraints db" and r: "r \<in> set (fd_intents db)" "pending_intent at r"
    and m: "confirmation_binding m = intent_binding r" "pm_confirmedAt m = at"
    and completes: "\<And>a b. complete a = Inr (b, True) \<Longrightarrow> fund_constraints a \<Longrightarrow> product_done r at a b"
  shows "money_move (money_of db) (money_of db')" "fund_constraints db'" "fd_confirmations db' = fd_confirmations db @ [m]"
    "fd_intents db' = replace_intent (confirmed_intent at r) (fd_intents db)"
proof -
  obtain db1 db2 where db1: "db1 = db\<lparr>fd_confirmations := fd_confirmations db @ [m]\<rparr>"
    and db2: "db2 = db1\<lparr>fd_intents := rows_update (\<lambda>x. pi_id x = pi_id r \<and> pending_intent at x) (confirmed_intent at) (fd_intents db1)\<rparr>" "fund_constraints db2"
    and done_: "complete db2 = Inr (db', True)"
    using run unfolding provider_rows_def by (auto simp: result_iffs)
  show "money_move (money_of db) (money_of db')" "fund_constraints db'" "fd_confirmations db' = fd_confirmations db @ [m]"
      "fd_intents db' = replace_intent (confirmed_intent at r) (fd_intents db)"
    by (rule paid_rows_move [OF ok r m db1 db2(1) completes [OF done_ db2(2)]])+
qed

subsection \<open>Writing a settlement\<close>

lemma settlement_binding:
  "confirmation_binding (provider_confirmation cfg dw keyHash review l) = intent_binding (sl_intent l)"
  "pm_confirmedAt (provider_confirmation cfg dw keyHash review l) = sl_at l"
  "pm_providerTransactionId (provider_confirmation cfg dw keyHash review l) = Some (bt_id (bank_transaction cfg dw x inboxId l))"
  "bt_paymentIntentId (bank_transaction cfg dw x inboxId l) = pi_id (sl_intent l)" "bt_amountVnd (bank_transaction cfg dw x inboxId l) = pi_amountVnd (sl_intent l)"
  "pm_paymentIntentId (provider_confirmation cfg dw keyHash review l) = pi_id (sl_intent l)"
  "pm_observedAmountVnd (provider_confirmation cfg dw keyHash review l) = pi_amountVnd (sl_intent l)"
  by (simp_all add: provider_confirmation_def bank_transaction_def confirmation_binding_def intent_binding_def Let_def)

text \<open>One settlement: the bank transaction \<open>t\<close>, its confirmation \<open>m\<close>, and the event \<open>inboxId\<close> confirmed.\<close>

definition settled_by :: "string \<Rightarrow> instant \<Rightarrow> bank_transaction_row \<Rightarrow> confirmation_row \<Rightarrow> sepay_db \<Rightarrow> sepay_db \<Rightarrow> bool" where
  "settled_by inboxId at t m db db' \<longleftrightarrow>
     sepay_constraints db' \<and> money_move (money_of (sd_funds db)) (money_of (sd_funds db')) \<and>
     fd_confirmations (sd_funds db') = fd_confirmations (sd_funds db) @ [m] \<and> sd_transactions db' = sd_transactions db @ [t] \<and>
     bank_identity t \<notin> bank_identity ` set (sd_transactions db) \<and>
     sd_processing db' = rows_update (\<lambda>s. ps_inboxId s = inboxId) (settled_state at) (sd_processing db) \<and>
     sd_inbox db' = sd_inbox db \<and> sd_conflicts db' = sd_conflicts db"

lemma settle_write_effect:
  assumes run: "settle_write cfg dw x inboxId keyHash review l db = Inr db'" and ok: "sepay_constraints db"
    and r: "sl_intent l \<in> set (fd_intents (sd_funds db))" "pending_intent (sl_at l) (sl_intent l)"
    and p: "readPaymentPurpose c = Some (ex_purpose x)" "same_intent c (sl_intent l)"
  shows "settled_by inboxId (sl_at l) (bank_transaction cfg dw x inboxId l) (provider_confirmation cfg dw keyHash review l) db db'"
proof -
  let ?t = "bank_transaction cfg dw x inboxId l" and ?m = "provider_confirmation cfg dw keyHash review l"
  let ?complete = "complete_purpose dw (ex_purpose x) (sl_bindings l) (sl_intent l) (map_option rw_actor review) (sl_at l) (settlement_request dw review)"
  obtain db1 f db2 db3 db4 db5 where w: "reserve_bank_transaction ?t db = Inr db1"
      "provider_rows ?complete ?m (sl_intent l) (sl_at l) (sd_funds db1) = Inr f" "keep_sepay (db1\<lparr>sd_funds := f\<rparr>) = Inr db2"
      "keep_sepay (db2\<lparr>sd_processing := rows_update (\<lambda>s. ps_inboxId s = inboxId) (settled_state (sl_at l)) (sd_processing db2)\<rparr>) = Inr db3"
      "keep_sepay (db3\<lparr>sd_decisions := sd_decisions db3 @ [settled_decision dw inboxId keyHash review l]\<rparr>) = Inr db4"
      "on_funds (fund_audit (sf_fund cfg) (dw_id dw 5) (sl_at l) (settled_audit cfg (purpose_kind (ex_purpose x)) dw review ?m)) db4 = Inr db5"
      "on_funds (fund_event (sf_fund cfg) (dw_id dw 6) (sl_at l) (settled_event (ex_purpose x) dw review ?m)) db5 = Inr db'"
    using run unfolding settle_write_def Let_def by (simp only: result_iffs) blast
  have one: "db1 = db\<lparr>sd_transactions := sd_transactions db @ [?t]\<rparr>" "bank_identity ?t \<notin> bank_identity ` set (sd_transactions db)"
    using w(1) by (auto simp: reserve_bank_transaction_def result_iffs)
  have four: "db4 = db\<lparr>sd_transactions := sd_transactions db @ [?t], sd_funds := f,
       sd_processing := rows_update (\<lambda>s. ps_inboxId s = inboxId) (settled_state (sl_at l)) (sd_processing db),
       sd_decisions := sd_decisions db @ [settled_decision dw inboxId keyHash review l]\<rparr>"
    using w(3-5) by (simp add: one(1))
  obtain f5 f6 where f: "fund_audit (sf_fund cfg) (dw_id dw 5) (sl_at l) (settled_audit cfg (purpose_kind (ex_purpose x)) dw review ?m) f = Inr f5"
      "fund_event (sf_fund cfg) (dw_id dw 6) (sl_at l) (settled_event (ex_purpose x) dw review ?m) f5 = Inr f6"
    and db': "db' = db4\<lparr>sd_funds := f6\<rparr>" "sepay_constraints db'"
    using w(6,7) by (auto simp: on_funds_Inr four)
  have "fund_constraints (sd_funds db)" using ok by (simp add: sepay_constraints_def)
  note moved = provider_rows_effect [OF w(2) _ _ r(2) settlement_binding(1,2) complete_purpose_done [OF _ _ p], unfolded one(1), simplified, OF this r(1)]
  note b = bookkeeping_tables [OF bookkeeping_trans [OF fund_statements(1) [OF f(1)] fund_statements(2) [OF f(2)]]]
  show ?thesis using moved one(2) db'(2) by (simp add: settled_by_def db'(1) four b)
qed

subsection \<open>A settlement\<close>

text \<open>What the transaction found in the database when it wrote.\<close>

definition settlement_found :: "settle_cfg \<Rightarrow> examined \<Rightarrow> string \<Rightarrow> string \<Rightarrow> bool \<Rightarrow> sepay_db \<Rightarrow> settlement_lock \<Rightarrow> bool" where
  "settlement_found cfg x owner inboxId reviewed db l \<longleftrightarrow>
     List.find (\<lambda>r. pi_id r = pi_id (ex_candidate x)) (fd_intents (sd_funds db)) = Some (sl_intent l) \<and> intent_current x (sl_at l) (sl_intent l) \<and>
     processing_of inboxId db = Some (sl_state l) \<and> lease_current inboxId owner (sl_at l) db (sl_state l) \<and>
     (case match_at cfg x (sl_at l) of Matched _ \<Rightarrow> True | _ \<Rightarrow> False) \<and>
     sl_connection l \<in> set (fd_connections (sd_funds db)) \<and> connection_current x reviewed (sl_connection l)"

lemma lock_settlement_found:
  "lock_settlement_rows cfg ports dw x owner inboxId review db = Inr l \<Longrightarrow> settlement_found cfg x owner inboxId (review \<noteq> None) db l"
  unfolding lock_settlement_rows_def Let_def
  by (simp only: result_iffs sepay_want_Inr sepay_need_Inr within_Inr) (auto simp: settlement_found_def dest: find_Some_in)

text \<open>Statements on the record of commands.\<close>

definition books :: "sepay_db \<Rightarrow> sepay_db \<Rightarrow> bool" where
  "books db db' \<longleftrightarrow> (\<exists>f. db' = db\<lparr>sd_funds := f\<rparr> \<and> bookkeeping (sd_funds db) f) \<and> (sepay_constraints db \<longrightarrow> sepay_constraints db')"

lemma bookkeeping_refl: "bookkeeping db db"
  unfolding bookkeeping_def by (intro exI [of _ "od_idem (fd_orders db)"] exI [of _ "od_audit (fd_orders db)"] exI [of _ "od_outbox (fd_orders db)"]) simp

lemma books_tables:
  assumes "books db db'"
  shows "sd_inbox db' = sd_inbox db" "sd_conflicts db' = sd_conflicts db" "sd_processing db' = sd_processing db" "sd_decisions db' = sd_decisions db"
    "sd_transactions db' = sd_transactions db" "sd_revisions db' = sd_revisions db"
    "fd_intents (sd_funds db') = fd_intents (sd_funds db)" "fd_confirmations (sd_funds db') = fd_confirmations (sd_funds db)"
    "fd_connections (sd_funds db') = fd_connections (sd_funds db)" "money_of (sd_funds db') = money_of (sd_funds db)"
proof -
  obtain f where eq: "db' = db\<lparr>sd_funds := f\<rparr>" and b: "bookkeeping (sd_funds db) f" using assms by (auto simp: books_def)
  show "sd_inbox db' = sd_inbox db" "sd_conflicts db' = sd_conflicts db" "sd_processing db' = sd_processing db" "sd_decisions db' = sd_decisions db"
    "sd_transactions db' = sd_transactions db" "sd_revisions db' = sd_revisions db"
    by (simp_all add: eq)
  show "fd_intents (sd_funds db') = fd_intents (sd_funds db)" "fd_confirmations (sd_funds db') = fd_confirmations (sd_funds db)"
    "fd_connections (sd_funds db') = fd_connections (sd_funds db)" "money_of (sd_funds db') = money_of (sd_funds db)"
    by (simp_all add: eq bookkeeping_tables [OF b])
qed

lemma books_refl: "books db db"
  unfolding books_def using bookkeeping_refl by (intro conjI exI [of _ "sd_funds db"]) simp_all

lemma books_trans:
  assumes "books a b" "books b c"
  shows "books a c"
proof -
  obtain f g where "b = a\<lparr>sd_funds := f\<rparr>" "bookkeeping (sd_funds a) f" "c = b\<lparr>sd_funds := g\<rparr>" "bookkeeping (sd_funds b) g"
    using assms by (auto simp: books_def)
  then have "c = a\<lparr>sd_funds := g\<rparr> \<and> bookkeeping (sd_funds a) g" using bookkeeping_trans by simp
  then show ?thesis using assms by (auto simp: books_def)
qed

lemma books_funds: "bookkeeping (sd_funds db) f \<Longrightarrow> sepay_constraints (db\<lparr>sd_funds := f\<rparr>) \<Longrightarrow> books db (db\<lparr>sd_funds := f\<rparr>)"
  by (auto simp: books_def)

lemma on_funds_books:
  "on_funds (fund_audit cfg k at e) db = Inr db' \<Longrightarrow> books db db'"
  "on_funds (fund_event cfg k at v) db = Inr db' \<Longrightarrow> books db db'"
  by (auto simp: on_funds_Inr intro: books_funds dest: fund_statements)

lemma review_done_books: "review_done cfg k ref at db = Inr db' \<Longrightarrow> books db db'"
  by (auto simp: review_done_def result_iffs intro: books_funds dest: fund_statements(4) split: sum.splits failure.splits)

lemma review_begin_books:
  assumes "review_begin cfg dw inboxId keyHash review db = Inr (db', k)"
  shows "books db db'"
proof (cases review)
  case None
  then show ?thesis using assms by (simp add: review_begin_def books_refl)
next
  case (Some c)
  obtain b f started where s: "fund_begin dw b (sd_funds db) = Inr (f, started)"
    and rest: "(case started of Acquired recordId \<Rightarrow> await (keep_sepay (db\<lparr>sd_funds := f\<rparr>)) (\<lambda>db1. Inr (db1, Some recordId))
        | _ \<Rightarrow> Inl (ServiceError ''idempotency_conflict'' None)) = Inr (db', k)"
    using assms unfolding review_begin_def Some by (auto simp: result_iffs)
  have "db' = db\<lparr>sd_funds := f\<rparr> \<and> sepay_constraints db'"
    using rest by (cases started) (auto simp: result_iffs)
  then show ?thesis using books_funds fund_statements(3) [OF s] by blast
qed

lemma books_found:
  assumes "books db db1"
  shows "settlement_found cfg x owner inboxId reviewed db1 l = settlement_found cfg x owner inboxId reviewed db l"
  by (simp add: settlement_found_def processing_of_def lease_current_def books_tables [OF assms])

lemma settled_by_books:
  assumes "books db db1" "settled_by inboxId at t m db1 db2" "books db2 db'"
  shows "settled_by inboxId at t m db db'"
proof -
  have "sepay_constraints db'" using assms(2,3) by (auto simp: settled_by_def books_def)
  then show ?thesis using assms(2) by (simp add: settled_by_def books_tables [OF assms(1)] books_tables [OF assms(3)])
qed

lemma found_intent:
  assumes "settlement_found cfg x owner inboxId reviewed db l" "sepay_constraints db" "r \<in> set (fd_intents (sd_funds db))" "same_intent (ex_candidate x) r"
  shows "sl_intent l = r" "pending_intent (sl_at l) r"
proof -
  have keys: "distinct (map pi_id (fd_intents (sd_funds db)))" using assms(2) by (simp add: sepay_constraints_def fund_constraints_def intents_ok_def)
  have f: "List.find (\<lambda>r. pi_id r = pi_id (ex_candidate x)) (fd_intents (sd_funds db)) = Some (sl_intent l)" "intent_current x (sl_at l) (sl_intent l)"
    using assms(1) by (simp_all add: settlement_found_def)
  show eq: "sl_intent l = r"
    by (rule distinct_key_eq [OF keys _ assms(3)]) (use find_Some_in [OF f(1)] same_intentD(1) [OF assms(4)] in simp_all)
  show "pending_intent (sl_at l) r" using f(2) by (simp add: intent_current_def eq)
qed

lemma settle_event_effect:
  assumes run: "settle_event cfg ports dw x owner inboxId review db = Inr db'" and ok: "sepay_constraints db"
    and p: "readPaymentPurpose (ex_candidate x) = Some (ex_purpose x)" and r: "r \<in> set (fd_intents (sd_funds db))" "same_intent (ex_candidate x) r"
  obtains l keyHash where "settlement_found cfg x owner inboxId (review \<noteq> None) db l" "sl_intent l = r"
    "settled_by inboxId (sl_at l) (bank_transaction cfg dw x inboxId l) (provider_confirmation cfg dw keyHash review l) db db'"
proof -
  obtain keyHash db1 recordId l db2 where w: "review_begin cfg dw inboxId keyHash review db = Inr (db1, recordId)"
      "lock_settlement_rows cfg ports dw x owner inboxId review db1 = Inr l" "settle_write cfg dw x inboxId keyHash review l db1 = Inr db2"
      "review_complete cfg dw recordId (sl_at l) db2 = Inr db'"
    using run unfolding settle_event_def by (simp only: result_iffs split_paired_Ex prod.case) blast
  note b1 = review_begin_books [OF w(1)]
  have b2: "books db2 db'" using w(4) by (auto simp: review_complete_def books_refl intro: review_done_books split: option.splits)
  have found: "settlement_found cfg x owner inboxId (review \<noteq> None) db l"
    using lock_settlement_found [OF w(2)] by (simp only: books_found [OF b1])
  have ok1: "sepay_constraints db1" using b1 ok by (simp add: books_def)
  note i = found_intent [OF found ok r]
  have "settled_by inboxId (sl_at l) (bank_transaction cfg dw x inboxId l) (provider_confirmation cfg dw keyHash review l) db1 db2"
    by (rule settle_write_effect [OF w(3) ok1 _ _ p]) (use i r in \<open>simp_all add: books_tables [OF b1]\<close>)
  then show thesis using that [OF found i(1)] settled_by_books [OF b1 _ b2] by blast
qed

subsection \<open>The evidence\<close>

text \<open>The event a settlement acts on is the one that was received, and the intent the one its reference names.\<close>

lemma stored_event_Inr:
  assumes "stored_event cfg inbox = Inr (Inr event)"
  obtains e raw d where "ib_rawEnvelope inbox = Some e" "fund_open (sf_fund cfg) ''sepay_inbox'' (ib_id inbox) ''raw_body'' e = Inr raw"
    "sha256_text cfg raw = ib_payloadDigest inbox" "parseAuthenticatedSePayWebhook (fc_platform (sf_fund cfg)) (sf_parseJson cfg) raw = Inr (Accepted event d)"
    "se_id event = ib_providerEventId inbox" "se_reference event \<noteq> None"
proof -
  obtain e where e: "ib_rawEnvelope inbox = Some e" using assms by (auto simp: stored_event_def split: option.splits)
  obtain raw d where w: "fund_open (sf_fund cfg) ''sepay_inbox'' (ib_id inbox) ''raw_body'' e = Inr raw" "sha256_text cfg raw = ib_payloadDigest inbox"
      "parseAuthenticatedSePayWebhook (fc_platform (sf_fund cfg)) (sf_parseJson cfg) raw = Inr d"
    and rest: "(case d of Accepted event _ \<Rightarrow> if se_id event = ib_providerEventId inbox \<and> se_reference event \<noteq> None then Inr event else Inl ''reference_mismatch''
              | Ignored _ _ _ \<Rightarrow> Inl ''reference_mismatch'') = Inr event"
    using assms by (auto simp: stored_event_def result_iffs e split: if_splits)
  then show thesis using that e by (cases d) (auto split: if_splits)
qed

lemma find_candidate_Inr:
  "find_candidate cfg claim reference db = Inr found \<longleftrightarrow>
     (\<exists>h. fund_digest (sf_fund cfg) ''tip-transfer-reference'' reference = Inr h \<and>
       found = List.find (\<lambda>r. pi_referenceHash r = h \<and> pi_creatorUserId r = cx_creatorUserId (ec_connection claim)) (fd_intents (sd_funds db)))"
  by (auto simp: find_candidate_def result_iffs)

definition evidence_of :: "settle_cfg \<Rightarrow> settle_ports \<Rightarrow> event_claim \<Rightarrow> sepay_db \<Rightarrow> instant \<Rightarrow> examined \<Rightarrow> bool" where
  "evidence_of cfg ports claim seen at x \<longleftrightarrow>
     stored_event cfg (ec_inbox claim) = Inr (Inr (ex_event x)) \<and> ex_candidate x \<in> set (fd_intents (sd_funds seen)) \<and>
     (case se_reference (ex_event x) of None \<Rightarrow> False
      | Some reference \<Rightarrow> fund_digest (sf_fund cfg) ''tip-transfer-reference'' reference = Inr (pi_referenceHash (ex_candidate x))) \<and>
     pi_creatorUserId (ex_candidate x) = cx_creatorUserId (ec_connection claim) \<and>
     readPaymentPurpose (ex_candidate x) = Some (ex_purpose x) \<and> si_amountVnd (ex_matchIntent x) = pi_amountVnd (ex_candidate x) \<and>
     (\<exists>token t1 t2. sp_readback ports token (ex_binding x) (ex_event x) t1 t2 = Inr (ex_readback x)) \<and>
     match_at cfg x at = Matched (ex_transaction x)"

text \<open>What was not put aside passed every check.\<close>

lemma not_aside_iffs:
  "(case v of None \<Rightarrow> Inr (Inl a) | Some y \<Rightarrow> g y) = Inr (Inr x) \<longleftrightarrow> (\<exists>y. v = Some y \<and> g y = Inr (Inr x))"
  "(case u of Inl c \<Rightarrow> Inr (Inl c) | Inr z \<Rightarrow> k z) = Inr (Inr x) \<longleftrightarrow> (\<exists>z. u = Inr z \<and> k z = Inr (Inr x))"
  "(if b then Inr (Inl a) else e) = Inr (Inr x) \<longleftrightarrow> \<not> b \<and> e = Inr (Inr x)"
  "Inr (case m of Matched t \<Rightarrow> Inr (h t) | Review reason \<Rightarrow> Inl (i reason)) = Inr (Inr x) \<longleftrightarrow> (\<exists>t. m = Matched t \<and> h t = x)"
  by (auto split: option.split sum.split sepay_match.split)

lemma examine_readback_Inr:
  assumes "examine_readback cfg ports dw claim event r p k db = Inr (Inr x)"
  shows "ex_candidate x = r \<and> ex_purpose x = p \<and> ex_event x = event \<and> si_amountVnd (ex_matchIntent x) = pi_amountVnd r \<and>
    (\<exists>token t1 t2. sp_readback ports token (ex_binding x) event t1 t2 = Inr (ex_readback x)) \<and>
    match_at cfg x (dw_clock dw 9) = Matched (ex_transaction x)"
  using assms unfolding examine_readback_def Let_def
  by (simp only: result_iffs not_aside_iffs split_paired_Ex prod.case) (fastforce simp: match_at_def match_intent_def)

lemma examine_Inr:
  assumes "examine cfg ports dw claim reviewed seen seen2 = Inr (Inr x)"
  shows "evidence_of cfg ports claim seen (dw_clock dw 9) x"
proof -
  obtain event r p where e: "stored_event cfg (ec_inbox claim) = Inr (Inr event)"
    and r: "find_candidate cfg claim (the (se_reference event)) seen = Inr (Some r)" "readPaymentPurpose r = Some p"
    and x: "examine_readback cfg ports dw claim event r p (the (pi_cutoverId r)) seen2 = Inr (Inr x)"
    using assms unfolding examine_def by (simp only: result_iffs not_aside_iffs) blast
  obtain reference where ref: "se_reference event = Some reference" using e by (auto elim: stored_event_Inr)
  obtain h where h: "fund_digest (sf_fund cfg) ''tip-transfer-reference'' reference = Inr h"
      "List.find (\<lambda>r. pi_referenceHash r = h \<and> pi_creatorUserId r = cx_creatorUserId (ec_connection claim)) (fd_intents (sd_funds seen)) = Some r"
    using r(1) by (auto simp: find_candidate_Inr ref)
  show ?thesis
    using e r(2) ref h(1) find_Some_in [OF h(2)] examine_readback_Inr [OF x] by (simp add: evidence_of_def)
qed

subsection \<open>Steps that settle nothing\<close>

definition confirmed_events :: "sepay_db \<Rightarrow> processing_row set" where
  "confirmed_events db = set (filter (\<lambda>s. ps_status s = EventConfirmed) (sd_processing db))"

definition settles_nothing :: "sepay_db \<Rightarrow> sepay_db \<Rightarrow> bool" where
  "settles_nothing db db' \<longleftrightarrow> sepay_constraints db' \<and> money_of (sd_funds db') = money_of (sd_funds db) \<and>
     sd_transactions db' = sd_transactions db \<and> confirmed_events db \<subseteq> confirmed_events db'"

lemma confirmed_update:
  assumes "\<And>s. s \<in> set t \<Longrightarrow> hit s \<Longrightarrow> ps_status s \<noteq> EventConfirmed"
  shows "set (filter (\<lambda>s. ps_status s = EventConfirmed) t) \<subseteq> set (filter (\<lambda>s. ps_status s = EventConfirmed) (rows_update hit f t))"
  using assms by (force simp: in_rows_update_iff)

lemma processing_of_row:
  assumes "sepay_constraints db" "processing_of inboxId db = Some s"
  shows "s \<in> set (sd_processing db)" "\<And>s'. s' \<in> set (sd_processing db) \<Longrightarrow> ps_inboxId s' = inboxId \<Longrightarrow> s' = s"
proof -
  have keys: "distinct (map ps_inboxId (sd_processing db))" using assms(1) by (simp add: sepay_constraints_def)
  show s: "s \<in> set (sd_processing db)" using assms(2) by (auto simp: processing_of_def dest: find_Some_in)
  show "s' = s" if "s' \<in> set (sd_processing db)" "ps_inboxId s' = inboxId" for s'
    by (rule distinct_key_eq [OF keys that(1) s]) (use assms(2) that(2) in \<open>auto simp: processing_of_def dest: find_Some_in\<close>)
qed

lemma books_settle_nothing: "books db db' \<Longrightarrow> sepay_constraints db \<Longrightarrow> settles_nothing db db'"
  by (simp add: settles_nothing_def confirmed_events_def books_tables) (simp add: books_def)

lemma settles_nothing_trans: "settles_nothing a b \<Longrightarrow> settles_nothing b c \<Longrightarrow> settles_nothing a c"
  by (auto simp: settles_nothing_def)

text \<open>A change of processing rows that are not confirmed, and of tables beside.\<close>

lemma processing_settle_nothing:
  assumes "sepay_constraints db'" "sd_funds db' = sd_funds db" "sd_transactions db' = sd_transactions db"
    and "sd_processing db' = rows_update hit f (sd_processing db) @ new" "\<And>s. s \<in> set (sd_processing db) \<Longrightarrow> hit s \<Longrightarrow> ps_status s \<noteq> EventConfirmed"
  shows "settles_nothing db db'"
  using confirmed_update [OF assms(5)] assms(1-4) by (auto simp: settles_nothing_def confirmed_events_def)

text \<open>Whether the worker tries again.\<close>

definition retries :: "settle_cfg \<Rightarrow> bool \<Rightarrow> int \<Rightarrow> int option \<Rightarrow> bool" where
  "retries cfg reviewed attempts pause \<longleftrightarrow> pause \<noteq> None \<and> attempts < sf_maxAttempts cfg \<and> \<not> reviewed"

lemma dispose_effect:
  assumes "dispose cfg dw owner inboxId reviewed attempts reason pause db = Inr (db', out)"
  shows "sepay_constraints db'" "sd_funds db' = sd_funds db" "sd_transactions db' = sd_transactions db" "sd_inbox db' = sd_inbox db"
    "sd_conflicts db' = sd_conflicts db" "out = (if retries cfg reviewed attempts pause then OutcomeDeferred else OutcomeReview)"
    "sd_processing db' = rows_update (lease_held inboxId owner)
       (put_aside (retries cfg reviewed attempts pause) reason (dw_clock dw 20 + (case pause of None \<Rightarrow> 0 | Some n \<Rightarrow> n) * 1000) (dw_clock dw 21))
       (sd_processing db)"
  using assms unfolding dispose_def Let_def retries_def [symmetric] by (auto simp: result_iffs split: option.splits if_splits)

text \<open>An event that is not tried again has a decision on record, if its row was still under the lease.\<close>

lemma dispose_decisions:
  assumes "dispose cfg dw owner inboxId reviewed attempts reason pause db = Inr (db', out)"
  shows "sd_decisions db' = sd_decisions db @ (case List.find (lease_held inboxId owner) (sd_processing db) of None \<Rightarrow> []
    | Some s \<Rightarrow> if retries cfg reviewed attempts pause then []
        else [\<lparr>dn_id = dw_id dw 20, dn_inboxId = inboxId, dn_action = ''review_required'', dn_reason = reason, dn_actorUserId = None,
          dn_actorSessionId = None, dn_idempotencyKeyHash = None, dn_expectedVersion = ps_version s, dn_createdAt = dw_clock dw 22\<rparr>])"
  using assms unfolding dispose_def Let_def retries_def [symmetric] by (auto simp: result_iffs split: option.splits if_splits)

lemma dispose_settles_nothing:
  assumes "dispose cfg dw owner inboxId reviewed attempts reason pause db = Inr (db', out)"
  shows "settles_nothing db db'"
proof -
  note d = dispose_effect [OF assms]
  show ?thesis by (rule processing_settle_nothing [OF d(1-3), where new = "[]" and hit = "lease_held inboxId owner"])
    (use d(7) in \<open>auto simp: lease_held_def\<close>)
qed

lemma claim_event_effect:
  assumes run: "claim_event cfg ports dw owner inboxId review db = Inr (db', answer)" and ok: "sepay_constraints db"
  obtains "db' = db" "answer = NothingToDo \<or> answer = AlreadyConfirmed"
  | s inbox connection where "answer = Taken \<lparr>ec_inbox = inbox, ec_connection = connection, ec_state = taken_state owner (dw_clock dw 5) (dw_clock dw 6) s\<rparr>"
      "event_source cfg inboxId db = Some (inbox, connection)" "ib_accepted inbox" "processing_of inboxId db = Some s"
      "ps_status s \<noteq> EventConfirmed" "\<not> not_available_now (review \<noteq> None) s (dw_clock dw 3) (dw_clock dw 4)" "ps_attempts s < 100"
      "db' = db\<lparr>sd_processing := rows_update (\<lambda>x. ps_inboxId x = inboxId) (taken_state owner (dw_clock dw 5) (dw_clock dw 6)) (sd_processing db)\<rparr>"
      "sepay_constraints db'"
proof -
  obtain inbox connection where e: "event_source cfg inboxId db = Some (inbox, connection)"
    and rest: "(case processing_of inboxId db of
       None \<Rightarrow> Inr (db, NothingToDo)
     | Some s \<Rightarrow>
         if \<not> ib_accepted inbox then Inr (db, NothingToDo)
         else if ps_status s = EventConfirmed then
           await (case review of None \<Rightarrow> Inr () | Some c \<Rightarrow> review_replayed cfg ports inboxId c (dw_clock dw 2) db) (\<lambda>_. Inr (db, AlreadyConfirmed))
         else
           await (sepay_need (case review of None \<Rightarrow> True | Some c \<Rightarrow> ps_version s = rw_expectedVersion c) ''version_conflict'') (\<lambda>_.
           if not_available_now (review \<noteq> None) s (dw_clock dw 3) (dw_clock dw 4) then Inr (db, NothingToDo)
           else
             await (sepay_need (ps_attempts s < 100) ''rate_limited'') (\<lambda>_.
             let taken = taken_state owner (dw_clock dw 5) (dw_clock dw 6) in
             await (keep_sepay (db\<lparr>sd_processing := rows_update (\<lambda>x. ps_inboxId x = inboxId) taken (sd_processing db)\<rparr>)) (\<lambda>db1.
               Inr (db1, Taken \<lparr>ec_inbox = inbox, ec_connection = connection, ec_state = taken s\<rparr>))))) = Inr (db', answer)"
    using run unfolding claim_event_def by (simp only: result_iffs sepay_want_Inr split_paired_Ex prod.case) blast
  show thesis
  proof (cases "processing_of inboxId db")
    case None
    then show thesis using rest that(1) by simp
  next
    case (Some s)
    show thesis using rest that(1) that(2) [of inbox connection s] e Some
      by (simp add: result_iffs Let_def split: if_splits) blast+
  qed
qed

lemma claim_settles_nothing:
  assumes "claim_event cfg ports dw owner inboxId review db = Inr (db', answer)" "sepay_constraints db"
  shows "settles_nothing db db'"
proof (rule claim_event_effect [OF assms])
  fix s inbox connection
  assume s: "processing_of inboxId db = Some s" "ps_status s \<noteq> EventConfirmed"
    and db': "db' = db\<lparr>sd_processing := rows_update (\<lambda>x. ps_inboxId x = inboxId) (taken_state owner (dw_clock dw 5) (dw_clock dw 6)) (sd_processing db)\<rparr>"
      "sepay_constraints db'"
  show ?thesis by (rule processing_settle_nothing [OF db'(2), where new = "[]" and hit = "\<lambda>x. ps_inboxId x = inboxId"])
    (use processing_of_row(2) [OF assms(2) s(1)] s(2) in \<open>auto simp: db'(1)\<close>)
qed (use assms(2) in \<open>simp add: settles_nothing_def\<close>)

lemma record_conflict_settles_nothing:
  assumes "record_conflict prior digest at db = Inr db'"
  shows "settles_nothing db db'"
proof -
  let ?hit = "\<lambda>s. ps_inboxId s = ib_id prior \<and> ps_status s \<notin> {EventConfirmed, Dismissed}"
  let ?f = "\<lambda>s. s\<lparr>ps_status := ReviewRequired, ps_lastErrorCode := Some ''contradictory_replay'', ps_version := ps_version s + 1,
      ps_leaseOwner := None, ps_leaseExpiresAt := None, ps_updatedAt := at\<rparr>"
  have rows: "sepay_constraints db'" "sd_funds db' = sd_funds db" "sd_transactions db' = sd_transactions db"
      "sd_processing db' = rows_update ?hit ?f (sd_processing db)"
    using assms by (auto simp: record_conflict_def result_iffs split: if_splits)
  show ?thesis by (rule processing_settle_nothing [OF rows(1-3), where new = "[]" and hit = ?hit]) (use rows(4) in simp_all)
qed

lemma store_event_rows:
  assumes "store_event cfg dw c connection revision d at db = Inr db'"
  obtains db2 row where "sepay_constraints db2" "sd_funds db2 = sd_funds db" "sd_transactions db2 = sd_transactions db" "sd_conflicts db2 = sd_conflicts db"
    "sd_inbox db2 = sd_inbox db @ [row]" "ib_id row = dw_id dw 0" "ib_connectionId row = cx_id connection" "ib_providerEventId row = event_id_of d"
    "ib_payloadDigest row = event_digest d" "ib_accepted row = is_accepted d"
    "sd_processing db2 = sd_processing db @ [new_processing (dw_id dw 0) (is_accepted d) at]" "books db2 db'"
proof -
  let ?row = "\<lambda>facts raw. \<lparr>ib_id = dw_id dw 0, ib_connectionId = cx_id connection, ib_connectionRevisionId = sr_id revision,
       ib_providerEventId = event_id_of d, ib_payloadDigest = event_digest d, ib_rawEnvelope = raw, ib_accepted = is_accepted d,
       ib_normalizedFacts = facts, ib_receivedAt = at\<rparr>"
  obtain facts raw db1 db2 where w: "keep_sepay (db\<lparr>sd_inbox := sd_inbox db @ [?row facts raw]\<rparr>) = Inr db1"
      "keep_sepay (db1\<lparr>sd_processing := sd_processing db1 @ [new_processing (dw_id dw 0) (is_accepted d) at]\<rparr>) = Inr db2"
      "(if is_accepted d then on_funds (fund_event (sf_fund cfg) (dw_id dw 1) at (received_event (dw_id dw 0) at)) db2 else Inr db2) = Inr db'"
    using assms unfolding store_event_def Let_def by (simp only: result_iffs) blast
  have b: "books db2 db'" using w(3) by (auto intro: on_funds_books books_refl split: if_splits)
  have t: "sepay_constraints db2" "sd_funds db2 = sd_funds db" "sd_transactions db2 = sd_transactions db" "sd_conflicts db2 = sd_conflicts db"
      "sd_inbox db2 = sd_inbox db @ [?row facts raw]" "sd_processing db2 = sd_processing db @ [new_processing (dw_id dw 0) (is_accepted d) at]"
    using w(1,2) by auto
  show thesis by (rule that [OF t(1-5) _ _ _ _ _ t(6) b]) simp_all
qed

lemma receive_settles_nothing:
  assumes "receive cfg dw c seen db = Inr (db', out)" "sepay_constraints db"
  shows "settles_nothing db db'"
proof -
  have same: "settles_nothing db db" using assms(2) by (simp add: settles_nothing_def)
  obtain connection revision d at where t: "receive_transaction cfg dw c connection revision d at db = Inr (db', out)"
    using assms(1) unfolding receive_def Let_def by (simp only: result_iffs split_paired_Ex prod.case) blast
  obtain current where rest: "(case List.find (\<lambda>i. ib_connectionId i = cx_id current \<and> ib_providerEventId i = event_id_of d) (sd_inbox db) of
       Some prior \<Rightarrow>
         if ib_payloadDigest prior = event_digest d then Inr (db, IngressDuplicate)
         else await (record_conflict prior (event_digest d) at db) (\<lambda>db1. Inr (db1, IngressConflict))
     | None \<Rightarrow>
         await (sepay_need (recent_events (cx_id current) (at - 60000) db < 120 \<and> all_events (cx_id current) db < 100000) ''rate_limited'') (\<lambda>_.
         await (store_event cfg dw c current revision d at db) (\<lambda>db1. Inr (db1, if is_accepted d then IngressAccepted else IngressIgnored)))) = Inr (db', out)"
    using t unfolding receive_transaction_def by (simp only: result_iffs) blast
  show ?thesis
  proof (cases "List.find (\<lambda>i. ib_connectionId i = cx_id current \<and> ib_providerEventId i = event_id_of d) (sd_inbox db)")
    case None
    then have "store_event cfg dw c current revision d at db = Inr db'" using rest by (auto simp: result_iffs)
    then obtain db2 where s: "sepay_constraints db2" "sd_funds db2 = sd_funds db" "sd_transactions db2 = sd_transactions db"
        "sd_processing db2 = sd_processing db @ [new_processing (dw_id dw 0) (is_accepted d) at]" "books db2 db'"
      by (rule store_event_rows)
    have "settles_nothing db db2" using s(1-4) by (auto simp: settles_nothing_def confirmed_events_def)
    then show ?thesis using settles_nothing_trans books_settle_nothing [OF s(5,1)] by blast
  next
    case (Some prior)
    then show ?thesis using rest same by (auto simp: result_iffs intro: record_conflict_settles_nothing split: if_splits)
  qed
qed

lemma decide_write_settles_nothing:
  assumes run: "decide_write cfg dw c keyHash recordId at db = Inr db'" and ok: "sepay_constraints db"
  shows "settles_nothing db db'"
proof -
  obtain s db1 db2 db3 row e where s: "processing_of (dk_inboxId c) db = Some s" "ps_status s = (if dk_action c = ActionReopen then Dismissed else ReviewRequired)"
    and w: "keep_sepay (db\<lparr>sd_processing := rows_update (\<lambda>x. ps_inboxId x = dk_inboxId c) (decided_state (dk_action c) at) (sd_processing db)\<rparr>) = Inr db1"
      "keep_sepay (db1\<lparr>sd_decisions := sd_decisions db1 @ [row]\<rparr>) = Inr db2" "on_funds (fund_audit (sf_fund cfg) (dw_id dw 2) at e) db2 = Inr db3"
      "review_done cfg recordId (''sepay-review:'' @ dw_id dw 1) at db3 = Inr db'"
    using run unfolding decide_write_def by (simp only: result_iffs sepay_want_Inr sepay_need_Inr) blast
  have two: "sepay_constraints db2" "sd_funds db2 = sd_funds db" "sd_transactions db2 = sd_transactions db"
      "sd_processing db2 = rows_update (\<lambda>x. ps_inboxId x = dk_inboxId c) (decided_state (dk_action c) at) (sd_processing db)"
    using w(1,2) by auto
  have "settles_nothing db db2"
    by (rule processing_settle_nothing [OF two(1-3), where new = "[]" and hit = "\<lambda>x. ps_inboxId x = dk_inboxId c"])
      (use two(4) s processing_of_row(2) [OF ok s(1)] in \<open>auto split: if_splits\<close>)
  then show ?thesis
    using settles_nothing_trans books_settle_nothing [OF books_trans [OF on_funds_books(1) [OF w(3)] review_done_books [OF w(4)]] two(1)] by blast
qed

lemma decide_settles_nothing:
  assumes run: "decide cfg ports dw c db = Inr db'" and ok: "sepay_constraints db"
  shows "settles_nothing db db'"
proof -
  obtain b f started keyHash at where s: "fund_begin dw b (sd_funds db) = Inr (f, started)" "sepay_constraints (db\<lparr>sd_funds := f\<rparr>)"
    and rest: "(case started of Acquired recordId \<Rightarrow> decide_write cfg dw c keyHash recordId at (db\<lparr>sd_funds := f\<rparr>) | _ \<Rightarrow> Inr (db\<lparr>sd_funds := f\<rparr>)) = Inr db'"
    using run unfolding decide_def decide_transaction_def Let_def
    by (simp only: result_iffs split_paired_Ex prod.case within_Inr keep_sepay_Inr sepayBoundary_Inr) blast
  have zero: "settles_nothing db (db\<lparr>sd_funds := f\<rparr>)"
    by (rule books_settle_nothing [OF books_funds [OF fund_statements(3) [OF s(1)] s(2)] ok])
  show ?thesis
  proof (cases started)
    case (Acquired k)
    then have "decide_write cfg dw c keyHash k at (db\<lparr>sd_funds := f\<rparr>) = Inr db'" using rest by simp
    then show ?thesis using settles_nothing_trans [OF zero decide_write_settles_nothing] s(2) by blast
  qed (use rest zero in simp_all)
qed

subsection \<open>Processing an event\<close>

text \<open>Why an event is put aside, and the pause after which it may be tried again.\<close>

definition fails_with ::
  "settle_cfg \<Rightarrow> settle_ports \<Rightarrow> fund_draw \<Rightarrow> event_claim \<Rightarrow> string \<Rightarrow> review_command option \<Rightarrow> sepay_db \<Rightarrow> sepay_db \<Rightarrow> sepay_db \<Rightarrow>
     string \<Rightarrow> int option \<Rightarrow> bool" where
  "fails_with cfg ports dw claim owner review seen seen2 db reason pause \<longleftrightarrow>
     examine cfg ports dw claim (review \<noteq> None) seen seen2 = Inr (Inl reason) \<and> pause = None \<or>
     (\<exists>e. failure_reason (ps_attempts (ec_state claim)) e = (reason, pause) \<and>
        (examine cfg ports dw claim (review \<noteq> None) seen seen2 = Inl e \<or>
         (\<exists>x. examine cfg ports dw claim (review \<noteq> None) seen seen2 = Inr (Inr x) \<and>
            settle_event cfg ports dw x owner (ib_id (ec_inbox claim)) review db = Inl e)))"

lemma finish_event_cases:
  assumes "finish_event cfg ports dw claim owner review seen seen2 db late = Inr (db', out)"
  obtains (aside) reason pause where
      "dispose cfg dw owner (ib_id (ec_inbox claim)) (review \<noteq> None) (ps_attempts (ec_state claim)) reason pause late = Inr (db', out)"
      "fails_with cfg ports dw claim owner review seen seen2 db reason pause"
  | (settled) x where "examine cfg ports dw claim (review \<noteq> None) seen seen2 = Inr (Inr x)" "out = OutcomeConfirmed"
      "settle_event cfg ports dw x owner (ib_id (ec_inbox claim)) review db = Inr db'"
  using assms unfolding finish_event_def fails_with_def Let_def by (simp split: sum.splits prod.splits)

text \<open>Closing an intent keeps what a settlement needs of it.\<close>

definition carried :: "intent_row list \<Rightarrow> intent_row list \<Rightarrow> bool" where
  "carried old new \<longleftrightarrow> list_all (\<lambda>r. list_ex (same_intent r) new) old"

lemma carriedE:
  assumes "carried old new" "r \<in> set old"
  obtains r' where "r' \<in> set new" "same_intent r r'"
  using assms by (auto simp: carried_def list_all_iff list_ex_iff)

lemma carried_trans: "carried a b \<Longrightarrow> carried b c \<Longrightarrow> carried a c"
  unfolding carried_def list_all_iff list_ex_iff same_intent_def by metis

lemma carried_refl: "carried t t"
  by (auto simp: carried_def list_all_iff list_ex_iff same_intent_def)

lemma replace_carries:
  assumes "distinct (map pi_id t)" "r \<in> set t" "same_intent r r'"
  shows "carried t (replace_intent r' t)"
  unfolding carried_def list_all_iff list_ex_iff
proof
  fix x assume x: "x \<in> set t"
  show "\<exists>y \<in> set (replace_intent r' t). same_intent x y"
  proof (cases "x = r")
    case True
    then show ?thesis using assms by (intro bexI [of _ r']) (simp_all add: replace_in [OF assms(1,2) same_intentD(1) [OF assms(3)]])
  next
    case False
    then have "pi_id x \<noteq> pi_id r" using distinct_key_eq [OF assms(1) x assms(2)] by blast
    then show ?thesis using x by (intro bexI [of _ x]) (simp_all add: replace_in [OF assms(1,2) same_intentD(1) [OF assms(3)]] same_intent_def)
  qed
qed

lemma move_carries: "money_move M M' \<Longrightarrow> agrees M \<Longrightarrow> carried (mn_intents M) (mn_intents M')"
proof (induction rule: money_move.induct)
  case (move_opened r ts M' M)
  show ?case unfolding move_opened.hyps(3)
    by (simp add: carried_def list_all_iff) (metis carried_refl carried_def list_all_iff)
next
  case (move_paid r M m M')
  have "distinct (map pi_id (mn_intents M))" using move_paid.prems money_keys(1) by (simp add: agrees_def)
  from replace_carries [OF this move_paid.hyps(1) same_closed(1)] show ?case by (simp add: move_paid.hyps(4))
next
  case (move_closed r M M' reason at)
  have "distinct (map pi_id (mn_intents M))" using move_closed.prems money_keys(1) by (simp add: agrees_def)
  from replace_carries [OF this move_closed.hyps(1) same_closed(2)] show ?case by (simp add: move_closed.hyps(3))
qed

lemma moves_carry: "rtranclp money_move M M' \<Longrightarrow> agrees M \<Longrightarrow> carried (mn_intents M) (mn_intents M')"
proof (induction rule: rtranclp_induct)
  case base
  show ?case by (rule carried_refl)
next
  case (step M1 M2)
  have "agrees M1" using moves_agree [OF step.hyps(1) step.prems] by blast
  then show ?case using carried_trans [OF step.IH [OF step.prems] move_carries [OF step.hyps(2)]] by blast
qed

subsection \<open>The whole\<close>

text \<open>\<open>event_others\<close> stands for the service that keeps the revisions of a connection; the connections
  themselves are among the other services of \<open>fund_step\<close>. A finished event commits one transaction, the settlement or
  the one that puts it aside; what it read before, and a settlement that failed, saw any database of the past.\<close>

inductive sepay_step :: "sepay_db list \<Rightarrow> sepay_db list \<Rightarrow> bool" where
  event_fund: "fund_step (sd_funds db) f \<Longrightarrow> keep_sepay (db\<lparr>sd_funds := f\<rparr>) = Inr db' \<Longrightarrow> sepay_step (db # past) (db' # db # past)"
| event_receive: "receive cfg dw c seen db = Inr (db', answer) \<Longrightarrow> seen \<in> set (db # past) \<Longrightarrow> sepay_step (db # past) (db' # db # past)"
| event_claim: "claim_event cfg ports dw owner inboxId review db = Inr (db', taken) \<Longrightarrow> sepay_step (db # past) (db' # db # past)"
| event_finish: "finish_event cfg ports dw claim owner review seen seen2 db late = Inr (db', out) \<Longrightarrow> {seen, seen2, db, late} \<subseteq> set (now # past) \<Longrightarrow>
    now = (if out = OutcomeConfirmed then db else late) \<Longrightarrow> sepay_step (now # past) (db' # now # past)"
| event_decide: "decide cfg ports dw dc db = Inr db' \<Longrightarrow> sepay_step (db # past) (db' # db # past)"
| event_others: "keep_sepay (db\<lparr>sd_revisions := revisions\<rparr>) = Inr db' \<Longrightarrow> sepay_step (db # past) (db' # db # past)"

text \<open>Every bank transaction paid the intent it was reserved for.\<close>

definition pays :: "bank_transaction_row \<Rightarrow> confirmation_row \<Rightarrow> bool" where
  "pays t m \<longleftrightarrow> pm_providerTransactionId m = Some (bt_id t) \<and> pm_paymentIntentId m = bt_paymentIntentId t \<and>
     pm_observedAmountVnd m = bt_amountVnd t \<and> pm_confirmedAt m = bt_verifiedAt t"

definition backed :: "sepay_db \<Rightarrow> bool" where
  "backed db \<longleftrightarrow> list_all (\<lambda>t. list_ex (pays t) (fd_confirmations (sd_funds db))) (sd_transactions db)"

definition advances :: "sepay_db \<Rightarrow> sepay_db \<Rightarrow> bool" where
  "advances db db' \<longleftrightarrow> sepay_constraints db' \<and> rtranclp money_move (money_of (sd_funds db)) (money_of (sd_funds db')) \<and>
     (backed db \<longrightarrow> backed db') \<and> confirmed_events db \<subseteq> confirmed_events db' \<and> set (sd_transactions db) \<subseteq> set (sd_transactions db')"

definition sepay_ok :: "sepay_db \<Rightarrow> bool" where
  "sepay_ok db \<longleftrightarrow> sepay_constraints db \<and> agrees (money_of (sd_funds db)) \<and> backed db"

text \<open>What every database of the past shares with the present one.\<close>

definition precedes :: "sepay_db \<Rightarrow> sepay_db \<Rightarrow> bool" where
  "precedes old db \<longleftrightarrow> carried (fd_intents (sd_funds old)) (fd_intents (sd_funds db)) \<and> kept (money_of (sd_funds old)) (money_of (sd_funds db)) \<and>
     confirmed_events old \<subseteq> confirmed_events db \<and> set (sd_transactions old) \<subseteq> set (sd_transactions db)"

lemma precedes_refl: "precedes db db"
  by (simp add: precedes_def carried_refl kept_def)

lemma precedes_trans: "precedes a b \<Longrightarrow> precedes b c \<Longrightarrow> precedes a c"
  unfolding precedes_def using carried_trans kept_trans by blast

definition sepay_inv :: "sepay_db list \<Rightarrow> bool" where
  "sepay_inv h \<longleftrightarrow> h \<noteq> [] \<and> sepay_ok (hd h) \<and> list_all (\<lambda>old. precedes old (hd h)) h"

text \<open>A history starts before the first payment.\<close>

definition sepay_start :: "sepay_db list \<Rightarrow> bool" where
  "sepay_start h \<longleftrightarrow> (case h of [db] \<Rightarrow> sepay_constraints db \<and> no_payments (sd_funds db) \<and> sd_transactions db = [] | _ \<Rightarrow> False)"

lemma settles_nothing_advances: "settles_nothing db db' \<Longrightarrow> advances db db'"
  by (auto simp: settles_nothing_def advances_def backed_def money_of_def)

lemma later_confirmations_back:
  assumes "set (fd_confirmations (sd_funds db)) \<subseteq> set (fd_confirmations (sd_funds db'))" "sd_transactions db' = sd_transactions db" "backed db"
  shows "backed db'"
  using assms unfolding backed_def list_all_iff list_ex_iff by (metis subset_iff)

lemma fund_advances:
  assumes step: "fund_step (sd_funds db) f" and db': "keep_sepay (db\<lparr>sd_funds := f\<rparr>) = Inr db'" and ok: "sepay_ok db"
  shows "advances db db'"
proof -
  have eq: "db' = db\<lparr>sd_funds := f\<rparr>" "sepay_constraints db'" using db' by auto
  have money: "rtranclp money_move (money_of (sd_funds db)) (money_of f)"
    using fund_step_effect [OF step] ok by (simp add: sepay_ok_def sepay_constraints_def)
  have "kept (money_of (sd_funds db)) (money_of f)" using moves_agree [OF money] ok by (simp add: sepay_ok_def)
  then have "set (fd_confirmations (sd_funds db)) \<subseteq> set (fd_confirmations f)" by (simp add: kept_def money_of_def)
  then have "backed db'" using later_confirmations_back [of db db'] ok by (simp add: eq(1) sepay_ok_def)
  then show ?thesis using money eq(2) by (simp add: advances_def eq(1) confirmed_events_def)
qed

lemma settled_advances:
  assumes "settled_by inboxId at t m db db'" "processing_of inboxId db = Some s" "ps_status s \<noteq> EventConfirmed" "pays t m" "sepay_constraints db"
  shows "advances db db'"
proof -
  have "confirmed_events db \<subseteq> confirmed_events db'"
    using assms(1) confirmed_update [of "sd_processing db" "\<lambda>s. ps_inboxId s = inboxId" "settled_state at"] processing_of_row(2) [OF assms(5,2)] assms(3)
    by (simp add: settled_by_def confirmed_events_def) blast
  moreover have "backed db \<longrightarrow> backed db'" using assms(1,4) by (auto simp: settled_by_def backed_def list_all_iff)
  ultimately show ?thesis using assms(1) by (auto simp: settled_by_def advances_def)
qed

lemma settlement_pays: "pays (bank_transaction cfg dw x inboxId l) (provider_confirmation cfg dw keyHash review l)"
  by (simp add: pays_def provider_confirmation_def bank_transaction_def Let_def)

lemma finish_advances:
  assumes run: "finish_event cfg ports dw claim owner review seen seen2 db late = Inr (db', out)" and ok: "sepay_ok now"
    and seen: "carried (fd_intents (sd_funds seen)) (fd_intents (sd_funds now))"
    and now: "now = (if out = OutcomeConfirmed then db else late)"
  shows "advances now db'"
  using run
proof (cases rule: finish_event_cases)
  case (aside reason pause)
  then have "now = late" using dispose_effect(6) [OF aside(1)] now by (simp split: if_splits)
  then show ?thesis using settles_nothing_advances [OF dispose_settles_nothing [OF aside(1)]] by simp
next
  case (settled x)
  have db: "now = db" using now settled(2) by simp
  note ok = ok [unfolded db] and seen = seen [unfolded db]
  have c: "sepay_constraints db" using ok by (simp add: sepay_ok_def)
  have e: "ex_candidate x \<in> set (fd_intents (sd_funds seen))" "readPaymentPurpose (ex_candidate x) = Some (ex_purpose x)"
    using examine_Inr [OF settled(1)] by (simp_all add: evidence_of_def)
  obtain r where r: "r \<in> set (fd_intents (sd_funds db))" "same_intent (ex_candidate x) r" using carriedE [OF seen e(1)] .
  obtain l keyHash where l: "settlement_found cfg x owner (ib_id (ec_inbox claim)) (review \<noteq> None) db l"
    and s: "settled_by (ib_id (ec_inbox claim)) (sl_at l) (bank_transaction cfg dw x (ib_id (ec_inbox claim)) l) (provider_confirmation cfg dw keyHash review l) db db'"
    using settle_event_effect [OF settled(3) c e(2) r] by metis
  have "processing_of (ib_id (ec_inbox claim)) db = Some (sl_state l)" "ps_status (sl_state l) \<noteq> EventConfirmed"
    using l by (auto simp: settlement_found_def lease_current_def lease_held_def)
  then show ?thesis using settled_advances [OF s _ _ settlement_pays c] unfolding db by blast
qed

lemma step_advances:
  assumes "sepay_step h h'" "sepay_inv h"
  obtains db past db' where "h = db # past" "h' = db' # db # past" "advances db db'"
  using assms(1)
proof cases
  case (event_fund db f db' past)
  then show thesis using that fund_advances assms(2) by (simp add: sepay_inv_def)
next
  case (event_receive cfg dw c seen db db' answer past)
  then show thesis using that settles_nothing_advances receive_settles_nothing assms(2) by (simp add: sepay_inv_def sepay_ok_def)
next
  case (event_claim cfg ports dw owner inboxId review db db' taken past)
  then show thesis using that settles_nothing_advances claim_settles_nothing assms(2) by (simp add: sepay_inv_def sepay_ok_def)
next
  case (event_finish cfg ports dw claim owner review seen seen2 db late db' out now past)
  have "sepay_ok now" "carried (fd_intents (sd_funds seen)) (fd_intents (sd_funds now))"
    using assms(2) event_finish(1,4) by (auto simp: sepay_inv_def list_all_iff precedes_def)
  then have "advances now db'" by (rule finish_advances [OF event_finish(3) _ _ event_finish(5)])
  then show thesis by (rule that [OF event_finish(1,2)])
next
  case (event_decide cfg ports dw dc db db' past)
  then show thesis using that settles_nothing_advances decide_settles_nothing assms(2) by (simp add: sepay_inv_def sepay_ok_def)
next
  case (event_others revisions db db' past)
  have "settles_nothing db db'" using event_others(3) by (auto simp: settles_nothing_def confirmed_events_def)
  then show thesis using that event_others settles_nothing_advances by blast
qed

lemma advances_ok:
  assumes "advances db db'" "sepay_ok db"
  shows "sepay_ok db'" "precedes db db'"
proof -
  have m: "rtranclp money_move (money_of (sd_funds db)) (money_of (sd_funds db'))" "agrees (money_of (sd_funds db))"
    using assms by (simp_all add: advances_def sepay_ok_def)
  show "sepay_ok db'" using assms moves_agree [OF m] by (simp add: advances_def sepay_ok_def)
  have "carried (fd_intents (sd_funds db)) (fd_intents (sd_funds db'))" using moves_carry [OF m] by (simp add: money_of_def)
  then show "precedes db db'" using moves_agree [OF m] assms(1) by (simp add: precedes_def advances_def)
qed

interpretation sepay: simulation sepay_start sepay_step sepay_inv "\<lambda>h. money_of (sd_funds (hd h))" money_move
proof
  fix h h' assume step: "sepay_step h h'" and inv: "sepay_inv h"
  obtain db past db' where h: "h = db # past" "h' = db' # db # past" "advances db db'" using step_advances [OF step inv] .
  have ok: "sepay_ok db" using inv by (simp add: sepay_inv_def h)
  note a = advances_ok [OF h(3) ok]
  have "precedes old db'" if "old \<in> set h" for old
    using inv that precedes_trans [OF _ a(2)] unfolding sepay_inv_def h(1) list_all_iff list.sel by blast
  then show "sepay_inv h'" using a(1) precedes_refl by (simp add: sepay_inv_def h(2) list_all_iff flip: h(1))
  show "rtranclp money_move (money_of (sd_funds (hd h))) (money_of (sd_funds (hd h')))" using h by (simp add: advances_def)
next
  fix h assume "sepay_start h"
  then show "sepay_inv h"
    using start_agrees by (auto simp: sepay_start_def sepay_inv_def sepay_ok_def fund_inv_def backed_def precedes_refl split: list.splits)
qed

text \<open>A history only grows.\<close>

lemma sepay_step_grows: "sepay_step h h' \<Longrightarrow> set h \<subseteq> set h'"
  by (cases rule: sepay_step.cases) auto

lemma sepay_steps_grow: "rtranclp sepay_step h h' \<Longrightarrow> set h \<subseteq> set h'"
  by (induction rule: rtranclp_induct) (use sepay_step_grows in blast)+

subsection \<open>Events are taken under a lease\<close>

definition event_leased :: "instant \<Rightarrow> processing_row \<Rightarrow> bool" where
  "event_leased now s \<longleftrightarrow> ps_status s = Processing \<and> (case ps_leaseExpiresAt s of None \<Rightarrow> False | Some t \<Rightarrow> now < t)"

interpretation bank: leased_rows ps_inboxId event_leased "\<lambda>s. ps_status s \<in> {EventConfirmed, EventIgnored, Dismissed}"
  "\<lambda>now s. ps_status s \<noteq> EventConfirmed \<and> \<not> not_available_now reviewed s now t2"
  "\<lambda>owner now ms. taken_state owner (now + ms - 60000) at" for reviewed t2 at
  by unfold_locales (auto simp: event_leased_def not_available_now_def taken_state_def split: option.splits)

end
