(* ===== verification/SettlementSample.thy ===== *)
theory SettlementSample
  imports SettlementSteps FundSample
begin

text \<open>
  A concrete settlement by a bank event, used by the witnesses: the tip of \<open>FundSample\<close> to a creator whose
  account is connected to the provider, the webhook of the transfer, and the worker that takes the event, examines and
  settles it. The provider answers with the one matching transaction. Intents stay open long enough for a
  transfer in 2026.
\<close>

subsection \<open>The setting\<close>

definition bank_fund_cfg :: fund_cfg where
  "bank_fund_cfg = fund_sample_cfg\<lparr>fc_paymentsMode := SepayOptional, fc_intentTtlMs := 1800000000000\<rparr>"

definition bound_cutover :: cutover_row where
  "bound_cutover = \<lparr>cu_id = order_uuid (CHR ''d''), cu_accountFingerprint = sample_mac, cu_creatorUserId = ''creator-1'',
     cu_connectionId = order_uuid (CHR ''e''), cu_providerEnvironment = SePayTest, cu_providerTenantId = ''tenant-1'',
     cu_providerAccountId = ''77'', cu_cutoverAt = 0\<rparr>"

definition bound_connection :: connection_row where
  "bound_connection = \<lparr>cx_id = order_uuid (CHR ''e''), cx_creatorUserId = ''creator-1'', cx_accountVersionId = order_uuid (CHR ''a''),
     cx_accountFingerprint = sample_mac, cx_providerEnvironment = SePayTest, cx_providerTenantId = Some ''tenant-1'',
     cx_providerAccountId = Some ''77'', cx_status = ConnectionReady, cx_version = 1, cx_currentRevisionId = Some (order_uuid (CHR ''f'')),
     cx_automationEnabled = True\<rparr>"

text \<open>The databases of \<open>FundSample\<close>, of an account with a provider.\<close>

definition with_bank :: "fund_db \<Rightarrow> fund_db" where
  "with_bank db = db\<lparr>fd_cutovers := [bound_cutover], fd_connections := [bound_connection]\<rparr>"

definition bank_funds :: "idem_table \<Rightarrow> audit_row list \<Rightarrow> outbox_row list \<Rightarrow> tip_row list \<Rightarrow> intent_row list \<Rightarrow> confirmation_row list \<Rightarrow> fund_db" where
  "bank_funds t au ob ts is ms = with_bank (fund_stage t au ob ts is ms)"

lemma bank_funds_simps [simp]:
  "fd_tips (bank_funds t au ob ts is ms) = ts" "fd_intents (bank_funds t au ob ts is ms) = is" "fd_confirmations (bank_funds t au ob ts is ms) = ms"
  "fd_accounts (bank_funds t au ob ts is ms) = [tip_account]" "fd_capabilities (bank_funds t au ob ts is ms) = []" "fd_claims (bank_funds t au ob ts is ms) = []"
  "fd_cutovers (bank_funds t au ob ts is ms) = [bound_cutover]" "fd_connections (bank_funds t au ob ts is ms) = [bound_connection]"
  "od_idem (fd_orders (bank_funds t au ob ts is ms)) = t"
  "od_audit (fd_orders (bank_funds t au ob ts is ms)) = au" "od_outbox (fd_orders (bank_funds t au ob ts is ms)) = ob"
  "(bank_funds t au ob ts is ms)\<lparr>fd_tips := ts'\<rparr> = bank_funds t au ob ts' is ms" "(bank_funds t au ob ts is ms)\<lparr>fd_intents := is'\<rparr> = bank_funds t au ob ts is' ms"
  "(bank_funds t au ob ts is ms)\<lparr>fd_confirmations := ms'\<rparr> = bank_funds t au ob ts is ms'"
  by (simp_all add: bank_funds_def with_bank_def fund_stage_def)

lemma bank_funds_constraints:
  "fund_constraints (bank_funds t au ob ts is ms) \<longleftrightarrow>
     tips_ok ts \<and> intents_ok is \<and> confirmations_ok ms \<and> fund_references_ok (bank_funds t au ob ts is ms)"
proof -
  have "fund_constraints (fund_stage t au ob [] [] [])"
    by (simp add: fund_stage_constraints tips_ok_def intents_ok_def confirmations_ok_def unique_where_def fund_references_ok_def)
  then show ?thesis by (simp add: fund_constraints_def) (auto simp: bank_funds_def with_bank_def fund_stage_def)
qed

text \<open>What reads neither the mode nor the provider's tables is as it was.\<close>

lemma bank_cfg_simps [simp]:
  "fund_digest bank_fund_cfg = fund_digest fund_sample_cfg" "fund_seal bank_fund_cfg = fund_seal fund_sample_cfg" "fund_open bank_fund_cfg = fund_open fund_sample_cfg"
  "fund_audit bank_fund_cfg = fund_audit fund_sample_cfg" "fund_event bank_fund_cfg = fund_event fund_sample_cfg"
  "fund_complete bank_fund_cfg = fund_complete fund_sample_cfg" "fc_platform bank_fund_cfg = toy_platform" "fc_applicationRevision bank_fund_cfg = ''rev-1''"
  "fc_paymentsMode bank_fund_cfg = SepayOptional" "fc_intentTtlMs bank_fund_cfg = 1800000000000" "fc_idempotencyTtlMs bank_fund_cfg = 86400000"
  "fc_openIpLimit bank_fund_cfg = 2" "fc_openCreatorLimit bank_fund_cfg = 5" "fc_publishing bank_fund_cfg"
  by (simp_all add: fun_eq_iff bank_fund_cfg_def fund_digest_def fund_seal_def fund_open_def fund_audit_def fund_event_def fund_complete_def)
    (simp_all add: fund_sample_cfg_def)

lemma bank_cfg_reads: "lockTipReceivingDestination bank_fund_cfg = lockTipReceivingDestination fund_sample_cfg"
  "readTipIntentSnapshot bank_fund_cfg = readTipIntentSnapshot fund_sample_cfg" "tip_request_of bank_fund_cfg = tip_request_of fund_sample_cfg"
proof -
  have a: "account_fingerprint bank_fund_cfg = account_fingerprint fund_sample_cfg" unfolding fun_eq_iff account_fingerprint_def bank_cfg_simps by simp
  have o: "open_destination bank_fund_cfg = open_destination fund_sample_cfg" unfolding fun_eq_iff open_destination_def a bank_cfg_simps by simp
  have d: "receiving_destination bank_fund_cfg = receiving_destination fund_sample_cfg" unfolding fun_eq_iff receiving_destination_def o bank_cfg_simps by simp
  show "lockTipReceivingDestination bank_fund_cfg = lockTipReceivingDestination fund_sample_cfg"
    unfolding fun_eq_iff lockTipReceivingDestination_def d bank_cfg_simps by simp
  show "readTipIntentSnapshot bank_fund_cfg = readTipIntentSnapshot fund_sample_cfg" unfolding fun_eq_iff readTipIntentSnapshot_def bank_cfg_simps by simp
  have "isTipPaymentsEnabled (fc_paymentsMode fund_sample_cfg)" "isTipPaymentsEnabled SepayOptional" "fc_publishing fund_sample_cfg"
    by (simp_all add: fund_sample_cfg_def isTipPaymentsEnabled_def)
  then show "tip_request_of bank_fund_cfg = tip_request_of fund_sample_cfg" by (intro ext) (simp add: tip_request_of_def)
qed

lemma map_await: "map_sum id f (await r g) = await r (\<lambda>x. map_sum id f (g x))"
  by (cases r) simp_all

lemma with_bank_statements:
  "fund_audit cfg k at e (with_bank db) = map_sum id with_bank (fund_audit cfg k at e db)"
  "fund_event cfg k at ev (with_bank db) = map_sum id with_bank (fund_event cfg k at ev db)"
  "fund_complete cfg k ref at (with_bank db) = map_sum id with_bank (fund_complete cfg k ref at db)"
  "fund_begin dw b (with_bank db) = map_sum id (map_prod with_bank id) (fund_begin dw b db)"
  "lockTipReceivingDestination cfg dw u at (with_bank db) = lockTipReceivingDestination cfg dw u at db"
  by (cases db; simp add: with_bank_def fund_audit_def fund_event_def fund_complete_def fund_begin_def lockTipReceivingDestination_def
      lockPaymentAccountLineage_def current_account_def map_await case_prod_unfold)+

subsection \<open>The tip\<close>

definition bank_intent_command :: intent_command where
  "bank_intent_command = sample_intent_command\<lparr>in_expiresAt := 1800000001000\<rparr>"

definition bound_intent :: intent_row where
  "bound_intent = new_intent bank_intent_command tip_destination (ProviderBound, Some (order_uuid (CHR ''d'')))
     (sample_envelope (stringify (snapshot_json sample_snapshot))) 20000 sample_mac (sample_envelope ''PW0123456789ABCDEF0123'')"

lemma bound_intent_simps [simp]:
  "pi_id bound_intent = order_uuid (CHR ''1'')" "pi_purpose bound_intent = TipPurpose" "pi_tipId bound_intent = Some (order_uuid (CHR ''1''))"
  "pi_commissionOrderId bound_intent = None" "pi_creatorUserId bound_intent = ''creator-1''" "pi_amountVnd bound_intent = 20000"
  "pi_referenceHash bound_intent = sample_mac" "pi_accountVersionId bound_intent = order_uuid (CHR ''a'')"
  "pi_settlementLane bound_intent = ProviderBound" "pi_cutoverId bound_intent = Some (order_uuid (CHR ''d''))" "pi_abuseKeyHash bound_intent = sample_mac"
  "pi_state bound_intent = AwaitingTransfer" "pi_expiresAt bound_intent = 1800000001000" "pi_closedAt bound_intent = None"
  "pi_rejectionReason bound_intent = None" "pi_createdAt bound_intent = 1000" "pi_updatedAt bound_intent = 1000"
  "pi_destinationEnvelope bound_intent = pi_destinationEnvelope sample_intent" "pi_referenceEnvelope bound_intent = pi_referenceEnvelope sample_intent"
  by (simp_all add: bound_intent_def sample_intent_def new_intent_def bank_intent_command_def sample_intent_command_def tip_destination_def purpose_kind_def)

lemma bound_rows_ok: "intents_ok [bound_intent]"
  using sample_mac_digest(1)
  by (simp add: intents_ok_def unique_where_def closing_check_def intent_check_def purpose_check_def
      lane_check_def intent_time_check_def rejection_check_def hmac_text_def max_safe_integer_def)

lemma bound_constraints:
  "fund_constraints (bank_funds t au ob [] [] [])" "fund_constraints (bank_funds t au ob [sample_tip_row] [] [])"
  "fund_constraints (bank_funds t au ob [sample_tip_row] [bound_intent] [])"
  using sample_rows_ok bound_rows_ok by (simp_all add: bank_funds_constraints fund_references_ok_def intent_owner_ok_def)
    (simp_all add: tip_account_def bound_cutover_def bound_connection_def)

lemma bound_settlement:
  "lockTipSettlementBinding SepayOptional tip_destination ''creator-1'' (bank_funds t au ob ts is ms) = Some (ProviderBound, Some (order_uuid (CHR ''d'')))"
  by (simp add: lockTipSettlementBinding_def isTipPaymentsEnabled_def isSePayAutomationEnabled_def connection_serves_def)
    (simp add: bound_cutover_def bound_connection_def tip_destination_def)

lemma bound_intent_written:
  "insertTransferPaymentIntent bank_fund_cfg (fund_sample_draw (CHR ''1'')) bank_intent_command (bank_funds t au ob [sample_tip_row] [] []) =
     Inr (bank_funds t au ob [sample_tip_row] [bound_intent] [], bound_intent, sample_snapshot, ''PW0123456789ABCDEF0123'')"
proof -
  let ?dw = "fund_sample_draw (CHR ''1'')" and ?e = "sample_envelope (stringify (snapshot_json sample_snapshot))"
  let ?db = "bank_funds t au ob [sample_tip_row] [] []" and ?s = "(ProviderBound, Some (order_uuid (CHR ''d'')))"
  have seals: "fund_seal fund_sample_cfg (dw_nonce ?dw n) ''payment_intents'' (order_uuid (CHR ''1'')) ''destination'' (stringify (snapshot_json sample_snapshot)) = Inr ?e"
    "fund_seal fund_sample_cfg (dw_nonce ?dw n) ''payment_intents'' (order_uuid (CHR ''1'')) ''transfer_reference'' ''PW0123456789ABCDEF0123'' =
       Inr (sample_envelope ''PW0123456789ABCDEF0123'')" for n
    using fund_names sample_snapshot_text by (intro fund_sample_seals(1); simp add: fund_sample_draw_def)+
  have ids: "in_intentId bank_intent_command = order_uuid (CHR ''1'')" "dw_reference ?dw n = ''PW0123456789ABCDEF0123''" for n
    by (simp_all add: bank_intent_command_def sample_intent_command_def fund_sample_draw_def)
  obtain i where i: "qr_instruction ''970436'' ''0123456789'' 20000 ''PW0123456789ABCDEF0123'' = Inr i" using fund_sample_qr by blast
  have digest: "fund_digest fund_sample_cfg ''tip-transfer-reference'' ''PW0123456789ABCDEF0123'' = Inr sample_mac"
    by (rule fund_sample_digest [OF fund_domains(4)]) simp_all
  have "reference_attempts bank_fund_cfg ?dw bank_intent_command tip_destination ?s ?e 20000 (Suc 4) ?db =
      Inr (bank_funds t au ob [sample_tip_row] [bound_intent] [], bound_intent, ''PW0123456789ABCDEF0123'')"
    using i digest seals(2) tip_destination_facts(4) bound_constraints(3) unfolding reference_attempts.simps Let_def ids
    by (simp add: insert_intent_def keep_def bound_intent_def [symmetric] need_def require_def) (simp add: tip_destination_def)
  then have attempts: "reference_attempts bank_fund_cfg ?dw bank_intent_command tip_destination ?s ?e 20000 5 ?db =
      Inr (bank_funds t au ob [sample_tip_row] [bound_intent] [], bound_intent, ''PW0123456789ABCDEF0123'')" by (simp add: numeral_eq_Suc)
  have c: "in_creatorUserId bank_intent_command = ''creator-1''" "in_at bank_intent_command = 1000" "in_amountVnd bank_intent_command = 20000"
    "in_accountVersionId bank_intent_command = order_uuid (CHR ''a'')" "purpose_kind (in_purpose bank_intent_command) = TipPurpose"
    "intent_command_ok bank_intent_command" "ds_accountVersionId tip_destination = order_uuid (CHR ''a'')"
    "destination_snapshot tip_destination bank_intent_command = sample_snapshot"
    using order_uuids
    by (simp_all add: bank_intent_command_def sample_intent_command_def purpose_kind_def intent_command_ok_def owner_id_def tip_destination_def
        sample_snapshot_def destination_snapshot_def date_ok_def)
  have d: "lockTipReceivingDestination fund_sample_cfg ?dw ''creator-1'' 1000 ?db = Inr (Some tip_destination)"
    by (simp add: bank_funds_def with_bank_statements fund_sample_destination)
  show ?thesis
    using attempts seals(1) d bound_settlement
    by (simp add: insertTransferPaymentIntent_def bank_cfg_reads c ids(1) Let_def need_def want_def require_def orThrow_def amount_of_def requireIntegerVnd_def
        isSafeInteger_def max_safe_integer_def commission_bounds_def)
qed

lemma bound_tip_opens:
  "\<exists>v. tip_createIntent bank_fund_cfg (fund_sample_draw (CHR ''1'')) sample_tip_intent (bank_funds t au ob [sample_tip_row] [] []) =
     Inr (bank_funds t au ob [sample_tip_row] [bound_intent] [], v)"
proof -
  obtain i where i: "qr_instruction ''970436'' ''0123456789'' 20000 ''PW0123456789ABCDEF0123'' = Inr i" using fund_sample_qr by blast
  have "sn_bankBin sample_snapshot = ''970436''" "sn_accountNumber sample_snapshot = ''0123456789''"
    by (simp_all add: sample_snapshot_def destination_snapshot_def tip_destination_def)
  then obtain v where v: "tipInstructionProjection bound_intent sample_snapshot ''PW0123456789ABCDEF0123'' None = Inr v"
    using i by (simp add: tipInstructionProjection_def amount_of_def requireIntegerVnd_def isSafeInteger_def max_safe_integer_def)
  have c: "\<lparr>in_intentId = order_uuid (CHR ''1''), in_purpose = TipPayment (tn_tipId sample_tip_intent),
       in_creatorUserId = tn_creatorUserId sample_tip_intent, in_accountVersionId = tn_accountVersionId sample_tip_intent,
       in_amountVnd = tn_amountVnd sample_tip_intent, in_displayName = tn_displayName sample_tip_intent, in_handle = tn_handle sample_tip_intent,
       in_abuseKeyHash = tn_abuseKeyHash sample_tip_intent, in_requestId = tn_requestId sample_tip_intent,
       in_at = tn_at sample_tip_intent, in_expiresAt = tn_at sample_tip_intent + 1800000000000\<rparr> = bank_intent_command"
    by (simp add: sample_tip_intent_def bank_intent_command_def sample_intent_command_def)
  have ids: "dw_id (fund_sample_draw (CHR ''1'')) 0 = order_uuid (CHR ''1'')" by (simp add: fund_sample_draw_def)
  have "isTipPaymentsEnabled SepayOptional" "tn_guestContext sample_tip_intent = None"
    by (simp_all add: isTipPaymentsEnabled_def sample_tip_intent_def)
  then show ?thesis using v bound_intent_written order_uuids(1)
    by (simp add: tip_createIntent_def ids c need_def require_def guest_capability_def)
qed

lemma bank_audit:
  assumes "fund_audit fund_sample_cfg k at e (fund_stage t au ob ts is ms) = Inr (fund_stage t (au @ [a]) ob ts is ms)"
  shows "fund_audit fund_sample_cfg k at e (bank_funds t au ob ts is ms) = Inr (bank_funds t (au @ [a]) ob ts is ms)"
  using assms by (simp add: bank_funds_def with_bank_statements)

lemma bank_outbox:
  assumes "fund_event fund_sample_cfg k at e (fund_stage t au ob ts is ms) = Inr (fund_stage t au (ob @ [x]) ts is ms)"
  shows "fund_event fund_sample_cfg k at e (bank_funds t au ob ts is ms) = Inr (bank_funds t au (ob @ [x]) ts is ms)"
  using assms by (simp add: bank_funds_def with_bank_statements)

lemma bound_create_rows:
  "\<exists>a e v. create_rows bank_fund_cfg (fund_sample_draw (CHR ''1'')) tip_creator sample_tip sample_tip_request 1000 (bank_funds t [] [] [] [] []) =
     Inr (bank_funds t [a] [e] [sample_tip_row] [bound_intent] [], v) \<and> au_id a = order_uuid (CHR ''1'') \<and> ob_id e = order_uuid (CHR ''1'')"
proof -
  let ?dw = "fund_sample_draw (CHR ''1'')" and ?k = "order_uuid (CHR ''1'')"
  have ids: "dw_id ?dw n = ?k" "dw_nonce ?dw n = replicate 12 (CHR ''n'')" for n by (simp_all add: fund_sample_draw_def)
  have content: "stringify (content_json (tq_content sample_tip_request)) \<noteq> []" "length (stringify (content_json (tq_content sample_tip_request))) \<le> 16384"
    by (simp_all add: content_json_def sample_tip_request_def json_string_def json_escape_def jstr_def)
  have seal: "fund_seal fund_sample_cfg (dw_nonce ?dw 9) ''tips'' ?k ''guest_content'' (stringify (content_json (tq_content sample_tip_request))) = Inr sample_content"
    using fund_sample_seals(1) [OF fund_names(7,8,9) content ids(2)] by (simp add: sample_content_def) (simp add: sample_tip_request_def)
  have command: "\<lparr>tn_tipId = ?k, tn_creatorUserId = ''creator-1'',
       tn_accountVersionId = el_receivingAccountVersionId tip_creator, tn_amountVnd = tq_amountVnd sample_tip_request, tn_displayName = el_displayName tip_creator,
       tn_handle = el_canonicalHandle tip_creator, tn_guestContext = guest_of (tc_principal sample_tip), tn_abuseKeyHash = tc_abuseKeyHash sample_tip,
       tn_requestId = tc_requestId sample_tip, tn_at = 1000\<rparr> = sample_tip_intent"
    by (simp add: sample_tip_intent_def tip_creator_def sample_tip_request_def sample_tip_def guest_of_def)
  obtain v where v: "tip_createIntent bank_fund_cfg ?dw sample_tip_intent (bank_funds t [] [] [sample_tip_row] [] []) =
      Inr (bank_funds t [] [] [sample_tip_row] [bound_intent] [], v)" using bound_tip_opens by blast
  let ?na = "created_audit bank_fund_cfg sample_tip ?k ''creator-1'' 1000" and ?ne = "created_event sample_tip ?k ''creator-1'' 1000"
  obtain a where a: "fund_audit fund_sample_cfg ?k 1000 ?na (fund_stage t [] [] [sample_tip_row] [bound_intent] []) =
      Inr (fund_stage t ([] @ [a]) [] [sample_tip_row] [bound_intent] [])" "au_id a = ?k"
    using fund_sample_audit [of ?na 1000 ?k "[]" t "[]" "[sample_tip_row]" "[bound_intent]" "[]"] fund_audit_facts
    by (auto simp: created_audit_def buyer_of_def sample_tip_def no_slash_safe)
  obtain e where e: "fund_event fund_sample_cfg ?k 1000 ?ne (fund_stage t [a] [] [sample_tip_row] [bound_intent] []) =
      Inr (fund_stage t [a] ([] @ [e]) [sample_tip_row] [bound_intent] [])" "ob_id e = ?k"
    using fund_sample_event [of ?ne ?k "[]" 1000 t "[a]" "[sample_tip_row]" "[bound_intent]" "[]"] fund_audit_facts order_uuid_no_slash [of "CHR ''1''"]
    by (auto simp: created_event_def sample_tip_def no_slash_safe)
  have u: "el_creatorUserId tip_creator = ''creator-1''" by (simp add: tip_creator_def)
  have "create_rows bank_fund_cfg ?dw tip_creator sample_tip sample_tip_request 1000 (bank_funds t [] [] [] [] []) =
     Inr (bank_funds t [a] [e] [sample_tip_row] [bound_intent] [], v)"
    using v bank_audit [OF a(1)] bank_outbox [OF e(1)] seal order_uuids(1) bound_constraints(2) [of t "[]" "[]"]
    by (simp add: create_rows_def Let_def ids(1) u command need_def require_def keep_def sample_tip_row_def [symmetric])
  then show ?thesis using a(2) e(2) by (intro exI conjI)
qed

lemma bound_creation:
  "\<exists>r a e v. createTip bank_fund_cfg fund_sample_ports (\<lambda>_. fund_sample_draw (CHR ''1'')) sample_tip (bank_funds [] [] [] [] [] []) =
     Inr (bank_funds [r] [a] [e] [sample_tip_row] [bound_intent] [], v) \<and> au_id a = order_uuid (CHR ''1'') \<and> ob_id e = order_uuid (CHR ''1'')"
proof -
  let ?dw = "fund_sample_draw (CHR ''1'')" and ?k = "order_uuid (CHR ''1'')"
  have texts: "is_identifier (''buyer:'' @ sample_mac)" "is_identifier ''tips.create''" "is_identifier (created_reference ?k)" "is_identifier ''creator-1''"
    by code_simp+
  obtain r where r: "fund_begin ?dw \<lparr>bi_actorUserId = ''buyer:'' @ sample_mac, bi_commandScope = ''tips.create'', bi_keyHash = sample_mac,
       bi_requestFingerprint = sample_mac, bi_expiresAt = 86401000, bi_now = 1000\<rparr> (fund_stage [] [] [] [] [] []) =
      Inr (fund_stage [r] [] [] [] [] [], Acquired ?k)" "ir_id r = ?k" "ir_status r = InProgress" "ir_expiresAt r = 86401000"
    using fund_sample_begin [OF texts(1,2), of "[]" "CHR ''1''" 86401000 "[]" "[]" "[]" "[]" "[]"] by auto
  then have begun: "fund_begin ?dw \<lparr>bi_actorUserId = ''buyer:'' @ sample_mac, bi_commandScope = ''tips.create'', bi_keyHash = sample_mac,
       bi_requestFingerprint = sample_mac, bi_expiresAt = 86401000, bi_now = 1000\<rparr> (bank_funds [] [] [] [] [] []) =
      Inr (bank_funds [r] [] [] [] [] [], Acquired ?k)" by (simp add: bank_funds_def with_bank_statements)
  obtain a e v where rows: "create_rows bank_fund_cfg ?dw tip_creator sample_tip sample_tip_request 1000 (bank_funds [r] [] [] [] [] []) =
     Inr (bank_funds [r] [a] [e] [sample_tip_row] [bound_intent] [], v)" "au_id a = ?k" "ob_id e = ?k" using bound_create_rows by blast
  have complete: "fund_complete fund_sample_cfg ?k (created_reference ?k) 1000 (bank_funds [r] [a] [e] [sample_tip_row] [bound_intent] []) =
      Inr (bank_funds [tip_created_row r] [a] [e] [sample_tip_row] [bound_intent] [])"
    using fund_sample_complete [of ?k "[]" r "created_reference ?k" 1000] r texts(3) by (simp add: tip_created_row_def bank_funds_def with_bank_statements)
  have clock: "dw_clock ?dw n = 1000" "dw_id ?dw n = ?k" for n by (simp_all add: fund_sample_draw_def)
  have q: "tq_actor sample_tip_request = ''buyer:'' @ sample_mac" "tq_keyHash sample_tip_request = sample_mac" "tq_fingerprint sample_tip_request = sample_mac"
    "tq_amountVnd sample_tip_request = 20000" by (simp_all add: sample_tip_request_def)
  have c: "tc_canonicalHandle sample_tip = ''an-art''" "buyer_of (tc_principal sample_tip) = Some ''buyer-1''" "tc_abuseKeyHash sample_tip = sample_mac"
    by (simp_all add: sample_tip_def buyer_of_def)
  have creator: "eligible_creator fund_sample_ports ''an-art'' = Inr tip_creator" "active_buyer fund_sample_ports (Some ''buyer-1'') = Inr ()"
    "el_minimumVnd tip_creator = 10000" "el_maximumVnd tip_creator = 500000"
    using order_uuids texts(4) tip_destination_facts(5)
    by (simp_all add: eligible_creator_def fund_sample_ports_def want_def orThrow_def need_def require_def eligibility_ok_def existing_ok_def
        tip_creator_def active_buyer_def)
  have "create_transaction bank_fund_cfg fund_sample_ports ?dw sample_tip sample_tip_request (bank_funds [] [] [] [] [] []) =
      Inr (bank_funds [tip_created_row r] [a] [e] [sample_tip_row] [bound_intent] [], v)"
    using begun rows(1) complete fund_dates(1)
    by (simp add: create_transaction_def fund_now_def clock need_def require_def q c creator assertOpenCapacity_def open_by_key_def open_by_creator_def
        del: One_nat_def)
  then have "createTip bank_fund_cfg fund_sample_ports (\<lambda>_. ?dw) sample_tip (bank_funds [] [] [] [] [] []) =
      Inr (bank_funds [tip_created_row r] [a] [e] [sample_tip_row] [bound_intent] [], v)"
    using sample_tip_checked by (simp add: createTip_def bank_cfg_reads retryAccountChange_def tip_boundary_def)
  then show ?thesis using rows(2,3) by (intro exI conjI)
qed

subsection \<open>The webhook\<close>

definition bank_event_fields :: "(string \<times> sepay_value) list" where
  "bank_event_fields = [(''id'', SvExact ''42''), (''gateway'', SvString ''Vietcombank''), (''accountNumber'', SvString ''0123456789''),
     (''subAccount'', SvNull), (''transferAmount'', SvExact ''20000''), (''transactionDate'', SvString ''2026-02-13 10:00:00''),
     (''code'', SvNull), (''content'', SvString ''PW0123456789ABCDEF0123''), (''referenceCode'', SvNull), (''transferType'', SvString ''in'')]"

definition settle_sample_cfg :: settle_cfg where
  "settle_sample_cfg = \<lparr>sf_fund = bank_fund_cfg, sf_commissionMode = PaymentsDisabledMode,
     sf_commissions = False, sf_environment = SePayTest, sf_workerIdentity = ''worker-1'',
     sf_capabilities = \<lparr>sc_oauthApplication = True, sc_pkceS256 = True, sc_stableAccountIdentity = True,
       sc_canonicalTransactionIdentity = True, sc_bankTimeReference = True, sc_remoteRevocation = True\<rparr>,
     sf_maxAttempts = 5, sf_inboxEnabled = True, sf_parseJson = (\<lambda>_. Some (SvObject bank_event_fields)), sf_serialize = (\<lambda>_. ''tx'')\<rparr>"

lemma settle_sample_simps [simp]:
  "sf_fund settle_sample_cfg = bank_fund_cfg" "sf_environment settle_sample_cfg = SePayTest" "sf_commissionMode settle_sample_cfg = PaymentsDisabledMode"
  "sf_workerIdentity settle_sample_cfg = ''worker-1''" "sf_maxAttempts settle_sample_cfg = 5" "sf_inboxEnabled settle_sample_cfg"
  "sf_parseJson settle_sample_cfg s = Some (SvObject bank_event_fields)" "sf_serialize settle_sample_cfg t = ''tx''"
  by (simp_all add: settle_sample_cfg_def)

text \<open>The transfer is at \<open>2026-02-13 10:00:00\<close> in Vietnam, the services answer a minute later.\<close>

definition transfer_time :: instant where
  "transfer_time = 1770951600000"

definition bank_draw :: "char \<Rightarrow> fund_draw" where
  "bank_draw x = (fund_sample_draw x)\<lparr>dw_clock := (\<lambda>_. transfer_time + 60000)\<rparr>"

lemma bank_draw_simps [simp]:
  "dw_clock (bank_draw x) n = transfer_time + 60000" "dw_id (bank_draw x) n = order_uuid x" "dw_nonce (bank_draw x) n = replicate 12 (CHR ''n'')"
  "dw_seen (bank_draw x) = dw_seen (fund_sample_draw x)"
  by (simp_all add: bank_draw_def fund_sample_draw_def)

definition bank_event :: sepay_event where
  "bank_event = \<lparr>se_id = ''42'', se_bankGateway = ''Vietcombank'', se_accountNumber = ''0123456789'', se_subAccount = None, se_amountVnd = 20000,
     se_occurredAt = transfer_time, se_reference = Some ''PW0123456789ABCDEF0123'', se_referenceStatus = RefExact, se_bankReference = None\<rparr>"

definition body_digest :: string where
  "body_digest = lower_hex (pf_sha256 toy_platform ''body'')"

lemma bank_parsed:
  "parseAuthenticatedSePayWebhook toy_platform (sf_parseJson settle_sample_cfg) ''body'' = Inr (Accepted bank_event body_digest)"
proof -
  have time: "parseSePayVietnamTime (SvString ''2026-02-13 10:00:00'') = Inr transfer_time"
  proof -
    have day: "parse_iso_day ''2026-02-13'' = Some 20497"
      by (simp add: parse_iso_day_def text_year_def text_month_def text_day_def digit_value_def make_day_def day_from_year_def
          leap_year_def month_lengths_def)
    have iso: "toISOString (20497 * 86400000 + 36000000) = ''2026-02-13T10:00:00.000Z''"
    proof -
      have "padded 3 0 = ''000''" by code_simp
      then show ?thesis by (simp add: toISOString_def utc_day_def ms_per_day_def Let_def sample_iso_dates padded_two)
    qed
    have "vietnam_time_pattern ''2026-02-13 10:00:00''" "\<not> list_ex is_control ''2026-02-13 10:00:00''" by code_simp+
    then show ?thesis
      using iso by (simp add: parseSePayVietnamTime_def sepayText_def vietnam_instant_def digit_value_def day ms_per_day_def require_def transfer_time_def)
  qed
  have amount: "normalizeSePayVnd (SvExact ''20000'') False = Inr 20000"
  proof -
    have "vnd_pattern ''20000''" by code_simp
    then show ?thesis
      by (simp add: normalizeSePayVnd_def sepay_source_def digit_value_def max_safe_integer_def Let_def)
  qed
  have code: "reference_tokens False ''PW0123456789ABCDEF0123'' = [''PW0123456789ABCDEF0123'']" "\<not> list_ex is_control ''PW0123456789ABCDEF0123''"
    "normalizeSePayId (SvExact ''42'') True = Inr ''42''"
    "sepayText (SvString ''Vietcombank'') 80 False = Inr ''Vietcombank''" "sepayText (SvString ''0123456789'') 64 False = Inr ''0123456789''"
    by code_simp+
  have "normalizeSePayReference SvNull (SvString ''PW0123456789ABCDEF0123'') =
      Inr \<lparr>sr_reference = Some ''PW0123456789ABCDEF0123'', sr_status = RefExact, sr_isPawket = True\<rparr>"
    using code(1,2) by (simp add: normalizeSePayReference_def sepayText_def reference_of_def)
  then have "webhook_disposition toy_platform ''body'' bank_event_fields = Inr (Accepted bank_event body_digest)"
    using time amount code(3-5)
    by (simp add: webhook_disposition_def bank_event_fields_def sv_field_def format_error_def sepayNullableText_def bank_event_def body_digest_def)
  then show ?thesis by (simp add: parseAuthenticatedSePayWebhook_def sepayRecord_def format_error_def webhook_max_bytes_def)
qed

definition bank_request :: ingress_request where
  "bank_request = \<lparr>ig_connectionId = order_uuid (CHR ''e''), ig_rawBody = ''body'', ig_contentType = Some ''application/json'', ig_contentEncoding = None,
     ig_timestamp = Some ''1770951700'', ig_signature = Some (''sha256='' @ concat (replicate 32 ''6b''))\<rparr>"

lemma bank_authentic:
  "authenticateAndParseSePayWebhook toy_platform (sf_parseJson settle_sample_cfg)
     \<lparr>wi_rawBody = ''body'', wi_contentType = Some ''application/json'', wi_contentEncoding = None, wi_timestamp = Some ''1770951700'',
      wi_signature = Some (''sha256='' @ concat (replicate 32 ''6b'')), wi_secret = replicate 32 (CHR ''k''), wi_now = transfer_time + 60000\<rparr> =
   Inr (Accepted bank_event body_digest)"
proof -
  have hmac: "pf_hmac toy_platform (replicate 32 (CHR ''k'')) (''1770951700'' @ ''.'' @ ''body'') = from_hex (drop 7 (''sha256='' @ concat (replicate 32 ''6b'')))"
    by code_simp
  have "positive_digits 10 ''1770951700''" "repeats is_hex 64 64 (concat (replicate 32 ''6b''))" "json_content_type ''application/json''"
    by code_simp+
  moreover have "digits_value ''1770951700'' = 1770951700" by (simp add: digit_value_def)
  ultimately show ?thesis using hmac bank_parsed
    by (simp add: authenticateAndParseSePayWebhook_def webhook_headers_ok_def webhook_max_bytes_def starts_with_def transfer_time_def)
qed

subsection \<open>The databases\<close>

definition bound_revision :: sepay_revision_row where
  "bound_revision = \<lparr>sr_id = order_uuid (CHR ''f''), sr_connectionId = order_uuid (CHR ''e''), sr_webhookSecretEnvelope = sample_envelope (replicate 32 (CHR ''k''))\<rparr>"

definition bank_inbox :: inbox_row where
  "bank_inbox = \<lparr>ib_id = order_uuid (CHR ''9''), ib_connectionId = order_uuid (CHR ''e''), ib_connectionRevisionId = order_uuid (CHR ''f''),
     ib_providerEventId = ''42'', ib_payloadDigest = ''sha256:'' @ body_digest, ib_rawEnvelope = Some (sample_envelope ''body''), ib_accepted = True,
     ib_normalizedFacts = JObj [(''amountVnd'', JNum 20000), (''occurredAt'', JStr (toISOString transfer_time)), (''referenceHash'', JStr sample_mac),
       (''referenceStatus'', JStr ''exact'')], ib_receivedAt = transfer_time + 60000\<rparr>"

definition bank_pending :: "string \<Rightarrow> processing_row" where
  "bank_pending k = new_processing k True (transfer_time + 60000)"

definition bank_stage ::
  "fund_db \<Rightarrow> inbox_row list \<Rightarrow> processing_row list \<Rightarrow> decision_row list \<Rightarrow> bank_transaction_row list \<Rightarrow> sepay_db" where
  "bank_stage f ib ps ds bs = \<lparr>sd_funds = f, sd_revisions = [bound_revision], sd_inbox = ib, sd_conflicts = [], sd_processing = ps,
     sd_decisions = ds, sd_transactions = bs\<rparr>"

lemma bank_stage_simps [simp]:
  "sd_funds (bank_stage f ib ps ds bs) = f" "sd_revisions (bank_stage f ib ps ds bs) = [bound_revision]" "sd_inbox (bank_stage f ib ps ds bs) = ib"
  "sd_conflicts (bank_stage f ib ps ds bs) = []" "sd_processing (bank_stage f ib ps ds bs) = ps" "sd_decisions (bank_stage f ib ps ds bs) = ds"
  "sd_transactions (bank_stage f ib ps ds bs) = bs"
  "(bank_stage f ib ps ds bs)\<lparr>sd_funds := f'\<rparr> = bank_stage f' ib ps ds bs" "(bank_stage f ib ps ds bs)\<lparr>sd_inbox := ib'\<rparr> = bank_stage f ib' ps ds bs"
  "(bank_stage f ib ps ds bs)\<lparr>sd_processing := ps'\<rparr> = bank_stage f ib ps' ds bs"
  "(bank_stage f ib ps ds bs)\<lparr>sd_decisions := ds'\<rparr> = bank_stage f ib ps ds' bs" "(bank_stage f ib ps ds bs)\<lparr>sd_transactions := bs'\<rparr> = bank_stage f ib ps ds bs'"
  by (simp_all add: bank_stage_def)

lemma bound_simps [simp]:
  "cx_id bound_connection = order_uuid (CHR ''e'')" "cx_creatorUserId bound_connection = ''creator-1''" "cx_providerEnvironment bound_connection = SePayTest"
  "cx_currentRevisionId bound_connection = Some (order_uuid (CHR ''f''))" "cx_status bound_connection = ConnectionReady" "cx_version bound_connection = 1"
  "cx_automationEnabled bound_connection" "cx_accountVersionId bound_connection = order_uuid (CHR ''a'')" "cx_accountFingerprint bound_connection = sample_mac"
  "cx_providerTenantId bound_connection = Some ''tenant-1''" "cx_providerAccountId bound_connection = Some ''77''"
  "sr_id bound_revision = order_uuid (CHR ''f'')" "sr_connectionId bound_revision = order_uuid (CHR ''e'')"
  "cu_id bound_cutover = order_uuid (CHR ''d'')" "cu_connectionId bound_cutover = order_uuid (CHR ''e'')" "cu_cutoverAt bound_cutover = 0"
  by (simp_all add: bound_connection_def bound_revision_def bound_cutover_def)

lemma bank_inbox_simps [simp]:
  "ib_id bank_inbox = order_uuid (CHR ''9'')" "ib_connectionId bank_inbox = order_uuid (CHR ''e'')" "ib_connectionRevisionId bank_inbox = order_uuid (CHR ''f'')"
  "ib_providerEventId bank_inbox = ''42''" "ib_payloadDigest bank_inbox = ''sha256:'' @ body_digest" "ib_accepted bank_inbox"
  "ib_rawEnvelope bank_inbox = Some (sample_envelope ''body'')"
  by (simp_all add: bank_inbox_def)

lemma bank_pending_simps [simp]:
  "ps_inboxId (bank_pending k) = k" "ps_status (bank_pending k) = Pending" "ps_attempts (bank_pending k) = 0" "ps_version (bank_pending k) = 1"
  "ps_availableAt (bank_pending k) = transfer_time + 60000"
  by (simp_all add: bank_pending_def new_processing_def)

lemma bank_texts: "sha_text (''sha256:'' @ body_digest)" "plain_digits 39 ''42''" "positive_digits 39 ''42''" "positive_digits 39 ''77''" "positive_digits 31 ''42''"
  "bounded_identity ''worker''" "bounded_identity ''tenant-1''" "is_uuid (order_uuid (CHR ''e''))" "is_uuid (order_uuid (CHR ''9''))"
  unfolding body_digest_def by code_simp+

lemma bank_inbox_ok: "inbox_ok [bank_inbox]"
  using bank_texts by (simp add: inbox_ok_def inbox_check_def) (simp add: bank_inbox_def facts_check_def)

definition bank_taken :: "string \<Rightarrow> processing_row" where
  "bank_taken k = taken_state ''worker'' (transfer_time + 60000) (transfer_time + 60000) (bank_pending k)"

lemma bank_taken_simps [simp]:
  "ps_inboxId (bank_taken k) = k" "ps_status (bank_taken k) = Processing" "ps_attempts (bank_taken k) = 1" "ps_version (bank_taken k) = 2"
  "ps_leaseOwner (bank_taken k) = Some ''worker''" "ps_leaseExpiresAt (bank_taken k) = Some (transfer_time + 120000)"
  by (simp_all add: bank_taken_def taken_state_def)

lemma processing_checks: "processing_check (bank_pending k)" "processing_check (bank_taken k)"
proof -
  show "processing_check (bank_pending k)" by (simp add: processing_check_def bank_pending_def new_processing_def)
  have "ps_lastErrorCode (bank_taken k) = None" by (simp add: bank_taken_def taken_state_def bank_pending_def new_processing_def)
  then show "processing_check (bank_taken k)" using bank_texts(6) by (simp add: processing_check_def)
qed

lemma bank_stage_constraints:
  "sepay_constraints (bank_stage f ib ps ds bs) \<longleftrightarrow>
     fund_constraints f \<and> inbox_ok ib \<and> distinct (map ps_inboxId ps) \<and> list_all processing_check ps \<and> decisions_ok ds \<and> bank_transactions_ok bs \<and>
     sepay_references_ok (bank_stage f ib ps ds bs)"
  by (simp add: sepay_constraints_def)

lemma bank_open_constraints:
  "sepay_constraints (bank_stage (bank_funds t au ob [] [] []) [] [] [] [])"
  "sepay_constraints (bank_stage (bank_funds t au ob [sample_tip_row] [bound_intent] []) [] [] [] [])"
  "sepay_constraints (bank_stage (bank_funds t au ob [sample_tip_row] [bound_intent] []) [bank_inbox] [] [] [])"
  "sepay_constraints (bank_stage (bank_funds t au ob [sample_tip_row] [bound_intent] []) [bank_inbox] [bank_pending (order_uuid (CHR ''9''))] [] [])"
  "sepay_constraints (bank_stage (bank_funds t au ob [sample_tip_row] [bound_intent] []) [bank_inbox] [bank_taken (order_uuid (CHR ''9''))] [] [])"
  using bound_constraints bank_inbox_ok processing_checks
  by (simp_all add: bank_stage_constraints sepay_references_ok_def inbox_ok_def decisions_ok_def bank_transactions_ok_def)

lemma bank_start: "sepay_start [bank_stage (bank_funds [] [] [] [] [] []) [] [] [] []]"
proof -
  have "no_orders (fd_orders (bank_funds [] [] [] [] [] []))" using empty_orders_start by (simp add: bank_funds_def with_bank_def fund_stage_def no_orders_def)
  then show ?thesis using bank_open_constraints(1) bound_constraints(1) by (simp add: sepay_start_def no_payments_def)
qed

lemma bank_admitted:
  "receive settle_sample_cfg (bank_draw x) bank_request (bank_stage (bank_funds t au ob ts is ms) ib ps ds bs) db =
     receive_transaction settle_sample_cfg (bank_draw x) bank_request bound_connection bound_revision (Accepted bank_event body_digest) (transfer_time + 60000) db"
proof -
  have names: "binding_name_ok ''sepay_connection_revision''" "binding_name_ok ''webhook_secret''" "leading_alnum is_ident 199 (order_uuid (CHR ''f''))"
    by code_simp+
  have secret: "fund_open fund_sample_cfg ''sepay_connection_revision'' (order_uuid (CHR ''f'')) ''webhook_secret'' (sr_webhookSecretEnvelope bound_revision) =
      Inr (replicate 32 (CHR ''k''))"
    using fund_sample_seals(2) [OF names, of "replicate 32 (CHR ''k'')", OF _ _ refl] by (simp add: bound_revision_def)
  have "date_ok (transfer_time + 60000)" by (simp add: date_ok_def transfer_time_def)
  then show ?thesis
    using bank_texts(8) bank_authentic secret
    by (simp add: receive_def Let_def sepay_need_def require_def sepay_want_def orThrow_def ingress_source_def connection_of_def within_def)
      (simp add: bank_request_def)
qed

lemma bank_received:
  assumes "order_uuid (CHR ''9'') \<notin> ob_id ` set ob"
  shows "\<exists>e. receive settle_sample_cfg (bank_draw (CHR ''9'')) bank_request
      (bank_stage (bank_funds t au ob [sample_tip_row] [bound_intent] []) [] [] [] []) (bank_stage (bank_funds t au ob [sample_tip_row] [bound_intent] []) [] [] [] []) =
    Inr (bank_stage (bank_funds t au (ob @ [e]) [sample_tip_row] [bound_intent] []) [bank_inbox] [bank_pending (order_uuid (CHR ''9''))] [] [], IngressAccepted) \<and>
    ob_id e = order_uuid (CHR ''9'')"
proof -
  let ?k = "order_uuid (CHR ''9'')" and ?dw = "bank_draw (CHR ''9'')" and ?f = "bank_funds t au ob [sample_tip_row] [bound_intent] []"
  have names: "binding_name_ok ''sepay_inbox''" "binding_name_ok ''raw_body''" "leading_alnum is_ident 199 ?k" "hash_domain ''sepay-reference''"
    "\<not> structuredKeyIsSensitive ''inboxId''"
    by code_simp+
  have seal: "fund_seal fund_sample_cfg (replicate 12 (CHR ''n'')) ''sepay_inbox'' ?k ''raw_body'' ''body'' = Inr (sample_envelope ''body'')"
    by (rule fund_sample_seals(1) [OF names(1,2,3)]) simp_all
  have hash: "sepay_hash settle_sample_cfg ''reference'' ''PW0123456789ABCDEF0123'' = Inr sample_mac"
    using fund_sample_digest [OF names(4)] by (simp add: sepay_hash_def within_def)
  have facts: "inbox_facts settle_sample_cfg (Accepted bank_event body_digest) = Inr (ib_normalizedFacts bank_inbox)"
    using hash by (simp add: inbox_facts_def bank_event_def bank_inbox_def status_text_def)
  let ?ne = "SepaySettlement.received_event ?k (transfer_time + 60000)"
  obtain e where e: "fund_event fund_sample_cfg ?k (transfer_time + 60000) ?ne (fund_stage t au ob [sample_tip_row] [bound_intent] []) =
      Inr (fund_stage t au (ob @ [e]) [sample_tip_row] [bound_intent] [])" "ob_id e = ?k"
    using fund_sample_event [of ?ne ?k ob "transfer_time + 60000" t au "[sample_tip_row]" "[bound_intent]" "[]"] assms names(5) order_uuid_no_slash [of "CHR ''9''"]
    by (auto simp: SepaySettlement.received_event_def no_slash_safe)
  have row: "\<lparr>ib_id = ?k, ib_connectionId = order_uuid (CHR ''e''), ib_connectionRevisionId = order_uuid (CHR ''f''), ib_providerEventId = ''42'',
      ib_payloadDigest = ''sha256:'' @ body_digest, ib_rawEnvelope = Some (sample_envelope ''body''), ib_accepted = True,
      ib_normalizedFacts = ib_normalizedFacts bank_inbox, ib_receivedAt = transfer_time + 60000\<rparr> = bank_inbox"
    by (simp add: bank_inbox_def)
  have d: "event_id_of (Accepted bank_event body_digest) = ''42''" "event_digest (Accepted bank_event body_digest) = ''sha256:'' @ body_digest"
    "is_accepted (Accepted bank_event body_digest)"
    by (simp_all add: event_id_of_def event_digest_def is_accepted_def bank_event_def)
  have ig: "ig_connectionId bank_request = order_uuid (CHR ''e'')" "ig_rawBody bank_request = ''body''" by (simp_all add: bank_request_def)
  have stored: "store_event settle_sample_cfg ?dw bank_request bound_connection bound_revision (Accepted bank_event body_digest) (transfer_time + 60000)
      (bank_stage ?f [] [] [] []) =
     Inr (bank_stage (bank_funds t au (ob @ [e]) [sample_tip_row] [bound_intent] []) [bank_inbox] [bank_pending ?k] [] [])"
    using bank_open_constraints(3,4) bank_outbox [OF e(1)]
    by (simp add: store_event_def Let_def facts d ig seal within_def row [simplified] keep_sepay_def bank_pending_def [symmetric] on_funds_def)
  have "receive_transaction settle_sample_cfg ?dw bank_request bound_connection bound_revision (Accepted bank_event body_digest) (transfer_time + 60000)
      (bank_stage ?f [] [] [] []) =
     Inr (bank_stage (bank_funds t au (ob @ [e]) [sample_tip_row] [bound_intent] []) [bank_inbox] [bank_pending ?k] [] [], IngressAccepted)"
    by (simp add: receive_transaction_def sepay_want_def orThrow_def sepay_need_def require_def recent_events_def all_events_def stored d)
  then have "receive settle_sample_cfg ?dw bank_request (bank_stage ?f [] [] [] []) (bank_stage ?f [] [] [] []) =
     Inr (bank_stage (bank_funds t au (ob @ [e]) [sample_tip_row] [bound_intent] []) [bank_inbox] [bank_pending ?k] [] [], IngressAccepted)"
    by (simp add: bank_admitted)
  then show ?thesis using e(2) by blast
qed

subsection \<open>The worker takes the event\<close>

definition bank_binding :: sepay_binding where
  "bank_binding = \<lparr>sb_environment = SePayTest, sb_tenantId = ''tenant-1'', sb_accountId = ''77'', sb_bankBin = ''970436'',
     sb_bankGateway = ''Vietcombank'', sb_accountNumber = ''0123456789'', sb_subAccount = None\<rparr>"

definition bank_row :: sepay_transaction where
  "bank_row = \<lparr>st_id = ''42'', st_binding = bank_binding, st_amountVnd = 20000, st_direction = DirectionIn, st_occurredAt = transfer_time,
     st_reference = Some ''PW0123456789ABCDEF0123'', st_referenceStatus = RefExact, st_bankReference = None\<rparr>"

definition bank_access :: readback_access where
  "bank_access = \<lparr>ax_connection = bound_connection, ax_revisionId = order_uuid (CHR ''f''), ax_accessToken = ''token'',
     ax_expiresAt = transfer_time + 300000, ax_binding = Some bank_binding\<rparr>"

definition settle_sample_ports :: settle_ports where
  "settle_sample_ports = \<lparr>fp_assurance = (\<lambda>_ _. Inr None), fp_authorizeCommand = (\<lambda>_. Inr ()), fp_buyerActive = (\<lambda>_. Inr True),
     fp_claimRateLimit = (\<lambda>_. Inr True), fp_orders = sample_ports, sp_access = (\<lambda>_. Inr bank_access),
     sp_readback = (\<lambda>_ _ _ _ _. Inr (Complete [bank_row]))\<rparr>"

definition bank_claim :: "inbox_row \<Rightarrow> event_claim" where
  "bank_claim i = \<lparr>ec_inbox = i, ec_connection = bound_connection, ec_state = bank_taken (ib_id i)\<rparr>"

lemma bank_claimed:
  assumes "ib_connectionId i = order_uuid (CHR ''e'')" "ib_accepted i" "List.find (\<lambda>j. ib_id j = ib_id i) ib = Some i"
    "List.find (\<lambda>s. ps_inboxId s = ib_id i) ps = Some (bank_pending (ib_id i))"
    "rows_update (\<lambda>s. ps_inboxId s = ib_id i) (taken_state ''worker'' (transfer_time + 60000) (transfer_time + 60000)) ps = ps'"
    "sepay_constraints (bank_stage (bank_funds t au ob ts is ms) ib ps' ds bs)"
  shows "claim_event settle_sample_cfg ports (bank_draw x) ''worker'' (ib_id i) None (bank_stage (bank_funds t au ob ts is ms) ib ps ds bs) =
    Inr (bank_stage (bank_funds t au ob ts is ms) ib ps' ds bs, Taken (bank_claim i))"
  using assms
  by (simp add: claim_event_def event_source_def connection_of_def processing_of_def sepay_want_def orThrow_def sepay_need_def require_def Let_def
      keep_sepay_def not_available_now_def bank_claim_def bank_taken_def)

definition bank_match :: sepay_tip_intent where
  "bank_match = match_intent bound_intent sample_snapshot ''PW0123456789ABCDEF0123'' bound_cutover"

definition bank_examined :: examined where
  "bank_examined = \<lparr>ex_candidate = bound_intent, ex_purpose = TipPayment (order_uuid (CHR ''1'')), ex_access = bank_access, ex_binding = bank_binding,
     ex_matchIntent = bank_match, ex_event = bank_event, ex_readback = Complete [bank_row], ex_transaction = bank_row\<rparr>"

lemma bank_matches: "matchSePayTip bank_match bank_binding bank_event (Complete [bank_row]) (sf_capabilities settle_sample_cfg) (transfer_time + 60000) = Matched bank_row"
proof -
  have b: "bindingValid bank_binding" "sameBinding bank_binding bank_binding" unfolding bank_binding_def by code_simp+
  have m: "si_settlementLane bank_match = ProviderBound" "si_state bank_match = AwaitingTransfer" "si_cutoverAt bank_match = Some 0" "si_amountVnd bank_match = 20000"
    "si_transferReference bank_match = ''PW0123456789ABCDEF0123''" "si_expiresAt bank_match = 1800000001000" "si_createdAt bank_match = 1000"
    "si_bankBin bank_match = ''970436''" "si_accountNumber bank_match = ''0123456789''"
    by (simp_all add: bank_match_def match_intent_def sample_snapshot_def destination_snapshot_def tip_destination_def)
  show ?thesis using b bank_texts(5) tip_destination_facts(4)
    by (simp add: matchSePayTip_def m settle_sample_cfg_def positiveInteger_def isSafeInteger_def max_safe_integer_def bank_event_def bank_row_def transfer_time_def)
      (simp add: bank_binding_def)
qed

lemma bank_stored: "stored_event settle_sample_cfg bank_inbox = Inr (Inr bank_event)"
proof -
  have names: "binding_name_ok ''sepay_inbox''" "binding_name_ok ''raw_body''" "leading_alnum is_ident 199 (order_uuid (CHR ''9''))" by code_simp+
  have "fund_open fund_sample_cfg ''sepay_inbox'' (order_uuid (CHR ''9'')) ''raw_body'' (sample_envelope ''body'') = Inr ''body''"
    by (rule fund_sample_seals(2) [OF names _ _ refl]) simp_all
  then show ?thesis using bank_parsed
    by (simp add: stored_event_def within_def sha256_text_def body_digest_def) (simp add: bank_event_def)
qed

lemma bank_examines:
  "examine settle_sample_cfg settle_sample_ports (bank_draw x) (bank_claim bank_inbox) False
     (bank_stage (bank_funds t au ob ts [bound_intent] ms) ib ps ds bs) (bank_stage (bank_funds t au ob ts [bound_intent] ms) ib ps ds bs) = Inr (Inr bank_examined)"
proof -
  have digest: "fund_digest fund_sample_cfg ''tip-transfer-reference'' ''PW0123456789ABCDEF0123'' = Inr sample_mac"
    by (rule fund_sample_digest [OF fund_domains(4)]) simp_all
  have purpose: "readPaymentPurpose bound_intent = Some (TipPayment (order_uuid (CHR ''1'')))"
    using order_uuids(1) by (simp add: readPaymentPurpose_def isTipPayment_def)
  have ax: "ax_binding bank_access = Some bank_binding" "ax_connection bank_access = bound_connection" by (simp_all add: bank_access_def)
  have ports: "sp_access settle_sample_ports k = Inr bank_access" "sp_readback settle_sample_ports token b event t1 t2 = Inr (Complete [bank_row])"
    for k token b event t1 t2 by (simp_all add: settle_sample_ports_def)
  have event: "se_reference bank_event = Some ''PW0123456789ABCDEF0123''" by (simp add: bank_event_def)
  have opened: "readTipIntentSnapshot fund_sample_cfg bound_intent = Inr (sample_snapshot, ''PW0123456789ABCDEF0123'')" by (rule sample_opened) simp_all
  have "lane_open settle_sample_cfg False (TipPayment k)" for k by (simp add: lane_open_def purpose_kind_def)
  then show ?thesis using purpose digest opened bank_stored bank_matches
    by (simp add: examine_def bank_claim_def event find_candidate_def within_def transfer_time_def)
      (simp add: examine_readback_def ports ax bank_cfg_reads within_def bank_match_def [symmetric] Let_def bank_examined_def transfer_time_def)
qed

subsection \<open>The event is settled\<close>

definition bank_lock :: "processing_row \<Rightarrow> settlement_lock" where
  "bank_lock s = \<lparr>sl_bindings = Map.empty, sl_proof = None, sl_destination = tip_destination, sl_connection = bound_connection, sl_intent = bound_intent,
     sl_state = s, sl_at = transfer_time + 60000\<rparr>"

lemma bank_destination: "lockTipReceivingDestination fund_sample_cfg (bank_draw x) ''creator-1'' (transfer_time + 60000) (bank_funds t au ob ts is ms) = Inr (Some tip_destination)"
proof -
  have "lockTipReceivingDestination fund_sample_cfg (fund_sample_draw x) ''creator-1'' (transfer_time + 60000) (fund_stage t au ob ts is ms) =
      lockTipReceivingDestination fund_sample_cfg (fund_sample_draw x) ''creator-1'' 1000 (fund_stage t au ob ts is ms)"
    by (simp add: lockTipReceivingDestination_def lockPaymentAccountLineage_def current_account_def)
      (simp add: tip_account_def receiving_destination_def account_usable_def transfer_time_def fund_sample_draw_def)
  then show ?thesis by (simp add: bank_funds_def with_bank_statements fund_sample_destination) (simp add: lockTipReceivingDestination_def fund_sample_destination)
qed

lemma bank_locks:
  "lock_settlement_rows settle_sample_cfg settle_sample_ports (bank_draw x) bank_examined ''worker'' k None
     (bank_stage (bank_funds t au ob ts [bound_intent] ms) ib [bank_taken k] ds bs) = Inr (bank_lock (bank_taken k))"
proof -
  have x: "ex_candidate bank_examined = bound_intent" "ex_purpose bank_examined = TipPayment (order_uuid (CHR ''1''))" "ex_access bank_examined = bank_access"
    "ex_binding bank_examined = bank_binding" "ex_matchIntent bank_examined = bank_match" "ex_event bank_examined = bank_event"
    "ex_readback bank_examined = Complete [bank_row]" by (simp_all add: bank_examined_def)
  have ax: "ax_connection bank_access = bound_connection" "ax_revisionId bank_access = order_uuid (CHR ''f'')" "ax_expiresAt bank_access = transfer_time + 300000"
    "sb_tenantId bank_binding = ''tenant-1''" "sb_accountId bank_binding = ''77''" by (simp_all add: bank_access_def bank_binding_def)
  have d: "ds_accountVersionId tip_destination = order_uuid (CHR ''a'')" "ds_accountFingerprint tip_destination = sample_mac" by (simp_all add: tip_destination_def)
  have current: "intent_current bank_examined (transfer_time + 60000) bound_intent" "connection_current bank_examined False bound_connection"
    by (simp_all add: intent_current_def pending_intent_def connection_current_def x ax transfer_time_def)
  show ?thesis using current bank_destination bank_matches
    by (simp add: lock_settlement_rows_def Let_def x lock_purpose_def review_proof_def within_def bank_cfg_reads sepay_want_def orThrow_def sepay_need_def require_def d ax
        processing_of_def lease_current_def lease_held_def match_at_def proof_still_def bank_lock_def)
qed

definition bank_settled_transaction :: "string \<Rightarrow> bank_transaction_row" where
  "bank_settled_transaction k = bank_transaction settle_sample_cfg (bank_draw (CHR ''3'')) bank_examined k (bank_lock (bank_taken k))"

definition bank_paid :: confirmation_row where
  "bank_paid = provider_confirmation settle_sample_cfg (bank_draw (CHR ''3'')) sample_mac None (bank_lock (bank_taken (order_uuid (CHR ''9''))))"

definition bank_paid_intent :: intent_row where
  "bank_paid_intent = confirmed_intent (transfer_time + 60000) bound_intent"

definition bank_paid_tip :: tip_row where
  "bank_paid_tip = closed_tip TipCompleted (transfer_time + 60000) sample_tip_row"

lemma bank_paid_simps [simp]:
  "pm_id bank_paid = order_uuid (CHR ''3'')" "pm_paymentIntentId bank_paid = order_uuid (CHR ''1'')" "pm_creatorUserId bank_paid = ''creator-1''"
  "pm_accountVersionId bank_paid = order_uuid (CHR ''a'')" "pm_observedAmountVnd bank_paid = 20000" "pm_referenceHash bank_paid = sample_mac"
  "pm_bankTransactionFingerprint bank_paid = None" "pm_providerTransactionId bank_paid = Some (order_uuid (CHR ''3''))" "pm_source bank_paid = SepayAutomatic"
  "pm_confirmedAt bank_paid = transfer_time + 60000"
  by (simp_all add: bank_paid_def provider_confirmation_def bank_lock_def Let_def)

lemma bank_transaction_simps [simp]:
  "bt_id (bank_settled_transaction k) = order_uuid (CHR ''3'')" "bt_inboxId (bank_settled_transaction k) = k"
  "bt_paymentIntentId (bank_settled_transaction k) = order_uuid (CHR ''1'')" "bt_amountVnd (bank_settled_transaction k) = 20000"
  "bt_verifiedAt (bank_settled_transaction k) = transfer_time + 60000" "bt_connectionId (bank_settled_transaction k) = order_uuid (CHR ''e'')"
  "bt_connectionRevisionId (bank_settled_transaction k) = order_uuid (CHR ''f'')"
  by (simp_all add: bank_settled_transaction_def bank_transaction_def bank_lock_def bank_examined_def bank_access_def Let_def)

lemma bank_settled_rows:
  "bank_transactions_ok [bank_settled_transaction k]" "confirmations_ok [bank_paid]" "intents_ok [bank_paid_intent]" "tips_ok [bank_paid_tip]"
proof -
  have "sha_text (''sha256:'' @ lower_hex (pf_sha256 toy_platform ''tx''))" by code_simp
  then show "bank_transactions_ok [bank_settled_transaction k]" using bank_texts(3,4,7) sample_mac_digest(1)
    by (simp add: bank_transactions_ok_def bank_transaction_check_def)
      (simp add: bank_settled_transaction_def bank_transaction_def bank_lock_def bank_examined_def bank_row_def bank_binding_def bank_access_def Let_def
        sha256_text_def hmac_text_def tip_destination_def)
  have "leading_alnum is_ident 199 ''worker-1''" by code_simp
  then show "confirmations_ok [bank_paid]"
    by (simp add: confirmations_ok_def unique_where_def confirmation_check_def source_check_def)
      (simp add: bank_paid_def provider_confirmation_def bank_lock_def within_hour_def Let_def)
  show "intents_ok [bank_paid_intent]" "tips_ok [bank_paid_tip]" using sample_mac_digest(1)
    by (simp_all add: bank_paid_intent_def confirmed_intent_def bank_paid_tip_def closed_tip_def tips_ok_def intents_ok_def unique_where_def tip_check_def
        closing_check_def intent_check_def purpose_check_def lane_check_def intent_time_check_def rejection_check_def hmac_text_def max_safe_integer_def transfer_time_def)
qed

lemma bank_settled_funds:
  "fund_constraints (bank_funds t au ob [sample_tip_row] [bound_intent] [bank_paid])"
  "fund_constraints (bank_funds t au ob [sample_tip_row] [bank_paid_intent] [bank_paid])"
  "fund_constraints (bank_funds t au ob [bank_paid_tip] [bank_paid_intent] [bank_paid])"
  using sample_rows_ok bound_rows_ok bank_settled_rows
  by (simp_all add: bank_funds_constraints fund_references_ok_def intent_owner_ok_def confirmation_binding_def intent_binding_def bank_paid_intent_def
      confirmed_intent_def bank_paid_tip_def closed_tip_def) (simp_all add: tip_account_def)

definition bank_decision :: decision_row where
  "bank_decision = settled_decision (bank_draw (CHR ''3'')) (order_uuid (CHR ''9'')) sample_mac None (bank_lock (bank_taken (order_uuid (CHR ''9''))))"

definition bank_confirmed :: processing_row where
  "bank_confirmed = settled_state (transfer_time + 60000) (bank_taken (order_uuid (CHR ''9'')))"

lemma bank_end_rows: "processing_check bank_confirmed" "decisions_ok [bank_decision]" "ps_inboxId bank_confirmed = order_uuid (CHR ''9'')"
  "dn_inboxId bank_decision = order_uuid (CHR ''9'')" "ps_status bank_confirmed = EventConfirmed"
proof -
  have "reason_text_ok ''exact_provider_readback''" by code_simp
  then show "decisions_ok [bank_decision]"
    by (simp add: decisions_ok_def decision_check_def bank_decision_def settled_decision_def bank_lock_def)
  show "processing_check bank_confirmed" "ps_inboxId bank_confirmed = order_uuid (CHR ''9'')" "ps_status bank_confirmed = EventConfirmed"
    "dn_inboxId bank_decision = order_uuid (CHR ''9'')"
    by (simp_all add: processing_check_def bank_confirmed_def settled_state_def bank_decision_def settled_decision_def)
qed

lemma bank_settled_constraints:
  "sepay_constraints (bank_stage (bank_funds t au ob [sample_tip_row] [bound_intent] []) [bank_inbox] [bank_taken (order_uuid (CHR ''9''))] []
     [bank_settled_transaction (order_uuid (CHR ''9''))])"
  "sepay_constraints (bank_stage (bank_funds t au ob [bank_paid_tip] [bank_paid_intent] [bank_paid]) [bank_inbox] [bank_taken (order_uuid (CHR ''9''))] []
     [bank_settled_transaction (order_uuid (CHR ''9''))])"
  "sepay_constraints (bank_stage (bank_funds t au ob [bank_paid_tip] [bank_paid_intent] [bank_paid]) [bank_inbox] [bank_confirmed] []
     [bank_settled_transaction (order_uuid (CHR ''9''))])"
  "sepay_constraints (bank_stage (bank_funds t au ob [bank_paid_tip] [bank_paid_intent] [bank_paid]) [bank_inbox] [bank_confirmed] [bank_decision]
     [bank_settled_transaction (order_uuid (CHR ''9''))])"
  using bound_constraints bank_settled_funds bank_inbox_ok processing_checks bank_settled_rows bank_end_rows
  by (simp_all add: bank_stage_constraints sepay_references_ok_def decisions_ok_def bank_paid_intent_def confirmed_intent_def)

lemma bank_money_rows:
  "provider_rows (complete_purpose (bank_draw (CHR ''3'')) (TipPayment (order_uuid (CHR ''1''))) Map.empty bound_intent None (transfer_time + 60000) q) bank_paid
     bound_intent (transfer_time + 60000) (bank_funds t au ob [sample_tip_row] [bound_intent] []) =
   Inr (bank_funds t au ob [bank_paid_tip] [bank_paid_intent] [bank_paid])"
proof -
  have "completeTip (order_uuid (CHR ''1'')) ''creator-1'' 20000 (transfer_time + 60000) (bank_funds t au ob [sample_tip_row] [bank_paid_intent] [bank_paid]) =
      Inr (bank_funds t au ob [bank_paid_tip] [bank_paid_intent] [bank_paid], True)"
    using bank_settled_funds(3) by (simp add: completeTip_def close_tip_def keep_def rows_update_def tip_open_def bank_paid_tip_def)
  then show ?thesis using bank_settled_funds(1,2)
    by (simp add: provider_rows_def complete_purpose_def keep_def within_def rows_update_def pending_intent_def bank_paid_intent_def sepay_need_def require_def
        transfer_time_def)
qed

lemma bank_written:
  assumes "order_uuid (CHR ''3'') \<notin> au_id ` set au" "order_uuid (CHR ''3'') \<notin> ob_id ` set ob"
  shows "\<exists>a e. settle_write settle_sample_cfg (bank_draw (CHR ''3'')) bank_examined (order_uuid (CHR ''9'')) sample_mac None
      (bank_lock (bank_taken (order_uuid (CHR ''9''))))
      (bank_stage (bank_funds t au ob [sample_tip_row] [bound_intent] []) [bank_inbox] [bank_taken (order_uuid (CHR ''9''))] [] []) =
    Inr (bank_stage (bank_funds t (au @ [a]) (ob @ [e]) [bank_paid_tip] [bank_paid_intent] [bank_paid]) [bank_inbox] [bank_confirmed] [bank_decision]
      [bank_settled_transaction (order_uuid (CHR ''9''))])"
proof -
  let ?k = "order_uuid (CHR ''3'')" and ?dw = "bank_draw (CHR ''3'')" and ?in = "order_uuid (CHR ''9'')" and ?at = "transfer_time + 60000"
  let ?na = "settled_audit settle_sample_cfg TipPurpose ?dw None bank_paid" and ?ne = "settled_event (TipPayment (order_uuid (CHR ''1''))) ?dw None bank_paid"
  have texts: "auditIdentifier (''system:'' @ ''worker-1'')" "auditIdentifier (order_uuid (CHR ''3''))" "\<not> structuredKeyIsSensitive ''confirmationId''" by code_simp+
  obtain a where a: "fund_audit fund_sample_cfg ?k ?at ?na (fund_stage t au ob [bank_paid_tip] [bank_paid_intent] [bank_paid]) =
      Inr (fund_stage t (au @ [a]) ob [bank_paid_tip] [bank_paid_intent] [bank_paid])"
    using fund_sample_audit [of ?na ?at ?k au t ob "[bank_paid_tip]" "[bank_paid_intent]" "[bank_paid]"] fund_audit_facts assms(1) texts [simplified]
      order_uuid_no_slash [of "CHR ''3''"]
    by (auto simp: settled_audit_def settlement_request_def purpose_text_def no_slash_safe)
  obtain e where e: "fund_event fund_sample_cfg ?k ?at ?ne (fund_stage t (au @ [a]) ob [bank_paid_tip] [bank_paid_intent] [bank_paid]) =
      Inr (fund_stage t (au @ [a]) (ob @ [e]) [bank_paid_tip] [bank_paid_intent] [bank_paid])"
    using fund_sample_event [of ?ne ?k ob ?at t "au @ [a]" "[bank_paid_tip]" "[bank_paid_intent]" "[bank_paid]"] fund_audit_facts assms(2)
      order_uuid_no_slash [of "CHR ''3''"] order_uuid_no_slash [of "CHR ''1''"]
    by (auto simp: settled_event_def settlement_request_def purpose_text_def purpose_kind_def no_slash_safe)
  have l: "sl_intent (bank_lock s) = bound_intent" "sl_at (bank_lock s) = ?at" "sl_bindings (bank_lock s) = Map.empty" for s by (simp_all add: bank_lock_def)
  have p: "ex_purpose bank_examined = TipPayment (order_uuid (CHR ''1''))" "purpose_kind (TipPayment k) = TipPurpose" for k
    by (simp_all add: bank_examined_def purpose_kind_def)
  have "settle_write settle_sample_cfg ?dw bank_examined ?in sample_mac None (bank_lock (bank_taken ?in))
      (bank_stage (bank_funds t au ob [sample_tip_row] [bound_intent] []) [bank_inbox] [bank_taken ?in] [] []) =
    Inr (bank_stage (bank_funds t (au @ [a]) (ob @ [e]) [bank_paid_tip] [bank_paid_intent] [bank_paid]) [bank_inbox] [bank_confirmed] [bank_decision]
      [bank_settled_transaction ?in])"
    using bank_settled_constraints bank_money_rows bank_audit [OF a] bank_outbox [OF e]
    by (simp add: settle_write_def Let_def l p bank_settled_transaction_def [symmetric] bank_paid_def [symmetric] bank_decision_def [symmetric]
        reserve_bank_transaction_def sepay_need_def require_def keep_sepay_def rows_update_def bank_confirmed_def [symmetric] on_funds_def within_def)
  then show ?thesis by blast
qed

lemma bank_finishes:
  assumes "order_uuid (CHR ''3'') \<notin> au_id ` set au" "order_uuid (CHR ''3'') \<notin> ob_id ` set ob"
    and "db = bank_stage (bank_funds t au ob [sample_tip_row] [bound_intent] []) [bank_inbox] [bank_taken (order_uuid (CHR ''9''))] [] []"
  shows "\<exists>a e. finish_event settle_sample_cfg settle_sample_ports (bank_draw (CHR ''3'')) (bank_claim bank_inbox) ''worker'' None db db db db =
    Inr (bank_stage (bank_funds t (au @ [a]) (ob @ [e]) [bank_paid_tip] [bank_paid_intent] [bank_paid]) [bank_inbox] [bank_confirmed] [bank_decision]
      [bank_settled_transaction (order_uuid (CHR ''9''))], OutcomeConfirmed)"
proof -
  have "hash_domain ''sepay-automatic-confirm''" by code_simp
  then have hash: "sepay_hash settle_sample_cfg ''automatic-confirm'' (order_uuid (CHR ''9'')) = Inr sample_mac"
    using fund_sample_digest [of "''sepay-automatic-confirm''" "order_uuid (CHR ''9'')"] by (simp add: sepay_hash_def within_def order_uuid_def)
  obtain a e where w: "settle_write settle_sample_cfg (bank_draw (CHR ''3'')) bank_examined (order_uuid (CHR ''9'')) sample_mac None
      (bank_lock (bank_taken (order_uuid (CHR ''9'')))) db =
    Inr (bank_stage (bank_funds t (au @ [a]) (ob @ [e]) [bank_paid_tip] [bank_paid_intent] [bank_paid]) [bank_inbox] [bank_confirmed] [bank_decision]
      [bank_settled_transaction (order_uuid (CHR ''9''))])"
    using bank_written [OF assms(1,2)] unfolding assms(3) by blast
  have "settle_event settle_sample_cfg settle_sample_ports (bank_draw (CHR ''3'')) bank_examined ''worker'' (order_uuid (CHR ''9'')) None db =
    Inr (bank_stage (bank_funds t (au @ [a]) (ob @ [e]) [bank_paid_tip] [bank_paid_intent] [bank_paid]) [bank_inbox] [bank_confirmed] [bank_decision]
      [bank_settled_transaction (order_uuid (CHR ''9''))])"
    using hash w bank_locks by (simp add: settle_event_def review_begin_def review_complete_def assms(3))
  moreover have "ec_inbox (bank_claim bank_inbox) = bank_inbox" by (simp add: bank_claim_def)
  ultimately have "finish_event settle_sample_cfg settle_sample_ports (bank_draw (CHR ''3'')) (bank_claim bank_inbox) ''worker'' None db db db db =
    Inr (bank_stage (bank_funds t (au @ [a]) (ob @ [e]) [bank_paid_tip] [bank_paid_intent] [bank_paid]) [bank_inbox] [bank_confirmed] [bank_decision]
      [bank_settled_transaction (order_uuid (CHR ''9''))], OutcomeConfirmed)"
    using bank_examines by (simp add: finish_event_def assms(3))
  then show ?thesis by blast
qed

lemma bank_redelivered:
  "receive settle_sample_cfg (bank_draw x) bank_request (bank_stage (bank_funds t au ob ts is ms) [bank_inbox] ps ds bs)
     (bank_stage (bank_funds t au ob ts is ms) [bank_inbox] ps ds bs) = Inr (bank_stage (bank_funds t au ob ts is ms) [bank_inbox] ps ds bs, IngressDuplicate)"
  by (simp add: bank_admitted receive_transaction_def sepay_want_def orThrow_def sepay_need_def require_def event_id_of_def event_digest_def)
    (simp add: bank_event_def)

subsection \<open>The run\<close>

abbreviation bank_begin :: sepay_db where
  "bank_begin \<equiv> bank_stage (bank_funds [] [] [] [] [] []) [] [] [] []"

abbreviation bank_busy :: "idem_table \<Rightarrow> audit_row list \<Rightarrow> outbox_row list \<Rightarrow> sepay_db" where
  "bank_busy t au ob \<equiv> bank_stage (bank_funds t au ob [sample_tip_row] [bound_intent] []) [bank_inbox] [bank_taken (order_uuid (CHR ''9''))] [] []"

abbreviation bank_end :: "idem_table \<Rightarrow> audit_row list \<Rightarrow> outbox_row list \<Rightarrow> sepay_db" where
  "bank_end t au ob \<equiv> bank_stage (bank_funds t au ob [bank_paid_tip] [bank_paid_intent] [bank_paid]) [bank_inbox] [bank_confirmed] [bank_decision]
     [bank_settled_transaction (order_uuid (CHR ''9''))]"

lemma bank_run:
  "\<exists>t au ob a e past. rtranclp sepay_step [bank_begin] (bank_busy t au ob # past) \<and>
     finish_event settle_sample_cfg settle_sample_ports (bank_draw (CHR ''3'')) (bank_claim bank_inbox) ''worker'' None
       (bank_busy t au ob) (bank_busy t au ob) (bank_busy t au ob) (bank_busy t au ob) = Inr (bank_end t (au @ [a]) (ob @ [e]), OutcomeConfirmed)"
proof -
  let ?k = "order_uuid (CHR ''9'')" and ?s0 = "bank_stage (bank_funds [] [] [] [] [] []) [] [] [] []"
  obtain r a e v where c: "createTip bank_fund_cfg fund_sample_ports (\<lambda>_. fund_sample_draw (CHR ''1'')) sample_tip (bank_funds [] [] [] [] [] []) =
     Inr (bank_funds [r] [a] [e] [sample_tip_row] [bound_intent] [], v)" "au_id a = order_uuid (CHR ''1'')" "ob_id e = order_uuid (CHR ''1'')"
    using bound_creation by blast
  let ?s1 = "bank_stage (bank_funds [r] [a] [e] [sample_tip_row] [bound_intent] []) [] [] [] []"
  have one: "sepay_step [?s0] [?s1, ?s0]"
    by (rule event_fund [of _ "bank_funds [r] [a] [e] [sample_tip_row] [bound_intent] []"])
      (use step_create [OF c(1)] bank_open_constraints(2) in \<open>simp_all add: keep_sepay_def\<close>)
  obtain e2 where d: "receive settle_sample_cfg (bank_draw (CHR ''9'')) bank_request ?s1 ?s1 =
      Inr (bank_stage (bank_funds [r] [a] ([e] @ [e2]) [sample_tip_row] [bound_intent] []) [bank_inbox] [bank_pending ?k] [] [], IngressAccepted)" "ob_id e2 = ?k"
    using bank_received [of "[e]" "[r]" "[a]"] c(3) by (auto simp: order_uuid_def)
  let ?s2 = "bank_stage (bank_funds [r] [a] ([e] @ [e2]) [sample_tip_row] [bound_intent] []) [bank_inbox] [bank_pending ?k] [] []"
  have two: "sepay_step [?s1, ?s0] [?s2, ?s1, ?s0]" by (rule event_receive [OF d(1)]) simp
  let ?s3 = "bank_stage (bank_funds [r] [a] ([e] @ [e2]) [sample_tip_row] [bound_intent] []) [bank_inbox] [bank_taken ?k] [] []"
  have "claim_event settle_sample_cfg settle_sample_ports (bank_draw (CHR ''2'')) ''worker'' (ib_id bank_inbox) None ?s2 = Inr (?s3, Taken (bank_claim bank_inbox))"
    by (rule bank_claimed) (use bank_open_constraints(5) in \<open>simp_all add: rows_update_def bank_taken_def [symmetric]\<close>)
  then have three: "sepay_step [?s2, ?s1, ?s0] [?s3, ?s2, ?s1, ?s0]" by (rule event_claim)
  have steps: "rtranclp sepay_step [?s0] [?s3, ?s2, ?s1, ?s0]"
    using one two three by (meson converse_rtranclp_into_rtranclp r_into_rtranclp)
  have "order_uuid (CHR ''3'') \<notin> au_id ` set [a]" "order_uuid (CHR ''3'') \<notin> ob_id ` set ([e] @ [e2])" using c(2,3) d(2) by (simp_all add: order_uuid_def)
  from bank_finishes [OF this refl] show ?thesis using steps by blast
qed

lemma bank_settled_run:
  "\<exists>t au ob past. rtranclp sepay_step [bank_begin] (bank_end t au ob # past)"
proof -
  obtain t au ob a e past where run: "rtranclp sepay_step [bank_begin] (bank_busy t au ob # past)"
    "finish_event settle_sample_cfg settle_sample_ports (bank_draw (CHR ''3'')) (bank_claim bank_inbox) ''worker'' None
       (bank_busy t au ob) (bank_busy t au ob) (bank_busy t au ob) (bank_busy t au ob) = Inr (bank_end t (au @ [a]) (ob @ [e]), OutcomeConfirmed)"
    using bank_run by blast
  have "sepay_step (bank_busy t au ob # past) (bank_end t (au @ [a]) (ob @ [e]) # bank_busy t au ob # past)"
    by (rule event_finish [OF run(2)]) simp_all
  with run(1) have "rtranclp sepay_step [bank_begin] (bank_end t (au @ [a]) (ob @ [e]) # bank_busy t au ob # past)"
    by (rule rtranclp.rtrancl_into_rtrancl)
  then show ?thesis by blast
qed

end
