(* ===== verification/SettlementProperties.thy ===== *)
theory SettlementProperties
  imports SettlementSample FundProperties
begin

text \<open>
  The properties of the payments with both lanes, transfers confirmed by hand and settled by bank events: money and
  product agree in every reachable database, a bank transaction pays once and rests on a transfer the provider
  reported, failures pay nothing, events are exclusive while they are processed and are never received twice.
\<close>

subsection \<open>Reachable databases\<close>

lemma reachable_sepay:
  assumes "sepay_start h0" "rtranclp sepay_step h0 (db # past)"
  shows "sepay_constraints db" "fund_constraints (sd_funds db)" "agrees (money_of (sd_funds db))" "backed db"
    "\<And>old. old \<in> set (db # past) \<Longrightarrow> precedes old db"
proof -
  have inv: "sepay_inv (db # past)" by (rule sepay.reach_inv [OF assms])
  then show "sepay_constraints db" "agrees (money_of (sd_funds db))" "backed db" "\<And>old. old \<in> set (db # past) \<Longrightarrow> precedes old db"
    by (simp_all add: sepay_inv_def sepay_ok_def list_all_iff) blast
  then show "fund_constraints (sd_funds db)" by (simp add: sepay_constraints_def)
qed

text \<open>C2: In every database the payment services can reach, whatever commands, confirmations, bank events,
  scans and order commands were interleaved: an intent has exactly one confirmation, of its creator, amount,
  account and closing time, when it is confirmed, and none otherwise; the tip it pays is in the state of
  the intent since the same time; and the order it pays was confirmed at the time the intent was, or not at all.\<close>

theorem money_and_product_agree:
  assumes "sepay_start h0" "rtranclp sepay_step h0 (db # past)" "r \<in> set (fd_intents (sd_funds db))"
  shows "confirmation_facts (pi_id r) (sd_funds db) =
      (if pi_state r = IntentConfirmed then [(pi_creatorUserId r, pi_amountVnd r, pi_accountVersionId r, pi_closedAt r)] else []) \<and>
    (case pi_tipId r of
       Some k \<Rightarrow> tip_facts k (sd_funds db) = [(pi_creatorUserId r, pi_amountVnd r, tip_state_of (pi_state r), pi_closedAt r)]
     | None \<Rightarrow> (case pi_commissionOrderId r of None \<Rightarrow> False | Some k \<Rightarrow> confirmed_at (fd_orders (sd_funds db)) k = paid_at r))"
  by (rule money_and_product [OF reachable_sepay(2,3) [OF assms(1,2)] assms(3)])

theorem money_and_product_agree_witness:
  "\<exists>db past. sepay_start [bank_begin] \<and> rtranclp sepay_step [bank_begin] (db # past) \<and>
     confirmation_facts (order_uuid (CHR ''1'')) (sd_funds db) = [(''creator-1'', 20000, order_uuid (CHR ''a''), Some 1770951660000)] \<and>
     tip_facts (order_uuid (CHR ''1'')) (sd_funds db) = [(''creator-1'', 20000, TipCompleted, Some 1770951660000)]"
proof -
  obtain t au ob past where run: "rtranclp sepay_step [bank_begin] (bank_end t au ob # past)" using bank_settled_run by blast
  have r: "pi_id bank_paid_intent = order_uuid (CHR ''1'')" "pi_state bank_paid_intent = IntentConfirmed" "pi_closedAt bank_paid_intent = Some 1770951660000"
    "pi_creatorUserId bank_paid_intent = ''creator-1''" "pi_amountVnd bank_paid_intent = 20000" "pi_accountVersionId bank_paid_intent = order_uuid (CHR ''a'')"
    "pi_tipId bank_paid_intent = Some (order_uuid (CHR ''1''))"
    by (simp_all add: bank_paid_intent_def confirmed_intent_def transfer_time_def)
  have "confirmation_facts (order_uuid (CHR ''1'')) (sd_funds (bank_end t au ob)) = [(''creator-1'', 20000, order_uuid (CHR ''a''), Some 1770951660000)]"
    "tip_facts (order_uuid (CHR ''1'')) (sd_funds (bank_end t au ob)) = [(''creator-1'', 20000, TipCompleted, Some 1770951660000)]"
    using money_and_product_agree [OF bank_start run, of bank_paid_intent] by (simp_all add: r tip_state_of_def)
  then show ?thesis using bank_start run by blast
qed

text \<open>C7: No tip is completed and no order goes into progress without money: each rests on a confirmation
  that observed exactly its price, at the time it was completed, on an intent that was made for it.\<close>

theorem no_product_without_money:
  assumes "sepay_start h0" "rtranclp sepay_step h0 (db # past)" "(k, amount, at) \<in> set (paid_products (sd_funds db))"
  shows "\<exists>r m. r \<in> set (fd_intents (sd_funds db)) \<and> m \<in> set (fd_confirmations (sd_funds db)) \<and>
    (pi_tipId r = Some k \<or> pi_commissionOrderId r = Some k) \<and>
    pm_paymentIntentId m = pi_id r \<and> amount = Some (pm_observedAmountVnd m) \<and> at = Some (pm_confirmedAt m)"
  by (rule paid_for [OF reachable_sepay(2,3) [OF assms(1,2)] assms(3)])

theorem no_product_without_money_witness:
  "\<exists>db past r m. rtranclp sepay_step [bank_begin] (db # past) \<and> paid_products (sd_funds db) = [(order_uuid (CHR ''1''), Some 20000, Some 1770951660000)] \<and>
     r \<in> set (fd_intents (sd_funds db)) \<and> m \<in> set (fd_confirmations (sd_funds db)) \<and> pm_paymentIntentId m = pi_id r \<and>
     pm_observedAmountVnd m = 20000 \<and> pm_confirmedAt m = 1770951660000"
proof -
  obtain t au ob past where run: "rtranclp sepay_step [bank_begin] (bank_end t au ob # past)" using bank_settled_run by blast
  have orders: "od_orders (fd_orders (bank_funds t au ob ts is ms)) = []" for ts "is" ms
    by (simp add: bank_funds_def with_bank_def fund_stage_def empty_orders_def)
  have paid: "paid_products (sd_funds (bank_end t au ob)) = [(order_uuid (CHR ''1''), Some 20000, Some 1770951660000)]"
    by (simp add: paid_products_def orders) (simp add: bank_paid_tip_def closed_tip_def transfer_time_def)
  have "(order_uuid (CHR ''1''), Some 20000, Some 1770951660000) \<in> set (paid_products (sd_funds (bank_end t au ob)))" unfolding paid by simp
  from no_product_without_money [OF bank_start run this] obtain r m where
    "r \<in> set (fd_intents (sd_funds (bank_end t au ob)))" "m \<in> set (fd_confirmations (sd_funds (bank_end t au ob)))" "pm_paymentIntentId m = pi_id r"
    "Some 20000 = Some (pm_observedAmountVnd m)" "Some 1770951660000 = Some (pm_confirmedAt m)"
    by blast
  then show ?thesis using run paid
    by (intro exI [where x = "bank_end t au ob"] exI [where x = past] exI [where x = r] exI [where x = m]) (simp del: bank_stage_simps)
qed

text \<open>C4: Every run of the payment services, with both lanes and everything they check, seal and record, is on
  intents, tips, confirmations and confirmed orders a run of the ledger that only opens an intent with its tip, pays
  it with its product, or closes it.\<close>

theorem payments_refine_ledger:
  assumes "sepay_start h0" "rtranclp sepay_step h0 h"
  shows "rtranclp money_move (money_of (sd_funds (hd h0))) (money_of (sd_funds (hd h)))"
  by (rule sepay.runs_simulate [OF assms(2)]) (rule sepay.start_inv [OF assms(1)])

theorem payments_refine_ledger_witness:
  "\<exists>h. sepay_start [bank_begin] \<and> rtranclp sepay_step [bank_begin] h \<and> mn_confirmations (money_of (sd_funds (hd h))) = [bank_paid] \<and>
     rtranclp money_move (money_of (sd_funds bank_begin)) (money_of (sd_funds (hd h)))"
proof -
  obtain t au ob past where run: "rtranclp sepay_step [bank_begin] (bank_end t au ob # past)" using bank_settled_run by blast
  have "rtranclp money_move (money_of (sd_funds bank_begin)) (money_of (sd_funds (bank_end t au ob)))"
    using payments_refine_ledger [OF bank_start run] by (simp only: list.sel)
  moreover have "mn_confirmations (money_of (sd_funds (bank_end t au ob))) = [bank_paid]" by (simp add: money_of_def)
  ultimately show ?thesis using bank_start run by (intro exI [where x = "bank_end t au ob # past"]) (simp only: list.sel)
qed

text \<open>C19: What is settled is final: from any reachable database on, whatever steps follow, a closed
  intent, a closed tip, a confirmation, a bank transaction and the state of a confirmed event stay as they are, in every column.\<close>

theorem settled_payments_are_final:
  assumes "sepay_start h0" "rtranclp sepay_step h0 (db # past)" "rtranclp sepay_step (db # past) (db' # past')"
  shows "set (filter (\<lambda>r. pi_state r \<noteq> AwaitingTransfer) (fd_intents (sd_funds db))) \<subseteq> set (fd_intents (sd_funds db')) \<and>
    set (filter (\<lambda>t. tp_state t \<noteq> TipAwaiting) (fd_tips (sd_funds db))) \<subseteq> set (fd_tips (sd_funds db')) \<and>
    set (fd_confirmations (sd_funds db)) \<subseteq> set (fd_confirmations (sd_funds db')) \<and>
    set (sd_transactions db) \<subseteq> set (sd_transactions db') \<and>
    set (filter (\<lambda>s. ps_status s = EventConfirmed) (sd_processing db)) \<subseteq> set (sd_processing db')"
proof -
  have "db \<in> set (db' # past')" using sepay_steps_grow [OF assms(3)] by auto
  then have "precedes db db'" by (rule reachable_sepay(5) [OF assms(1) rtranclp_trans [OF assms(2,3)]])
  then show ?thesis by (auto simp: precedes_def kept_def money_of_def confirmed_events_def)
qed

theorem settled_payments_are_final_witness:
  "\<exists>db past db' past'. rtranclp sepay_step [bank_begin] (db # past) \<and> sepay_step (db # past) (db' # past') \<and>
     bank_paid \<in> set (fd_confirmations (sd_funds db)) \<and> bank_paid \<in> set (fd_confirmations (sd_funds db'))"
proof -
  obtain t au ob past where run: "rtranclp sepay_step [bank_begin] (bank_end t au ob # past)" using bank_settled_run by blast
  have "receive settle_sample_cfg (bank_draw (CHR ''4'')) bank_request (bank_end t au ob) (bank_end t au ob) = Inr (bank_end t au ob, IngressDuplicate)"
    by (rule bank_redelivered)
  then have step: "sepay_step (bank_end t au ob # past) (bank_end t au ob # bank_end t au ob # past)" by (rule event_receive) simp
  have one: "bank_paid \<in> set (fd_confirmations (sd_funds (bank_end t au ob)))" by simp
  have "bank_paid \<in> set (fd_confirmations (sd_funds (bank_end t au ob)))"
    using settled_payments_are_final [OF bank_start run r_into_rtranclp [where r = sepay_step, OF step]] one by blast
  then show ?thesis using run step one by blast
qed

subsection \<open>A bank transaction pays once\<close>

definition paid_by_provider :: "string \<Rightarrow> sepay_db \<Rightarrow> (string \<times> int \<times> instant) list" where
  "paid_by_provider k db = map (\<lambda>m. (pm_paymentIntentId m, pm_observedAmountVnd m, pm_confirmedAt m))
     (filter (\<lambda>m. pm_providerTransactionId m = Some k) (fd_confirmations (sd_funds db)))"

definition intent_facts :: "string \<Rightarrow> sepay_db \<Rightarrow> (intent_state \<times> instant option \<times> int) list" where
  "intent_facts k db = map (\<lambda>r. (pi_state r, pi_closedAt r, pi_amountVnd r)) (filter (\<lambda>r. pi_id r = k) (fd_intents (sd_funds db)))"

lemma single_where:
  assumes "unique_where f t" "x \<in> set t" "f x = Some v"
  shows "filter (\<lambda>y. f y = Some v) t = [x]"
proof -
  have "filter (\<lambda>y. f y = Some v) t = filter (\<lambda>y. f y = f x) (filter (\<lambda>y. f y \<noteq> None) t)"
    using assms(3) by (auto intro!: filter_cong simp: filter_filter)
  also have "\<dots> = [x]" by (rule single_key) (use assms in \<open>auto simp: unique_where_def\<close>)
  finally show ?thesis .
qed

text \<open>C6: A transfer reported by the provider pays exactly once: in every reachable database the bank
  transactions have different provider identities, each has one single confirmation, of the intent it was
  reserved for, of its amount and time, and that intent is confirmed since then with that amount.\<close>

theorem provider_transaction_pays_once:
  assumes "sepay_start h0" "rtranclp sepay_step h0 (db # past)" "t \<in> set (sd_transactions db)"
  shows "filter (\<lambda>u. bank_identity u = bank_identity t) (sd_transactions db) = [t] \<and>
    paid_by_provider (bt_id t) db = [(bt_paymentIntentId t, bt_amountVnd t, bt_verifiedAt t)] \<and>
    intent_facts (bt_paymentIntentId t) db = [(IntentConfirmed, Some (bt_verifiedAt t), bt_amountVnd t)]"
proof -
  note inv = reachable_sepay [OF assms(1,2)]
  have keys: "distinct (map bank_identity (sd_transactions db))" "unique_where pm_providerTransactionId (fd_confirmations (sd_funds db))"
      "distinct (map pi_id (fd_intents (sd_funds db)))"
    using inv(1,2) by (simp_all add: sepay_constraints_def bank_transactions_ok_def fund_constraints_def confirmations_ok_def intents_ok_def)
  obtain m where m: "m \<in> set (fd_confirmations (sd_funds db))" "pays t m"
    using inv(4) assms(3) by (auto simp: backed_def list_all_iff list_ex_iff)
  have "confirmation_binding m \<in> intent_binding ` set (fd_intents (sd_funds db))"
    using inv(2) m(1) by (auto simp: fund_constraints_def fund_references_ok_def)
  then obtain r where r: "r \<in> set (fd_intents (sd_funds db))" "confirmation_binding m = intent_binding r" by auto
  have ids: "pi_id r = bt_paymentIntentId t" "pi_amountVnd r = bt_amountVnd t"
    using r(2) m(2) by (simp_all add: pays_def confirmation_binding_def intent_binding_def)
  let ?ms = "filter (\<lambda>m. pm_paymentIntentId m = pi_id r) (fd_confirmations (sd_funds db))"
  have "m \<in> set ?ms" using m r(2) by (simp add: confirmation_binding_def intent_binding_def)
  then have "(confirmation_binding m, Some (pm_confirmedAt m)) \<in> set (map (\<lambda>m. (confirmation_binding m, Some (pm_confirmedAt m))) ?ms)"
    unfolding set_map by (rule imageI)
  moreover have "map (\<lambda>m. (confirmation_binding m, Some (pm_confirmedAt m))) ?ms = (if pi_state r = IntentConfirmed then [(intent_binding r, pi_closedAt r)] else [])"
    using agreeing_row(1) [OF inv(2,3) r(1)] by (simp add: row_agrees_def money_of_def)
  ultimately have closed: "pi_state r = IntentConfirmed" "pi_closedAt r = Some (pm_confirmedAt m)" by (simp_all split: if_splits)
  have "paid_by_provider (bt_id t) db = [(bt_paymentIntentId t, bt_amountVnd t, bt_verifiedAt t)]"
    using single_where [OF keys(2) m(1)] m(2) by (simp add: paid_by_provider_def pays_def)
  moreover have "intent_facts (bt_paymentIntentId t) db = [(IntentConfirmed, Some (bt_verifiedAt t), bt_amountVnd t)]"
    using single_key [OF keys(3) r(1)] closed m(2) by (simp add: intent_facts_def ids pays_def)
  ultimately show ?thesis using single_key [OF keys(1) assms(3)] by blast
qed

theorem provider_transaction_pays_once_witness:
  "\<exists>db past t. rtranclp sepay_step [bank_begin] (db # past) \<and> sd_transactions db = [t] \<and>
     paid_by_provider (bt_id t) db = [(order_uuid (CHR ''1''), 20000, 1770951660000)]"
proof -
  obtain t au ob past where run: "rtranclp sepay_step [bank_begin] (bank_end t au ob # past)" using bank_settled_run by blast
  let ?t = "bank_settled_transaction (order_uuid (CHR ''9''))"
  have "paid_by_provider (bt_id ?t) (bank_end t au ob) = [(bt_paymentIntentId ?t, bt_amountVnd ?t, bt_verifiedAt ?t)]"
    using provider_transaction_pays_once [OF bank_start run, of ?t] by simp
  then have "paid_by_provider (bt_id ?t) (bank_end t au ob) = [(order_uuid (CHR ''1''), 20000, 1770951660000)]" by (simp add: transfer_time_def)
  moreover have "sd_transactions (bank_end t au ob) = [?t]" by simp
  ultimately show ?thesis using run by blast
qed

subsection \<open>A bank transaction rests on a transfer\<close>

lemma matched_transfer:
  assumes "matchSePayTip i b event readback cap now = Matched t"
  obtains rows where "readback = Complete rows" "filter (\<lambda>r. st_id r = se_id event \<or> st_reference r = Some (si_transferReference i)) rows = [t]"
    "st_amountVnd t = si_amountVnd i" "st_direction t = DirectionIn" "st_id t = se_id event" "st_reference t = se_reference event"
    "st_occurredAt t \<le> now" "st_occurredAt t < si_expiresAt i"
proof -
  obtain u where u: "si_cutoverAt i = Some u" using assms by (cases "si_cutoverAt i") (simp_all add: matchSePayTip_def split: if_split_asm)
  obtain rows where rows: "readback = Complete rows" using assms by (cases readback) (simp_all add: matchSePayTip_def u split: if_split_asm)
  obtain x others where f: "filter (\<lambda>r. st_id r = se_id event \<or> st_reference r = Some (si_transferReference i)) rows = x # others"
    using assms by (cases "filter (\<lambda>r. st_id r = se_id event \<or> st_reference r = Some (si_transferReference i)) rows")
      (simp_all add: matchSePayTip_def u rows split: if_split_asm)
  have "others = [] \<and> x = t \<and> st_amountVnd t = si_amountVnd i \<and> st_direction t = DirectionIn \<and> st_id t = se_id event \<and>
      st_reference t = se_reference event \<and> st_occurredAt t \<le> now \<and> st_occurredAt t < si_expiresAt i"
    using assms by (simp add: matchSePayTip_def u rows f split: if_split_asm)
  then show thesis using that [of rows] rows f by simp
qed

text \<open>C8: A payment by the provider rests on a transfer the provider itself reported: processing an event
  confirms only an open provider-bound intent, for an incoming transaction of the readback with the id of the event, the
  amount of the intent and the reference the intent was made with, made before and in time, under a lease on the event
  that is held and runs at that moment, and with no contradicting delivery of the event.\<close>

theorem provider_payment_rests_on_transfer:
  assumes "sepay_start h0" "rtranclp sepay_step h0 (db # past)" "seen \<in> set (db # past)"
    and "finish_event cfg ports dw claim owner review seen seen2 db late = Inr (db', OutcomeConfirmed)"
  shows "\<exists>r m t u reference rows token b event t1 t2.
    r \<in> set (fd_intents (sd_funds db)) \<and> pending_intent (pm_confirmedAt m) r \<and> pi_settlementLane r = ProviderBound \<and>
    fd_confirmations (sd_funds db') = fd_confirmations (sd_funds db) @ [m] \<and> confirmation_binding m = intent_binding r \<and>
    sd_transactions db' = sd_transactions db @ [t] \<and> pm_providerTransactionId m = Some (bt_id t) \<and> bt_providerTransactionId t = st_id u \<and>
    sp_readback ports token b event t1 t2 = Inr (Complete rows) \<and> u \<in> set rows \<and>
    st_id u = ib_providerEventId (ec_inbox claim) \<and> st_direction u = DirectionIn \<and> st_amountVnd u = pi_amountVnd r \<and>
    st_reference u = Some reference \<and> fund_digest (sf_fund cfg) ''tip-transfer-reference'' reference = Inr (pi_referenceHash r) \<and>
    st_occurredAt u \<le> pm_confirmedAt m \<and>
    list_ex (\<lambda>s. ps_inboxId s = ib_id (ec_inbox claim) \<and> ps_leaseOwner s = Some owner \<and> event_leased (pm_confirmedAt m) s) (sd_processing db) \<and>
    ib_id (ec_inbox claim) \<notin> ic_inboxId ` set (sd_conflicts db)"
proof -
  note inv = reachable_sepay [OF assms(1,2)]
  let ?k = "ib_id (ec_inbox claim)"
  obtain x where x: "examine cfg ports dw claim (review \<noteq> None) seen seen2 = Inr (Inr x)"
    and run: "settle_event cfg ports dw x owner ?k review db = Inr db'"
    using assms(4) by (cases rule: finish_event_cases) (auto dest: dispose_effect(6) split: if_splits)
  have e: "evidence_of cfg ports claim seen (dw_clock dw 9) x" by (rule examine_Inr [OF x])
  have c: "ex_candidate x \<in> set (fd_intents (sd_funds seen))" "readPaymentPurpose (ex_candidate x) = Some (ex_purpose x)"
      "stored_event cfg (ec_inbox claim) = Inr (Inr (ex_event x))" "si_amountVnd (ex_matchIntent x) = pi_amountVnd (ex_candidate x)"
      "match_at cfg x (dw_clock dw 9) = Matched (ex_transaction x)"
    using e by (simp_all add: evidence_of_def)
  obtain r where r: "r \<in> set (fd_intents (sd_funds db))" "same_intent (ex_candidate x) r"
    using carriedE [of "fd_intents (sd_funds seen)" "fd_intents (sd_funds db)", OF _ c(1)] inv(5) [OF assms(3)] by (auto simp: precedes_def)
  obtain l keyHash where l: "settlement_found cfg x owner ?k (review \<noteq> None) db l" "sl_intent l = r"
    and w: "settled_by ?k (sl_at l) (bank_transaction cfg dw x ?k l) (provider_confirmation cfg dw keyHash review l) db db'"
    by (rule settle_event_effect [OF run inv(1) c(2) r])
  let ?m = "provider_confirmation cfg dw keyHash review l" and ?t = "bank_transaction cfg dw x ?k l" and ?u = "ex_transaction x"
  note m = settlement_binding(1,2) [of cfg dw keyHash review l, unfolded l(2)]
  obtain rows where u: "ex_readback x = Complete rows" "filter (\<lambda>r. st_id r = se_id (ex_event x) \<or> st_reference r = Some (si_transferReference (ex_matchIntent x))) rows = [?u]"
      "st_amountVnd ?u = si_amountVnd (ex_matchIntent x)" "st_direction ?u = DirectionIn" "st_id ?u = se_id (ex_event x)" "st_reference ?u = se_reference (ex_event x)"
    by (rule matched_transfer [OF c(5) [unfolded match_at_def]])
  obtain u2 where "matchSePayTip (ex_matchIntent x) (ex_binding x) (ex_event x) (ex_readback x) (sf_capabilities cfg) (sl_at l) = Matched u2"
    using l(1) by (auto simp: settlement_found_def match_at_def split: sepay_match.splits)
  then have late: "st_occurredAt ?u \<le> sl_at l" by (rule matched_transfer) (use u(1,2) in simp)
  have rows: "?u \<in> set rows" using arg_cong [OF u(2), of set] by auto
  obtain token b t1 t2 where readback: "sp_readback ports token b (ex_event x) t1 t2 = Inr (Complete rows)"
    using e u(1) by (auto simp: evidence_of_def)
  obtain reference where ref: "se_reference (ex_event x) = Some reference"
      "fund_digest (sf_fund cfg) ''tip-transfer-reference'' reference = Inr (pi_referenceHash r)"
    using e r(2) by (auto simp: evidence_of_def same_intent_def intent_binding_def split: option.splits)
  have id: "se_id (ex_event x) = ib_providerEventId (ec_inbox claim)" by (rule stored_event_Inr [OF c(3)])
  have open_now: "pending_intent (sl_at l) r" "pi_settlementLane r = ProviderBound" "?k \<notin> ic_inboxId ` set (sd_conflicts db)"
    using l by (simp_all add: settlement_found_def intent_current_def lease_current_def)
  have leased: "list_ex (\<lambda>s. ps_inboxId s = ?k \<and> ps_leaseOwner s = Some owner \<and> event_leased (sl_at l) s) (sd_processing db)"
    using l(1) processing_of_row(1) [OF inv(1), of ?k "sl_state l"]
    by (auto simp: settlement_found_def lease_current_def lease_held_def event_leased_def list_ex_iff)
  have amount: "st_amountVnd ?u = pi_amountVnd r" using u(3) c(4) r(2) by (simp add: same_intent_def)
  have t: "bt_providerTransactionId ?t = st_id ?u" by (simp add: bank_transaction_def Let_def)
  have last: "pending_intent (pm_confirmedAt ?m) r" "st_id ?u = ib_providerEventId (ec_inbox claim)" "st_reference ?u = Some reference"
      "st_occurredAt ?u \<le> pm_confirmedAt ?m"
      "list_ex (\<lambda>s. ps_inboxId s = ?k \<and> ps_leaseOwner s = Some owner \<and> event_leased (pm_confirmedAt ?m) s) (sd_processing db)"
    using open_now(1) u(5,6) id ref(1) late leased by (simp_all only: m(2))
  have added: "fd_confirmations (sd_funds db') = fd_confirmations (sd_funds db) @ [?m]" "sd_transactions db' = sd_transactions db @ [?t]"
    using w by (simp_all add: settled_by_def)
  show ?thesis
    by (rule exI [where x = r], rule exI [where x = ?m], rule exI [where x = ?t], rule exI [where x = ?u], rule exI [where x = reference],
      rule exI [where x = rows], rule exI [where x = token], rule exI [where x = b], rule exI [where x = "ex_event x"], rule exI [where x = t1],
      rule exI [where x = t2]) (intro conjI; fact r(1) last open_now(2,3) added m(1) settlement_binding(3) t readback rows u(4) amount ref(2))
qed

theorem provider_payment_rests_on_transfer_witness:
  "\<exists>db db' past m rows u. rtranclp sepay_step [bank_begin] (db # past) \<and> rows = [bank_row] \<and> u \<in> set rows \<and>
     finish_event settle_sample_cfg settle_sample_ports (bank_draw (CHR ''3'')) (bank_claim bank_inbox) ''worker'' None db db db db = Inr (db', OutcomeConfirmed) \<and>
     fd_confirmations (sd_funds db') = fd_confirmations (sd_funds db) @ [m] \<and> st_id u = ''42'' \<and> st_direction u = DirectionIn"
proof -
  obtain t au ob a e past where run: "rtranclp sepay_step [bank_begin] (bank_busy t au ob # past)"
    "finish_event settle_sample_cfg settle_sample_ports (bank_draw (CHR ''3'')) (bank_claim bank_inbox) ''worker'' None
       (bank_busy t au ob) (bank_busy t au ob) (bank_busy t au ob) (bank_busy t au ob) = Inr (bank_end t (au @ [a]) (ob @ [e]), OutcomeConfirmed)"
    using bank_run by blast
  have "bank_busy t au ob \<in> set (bank_busy t au ob # past)" by simp
  from provider_payment_rests_on_transfer [OF bank_start run(1) this run(2)] obtain m rows u token b event t1 t2 where
    "sp_readback settle_sample_ports token b event t1 t2 = Inr (Complete rows)" "u \<in> set rows"
    "fd_confirmations (sd_funds (bank_end t (au @ [a]) (ob @ [e]))) = fd_confirmations (sd_funds (bank_busy t au ob)) @ [m]"
    "st_id u = ib_providerEventId (ec_inbox (bank_claim bank_inbox))" "st_direction u = DirectionIn"
    by (elim exE conjE) (rule that, assumption+)
  moreover have "ib_providerEventId (ec_inbox (bank_claim bank_inbox)) = ''42''" by (simp add: bank_claim_def)
  moreover have "sp_readback settle_sample_ports token b event t1 t2 = Inr (Complete [bank_row])" by (simp add: settle_sample_ports_def)
  ultimately show ?thesis using run
    by (intro exI [where x = "bank_busy t au ob"] exI [where x = "bank_end t (au @ [a]) (ob @ [e])"] exI [where x = past] exI [where x = m] exI [where x = rows] exI [where x = u])
      (simp del: bank_stage_simps bank_funds_simps)
qed

text \<open>C15: Processing that fails pays nothing: whatever the reason, intents, tips, orders, confirmations, bank
  transactions and the received events stay as they are, in the database the event is put aside in. Of the processing
  rows only the one still under this lease changes: it loses the lease and keeps the reason, and goes back to pending,
  after the pause of the failure, exactly when the worker failed with attempts left for a reason that has a pause;
  otherwise it waits for the creator and a decision is put on record.\<close>

theorem failed_processing_pays_nothing:
  assumes "finish_event cfg ports dw claim owner review seen seen2 db late = Inr (db', out)" "out \<noteq> OutcomeConfirmed"
  shows "sd_funds db' = sd_funds late \<and> sd_transactions db' = sd_transactions late \<and> sd_inbox db' = sd_inbox late \<and> sd_conflicts db' = sd_conflicts late \<and>
    filter (\<lambda>s. ps_inboxId s \<noteq> ib_id (ec_inbox claim)) (sd_processing db') = filter (\<lambda>s. ps_inboxId s \<noteq> ib_id (ec_inbox claim)) (sd_processing late) \<and>
    (\<exists>reason pause. fails_with cfg ports dw claim owner review seen seen2 db reason pause \<and>
       out = (if pause \<noteq> None \<and> ps_attempts (ec_state claim) < sf_maxAttempts cfg \<and> review = None then OutcomeDeferred else OutcomeReview) \<and>
       sd_processing db' = map (\<lambda>s.
         if ps_inboxId s = ib_id (ec_inbox claim) \<and> ps_leaseOwner s = Some owner \<and> ps_status s = Processing
         then s\<lparr>ps_status := (if out = OutcomeDeferred then Pending else ReviewRequired), ps_version := ps_version s + 1, ps_leaseOwner := None,
           ps_leaseExpiresAt := None, ps_lastErrorCode := Some reason,
           ps_availableAt := dw_clock dw 20 + (case pause of None \<Rightarrow> 0 | Some n \<Rightarrow> n) * 1000, ps_updatedAt := dw_clock dw 21\<rparr>
         else s) (sd_processing late) \<and>
       sd_decisions db' = sd_decisions late @ (case List.find (lease_held (ib_id (ec_inbox claim)) owner) (sd_processing late) of None \<Rightarrow> []
         | Some s \<Rightarrow> if out = OutcomeDeferred then []
             else [\<lparr>dn_id = dw_id dw 20, dn_inboxId = ib_id (ec_inbox claim), dn_action = ''review_required'', dn_reason = reason, dn_actorUserId = None,
               dn_actorSessionId = None, dn_idempotencyKeyHash = None, dn_expectedVersion = ps_version s, dn_createdAt = dw_clock dw 22\<rparr>]))"
  using assms(1)
proof (cases rule: finish_event_cases)
  case (aside reason pause)
  note d = dispose_effect [OF aside(1)] and decisions = dispose_decisions [OF aside(1)]
  have others: "filter (\<lambda>s. ps_inboxId s \<noteq> ib_id (ec_inbox claim)) (rows_update (lease_held (ib_id (ec_inbox claim)) owner) f t) =
      filter (\<lambda>s. ps_inboxId s \<noteq> ib_id (ec_inbox claim)) t" if "\<And>s. ps_inboxId (f s) = ps_inboxId s" for f t
    using that by (induction t) (auto simp: rows_update_def lease_held_def)
  have rest: "filter (\<lambda>s. ps_inboxId s \<noteq> ib_id (ec_inbox claim)) (sd_processing db') = filter (\<lambda>s. ps_inboxId s \<noteq> ib_id (ec_inbox claim)) (sd_processing late)"
    unfolding d(7) by (rule others) (simp add: put_aside_def)
  have out: "out = OutcomeDeferred \<longleftrightarrow> retries cfg (review \<noteq> None) (ps_attempts (ec_state claim)) pause" using d(6) by simp
  have rows: "sd_processing db' = map (\<lambda>s.
         if ps_inboxId s = ib_id (ec_inbox claim) \<and> ps_leaseOwner s = Some owner \<and> ps_status s = Processing
         then s\<lparr>ps_status := (if out = OutcomeDeferred then Pending else ReviewRequired), ps_version := ps_version s + 1, ps_leaseOwner := None,
           ps_leaseExpiresAt := None, ps_lastErrorCode := Some reason,
           ps_availableAt := dw_clock dw 20 + (case pause of None \<Rightarrow> 0 | Some n \<Rightarrow> n) * 1000, ps_updatedAt := dw_clock dw 21\<rparr>
         else s) (sd_processing late)"
    unfolding d(7) out by (simp add: rows_update_def lease_held_def put_aside_def)
  have outcome: "out = (if pause \<noteq> None \<and> ps_attempts (ec_state claim) < sf_maxAttempts cfg \<and> review = None then OutcomeDeferred else OutcomeReview)"
    using d(6) by (simp add: retries_def)
  show ?thesis
    by (intro conjI d(2,3,4,5) rest, rule exI [where x = reason], rule exI [where x = pause], intro conjI aside(2) outcome rows decisions [folded out])
qed (use assms(2) in simp)

theorem failed_processing_pays_nothing_witness:
  "\<exists>db db'. finish_event settle_sample_cfg (settle_sample_ports\<lparr>sp_access := \<lambda>_. Inl (ProviderError ''unavailable'' None)\<rparr>) (bank_draw (CHR ''3''))
       (bank_claim bank_inbox) ''worker'' None db db db db = Inr (db', OutcomeDeferred) \<and> sd_funds db' = sd_funds db \<and> sd_transactions db' = []"
proof -
  let ?db = "bank_busy [] [] []" and ?k = "order_uuid (CHR ''9'')" and ?ports = "settle_sample_ports\<lparr>sp_access := \<lambda>_. Inl (ProviderError ''unavailable'' None)\<rparr>"
  let ?s = "put_aside True ''unavailable'' (80000 + transfer_time) (transfer_time + 60000) (bank_taken ?k)"
  have code: "error_code_ok ''unavailable''" by code_simp
  have row: "processing_check ?s" "ps_inboxId ?s = ?k" using code by (simp_all add: processing_check_def put_aside_def)
  have ok: "sepay_constraints (bank_stage (bank_funds [] [] [] [sample_tip_row] [bound_intent] []) [bank_inbox] [?s] [] [])"
    using bank_open_constraints(5) [of "[]" "[]" "[]"] row by (simp add: bank_stage_constraints sepay_references_ok_def)
  have digest: "fund_digest fund_sample_cfg ''tip-transfer-reference'' ''PW0123456789ABCDEF0123'' = Inr sample_mac"
    by (rule fund_sample_digest [OF fund_domains(4)]) simp_all
  have purpose: "readPaymentPurpose bound_intent = Some (TipPayment (order_uuid (CHR ''1'')))"
    using order_uuids(1) by (simp add: readPaymentPurpose_def isTipPayment_def)
  have lane: "lane_open settle_sample_cfg False (TipPayment k)" for k by (simp add: lane_open_def purpose_kind_def)
  have event: "se_reference bank_event = Some ''PW0123456789ABCDEF0123''" by (simp add: bank_event_def)
  have ports: "sp_access ?ports k = Inl (ProviderError ''unavailable'' None)" for k by simp
  have c: "ec_inbox (bank_claim bank_inbox) = bank_inbox" "ec_connection (bank_claim bank_inbox) = bound_connection"
    "ps_attempts (ec_state (bank_claim bank_inbox)) = 1" by (simp_all add: bank_claim_def)
  have "examine settle_sample_cfg ?ports (bank_draw (CHR ''3'')) (bank_claim bank_inbox) False ?db ?db = Inl (ProviderError ''unavailable'' None)"
    using purpose digest bank_stored lane
    by (simp add: examine_def c event find_candidate_def within_def transfer_time_def examine_readback_def ports)
  then have run: "finish_event settle_sample_cfg ?ports (bank_draw (CHR ''3'')) (bank_claim bank_inbox) ''worker'' None ?db ?db ?db ?db =
      Inr (bank_stage (bank_funds [] [] [] [sample_tip_row] [bound_intent] []) [bank_inbox] [?s] [] [], OutcomeDeferred)"
    using ok by (simp add: finish_event_def c failure_reason_def dispose_def Let_def lease_held_def rows_update_def keep_sepay_def)
  from failed_processing_pays_nothing [OF this] show ?thesis using run
    by (intro exI [where x = ?db] exI [where x = "bank_stage (bank_funds [] [] [] [sample_tip_row] [bound_intent] []) [bank_inbox] [?s] [] []"]) simp
qed

subsection \<open>Leases and deliveries\<close>

text \<open>C20: No event is processed twice at a time: while the row an owner took stands as he left it, no other
  process, worker or review, takes the same event before his lease has run out.\<close>

theorem taken_events_are_exclusive:
  assumes "sepay_constraints db" "claim_event cfg ports dw owner inboxId review db = Inr (db1, Taken c)"
    and "sepay_constraints db2" "ec_state c \<in> set (sd_processing db2)"
    and "claim_event cfg' ports' dw' owner' inboxId' review' db2 = Inr (db3, Taken c')" "dw_clock dw' 3 < dw_clock dw 5 + 60000"
  shows "ib_id (ec_inbox c') \<noteq> ib_id (ec_inbox c)"
proof -
  obtain s inbox connection where c: "c = \<lparr>ec_inbox = inbox, ec_connection = connection, ec_state = taken_state owner (dw_clock dw 5) (dw_clock dw 6) s\<rparr>"
      "event_source cfg inboxId db = Some (inbox, connection)" "processing_of inboxId db = Some s"
    by (rule claim_event_effect [OF assms(2,1)]) auto
  obtain s' inbox' connection' where c': "c' = \<lparr>ec_inbox = inbox', ec_connection = connection', ec_state = taken_state owner' (dw_clock dw' 5) (dw_clock dw' 6) s'\<rparr>"
      "event_source cfg' inboxId' db2 = Some (inbox', connection')" "processing_of inboxId' db2 = Some s'"
      "ps_status s' \<noteq> EventConfirmed" "\<not> not_available_now (review' \<noteq> None) s' (dw_clock dw' 3) (dw_clock dw' 4)"
    by (rule claim_event_effect [OF assms(5,3)]) auto
  have ids: "ib_id inbox = inboxId" "ib_id inbox' = inboxId'" "ps_inboxId s = inboxId"
    using c(2,3) c'(2) by (auto simp: event_source_def processing_of_def dest!: find_Some_in split: bind_splits)
  show ?thesis
  proof
    assume "ib_id (ec_inbox c') = ib_id (ec_inbox c)"
    then have "inboxId' = inboxId" using ids c(1) c'(1) by simp
    then have "ec_state c = s'" using processing_of_row(2) [OF assms(3) c'(3) assms(4)] ids c(1) by (simp add: taken_state_def)
    then have "event_leased (dw_clock dw' 3) s'" using assms(6) c(1) by (auto simp: event_leased_def taken_state_def)
    then show False using bank.claimable_free [of s' "review' \<noteq> None" "dw_clock dw' 3" "dw_clock dw' 4"] c'(4,5) by blast
  qed
qed

theorem taken_events_are_exclusive_witness:
  "\<exists>db db1 db3 c c'. claim_event settle_sample_cfg settle_sample_ports (bank_draw (CHR ''2'')) ''worker'' (order_uuid (CHR ''9'')) None db = Inr (db1, Taken c) \<and>
     claim_event settle_sample_cfg settle_sample_ports (bank_draw (CHR ''3'')) ''worker'' (order_uuid (CHR ''8'')) None db1 = Inr (db3, Taken c') \<and>
     ib_id (ec_inbox c') \<noteq> ib_id (ec_inbox c)"
proof -
  let ?a = "order_uuid (CHR ''9'')" and ?b = "order_uuid (CHR ''8'')" and ?f = "bank_funds [] [] [] [sample_tip_row] [bound_intent] []"
  let ?i = "bank_inbox\<lparr>ib_id := order_uuid (CHR ''8''), ib_providerEventId := ''43''\<rparr>"
  have new: "?b \<noteq> ?a" by (simp add: order_uuid_def)
  have "plain_digits 39 ''43''" by code_simp
  then have inbox: "inbox_ok [bank_inbox, ?i]" using bank_inbox_ok new by (simp add: inbox_ok_def inbox_check_def)
  have ok: "sepay_constraints (bank_stage ?f [bank_inbox, ?i] [s1, s2] [] [])"
    if "processing_check s1" "processing_check s2" "ps_inboxId s1 = ?a" "ps_inboxId s2 = ?b" for s1 s2
    using bound_constraints(3) inbox new not_sym [OF new] by (simp add: bank_stage_constraints sepay_references_ok_def decisions_ok_def bank_transactions_ok_def del: order_uuid_def) (use that new in simp)
  let ?db = "bank_stage ?f [bank_inbox, ?i] [bank_pending ?a, bank_pending ?b] [] []"
  let ?db1 = "bank_stage ?f [bank_inbox, ?i] [bank_taken ?a, bank_pending ?b] [] []"
  let ?db3 = "bank_stage ?f [bank_inbox, ?i] [bank_taken ?a, bank_taken ?b] [] []"
  note rows = ok [OF processing_checks(1) processing_checks(1)] ok [OF processing_checks(2) processing_checks(1)] ok [OF processing_checks(2) processing_checks(2)]
  have first: "claim_event settle_sample_cfg settle_sample_ports (bank_draw (CHR ''2'')) ''worker'' (ib_id bank_inbox) None ?db = Inr (?db1, Taken (bank_claim bank_inbox))"
    by (rule bank_claimed) (use rows(2) new in \<open>simp_all add: rows_update_def bank_taken_def [symmetric]\<close>)
  have second: "claim_event settle_sample_cfg settle_sample_ports (bank_draw (CHR ''3'')) ''worker'' (ib_id ?i) None ?db1 = Inr (?db3, Taken (bank_claim ?i))"
    by (rule bank_claimed) (use rows(3) new not_sym [OF new] in \<open>simp_all add: rows_update_def bank_taken_def [symmetric]\<close>)
  have "ib_id (ec_inbox (bank_claim ?i)) \<noteq> ib_id (ec_inbox (bank_claim bank_inbox))"
    by (rule taken_events_are_exclusive [OF _ first _ _ second]) (use rows in \<open>simp_all add: bank_claim_def\<close>)
  moreover have "ib_id ?i = ?b" by simp
  ultimately show ?thesis using first [unfolded bank_inbox_simps(1)] second by metis
qed

lemma authentic_body: "authenticateAndParseSePayWebhook pf p i = Inr d \<Longrightarrow> parseAuthenticatedSePayWebhook pf p (wi_rawBody i) = Inr d"
  by (auto simp: authenticateAndParseSePayWebhook_def split: if_splits option.splits)

lemma receive_Inr:
  assumes "receive cfg dw c seen db = Inr (db', out)"
  obtains connection revision d where "cx_id connection = ig_connectionId c"
    "parseAuthenticatedSePayWebhook (fc_platform (sf_fund cfg)) (sf_parseJson cfg) (ig_rawBody c) = Inr d"
    "receive_transaction cfg dw c connection revision d (dw_clock dw 0) db = Inr (db', out)"
proof -
  obtain connection revision secret d where s: "ingress_source cfg (ig_connectionId c) seen = Some (connection, revision)"
    and p: "authenticateAndParseSePayWebhook (fc_platform (sf_fund cfg)) (sf_parseJson cfg)
       \<lparr>wi_rawBody = ig_rawBody c, wi_contentType = ig_contentType c, wi_contentEncoding = ig_contentEncoding c, wi_timestamp = ig_timestamp c,
        wi_signature = ig_signature c, wi_secret = secret, wi_now = dw_clock dw 0\<rparr> = Inr d"
    and t: "receive_transaction cfg dw c connection revision d (dw_clock dw 0) db = Inr (db', out)"
    using assms unfolding receive_def Let_def by (simp only: result_iffs split_paired_Ex prod.case sepay_want_Inr within_Inr) blast
  have "cx_id connection = ig_connectionId c"
    using s by (auto simp: ingress_source_def connection_of_def dest!: find_Some_in split: bind_splits)
  then show thesis using that authentic_body [OF p] t by simp
qed

lemma transaction_stored:
  assumes "receive_transaction cfg dw c connection revision d at db = Inr (db1, out)" "out \<noteq> IngressConflict"
  obtains row where "row \<in> set (sd_inbox db1)" "ib_connectionId row = cx_id connection" "ib_providerEventId row = event_id_of d"
    "ib_payloadDigest row = event_digest d"
proof -
  obtain current where k: "cx_id current = cx_id connection"
    and rest: "(case List.find (\<lambda>i. ib_connectionId i = cx_id current \<and> ib_providerEventId i = event_id_of d) (sd_inbox db) of
       Some prior \<Rightarrow>
         if ib_payloadDigest prior = event_digest d then Inr (db, IngressDuplicate)
         else await (record_conflict prior (event_digest d) at db) (\<lambda>db1. Inr (db1, IngressConflict))
     | None \<Rightarrow>
         await (sepay_need (recent_events (cx_id current) (at - 60000) db < 120 \<and> all_events (cx_id current) db < 100000) ''rate_limited'') (\<lambda>_.
         await (store_event cfg dw c current revision d at db) (\<lambda>db1. Inr (db1, if is_accepted d then IngressAccepted else IngressIgnored)))) = Inr (db1, out)"
    using assms(1) unfolding receive_transaction_def by (auto simp: result_iffs dest: find_Some_in)
  show thesis
  proof (cases "List.find (\<lambda>i. ib_connectionId i = cx_id current \<and> ib_providerEventId i = event_id_of d) (sd_inbox db)")
    case None
    then have "store_event cfg dw c current revision d at db = Inr db1" using rest by (auto simp: result_iffs)
    then obtain db2 row where s: "sd_inbox db2 = sd_inbox db @ [row]" "ib_connectionId row = cx_id current" "ib_providerEventId row = event_id_of d"
        "ib_payloadDigest row = event_digest d" "books db2 db1" by (rule store_event_rows)
    then show thesis using that [of row] k books_tables(1) [OF s(5)] by simp
  next
    case (Some prior)
    then show thesis using rest assms(2) that [of prior] k find_Some_in [OF Some] by (auto simp: result_iffs split: if_splits)
  qed
qed

lemma known_event:
  assumes "receive_transaction cfg dw c connection revision d at db = Inr (db', out)" "sepay_constraints db"
    and "row \<in> set (sd_inbox db)" "ib_connectionId row = cx_id connection" "ib_providerEventId row = event_id_of d" "ib_payloadDigest row = event_digest d"
  shows "out = IngressDuplicate \<and> db' = db"
proof -
  obtain current where k: "cx_id current = cx_id connection"
    and rest: "(case List.find (\<lambda>i. ib_connectionId i = cx_id current \<and> ib_providerEventId i = event_id_of d) (sd_inbox db) of
       Some prior \<Rightarrow>
         if ib_payloadDigest prior = event_digest d then Inr (db, IngressDuplicate)
         else await (record_conflict prior (event_digest d) at db) (\<lambda>db1. Inr (db1, IngressConflict))
     | None \<Rightarrow>
         await (sepay_need (recent_events (cx_id current) (at - 60000) db < 120 \<and> all_events (cx_id current) db < 100000) ''rate_limited'') (\<lambda>_.
         await (store_event cfg dw c current revision d at db) (\<lambda>db1. Inr (db1, if is_accepted d then IngressAccepted else IngressIgnored)))) = Inr (db', out)"
    using assms(1) unfolding receive_transaction_def by (auto simp: result_iffs dest: find_Some_in)
  have keys: "distinct (map (\<lambda>r. (ib_connectionId r, ib_providerEventId r)) (sd_inbox db))" using assms(2) by (simp add: sepay_constraints_def inbox_ok_def)
  obtain prior where prior: "List.find (\<lambda>i. ib_connectionId i = cx_id current \<and> ib_providerEventId i = event_id_of d) (sd_inbox db) = Some prior"
    using assms(3-5) k by (cases "List.find (\<lambda>i. ib_connectionId i = cx_id current \<and> ib_providerEventId i = event_id_of d) (sd_inbox db)")
      (auto simp: find_None_iff)
  have "prior = row" using distinct_key_eq [OF keys _ assms(3)] find_Some_in [OF prior] assms(4,5) k by simp
  then show ?thesis using rest prior assms(6) by simp
qed

text \<open>C21: A webhook is received once: after a delivery that was not contradicted, the same body for the same
  connection, whenever and however often it is delivered again, is a duplicate and changes nothing.\<close>

theorem redelivery_changes_nothing:
  assumes "receive cfg dw c seen db = Inr (db1, out)" "out \<noteq> IngressConflict"
    and "sepay_constraints db2" "set (sd_inbox db1) \<subseteq> set (sd_inbox db2)"
    and "receive cfg dw' c' seen' db2 = Inr (db3, out')" "ig_connectionId c' = ig_connectionId c" "ig_rawBody c' = ig_rawBody c"
  shows "out' = IngressDuplicate \<and> db3 = db2"
proof -
  obtain connection revision d where r: "cx_id connection = ig_connectionId c"
      "parseAuthenticatedSePayWebhook (fc_platform (sf_fund cfg)) (sf_parseJson cfg) (ig_rawBody c) = Inr d"
      "receive_transaction cfg dw c connection revision d (dw_clock dw 0) db = Inr (db1, out)"
    by (rule receive_Inr [OF assms(1)])
  obtain connection' revision' d' where r': "cx_id connection' = ig_connectionId c'"
      "parseAuthenticatedSePayWebhook (fc_platform (sf_fund cfg)) (sf_parseJson cfg) (ig_rawBody c') = Inr d'"
      "receive_transaction cfg dw' c' connection' revision' d' (dw_clock dw' 0) db2 = Inr (db3, out')"
    by (rule receive_Inr [OF assms(5)])
  have d: "d' = d" using r(2) r'(2) assms(7) by simp
  obtain row where row: "row \<in> set (sd_inbox db1)" "ib_connectionId row = ig_connectionId c" "ib_providerEventId row = event_id_of d"
      "ib_payloadDigest row = event_digest d"
    using transaction_stored [OF r(3) assms(2)] r(1) by auto
  have "row \<in> set (sd_inbox db2)" using row(1) assms(4) by blast
  from known_event [OF r'(3) assms(3) this] show ?thesis using row r'(1) d assms(6) by simp
qed

theorem redelivery_changes_nothing_witness:
  "\<exists>db db1 db3. receive settle_sample_cfg (bank_draw (CHR ''9'')) bank_request db db = Inr (db1, IngressAccepted) \<and>
     receive settle_sample_cfg (bank_draw (CHR ''4'')) bank_request db1 db1 = Inr (db3, IngressDuplicate) \<and> db3 = db1"
proof -
  let ?k = "order_uuid (CHR ''9'')" and ?db = "bank_stage (bank_funds [] [] [] [sample_tip_row] [bound_intent] []) [] [] [] []"
  obtain e where e: "receive settle_sample_cfg (bank_draw (CHR ''9'')) bank_request ?db ?db =
     Inr (bank_stage (bank_funds [] [] ([] @ [e]) [sample_tip_row] [bound_intent] []) [bank_inbox] [bank_pending ?k] [] [], IngressAccepted)"
    using bank_received [of "[]" "[]" "[]"] by auto
  let ?db1 = "bank_stage (bank_funds [] [] ([] @ [e]) [sample_tip_row] [bound_intent] []) [bank_inbox] [bank_pending ?k] [] []"
  have again: "receive settle_sample_cfg (bank_draw (CHR ''4'')) bank_request ?db1 ?db1 = Inr (?db1, IngressDuplicate)" by (rule bank_redelivered)
  have "IngressDuplicate = IngressDuplicate \<and> ?db1 = ?db1"
    by (rule redelivery_changes_nothing [OF e _ _ _ again]) (use bank_open_constraints(4) in simp_all)
  then show ?thesis using e again by blast
qed

end
