(* ===== verification/Spec2Isabelle.thy ===== *)
theory Spec2Isabelle
  imports DepositProperties EmailHandoff SePay OrderProperties FundProperties SettlementProperties
begin

text \<open>
  Pawket is a marketplace on which buyers commission works from creators and pay them by bank transfer.
  The platform never holds the price of a work: it records requests, accepted terms, capacity, evidence of
  transfers, deliveries and deadlines, and it holds and refunds small deposits by which creators
  prove their receiving accounts. All state is in one SQL database; services in
  \<^verbatim>\<open>packages/\<close> run one transaction per command, a worker runs scans and deliveries, and
  events reach other parts through an outbox.

  This development translates the services that carry the money and the order rules. A table is a list
  of rows, a database a record of tables, and a transaction a function from the database to an
  error or to the new database and an answer: an error leaves the database as it was, as a rolled back
  transaction does. A statement that would violate a key, a foreign key or a check of the schema is the error
  of the whole transaction. Row locks and advisory locks make transactions on the same rows serial;
  interleaving is therefore any sequence of whole transactions, and the transition systems below range
  over all of them. Time, fresh identifiers and random bytes are arguments, drawn per call.

  \<^bold>\<open>Theories.\<close>

  \<^item> \<^verbatim>\<open>Prelude\<close>: results, string patterns, tables, and the interfaces used below: \<open>inv_system\<close> (a
    transition system with an invariant), \<open>simulation\<close> (a system that implements a simpler one) and
    \<open>leased_rows\<close> (rows claimed under a lease). Every locale is interpreted on the model of the code that
    provides it: the outbox, the e-mail handoffs, the bank events,
    the idempotency records, the deposit ledger, the orders and the payments.
  \<^item> \<^verbatim>\<open>JsonText\<close>: JSON documents, the text \<open>JSON.stringify\<close> prints of one and \<open>JSON.parse\<close>, which reads it back.
  \<^item> \<^verbatim>\<open>StructuredData\<close>, \<^verbatim>\<open>AdminAudit\<close>, \<^verbatim>\<open>Outbox\<close>, \<^verbatim>\<open>Idempotency\<close>, \<^verbatim>\<open>Crypto\<close>, \<^verbatim>\<open>Wire\<close>: what every command
    uses. The guard that keeps credentials out of stored structures and logs, with the way of a value through its JSON text
    (\<^verbatim>\<open>packages/security/src/structured-data.ts\<close>), the audit trail, the outbox and the records that make commands
    repeatable (\<^verbatim>\<open>packages/database/src/admin-audit-repository.ts\<close>, \<^verbatim>\<open>outbox-repository.ts\<close>,
    \<^verbatim>\<open>idempotency-repository.ts\<close> with their tables under \<^verbatim>\<open>schema/\<close>), keyed hashes and sealed fields
    (\<^verbatim>\<open>packages/security/src/hashing.ts\<close>, \<^verbatim>\<open>encryption-envelope.ts\<close>), and hexadecimal digests.
  \<^item> \<^verbatim>\<open>JsDate\<close>, \<^verbatim>\<open>BusinessCalendar\<close>: dates of the language and Vietnamese business days
    (\<^verbatim>\<open>packages/database/src/business-calendar-repository.ts\<close>): counting days, the window in which a refund is due.
  \<^item> \<^verbatim>\<open>PaymentTables\<close>, \<^verbatim>\<open>VerificationDeposit\<close>, \<^verbatim>\<open>RefundWindow\<close>: the tables of
    \<^verbatim>\<open>schema/payments.ts\<close>, every operation of \<^verbatim>\<open>packages/payments/src/verification-deposit-service.ts\<close> (issuing a
    challenge, reporting and reconciling a transfer, revealing a destination, recording refunds) and the worker of
    \<^verbatim>\<open>refund-window-worker.ts\<close>. \<^verbatim>\<open>DepositEffects\<close> states what each operation did to the tables,
    \<^verbatim>\<open>DepositInvariants\<close> the ledger as a transition system with its invariant, \<^verbatim>\<open>DepositReplay\<close> what a repeated
    command answers, \<^verbatim>\<open>DepositSample\<close> a concrete run for the witnesses, \<^verbatim>\<open>DepositProperties\<close> the properties.
  \<^item> \<^verbatim>\<open>EmailHandoff\<close>: the handoff of security mails to a provider
    (\<^verbatim>\<open>packages/identity/src/security-email-handoff.ts\<close>): sealing, leases, attempts, and the final states.
  \<^item> \<^verbatim>\<open>VietQr\<close>, \<^verbatim>\<open>SePay\<close>: payment instructions with their checksum on 32-bit words
    (\<^verbatim>\<open>packages/payments/src/vietqr.ts\<close>), and bank evidence: normalisation, webhook authentication and the matching
    decision (\<^verbatim>\<open>sepay-normalization.ts\<close>, \<^verbatim>\<open>sepay-webhook.ts\<close>, \<^verbatim>\<open>sepay-match.ts\<close>).
  \<^item> \<^verbatim>\<open>Commission\<close>: the rules of an order (\<^verbatim>\<open>packages/orders/src/contracts.ts\<close>, \<^verbatim>\<open>lifecycle.ts\<close>, \<^verbatim>\<open>policy.ts\<close>,
    \<^verbatim>\<open>fulfillment-timing.ts\<close>, \<^verbatim>\<open>private-content.ts\<close>): states and transitions, texts and terms, deadlines under pauses, sealed terms.
  \<^item> \<^verbatim>\<open>OrderTables\<close>, \<^verbatim>\<open>OrderPersistence\<close>, \<^verbatim>\<open>OrderService\<close>, \<^verbatim>\<open>OrderMaintenance\<close>: the tables of
    \<^verbatim>\<open>schema/commissions.ts\<close>; the writes shared by all services and the ports for payments and rulings
    (\<^verbatim>\<open>order-persistence.ts\<close>, \<^verbatim>\<open>payment-lifecycle.ts\<close>, \<^verbatim>\<open>resolution-port.ts\<close>, \<^verbatim>\<open>policy-repository.ts\<close>); the commands of
    \<^verbatim>\<open>order-service.ts\<close> and \<^verbatim>\<open>fulfillment-service.ts\<close> (request, quote, accept, close, claim a transfer, submit, respond); and
    the jobs of \<^verbatim>\<open>order-maintenance.ts\<close> and \<^verbatim>\<open>fulfillment-maintenance.ts\<close>. Other services are the ports of
    \<^verbatim>\<open>ports.ts\<close>: functions that may answer anything, refuse or fail.
    \<^verbatim>\<open>OrderEffects\<close> shows that every operation is a move of the view of one order, \<^verbatim>\<open>OrderInvariants\<close> proves the invariant
    per kind of move and the simulation of the transition table, \<^verbatim>\<open>OrderSample\<close> is the run of the witnesses and
    \<^verbatim>\<open>OrderProperties\<close> the properties. \<^verbatim>\<open>OrderQuiet\<close> shows that only the settlement port confirms an order.
  \<^item> \<^verbatim>\<open>FundTables\<close>, \<^verbatim>\<open>FundIntents\<close>, \<^verbatim>\<open>IntentPorts\<close>: the payments themselves:
    the tables of \<^verbatim>\<open>schema/tips.ts\<close>, the receiving account of a creator and the sealed destination of an
    intent (\<^verbatim>\<open>tip-receiving-account.ts\<close>, \<^verbatim>\<open>payment-account-fence.ts\<close>, \<^verbatim>\<open>tip-snapshot.ts\<close>, \<^verbatim>\<open>payment-purpose.ts\<close>), the
    writer of intents and the ports of orders and tips (\<^verbatim>\<open>payment-intent-write.ts\<close>, \<^verbatim>\<open>commission-intent-port.ts\<close>,
    \<^verbatim>\<open>commission-payment-facts.ts\<close>, \<^verbatim>\<open>tip-intent-port.ts\<close>, all under \<^verbatim>\<open>packages/payments/src/\<close>).
  \<^item> \<^verbatim>\<open>TipLifecycle\<close>, \<^verbatim>\<open>ManualPayments\<close>, \<^verbatim>\<open>TipService\<close>: a guest's text and the state of a tip
    (\<^verbatim>\<open>packages/tips/src/guest-content.ts\<close>, \<^verbatim>\<open>tip-lifecycle-port.ts\<close>, \<^verbatim>\<open>tip-access-port.ts\<close>), the expiry scan
    (\<^verbatim>\<open>tip-expiry.ts\<close>), confirmation by hand of tips and orders (\<^verbatim>\<open>manual-payment-service.ts\<close>,
    \<^verbatim>\<open>creator-tip-service.ts\<close>, \<^verbatim>\<open>creator-commission-service.ts\<close>), and the tip commands (\<^verbatim>\<open>create-tip.ts\<close>,
    \<^verbatim>\<open>tip-receipt-service.ts\<close>). \<^verbatim>\<open>FundLedger\<close> is the specification, a ledger of intents, tips, confirmations and confirmed
    orders with three kinds of moves and its invariant; \<^verbatim>\<open>FundSteps\<close> states what each operation does to the tables and
    that every step of the services is a sequence of moves. The locale \<open>settling\<close> is what a tip or an order owes
    the confirmation it completes. \<^verbatim>\<open>FundSnapshot\<close> shows that sealed destinations open again,
    \<^verbatim>\<open>FundSample\<close> is the run of the witnesses (a member tips, the creator confirms; or nobody pays in time) and
    \<^verbatim>\<open>FundProperties\<close> the properties of this lane and what the ledger's invariant says of a database.
  \<^item> \<^verbatim>\<open>SettlementTables\<close>, \<^verbatim>\<open>SepaySettlement\<close>, \<^verbatim>\<open>SepayReconciliation\<close>: the second lane of the payments, settlement by
    bank events: the tables of \<^verbatim>\<open>schema/sepay.ts\<close>, the inbox of signed webhooks (\<^verbatim>\<open>sepay-inbox-service.ts\<close>,
    \<^verbatim>\<open>sepay-service-support.ts\<close>), processing an event under a lease (\<^verbatim>\<open>sepay-reconciliation-service.ts\<close>) and the
    creator's decisions on it (\<^verbatim>\<open>sepay-review-service.ts\<close>). \<^verbatim>\<open>SettlementSteps\<close> states what each operation does to the
    tables and that the payments with both lanes refine the same ledger. A state there is a history of databases,
    because the evidence of an event is read outside any transaction, and an event that cannot be settled is put aside
    in a transaction of its own. \<^verbatim>\<open>SettlementSample\<close> is a run in which a
    webhook settles a tip, and \<^verbatim>\<open>SettlementProperties\<close> holds the properties of the payments with both lanes.

  \<^bold>\<open>What is shown.\<close> For the orders: order, reservation, terms and timeline agree in every reachable
  database; capacity holds; settled orders never change; every run refines the transition table; a
  payment confirmation is all or nothing; an expiry scan leaves nothing behind. For the deposits:
  a challenge is verified exactly when its transfer was received, a refund is sent exactly once, money is
  conserved, and a refund goes to the account the deposit came from. For the payments: money and product agree
  (an intent has its one confirmation exactly when it is confirmed, and its tip or order is then, and only then,
  paid, for that amount and at that time), nothing is completed without money, what is settled stays settled,
  every run refines the ledger, whichever lane settles; a confirmation by hand rests on fresh evidence and a recent sign-in of its own session and uses a bank transaction once, open
  intents are bounded, sealed destinations are read back, and the expiry scan closes what is
  longest overdue and nothing else. For the bank events: a
  transfer pays exactly once, an event settles only on the transaction the provider reported for it under a lease that
  still runs, what fails pays nothing and is tried again only by the worker with attempts left, an event is processed by one process at a time and received once. For the mails: at most three calls of
  the provider, exclusive leases, and an end after four deliveries. For the shared parts: the
  constraints of every table are invariants, leases exclude each other, replays answer as the first run did, sealed
  fields open to what was sealed. For the pure routines: the checksum equals the serial register and detects
  a changed character, payloads are read back, amounts and matches are characterised exactly, and the
  business-day loop terminates on the right day.

  \<^bold>\<open>Bounds and fuel.\<close> Recursions are structural or have a measure. Only the JSON reader takes fuel, the length of its
  text, which \<open>json_parse_stringify\<close> shows to be enough for every text that was printed. The day loops of the
  calendar stop where the dates of the language end, as the code does, and their result is proved to exist for
  the dates that can be written; the retry around an account change makes three attempts and an intent tries five references, the bounds in the code.
  Numbers of the language are \<^typ>\<open>int\<close>; the code rejects unsafe integers where they enter, and so does the model. The checksum
  works on 32-bit words as the bitwise operators of the language do.

  \<^bold>\<open>Parameters.\<close> Hash functions, ciphers, URL and lossless JSON parsing and the answers of other services
  are parameters; what a theorem needs of them is a hypothesis of the theorem, and its witness instantiates
  them. For the payments these are the catalogue's answer on who takes tips, the assurance of a session, the
  active buyers, the rate limiter and the order ports, with the checks the source makes of an answer. The account read
  before the locks may differ from the one read under them, which is what the fence is for. In the steps of the
  payments an order command comes with any sequence of calls on the payment port, which includes the ones it
  makes. For the bank events they are the provider's readback, the grant of the connection service and the text of a
  transaction; the database at each read outside a transaction is any one of the past. Strings are lists of bytes of the encoded text; Unicode normalisation beyond ASCII is not modelled,
  nor are JSON numbers with a fraction.

  \<^bold>\<open>Not modelled.\<close> The web application, the worker process, configuration, queues, object storage, metrics and
  image processing are input and output around third-party code. OpenID Connect, creator applications, the
  catalogue, trust and enforcement, notifications, files and threads, disputes, commission refunds, the editing of receiving
  accounts and the authorisation of bank connections are services of the same kind as those modelled; where an
  order, a deposit or a payment needs them they are parameters, or steps that may change their tables in any way the
  constraints allow. Read-only projections are left out throughout, and of the schema the checks on the shape and size
  of sealed envelopes and the triggers of the migrations.
\<close>

end
